(* ===== verification/Prelude.thy ===== *)
theory Prelude
  imports Main "HOL-Library.Sublist" "HOL-Library.List_Lexorder" "HOL-Library.Char_ord"
begin

text \<open>
  Shared vocabulary of the development.

  \<^item> Go strings are byte strings (\<open>string\<close>, a list of 8-bit characters); their order
    (\<open>List_Lexorder\<close> over \<open>Char_ord\<close>) is Go's bytewise order.
  \<^item> \<open>TrimSpace\<close> is \<open>strings.TrimSpace\<close> on byte strings: it removes the UTF-8 encodings of every
    rune for which \<open>unicode.IsSpace\<close> holds.
  \<^item> \<open>first_some\<close> is the search loop "return the first success, else go on".
  \<^item> An instant (\<open>time.Time\<close>) is the number of nanoseconds since Go's zero time, so \<open>IsZero\<close> is
    equality with 0 and \<open>Before\<close>, \<open>After\<close> and \<open>Equal\<close> are \<open><\<close>, \<open>>\<close> and \<open>=\<close>.
  The collections \<open>trim_rules\<close> and \<open>overlap_rules\<close> gather the facts the component proofs share.
\<close>

named_theorems trim_rules "facts about strings.TrimSpace"
named_theorems overlap_rules "facts about half-open time ranges"

section \<open>Results\<close>

text \<open>A fallible Go call is \<open>Inl\<close> of its error or \<open>Inr\<close> of its value.\<close>

definition is_ok :: "'e + 'a \<Rightarrow> bool" where
  "is_ok r = (case r of Inl _ \<Rightarrow> False | Inr _ \<Rightarrow> True)"

lemma is_ok_simps [simp]:
  "is_ok (Inr x)"
  "\<not> is_ok (Inl e)"
  by (simp_all add: is_ok_def)

lemma is_ok_iff: "is_ok r \<longleftrightarrow> (\<exists>x. r = Inr x)"
  by (cases r) simp_all

section \<open>Strings\<close>

definition space_encodings :: "string list" where
  "space_encodings =
     [[CHR 0x20], [CHR 0x09], [CHR 0x0A], [CHR 0x0B], [CHR 0x0C], [CHR 0x0D],
      [CHR 0xC2, CHR 0x85], [CHR 0xC2, CHR 0xA0], [CHR 0xE1, CHR 0x9A, CHR 0x80],
      [CHR 0xE2, CHR 0x80, CHR 0x80], [CHR 0xE2, CHR 0x80, CHR 0x81],
      [CHR 0xE2, CHR 0x80, CHR 0x82], [CHR 0xE2, CHR 0x80, CHR 0x83],
      [CHR 0xE2, CHR 0x80, CHR 0x84], [CHR 0xE2, CHR 0x80, CHR 0x85],
      [CHR 0xE2, CHR 0x80, CHR 0x86], [CHR 0xE2, CHR 0x80, CHR 0x87],
      [CHR 0xE2, CHR 0x80, CHR 0x88], [CHR 0xE2, CHR 0x80, CHR 0x89],
      [CHR 0xE2, CHR 0x80, CHR 0x8A], [CHR 0xE2, CHR 0x80, CHR 0xA8],
      [CHR 0xE2, CHR 0x80, CHR 0xA9], [CHR 0xE2, CHR 0x80, CHR 0xAF],
      [CHR 0xE2, CHR 0x81, CHR 0x9F], [CHR 0xE3, CHR 0x80, CHR 0x80]]"

definition leading_space :: "string \<Rightarrow> string option" where
  "leading_space s = find (\<lambda>e. prefix e s) space_encodings"

definition trailing_space :: "string \<Rightarrow> string option" where
  "trailing_space s = find (\<lambda>e. suffix e s) space_encodings"

lemma space_encodings_nonempty: "e \<in> set space_encodings \<Longrightarrow> e \<noteq> []"
  by (auto simp: space_encodings_def)

lemma leading_space_SomeD:
  "leading_space s = Some e \<Longrightarrow> e \<in> set space_encodings \<and> prefix e s"
  by (auto simp: leading_space_def find_Some_iff)

lemma trailing_space_SomeD:
  "trailing_space s = Some e \<Longrightarrow> e \<in> set space_encodings \<and> suffix e s"
  by (auto simp: trailing_space_def find_Some_iff)

lemma leading_space_None:
  "leading_space s = None \<longleftrightarrow> (\<forall>e \<in> set space_encodings. \<not> prefix e s)"
  by (auto simp: leading_space_def find_None_iff)

lemma trailing_space_None:
  "trailing_space s = None \<longleftrightarrow> (\<forall>e \<in> set space_encodings. \<not> suffix e s)"
  by (auto simp: trailing_space_def find_None_iff)

lemma leading_space_shrinks:
  assumes "leading_space s = Some e"
  shows "0 < length e" and "s \<noteq> []"
  using leading_space_SomeD [OF assms] space_encodings_nonempty by (auto simp: prefix_def)

lemma trailing_space_shrinks:
  assumes "trailing_space s = Some e"
  shows "0 < length e" and "s \<noteq> []"
  using trailing_space_SomeD [OF assms] space_encodings_nonempty by (auto simp: suffix_def)

function TrimLeft :: "string \<Rightarrow> string" where
  "TrimLeft s =
     (case leading_space s of None \<Rightarrow> s | Some e \<Rightarrow> TrimLeft (drop (length e) s))"
  by pat_completeness auto
termination
  by (relation "measure length") (auto dest: leading_space_shrinks intro!: diff_less)

function TrimRight :: "string \<Rightarrow> string" where
  "TrimRight s =
     (case trailing_space s of
        None \<Rightarrow> s | Some e \<Rightarrow> TrimRight (take (length s - length e) s))"
  by pat_completeness auto
termination
  by (relation "measure length") (auto dest: trailing_space_shrinks intro!: diff_less)

declare TrimLeft.simps [simp del] TrimRight.simps [simp del]

definition TrimSpace :: "string \<Rightarrow> string" where
  "TrimSpace s = TrimRight (TrimLeft s)"

lemma TrimLeft_no_leading: "leading_space (TrimLeft s) = None"
proof (induction s rule: TrimLeft.induct)
  case (1 s)
  then show ?case by (simp add: TrimLeft.simps [of s] split: option.split)
qed

lemma TrimRight_no_trailing: "trailing_space (TrimRight s) = None"
proof (induction s rule: TrimRight.induct)
  case (1 s)
  then show ?case by (simp add: TrimRight.simps [of s] split: option.split)
qed

lemma TrimRight_prefix: "prefix (TrimRight s) s"
proof (induction s rule: TrimRight.induct)
  case (1 s)
  show ?case
  proof (cases "trailing_space s")
    case None
    then show ?thesis by (simp add: TrimRight.simps [of s])
  next
    case (Some e)
    then have "prefix (TrimRight (take (length s - length e) s)) (take (length s - length e) s)"
      by (rule "1")
    then show ?thesis using Some take_is_prefix
      by (auto simp: TrimRight.simps [of s] intro: prefix_order.trans)
  qed
qed

lemma TrimSpace_no_leading: "leading_space (TrimSpace s) = None"
proof -
  have "\<not> prefix e (TrimSpace s)" if "e \<in> set space_encodings" for e
    using that TrimLeft_no_leading [of s] TrimRight_prefix [of "TrimLeft s"]
    unfolding TrimSpace_def leading_space_None by (meson prefix_order.trans)
  then show ?thesis by (simp add: leading_space_None)
qed

lemma TrimSpace_no_trailing: "trailing_space (TrimSpace s) = None"
  by (simp add: TrimSpace_def TrimRight_no_trailing)

lemma TrimSpace_fixed:
  "leading_space s = None \<Longrightarrow> trailing_space s = None \<Longrightarrow> TrimSpace s = s"
  by (simp add: TrimSpace_def TrimLeft.simps [of s] TrimRight.simps [of s])

lemma TrimSpace_idem [simp, trim_rules]: "TrimSpace (TrimSpace s) = TrimSpace s"
  by (rule TrimSpace_fixed [OF TrimSpace_no_leading TrimSpace_no_trailing])

lemma TrimSpace_Nil [simp, trim_rules]: "TrimSpace [] = []"
  by (rule TrimSpace_fixed) (auto simp: leading_space_None trailing_space_None
      dest: space_encodings_nonempty)

section \<open>Loops\<close>

text \<open>The loop that returns the first successful candidate and otherwise reports failure.\<close>

fun first_some :: "('a \<Rightarrow> 'b option) \<Rightarrow> 'a list \<Rightarrow> 'b option" where
  "first_some f [] = None"
| "first_some f (x # xs) = (case f x of Some y \<Rightarrow> Some y | None \<Rightarrow> first_some f xs)"

lemma first_some_None_iff: "first_some f xs = None \<longleftrightarrow> (\<forall>x \<in> set xs. f x = None)"
  by (induction xs) (auto split: option.splits)

lemma first_some_SomeD: "first_some f xs = Some y \<Longrightarrow> \<exists>x \<in> set xs. f x = Some y"
  by (induction xs) (auto split: option.splits)

lemma first_some_append:
  "first_some f (xs @ ys) = (case first_some f xs of Some y \<Rightarrow> Some y | None \<Rightarrow> first_some f ys)"
  by (induction xs) (auto split: option.splits)

text \<open>
  A Go map filled by a loop \<open>m[key(x)] = x\<close>: the last element with a key wins.
\<close>

definition index_by :: "('a \<Rightarrow> 'k) \<Rightarrow> 'a list \<Rightarrow> 'k \<Rightarrow> 'a option" where
  "index_by key xs k = find (\<lambda>x. key x = k) (rev xs)"

lemma index_by_SomeD: "index_by key xs k = Some x \<Longrightarrow> x \<in> set xs \<and> key x = k"
  by (auto simp: index_by_def find_Some_iff) (metis length_rev nth_mem set_rev)

lemma index_by_None_iff: "index_by key xs k = None \<longleftrightarrow> (\<forall>x \<in> set xs. key x \<noteq> k)"
  by (auto simp: index_by_def find_None_iff)

lemma index_by_snoc: "index_by key (xs @ [x]) = (index_by key xs)(key x \<mapsto> x)"
  by (auto simp: index_by_def fun_eq_iff)

section \<open>Time ranges\<close>

type_synonym gotime = int

definition rangesOverlap :: "gotime \<Rightarrow> gotime \<Rightarrow> gotime \<Rightarrow> gotime \<Rightarrow> bool" where
  "rangesOverlap leftStart leftEnd rightStart rightEnd
     \<longleftrightarrow> leftStart < rightEnd \<and> rightStart < leftEnd"

lemma rangesOverlap_sym [overlap_rules]:
  "rangesOverlap a b c d \<longleftrightarrow> rangesOverlap c d a b"
  by (auto simp: rangesOverlap_def)

lemma rangesOverlap_iff_common [overlap_rules]:
  assumes "a < b" and "c < d"
  shows "rangesOverlap a b c d \<longleftrightarrow> (\<exists>t. a \<le> t \<and> t < b \<and> c \<le> t \<and> t < d)"
proof
  assume "rangesOverlap a b c d"
  with assms have "a \<le> max a c \<and> max a c < b \<and> c \<le> max a c \<and> max a c < d"
    by (auto simp: rangesOverlap_def)
  then show "\<exists>t. a \<le> t \<and> t < b \<and> c \<le> t \<and> t < d" by blast
qed (auto simp: rangesOverlap_def)

section \<open>Searching lists of rows\<close>

lemma find_unique:
  assumes "distinct (map f xs)" "x \<in> set xs" "P x" "\<And>y. P y \<Longrightarrow> f y = f x"
  shows "find P xs = Some x"
  using assms(1,2)
proof (induction xs)
  case (Cons a xs)
  show ?case
  proof (cases "P a")
    case True
    with assms(4) have "f a = f x" by blast
    with Cons.prems have "a = x" by auto
    with True show ?thesis by simp
  next
    case False
    with Cons assms(3) show ?thesis by auto
  qed
qed simp

lemma find_SomeD: "find P xs = Some x \<Longrightarrow> x \<in> set xs \<and> P x"
  by (induction xs) (auto split: if_splits)

lemma find_only:
  assumes "x \<in> set xs" "P x" "\<And>y. y \<in> set xs \<Longrightarrow> P y \<Longrightarrow> y = x"
  shows "find P xs = Some x"
  using assms
proof (induction xs)
  case (Cons a xs)
  show ?case
  proof (cases "P a")
    case True
    with Cons.prems(3) [of a] show ?thesis by simp
  next
    case False
    then have "x \<in> set xs" using Cons.prems(1,2) by auto
    then have "find P xs = Some x"
      using Cons.IH Cons.prems(2,3) by (meson list.set_intros(2))
    with False show ?thesis by simp
  qed
qed simp

lemma find_append: "find P (xs @ ys) = (case find P xs of None \<Rightarrow> find P ys | Some x \<Rightarrow> Some x)"
  by (induction xs) auto

lemma find_map:
  assumes "\<And>x. P (f x) = P x"
  shows "find P (map f xs) = map_option f (find P xs)"
  using assms by (induction xs) auto

lemma map_sum_InrD: "map_sum id f x = Inr y \<Longrightarrow> \<exists>z. x = Inr z \<and> y = f z"
  by (cases x) auto

lemma sorted_wrt_filter_nth:
  assumes "sorted_wrt R (filter P xs)" "i < j" "j < length xs" "P (xs ! i)" "P (xs ! j)"
  shows "R (xs ! i) (xs ! j)"
proof -
  have split: "xs = take j xs @ xs ! j # drop (Suc j) xs" using assms(3) by (simp add: id_take_nth_drop)
  have "xs ! i \<in> set (filter P (take j xs))" using assms(2-4) by (auto simp: in_set_conv_nth)
  moreover have "xs ! j \<in> set (filter P (xs ! j # drop (Suc j) xs))" using assms(5) by simp
  moreover have "sorted_wrt R (filter P (take j xs) @ filter P (xs ! j # drop (Suc j) xs))"
    using assms(1) by (subst (asm) split) simp
  ultimately show ?thesis unfolding sorted_wrt_append by blast
qed

end
