(* ===== verification/Booking_Types.thy ===== *)
theory Booking_Types
  imports Prelude
begin

text \<open>
  The shared vocabulary of \<open>modules/booking\<close>: its status, outcome and authority constants
  (\<open>types.go\<close>), the request and result structs the scheduling code exchanges with it, and the
  error values a scheduling call can return.

  A Go string type keeps the type \<open>string\<close>, so a value outside the named constants is a value
  of the model too. A Go pointer is an \<open>option\<close>, a slice a list, an \<open>int\<close> or \<open>int64\<close> an \<open>int\<close>.
  The collection \<open>go_consts\<close> holds the defining equations of the constants.
  \<open>errors_Is\<close> follows the \<open>Unwrap\<close> chain of the two wrapping error types, as \<open>errors.Is\<close> does.
\<close>

named_theorems go_consts "defining equations of the source's string constants"

section \<open>Constants\<close>

definition SourceOwnerDashboard :: string where [go_consts]: "SourceOwnerDashboard = ''owner_dashboard''"
definition SourceAIConversationSimulator :: string where [go_consts]: "SourceAIConversationSimulator = ''ai_conversation_simulator''"
definition SourceAIVoiceCall :: string where [go_consts]: "SourceAIVoiceCall = ''ai_voice_call''"
definition StatusPOSPending :: string where [go_consts]: "StatusPOSPending = ''pos_pending''"
definition StatusProviderPending :: string where [go_consts]: "StatusProviderPending = ''provider_pending''"
definition StatusConfirmed :: string where [go_consts]: "StatusConfirmed = ''confirmed''"
definition StatusFallbackPending :: string where [go_consts]: "StatusFallbackPending = ''fallback_pending''"
definition StatusRescheduled :: string where [go_consts]: "StatusRescheduled = ''rescheduled''"
definition StatusCancelled :: string where [go_consts]: "StatusCancelled = ''cancelled''"
definition POSSyncStatusSynced :: string where [go_consts]: "POSSyncStatusSynced = ''synced''"
definition BookingActionBook :: string where [go_consts]: "BookingActionBook = ''book''"
definition BookingActionReschedule :: string where [go_consts]: "BookingActionReschedule = ''reschedule''"
definition BookingActionCancel :: string where [go_consts]: "BookingActionCancel = ''cancel''"
definition ProviderOutcomeNotStarted :: string where [go_consts]: "ProviderOutcomeNotStarted = ''not_started''"
definition ProviderOutcomeInFlight :: string where [go_consts]: "ProviderOutcomeInFlight = ''in_flight''"
definition ProviderOutcomeSucceeded :: string where [go_consts]: "ProviderOutcomeSucceeded = ''succeeded''"
definition ProviderOutcomeFailed :: string where [go_consts]: "ProviderOutcomeFailed = ''failed''"
definition ProviderOutcomeUnknown :: string where [go_consts]: "ProviderOutcomeUnknown = ''unknown''"
definition RetryPolicyNone :: string where [go_consts]: "RetryPolicyNone = ''none''"
definition RetryPolicySafe :: string where [go_consts]: "RetryPolicySafe = ''safe''"
definition RetryPolicyBlocked :: string where [go_consts]: "RetryPolicyBlocked = ''blocked''"
definition ReconciliationNotRequired :: string where [go_consts]: "ReconciliationNotRequired = ''not_required''"
definition ReconciliationRequired :: string where [go_consts]: "ReconciliationRequired = ''required''"
definition ReconciliationResolved :: string where [go_consts]: "ReconciliationResolved = ''resolved''"
definition StaffSelectionSpecific :: string where [go_consts]: "StaffSelectionSpecific = ''specific''"
definition StaffSelectionAnyone :: string where [go_consts]: "StaffSelectionAnyone = ''anyone''"
definition SchedulingAuthorityOwnerManual :: string where [go_consts]: "SchedulingAuthorityOwnerManual = ''owner_manual''"
definition SchedulingAuthorityManleAICalendar :: string where [go_consts]: "SchedulingAuthorityManleAICalendar = ''manleai_calendar''"
definition SchedulingAuthorityExternalProvider :: string where [go_consts]: "SchedulingAuthorityExternalProvider = ''external_provider''"

section \<open>Errors\<close>

text \<open>
  The error values of \<open>modules/booking\<close>, \<open>modules/scheduling\<close> and
  \<open>modules/scheduling_manleai_calendar\<close>. \<open>StoreError\<close> stands for any error of the database or
  another collaborator that the code passes on unchanged.
\<close>

datatype error =
    ErrValidation
  | ErrProviderUnavailable
  | ErrOperationConflict
  | ErrOperationInProgress
  | ErrAvailabilityQuoteRequired
  | ErrAvailabilityQuoteStale
  | ErrSchedulingAuthorityNotReady
  | AuthorityNotReadyError string
  | ErrAvailabilityConflictState
  | ErrInvalidSchedulingAction
  | ErrInvalidSchedulingResult
  | ErrSchedulingRequestVersion
  | ErrSchedulingRequestTerminal
  | ErrSchedulingRequestTransition
  | ErrConversationSchedulingDisabled
  | ErrNotFound
  | ErrCalendarValidation
  | ErrCalendarNotFound
  | ErrCalendarConfigRequired
  | ErrCalendarVersionConflict
  | ErrCalendarActionConflict
  | ErrCalendarNotReady
  | StoreError string

fun error_unwrap :: "error \<Rightarrow> error option" where
  "error_unwrap (AuthorityNotReadyError _) = Some ErrSchedulingAuthorityNotReady"
| "error_unwrap ErrAvailabilityConflictState = Some ErrAvailabilityQuoteStale"
| "error_unwrap _ = None"

definition errors_Is :: "error \<Rightarrow> error \<Rightarrow> bool" where
  "errors_Is e target \<longleftrightarrow> e = target \<or> error_unwrap e = Some target"

text \<open>
  A call through an interface into the world \<open>'w\<close> (the database and the other collaborators): it
  returns an error or a value, and the state it leaves behind.
\<close>

type_synonym ('w, 'a) call = "'w \<Rightarrow> (error + 'a) \<times> 'w"

section \<open>Requests and results\<close>

record BookingSegmentRequest =
  bsr_ServiceID :: string
  bsr_StaffID :: string
  bsr_StaffSelectionMode :: string
  bsr_GuestReference :: string
  bsr_Quantity :: int

record CreateBookingRequest =
  cbr_OperationKey :: string
  cbr_RetryOfAttemptID :: string
  cbr_AvailabilityQuoteID :: string
  cbr_SlotFingerprint :: string
  cbr_Source :: string
  cbr_CustomerName :: string
  cbr_CustomerPhone :: string
  cbr_CustomerEmail :: string
  cbr_ServiceID :: string
  cbr_StaffID :: string
  cbr_StaffSelectionMode :: string
  cbr_Segments :: "BookingSegmentRequest list"
  cbr_StartTime :: gotime
  cbr_Notes :: string

record RescheduleRequest =
  rr_OperationKey :: string
  rr_RetryOfAttemptID :: string
  rr_AvailabilityQuoteID :: string
  rr_SlotFingerprint :: string
  rr_StartTime :: gotime
  rr_StaffID :: string
  rr_Notes :: string
  rr_Source :: string

record CancelRequest =
  cr_OperationKey :: string
  cr_RetryOfAttemptID :: string
  cr_Reason :: string
  cr_Source :: string

record AvailabilityRequest =
  ar_TargetAppointmentID :: string
  ar_RetryOfAttemptID :: string
  ar_ServiceID :: string
  ar_StaffID :: string
  ar_StaffSelectionMode :: string
  ar_Segments :: "BookingSegmentRequest list"
  ar_PartySize :: int
  ar_PreferredDate :: string
  ar_Limit :: int

record AvailabilityResourceAllocation =
  ara_ResourcePoolID :: string
  ara_ResourceName :: string
  ara_UnitsAllocated :: int

record AvailabilitySegment =
  aseg_ServiceID :: string
  aseg_ServiceName :: string
  aseg_StaffID :: string
  aseg_StaffName :: string
  aseg_StaffSelectionMode :: string
  aseg_GuestReference :: string
  aseg_Quantity :: int
  aseg_DurationMinutes :: int
  aseg_ScheduledStartTime :: gotime
  aseg_ScheduledEndTime :: gotime
  aseg_OccupiedStartTime :: gotime
  aseg_OccupiedEndTime :: gotime
  aseg_BufferBeforeMinutes :: int
  aseg_BufferAfterMinutes :: int
  aseg_ResourceAllocations :: "AvailabilityResourceAllocation list"

record AvailabilitySlot =
  aslot_Fingerprint :: string
  aslot_StartTime :: gotime
  aslot_EndTime :: gotime
  aslot_StaffID :: string
  aslot_StaffName :: string
  aslot_StaffSelectionMode :: string
  aslot_Segments :: "AvailabilitySegment list"

record AvailabilityResult =
  ares_QuoteID :: string
  ares_RequestFingerprint :: string
  ares_ExpiresAt :: "gotime option"
  ares_TargetAuthorityAppointmentVersion :: int
  ares_ServiceID :: string
  ares_ServiceName :: string
  ares_StaffID :: string
  ares_StaffName :: string
  ares_StaffSelectionMode :: string
  ares_Segments :: "AvailabilitySegment list"
  ares_PreferredDate :: string
  ares_DurationMinutes :: int
  ares_Timezone :: string
  ares_Slots :: "AvailabilitySlot list"

record BookingSegmentSnapshot =
  bss_AppointmentServiceID :: string
  bss_SchedulingAuthority :: string
  bss_AuthorityProvider :: string
  bss_AuthorityServiceID :: string
  bss_AuthorityServiceVersion :: int
  bss_AuthorityStaffID :: string
  bss_ServiceID :: string
  bss_POSServiceID :: string
  bss_POSServiceVersion :: int
  bss_ServiceName :: string
  bss_StaffID :: string
  bss_POSStaffID :: string
  bss_StaffName :: string
  bss_StaffSelectionMode :: string
  bss_GuestReference :: string
  bss_Quantity :: int
  bss_PlanVersion :: int
  bss_DurationMinutes :: int
  bss_ScheduledStartTime :: "gotime option"
  bss_ScheduledEndTime :: "gotime option"
  bss_OccupiedStartTime :: "gotime option"
  bss_OccupiedEndTime :: "gotime option"
  bss_BufferBeforeMinutes :: "int option"
  bss_BufferAfterMinutes :: "int option"
  bss_ResourceAllocations :: "AvailabilityResourceAllocation list"
  bss_SortOrder :: int

record Appointment =
  appt_ID :: string
  appt_SalonID :: string
  appt_BookingAttemptID :: string
  appt_SchedulingAuthority :: string
  appt_AuthorityProvider :: string
  appt_AuthorityAppointmentID :: string
  appt_AuthorityAppointmentVersion :: int
  appt_AuthorityCustomerID :: string
  appt_POSProvider :: string
  appt_POSAppointmentID :: string
  appt_POSAppointmentVersion :: int
  appt_POSCustomerID :: string
  appt_Status :: string
  appt_PartySize :: int
  appt_CustomerName :: string
  appt_CustomerPhone :: string
  appt_CustomerEmail :: string
  appt_ServiceID :: string
  appt_StaffID :: string
  appt_StaffSelectionMode :: string
  appt_Segments :: "BookingSegmentSnapshot list"
  appt_StartTime :: gotime
  appt_EndTime :: gotime
  appt_Notes :: string
  appt_POSSyncStatus :: string
  appt_LastPOSSyncedAt :: "gotime option"
  appt_POSSyncError :: string
  appt_SyncWarning :: string
  appt_CanEdit :: bool
  appt_CanDelete :: bool
  appt_ConfirmedAt :: "gotime option"
  appt_ConfirmedByUserID :: string
  appt_ConfirmationSource :: string
  appt_CreatedAt :: gotime
  appt_UpdatedAt :: gotime

record ProviderFence =
  pf_LocationID :: string
  pf_SnapshotGeneration :: int

record BookingAttempt =
  ba_ID :: string
  ba_SalonID :: string
  ba_SchedulingAuthority :: string
  ba_AuthorityProvider :: string
  ba_AuthorityAppointmentID :: string
  ba_AuthorityAppointmentVersion :: int
  ba_TargetAuthorityAppointmentVersion :: int
  ba_AuthorityIdempotencyKey :: string
  ba_AuthorityLocationID :: string
  ba_AuthoritySnapshotGeneration :: int
  ba_Source :: string
  ba_Status :: string
  ba_POSProvider :: string
  ba_POSBookingID :: string
  ba_POSBookingVersion :: int
  ba_TargetPOSBookingVersion :: int
  ba_POSIdempotencyKey :: string
  ba_OperationKey :: string
  ba_RequestFingerprint :: string
  ba_RetryOfAttemptID :: string
  ba_SupersededByAttemptID :: string
  ba_RetrySequence :: int
  ba_SupersededAt :: "gotime option"
  ba_AvailabilityQuoteID :: string
  ba_SlotFingerprint :: string
  ba_ProviderFence :: ProviderFence
  ba_OperationType :: string
  ba_ProcessingToken :: string
  ba_ProcessingLeaseEnds :: "gotime option"
  ba_ProviderOutcome :: string
  ba_RetryPolicy :: string
  ba_Reconciliation :: string
  ba_ReconciliationResolution :: string
  ba_ReconciliationResolvedAt :: "gotime option"
  ba_CustomerName :: string
  ba_CustomerPhone :: string
  ba_CustomerEmail :: string
  ba_ServiceID :: string
  ba_StaffID :: string
  ba_StaffSelectionMode :: string
  ba_Segments :: "BookingSegmentSnapshot list"
  ba_RequestedStartTime :: gotime
  ba_RequestedEndTime :: gotime
  ba_Notes :: string
  ba_ErrorCode :: string
  ba_ErrorMessage :: string
  ba_BookingAction :: string
  ba_TargetAppointmentID :: string
  ba_NotificationType :: string
  ba_NotificationStatus :: string
  ba_SyncWarning :: string
  ba_CanRetry :: bool
  ba_RetryBlockedReason :: string
  ba_retryPrerequisitesChecked :: bool
  ba_retryPrerequisitesCurrent :: bool
  ba_retryPrerequisitesReason :: string
  ba_CreatedAt :: gotime
  ba_UpdatedAt :: gotime
  ba_Appointment :: "Appointment option"

end
