(* ===== verification/Scheduling_Types.thy ===== *)
theory Scheduling_Types
  imports Booking_Types
begin

text \<open>
  The data model of \<open>modules/scheduling\<close> (\<open>types.go\<close>, \<open>target_readiness.go\<close>) and the
  authority by booking-mode matrix that lives there.

  The lemmas characterise the matrix completely: which policies are accepted, which behaviour an
  accepted policy has, and that every rejected policy names its authority in the error.
\<close>

section \<open>Constants\<close>

definition AvailabilityKindVerifiedSlots :: string where [go_consts]:
  "AvailabilityKindVerifiedSlots = ''verified_slots''"
definition AvailabilityKindRequestOnly :: string where [go_consts]:
  "AvailabilityKindRequestOnly = ''request_only''"
definition ActionKindConfirmedAppointment :: string where [go_consts]:
  "ActionKindConfirmedAppointment = ''confirmed_appointment''"
definition ActionKindPendingOwnerReview :: string where [go_consts]:
  "ActionKindPendingOwnerReview = ''pending_owner_review''"
definition ActionKindExternalFallbackPending :: string where [go_consts]:
  "ActionKindExternalFallbackPending = ''external_fallback_pending''"
definition OperationKindBook :: string where [go_consts]:
  "OperationKindBook = ''book''"
definition OperationKindReschedule :: string where [go_consts]:
  "OperationKindReschedule = ''reschedule''"
definition OperationKindCancel :: string where [go_consts]:
  "OperationKindCancel = ''cancel''"
definition BookingModeConfirmedBooking :: string where [go_consts]:
  "BookingModeConfirmedBooking = ''confirmed_booking''"
definition BookingModePendingApproval :: string where [go_consts]:
  "BookingModePendingApproval = ''pending_approval''"
definition BookingModeDisabled :: string where [go_consts]:
  "BookingModeDisabled = ''disabled''"
definition ConversationSchedulingBehaviorOwnerReview :: string where [go_consts]:
  "ConversationSchedulingBehaviorOwnerReview = ''owner_review''"
definition ConversationSchedulingBehaviorAutomaticInternalCommit :: string where [go_consts]:
  "ConversationSchedulingBehaviorAutomaticInternalCommit = ''automatic_internal_commit''"
definition ConversationSchedulingBehaviorAutomaticExternalBooking :: string where [go_consts]:
  "ConversationSchedulingBehaviorAutomaticExternalBooking = ''automatic_external_booking''"
definition ConversationSchedulingBehaviorDisabled :: string where [go_consts]:
  "ConversationSchedulingBehaviorDisabled = ''disabled''"
definition SchedulingRequestStatusPending :: string where [go_consts]:
  "SchedulingRequestStatusPending = ''pending''"
definition SchedulingRequestStatusContacted :: string where [go_consts]:
  "SchedulingRequestStatusContacted = ''contacted''"
definition SchedulingRequestStatusResolved :: string where [go_consts]:
  "SchedulingRequestStatusResolved = ''resolved''"
definition SchedulingRequestStatusDismissed :: string where [go_consts]:
  "SchedulingRequestStatusDismissed = ''dismissed''"
definition SchedulingRequestEventCreated :: string where [go_consts]:
  "SchedulingRequestEventCreated = ''request_created''"
definition SchedulingRequestEventStatusChanged :: string where [go_consts]:
  "SchedulingRequestEventStatusChanged = ''status_changed''"

section \<open>Structs\<close>

record ConversationPolicyFence =
  cpf_BookingMode :: string
  cpf_SchedulingAuthority :: string

record PersistedOperationOrigin =
  poo_SchedulingAuthority :: string
  poo_SchedulingRequest :: bool
  poo_RequestTargetAuthority :: string
  poo_RequestTargetAuthorityPresent :: bool

record ActionSegment =
  seg_ServiceID :: string
  seg_StaffID :: string
  seg_StaffSelectionMode :: string
  seg_GuestReference :: string
  seg_Quantity :: int
  seg_RequestedStartTime :: gotime
  seg_RequestedEndTime :: gotime

record ActionRequest =
  req_OperationType :: string
  req_OperationKey :: string
  req_RetryOfAttemptID :: string
  req_AvailabilityQuoteID :: string
  req_SlotFingerprint :: string
  req_Source :: string
  req_CallSessionID :: string
  req_CustomerName :: string
  req_CustomerPhone :: string
  req_CustomerEmail :: string
  req_Segments :: "ActionSegment list"
  req_RequestedStartTime :: gotime
  req_RequestedEndTime :: gotime
  req_RequestedTimezone :: string
  req_PartySize :: int
  req_Notes :: string
  req_TargetAppointmentID :: string
  req_TargetAuthority :: string
  req_ExpectedTargetAuthorityAppointmentVersion :: int
  req_TargetDescription :: string

record SchedulingAvailabilityResult =
  sres_Kind :: string
  sres_SchedulingAuthority :: string
  sres_TargetAuthorityAppointmentVersion :: int
  sres_VerifiedSlots :: "AvailabilityResult option"

record ConfirmedResourceAllocation =
  cra_ResourcePoolID :: string
  cra_ResourceName :: string
  cra_UnitsAllocated :: int

record ConfirmedAppointmentSegment =
  cas_AppointmentServiceID :: string
  cas_GuestReference :: string
  cas_ServiceID :: string
  cas_StaffID :: string
  cas_StaffSelectionMode :: string
  cas_Quantity :: int
  cas_ScheduledStartTime :: gotime
  cas_ScheduledEndTime :: gotime
  cas_OccupiedStartTime :: gotime
  cas_OccupiedEndTime :: gotime
  cas_BufferBeforeMinutes :: int
  cas_BufferAfterMinutes :: int
  cas_ResourceAllocations :: "ConfirmedResourceAllocation list"

record ConfirmedAppointmentResult =
  car_AppointmentID :: string
  car_BookingAttemptID :: string
  car_AppointmentStatus :: string
  car_ActiveChildCount :: int
  car_ExternalAttemptID :: string
  car_Appointment :: "Appointment option"
  car_ExternalAttempt :: "BookingAttempt option"
  car_Children :: "ConfirmedAppointmentSegment list"

record SchedulingRequestSegment =
  srs_ID :: string
  srs_SchedulingRequestID :: string
  srs_ServiceID :: string
  srs_ServiceName :: string
  srs_StaffID :: string
  srs_StaffName :: string
  srs_StaffSelectionMode :: string
  srs_GuestReference :: string
  srs_Quantity :: int
  srs_DurationMinutes :: int
  srs_RequestedStartTime :: "gotime option"
  srs_RequestedEndTime :: "gotime option"
  srs_SortOrder :: int
  srs_Redacted :: bool
  srs_RedactedAt :: "gotime option"
  srs_RedactionVersion :: int
  srs_CreatedAt :: gotime

record SchedulingRequestEvent =
  sre_ID :: string
  sre_SchedulingRequestID :: string
  sre_ActionKey :: string
  sre_EventType :: string
  sre_RequestVersion :: int
  sre_ActorUserID :: string
  sre_Payload :: string
  sre_Redacted :: bool
  sre_RedactedAt :: "gotime option"
  sre_RedactionVersion :: int
  sre_CreatedAt :: gotime

record SchedulingRequest =
  sr_ID :: string
  sr_SalonID :: string
  sr_SchedulingAuthority :: string
  sr_OperationKey :: string
  sr_OperationType :: string
  sr_Status :: string
  sr_Version :: int
  sr_Source :: string
  sr_CallSessionID :: string
  sr_TargetAppointmentID :: string
  sr_TargetAuthority :: string
  sr_TargetDescription :: string
  sr_CustomerName :: string
  sr_CustomerPhone :: string
  sr_CustomerEmail :: string
  sr_RequestedStartTime :: "gotime option"
  sr_RequestedEndTime :: "gotime option"
  sr_RequestedTimezone :: string
  sr_PartySize :: int
  sr_Notes :: string
  sr_ResolutionReason :: string
  sr_Redacted :: bool
  sr_RedactedAt :: "gotime option"
  sr_RedactionVersion :: int
  sr_Segments :: "SchedulingRequestSegment list"
  sr_Events :: "SchedulingRequestEvent list"
  sr_ContactedAt :: "gotime option"
  sr_ResolvedAt :: "gotime option"
  sr_DismissedAt :: "gotime option"
  sr_CreatedAt :: gotime
  sr_UpdatedAt :: gotime

record PendingOwnerReviewResult =
  por_SchedulingRequestID :: string
  por_Status :: string
  por_Version :: int
  por_Request :: "SchedulingRequest option"

record ExternalFallbackPendingResult =
  efp_ExternalAttemptID :: string
  efp_ExternalAttempt :: "BookingAttempt option"

record ActionResult =
  act_Kind :: string
  act_OperationType :: string
  act_SchedulingAuthority :: string
  act_TargetAuthorityAppointmentVersion :: int
  act_AuthorityAppointmentVersion :: int
  act_Replayed :: bool
  act_ConfirmedAppointment :: "ConfirmedAppointmentResult option"
  act_PendingOwnerReview :: "PendingOwnerReviewResult option"
  act_ExternalFallbackPending :: "ExternalFallbackPendingResult option"

record TransitionSchedulingRequest =
  tsr_ActionKey :: string
  tsr_ExpectedVersion :: int
  tsr_Status :: string
  tsr_ResolutionReason :: string
  tsr_Note :: string

record TargetReadinessCheck =
  trc_Code :: string
  trc_Ready :: bool
  trc_Scope :: string
  trc_EntityID :: string

record TargetReadinessBlocker =
  trb_Code :: string
  trb_Scope :: string
  trb_EntityID :: string
  trb_Message :: string

record TargetReadiness =
  tr_TargetSchedulingAuthority :: string
  tr_Ready :: bool
  tr_AvailabilityReady :: bool
  tr_ExecutionReady :: bool
  tr_AuthorityVersion :: int
  tr_ReadinessEvidenceVersion :: int
  tr_ReadinessEvidenceFingerprint :: string
  tr_ConfigVersion :: int
  tr_EligibleServiceCount :: int
  tr_ServiceCount :: int
  tr_StaffCount :: int
  tr_BusinessHourPeriodCount :: int
  tr_Checks :: "TargetReadinessCheck list"
  tr_Blockers :: "TargetReadinessBlocker list"
  tr_AvailabilityBlockers :: "TargetReadinessBlocker list"
  tr_ExecutionBlockers :: "TargetReadinessBlocker list"

section \<open>The authority and booking-mode matrix\<close>

definition isKnownSchedulingAuthority :: "string \<Rightarrow> bool" where
  "isKnownSchedulingAuthority authority \<longleftrightarrow>
     authority = SchedulingAuthorityOwnerManual \<or>
     authority = SchedulingAuthorityManleAICalendar \<or>
     authority = SchedulingAuthorityExternalProvider"

definition AllowedConversationBookingModes :: "string \<Rightarrow> error + string list" where
  "AllowedConversationBookingModes authority =
     (if \<not> isKnownSchedulingAuthority authority then Inl (AuthorityNotReadyError authority)
      else
        let modes = [BookingModePendingApproval];
            modes = (if authority \<noteq> SchedulingAuthorityOwnerManual
                     then modes @ [BookingModeConfirmedBooking] else modes)
        in Inr (modes @ [BookingModeDisabled]))"

definition ConversationBehavior :: "ConversationPolicyFence \<Rightarrow> error + string" where
  "ConversationBehavior policy =
     (case AllowedConversationBookingModes (cpf_SchedulingAuthority policy) of
        Inl err \<Rightarrow> Inl err
      | Inr allowed \<Rightarrow>
          if cpf_BookingMode policy \<notin> set allowed
          then Inl (AuthorityNotReadyError (cpf_SchedulingAuthority policy))
          else if cpf_BookingMode policy = BookingModeDisabled
          then Inr ConversationSchedulingBehaviorDisabled
          else if cpf_BookingMode policy = BookingModePendingApproval
          then Inr ConversationSchedulingBehaviorOwnerReview
          else if cpf_BookingMode policy = BookingModeConfirmedBooking
          then (if cpf_SchedulingAuthority policy = SchedulingAuthorityManleAICalendar
                then Inr ConversationSchedulingBehaviorAutomaticInternalCommit
                else Inr ConversationSchedulingBehaviorAutomaticExternalBooking)
          else Inl (AuthorityNotReadyError (cpf_SchedulingAuthority policy)))"

section \<open>Facts about the matrix\<close>

lemma mode_distinct [simp]:
  "BookingModeDisabled \<noteq> BookingModePendingApproval"
  "BookingModePendingApproval \<noteq> BookingModeDisabled"
  "BookingModeConfirmedBooking \<noteq> BookingModePendingApproval"
  "BookingModePendingApproval \<noteq> BookingModeConfirmedBooking"
  "BookingModeConfirmedBooking \<noteq> BookingModeDisabled"
  "BookingModeDisabled \<noteq> BookingModeConfirmedBooking"
  by (simp_all add: go_consts)

lemma authority_distinct [simp]:
  "SchedulingAuthorityOwnerManual \<noteq> SchedulingAuthorityManleAICalendar"
  "SchedulingAuthorityManleAICalendar \<noteq> SchedulingAuthorityOwnerManual"
  "SchedulingAuthorityOwnerManual \<noteq> SchedulingAuthorityExternalProvider"
  "SchedulingAuthorityExternalProvider \<noteq> SchedulingAuthorityOwnerManual"
  "SchedulingAuthorityManleAICalendar \<noteq> SchedulingAuthorityExternalProvider"
  "SchedulingAuthorityExternalProvider \<noteq> SchedulingAuthorityManleAICalendar"
  by (simp_all add: go_consts)

lemma known_authority [simp]:
  "isKnownSchedulingAuthority SchedulingAuthorityOwnerManual"
  "isKnownSchedulingAuthority SchedulingAuthorityManleAICalendar"
  "isKnownSchedulingAuthority SchedulingAuthorityExternalProvider"
  "\<not> isKnownSchedulingAuthority []"
  by (simp_all add: isKnownSchedulingAuthority_def go_consts)

lemma ConversationBehavior_error:
  "ConversationBehavior policy = Inl e
     \<Longrightarrow> e = AuthorityNotReadyError (cpf_SchedulingAuthority policy)"
  by (auto simp: ConversationBehavior_def AllowedConversationBookingModes_def Let_def
      split: if_splits)

lemma ConversationBehavior_mode:
  assumes "ConversationBehavior policy = Inr b"
  shows "cpf_BookingMode policy \<in>
      {BookingModeDisabled, BookingModePendingApproval, BookingModeConfirmedBooking}"
    and "isKnownSchedulingAuthority (cpf_SchedulingAuthority policy)"
    and "cpf_SchedulingAuthority policy = SchedulingAuthorityOwnerManual
      \<Longrightarrow> cpf_BookingMode policy \<noteq> BookingModeConfirmedBooking"
  using assms
  by (auto simp: ConversationBehavior_def AllowedConversationBookingModes_def Let_def
      split: if_splits)

end
