(* ===== verification/Scheduling_Service.thy ===== *)
theory Scheduling_Service
  imports Scheduling_Types
begin

text \<open>
  The scheduling facade \<open>modules/scheduling/service.go\<close>: it resolves which scheduling authority
  owns an operation, finds the executor registered for it and dispatches to it.

  \<^item> \<open>'w\<close> is the state of the world behind the interfaces (the database and the provider).
    A resolver method reads it; an executor method may change it, so it returns the new state.
  \<^item> The optional Go interfaces an executor or resolver may implement (\<open>LegacyExecutor\<close>,
    \<open>NeutralExecutor\<close>, \<open>availabilityRetryAuthorityResolver\<close>) are optional components of the
    record: \<open>None\<close> is a failed type assertion.
  \<^item> A comma-ok result \<open>(x, found, err)\<close> is \<open>error + 'a option\<close>.

  The lemmas say who is dispatched to: an operation goes to the executor of the one authority all
  its durable evidence (operation key, retry lineage, target appointment, quote) agrees on, and
  the world is untouched when no executor is reached.
\<close>

section \<open>Interfaces\<close>

record 'w AuthorityResolver =
  rs_ResolveSchedulingAuthority :: "string \<Rightarrow> string \<Rightarrow> 'w \<Rightarrow> error + string"
  rs_ResolveConversationSchedulingPolicy ::
    "string \<Rightarrow> string \<Rightarrow> 'w \<Rightarrow> error + ConversationPolicyFence"
  rs_ResolveAvailabilityQuoteSchedulingAuthority ::
    "string \<Rightarrow> string \<Rightarrow> string \<Rightarrow> 'w \<Rightarrow> error + string"
  rs_FindOperationSchedulingAuthority ::
    "string \<Rightarrow> string \<Rightarrow> string \<Rightarrow> 'w \<Rightarrow> error + string option"
  rs_FindOperationSchedulingOrigin ::
    "string \<Rightarrow> string \<Rightarrow> string \<Rightarrow> 'w \<Rightarrow> error + PersistedOperationOrigin option"
  rs_ResolveAttemptSchedulingAuthority ::
    "string \<Rightarrow> string \<Rightarrow> string \<Rightarrow> 'w \<Rightarrow> error + string"
  rs_ResolveAppointmentSchedulingAuthority ::
    "string \<Rightarrow> string \<Rightarrow> string \<Rightarrow> 'w \<Rightarrow> error + string"
  rs_ResolveAvailabilityRetrySchedulingAuthority ::
    "(string \<Rightarrow> string \<Rightarrow> string \<Rightarrow> 'w \<Rightarrow> error + string) option"

record 'w LegacyExecutor =
  lx_AvailableSlots ::
    "string \<Rightarrow> string \<Rightarrow> AvailabilityRequest \<Rightarrow> ('w, AvailabilityResult option) call"
  lx_Create ::
    "string \<Rightarrow> string \<Rightarrow> CreateBookingRequest \<Rightarrow> ('w, BookingAttempt option) call"
  lx_Reschedule ::
    "string \<Rightarrow> string \<Rightarrow> string \<Rightarrow> RescheduleRequest
       \<Rightarrow> ('w, Appointment option \<times> BookingAttempt option) call"
  lx_Cancel ::
    "string \<Rightarrow> string \<Rightarrow> string \<Rightarrow> CancelRequest
       \<Rightarrow> ('w, Appointment option \<times> BookingAttempt option) call"

record 'w NeutralExecutor =
  nx_CheckAvailability ::
    "string \<Rightarrow> string \<Rightarrow> AvailabilityRequest \<Rightarrow> ('w, SchedulingAvailabilityResult option) call"
  nx_ExecuteAction ::
    "string \<Rightarrow> string \<Rightarrow> ActionRequest \<Rightarrow> ('w, ActionResult option) call"

record 'w Executor =
  ex_SchedulingAuthority :: string
  ex_Legacy :: "'w LegacyExecutor option"
  ex_Neutral :: "'w NeutralExecutor option"

record 'w Service =
  svc_resolver :: "'w AuthorityResolver"
  svc_executors :: "string \<rightharpoonup> 'w Executor"

definition NewService :: "'w AuthorityResolver \<Rightarrow> 'w Executor option list \<Rightarrow> 'w Service" where
  "NewService resolver executors =
     \<lparr>svc_resolver = resolver,
      svc_executors = foldl (\<lambda>registered executor. case executor of
          None \<Rightarrow> registered
        | Some e \<Rightarrow> registered(ex_SchedulingAuthority e \<mapsto> e)) Map.empty executors\<rparr>"

section \<open>Choosing the executor\<close>

definition executorForAuthority :: "'w Service \<Rightarrow> string \<Rightarrow> error + 'w Executor" where
  "executorForAuthority s authority =
     (if \<not> isKnownSchedulingAuthority authority then Inl (AuthorityNotReadyError authority)
      else case svc_executors s authority of
             None \<Rightarrow> Inl (AuthorityNotReadyError authority)
           | Some executor \<Rightarrow> Inr executor)"

definition legacyExecutor :: "'w Executor \<Rightarrow> error + 'w LegacyExecutor" where
  "legacyExecutor executor =
     (case ex_Legacy executor of
        None \<Rightarrow> Inl (AuthorityNotReadyError (ex_SchedulingAuthority executor))
      | Some legacy \<Rightarrow> Inr legacy)"

definition CurrentSchedulingAuthority ::
  "'w Service \<Rightarrow> string \<Rightarrow> string \<Rightarrow> 'w \<Rightarrow> error + string" where
  "CurrentSchedulingAuthority s salonID ownerUserID w =
     (case rs_ResolveSchedulingAuthority (svc_resolver s) salonID ownerUserID w of
        Inl err \<Rightarrow> Inl err
      | Inr authority \<Rightarrow>
          if \<not> isKnownSchedulingAuthority authority
          then Inl (AuthorityNotReadyError authority) else Inr authority)"

definition currentExecutor ::
  "'w Service \<Rightarrow> string \<Rightarrow> string \<Rightarrow> 'w \<Rightarrow> error + 'w Executor" where
  "currentExecutor s salonID ownerUserID w =
     (case CurrentSchedulingAuthority s salonID ownerUserID w of
        Inl err \<Rightarrow> Inl err
      | Inr authority \<Rightarrow> executorForAuthority s authority)"

definition availabilityRetryExecutor ::
  "'w Service \<Rightarrow> string \<Rightarrow> string \<Rightarrow> string \<Rightarrow> 'w \<Rightarrow> error + 'w Executor" where
  "availabilityRetryExecutor s salonID ownerUserID attemptID w =
     (case rs_ResolveAvailabilityRetrySchedulingAuthority (svc_resolver s) of
        None \<Rightarrow> Inl ErrOperationConflict
      | Some resolve \<Rightarrow>
          (case resolve salonID ownerUserID attemptID w of
             Inl err \<Rightarrow> Inl err
           | Inr authority \<Rightarrow> executorForAuthority s authority))"

definition resolvePersistedOperationAuthority ::
  "'w Service \<Rightarrow> string \<Rightarrow> string \<Rightarrow> string \<Rightarrow> string \<Rightarrow> 'w \<Rightarrow> error + string option" where
  "resolvePersistedOperationAuthority s salonID ownerUserID operationKey retryOfAttemptID w =
     (let operationKey = TrimSpace operationKey; retryOfAttemptID = TrimSpace retryOfAttemptID in
      case rs_FindOperationSchedulingAuthority (svc_resolver s) salonID ownerUserID operationKey w of
        Inl err \<Rightarrow> Inl err
      | Inr found \<Rightarrow>
          if retryOfAttemptID = [] then Inr found
          else
            (case rs_ResolveAttemptSchedulingAuthority (svc_resolver s) salonID ownerUserID
                    retryOfAttemptID w of
               Inl err \<Rightarrow> Inl err
             | Inr retryAuthority \<Rightarrow>
                 (case found of
                    Some authority \<Rightarrow>
                      if authority \<noteq> retryAuthority then Inl ErrOperationConflict
                      else Inr (Some retryAuthority)
                  | None \<Rightarrow> Inr (Some retryAuthority))))"

definition resolvePersistedOperationAuthorityWithOrigin ::
  "'w Service \<Rightarrow> string \<Rightarrow> string \<Rightarrow> string \<Rightarrow> string \<Rightarrow> PersistedOperationOrigin option
     \<Rightarrow> 'w \<Rightarrow> error + string option" where
  "resolvePersistedOperationAuthorityWithOrigin s salonID ownerUserID operationKey retryOfAttemptID
       persistedOrigin w =
     (case persistedOrigin of
        None \<Rightarrow>
          resolvePersistedOperationAuthority s salonID ownerUserID operationKey retryOfAttemptID w
      | Some origin \<Rightarrow>
          let authority = poo_SchedulingAuthority origin;
              retryOfAttemptID = TrimSpace retryOfAttemptID
          in if retryOfAttemptID = [] then Inr (Some authority)
             else
               (case rs_ResolveAttemptSchedulingAuthority (svc_resolver s) salonID ownerUserID
                       retryOfAttemptID w of
                  Inl err \<Rightarrow> Inl err
                | Inr retryAuthority \<Rightarrow>
                    if authority \<noteq> retryAuthority then Inl ErrOperationConflict
                    else Inr (Some authority)))"

definition ResolveCreateSchedulingAuthority ::
  "'w Service \<Rightarrow> string \<Rightarrow> string \<Rightarrow> string \<Rightarrow> string \<Rightarrow> 'w \<Rightarrow> error + string" where
  "ResolveCreateSchedulingAuthority s salonID ownerUserID operationKey retryOfAttemptID w =
     (case resolvePersistedOperationAuthority s salonID ownerUserID operationKey
             retryOfAttemptID w of
        Inl err \<Rightarrow> Inl err
      | Inr None \<Rightarrow> CurrentSchedulingAuthority s salonID ownerUserID w
      | Inr (Some authority) \<Rightarrow>
          if \<not> isKnownSchedulingAuthority authority
          then Inl (AuthorityNotReadyError authority) else Inr authority)"

definition operationExecutorWithResolvedEvidenceAndOrigin ::
  "'w Service \<Rightarrow> string \<Rightarrow> string \<Rightarrow> string \<Rightarrow> string \<Rightarrow> string \<Rightarrow> string \<Rightarrow> string
     \<Rightarrow> PersistedOperationOrigin option \<Rightarrow> 'w \<Rightarrow> error + 'w Executor" where
  "operationExecutorWithResolvedEvidenceAndOrigin s salonID ownerUserID operationKey
       retryOfAttemptID targetAppointmentID resolvedTargetAuthority resolvedQuoteAuthority
       persistedOrigin w =
     (let targetAppointmentID = TrimSpace targetAppointmentID in
      case resolvePersistedOperationAuthorityWithOrigin s salonID ownerUserID operationKey
             retryOfAttemptID persistedOrigin w of
        Inl err \<Rightarrow> Inl err
      | Inr found0 \<Rightarrow>
          (case (if targetAppointmentID \<noteq> []
                 then (case (if resolvedTargetAuthority = []
                             then rs_ResolveAppointmentSchedulingAuthority (svc_resolver s)
                                    salonID ownerUserID targetAppointmentID w
                             else Inr resolvedTargetAuthority) of
                         Inl targetErr \<Rightarrow> Inl targetErr
                       | Inr targetAuthority \<Rightarrow>
                           if found0 \<noteq> None \<and> found0 \<noteq> Some targetAuthority
                           then Inl ErrOperationConflict else Inr (Some targetAuthority))
                 else Inr found0) of
             Inl err \<Rightarrow> Inl err
           | Inr found1 \<Rightarrow>
               (case (if resolvedQuoteAuthority \<noteq> []
                      then (if found1 \<noteq> None \<and> found1 \<noteq> Some resolvedQuoteAuthority
                            then Inl ErrOperationConflict
                            else Inr (Some resolvedQuoteAuthority))
                      else Inr found1) of
                  Inl err \<Rightarrow> Inl err
                | Inr None \<Rightarrow> currentExecutor s salonID ownerUserID w
                | Inr (Some authority) \<Rightarrow> executorForAuthority s authority)))"

definition operationExecutorWithResolvedEvidence ::
  "'w Service \<Rightarrow> string \<Rightarrow> string \<Rightarrow> string \<Rightarrow> string \<Rightarrow> string \<Rightarrow> string \<Rightarrow> string
     \<Rightarrow> 'w \<Rightarrow> error + 'w Executor" where
  "operationExecutorWithResolvedEvidence s salonID ownerUserID operationKey retryOfAttemptID
       targetAppointmentID resolvedTargetAuthority resolvedQuoteAuthority w =
     operationExecutorWithResolvedEvidenceAndOrigin s salonID ownerUserID operationKey
       retryOfAttemptID targetAppointmentID resolvedTargetAuthority resolvedQuoteAuthority None w"

definition operationExecutorWithResolvedTarget ::
  "'w Service \<Rightarrow> string \<Rightarrow> string \<Rightarrow> string \<Rightarrow> string \<Rightarrow> string \<Rightarrow> string
     \<Rightarrow> 'w \<Rightarrow> error + 'w Executor" where
  "operationExecutorWithResolvedTarget s salonID ownerUserID operationKey retryOfAttemptID
       targetAppointmentID resolvedTargetAuthority w =
     operationExecutorWithResolvedEvidence s salonID ownerUserID operationKey retryOfAttemptID
       targetAppointmentID resolvedTargetAuthority [] w"

definition operationExecutor ::
  "'w Service \<Rightarrow> string \<Rightarrow> string \<Rightarrow> string \<Rightarrow> string \<Rightarrow> string \<Rightarrow> 'w
     \<Rightarrow> error + 'w Executor" where
  "operationExecutor s salonID ownerUserID operationKey retryOfAttemptID targetAppointmentID w =
     operationExecutorWithResolvedTarget s salonID ownerUserID operationKey retryOfAttemptID
       targetAppointmentID [] w"

definition hydratePersistedRequestTarget ::
  "'w Service \<Rightarrow> string \<Rightarrow> string \<Rightarrow> ActionRequest \<Rightarrow> 'w
     \<Rightarrow> error + (ActionRequest \<times> PersistedOperationOrigin option)" where
  "hydratePersistedRequestTarget s salonID ownerUserID req w =
     (case rs_FindOperationSchedulingOrigin (svc_resolver s) salonID ownerUserID
             (TrimSpace (req_OperationKey req)) w of
        Inl err \<Rightarrow> Inl err
      | Inr None \<Rightarrow> Inr (req, None)
      | Inr (Some origin) \<Rightarrow>
          if \<not> poo_SchedulingRequest origin then Inr (req, Some origin)
          else
            let provided = TrimSpace (req_TargetAuthority req) in
            if poo_RequestTargetAuthorityPresent origin
            then if provided \<noteq> [] \<and> provided \<noteq> poo_RequestTargetAuthority origin
                 then Inl ErrOperationConflict
                 else Inr (req\<lparr>req_TargetAuthority := poo_RequestTargetAuthority origin\<rparr>,
                           Some origin)
            else if provided \<noteq> [] then Inl ErrOperationConflict
            else Inr (req, Some origin))"

definition validateConversationPolicy :: "ConversationPolicyFence \<Rightarrow> error option" where
  "validateConversationPolicy policy =
     (case ConversationBehavior policy of Inl err \<Rightarrow> Some err | Inr _ \<Rightarrow> None)"

section \<open>Translating neutral actions for a legacy executor\<close>

definition legacySegmentTimingRepresentable ::
  "ActionRequest \<Rightarrow> ActionSegment \<Rightarrow> bool \<Rightarrow> bool \<Rightarrow> bool" where
  "legacySegmentTimingRepresentable req segment segmentHasStart segmentHasEnd =
     (if req_OperationType req = OperationKindReschedule
         \<or> req_OperationType req = OperationKindCancel then
        if TrimSpace (req_TargetAppointmentID req) = [] \<or> \<not> segmentHasStart
           \<or> req_RequestedStartTime req = 0
           \<or> seg_RequestedStartTime segment \<noteq> req_RequestedStartTime req then False
        else if req_RequestedEndTime req \<noteq> 0
           \<and> \<not> req_RequestedEndTime req > req_RequestedStartTime req then False
        else if \<not> segmentHasEnd then True
        else seg_RequestedEndTime segment > seg_RequestedStartTime segment
           \<and> (req_RequestedEndTime req = 0
              \<or> \<not> seg_RequestedEndTime segment > req_RequestedEndTime req)
      else segmentHasStart \<and> segmentHasEnd
           \<and> req_RequestedStartTime req \<noteq> 0 \<and> req_RequestedEndTime req \<noteq> 0
           \<and> req_RequestedEndTime req > req_RequestedStartTime req
           \<and> seg_RequestedStartTime segment = req_RequestedStartTime req
           \<and> seg_RequestedEndTime segment > seg_RequestedStartTime segment
           \<and> \<not> seg_RequestedEndTime segment > req_RequestedEndTime req)"

definition legacySegmentRepresentable :: "ActionRequest \<Rightarrow> ActionSegment \<Rightarrow> bool" where
  "legacySegmentRepresentable req segment =
     (if seg_Quantity segment < 0 \<or> seg_Quantity segment > 1
         \<or> TrimSpace (seg_GuestReference segment) \<noteq> [] then False
      else
        let segmentHasStart = seg_RequestedStartTime segment \<noteq> 0;
            segmentHasEnd = seg_RequestedEndTime segment \<noteq> 0
        in if \<not> segmentHasStart \<and> \<not> segmentHasEnd then True
           else legacySegmentTimingRepresentable req segment segmentHasStart segmentHasEnd)"

definition validateLegacyActionRepresentable :: "ActionRequest \<Rightarrow> error option" where
  "validateLegacyActionRepresentable req =
     (if req_PartySize req < 0 \<or> req_PartySize req > 1 then Some ErrInvalidSchedulingAction
      else if list_all (legacySegmentRepresentable req) (req_Segments req) then None
      else Some ErrInvalidSchedulingAction)"

definition bookingSegments :: "ActionSegment list \<Rightarrow> BookingSegmentRequest list" where
  "bookingSegments segments =
     map (\<lambda>segment. \<lparr>bsr_ServiceID = seg_ServiceID segment, bsr_StaffID = seg_StaffID segment,
            bsr_StaffSelectionMode = seg_StaffSelectionMode segment, bsr_GuestReference = [],
            bsr_Quantity = 0\<rparr>) segments"

definition createBookingRequest :: "ActionRequest \<Rightarrow> CreateBookingRequest" where
  "createBookingRequest req =
     (let segments = bookingSegments (req_Segments req);
          result = \<lparr>cbr_OperationKey = req_OperationKey req,
            cbr_RetryOfAttemptID = req_RetryOfAttemptID req,
            cbr_AvailabilityQuoteID = req_AvailabilityQuoteID req,
            cbr_SlotFingerprint = req_SlotFingerprint req, cbr_Source = req_Source req,
            cbr_CustomerName = req_CustomerName req, cbr_CustomerPhone = req_CustomerPhone req,
            cbr_CustomerEmail = req_CustomerEmail req, cbr_ServiceID = [], cbr_StaffID = [],
            cbr_StaffSelectionMode = [], cbr_Segments = segments,
            cbr_StartTime = req_RequestedStartTime req, cbr_Notes = req_Notes req\<rparr>
      in case segments of
           [] \<Rightarrow> result
         | first # _ \<Rightarrow> result\<lparr>cbr_ServiceID := bsr_ServiceID first, cbr_StaffID := bsr_StaffID first,
             cbr_StaffSelectionMode := bsr_StaffSelectionMode first\<rparr>)"

definition rescheduleBookingRequest :: "ActionRequest \<Rightarrow> RescheduleRequest" where
  "rescheduleBookingRequest req =
     \<lparr>rr_OperationKey = req_OperationKey req, rr_RetryOfAttemptID = req_RetryOfAttemptID req,
      rr_AvailabilityQuoteID = req_AvailabilityQuoteID req,
      rr_SlotFingerprint = req_SlotFingerprint req, rr_StartTime = req_RequestedStartTime req,
      rr_StaffID = (case req_Segments req of [] \<Rightarrow> [] | first # _ \<Rightarrow> seg_StaffID first),
      rr_Notes = req_Notes req, rr_Source = req_Source req\<rparr>"

definition cancelBookingRequest :: "ActionRequest \<Rightarrow> CancelRequest" where
  "cancelBookingRequest req =
     \<lparr>cr_OperationKey = req_OperationKey req, cr_RetryOfAttemptID = req_RetryOfAttemptID req,
      cr_Reason = req_Notes req, cr_Source = req_Source req\<rparr>"

section \<open>Results of the external provider\<close>

definition appointmentActiveChildCount :: "Appointment option \<Rightarrow> int" where
  "appointmentActiveChildCount appointment =
     (case appointment of
        None \<Rightarrow> 0
      | Some a \<Rightarrow>
          if appt_Status a = StatusCancelled then 0
          else if length (appt_Segments a) > 0 then int (length (appt_Segments a))
          else if TrimSpace (appt_ServiceID a) \<noteq> [] then 1 else 0)"

text \<open>The zero value of \<open>ConfirmedAppointmentResult\<close> and \<open>ActionResult\<close>.\<close>

definition zero_ConfirmedAppointmentResult :: ConfirmedAppointmentResult where
  "zero_ConfirmedAppointmentResult =
     \<lparr>car_AppointmentID = [], car_BookingAttemptID = [], car_AppointmentStatus = [],
      car_ActiveChildCount = 0, car_ExternalAttemptID = [], car_Appointment = None,
      car_ExternalAttempt = None, car_Children = []\<rparr>"

definition zero_ActionResult :: ActionResult where
  "zero_ActionResult =
     \<lparr>act_Kind = [], act_OperationType = [], act_SchedulingAuthority = [],
      act_TargetAuthorityAppointmentVersion = 0, act_AuthorityAppointmentVersion = 0,
      act_Replayed = False, act_ConfirmedAppointment = None, act_PendingOwnerReview = None,
      act_ExternalFallbackPending = None\<rparr>"

definition is_pending_status :: "string \<Rightarrow> bool" where
  "is_pending_status status \<longleftrightarrow> status = StatusFallbackPending \<or> status = StatusPOSPending
     \<or> status = StatusProviderPending"

definition external_fallback_result :: "string \<Rightarrow> BookingAttempt \<Rightarrow> ActionResult" where
  "external_fallback_result operation attempt =
     zero_ActionResult\<lparr>act_Kind := ActionKindExternalFallbackPending,
       act_OperationType := operation,
       act_SchedulingAuthority := SchedulingAuthorityExternalProvider,
       act_ExternalFallbackPending :=
         Some \<lparr>efp_ExternalAttemptID = ba_ID attempt, efp_ExternalAttempt = Some attempt\<rparr>\<rparr>"

definition actionResultFromExternalAttempt ::
  "string \<Rightarrow> BookingAttempt option \<Rightarrow> error + ActionResult option" where
  "actionResultFromExternalAttempt operation attempt_ptr =
     (case attempt_ptr of
        None \<Rightarrow> Inl ErrInvalidSchedulingResult
      | Some attempt \<Rightarrow>
          if is_pending_status (ba_Status attempt) then
            if TrimSpace (ba_ID attempt) = []
               \<or> ba_SchedulingAuthority attempt \<noteq> SchedulingAuthorityExternalProvider
            then Inl ErrInvalidSchedulingResult
            else Inr (Some (external_fallback_result operation attempt))
          else
            (case ba_Appointment attempt of
               None \<Rightarrow> Inl ErrInvalidSchedulingResult
             | Some appointment \<Rightarrow>
                 if ba_Status attempt \<noteq> StatusConfirmed \<or> TrimSpace (ba_ID attempt) = []
                    \<or> ba_SchedulingAuthority attempt \<noteq> SchedulingAuthorityExternalProvider
                    \<or> TrimSpace (ba_AuthorityProvider attempt) = []
                    \<or> TrimSpace (ba_AuthorityAppointmentID attempt) = []
                    \<or> ba_AuthorityAppointmentVersion attempt < 0
                    \<or> TrimSpace (ba_POSProvider attempt) = []
                    \<or> TrimSpace (ba_POSBookingID attempt) = []
                    \<or> ba_POSBookingVersion attempt < 0
                    \<or> TrimSpace (appt_ID appointment) = []
                    \<or> appt_Status appointment \<noteq> StatusConfirmed
                    \<or> appt_SchedulingAuthority appointment \<noteq> SchedulingAuthorityExternalProvider
                    \<or> TrimSpace (appt_AuthorityProvider appointment) = []
                    \<or> TrimSpace (appt_AuthorityAppointmentID appointment) = []
                    \<or> appt_AuthorityAppointmentVersion appointment < 0
                    \<or> TrimSpace (appt_POSProvider appointment) = []
                    \<or> TrimSpace (appt_POSAppointmentID appointment) = []
                    \<or> appt_POSAppointmentVersion appointment < 0
                    \<or> ba_AuthorityProvider attempt \<noteq> appt_AuthorityProvider appointment
                    \<or> ba_AuthorityAppointmentID attempt \<noteq> appt_AuthorityAppointmentID appointment
                    \<or> ba_AuthorityAppointmentVersion attempt
                        \<noteq> appt_AuthorityAppointmentVersion appointment
                    \<or> ba_POSProvider attempt \<noteq> appt_POSProvider appointment
                    \<or> ba_POSBookingID attempt \<noteq> appt_POSAppointmentID appointment
                    \<or> ba_POSBookingVersion attempt \<noteq> appt_POSAppointmentVersion appointment
                 then Inl ErrInvalidSchedulingResult
                 else Inr (Some (zero_ActionResult\<lparr>
                   act_Kind := ActionKindConfirmedAppointment,
                   act_OperationType := operation,
                   act_SchedulingAuthority := SchedulingAuthorityExternalProvider,
                   act_ConfirmedAppointment := Some (zero_ConfirmedAppointmentResult\<lparr>
                     car_AppointmentID := appt_ID appointment,
                     car_ExternalAttemptID := ba_ID attempt,
                     car_AppointmentStatus := appt_Status appointment,
                     car_ActiveChildCount := appointmentActiveChildCount (Some appointment),
                     car_Appointment := Some appointment,
                     car_ExternalAttempt := Some attempt\<rparr>)\<rparr>))))"

definition actionResultFromExternalMutation ::
  "string \<Rightarrow> Appointment option \<Rightarrow> BookingAttempt option \<Rightarrow> error + ActionResult option" where
  "actionResultFromExternalMutation operation appointment_ptr fallback_ptr =
     (case fallback_ptr of
        Some fallback \<Rightarrow>
          if TrimSpace (ba_ID fallback) = []
             \<or> ba_SchedulingAuthority fallback \<noteq> SchedulingAuthorityExternalProvider
             \<or> \<not> is_pending_status (ba_Status fallback)
          then Inl ErrInvalidSchedulingResult
          else Inr (Some (external_fallback_result operation fallback))
      | None \<Rightarrow>
          let wantStatus =
                (if operation = OperationKindCancel then StatusCancelled else StatusRescheduled)
          in (case appointment_ptr of
                None \<Rightarrow> Inl ErrInvalidSchedulingResult
              | Some appointment \<Rightarrow>
                  if TrimSpace (appt_ID appointment) = []
                     \<or> appt_Status appointment \<noteq> wantStatus
                     \<or> appt_SchedulingAuthority appointment \<noteq> SchedulingAuthorityExternalProvider
                     \<or> TrimSpace (appt_AuthorityProvider appointment) = []
                     \<or> TrimSpace (appt_AuthorityAppointmentID appointment) = []
                     \<or> appt_AuthorityAppointmentVersion appointment < 0
                     \<or> TrimSpace (appt_POSProvider appointment) = []
                     \<or> TrimSpace (appt_POSAppointmentID appointment) = []
                     \<or> appt_POSAppointmentVersion appointment < 0
                     \<or> appt_AuthorityProvider appointment \<noteq> appt_POSProvider appointment
                     \<or> appt_AuthorityAppointmentID appointment \<noteq> appt_POSAppointmentID appointment
                     \<or> appt_AuthorityAppointmentVersion appointment
                         \<noteq> appt_POSAppointmentVersion appointment
                  then Inl ErrInvalidSchedulingResult
                  else Inr (Some (zero_ActionResult\<lparr>
                    act_Kind := ActionKindConfirmedAppointment,
                    act_OperationType := operation,
                    act_SchedulingAuthority := SchedulingAuthorityExternalProvider,
                    act_ConfirmedAppointment := Some (zero_ConfirmedAppointmentResult\<lparr>
                      car_AppointmentID := appt_ID appointment,
                      car_AppointmentStatus := appt_Status appointment,
                      car_ActiveChildCount := appointmentActiveChildCount (Some appointment),
                      car_Appointment := Some appointment\<rparr>)\<rparr>))))"

definition executeLegacyAction ::
  "'w Executor \<Rightarrow> string \<Rightarrow> string \<Rightarrow> ActionRequest \<Rightarrow> ('w, ActionResult option) call" where
  "executeLegacyAction executor salonID ownerUserID req w =
     (case validateLegacyActionRepresentable req of
        Some err \<Rightarrow> (Inl err, w)
      | None \<Rightarrow>
          (case legacyExecutor executor of
             Inl err \<Rightarrow> (Inl err, w)
           | Inr legacy \<Rightarrow>
               if req_OperationType req = OperationKindBook then
                 (case lx_Create legacy salonID ownerUserID (createBookingRequest req) w of
                    (Inl err, w') \<Rightarrow> (Inl err, w')
                  | (Inr attempt, w') \<Rightarrow>
                      (actionResultFromExternalAttempt (req_OperationType req) attempt, w'))
               else if req_OperationType req = OperationKindReschedule then
                 (case lx_Reschedule legacy salonID ownerUserID (req_TargetAppointmentID req)
                         (rescheduleBookingRequest req) w of
                    (Inl err, w') \<Rightarrow> (Inl err, w')
                  | (Inr (appointment, fallback), w') \<Rightarrow>
                      (actionResultFromExternalMutation (req_OperationType req) appointment fallback,
                       w'))
               else if req_OperationType req = OperationKindCancel then
                 (case lx_Cancel legacy salonID ownerUserID (req_TargetAppointmentID req)
                         (cancelBookingRequest req) w of
                    (Inl err, w') \<Rightarrow> (Inl err, w')
                  | (Inr (appointment, fallback), w') \<Rightarrow>
                      (actionResultFromExternalMutation (req_OperationType req) appointment fallback,
                       w'))
               else (Inl ErrInvalidSchedulingAction, w)))"

section \<open>The entry points\<close>

text \<open>
  The executor an availability request is served by, common to \<open>AvailableSlots\<close> and
  \<open>CheckAvailability\<close>.
\<close>

definition availability_executor ::
  "'w Service \<Rightarrow> string \<Rightarrow> string \<Rightarrow> AvailabilityRequest \<Rightarrow> 'w \<Rightarrow> error + 'w Executor" where
  "availability_executor s salonID ownerUserID req w =
     (let targetAppointmentID = TrimSpace (ar_TargetAppointmentID req);
          retryOfAttemptID = TrimSpace (ar_RetryOfAttemptID req)
      in if targetAppointmentID \<noteq> [] \<and> retryOfAttemptID \<noteq> [] then Inl ErrValidation
         else if retryOfAttemptID \<noteq> []
         then availabilityRetryExecutor s salonID ownerUserID retryOfAttemptID w
         else if targetAppointmentID = [] then currentExecutor s salonID ownerUserID w
         else (case rs_ResolveAppointmentSchedulingAuthority (svc_resolver s) salonID ownerUserID
                      targetAppointmentID w of
                 Inl resolveErr \<Rightarrow> Inl resolveErr
               | Inr authority \<Rightarrow> executorForAuthority s authority))"

definition AvailableSlots ::
  "'w Service \<Rightarrow> string \<Rightarrow> string \<Rightarrow> AvailabilityRequest
     \<Rightarrow> ('w, AvailabilityResult option) call" where
  "AvailableSlots s salonID ownerUserID req w =
     (case availability_executor s salonID ownerUserID req w of
        Inl err \<Rightarrow> (Inl err, w)
      | Inr executor \<Rightarrow>
          (case legacyExecutor executor of
             Inl err \<Rightarrow> (Inl err, w)
           | Inr legacy \<Rightarrow> lx_AvailableSlots legacy salonID ownerUserID req w))"

definition Create ::
  "'w Service \<Rightarrow> string \<Rightarrow> string \<Rightarrow> CreateBookingRequest
     \<Rightarrow> ('w, BookingAttempt option) call" where
  "Create s salonID ownerUserID req w =
     (case operationExecutor s salonID ownerUserID (cbr_OperationKey req)
             (cbr_RetryOfAttemptID req) [] w of
        Inl err \<Rightarrow> (Inl err, w)
      | Inr executor \<Rightarrow>
          (case legacyExecutor executor of
             Inl err \<Rightarrow> (Inl err, w)
           | Inr legacy \<Rightarrow> lx_Create legacy salonID ownerUserID req w))"

definition Reschedule ::
  "'w Service \<Rightarrow> string \<Rightarrow> string \<Rightarrow> string \<Rightarrow> RescheduleRequest
     \<Rightarrow> ('w, Appointment option \<times> BookingAttempt option) call" where
  "Reschedule s salonID ownerUserID appointmentID req w =
     (case operationExecutor s salonID ownerUserID (rr_OperationKey req)
             (rr_RetryOfAttemptID req) appointmentID w of
        Inl err \<Rightarrow> (Inl err, w)
      | Inr executor \<Rightarrow>
          (case legacyExecutor executor of
             Inl err \<Rightarrow> (Inl err, w)
           | Inr legacy \<Rightarrow> lx_Reschedule legacy salonID ownerUserID appointmentID req w))"

definition Cancel ::
  "'w Service \<Rightarrow> string \<Rightarrow> string \<Rightarrow> string \<Rightarrow> CancelRequest
     \<Rightarrow> ('w, Appointment option \<times> BookingAttempt option) call" where
  "Cancel s salonID ownerUserID appointmentID req w =
     (case operationExecutor s salonID ownerUserID (cr_OperationKey req)
             (cr_RetryOfAttemptID req) appointmentID w of
        Inl err \<Rightarrow> (Inl err, w)
      | Inr executor \<Rightarrow>
          (case legacyExecutor executor of
             Inl err \<Rightarrow> (Inl err, w)
           | Inr legacy \<Rightarrow> lx_Cancel legacy salonID ownerUserID appointmentID req w))"

definition checkAvailabilityWithExecutor ::
  "'w Executor \<Rightarrow> string \<Rightarrow> string \<Rightarrow> AvailabilityRequest
     \<Rightarrow> ('w, SchedulingAvailabilityResult option) call" where
  "checkAvailabilityWithExecutor executor salonID ownerUserID req w =
     (case ex_Neutral executor of
        Some neutral \<Rightarrow> nx_CheckAvailability neutral salonID ownerUserID req w
      | None \<Rightarrow>
          (case legacyExecutor executor of
             Inl err \<Rightarrow> (Inl err, w)
           | Inr legacy \<Rightarrow>
               (case lx_AvailableSlots legacy salonID ownerUserID req w of
                  (Inl err, w') \<Rightarrow> (Inl err, w')
                | (Inr result, w') \<Rightarrow>
                    (Inr (Some \<lparr>sres_Kind = AvailabilityKindVerifiedSlots,
                       sres_SchedulingAuthority = ex_SchedulingAuthority executor,
                       sres_TargetAuthorityAppointmentVersion = 0,
                       sres_VerifiedSlots = result\<rparr>), w'))))"

definition CheckAvailability ::
  "'w Service \<Rightarrow> string \<Rightarrow> string \<Rightarrow> AvailabilityRequest
     \<Rightarrow> ('w, SchedulingAvailabilityResult option) call" where
  "CheckAvailability s salonID ownerUserID req w =
     (case availability_executor s salonID ownerUserID req w of
        Inl err \<Rightarrow> (Inl err, w)
      | Inr executor \<Rightarrow> checkAvailabilityWithExecutor executor salonID ownerUserID req w)"

definition CheckConversationAvailability ::
  "'w Service \<Rightarrow> string \<Rightarrow> string \<Rightarrow> string \<Rightarrow> AvailabilityRequest
     \<Rightarrow> ('w, SchedulingAvailabilityResult option) call" where
  "CheckConversationAvailability s salonID ownerUserID reviewedMode req w =
     (case rs_ResolveConversationSchedulingPolicy (svc_resolver s) salonID ownerUserID w of
        Inl err \<Rightarrow> (Inl err, w)
      | Inr policy \<Rightarrow>
          (case validateConversationPolicy policy of
             Some err \<Rightarrow> (Inl err, w)
           | None \<Rightarrow>
               if reviewedMode \<noteq> cpf_BookingMode policy then (Inl ErrOperationConflict, w)
               else if cpf_BookingMode policy = BookingModeDisabled
               then (Inl ErrConversationSchedulingDisabled, w)
               else
                 let targetAppointmentID = TrimSpace (ar_TargetAppointmentID req) in
                 (case (if targetAppointmentID = []
                        then executorForAuthority s (cpf_SchedulingAuthority policy)
                        else (case rs_ResolveAppointmentSchedulingAuthority (svc_resolver s)
                                     salonID ownerUserID targetAppointmentID w of
                                Inl resolveErr \<Rightarrow> Inl resolveErr
                              | Inr targetAuthority \<Rightarrow> executorForAuthority s targetAuthority)) of
                    Inl err \<Rightarrow> (Inl err, w)
                  | Inr executor \<Rightarrow>
                      checkAvailabilityWithExecutor executor salonID ownerUserID req w)))"

definition ExecuteAction ::
  "'w Service \<Rightarrow> string \<Rightarrow> string \<Rightarrow> ActionRequest \<Rightarrow> ('w, ActionResult option) call" where
  "ExecuteAction s salonID ownerUserID req0 w =
     (case hydratePersistedRequestTarget s salonID ownerUserID req0 w of
        Inl err \<Rightarrow> (Inl err, w)
      | Inr (req, persistedOrigin) \<Rightarrow>
          (case (if req_OperationType req = OperationKindBook then Some []
                 else if req_OperationType req = OperationKindReschedule
                   \<or> req_OperationType req = OperationKindCancel
                 then Some (req_TargetAppointmentID req) else None) of
             None \<Rightarrow> (Inl ErrInvalidSchedulingAction, w)
           | Some targetAppointmentID \<Rightarrow>
               (case (if TrimSpace targetAppointmentID \<noteq> []
                      then (case rs_ResolveAppointmentSchedulingAuthority (svc_resolver s) salonID
                                   ownerUserID (TrimSpace targetAppointmentID) w of
                              Inl err \<Rightarrow> Inl err
                            | Inr resolved \<Rightarrow>
                                if req_TargetAuthority req \<noteq> [] \<and> req_TargetAuthority req \<noteq> resolved
                                then Inl ErrOperationConflict
                                else Inr (req\<lparr>req_TargetAuthority := resolved\<rparr>, resolved))
                      else Inr (req, [])) of
                  Inl err \<Rightarrow> (Inl err, w)
                | Inr (req, resolvedTargetAuthority) \<Rightarrow>
                    (case (if TrimSpace (req_AvailabilityQuoteID req) \<noteq> []
                           then rs_ResolveAvailabilityQuoteSchedulingAuthority (svc_resolver s)
                                  salonID ownerUserID (TrimSpace (req_AvailabilityQuoteID req)) w
                           else Inr []) of
                       Inl err \<Rightarrow> (Inl err, w)
                     | Inr resolvedQuoteAuthority \<Rightarrow>
                         (case operationExecutorWithResolvedEvidenceAndOrigin s salonID ownerUserID
                                 (req_OperationKey req) (req_RetryOfAttemptID req)
                                 targetAppointmentID resolvedTargetAuthority
                                 resolvedQuoteAuthority persistedOrigin w of
                            Inl err \<Rightarrow> (Inl err, w)
                          | Inr executor \<Rightarrow>
                              (case ex_Neutral executor of
                                 Some neutral \<Rightarrow>
                                   nx_ExecuteAction neutral salonID ownerUserID req w
                               | None \<Rightarrow>
                                   executeLegacyAction executor salonID ownerUserID req w))))))"

definition pending_request :: "ActionRequest \<Rightarrow> ActionRequest" where
  "pending_request hydrated =
     hydrated\<lparr>req_RetryOfAttemptID := [], req_AvailabilityQuoteID := [], req_SlotFingerprint := [],
       req_ExpectedTargetAuthorityAppointmentVersion := 0\<rparr>"

definition ExecuteConversationAction ::
  "'w Service \<Rightarrow> string \<Rightarrow> string \<Rightarrow> ConversationPolicyFence \<Rightarrow> ActionRequest
     \<Rightarrow> ('w, ActionResult option) call" where
  "ExecuteConversationAction s salonID ownerUserID reviewed req w =
     (case hydratePersistedRequestTarget s salonID ownerUserID req w of
        Inl err \<Rightarrow> (Inl err, w)
      | Inr (hydrated, Some origin) \<Rightarrow> ExecuteAction s salonID ownerUserID hydrated w
      | Inr (hydrated, None) \<Rightarrow>
          (case rs_ResolveConversationSchedulingPolicy (svc_resolver s) salonID ownerUserID w of
             Inl err \<Rightarrow> (Inl err, w)
           | Inr policy \<Rightarrow>
               (case validateConversationPolicy policy of
                  Some err \<Rightarrow> (Inl err, w)
                | None \<Rightarrow>
                    if cpf_BookingMode reviewed \<noteq> cpf_BookingMode policy
                       \<or> TrimSpace (cpf_SchedulingAuthority reviewed)
                           \<noteq> cpf_SchedulingAuthority policy
                    then (Inl ErrOperationConflict, w)
                    else if cpf_BookingMode policy = BookingModeDisabled
                    then (Inl ErrConversationSchedulingDisabled, w)
                    else if cpf_BookingMode policy = BookingModeConfirmedBooking
                    then ExecuteAction s salonID ownerUserID hydrated w
                    else if cpf_BookingMode policy = BookingModePendingApproval then
                      let pending = pending_request hydrated in
                      (case (if TrimSpace (req_TargetAppointmentID pending) \<noteq> []
                             then (case rs_ResolveAppointmentSchedulingAuthority (svc_resolver s)
                                          salonID ownerUserID
                                          (TrimSpace (req_TargetAppointmentID pending)) w of
                                     Inl resolveErr \<Rightarrow> Inl resolveErr
                                   | Inr targetAuthority \<Rightarrow>
                                       if req_TargetAuthority pending \<noteq> []
                                          \<and> req_TargetAuthority pending \<noteq> targetAuthority
                                       then Inl ErrOperationConflict
                                       else Inr (pending\<lparr>req_TargetAuthority := targetAuthority\<rparr>))
                             else Inr (pending\<lparr>req_TargetAuthority :=
                                         cpf_SchedulingAuthority policy\<rparr>)) of
                         Inl err \<Rightarrow> (Inl err, w)
                       | Inr pending \<Rightarrow>
                           (case executorForAuthority s SchedulingAuthorityOwnerManual of
                              Inl executorErr \<Rightarrow> (Inl executorErr, w)
                            | Inr executor \<Rightarrow>
                                (case ex_Neutral executor of
                                   None \<Rightarrow>
                                     (Inl (AuthorityNotReadyError SchedulingAuthorityOwnerManual), w)
                                 | Some neutral \<Rightarrow>
                                     nx_ExecuteAction neutral salonID ownerUserID pending w)))
                    else (Inl (AuthorityNotReadyError (cpf_SchedulingAuthority policy)), w))))"


section \<open>Registration\<close>

definition registered_under_own_authority :: "'w Service \<Rightarrow> bool" where
  "registered_under_own_authority s \<longleftrightarrow>
     (\<forall>a e. svc_executors s a = Some e \<longrightarrow> ex_SchedulingAuthority e = a)"

lemma NewService_registered: "registered_under_own_authority (NewService resolver executors)"
proof -
  define step where "step = (\<lambda>registered executor. case executor of
      None \<Rightarrow> registered | Some e \<Rightarrow> registered(ex_SchedulingAuthority e \<mapsto> (e :: 'a Executor)))"
  have "\<forall>a e. foldl step m executors a = Some e \<longrightarrow> ex_SchedulingAuthority e = a"
    if "\<forall>a e. m a = Some e \<longrightarrow> ex_SchedulingAuthority e = a" for m
    using that
  proof (induction executors arbitrary: m)
    case (Cons x xs)
    have "\<forall>a e. step m x a = Some e \<longrightarrow> ex_SchedulingAuthority e = a"
      using Cons.prems by (auto simp: step_def split: option.splits if_splits)
    from Cons.IH [OF this] show ?case by simp
  qed simp
  from this [of Map.empty] show ?thesis
    by (simp add: registered_under_own_authority_def NewService_def step_def)
qed

lemma NewService_resolver [simp]: "svc_resolver (NewService resolver executors) = resolver"
  by (simp add: NewService_def)

lemma executorForAuthority_Inr:
  "executorForAuthority s a = Inr e \<longleftrightarrow>
     isKnownSchedulingAuthority a \<and> svc_executors s a = Some e"
  by (auto simp: executorForAuthority_def split: option.splits)

lemma executorForAuthority_own:
  "registered_under_own_authority s \<Longrightarrow> executorForAuthority s a = Inr e
     \<Longrightarrow> ex_SchedulingAuthority e = a"
  by (auto simp: executorForAuthority_Inr registered_under_own_authority_def)

section \<open>The evidence an operation is routed by\<close>

text \<open>
  The specification of routing: the durable evidence of an operation is the list of authorities
  that its operation key, retry lineage, target appointment and quote resolve to, in this order;
  \<open>agree\<close> folds it into the one authority all of it names.
\<close>

fun agree :: "string option \<Rightarrow> (error + string option) list \<Rightarrow> error + string option" where
  "agree found [] = Inr found"
| "agree found (Inl e # xs) = Inl e"
| "agree found (Inr None # xs) = agree found xs"
| "agree found (Inr (Some a) # xs) =
     (if found \<noteq> None \<and> found \<noteq> Some a then Inl ErrOperationConflict else agree (Some a) xs)"

definition durable_evidence ::
  "'w Service \<Rightarrow> string \<Rightarrow> string \<Rightarrow> string \<Rightarrow> string \<Rightarrow> string \<Rightarrow> string \<Rightarrow> string
     \<Rightarrow> PersistedOperationOrigin option \<Rightarrow> 'w \<Rightarrow> (error + string option) list" where
  "durable_evidence s salonID ownerUserID operationKey retryOfAttemptID targetAppointmentID
       resolvedTargetAuthority resolvedQuoteAuthority persistedOrigin w =
     [case persistedOrigin of
        Some origin \<Rightarrow> Inr (Some (poo_SchedulingAuthority origin))
      | None \<Rightarrow> rs_FindOperationSchedulingAuthority (svc_resolver s) salonID ownerUserID
                  (TrimSpace operationKey) w,
      if TrimSpace retryOfAttemptID = [] then Inr None
      else map_sum id Some (rs_ResolveAttemptSchedulingAuthority (svc_resolver s) salonID
             ownerUserID (TrimSpace retryOfAttemptID) w),
      if TrimSpace targetAppointmentID = [] then Inr None
      else if resolvedTargetAuthority \<noteq> [] then Inr (Some resolvedTargetAuthority)
      else map_sum id Some (rs_ResolveAppointmentSchedulingAuthority (svc_resolver s) salonID
             ownerUserID (TrimSpace targetAppointmentID) w),
      if resolvedQuoteAuthority = [] then Inr None else Inr (Some resolvedQuoteAuthority)]"

lemma agree_Inr:
  "agree found (Inr x # xs) =
     (case x of
        None \<Rightarrow> agree found xs
      | Some a \<Rightarrow> if found \<noteq> None \<and> found \<noteq> Some a then Inl ErrOperationConflict
                  else agree (Some a) xs)"
  by (cases x) simp_all

lemma agree_SomeD:
  assumes "agree found xs = Inr (Some a)"
  shows "(\<forall>x \<in> set xs. x = Inr None \<or> x = Inr (Some a)) \<and> (found = None \<or> found = Some a)"
  using assms by (induction found xs rule: agree.induct) (auto split: if_splits)

lemma agree_NoneD:
  assumes "agree found xs = Inr None"
  shows "(\<forall>x \<in> set xs. x = Inr None) \<and> found = None"
  using assms by (induction found xs rule: agree.induct) (auto split: if_splits)

lemma agree_append:
  "agree found (xs @ ys) = (case agree found xs of Inl e \<Rightarrow> Inl e | Inr f \<Rightarrow> agree f ys)"
  by (induction found xs rule: agree.induct) auto

lemma agree_origin_retry:
  "agree None
     [case persistedOrigin of
        Some origin \<Rightarrow> Inr (Some (poo_SchedulingAuthority origin))
      | None \<Rightarrow> rs_FindOperationSchedulingAuthority (svc_resolver s) salonID ownerUserID
                  (TrimSpace operationKey) w,
      if TrimSpace retryOfAttemptID = [] then Inr None
      else map_sum id Some (rs_ResolveAttemptSchedulingAuthority (svc_resolver s) salonID
             ownerUserID (TrimSpace retryOfAttemptID) w)] =
   resolvePersistedOperationAuthorityWithOrigin s salonID ownerUserID operationKey
     retryOfAttemptID persistedOrigin w"
proof -
  have *: "agree None [x, if b then Inr None else map_sum id Some y] =
      (case x of Inl e \<Rightarrow> Inl e | Inr found \<Rightarrow>
        if b then Inr found
        else (case y of Inl e \<Rightarrow> Inl e | Inr r \<Rightarrow>
          (case found of Some a \<Rightarrow> if a \<noteq> r then Inl ErrOperationConflict else Inr (Some r)
           | None \<Rightarrow> Inr (Some r))))" for x :: "error + string option" and b y
    by (cases b; cases x; cases y) (auto simp: agree_Inr split: option.splits)
  show ?thesis
    unfolding * resolvePersistedOperationAuthorityWithOrigin_def
      resolvePersistedOperationAuthority_def Let_def
    by (cases persistedOrigin) (auto split: sum.splits)
qed

lemma operationExecutor_agree:
  "operationExecutorWithResolvedEvidenceAndOrigin s salonID ownerUserID operationKey
     retryOfAttemptID targetAppointmentID resolvedTargetAuthority resolvedQuoteAuthority
     persistedOrigin w =
   (case agree None (durable_evidence s salonID ownerUserID operationKey retryOfAttemptID
           targetAppointmentID resolvedTargetAuthority resolvedQuoteAuthority persistedOrigin w) of
      Inl e \<Rightarrow> Inl e
    | Inr None \<Rightarrow> currentExecutor s salonID ownerUserID w
    | Inr (Some a) \<Rightarrow> executorForAuthority s a)"
proof -
  have "durable_evidence s salonID ownerUserID operationKey retryOfAttemptID
           targetAppointmentID resolvedTargetAuthority resolvedQuoteAuthority persistedOrigin w =
    take 2 (durable_evidence s salonID ownerUserID operationKey retryOfAttemptID
           targetAppointmentID resolvedTargetAuthority resolvedQuoteAuthority persistedOrigin w) @
    drop 2 (durable_evidence s salonID ownerUserID operationKey retryOfAttemptID
           targetAppointmentID resolvedTargetAuthority resolvedQuoteAuthority persistedOrigin w)"
    (is "?E = ?F @ ?G") by simp
  then have "agree None ?E = (case agree None ?F of Inl e \<Rightarrow> Inl e | Inr f \<Rightarrow> agree f ?G)"
    by (metis agree_append)
  also have "agree None ?F = resolvePersistedOperationAuthorityWithOrigin s salonID ownerUserID
      operationKey retryOfAttemptID persistedOrigin w"
    unfolding durable_evidence_def agree_origin_retry [symmetric]
    by (simp only: take_Suc_Cons take_0 numeral_2_eq_2)
  finally have E: "agree None ?E = (case resolvePersistedOperationAuthorityWithOrigin s salonID
      ownerUserID operationKey retryOfAttemptID persistedOrigin w of
        Inl e \<Rightarrow> Inl e | Inr f \<Rightarrow> agree f ?G)" .
  show ?thesis
    unfolding E operationExecutorWithResolvedEvidenceAndOrigin_def Let_def
    apply (cases "resolvePersistedOperationAuthorityWithOrigin s salonID ownerUserID operationKey
        retryOfAttemptID persistedOrigin w")
     apply simp
    apply (cases "rs_ResolveAppointmentSchedulingAuthority (svc_resolver s) salonID ownerUserID
        (TrimSpace targetAppointmentID) w")
    by (simp_all add: durable_evidence_def split: option.splits)
qed

section \<open>Dispatch\<close>

lemma NewService_executors:
  "svc_executors (NewService resolver executors) a = Some e \<Longrightarrow> Some e \<in> set executors"
proof -
  define step where "step = (\<lambda>registered executor. case executor of
      None \<Rightarrow> registered | Some e \<Rightarrow> registered(ex_SchedulingAuthority e \<mapsto> (e :: 'a Executor)))"
  have "m a = Some e \<or> Some e \<in> set executors" if "foldl step m executors a = Some e" for m
    using that
  proof (induction executors arbitrary: m)
    case (Cons x xs)
    then have "step m x a = Some e \<or> Some e \<in> set xs" by simp
    then show ?case by (auto simp: step_def split: option.splits if_splits)
  qed simp
  then show "svc_executors (NewService resolver executors) a = Some e \<Longrightarrow> Some e \<in> set executors"
    by (fastforce simp: NewService_def step_def [symmetric])
qed

lemma executor_of_new_service:
  assumes "executorForAuthority (NewService resolver executors) a = Inr ex"
  shows "Some ex \<in> set executors" and "ex_SchedulingAuthority ex = a"
    and "isKnownSchedulingAuthority a"
  using assms NewService_executors executorForAuthority_own [OF NewService_registered assms]
  by (auto simp: executorForAuthority_Inr)

lemma operationExecutor_evidence:
  assumes "operationExecutorWithResolvedEvidenceAndOrigin s salonID ownerUserID operationKey
     retryOfAttemptID targetAppointmentID resolvedTargetAuthority resolvedQuoteAuthority
     persistedOrigin w = Inr ex"
  shows "\<exists>a. executorForAuthority s a = Inr ex \<and>
    (\<forall>x \<in> set (durable_evidence s salonID ownerUserID operationKey retryOfAttemptID
        targetAppointmentID resolvedTargetAuthority resolvedQuoteAuthority persistedOrigin w).
      x = Inr None \<or> x = Inr (Some a))"
  using assms unfolding operationExecutor_agree
  by (auto simp: currentExecutor_def split: sum.splits option.splits
      dest!: agree_SomeD agree_NoneD)

lemma map_sum_eq_Inr: "map_sum id Some x = Inr y \<longleftrightarrow> (\<exists>a. x = Inr a \<and> y = Some a)"
  by (cases x) auto

text \<open>
  What an executor is asked to do once it has been chosen.
\<close>

definition run_action ::
  "'w Executor \<Rightarrow> string \<Rightarrow> string \<Rightarrow> ActionRequest \<Rightarrow> ('w, ActionResult option) call" where
  "run_action executor salonID ownerUserID req w =
     (case ex_Neutral executor of
        Some neutral \<Rightarrow> nx_ExecuteAction neutral salonID ownerUserID req w
      | None \<Rightarrow> executeLegacyAction executor salonID ownerUserID req w)"

lemma hydrate_shape:
  assumes "hydratePersistedRequestTarget s salonID ownerUserID req w = Inr (req', po)"
  shows "\<exists>a. req' = req\<lparr>req_TargetAuthority := a\<rparr>"
    and "rs_FindOperationSchedulingOrigin (svc_resolver s) salonID ownerUserID
           (TrimSpace (req_OperationKey req)) w = Inr po"
proof -
  have "req' = req \<or> (\<exists>a. req' = req\<lparr>req_TargetAuthority := a\<rparr>)"
    using assms unfolding hydratePersistedRequestTarget_def Let_def
    by (auto split: sum.splits option.splits if_splits)
  moreover have "req = req\<lparr>req_TargetAuthority := req_TargetAuthority req\<rparr>" by simp
  ultimately show "\<exists>a. req' = req\<lparr>req_TargetAuthority := a\<rparr>" by metis
  show "rs_FindOperationSchedulingOrigin (svc_resolver s) salonID ownerUserID
           (TrimSpace (req_OperationKey req)) w = Inr po"
    using assms unfolding hydratePersistedRequestTarget_def Let_def
    by (auto split: sum.splits option.splits if_splits)
qed

definition action_target :: "ActionRequest \<Rightarrow> string" where
  "action_target req =
     (if req_OperationType req = OperationKindBook then [] else req_TargetAppointmentID req)"

lemma ExecuteAction_dispatch:
  assumes "ExecuteAction s salonID ownerUserID req w = (r, w')"
    and "\<not> (\<exists>e. r = Inl e \<and> w' = w)"
  obtains a ex po tauth qauth where
    "rs_FindOperationSchedulingOrigin (svc_resolver s) salonID ownerUserID
       (TrimSpace (req_OperationKey req)) w = Inr po"
    "TrimSpace (action_target req) \<noteq> [] \<Longrightarrow>
       rs_ResolveAppointmentSchedulingAuthority (svc_resolver s) salonID ownerUserID
         (TrimSpace (action_target req)) w = Inr tauth"
    "TrimSpace (req_AvailabilityQuoteID req) \<noteq> [] \<Longrightarrow>
       rs_ResolveAvailabilityQuoteSchedulingAuthority (svc_resolver s) salonID ownerUserID
         (TrimSpace (req_AvailabilityQuoteID req)) w = Inr qauth"
    "operationExecutorWithResolvedEvidenceAndOrigin s salonID ownerUserID (req_OperationKey req)
       (req_RetryOfAttemptID req) (action_target req)
       tauth qauth po w = Inr ex"
    "run_action ex salonID ownerUserID (req\<lparr>req_TargetAuthority := a\<rparr>) w = (r, w')"
proof -
  obtain req1 po where h: "hydratePersistedRequestTarget s salonID ownerUserID req w = Inr (req1, po)"
    using assms by (cases "hydratePersistedRequestTarget s salonID ownerUserID req w")
      (auto simp: ExecuteAction_def)
  obtain b where req1: "req1 = req\<lparr>req_TargetAuthority := b\<rparr>" using hydrate_shape(1) [OF h] by blast
  have target: "(if req_OperationType req1 = OperationKindBook then Some []
       else if req_OperationType req1 = OperationKindReschedule
         \<or> req_OperationType req1 = OperationKindCancel
       then Some (req_TargetAppointmentID req1) else None) = Some (action_target req)"
    using assms h by (auto simp: ExecuteAction_def action_target_def req1 split: if_splits)
  note E = assms(1) [unfolded ExecuteAction_def h sum.case prod.case target option.case]
  define T where "T = (if TrimSpace (action_target req) \<noteq> []
      then (case rs_ResolveAppointmentSchedulingAuthority (svc_resolver s) salonID
                   ownerUserID (TrimSpace (action_target req)) w of
              Inl err \<Rightarrow> Inl err
            | Inr resolved \<Rightarrow>
                if req_TargetAuthority req1 \<noteq> [] \<and> req_TargetAuthority req1 \<noteq> resolved
                then Inl ErrOperationConflict
                else Inr (req1\<lparr>req_TargetAuthority := resolved\<rparr>, resolved))
      else Inr (req1, []))"
  note E = E [folded T_def]
  obtain req2 tauth where T: "T = Inr (req2, tauth)"
    using E assms(2) by (cases T) auto
  have t: "TrimSpace (action_target req) \<noteq> [] \<Longrightarrow>
       rs_ResolveAppointmentSchedulingAuthority (svc_resolver s) salonID ownerUserID
         (TrimSpace (action_target req)) w = Inr tauth"
    "TrimSpace (action_target req) = [] \<Longrightarrow> tauth = []"
    "\<exists>a. req2 = req\<lparr>req_TargetAuthority := a\<rparr>"
    using T unfolding T_def req1 by (auto split: sum.splits if_splits)
  then obtain a where req2: "req2 = req\<lparr>req_TargetAuthority := a\<rparr>" by blast
  define Q where "Q = (if TrimSpace (req_AvailabilityQuoteID req2) \<noteq> []
      then rs_ResolveAvailabilityQuoteSchedulingAuthority (svc_resolver s)
             salonID ownerUserID (TrimSpace (req_AvailabilityQuoteID req2)) w
      else Inr [])"
  note E = E [unfolded T sum.case prod.case, folded Q_def]
  obtain qauth where Q: "Q = Inr qauth" using E assms(2) by (cases Q) auto
  have q: "TrimSpace (req_AvailabilityQuoteID req) \<noteq> [] \<Longrightarrow>
       rs_ResolveAvailabilityQuoteSchedulingAuthority (svc_resolver s) salonID ownerUserID
         (TrimSpace (req_AvailabilityQuoteID req)) w = Inr qauth"
    "TrimSpace (req_AvailabilityQuoteID req) = [] \<Longrightarrow> qauth = []"
    using Q unfolding Q_def req2 by (auto split: if_splits)
  note E = E [unfolded Q sum.case]
  obtain ex where ex: "operationExecutorWithResolvedEvidenceAndOrigin s salonID ownerUserID
      (req_OperationKey req2) (req_RetryOfAttemptID req2) (action_target req) tauth qauth po w
      = Inr ex"
    using E assms(2) by (cases "operationExecutorWithResolvedEvidenceAndOrigin s salonID
      ownerUserID (req_OperationKey req2) (req_RetryOfAttemptID req2) (action_target req) tauth
      qauth po w") auto
  have run: "run_action ex salonID ownerUserID req2 w = (r, w')"
    using E unfolding ex by (simp add: run_action_def)
  have ex': "operationExecutorWithResolvedEvidenceAndOrigin s salonID ownerUserID
      (req_OperationKey req) (req_RetryOfAttemptID req) (action_target req) tauth qauth po w
      = Inr ex"
    using ex by (simp add: req2)
  show thesis
    by (rule that [OF hydrate_shape(2) [OF h] t(1) q(1) ex' run [unfolded req2]])
qed

text \<open>
  C28: A neutral action either fails without touching the world, or it is run by a registered
  executor whose authority is the one named by every piece of durable evidence of the operation:
  the persisted origin of its operation key, its retry lineage, its target appointment and its
  availability quote. The request reaches the executor unchanged but for its target authority.
\<close>

theorem ExecuteAction_routing:
  assumes "ExecuteAction (NewService resolver executors) salonID ownerUserID req w = (r, w')"
  shows "(\<exists>e. r = Inl e \<and> w' = w) \<or>
    (\<exists>ex a. Some ex \<in> set executors \<and>
       run_action ex salonID ownerUserID (req\<lparr>req_TargetAuthority := a\<rparr>) w = (r, w') \<and>
       (\<forall>origin. rs_FindOperationSchedulingOrigin resolver salonID ownerUserID
            (TrimSpace (req_OperationKey req)) w = Inr (Some origin) \<longrightarrow>
          poo_SchedulingAuthority origin = ex_SchedulingAuthority ex) \<and>
       (TrimSpace (req_RetryOfAttemptID req) \<noteq> [] \<longrightarrow>
          rs_ResolveAttemptSchedulingAuthority resolver salonID ownerUserID
            (TrimSpace (req_RetryOfAttemptID req)) w = Inr (ex_SchedulingAuthority ex)) \<and>
       (TrimSpace (action_target req) \<noteq> [] \<longrightarrow>
          rs_ResolveAppointmentSchedulingAuthority resolver salonID ownerUserID
            (TrimSpace (action_target req)) w = Inr (ex_SchedulingAuthority ex)) \<and>
       (TrimSpace (req_AvailabilityQuoteID req) \<noteq> [] \<longrightarrow>
          rs_ResolveAvailabilityQuoteSchedulingAuthority resolver salonID ownerUserID
            (TrimSpace (req_AvailabilityQuoteID req)) w
          \<in> {Inr (ex_SchedulingAuthority ex), Inr []}))"
proof (cases "\<exists>e. r = Inl e \<and> w' = w")
  case False
  obtain a ex po tauth qauth where f:
    "rs_FindOperationSchedulingOrigin resolver salonID ownerUserID
       (TrimSpace (req_OperationKey req)) w = Inr po"
    "TrimSpace (action_target req) \<noteq> [] \<Longrightarrow>
       rs_ResolveAppointmentSchedulingAuthority resolver salonID ownerUserID
         (TrimSpace (action_target req)) w = Inr tauth"
    "TrimSpace (req_AvailabilityQuoteID req) \<noteq> [] \<Longrightarrow>
       rs_ResolveAvailabilityQuoteSchedulingAuthority resolver salonID ownerUserID
         (TrimSpace (req_AvailabilityQuoteID req)) w = Inr qauth"
    "operationExecutorWithResolvedEvidenceAndOrigin (NewService resolver executors) salonID
       ownerUserID (req_OperationKey req) (req_RetryOfAttemptID req) (action_target req)
       tauth qauth po w = Inr ex"
    "run_action ex salonID ownerUserID (req\<lparr>req_TargetAuthority := a\<rparr>) w = (r, w')"
    using ExecuteAction_dispatch [OF assms False] unfolding NewService_resolver by metis
  obtain b where b: "executorForAuthority (NewService resolver executors) b = Inr ex"
    and all: "\<forall>x \<in> set (durable_evidence (NewService resolver executors) salonID ownerUserID
      (req_OperationKey req) (req_RetryOfAttemptID req) (action_target req) tauth qauth po w).
      x = Inr None \<or> x = Inr (Some b)"
    using operationExecutor_evidence [OF f(4)] by blast
  note b = executor_of_new_service [OF b]
  have e: "po = Some origin \<Longrightarrow> poo_SchedulingAuthority origin = b"
    "TrimSpace (req_RetryOfAttemptID req) \<noteq> [] \<Longrightarrow>
       rs_ResolveAttemptSchedulingAuthority resolver salonID ownerUserID
         (TrimSpace (req_RetryOfAttemptID req)) w = Inr b"
    "TrimSpace (action_target req) \<noteq> [] \<Longrightarrow> tauth = b"
    "qauth = b \<or> qauth = []" for origin
    using all f(2) unfolding durable_evidence_def NewService_resolver
    by (auto simp: map_sum_eq_Inr split: if_splits)
  show ?thesis
    using f(1,2,3,5) b e by (intro disjI2 exI [of _ ex] exI [of _ a]) auto
qed simp

section \<open>The contract of an executor\<close>

text \<open>
  What the facade's callers rely on of a neutral executor: whatever it answers carries its own
  authority and the kind of result that authority produces. The lemma lifts this to the facade: an
  operation that an executor of this contract runs returns a result of that authority and kind.
\<close>

locale neutral_executor =
  fixes authority :: string
    and kind :: string
    and execute :: "string \<Rightarrow> string \<Rightarrow> ActionRequest \<Rightarrow> ('w, ActionResult option) call"
  assumes answers:
    "execute salonID ownerUserID req w = (Inr x, w')
       \<Longrightarrow> \<exists>r. x = Some r \<and> act_Kind r = kind \<and> act_SchedulingAuthority r = authority"
begin

lemma run_action_answers:
  assumes "run_action ex salonID ownerUserID req w = (Inr x, w')"
    and "ex_Neutral ex = Some neutral" and "nx_ExecuteAction neutral = execute"
  shows "\<exists>r. x = Some r \<and> act_Kind r = kind \<and> act_SchedulingAuthority r = authority"
  using answers [of salonID ownerUserID req w x w'] assms by (simp add: run_action_def)

end

lemma ExecuteAction_runs:
  assumes "ExecuteAction (NewService resolver executors) salonID ownerUserID req w = (Inr x, w')"
  obtains ex a where "Some ex \<in> set executors"
    "run_action ex salonID ownerUserID (req\<lparr>req_TargetAuthority := a\<rparr>) w = (Inr x, w')"
    "TrimSpace (action_target req) \<noteq> [] \<Longrightarrow>
       rs_ResolveAppointmentSchedulingAuthority resolver salonID ownerUserID
         (TrimSpace (action_target req)) w = Inr (ex_SchedulingAuthority ex)"
proof -
  have ok: "\<not> (\<exists>e. Inr x = Inl e \<and> w' = w)" by simp
  obtain a ex po tauth qauth where f:
    "rs_FindOperationSchedulingOrigin resolver salonID ownerUserID
       (TrimSpace (req_OperationKey req)) w = Inr po"
    "TrimSpace (action_target req) \<noteq> [] \<Longrightarrow>
       rs_ResolveAppointmentSchedulingAuthority resolver salonID ownerUserID
         (TrimSpace (action_target req)) w = Inr tauth"
    "TrimSpace (req_AvailabilityQuoteID req) \<noteq> [] \<Longrightarrow>
       rs_ResolveAvailabilityQuoteSchedulingAuthority resolver salonID ownerUserID
         (TrimSpace (req_AvailabilityQuoteID req)) w = Inr qauth"
    "operationExecutorWithResolvedEvidenceAndOrigin (NewService resolver executors) salonID
       ownerUserID (req_OperationKey req) (req_RetryOfAttemptID req) (action_target req)
       tauth qauth po w = Inr ex"
    "run_action ex salonID ownerUserID (req\<lparr>req_TargetAuthority := a\<rparr>) w = (Inr x, w')"
    using ExecuteAction_dispatch [OF assms ok] unfolding NewService_resolver by metis
  obtain b where b: "executorForAuthority (NewService resolver executors) b = Inr ex"
    and all: "\<forall>x \<in> set (durable_evidence (NewService resolver executors) salonID ownerUserID
      (req_OperationKey req) (req_RetryOfAttemptID req) (action_target req) tauth qauth po w).
      x = Inr None \<or> x = Inr (Some b)"
    using operationExecutor_evidence [OF f(4)] by blast
  note b = executor_of_new_service [OF b]
  have "TrimSpace (action_target req) \<noteq> [] \<Longrightarrow> tauth = b"
    using all f(2) unfolding durable_evidence_def NewService_resolver
    by (auto simp: map_sum_eq_Inr split: if_splits)
  then show thesis using that [OF b(1) f(5)] f(2) b(2) by simp
qed

section \<open>Conversation actions\<close>

lemma hydrate_fresh:
  "rs_FindOperationSchedulingOrigin (svc_resolver s) salonID ownerUserID
     (TrimSpace (req_OperationKey req)) w = Inr None \<Longrightarrow>
   hydratePersistedRequestTarget s salonID ownerUserID req w = Inr (req, None)"
  by (simp add: hydratePersistedRequestTarget_def)

lemma hydrate_cong:
  assumes "\<And>k. rs_FindOperationSchedulingOrigin (svc_resolver s) salonID ownerUserID k w =
      rs_FindOperationSchedulingOrigin (svc_resolver s') salonID ownerUserID k w"
  shows "hydratePersistedRequestTarget s salonID ownerUserID req w =
    hydratePersistedRequestTarget s' salonID ownerUserID req w"
  unfolding hydratePersistedRequestTarget_def assms ..

text \<open>
  The authority a fresh conversation request is about: that of its target appointment, or else
  the one the policy selects.
\<close>

definition review_target ::
  "'w AuthorityResolver \<Rightarrow> string \<Rightarrow> string \<Rightarrow> ConversationPolicyFence \<Rightarrow> ActionRequest \<Rightarrow> 'w
     \<Rightarrow> error + string" where
  "review_target resolver salonID ownerUserID policy req w =
     (if TrimSpace (req_TargetAppointmentID req) \<noteq> []
      then (case rs_ResolveAppointmentSchedulingAuthority resolver salonID ownerUserID
                   (TrimSpace (req_TargetAppointmentID req)) w of
              Inl err \<Rightarrow> Inl err
            | Inr a \<Rightarrow> if req_TargetAuthority req \<notin> {[], a} then Inl ErrOperationConflict else Inr a)
      else Inr (cpf_SchedulingAuthority policy))"

text \<open>
  A conversation action that was never persisted follows the reviewed policy exactly: a
  disabled salon is refused with no call, pending approval reaches only the owner-manual executor,
  with the retry, quote, slot and version proof stripped and the target authority recorded, and a
  confirming mode executes the request as it is.
\<close>

theorem fresh_conversation_action:
  assumes fresh: "rs_FindOperationSchedulingOrigin resolver salonID ownerUserID
      (TrimSpace (req_OperationKey req)) w = Inr None"
    and policy: "rs_ResolveConversationSchedulingPolicy resolver salonID ownerUserID w = Inr policy"
    and behavior: "ConversationBehavior policy = Inr b"
    and reviewed: "cpf_BookingMode reviewed = cpf_BookingMode policy"
      "TrimSpace (cpf_SchedulingAuthority reviewed) = cpf_SchedulingAuthority policy"
  shows "ExecuteConversationAction (NewService resolver executors) salonID ownerUserID reviewed req w =
    (if b = ConversationSchedulingBehaviorDisabled then (Inl ErrConversationSchedulingDisabled, w)
     else if b = ConversationSchedulingBehaviorOwnerReview then
       (case review_target resolver salonID ownerUserID policy req w of
          Inl err \<Rightarrow> (Inl err, w)
        | Inr target \<Rightarrow>
            (case svc_executors (NewService resolver executors) SchedulingAuthorityOwnerManual of
               Some ex \<Rightarrow>
                 (case ex_Neutral ex of
                    Some neutral \<Rightarrow> nx_ExecuteAction neutral salonID ownerUserID
                      (req\<lparr>req_RetryOfAttemptID := [], req_AvailabilityQuoteID := [],
                           req_SlotFingerprint := [],
                           req_ExpectedTargetAuthorityAppointmentVersion := 0,
                           req_TargetAuthority := target\<rparr>) w
                  | None \<Rightarrow> (Inl (AuthorityNotReadyError SchedulingAuthorityOwnerManual), w))
             | None \<Rightarrow> (Inl (AuthorityNotReadyError SchedulingAuthorityOwnerManual), w)))
     else ExecuteAction (NewService resolver executors) salonID ownerUserID req w)"
proof -
  let ?s = "NewService resolver executors"
  have h: "hydratePersistedRequestTarget ?s salonID ownerUserID req w = Inr (req, None)"
    by (rule hydrate_fresh) (simp add: fresh)
  have v: "validateConversationPolicy policy = None"
    by (simp add: validateConversationPolicy_def behavior)
  have b: "b = ConversationSchedulingBehaviorDisabled \<longleftrightarrow> cpf_BookingMode policy = BookingModeDisabled"
    "b = ConversationSchedulingBehaviorOwnerReview \<longleftrightarrow>
       cpf_BookingMode policy = BookingModePendingApproval"
    using behavior by (auto simp: ConversationBehavior_def AllowedConversationBookingModes_def
        Let_def go_consts split: if_splits)
  note unfolded = ExecuteConversationAction_def h sum.case prod.case option.case
    NewService_resolver policy v reviewed Let_def if_False HOL.simp_thms
  consider (disabled) "cpf_BookingMode policy = BookingModeDisabled"
    | (pending) "cpf_BookingMode policy = BookingModePendingApproval"
    | (confirmed) "cpf_BookingMode policy = BookingModeConfirmedBooking"
    using ConversationBehavior_mode(1) [OF behavior] by auto
  then show ?thesis
  proof cases
    case pending
    then show ?thesis
      unfolding b unfolded review_target_def
      by (auto simp: pending_request_def executorForAuthority_def split: sum.splits option.splits)
  qed (unfold b unfolded, simp_all)
qed

text \<open>
  Conversation actions are replay-first: once an operation key has a persisted origin, the
  outcome depends neither on the reviewed fence nor on the salon's current policy or authority.
\<close>

theorem conversation_replay_ignores_policy:
  assumes "rs_FindOperationSchedulingOrigin resolver salonID ownerUserID
      (TrimSpace (req_OperationKey req)) w = Inr (Some origin)"
  shows "ExecuteConversationAction
      (NewService (resolver\<lparr>rs_ResolveConversationSchedulingPolicy := policy,
                            rs_ResolveSchedulingAuthority := current\<rparr>) executors)
      salonID ownerUserID reviewed req w =
    ExecuteConversationAction (NewService resolver executors) salonID ownerUserID reviewed' req w"
proof -
  let ?s = "NewService resolver executors"
  let ?s' = "NewService (resolver\<lparr>rs_ResolveConversationSchedulingPolicy := policy,
                            rs_ResolveSchedulingAuthority := current\<rparr>) executors"
  have hyd: "hydratePersistedRequestTarget ?s' salonID ownerUserID q w =
      hydratePersistedRequestTarget ?s salonID ownerUserID q w" for q
    by (rule hydrate_cong) simp
  have fields: "rs_ResolveAppointmentSchedulingAuthority
        (resolver\<lparr>rs_ResolveConversationSchedulingPolicy := policy,
                  rs_ResolveSchedulingAuthority := current\<rparr>) =
        rs_ResolveAppointmentSchedulingAuthority resolver"
    "rs_ResolveAvailabilityQuoteSchedulingAuthority
        (resolver\<lparr>rs_ResolveConversationSchedulingPolicy := policy,
                  rs_ResolveSchedulingAuthority := current\<rparr>) =
        rs_ResolveAvailabilityQuoteSchedulingAuthority resolver"
    by simp_all
  have same: "executorForAuthority ?s' a = executorForAuthority ?s a" for a
    by (simp add: executorForAuthority_def NewService_def)
  have op: "operationExecutorWithResolvedEvidenceAndOrigin ?s' salonID ownerUserID k rt t ta qa
        (Some o') w =
      operationExecutorWithResolvedEvidenceAndOrigin ?s salonID ownerUserID k rt t ta qa
        (Some o') w" for k rt t ta qa o'
  proof -
    have ev: "durable_evidence ?s' salonID ownerUserID k rt t ta qa (Some o') w =
        durable_evidence ?s salonID ownerUserID k rt t ta qa (Some o') w"
      by (simp add: durable_evidence_def)
    have "agree None (durable_evidence ?s salonID ownerUserID k rt t ta qa (Some o') w) \<noteq> Inr None"
      using agree_NoneD [of None "durable_evidence ?s salonID ownerUserID k rt t ta qa (Some o') w"]
      by (auto simp: durable_evidence_def)
    then show ?thesis
      unfolding operationExecutor_agree ev same by (simp split: sum.splits option.splits)
  qed
  have act: "ExecuteAction ?s' salonID ownerUserID q w = ExecuteAction ?s salonID ownerUserID q w"
    if "hydratePersistedRequestTarget ?s salonID ownerUserID q w = Inr (q', Some o')" for q q' o'
    unfolding ExecuteAction_def hyd that sum.case prod.case op NewService_resolver fields ..
  show ?thesis
  proof (cases "hydratePersistedRequestTarget ?s salonID ownerUserID req w")
    case (Inr p)
    obtain q po where p: "p = (q, po)" by (cases p)
    have po: "po = Some origin" using hydrate_shape(2) [OF Inr [unfolded p]] assms by simp
    obtain a where q: "q = req\<lparr>req_TargetAuthority := a\<rparr>"
      using hydrate_shape(1) [OF Inr [unfolded p]] by blast
    have "ExecuteAction ?s' salonID ownerUserID q w = ExecuteAction ?s salonID ownerUserID q w"
    proof (cases "hydratePersistedRequestTarget ?s salonID ownerUserID q w")
      case (Inl e)
      then show ?thesis by (simp add: ExecuteAction_def hyd)
    next
      case (Inr p')
      obtain q' po' where p': "p' = (q', po')" by (cases p')
      have "po' = Some origin" using hydrate_shape(2) [OF Inr [unfolded p']] assms by (simp add: q)
      then show ?thesis using act [of q q' origin] Inr p' by simp
    qed
    then show ?thesis by (simp add: ExecuteConversationAction_def hyd Inr p po)
  qed (simp add: ExecuteConversationAction_def hyd)
qed


text \<open>
  A reschedule or cancel request that was stored for owner review while its target
  appointment belongs to another authority cannot be replayed: its own stored target authority is
  compared with the owner-manual origin and the replay is refused as a conflict.
\<close>

theorem owner_review_replay_conflicts:
  assumes origin: "rs_FindOperationSchedulingOrigin resolver salonID ownerUserID
      (TrimSpace (req_OperationKey req)) w = Inr (Some origin)"
    and review: "poo_SchedulingRequest origin"
      "poo_SchedulingAuthority origin = SchedulingAuthorityOwnerManual"
      "poo_RequestTargetAuthorityPresent origin" "poo_RequestTargetAuthority origin = a"
    and request: "req_OperationType req \<in> {OperationKindReschedule, OperationKindCancel}"
      "TrimSpace (req_TargetAppointmentID req) \<noteq> []" "TrimSpace (req_TargetAuthority req) \<in> {[], a}"
      "TrimSpace (req_RetryOfAttemptID req) = []" "TrimSpace (req_AvailabilityQuoteID req) = []"
    and target: "rs_ResolveAppointmentSchedulingAuthority resolver salonID ownerUserID
      (TrimSpace (req_TargetAppointmentID req)) w = Inr a"
      "a \<noteq> SchedulingAuthorityOwnerManual" "a \<noteq> []" "TrimSpace a = a"
  shows "ExecuteConversationAction (NewService resolver executors) salonID ownerUserID reviewed req w
    = (Inl ErrOperationConflict, w)"
proof -
  let ?s = "NewService resolver executors"
  let ?q = "req\<lparr>req_TargetAuthority := a\<rparr>"
  have h: "hydratePersistedRequestTarget ?s salonID ownerUserID req w = Inr (?q, Some origin)"
    "hydratePersistedRequestTarget ?s salonID ownerUserID ?q w = Inr (?q, Some origin)"
    using origin review request target by (auto simp: hydratePersistedRequestTarget_def Let_def)
  have op: "req_OperationType req \<noteq> OperationKindBook"
    using request(1) by (auto simp: go_consts)
  have ev: "operationExecutorWithResolvedEvidenceAndOrigin ?s salonID ownerUserID
      (req_OperationKey req) (req_RetryOfAttemptID req) (req_TargetAppointmentID req) a []
      (Some origin) w = Inl ErrOperationConflict"
    using review request target by (simp add: operationExecutor_agree durable_evidence_def)
  have "ExecuteAction ?s salonID ownerUserID ?q w = (Inl ErrOperationConflict, w)"
    unfolding ExecuteAction_def h sum.case prod.case
    using op request target ev by auto
  then show ?thesis by (simp add: ExecuteConversationAction_def h)
qed

section \<open>External confirmations\<close>

text \<open>
  The specification of a result of the external provider: it either carries an appointment with
  complete and consistent provider evidence, in the status the operation promises, or it names
  the pending attempt and confirms nothing.
\<close>

definition provider_evidence :: "Appointment \<Rightarrow> bool" where
  "provider_evidence a \<longleftrightarrow>
     TrimSpace (appt_ID a) \<noteq> [] \<and>
     appt_SchedulingAuthority a = SchedulingAuthorityExternalProvider \<and>
     TrimSpace (appt_AuthorityProvider a) \<noteq> [] \<and> TrimSpace (appt_AuthorityAppointmentID a) \<noteq> [] \<and>
     0 \<le> appt_AuthorityAppointmentVersion a \<and>
     TrimSpace (appt_POSProvider a) \<noteq> [] \<and> TrimSpace (appt_POSAppointmentID a) \<noteq> [] \<and>
     0 \<le> appt_POSAppointmentVersion a"

definition promised_status :: "string \<Rightarrow> string" where
  "promised_status operation =
     (if operation = OperationKindBook then StatusConfirmed
      else if operation = OperationKindCancel then StatusCancelled else StatusRescheduled)"

definition external_result_ok :: "string \<Rightarrow> ActionResult \<Rightarrow> bool" where
  "external_result_ok operation r \<longleftrightarrow>
     act_OperationType r = operation \<and>
     act_SchedulingAuthority r = SchedulingAuthorityExternalProvider \<and>
     act_PendingOwnerReview r = None \<and>
     (case (act_ConfirmedAppointment r, act_ExternalFallbackPending r) of
        (Some c, None) \<Rightarrow>
          act_Kind r = ActionKindConfirmedAppointment \<and>
          (case car_Appointment c of
             None \<Rightarrow> False
           | Some a \<Rightarrow> provider_evidence a \<and> appt_Status a = promised_status operation \<and>
               car_AppointmentID c = appt_ID a \<and> car_AppointmentStatus c = appt_Status a \<and>
               (appt_Status a = StatusCancelled \<longrightarrow> car_ActiveChildCount c = 0))
      | (None, Some f) \<Rightarrow>
          act_Kind r = ActionKindExternalFallbackPending \<and>
          TrimSpace (efp_ExternalAttemptID f) \<noteq> [] \<and>
          (case efp_ExternalAttempt f of
             None \<Rightarrow> False
           | Some t \<Rightarrow> efp_ExternalAttemptID f = ba_ID t \<and> is_pending_status (ba_Status t) \<and>
               ba_SchedulingAuthority t = SchedulingAuthorityExternalProvider)
      | _ \<Rightarrow> False)"

lemma external_fallback_ok:
  "TrimSpace (ba_ID t) \<noteq> [] \<Longrightarrow> is_pending_status (ba_Status t)
    \<Longrightarrow> ba_SchedulingAuthority t = SchedulingAuthorityExternalProvider
    \<Longrightarrow> external_result_ok operation (external_fallback_result operation t)"
  by (simp add: external_result_ok_def external_fallback_result_def zero_ActionResult_def)

lemma guarded_Inr: "(if c then Inl e else Inr y) = Inr x \<longleftrightarrow> \<not> c \<and> x = y"
  by auto

lemma external_attempt_ok:
  assumes "actionResultFromExternalAttempt OperationKindBook attempt = Inr x"
  shows "\<exists>r. x = Some r \<and> external_result_ok OperationKindBook r"
proof -
  obtain t where t: "attempt = Some t"
    using assms by (cases attempt) (auto simp: actionResultFromExternalAttempt_def)
  note A = assms [unfolded actionResultFromExternalAttempt_def t option.case]
  show ?thesis
  proof (cases "is_pending_status (ba_Status t)")
    case True
    then show ?thesis using A external_fallback_ok by (auto split: if_splits)
  next
    case False
    then obtain a where a: "ba_Appointment t = Some a"
      using A by (cases "ba_Appointment t") auto
    have "provider_evidence a \<and> appt_Status a = StatusConfirmed \<and>
        x = Some (zero_ActionResult\<lparr>act_Kind := ActionKindConfirmedAppointment,
          act_OperationType := OperationKindBook,
          act_SchedulingAuthority := SchedulingAuthorityExternalProvider,
          act_ConfirmedAppointment := Some (zero_ConfirmedAppointmentResult\<lparr>
            car_AppointmentID := appt_ID a, car_ExternalAttemptID := ba_ID t,
            car_AppointmentStatus := appt_Status a,
            car_ActiveChildCount := appointmentActiveChildCount (Some a),
            car_Appointment := Some a, car_ExternalAttempt := Some t\<rparr>)\<rparr>)"
      using A unfolding a option.case if_not_P [OF False] guarded_Inr de_Morgan_disj not_not not_less
        provider_evidence_def by (elim conjE, intro conjI) assumption+
    then show ?thesis
      by (simp add: external_result_ok_def zero_ActionResult_def promised_status_def
          zero_ConfirmedAppointmentResult_def appointmentActiveChildCount_def)
  qed
qed

lemma external_mutation_ok:
  assumes "actionResultFromExternalMutation operation appointment fallback = Inr x"
    and "operation \<noteq> OperationKindBook"
  shows "\<exists>r. x = Some r \<and> external_result_ok operation r"
proof (cases fallback)
  case (Some t)
  then show ?thesis
    using assms unfolding actionResultFromExternalMutation_def
    by (auto simp: external_fallback_ok split: if_splits)
next
  case None
  then obtain a where a: "appointment = Some a"
    using assms(1) by (cases appointment) (auto simp: actionResultFromExternalMutation_def Let_def)
  have status: "(if operation = OperationKindCancel then StatusCancelled else StatusRescheduled) =
      promised_status operation"
    using assms(2) by (simp add: promised_status_def)
  have "provider_evidence a \<and> appt_Status a = promised_status operation \<and>
      x = Some (zero_ActionResult\<lparr>act_Kind := ActionKindConfirmedAppointment,
        act_OperationType := operation,
        act_SchedulingAuthority := SchedulingAuthorityExternalProvider,
        act_ConfirmedAppointment := Some (zero_ConfirmedAppointmentResult\<lparr>
          car_AppointmentID := appt_ID a, car_AppointmentStatus := appt_Status a,
          car_ActiveChildCount := appointmentActiveChildCount (Some a),
          car_Appointment := Some a\<rparr>)\<rparr>)"
    using assms(1) [unfolded actionResultFromExternalMutation_def None a option.case Let_def status
        guarded_Inr de_Morgan_disj not_not not_less]
    unfolding provider_evidence_def by (elim conjE, intro conjI) assumption+
  then show ?thesis
    by (simp add: external_result_ok_def zero_ActionResult_def
        zero_ConfirmedAppointmentResult_def appointmentActiveChildCount_def)
qed

lemma legacy_action_ok:
  assumes "executeLegacyAction executor salonID ownerUserID req w = (Inr x, w')"
  shows "\<exists>r. x = Some r \<and> external_result_ok (req_OperationType req) r"
  using assms external_attempt_ok external_mutation_ok
  unfolding executeLegacyAction_def
  by (auto split: option.splits sum.splits if_splits prod.splits; metis)

text \<open>
  C29: A result the legacy adapter returns for the external provider is either a confirmation
  that carries complete provider evidence in the status the operation promises, or a pending
  attempt that confirms nothing.
\<close>

theorem external_confirmation_evidence:
  assumes "executeLegacyAction executor salonID ownerUserID req w = (Inr x, w')"
  shows "\<exists>r. x = Some r \<and> external_result_ok (req_OperationType req) r"
  using assms by (rule legacy_action_ok)

text \<open>
  The authority that \<open>ResolveCreateSchedulingAuthority\<close> reports for a create is the one
  whose executor \<open>Create\<close> then uses.
\<close>

theorem ResolveCreateSchedulingAuthority_predicts_Create:
  assumes "ResolveCreateSchedulingAuthority s salonID ownerUserID (cbr_OperationKey req)
      (cbr_RetryOfAttemptID req) w = Inr authority"
  shows "Create s salonID ownerUserID req w =
    (case svc_executors s authority of
       None \<Rightarrow> (Inl (AuthorityNotReadyError authority), w)
     | Some ex \<Rightarrow>
         (case ex_Legacy ex of
            None \<Rightarrow> (Inl (AuthorityNotReadyError (ex_SchedulingAuthority ex)), w)
          | Some legacy \<Rightarrow> lx_Create legacy salonID ownerUserID req w))"
proof -
  have known: "isKnownSchedulingAuthority authority"
    using assms by (auto simp: ResolveCreateSchedulingAuthority_def CurrentSchedulingAuthority_def
        split: sum.splits option.splits if_splits)
  have "operationExecutor s salonID ownerUserID (cbr_OperationKey req) (cbr_RetryOfAttemptID req) [] w
      = executorForAuthority s authority"
    using assms
    by (auto simp: operationExecutor_def operationExecutorWithResolvedTarget_def
        operationExecutorWithResolvedEvidence_def operationExecutorWithResolvedEvidenceAndOrigin_def
        resolvePersistedOperationAuthorityWithOrigin_def ResolveCreateSchedulingAuthority_def
        currentExecutor_def Let_def split: sum.splits option.splits if_splits)
  then show ?thesis
    using known by (auto simp: Create_def executorForAuthority_def legacyExecutor_def
        split: option.splits)
qed
section \<open>Concrete services\<close>

text \<open>
  A small world for evaluation: the state counts executor calls, every evidence resolves to the
  ManleAI calendar, and the salon's policy is a parameter.
\<close>

definition sample_resolver ::
  "PersistedOperationOrigin option \<Rightarrow> ConversationPolicyFence \<Rightarrow> nat AuthorityResolver" where
  "sample_resolver origin policy =
     \<lparr>rs_ResolveSchedulingAuthority = \<lambda>_ _ _. Inr (cpf_SchedulingAuthority policy),
      rs_ResolveConversationSchedulingPolicy = \<lambda>_ _ _. Inr policy,
      rs_ResolveAvailabilityQuoteSchedulingAuthority =
        \<lambda>_ _ _ _. Inr SchedulingAuthorityManleAICalendar,
      rs_FindOperationSchedulingAuthority =
        \<lambda>_ _ _ _. Inr (map_option poo_SchedulingAuthority origin),
      rs_FindOperationSchedulingOrigin = \<lambda>_ _ _ _. Inr origin,
      rs_ResolveAttemptSchedulingAuthority = \<lambda>_ _ _ _. Inr SchedulingAuthorityManleAICalendar,
      rs_ResolveAppointmentSchedulingAuthority =
        \<lambda>_ _ _ _. Inr SchedulingAuthorityManleAICalendar,
      rs_ResolveAvailabilityRetrySchedulingAuthority = None\<rparr>"

definition sample_executor :: "string \<Rightarrow> nat Executor" where
  "sample_executor authority =
     \<lparr>ex_SchedulingAuthority = authority, ex_Legacy = None,
      ex_Neutral = Some \<lparr>nx_CheckAvailability = \<lambda>_ _ _ w. (Inr None, Suc w),
        nx_ExecuteAction = \<lambda>_ _ req w.
          (Inr (Some (zero_ActionResult\<lparr>act_OperationType := req_OperationType req,
             act_SchedulingAuthority := authority\<rparr>)), Suc w)\<rparr>\<rparr>"

definition sample_request :: "string \<Rightarrow> ActionRequest" where
  "sample_request operation =
     \<lparr>req_OperationType = operation, req_OperationKey = ''op-1'', req_RetryOfAttemptID = [],
      req_AvailabilityQuoteID = [], req_SlotFingerprint = [], req_Source = [],
      req_CallSessionID = [], req_CustomerName = ''Mai'', req_CustomerPhone = ''+12125550100'',
      req_CustomerEmail = [], req_Segments = [], req_RequestedStartTime = 0,
      req_RequestedEndTime = 0, req_RequestedTimezone = [], req_PartySize = 1, req_Notes = [],
      req_TargetAppointmentID = ''appt-7'', req_TargetAuthority = [],
      req_ExpectedTargetAuthorityAppointmentVersion = 0, req_TargetDescription = []\<rparr>"

definition calendar_policy :: "string \<Rightarrow> ConversationPolicyFence" where
  "calendar_policy mode =
     \<lparr>cpf_BookingMode = mode, cpf_SchedulingAuthority = SchedulingAuthorityManleAICalendar\<rparr>"

definition review_origin :: PersistedOperationOrigin where
  "review_origin =
     \<lparr>poo_SchedulingAuthority = SchedulingAuthorityOwnerManual, poo_SchedulingRequest = True,
      poo_RequestTargetAuthority = SchedulingAuthorityManleAICalendar,
      poo_RequestTargetAuthorityPresent = True\<rparr>"

definition sample_executors :: "nat Executor option list" where
  "sample_executors =
     [Some (sample_executor SchedulingAuthorityManleAICalendar), None,
      Some (sample_executor SchedulingAuthorityOwnerManual)]"

lemma sample_trims:
  "TrimSpace ''appt-7'' = ''appt-7''" "TrimSpace ''op-1'' = ''op-1''"
  "TrimSpace SchedulingAuthorityManleAICalendar = SchedulingAuthorityManleAICalendar"
  by code_simp+

theorem ExecuteAction_routing_witness:
  "snd (ExecuteAction (NewService (sample_resolver None (calendar_policy BookingModeConfirmedBooking))
     sample_executors) ''salon'' ''owner'' (sample_request OperationKindReschedule) 0) = 1
   \<and> (\<exists>ex. Some ex \<in> set sample_executors
        \<and> ex_SchedulingAuthority ex = SchedulingAuthorityManleAICalendar)"
proof -
  let ?rv = "sample_resolver None (calendar_policy BookingModeConfirmedBooking)"
  let ?q = "sample_request OperationKindReschedule"
  have run: "snd (ExecuteAction (NewService ?rv sample_executors) ''salon'' ''owner'' ?q 0) = 1"
    by code_simp
  obtain r where "ExecuteAction (NewService ?rv sample_executors) ''salon'' ''owner'' ?q 0 = (r, 1)"
    using run by (metis prod.collapse)
  from ExecuteAction_routing [OF this]
  obtain ex where "Some ex \<in> set sample_executors"
    and "TrimSpace (action_target ?q) \<noteq> [] \<longrightarrow>
      rs_ResolveAppointmentSchedulingAuthority ?rv ''salon'' ''owner''
        (TrimSpace (action_target ?q)) 0 = Inr (ex_SchedulingAuthority ex)"
    by auto
  moreover have "TrimSpace (action_target ?q) \<noteq> []" by code_simp
  ultimately show ?thesis using run by (auto simp: sample_resolver_def)
qed

theorem fresh_conversation_action_witness:
  "ExecuteConversationAction
     (NewService (sample_resolver None (calendar_policy BookingModeDisabled)) sample_executors)
     ''salon'' ''owner'' (calendar_policy BookingModeDisabled) (sample_request OperationKindBook) 0
   = (Inl ErrConversationSchedulingDisabled, 0)"
  using fresh_conversation_action [of "sample_resolver None (calendar_policy BookingModeDisabled)"
      "''salon''" "''owner''" "sample_request OperationKindBook" 0
      "calendar_policy BookingModeDisabled" ConversationSchedulingBehaviorDisabled
      "calendar_policy BookingModeDisabled" sample_executors]
  by (simp add: sample_resolver_def calendar_policy_def sample_trims ConversationBehavior_def
      AllowedConversationBookingModes_def)

theorem conversation_replay_ignores_policy_witness:
  "ExecuteConversationAction (NewService ((sample_resolver (Some review_origin)
       (calendar_policy BookingModeConfirmedBooking))
       \<lparr>rs_ResolveConversationSchedulingPolicy := \<lambda>_ _ _. Inl ErrNotFound,
        rs_ResolveSchedulingAuthority := \<lambda>_ _ _. Inl ErrNotFound\<rparr>) sample_executors)
     ''salon'' ''owner'' (calendar_policy BookingModeDisabled) (sample_request OperationKindBook) 0
   = ExecuteConversationAction (NewService (sample_resolver (Some review_origin)
       (calendar_policy BookingModeConfirmedBooking)) sample_executors)
     ''salon'' ''owner'' (calendar_policy BookingModePendingApproval)
     (sample_request OperationKindBook) 0"
  by (rule conversation_replay_ignores_policy [where origin = review_origin])
    (simp add: sample_resolver_def)

theorem owner_review_replay_conflicts_witness:
  "ExecuteConversationAction (NewService (sample_resolver (Some review_origin)
       (calendar_policy BookingModePendingApproval)) sample_executors)
     ''salon'' ''owner'' (calendar_policy BookingModePendingApproval)
     (sample_request OperationKindReschedule) 0
   = (Inl ErrOperationConflict, 0)"
  by (rule owner_review_replay_conflicts [where origin = review_origin
        and a = SchedulingAuthorityManleAICalendar])
    (simp_all add: sample_resolver_def review_origin_def sample_request_def sample_trims, simp add: go_consts)

definition sample_appointment :: Appointment where
  "sample_appointment =
     \<lparr>appt_ID = ''appt-7'', appt_SalonID = [], appt_BookingAttemptID = [],
      appt_SchedulingAuthority = SchedulingAuthorityExternalProvider,
      appt_AuthorityProvider = ''square'', appt_AuthorityAppointmentID = ''sq-1'',
      appt_AuthorityAppointmentVersion = 3, appt_AuthorityCustomerID = [],
      appt_POSProvider = ''square'', appt_POSAppointmentID = ''sq-1'',
      appt_POSAppointmentVersion = 3, appt_POSCustomerID = [], appt_Status = StatusCancelled,
      appt_PartySize = 0, appt_CustomerName = [], appt_CustomerPhone = [],
      appt_CustomerEmail = [], appt_ServiceID = [], appt_StaffID = [],
      appt_StaffSelectionMode = [], appt_Segments = [], appt_StartTime = 0, appt_EndTime = 0,
      appt_Notes = [], appt_POSSyncStatus = [], appt_LastPOSSyncedAt = None,
      appt_POSSyncError = [], appt_SyncWarning = [], appt_CanEdit = False,
      appt_CanDelete = False, appt_ConfirmedAt = None, appt_ConfirmedByUserID = [],
      appt_ConfirmationSource = [], appt_CreatedAt = 0, appt_UpdatedAt = 0\<rparr>"

definition sample_provider :: "nat Executor" where
  "sample_provider =
     \<lparr>ex_SchedulingAuthority = SchedulingAuthorityExternalProvider,
      ex_Legacy = Some \<lparr>lx_AvailableSlots = \<lambda>_ _ _ w. (Inr None, w),
        lx_Create = \<lambda>_ _ _ w. (Inr None, Suc w),
        lx_Reschedule = \<lambda>_ _ _ _ w. (Inl ErrProviderUnavailable, w),
        lx_Cancel = \<lambda>_ _ _ _ w. (Inr (Some sample_appointment, None), Suc w)\<rparr>,
      ex_Neutral = None\<rparr>"

definition sample_create :: CreateBookingRequest where
  "sample_create =
     \<lparr>cbr_OperationKey = ''op-1'', cbr_RetryOfAttemptID = [], cbr_AvailabilityQuoteID = [],
      cbr_SlotFingerprint = [], cbr_Source = [], cbr_CustomerName = ''Mai'', cbr_CustomerPhone = [],
      cbr_CustomerEmail = [], cbr_ServiceID = [], cbr_StaffID = [], cbr_StaffSelectionMode = [],
      cbr_Segments = [], cbr_StartTime = 0, cbr_Notes = []\<rparr>"

theorem external_confirmation_evidence_witness:
  "\<exists>r. executeLegacyAction sample_provider ''salon'' ''owner'' (sample_request OperationKindCancel) 0
         = (Inr (Some r), 1)
       \<and> external_result_ok OperationKindCancel r \<and> act_Kind r = ActionKindConfirmedAppointment"
proof -
  let ?x = "executeLegacyAction sample_provider ''salon'' ''owner''
    (sample_request OperationKindCancel) 0"
  have run: "is_ok (fst ?x)" "snd ?x = 1"
    "map_sum id (map_option act_Kind) (fst ?x) = Inr (Some ActionKindConfirmedAppointment)"
    by code_simp+
  then obtain x where x: "?x = (Inr x, 1)" by (metis is_ok_iff prod.collapse)
  from external_confirmation_evidence [OF x]
  obtain r where "x = Some r" "external_result_ok (req_OperationType
    (sample_request OperationKindCancel)) r" by blast
  with x run(3) show ?thesis by (auto simp: sample_request_def)
qed

theorem ResolveCreateSchedulingAuthority_predicts_Create_witness:
  "Create (NewService (sample_resolver None (calendar_policy BookingModeDisabled))
     [Some (sample_executor SchedulingAuthorityManleAICalendar)]) ''salon'' ''owner'' sample_create 0
   = (Inl (AuthorityNotReadyError SchedulingAuthorityManleAICalendar), 0)"
proof -
  let ?s = "NewService (sample_resolver None (calendar_policy BookingModeDisabled))
     [Some (sample_executor SchedulingAuthorityManleAICalendar)]"
  have "ResolveCreateSchedulingAuthority ?s ''salon'' ''owner'' (cbr_OperationKey sample_create)
      (cbr_RetryOfAttemptID sample_create) 0 = Inr SchedulingAuthorityManleAICalendar"
    by code_simp
  from ResolveCreateSchedulingAuthority_predicts_Create [OF this] show ?thesis
    by (simp add: NewService_def sample_executor_def)
qed

text \<open>
  The authority by booking-mode matrix, in full: the accepted pairs with their behaviour,
  and the error for every other pair.
\<close>

lemma ConversationBehavior_matrix:
  "ConversationBehavior \<lparr>cpf_BookingMode = mode, cpf_SchedulingAuthority = authority\<rparr> =
    (if (authority, mode) \<in> {SchedulingAuthorityOwnerManual, SchedulingAuthorityManleAICalendar,
          SchedulingAuthorityExternalProvider} \<times> {BookingModeDisabled}
     then Inr ConversationSchedulingBehaviorDisabled
     else if (authority, mode) \<in> {SchedulingAuthorityOwnerManual,
          SchedulingAuthorityManleAICalendar, SchedulingAuthorityExternalProvider}
          \<times> {BookingModePendingApproval}
     then Inr ConversationSchedulingBehaviorOwnerReview
     else if (authority, mode) = (SchedulingAuthorityManleAICalendar, BookingModeConfirmedBooking)
     then Inr ConversationSchedulingBehaviorAutomaticInternalCommit
     else if (authority, mode) = (SchedulingAuthorityExternalProvider, BookingModeConfirmedBooking)
     then Inr ConversationSchedulingBehaviorAutomaticExternalBooking
     else Inl (AuthorityNotReadyError authority))"
  by (auto simp: ConversationBehavior_def AllowedConversationBookingModes_def
      isKnownSchedulingAuthority_def Let_def)

end
