(* ===== verification/Owner_Manual_Service.thy ===== *)
theory Owner_Manual_Service
  imports Scheduling_Service
begin

text \<open>
  The owner-managed scheduling authority, \<open>modules/scheduling_owner_manual\<close>: its service
  (\<open>service.go\<close>) and its executor (\<open>executor.go\<close>). A customer request becomes a pending
  owner-review request; nothing here confirms an appointment.

  The store behind the service is the interface record \<open>OwnerStore\<close>; \<open>Owner_Manual_Repository\<close>
  supplies the one of \<open>repository.go\<close>. The fingerprint functions (\<open>hashCanonical\<close>: SHA-256 over
  the JSON form, which fails on a time that JSON cannot represent) are parameters. \<open>Time.UTC()\<close>
  changes the location of a \<open>time.Time\<close> and not the instant, so it is the identity here.

  The lemmas show that a normalised request satisfies every rule of the service
  (\<open>well_formed_request\<close>), that normalisation is idempotent, that it only ever adds the defaults,
  and that the executor answers with pending owner work or an error, never with a confirmation.
\<close>

section \<open>Limits\<close>

definition maxOperationKeyLength :: nat where "maxOperationKeyLength = 200"
definition maxActionKeyLength :: nat where "maxActionKeyLength = 200"
definition maxCustomerNameLength :: nat where "maxCustomerNameLength = 200"
definition maxCustomerPhoneLength :: nat where "maxCustomerPhoneLength = 64"
definition maxCustomerEmailLength :: nat where "maxCustomerEmailLength = 320"
definition maxTimezoneLength :: nat where "maxTimezoneLength = 100"
definition maxTargetDescriptionLength :: nat where "maxTargetDescriptionLength = 2000"
definition maxNotesLength :: nat where "maxNotesLength = 4000"
definition maxResolutionReasonLength :: nat where "maxResolutionReasonLength = 500"
definition maxTransitionNoteLength :: nat where "maxTransitionNoteLength = 2000"
definition maxSegmentsPerRequest :: nat where "maxSegmentsPerRequest = 50"
definition maxPartySize :: int where "maxPartySize = 50"
definition maxSegmentQuantity :: int where "maxSegmentQuantity = 50"

lemmas owner_limits =
  maxOperationKeyLength_def maxActionKeyLength_def maxCustomerNameLength_def
  maxCustomerPhoneLength_def maxCustomerEmailLength_def maxTimezoneLength_def
  maxTargetDescriptionLength_def maxNotesLength_def maxResolutionReasonLength_def
  maxTransitionNoteLength_def maxSegmentsPerRequest_def maxPartySize_def maxSegmentQuantity_def

section \<open>Normalising a request\<close>

definition trim_request :: "ActionRequest \<Rightarrow> ActionRequest" where
  "trim_request req =
     req\<lparr>req_OperationKey := TrimSpace (req_OperationKey req),
         req_RetryOfAttemptID := TrimSpace (req_RetryOfAttemptID req),
         req_AvailabilityQuoteID := TrimSpace (req_AvailabilityQuoteID req),
         req_SlotFingerprint := TrimSpace (req_SlotFingerprint req),
         req_Source := TrimSpace (req_Source req),
         req_CallSessionID := TrimSpace (req_CallSessionID req),
         req_CustomerName := TrimSpace (req_CustomerName req),
         req_CustomerPhone := TrimSpace (req_CustomerPhone req),
         req_CustomerEmail := TrimSpace (req_CustomerEmail req),
         req_RequestedTimezone := TrimSpace (req_RequestedTimezone req),
         req_Notes := TrimSpace (req_Notes req),
         req_TargetAppointmentID := TrimSpace (req_TargetAppointmentID req),
         req_TargetAuthority := TrimSpace (req_TargetAuthority req),
         req_TargetDescription := TrimSpace (req_TargetDescription req)\<rparr>"

definition request_fields_ok :: "ActionRequest \<Rightarrow> bool" where
  "request_fields_ok req \<longleftrightarrow>
     \<not> (req_OperationKey req = [] \<or> length (req_OperationKey req) > maxOperationKeyLength
        \<or> req_Source req = [] \<or> req_CustomerName req = [] \<or> req_CustomerPhone req = []
        \<or> req_RequestedTimezone req = []
        \<or> length (req_CustomerName req) > maxCustomerNameLength
        \<or> length (req_CustomerPhone req) > maxCustomerPhoneLength
        \<or> length (req_CustomerEmail req) > maxCustomerEmailLength
        \<or> length (req_RequestedTimezone req) > maxTimezoneLength
        \<or> length (req_TargetDescription req) > maxTargetDescriptionLength
        \<or> length (req_Notes req) > maxNotesLength)"

definition operation_known :: "string \<Rightarrow> bool" where
  "operation_known operation \<longleftrightarrow>
     operation = OperationKindBook \<or> operation = OperationKindReschedule
     \<or> operation = OperationKindCancel"

definition target_fields_ok :: "ActionRequest \<Rightarrow> bool" where
  "target_fields_ok req \<longleftrightarrow>
     \<not> (req_RetryOfAttemptID req \<noteq> [] \<or> req_AvailabilityQuoteID req \<noteq> []
        \<or> req_SlotFingerprint req \<noteq> [])
     \<and> \<not> (req_TargetAuthority req \<noteq> []
          \<and> req_TargetAuthority req \<noteq> SchedulingAuthorityOwnerManual
          \<and> req_TargetAuthority req \<noteq> SchedulingAuthorityManleAICalendar
          \<and> req_TargetAuthority req \<noteq> SchedulingAuthorityExternalProvider)
     \<and> \<not> (req_OperationType req = OperationKindBook
          \<and> (req_TargetAppointmentID req \<noteq> [] \<or> req_TargetDescription req \<noteq> []))
     \<and> \<not> ((req_OperationType req = OperationKindReschedule
           \<or> req_OperationType req = OperationKindCancel)
          \<and> (req_TargetAppointmentID req = [] \<and> req_TargetDescription req = []
             \<or> req_TargetAppointmentID req \<noteq> [] \<and> req_TargetAuthority req = []))"

definition segment_count_ok :: "ActionRequest \<Rightarrow> bool" where
  "segment_count_ok req \<longleftrightarrow>
     \<not> (length (req_Segments req) > maxSegmentsPerRequest
        \<or> (req_OperationType req = OperationKindBook \<or> req_OperationType req = OperationKindReschedule)
          \<and> req_Segments req = [])"

definition range_ok :: "gotime \<Rightarrow> gotime \<Rightarrow> bool" where
  "range_ok start stop \<longleftrightarrow> \<not> (stop \<noteq> 0 \<and> (start = 0 \<or> \<not> stop > start))"

definition trim_segment :: "ActionSegment \<Rightarrow> ActionSegment" where
  "trim_segment segment =
     segment\<lparr>seg_ServiceID := TrimSpace (seg_ServiceID segment),
             seg_StaffID := TrimSpace (seg_StaffID segment),
             seg_StaffSelectionMode := TrimSpace (seg_StaffSelectionMode segment),
             seg_GuestReference := TrimSpace (seg_GuestReference segment),
             seg_Quantity := (if seg_Quantity segment = 0 then 1 else seg_Quantity segment)\<rparr>"

definition segment_ok :: "ActionSegment \<Rightarrow> bool" where
  "segment_ok segment \<longleftrightarrow>
     \<not> (seg_ServiceID segment = [] \<or> seg_Quantity segment < 1
        \<or> seg_Quantity segment > maxSegmentQuantity
        \<or> (seg_StaffSelectionMode segment \<noteq> StaffSelectionSpecific
            \<and> seg_StaffSelectionMode segment \<noteq> StaffSelectionAnyone)
        \<or> (seg_StaffSelectionMode segment = StaffSelectionSpecific \<and> seg_StaffID segment = [])
        \<or> (seg_StaffSelectionMode segment = StaffSelectionAnyone \<and> seg_StaffID segment \<noteq> []))
     \<and> range_ok (seg_RequestedStartTime segment) (seg_RequestedEndTime segment)"

fun normalize_segments :: "ActionSegment list \<Rightarrow> error + ActionSegment list" where
  "normalize_segments [] = Inr []"
| "normalize_segments (raw # rest) =
     (let segment = trim_segment raw in
      if \<not> segment_ok segment then Inl ErrInvalidSchedulingAction
      else (case normalize_segments rest of
              Inl err \<Rightarrow> Inl err
            | Inr segments \<Rightarrow> Inr (segment # segments)))"

definition guest_references :: "ActionSegment list \<Rightarrow> string list" where
  "guest_references segments =
     remdups (filter (\<lambda>reference. reference \<noteq> []) (map seg_GuestReference segments))"

definition default_party_size :: "int \<Rightarrow> ActionSegment list \<Rightarrow> int" where
  "default_party_size partySize segments =
     (if partySize = 0
      then (let guests = int (length (guest_references segments)) in
            if guests = 0 then 1 else guests)
      else partySize)"

definition normalizeActionRequest :: "ActionRequest \<Rightarrow> error + ActionRequest" where
  "normalizeActionRequest raw =
     (let req = trim_request raw in
      if \<not> request_fields_ok req then Inl ErrInvalidSchedulingAction
      else if \<not> operation_known (req_OperationType req) then Inl ErrInvalidSchedulingAction
      else if \<not> target_fields_ok req then Inl ErrInvalidSchedulingAction
      else if \<not> segment_count_ok req then Inl ErrInvalidSchedulingAction
      else
        (case normalize_segments (req_Segments req) of
           Inl err \<Rightarrow> Inl err
         | Inr segments \<Rightarrow>
             let partySize = default_party_size (req_PartySize req) segments in
             if partySize < 1 \<or> partySize > maxPartySize
                \<or> \<not> range_ok (req_RequestedStartTime req) (req_RequestedEndTime req)
             then Inl ErrInvalidSchedulingAction
             else Inr (req\<lparr>req_Segments := segments, req_PartySize := partySize\<rparr>)))"

section \<open>Service\<close>

record ListSchedulingRequestsResponse =
  lsr_SchedulingRequests :: "SchedulingRequest list"
  lsr_Limit :: int
  lsr_Offset :: int
  lsr_HasMore :: bool

record 'w OwnerStore =
  os_SchedulingTargetReadinessFacts :: "string \<Rightarrow> string \<Rightarrow> 'w \<Rightarrow> error + int \<times> int"
  os_CreateOrReplay ::
    "string \<Rightarrow> string \<Rightarrow> ActionRequest \<Rightarrow> string \<Rightarrow> ('w, SchedulingRequest option \<times> bool) call"
  os_List ::
    "string \<Rightarrow> string \<Rightarrow> string \<Rightarrow> int \<Rightarrow> int \<Rightarrow> 'w \<Rightarrow> error + ListSchedulingRequestsResponse"
  os_Get :: "string \<Rightarrow> string \<Rightarrow> string \<Rightarrow> 'w \<Rightarrow> error + SchedulingRequest"
  os_Transition ::
    "string \<Rightarrow> string \<Rightarrow> string \<Rightarrow> TransitionSchedulingRequest \<Rightarrow> string
       \<Rightarrow> ('w, SchedulingRequest option \<times> bool) call"

record OwnerHashes =
  oh_actionRequestFingerprint :: "ActionRequest \<Rightarrow> error + string"
  oh_transitionFingerprint :: "TransitionSchedulingRequest \<Rightarrow> error + string"

definition owner_blocker :: TargetReadinessBlocker where
  "owner_blocker =
     \<lparr>trb_Code = ''OWNER_MANUAL_ELIGIBLE_SERVICE_REQUIRED'', trb_Scope = ''service'', trb_EntityID = [],
      trb_Message = ''Add at least one active, AI-bookable service with a positive duration.''\<rparr>"

definition owner_target_readiness :: "int \<Rightarrow> int \<Rightarrow> TargetReadiness" where
  "owner_target_readiness authorityVersion eligibleServiceCount =
     (let blockers = (if eligibleServiceCount = 0 then [owner_blocker] else []);
          ready = (blockers = [])
      in \<lparr>tr_TargetSchedulingAuthority = SchedulingAuthorityOwnerManual,
          tr_Ready = ready, tr_AvailabilityReady = ready, tr_ExecutionReady = False,
          tr_AuthorityVersion = authorityVersion, tr_ReadinessEvidenceVersion = 0,
          tr_ReadinessEvidenceFingerprint = [], tr_ConfigVersion = 0,
          tr_EligibleServiceCount = eligibleServiceCount, tr_ServiceCount = 0, tr_StaffCount = 0,
          tr_BusinessHourPeriodCount = 0,
          tr_Checks =
            [\<lparr>trc_Code = ''OWNER_MANUAL_REQUEST_EXECUTOR_READY'', trc_Ready = True,
               trc_Scope = ''executor'', trc_EntityID = []\<rparr>,
             \<lparr>trc_Code = ''OWNER_MANUAL_ELIGIBLE_SERVICE_REQUIRED'',
               trc_Ready = eligibleServiceCount > 0, trc_Scope = ''service'', trc_EntityID = []\<rparr>],
          tr_Blockers = blockers, tr_AvailabilityBlockers = blockers,
          tr_ExecutionBlockers =
            [\<lparr>trb_Code = ''OWNER_MANUAL_REQUEST_ONLY'', trb_Scope = ''executor'', trb_EntityID = [],
               trb_Message = ''Owner-managed scheduling creates a pending owner-review request and never confirms automatically.''\<rparr>]\<rparr>)"

definition SchedulingTargetReadiness_owner ::
  "'w OwnerStore \<Rightarrow> string \<Rightarrow> string \<Rightarrow> 'w \<Rightarrow> error + TargetReadiness" where
  "SchedulingTargetReadiness_owner store salonID ownerUserID w =
     (case os_SchedulingTargetReadinessFacts store salonID ownerUserID w of
        Inl err \<Rightarrow> Inl err
      | Inr (authorityVersion, eligibleServiceCount) \<Rightarrow>
          Inr (owner_target_readiness authorityVersion eligibleServiceCount))"

definition CreateRequest ::
  "OwnerHashes \<Rightarrow> 'w OwnerStore \<Rightarrow> string \<Rightarrow> string \<Rightarrow> ActionRequest
     \<Rightarrow> ('w, SchedulingRequest option \<times> bool) call" where
  "CreateRequest hashes store salonID ownerUserID req w =
     (case normalizeActionRequest req of
        Inl err \<Rightarrow> (Inl err, w)
      | Inr normalized \<Rightarrow>
          (case oh_actionRequestFingerprint hashes normalized of
             Inl err \<Rightarrow> (Inl err, w)
           | Inr fingerprint \<Rightarrow>
               os_CreateOrReplay store salonID ownerUserID normalized fingerprint w))"

definition validRequestStatus :: "string \<Rightarrow> bool" where
  "validRequestStatus status \<longleftrightarrow>
     status = SchedulingRequestStatusPending \<or> status = SchedulingRequestStatusContacted
     \<or> status = SchedulingRequestStatusResolved \<or> status = SchedulingRequestStatusDismissed"

definition validTransitionTarget :: "string \<Rightarrow> bool" where
  "validTransitionTarget status \<longleftrightarrow>
     status = SchedulingRequestStatusContacted \<or> status = SchedulingRequestStatusResolved
     \<or> status = SchedulingRequestStatusDismissed"

definition page_limit :: "int \<Rightarrow> int" where
  "page_limit limit = (if limit \<le> 0 then 50 else if limit > 100 then 100 else limit)"

definition List_requests ::
  "'w OwnerStore \<Rightarrow> string \<Rightarrow> string \<Rightarrow> string \<Rightarrow> int \<Rightarrow> int \<Rightarrow> 'w
     \<Rightarrow> error + ListSchedulingRequestsResponse" where
  "List_requests store salonID ownerUserID status limit offset w =
     (if status \<noteq> [] \<and> \<not> validRequestStatus status then Inl ErrInvalidSchedulingAction
      else os_List store salonID ownerUserID status (page_limit limit)
             (if offset < 0 then 0 else offset) w)"

definition Get_request ::
  "'w OwnerStore \<Rightarrow> string \<Rightarrow> string \<Rightarrow> string \<Rightarrow> 'w \<Rightarrow> error + SchedulingRequest" where
  "Get_request store salonID ownerUserID requestID w =
     (if TrimSpace requestID = [] then Inl ErrInvalidSchedulingAction
      else os_Get store salonID ownerUserID (TrimSpace requestID) w)"

definition trim_transition :: "TransitionSchedulingRequest \<Rightarrow> TransitionSchedulingRequest" where
  "trim_transition req =
     req\<lparr>tsr_ActionKey := TrimSpace (tsr_ActionKey req),
         tsr_ResolutionReason := TrimSpace (tsr_ResolutionReason req),
         tsr_Note := TrimSpace (tsr_Note req)\<rparr>"

definition transition_ok :: "string \<Rightarrow> TransitionSchedulingRequest \<Rightarrow> bool" where
  "transition_ok requestID req \<longleftrightarrow>
     \<not> (TrimSpace requestID = [] \<or> tsr_ActionKey req = []
        \<or> length (tsr_ActionKey req) > maxActionKeyLength \<or> tsr_ExpectedVersion req \<le> 0
        \<or> \<not> validTransitionTarget (tsr_Status req)
        \<or> length (tsr_ResolutionReason req) > maxResolutionReasonLength
        \<or> length (tsr_Note req) > maxTransitionNoteLength)
     \<and> \<not> ((tsr_Status req = SchedulingRequestStatusResolved
           \<or> tsr_Status req = SchedulingRequestStatusDismissed)
          \<and> tsr_ResolutionReason req = [])"

definition Transition ::
  "OwnerHashes \<Rightarrow> 'w OwnerStore \<Rightarrow> string \<Rightarrow> string \<Rightarrow> string \<Rightarrow> TransitionSchedulingRequest
     \<Rightarrow> ('w, SchedulingRequest option \<times> bool) call" where
  "Transition hashes store salonID ownerUserID requestID raw w =
     (let req = trim_transition raw in
      if \<not> transition_ok requestID req then (Inl ErrInvalidSchedulingAction, w)
      else
        (case oh_transitionFingerprint hashes req of
           Inl err \<Rightarrow> (Inl err, w)
         | Inr fingerprint \<Rightarrow>
             os_Transition store salonID ownerUserID (TrimSpace requestID) req fingerprint w))"

section \<open>Executor\<close>

definition CheckAvailability_owner ::
  "string \<Rightarrow> string \<Rightarrow> AvailabilityRequest \<Rightarrow> ('w, SchedulingAvailabilityResult option) call" where
  "CheckAvailability_owner salonID ownerUserID req w =
     (Inr (Some \<lparr>sres_Kind = AvailabilityKindRequestOnly,
                 sres_SchedulingAuthority = SchedulingAuthorityOwnerManual,
                 sres_TargetAuthorityAppointmentVersion = 0, sres_VerifiedSlots = None\<rparr>), w)"

definition owner_review_result :: "string \<Rightarrow> SchedulingRequest \<Rightarrow> ActionResult" where
  "owner_review_result operation request =
     \<lparr>act_Kind = ActionKindPendingOwnerReview, act_OperationType = operation,
      act_SchedulingAuthority = SchedulingAuthorityOwnerManual,
      act_TargetAuthorityAppointmentVersion = 0, act_AuthorityAppointmentVersion = 0,
      act_Replayed = False, act_ConfirmedAppointment = None,
      act_PendingOwnerReview =
        Some \<lparr>por_SchedulingRequestID = sr_ID request, por_Status = sr_Status request,
              por_Version = sr_Version request, por_Request = Some request\<rparr>,
      act_ExternalFallbackPending = None\<rparr>"

definition ExecuteAction_owner ::
  "OwnerHashes \<Rightarrow> 'w OwnerStore \<Rightarrow> string \<Rightarrow> string \<Rightarrow> ActionRequest
     \<Rightarrow> ('w, ActionResult option) call" where
  "ExecuteAction_owner hashes store salonID ownerUserID req w =
     (case CreateRequest hashes store salonID ownerUserID req w of
        (Inl err, w') \<Rightarrow> (Inl err, w')
      | (Inr (None, _), w') \<Rightarrow> (Inl ErrInvalidSchedulingResult, w')
      | (Inr (Some request, _), w') \<Rightarrow>
          if sr_ID request = [] then (Inl ErrInvalidSchedulingResult, w')
          else (Inr (Some (owner_review_result (req_OperationType req) request)), w'))"

definition NewExecutor_owner :: "OwnerHashes \<Rightarrow> 'w OwnerStore \<Rightarrow> 'w Executor" where
  "NewExecutor_owner hashes store =
     \<lparr>ex_SchedulingAuthority = SchedulingAuthorityOwnerManual, ex_Legacy = None,
      ex_Neutral = Some \<lparr>nx_CheckAvailability = CheckAvailability_owner,
                         nx_ExecuteAction = ExecuteAction_owner hashes store\<rparr>\<rparr>"

section \<open>Normal form\<close>

lemma normalize_segments_eq:
  "normalize_segments raws =
     (if list_all segment_ok (map trim_segment raws) then Inr (map trim_segment raws)
      else Inl ErrInvalidSchedulingAction)"
  by (induction raws) (auto simp: Let_def)

lemma trim_segment_idem [simp]: "trim_segment (trim_segment segment) = trim_segment segment"
  by (simp add: trim_segment_def)

lemma trim_request_idem [simp]: "trim_request (trim_request req) = trim_request req"
  by (simp add: trim_request_def)

text \<open>What normalisation does to a request it accepts: trim every text, fill in the defaults.\<close>

definition canonical_request :: "ActionRequest \<Rightarrow> ActionRequest" where
  "canonical_request raw =
     (trim_request raw)\<lparr>req_Segments := map trim_segment (req_Segments raw),
        req_PartySize := default_party_size (req_PartySize raw)
          (map trim_segment (req_Segments raw))\<rparr>"

definition well_formed_request :: "ActionRequest \<Rightarrow> bool" where
  "well_formed_request req \<longleftrightarrow>
     request_fields_ok req \<and> operation_known (req_OperationType req) \<and> target_fields_ok req
     \<and> segment_count_ok req \<and> list_all segment_ok (req_Segments req)
     \<and> 1 \<le> req_PartySize req \<and> req_PartySize req \<le> maxPartySize
     \<and> range_ok (req_RequestedStartTime req) (req_RequestedEndTime req)"

lemma trim_request_other [simp]:
  "req_Segments (trim_request req) = req_Segments req"
  "req_PartySize (trim_request req) = req_PartySize req"
  "req_OperationType (trim_request req) = req_OperationType req"
  "req_RequestedStartTime (trim_request req) = req_RequestedStartTime req"
  "req_RequestedEndTime (trim_request req) = req_RequestedEndTime req"
  by (simp_all add: trim_request_def)

lemma checks_ignore_defaults [simp]:
  "request_fields_ok (req\<lparr>req_Segments := ss, req_PartySize := n\<rparr>) = request_fields_ok req"
  "target_fields_ok (req\<lparr>req_Segments := ss, req_PartySize := n\<rparr>) = target_fields_ok req"
  by (simp_all add: request_fields_ok_def target_fields_ok_def)

lemma segment_count_trim [simp]:
  "segment_count_ok (req\<lparr>req_Segments := map trim_segment (req_Segments req), req_PartySize := n\<rparr>)
     = segment_count_ok req"
  by (simp add: segment_count_ok_def)

lemma normalizeActionRequest_eq:
  "normalizeActionRequest raw =
     (if well_formed_request (canonical_request raw) then Inr (canonical_request raw)
      else Inl ErrInvalidSchedulingAction)"
proof -
  let ?req = "trim_request raw" and ?ss = "map trim_segment (req_Segments raw)"
  have wf: "well_formed_request (canonical_request raw) \<longleftrightarrow>
      request_fields_ok ?req \<and> operation_known (req_OperationType ?req) \<and> target_fields_ok ?req
      \<and> segment_count_ok ?req \<and> list_all segment_ok ?ss
      \<and> 1 \<le> default_party_size (req_PartySize raw) ?ss
      \<and> default_party_size (req_PartySize raw) ?ss \<le> maxPartySize
      \<and> range_ok (req_RequestedStartTime raw) (req_RequestedEndTime raw)"
    unfolding well_formed_request_def canonical_request_def by (simp add: segment_count_ok_def)
  show ?thesis
    unfolding normalizeActionRequest_def wf Let_def
    by (simp add: normalize_segments_eq canonical_request_def not_less)
qed

lemma canonical_request_idem:
  assumes "1 \<le> req_PartySize (canonical_request raw)"
  shows "canonical_request (canonical_request raw) = canonical_request raw"
proof -
  let ?req = "canonical_request raw"
  have "trim_request ?req = ?req" by (simp add: canonical_request_def trim_request_def)
  moreover have "map trim_segment (req_Segments ?req) = req_Segments ?req"
    by (simp add: canonical_request_def comp_def)
  moreover have "default_party_size (req_PartySize ?req) (req_Segments ?req) = req_PartySize ?req"
    using assms by (simp add: default_party_size_def)
  ultimately show ?thesis
    by (subst canonical_request_def) simp
qed

text \<open>
  Normalising an owner-review request has one outcome per input: the request with every text
  trimmed and the defaults filled in when that satisfies all the rules (required fields and their
  length limits, a known operation, a target exactly for reschedule and cancel, no quote or retry
  evidence, at most 50 well-formed segments, a party of 1 to 50, an end only after a start), and
  otherwise \<open>ErrInvalidSchedulingAction\<close>. An accepted request is a fixed point: normalising it
  again returns it unchanged, so the fingerprint that guards replays depends only on the normal
  form.
\<close>

lemma owner_request_normal_form:
  "normalizeActionRequest raw =
     (if well_formed_request (canonical_request raw) then Inr (canonical_request raw)
      else Inl ErrInvalidSchedulingAction)
   \<and> (normalizeActionRequest raw = Inr req \<longrightarrow> normalizeActionRequest req = Inr req)"
proof (intro conjI impI)
  assume "normalizeActionRequest raw = Inr req"
  then have wf: "well_formed_request (canonical_request raw)" and req: "req = canonical_request raw"
    by (simp_all add: normalizeActionRequest_eq split: if_splits)
  then have "canonical_request req = req"
    using canonical_request_idem [of raw] by (simp add: well_formed_request_def)
  with wf req show "normalizeActionRequest req = Inr req"
    by (metis normalizeActionRequest_eq)
qed (rule normalizeActionRequest_eq)

section \<open>Readiness\<close>

text \<open>
  As a switch target the owner-managed authority is ready exactly when the salon has an
  eligible service, it has no blocker then, and it never reports itself able to execute: the
  standing blocker says that it only takes requests.
\<close>

lemma owner_target_never_executes:
  "SchedulingTargetReadiness_owner store salonID ownerUserID w = Inr r \<Longrightarrow>
     \<not> tr_ExecutionReady r \<and> tr_ExecutionBlockers r \<noteq> []
     \<and> (tr_Ready r \<longleftrightarrow> tr_EligibleServiceCount r \<noteq> 0)
     \<and> (tr_Ready r \<longleftrightarrow> tr_Blockers r = []) \<and> tr_AvailabilityReady r = tr_Ready r"
  by (auto simp: SchedulingTargetReadiness_owner_def owner_target_readiness_def Let_def
      split: sum.splits)

section \<open>Executor\<close>

lemma ExecuteAction_owner_ok:
  assumes "ExecuteAction_owner hashes store salonID ownerUserID req w = (Inr x, w')"
  obtains request replayed where
    "CreateRequest hashes store salonID ownerUserID req w = (Inr (Some request, replayed), w')"
    and "sr_ID request \<noteq> []"
    and "x = Some (owner_review_result (req_OperationType req) request)"
  using assms unfolding ExecuteAction_owner_def
  by (auto split: prod.splits sum.splits option.splits if_splits)

lemma ExecuteAction_owner_pending:
  assumes "ExecuteAction_owner hashes store salonID ownerUserID req w = (Inr x, w')"
  shows "\<exists>r. x = Some r \<and> act_Kind r = ActionKindPendingOwnerReview
    \<and> act_SchedulingAuthority r = SchedulingAuthorityOwnerManual
    \<and> act_ConfirmedAppointment r = None \<and> act_ExternalFallbackPending r = None"
  using assms by (elim ExecuteAction_owner_ok) (simp add: owner_review_result_def)

interpretation owner_executor: neutral_executor SchedulingAuthorityOwnerManual
  ActionKindPendingOwnerReview "ExecuteAction_owner hashes store"
  for hashes and store :: "'w OwnerStore"
  by unfold_locales (auto dest: ExecuteAction_owner_pending)

end
