(* ===== verification/Calendar_Types.thy ===== *)
theory Calendar_Types
  imports Booking_Types
begin

text \<open>
  The data model of \<open>modules/scheduling_manleai_calendar\<close> (\<open>types.go\<close> and the snapshot and plan
  types of \<open>execution_availability.go\<close>), field for field, with the configuration limits
  \<open>DefaultConstraints\<close>. An embedded Go struct is a component of the record that embeds it.
\<close>

section \<open>Constants\<close>

definition CapacityModeStaffOnly :: string where [go_consts]:
  "CapacityModeStaffOnly = ''staff_only''"
definition CapacityModePooled :: string where [go_consts]:
  "CapacityModePooled = ''pooled''"
definition ExceptionScopeSalon :: string where [go_consts]:
  "ExceptionScopeSalon = ''salon''"
definition ExceptionScopeStaff :: string where [go_consts]:
  "ExceptionScopeStaff = ''staff''"
definition ExceptionScopeResource :: string where [go_consts]:
  "ExceptionScopeResource = ''resource''"
definition ExceptionEffectAvailable :: string where [go_consts]:
  "ExceptionEffectAvailable = ''available''"
definition ExceptionEffectUnavailable :: string where [go_consts]:
  "ExceptionEffectUnavailable = ''unavailable''"
definition ExceptionEffectCapacityOverride :: string where [go_consts]:
  "ExceptionEffectCapacityOverride = ''capacity_override''"
definition ReadinessDimensionConfiguration :: string where [go_consts]:
  "ReadinessDimensionConfiguration = ''configuration''"
definition ReadinessDimensionExecution :: string where [go_consts]:
  "ReadinessDimensionExecution = ''execution''"
definition BlockerConfigRequired :: string where [go_consts]:
  "BlockerConfigRequired = ''CONFIG_REQUIRED''"
definition BlockerLocalHoursRequired :: string where [go_consts]:
  "BlockerLocalHoursRequired = ''LOCAL_HOURS_REQUIRED''"
definition BlockerEligibleServicesRequired :: string where [go_consts]:
  "BlockerEligibleServicesRequired = ''ELIGIBLE_SERVICES_REQUIRED''"
definition BlockerServicePolicyRequired :: string where [go_consts]:
  "BlockerServicePolicyRequired = ''SERVICE_POLICY_REQUIRED''"
definition BlockerEnabledServiceRequired :: string where [go_consts]:
  "BlockerEnabledServiceRequired = ''ENABLED_SERVICE_REQUIRED''"
definition BlockerServiceIneligible :: string where [go_consts]:
  "BlockerServiceIneligible = ''SERVICE_INELIGIBLE''"
definition BlockerServiceCapacityModeRequired :: string where [go_consts]:
  "BlockerServiceCapacityModeRequired = ''SERVICE_CAPACITY_MODE_REQUIRED''"
definition BlockerServiceStaffRequired :: string where [go_consts]:
  "BlockerServiceStaffRequired = ''SERVICE_STAFF_REQUIRED''"
definition BlockerStaffIneligible :: string where [go_consts]:
  "BlockerStaffIneligible = ''STAFF_INELIGIBLE''"
definition BlockerStaffScheduleRequired :: string where [go_consts]:
  "BlockerStaffScheduleRequired = ''STAFF_SCHEDULE_REQUIRED''"
definition BlockerPooledResourceRequired :: string where [go_consts]:
  "BlockerPooledResourceRequired = ''POOLED_RESOURCE_REQUIRED''"
definition BlockerStaffOnlyResourceNotAllowed :: string where [go_consts]:
  "BlockerStaffOnlyResourceNotAllowed = ''STAFF_ONLY_RESOURCE_NOT_ALLOWED''"
definition BlockerResourceArchived :: string where [go_consts]:
  "BlockerResourceArchived = ''RESOURCE_ARCHIVED''"
definition BlockerResourceCapacityExceeded :: string where [go_consts]:
  "BlockerResourceCapacityExceeded = ''RESOURCE_CAPACITY_EXCEEDED''"
definition BlockerConfigNotActivated :: string where [go_consts]:
  "BlockerConfigNotActivated = ''CONFIG_NOT_ACTIVATED''"
definition BlockerPooledCapacityEngineUnavailable :: string where [go_consts]:
  "BlockerPooledCapacityEngineUnavailable = ''POOLED_CAPACITY_ENGINE_UNAVAILABLE''"
definition BlockerPartyCreateEngineUnavailable :: string where [go_consts]:
  "BlockerPartyCreateEngineUnavailable = ''PARTY_CREATE_ENGINE_UNAVAILABLE''"
definition BlockerLifecycleEngineUnavailable :: string where [go_consts]:
  "BlockerLifecycleEngineUnavailable = ''LIFECYCLE_ENGINE_UNAVAILABLE''"
definition EventConfigCreated :: string where [go_consts]:
  "EventConfigCreated = ''config_created''"
definition EventConfigUpdated :: string where [go_consts]:
  "EventConfigUpdated = ''config_updated''"
definition EventConfigActivated :: string where [go_consts]:
  "EventConfigActivated = ''config_activated''"
definition EventSalonHoursReplaced :: string where [go_consts]:
  "EventSalonHoursReplaced = ''salon_hours_replaced''"
definition EventStaffScheduleReplaced :: string where [go_consts]:
  "EventStaffScheduleReplaced = ''staff_schedule_replaced''"
definition EventServicePolicyUpdated :: string where [go_consts]:
  "EventServicePolicyUpdated = ''service_policy_updated''"
definition EventResourcePoolCreated :: string where [go_consts]:
  "EventResourcePoolCreated = ''resource_pool_created''"
definition EventResourcePoolUpdated :: string where [go_consts]:
  "EventResourcePoolUpdated = ''resource_pool_updated''"
definition EventResourcePoolArchived :: string where [go_consts]:
  "EventResourcePoolArchived = ''resource_pool_archived''"
definition EventExceptionCreated :: string where [go_consts]:
  "EventExceptionCreated = ''exception_created''"
definition EventExceptionCancelled :: string where [go_consts]:
  "EventExceptionCancelled = ''exception_cancelled''"

section \<open>Configuration\<close>

record MutationMeta =
  mm_ActionKey :: string
  mm_ExpectedConfigVersion :: int

record CalendarConfigInput =
  cci_MutationMeta :: MutationMeta
  cci_SlotStepMinutes :: int
  cci_MinimumBookingNoticeMinutes :: int
  cci_BookingHorizonDays :: int
  cci_RescheduleCutoffMinutes :: "int option"
  cci_CancellationCutoffMinutes :: "int option"
  cci_MaxPartySize :: int
  cci_DefaultBufferBeforeMinutes :: int
  cci_DefaultBufferAfterMinutes :: int

record CalendarConfig =
  cc_SalonID :: string
  cc_Version :: int
  cc_SlotStepMinutes :: int
  cc_MinimumBookingNoticeMinutes :: int
  cc_BookingHorizonDays :: int
  cc_RescheduleCutoffMinutes :: "int option"
  cc_CancellationCutoffMinutes :: "int option"
  cc_MaxPartySize :: int
  cc_DefaultBufferBeforeMinutes :: int
  cc_DefaultBufferAfterMinutes :: int
  cc_ActivatedAt :: "gotime option"
  cc_ActivatedByUserID :: string
  cc_ActivatedVersion :: "int option"
  cc_CreatedAt :: gotime
  cc_UpdatedAt :: gotime

record BusinessHourPeriodInput =
  bhi_DayOfWeek :: int
  bhi_StartMinute :: int
  bhi_EndMinute :: int

record ReplaceBusinessHoursInput =
  rbh_MutationMeta :: MutationMeta
  rbh_Periods :: "BusinessHourPeriodInput list"

record BusinessHourPeriod =
  bh_ID :: string
  bh_DayOfWeek :: int
  bh_StartMinute :: int
  bh_EndMinute :: int
  bh_CreatedAt :: gotime
  bh_UpdatedAt :: gotime

record WeeklyPeriodInput =
  wpi_DayOfWeek :: int
  wpi_StartMinute :: int
  wpi_EndMinute :: int

record StaffProfileInput =
  spi_MutationMeta :: MutationMeta
  spi_WeeklyPeriods :: "WeeklyPeriodInput list"
  spi_EligibleServiceIDs :: "string list"

record StaffRef =
  sf_ID :: string
  sf_Name :: string
  sf_Active :: bool
  sf_AIBookable :: bool
  sf_ArchivedAt :: "gotime option"

record ServiceRef =
  sv_ID :: string
  sv_Name :: string
  sv_DurationMinutes :: int
  sv_Active :: bool
  sv_AIBookable :: bool
  sv_ArchivedAt :: "gotime option"

record WeeklyPeriod =
  wp_ID :: string
  wp_StaffID :: string
  wp_DayOfWeek :: int
  wp_StartMinute :: int
  wp_EndMinute :: int
  wp_CreatedAt :: gotime
  wp_UpdatedAt :: gotime

record StaffProfile =
  sp_Staff :: StaffRef
  sp_WeeklyPeriods :: "WeeklyPeriod list"
  sp_EligibleServices :: "ServiceRef list"

record ResourceRequirementInput =
  rri_ResourcePoolID :: string
  rri_UnitsRequired :: int

record ServicePolicyInput =
  vpi_MutationMeta :: MutationMeta
  vpi_Enabled :: bool
  vpi_CapacityMode :: "string option"
  vpi_BufferBeforeMinutesOverride :: "int option"
  vpi_BufferAfterMinutesOverride :: "int option"
  vpi_EligibleStaffIDs :: "string list"
  vpi_ResourceRequirements :: "ResourceRequirementInput list"

record ResourceRequirement =
  rq_ResourcePoolID :: string
  rq_ResourceName :: string
  rq_UnitsRequired :: int
  rq_PoolCapacity :: int
  rq_PoolArchivedAt :: "gotime option"
  rq_CreatedAt :: gotime
  rq_UpdatedAt :: gotime

record ServicePolicy =
  vp_Service :: ServiceRef
  vp_Configured :: bool
  vp_Enabled :: bool
  vp_CapacityMode :: "string option"
  vp_BufferBeforeMinutesOverride :: "int option"
  vp_BufferAfterMinutesOverride :: "int option"
  vp_EligibleStaff :: "StaffRef list"
  vp_ResourceRequirements :: "ResourceRequirement list"
  vp_CreatedAt :: "gotime option"
  vp_UpdatedAt :: "gotime option"

record ResourcePoolInput =
  rpi_MutationMeta :: MutationMeta
  rpi_Name :: string
  rpi_Capacity :: int

record ResourcePool =
  rp_ID :: string
  rp_Name :: string
  rp_Capacity :: int
  rp_ArchivedAt :: "gotime option"
  rp_CreatedAt :: gotime
  rp_UpdatedAt :: gotime

record ExceptionInput =
  xi_MutationMeta :: MutationMeta
  xi_ScopeType :: string
  xi_StaffID :: string
  xi_ResourcePoolID :: string
  xi_Effect :: string
  xi_StartsAt :: gotime
  xi_EndsAt :: gotime
  xi_CapacityOverride :: "int option"
  xi_Reason :: string

record CalendarException =
  cx_ID :: string
  cx_ScopeType :: string
  cx_StaffID :: string
  cx_ResourcePoolID :: string
  cx_Effect :: string
  cx_StartsAt :: gotime
  cx_EndsAt :: gotime
  cx_CapacityOverride :: "int option"
  cx_Reason :: string
  cx_CreatedByUserID :: string
  cx_CancelledAt :: "gotime option"
  cx_CancelledByUserID :: string
  cx_CreatedAt :: gotime

record ReadinessBlocker =
  rb_Code :: string
  rb_Dimension :: string
  rb_Scope :: string
  rb_EntityID :: string
  rb_Message :: string

record OperationCapabilities =
  oc_StaffOnlyAvailability :: bool
  oc_StaffOnlyCreate :: bool
  oc_PooledCapacity :: bool
  oc_PartyCreate :: bool
  oc_Reschedule :: bool
  oc_Cancel :: bool

record Readiness =
  rdy_ConfigurationReady :: bool
  rdy_ExecutionReady :: bool
  rdy_AuthorityVersion :: int
  rdy_ConfigVersion :: int
  rdy_Capabilities :: OperationCapabilities
  rdy_Blockers :: "ReadinessBlocker list"

record IntegerConstraint =
  ic_Minimum :: int
  ic_Maximum :: int

record SlotStepConstraint =
  ssc_IntegerConstraint :: IntegerConstraint
  ssc_MustDivideMinutes :: int

record Constraints =
  con_SlotStepMinutes :: SlotStepConstraint
  con_MinimumBookingNoticeMinutes :: IntegerConstraint
  con_BookingHorizonDays :: IntegerConstraint
  con_CutoffMinutes :: IntegerConstraint
  con_MaxPartySize :: IntegerConstraint
  con_BufferMinutes :: IntegerConstraint
  con_PeriodMinutes :: IntegerConstraint
  con_ResourceCapacity :: IntegerConstraint
  con_ResourceUnitsRequired :: IntegerConstraint
  con_ExceptionCapacityOverride :: IntegerConstraint
  con_ResourceNameMaxCharacters :: int
  con_ActionKeyMaxBytes :: int
  con_ExceptionReasonMaxBytes :: int
  con_CapacityModes :: "string list"
  con_ExceptionScopeTypes :: "string list"
  con_ExceptionEffects :: "string list"
  con_ExecutionEngineAvailable :: bool

record Aggregate =
  agg_SalonID :: string
  agg_Timezone :: string
  agg_SchedulingAuthority :: string
  agg_AuthorityVersion :: int
  agg_ConfigVersion :: int
  agg_Config :: "CalendarConfig option"
  agg_Hours :: "BusinessHourPeriod list"
  agg_StaffProfiles :: "StaffProfile list"
  agg_ServicePolicies :: "ServicePolicy list"
  agg_Resources :: "ResourcePool list"
  agg_Exceptions :: "CalendarException list"
  agg_Readiness :: Readiness
  agg_Constraints :: Constraints

definition DefaultConstraints :: Constraints where
  "DefaultConstraints =
     \<lparr>con_SlotStepMinutes =
        \<lparr>ssc_IntegerConstraint = \<lparr>ic_Minimum = 1, ic_Maximum = 1440\<rparr>, ssc_MustDivideMinutes = 1440\<rparr>,
      con_MinimumBookingNoticeMinutes = \<lparr>ic_Minimum = 0, ic_Maximum = 525600\<rparr>,
      con_BookingHorizonDays = \<lparr>ic_Minimum = 1, ic_Maximum = 366\<rparr>,
      con_CutoffMinutes = \<lparr>ic_Minimum = 0, ic_Maximum = 525600\<rparr>,
      con_MaxPartySize = \<lparr>ic_Minimum = 1, ic_Maximum = 100\<rparr>,
      con_BufferMinutes = \<lparr>ic_Minimum = 0, ic_Maximum = 1440\<rparr>,
      con_PeriodMinutes = \<lparr>ic_Minimum = 0, ic_Maximum = 1440\<rparr>,
      con_ResourceCapacity = \<lparr>ic_Minimum = 1, ic_Maximum = 1000\<rparr>,
      con_ResourceUnitsRequired = \<lparr>ic_Minimum = 1, ic_Maximum = 1000\<rparr>,
      con_ExceptionCapacityOverride = \<lparr>ic_Minimum = 0, ic_Maximum = 1000\<rparr>,
      con_ResourceNameMaxCharacters = 200, con_ActionKeyMaxBytes = 256,
      con_ExceptionReasonMaxBytes = 2000,
      con_CapacityModes = [CapacityModeStaffOnly, CapacityModePooled],
      con_ExceptionScopeTypes =
        [ExceptionScopeSalon, ExceptionScopeStaff, ExceptionScopeResource],
      con_ExceptionEffects =
        [ExceptionEffectAvailable, ExceptionEffectUnavailable, ExceptionEffectCapacityOverride],
      con_ExecutionEngineAvailable = True\<rparr>"

section \<open>Snapshots and plans\<close>

record StaffConflict =
  sc_StaffID :: string
  sc_StartsAt :: gotime
  sc_EndsAt :: gotime

record ResourceConflict =
  rc_ResourcePoolID :: string
  rc_UnitsAllocated :: int
  rc_StartsAt :: gotime
  rc_EndsAt :: gotime

record AvailabilitySnapshot =
  snap_Aggregate :: "Aggregate option"
  snap_Conflicts :: "StaffConflict list"
  snap_ResourceConflicts :: "ResourceConflict list"
  snap_UnresolvedExternalConflict :: bool
  snap_TargetOriginAuthorized :: bool

record normalizedAvailabilitySegment =
  nas_ServiceID :: string
  nas_StaffID :: string
  nas_StaffSelectionMode :: string
  nas_GuestReference :: string
  nas_Quantity :: int

record normalizedAvailabilityRequest =
  nar_ServiceID :: string
  nar_StaffID :: string
  nar_StaffSelectionMode :: string
  nar_PartySize :: int
  nar_Segments :: "normalizedAvailabilitySegment list"
  nar_PreferredDate :: string
  nar_Limit :: int

record InternalResourceAllocation =
  ira_ResourcePoolID :: string
  ira_ResourceName :: string
  ira_UnitsAllocated :: int

record InternalAvailabilitySegment =
  ias_ServiceID :: string
  ias_ServiceName :: string
  ias_StaffID :: string
  ias_StaffName :: string
  ias_StaffSelectionMode :: string
  ias_GuestReference :: string
  ias_Quantity :: int
  ias_StartTime :: gotime
  ias_EndTime :: gotime
  ias_OccupiedStartTime :: gotime
  ias_OccupiedEndTime :: gotime
  ias_BufferBeforeMinutes :: int
  ias_BufferAfterMinutes :: int
  ias_ResourceAllocations :: "InternalResourceAllocation list"

record InternalAvailabilitySlot =
  isl_Fingerprint :: string
  isl_ServiceID :: string
  isl_ServiceName :: string
  isl_StaffID :: string
  isl_StaffName :: string
  isl_StartTime :: gotime
  isl_EndTime :: gotime
  isl_OccupiedStartTime :: gotime
  isl_OccupiedEndTime :: gotime
  isl_BufferBeforeMinutes :: int
  isl_BufferAfterMinutes :: int
  isl_Segments :: "InternalAvailabilitySegment list"

record minuteRange =
  mr_start :: int
  mr_end :: int

end
