(* ===== verification/Calendar_Resources.thy ===== *)
theory Calendar_Resources
  imports Calendar_Types
begin

text \<open>
  Pooled capacity of the ManleAI calendar: \<open>resourcesFit\<close> and \<open>allocationUnits\<close> of
  \<open>execution_availability.go\<close>. For every resource pool a plan uses, the code collects the points
  in time where usage or capacity can change, sorts them and compares usage with the effective
  capacity on every interval between two neighbours.

  The locale \<open>sweep_line\<close> states when such a scan decides a property of every instant; its
  interpretation on the code's boundaries, usage and capacity yields that \<open>resourcesFit\<close> holds
  exactly when at no instant more units are in use than the pool offers.
\<close>

section \<open>Model\<close>

fun allocationUnits :: "InternalResourceAllocation list \<Rightarrow> string \<Rightarrow> int" where
  "allocationUnits [] poolID = 0"
| "allocationUnits (allocation # allocations) poolID =
     (if ira_ResourcePoolID allocation = poolID then ira_UnitsAllocated allocation
      else allocationUnits allocations poolID)"

definition capacity_override :: "string \<Rightarrow> CalendarException \<Rightarrow> bool" where
  "capacity_override poolID exception \<longleftrightarrow>
     cx_CancelledAt exception = None \<and> cx_ScopeType exception = ExceptionScopeResource
     \<and> cx_ResourcePoolID exception = poolID
     \<and> cx_Effect exception = ExceptionEffectCapacityOverride"

definition pool_boundaries ::
  "Aggregate \<Rightarrow> ResourceConflict list \<Rightarrow> InternalAvailabilitySegment list \<Rightarrow> string
     \<Rightarrow> gotime list" where
  "pool_boundaries aggregate conflicts segments poolID =
     concat (map (\<lambda>segment.
         if allocationUnits (ias_ResourceAllocations segment) poolID > 0
         then [ias_OccupiedStartTime segment, ias_OccupiedEndTime segment] else []) segments)
     @ concat (map (\<lambda>existing.
         if rc_ResourcePoolID existing = poolID
         then [rc_StartsAt existing, rc_EndsAt existing] else []) conflicts)
     @ concat (map (\<lambda>exception.
         if capacity_override poolID exception
         then [cx_StartsAt exception, cx_EndsAt exception] else []) (agg_Exceptions aggregate))"

definition effective_capacity :: "Aggregate \<Rightarrow> string \<Rightarrow> int \<Rightarrow> gotime \<Rightarrow> int" where
  "effective_capacity aggregate poolID capacity intervalStart =
     (case find (\<lambda>exception. capacity_override poolID exception
               \<and> cx_CapacityOverride exception \<noteq> None
               \<and> \<not> intervalStart < cx_StartsAt exception \<and> intervalStart < cx_EndsAt exception)
             (agg_Exceptions aggregate) of
        Some exception \<Rightarrow> the (cx_CapacityOverride exception)
      | None \<Rightarrow> capacity)"

definition interval_usage ::
  "ResourceConflict list \<Rightarrow> InternalAvailabilitySegment list \<Rightarrow> string \<Rightarrow> gotime \<Rightarrow> gotime
     \<Rightarrow> int" where
  "interval_usage conflicts segments poolID intervalStart intervalEnd =
     sum_list (map (\<lambda>existing.
         if rc_ResourcePoolID existing = poolID
            \<and> rangesOverlap intervalStart intervalEnd (rc_StartsAt existing) (rc_EndsAt existing)
         then rc_UnitsAllocated existing else 0) conflicts)
     + sum_list (map (\<lambda>segment.
         if rangesOverlap intervalStart intervalEnd
              (ias_OccupiedStartTime segment) (ias_OccupiedEndTime segment)
         then allocationUnits (ias_ResourceAllocations segment) poolID else 0) segments)"

fun sweep :: "(gotime \<Rightarrow> gotime \<Rightarrow> bool) \<Rightarrow> gotime list \<Rightarrow> bool" where
  "sweep ok (a # b # rest) = ((\<not> b > a \<or> ok a b) \<and> sweep ok (b # rest))"
| "sweep ok _ = True"

text \<open>The capacity of the pools that are not archived, as the code's map \<open>baseCapacity\<close>.\<close>

definition base_capacity :: "Aggregate \<Rightarrow> string \<Rightarrow> int option" where
  "base_capacity aggregate poolID =
     map_option rp_Capacity
       (index_by rp_ID (filter (\<lambda>pool. rp_ArchivedAt pool = None) (agg_Resources aggregate)) poolID)"

definition plan_pools :: "InternalAvailabilitySegment list \<Rightarrow> string list" where
  "plan_pools segments =
     remdups (concat (map (\<lambda>segment. map ira_ResourcePoolID (ias_ResourceAllocations segment))
       segments))"

definition pool_fits ::
  "Aggregate \<Rightarrow> ResourceConflict list \<Rightarrow> InternalAvailabilitySegment list \<Rightarrow> string \<Rightarrow> bool" where
  "pool_fits aggregate conflicts segments poolID =
     (case base_capacity aggregate poolID of
        None \<Rightarrow> False
      | Some capacity \<Rightarrow>
          if capacity < 1 then False
          else sweep (\<lambda>intervalStart intervalEnd.
                 \<not> interval_usage conflicts segments poolID intervalStart intervalEnd
                     > effective_capacity aggregate poolID capacity intervalStart)
               (sort (pool_boundaries aggregate conflicts segments poolID)))"

definition resourcesFit :: "AvailabilitySnapshot \<Rightarrow> InternalAvailabilitySegment list \<Rightarrow> bool" where
  "resourcesFit snapshot segments =
     (case snap_Aggregate snapshot of
        None \<Rightarrow> False
      | Some aggregate \<Rightarrow>
          list_all (pool_fits aggregate (snap_ResourceConflicts snapshot) segments)
            (plan_pools segments))"

section \<open>Specification\<close>

text \<open>The units of a pool in use at one instant.\<close>

definition usage_at ::
  "ResourceConflict list \<Rightarrow> InternalAvailabilitySegment list \<Rightarrow> string \<Rightarrow> gotime \<Rightarrow> int" where
  "usage_at conflicts segments poolID t =
     sum_list (map rc_UnitsAllocated (filter (\<lambda>c. rc_ResourcePoolID c = poolID
         \<and> rc_StartsAt c \<le> t \<and> t < rc_EndsAt c) conflicts))
     + sum_list (map (\<lambda>s. allocationUnits (ias_ResourceAllocations s) poolID)
         (filter (\<lambda>s. ias_OccupiedStartTime s \<le> t \<and> t < ias_OccupiedEndTime s) segments))"

definition units_nonneg :: "InternalAvailabilitySegment list \<Rightarrow> bool" where
  "units_nonneg segments \<longleftrightarrow>
     list_all (\<lambda>s. list_all (\<lambda>a. 0 \<le> ira_UnitsAllocated a) (ias_ResourceAllocations s)) segments"

section \<open>Sweeping a line of boundaries\<close>

lemma sweep_iff_nth:
  "sweep ok xs \<longleftrightarrow>
     (\<forall>i. Suc i < length xs \<longrightarrow> xs ! i < xs ! Suc i \<longrightarrow> ok (xs ! i) (xs ! Suc i))"
proof (induction ok xs rule: sweep.induct)
  case (1 ok a b rest)
  have split: "(\<forall>i. P i) \<longleftrightarrow> P 0 \<and> (\<forall>i. P (Suc i))" for P
    by (metis not0_implies_Suc)
  have "(\<forall>i. Suc i < length (a # b # rest) \<longrightarrow> (a # b # rest) ! i < (a # b # rest) ! Suc i \<longrightarrow>
          ok ((a # b # rest) ! i) ((a # b # rest) ! Suc i)) \<longleftrightarrow>
        (a < b \<longrightarrow> ok a b) \<and> (\<forall>i. Suc i < length (b # rest) \<longrightarrow> (b # rest) ! i < (b # rest) ! Suc i \<longrightarrow>
          ok ((b # rest) ! i) ((b # rest) ! Suc i))"
    by (subst split) simp
  with 1 show ?case by auto
qed auto

lemma sorted_neighbours:
  assumes "sorted xs" and "Suc i < length xs" and "x \<in> set xs"
  shows "x \<le> xs ! i \<or> xs ! Suc i \<le> x"
proof -
  obtain j where j: "j < length xs" "x = xs ! j" using assms(3) by (metis in_set_conv_nth)
  show ?thesis
  proof (cases "j \<le> i")
    case True
    then show ?thesis using assms j by (simp add: sorted_iff_nth_mono)
  next
    case False
    then show ?thesis using assms j by (simp add: sorted_iff_nth_mono)
  qed
qed

lemma sorted_enclosing:
  fixes t :: gotime
  assumes "x \<in> set xs" "x \<le> t" and "y \<in> set xs" "t < y" and "sorted xs"
  shows "\<exists>i. Suc i < length xs \<and> xs ! i \<le> t \<and> t < xs ! Suc i"
  using assms
proof (induction xs arbitrary: x rule: induct_list012)
  case (3 a b rest)
  show ?case
  proof (cases "t < b")
    case True
    have "a \<le> x" using 3 by auto
    with 3 True have "a \<le> t" by simp
    with True show ?thesis by (intro exI [of _ 0]) simp
  next
    case False
    have "a \<le> b" using 3 by simp
    with False 3 have "y \<in> set (b # rest)" by auto
    with False 3 have "\<exists>i. Suc i < length (b # rest) \<and> (b # rest) ! i \<le> t \<and>
        t < (b # rest) ! Suc i"
      by (intro "3.IH"(2) [of b]) auto
    then obtain i where "Suc i < length (b # rest)" "(b # rest) ! i \<le> t"
      "t < (b # rest) ! Suc i" by blast
    then show ?thesis by (intro exI [of _ "Suc i"]) simp
  qed
qed auto

text \<open>
  When a scan over the intervals between neighbouring boundaries decides a property of every
  instant: the verdict on an interval free of boundaries is the verdict at each of its instants,
  and no instant outside the boundaries violates the property.
\<close>

locale sweep_line =
  fixes admissible :: "'i \<Rightarrow> bool"
    and boundaries :: "'i \<Rightarrow> gotime list"
    and interval_ok :: "'i \<Rightarrow> gotime \<Rightarrow> gotime \<Rightarrow> bool"
    and instant_ok :: "'i \<Rightarrow> gotime \<Rightarrow> bool"
  assumes uniform: "\<lbrakk>admissible i; a < b;
        \<And>x. x \<in> set (boundaries i) \<Longrightarrow> x \<le> a \<or> b \<le> x; a \<le> t; t < b\<rbrakk>
      \<Longrightarrow> interval_ok i a b \<longleftrightarrow> instant_ok i t"
    and outside: "\<lbrakk>admissible i;
        (\<forall>x \<in> set (boundaries i). t < x) \<or> (\<forall>x \<in> set (boundaries i). x \<le> t)\<rbrakk>
      \<Longrightarrow> instant_ok i t"
begin

lemma sweep_decides:
  assumes "admissible i"
  shows "sweep (interval_ok i) (sort (boundaries i)) \<longleftrightarrow> (\<forall>t. instant_ok i t)"
proof
  let ?xs = "sort (boundaries i)"
  assume ok: "sweep (interval_ok i) ?xs"
  show "\<forall>t. instant_ok i t"
  proof
    fix t
    show "instant_ok i t"
    proof (cases "(\<forall>x \<in> set ?xs. t < x) \<or> (\<forall>x \<in> set ?xs. x \<le> t)")
      case True
      then show ?thesis using outside [OF assms] by simp
    next
      case False
      then obtain x y where "x \<in> set ?xs" "x \<le> t" "y \<in> set ?xs" "t < y"
        by (auto simp: not_le not_less)
      then obtain k where k: "Suc k < length ?xs" "?xs ! k \<le> t" "t < ?xs ! Suc k"
        using sorted_enclosing [of x ?xs t y] by auto
      then have "interval_ok i (?xs ! k) (?xs ! Suc k)" using ok by (auto simp: sweep_iff_nth)
      then show ?thesis
        using uniform [OF assms _ _ k(2,3)] k sorted_neighbours [OF sorted_sort k(1)] by simp
    qed
  qed
next
  let ?xs = "sort (boundaries i)"
  assume "\<forall>t. instant_ok i t"
  then show "sweep (interval_ok i) ?xs"
    unfolding sweep_iff_nth
    using uniform [OF assms] sorted_neighbours [OF sorted_sort] by (metis order_refl set_sort)
qed

end


section \<open>The capacity check is exact\<close>

type_synonym pool_instance =
  "Aggregate \<times> ResourceConflict list \<times> InternalAvailabilitySegment list \<times> string \<times> int"

definition pool_admissible :: "pool_instance \<Rightarrow> bool" where
  "pool_admissible i = (case i of (aggregate, conflicts, segments, poolID, capacity) \<Rightarrow>
     0 \<le> capacity \<and> (\<forall>s \<in> set segments. 0 \<le> allocationUnits (ias_ResourceAllocations s) poolID))"

lemma boundary_of_conflict:
  assumes "c \<in> set conflicts" "rc_ResourcePoolID c = poolID"
  shows "rc_StartsAt c \<in> set (pool_boundaries aggregate conflicts segments poolID)"
    and "rc_EndsAt c \<in> set (pool_boundaries aggregate conflicts segments poolID)"
  using assms by (auto simp: pool_boundaries_def)

lemma boundary_of_segment:
  assumes "s \<in> set segments" "0 < allocationUnits (ias_ResourceAllocations s) poolID"
  shows "ias_OccupiedStartTime s \<in> set (pool_boundaries aggregate conflicts segments poolID)"
    and "ias_OccupiedEndTime s \<in> set (pool_boundaries aggregate conflicts segments poolID)"
  using assms by (auto simp: pool_boundaries_def)

lemma boundary_of_override:
  assumes "x \<in> set (agg_Exceptions aggregate)" "capacity_override poolID x"
  shows "cx_StartsAt x \<in> set (pool_boundaries aggregate conflicts segments poolID)"
    and "cx_EndsAt x \<in> set (pool_boundaries aggregate conflicts segments poolID)"
  using assms by (auto simp: pool_boundaries_def)

lemma sum_list_map_zero: "(\<And>x. x \<in> set xs \<Longrightarrow> f x = (0::int)) \<Longrightarrow> sum_list (map f xs) = 0"
  by (induction xs) auto

lemma not_enclosed:
  fixes t :: gotime
  assumes "(\<forall>x \<in> B. t < x) \<or> (\<forall>x \<in> B. x \<le> t)" "a \<in> B" "b \<in> B"
  shows "\<not> (a \<le> t \<and> t < b)"
  using assms by (auto simp: not_le not_less)

lemma overlap_without_boundary:
  assumes "a < b" "s \<le> a \<or> b \<le> s" "e \<le> a \<or> b \<le> e" "a \<le> t" "t < b"
  shows "rangesOverlap a b s e \<longleftrightarrow> s \<le> t \<and> t < e"
  using assms by (auto simp: rangesOverlap_def)

lemma usage_uniform:
  assumes nonneg: "\<forall>s \<in> set segments. 0 \<le> allocationUnits (ias_ResourceAllocations s) poolID"
    and ab: "a < b" "a \<le> t" "t < b"
    and free: "\<And>x. x \<in> set (pool_boundaries aggregate conflicts segments poolID) \<Longrightarrow> x \<le> a \<or> b \<le> x"
  shows "interval_usage conflicts segments poolID a b = usage_at conflicts segments poolID t"
proof -
  have c: "rangesOverlap a b (rc_StartsAt c) (rc_EndsAt c) \<longleftrightarrow> rc_StartsAt c \<le> t \<and> t < rc_EndsAt c"
    if "c \<in> set conflicts" "rc_ResourcePoolID c = poolID" for c
    using free boundary_of_conflict [OF that] ab by (intro overlap_without_boundary) auto
  have s: "rangesOverlap a b (ias_OccupiedStartTime s) (ias_OccupiedEndTime s)
      \<longleftrightarrow> ias_OccupiedStartTime s \<le> t \<and> t < ias_OccupiedEndTime s"
    if "s \<in> set segments" "allocationUnits (ias_ResourceAllocations s) poolID \<noteq> 0" for s
    using that free boundary_of_segment [of s segments poolID] ab nonneg
    by (intro overlap_without_boundary) (auto simp: order_less_le)
  have cs: "sum_list (map (\<lambda>c. if rc_ResourcePoolID c = poolID
        \<and> rangesOverlap a b (rc_StartsAt c) (rc_EndsAt c) then rc_UnitsAllocated c else 0) conflicts)
      = sum_list (map rc_UnitsAllocated (filter (\<lambda>c. rc_ResourcePoolID c = poolID
         \<and> rc_StartsAt c \<le> t \<and> t < rc_EndsAt c) conflicts))"
    unfolding sum_list_map_filter' by (rule arg_cong [where f = sum_list]) (use c in auto)
  have ss: "sum_list (map (\<lambda>s. if rangesOverlap a b (ias_OccupiedStartTime s) (ias_OccupiedEndTime s)
        then allocationUnits (ias_ResourceAllocations s) poolID else 0) segments)
      = sum_list (map (\<lambda>s. allocationUnits (ias_ResourceAllocations s) poolID)
         (filter (\<lambda>s. ias_OccupiedStartTime s \<le> t \<and> t < ias_OccupiedEndTime s) segments))"
    unfolding sum_list_map_filter' by (rule arg_cong [where f = sum_list]) (use s in auto)
  show ?thesis unfolding interval_usage_def usage_at_def cs ss ..
qed

lemma effective_uniform:
  assumes "a < b" "a \<le> t" "t < b"
    and free: "\<And>x. x \<in> set (pool_boundaries aggregate conflicts segments poolID) \<Longrightarrow> x \<le> a \<or> b \<le> x"
  shows "effective_capacity aggregate poolID capacity a = effective_capacity aggregate poolID capacity t"
proof -
  have "find (\<lambda>x. capacity_override poolID x \<and> cx_CapacityOverride x \<noteq> None
          \<and> \<not> a < cx_StartsAt x \<and> a < cx_EndsAt x) (agg_Exceptions aggregate) =
      find (\<lambda>x. capacity_override poolID x \<and> cx_CapacityOverride x \<noteq> None
          \<and> \<not> t < cx_StartsAt x \<and> t < cx_EndsAt x) (agg_Exceptions aggregate)"
  proof (rule find_cong [OF refl])
    fix x assume x: "x \<in> set (agg_Exceptions aggregate)"
    show "(capacity_override poolID x \<and> cx_CapacityOverride x \<noteq> None
          \<and> \<not> a < cx_StartsAt x \<and> a < cx_EndsAt x) =
        (capacity_override poolID x \<and> cx_CapacityOverride x \<noteq> None
          \<and> \<not> t < cx_StartsAt x \<and> t < cx_EndsAt x)"
    proof (cases "capacity_override poolID x")
      case True
      then have "cx_StartsAt x \<le> a \<or> b \<le> cx_StartsAt x" "cx_EndsAt x \<le> a \<or> b \<le> cx_EndsAt x"
        using free boundary_of_override [OF x] by blast+
      with assms(1-3) show ?thesis by auto
    qed simp
  qed
  then show ?thesis by (simp add: effective_capacity_def)
qed

lemma effective_outside:
  assumes "(\<forall>x \<in> set (pool_boundaries aggregate conflicts segments poolID). t < x)
    \<or> (\<forall>x \<in> set (pool_boundaries aggregate conflicts segments poolID). x \<le> t)"
  shows "effective_capacity aggregate poolID capacity t = capacity"
proof -
  have "find (\<lambda>x. capacity_override poolID x \<and> cx_CapacityOverride x \<noteq> None
          \<and> \<not> t < cx_StartsAt x \<and> t < cx_EndsAt x) (agg_Exceptions aggregate) = None"
    unfolding find_None_iff
    using not_enclosed [OF assms boundary_of_override] by (auto simp: not_less)
  then show ?thesis by (simp add: effective_capacity_def)
qed

lemma usage_outside:
  assumes "\<forall>s \<in> set segments. 0 \<le> allocationUnits (ias_ResourceAllocations s) poolID"
    and out: "(\<forall>x \<in> set (pool_boundaries aggregate conflicts segments poolID). t < x)
      \<or> (\<forall>x \<in> set (pool_boundaries aggregate conflicts segments poolID). x \<le> t)"
  shows "usage_at conflicts segments poolID t = 0"
proof -
  have "filter (\<lambda>c. rc_ResourcePoolID c = poolID \<and> rc_StartsAt c \<le> t \<and> t < rc_EndsAt c) conflicts = []"
    using not_enclosed [OF out boundary_of_conflict] by (auto simp: filter_empty_conv)
  moreover have "allocationUnits (ias_ResourceAllocations s) poolID = 0"
    if "s \<in> set segments" "ias_OccupiedStartTime s \<le> t" "t < ias_OccupiedEndTime s" for s
    using assms(1) that not_enclosed [OF out boundary_of_segment] by (metis order_le_less)
  then have "sum_list (map (\<lambda>s. allocationUnits (ias_ResourceAllocations s) poolID)
      (filter (\<lambda>s. ias_OccupiedStartTime s \<le> t \<and> t < ias_OccupiedEndTime s) segments)) = 0"
    by (intro sum_list_map_zero) auto
  ultimately show ?thesis by (simp add: usage_at_def)
qed

interpretation pool: sweep_line pool_admissible
  "\<lambda>(aggregate, conflicts, segments, poolID, capacity).
     pool_boundaries aggregate conflicts segments poolID"
  "\<lambda>(aggregate, conflicts, segments, poolID, capacity) a b.
     \<not> interval_usage conflicts segments poolID a b
         > effective_capacity aggregate poolID capacity a"
  "\<lambda>(aggregate, conflicts, segments, poolID, capacity) t.
     usage_at conflicts segments poolID t \<le> effective_capacity aggregate poolID capacity t"
proof (unfold_locales, goal_cases)
  case (1 i a b t)
  obtain aggregate conflicts segments poolID capacity
    where i: "i = (aggregate, conflicts, segments, poolID, capacity)" by (cases i)
  with 1 show ?case
    using usage_uniform [of segments poolID a b t aggregate conflicts]
      effective_uniform [of a b t aggregate conflicts segments poolID capacity]
    by (simp add: pool_admissible_def not_less)
next
  case (2 i t)
  obtain aggregate conflicts segments poolID capacity
    where i: "i = (aggregate, conflicts, segments, poolID, capacity)" by (cases i)
  with 2 show ?case
    using usage_outside [of segments poolID aggregate conflicts t]
      effective_outside [of aggregate conflicts segments poolID t capacity]
    by (simp add: pool_admissible_def)
qed

lemma allocationUnits_nonneg:
  "list_all (\<lambda>a. 0 \<le> ira_UnitsAllocated a) as \<Longrightarrow> 0 \<le> allocationUnits as poolID"
  by (induction as) auto

lemma pool_fits_iff:
  assumes "units_nonneg segments"
  shows "pool_fits aggregate conflicts segments poolID \<longleftrightarrow>
    (\<exists>capacity. base_capacity aggregate poolID = Some capacity \<and> 1 \<le> capacity \<and>
      (\<forall>t. usage_at conflicts segments poolID t \<le> effective_capacity aggregate poolID capacity t))"
proof (cases "base_capacity aggregate poolID")
  case (Some capacity)
  have "pool_admissible (aggregate, conflicts, segments, poolID, capacity)" if "1 \<le> capacity"
    using assms that allocationUnits_nonneg
    by (auto simp: pool_admissible_def units_nonneg_def list_all_iff)
  with Some show ?thesis
    using pool.sweep_decides [of "(aggregate, conflicts, segments, poolID, capacity)"]
    by (auto simp: pool_fits_def)
qed (simp add: pool_fits_def)

text \<open>
  C25: The capacity check of a plan is exact. With non-negative units, \<open>resourcesFit\<close> accepts a
  plan if and only if every pool the plan draws on exists, is not archived, has a positive
  capacity, and at no instant are more of its units in use (by committed work and by the plan
  together) than its effective capacity at that instant, overrides included.
\<close>

theorem resourcesFit_iff_capacity_everywhere:
  assumes "units_nonneg segments"
  shows "resourcesFit snapshot segments \<longleftrightarrow>
    (\<exists>aggregate. snap_Aggregate snapshot = Some aggregate \<and>
      (\<forall>poolID \<in> set (plan_pools segments). \<exists>capacity.
         base_capacity aggregate poolID = Some capacity \<and> 1 \<le> capacity \<and>
         (\<forall>t. usage_at (snap_ResourceConflicts snapshot) segments poolID t
               \<le> effective_capacity aggregate poolID capacity t)))"
  using pool_fits_iff [OF assms]
  by (auto simp: resourcesFit_def list_all_iff split: option.splits)

end
