(* ===== verification/Go_Time.thy ===== *)
theory Go_Time
  imports Prelude
begin

text \<open>
  The part of Go's \<open>time\<close> package the scheduling code uses: the proleptic Gregorian calendar,
  \<open>time.Date\<close> and \<open>AddDate(0,0,1)\<close> in UTC, \<open>time.Parse("2006-01-02", _)\<close>, and time zones.

  A \<open>Location\<close> is the function that gives, for every instant, the offset from UTC in seconds
  (what \<open>t.In(loc).Zone()\<close> returns). \<open>time.LoadLocation\<close> reads the IANA database, which is
  not part of the repository: it is a parameter \<open>string \<Rightarrow> Location option\<close> of the definitions
  that call it.
  The lemmas show that day numbers and civil dates are in one-to-one correspondence.
\<close>

type_synonym Location = "gotime \<Rightarrow> int"
type_synonym civil = "int \<times> int \<times> int"

definition ns_per_second :: int where "ns_per_second = 1000000000"
definition ns_per_minute :: int where "ns_per_minute = 60000000000"

section \<open>The Gregorian calendar\<close>

definition is_leap :: "int \<Rightarrow> bool" where
  "is_leap y \<longleftrightarrow> y mod 4 = 0 \<and> (y mod 100 \<noteq> 0 \<or> y mod 400 = 0)"

text \<open>Day 0 is 1 January of year 1, the date of Go's zero time.\<close>

definition days_before_year :: "int \<Rightarrow> int" where
  "days_before_year y =
     365 * (y - 1) + (y - 1) div 4 - (y - 1) div 100 + (y - 1) div 400"

definition cumulative_days :: "int list" where
  "cumulative_days = [0, 31, 59, 90, 120, 151, 181, 212, 243, 273, 304, 334, 365]"

definition days_before_month :: "int \<Rightarrow> int \<Rightarrow> int" where
  "days_before_month y m =
     cumulative_days ! nat (m - 1) + (if 2 < m \<and> is_leap y then 1 else 0)"

definition days_in_month :: "int \<Rightarrow> int \<Rightarrow> int" where
  "days_in_month y m = days_before_month y (m + 1) - days_before_month y m"

definition valid_civil :: "civil \<Rightarrow> bool" where
  "valid_civil c = (case c of (y, m, d) \<Rightarrow>
     1 \<le> m \<and> m \<le> 12 \<and> 1 \<le> d \<and> d \<le> days_in_month y m)"

definition days_of_civil :: "civil \<Rightarrow> int" where
  "days_of_civil c = (case c of (y, m, d) \<Rightarrow>
     days_before_year y + days_before_month y m + (d - 1))"

definition year_of_days :: "int \<Rightarrow> int" where
  "year_of_days n =
     (let y = (400 * n) div 146097 + 1 in
      if n < days_before_year y then y - 1
      else if days_before_year (y + 1) \<le> n then y + 1 else y)"

definition month_of_yday :: "int \<Rightarrow> int \<Rightarrow> int" where
  "month_of_yday y k = int (length (takeWhile (\<lambda>m. days_before_month y m \<le> k)
      [1, 2, 3, 4, 5, 6, 7, 8, 9, 10, 11, 12]))"

definition civil_of_days :: "int \<Rightarrow> civil" where
  "civil_of_days n =
     (let y = year_of_days n; k = n - days_before_year y; m = month_of_yday y k
      in (y, m, k - days_before_month y m + 1))"

section \<open>Instants and wall clocks\<close>

text \<open>\<open>time.Date(y, m, d, h, mi, 0, 0, time.UTC)\<close> for a date in the calendar.\<close>

definition Date_UTC :: "civil \<Rightarrow> int \<Rightarrow> int \<Rightarrow> gotime" where
  "Date_UTC c h mi = (days_of_civil c * 86400 + h * 3600 + mi * 60) * ns_per_second"

text \<open>Seconds on the wall clock of a location, counted like instants from day 0.\<close>

definition wall_seconds :: "Location \<Rightarrow> gotime \<Rightarrow> int" where
  "wall_seconds loc t = t div ns_per_second + loc t"

definition local_civil :: "Location \<Rightarrow> gotime \<Rightarrow> civil" where
  "local_civil loc t = civil_of_days (wall_seconds loc t div 86400)"

definition local_hour :: "Location \<Rightarrow> gotime \<Rightarrow> int" where
  "local_hour loc t = wall_seconds loc t mod 86400 div 3600"

definition local_minute :: "Location \<Rightarrow> gotime \<Rightarrow> int" where
  "local_minute loc t = wall_seconds loc t mod 3600 div 60"

text \<open>Sunday is 0; day 0 was a Monday.\<close>

definition local_weekday :: "Location \<Rightarrow> gotime \<Rightarrow> int" where
  "local_weekday loc t = (wall_seconds loc t div 86400 + 1) mod 7"

text \<open>
  \<open>time.Date(y, m, d, h, mi, 0, 0, loc)\<close>: Go guesses the offset at the wall time read as UTC
  and corrects it with the offset in force at the resulting instant.
\<close>

definition Date_in :: "civil \<Rightarrow> int \<Rightarrow> int \<Rightarrow> Location \<Rightarrow> gotime" where
  "Date_in c h mi loc =
     (let unix = Date_UTC c h mi; offset = loc unix in
      if offset = 0 then unix
      else unix - loc (unix - offset * ns_per_second) * ns_per_second)"

section \<open>Parsing dates\<close>

definition digit_value :: "char \<Rightarrow> int option" where
  "digit_value c =
     (let n = int (of_char c) in if 48 \<le> n \<and> n \<le> 57 then Some (n - 48) else None)"

fun digits_value :: "int \<Rightarrow> string \<Rightarrow> int option" where
  "digits_value acc [] = Some acc"
| "digits_value acc (c # cs) =
     (case digit_value c of None \<Rightarrow> None | Some v \<Rightarrow> digits_value (10 * acc + v) cs)"

text \<open>\<open>time.Parse("2006-01-02", s)\<close>: four, two and two digits and a date of the calendar.\<close>

definition parse_date :: "string \<Rightarrow> civil option" where
  "parse_date s =
     (if length s = 10 \<and> s ! 4 = CHR ''-'' \<and> s ! 7 = CHR ''-'' then
        (case (digits_value 0 (take 4 s), digits_value 0 (take 2 (drop 5 s)),
               digits_value 0 (drop 8 s)) of
           (Some y, Some m, Some d) \<Rightarrow> if valid_civil (y, m, d) then Some (y, m, d) else None
         | _ \<Rightarrow> None)
      else None)"

text \<open>
  \<open>t.Format("2006-01-02")\<close>: \<open>appendInt\<close> writes a number in decimal, padded with zeros to a width.
\<close>

function appendInt :: "nat \<Rightarrow> nat \<Rightarrow> string" where
  "appendInt n width =
     (if n < 10 \<and> width \<le> 1 then [char_of (48 + n)]
      else appendInt (n div 10) (width - 1) @ [char_of (48 + n mod 10)])"
  by pat_completeness auto
termination
  by (relation "measure (\<lambda>(n, width). n + width)") auto

declare appendInt.simps [simp del]

definition format_date :: "civil \<Rightarrow> string" where
  "format_date c =
     (case c of (y, m, d) \<Rightarrow>
        (if y < 0 then ''-'' else []) @ appendInt (nat \<bar>y\<bar>) 4 @ ''-'' @ appendInt (nat m) 2
        @ ''-'' @ appendInt (nat d) 2)"

lemma parse_date_valid: "parse_date s = Some c \<Longrightarrow> valid_civil c"
  by (auto simp: parse_date_def split: if_splits option.splits)

section \<open>Day numbers and civil dates correspond\<close>

lemma days_before_year_succ:
  "days_before_year (y + 1) = days_before_year y + (if is_leap y then 366 else 365)"
proof -
  have step: "y div k = (y - 1) div k + (if y mod k = 0 then 1 else 0)" if "0 < k" for k :: int
  proof (cases "y mod k = 0")
    case True
    then obtain q where q: "y = k * q" by (auto elim: dvdE)
    have "(y - 1) div k = q - 1"
      by (rule int_div_pos_eq [where r = "k - 1"])
        (use that q in \<open>auto simp: algebra_simps\<close>)
    with q that show ?thesis by simp
  next
    case False
    have "0 \<le> y mod k - 1" "y mod k - 1 < k" "y - 1 = k * (y div k) + (y mod k - 1)"
      using that False pos_mod_sign [of k y] pos_mod_bound [of k y] mult_div_mod_eq [of k y]
      by linarith+
    then have "(y - 1) div k = y div k" by (metis int_div_pos_eq)
    with False show ?thesis by simp
  qed
  have dvd: "y mod 100 = 0 \<Longrightarrow> y mod 4 = 0" "y mod 400 = 0 \<Longrightarrow> y mod 100 = 0"
    using dvd_trans [of 4 100 y] dvd_trans [of 100 400 y] by (simp_all add: mod_eq_0_iff_dvd)
  have "days_before_year (y + 1) = days_before_year y + 365 + (if y mod 4 = 0 then 1 else 0)
      - (if y mod 100 = 0 then 1 else 0) + (if y mod 400 = 0 then 1 else 0)"
  proof -
    have sum: "365 * y + a' - b' + c' = 365 * (y - 1) + a - b + c + 365 + i - j + k"
      if "a' = a + i" "b' = b + j" "c' = c + k" for a b c a' b' c' i j k :: int
      using that by simp
    show ?thesis
      unfolding days_before_year_def add_diff_cancel_right' by (rule sum; rule step; simp)
  qed
  with dvd show ?thesis
    by (cases "y mod 4 = 0"; cases "y mod 100 = 0"; cases "y mod 400 = 0")
      (simp_all add: is_leap_def)
qed

lemma days_before_year_mono: "y < z \<Longrightarrow> days_before_year y < days_before_year z"
proof (induction z rule: int_gr_induct [where k = y])
  case base
  then show ?case by (simp add: days_before_year_succ)
next
  case (step i)
  then show ?case by (simp add: days_before_year_succ)
qed

lemma div_bounds:
  fixes x k :: int
  assumes "0 < k"
  shows "k * (x div k) \<le> x" and "x < k * (x div k) + k"
  using assms pos_mod_sign [of k x] pos_mod_bound [of k x] mult_div_mod_eq [of k x] by linarith+

lemma days_before_year_bounds:
  "146097 * (y - 1) - 800 \<le> 400 * days_before_year y"
  "400 * days_before_year y \<le> 146097 * (y - 1) + 800"
proof -
  define a b c where "a = (y - 1) div 4" and "b = (y - 1) div 100" and "c = (y - 1) div 400"
  have "4 * a \<le> y - 1" "y - 1 < 4 * a + 4" "100 * b \<le> y - 1" "y - 1 < 100 * b + 100"
    "400 * c \<le> y - 1" "y - 1 < 400 * c + 400"
    unfolding a_def b_def c_def by (rule div_bounds, simp)+
  then show "146097 * (y - 1) - 800 \<le> 400 * days_before_year y"
    "400 * days_before_year y \<le> 146097 * (y - 1) + 800"
    unfolding days_before_year_def a_def [symmetric] b_def [symmetric] c_def [symmetric] by simp_all
qed

lemma year_of_days_bounds:
  "days_before_year (year_of_days n) \<le> n"
  "n < days_before_year (year_of_days n + 1)"
proof -
  define y where "y = (400 * n) div 146097 + 1"
  have n: "146097 * (y - 1) \<le> 400 * n" "400 * n < 146097 * y"
    using div_bounds [of 146097 "400 * n"] unfolding y_def by simp_all
  have "days_before_year (y - 1) \<le> n"
    using n days_before_year_bounds [of "y - 1"] by simp
  moreover have "n < days_before_year (y + 1 + 1)"
    using n days_before_year_bounds [of "2 + y"] by (simp add: add.commute)
  ultimately show "days_before_year (year_of_days n) \<le> n"
    "n < days_before_year (year_of_days n + 1)"
    unfolding year_of_days_def y_def [symmetric] Let_def by auto
qed

lemma year_of_days_unique:
  assumes "days_before_year y \<le> n" and "n < days_before_year (y + 1)"
  shows "year_of_days n = y"
proof (rule ccontr)
  assume "year_of_days n \<noteq> y"
  then consider "year_of_days n + 1 \<le> y" | "y + 1 \<le> year_of_days n" by linarith
  then show False
    using assms year_of_days_bounds [of n] days_before_year_mono
    by cases (metis order_le_less order.strict_trans2 linorder_not_less)+
qed

lemma cumulative_days_nth:
  "cumulative_days ! 0 = 0" "cumulative_days ! Suc 0 = 31" "cumulative_days ! 2 = 59"
  "cumulative_days ! 3 = 90" "cumulative_days ! 4 = 120" "cumulative_days ! 5 = 151"
  "cumulative_days ! 6 = 181" "cumulative_days ! 7 = 212" "cumulative_days ! 8 = 243"
  "cumulative_days ! 9 = 273" "cumulative_days ! 10 = 304" "cumulative_days ! 11 = 334"
  "cumulative_days ! 12 = 365"
  by (simp_all add: cumulative_days_def)

lemma month_cases:
  assumes "1 \<le> m" and "m \<le> (12::int)"
  shows "m = 1 \<or> m = 2 \<or> m = 3 \<or> m = 4 \<or> m = 5 \<or> m = 6 \<or> m = 7 \<or> m = 8 \<or> m = 9
    \<or> m = 10 \<or> m = 11 \<or> m = 12"
  using assms by presburger

lemma month_of_yday_unique:
  assumes "1 \<le> m" and "m \<le> 12"
    and "days_before_month y m \<le> k" and "k < days_before_month y (m + 1)"
  shows "month_of_yday y k = m"
  using month_cases [OF assms(1,2)] assms(3,4)
  by (elim disjE)
    (auto simp: month_of_yday_def days_before_month_def cumulative_days_nth split: if_splits)

lemma days_before_month_range:
  assumes "1 \<le> m" and "m \<le> 12"
  shows "0 \<le> days_before_month y m"
    and "days_before_month y (m + 1) \<le> (if is_leap y then 366 else 365)"
  using month_cases [OF assms]
  by (elim disjE; simp add: days_before_month_def cumulative_days_nth)+

lemma civil_of_days_of_civil:
  assumes "valid_civil c"
  shows "civil_of_days (days_of_civil c) = c"
proof -
  obtain y m d where c: "c = (y, m, d)" by (cases c)
  have m: "1 \<le> m" "m \<le> 12" and d: "1 \<le> d" "d \<le> days_in_month y m"
    using assms by (auto simp: valid_civil_def c)
  have year: "year_of_days (days_of_civil c) = y"
    using d days_before_month_range [OF m, of y]
    by (intro year_of_days_unique)
      (auto simp: days_of_civil_def c days_before_year_succ days_in_month_def split: if_splits)
  have month: "month_of_yday y (days_of_civil c - days_before_year y) = m"
    using d by (intro month_of_yday_unique [OF m])
      (auto simp: days_of_civil_def c days_in_month_def)
  show ?thesis
    unfolding civil_of_days_def Let_def year month by (simp add: c days_of_civil_def)
qed

lemma days_of_civil_of_days [simp]: "days_of_civil (civil_of_days n) = n"
  by (simp add: days_of_civil_def civil_of_days_def Let_def)

lemma month_exists:
  assumes "0 \<le> k" and "k < (if is_leap y then 366 else 365)"
  shows "\<exists>m. 1 \<le> m \<and> m \<le> 12 \<and> days_before_month y m \<le> k \<and> k < days_before_month y (m + 1)"
proof -
  have ends: "days_before_month y 1 = 0" "days_before_month y (12 + 1) = (if is_leap y then 366 else 365)"
    by (simp_all add: days_before_month_def cumulative_days_nth)
  have "\<exists>m. 1 \<le> m \<and> m \<le> int n \<and> days_before_month y m \<le> k \<and> k < days_before_month y (m + 1)"
    if "k < days_before_month y (int n + 1)" for n
    using that
  proof (induction n)
    case 0
    then show ?case using assms(1) ends by simp
  next
    case (Suc n)
    show ?case
    proof (cases "k < days_before_month y (int n + 1)")
      case True
      then show ?thesis using Suc.IH by force
    next
      case False
      then show ?thesis using Suc.prems by (intro exI [of _ "int n + 1"]) (simp add: add.commute)
    qed
  qed
  from this [of 12] show ?thesis using assms(2) ends by simp
qed

lemma valid_civil_of_days [simp]: "valid_civil (civil_of_days n)"
proof -
  let ?y = "year_of_days n" and ?k = "n - days_before_year (year_of_days n)"
  have "0 \<le> ?k" "?k < (if is_leap ?y then 366 else 365)"
    using year_of_days_bounds [of n] by (auto simp: days_before_year_succ)
  then obtain m where m: "1 \<le> m" "m \<le> 12" "days_before_month ?y m \<le> ?k"
    "?k < days_before_month ?y (m + 1)"
    using month_exists by blast
  then show ?thesis
    using month_of_yday_unique [OF m]
    by (simp add: civil_of_days_def Let_def valid_civil_def days_in_month_def)
qed

lemma Date_UTC_minutes:
  "Date_UTC date (minute div 60) (minute mod 60) = Date_UTC date 0 0 + minute * ns_per_minute"
proof -
  have "(d * 86400 + h * 3600 + r * 60) * 1000000000 =
      (d * 86400 + 0 * 3600 + 0 * 60) * 1000000000 + (60 * h + r) * 60000000000" for d h r :: int
    by simp
  from this [of "days_of_civil date" "minute div 60" "minute mod 60"] show ?thesis
    unfolding Date_UTC_def ns_per_second_def ns_per_minute_def by (simp only: mult_div_mod_eq)
qed

lemma Date_UTC_next_day:
  "Date_UTC (civil_of_days (days_of_civil date + 1)) 0 0 = Date_UTC date 0 0 + 1440 * ns_per_minute"
  unfolding Date_UTC_def ns_per_second_def ns_per_minute_def days_of_civil_of_days by simp

section \<open>Formatting and parsing dates\<close>

lemma digits_value_append:
  "digits_value acc (xs @ ys) = (case digits_value acc xs of None \<Rightarrow> None | Some v \<Rightarrow> digits_value v ys)"
  by (induction xs arbitrary: acc) (auto split: option.splits)

lemma digit_value_char: "n < 10 \<Longrightarrow> digit_value (char_of (48 + n)) = Some (int n)"
  by (simp add: digit_value_def)

lemma digits_value_appendInt: "digits_value 0 (appendInt n width) = Some (int n)"
proof (induction n width rule: appendInt.induct)
  case (1 n width)
  show ?case
  proof (cases "n < 10 \<and> width \<le> 1")
    case True
    then show ?thesis by (simp add: appendInt.simps [of n] digit_value_char)
  next
    case False
    have "10 * int (n div 10) + int (n mod 10) = int n" by presburger
    with False 1 show ?thesis
      by (simp add: appendInt.simps [of n] digits_value_append digit_value_char)
  qed
qed

lemma length_appendInt: "n < 10 ^ width \<Longrightarrow> 0 < width \<Longrightarrow> length (appendInt n width) = width"
proof (induction n width rule: appendInt.induct)
  case (1 n width)
  show ?case
  proof (cases "n < 10 \<and> width \<le> 1")
    case True
    with 1(3) show ?thesis by (simp add: appendInt.simps [of n])
  next
    case False
    then have "1 < width" using 1(2,3) by (cases "width = 1") auto
    then obtain w where w: "width = Suc w" "0 < w" by (cases width) auto
    with 1(2) have "n div 10 < 10 ^ w" by (simp add: less_mult_imp_div_less mult.commute)
    with 1(1) [OF False] w False show ?thesis by (simp add: appendInt.simps [of n])
  qed
qed

text \<open>A date of a four-digit year survives formatting and parsing.\<close>

lemma parse_format_date:
  assumes "valid_civil c" "0 \<le> fst c" "fst c \<le> 9999"
  shows "parse_date (format_date c) = Some c"
proof -
  obtain y m d where c: "c = (y, m, d)" by (cases c)
  have m: "1 \<le> m" "m \<le> 12" "1 \<le> d" "d \<le> days_in_month y m"
    using assms(1) by (auto simp: c valid_civil_def)
  from month_cases [OF m(1,2)] have "days_in_month y m \<le> 31"
    by (elim disjE) (simp_all add: days_in_month_def days_before_month_def cumulative_days_nth)
  then have range: "0 \<le> m" "m < 100" "0 \<le> d" "d < 100" "0 \<le> y" "y < 10000"
    using assms m by (simp_all add: c)
  have len: "length (appendInt (nat y) 4) = 4" "length (appendInt (nat m) 2) = 2"
    "length (appendInt (nat d) 2) = 2"
    using range by (simp_all add: length_appendInt nat_less_iff)
  then have "length (format_date c) = 10" "format_date c ! 4 = CHR ''-''" "format_date c ! 7 = CHR ''-''"
    "take 4 (format_date c) = appendInt (nat y) 4"
    "take 2 (drop 5 (format_date c)) = appendInt (nat m) 2" "drop 8 (format_date c) = appendInt (nat d) 2"
    using range by (simp_all add: c format_date_def nth_append)
  then show ?thesis
    using range assms(1) unfolding parse_date_def by (simp add: digits_value_appendInt c)
qed

end
