(* ===== verification/Calendar_Planner.thy ===== *)
theory Calendar_Planner
  imports Calendar_Resources Go_Time
begin

text \<open>
  The availability planner of the ManleAI calendar, \<open>execution_availability.go\<close>: it walks the
  slot grid of one local day and, for every start, assigns staff to the requested segments by
  backtracking, within opening hours, schedules, exceptions, committed work and pool capacity.

  \<^item> Time zones: \<open>LoadLocation\<close> is a parameter; a location gives the offset at every instant.
  \<^item> \<open>PlanContext\<close> holds the arguments \<open>assignAggregateSegments\<close> hands on unchanged, and the
    recursion over \<open>index\<close> is the recursion over the segments that remain.
  \<^item> \<open>SegmentWindow\<close> holds the times of one segment, which do not depend on the staff chosen.
  \<^item> \<open>sort.Slice\<close> is not stable; the sorts here order by keys that are unique in the tables
    (a service requires a pool once) or sort equal values.

  The lemmas show that the backtracking search is sound and complete for a declarative notion of
  a feasible staffing, and that every offered slot respects the notice, the grid and the limit.
\<close>

section \<open>Local wall-clock instants\<close>

definition strictLocalInstant :: "civil \<Rightarrow> int \<Rightarrow> int \<Rightarrow> Location \<Rightarrow> gotime option" where
  "strictLocalInstant date hour minute location =
     (if hour < 0 \<or> hour > 23 \<or> minute < 0 \<or> minute > 59 then None
      else
        let wall = Date_UTC date hour minute;
            samples = map (\<lambda>k. wall + (30 * k - 2160) * ns_per_minute) [0..144];
            offsets = remdups (map location samples);
            candidates = map (\<lambda>offset. wall - offset * ns_per_second) offsets;
            matches = filter (\<lambda>candidate. local_civil location candidate = date
                \<and> local_hour location candidate = hour
                \<and> local_minute location candidate = minute) candidates
        in case matches of [m] \<Rightarrow> Some m | _ \<Rightarrow> None)"

definition strictLocalMinute :: "civil \<Rightarrow> int \<Rightarrow> Location \<Rightarrow> gotime option" where
  "strictLocalMinute date minute location =
     (if minute < 0 \<or> minute > 1440 then None
      else if minute = 1440
      then strictLocalInstant (civil_of_days (days_of_civil date + 1)) 0 0 location
      else strictLocalInstant date (minute div 60) (minute mod 60) location)"

section \<open>Hours, exceptions and conflicts\<close>

definition eligibleService :: "ServiceRef \<Rightarrow> bool" where
  "eligibleService service \<longleftrightarrow> sv_Active service \<and> sv_AIBookable service
     \<and> sv_ArchivedAt service = None \<and> sv_DurationMinutes service > 0"

definition eligibleStaff :: "StaffRef \<Rightarrow> bool" where
  "eligibleStaff staff \<longleftrightarrow> sf_Active staff \<and> sf_AIBookable staff \<and> sf_ArchivedAt staff = None"

definition periodRanges :: "BusinessHourPeriod list \<Rightarrow> int \<Rightarrow> minuteRange list" where
  "periodRanges periods dayOfWeek =
     map (\<lambda>period. \<lparr>mr_start = bh_StartMinute period, mr_end = bh_EndMinute period\<rparr>)
       (filter (\<lambda>period. bh_DayOfWeek period = dayOfWeek) periods)"

definition weeklyPeriodRanges :: "WeeklyPeriod list \<Rightarrow> int \<Rightarrow> minuteRange list" where
  "weeklyPeriodRanges periods dayOfWeek =
     map (\<lambda>period. \<lparr>mr_start = wp_StartMinute period, mr_end = wp_EndMinute period\<rparr>)
       (filter (\<lambda>period. wp_DayOfWeek period = dayOfWeek) periods)"

fun scope_exceptions ::
  "bool \<Rightarrow> gotime \<Rightarrow> gotime \<Rightarrow> CalendarException list \<Rightarrow> string \<Rightarrow> string \<Rightarrow> bool" where
  "scope_exceptions allowed startsAt endsAt [] scope entityID = allowed"
| "scope_exceptions allowed startsAt endsAt (exception # exceptions) scope entityID =
     (if cx_CancelledAt exception \<noteq> None \<or> cx_ScopeType exception \<noteq> scope
         \<or> (scope = ExceptionScopeStaff \<and> cx_StaffID exception \<noteq> entityID)
      then scope_exceptions allowed startsAt endsAt exceptions scope entityID
      else if cx_Effect exception = ExceptionEffectUnavailable
         \<and> rangesOverlap startsAt endsAt (cx_StartsAt exception) (cx_EndsAt exception) then False
      else if cx_Effect exception = ExceptionEffectAvailable
         \<and> \<not> startsAt < cx_StartsAt exception \<and> \<not> endsAt > cx_EndsAt exception
      then scope_exceptions True startsAt endsAt exceptions scope entityID
      else scope_exceptions allowed startsAt endsAt exceptions scope entityID)"

definition scopeAllowsRange ::
  "minuteRange list \<Rightarrow> int \<Rightarrow> int \<Rightarrow> gotime \<Rightarrow> gotime \<Rightarrow> CalendarException list \<Rightarrow> string
     \<Rightarrow> string \<Rightarrow> bool" where
  "scopeAllowsRange base startMinute endMinute startsAt endsAt exceptions scope entityID =
     scope_exceptions
       (list_ex (\<lambda>period. startMinute \<ge> mr_start period \<and> endMinute \<le> mr_end period) base)
       startsAt endsAt exceptions scope entityID"

definition hasStaffConflict :: "StaffConflict list \<Rightarrow> string \<Rightarrow> gotime \<Rightarrow> gotime \<Rightarrow> bool" where
  "hasStaffConflict conflicts staffID startsAt endsAt =
     list_ex (\<lambda>conflict. sc_StaffID conflict = staffID
       \<and> rangesOverlap startsAt endsAt (sc_StartsAt conflict) (sc_EndsAt conflict)) conflicts"

definition hasPlannedStaffConflict ::
  "InternalAvailabilitySegment list \<Rightarrow> string \<Rightarrow> gotime \<Rightarrow> gotime \<Rightarrow> bool" where
  "hasPlannedStaffConflict segments staffID startsAt endsAt =
     list_ex (\<lambda>segment. ias_StaffID segment = staffID
       \<and> rangesOverlap startsAt endsAt (ias_OccupiedStartTime segment)
           (ias_OccupiedEndTime segment)) segments"

definition eligibleStaffIDs ::
  "ServicePolicy \<Rightarrow> (string \<rightharpoonup> StaffProfile) \<Rightarrow> normalizedAvailabilitySegment \<Rightarrow> string list" where
  "eligibleStaffIDs policy profiles requested =
     sort (map sf_ID (filter (\<lambda>staff.
       case profiles (sf_ID staff) of
         None \<Rightarrow> False
       | Some profile \<Rightarrow> eligibleStaff staff \<and> sp_WeeklyPeriods profile \<noteq> []
           \<and> \<not> (nas_StaffSelectionMode requested = StaffSelectionSpecific
                \<and> sf_ID staff \<noteq> nas_StaffID requested)) (vp_EligibleStaff policy)))"

section \<open>Assigning staff\<close>

record PlanContext =
  ctx_snapshot :: AvailabilitySnapshot
  ctx_aggregate :: Aggregate
  ctx_config :: CalendarConfig
  ctx_rootStartMinute :: int
  ctx_localDate :: civil
  ctx_location :: Location
  ctx_dayOfWeek :: int
  ctx_salonBase :: "minuteRange list"
  ctx_policies :: "string \<rightharpoonup> ServicePolicy"
  ctx_profiles :: "string \<rightharpoonup> StaffProfile"

record SegmentWindow =
  win_EndMinute :: int
  win_OccupiedStartMinute :: int
  win_OccupiedEndMinute :: int
  win_Start :: gotime
  win_End :: gotime
  win_OccupiedStart :: gotime
  win_OccupiedEnd :: gotime
  win_BufferBefore :: int
  win_BufferAfter :: int

definition guest_key :: "normalizedAvailabilitySegment \<Rightarrow> string" where
  "guest_key requested =
     (let guestKey = TrimSpace (nas_GuestReference requested) in
      if guestKey = [] then ''__single_guest'' else guestKey)"

definition segment_window ::
  "PlanContext \<Rightarrow> ServicePolicy \<Rightarrow> normalizedAvailabilitySegment \<Rightarrow> (string \<rightharpoonup> int)
     \<Rightarrow> SegmentWindow option" where
  "segment_window ctx policy requested guestNext =
     (let segmentStartMinute =
            (case guestNext (guest_key requested) of
               Some nxt \<Rightarrow> nxt | None \<Rightarrow> ctx_rootStartMinute ctx);
          bufferBefore = (case vp_BufferBeforeMinutesOverride policy of
               Some b \<Rightarrow> b | None \<Rightarrow> cc_DefaultBufferBeforeMinutes (ctx_config ctx));
          bufferAfter = (case vp_BufferAfterMinutesOverride policy of
               Some b \<Rightarrow> b | None \<Rightarrow> cc_DefaultBufferAfterMinutes (ctx_config ctx));
          segmentEndMinute = segmentStartMinute + sv_DurationMinutes (vp_Service policy);
          occupiedStartMinute = segmentStartMinute - bufferBefore;
          occupiedEndMinute = segmentEndMinute + bufferAfter
      in if occupiedStartMinute < 0 \<or> occupiedEndMinute > 1440 \<or> segmentEndMinute > 1440
         then None
         else
           (case (strictLocalMinute (ctx_localDate ctx) segmentStartMinute (ctx_location ctx),
                  strictLocalMinute (ctx_localDate ctx) segmentEndMinute (ctx_location ctx),
                  strictLocalMinute (ctx_localDate ctx) occupiedStartMinute (ctx_location ctx),
                  strictLocalMinute (ctx_localDate ctx) occupiedEndMinute (ctx_location ctx)) of
              (Some segmentStart, Some segmentEnd, Some occupiedStart, Some occupiedEnd) \<Rightarrow>
                if \<not> segmentEnd > segmentStart \<or> \<not> occupiedEnd > occupiedStart
                   \<or> \<not> scopeAllowsRange (ctx_salonBase ctx) occupiedStartMinute occupiedEndMinute
                        occupiedStart occupiedEnd (agg_Exceptions (ctx_aggregate ctx))
                        ExceptionScopeSalon []
                then None
                else Some \<lparr>win_EndMinute = segmentEndMinute,
                  win_OccupiedStartMinute = occupiedStartMinute,
                  win_OccupiedEndMinute = occupiedEndMinute, win_Start = segmentStart,
                  win_End = segmentEnd, win_OccupiedStart = occupiedStart,
                  win_OccupiedEnd = occupiedEnd, win_BufferBefore = bufferBefore,
                  win_BufferAfter = bufferAfter\<rparr>
            | _ \<Rightarrow> None))"

definition segment_allocations :: "ServicePolicy \<Rightarrow> InternalResourceAllocation list" where
  "segment_allocations policy =
     sort_key ira_ResourcePoolID
       (map (\<lambda>requirement. \<lparr>ira_ResourcePoolID = rq_ResourcePoolID requirement,
               ira_ResourceName = rq_ResourceName requirement,
               ira_UnitsAllocated = rq_UnitsRequired requirement\<rparr>)
         (vp_ResourceRequirements policy))"

definition staff_available :: "PlanContext \<Rightarrow> SegmentWindow \<Rightarrow> string \<Rightarrow> StaffProfile \<Rightarrow> bool" where
  "staff_available ctx window staffID profile \<longleftrightarrow>
     scopeAllowsRange (weeklyPeriodRanges (sp_WeeklyPeriods profile) (ctx_dayOfWeek ctx))
       (win_OccupiedStartMinute window) (win_OccupiedEndMinute window)
       (win_OccupiedStart window) (win_OccupiedEnd window)
       (agg_Exceptions (ctx_aggregate ctx)) ExceptionScopeStaff staffID
     \<and> \<not> hasStaffConflict (snap_Conflicts (ctx_snapshot ctx)) staffID
           (win_OccupiedStart window) (win_OccupiedEnd window)"

definition candidate_segment ::
  "ServicePolicy \<Rightarrow> normalizedAvailabilitySegment \<Rightarrow> SegmentWindow \<Rightarrow> string \<Rightarrow> StaffProfile
     \<Rightarrow> InternalAvailabilitySegment" where
  "candidate_segment policy requested window staffID profile =
     \<lparr>ias_ServiceID = sv_ID (vp_Service policy), ias_ServiceName = sv_Name (vp_Service policy),
      ias_StaffID = staffID, ias_StaffName = sf_Name (sp_Staff profile),
      ias_StaffSelectionMode = nas_StaffSelectionMode requested,
      ias_GuestReference = nas_GuestReference requested, ias_Quantity = 1,
      ias_StartTime = win_Start window, ias_EndTime = win_End window,
      ias_OccupiedStartTime = win_OccupiedStart window,
      ias_OccupiedEndTime = win_OccupiedEnd window,
      ias_BufferBeforeMinutes = win_BufferBefore window,
      ias_BufferAfterMinutes = win_BufferAfter window,
      ias_ResourceAllocations = segment_allocations policy\<rparr>"

text \<open>
  Every service was validated before the search, so the \<open>None\<close> branch of the policy lookup is
  never taken; in the Go code it would be a nil dereference.
\<close>

primrec assignAggregateSegments ::
  "PlanContext \<Rightarrow> normalizedAvailabilitySegment list \<Rightarrow> InternalAvailabilitySegment list
     \<Rightarrow> (string \<rightharpoonup> int) \<Rightarrow> InternalAvailabilitySegment list option" where
  "assignAggregateSegments ctx [] planned guestNext = Some planned"
| "assignAggregateSegments ctx (requested # remaining) planned guestNext =
     (case ctx_policies ctx (nas_ServiceID requested) of
        None \<Rightarrow> None
      | Some policy \<Rightarrow>
          (case segment_window ctx policy requested guestNext of
             None \<Rightarrow> None
           | Some window \<Rightarrow>
               first_some (\<lambda>staffID.
                 case ctx_profiles ctx staffID of
                   None \<Rightarrow> None
                 | Some profile \<Rightarrow>
                     if \<not> staff_available ctx window staffID profile
                        \<or> hasPlannedStaffConflict planned staffID (win_OccupiedStart window)
                            (win_OccupiedEnd window)
                     then None
                     else
                       let nextPlanned =
                             planned @ [candidate_segment policy requested window staffID profile]
                       in if \<not> resourcesFit (ctx_snapshot ctx) nextPlanned then None
                          else assignAggregateSegments ctx remaining nextPlanned
                                 (guestNext(guest_key requested \<mapsto> win_EndMinute window)))
                 (eligibleStaffIDs policy (ctx_profiles ctx) requested)))"

section \<open>Planning a day\<close>

definition segment_request_valid ::
  "(string \<rightharpoonup> ServicePolicy) \<Rightarrow> normalizedAvailabilitySegment \<Rightarrow> bool" where
  "segment_request_valid policies segment =
     (case policies (nas_ServiceID segment) of
        None \<Rightarrow> False
      | Some policy \<Rightarrow>
          vp_Configured policy \<and> vp_Enabled policy \<and> eligibleService (vp_Service policy)
          \<and> (case vp_CapacityMode policy of
               None \<Rightarrow> False
             | Some mode \<Rightarrow>
                 (mode = CapacityModeStaffOnly \<or> mode = CapacityModePooled)
                 \<and> \<not> (mode = CapacityModeStaffOnly \<and> vp_ResourceRequirements policy \<noteq> [])
                 \<and> \<not> (mode = CapacityModePooled \<and> vp_ResourceRequirements policy = []))
          \<and> nas_Quantity segment = 1
          \<and> (nas_StaffSelectionMode segment = StaffSelectionSpecific
             \<or> nas_StaffSelectionMode segment = StaffSelectionAnyone)
          \<and> \<not> (nas_StaffSelectionMode segment = StaffSelectionSpecific
               \<and> TrimSpace (nas_StaffID segment) = [])
          \<and> \<not> (nas_StaffSelectionMode segment = StaffSelectionAnyone
               \<and> TrimSpace (nas_StaffID segment) \<noteq> []))"

definition slot_of_plan ::
  "gotime \<Rightarrow> InternalAvailabilitySegment list \<Rightarrow> InternalAvailabilitySlot" where
  "slot_of_plan startTime plannedSegments =
     (let first = hd plannedSegments;
          rootEnd = foldl (\<lambda>rootEnd segment.
              if ias_EndTime segment > rootEnd then ias_EndTime segment else rootEnd)
            (ias_EndTime first) (tl plannedSegments)
      in \<lparr>isl_Fingerprint = [], isl_ServiceID = ias_ServiceID first,
          isl_ServiceName = ias_ServiceName first, isl_StaffID = ias_StaffID first,
          isl_StaffName = ias_StaffName first, isl_StartTime = startTime, isl_EndTime = rootEnd,
          isl_OccupiedStartTime = ias_OccupiedStartTime first,
          isl_OccupiedEndTime = ias_OccupiedEndTime first,
          isl_BufferBeforeMinutes = ias_BufferBeforeMinutes first,
          isl_BufferAfterMinutes = ias_BufferAfterMinutes first,
          isl_Segments = plannedSegments\<rparr>)"

text \<open>
  The loop over the slot grid; the caller has checked that the step is positive. \<open>attempt\<close> is the
  body of the loop: \<open>None\<close> is \<open>continue\<close>.
\<close>

function plan_slots ::
  "(int \<Rightarrow> InternalAvailabilitySlot option) \<Rightarrow> int \<Rightarrow> nat \<Rightarrow> int
     \<Rightarrow> InternalAvailabilitySlot list \<Rightarrow> InternalAvailabilitySlot list" where
  "plan_slots attempt step limit startMinute slots =
     (if startMinute < 1440 \<and> length slots < limit \<and> 0 < step
      then plan_slots attempt step limit (startMinute + step)
             (case attempt startMinute of None \<Rightarrow> slots | Some slot \<Rightarrow> slots @ [slot])
      else slots)"
  by pat_completeness auto
termination
  by (relation "measure (\<lambda>(attempt, step, limit, startMinute, slots). nat (1440 - startMinute))") auto

declare plan_slots.simps [simp del]

definition plan_limit :: "int \<Rightarrow> nat" where
  "plan_limit requested =
     (let exactScan = requested = -1;
          limit = (if requested = -1 then 1440 else if requested \<le> 0 then 10 else requested)
      in nat (if \<not> exactScan \<and> limit > 50 then 50 else limit))"

definition minimum_start :: "CalendarConfig \<Rightarrow> gotime \<Rightarrow> gotime" where
  "minimum_start config now = now + cc_MinimumBookingNoticeMinutes config * ns_per_minute"

definition plan_context ::
  "AvailabilitySnapshot \<Rightarrow> Aggregate \<Rightarrow> CalendarConfig \<Rightarrow> civil \<Rightarrow> Location \<Rightarrow> int
     \<Rightarrow> PlanContext" where
  "plan_context snapshot aggregate config localDate location startMinute =
     (let dayOfWeek = local_weekday location (Date_in localDate 12 0 location) in
      \<lparr>ctx_snapshot = snapshot, ctx_aggregate = aggregate, ctx_config = config,
       ctx_rootStartMinute = startMinute, ctx_localDate = localDate, ctx_location = location,
       ctx_dayOfWeek = dayOfWeek, ctx_salonBase = periodRanges (agg_Hours aggregate) dayOfWeek,
       ctx_policies = index_by (\<lambda>policy. sv_ID (vp_Service policy)) (agg_ServicePolicies aggregate),
       ctx_profiles = index_by (\<lambda>profile. sf_ID (sp_Staff profile)) (agg_StaffProfiles aggregate)\<rparr>)"

definition try_slot ::
  "AvailabilitySnapshot \<Rightarrow> Aggregate \<Rightarrow> CalendarConfig \<Rightarrow> normalizedAvailabilitySegment list
     \<Rightarrow> civil \<Rightarrow> Location \<Rightarrow> gotime \<Rightarrow> int \<Rightarrow> InternalAvailabilitySlot option" where
  "try_slot snapshot aggregate config segments localDate location now startMinute =
     (case strictLocalMinute localDate startMinute location of
        None \<Rightarrow> None
      | Some startTime \<Rightarrow>
          if startTime < minimum_start config now then None
          else
            (case assignAggregateSegments
                    (plan_context snapshot aggregate config localDate location startMinute)
                    segments [] Map.empty of
               None \<Rightarrow> None
             | Some plannedSegments \<Rightarrow> Some (slot_of_plan startTime plannedSegments)))"

definition planner_ready :: "AvailabilitySnapshot \<Rightarrow> Aggregate \<Rightarrow> CalendarConfig \<Rightarrow> bool" where
  "planner_ready snapshot aggregate config \<longleftrightarrow>
     \<not> (agg_SchedulingAuthority aggregate \<noteq> SchedulingAuthorityManleAICalendar
        \<and> \<not> snap_TargetOriginAuthorized snapshot
        \<or> cc_ActivatedAt config = None
        \<or> cc_ActivatedVersion config \<noteq> Some (cc_Version config)
        \<or> cc_SlotStepMinutes config \<le> 0 \<or> cc_BookingHorizonDays config \<le> 0)"

definition planAggregateAvailability ::
  "(string \<Rightarrow> Location option) \<Rightarrow> AvailabilitySnapshot \<Rightarrow> normalizedAvailabilityRequest \<Rightarrow> gotime
     \<Rightarrow> error + InternalAvailabilitySlot list" where
  "planAggregateAvailability LoadLocation snapshot req now =
     (if snap_UnresolvedExternalConflict snapshot then Inl ErrAvailabilityConflictState
      else
        (case snap_Aggregate snapshot of
           None \<Rightarrow> Inl ErrValidation
         | Some aggregate \<Rightarrow>
             (case agg_Config aggregate of
                None \<Rightarrow> Inl ErrValidation
              | Some config \<Rightarrow>
                  if TrimSpace (nar_PreferredDate req) = [] \<or> nar_Segments req = []
                  then Inl ErrValidation
                  else if \<not> planner_ready snapshot aggregate config
                  then Inl ErrSchedulingAuthorityNotReady
                  else
                    (case LoadLocation (TrimSpace (agg_Timezone aggregate)) of
                       None \<Rightarrow> Inl ErrValidation
                     | Some location \<Rightarrow>
                         (case parse_date (nar_PreferredDate req) of
                            None \<Rightarrow> Inl ErrValidation
                          | Some localDate \<Rightarrow>
                              let today = Date_UTC (local_civil location now) 0 0;
                                  requestedDay = Date_UTC localDate 0 0
                              in if requestedDay < today
                                    \<or> requestedDay > today
                                        + cc_BookingHorizonDays config * 86400 * ns_per_second
                                 then Inr []
                                 else
                                   let partySize =
                                         (if nar_PartySize req \<le> 0 then 1 else nar_PartySize req)
                                   in if cc_MaxPartySize config > 0
                                         \<and> partySize > cc_MaxPartySize config
                                      then Inl ErrValidation
                                      else if \<not> list_all (segment_request_valid
                                             (index_by (\<lambda>policy. sv_ID (vp_Service policy))
                                               (agg_ServicePolicies aggregate)))
                                           (nar_Segments req)
                                      then Inl ErrValidation
                                      else Inr (plan_slots
                                        (try_slot snapshot aggregate config (nar_Segments req)
                                           localDate location now)
                                        (cc_SlotStepMinutes config) (plan_limit (nar_Limit req))
                                        0 []))))))"

definition planStaffOnlyAvailability ::
  "(string \<Rightarrow> Location option) \<Rightarrow> AvailabilitySnapshot \<Rightarrow> normalizedAvailabilityRequest \<Rightarrow> gotime
     \<Rightarrow> error + InternalAvailabilitySlot list" where
  "planStaffOnlyAvailability LoadLocation snapshot req now =
     planAggregateAvailability LoadLocation snapshot
       (if nar_Segments req = []
        then req\<lparr>nar_PartySize := 1,
                 nar_Segments := [\<lparr>nas_ServiceID = nar_ServiceID req, nas_StaffID = nar_StaffID req,
                   nas_StaffSelectionMode = nar_StaffSelectionMode req, nas_GuestReference = [],
                   nas_Quantity = 1\<rparr>]\<rparr>
        else req) now"

section \<open>Specification of a feasible staffing\<close>

text \<open>
  The windows of the requested segments do not depend on who is assigned: \<open>segment_schedule\<close>
  computes them, and a staffing is a list of staff ids, one for each segment.
\<close>

type_synonym scheduled = "ServicePolicy \<times> normalizedAvailabilitySegment \<times> SegmentWindow"

primrec segment_schedule ::
  "PlanContext \<Rightarrow> normalizedAvailabilitySegment list \<Rightarrow> (string \<rightharpoonup> int) \<Rightarrow> scheduled list option" where
  "segment_schedule ctx [] guestNext = Some []"
| "segment_schedule ctx (requested # remaining) guestNext =
     (case ctx_policies ctx (nas_ServiceID requested) of
        None \<Rightarrow> None
      | Some policy \<Rightarrow>
          (case segment_window ctx policy requested guestNext of
             None \<Rightarrow> None
           | Some window \<Rightarrow>
               map_option (\<lambda>rest. (policy, requested, window) # rest)
                 (segment_schedule ctx remaining
                   (guestNext(guest_key requested \<mapsto> win_EndMinute window)))))"

definition staff_ok :: "PlanContext \<Rightarrow> scheduled \<Rightarrow> string \<Rightarrow> bool" where
  "staff_ok ctx s staffID = (case s of (policy, requested, window) \<Rightarrow>
     staffID \<in> set (eligibleStaffIDs policy (ctx_profiles ctx) requested)
     \<and> (case ctx_profiles ctx staffID of
          None \<Rightarrow> False | Some profile \<Rightarrow> staff_available ctx window staffID profile))"

definition staffed_segment :: "PlanContext \<Rightarrow> scheduled \<Rightarrow> string \<Rightarrow> InternalAvailabilitySegment" where
  "staffed_segment ctx s staffID = (case s of (policy, requested, window) \<Rightarrow>
     candidate_segment policy requested window staffID (the (ctx_profiles ctx staffID)))"

definition staff_disjoint ::
  "InternalAvailabilitySegment \<Rightarrow> InternalAvailabilitySegment \<Rightarrow> bool" where
  "staff_disjoint a b \<longleftrightarrow> (ias_StaffID a = ias_StaffID b \<longrightarrow>
     \<not> rangesOverlap (ias_OccupiedStartTime a) (ias_OccupiedEndTime a)
          (ias_OccupiedStartTime b) (ias_OccupiedEndTime b))"

definition feasible_plan ::
  "PlanContext \<Rightarrow> normalizedAvailabilitySegment list \<Rightarrow> InternalAvailabilitySegment list \<Rightarrow> bool" where
  "feasible_plan ctx requests plan \<longleftrightarrow>
     (\<exists>sched staffs. segment_schedule ctx requests Map.empty = Some sched
        \<and> list_all2 (staff_ok ctx) sched staffs
        \<and> plan = map2 (staffed_segment ctx) sched staffs
        \<and> sorted_wrt staff_disjoint plan
        \<and> resourcesFit (ctx_snapshot ctx) plan)"

definition requirements_nonneg :: "PlanContext \<Rightarrow> bool" where
  "requirements_nonneg ctx \<longleftrightarrow> (\<forall>serviceID policy. ctx_policies ctx serviceID = Some policy \<longrightarrow>
     list_all (\<lambda>requirement. 0 \<le> rq_UnitsRequired requirement) (vp_ResourceRequirements policy))"

section \<open>Capacity is monotone in the plan\<close>

lemma units_nonneg_append [simp]:
  "units_nonneg (xs @ ys) \<longleftrightarrow> units_nonneg xs \<and> units_nonneg ys"
  by (simp add: units_nonneg_def)

lemma usage_at_append_le:
  assumes "units_nonneg ys"
  shows "usage_at conflicts xs poolID t \<le> usage_at conflicts (xs @ ys) poolID t"
proof -
  have "0 \<le> allocationUnits (ias_ResourceAllocations s) poolID" if "s \<in> set ys" for s
    using assms that allocationUnits_nonneg by (auto simp: units_nonneg_def list_all_iff)
  then have "0 \<le> sum_list (map (\<lambda>s. allocationUnits (ias_ResourceAllocations s) poolID)
         (filter (\<lambda>s. ias_OccupiedStartTime s \<le> t \<and> t < ias_OccupiedEndTime s) ys))"
    by (intro sum_list_nonneg) auto
  then show ?thesis by (simp add: usage_at_def)
qed

lemma resourcesFit_prefix:
  assumes "resourcesFit snapshot (xs @ ys)" and "units_nonneg (xs @ ys)"
  shows "resourcesFit snapshot xs"
proof -
  obtain aggregate where agg: "snap_Aggregate snapshot = Some aggregate"
    using assms(1) by (auto simp: resourcesFit_def split: option.splits)
  have "pool_fits aggregate (snap_ResourceConflicts snapshot) xs poolID"
    if "poolID \<in> set (plan_pools xs)" for poolID
  proof -
    have "poolID \<in> set (plan_pools (xs @ ys))" using that by (auto simp: plan_pools_def)
    then have "pool_fits aggregate (snap_ResourceConflicts snapshot) (xs @ ys) poolID"
      using assms(1) agg by (auto simp: resourcesFit_def list_all_iff)
    then obtain capacity where "base_capacity aggregate poolID = Some capacity" "1 \<le> capacity"
      and "\<And>t. usage_at (snap_ResourceConflicts snapshot) (xs @ ys) poolID t
        \<le> effective_capacity aggregate poolID capacity t"
      using pool_fits_iff [OF assms(2)] by auto
    moreover have "usage_at (snap_ResourceConflicts snapshot) xs poolID t
        \<le> usage_at (snap_ResourceConflicts snapshot) (xs @ ys) poolID t" for t
      using usage_at_append_le assms(2) by simp
    ultimately show ?thesis
      using assms(2) pool_fits_iff [of xs] by (meson order_trans units_nonneg_append)
  qed
  then show ?thesis by (simp add: resourcesFit_def agg list_all_iff)
qed

section \<open>The search is sound and complete\<close>

lemma candidate_times [simp]:
  "ias_StaffID (candidate_segment p r w staffID profile) = staffID"
  "ias_OccupiedStartTime (candidate_segment p r w staffID profile) = win_OccupiedStart w"
  "ias_OccupiedEndTime (candidate_segment p r w staffID profile) = win_OccupiedEnd w"
  "ias_ResourceAllocations (candidate_segment p r w staffID profile) = segment_allocations p"
  "ias_StartTime (candidate_segment p r w staffID profile) = win_Start w"
  "ias_EndTime (candidate_segment p r w staffID profile) = win_End w"
  by (simp_all add: candidate_segment_def)

lemma planned_conflict_iff:
  "hasPlannedStaffConflict planned staffID (win_OccupiedStart w) (win_OccupiedEnd w) \<longleftrightarrow>
     \<not> (\<forall>s \<in> set planned. staff_disjoint s (candidate_segment p r w staffID profile))"
  by (auto simp: hasPlannedStaffConflict_def staff_disjoint_def list_ex_iff overlap_rules)

lemma candidate_units:
  assumes "requirements_nonneg ctx" "ctx_policies ctx serviceID = Some p"
  shows "units_nonneg [candidate_segment p r w staffID profile]"
  using assms
  by (auto simp: units_nonneg_def segment_allocations_def requirements_nonneg_def list_all_iff)

lemma assign_sound:
  assumes "assignAggregateSegments ctx requests planned guestNext = Some plan"
    and "sorted_wrt staff_disjoint planned" and "requests = [] \<longrightarrow> resourcesFit (ctx_snapshot ctx) planned"
  shows "\<exists>sched staffs. segment_schedule ctx requests guestNext = Some sched
      \<and> list_all2 (staff_ok ctx) sched staffs
      \<and> plan = planned @ map2 (staffed_segment ctx) sched staffs
      \<and> sorted_wrt staff_disjoint plan \<and> resourcesFit (ctx_snapshot ctx) plan"
  using assms
proof (induction requests arbitrary: planned guestNext)
  case Nil
  then show ?case by simp
next
  case (Cons r rs)
  from Cons.prems(1) obtain p w where p: "ctx_policies ctx (nas_ServiceID r) = Some p"
    and w: "segment_window ctx p r guestNext = Some w"
    by (auto split: option.splits)
  from Cons.prems(1) p w obtain staffID profile where
    staff: "staffID \<in> set (eligibleStaffIDs p (ctx_profiles ctx) r)"
      "ctx_profiles ctx staffID = Some profile" "staff_available ctx w staffID profile"
    and free: "\<not> hasPlannedStaffConflict planned staffID (win_OccupiedStart w) (win_OccupiedEnd w)"
    and fit: "resourcesFit (ctx_snapshot ctx) (planned @ [candidate_segment p r w staffID profile])"
    and rest: "assignAggregateSegments ctx rs (planned @ [candidate_segment p r w staffID profile])
      (guestNext(guest_key r \<mapsto> win_EndMinute w)) = Some plan"
    by (auto simp: Let_def dest!: first_some_SomeD split: option.splits if_splits)
  let ?c = "candidate_segment p r w staffID profile"
  have "sorted_wrt staff_disjoint (planned @ [?c])"
    using Cons.prems(2) free planned_conflict_iff [of planned staffID w p r profile]
    by (simp add: sorted_wrt_append)
  from Cons.IH [OF rest this] fit have "\<exists>sched staffs.
      segment_schedule ctx rs (guestNext(guest_key r \<mapsto> win_EndMinute w)) = Some sched
      \<and> list_all2 (staff_ok ctx) sched staffs
      \<and> plan = (planned @ [?c]) @ map2 (staffed_segment ctx) sched staffs
      \<and> sorted_wrt staff_disjoint plan \<and> resourcesFit (ctx_snapshot ctx) plan" by blast
  then obtain sched staffs where
    "segment_schedule ctx rs (guestNext(guest_key r \<mapsto> win_EndMinute w)) = Some sched"
    "list_all2 (staff_ok ctx) sched staffs"
    "plan = (planned @ [?c]) @ map2 (staffed_segment ctx) sched staffs"
    "sorted_wrt staff_disjoint plan" "resourcesFit (ctx_snapshot ctx) plan" by blast
  moreover have "staff_ok ctx (p, r, w) staffID" "staffed_segment ctx (p, r, w) staffID = ?c"
    using staff by (simp_all add: staff_ok_def staffed_segment_def)
  ultimately show ?case
    using p w by (intro exI [of _ "(p, r, w) # sched"] exI [of _ "staffID # staffs"]) simp
qed

lemma schedule_units:
  assumes "requirements_nonneg ctx" "segment_schedule ctx requests guestNext = Some sched"
  shows "units_nonneg (map2 (staffed_segment ctx) sched staffs)"
  using assms(2)
proof (induction requests arbitrary: guestNext sched staffs)
  case Nil
  then show ?case by (simp add: units_nonneg_def)
next
  case (Cons r rs)
  then obtain p w rest where p: "ctx_policies ctx (nas_ServiceID r) = Some p"
    and sched: "sched = (p, r, w) # rest"
    and rest: "segment_schedule ctx rs (guestNext(guest_key r \<mapsto> win_EndMinute w)) = Some rest"
    by (auto split: option.splits)
  show ?case
  proof (cases staffs)
    case Nil
    then show ?thesis by (simp add: units_nonneg_def)
  next
    case (Cons a as)
    then show ?thesis
      using Cons.IH [OF rest, of as] candidate_units [OF assms(1) p, of r w a]
      by (simp add: sched staffed_segment_def units_nonneg_def)
  qed
qed

lemma assign_complete:
  assumes "segment_schedule ctx requests guestNext = Some sched"
    and "list_all2 (staff_ok ctx) sched staffs"
    and "sorted_wrt staff_disjoint (planned @ map2 (staffed_segment ctx) sched staffs)"
    and "resourcesFit (ctx_snapshot ctx) (planned @ map2 (staffed_segment ctx) sched staffs)"
    and "units_nonneg planned" and "requirements_nonneg ctx"
  shows "assignAggregateSegments ctx requests planned guestNext \<noteq> None"
  using assms
proof (induction requests arbitrary: planned guestNext sched staffs)
  case Nil
  then show ?case by simp
next
  case (Cons r rs)
  from Cons.prems(1) obtain p w rest where p: "ctx_policies ctx (nas_ServiceID r) = Some p"
    and w: "segment_window ctx p r guestNext = Some w"
    and sched: "sched = (p, r, w) # rest"
    and rest: "segment_schedule ctx rs (guestNext(guest_key r \<mapsto> win_EndMinute w)) = Some rest"
    by (auto split: option.splits)
  from Cons.prems(2) obtain a as where staffs: "staffs = a # as"
    and ok: "staff_ok ctx (p, r, w) a" and oks: "list_all2 (staff_ok ctx) rest as"
    unfolding sched by (auto simp: list_all2_Cons1)
  then obtain profile where a: "a \<in> set (eligibleStaffIDs p (ctx_profiles ctx) r)"
    and profile: "ctx_profiles ctx a = Some profile" and avail: "staff_available ctx w a profile"
    by (auto simp: staff_ok_def split: option.splits)
  let ?c = "candidate_segment p r w a profile"
  have plan: "planned @ map2 (staffed_segment ctx) sched staffs
      = (planned @ [?c]) @ map2 (staffed_segment ctx) rest as"
    by (simp add: sched staffs staffed_segment_def profile)
  have units: "units_nonneg (planned @ [?c])" "units_nonneg (map2 (staffed_segment ctx) rest as)"
    using Cons.prems(5) candidate_units [OF Cons.prems(6) p]
      schedule_units [OF Cons.prems(6) rest] by auto
  have fit: "resourcesFit (ctx_snapshot ctx) (planned @ [?c])"
    by (rule resourcesFit_prefix [OF Cons.prems(4) [unfolded plan]])
      (use units in \<open>simp only: units_nonneg_append simp_thms\<close>)
  have free: "\<not> hasPlannedStaffConflict planned a (win_OccupiedStart w) (win_OccupiedEnd w)"
    using Cons.prems(3) unfolding plan
    by (simp add: sorted_wrt_append planned_conflict_iff [of planned a w p r profile])
  have "assignAggregateSegments ctx rs (planned @ [?c])
      (guestNext(guest_key r \<mapsto> win_EndMinute w)) \<noteq> None"
    by (rule Cons.IH [OF rest oks Cons.prems(3) [unfolded plan] Cons.prems(4) [unfolded plan]
          units(1) Cons.prems(6)])
  with a profile avail free fit show ?case
    by (auto simp: p w first_some_None_iff Let_def intro!: bexI [of _ a])
qed

lemma assign_iff_feasible:
  assumes "requirements_nonneg ctx" and "requests \<noteq> []"
  shows "assignAggregateSegments ctx requests [] Map.empty = Some plan \<Longrightarrow> feasible_plan ctx requests plan"
    and "assignAggregateSegments ctx requests [] Map.empty = None \<longleftrightarrow>
      \<not> (\<exists>plan. feasible_plan ctx requests plan)"
proof -
  show sound: "assignAggregateSegments ctx requests [] Map.empty = Some plan \<Longrightarrow>
      feasible_plan ctx requests plan" for plan
    using assign_sound [of ctx requests "[]" Map.empty plan] assms(2)
    by (auto simp: feasible_plan_def)
  show "assignAggregateSegments ctx requests [] Map.empty = None \<longleftrightarrow>
      \<not> (\<exists>plan. feasible_plan ctx requests plan)"
  proof
    assume none: "assignAggregateSegments ctx requests [] Map.empty = None"
    show "\<not> (\<exists>plan. feasible_plan ctx requests plan)"
      using none assign_complete [of ctx requests Map.empty _ _ "[]"] assms(1)
      by (auto simp: feasible_plan_def units_nonneg_def)
  next
    assume "\<not> (\<exists>plan. feasible_plan ctx requests plan)"
    then show "assignAggregateSegments ctx requests [] Map.empty = None"
      using sound by (cases "assignAggregateSegments ctx requests [] Map.empty") auto
  qed
qed

section \<open>The slot grid\<close>

function grid :: "int \<Rightarrow> int \<Rightarrow> int list" where
  "grid m step = (if m < 1440 \<and> 0 < step then m # grid (m + step) step else [])"
  by pat_completeness auto
termination
  by (relation "measure (\<lambda>(m, step). nat (1440 - m))") auto

declare grid.simps [simp del]

lemma plan_slots_grid:
  assumes "0 < step"
  shows "plan_slots attempt step limit m slots =
    slots @ take (limit - length slots) (List.map_filter attempt (grid m step))"
  using assms
proof (induction attempt step limit m slots rule: plan_slots.induct)
  case (1 attempt step limit m slots)
  show ?case
  proof (cases "m < 1440 \<and> length slots < limit")
    case True
    then have unfold: "plan_slots attempt step limit m slots = plan_slots attempt step limit (m + step)
        (case attempt m of None \<Rightarrow> slots | Some slot \<Rightarrow> slots @ [slot])"
      using 1(2) by (subst plan_slots.simps) simp
    have rest: "limit - length slots = Suc (limit - Suc (length slots))" using True by (simp add: Suc_diff_Suc)
    show ?thesis
      unfolding unfold using 1 True
      by (subst grid.simps) (cases "attempt m"; simp add: map_filter_simps rest)
  next
    case False
    then have "plan_slots attempt step limit m slots = slots"
      by (subst plan_slots.simps) auto
    with False show ?thesis by (subst grid.simps) (auto simp: map_filter_simps)
  qed
qed

lemma grid_iff:
  assumes "0 < step"
  shows "x \<in> set (grid m step) \<longleftrightarrow> m \<le> x \<and> x < 1440 \<and> step dvd x - m"
  using assms
proof (induction m step rule: grid.induct)
  case (1 m step)
  show ?case
  proof (cases "m < 1440")
    case True
    have "(m \<le> x \<and> step dvd x - m) \<longleftrightarrow> x = m \<or> (m + step \<le> x \<and> step dvd x - (m + step))"
    proof -
      have dvd: "step dvd x - m \<longleftrightarrow> step dvd x - (m + step)"
        using dvd_add_right_iff [of step "step" "x - (m + step)"] by simp
      have "m + step \<le> x" if "step dvd x - m" "m \<le> x" "x \<noteq> m"
        using zdvd_imp_le [OF that(1)] that by simp
      with dvd 1(2) show ?thesis by auto
    qed
    with True 1 show ?thesis by (subst grid.simps) auto
  qed (use 1 in \<open>subst grid.simps; simp\<close>)
qed

lemma length_grid: "0 < step \<Longrightarrow> length (grid m step) \<le> nat (1440 - m)"
proof (induction m step rule: grid.induct)
  case (1 m step)
  then show ?case by (subst grid.simps) auto
qed

lemma length_map_filter_grid:
  assumes "0 < step"
  shows "length (List.map_filter f (grid 0 step)) \<le> 1440"
proof -
  have "length (List.map_filter f xs) \<le> length xs" for xs
    by (simp add: List.map_filter_def)
  from order_trans [OF this length_grid [OF assms, of 0]] show ?thesis by simp
qed

section \<open>Strict local instants\<close>

definition sampled_offsets :: "civil \<Rightarrow> int \<Rightarrow> int \<Rightarrow> Location \<Rightarrow> int list" where
  "sampled_offsets date hour minute location =
     map (\<lambda>k. location (Date_UTC date hour minute + (30 * k - 2160) * ns_per_minute)) [0..144]"

text \<open>The instant \<open>t\<close> shows exactly the given wall-clock minute in a location.\<close>

definition shows_wall :: "civil \<Rightarrow> int \<Rightarrow> int \<Rightarrow> Location \<Rightarrow> gotime \<Rightarrow> bool" where
  "shows_wall date hour minute location t \<longleftrightarrow>
     t + location t * ns_per_second = Date_UTC date hour minute"

lemma wall_seconds_of_shift:
  "wall_seconds location (wall * ns_per_second - k * ns_per_second)
     = wall - k + location (wall * ns_per_second - k * ns_per_second)"
proof -
  have "(wall * ns_per_second - k * ns_per_second) div ns_per_second = wall - k"
    unfolding left_diff_distrib [symmetric]
    by (rule nonzero_mult_div_cancel_right) (simp add: ns_per_second_def)
  then show ?thesis by (simp add: wall_seconds_def)
qed

lemma minute_of_day:
  fixes w n h m :: int
  assumes "w div 86400 = n" "w mod 86400 div 3600 = h" "w mod 3600 div 60 = m" "w mod 60 = 0"
  shows "w = n * 86400 + h * 3600 + m * 60"
proof -
  have day: "w = 86400 * (w div 86400) + w mod 86400" by simp
  have hour: "w mod 86400 = 3600 * (w mod 86400 div 3600) + w mod 86400 mod 3600" by simp
  have minute: "w mod 3600 = 60 * (w mod 3600 div 60) + w mod 3600 mod 60" by simp
  have "w mod 86400 mod 3600 = w mod 3600" "w mod 3600 mod 60 = w mod 60"
    by (simp_all add: mod_mod_cancel)
  with day hour minute assms show ?thesis by linarith
qed

lemma minute_of_day_back:
  fixes n h m :: int
  assumes "0 \<le> h" "h \<le> 23" "0 \<le> m" "m \<le> 59"
  shows "(n * 86400 + h * 3600 + m * 60) div 86400 = n"
    and "(n * 86400 + h * 3600 + m * 60) mod 86400 div 3600 = h"
    and "(n * 86400 + h * 3600 + m * 60) mod 3600 div 60 = m"
proof -
  have "n * 86400 + h * 3600 + m * 60 = 86400 * n + (h * 3600 + m * 60)" by simp
  moreover have r: "0 \<le> h * 3600 + m * 60" "h * 3600 + m * 60 < 86400" using assms by linarith+
  ultimately show d: "(n * 86400 + h * 3600 + m * 60) div 86400 = n"
    by (metis int_div_pos_eq)
  have "(n * 86400 + h * 3600 + m * 60) mod 86400 = h * 3600 + m * 60"
    using r by (metis int_mod_pos_eq add.assoc mult.commute)
  moreover have "(h * 3600 + m * 60) div 3600 = h"
    by (rule int_div_pos_eq [where r = "m * 60"]) (use assms in auto)
  ultimately show "(n * 86400 + h * 3600 + m * 60) mod 86400 div 3600 = h" by simp
  have "(n * 86400 + h * 3600 + m * 60) mod 3600 = m * 60"
    by (rule int_mod_pos_eq [where q = "24 * n + h"]) (use assms in auto)
  then show "(n * 86400 + h * 3600 + m * 60) mod 3600 div 60 = m" by simp
qed

lemma candidate_matches:
  assumes date: "valid_civil date" and hm: "0 \<le> hour" "hour \<le> 23" "0 \<le> minute" "minute \<le> 59"
    and whole: "\<And>t. location t mod 60 = 0"
    and off: "k mod 60 = 0"
  defines "c \<equiv> Date_UTC date hour minute - k * ns_per_second"
  shows "(local_civil location c = date \<and> local_hour location c = hour
      \<and> local_minute location c = minute) \<longleftrightarrow> location c = k"
proof -
  define w where "w = days_of_civil date * 86400 + hour * 3600 + minute * 60"
  have c: "c = w * ns_per_second - k * ns_per_second" by (simp add: c_def w_def Date_UTC_def)
  have ws: "wall_seconds location c = w - k + location c"
    unfolding c by (rule wall_seconds_of_shift)
  note reads = minute_of_day_back [OF hm, of "days_of_civil date", folded w_def]
  show ?thesis
  proof
    assume "location c = k"
    then have "wall_seconds location c = w" by (simp add: ws)
    then show "local_civil location c = date \<and> local_hour location c = hour
        \<and> local_minute location c = minute"
      unfolding local_civil_def local_hour_def local_minute_def
      using reads civil_of_days_of_civil [OF date] by simp
  next
    assume m: "local_civil location c = date \<and> local_hour location c = hour
        \<and> local_minute location c = minute"
    have "wall_seconds location c div 86400 = days_of_civil date"
      using m days_of_civil_of_days unfolding local_civil_def by metis
    moreover have "wall_seconds location c mod 60 = 0"
    proof -
      have "60 dvd k" "60 dvd location c" "60 dvd w"
        using off whole [of c] by (auto simp: w_def mod_eq_0_iff_dvd)
      then show ?thesis unfolding ws by (simp add: mod_eq_0_iff_dvd)
    qed
    ultimately have "wall_seconds location c = w"
      using m unfolding local_hour_def local_minute_def w_def by (intro minute_of_day) auto
    then show "location c = k" by (simp add: ws)
  qed
qed

lemma singleton_case:
  assumes "distinct xs"
  shows "(case xs of [m] \<Rightarrow> Some m | _ \<Rightarrow> None) = Some t \<longleftrightarrow> set xs = {t}"
  using assms by (auto split: list.splits)

lemma strictLocalInstant_iff:
  assumes date: "valid_civil date" and hm: "0 \<le> hour" "hour \<le> 23" "0 \<le> minute" "minute \<le> 59"
    and whole: "\<And>t. location t mod 60 = 0"
    and sampled: "\<And>t. shows_wall date hour minute location t \<Longrightarrow>
      location t \<in> set (sampled_offsets date hour minute location)"
  shows "strictLocalInstant date hour minute location = Some t \<longleftrightarrow>
    shows_wall date hour minute location t
    \<and> (\<forall>t'. shows_wall date hour minute location t' \<longrightarrow> t' = t)"
proof -
  define wall where "wall = Date_UTC date hour minute"
  define offsets where "offsets = remdups (sampled_offsets date hour minute location)"
  define matches where "matches = filter (\<lambda>c. local_civil location c = date
      \<and> local_hour location c = hour \<and> local_minute location c = minute)
      (map (\<lambda>k. wall - k * ns_per_second) offsets)"
  have result: "strictLocalInstant date hour minute location =
      (case matches of [m] \<Rightarrow> Some m | _ \<Rightarrow> None)"
    using hm by (simp add: strictLocalInstant_def Let_def matches_def offsets_def
        sampled_offsets_def wall_def comp_def)
  have "distinct matches"
    unfolding matches_def
    by (intro distinct_filter, simp add: distinct_map offsets_def inj_on_def ns_per_second_def)
  then have iff: "strictLocalInstant date hour minute location = Some t \<longleftrightarrow> set matches = {t}"
    unfolding result by (rule singleton_case)
  have mod: "k mod 60 = 0" if "k \<in> set offsets" for k
    using that whole by (auto simp: offsets_def sampled_offsets_def)
  have "c \<in> set matches \<longleftrightarrow> shows_wall date hour minute location c" for c
  proof
    assume "c \<in> set matches"
    then obtain k where k: "k \<in> set offsets" "c = wall - k * ns_per_second"
      and m: "local_civil location c = date \<and> local_hour location c = hour
        \<and> local_minute location c = minute"
      by (auto simp: matches_def)
    have "location c = k"
      using candidate_matches [OF date hm whole mod [OF k(1)]] m unfolding k(2) wall_def by simp
    then show "shows_wall date hour minute location c"
      by (simp add: shows_wall_def k(2) wall_def)
  next
    assume c: "shows_wall date hour minute location c"
    have k: "location c \<in> set offsets" using sampled [OF c] by (simp add: offsets_def)
    have eq: "c = wall - location c * ns_per_second"
      using c by (simp add: shows_wall_def wall_def algebra_simps)
    have "local_civil location c = date \<and> local_hour location c = hour
        \<and> local_minute location c = minute"
      using candidate_matches [OF date hm whole mod [OF k], folded wall_def, folded eq] by simp
    with k eq show "c \<in> set matches" by (auto simp: matches_def)
  qed
  then show ?thesis unfolding iff by blast
qed

lemma hour_minute_range:
  fixes minute :: int
  assumes "0 \<le> minute" "minute < 1440"
  shows "0 \<le> minute div 60" "minute div 60 \<le> 23" "0 \<le> minute mod 60" "minute mod 60 \<le> 59"
  using div_bounds [of 60 minute] pos_mod_sign [of 60 minute] pos_mod_bound [of 60 minute] assms
  by linarith+

text \<open>
  A wall-clock minute of a day, midnight of the next day included, is turned into an instant
  exactly when it denotes one. Under the stated facts about the zone (offsets are whole minutes,
  and an instant that shows the minute has an offset among the sampled ones) the result is the
  instant that shows the minute, provided that no other does; a minute that a clock change skips
  or repeats is refused.
\<close>

lemma strictLocalMinute_iff_unique:
  assumes "valid_civil date" "0 \<le> minute" "minute \<le> 1440"
    and "\<And>t. location t mod 60 = 0"
    and "\<And>t. t + location t * ns_per_second = Date_UTC date 0 0 + minute * ns_per_minute \<Longrightarrow>
      \<exists>k \<in> {0..144}. location t = location (t + location t * ns_per_second
        + (30 * k - 2160) * ns_per_minute)"
  shows "strictLocalMinute date minute location = Some t \<longleftrightarrow>
    t + location t * ns_per_second = Date_UTC date 0 0 + minute * ns_per_minute
    \<and> (\<forall>t'. t' + location t' * ns_per_second = Date_UTC date 0 0 + minute * ns_per_minute \<longrightarrow> t' = t)"
proof -
  have main: "strictLocalInstant d h mi location = Some t \<longleftrightarrow>
      t + location t * ns_per_second = Date_UTC date 0 0 + minute * ns_per_minute
      \<and> (\<forall>t'. t' + location t' * ns_per_second = Date_UTC date 0 0 + minute * ns_per_minute \<longrightarrow> t' = t)"
    if "valid_civil d" "0 \<le> h" "h \<le> 23" "0 \<le> mi" "mi \<le> 59"
      and wall: "Date_UTC d h mi = Date_UTC date 0 0 + minute * ns_per_minute" for d h mi
  proof -
    have "location t' \<in> set (sampled_offsets d h mi location)"
      if "shows_wall d h mi location t'" for t'
      using assms(5) [of t'] that unfolding shows_wall_def sampled_offsets_def wall by auto
    from strictLocalInstant_iff [OF that(1-5) assms(4) this] show ?thesis
      unfolding shows_wall_def wall .
  qed
  show ?thesis
  proof (cases "minute = 1440")
    case True
    then show ?thesis
      using main [OF valid_civil_of_days _ _ _ _ Date_UTC_next_day [of date, folded True]]
      by (simp add: strictLocalMinute_def)
  next
    case False
    then show ?thesis
      using main [OF assms(1) hour_minute_range Date_UTC_minutes] assms(2,3)
      by (simp add: strictLocalMinute_def)
  qed
qed

section \<open>What the planner offers\<close>

text \<open>
  The accepted inputs of the planner, decomposed: the aggregate, its configuration, the location
  and the requested date.
\<close>

definition planner_inputs ::
  "(string \<Rightarrow> Location option) \<Rightarrow> AvailabilitySnapshot \<Rightarrow> normalizedAvailabilityRequest
     \<Rightarrow> Aggregate \<Rightarrow> CalendarConfig \<Rightarrow> Location \<Rightarrow> civil \<Rightarrow> bool" where
  "planner_inputs LoadLocation snapshot req aggregate config location date \<longleftrightarrow>
     snap_Aggregate snapshot = Some aggregate \<and> agg_Config aggregate = Some config
     \<and> LoadLocation (TrimSpace (agg_Timezone aggregate)) = Some location
     \<and> parse_date (nar_PreferredDate req) = Some date"

definition within_horizon :: "CalendarConfig \<Rightarrow> Location \<Rightarrow> gotime \<Rightarrow> civil \<Rightarrow> bool" where
  "within_horizon config location now date \<longleftrightarrow>
     (let today = days_of_civil (local_civil location now) in
      today \<le> days_of_civil date \<and> days_of_civil date \<le> today + cc_BookingHorizonDays config)"

lemma horizon_check:
  "\<not> (Date_UTC date 0 0 < Date_UTC (local_civil location now) 0 0
      \<or> Date_UTC date 0 0 > Date_UTC (local_civil location now) 0 0
          + cc_BookingHorizonDays config * 86400 * ns_per_second) \<longleftrightarrow>
   within_horizon config location now date"
proof -
  have linear: "\<not> ((x * 86400 + 0 * 3600 + 0 * 60) * 1000000000 < (y * 86400 + 0 * 3600 + 0 * 60) * 1000000000
      \<or> (x * 86400 + 0 * 3600 + 0 * 60) * 1000000000
         > (y * 86400 + 0 * 3600 + 0 * 60) * 1000000000 + h * 86400 * 1000000000)
      \<longleftrightarrow> y \<le> x \<and> x \<le> y + h" for x y h :: int
    by auto
  show ?thesis
    unfolding within_horizon_def Date_UTC_def ns_per_second_def Let_def by (rule linear)
qed

lemma planner_ok:
  assumes "planAggregateAvailability LoadLocation snapshot req now = Inr slots"
  obtains aggregate config location date where
    "planner_inputs LoadLocation snapshot req aggregate config location date"
    "\<not> snap_UnresolvedExternalConflict snapshot" "planner_ready snapshot aggregate config"
    "nar_Segments req \<noteq> []"
    "\<not> within_horizon config location now date \<Longrightarrow> slots = []"
    "within_horizon config location now date \<Longrightarrow>
       list_all (segment_request_valid (index_by (\<lambda>policy. sv_ID (vp_Service policy))
         (agg_ServicePolicies aggregate))) (nar_Segments req)"
    "within_horizon config location now date \<Longrightarrow>
       slots = take (plan_limit (nar_Limit req)) (List.map_filter
         (try_slot snapshot aggregate config (nar_Segments req) date location now)
         (grid 0 (cc_SlotStepMinutes config)))"
proof -
  obtain aggregate config location date where
    inputs: "planner_inputs LoadLocation snapshot req aggregate config location date"
    and ready: "\<not> snap_UnresolvedExternalConflict snapshot" "nar_Segments req \<noteq> []"
      "TrimSpace (nar_PreferredDate req) \<noteq> []" "planner_ready snapshot aggregate config"
    using assms by (auto simp: planAggregateAvailability_def planner_inputs_def
        split: if_splits option.splits)
  have eq: "snap_Aggregate snapshot = Some aggregate" "agg_Config aggregate = Some config"
    "LoadLocation (TrimSpace (agg_Timezone aggregate)) = Some location"
    "parse_date (nar_PreferredDate req) = Some date"
    using inputs by (simp_all add: planner_inputs_def)
  have step: "0 < cc_SlotStepMinutes config" using ready by (simp add: planner_ready_def)
  note body = assms [unfolded planAggregateAvailability_def eq option.case Let_def]
  show thesis
  proof (rule that [OF inputs ready(1,4,2)])
    show "slots = []" if "\<not> within_horizon config location now date"
      using body ready that by (simp flip: horizon_check)
    show "list_all (segment_request_valid (index_by (\<lambda>policy. sv_ID (vp_Service policy))
         (agg_ServicePolicies aggregate))) (nar_Segments req)"
      and "slots = take (plan_limit (nar_Limit req)) (List.map_filter
         (try_slot snapshot aggregate config (nar_Segments req) date location now)
         (grid 0 (cc_SlotStepMinutes config)))"
      if "within_horizon config location now date"
      using body ready that step plan_slots_grid [OF step]
      by (simp_all flip: horizon_check split: if_splits)
  qed
qed


definition offerable ::
  "AvailabilitySnapshot \<Rightarrow> Aggregate \<Rightarrow> CalendarConfig \<Rightarrow> normalizedAvailabilitySegment list
     \<Rightarrow> civil \<Rightarrow> Location \<Rightarrow> gotime \<Rightarrow> int \<Rightarrow> gotime \<Rightarrow> InternalAvailabilitySegment list \<Rightarrow> bool" where
  "offerable snapshot aggregate config segments date location now m t plan \<longleftrightarrow>
     0 \<le> m \<and> m < 1440 \<and> cc_SlotStepMinutes config dvd m
     \<and> strictLocalMinute date m location = Some t \<and> minimum_start config now \<le> t
     \<and> feasible_plan (plan_context snapshot aggregate config date location m) segments plan"

definition aggregate_units_ok :: "AvailabilitySnapshot \<Rightarrow> bool" where
  "aggregate_units_ok snapshot =
     (case snap_Aggregate snapshot of
        None \<Rightarrow> True
      | Some aggregate \<Rightarrow> list_all (\<lambda>policy. list_all (\<lambda>requirement. 0 \<le> rq_UnitsRequired requirement)
          (vp_ResourceRequirements policy)) (agg_ServicePolicies aggregate))"

lemma context_units:
  assumes "aggregate_units_ok snapshot" "snap_Aggregate snapshot = Some aggregate"
  shows "requirements_nonneg (plan_context snapshot aggregate config date location m)"
  using assms
  by (auto simp: requirements_nonneg_def plan_context_def Let_def aggregate_units_ok_def list_all_iff
      dest!: index_by_SomeD)

lemma plan_context_snapshot [simp]:
  "ctx_snapshot (plan_context snapshot aggregate config date location m) = snapshot"
  by (simp add: plan_context_def Let_def)

lemma slot_of_plan_simps [simp]:
  "isl_StartTime (slot_of_plan t plan) = t" "isl_Segments (slot_of_plan t plan) = plan"
  by (simp_all add: slot_of_plan_def Let_def)

lemma slot_of_plan_end:
  assumes "plan \<noteq> []"
  shows "isl_EndTime (slot_of_plan t plan) = Max (ias_EndTime ` set plan)"
proof -
  have "foldl (\<lambda>e s. if ias_EndTime s > e then ias_EndTime s else e) e0 xs
      = Max (insert e0 (ias_EndTime ` set xs))" for e0 xs
  proof (induction xs arbitrary: e0)
    case (Cons x xs)
    have "Max (insert e0 (insert (ias_EndTime x) (ias_EndTime ` set xs))) =
        Max (insert (max e0 (ias_EndTime x)) (ias_EndTime ` set xs))"
      by (cases "xs = []") (simp_all add: max.assoc)
    with Cons show ?case by (simp add: max_def)
  qed simp
  then show ?thesis using assms by (cases plan) (simp_all add: slot_of_plan_def Let_def)
qed

lemma try_slot_iff:
  assumes units: "requirements_nonneg (plan_context snapshot aggregate config date location m)"
    and "segments \<noteq> []" and "m \<in> set (grid 0 (cc_SlotStepMinutes config))"
    and "0 < cc_SlotStepMinutes config"
  shows "try_slot snapshot aggregate config segments date location now m = Some slot \<Longrightarrow>
      offerable snapshot aggregate config segments date location now m (isl_StartTime slot)
        (isl_Segments slot) \<and> slot = slot_of_plan (isl_StartTime slot) (isl_Segments slot)"
    and "offerable snapshot aggregate config segments date location now m t plan \<Longrightarrow>
      \<exists>slot. try_slot snapshot aggregate config segments date location now m = Some slot
        \<and> isl_StartTime slot = t"
  using assign_iff_feasible [OF assms(1,2)] assms(3)
  by (auto simp: try_slot_def offerable_def grid_iff [OF assms(4)] not_less split: option.splits if_splits)

lemma feasible_nonempty: "feasible_plan ctx segments plan \<Longrightarrow> segments \<noteq> [] \<Longrightarrow> plan \<noteq> []"
  by (cases segments) (auto simp: feasible_plan_def list_all2_Cons1 split: option.splits)

lemma set_map_filter: "set (List.map_filter f xs) = {y. \<exists>x \<in> set xs. f x = Some y}"
  by (induction xs) (auto simp: map_filter_simps split: option.splits)

lemma planner_sound:
  assumes plan: "planAggregateAvailability LoadLocation snapshot req now = Inr slots"
    and slot: "slot \<in> set slots" and units: "aggregate_units_ok snapshot"
  obtains aggregate config location date m where
    "planner_inputs LoadLocation snapshot req aggregate config location date"
    "within_horizon config location now date"
    "offerable snapshot aggregate config (nar_Segments req) date location now m
       (isl_StartTime slot) (isl_Segments slot)"
    "slot = slot_of_plan (isl_StartTime slot) (isl_Segments slot)" "isl_Segments slot \<noteq> []"
proof (rule planner_ok [OF plan], goal_cases)
  case (1 aggregate config location date)
  have agg: "snap_Aggregate snapshot = Some aggregate" using 1(2) by (simp add: planner_inputs_def)
  have step: "0 < cc_SlotStepMinutes config" using 1(4) by (simp add: planner_ready_def)
  have within: "within_horizon config location now date" using 1(6) slot by (cases slots) auto
  then obtain m where m: "m \<in> set (grid 0 (cc_SlotStepMinutes config))"
    "try_slot snapshot aggregate config (nar_Segments req) date location now m = Some slot"
    using 1(8) slot by (auto simp: set_map_filter dest!: in_set_takeD)
  note offer = try_slot_iff(1) [OF context_units [OF units agg] 1(5) m(1) step m(2)]
  have "isl_Segments slot \<noteq> []"
    using offer 1(5) feasible_nonempty unfolding offerable_def by blast
  with 1(1,2) within offer show ?case by blast
qed

text \<open>
  C27: Every slot the planner offers is real. It lies on the slot grid of the requested local day,
  within the booking horizon and not before the minimum notice; its segments are a feasible plan
  for the request: eligible staff inside salon hours, their own schedule and the exceptions, free
  of committed work, no one booked twice, every pool within capacity; and it ends when its last
  segment ends.
\<close>

theorem offered_slot_feasible:
  assumes "planAggregateAvailability LoadLocation snapshot req now = Inr slots"
    and "slot \<in> set slots" and "aggregate_units_ok snapshot"
  shows "\<exists>aggregate config location date m.
    planner_inputs LoadLocation snapshot req aggregate config location date
    \<and> within_horizon config location now date
    \<and> offerable snapshot aggregate config (nar_Segments req) date location now m
        (isl_StartTime slot) (isl_Segments slot)
    \<and> isl_EndTime slot = Max (ias_EndTime ` set (isl_Segments slot))"
  using planner_sound [OF assms] slot_of_plan_end by metis

text \<open>
  C26: The planner misses nothing. A scan of the whole day offers a start time if and only if some
  feasible plan starts there: the backtracking over staff is complete.
\<close>

theorem exact_scan_complete:
  assumes plan: "planAggregateAvailability LoadLocation snapshot (req\<lparr>nar_Limit := -1\<rparr>) now = Inr slots"
    and inputs: "planner_inputs LoadLocation snapshot req aggregate config location date"
    and within: "within_horizon config location now date" and units: "aggregate_units_ok snapshot"
  shows "t \<in> isl_StartTime ` set slots \<longleftrightarrow>
    (\<exists>m p. offerable snapshot aggregate config (nar_Segments req) date location now m t p)"
proof (rule planner_ok [OF plan], goal_cases)
  case (1 aggregate' config' location' date')
  have eq: "aggregate' = aggregate" "config' = config" "location' = location" "date' = date"
    using 1(1) inputs by (auto simp: planner_inputs_def)
  have agg: "snap_Aggregate snapshot = Some aggregate" using inputs by (simp add: planner_inputs_def)
  have step: "0 < cc_SlotStepMinutes config" using 1(3) by (simp add: planner_ready_def eq)
  have "length (List.map_filter (try_slot snapshot aggregate config (nar_Segments req) date location now)
      (grid 0 (cc_SlotStepMinutes config))) \<le> 1440"
    using length_map_filter_grid [OF step] .
  then have slots: "set slots = {slot. \<exists>m \<in> set (grid 0 (cc_SlotStepMinutes config)).
      try_slot snapshot aggregate config (nar_Segments req) date location now m = Some slot}"
    using 1(7) within by (simp add: eq plan_limit_def flip: set_map_filter)
  have segs: "nar_Segments req \<noteq> []" using 1(4) by simp
  note tries = try_slot_iff [OF context_units [OF units agg] segs _ step]
  have grid: "offerable snapshot aggregate config (nar_Segments req) date location now m t p \<Longrightarrow>
      m \<in> set (grid 0 (cc_SlotStepMinutes config))" for m p
    by (simp add: offerable_def grid_iff [OF step])
  show ?case
  proof
    assume "t \<in> isl_StartTime ` set slots"
    then obtain slot m where "m \<in> set (grid 0 (cc_SlotStepMinutes config))" "t = isl_StartTime slot"
      "try_slot snapshot aggregate config (nar_Segments req) date location now m = Some slot"
      unfolding slots by blast
    with tries(1) show "\<exists>m p. offerable snapshot aggregate config (nar_Segments req) date location
        now m t p" by blast
  next
    assume "\<exists>m p. offerable snapshot aggregate config (nar_Segments req) date location now m t p"
    then obtain m p where
      "offerable snapshot aggregate config (nar_Segments req) date location now m t p" by blast
    from tries(2) [OF grid [OF this] this] grid [OF this]
    show "t \<in> isl_StartTime ` set slots" unfolding slots by blast
  qed
qed

text \<open>
  A bounded availability answer is a prefix of the answer of the full scan that create-time
  revalidation uses, with the same errors; so a slot that was offered is found again while the
  snapshot does not change.
\<close>

lemma bounded_answer_is_prefix:
  "planAggregateAvailability LoadLocation snapshot req now =
     map_sum id (take (plan_limit (nar_Limit req)))
       (planAggregateAvailability LoadLocation snapshot (req\<lparr>nar_Limit := -1\<rparr>) now)"
proof -
  have len: "take 1440 (List.map_filter f (grid 0 step)) = List.map_filter f (grid 0 step)"
    if "0 < step" for f :: "int \<Rightarrow> InternalAvailabilitySlot option" and step
    by (rule take_all [OF length_map_filter_grid [OF that]])
  have lim: "plan_limit (-1) = 1440" by (simp add: plan_limit_def)
  have "0 < cc_SlotStepMinutes config" if "planner_ready snapshot aggregate config" for aggregate config
    using that by (simp add: planner_ready_def)
  then show ?thesis
    unfolding planAggregateAvailability_def
    by (auto simp: Let_def plan_slots_grid len lim split: option.splits)
qed

text \<open>
  C24: No double booking. In an offered slot no staff member serves two segments whose occupied
  ranges (buffers included) overlap, none of them is committed elsewhere during the occupied range
  of a segment, and at every instant each pool the slot draws on stays within its effective
  capacity, committed work included.
\<close>

theorem offered_slot_no_double_booking:
  assumes "planAggregateAvailability LoadLocation snapshot req now = Inr slots"
    and "slot \<in> set slots" and "aggregate_units_ok snapshot"
  shows "(\<forall>i j. i < j \<and> j < length (isl_Segments slot) \<longrightarrow>
        staff_disjoint (isl_Segments slot ! i) (isl_Segments slot ! j))
    \<and> (\<forall>s \<in> set (isl_Segments slot). \<forall>c \<in> set (snap_Conflicts snapshot).
        sc_StaffID c = ias_StaffID s \<longrightarrow>
        \<not> rangesOverlap (ias_OccupiedStartTime s) (ias_OccupiedEndTime s) (sc_StartsAt c) (sc_EndsAt c))
    \<and> (\<forall>poolID \<in> set (plan_pools (isl_Segments slot)). \<exists>aggregate capacity.
        snap_Aggregate snapshot = Some aggregate \<and> base_capacity aggregate poolID = Some capacity
        \<and> (\<forall>t. usage_at (snap_ResourceConflicts snapshot) (isl_Segments slot) poolID t
              \<le> effective_capacity aggregate poolID capacity t))"
proof (rule planner_sound [OF assms], goal_cases)
  case (1 aggregate config location date m)
  let ?ctx = "plan_context snapshot aggregate config date location m"
  obtain sched staffs where plan: "segment_schedule ?ctx (nar_Segments req) Map.empty = Some sched"
    "list_all2 (staff_ok ?ctx) sched staffs"
    "isl_Segments slot = map2 (staffed_segment ?ctx) sched staffs"
    "sorted_wrt staff_disjoint (isl_Segments slot)" "resourcesFit snapshot (isl_Segments slot)"
    using 1(3) by (auto simp: offerable_def feasible_plan_def)
  have agg: "snap_Aggregate snapshot = Some aggregate" using 1(1) by (simp add: planner_inputs_def)
  have units: "units_nonneg (isl_Segments slot)"
    unfolding plan(3) by (rule schedule_units [OF context_units [OF assms(3) agg] plan(1)])
  have "\<forall>c \<in> set (snap_Conflicts snapshot). sc_StaffID c = ias_StaffID s \<longrightarrow>
      \<not> rangesOverlap (ias_OccupiedStartTime s) (ias_OccupiedEndTime s) (sc_StartsAt c) (sc_EndsAt c)"
    if "s \<in> set (isl_Segments slot)" for s
    using that list_all2_conv_all_nth [THEN iffD1, OF plan(2)] unfolding plan(3)
    by (auto simp: set_zip staff_ok_def staffed_segment_def staff_available_def hasStaffConflict_def
        list_ex_iff split: option.splits prod.splits) metis
  moreover have "pool_fits aggregate (snap_ResourceConflicts snapshot) (isl_Segments slot) poolID"
    if "poolID \<in> set (plan_pools (isl_Segments slot))" for poolID
    using plan(5) that agg by (simp add: resourcesFit_def list_all_iff)
  then have "\<exists>aggregate capacity. snap_Aggregate snapshot = Some aggregate
        \<and> base_capacity aggregate poolID = Some capacity
        \<and> (\<forall>t. usage_at (snap_ResourceConflicts snapshot) (isl_Segments slot) poolID t
              \<le> effective_capacity aggregate poolID capacity t)"
    if "poolID \<in> set (plan_pools (isl_Segments slot))" for poolID
    using that agg unfolding pool_fits_iff [OF units] by blast
  ultimately show ?case
    using plan(4) unfolding sorted_wrt_iff_nth_less by blast
qed

lemma segment_request_policy:
  assumes "segment_request_valid (index_by (\<lambda>policy. sv_ID (vp_Service policy)) policies) segment"
  shows "\<exists>policy \<in> set policies.
      sv_ID (vp_Service policy) = nas_ServiceID segment \<and> vp_Enabled policy
      \<and> eligibleService (vp_Service policy)
      \<and> vp_CapacityMode policy \<in> {Some CapacityModeStaffOnly, Some CapacityModePooled}
      \<and> nas_Quantity segment = 1"
proof -
  obtain policy where policy:
    "index_by (\<lambda>policy. sv_ID (vp_Service policy)) policies (nas_ServiceID segment) = Some policy"
    using assms by (auto simp: segment_request_valid_def split: option.splits)
  show ?thesis
    using assms index_by_SomeD [OF policy] unfolding segment_request_valid_def policy option.case
    by (intro bexI [of _ policy]) (auto split: option.splits)
qed

text \<open>
  The planner fails closed: it answers only when no external conflict is unresolved, the salon
  runs on the ManleAI calendar (or the target appointment authorises it), the activated version is
  the current one, and every requested segment names a configured, enabled, bookable service with
  a usable capacity mode and a quantity of one.
\<close>

lemma planner_fails_closed:
  assumes "planAggregateAvailability LoadLocation snapshot req now = Inr slots" and "slots \<noteq> []"
  shows "\<not> snap_UnresolvedExternalConflict snapshot \<and>
    (\<exists>aggregate config. snap_Aggregate snapshot = Some aggregate \<and> agg_Config aggregate = Some config
      \<and> (agg_SchedulingAuthority aggregate = SchedulingAuthorityManleAICalendar
          \<or> snap_TargetOriginAuthorized snapshot)
      \<and> cc_ActivatedVersion config = Some (cc_Version config) \<and> cc_ActivatedAt config \<noteq> None
      \<and> (\<forall>segment \<in> set (nar_Segments req). \<exists>policy \<in> set (agg_ServicePolicies aggregate).
           sv_ID (vp_Service policy) = nas_ServiceID segment \<and> vp_Enabled policy
           \<and> eligibleService (vp_Service policy)
           \<and> vp_CapacityMode policy \<in> {Some CapacityModeStaffOnly, Some CapacityModePooled}
           \<and> nas_Quantity segment = 1)
      \<and> int (length slots) \<le> (if nar_Limit req = -1 then 1440 else 50))"
proof (rule planner_ok [OF assms(1)], goal_cases)
  case (1 aggregate config location date)
  have within: "within_horizon config location now date" using 1(5) assms(2) by blast
  have "\<exists>policy \<in> set (agg_ServicePolicies aggregate).
      sv_ID (vp_Service policy) = nas_ServiceID segment \<and> vp_Enabled policy
      \<and> eligibleService (vp_Service policy)
      \<and> vp_CapacityMode policy \<in> {Some CapacityModeStaffOnly, Some CapacityModePooled}
      \<and> nas_Quantity segment = 1"
    if "segment \<in> set (nar_Segments req)" for segment
    using 1(6) [OF within] that segment_request_policy by (simp add: list_all_iff)
  moreover have "length slots \<le> plan_limit (nar_Limit req)" using 1(7) [OF within] by simp
  then have "int (length slots) \<le> (if nar_Limit req = -1 then 1440 else 50)"
    by (auto simp: plan_limit_def Let_def split: if_splits)
  ultimately show ?case using 1(1,2,3) by (auto simp: planner_inputs_def planner_ready_def)
qed

end
