(* ===== verification/Calendar_Config.thy ===== *)
theory Calendar_Config
  imports Calendar_Planner Scheduling_Types "HOL-Library.Product_Lexorder" "HOL-Library.Multiset"
begin

text \<open>
  The configuration service of the ManleAI calendar, \<open>service.go\<close>: normalisation and validation of
  every kind of configuration input, the readiness evaluation and the readiness summary that the
  authority switch reads.

  \<^item> A \<open>normalizeAndValidate\<close> function changes the request it points to and returns an error or
    nil; here it returns the normalised request or the error.
  \<^item> \<open>uuid.Parse\<close> belongs to a package outside the repository: \<open>uuid_ok\<close> is a parameter.
  \<^item> \<open>utf8.ValidString\<close> and \<open>utf8.RuneCountInString\<close> are the function \<open>utf8_runes\<close>.

  The lemmas show that the limits the code checks are those \<open>DefaultConstraints\<close> publishes, that
  validated weekly periods are exactly the well-formed, pairwise disjoint ones, and when the
  calendar is ready.
\<close>

section \<open>Validation\<close>

definition validOptionalRange :: "int option \<Rightarrow> int \<Rightarrow> int \<Rightarrow> bool" where
  "validOptionalRange value minimum maximum =
     (case value of None \<Rightarrow> True | Some v \<Rightarrow> v \<ge> minimum \<and> v \<le> maximum)"

definition validateIdentity :: "(string \<Rightarrow> bool) \<Rightarrow> string list \<Rightarrow> error option" where
  "validateIdentity uuid_ok values =
     (if list_all (\<lambda>value. uuid_ok (TrimSpace value)) values then None else Some ErrCalendarValidation)"

definition normalizeAndValidateMeta :: "MutationMeta \<Rightarrow> error + MutationMeta" where
  "normalizeAndValidateMeta meta =
     (let meta = meta\<lparr>mm_ActionKey := TrimSpace (mm_ActionKey meta)\<rparr> in
      if mm_ActionKey meta = [] \<or> length (mm_ActionKey meta) > 256
         \<or> mm_ExpectedConfigVersion meta < 0
      then Inl ErrCalendarValidation else Inr meta)"

definition config_limits_ok :: "CalendarConfigInput \<Rightarrow> bool" where
  "config_limits_ok req \<longleftrightarrow>
     \<not> (cci_SlotStepMinutes req < 1 \<or> cci_SlotStepMinutes req > 1440
        \<or> 1440 mod cci_SlotStepMinutes req \<noteq> 0
        \<or> cci_MinimumBookingNoticeMinutes req < 0 \<or> cci_MinimumBookingNoticeMinutes req > 525600
        \<or> cci_BookingHorizonDays req < 1 \<or> cci_BookingHorizonDays req > 366
        \<or> cci_MaxPartySize req < 1 \<or> cci_MaxPartySize req > 100
        \<or> cci_DefaultBufferBeforeMinutes req < 0 \<or> cci_DefaultBufferBeforeMinutes req > 1440
        \<or> cci_DefaultBufferAfterMinutes req < 0 \<or> cci_DefaultBufferAfterMinutes req > 1440
        \<or> \<not> validOptionalRange (cci_RescheduleCutoffMinutes req) 0 525600
        \<or> \<not> validOptionalRange (cci_CancellationCutoffMinutes req) 0 525600)"

definition normalizeAndValidateConfig :: "CalendarConfigInput \<Rightarrow> error + CalendarConfigInput" where
  "normalizeAndValidateConfig req =
     (case normalizeAndValidateMeta (cci_MutationMeta req) of
        Inl _ \<Rightarrow> Inl ErrCalendarValidation
      | Inr meta \<Rightarrow>
          if config_limits_ok req then Inr (req\<lparr>cci_MutationMeta := meta\<rparr>)
          else Inl ErrCalendarValidation)"

text \<open>
  \<open>validatePeriods\<close> is generic in the period type; \<open>span\<close> (the parameter \<open>extract\<close>) gives day, start and end. The loop
  carries the day and the end of the previous period.
\<close>

fun validate_periods_from :: "('a \<Rightarrow> int \<times> int \<times> int) \<Rightarrow> int \<Rightarrow> int \<Rightarrow> 'a list \<Rightarrow> bool" where
  "validate_periods_from span previousDay previousEnd [] = True"
| "validate_periods_from span previousDay previousEnd (period # periods) =
     (case span period of (day, start, end') \<Rightarrow>
        if day < 0 \<or> day > 6 \<or> start < 0 \<or> start \<ge> end' \<or> end' > 1440 then False
        else if day = previousDay \<and> start < previousEnd then False
        else validate_periods_from span day end' periods)"

definition validatePeriods :: "'a list \<Rightarrow> ('a \<Rightarrow> int \<times> int \<times> int) \<Rightarrow> error option" where
  "validatePeriods periods span =
     (if validate_periods_from span (-1) (-1) periods then None else Some ErrCalendarValidation)"

text \<open>
  The \<open>sort.Slice\<close> by day, then start, then end (the lexicographic order of the triples); periods
  equal in all three are indistinguishable.
\<close>

definition sort_periods :: "('a \<Rightarrow> int \<times> int \<times> int) \<Rightarrow> 'a list \<Rightarrow> 'a list" where
  "sort_periods span periods = sort_key span periods"

definition hours_extract :: "BusinessHourPeriodInput \<Rightarrow> int \<times> int \<times> int" where
  "hours_extract p = (bhi_DayOfWeek p, bhi_StartMinute p, bhi_EndMinute p)"

definition weekly_extract :: "WeeklyPeriodInput \<Rightarrow> int \<times> int \<times> int" where
  "weekly_extract p = (wpi_DayOfWeek p, wpi_StartMinute p, wpi_EndMinute p)"

definition normalizeAndValidateHours ::
  "ReplaceBusinessHoursInput \<Rightarrow> error + ReplaceBusinessHoursInput" where
  "normalizeAndValidateHours req =
     (case normalizeAndValidateMeta (rbh_MutationMeta req) of
        Inl _ \<Rightarrow> Inl ErrCalendarValidation
      | Inr meta \<Rightarrow>
          let periods = sort_periods hours_extract (rbh_Periods req) in
          (case validatePeriods periods hours_extract of
             Some err \<Rightarrow> Inl err
           | None \<Rightarrow> Inr (req\<lparr>rbh_MutationMeta := meta, rbh_Periods := periods\<rparr>)))"

fun uuid_set_loop :: "(string \<Rightarrow> bool) \<Rightarrow> string list \<Rightarrow> string list \<Rightarrow> error + string list" where
  "uuid_set_loop uuid_ok result [] = Inr result"
| "uuid_set_loop uuid_ok result (value # values) =
     (let value = TrimSpace value in
      if \<not> uuid_ok value then Inl ErrCalendarValidation
      else if value \<in> set result then Inl ErrCalendarValidation
      else uuid_set_loop uuid_ok (result @ [value]) values)"

definition normalizeUUIDSet :: "(string \<Rightarrow> bool) \<Rightarrow> string list \<Rightarrow> error + string list" where
  "normalizeUUIDSet uuid_ok values = map_sum id sort (uuid_set_loop uuid_ok [] values)"

definition normalizeAndValidateStaffProfile ::
  "(string \<Rightarrow> bool) \<Rightarrow> StaffProfileInput \<Rightarrow> error + StaffProfileInput" where
  "normalizeAndValidateStaffProfile uuid_ok req =
     (case normalizeAndValidateMeta (spi_MutationMeta req) of
        Inl _ \<Rightarrow> Inl ErrCalendarValidation
      | Inr meta \<Rightarrow>
          let periods = sort_periods weekly_extract (spi_WeeklyPeriods req) in
          (case validatePeriods periods weekly_extract of
             Some err \<Rightarrow> Inl err
           | None \<Rightarrow>
               (case normalizeUUIDSet uuid_ok (spi_EligibleServiceIDs req) of
                  Inl err \<Rightarrow> Inl err
                | Inr ids \<Rightarrow> Inr (req\<lparr>spi_MutationMeta := meta, spi_WeeklyPeriods := periods,
                               spi_EligibleServiceIDs := ids\<rparr>))))"

fun requirements_loop ::
  "(string \<Rightarrow> bool) \<Rightarrow> ResourceRequirementInput list \<Rightarrow> ResourceRequirementInput list
     \<Rightarrow> error + ResourceRequirementInput list" where
  "requirements_loop uuid_ok result [] = Inr result"
| "requirements_loop uuid_ok result (requirement # requirements) =
     (let requirement =
            requirement\<lparr>rri_ResourcePoolID := TrimSpace (rri_ResourcePoolID requirement)\<rparr>
      in if \<not> uuid_ok (rri_ResourcePoolID requirement) \<or> rri_UnitsRequired requirement < 1
            \<or> rri_UnitsRequired requirement > 1000 then Inl ErrCalendarValidation
         else if rri_ResourcePoolID requirement \<in> rri_ResourcePoolID ` set result
         then Inl ErrCalendarValidation
         else requirements_loop uuid_ok (result @ [requirement]) requirements)"

definition normalizeAndValidateServicePolicy ::
  "(string \<Rightarrow> bool) \<Rightarrow> ServicePolicyInput \<Rightarrow> error + ServicePolicyInput" where
  "normalizeAndValidateServicePolicy uuid_ok req =
     (case normalizeAndValidateMeta (vpi_MutationMeta req) of
        Inl _ \<Rightarrow> Inl ErrCalendarValidation
      | Inr meta \<Rightarrow>
          let mode = map_option TrimSpace (vpi_CapacityMode req) in
          if mode \<noteq> None \<and> mode \<noteq> Some CapacityModeStaffOnly \<and> mode \<noteq> Some CapacityModePooled
          then Inl ErrCalendarValidation
          else if vpi_Enabled req \<and> mode = None then Inl ErrCalendarValidation
          else if \<not> validOptionalRange (vpi_BufferBeforeMinutesOverride req) 0 1440
                  \<or> \<not> validOptionalRange (vpi_BufferAfterMinutesOverride req) 0 1440
          then Inl ErrCalendarValidation
          else
            (case normalizeUUIDSet uuid_ok (vpi_EligibleStaffIDs req) of
               Inl err \<Rightarrow> Inl err
             | Inr staffIDs \<Rightarrow>
                 (case requirements_loop uuid_ok [] (vpi_ResourceRequirements req) of
                    Inl err \<Rightarrow> Inl err
                  | Inr requirements \<Rightarrow>
                      if mode = Some CapacityModeStaffOnly \<and> requirements \<noteq> []
                      then Inl ErrCalendarValidation
                      else Inr (req\<lparr>vpi_MutationMeta := meta, vpi_CapacityMode := mode,
                             vpi_EligibleStaffIDs := staffIDs,
                             vpi_ResourceRequirements :=
                               sort_key rri_ResourcePoolID requirements\<rparr>))))"

text \<open>
  Go's UTF-8: the number of runes of a valid encoding, \<open>None\<close> for an invalid one (overlong forms,
  surrogates and values beyond U+10FFFF are invalid).
\<close>

definition cont_byte :: "char \<Rightarrow> bool" where
  "cont_byte c \<longleftrightarrow> (let n = (of_char c :: nat) in 128 \<le> n \<and> n \<le> 191)"

definition utf8_lead :: "string \<Rightarrow> nat option" where
  "utf8_lead s =
     (case s of
        [] \<Rightarrow> None
      | c # rest \<Rightarrow>
          let n = (of_char c :: nat); second = (case rest of [] \<Rightarrow> 0 | d # _ \<Rightarrow> (of_char d :: nat))
          in if n < 128 then Some 1
             else if 194 \<le> n \<and> n \<le> 223 then Some 2
             else if n = 224 then (if 160 \<le> second then Some 3 else None)
             else if n = 237 then (if second \<le> 159 then Some 3 else None)
             else if 225 \<le> n \<and> n \<le> 239 then Some 3
             else if n = 240 then (if 144 \<le> second then Some 4 else None)
             else if 241 \<le> n \<and> n \<le> 243 then Some 4
             else if n = 244 then (if second \<le> 143 then Some 4 else None)
             else None)"

lemma utf8_lead_pos: "utf8_lead s = Some k \<Longrightarrow> 0 < k \<and> s \<noteq> []"
  by (auto simp: utf8_lead_def Let_def split: list.splits if_splits)

function utf8_runes :: "string \<Rightarrow> nat option" where
  "utf8_runes s =
     (if s = [] then Some 0
      else (case utf8_lead s of
              None \<Rightarrow> None
            | Some k \<Rightarrow>
                if length s < k \<or> \<not> list_all cont_byte (take (k - 1) (tl s)) then None
                else map_option Suc (utf8_runes (drop k s))))"
  by pat_completeness auto
termination
  by (relation "measure length") (auto dest: utf8_lead_pos intro!: diff_less)

declare utf8_runes.simps [simp del]

definition normalizeAndValidateResource :: "ResourcePoolInput \<Rightarrow> error + ResourcePoolInput" where
  "normalizeAndValidateResource req =
     (case normalizeAndValidateMeta (rpi_MutationMeta req) of
        Inl _ \<Rightarrow> Inl ErrCalendarValidation
      | Inr meta \<Rightarrow>
          let name = TrimSpace (rpi_Name req) in
          if name = []
             \<or> (case utf8_runes name of None \<Rightarrow> True | Some runes \<Rightarrow> runes > 200)
             \<or> rpi_Capacity req < 1 \<or> rpi_Capacity req > 1000
          then Inl ErrCalendarValidation
          else Inr (req\<lparr>rpi_MutationMeta := meta, rpi_Name := name\<rparr>))"

definition exception_scope_ok :: "(string \<Rightarrow> bool) \<Rightarrow> ExceptionInput \<Rightarrow> bool" where
  "exception_scope_ok uuid_ok req =
     (if xi_ScopeType req = ExceptionScopeSalon
      then xi_StaffID req = [] \<and> xi_ResourcePoolID req = []
      else if xi_ScopeType req = ExceptionScopeStaff
      then xi_ResourcePoolID req = [] \<and> uuid_ok (xi_StaffID req)
      else if xi_ScopeType req = ExceptionScopeResource
      then xi_StaffID req = [] \<and> uuid_ok (xi_ResourcePoolID req)
      else False)"

definition exception_effect_ok :: "ExceptionInput \<Rightarrow> bool" where
  "exception_effect_ok req =
     (if xi_ScopeType req = ExceptionScopeSalon \<or> xi_ScopeType req = ExceptionScopeStaff
      then \<not> (xi_Effect req \<noteq> ExceptionEffectAvailable \<and> xi_Effect req \<noteq> ExceptionEffectUnavailable
              \<or> xi_CapacityOverride req \<noteq> None)
      else if xi_ScopeType req = ExceptionScopeResource
      then \<not> (xi_Effect req \<noteq> ExceptionEffectCapacityOverride \<or> xi_CapacityOverride req = None
              \<or> \<not> validOptionalRange (xi_CapacityOverride req) 0 1000)
      else True)"

definition normalizeAndValidateException ::
  "(string \<Rightarrow> bool) \<Rightarrow> ExceptionInput \<Rightarrow> error + ExceptionInput" where
  "normalizeAndValidateException uuid_ok req0 =
     (case normalizeAndValidateMeta (xi_MutationMeta req0) of
        Inl _ \<Rightarrow> Inl ErrCalendarValidation
      | Inr meta \<Rightarrow>
          let req = req0\<lparr>xi_MutationMeta := meta, xi_ScopeType := TrimSpace (xi_ScopeType req0),
                xi_StaffID := TrimSpace (xi_StaffID req0),
                xi_ResourcePoolID := TrimSpace (xi_ResourcePoolID req0),
                xi_Effect := TrimSpace (xi_Effect req0), xi_Reason := TrimSpace (xi_Reason req0)\<rparr>
          in if \<not> xi_StartsAt req < xi_EndsAt req \<or> length (xi_Reason req) > 2000
             then Inl ErrCalendarValidation
             else if \<not> exception_scope_ok uuid_ok req then Inl ErrCalendarValidation
             else if \<not> exception_effect_ok req then Inl ErrCalendarValidation
             else Inr req)"

section \<open>Readiness\<close>

definition blocker ::
  "string \<Rightarrow> string \<Rightarrow> string \<Rightarrow> string \<Rightarrow> string \<Rightarrow> ReadinessBlocker" where
  "blocker code dimension scope entityID message =
     \<lparr>rb_Code = code, rb_Dimension = dimension, rb_Scope = scope, rb_EntityID = entityID,
      rb_Message = message\<rparr>"

definition known_capacity_mode :: "string option \<Rightarrow> bool" where
  "known_capacity_mode mode \<longleftrightarrow> mode = Some CapacityModeStaffOnly \<or> mode = Some CapacityModePooled"

definition staff_blockers :: "(string \<rightharpoonup> StaffProfile) \<Rightarrow> StaffRef \<Rightarrow> ReadinessBlocker list" where
  "staff_blockers staffByID staff =
     (case staffByID (sf_ID staff) of
        None \<Rightarrow> [blocker BlockerStaffIneligible ReadinessDimensionConfiguration ''staff''
                  (sf_ID staff)
                  ''Assigned staff must be active, AI-bookable, and not archived.'']
      | Some profile \<Rightarrow>
          if \<not> eligibleStaff staff
          then [blocker BlockerStaffIneligible ReadinessDimensionConfiguration ''staff''
                  (sf_ID staff)
                  ''Assigned staff must be active, AI-bookable, and not archived.'']
          else if sp_WeeklyPeriods profile = []
          then [blocker BlockerStaffScheduleRequired ReadinessDimensionConfiguration ''staff''
                  (sf_ID staff)
                  ''Assigned staff must have at least one weekly schedule period.'']
          else [])"

definition requirement_blockers :: "ResourceRequirement \<Rightarrow> ReadinessBlocker list" where
  "requirement_blockers requirement =
     (if rq_PoolArchivedAt requirement \<noteq> None
      then [blocker BlockerResourceArchived ReadinessDimensionConfiguration ''resource''
              (rq_ResourcePoolID requirement)
              ''An enabled service references an archived resource pool.''] else [])
     @ (if rq_UnitsRequired requirement > rq_PoolCapacity requirement
        then [blocker BlockerResourceCapacityExceeded ReadinessDimensionConfiguration ''resource''
                (rq_ResourcePoolID requirement)
                ''Required resource units exceed the pool capacity.''] else [])"

text \<open>What the loop body does with an enabled policy.\<close>

definition enabled_policy_blockers ::
  "(string \<rightharpoonup> StaffProfile) \<Rightarrow> ServicePolicy \<Rightarrow> ReadinessBlocker list" where
  "enabled_policy_blockers staffByID policy =
     (if \<not> eligibleService (vp_Service policy)
      then [blocker BlockerServiceIneligible ReadinessDimensionConfiguration ''service''
              (sv_ID (vp_Service policy))
              ''The enabled service is inactive, archived, not AI-bookable, or has no duration.'']
      else [])
     @ (if \<not> known_capacity_mode (vp_CapacityMode policy)
        then [blocker BlockerServiceCapacityModeRequired ReadinessDimensionConfiguration ''service''
                (sv_ID (vp_Service policy))
                ''Select a supported capacity mode for this enabled service.''] else [])
     @ (if vp_EligibleStaff policy = []
        then [blocker BlockerServiceStaffRequired ReadinessDimensionConfiguration ''service''
                (sv_ID (vp_Service policy))
                ''Assign at least one eligible staff member to this enabled service.''] else [])
     @ concat (map (staff_blockers staffByID) (vp_EligibleStaff policy))
     @ (if vp_CapacityMode policy = Some CapacityModePooled
        then (if vp_ResourceRequirements policy = []
              then [blocker BlockerPooledResourceRequired ReadinessDimensionConfiguration ''service''
                      (sv_ID (vp_Service policy))
                      ''A pooled-capacity service must require at least one resource pool.'']
              else [])
        else if vp_ResourceRequirements policy \<noteq> []
        then [blocker BlockerStaffOnlyResourceNotAllowed ReadinessDimensionConfiguration ''service''
                (sv_ID (vp_Service policy))
                ''A staff-only service cannot require pooled resources.''] else [])
     @ concat (map requirement_blockers (vp_ResourceRequirements policy))"

definition policy_enabled :: "ServicePolicy \<Rightarrow> bool" where
  "policy_enabled policy \<longleftrightarrow> vp_Configured policy \<and> vp_Enabled policy"

definition policy_blockers ::
  "(string \<rightharpoonup> StaffProfile) \<Rightarrow> ServicePolicy \<Rightarrow> ReadinessBlocker list" where
  "policy_blockers staffByID policy =
     (if eligibleService (vp_Service policy) \<and> \<not> vp_Configured policy
      then [blocker BlockerServicePolicyRequired ReadinessDimensionConfiguration ''service''
              (sv_ID (vp_Service policy))
              ''Choose whether this eligible service is enabled for the internal calendar.'']
      else if \<not> policy_enabled policy then []
      else enabled_policy_blockers staffByID policy)"

definition configuration_blockers :: "Aggregate \<Rightarrow> ReadinessBlocker list" where
  "configuration_blockers aggregate =
     (let staffByID = index_by (\<lambda>profile. sf_ID (sp_Staff profile)) (agg_StaffProfiles aggregate);
          eligibleServices = length (filter (\<lambda>policy. eligibleService (vp_Service policy))
            (agg_ServicePolicies aggregate));
          enabledServices = length (filter policy_enabled (agg_ServicePolicies aggregate))
      in (if agg_Config aggregate = None
          then [blocker BlockerConfigRequired ReadinessDimensionConfiguration ''calendar'' []
                  ''Create the internal calendar configuration.''] else [])
         @ (if agg_Hours aggregate = []
            then [blocker BlockerLocalHoursRequired ReadinessDimensionConfiguration ''calendar'' []
                    ''Add at least one local business-hours period.''] else [])
         @ concat (map (policy_blockers staffByID) (agg_ServicePolicies aggregate))
         @ (if eligibleServices = 0
            then [blocker BlockerEligibleServicesRequired ReadinessDimensionConfiguration
                    ''calendar'' []
                    ''At least one active, AI-bookable service with a duration is required.'']
            else if enabledServices = 0
            then [blocker BlockerEnabledServiceRequired ReadinessDimensionConfiguration ''calendar''
                    [] ''Enable at least one eligible service for the internal calendar.'']
            else []))"

definition activation_current :: "CalendarConfig option \<Rightarrow> bool" where
  "activation_current config =
     (case config of
        None \<Rightarrow> False
      | Some c \<Rightarrow> cc_ActivatedAt c \<noteq> None \<and> cc_ActivatedVersion c = Some (cc_Version c))"

definition staff_only_configured :: "ServicePolicy \<Rightarrow> bool" where
  "staff_only_configured policy \<longleftrightarrow>
     vp_Configured policy \<and> vp_Enabled policy \<and> vp_CapacityMode policy = Some CapacityModeStaffOnly
     \<and> eligibleService (vp_Service policy) \<and> vp_EligibleStaff policy \<noteq> []
     \<and> vp_ResourceRequirements policy = []"

definition no_capabilities :: OperationCapabilities where
  "no_capabilities =
     \<lparr>oc_StaffOnlyAvailability = False, oc_StaffOnlyCreate = False, oc_PooledCapacity = False,
      oc_PartyCreate = False, oc_Reschedule = False, oc_Cancel = False\<rparr>"

text \<open>
  Readiness of a non-nil aggregate. \<open>pooledEnabled\<close> is set for every enabled policy in pooled mode,
  and the loop skips an eligible service that is not configured, which is not enabled either.
\<close>

definition evaluate_aggregate :: "Aggregate \<Rightarrow> Readiness" where
  "evaluate_aggregate aggregate =
     (let blockers = configuration_blockers aggregate;
          configurationReady =
            list_all (\<lambda>item. rb_Dimension item \<noteq> ReadinessDimensionConfiguration) blockers;
          activationCurrent = activation_current (agg_Config aggregate);
          blockers' = (if activationCurrent then blockers
            else blockers @ [blocker BlockerConfigNotActivated ReadinessDimensionExecution
              ''calendar'' []
              ''Activate the configuration after all configuration blockers are resolved.'']);
          enabled = filter policy_enabled (agg_ServicePolicies aggregate);
          pooledEnabled =
            list_ex (\<lambda>policy. vp_CapacityMode policy = Some CapacityModePooled) enabled;
          engineReady = configurationReady \<and> activationCurrent
            \<and> agg_SchedulingAuthority aggregate = SchedulingAuthorityManleAICalendar;
          staffOnlyReady = engineReady
            \<and> list_ex staff_only_configured (agg_ServicePolicies aggregate);
          capabilities =
            \<lparr>oc_StaffOnlyAvailability = staffOnlyReady, oc_StaffOnlyCreate = staffOnlyReady,
             oc_PooledCapacity = engineReady \<and> pooledEnabled,
             oc_PartyCreate = engineReady \<and>
               (case agg_Config aggregate of None \<Rightarrow> False | Some c \<Rightarrow> cc_MaxPartySize c > 1)
               \<and> enabled \<noteq> [],
             oc_Reschedule = engineReady \<and> enabled \<noteq> [],
             oc_Cancel = engineReady \<and> enabled \<noteq> []\<rparr>
      in \<lparr>rdy_ConfigurationReady = configurationReady,
          rdy_ExecutionReady = oc_StaffOnlyAvailability capabilities
            \<and> oc_StaffOnlyCreate capabilities \<and> oc_PooledCapacity capabilities
            \<and> oc_PartyCreate capabilities \<and> oc_Reschedule capabilities \<and> oc_Cancel capabilities,
          rdy_AuthorityVersion = agg_AuthorityVersion aggregate,
          rdy_ConfigVersion = agg_ConfigVersion aggregate,
          rdy_Capabilities = capabilities, rdy_Blockers = blockers'\<rparr>)"

definition EvaluateReadiness :: "Aggregate option \<Rightarrow> Readiness" where
  "EvaluateReadiness aggregate_ptr =
     (case aggregate_ptr of
        None \<Rightarrow>
          \<lparr>rdy_ConfigurationReady = False, rdy_ExecutionReady = False, rdy_AuthorityVersion = 0,
           rdy_ConfigVersion = 0, rdy_Capabilities = no_capabilities,
           rdy_Blockers =
             [blocker BlockerConfigRequired ReadinessDimensionConfiguration ''calendar'' []
                ''Create the internal calendar configuration.'',
              blocker BlockerPartyCreateEngineUnavailable ReadinessDimensionExecution ''calendar'' []
                ''Party appointment creation is not available in this phase.'']\<rparr>
      | Some aggregate \<Rightarrow> evaluate_aggregate aggregate)"

section \<open>Readiness as an authority-switch target\<close>

fun appendCalendarTargetBlocker ::
  "TargetReadinessBlocker list \<Rightarrow> TargetReadinessBlocker \<Rightarrow> TargetReadinessBlocker list" where
  "appendCalendarTargetBlocker items candidate =
     (if list_ex (\<lambda>item. trb_Code item = trb_Code candidate \<and> trb_Scope item = trb_Scope candidate
           \<and> trb_EntityID item = trb_EntityID candidate) items
      then items else items @ [candidate])"

definition calendarCapabilityBlockers ::
  "TargetReadinessBlocker list \<Rightarrow> TargetReadinessBlocker \<Rightarrow> TargetReadinessBlocker list" where
  "calendarCapabilityBlockers base capability =
     appendCalendarTargetBlocker
       (foldl appendCalendarTargetBlocker []
         (filter (\<lambda>item. trb_Code item \<noteq> ''STAFF_ONLY_AVAILABILITY_READY''
            \<and> trb_Code item \<noteq> ''STAFF_ONLY_CREATE_READY'') base))
       capability"

definition target_check :: "string \<Rightarrow> bool \<Rightarrow> TargetReadinessCheck" where
  "target_check code ready =
     \<lparr>trc_Code = code, trc_Ready = ready, trc_Scope = ''calendar'', trc_EntityID = []\<rparr>"

definition target_blocker :: "string \<Rightarrow> string \<Rightarrow> string \<Rightarrow> string \<Rightarrow> TargetReadinessBlocker" where
  "target_blocker code scope entityID message =
     \<lparr>trb_Code = code, trb_Scope = scope, trb_EntityID = entityID, trb_Message = message\<rparr>"

definition target_blockers :: "Readiness \<Rightarrow> TargetReadinessBlocker list" where
  "target_blockers readiness =
     (let add = (\<lambda>code ready message.
            if ready then [] else [target_blocker code ''calendar'' [] message])
      in foldl appendCalendarTargetBlocker
           (add ''CONFIGURATION_READY'' (rdy_ConfigurationReady readiness)
              ''Resolve the internal calendar configuration blockers.''
            @ add ''STAFF_ONLY_AVAILABILITY_READY''
                (oc_StaffOnlyAvailability (rdy_Capabilities readiness))
                ''Activate a current staff-only calendar configuration that supports availability.''
            @ add ''STAFF_ONLY_CREATE_READY'' (oc_StaffOnlyCreate (rdy_Capabilities readiness))
                ''Activate a current staff-only calendar configuration that supports appointment creation.'')
           (map (\<lambda>b. target_blocker (rb_Code b) (rb_Scope b) (rb_EntityID b)
                (''Resolve the internal calendar readiness blocker '' @ rb_Code b @ ''.''))
             (filter (\<lambda>b. rb_Dimension b = ReadinessDimensionConfiguration
                \<or> rb_Code b = BlockerConfigNotActivated) (rdy_Blockers readiness))))"

definition target_readiness :: "Readiness \<Rightarrow> TargetReadiness" where
  "target_readiness readiness =
     (let capabilities = rdy_Capabilities readiness;
          blockers = target_blockers readiness;
          availabilityReady =
            oc_StaffOnlyAvailability capabilities \<or> oc_PooledCapacity capabilities;
          executionReady = oc_StaffOnlyCreate capabilities \<or> oc_PooledCapacity capabilities
      in \<lparr>tr_TargetSchedulingAuthority = SchedulingAuthorityManleAICalendar,
          tr_Ready = (length blockers = 0),
          tr_AvailabilityReady = availabilityReady, tr_ExecutionReady = executionReady,
          tr_AuthorityVersion = rdy_AuthorityVersion readiness,
          tr_ReadinessEvidenceVersion = 0, tr_ReadinessEvidenceFingerprint = [],
          tr_ConfigVersion = rdy_ConfigVersion readiness, tr_EligibleServiceCount = 0,
          tr_ServiceCount = 0, tr_StaffCount = 0, tr_BusinessHourPeriodCount = 0,
          tr_Checks = [target_check ''CONFIGURATION_READY'' (rdy_ConfigurationReady readiness),
            target_check ''STAFF_ONLY_AVAILABILITY_READY'' (oc_StaffOnlyAvailability capabilities),
            target_check ''STAFF_ONLY_CREATE_READY'' (oc_StaffOnlyCreate capabilities)],
          tr_Blockers = blockers,
          tr_AvailabilityBlockers =
            (if availabilityReady then []
             else calendarCapabilityBlockers blockers
               (target_blocker ''MANLEAI_CALENDAR_AVAILABILITY_UNAVAILABLE'' ''calendar'' []
                  ''Activate a current internal calendar configuration with an available staff-only or pooled service.'')),
          tr_ExecutionBlockers =
            (if executionReady then []
             else calendarCapabilityBlockers blockers
               (target_blocker ''MANLEAI_CALENDAR_CREATE_UNAVAILABLE'' ''calendar'' []
                  ''Activate a current internal calendar configuration that can create an appointment atomically.''))\<rparr>)"

definition SchedulingTargetReadiness ::
  "(string \<Rightarrow> bool) \<Rightarrow> (string \<Rightarrow> string \<Rightarrow> error + Aggregate) \<Rightarrow> string \<Rightarrow> string
     \<Rightarrow> error + TargetReadiness" where
  "SchedulingTargetReadiness uuid_ok GetAggregate salonID ownerUserID =
     (case validateIdentity uuid_ok [salonID, ownerUserID] of
        Some err \<Rightarrow> Inl err
      | None \<Rightarrow>
          (case GetAggregate salonID ownerUserID of
             Inl err \<Rightarrow> Inl err
           | Inr aggregate \<Rightarrow>
               Inr (target_readiness (EvaluateReadiness (Some (aggregate\<lparr>agg_SchedulingAuthority :=
                 SchedulingAuthorityManleAICalendar\<rparr>))))))"

section \<open>Operations\<close>

text \<open>
  The store behind the service (\<open>repository.go\<close>) and the fingerprint of a request (SHA-256 over
  its JSON form) are parameters here.
\<close>

datatype mutation_request =
    ConfigRequest CalendarConfigInput
  | HoursRequest ReplaceBusinessHoursInput
  | StaffRequest StaffProfileInput
  | PolicyRequest ServicePolicyInput
  | ResourceRequest ResourcePoolInput
  | ExceptionRequest ExceptionInput
  | MetaRequest MutationMeta

type_synonym fingerprint_fun = "string \<Rightarrow> string \<Rightarrow> mutation_request \<Rightarrow> string"

record 'w CalendarStore =
  st_GetAggregate :: "string \<Rightarrow> string \<Rightarrow> 'w \<Rightarrow> error + Aggregate"
  st_PutConfig ::
    "string \<Rightarrow> string \<Rightarrow> CalendarConfigInput \<Rightarrow> string \<Rightarrow> ('w, Aggregate \<times> bool) call"
  st_PutHours ::
    "string \<Rightarrow> string \<Rightarrow> ReplaceBusinessHoursInput \<Rightarrow> string \<Rightarrow> ('w, Aggregate \<times> bool) call"
  st_PutStaffProfile ::
    "string \<Rightarrow> string \<Rightarrow> string \<Rightarrow> StaffProfileInput \<Rightarrow> string \<Rightarrow> ('w, Aggregate \<times> bool) call"
  st_PutServicePolicy ::
    "string \<Rightarrow> string \<Rightarrow> string \<Rightarrow> ServicePolicyInput \<Rightarrow> string \<Rightarrow> ('w, Aggregate \<times> bool) call"
  st_CreateResource ::
    "string \<Rightarrow> string \<Rightarrow> ResourcePoolInput \<Rightarrow> string \<Rightarrow> ('w, Aggregate \<times> bool) call"
  st_UpdateResource ::
    "string \<Rightarrow> string \<Rightarrow> string \<Rightarrow> ResourcePoolInput \<Rightarrow> string \<Rightarrow> ('w, Aggregate \<times> bool) call"
  st_ArchiveResource ::
    "string \<Rightarrow> string \<Rightarrow> string \<Rightarrow> MutationMeta \<Rightarrow> string \<Rightarrow> ('w, Aggregate \<times> bool) call"
  st_CreateException ::
    "string \<Rightarrow> string \<Rightarrow> ExceptionInput \<Rightarrow> string \<Rightarrow> ('w, Aggregate \<times> bool) call"
  st_CancelException ::
    "string \<Rightarrow> string \<Rightarrow> string \<Rightarrow> MutationMeta \<Rightarrow> string \<Rightarrow> ('w, Aggregate \<times> bool) call"
  st_Activate ::
    "string \<Rightarrow> string \<Rightarrow> MutationMeta \<Rightarrow> string \<Rightarrow> ('w, Aggregate \<times> bool) call"

record MutationResponse =
  mresp_ManleaiCalendar :: Aggregate
  mresp_Replayed :: bool

definition mutationResponse ::
  "(error + Aggregate \<times> bool) \<times> 'w \<Rightarrow> (error + MutationResponse) \<times> 'w" where
  "mutationResponse result =
     (case result of
        (Inl err, w) \<Rightarrow> (Inl err, w)
      | (Inr (aggregate, replayed), w) \<Rightarrow>
          (Inr \<lparr>mresp_ManleaiCalendar = aggregate, mresp_Replayed = replayed\<rparr>, w))"

text \<open>
  The shape every mutation of the service has: check the identifiers, normalise the request, and
  only then call the store.
\<close>

definition validated_mutation ::
  "(string \<Rightarrow> bool) \<Rightarrow> string list \<Rightarrow> (error + 'r) \<Rightarrow> ('r \<Rightarrow> ('w, Aggregate \<times> bool) call)
     \<Rightarrow> ('w, MutationResponse) call" where
  "validated_mutation uuid_ok ids normalized store w =
     (case validateIdentity uuid_ok ids of
        Some err \<Rightarrow> (Inl err, w)
      | None \<Rightarrow>
          (case normalized of
             Inl err \<Rightarrow> (Inl err, w)
           | Inr req \<Rightarrow> mutationResponse (store req w)))"

definition PutConfig ::
  "(string \<Rightarrow> bool) \<Rightarrow> fingerprint_fun \<Rightarrow> 'w CalendarStore \<Rightarrow> string \<Rightarrow> string
     \<Rightarrow> CalendarConfigInput \<Rightarrow> ('w, MutationResponse) call" where
  "PutConfig uuid_ok fp store salonID ownerUserID req =
     validated_mutation uuid_ok [salonID, ownerUserID] (normalizeAndValidateConfig req)
       (\<lambda>req. st_PutConfig store salonID ownerUserID req
          (fp EventConfigUpdated [] (ConfigRequest req)))"

definition PutHours ::
  "(string \<Rightarrow> bool) \<Rightarrow> fingerprint_fun \<Rightarrow> 'w CalendarStore \<Rightarrow> string \<Rightarrow> string
     \<Rightarrow> ReplaceBusinessHoursInput \<Rightarrow> ('w, MutationResponse) call" where
  "PutHours uuid_ok fp store salonID ownerUserID req =
     validated_mutation uuid_ok [salonID, ownerUserID] (normalizeAndValidateHours req)
       (\<lambda>req. st_PutHours store salonID ownerUserID req
          (fp EventSalonHoursReplaced [] (HoursRequest req)))"

definition PutStaffProfile ::
  "(string \<Rightarrow> bool) \<Rightarrow> fingerprint_fun \<Rightarrow> 'w CalendarStore \<Rightarrow> string \<Rightarrow> string
     \<Rightarrow> string \<Rightarrow> StaffProfileInput \<Rightarrow> ('w, MutationResponse) call" where
  "PutStaffProfile uuid_ok fp store salonID ownerUserID staffID req =
     validated_mutation uuid_ok [salonID, ownerUserID, staffID]
       (normalizeAndValidateStaffProfile uuid_ok req)
       (\<lambda>req. st_PutStaffProfile store salonID ownerUserID staffID req
          (fp EventStaffScheduleReplaced staffID (StaffRequest req)))"

definition PutServicePolicy ::
  "(string \<Rightarrow> bool) \<Rightarrow> fingerprint_fun \<Rightarrow> 'w CalendarStore \<Rightarrow> string \<Rightarrow> string
     \<Rightarrow> string \<Rightarrow> ServicePolicyInput \<Rightarrow> ('w, MutationResponse) call" where
  "PutServicePolicy uuid_ok fp store salonID ownerUserID serviceID req =
     validated_mutation uuid_ok [salonID, ownerUserID, serviceID]
       (normalizeAndValidateServicePolicy uuid_ok req)
       (\<lambda>req. st_PutServicePolicy store salonID ownerUserID serviceID req
          (fp EventServicePolicyUpdated serviceID (PolicyRequest req)))"

definition CreateResource ::
  "(string \<Rightarrow> bool) \<Rightarrow> fingerprint_fun \<Rightarrow> 'w CalendarStore \<Rightarrow> string \<Rightarrow> string
     \<Rightarrow> ResourcePoolInput \<Rightarrow> ('w, MutationResponse) call" where
  "CreateResource uuid_ok fp store salonID ownerUserID req =
     validated_mutation uuid_ok [salonID, ownerUserID] (normalizeAndValidateResource req)
       (\<lambda>req. st_CreateResource store salonID ownerUserID req
          (fp EventResourcePoolCreated [] (ResourceRequest req)))"

definition UpdateResource ::
  "(string \<Rightarrow> bool) \<Rightarrow> fingerprint_fun \<Rightarrow> 'w CalendarStore \<Rightarrow> string \<Rightarrow> string
     \<Rightarrow> string \<Rightarrow> ResourcePoolInput \<Rightarrow> ('w, MutationResponse) call" where
  "UpdateResource uuid_ok fp store salonID ownerUserID resourceID req =
     validated_mutation uuid_ok [salonID, ownerUserID, resourceID] (normalizeAndValidateResource req)
       (\<lambda>req. st_UpdateResource store salonID ownerUserID resourceID req
          (fp EventResourcePoolUpdated resourceID (ResourceRequest req)))"

definition ArchiveResource ::
  "(string \<Rightarrow> bool) \<Rightarrow> fingerprint_fun \<Rightarrow> 'w CalendarStore \<Rightarrow> string \<Rightarrow> string
     \<Rightarrow> string \<Rightarrow> MutationMeta \<Rightarrow> ('w, MutationResponse) call" where
  "ArchiveResource uuid_ok fp store salonID ownerUserID resourceID req =
     validated_mutation uuid_ok [salonID, ownerUserID, resourceID] (normalizeAndValidateMeta req)
       (\<lambda>req. st_ArchiveResource store salonID ownerUserID resourceID req
          (fp EventResourcePoolArchived resourceID (MetaRequest req)))"

definition CreateException ::
  "(string \<Rightarrow> bool) \<Rightarrow> fingerprint_fun \<Rightarrow> 'w CalendarStore \<Rightarrow> string \<Rightarrow> string
     \<Rightarrow> ExceptionInput \<Rightarrow> ('w, MutationResponse) call" where
  "CreateException uuid_ok fp store salonID ownerUserID req =
     validated_mutation uuid_ok [salonID, ownerUserID] (normalizeAndValidateException uuid_ok req)
       (\<lambda>req. st_CreateException store salonID ownerUserID req
          (fp EventExceptionCreated [] (ExceptionRequest req)))"

definition CancelException ::
  "(string \<Rightarrow> bool) \<Rightarrow> fingerprint_fun \<Rightarrow> 'w CalendarStore \<Rightarrow> string \<Rightarrow> string
     \<Rightarrow> string \<Rightarrow> MutationMeta \<Rightarrow> ('w, MutationResponse) call" where
  "CancelException uuid_ok fp store salonID ownerUserID exceptionID req =
     validated_mutation uuid_ok [salonID, ownerUserID, exceptionID] (normalizeAndValidateMeta req)
       (\<lambda>req. st_CancelException store salonID ownerUserID exceptionID req
          (fp EventExceptionCancelled exceptionID (MetaRequest req)))"

definition Activate ::
  "(string \<Rightarrow> bool) \<Rightarrow> fingerprint_fun \<Rightarrow> 'w CalendarStore \<Rightarrow> string \<Rightarrow> string
     \<Rightarrow> MutationMeta \<Rightarrow> ('w, MutationResponse) call" where
  "Activate uuid_ok fp store salonID ownerUserID req =
     validated_mutation uuid_ok [salonID, ownerUserID] (normalizeAndValidateMeta req)
       (\<lambda>req. st_Activate store salonID ownerUserID req
          (fp EventConfigActivated [] (MetaRequest req)))"

definition GetStaffProfile ::
  "(string \<Rightarrow> bool) \<Rightarrow> 'w CalendarStore \<Rightarrow> string \<Rightarrow> string \<Rightarrow> string \<Rightarrow> 'w
     \<Rightarrow> error + StaffProfile \<times> int \<times> Readiness" where
  "GetStaffProfile uuid_ok store salonID ownerUserID staffID w =
     (case validateIdentity uuid_ok [salonID, ownerUserID, staffID] of
        Some err \<Rightarrow> Inl err
      | None \<Rightarrow>
          (case st_GetAggregate store salonID ownerUserID w of
             Inl err \<Rightarrow> Inl err
           | Inr aggregate \<Rightarrow>
               (case find (\<lambda>profile. sf_ID (sp_Staff profile) = staffID)
                       (agg_StaffProfiles aggregate) of
                  None \<Rightarrow> Inl ErrCalendarNotFound
                | Some profile \<Rightarrow>
                    Inr (profile, agg_ConfigVersion aggregate, agg_Readiness aggregate))))"

definition GetServicePolicy ::
  "(string \<Rightarrow> bool) \<Rightarrow> 'w CalendarStore \<Rightarrow> string \<Rightarrow> string \<Rightarrow> string \<Rightarrow> 'w
     \<Rightarrow> error + ServicePolicy \<times> int \<times> Readiness" where
  "GetServicePolicy uuid_ok store salonID ownerUserID serviceID w =
     (case validateIdentity uuid_ok [salonID, ownerUserID, serviceID] of
        Some err \<Rightarrow> Inl err
      | None \<Rightarrow>
          (case st_GetAggregate store salonID ownerUserID w of
             Inl err \<Rightarrow> Inl err
           | Inr aggregate \<Rightarrow>
               (case find (\<lambda>policy. sv_ID (vp_Service policy) = serviceID)
                       (agg_ServicePolicies aggregate) of
                  None \<Rightarrow> Inl ErrCalendarNotFound
                | Some policy \<Rightarrow>
                    Inr (policy, agg_ConfigVersion aggregate, agg_Readiness aggregate))))"

definition ListResources ::
  "(string \<Rightarrow> bool) \<Rightarrow> 'w CalendarStore \<Rightarrow> string \<Rightarrow> string \<Rightarrow> 'w
     \<Rightarrow> error + ResourcePool list \<times> int \<times> Readiness" where
  "ListResources uuid_ok store salonID ownerUserID w =
     (case validateIdentity uuid_ok [salonID, ownerUserID] of
        Some err \<Rightarrow> Inl err
      | None \<Rightarrow>
          (case st_GetAggregate store salonID ownerUserID w of
             Inl err \<Rightarrow> Inl err
           | Inr aggregate \<Rightarrow>
               Inr (agg_Resources aggregate, agg_ConfigVersion aggregate, agg_Readiness aggregate)))"

section \<open>Weekly periods\<close>

definition period_ok :: "('a \<Rightarrow> int \<times> int \<times> int) \<Rightarrow> 'a \<Rightarrow> bool" where
  "period_ok span p = (case span p of (day, start, end') \<Rightarrow>
     0 \<le> day \<and> day \<le> 6 \<and> 0 \<le> start \<and> start < end' \<and> end' \<le> 1440)"

definition periods_disjoint :: "('a \<Rightarrow> int \<times> int \<times> int) \<Rightarrow> 'a \<Rightarrow> 'a \<Rightarrow> bool" where
  "periods_disjoint span p q =
     (case (span p, span q) of ((d1, s1, e1), (d2, s2, e2)) \<Rightarrow>
        d1 = d2 \<longrightarrow> e1 \<le> s2 \<or> e2 \<le> s1)"

definition period_follows :: "('a \<Rightarrow> int \<times> int \<times> int) \<Rightarrow> 'a \<Rightarrow> 'a \<Rightarrow> bool" where
  "period_follows span p q =
     (case (span p, span q) of ((d1, s1, e1), (d2, s2, e2)) \<Rightarrow> d1 = d2 \<longrightarrow> e1 \<le> s2)"

lemma period_ok_day: "period_ok span p \<Longrightarrow> 0 \<le> fst (span p)"
  by (auto simp: period_ok_def split: prod.splits)

lemma validate_periods_ok:
  "validate_periods_from span d e ps \<Longrightarrow> list_all (period_ok span) ps"
  by (induction span d e ps rule: validate_periods_from.induct)
    (auto simp: period_ok_def split: prod.splits if_splits)

lemma validate_periods_sorted:
  assumes "sorted (map span ps)" and "list_all (period_ok span) ps"
    and "\<forall>p \<in> set ps. d \<le> fst (span p)"
  shows "validate_periods_from span d e ps \<longleftrightarrow>
    sorted_wrt (period_follows span) ps
    \<and> (\<forall>p \<in> set ps. fst (span p) = d \<longrightarrow> e \<le> fst (snd (span p)))"
  using assms
proof (induction span d e ps rule: validate_periods_from.induct)
  case (2 span d e p ps)
  obtain day start end' where p: "span p = (day, start, end')" by (cases "span p") auto
  have ok: "\<not> (day < 0 \<or> day > 6 \<or> start < 0 \<or> start \<ge> end' \<or> end' > 1440)"
    using 2(3) by (auto simp: period_ok_def p)
  have later: "\<forall>q \<in> set ps. day \<le> fst (span q)"
    using 2(2) by (auto simp: p less_eq_prod_def)
  have step: "validate_periods_from span d e (p # ps) \<longleftrightarrow>
      (day = d \<longrightarrow> e \<le> start) \<and> validate_periods_from span day end' ps"
    using ok by (auto simp: p)
  show ?case
  proof (cases "day = d \<and> start < e")
    case True
    then show ?thesis using step by (auto simp: p)
  next
    case False
    have IH: "validate_periods_from span day end' ps \<longleftrightarrow>
        sorted_wrt (period_follows span) ps
        \<and> (\<forall>q \<in> set ps. fst (span q) = day \<longrightarrow> end' \<le> fst (snd (span q)))"
      using 2(1) [OF p [symmetric] refl ok] 2(2,3) False later by auto
    have follows: "period_follows span p q \<longleftrightarrow>
        (fst (span q) = day \<longrightarrow> end' \<le> fst (snd (span q)))" for q
      by (auto simp: period_follows_def p split: prod.splits)
    have "e \<le> fst (snd (span q))"
      if "q \<in> set ps" "fst (span q) = d" "fst (span q) = day \<longrightarrow> end' \<le> fst (snd (span q))" for q
      using that 2(4) later False ok by (fastforce simp: p)
    then show ?thesis unfolding step IH using False by (auto simp: follows p)
  qed
qed simp

text \<open>
  A kind of weekly period: a record that its day, start and end determine.
\<close>

locale weekly_schedule =
  fixes span :: "'a \<Rightarrow> int \<times> int \<times> int"
  assumes span_inject: "span p = span q \<Longrightarrow> p = q"
begin

lemma sorted_follows_iff:
  assumes sorted: "sorted (map span ps)" and ok: "list_all (period_ok span) ps"
  shows "sorted_wrt (period_follows span) ps \<longleftrightarrow>
    distinct ps \<and> (\<forall>p \<in> set ps. \<forall>q \<in> set ps. p \<noteq> q \<longrightarrow> periods_disjoint span p q)"
proof
  assume follows: "sorted_wrt (period_follows span) ps"
  have irrefl: "\<not> period_follows span p p" if "p \<in> set ps" for p
    using that ok by (auto simp: period_follows_def period_ok_def list_all_iff)
  have "ps ! i \<noteq> ps ! j" if "i < j" "j < length ps" for i j
    using sorted_wrt_nth_less [OF follows that] irrefl [of "ps ! j"] that by auto
  then have "distinct ps" by (metis distinct_conv_nth linorder_neqE_nat)
  moreover have "periods_disjoint span p q" if pq: "p \<in> set ps" "q \<in> set ps" "p \<noteq> q" for p q
  proof -
    obtain i where i: "i < length ps" "p = ps ! i" using pq(1) by (auto simp: in_set_conv_nth)
    obtain j where j: "j < length ps" "q = ps ! j" using pq(2) by (auto simp: in_set_conv_nth)
    have "i \<noteq> j" using pq(3) i j by auto
    with i j show ?thesis
      using sorted_wrt_nth_less [OF follows, of i j] sorted_wrt_nth_less [OF follows, of j i]
      by (cases "i < j") (auto simp: periods_disjoint_def period_follows_def split: prod.splits)
  qed
  ultimately show "distinct ps
      \<and> (\<forall>p \<in> set ps. \<forall>q \<in> set ps. p \<noteq> q \<longrightarrow> periods_disjoint span p q)" by blast
next
  assume D: "distinct ps \<and> (\<forall>p \<in> set ps. \<forall>q \<in> set ps. p \<noteq> q \<longrightarrow> periods_disjoint span p q)"
  show "sorted_wrt (period_follows span) ps"
    unfolding sorted_wrt_iff_nth_less
  proof (intro allI impI)
    fix i j assume ij: "i < j" "j < length ps"
    have "periods_disjoint span (ps ! i) (ps ! j)"
      using D ij by (metis distinct_conv_nth nat_neq_iff nth_mem order.strict_trans)
    moreover have "span (ps ! i) \<le> span (ps ! j)"
      using sorted ij by (auto simp: sorted_iff_nth_mono)
    moreover have "period_ok span (ps ! i)" "period_ok span (ps ! j)"
      using ok ij by (auto simp: list_all_iff)
    ultimately show "period_follows span (ps ! i) (ps ! j)"
      by (auto simp: period_follows_def periods_disjoint_def period_ok_def less_eq_prod_def
          split: prod.splits)
  qed
qed

lemma validated_iff:
  "validatePeriods (sort_periods span ps) span = None \<longleftrightarrow>
     (\<forall>p \<in> set ps. period_ok span p) \<and> distinct ps
     \<and> (\<forall>p \<in> set ps. \<forall>q \<in> set ps. p \<noteq> q \<longrightarrow> periods_disjoint span p q)"
proof (cases "list_all (period_ok span) ps")
  case True
  let ?xs = "sort_key span ps"
  have xs: "sorted (map span ?xs)" "list_all (period_ok span) ?xs"
    using True by (simp_all add: list_all_iff)
  have days: "0 \<le> fst (span p)" if "p \<in> set ps" for p
    using True that period_ok_day [of span p] by (auto simp: list_all_iff)
  have "validate_periods_from span (-1) (-1) ?xs \<longleftrightarrow> sorted_wrt (period_follows span) ?xs"
    using validate_periods_sorted [OF xs, of "-1" "-1"] days by fastforce
  then show ?thesis
    using True sorted_follows_iff [OF xs]
    by (simp add: validatePeriods_def sort_periods_def list_all_iff)
next
  case False
  then show ?thesis
    using validate_periods_ok [of span "-1" "-1" "sort_key span ps"]
    by (auto simp: validatePeriods_def sort_periods_def list_all_iff)
qed

end

interpretation hours: weekly_schedule hours_extract
  by unfold_locales (simp add: hours_extract_def)

interpretation weekly: weekly_schedule weekly_extract
  by unfold_locales (simp add: weekly_extract_def)

text \<open>
  Business hours are accepted exactly when they are well formed: the action key is present and
  short enough, the expected version is not negative, every period lies in one day of the week
  with a positive length, and two periods of a day do not overlap, in whatever order they come.
  The periods handed on are the given ones, ordered.
\<close>

theorem hours_accepted_iff:
  "(\<exists>req'. normalizeAndValidateHours req = Inr req'
      \<and> mset (rbh_Periods req') = mset (rbh_Periods req)
      \<and> sorted (map hours_extract (rbh_Periods req'))) \<longleftrightarrow>
   TrimSpace (mm_ActionKey (rbh_MutationMeta req)) \<noteq> []
   \<and> length (TrimSpace (mm_ActionKey (rbh_MutationMeta req))) \<le> 256
   \<and> 0 \<le> mm_ExpectedConfigVersion (rbh_MutationMeta req)
   \<and> distinct (rbh_Periods req)
   \<and> (\<forall>p \<in> set (rbh_Periods req). period_ok hours_extract p)
   \<and> (\<forall>p \<in> set (rbh_Periods req). \<forall>q \<in> set (rbh_Periods req).
        p \<noteq> q \<longrightarrow> periods_disjoint hours_extract p q)"
proof (cases "is_ok (normalizeAndValidateMeta (rbh_MutationMeta req))")
  case True
  then obtain meta where meta: "normalizeAndValidateMeta (rbh_MutationMeta req) = Inr meta"
    by (auto simp: is_ok_iff)
  have "(\<exists>req'. normalizeAndValidateHours req = Inr req'
        \<and> mset (rbh_Periods req') = mset (rbh_Periods req)
        \<and> sorted (map hours_extract (rbh_Periods req'))) \<longleftrightarrow>
      validatePeriods (sort_periods hours_extract (rbh_Periods req)) hours_extract = None"
    by (auto simp: normalizeAndValidateHours_def meta Let_def sort_periods_def split: option.splits)
  then show ?thesis
    using meta unfolding hours.validated_iff
    by (auto simp: normalizeAndValidateMeta_def Let_def split: if_splits)
next
  case False
  then have "\<not> is_ok (normalizeAndValidateHours req)"
    by (auto simp: normalizeAndValidateHours_def is_ok_def split: sum.splits)
  with False show ?thesis
    by (auto simp: is_ok_iff normalizeAndValidateMeta_def Let_def split: if_splits)
qed

section \<open>The published constraints\<close>

definition in_range :: "IntegerConstraint \<Rightarrow> int \<Rightarrow> bool" where
  "in_range c v \<longleftrightarrow> ic_Minimum c \<le> v \<and> v \<le> ic_Maximum c"

definition meets_constraints :: "Constraints \<Rightarrow> CalendarConfigInput \<Rightarrow> bool" where
  "meets_constraints c req \<longleftrightarrow>
     in_range (ssc_IntegerConstraint (con_SlotStepMinutes c)) (cci_SlotStepMinutes req)
     \<and> cci_SlotStepMinutes req dvd ssc_MustDivideMinutes (con_SlotStepMinutes c)
     \<and> in_range (con_MinimumBookingNoticeMinutes c) (cci_MinimumBookingNoticeMinutes req)
     \<and> in_range (con_BookingHorizonDays c) (cci_BookingHorizonDays req)
     \<and> in_range (con_MaxPartySize c) (cci_MaxPartySize req)
     \<and> in_range (con_BufferMinutes c) (cci_DefaultBufferBeforeMinutes req)
     \<and> in_range (con_BufferMinutes c) (cci_DefaultBufferAfterMinutes req)
     \<and> pred_option (in_range (con_CutoffMinutes c)) (cci_RescheduleCutoffMinutes req)
     \<and> pred_option (in_range (con_CutoffMinutes c)) (cci_CancellationCutoffMinutes req)"

lemma validOptionalRange_iff:
  "validOptionalRange v a b \<longleftrightarrow> pred_option (in_range \<lparr>ic_Minimum = a, ic_Maximum = b\<rparr>) v"
  by (cases v) (auto simp: validOptionalRange_def in_range_def)

text \<open>
  The configuration check enforces exactly the constraints the API publishes: a configuration
  with a valid action key and version is accepted if and only if it meets
  \<open>DefaultConstraints\<close>, and it is then handed on with only its action key trimmed.
\<close>

lemma config_check_is_published_constraints:
  "normalizeAndValidateConfig req =
     (case normalizeAndValidateMeta (cci_MutationMeta req) of
        Inr meta \<Rightarrow> if meets_constraints DefaultConstraints req
          then Inr (req\<lparr>cci_MutationMeta := meta\<rparr>) else Inl ErrCalendarValidation
      | Inl _ \<Rightarrow> Inl ErrCalendarValidation)"
proof -
  have "config_limits_ok req \<longleftrightarrow> meets_constraints DefaultConstraints req"
    unfolding config_limits_ok_def meets_constraints_def validOptionalRange_iff
    by (auto simp: DefaultConstraints_def in_range_def mod_eq_0_iff_dvd)
  then show ?thesis by (simp add: normalizeAndValidateConfig_def split: sum.splits)
qed

section \<open>Identifier sets and service policies\<close>

lemma uuid_set_loop_Inr:
  "uuid_set_loop uuid_ok result values = Inr ids \<longleftrightarrow>
     list_all (\<lambda>v. uuid_ok (TrimSpace v)) values
     \<and> (distinct result \<longrightarrow> distinct (result @ map TrimSpace values))
     \<and> set result \<inter> TrimSpace ` set values = {} \<and> distinct (map TrimSpace values)
     \<and> ids = result @ map TrimSpace values"
  by (induction uuid_ok result "values" rule: uuid_set_loop.induct) (auto simp: Let_def)

lemma normalizeUUIDSet_sorted:
  "normalizeUUIDSet uuid_ok values = Inr ids \<longleftrightarrow>
     list_all (\<lambda>v. uuid_ok (TrimSpace v)) values \<and> distinct (map TrimSpace values)
     \<and> ids = sort (map TrimSpace values)"
proof -
  have "map_sum id sort x = Inr ids \<longleftrightarrow> (\<exists>y. x = Inr y \<and> ids = sort y)" for x :: "error + string list"
    by (cases x) auto
  then show ?thesis by (auto simp: normalizeUUIDSet_def uuid_set_loop_Inr)
qed

text \<open>
  A set of identifiers is accepted if and only if all of them are UUIDs and no two are equal
  once trimmed; what is handed on is the sorted list of exactly these identifiers.
\<close>

lemma normalizeUUIDSet_iff:
  "normalizeUUIDSet uuid_ok values =
     (if list_all (\<lambda>v. uuid_ok (TrimSpace v)) values \<and> distinct (map TrimSpace values)
      then Inr (sort (map TrimSpace values)) else Inl ErrCalendarValidation)"
proof (cases "normalizeUUIDSet uuid_ok values")
  case (Inl e)
  have "uuid_set_loop uuid_ok result values = Inl e' \<Longrightarrow> e' = ErrCalendarValidation" for result e'
    by (induction uuid_ok result "values" rule: uuid_set_loop.induct) (auto simp: Let_def split: if_splits)
  with Inl have "e = ErrCalendarValidation"
    by (cases "uuid_set_loop uuid_ok [] values") (auto simp: normalizeUUIDSet_def)
  with Inl normalizeUUIDSet_sorted [of uuid_ok "values"] show ?thesis by (metis Inl_Inr_False)
qed (use normalizeUUIDSet_sorted [of uuid_ok "values"] in auto)

lemma requirements_loop_Inr:
  assumes "requirements_loop uuid_ok result rs = Inr out"
    and "\<forall>r \<in> set result. uuid_ok (rri_ResourcePoolID r) \<and> 1 \<le> rri_UnitsRequired r \<and> rri_UnitsRequired r \<le> 1000"
    and "distinct (map rri_ResourcePoolID result)"
  shows "(\<forall>r \<in> set out. uuid_ok (rri_ResourcePoolID r) \<and> 1 \<le> rri_UnitsRequired r \<and> rri_UnitsRequired r \<le> 1000)
    \<and> distinct (map rri_ResourcePoolID out) \<and> length out = length result + length rs"
  using assms
proof (induction uuid_ok result rs rule: requirements_loop.induct)
  case (2 uuid_ok result r rs)
  then show ?case by (auto simp: Let_def split: if_splits)
qed auto

text \<open>
  A service policy that passes validation is usable by the planner: an enabled policy has a
  known capacity mode, a staff-only policy requires no pool, every required pool is named once
  with between 1 and 1000 units, buffers stay within a day, staff ids are distinct and sorted.
\<close>

lemma validated_policy_usable:
  assumes "normalizeAndValidateServicePolicy uuid_ok req = Inr req'"
  shows "(vpi_Enabled req' \<longrightarrow> known_capacity_mode (vpi_CapacityMode req'))
    \<and> (vpi_CapacityMode req' = Some CapacityModeStaffOnly \<longrightarrow> vpi_ResourceRequirements req' = [])
    \<and> (\<forall>r \<in> set (vpi_ResourceRequirements req'). uuid_ok (rri_ResourcePoolID r)
         \<and> 1 \<le> rri_UnitsRequired r \<and> rri_UnitsRequired r \<le> 1000)
    \<and> distinct (map rri_ResourcePoolID (vpi_ResourceRequirements req'))
    \<and> sorted (map rri_ResourcePoolID (vpi_ResourceRequirements req'))
    \<and> pred_option (\<lambda>b. 0 \<le> b \<and> b \<le> 1440) (vpi_BufferBeforeMinutesOverride req')
    \<and> pred_option (\<lambda>b. 0 \<le> b \<and> b \<le> 1440) (vpi_BufferAfterMinutesOverride req')
    \<and> distinct (vpi_EligibleStaffIDs req') \<and> sorted (vpi_EligibleStaffIDs req')
    \<and> list_all uuid_ok (vpi_EligibleStaffIDs req')"
proof -
  let ?mode = "map_option TrimSpace (vpi_CapacityMode req)"
  obtain meta where meta: "normalizeAndValidateMeta (vpi_MutationMeta req) = Inr meta"
    using assms by (cases "normalizeAndValidateMeta (vpi_MutationMeta req)")
      (auto simp: normalizeAndValidateServicePolicy_def)
  note A = assms [unfolded normalizeAndValidateServicePolicy_def meta sum.case Let_def]
  obtain ids where ids: "normalizeUUIDSet uuid_ok (vpi_EligibleStaffIDs req) = Inr ids"
    using A by (cases "normalizeUUIDSet uuid_ok (vpi_EligibleStaffIDs req)") (auto split: if_splits)
  obtain rs where rs: "requirements_loop uuid_ok [] (vpi_ResourceRequirements req) = Inr rs"
    using A by (cases "requirements_loop uuid_ok [] (vpi_ResourceRequirements req)")
      (auto simp: ids split: if_splits)
  have mode: "?mode = None \<or> known_capacity_mode ?mode" "vpi_Enabled req \<longrightarrow> ?mode \<noteq> None"
    "?mode = Some CapacityModeStaffOnly \<longrightarrow> rs = []"
    and buffers: "validOptionalRange (vpi_BufferBeforeMinutesOverride req) 0 1440"
      "validOptionalRange (vpi_BufferAfterMinutesOverride req) 0 1440"
    and req': "req' = req\<lparr>vpi_MutationMeta := meta, vpi_CapacityMode := ?mode,
      vpi_EligibleStaffIDs := ids, vpi_ResourceRequirements := sort_key rri_ResourcePoolID rs\<rparr>"
    using A unfolding ids rs sum.case known_capacity_mode_def by (auto split: if_split_asm)
  have r: "(\<forall>r \<in> set rs. uuid_ok (rri_ResourcePoolID r) \<and> 1 \<le> rri_UnitsRequired r
      \<and> rri_UnitsRequired r \<le> 1000) \<and> distinct (map rri_ResourcePoolID rs)"
    using requirements_loop_Inr [OF rs] by simp
  have i: "distinct ids" "sorted ids" "list_all uuid_ok ids"
    using ids unfolding normalizeUUIDSet_sorted by (auto simp: list_all_iff)
  have d: "distinct (map rri_ResourcePoolID (sort_key rri_ResourcePoolID rs))"
    using r by (metis distinct_map distinct_sort set_sort)
  have "vpi_Enabled req \<longrightarrow> known_capacity_mode ?mode" using mode(1,2) by argo
  then show ?thesis
    using mode(3) buffers r i d by (simp add: req' validOptionalRange_iff in_range_def [abs_def])
qed

section \<open>When the calendar is ready\<close>

definition staff_assignable :: "Aggregate \<Rightarrow> StaffRef \<Rightarrow> bool" where
  "staff_assignable aggregate staff \<longleftrightarrow> eligibleStaff staff \<and>
     (\<exists>profile. index_by (\<lambda>p. sf_ID (sp_Staff p)) (agg_StaffProfiles aggregate) (sf_ID staff) = Some profile
        \<and> sp_WeeklyPeriods profile \<noteq> [])"

definition policy_ready :: "Aggregate \<Rightarrow> ServicePolicy \<Rightarrow> bool" where
  "policy_ready aggregate policy \<longleftrightarrow>
     eligibleService (vp_Service policy) \<and> known_capacity_mode (vp_CapacityMode policy)
     \<and> vp_EligibleStaff policy \<noteq> []
     \<and> (\<forall>staff \<in> set (vp_EligibleStaff policy). staff_assignable aggregate staff)
     \<and> (vp_ResourceRequirements policy = [] \<longleftrightarrow> vp_CapacityMode policy \<noteq> Some CapacityModePooled)
     \<and> (\<forall>r \<in> set (vp_ResourceRequirements policy).
          rq_PoolArchivedAt r = None \<and> rq_UnitsRequired r \<le> rq_PoolCapacity r)"

lemma blocker_dimension [simp]: "rb_Dimension (blocker c d s e m) = d"
  by (simp add: blocker_def)

definition configuration_only :: "ReadinessBlocker list \<Rightarrow> bool" where
  "configuration_only bs \<longleftrightarrow> (\<forall>b \<in> set bs. rb_Dimension b = ReadinessDimensionConfiguration)"

lemma configuration_only_simps [simp]:
  "configuration_only []"
  "configuration_only (b # bs) \<longleftrightarrow>
     rb_Dimension b = ReadinessDimensionConfiguration \<and> configuration_only bs"
  "configuration_only (bs @ cs) \<longleftrightarrow> configuration_only bs \<and> configuration_only cs"
  "configuration_only (concat (map f xs)) \<longleftrightarrow> (\<forall>x \<in> set xs. configuration_only (f x))"
  by (auto simp: configuration_only_def)

lemma staff_blockers_dimension [simp]: "configuration_only (staff_blockers staffByID staff)"
  by (simp add: staff_blockers_def split: option.split)

lemma requirement_blockers_dimension [simp]: "configuration_only (requirement_blockers r)"
  by (simp add: requirement_blockers_def)

lemma policy_blockers_dimension [simp]: "configuration_only (policy_blockers staffByID policy)"
  by (simp add: policy_blockers_def enabled_policy_blockers_def)

lemma configuration_blockers_dimension: "configuration_only (configuration_blockers aggregate)"
  by (simp add: configuration_blockers_def Let_def)

lemma configuration_ready_iff_none:
  "rdy_ConfigurationReady (evaluate_aggregate aggregate) \<longleftrightarrow> configuration_blockers aggregate = []"
proof -
  have "list_all (\<lambda>i. rb_Dimension i \<noteq> ReadinessDimensionConfiguration) xs \<longleftrightarrow> xs = []"
    if "configuration_only xs" for xs
    using that by (cases xs) auto
  from this [OF configuration_blockers_dimension] show ?thesis
    by (simp add: evaluate_aggregate_def Let_def)
qed

lemma staff_blockers_none:
  "staff_blockers (index_by (\<lambda>p. sf_ID (sp_Staff p)) (agg_StaffProfiles aggregate)) staff = []
     \<longleftrightarrow> staff_assignable aggregate staff"
  by (auto simp: staff_blockers_def staff_assignable_def split: option.splits)

lemma requirement_blockers_none:
  "requirement_blockers r = [] \<longleftrightarrow> rq_PoolArchivedAt r = None \<and> rq_UnitsRequired r \<le> rq_PoolCapacity r"
  by (auto simp: requirement_blockers_def)

lemma enabled_policy_blockers_none:
  "enabled_policy_blockers (index_by (\<lambda>p. sf_ID (sp_Staff p)) (agg_StaffProfiles aggregate)) policy = []
     \<longleftrightarrow> policy_ready aggregate policy"
  unfolding enabled_policy_blockers_def policy_ready_def append_is_Nil_conv concat_eq_Nil_conv set_map
    ball_simps staff_blockers_none requirement_blockers_none
  by (auto simp: known_capacity_mode_def)

text \<open>
  The calendar is configuration-ready if and only if it has a configuration and opening hours,
  some service is eligible and some policy is enabled, every eligible service has been decided on,
  and every enabled policy is complete: an eligible service, a known capacity mode, at least one
  staff member, all of them assignable and with a schedule, pools required exactly in pooled mode,
  none archived and none smaller than what the service needs.
\<close>

lemma configuration_ready_iff:
  "rdy_ConfigurationReady (EvaluateReadiness (Some aggregate)) \<longleftrightarrow>
     agg_Config aggregate \<noteq> None \<and> agg_Hours aggregate \<noteq> []
     \<and> (\<exists>policy \<in> set (agg_ServicePolicies aggregate). eligibleService (vp_Service policy))
     \<and> (\<exists>policy \<in> set (agg_ServicePolicies aggregate). policy_enabled policy)
     \<and> (\<forall>policy \<in> set (agg_ServicePolicies aggregate).
          (eligibleService (vp_Service policy) \<longrightarrow> vp_Configured policy)
          \<and> (policy_enabled policy \<longrightarrow> policy_ready aggregate policy))"
proof -
  have policy: "policy_blockers (index_by (\<lambda>p. sf_ID (sp_Staff p)) (agg_StaffProfiles aggregate)) policy = []
      \<longleftrightarrow> (eligibleService (vp_Service policy) \<longrightarrow> vp_Configured policy)
          \<and> (policy_enabled policy \<longrightarrow> policy_ready aggregate policy)" for policy
    by (auto simp: policy_blockers_def enabled_policy_blockers_none policy_enabled_def)
  show ?thesis
    unfolding EvaluateReadiness_def option.case configuration_ready_iff_none configuration_blockers_def
      Let_def append_is_Nil_conv concat_eq_Nil_conv set_map ball_simps policy
    by (auto simp: filter_empty_conv split: if_splits)
qed

section \<open>Readiness and the planner\<close>

lemma engine_ready_facts:
  assumes "oc_Reschedule (rdy_Capabilities (evaluate_aggregate aggregate))
    \<or> oc_StaffOnlyCreate (rdy_Capabilities (evaluate_aggregate aggregate))
    \<or> oc_PooledCapacity (rdy_Capabilities (evaluate_aggregate aggregate))
    \<or> oc_Cancel (rdy_Capabilities (evaluate_aggregate aggregate))
    \<or> oc_PartyCreate (rdy_Capabilities (evaluate_aggregate aggregate))"
  shows "rdy_ConfigurationReady (evaluate_aggregate aggregate)"
    and "activation_current (agg_Config aggregate)"
    and "agg_SchedulingAuthority aggregate = SchedulingAuthorityManleAICalendar"
  using assms unfolding evaluate_aggregate_def by (auto simp: Let_def split: if_splits)

text \<open>
  What readiness promises, the planner keeps: when the engine reports a capability on a
  configuration that passed validation, the planner does not refuse a request as not ready, every
  enabled service of the catalogue is accepted for a segment of quantity one, and every staff
  member assigned to it is a candidate.
\<close>

theorem capability_means_planner_ready:
  assumes capable: "oc_Reschedule (rdy_Capabilities (EvaluateReadiness (Some aggregate)))"
    and snapshot: "snap_Aggregate snapshot = Some aggregate"
    and config: "agg_Config aggregate = Some config"
      "1 \<le> cc_SlotStepMinutes config" "1 \<le> cc_BookingHorizonDays config"
    and ids: "distinct (map (\<lambda>p. sv_ID (vp_Service p)) (agg_ServicePolicies aggregate))"
    and policy: "policy \<in> set (agg_ServicePolicies aggregate)" "policy_enabled policy"
  shows "planAggregateAvailability LoadLocation snapshot req now \<noteq> Inl ErrSchedulingAuthorityNotReady
    \<and> segment_request_valid (index_by (\<lambda>p. sv_ID (vp_Service p)) (agg_ServicePolicies aggregate))
        \<lparr>nas_ServiceID = sv_ID (vp_Service policy), nas_StaffID = [],
         nas_StaffSelectionMode = StaffSelectionAnyone, nas_GuestReference = guest, nas_Quantity = 1\<rparr>
    \<and> set (eligibleStaffIDs policy (index_by (\<lambda>p. sf_ID (sp_Staff p)) (agg_StaffProfiles aggregate))
        \<lparr>nas_ServiceID = sv_ID (vp_Service policy), nas_StaffID = [],
         nas_StaffSelectionMode = StaffSelectionAnyone, nas_GuestReference = guest, nas_Quantity = 1\<rparr>)
      = sf_ID ` set (vp_EligibleStaff policy)"
proof (intro conjI)
  have ev: "EvaluateReadiness (Some aggregate) = evaluate_aggregate aggregate"
    by (simp add: EvaluateReadiness_def)
  note facts = engine_ready_facts [OF disjI1 [OF capable [unfolded ev]]]
  have ready: "planner_ready snapshot aggregate config"
    using facts config by (simp add: planner_ready_def activation_current_def)
  then show "planAggregateAvailability LoadLocation snapshot req now
      \<noteq> Inl ErrSchedulingAuthorityNotReady"
    using snapshot config(1)
    by (auto simp: planAggregateAvailability_def Let_def split: option.splits)
  have "policy_blockers (index_by (\<lambda>p. sf_ID (sp_Staff p)) (agg_StaffProfiles aggregate)) policy = []"
    using facts(1) policy(1) unfolding configuration_ready_iff_none configuration_blockers_def Let_def
    by simp
  then have ok: "policy_ready aggregate policy"
    using policy(2) by (auto simp: policy_blockers_def policy_enabled_def enabled_policy_blockers_none
        split: if_splits)
  have lookup: "index_by (\<lambda>p. sv_ID (vp_Service p)) (agg_ServicePolicies aggregate)
      (sv_ID (vp_Service policy)) = Some policy"
  proof -
    obtain policy' where p': "index_by (\<lambda>p. sv_ID (vp_Service p)) (agg_ServicePolicies aggregate)
        (sv_ID (vp_Service policy)) = Some policy'"
      using policy(1) index_by_None_iff by (metis not_Some_eq)
    from index_by_SomeD [OF p'] policy(1) ids have "policy' = policy"
      by (auto simp: distinct_map inj_on_def)
    with p' show ?thesis by simp
  qed
  show "segment_request_valid (index_by (\<lambda>p. sv_ID (vp_Service p)) (agg_ServicePolicies aggregate))
      \<lparr>nas_ServiceID = sv_ID (vp_Service policy), nas_StaffID = [],
       nas_StaffSelectionMode = StaffSelectionAnyone, nas_GuestReference = guest, nas_Quantity = 1\<rparr>"
    using ok policy(2) unfolding segment_request_valid_def
    by (auto simp: lookup policy_ready_def policy_enabled_def known_capacity_mode_def go_consts)
  show "set (eligibleStaffIDs policy (index_by (\<lambda>p. sf_ID (sp_Staff p)) (agg_StaffProfiles aggregate))
      \<lparr>nas_ServiceID = sv_ID (vp_Service policy), nas_StaffID = [],
       nas_StaffSelectionMode = StaffSelectionAnyone, nas_GuestReference = guest, nas_Quantity = 1\<rparr>)
    = sf_ID ` set (vp_EligibleStaff policy)"
    using ok by (fastforce simp: eligibleStaffIDs_def policy_ready_def staff_assignable_def go_consts
        split: option.splits)
qed

section \<open>The readiness summary of the authority switch\<close>

lemma appendCalendarTargetBlocker_Nil: "appendCalendarTargetBlocker items b \<noteq> []"
  by auto

lemma fold_blockers_Nil: "foldl appendCalendarTargetBlocker items bs = [] \<longleftrightarrow> items = [] \<and> bs = []"
proof (induction bs arbitrary: items)
  case (Cons b bs)
  then show ?case using appendCalendarTargetBlocker_Nil [of items b] by simp
qed simp

text \<open>
  As a switch target the calendar counts as ready exactly when its staff-only engine is: a
  salon all of whose enabled services are pooled is reported able to serve availability and
  execution, and yet not ready.
\<close>

lemma target_ready_iff:
  "(tr_Ready (target_readiness (EvaluateReadiness (Some aggregate))) \<longleftrightarrow>
      oc_StaffOnlyAvailability (rdy_Capabilities (EvaluateReadiness (Some aggregate))))
   \<and> (tr_AvailabilityReady (target_readiness (EvaluateReadiness (Some aggregate))) \<longleftrightarrow>
      oc_StaffOnlyAvailability (rdy_Capabilities (EvaluateReadiness (Some aggregate)))
      \<or> oc_PooledCapacity (rdy_Capabilities (EvaluateReadiness (Some aggregate))))
   \<and> tr_ExecutionReady (target_readiness (EvaluateReadiness (Some aggregate))) =
      tr_AvailabilityReady (target_readiness (EvaluateReadiness (Some aggregate)))
   \<and> (\<not> list_ex staff_only_configured (agg_ServicePolicies aggregate) \<longrightarrow>
      \<not> tr_Ready (target_readiness (EvaluateReadiness (Some aggregate))))"
proof -
  let ?r = "evaluate_aggregate aggregate"
  have ev: "EvaluateReadiness (Some aggregate) = ?r" by (simp add: EvaluateReadiness_def)
  have same: "oc_StaffOnlyCreate (rdy_Capabilities ?r) = oc_StaffOnlyAvailability (rdy_Capabilities ?r)"
    by (simp add: evaluate_aggregate_def Let_def)
  have none: "rdy_Blockers ?r = []" "rdy_ConfigurationReady ?r"
    if "oc_StaffOnlyAvailability (rdy_Capabilities ?r)"
  proof -
    note facts = engine_ready_facts [OF disjI2 [OF disjI1], of aggregate, unfolded same, OF that]
    show "rdy_ConfigurationReady ?r" by (rule facts(1))
    show "rdy_Blockers ?r = []"
      using facts(1,2) unfolding configuration_ready_iff_none by (simp add: evaluate_aggregate_def Let_def)
  qed
  have "target_blockers ?r = [] \<longleftrightarrow> oc_StaffOnlyAvailability (rdy_Capabilities ?r)"
    using none unfolding target_blockers_def Let_def fold_blockers_Nil by (auto simp: same)
  moreover have "oc_StaffOnlyAvailability (rdy_Capabilities ?r) \<Longrightarrow>
      list_ex staff_only_configured (agg_ServicePolicies aggregate)"
    by (simp add: evaluate_aggregate_def Let_def)
  ultimately show ?thesis unfolding ev by (auto simp: target_readiness_def Let_def same)
qed

end
