(* ===== verification/Calendar_Executor.thy ===== *)
theory Calendar_Executor
  imports Calendar_Config Scheduling_Service
begin

text \<open>
  The executor of the internal calendar, \<open>modules/scheduling_manleai_calendar/executor.go\<close>, with
  the availability-request normaliser it shares with the repository
  (\<open>execution_repository_aggregate.go\<close>) and the pure checks of the appointment lifecycle
  (\<open>execution_lifecycle.go\<close>).

  The execution store (the transactions of \<open>execution_repository*.go\<close> and
  \<open>execution_lifecycle.go\<close>) is the interface record \<open>ExecutionStore\<close>; the clock, \<open>uuid.Parse\<close> and
  the request fingerprints (SHA-256 over JSON) are parameters. \<open>Time.UTC()\<close> keeps the instant.

  The lemmas show what an accepted action looks like, that the store is only called with one, and
  that a confirmation the executor returns agrees with the request: kind, authority, version
  step, and every child against its requested segment.
\<close>

section \<open>Structs\<close>

record InternalCreateSegment =
  ics_ServiceID :: string
  ics_StaffID :: string
  ics_StaffSelectionMode :: string
  ics_GuestReference :: string
  ics_Quantity :: int
  ics_RequestedStartTime :: gotime
  ics_RequestedEndTime :: gotime

record InternalCreateRequest =
  icr_OperationKey :: string
  icr_RequestFingerprint :: string
  icr_AvailabilityQuoteID :: string
  icr_SlotFingerprint :: string
  icr_Source :: string
  icr_CustomerName :: string
  icr_CustomerPhone :: string
  icr_CustomerEmail :: string
  icr_PartySize :: int
  icr_Segments :: "InternalCreateSegment list"
  icr_RequestedStartTime :: gotime
  icr_RequestedEndTime :: gotime
  icr_RequestedTimezone :: string
  icr_Notes :: string

record InternalCreateSegmentResult =
  isr_AppointmentServiceID :: string
  isr_GuestReference :: string
  isr_ServiceID :: string
  isr_StaffID :: string
  isr_StaffSelectionMode :: string
  isr_Quantity :: int
  isr_ScheduledStartTime :: gotime
  isr_ScheduledEndTime :: gotime
  isr_OccupiedStartTime :: gotime
  isr_OccupiedEndTime :: gotime
  isr_BufferBeforeMinutes :: int
  isr_BufferAfterMinutes :: int
  isr_ResourceAllocations :: "InternalResourceAllocation list"

record InternalCreateResult =
  icx_AppointmentID :: string
  icx_BookingAttemptID :: string
  icx_AppointmentStatus :: string
  icx_TargetAuthorityAppointmentVersion :: int
  icx_AuthorityAppointmentVersion :: int
  icx_ActiveChildCount :: int
  icx_Children :: "InternalCreateSegmentResult list"

record InternalLifecycleRequest =
  ilr_OperationType :: string
  ilr_OperationKey :: string
  ilr_RequestFingerprint :: string
  ilr_AvailabilityQuoteID :: string
  ilr_SlotFingerprint :: string
  ilr_Source :: string
  ilr_CustomerName :: string
  ilr_CustomerPhone :: string
  ilr_CustomerEmail :: string
  ilr_PartySize :: int
  ilr_Segments :: "InternalCreateSegment list"
  ilr_RequestedStartTime :: gotime
  ilr_RequestedEndTime :: gotime
  ilr_RequestedTimezone :: string
  ilr_Notes :: string
  ilr_TargetAppointmentID :: string
  ilr_ExpectedTargetAuthorityAppointmentVersion :: int

record 'w ExecutionStore =
  es_CheckAvailability ::
    "string \<Rightarrow> string \<Rightarrow> AvailabilityRequest \<Rightarrow> gotime \<Rightarrow> ('w, AvailabilityResult) call"
  es_CreateAppointment ::
    "string \<Rightarrow> string \<Rightarrow> InternalCreateRequest \<Rightarrow> gotime
       \<Rightarrow> ('w, InternalCreateResult option \<times> bool) call"
  es_RescheduleAppointment ::
    "string \<Rightarrow> string \<Rightarrow> InternalLifecycleRequest \<Rightarrow> gotime
       \<Rightarrow> ('w, InternalCreateResult option \<times> bool) call"
  es_CancelAppointment ::
    "string \<Rightarrow> string \<Rightarrow> InternalLifecycleRequest \<Rightarrow> gotime
       \<Rightarrow> ('w, InternalCreateResult option \<times> bool) call"

text \<open>What the executor takes from outside: the clock, the UUID parser and the two fingerprints.\<close>

record 'w ExecutorEnv =
  xe_Now :: "'w \<Rightarrow> gotime"
  xe_UUIDParse :: "string \<Rightarrow> bool"
  xe_CreateHash :: "InternalCreateRequest \<Rightarrow> string"
  xe_LifecycleHash :: "InternalLifecycleRequest \<Rightarrow> string"

section \<open>Normalising an availability request\<close>

definition validUUID :: "(string \<Rightarrow> bool) \<Rightarrow> string \<Rightarrow> bool" where
  "validUUID uuid_ok s = uuid_ok (TrimSpace s)"

fun decimal :: "nat \<Rightarrow> string" where
  "decimal n = (if n < 10 then [char_of (48 + n)] else decimal (n div 10) @ [char_of (48 + n mod 10)])"

declare decimal.simps [simp del]

definition distinctGuestReferenceCount :: "string list \<Rightarrow> nat" where
  "distinctGuestReferenceCount guestReferences =
     length (remdups (filter (\<lambda>reference. reference \<noteq> []) (map TrimSpace guestReferences)))"

definition validGuestReferenceParty :: "int \<Rightarrow> string list \<Rightarrow> bool" where
  "validGuestReferenceParty partySize guestReferences =
     (let references = map TrimSpace guestReferences;
          anyReference = list_ex (\<lambda>reference. reference \<noteq> []) references;
          allReferencesPresent = list_all (\<lambda>reference. reference \<noteq> []) references
      in if \<not> anyReference then partySize = 1
         else allReferencesPresent
              \<and> int (distinctGuestReferenceCount guestReferences) = partySize)"

definition normalized_unit :: "BookingSegmentRequest \<Rightarrow> normalizedAvailabilitySegment" where
  "normalized_unit raw =
     \<lparr>nas_ServiceID = TrimSpace (bsr_ServiceID raw), nas_StaffID = TrimSpace (bsr_StaffID raw),
      nas_StaffSelectionMode =
        (if TrimSpace (bsr_StaffSelectionMode raw) = [] then StaffSelectionSpecific
         else TrimSpace (bsr_StaffSelectionMode raw)),
      nas_GuestReference = TrimSpace (bsr_GuestReference raw), nas_Quantity = 1\<rparr>"

definition expand_segment ::
  "(string \<Rightarrow> bool) \<Rightarrow> BookingSegmentRequest \<Rightarrow> error + normalizedAvailabilitySegment list" where
  "expand_segment uuid_ok raw =
     (let quantity = (if bsr_Quantity raw = 0 then 1 else bsr_Quantity raw);
          unit = normalized_unit raw
      in if \<not> validUUID uuid_ok (nas_ServiceID unit) \<or> quantity < 1 \<or> quantity > 100
            \<or> length (nas_GuestReference unit) > 200
            \<or> nas_StaffSelectionMode unit \<noteq> StaffSelectionSpecific
              \<and> nas_StaffSelectionMode unit \<noteq> StaffSelectionAnyone
            \<or> nas_StaffSelectionMode unit = StaffSelectionSpecific
              \<and> \<not> validUUID uuid_ok (nas_StaffID unit)
            \<or> nas_StaffSelectionMode unit = StaffSelectionAnyone \<and> nas_StaffID unit \<noteq> []
         then Inl ErrValidation
         else if quantity > 1 then
           (if nas_GuestReference unit = [] then Inl ErrValidation
            else Inr (map (\<lambda>i. unit\<lparr>nas_GuestReference :=
                             nas_GuestReference unit @ ''-'' @ decimal (i + 1)\<rparr>)
                        [0..<nat quantity]))
         else Inr [unit])"

fun expand_segments ::
  "(string \<Rightarrow> bool) \<Rightarrow> BookingSegmentRequest list \<Rightarrow> error + normalizedAvailabilitySegment list" where
  "expand_segments uuid_ok [] = Inr []"
| "expand_segments uuid_ok (raw # rest) =
     (case expand_segment uuid_ok raw of
        Inl err \<Rightarrow> Inl err
      | Inr units \<Rightarrow>
          (case expand_segments uuid_ok rest of
             Inl err \<Rightarrow> Inl err
           | Inr later_units \<Rightarrow> Inr (units @ later_units)))"

definition raw_segments :: "AvailabilityRequest \<Rightarrow> BookingSegmentRequest list" where
  "raw_segments req =
     (if ar_Segments req = []
      then [\<lparr>bsr_ServiceID = ar_ServiceID req, bsr_StaffID = ar_StaffID req,
             bsr_StaffSelectionMode = ar_StaffSelectionMode req, bsr_GuestReference = [],
             bsr_Quantity = 1\<rparr>]
      else ar_Segments req)"

definition normalizeAggregateAvailabilityRequest ::
  "(string \<Rightarrow> bool) \<Rightarrow> AvailabilityRequest \<Rightarrow> error + normalizedAvailabilityRequest" where
  "normalizeAggregateAvailabilityRequest uuid_ok req =
     (if TrimSpace (ar_TargetAppointmentID req) \<noteq> [] \<or> TrimSpace (ar_PreferredDate req) = []
         \<or> ar_Limit req < 0 \<or> ar_Limit req > 50
      then Inl ErrValidation
      else if parse_date (TrimSpace (ar_PreferredDate req)) = None then Inl ErrValidation
      else
        (case expand_segments uuid_ok (raw_segments req) of
           Inl err \<Rightarrow> Inl err
         | Inr segments \<Rightarrow>
             let guestReferences = map nas_GuestReference segments;
                 guests = int (distinctGuestReferenceCount guestReferences);
                 partySize = (if ar_PartySize req = 0 then (if guests > 0 then guests else 1)
                              else ar_PartySize req)
             in if partySize < 1 \<or> partySize > 100
                   \<or> \<not> validGuestReferenceParty partySize guestReferences
                then Inl ErrValidation
                else Inr \<lparr>nar_ServiceID = nas_ServiceID (hd segments),
                          nar_StaffID = nas_StaffID (hd segments),
                          nar_StaffSelectionMode = nas_StaffSelectionMode (hd segments),
                          nar_PartySize = partySize, nar_Segments = segments,
                          nar_PreferredDate = TrimSpace (ar_PreferredDate req),
                          nar_Limit = ar_Limit req\<rparr>))"

section \<open>Normalising an action\<close>

definition is_hex :: "char \<Rightarrow> bool" where
  "is_hex c \<longleftrightarrow> c \<in> set ''0123456789abcdefABCDEF''"

definition validFingerprint :: "string \<Rightarrow> bool" where
  "validFingerprint s \<longleftrightarrow> length s = 64 \<and> list_all is_hex s"

definition internal_segment :: "ActionSegment \<Rightarrow> InternalCreateSegment" where
  "internal_segment raw =
     \<lparr>ics_ServiceID = TrimSpace (seg_ServiceID raw), ics_StaffID = TrimSpace (seg_StaffID raw),
      ics_StaffSelectionMode =
        (if TrimSpace (seg_StaffSelectionMode raw) = [] then StaffSelectionSpecific
         else TrimSpace (seg_StaffSelectionMode raw)),
      ics_GuestReference = TrimSpace (seg_GuestReference raw),
      ics_Quantity = (if seg_Quantity raw = 0 then 1 else seg_Quantity raw),
      ics_RequestedStartTime = seg_RequestedStartTime raw,
      ics_RequestedEndTime = seg_RequestedEndTime raw\<rparr>"

definition internal_segment_ok :: "(string \<Rightarrow> bool) \<Rightarrow> InternalCreateSegment \<Rightarrow> bool" where
  "internal_segment_ok uuid_ok segment \<longleftrightarrow>
     \<not> (ics_Quantity segment \<noteq> 1 \<or> \<not> validUUID uuid_ok (ics_ServiceID segment)
        \<or> \<not> validUUID uuid_ok (ics_StaffID segment)
        \<or> ics_StaffSelectionMode segment \<noteq> StaffSelectionSpecific
          \<and> ics_StaffSelectionMode segment \<noteq> StaffSelectionAnyone
        \<or> ics_RequestedStartTime segment = 0
        \<or> \<not> ics_RequestedEndTime segment > ics_RequestedStartTime segment
        \<or> length (ics_GuestReference segment) > 200)"

definition root_start :: "InternalCreateSegment list \<Rightarrow> gotime" where
  "root_start segments =
     foldl (\<lambda>start segment. if ics_RequestedStartTime segment < start
                            then ics_RequestedStartTime segment else start)
       (ics_RequestedStartTime (hd segments)) (tl segments)"

definition root_end :: "InternalCreateSegment list \<Rightarrow> gotime" where
  "root_end segments =
     foldl (\<lambda>stop segment. if ics_RequestedEndTime segment > stop
                           then ics_RequestedEndTime segment else stop)
       (ics_RequestedEndTime (hd segments)) (tl segments)"

definition trimmed_create :: "ActionRequest \<Rightarrow> InternalCreateRequest" where
  "trimmed_create req =
     \<lparr>icr_OperationKey = TrimSpace (req_OperationKey req), icr_RequestFingerprint = [],
      icr_AvailabilityQuoteID = TrimSpace (req_AvailabilityQuoteID req),
      icr_SlotFingerprint = TrimSpace (req_SlotFingerprint req),
      icr_Source = TrimSpace (req_Source req), icr_CustomerName = TrimSpace (req_CustomerName req),
      icr_CustomerPhone = TrimSpace (req_CustomerPhone req),
      icr_CustomerEmail = TrimSpace (req_CustomerEmail req),
      icr_PartySize = (if req_PartySize req = 0 then 1 else req_PartySize req),
      icr_Segments = map internal_segment (req_Segments req),
      icr_RequestedStartTime = req_RequestedStartTime req,
      icr_RequestedEndTime = req_RequestedEndTime req,
      icr_RequestedTimezone = TrimSpace (req_RequestedTimezone req),
      icr_Notes = TrimSpace (req_Notes req)\<rparr>"

definition create_shape_ok :: "(string \<Rightarrow> bool) \<Rightarrow> ActionRequest \<Rightarrow> bool" where
  "create_shape_ok uuid_ok req \<longleftrightarrow>
     \<not> (req_OperationType req \<noteq> OperationKindBook \<or> icr_PartySize (trimmed_create req) < 1
        \<or> length (req_Segments req) < 1 \<or> TrimSpace (req_RetryOfAttemptID req) \<noteq> []
        \<or> TrimSpace (req_TargetAppointmentID req) \<noteq> []
        \<or> TrimSpace (req_CallSessionID req) \<noteq> [] \<and> \<not> validUUID uuid_ok (req_CallSessionID req))"

definition create_fields_ok :: "(string \<Rightarrow> bool) \<Rightarrow> InternalCreateRequest \<Rightarrow> bool" where
  "create_fields_ok uuid_ok result \<longleftrightarrow>
     \<not> (icr_OperationKey result = [] \<or> length (icr_OperationKey result) > 256
        \<or> \<not> validUUID uuid_ok (icr_AvailabilityQuoteID result)
        \<or> \<not> validFingerprint (icr_SlotFingerprint result)
        \<or> icr_Source result = [] \<or> icr_CustomerName result = [] \<or> icr_CustomerPhone result = []
        \<or> icr_RequestedStartTime result = 0
        \<or> \<not> icr_RequestedEndTime result > icr_RequestedStartTime result
        \<or> icr_RequestedTimezone result = []
        \<or> root_start (icr_Segments result) \<noteq> icr_RequestedStartTime result
        \<or> root_end (icr_Segments result) \<noteq> icr_RequestedEndTime result)"

definition normalizeInternalCreateRequest ::
  "'w ExecutorEnv \<Rightarrow> ActionRequest \<Rightarrow> error + InternalCreateRequest" where
  "normalizeInternalCreateRequest env req =
     (let result = trimmed_create req in
      if \<not> create_shape_ok (xe_UUIDParse env) req then Inl ErrInvalidSchedulingAction
      else if \<not> list_all (internal_segment_ok (xe_UUIDParse env)) (icr_Segments result)
      then Inl ErrInvalidSchedulingAction
      else if \<not> validGuestReferenceParty (icr_PartySize result)
                   (map ics_GuestReference (icr_Segments result))
      then Inl ErrInvalidSchedulingAction
      else if \<not> create_fields_ok (xe_UUIDParse env) result then Inl ErrInvalidSchedulingAction
      else Inr (result\<lparr>icr_RequestFingerprint := xe_CreateHash env result\<rparr>))"

definition trimmed_lifecycle :: "ActionRequest \<Rightarrow> InternalLifecycleRequest" where
  "trimmed_lifecycle req =
     \<lparr>ilr_OperationType = req_OperationType req, ilr_OperationKey = TrimSpace (req_OperationKey req),
      ilr_RequestFingerprint = [],
      ilr_AvailabilityQuoteID = TrimSpace (req_AvailabilityQuoteID req),
      ilr_SlotFingerprint = TrimSpace (req_SlotFingerprint req),
      ilr_Source = TrimSpace (req_Source req), ilr_CustomerName = TrimSpace (req_CustomerName req),
      ilr_CustomerPhone = TrimSpace (req_CustomerPhone req),
      ilr_CustomerEmail = TrimSpace (req_CustomerEmail req), ilr_PartySize = 0, ilr_Segments = [],
      ilr_RequestedStartTime = req_RequestedStartTime req,
      ilr_RequestedEndTime = req_RequestedEndTime req,
      ilr_RequestedTimezone = TrimSpace (req_RequestedTimezone req),
      ilr_Notes = TrimSpace (req_Notes req),
      ilr_TargetAppointmentID = TrimSpace (req_TargetAppointmentID req),
      ilr_ExpectedTargetAuthorityAppointmentVersion =
        req_ExpectedTargetAuthorityAppointmentVersion req\<rparr>"

definition lifecycle_fields_ok :: "(string \<Rightarrow> bool) \<Rightarrow> ActionRequest \<Rightarrow> bool" where
  "lifecycle_fields_ok uuid_ok req \<longleftrightarrow>
     \<not> (TrimSpace (req_OperationKey req) = [] \<or> length (TrimSpace (req_OperationKey req)) > 256
        \<or> TrimSpace (req_Source req) = []
        \<or> \<not> validUUID uuid_ok (TrimSpace (req_TargetAppointmentID req))
        \<or> req_ExpectedTargetAuthorityAppointmentVersion req < 1
        \<or> TrimSpace (req_RetryOfAttemptID req) \<noteq> []
        \<or> req_TargetAuthority req \<noteq> []
          \<and> req_TargetAuthority req \<noteq> SchedulingAuthorityManleAICalendar
        \<or> TrimSpace (req_CallSessionID req) \<noteq> [] \<and> \<not> validUUID uuid_ok (req_CallSessionID req))"

definition plan_request :: "ActionRequest \<Rightarrow> ActionRequest" where
  "plan_request req =
     req\<lparr>req_OperationType := OperationKindBook, req_TargetAppointmentID := [],
         req_TargetAuthority := [], req_ExpectedTargetAuthorityAppointmentVersion := 0\<rparr>"

definition with_plan ::
  "InternalLifecycleRequest \<Rightarrow> InternalCreateRequest \<Rightarrow> InternalLifecycleRequest" where
  "with_plan result plan =
     result\<lparr>ilr_CustomerName := icr_CustomerName plan, ilr_CustomerPhone := icr_CustomerPhone plan,
            ilr_CustomerEmail := icr_CustomerEmail plan, ilr_PartySize := icr_PartySize plan,
            ilr_Segments := icr_Segments plan,
            ilr_RequestedStartTime := icr_RequestedStartTime plan,
            ilr_RequestedEndTime := icr_RequestedEndTime plan,
            ilr_RequestedTimezone := icr_RequestedTimezone plan\<rparr>"

definition carries_plan :: "ActionRequest \<Rightarrow> bool" where
  "carries_plan req \<longleftrightarrow>
     TrimSpace (req_AvailabilityQuoteID req) \<noteq> [] \<or> TrimSpace (req_SlotFingerprint req) \<noteq> []
     \<or> req_PartySize req \<noteq> 0 \<or> length (req_Segments req) \<noteq> 0 \<or> req_RequestedStartTime req \<noteq> 0
     \<or> req_RequestedEndTime req \<noteq> 0 \<or> TrimSpace (req_RequestedTimezone req) \<noteq> []"

definition normalizeInternalLifecycleRequest ::
  "'w ExecutorEnv \<Rightarrow> ActionRequest \<Rightarrow> error + InternalLifecycleRequest" where
  "normalizeInternalLifecycleRequest env req =
     (if \<not> lifecycle_fields_ok (xe_UUIDParse env) req then Inl ErrInvalidSchedulingAction
      else
        (case (if req_OperationType req = OperationKindReschedule
               then (case normalizeInternalCreateRequest env (plan_request req) of
                       Inl err \<Rightarrow> Inl err
                     | Inr plan \<Rightarrow>
                         if \<not> validUUID (xe_UUIDParse env) (TrimSpace (req_AvailabilityQuoteID req))
                            \<or> \<not> validFingerprint (TrimSpace (req_SlotFingerprint req))
                         then Inl ErrInvalidSchedulingAction
                         else Inr (with_plan (trimmed_lifecycle req) plan))
               else if req_OperationType req = OperationKindCancel
               then (if carries_plan req then Inl ErrInvalidSchedulingAction
                     else Inr (trimmed_lifecycle req))
               else Inl ErrInvalidSchedulingAction) of
           Inl err \<Rightarrow> Inl err
         | Inr result \<Rightarrow> Inr (result\<lparr>ilr_RequestFingerprint := xe_LifecycleHash env result\<rparr>)))"

section \<open>Checking the result of the store\<close>

definition expectedInternalAppointmentStatus :: "string \<Rightarrow> string" where
  "expectedInternalAppointmentStatus operation =
     (if operation = OperationKindReschedule then StatusRescheduled
      else if operation = OperationKindCancel then StatusCancelled
      else StatusConfirmed)"

definition validInternalSchedulingChild :: "InternalCreateSegmentResult \<Rightarrow> bool" where
  "validInternalSchedulingChild child \<longleftrightarrow>
     \<not> (TrimSpace (isr_AppointmentServiceID child) = [] \<or> TrimSpace (isr_ServiceID child) = []
        \<or> TrimSpace (isr_StaffID child) = []
        \<or> isr_StaffSelectionMode child \<noteq> StaffSelectionSpecific
          \<and> isr_StaffSelectionMode child \<noteq> StaffSelectionAnyone
        \<or> isr_Quantity child \<noteq> 1 \<or> isr_ScheduledStartTime child = 0
        \<or> \<not> isr_ScheduledEndTime child > isr_ScheduledStartTime child
        \<or> isr_OccupiedStartTime child = 0
        \<or> \<not> isr_OccupiedEndTime child > isr_OccupiedStartTime child
        \<or> isr_OccupiedStartTime child > isr_ScheduledStartTime child
        \<or> isr_OccupiedEndTime child < isr_ScheduledEndTime child
        \<or> isr_BufferBeforeMinutes child < 0 \<or> isr_BufferAfterMinutes child < 0)
     \<and> list_all (\<lambda>allocation. \<not> (TrimSpace (ira_ResourcePoolID allocation) = []
                                \<or> ira_UnitsAllocated allocation \<le> 0))
         (isr_ResourceAllocations child)"

definition internalSchedulingChildMatchesSegment ::
  "InternalCreateSegmentResult \<Rightarrow> InternalCreateSegment \<Rightarrow> bool" where
  "internalSchedulingChildMatchesSegment child segment \<longleftrightarrow>
     TrimSpace (isr_ServiceID child) = TrimSpace (ics_ServiceID segment)
     \<and> TrimSpace (isr_StaffID child) = TrimSpace (ics_StaffID segment)
     \<and> isr_StaffSelectionMode child = ics_StaffSelectionMode segment
     \<and> TrimSpace (isr_GuestReference child) = TrimSpace (ics_GuestReference segment)
     \<and> isr_Quantity child = ics_Quantity segment
     \<and> isr_ScheduledStartTime child = ics_RequestedStartTime segment
     \<and> isr_ScheduledEndTime child = ics_RequestedEndTime segment"

definition version_step_ok :: "string \<Rightarrow> InternalCreateResult \<Rightarrow> int \<Rightarrow> bool" where
  "version_step_ok operation result expectedTargetVersion =
     (if operation = OperationKindBook then
        \<not> (icx_TargetAuthorityAppointmentVersion result \<noteq> 0
           \<or> icx_AuthorityAppointmentVersion result \<noteq> 1
           \<or> icx_ActiveChildCount result \<noteq> int (length (icx_Children result)))
      else if operation = OperationKindReschedule then
        \<not> (expectedTargetVersion < 1
           \<or> icx_TargetAuthorityAppointmentVersion result \<noteq> expectedTargetVersion
           \<or> icx_AuthorityAppointmentVersion result \<noteq> expectedTargetVersion + 1
           \<or> icx_ActiveChildCount result \<noteq> int (length (icx_Children result)))
      else if operation = OperationKindCancel then
        \<not> (expectedTargetVersion < 1
           \<or> icx_TargetAuthorityAppointmentVersion result \<noteq> expectedTargetVersion
           \<or> icx_AuthorityAppointmentVersion result \<noteq> expectedTargetVersion + 1
           \<or> icx_ActiveChildCount result \<noteq> 0)
      else False)"

definition validInternalSchedulingResult ::
  "string \<Rightarrow> InternalCreateResult option \<Rightarrow> InternalCreateSegment list \<Rightarrow> int \<Rightarrow> bool" where
  "validInternalSchedulingResult operation result0 expectedSegments expectedTargetVersion =
     (case result0 of
        None \<Rightarrow> False
      | Some result \<Rightarrow>
          if TrimSpace (icx_AppointmentID result) = [] \<or> TrimSpace (icx_BookingAttemptID result) = []
             \<or> icx_AppointmentStatus result \<noteq> expectedInternalAppointmentStatus operation
             \<or> length (icx_Children result) = 0
          then False
          else if \<not> version_step_ok operation result expectedTargetVersion then False
          else if operation \<noteq> OperationKindCancel
                  \<and> length (icx_Children result) \<noteq> length expectedSegments
          then False
          else list_all validInternalSchedulingChild (icx_Children result)
               \<and> (operation \<noteq> OperationKindCancel \<longrightarrow>
                    list_all2 internalSchedulingChildMatchesSegment (icx_Children result)
                      expectedSegments))"

section \<open>Executor\<close>

definition CheckAvailability_calendar ::
  "'w ExecutorEnv \<Rightarrow> 'w ExecutionStore \<Rightarrow> string \<Rightarrow> string \<Rightarrow> AvailabilityRequest
     \<Rightarrow> ('w, SchedulingAvailabilityResult option) call" where
  "CheckAvailability_calendar env store salonID ownerUserID req w =
     (case normalizeAggregateAvailabilityRequest (xe_UUIDParse env) req of
        Inl err \<Rightarrow> (Inl err, w)
      | Inr _ \<Rightarrow>
          (case es_CheckAvailability store salonID ownerUserID req (xe_Now env w) w of
             (Inl err, w') \<Rightarrow> (Inl err, w')
           | (Inr result, w') \<Rightarrow>
               (Inr (Some \<lparr>sres_Kind = AvailabilityKindVerifiedSlots,
                           sres_SchedulingAuthority = SchedulingAuthorityManleAICalendar,
                           sres_TargetAuthorityAppointmentVersion =
                             ares_TargetAuthorityAppointmentVersion result,
                           sres_VerifiedSlots = Some result\<rparr>), w')))"

definition confirmed_child :: "InternalCreateSegmentResult \<Rightarrow> ConfirmedAppointmentSegment" where
  "confirmed_child child =
     \<lparr>cas_AppointmentServiceID = isr_AppointmentServiceID child,
      cas_GuestReference = isr_GuestReference child, cas_ServiceID = isr_ServiceID child,
      cas_StaffID = isr_StaffID child, cas_StaffSelectionMode = isr_StaffSelectionMode child,
      cas_Quantity = isr_Quantity child, cas_ScheduledStartTime = isr_ScheduledStartTime child,
      cas_ScheduledEndTime = isr_ScheduledEndTime child,
      cas_OccupiedStartTime = isr_OccupiedStartTime child,
      cas_OccupiedEndTime = isr_OccupiedEndTime child,
      cas_BufferBeforeMinutes = isr_BufferBeforeMinutes child,
      cas_BufferAfterMinutes = isr_BufferAfterMinutes child,
      cas_ResourceAllocations = map (\<lambda>allocation.
        \<lparr>cra_ResourcePoolID = ira_ResourcePoolID allocation,
         cra_ResourceName = ira_ResourceName allocation,
         cra_UnitsAllocated = ira_UnitsAllocated allocation\<rparr>) (isr_ResourceAllocations child)\<rparr>"

definition confirmed_result :: "string \<Rightarrow> InternalCreateResult \<Rightarrow> bool \<Rightarrow> ActionResult" where
  "confirmed_result operation created replayed =
     \<lparr>act_Kind = ActionKindConfirmedAppointment, act_OperationType = operation,
      act_SchedulingAuthority = SchedulingAuthorityManleAICalendar,
      act_TargetAuthorityAppointmentVersion = icx_TargetAuthorityAppointmentVersion created,
      act_AuthorityAppointmentVersion = icx_AuthorityAppointmentVersion created,
      act_Replayed = replayed,
      act_ConfirmedAppointment = Some (zero_ConfirmedAppointmentResult
        \<lparr>car_AppointmentID := icx_AppointmentID created,
         car_BookingAttemptID := icx_BookingAttemptID created,
         car_AppointmentStatus := icx_AppointmentStatus created,
         car_ActiveChildCount := icx_ActiveChildCount created,
         car_Children := map confirmed_child (icx_Children created)\<rparr>),
      act_PendingOwnerReview = None, act_ExternalFallbackPending = None\<rparr>"

text \<open>
  The call into the store: its result with the segments and the target version it has to agree
  with.
\<close>

definition execute_store ::
  "'w ExecutorEnv \<Rightarrow> 'w ExecutionStore \<Rightarrow> string \<Rightarrow> string \<Rightarrow> ActionRequest
     \<Rightarrow> ('w, (InternalCreateResult option \<times> bool) \<times> InternalCreateSegment list \<times> int) call" where
  "execute_store env store salonID ownerUserID req w =
     (if req_OperationType req = OperationKindBook then
        (case normalizeInternalCreateRequest env req of
           Inl err \<Rightarrow> (Inl err, w)
         | Inr normalized \<Rightarrow>
             (case es_CreateAppointment store salonID ownerUserID normalized (xe_Now env w) w of
                (Inl err, w') \<Rightarrow> (Inl err, w')
              | (Inr created, w') \<Rightarrow> (Inr (created, icr_Segments normalized, 0), w')))
      else if req_OperationType req = OperationKindReschedule then
        (case normalizeInternalLifecycleRequest env req of
           Inl err \<Rightarrow> (Inl err, w)
         | Inr normalized \<Rightarrow>
             (case es_RescheduleAppointment store salonID ownerUserID normalized (xe_Now env w) w of
                (Inl err, w') \<Rightarrow> (Inl err, w')
              | (Inr created, w') \<Rightarrow>
                  (Inr (created, ilr_Segments normalized,
                        ilr_ExpectedTargetAuthorityAppointmentVersion normalized), w')))
      else if req_OperationType req = OperationKindCancel then
        (case normalizeInternalLifecycleRequest env req of
           Inl err \<Rightarrow> (Inl err, w)
         | Inr normalized \<Rightarrow>
             (case es_CancelAppointment store salonID ownerUserID normalized (xe_Now env w) w of
                (Inl err, w') \<Rightarrow> (Inl err, w')
              | (Inr created, w') \<Rightarrow>
                  (Inr (created, [], ilr_ExpectedTargetAuthorityAppointmentVersion normalized), w')))
      else (Inl ErrInvalidSchedulingAction, w))"

definition ExecuteAction_calendar ::
  "'w ExecutorEnv \<Rightarrow> 'w ExecutionStore \<Rightarrow> string \<Rightarrow> string \<Rightarrow> ActionRequest
     \<Rightarrow> ('w, ActionResult option) call" where
  "ExecuteAction_calendar env store salonID ownerUserID req w =
     (case execute_store env store salonID ownerUserID req w of
        (Inl err, w') \<Rightarrow> (Inl err, w')
      | (Inr ((created, replayed), expectedSegments, expectedTargetVersion), w') \<Rightarrow>
          if \<not> validInternalSchedulingResult (req_OperationType req) created expectedSegments
                 expectedTargetVersion
          then (Inl ErrInvalidSchedulingResult, w')
          else (Inr (Some (confirmed_result (req_OperationType req) (the created) replayed)), w'))"

definition NewExecutor_calendar :: "'w ExecutorEnv \<Rightarrow> 'w ExecutionStore \<Rightarrow> 'w Executor" where
  "NewExecutor_calendar env store =
     \<lparr>ex_SchedulingAuthority = SchedulingAuthorityManleAICalendar, ex_Legacy = None,
      ex_Neutral = Some \<lparr>nx_CheckAvailability = CheckAvailability_calendar env store,
                         nx_ExecuteAction = ExecuteAction_calendar env store\<rparr>\<rparr>"

section \<open>Lifecycle checks\<close>

record quotedAggregateSegment =
  qs_ID :: string
  qs_Name :: string
  qs_ServiceID :: string
  qs_StaffID :: string
  qs_StaffSelectionMode :: string
  qs_GuestReference :: string
  qs_DurationMinutes :: int
  qs_SortOrder :: int
  qs_StartTime :: gotime
  qs_EndTime :: gotime
  qs_BufferBeforeMinutes :: int
  qs_BufferAfterMinutes :: int
  qs_OccupiedStartTime :: gotime
  qs_OccupiedEndTime :: gotime
  qs_ResourceAllocations :: "InternalResourceAllocation list"

record quotedAggregateSlot =
  qu_QuoteID :: string
  qu_RequestFingerprint :: string
  qu_ExpiresAt :: gotime
  qu_ConsumedAt :: "gotime option"
  qu_ConsumedAttemptID :: "string option"
  qu_AuthorityVersion :: int
  qu_ConfigVersion :: int
  qu_OperationType :: string
  qu_TargetAppointmentID :: string
  qu_TargetAuthorityAppointmentVersion :: int
  qu_PartySize :: int
  qu_SlotID :: string
  qu_SlotFingerprint :: string
  qu_StartTime :: gotime
  qu_EndTime :: gotime
  qu_Segments :: "quotedAggregateSegment list"

record lifecycleTarget =
  lt_ID :: string
  lt_Status :: string
  lt_AuthorityAppointmentVersion :: int
  lt_SchedulingAuthorityVersion :: int
  lt_AuthorityConfigVersion :: int
  lt_PartySize :: int
  lt_CustomerName :: string
  lt_CustomerPhone :: string
  lt_CustomerEmail :: string
  lt_StartTime :: gotime
  lt_EndTime :: gotime
  lt_Notes :: string
  lt_Segments :: "quotedAggregateSegment list"

definition lifecycleCutoffOpen :: "gotime \<Rightarrow> gotime \<Rightarrow> int option \<Rightarrow> bool" where
  "lifecycleCutoffOpen now appointmentStart cutoffMinutes =
     (case cutoffMinutes of
        None \<Rightarrow> True
      | Some minutes \<Rightarrow> now < appointmentStart + - minutes * ns_per_minute)"

definition replacementPreservesTargetShape ::
  "normalizedAvailabilityRequest \<Rightarrow> lifecycleTarget \<Rightarrow> bool" where
  "replacementPreservesTargetShape request target =
     (if nar_PartySize request \<noteq> lt_PartySize target
         \<or> length (nar_Segments request) \<noteq> length (lt_Segments target)
      then False
      else list_all (\<lambda>(i, segment, original).
             \<not> (qs_SortOrder original \<noteq> int i + 1 \<or> nas_Quantity segment \<noteq> 1
                \<or> nas_ServiceID segment \<noteq> qs_ServiceID original
                \<or> TrimSpace (nas_GuestReference segment) \<noteq> TrimSpace (qs_GuestReference original)))
             (enumerate 0 (zip (nar_Segments request) (lt_Segments target))))"

definition quoted_segment_matches ::
  "nat \<times> quotedAggregateSegment \<times> InternalCreateSegment \<Rightarrow> bool" where
  "quoted_segment_matches = (\<lambda>(i, quoted, requested).
     \<not> (qs_SortOrder quoted \<noteq> int i + 1 \<or> qs_ServiceID quoted \<noteq> ics_ServiceID requested
        \<or> qs_StaffID quoted \<noteq> ics_StaffID requested
        \<or> qs_StaffSelectionMode quoted \<noteq> ics_StaffSelectionMode requested
        \<or> qs_GuestReference quoted \<noteq> ics_GuestReference requested \<or> ics_Quantity requested \<noteq> 1
        \<or> qs_StartTime quoted \<noteq> ics_RequestedStartTime requested
        \<or> qs_EndTime quoted \<noteq> ics_RequestedEndTime requested))"

definition quoteMatchesAction :: "quotedAggregateSlot \<Rightarrow> InternalCreateRequest \<Rightarrow> bool" where
  "quoteMatchesAction quote req =
     (if qu_PartySize quote \<noteq> icr_PartySize req
         \<or> length (qu_Segments quote) \<noteq> length (icr_Segments req)
         \<or> qu_StartTime quote \<noteq> icr_RequestedStartTime req
         \<or> qu_EndTime quote \<noteq> icr_RequestedEndTime req
      then False
      else list_all quoted_segment_matches
             (enumerate 0 (zip (qu_Segments quote) (icr_Segments req))))"

definition quoteMatchesLifecycleAction ::
  "quotedAggregateSlot \<Rightarrow> InternalLifecycleRequest \<Rightarrow> bool" where
  "quoteMatchesLifecycleAction quote req =
     (if qu_PartySize quote \<noteq> ilr_PartySize req
         \<or> length (qu_Segments quote) \<noteq> length (ilr_Segments req)
         \<or> qu_StartTime quote \<noteq> ilr_RequestedStartTime req
         \<or> qu_EndTime quote \<noteq> ilr_RequestedEndTime req
      then False
      else list_all quoted_segment_matches
             (enumerate 0 (zip (qu_Segments quote) (ilr_Segments req))))"

section \<open>Accepted actions\<close>

lemma root_start_Min:
  assumes "segments \<noteq> []"
  shows "root_start segments = Min (ics_RequestedStartTime ` set segments)"
proof -
  have step: "foldl (\<lambda>start segment. if ics_RequestedStartTime segment < start
      then ics_RequestedStartTime segment else start) a xs = Min (insert a (ics_RequestedStartTime ` set xs))"
    for a xs
  proof (induction xs arbitrary: a)
    case (Cons x xs)
    have "Min (insert a (insert b A)) = Min (insert (if b < a then b else a) A)"
      if "finite A" for b :: int and A
      using that by (cases "A = {}") (auto simp: min_def)
    then show ?case using Cons by simp
  qed simp
  from assms obtain x xs where "segments = x # xs" by (cases segments) auto
  then show ?thesis by (simp add: root_start_def step)
qed

lemma root_end_Max:
  assumes "segments \<noteq> []"
  shows "root_end segments = Max (ics_RequestedEndTime ` set segments)"
proof -
  have step: "foldl (\<lambda>stop segment. if ics_RequestedEndTime segment > stop
      then ics_RequestedEndTime segment else stop) a xs = Max (insert a (ics_RequestedEndTime ` set xs))"
    for a xs
  proof (induction xs arbitrary: a)
    case (Cons x xs)
    have "Max (insert a (insert b A)) = Max (insert (if b > a then b else a) A)"
      if "finite A" for b :: int and A
      using that by (cases "A = {}") (auto simp: max_def)
    then show ?case using Cons by simp
  qed simp
  from assms obtain x xs where "segments = x # xs" by (cases segments) auto
  then show ?thesis by (simp add: root_end_def step)
qed

lemma normalizeInternalCreateRequest_eq:
  "normalizeInternalCreateRequest env req =
     (if create_shape_ok (xe_UUIDParse env) req
         \<and> list_all (internal_segment_ok (xe_UUIDParse env)) (icr_Segments (trimmed_create req))
         \<and> validGuestReferenceParty (icr_PartySize (trimmed_create req))
             (map ics_GuestReference (icr_Segments (trimmed_create req)))
         \<and> create_fields_ok (xe_UUIDParse env) (trimmed_create req)
      then Inr (trimmed_create req\<lparr>icr_RequestFingerprint := xe_CreateHash env (trimmed_create req)\<rparr>)
      else Inl ErrInvalidSchedulingAction)"
  unfolding normalizeInternalCreateRequest_def Let_def by simp

lemma normalizeInternalLifecycleRequest_error:
  "normalizeInternalLifecycleRequest env req = Inl e \<Longrightarrow> e = ErrInvalidSchedulingAction"
  unfolding normalizeInternalLifecycleRequest_def normalizeInternalCreateRequest_eq
  by (auto split: if_splits sum.splits)

lemma validGuestReferenceParty_iff:
  "validGuestReferenceParty partySize references \<longleftrightarrow>
     (if \<forall>r \<in> set references. TrimSpace r = [] then partySize = 1
      else (\<forall>r \<in> set references. TrimSpace r \<noteq> []) \<and> int (card (TrimSpace ` set references)) = partySize)"
proof -
  have "{r \<in> TrimSpace ` set references. r \<noteq> []} = TrimSpace ` set references"
    if "\<forall>r \<in> set references. TrimSpace r \<noteq> []" using that by auto
  then show ?thesis
    unfolding validGuestReferenceParty_def distinctGuestReferenceCount_def Let_def length_remdups_card_conv
    by (auto simp: list_ex_iff list_all_iff)
qed

text \<open>
  C35: A booking the internal calendar accepts names one slot precisely. Every segment is a single
  unit of a service and a staff member given by UUIDs, with a start before its end and a known staff
  selection mode; the root range is exactly the earliest start and the latest end of the segments;
  guest references are absent for a party of one, or present on every segment with exactly as many
  distinct guests as the party has; the operation key is there and at most 256 bytes long, the quote
  is a UUID, the slot fingerprint is 64 hexadecimal digits, and the customer's name and telephone
  number are there. A request that is not accepted is refused with
  \<open>ErrInvalidSchedulingAction\<close>.
\<close>

theorem accepted_booking_names_one_slot:
  "case normalizeInternalCreateRequest env req of
     Inl e \<Rightarrow> e = ErrInvalidSchedulingAction
   | Inr n \<Rightarrow>
       req_OperationType req = OperationKindBook \<and> icr_Segments n \<noteq> []
       \<and> (\<forall>segment \<in> set (icr_Segments n). ics_Quantity segment = 1
            \<and> validUUID (xe_UUIDParse env) (ics_ServiceID segment)
            \<and> validUUID (xe_UUIDParse env) (ics_StaffID segment)
            \<and> ics_RequestedStartTime segment < ics_RequestedEndTime segment
            \<and> ics_StaffSelectionMode segment \<in> {StaffSelectionSpecific, StaffSelectionAnyone})
       \<and> icr_RequestedStartTime n = Min (ics_RequestedStartTime ` set (icr_Segments n))
       \<and> icr_RequestedEndTime n = Max (ics_RequestedEndTime ` set (icr_Segments n))
       \<and> (if \<forall>segment \<in> set (icr_Segments n). ics_GuestReference segment = []
          then icr_PartySize n = 1
          else (\<forall>segment \<in> set (icr_Segments n). ics_GuestReference segment \<noteq> [])
               \<and> int (card (ics_GuestReference ` set (icr_Segments n))) = icr_PartySize n)
       \<and> icr_OperationKey n \<noteq> [] \<and> length (icr_OperationKey n) \<le> 256
       \<and> validUUID (xe_UUIDParse env) (icr_AvailabilityQuoteID n)
       \<and> length (icr_SlotFingerprint n) = 64 \<and> list_all is_hex (icr_SlotFingerprint n)
       \<and> icr_CustomerName n \<noteq> [] \<and> icr_CustomerPhone n \<noteq> []"
proof (cases "normalizeInternalCreateRequest env req")
  case (Inl e)
  then show ?thesis by (simp add: normalizeInternalCreateRequest_eq split: if_splits)
next
  case (Inr n)
  let ?t = "trimmed_create req"
  from Inr have n: "n = ?t\<lparr>icr_RequestFingerprint := xe_CreateHash env ?t\<rparr>"
    and shape: "create_shape_ok (xe_UUIDParse env) req"
    and segments: "list_all (internal_segment_ok (xe_UUIDParse env)) (icr_Segments ?t)"
    and party: "validGuestReferenceParty (icr_PartySize ?t)
        (map ics_GuestReference (icr_Segments ?t))"
    and fields_ok: "create_fields_ok (xe_UUIDParse env) ?t"
    by (simp_all add: normalizeInternalCreateRequest_eq split: if_splits)
  have ne: "icr_Segments ?t \<noteq> []" using shape by (auto simp: create_shape_ok_def trimmed_create_def)
  have trim: "TrimSpace (ics_GuestReference segment) = ics_GuestReference segment"
    if "segment \<in> set (icr_Segments ?t)" for segment
    using that by (auto simp: trimmed_create_def internal_segment_def)
  then have img: "TrimSpace ` ics_GuestReference ` set (icr_Segments ?t)
      = ics_GuestReference ` set (icr_Segments ?t)" by (auto simp: image_iff)
  have guests: "if \<forall>segment \<in> set (icr_Segments ?t). ics_GuestReference segment = []
      then icr_PartySize ?t = 1
      else (\<forall>segment \<in> set (icr_Segments ?t). ics_GuestReference segment \<noteq> [])
           \<and> int (card (ics_GuestReference ` set (icr_Segments ?t))) = icr_PartySize ?t"
    using party trim unfolding validGuestReferenceParty_iff set_map img
    by (simp split: if_splits)
  have sel: "icr_Segments n = icr_Segments ?t" "icr_PartySize n = icr_PartySize ?t"
    "icr_RequestedStartTime n = icr_RequestedStartTime ?t" "icr_RequestedEndTime n = icr_RequestedEndTime ?t"
    "icr_AvailabilityQuoteID n = icr_AvailabilityQuoteID ?t"
    "icr_OperationKey n = icr_OperationKey ?t" "icr_SlotFingerprint n = icr_SlotFingerprint ?t"
    "icr_CustomerName n = icr_CustomerName ?t" "icr_CustomerPhone n = icr_CustomerPhone ?t"
    by (simp_all add: n)
  have units: "\<forall>segment \<in> set (icr_Segments ?t). ics_Quantity segment = 1
      \<and> validUUID (xe_UUIDParse env) (ics_ServiceID segment)
      \<and> validUUID (xe_UUIDParse env) (ics_StaffID segment)
      \<and> ics_RequestedStartTime segment < ics_RequestedEndTime segment
      \<and> ics_StaffSelectionMode segment \<in> {StaffSelectionSpecific, StaffSelectionAnyone}"
    using segments by (auto simp: list_all_iff internal_segment_ok_def)
  have f: "icr_RequestedStartTime ?t = Min (ics_RequestedStartTime ` set (icr_Segments ?t))"
    "icr_RequestedEndTime ?t = Max (ics_RequestedEndTime ` set (icr_Segments ?t))"
    "icr_OperationKey ?t \<noteq> []" "length (icr_OperationKey ?t) \<le> 256"
    "validUUID (xe_UUIDParse env) (icr_AvailabilityQuoteID ?t)"
    "length (icr_SlotFingerprint ?t) = 64" "list_all is_hex (icr_SlotFingerprint ?t)"
    "icr_CustomerName ?t \<noteq> []" "icr_CustomerPhone ?t \<noteq> []"
    using fields_ok by (simp_all add: create_fields_ok_def validFingerprint_def
        root_start_Min [OF ne] root_end_Max [OF ne])
  have op: "req_OperationType req = OperationKindBook" using shape by (simp add: create_shape_ok_def)
  show ?thesis
    unfolding Inr sum.case sel by (intro conjI op ne units guests f)
qed

section \<open>Confirmations\<close>

lemma operation_kinds_distinct [simp]:
  "OperationKindBook \<noteq> OperationKindReschedule" "OperationKindReschedule \<noteq> OperationKindBook"
  "OperationKindBook \<noteq> OperationKindCancel" "OperationKindCancel \<noteq> OperationKindBook"
  "OperationKindReschedule \<noteq> OperationKindCancel" "OperationKindCancel \<noteq> OperationKindReschedule"
  by (simp_all add: go_consts)

lemma lifecycle_normal:
  assumes "normalizeInternalLifecycleRequest env req = Inr n"
  shows "ilr_ExpectedTargetAuthorityAppointmentVersion n
      = req_ExpectedTargetAuthorityAppointmentVersion req"
    and "1 \<le> req_ExpectedTargetAuthorityAppointmentVersion req"
    and "req_OperationType req = OperationKindReschedule
      \<Longrightarrow> ilr_Segments n = map internal_segment (req_Segments req)"
    and "req_OperationType req = OperationKindCancel \<Longrightarrow> req_Segments req = []"
proof -
  note split = assms [unfolded normalizeInternalLifecycleRequest_def
      normalizeInternalCreateRequest_eq]
  show "ilr_ExpectedTargetAuthorityAppointmentVersion n
      = req_ExpectedTargetAuthorityAppointmentVersion req"
    using split by (auto simp: with_plan_def trimmed_lifecycle_def split: if_splits)
  show "1 \<le> req_ExpectedTargetAuthorityAppointmentVersion req"
    using split by (auto simp: lifecycle_fields_ok_def split: if_splits)
  show "req_OperationType req = OperationKindReschedule
      \<Longrightarrow> ilr_Segments n = map internal_segment (req_Segments req)"
    using split by (auto simp: with_plan_def trimmed_create_def plan_request_def split: if_splits)
  show "req_OperationType req = OperationKindCancel \<Longrightarrow> req_Segments req = []"
    using split by (auto simp: carries_plan_def split: if_splits)
qed

lemma execute_store_ok:
  assumes "execute_store env store salonID u req w = (Inr (created, segments, version), w')"
  shows "req_OperationType req \<in> {OperationKindBook, OperationKindReschedule, OperationKindCancel}"
    and "segments = map internal_segment (req_Segments req)"
    and "req_OperationType req \<noteq> OperationKindBook
      \<Longrightarrow> version = req_ExpectedTargetAuthorityAppointmentVersion req"
proof -
  consider (book) "req_OperationType req = OperationKindBook"
    | (reschedule) "req_OperationType req = OperationKindReschedule"
    | (cancel) "req_OperationType req = OperationKindCancel"
    using assms by (auto simp: execute_store_def split: if_splits)
  then have "req_OperationType req \<in> {OperationKindBook, OperationKindReschedule, OperationKindCancel}
    \<and> segments = map internal_segment (req_Segments req)
    \<and> (req_OperationType req \<noteq> OperationKindBook
       \<longrightarrow> version = req_ExpectedTargetAuthorityAppointmentVersion req)"
  proof cases
    case book
    then obtain n where "normalizeInternalCreateRequest env req = Inr n" "segments = icr_Segments n"
      using assms by (auto simp: execute_store_def split: sum.splits prod.splits)
    then show ?thesis using book
      by (auto simp: normalizeInternalCreateRequest_eq trimmed_create_def split: if_splits)
  next
    case reschedule
    then obtain n where n: "normalizeInternalLifecycleRequest env req = Inr n"
      "segments = ilr_Segments n" "version = ilr_ExpectedTargetAuthorityAppointmentVersion n"
      using assms by (auto simp: execute_store_def split: sum.splits prod.splits)
    then show ?thesis using reschedule lifecycle_normal [OF n(1)] by simp
  next
    case cancel
    then obtain n where n: "normalizeInternalLifecycleRequest env req = Inr n"
      "segments = []" "version = ilr_ExpectedTargetAuthorityAppointmentVersion n"
      using assms by (auto simp: execute_store_def split: sum.splits prod.splits)
    then show ?thesis using cancel lifecycle_normal [OF n(1)] by simp
  qed
  then show "req_OperationType req \<in> {OperationKindBook, OperationKindReschedule, OperationKindCancel}"
    "segments = map internal_segment (req_Segments req)"
    "req_OperationType req \<noteq> OperationKindBook
      \<Longrightarrow> version = req_ExpectedTargetAuthorityAppointmentVersion req" by blast+
qed

lemma ExecuteAction_calendar_ok:
  assumes "ExecuteAction_calendar env store salonID u req w = (Inr x, w')"
  obtains created replayed version where
    "execute_store env store salonID u req w
       = (Inr ((Some created, replayed), map internal_segment (req_Segments req), version), w')"
    "validInternalSchedulingResult (req_OperationType req) (Some created)
       (map internal_segment (req_Segments req)) version"
    "x = Some (confirmed_result (req_OperationType req) created replayed)"
proof -
  obtain created replayed segments version where
    run: "execute_store env store salonID u req w
       = (Inr ((created, replayed), segments, version), w')" and
    ok: "validInternalSchedulingResult (req_OperationType req) created segments version" and
    x: "x = Some (confirmed_result (req_OperationType req) (the created) replayed)"
    using assms by (auto simp: ExecuteAction_calendar_def split: prod.splits sum.splits if_splits)
  from ok obtain c where c: "created = Some c"
    by (cases created) (auto simp: validInternalSchedulingResult_def)
  have "segments = map internal_segment (req_Segments req)" by (rule execute_store_ok(2) [OF run])
  then show thesis using that run ok x unfolding c by simp
qed

interpretation calendar_executor: neutral_executor SchedulingAuthorityManleAICalendar
  ActionKindConfirmedAppointment "ExecuteAction_calendar env store"
  for env and store :: "'w ExecutionStore"
  by unfold_locales (auto simp: confirmed_result_def elim: ExecuteAction_calendar_ok)

text \<open>A child of a confirmation carries out one requested segment.\<close>

definition child_serves :: "ConfirmedAppointmentSegment \<Rightarrow> ActionSegment \<Rightarrow> bool" where
  "child_serves child segment \<longleftrightarrow>
     TrimSpace (cas_ServiceID child) = TrimSpace (seg_ServiceID segment)
     \<and> TrimSpace (cas_StaffID child) = TrimSpace (seg_StaffID segment)
     \<and> TrimSpace (cas_GuestReference child) = TrimSpace (seg_GuestReference segment)
     \<and> cas_ScheduledStartTime child = seg_RequestedStartTime segment
     \<and> cas_ScheduledEndTime child = seg_RequestedEndTime segment"

definition child_sound :: "ConfirmedAppointmentSegment \<Rightarrow> bool" where
  "child_sound child \<longleftrightarrow>
     cas_Quantity child = 1 \<and> cas_ScheduledStartTime child < cas_ScheduledEndTime child
     \<and> cas_OccupiedStartTime child \<le> cas_ScheduledStartTime child
     \<and> cas_ScheduledEndTime child \<le> cas_OccupiedEndTime child
     \<and> (\<forall>allocation \<in> set (cas_ResourceAllocations child). 0 < cra_UnitsAllocated allocation)"

lemma confirmed_child_serves:
  "internalSchedulingChildMatchesSegment child (internal_segment segment)
     \<Longrightarrow> child_serves (confirmed_child child) segment"
  by (simp add: internalSchedulingChildMatchesSegment_def internal_segment_def child_serves_def
      confirmed_child_def)

lemma confirmed_child_sound:
  "validInternalSchedulingChild child \<Longrightarrow> child_sound (confirmed_child child)"
  by (auto simp: validInternalSchedulingChild_def child_sound_def confirmed_child_def list_all_iff)

text \<open>
  C34: A confirmation of the internal calendar agrees with the request, whatever the store
  answers. It is a confirmed appointment of the calendar for the requested operation, with the
  status that operation promises; a booking starts at version 1, a reschedule or cancellation
  moves the expected target version by exactly one; a cancellation leaves no active child, any
  other operation exactly one child per requested segment, in order, with the requested service,
  staff, guest and times. Every child occupies at least its scheduled time. Otherwise the caller
  gets an error.
\<close>

theorem calendar_confirmation_matches_request:
  assumes "ExecuteAction_calendar env store salonID u req w = (Inr x, w')"
  shows "\<exists>r c. x = Some r \<and> act_ConfirmedAppointment r = Some c
    \<and> act_Kind r = ActionKindConfirmedAppointment
    \<and> act_SchedulingAuthority r = SchedulingAuthorityManleAICalendar
    \<and> act_OperationType r = req_OperationType req
    \<and> act_PendingOwnerReview r = None \<and> act_ExternalFallbackPending r = None
    \<and> TrimSpace (car_AppointmentID c) \<noteq> []
    \<and> car_AppointmentStatus c = promised_status (req_OperationType req)
    \<and> (if req_OperationType req = OperationKindBook
       then act_TargetAuthorityAppointmentVersion r = 0 \<and> act_AuthorityAppointmentVersion r = 1
       else act_TargetAuthorityAppointmentVersion r = req_ExpectedTargetAuthorityAppointmentVersion req
            \<and> act_AuthorityAppointmentVersion r
                = req_ExpectedTargetAuthorityAppointmentVersion req + 1)
    \<and> (if req_OperationType req = OperationKindCancel then car_ActiveChildCount c = 0
       else car_ActiveChildCount c = int (length (req_Segments req))
            \<and> list_all2 child_serves (car_Children c) (req_Segments req))
    \<and> list_all child_sound (car_Children c)"
proof -
  obtain created replayed version where
    run: "execute_store env store salonID u req w
       = (Inr ((Some created, replayed), map internal_segment (req_Segments req), version), w')" and
    ok: "validInternalSchedulingResult (req_OperationType req) (Some created)
       (map internal_segment (req_Segments req)) version" and
    x: "x = Some (confirmed_result (req_OperationType req) created replayed)"
    by (rule ExecuteAction_calendar_ok [OF assms])
  let ?op = "req_OperationType req"
  have op: "?op \<in> {OperationKindBook, OperationKindReschedule, OperationKindCancel}"
    and version: "?op \<noteq> OperationKindBook
      \<Longrightarrow> version = req_ExpectedTargetAuthorityAppointmentVersion req"
    using execute_store_ok [OF run] by blast+
  have checks: "TrimSpace (icx_AppointmentID created) \<noteq> []"
    "icx_AppointmentStatus created = expectedInternalAppointmentStatus ?op"
    "version_step_ok ?op created version"
    "list_all validInternalSchedulingChild (icx_Children created)"
    "?op \<noteq> OperationKindCancel \<Longrightarrow> list_all2 internalSchedulingChildMatchesSegment
       (icx_Children created) (map internal_segment (req_Segments req))"
    using ok by (simp_all add: validInternalSchedulingResult_def split: if_splits)
  have served: "list_all2 child_serves (map confirmed_child (icx_Children created)) (req_Segments req)"
    if "?op \<noteq> OperationKindCancel"
    using checks(5) [OF that] by (auto simp: list_all2_conv_all_nth confirmed_child_serves)
  have sound: "list_all child_sound (map confirmed_child (icx_Children created))"
    using checks(4) by (auto simp: list_all_iff confirmed_child_sound)
  have status: "expectedInternalAppointmentStatus ?op = promised_status ?op"
    using op by (auto simp: expectedInternalAppointmentStatus_def promised_status_def)
  have len: "length (icx_Children created) = length (req_Segments req)"
    if "?op \<noteq> OperationKindCancel"
    using served [OF that] by (auto dest: list_all2_lengthD)
  let ?r = "confirmed_result ?op created replayed"
  let ?c = "the (act_ConfirmedAppointment ?r)"
  have sel: "car_AppointmentID ?c = icx_AppointmentID created"
    "car_AppointmentStatus ?c = icx_AppointmentStatus created"
    "car_ActiveChildCount ?c = icx_ActiveChildCount created"
    "car_Children ?c = map confirmed_child (icx_Children created)"
    "act_TargetAuthorityAppointmentVersion ?r = icx_TargetAuthorityAppointmentVersion created"
    "act_AuthorityAppointmentVersion ?r = icx_AuthorityAppointmentVersion created"
    by (simp_all add: confirmed_result_def)
  have kind: "act_ConfirmedAppointment ?r = Some ?c" "act_Kind ?r = ActionKindConfirmedAppointment"
    "act_SchedulingAuthority ?r = SchedulingAuthorityManleAICalendar"
    "act_OperationType ?r = ?op" "act_PendingOwnerReview ?r = None"
    "act_ExternalFallbackPending ?r = None"
    by (simp_all add: confirmed_result_def)
  have versions: "if ?op = OperationKindBook
      then act_TargetAuthorityAppointmentVersion ?r = 0 \<and> act_AuthorityAppointmentVersion ?r = 1
      else act_TargetAuthorityAppointmentVersion ?r = req_ExpectedTargetAuthorityAppointmentVersion req
           \<and> act_AuthorityAppointmentVersion ?r
             = req_ExpectedTargetAuthorityAppointmentVersion req + 1"
    unfolding sel using checks(3) op version by (auto simp: version_step_ok_def split: if_splits)
  have children: "if ?op = OperationKindCancel then car_ActiveChildCount ?c = 0
      else car_ActiveChildCount ?c = int (length (req_Segments req))
           \<and> list_all2 child_serves (car_Children ?c) (req_Segments req)"
    unfolding sel using checks(3) op len served by (auto simp: version_step_ok_def split: if_splits)
  have ids: "TrimSpace (car_AppointmentID ?c) \<noteq> []" "car_AppointmentStatus ?c = promised_status ?op"
    "list_all child_sound (car_Children ?c)"
    unfolding sel using checks(1,2) status sound by simp_all
  show ?thesis
    by (rule exI [of _ ?r], rule exI [of _ ?c], intro conjI x kind ids versions children)
qed

text \<open>
  Target-aware availability never reaches the internal calendar. The executor normalises the
  request before it calls the store, and that normalisation rejects every request that names a
  target appointment, so the answer is \<open>ErrValidation\<close> and the store, which supports such requests,
  is not called.
\<close>

theorem target_availability_unreachable:
  assumes "TrimSpace (ar_TargetAppointmentID req) \<noteq> []"
  shows "CheckAvailability_calendar env store salonID u req w = (Inl ErrValidation, w)"
  using assms by (simp add: CheckAvailability_calendar_def normalizeAggregateAvailabilityRequest_def)

section \<open>Quotes\<close>

definition quoted_unit :: "quotedAggregateSegment \<Rightarrow> string \<times> string \<times> string \<times> string \<times> gotime \<times> gotime" where
  "quoted_unit q = (qs_ServiceID q, qs_StaffID q, qs_StaffSelectionMode q, qs_GuestReference q,
     qs_StartTime q, qs_EndTime q)"

definition requested_unit :: "InternalCreateSegment \<Rightarrow> string \<times> string \<times> string \<times> string \<times> gotime \<times> gotime" where
  "requested_unit s = (ics_ServiceID s, ics_StaffID s, ics_StaffSelectionMode s,
     ics_GuestReference s, ics_RequestedStartTime s, ics_RequestedEndTime s)"

lemma quoted_segments_match:
  assumes "length quoted = length requested"
  shows "list_all quoted_segment_matches (enumerate k (zip quoted requested)) \<longleftrightarrow>
    map qs_SortOrder quoted = map (\<lambda>i. int i + 1) [k..<k + length quoted]
    \<and> map quoted_unit quoted = map requested_unit requested
    \<and> list_all (\<lambda>segment. ics_Quantity segment = 1) requested"
  using assms
proof (induction quoted requested arbitrary: k rule: list_induct2)
  case (Cons q qs r rs)
  have "quoted_segment_matches (k, q, r) \<longleftrightarrow>
      qs_SortOrder q = int k + 1 \<and> quoted_unit q = requested_unit r \<and> ics_Quantity r = 1"
    by (auto simp: quoted_segment_matches_def quoted_unit_def requested_unit_def)
  then show ?case using Cons.IH [of "Suc k"] by (auto simp: upt_conv_Cons simp del: upt_Suc)
qed simp

text \<open>
  A quote is honoured only for the very slot it was given for. The create and the reschedule
  check accept a quote exactly when party size, range and the ordered single units (service,
  staff, selection mode, guest, start, end) of quote and request coincide and the quoted segments
  are numbered 1, 2, ... in order.
\<close>

theorem quote_matches_iff_same_slot:
  "(quoteMatchesAction quote req \<longleftrightarrow>
     qu_PartySize quote = icr_PartySize req \<and> qu_StartTime quote = icr_RequestedStartTime req
     \<and> qu_EndTime quote = icr_RequestedEndTime req
     \<and> map qs_SortOrder (qu_Segments quote) = map (\<lambda>i. int i + 1) [0..<length (qu_Segments quote)]
     \<and> map quoted_unit (qu_Segments quote) = map requested_unit (icr_Segments req)
     \<and> list_all (\<lambda>segment. ics_Quantity segment = 1) (icr_Segments req))
   \<and> (quoteMatchesLifecycleAction quote change \<longleftrightarrow>
        qu_PartySize quote = ilr_PartySize change \<and> qu_StartTime quote = ilr_RequestedStartTime change
        \<and> qu_EndTime quote = ilr_RequestedEndTime change
        \<and> map qs_SortOrder (qu_Segments quote) = map (\<lambda>i. int i + 1) [0..<length (qu_Segments quote)]
        \<and> map quoted_unit (qu_Segments quote) = map requested_unit (ilr_Segments change)
        \<and> list_all (\<lambda>segment. ics_Quantity segment = 1) (ilr_Segments change))"
proof -
  have match: "(length quoted = length requested
        \<and> list_all quoted_segment_matches (enumerate 0 (zip quoted requested))) \<longleftrightarrow>
      map qs_SortOrder quoted = map (\<lambda>i. int i + 1) [0..<length quoted]
      \<and> map quoted_unit quoted = map requested_unit requested
      \<and> list_all (\<lambda>segment. ics_Quantity segment = 1) requested" for quoted requested
  proof (cases "length quoted = length requested")
    case False
    then show ?thesis by (metis length_map)
  qed (simp add: quoted_segments_match)
  have guard: "(if a \<noteq> b \<or> l \<noteq> m \<or> c \<noteq> d \<or> e \<noteq> f then False else P) \<longleftrightarrow>
      a = b \<and> c = d \<and> e = f \<and> (l = m \<and> P)" for a b :: int and l m :: nat and c d e f :: gotime and P
    by auto
  show ?thesis
    unfolding quoteMatchesAction_def quoteMatchesLifecycleAction_def guard match by (intro conjI refl)
qed

end
