(* ===== verification/Scheduling_System.thy ===== *)
theory Scheduling_System
  imports Owner_Manual_Service Calendar_Executor
begin

text \<open>
  The executors as \<open>cmd/api/main.go\<close> wires them into the facade: the external provider behind
  \<open>modules/scheduling_external_provider/adapter.go\<close>, the owner-managed authority and the internal
  calendar. The theorems say what a caller of the assembled system can conclude from a result.
\<close>

section \<open>Wiring\<close>

text \<open>
  The adapter forwards every call to the booking service unchanged; the booking service is the
  \<open>LegacyExecutor\<close> it is built from.
\<close>

definition NewAdapter :: "'w LegacyExecutor \<Rightarrow> 'w Executor" where
  "NewAdapter service =
     \<lparr>ex_SchedulingAuthority = SchedulingAuthorityExternalProvider,
      ex_Legacy = Some \<lparr>lx_AvailableSlots = lx_AvailableSlots service, lx_Create = lx_Create service,
        lx_Reschedule = lx_Reschedule service, lx_Cancel = lx_Cancel service\<rparr>,
      ex_Neutral = None\<rparr>"

definition scheduling_executors ::
  "'w LegacyExecutor \<Rightarrow> OwnerHashes \<Rightarrow> 'w OwnerStore \<Rightarrow> 'w ExecutorEnv \<Rightarrow> 'w ExecutionStore
     \<Rightarrow> 'w Executor option list" where
  "scheduling_executors booking hashes owner_store env calendar_store =
     [Some (NewAdapter booking), Some (NewExecutor_owner hashes owner_store),
      Some (NewExecutor_calendar env calendar_store)]"

section \<open>Results of the assembled system\<close>

text \<open>
  In the assembled system a successful action always carries a result, and the authority
  written in it tells what happened: owner-managed scheduling only ever leaves pending owner work,
  the internal calendar a confirmed appointment, the external provider a confirmation with complete
  provider evidence or a pending attempt. When the action names an appointment, that authority is the
  one the appointment belongs to, so no authority ever changes an appointment of another.
\<close>

theorem authority_decides_result:
  assumes "ExecuteAction (NewService resolver
      (scheduling_executors booking hashes owner_store env calendar_store)) salonID u req w = (Inr x, w')"
  shows "\<exists>r. x = Some r
    \<and> (act_SchedulingAuthority r = SchedulingAuthorityOwnerManual
         \<and> act_Kind r = ActionKindPendingOwnerReview
       \<or> act_SchedulingAuthority r = SchedulingAuthorityManleAICalendar
         \<and> act_Kind r = ActionKindConfirmedAppointment
       \<or> act_SchedulingAuthority r = SchedulingAuthorityExternalProvider
         \<and> external_result_ok (req_OperationType req) r)
    \<and> (TrimSpace (action_target req) \<noteq> [] \<longrightarrow>
         rs_ResolveAppointmentSchedulingAuthority resolver salonID u (TrimSpace (action_target req)) w
           = Inr (act_SchedulingAuthority r))"
proof -
  obtain ex a where ex: "Some ex \<in> set (scheduling_executors booking hashes owner_store env calendar_store)"
    and run: "run_action ex salonID u (req\<lparr>req_TargetAuthority := a\<rparr>) w = (Inr x, w')"
    and target: "TrimSpace (action_target req) \<noteq> [] \<Longrightarrow>
       rs_ResolveAppointmentSchedulingAuthority resolver salonID u (TrimSpace (action_target req)) w
         = Inr (ex_SchedulingAuthority ex)"
    by (rule ExecuteAction_runs [OF assms]) blast
  consider "ex = NewAdapter booking" | "ex = NewExecutor_owner hashes owner_store"
    | "ex = NewExecutor_calendar env calendar_store"
    using ex by (auto simp: scheduling_executors_def)
  then show ?thesis
  proof cases
    case 1
    then have "executeLegacyAction ex salonID u (req\<lparr>req_TargetAuthority := a\<rparr>) w = (Inr x, w')"
      using run by (simp add: run_action_def NewAdapter_def)
    from legacy_action_ok [OF this] show ?thesis
      using target 1 by (auto simp: external_result_ok_def NewAdapter_def)
  next
    case 2
    from owner_executor.run_action_answers [OF run, of _ hashes owner_store] show ?thesis
      using target 2 by (auto simp: NewExecutor_owner_def)
  next
    case 3
    from calendar_executor.run_action_answers [OF run, of _ env calendar_store] show ?thesis
      using target 3 by (auto simp: NewExecutor_calendar_def)
  qed
qed

end
