(* ===== verification/Scheduling_Samples.thy ===== *)
theory Scheduling_Samples
  imports Scheduling_System
begin

text \<open>
  A concrete booking at the internal calendar, executed by the assembled scheduling system, at which
  the theorems of \<open>Calendar_Executor\<close> and \<open>Scheduling_System\<close> are applied. UUIDs are non-blank
  strings here and the fingerprints are constant; the store answers with the requested child.
\<close>

definition sample_action :: ActionRequest where
  "sample_action =
     \<lparr>req_OperationType = OperationKindBook, req_OperationKey = '' key-1 '',
      req_RetryOfAttemptID = [], req_AvailabilityQuoteID = ''quote'',
      req_SlotFingerprint = replicate 64 CHR ''a'',
      req_Source = ''ai_voice_call'', req_CallSessionID = [], req_CustomerName = ''Ada'',
      req_CustomerPhone = ''555'', req_CustomerEmail = [],
      req_Segments = [\<lparr>seg_ServiceID = ''gel'', seg_StaffID = ''an'',
        seg_StaffSelectionMode = [], seg_GuestReference = [], seg_Quantity = 0,
        seg_RequestedStartTime = 100, seg_RequestedEndTime = 160\<rparr>],
      req_RequestedStartTime = 100, req_RequestedEndTime = 160, req_RequestedTimezone = ''UTC'',
      req_PartySize = 0, req_Notes = [], req_TargetAppointmentID = [], req_TargetAuthority = [],
      req_ExpectedTargetAuthorityAppointmentVersion = 0, req_TargetDescription = []\<rparr>"

definition sample_executor_env :: "nat ExecutorEnv" where
  "sample_executor_env =
     \<lparr>xe_Now = (\<lambda>_. 50), xe_UUIDParse = (\<lambda>s. s \<noteq> []), xe_CreateHash = (\<lambda>_. ''h''),
      xe_LifecycleHash = (\<lambda>_. ''h'')\<rparr>"

definition sample_child :: InternalCreateSegmentResult where
  "sample_child =
     \<lparr>isr_AppointmentServiceID = ''child'', isr_GuestReference = [], isr_ServiceID = ''gel'',
      isr_StaffID = ''an'', isr_StaffSelectionMode = StaffSelectionSpecific, isr_Quantity = 1,
      isr_ScheduledStartTime = 100, isr_ScheduledEndTime = 160, isr_OccupiedStartTime = 90,
      isr_OccupiedEndTime = 170, isr_BufferBeforeMinutes = 0, isr_BufferAfterMinutes = 0,
      isr_ResourceAllocations = [\<lparr>ira_ResourcePoolID = ''chair'', ira_ResourceName = ''Chair'',
        ira_UnitsAllocated = 1\<rparr>]\<rparr>"

definition sample_execution_store :: "nat ExecutionStore" where
  "sample_execution_store =
     \<lparr>es_CheckAvailability = (\<lambda>_ _ _ _ w. (Inl ErrValidation, w)),
      es_CreateAppointment = (\<lambda>_ _ _ _ w. (Inr (Some \<lparr>icx_AppointmentID = ''appointment'',
         icx_BookingAttemptID = ''attempt'', icx_AppointmentStatus = StatusConfirmed,
         icx_TargetAuthorityAppointmentVersion = 0, icx_AuthorityAppointmentVersion = 1,
         icx_ActiveChildCount = 1, icx_Children = [sample_child]\<rparr>, False), Suc w)),
      es_RescheduleAppointment = (\<lambda>_ _ _ _ w. (Inl ErrValidation, w)),
      es_CancelAppointment = (\<lambda>_ _ _ _ w. (Inr (Some \<lparr>icx_AppointmentID = ''appointment'',
         icx_BookingAttemptID = ''attempt'', icx_AppointmentStatus = StatusCancelled,
         icx_TargetAuthorityAppointmentVersion = 1, icx_AuthorityAppointmentVersion = 2,
         icx_ActiveChildCount = 0, icx_Children = [sample_child]\<rparr>, False), Suc w))\<rparr>"

definition sample_confirmation :: ActionResult where
  "sample_confirmation = the (projr (fst (ExecuteAction_calendar sample_executor_env
     sample_execution_store ''salon'' ''owner'' sample_action 0)))"

lemma sample_confirmation_runs:
  "ExecuteAction_calendar sample_executor_env sample_execution_store ''salon'' ''owner''
     sample_action 0 = (Inr (Some sample_confirmation), 1)"
  by code_simp

definition sample_normalized :: InternalCreateRequest where
  "sample_normalized = projr (normalizeInternalCreateRequest sample_executor_env sample_action)"

lemma sample_normalizes:
  "normalizeInternalCreateRequest sample_executor_env sample_action = Inr sample_normalized"
  by code_simp

theorem accepted_booking_names_one_slot_witness:
  "icr_RequestedStartTime sample_normalized
     = Min (ics_RequestedStartTime ` set (icr_Segments sample_normalized))
   \<and> validUUID (xe_UUIDParse sample_executor_env) (icr_AvailabilityQuoteID sample_normalized)
   \<and> list_all is_hex (icr_SlotFingerprint sample_normalized)"
  using accepted_booking_names_one_slot [of sample_action sample_executor_env]
  unfolding sample_normalizes sum.case by blast

theorem calendar_confirmation_matches_request_witness:
  "\<exists>c. act_ConfirmedAppointment sample_confirmation = Some c
     \<and> list_all2 child_serves (car_Children c) (req_Segments sample_action)
     \<and> list_all child_sound (car_Children c)"
proof -
  have "req_OperationType sample_action \<noteq> OperationKindCancel" by code_simp
  then show ?thesis
    using calendar_confirmation_matches_request [OF sample_confirmation_runs] by auto
qed

definition sample_target_availability :: AvailabilityRequest where
  "sample_target_availability =
     \<lparr>ar_TargetAppointmentID = ''appointment'', ar_RetryOfAttemptID = [], ar_ServiceID = ''gel'',
      ar_StaffID = ''an'', ar_StaffSelectionMode = [], ar_Segments = [], ar_PartySize = 1,
      ar_PreferredDate = ''2022-01-03'', ar_Limit = 5\<rparr>"

theorem target_availability_unreachable_witness:
  "CheckAvailability_calendar sample_executor_env sample_execution_store ''salon'' ''owner''
     sample_target_availability 0 = (Inl ErrValidation, 0)"
proof (rule target_availability_unreachable)
  show "TrimSpace (ar_TargetAppointmentID sample_target_availability) \<noteq> []" by code_simp
qed

section \<open>The assembled system\<close>

definition sample_cancellation :: ActionRequest where
  "sample_cancellation = (sample_request OperationKindCancel)
     \<lparr>req_Source := ''owner'', req_PartySize := 0,
      req_ExpectedTargetAuthorityAppointmentVersion := 1\<rparr>"

definition sample_legacy :: "nat LegacyExecutor" where
  "sample_legacy = the (ex_Legacy sample_provider)"

definition sample_owner_hashes :: OwnerHashes where
  "sample_owner_hashes =
     \<lparr>oh_actionRequestFingerprint = (\<lambda>req. Inr (req_OperationKey req)),
      oh_transitionFingerprint = (\<lambda>t. Inr (tsr_ActionKey t))\<rparr>"

definition sample_owner_store :: "nat OwnerStore" where
  "sample_owner_store =
     \<lparr>os_SchedulingTargetReadinessFacts = (\<lambda>_ _ _. Inl ErrNotFound),
      os_CreateOrReplay = (\<lambda>_ _ _ _ w. (Inl ErrNotFound, w)),
      os_List = (\<lambda>_ _ _ _ _ _. Inl ErrNotFound), os_Get = (\<lambda>_ _ _ _. Inl ErrNotFound),
      os_Transition = (\<lambda>_ _ _ _ _ w. (Inl ErrNotFound, w))\<rparr>"

abbreviation sample_system :: "nat Service" where
  "sample_system \<equiv> NewService
     (sample_resolver None (calendar_policy BookingModeConfirmedBooking))
     (scheduling_executors sample_legacy sample_owner_hashes sample_owner_store
        sample_executor_env sample_execution_store)"

definition sample_cancelled :: ActionResult where
  "sample_cancelled = the (projr (fst
     (ExecuteAction sample_system ''salon'' ''owner'' sample_cancellation 0)))"

lemma sample_cancel_runs:
  "ExecuteAction sample_system ''salon'' ''owner'' sample_cancellation 0
     = (Inr (Some sample_cancelled), 1)"
  by code_simp

theorem authority_decides_result_witness:
  "act_SchedulingAuthority sample_cancelled = SchedulingAuthorityManleAICalendar
   \<and> act_Kind sample_cancelled = ActionKindConfirmedAppointment"
proof -
  have target: "TrimSpace (action_target sample_cancellation) \<noteq> []" by code_simp
  have "rs_ResolveAppointmentSchedulingAuthority
      (sample_resolver None (calendar_policy BookingModeConfirmedBooking)) ''salon'' ''owner''
      (TrimSpace (action_target sample_cancellation)) 0 = Inr SchedulingAuthorityManleAICalendar"
    by (simp add: sample_resolver_def)
  moreover have "SchedulingAuthorityManleAICalendar \<noteq> SchedulingAuthorityOwnerManual"
    "SchedulingAuthorityManleAICalendar \<noteq> SchedulingAuthorityExternalProvider" by code_simp+
  ultimately show ?thesis
    using authority_decides_result [OF sample_cancel_runs] target by auto
qed

end
