(* ===== verification/Owner_Manual_Repository.thy ===== *)
theory Owner_Manual_Repository
  imports Owner_Manual_Service Go_Time "HOL-Library.Product_Lexorder"
begin

text \<open>
  The store of the owner-managed authority, \<open>modules/scheduling_owner_manual/repository.go\<close>,
  over an explicit database state.

  \<^item> A table is the list of its rows in insertion order. A nullable text column is a string with
    \<open>[]\<close> for \<open>NULL\<close>: every statement writes it through \<open>NULLIF(x, '')\<close> or \<open>nullString\<close> and reads
    it through \<open>COALESCE(x, '')\<close>. A nullable timestamp is an \<open>option\<close>.
  \<^item> A transaction returns its error with the old state (\<open>defer tx.Rollback()\<close>) or its result with
    the new one. All writers of a salon hold the same advisory lock, so whole transactions are the
    steps of the system.
  \<^item> \<open>OwnerEnv\<close> holds what a call takes from outside: the access predicates of the database
    (tenant membership and platform grants), generated identifiers, the clocks, the JSON text of a
    payload.
  \<^item> The schema of \<open>migrations/V47\<close> takes part where it can reject a write: the unique call-session
    index, the range check, the deferred foreign key to the target appointment, and the trigger
    on the actor of an event. The lifecycle check is stated here and proved never to be violated.
\<close>

section \<open>Database state\<close>

record SettingsRow =
  set_SchedulingAuthority :: string
  set_SchedulingAuthorityVersion :: int
  set_BookingMode :: string

record SalonRow =
  sal_ID :: string
  sal_OwnerUserID :: string
  sal_Timezone :: string
  sal_Settings :: "SettingsRow option"

record ServiceRow =
  svr_ID :: string
  svr_SalonID :: string
  svr_Name :: string
  svr_DurationMinutes :: int
  svr_Active :: bool
  svr_AIBookable :: bool
  svr_ArchivedAt :: "gotime option"

record StaffRow =
  stf_ID :: string
  stf_SalonID :: string
  stf_Name :: string
  stf_Active :: bool
  stf_AIBookable :: bool
  stf_ArchivedAt :: "gotime option"

record RequestRow =
  rq_ID :: string
  rq_SalonID :: string
  rq_SchedulingAuthority :: string
  rq_OperationKey :: string
  rq_RequestFingerprint :: string
  rq_OperationType :: string
  rq_Status :: string
  rq_Version :: int
  rq_Source :: string
  rq_CallSessionID :: string
  rq_TargetAppointmentID :: string
  rq_TargetAuthority :: string
  rq_TargetDescription :: string
  rq_CustomerName :: string
  rq_CustomerPhone :: string
  rq_CustomerEmail :: string
  rq_RequestedTimezone :: string
  rq_PartySize :: int
  rq_RequestedStartTime :: "gotime option"
  rq_RequestedEndTime :: "gotime option"
  rq_Notes :: string
  rq_ResolutionReason :: string
  rq_ContactedAt :: "gotime option"
  rq_ResolvedAt :: "gotime option"
  rq_DismissedAt :: "gotime option"
  rq_RedactedAt :: "gotime option"
  rq_RedactionVersion :: int
  rq_CreatedAt :: gotime
  rq_UpdatedAt :: gotime

record SegmentRow =
  sg_ID :: string
  sg_SalonID :: string
  sg_SchedulingRequestID :: string
  sg_ServiceID :: string
  sg_ServiceName :: string
  sg_StaffID :: string
  sg_StaffName :: string
  sg_StaffSelectionMode :: string
  sg_GuestReference :: string
  sg_Quantity :: int
  sg_DurationMinutes :: int
  sg_RequestedStartTime :: "gotime option"
  sg_RequestedEndTime :: "gotime option"
  sg_SortOrder :: int
  sg_RedactedAt :: "gotime option"
  sg_RedactionVersion :: int
  sg_CreatedAt :: gotime

record EventRow =
  ev_ID :: string
  ev_SalonID :: string
  ev_SchedulingRequestID :: string
  ev_ActionKey :: string
  ev_ActionFingerprint :: string
  ev_EventType :: string
  ev_RequestVersion :: int
  ev_ActorUserID :: string
  ev_Payload :: string
  ev_RedactedAt :: "gotime option"
  ev_RedactionVersion :: int
  ev_CreatedAt :: gotime

record NotificationRow =
  nt_ID :: string
  nt_SalonID :: string
  nt_SchedulingRequestID :: string
  nt_Type :: string
  nt_Status :: string
  nt_Title :: string
  nt_Message :: string
  nt_DedupeKey :: string
  nt_Payload :: string
  nt_DeliveryStatus :: string

record OwnerDB =
  db_Salons :: "SalonRow list"
  db_Services :: "ServiceRow list"
  db_Staff :: "StaffRow list"
  db_CallSessions :: "(string \<times> string) list"
  db_Appointments :: "(string \<times> string) list"
  db_Requests :: "RequestRow list"
  db_Segments :: "SegmentRow list"
  db_Events :: "EventRow list"
  db_Notifications :: "NotificationRow list"

record OwnerEnv =
  env_MayAct :: "string \<Rightarrow> string \<Rightarrow> bool"
  env_MayRead :: "string \<Rightarrow> string \<Rightarrow> bool"
  env_IsMember :: "string \<Rightarrow> string \<Rightarrow> bool"
  env_UUID :: "nat \<Rightarrow> string"
  env_Now :: gotime
  env_DBNow :: gotime
  env_JSON :: "(string \<times> string) list \<Rightarrow> string"

definition ownerManualNotificationType :: string where [go_consts]:
  "ownerManualNotificationType = ''owner_manual_request_pending''"

definition nullTime :: "gotime \<Rightarrow> gotime option" where
  "nullTime value = (if value = 0 then None else Some value)"

section \<open>Reading\<close>

definition salon_row :: "OwnerDB \<Rightarrow> string \<Rightarrow> SalonRow option" where
  "salon_row db salonID = find (\<lambda>salon. sal_ID salon = salonID) (db_Salons db)"

definition eligible_service :: "string \<Rightarrow> ServiceRow \<Rightarrow> bool" where
  "eligible_service salonID service \<longleftrightarrow>
     svr_SalonID service = salonID \<and> svr_Active service \<and> svr_AIBookable service
     \<and> svr_ArchivedAt service = None \<and> svr_DurationMinutes service > 0"

definition eligible_staff_row :: "string \<Rightarrow> StaffRow \<Rightarrow> bool" where
  "eligible_staff_row salonID staff \<longleftrightarrow>
     stf_SalonID staff = salonID \<and> stf_Active staff \<and> stf_AIBookable staff
     \<and> stf_ArchivedAt staff = None"

definition SchedulingTargetReadinessFacts ::
  "OwnerEnv \<Rightarrow> string \<Rightarrow> string \<Rightarrow> OwnerDB \<Rightarrow> error + int \<times> int" where
  "SchedulingTargetReadinessFacts env salonID ownerUserID db =
     (case salon_row db salonID of
        None \<Rightarrow> Inl ErrNotFound
      | Some salon \<Rightarrow>
          (case sal_Settings salon of
             None \<Rightarrow> Inl ErrNotFound
           | Some settings \<Rightarrow>
               if \<not> env_MayRead env salonID ownerUserID then Inl ErrNotFound
               else Inr (set_SchedulingAuthorityVersion settings,
                         int (length (filter (eligible_service salonID) (db_Services db))))))"

definition scanRequest :: "RequestRow \<Rightarrow> SchedulingRequest" where
  "scanRequest row =
     \<lparr>sr_ID = rq_ID row, sr_SalonID = rq_SalonID row,
      sr_SchedulingAuthority = rq_SchedulingAuthority row, sr_OperationKey = rq_OperationKey row,
      sr_OperationType = rq_OperationType row, sr_Status = rq_Status row,
      sr_Version = rq_Version row, sr_Source = rq_Source row,
      sr_CallSessionID = rq_CallSessionID row,
      sr_TargetAppointmentID = rq_TargetAppointmentID row,
      sr_TargetAuthority = rq_TargetAuthority row,
      sr_TargetDescription = rq_TargetDescription row,
      sr_CustomerName = rq_CustomerName row, sr_CustomerPhone = rq_CustomerPhone row,
      sr_CustomerEmail = rq_CustomerEmail row,
      sr_RequestedStartTime = rq_RequestedStartTime row,
      sr_RequestedEndTime = rq_RequestedEndTime row,
      sr_RequestedTimezone = rq_RequestedTimezone row, sr_PartySize = rq_PartySize row,
      sr_Notes = rq_Notes row, sr_ResolutionReason = rq_ResolutionReason row,
      sr_Redacted = (rq_RedactedAt row \<noteq> None), sr_RedactedAt = rq_RedactedAt row,
      sr_RedactionVersion = rq_RedactionVersion row, sr_Segments = [], sr_Events = [],
      sr_ContactedAt = rq_ContactedAt row, sr_ResolvedAt = rq_ResolvedAt row,
      sr_DismissedAt = rq_DismissedAt row, sr_CreatedAt = rq_CreatedAt row,
      sr_UpdatedAt = rq_UpdatedAt row\<rparr>"

definition scan_segment :: "SegmentRow \<Rightarrow> SchedulingRequestSegment" where
  "scan_segment row =
     \<lparr>srs_ID = sg_ID row, srs_SchedulingRequestID = sg_SchedulingRequestID row,
      srs_ServiceID = sg_ServiceID row, srs_ServiceName = sg_ServiceName row,
      srs_StaffID = sg_StaffID row, srs_StaffName = sg_StaffName row,
      srs_StaffSelectionMode = sg_StaffSelectionMode row,
      srs_GuestReference = sg_GuestReference row, srs_Quantity = sg_Quantity row,
      srs_DurationMinutes = sg_DurationMinutes row,
      srs_RequestedStartTime = sg_RequestedStartTime row,
      srs_RequestedEndTime = sg_RequestedEndTime row, srs_SortOrder = sg_SortOrder row,
      srs_Redacted = (sg_RedactedAt row \<noteq> None), srs_RedactedAt = sg_RedactedAt row,
      srs_RedactionVersion = sg_RedactionVersion row, srs_CreatedAt = sg_CreatedAt row\<rparr>"

definition scan_event :: "EventRow \<Rightarrow> SchedulingRequestEvent" where
  "scan_event row =
     \<lparr>sre_ID = ev_ID row, sre_SchedulingRequestID = ev_SchedulingRequestID row,
      sre_ActionKey = ev_ActionKey row, sre_EventType = ev_EventType row,
      sre_RequestVersion = ev_RequestVersion row, sre_ActorUserID = ev_ActorUserID row,
      sre_Payload = ev_Payload row, sre_Redacted = (ev_RedactedAt row \<noteq> None),
      sre_RedactedAt = ev_RedactedAt row, sre_RedactionVersion = ev_RedactionVersion row,
      sre_CreatedAt = ev_CreatedAt row\<rparr>"

definition request_segments :: "OwnerDB \<Rightarrow> string \<Rightarrow> string \<Rightarrow> SegmentRow list" where
  "request_segments db salonID requestID =
     filter (\<lambda>s. sg_SalonID s = salonID \<and> sg_SchedulingRequestID s = requestID) (db_Segments db)"

definition request_events :: "OwnerDB \<Rightarrow> string \<Rightarrow> string \<Rightarrow> EventRow list" where
  "request_events db salonID requestID =
     filter (\<lambda>e. ev_SalonID e = salonID \<and> ev_SchedulingRequestID e = requestID) (db_Events db)"

definition hydrateRequest :: "OwnerDB \<Rightarrow> SchedulingRequest \<Rightarrow> SchedulingRequest" where
  "hydrateRequest db request =
     request\<lparr>sr_Segments := map scan_segment (sort_key (\<lambda>s. (sg_SortOrder s, sg_ID s))
               (request_segments db (sr_SalonID request) (sr_ID request))),
             sr_Events := map scan_event (sort_key (\<lambda>e. (ev_CreatedAt e, ev_ID e))
               (request_events db (sr_SalonID request) (sr_ID request)))\<rparr>"

definition request_row :: "OwnerDB \<Rightarrow> string \<Rightarrow> string \<Rightarrow> RequestRow option" where
  "request_row db salonID requestID =
     find (\<lambda>row. rq_ID row = requestID \<and> rq_SalonID row = salonID) (db_Requests db)"

definition may_act :: "OwnerEnv \<Rightarrow> OwnerDB \<Rightarrow> string \<Rightarrow> string \<Rightarrow> bool" where
  "may_act env db salonID ownerUserID \<longleftrightarrow>
     salon_row db salonID \<noteq> None \<and> env_MayAct env salonID ownerUserID"

definition lockRequestTx ::
  "OwnerEnv \<Rightarrow> OwnerDB \<Rightarrow> string \<Rightarrow> string \<Rightarrow> string \<Rightarrow> error + SchedulingRequest" where
  "lockRequestTx env db salonID ownerUserID requestID =
     (case request_row db salonID requestID of
        None \<Rightarrow> Inl ErrNotFound
      | Some row \<Rightarrow>
          if may_act env db salonID ownerUserID then Inr (scanRequest row) else Inl ErrNotFound)"

definition getRequest ::
  "OwnerEnv \<Rightarrow> OwnerDB \<Rightarrow> string \<Rightarrow> string \<Rightarrow> string \<Rightarrow> error + SchedulingRequest" where
  "getRequest env db salonID ownerUserID requestID =
     (case lockRequestTx env db salonID ownerUserID requestID of
        Inl err \<Rightarrow> Inl err
      | Inr request \<Rightarrow> Inr (hydrateRequest db request))"

fun get_all ::
  "OwnerEnv \<Rightarrow> OwnerDB \<Rightarrow> string \<Rightarrow> string \<Rightarrow> string list \<Rightarrow> error + SchedulingRequest list" where
  "get_all env db salonID ownerUserID [] = Inr []"
| "get_all env db salonID ownerUserID (requestID # ids) =
     (case getRequest env db salonID ownerUserID requestID of
        Inl err \<Rightarrow> Inl err
      | Inr request \<Rightarrow>
          (case get_all env db salonID ownerUserID ids of
             Inl err \<Rightarrow> Inl err
           | Inr items \<Rightarrow> Inr (request # items)))"

definition listed_ids :: "OwnerEnv \<Rightarrow> OwnerDB \<Rightarrow> string \<Rightarrow> string \<Rightarrow> string \<Rightarrow> string list" where
  "listed_ids env db salonID ownerUserID status =
     map rq_ID (rev (sort_key (\<lambda>row. (rq_CreatedAt row, rq_ID row))
       (filter (\<lambda>row. rq_SalonID row = salonID \<and> salon_row db salonID \<noteq> None
            \<and> env_IsMember env salonID ownerUserID \<and> (status = [] \<or> rq_Status row = status))
          (db_Requests db))))"

definition List_rows ::
  "OwnerEnv \<Rightarrow> string \<Rightarrow> string \<Rightarrow> string \<Rightarrow> int \<Rightarrow> int \<Rightarrow> OwnerDB
     \<Rightarrow> error + ListSchedulingRequestsResponse" where
  "List_rows env salonID ownerUserID status limit offset db =
     (let ids = take (nat (limit + 1)) (drop (nat offset)
                  (listed_ids env db salonID ownerUserID status));
          hasMore = int (length ids) > limit
      in if ids = [] \<and> \<not> (salon_row db salonID \<noteq> None \<and> env_IsMember env salonID ownerUserID)
         then Inl ErrNotFound
         else
           (case get_all env db salonID ownerUserID (if hasMore then take (nat limit) ids else ids) of
              Inl err \<Rightarrow> Inl err
            | Inr items \<Rightarrow>
                Inr \<lparr>lsr_SchedulingRequests = items, lsr_Limit = limit, lsr_Offset = offset,
                     lsr_HasMore = hasMore\<rparr>))"

section \<open>Creating a request\<close>

record segmentSnapshot =
  ss_ServiceID :: string
  ss_ServiceName :: string
  ss_StaffID :: string
  ss_StaffName :: string
  ss_StaffSelectionMode :: string
  ss_GuestReference :: string
  ss_Quantity :: int
  ss_DurationMinutes :: int
  ss_RequestedStartTime :: gotime
  ss_RequestedEndTime :: gotime

definition snapshot_staff_name :: "OwnerDB \<Rightarrow> string \<Rightarrow> ActionSegment \<Rightarrow> error + string" where
  "snapshot_staff_name db salonID input =
     (if seg_StaffSelectionMode input = StaffSelectionSpecific
      then (case find (\<lambda>staff. stf_ID staff = seg_StaffID input \<and> eligible_staff_row salonID staff)
                   (db_Staff db) of
              None \<Rightarrow> Inl ErrNotFound
            | Some staff \<Rightarrow> Inr (stf_Name staff))
      else Inr [])"

definition snapshot_segment ::
  "OwnerDB \<Rightarrow> string \<Rightarrow> gotime \<Rightarrow> ActionSegment \<Rightarrow> error + segmentSnapshot" where
  "snapshot_segment db salonID rootStart input =
     (case find (\<lambda>service. svr_ID service = seg_ServiceID input \<and> eligible_service salonID service)
             (db_Services db) of
        None \<Rightarrow> Inl ErrNotFound
      | Some service \<Rightarrow>
          (case snapshot_staff_name db salonID input of
             Inl err \<Rightarrow> Inl err
           | Inr staffName \<Rightarrow>
               let start = (if seg_RequestedStartTime input = 0 then rootStart
                            else seg_RequestedStartTime input);
                   stop = (if seg_RequestedEndTime input = 0 \<and> start \<noteq> 0
                           then start + svr_DurationMinutes service * ns_per_minute
                           else seg_RequestedEndTime input)
               in Inr \<lparr>ss_ServiceID = seg_ServiceID input, ss_ServiceName = svr_Name service,
                       ss_StaffID = seg_StaffID input, ss_StaffName = staffName,
                       ss_StaffSelectionMode = seg_StaffSelectionMode input,
                       ss_GuestReference = seg_GuestReference input,
                       ss_Quantity = seg_Quantity input,
                       ss_DurationMinutes = svr_DurationMinutes service,
                       ss_RequestedStartTime = start, ss_RequestedEndTime = stop\<rparr>))"

fun resolve_segments ::
  "OwnerDB \<Rightarrow> string \<Rightarrow> gotime \<Rightarrow> gotime \<Rightarrow> ActionSegment list
     \<Rightarrow> error + segmentSnapshot list \<times> gotime" where
  "resolve_segments db salonID rootStart requestEnd [] = Inr ([], requestEnd)"
| "resolve_segments db salonID rootStart requestEnd (input # rest) =
     (case snapshot_segment db salonID rootStart input of
        Inl err \<Rightarrow> Inl err
      | Inr snapshot \<Rightarrow>
          (case resolve_segments db salonID rootStart
                  (if ss_RequestedEndTime snapshot > requestEnd then ss_RequestedEndTime snapshot
                   else requestEnd) rest of
             Inl err \<Rightarrow> Inl err
           | Inr (snapshots, stop) \<Rightarrow> Inr (snapshot # snapshots, stop)))"

definition resolveSegmentSnapshots ::
  "OwnerDB \<Rightarrow> string \<Rightarrow> ActionRequest \<Rightarrow> error + segmentSnapshot list \<times> gotime" where
  "resolveSegmentSnapshots db salonID req =
     resolve_segments db salonID (req_RequestedStartTime req) 0 (req_Segments req)"

definition existing_request :: "OwnerDB \<Rightarrow> string \<Rightarrow> string \<Rightarrow> RequestRow option" where
  "existing_request db salonID operationKey =
     find (\<lambda>row. rq_SalonID row = salonID
             \<and> rq_SchedulingAuthority row = SchedulingAuthorityOwnerManual
             \<and> rq_OperationKey row = operationKey) (db_Requests db)"

definition authority_error :: "string \<Rightarrow> ActionRequest \<Rightarrow> error option" where
  "authority_error currentAuthority req =
     (if req_TargetAuthority req = [] \<and> currentAuthority \<noteq> SchedulingAuthorityOwnerManual
      then Some ErrSchedulingAuthorityNotReady
      else if req_TargetAuthority req \<noteq> [] \<and> req_TargetAuthority req \<noteq> currentAuthority
      then Some ErrOperationConflict
      else None)"

definition policy_error :: "SettingsRow \<Rightarrow> ActionRequest \<Rightarrow> error option" where
  "policy_error settings req =
     (if set_BookingMode settings \<noteq> BookingModePendingApproval
      then Some ErrSchedulingAuthorityNotReady
      else if req_OperationType req = OperationKindBook
           \<or> (req_OperationType req = OperationKindReschedule
              \<or> req_OperationType req = OperationKindCancel) \<and> req_TargetAppointmentID req = []
      then authority_error (set_SchedulingAuthority settings) req
      else None)"

definition call_session_missing :: "OwnerDB \<Rightarrow> string \<Rightarrow> ActionRequest \<Rightarrow> bool" where
  "call_session_missing db salonID req \<longleftrightarrow>
     req_CallSessionID req \<noteq> [] \<and> (req_CallSessionID req, salonID) \<notin> set (db_CallSessions db)"

definition new_request_row ::
  "OwnerEnv \<Rightarrow> string \<Rightarrow> ActionRequest \<Rightarrow> string \<Rightarrow> RequestRow" where
  "new_request_row env salonID req requestFingerprint =
     \<lparr>rq_ID = env_UUID env 0, rq_SalonID = salonID,
      rq_SchedulingAuthority = SchedulingAuthorityOwnerManual,
      rq_OperationKey = req_OperationKey req, rq_RequestFingerprint = requestFingerprint,
      rq_OperationType = req_OperationType req, rq_Status = SchedulingRequestStatusPending,
      rq_Version = 1, rq_Source = req_Source req, rq_CallSessionID = req_CallSessionID req,
      rq_TargetAppointmentID = req_TargetAppointmentID req,
      rq_TargetAuthority = req_TargetAuthority req,
      rq_TargetDescription = req_TargetDescription req,
      rq_CustomerName = req_CustomerName req, rq_CustomerPhone = req_CustomerPhone req,
      rq_CustomerEmail = req_CustomerEmail req,
      rq_RequestedTimezone = req_RequestedTimezone req, rq_PartySize = req_PartySize req,
      rq_RequestedStartTime = nullTime (req_RequestedStartTime req),
      rq_RequestedEndTime = nullTime (req_RequestedEndTime req), rq_Notes = req_Notes req,
      rq_ResolutionReason = [], rq_ContactedAt = None, rq_ResolvedAt = None,
      rq_DismissedAt = None, rq_RedactedAt = None, rq_RedactionVersion = 0,
      rq_CreatedAt = env_DBNow env, rq_UpdatedAt = env_DBNow env\<rparr>"

definition new_segment_row ::
  "OwnerEnv \<Rightarrow> string \<Rightarrow> string \<Rightarrow> nat \<Rightarrow> segmentSnapshot \<Rightarrow> SegmentRow" where
  "new_segment_row env salonID requestID i segment =
     \<lparr>sg_ID = env_UUID env (Suc i), sg_SalonID = salonID, sg_SchedulingRequestID = requestID,
      sg_ServiceID = ss_ServiceID segment, sg_ServiceName = ss_ServiceName segment,
      sg_StaffID = ss_StaffID segment, sg_StaffName = ss_StaffName segment,
      sg_StaffSelectionMode = ss_StaffSelectionMode segment,
      sg_GuestReference = ss_GuestReference segment, sg_Quantity = ss_Quantity segment,
      sg_DurationMinutes = ss_DurationMinutes segment,
      sg_RequestedStartTime = nullTime (ss_RequestedStartTime segment),
      sg_RequestedEndTime = nullTime (ss_RequestedEndTime segment), sg_SortOrder = int i + 1,
      sg_RedactedAt = None, sg_RedactionVersion = 0, sg_CreatedAt = env_DBNow env\<rparr>"

definition new_segment_rows ::
  "OwnerEnv \<Rightarrow> string \<Rightarrow> string \<Rightarrow> segmentSnapshot list \<Rightarrow> SegmentRow list" where
  "new_segment_rows env salonID requestID segments =
     map (\<lambda>(i, segment). new_segment_row env salonID requestID i segment)
       (enumerate 0 segments)"

definition requestCreatedActorUserID :: "string \<Rightarrow> string \<Rightarrow> string" where
  "requestCreatedActorUserID source ownerUserID =
     (if source = SourceOwnerDashboard then ownerUserID else [])"

definition created_event ::
  "OwnerEnv \<Rightarrow> string \<Rightarrow> string \<Rightarrow> ActionRequest \<Rightarrow> string \<Rightarrow> nat \<Rightarrow> EventRow" where
  "created_event env salonID ownerUserID req requestFingerprint n =
     \<lparr>ev_ID = env_UUID env (n + 1), ev_SalonID = salonID,
      ev_SchedulingRequestID = env_UUID env 0,
      ev_ActionKey = ''request-created:'' @ req_OperationKey req,
      ev_ActionFingerprint = requestFingerprint,
      ev_EventType = SchedulingRequestEventCreated, ev_RequestVersion = 1,
      ev_ActorUserID = requestCreatedActorUserID (req_Source req) ownerUserID,
      ev_Payload = env_JSON env
        [(''operation_type'', req_OperationType req), (''source'', req_Source req),
         (''status'', SchedulingRequestStatusPending),
         (''target_scheduling_authority'', req_TargetAuthority req)],
      ev_RedactedAt = None, ev_RedactionVersion = 0, ev_CreatedAt = env_DBNow env\<rparr>"

definition pending_notification ::
  "OwnerEnv \<Rightarrow> string \<Rightarrow> ActionRequest \<Rightarrow> nat \<Rightarrow> NotificationRow" where
  "pending_notification env salonID req n =
     \<lparr>nt_ID = env_UUID env (n + 2), nt_SalonID = salonID, nt_SchedulingRequestID = env_UUID env 0,
      nt_Type = ownerManualNotificationType, nt_Status = ''pending'',
      nt_Title = ''Scheduling request needs owner review'',
      nt_Message = ''A customer scheduling request is waiting for owner review.'',
      nt_DedupeKey = ''owner-manual-request-pending:'' @ env_UUID env 0,
      nt_Payload = env_JSON env
        [(''operation_type'', req_OperationType req),
         (''scheduling_authority'', SchedulingAuthorityOwnerManual),
         (''target_scheduling_authority'', req_TargetAuthority req),
         (''scheduling_request_id'', env_UUID env 0),
         (''status'', SchedulingRequestStatusPending)],
      nt_DeliveryStatus = ''queued''\<rparr>"

definition add_notification :: "NotificationRow \<Rightarrow> NotificationRow list \<Rightarrow> NotificationRow list" where
  "add_notification row rows =
     (if list_ex (\<lambda>r. nt_SalonID r = nt_SalonID row \<and> nt_DedupeKey r = nt_DedupeKey row) rows
      then rows else rows @ [row])"

text \<open>The schema constraints that can reject the rows of a new request.\<close>

definition requested_range_check :: "RequestRow \<Rightarrow> bool" where
  "requested_range_check row =
     (case rq_RequestedEndTime row of
        None \<Rightarrow> True
      | Some stop \<Rightarrow>
          (case rq_RequestedStartTime row of None \<Rightarrow> False | Some start \<Rightarrow> stop > start))"

definition call_session_taken :: "OwnerDB \<Rightarrow> RequestRow \<Rightarrow> bool" where
  "call_session_taken db row \<longleftrightarrow>
     rq_CallSessionID row \<noteq> []
     \<and> list_ex (\<lambda>r. rq_CallSessionID r = rq_CallSessionID row) (db_Requests db)"

definition segment_names_check :: "SegmentRow \<Rightarrow> bool" where
  "segment_names_check row \<longleftrightarrow>
     list_ex (\<lambda>c. c \<noteq> CHR '' '') (sg_ServiceName row)
     \<and> (sg_StaffSelectionMode row = StaffSelectionSpecific
        \<longrightarrow> list_ex (\<lambda>c. c \<noteq> CHR '' '') (sg_StaffName row))"

definition event_actor_ok :: "OwnerDB \<Rightarrow> EventRow \<Rightarrow> bool" where
  "event_actor_ok db event \<longleftrightarrow>
     ev_ActorUserID event = []
     \<or> list_ex (\<lambda>salon. sal_ID salon = ev_SalonID event
                      \<and> sal_OwnerUserID salon = ev_ActorUserID event) (db_Salons db)"

definition target_exists :: "OwnerDB \<Rightarrow> RequestRow \<Rightarrow> bool" where
  "target_exists db row \<longleftrightarrow>
     rq_TargetAppointmentID row = []
     \<or> (rq_TargetAppointmentID row, rq_SalonID row) \<in> set (db_Appointments db)"

definition replay_request ::
  "OwnerEnv \<Rightarrow> OwnerDB \<Rightarrow> string \<Rightarrow> string \<Rightarrow> RequestRow \<Rightarrow> string
     \<Rightarrow> (error + SchedulingRequest option \<times> bool) \<times> OwnerDB" where
  "replay_request env db salonID ownerUserID row requestFingerprint =
     (if rq_RequestFingerprint row \<noteq> requestFingerprint then (Inl ErrOperationConflict, db)
      else
        (case getRequest env db salonID ownerUserID (rq_ID row) of
           Inl err \<Rightarrow> (Inl err, db)
         | Inr request \<Rightarrow> (Inr (Some request, True), db)))"

definition inserted_db ::
  "OwnerEnv \<Rightarrow> OwnerDB \<Rightarrow> string \<Rightarrow> string \<Rightarrow> ActionRequest \<Rightarrow> string \<Rightarrow> segmentSnapshot list
     \<Rightarrow> OwnerDB" where
  "inserted_db env db salonID ownerUserID req requestFingerprint segments =
     db\<lparr>db_Requests := db_Requests db @ [new_request_row env salonID req requestFingerprint],
        db_Segments := db_Segments db @ new_segment_rows env salonID (env_UUID env 0) segments,
        db_Events := db_Events db @
          [created_event env salonID ownerUserID req requestFingerprint (length segments)],
        db_Notifications := add_notification
          (pending_notification env salonID req (length segments)) (db_Notifications db)\<rparr>"

definition insert_request ::
  "OwnerEnv \<Rightarrow> OwnerDB \<Rightarrow> string \<Rightarrow> string \<Rightarrow> ActionRequest \<Rightarrow> string \<Rightarrow> segmentSnapshot list
     \<Rightarrow> (error + SchedulingRequest option \<times> bool) \<times> OwnerDB" where
  "insert_request env db salonID ownerUserID req requestFingerprint segments =
     (let row = new_request_row env salonID req requestFingerprint;
          segmentRows = new_segment_rows env salonID (rq_ID row) segments;
          event = created_event env salonID ownerUserID req requestFingerprint (length segments);
          db' = inserted_db env db salonID ownerUserID req requestFingerprint segments
      in if \<not> requested_range_check row
         then (Inl (StoreError ''scheduling_requests_requested_range_check''), db)
         else
           (case existing_request db salonID (req_OperationKey req) of
              Some existing \<Rightarrow>
                replay_request env db salonID ownerUserID existing requestFingerprint
            | None \<Rightarrow>
                if call_session_taken db row
                then (Inl (StoreError ''idx_scheduling_requests_call_session''), db)
                else if \<not> list_all segment_names_check segmentRows
                then (Inl (StoreError ''scheduling_request_segments_check''), db)
                else if \<not> event_actor_ok db event
                then (Inl (StoreError ''scheduling_request_events_actor_owner_guard''), db)
                else
                  (case getRequest env db' salonID ownerUserID (rq_ID row) of
                     Inl err \<Rightarrow> (Inl err, db)
                   | Inr request \<Rightarrow>
                       if \<not> target_exists db row
                       then (Inl (StoreError ''scheduling_requests_target_appointment_tenant_fk''), db)
                       else (Inr (Some request, False), db'))))"

definition CreateOrReplay ::
  "OwnerEnv \<Rightarrow> string \<Rightarrow> string \<Rightarrow> ActionRequest \<Rightarrow> string
     \<Rightarrow> (OwnerDB, SchedulingRequest option \<times> bool) call" where
  "CreateOrReplay env salonID ownerUserID req requestFingerprint db =
     (case (if may_act env db salonID ownerUserID
            then existing_request db salonID (req_OperationKey req) else None) of
        Some existing \<Rightarrow> replay_request env db salonID ownerUserID existing requestFingerprint
      | None \<Rightarrow>
          (case (if may_act env db salonID ownerUserID then salon_row db salonID else None) of
             None \<Rightarrow> (Inl ErrNotFound, db)
           | Some salon \<Rightarrow>
               (case sal_Settings salon of
                  None \<Rightarrow> (Inl ErrNotFound, db)
                | Some settings \<Rightarrow>
                    (case policy_error settings req of
                       Some err \<Rightarrow> (Inl err, db)
                     | None \<Rightarrow>
                         if req_RequestedTimezone req \<noteq> sal_Timezone salon
                         then (Inl ErrInvalidSchedulingAction, db)
                         else if call_session_missing db salonID req then (Inl ErrNotFound, db)
                         else
                           (case resolveSegmentSnapshots db salonID req of
                              Inl err \<Rightarrow> (Inl err, db)
                            | Inr (segments, requestedEndTime) \<Rightarrow>
                                insert_request env db salonID ownerUserID
                                  (if req_RequestedEndTime req = 0
                                   then req\<lparr>req_RequestedEndTime := requestedEndTime\<rparr> else req)
                                  requestFingerprint segments)))))"

section \<open>Moving a request\<close>

definition transitionAllowed :: "string \<Rightarrow> string \<Rightarrow> bool" where
  "transitionAllowed from_status to_status =
     (if from_status = SchedulingRequestStatusPending
      then to_status = SchedulingRequestStatusContacted \<or> to_status = SchedulingRequestStatusResolved
        \<or> to_status = SchedulingRequestStatusDismissed
      else if from_status = SchedulingRequestStatusContacted
      then to_status = SchedulingRequestStatusResolved \<or> to_status = SchedulingRequestStatusDismissed
      else False)"

definition is_terminal :: "string \<Rightarrow> bool" where
  "is_terminal status \<longleftrightarrow>
     status = SchedulingRequestStatusResolved \<or> status = SchedulingRequestStatusDismissed"

definition transition_row ::
  "OwnerEnv \<Rightarrow> TransitionSchedulingRequest \<Rightarrow> RequestRow \<Rightarrow> RequestRow" where
  "transition_row env req row =
     row\<lparr>rq_Status := tsr_Status req, rq_Version := rq_Version row + 1,
         rq_ResolutionReason := (if is_terminal (tsr_Status req) then tsr_ResolutionReason req else []),
         rq_ContactedAt := (if tsr_Status req = SchedulingRequestStatusContacted
                            then (case rq_ContactedAt row of None \<Rightarrow> Some (env_Now env)
                                                          | Some t \<Rightarrow> Some t)
                            else rq_ContactedAt row),
         rq_ResolvedAt := (if tsr_Status req = SchedulingRequestStatusResolved
                           then Some (env_Now env) else None),
         rq_DismissedAt := (if tsr_Status req = SchedulingRequestStatusDismissed
                            then Some (env_Now env) else None),
         rq_UpdatedAt := env_Now env\<rparr>"

definition update_matches ::
  "string \<Rightarrow> string \<Rightarrow> TransitionSchedulingRequest \<Rightarrow> RequestRow \<Rightarrow> bool" where
  "update_matches salonID requestID req row \<longleftrightarrow>
     rq_ID row = requestID \<and> rq_SalonID row = salonID \<and> rq_Version row = tsr_ExpectedVersion req"

definition transition_event ::
  "OwnerEnv \<Rightarrow> string \<Rightarrow> string \<Rightarrow> string \<Rightarrow> SchedulingRequest \<Rightarrow> TransitionSchedulingRequest \<Rightarrow> string
     \<Rightarrow> EventRow" where
  "transition_event env salonID ownerUserID requestID current req actionFingerprint =
     \<lparr>ev_ID = env_UUID env 0, ev_SalonID = salonID, ev_SchedulingRequestID = requestID,
      ev_ActionKey = tsr_ActionKey req, ev_ActionFingerprint = actionFingerprint,
      ev_EventType = SchedulingRequestEventStatusChanged,
      ev_RequestVersion = sr_Version current + 1, ev_ActorUserID = ownerUserID,
      ev_Payload = env_JSON env
        [(''from_status'', sr_Status current), (''note'', tsr_Note req),
         (''resolution_reason'', tsr_ResolutionReason req), (''to_status'', tsr_Status req)],
      ev_RedactedAt = None, ev_RedactionVersion = 0, ev_CreatedAt = env_DBNow env\<rparr>"

definition action_event :: "OwnerDB \<Rightarrow> string \<Rightarrow> string \<Rightarrow> string \<Rightarrow> EventRow option" where
  "action_event db salonID requestID actionKey =
     find (\<lambda>event. ev_ActionKey event = actionKey) (request_events db salonID requestID)"

definition moved_db ::
  "OwnerEnv \<Rightarrow> OwnerDB \<Rightarrow> string \<Rightarrow> string \<Rightarrow> string \<Rightarrow> SchedulingRequest
     \<Rightarrow> TransitionSchedulingRequest \<Rightarrow> string \<Rightarrow> OwnerDB" where
  "moved_db env db salonID ownerUserID requestID current req actionFingerprint =
     db\<lparr>db_Requests := map (\<lambda>row. if update_matches salonID requestID req row
                                 then transition_row env req row else row) (db_Requests db),
        db_Events := db_Events db @
          [transition_event env salonID ownerUserID requestID current req actionFingerprint]\<rparr>"

definition apply_transition ::
  "OwnerEnv \<Rightarrow> OwnerDB \<Rightarrow> string \<Rightarrow> string \<Rightarrow> string \<Rightarrow> SchedulingRequest
     \<Rightarrow> TransitionSchedulingRequest \<Rightarrow> string
     \<Rightarrow> (error + SchedulingRequest option \<times> bool) \<times> OwnerDB" where
  "apply_transition env db salonID ownerUserID requestID current req actionFingerprint =
     (let event = transition_event env salonID ownerUserID requestID current req actionFingerprint;
          db' = moved_db env db salonID ownerUserID requestID current req actionFingerprint
      in if length (filter (update_matches salonID requestID req) (db_Requests db)) \<noteq> 1
         then (Inl (StoreError ''expected one scheduling request row''), db)
         else if \<not> event_actor_ok db event
         then (Inl (StoreError ''scheduling_request_events_actor_owner_guard''), db)
         else
           (case getRequest env db' salonID ownerUserID requestID of
              Inl err \<Rightarrow> (Inl err, db)
            | Inr request \<Rightarrow> (Inr (Some request, False), db')))"

definition Transition_row ::
  "OwnerEnv \<Rightarrow> string \<Rightarrow> string \<Rightarrow> string \<Rightarrow> TransitionSchedulingRequest \<Rightarrow> string
     \<Rightarrow> (OwnerDB, SchedulingRequest option \<times> bool) call" where
  "Transition_row env salonID ownerUserID requestID req actionFingerprint db =
     (case lockRequestTx env db salonID ownerUserID requestID of
        Inl err \<Rightarrow> (Inl err, db)
      | Inr current \<Rightarrow>
          (case action_event db salonID requestID (tsr_ActionKey req) of
             Some event \<Rightarrow>
               if ev_ActionFingerprint event \<noteq> actionFingerprint
               then (Inl ErrOperationConflict, db)
               else
                 (case getRequest env db salonID ownerUserID requestID of
                    Inl err \<Rightarrow> (Inl err, db)
                  | Inr request \<Rightarrow> (Inr (Some request, True), db))
           | None \<Rightarrow>
               if sr_Version current \<noteq> tsr_ExpectedVersion req
               then (Inl ErrSchedulingRequestVersion, db)
               else if is_terminal (sr_Status current) then (Inl ErrSchedulingRequestTerminal, db)
               else if \<not> transitionAllowed (sr_Status current) (tsr_Status req)
               then (Inl ErrSchedulingRequestTransition, db)
               else apply_transition env db salonID ownerUserID requestID current req
                      actionFingerprint))"

definition Repository :: "OwnerEnv \<Rightarrow> OwnerDB OwnerStore" where
  "Repository env =
     \<lparr>os_SchedulingTargetReadinessFacts = SchedulingTargetReadinessFacts env,
      os_CreateOrReplay = CreateOrReplay env, os_List = List_rows env,
      os_Get = (\<lambda>salonID ownerUserID requestID db. getRequest env db salonID ownerUserID requestID),
      os_Transition = Transition_row env\<rparr>"

section \<open>What an operation does to the tables\<close>

lemma salon_row_inserted [simp]:
  "salon_row (inserted_db env db salonID u req fp segments) = salon_row db"
  "salon_row (moved_db env db salonID u requestID current t fp) = salon_row db"
  by (simp_all add: fun_eq_iff salon_row_def inserted_db_def moved_db_def)

lemma may_act_inserted [simp]:
  "may_act e (inserted_db env db salonID u req fp segments) = may_act e db"
  "may_act e (moved_db env db salonID u requestID current t fp) = may_act e db"
  by (simp_all add: fun_eq_iff may_act_def)

lemma replay_request_world [simp]: "snd (replay_request env db salonID u row fp) = db"
  by (simp add: replay_request_def split: sum.split)

lemma CreateOrReplay_cases:
  assumes "CreateOrReplay env salonID u req fp db = (result, db')"
  obtains "db' = db" "\<And>r. result \<noteq> Inr (r, False)"
  | segments req' request where
      "existing_request db salonID (req_OperationKey req) = None"
      "req_OperationKey req' = req_OperationKey req"
      "db' = inserted_db env db salonID u req' fp segments"
      "getRequest env db' salonID u (env_UUID env 0) = Inr request"
      "result = Inr (Some request, False)"
proof (cases "\<exists>r. result = Inr (r, False)")
  case False
  have "db' = db"
    using assms False unfolding CreateOrReplay_def insert_request_def replay_request_def Let_def
    by (auto split: option.splits sum.splits prod.splits if_splits)
  then show thesis using False that(1) by blast
next
  case True
  then obtain r where r: "result = Inr (r, False)" by blast
  let ?r' = "\<lambda>stop. if req_RequestedEndTime req = 0 then req\<lparr>req_RequestedEndTime := stop\<rparr> else req"
  have replay: "replay_request env db salonID u row fp \<noteq> (result, db')" for row
    using r by (auto simp: replay_request_def split: sum.split)
  from assms r have act: "may_act env db salonID u"
    by (auto simp: CreateOrReplay_def split: if_splits)
  with assms replay have none: "existing_request db salonID (req_OperationKey req) = None"
    by (auto simp: CreateOrReplay_def split: option.splits)
  from assms act none r obtain segments stop where
    ins: "insert_request env db salonID u (?r' stop) fp segments = (result, db')"
    unfolding CreateOrReplay_def
    by (auto split: option.splits sum.splits prod.splits if_splits)
  have key: "req_OperationKey (?r' stop) = req_OperationKey req" by simp
  from ins none key r obtain request where
    "db' = inserted_db env db salonID u (?r' stop) fp segments"
    "getRequest env db' salonID u (env_UUID env 0) = Inr request"
    "result = Inr (Some request, False)"
    unfolding insert_request_def Let_def
    by (auto simp: new_request_row_def split: option.splits sum.splits prod.splits if_splits)
  then show thesis using that(2) [OF none key] by blast
qed

lemma Transition_row_cases:
  assumes "Transition_row env salonID u requestID req fp db = (result, db')"
  obtains "db' = db" "\<And>r. result \<noteq> Inr (r, False)"
  | current request where
      "lockRequestTx env db salonID u requestID = Inr current"
      "action_event db salonID requestID (tsr_ActionKey req) = None"
      "sr_Version current = tsr_ExpectedVersion req" "\<not> is_terminal (sr_Status current)"
      "transitionAllowed (sr_Status current) (tsr_Status req)"
      "length (filter (update_matches salonID requestID req) (db_Requests db)) = 1"
      "db' = moved_db env db salonID u requestID current req fp"
      "getRequest env db' salonID u requestID = Inr request"
      "result = Inr (Some request, False)"
proof (cases "\<exists>r. result = Inr (r, False)")
  case False
  have "db' = db"
    using assms False unfolding Transition_row_def apply_transition_def Let_def
    by (auto split: option.splits sum.splits if_splits)
  then show thesis using False that(1) by blast
next
  case True
  then show thesis
    using assms unfolding Transition_row_def apply_transition_def Let_def
    by (auto intro: that(2) split: option.splits sum.splits if_splits)
qed

section \<open>The ledger of requests\<close>

definition lifecycle_check :: "RequestRow \<Rightarrow> bool" where
  "lifecycle_check row \<longleftrightarrow>
     rq_Status row = SchedulingRequestStatusPending \<and> rq_ContactedAt row = None
       \<and> rq_ResolvedAt row = None \<and> rq_DismissedAt row = None \<and> rq_ResolutionReason row = []
     \<or> rq_Status row = SchedulingRequestStatusContacted \<and> rq_ContactedAt row \<noteq> None
       \<and> rq_ResolvedAt row = None \<and> rq_DismissedAt row = None \<and> rq_ResolutionReason row = []
     \<or> rq_Status row = SchedulingRequestStatusResolved \<and> rq_ResolvedAt row \<noteq> None
       \<and> rq_DismissedAt row = None
     \<or> rq_Status row = SchedulingRequestStatusDismissed \<and> rq_ResolvedAt row = None
       \<and> rq_DismissedAt row \<noteq> None"

definition event_log :: "OwnerDB \<Rightarrow> RequestRow \<Rightarrow> EventRow list" where
  "event_log db row = request_events db (rq_SalonID row) (rq_ID row)"

definition log_ok :: "EventRow list \<Rightarrow> int \<Rightarrow> bool" where
  "log_ok events version \<longleftrightarrow>
     map ev_RequestVersion events = [1..version]
     \<and> map ev_EventType events =
         SchedulingRequestEventCreated
           # replicate (nat (version - 1)) SchedulingRequestEventStatusChanged
     \<and> distinct (map ev_ActionKey events)"

definition row_ok :: "RequestRow \<Rightarrow> bool" where
  "row_ok row \<longleftrightarrow>
     rq_SchedulingAuthority row = SchedulingAuthorityOwnerManual \<and> lifecycle_check row
     \<and> (rq_Status row = SchedulingRequestStatusPending \<longrightarrow> rq_Version row = 1)
     \<and> (rq_Status row = SchedulingRequestStatusContacted \<longrightarrow> rq_Version row = 2)
     \<and> (is_terminal (rq_Status row) \<longrightarrow>
          rq_ResolutionReason row \<noteq> [] \<and> 2 \<le> rq_Version row \<and> rq_Version row \<le> 3)"

definition ledger_ok :: "OwnerDB \<Rightarrow> bool" where
  "ledger_ok db \<longleftrightarrow>
     distinct (map rq_ID (db_Requests db))
     \<and> distinct (map (\<lambda>row. (rq_SalonID row, rq_OperationKey row)) (db_Requests db))
     \<and> (\<forall>row \<in> set (db_Requests db). row_ok row \<and> log_ok (event_log db row) (rq_Version row))
     \<and> (\<forall>event \<in> set (db_Events db). \<exists>row \<in> set (db_Requests db).
          rq_SalonID row = ev_SalonID event \<and> rq_ID row = ev_SchedulingRequestID event)"

lemma status_distinct [simp]:
  "SchedulingRequestStatusPending \<noteq> SchedulingRequestStatusContacted"
  "SchedulingRequestStatusPending \<noteq> SchedulingRequestStatusResolved"
  "SchedulingRequestStatusPending \<noteq> SchedulingRequestStatusDismissed"
  "SchedulingRequestStatusContacted \<noteq> SchedulingRequestStatusPending"
  "SchedulingRequestStatusContacted \<noteq> SchedulingRequestStatusResolved"
  "SchedulingRequestStatusContacted \<noteq> SchedulingRequestStatusDismissed"
  "SchedulingRequestStatusResolved \<noteq> SchedulingRequestStatusPending"
  "SchedulingRequestStatusResolved \<noteq> SchedulingRequestStatusContacted"
  "SchedulingRequestStatusResolved \<noteq> SchedulingRequestStatusDismissed"
  "SchedulingRequestStatusDismissed \<noteq> SchedulingRequestStatusPending"
  "SchedulingRequestStatusDismissed \<noteq> SchedulingRequestStatusContacted"
  "SchedulingRequestStatusDismissed \<noteq> SchedulingRequestStatusResolved"
  by (simp_all add: go_consts)

lemma log_ok_created: "log_ok [created_event env salonID u req fp n] 1"
  by (simp add: log_ok_def created_event_def)

lemma log_ok_moved:
  assumes "log_ok events (sr_Version current)" "1 \<le> sr_Version current"
    and "tsr_ActionKey t \<notin> ev_ActionKey ` set events"
  shows "log_ok (events @ [transition_event env salonID u requestID current t fp])
           (sr_Version current + 1)"
proof -
  let ?v = "sr_Version current"
  have "[1..?v + 1] = [1..?v] @ [?v + 1]" using assms(2) by (simp add: upto_rec2)
  moreover have "nat (?v + 1 - 1) = Suc (nat (?v - 1))" using assms(2) by linarith
  ultimately show ?thesis using assms
    by (simp add: log_ok_def transition_event_def replicate_append_same [symmetric])
qed

lemma new_row_ok: "row_ok (new_request_row env salonID req fp)"
  by (simp add: row_ok_def new_request_row_def lifecycle_check_def is_terminal_def)

lemma moved_row_ok:
  assumes "row_ok row" "\<not> is_terminal (rq_Status row)"
    and "transitionAllowed (rq_Status row) (tsr_Status t)"
    and "is_terminal (tsr_Status t) \<longrightarrow> tsr_ResolutionReason t \<noteq> []"
  shows "row_ok (transition_row env t row)"
  using assms
  by (auto simp: row_ok_def transition_row_def lifecycle_check_def is_terminal_def
      transitionAllowed_def split: if_splits option.splits)

lemma request_row_SomeD:
  "request_row db salonID requestID = Some row
     \<Longrightarrow> row \<in> set (db_Requests db) \<and> rq_ID row = requestID \<and> rq_SalonID row = salonID"
  by (auto simp: request_row_def find_Some_iff)

lemma lockRequestTx_ok:
  assumes "lockRequestTx env db salonID u requestID = Inr current"
  obtains row where "row \<in> set (db_Requests db)" "rq_ID row = requestID" "rq_SalonID row = salonID"
    "current = scanRequest row" "request_row db salonID requestID = Some row"
    "may_act env db salonID u"
  using assms request_row_SomeD [of db salonID requestID]
  by (auto simp: lockRequestTx_def split: option.splits if_splits)

lemma existing_request_None:
  "existing_request db salonID key = None \<longleftrightarrow>
     (\<forall>row \<in> set (db_Requests db). \<not> (rq_SalonID row = salonID
        \<and> rq_SchedulingAuthority row = SchedulingAuthorityOwnerManual \<and> rq_OperationKey row = key))"
  by (auto simp: existing_request_def find_None_iff)

lemma ledger_ok_insert:
  assumes ok: "ledger_ok db" and fresh: "env_UUID env 0 \<notin> rq_ID ` set (db_Requests db)"
    and none: "existing_request db salonID (req_OperationKey req) = None"
  shows "ledger_ok (inserted_db env db salonID u req fp segments)"
proof -
  let ?row = "new_request_row env salonID req fp"
  let ?event = "created_event env salonID u req fp (length segments)"
  let ?db = "inserted_db env db salonID u req fp segments"
  have old_log: "event_log ?db row = event_log db row" if "row \<in> set (db_Requests db)" for row
    using that fresh by (auto simp: event_log_def request_events_def inserted_db_def created_event_def)
  have "request_events db salonID (env_UUID env 0) = []"
    using ok fresh unfolding ledger_ok_def request_events_def
    by (auto simp: filter_empty_conv) (metis imageI)
  then have new_log: "event_log ?db ?row = [?event]"
    by (simp add: event_log_def request_events_def inserted_db_def new_request_row_def
        created_event_def)
  have rows: "db_Requests ?db = db_Requests db @ [?row]" and
    events: "db_Events ?db = db_Events db @ [?event]" by (simp_all add: inserted_db_def)
  have "\<forall>row \<in> set (db_Requests db). (rq_SalonID row, rq_OperationKey row) \<noteq> (salonID, req_OperationKey req)"
    using none ok by (auto simp: existing_request_None ledger_ok_def row_ok_def)
  then have keys: "distinct (map (\<lambda>row. (rq_SalonID row, rq_OperationKey row)) (db_Requests ?db))"
    using ok by (auto simp: rows ledger_ok_def new_request_row_def)
  have ids: "distinct (map rq_ID (db_Requests ?db))"
    using ok fresh by (auto simp: rows ledger_ok_def new_request_row_def)
  have each: "row_ok row \<and> log_ok (event_log ?db row) (rq_Version row)"
    if "row \<in> set (db_Requests ?db)" for row
    using that ok old_log new_log new_row_ok log_ok_created
    by (auto simp: rows ledger_ok_def) (simp add: new_request_row_def log_ok_created)
  have refs: "\<exists>row \<in> set (db_Requests ?db). rq_SalonID row = ev_SalonID event
      \<and> rq_ID row = ev_SchedulingRequestID event" if "event \<in> set (db_Events ?db)" for event
    using that ok by (auto simp: rows events ledger_ok_def new_request_row_def created_event_def)
  show ?thesis using ids keys each refs by (auto simp: ledger_ok_def)
qed

lemma transition_row_core [simp]:
  "rq_ID (transition_row env t row) = rq_ID row"
  "rq_SalonID (transition_row env t row) = rq_SalonID row"
  "rq_OperationKey (transition_row env t row) = rq_OperationKey row"
  "rq_RequestFingerprint (transition_row env t row) = rq_RequestFingerprint row"
  "rq_SchedulingAuthority (transition_row env t row) = rq_SchedulingAuthority row"
  "rq_Version (transition_row env t row) = rq_Version row + 1"
  "rq_Status (transition_row env t row) = tsr_Status t"
  by (simp_all add: transition_row_def)

lemma scanRequest_core [simp]:
  "sr_ID (scanRequest row) = rq_ID row"
  "sr_SalonID (scanRequest row) = rq_SalonID row"
  "sr_Version (scanRequest row) = rq_Version row"
  "sr_Status (scanRequest row) = rq_Status row"
  by (simp_all add: scanRequest_def)

lemma action_event_None:
  "action_event db salonID requestID key = None \<longleftrightarrow>
     key \<notin> ev_ActionKey ` set (request_events db salonID requestID)"
  by (auto simp: action_event_def find_None_iff)

lemma unique_row:
  assumes "ledger_ok db" "row \<in> set (db_Requests db)" "row' \<in> set (db_Requests db)"
    "rq_ID row = rq_ID row'"
  shows "row = row'"
  using assms by (auto simp: ledger_ok_def distinct_map dest: inj_onD)

lemma row_ok_version: "row_ok row \<Longrightarrow> 1 \<le> rq_Version row"
  by (auto simp: row_ok_def lifecycle_check_def is_terminal_def)

lemma ledger_ok_move:
  assumes ok: "ledger_ok db"
    and lock: "lockRequestTx env db salonID u requestID = Inr current"
    and fresh: "action_event db salonID requestID (tsr_ActionKey t) = None"
    and version: "sr_Version current = tsr_ExpectedVersion t"
    and allowed: "\<not> is_terminal (sr_Status current)"
      "transitionAllowed (sr_Status current) (tsr_Status t)"
    and reason: "is_terminal (tsr_Status t) \<longrightarrow> tsr_ResolutionReason t \<noteq> []"
  shows "ledger_ok (moved_db env db salonID u requestID current t fp)"
proof -
  obtain row where row: "row \<in> set (db_Requests db)" "rq_ID row = requestID" "rq_SalonID row = salonID"
    "current = scanRequest row" using lockRequestTx_ok [OF lock] by metis
  let ?db = "moved_db env db salonID u requestID current t fp"
  let ?event = "transition_event env salonID u requestID current t fp"
  let ?f = "\<lambda>r. if update_matches salonID requestID t r then transition_row env t r else r"
  have match: "update_matches salonID requestID t r \<longleftrightarrow> r = row" if "r \<in> set (db_Requests db)" for r
    using that row version unique_row [OF ok that row(1)] by (auto simp: update_matches_def)
  have rows: "db_Requests ?db = map ?f (db_Requests db)" and
    events: "db_Events ?db = db_Events db @ [?event]" by (simp_all add: moved_db_def)
  have log_row: "event_log ?db (?f row) = event_log db row @ [?event]"
    using row by (simp add: event_log_def request_events_def moved_db_def transition_event_def)
  have log_other: "event_log ?db r = event_log db r" if "r \<in> set (db_Requests db)" "r \<noteq> row" for r
    using that row unique_row [OF ok that(1) row(1)]
    by (auto simp: event_log_def request_events_def moved_db_def transition_event_def)
  have "log_ok (event_log db row) (rq_Version row)" "row_ok row"
    using ok row(1) by (auto simp: ledger_ok_def)
  then have log_moved: "log_ok (event_log ?db (?f row)) (rq_Version row + 1)"
    using log_ok_moved [of "event_log db row" current t env salonID u requestID fp] fresh row
      row_ok_version [of row] unfolding log_row
    by (simp add: action_event_None event_log_def)
  have moved: "row_ok (transition_row env t row)"
    using moved_row_ok [OF \<open>row_ok row\<close> _ _ reason, of env] allowed row(4) by simp
  have each: "row_ok r' \<and> log_ok (event_log ?db r') (rq_Version r')"
    if "r' \<in> set (db_Requests ?db)" for r'
  proof -
    from that obtain r where r: "r \<in> set (db_Requests db)" "r' = ?f r" by (auto simp: rows)
    show ?thesis
    proof (cases "r = row")
      case True
      then show ?thesis using moved log_moved match [OF row(1)] r(2) by simp
    next
      case False
      then show ?thesis using ok r match [OF r(1)] log_other [OF r(1) False]
        by (simp add: ledger_ok_def)
    qed
  qed
  have ids: "map rq_ID (db_Requests ?db) = map rq_ID (db_Requests db)"
    and keys: "map (\<lambda>row. (rq_SalonID row, rq_OperationKey row)) (db_Requests ?db)
      = map (\<lambda>row. (rq_SalonID row, rq_OperationKey row)) (db_Requests db)"
    by (simp_all add: rows)
  have refs: "\<exists>r \<in> set (db_Requests ?db). rq_SalonID r = ev_SalonID event
      \<and> rq_ID r = ev_SchedulingRequestID event" if e: "event \<in> set (db_Events ?db)" for event
  proof -
    from e consider "event \<in> set (db_Events db)" | "event = ?event" by (auto simp: moved_db_def)
    then have "\<exists>r \<in> set (db_Requests db). rq_SalonID r = ev_SalonID event
        \<and> rq_ID r = ev_SchedulingRequestID event"
      using ok row by cases (auto simp: ledger_ok_def transition_event_def)
    then obtain r where r: "r \<in> set (db_Requests db)" "rq_SalonID r = ev_SalonID event"
      "rq_ID r = ev_SchedulingRequestID event" by blast
    from r(1) have "?f r \<in> set (db_Requests ?db)" unfolding rows set_map by (rule imageI)
    then show ?thesis by (rule bexI [rotated]) (use r in simp)
  qed
  show ?thesis using ok each refs by (auto simp: ledger_ok_def ids keys)
qed

section \<open>Steps\<close>

text \<open>
  A step is one call of the service by anyone, with whatever clock, access and identifiers it
  happens to get, or any change to the other tables (settings, catalogue, calls, appointments,
  notification delivery). A generated primary key is new.
\<close>

inductive owner_step :: "OwnerHashes \<Rightarrow> OwnerDB \<Rightarrow> OwnerDB \<Rightarrow> bool" for hashes where
  create: "env_UUID env 0 \<notin> rq_ID ` set (db_Requests db)
    \<Longrightarrow> CreateRequest hashes (Repository env) salonID u req db = (result, db')
    \<Longrightarrow> owner_step hashes db db'"
| move: "Transition hashes (Repository env) salonID u requestID t db = (result, db')
    \<Longrightarrow> owner_step hashes db db'"
| elsewhere: "db_Requests db' = db_Requests db \<Longrightarrow> db_Segments db' = db_Segments db
    \<Longrightarrow> db_Events db' = db_Events db \<Longrightarrow> owner_step hashes db db'"

lemma Repository_sel [simp]:
  "os_CreateOrReplay (Repository env) = CreateOrReplay env"
  "os_Transition (Repository env) = Transition_row env"
  "os_List (Repository env) = List_rows env"
  "os_SchedulingTargetReadinessFacts (Repository env) = SchedulingTargetReadinessFacts env"
  by (simp_all add: Repository_def)

lemma CreateRequest_repository:
  "CreateRequest hashes (Repository env) salonID u req db =
     (case normalizeActionRequest req of
        Inl err \<Rightarrow> (Inl err, db)
      | Inr normalized \<Rightarrow>
          (case oh_actionRequestFingerprint hashes normalized of
             Inl err \<Rightarrow> (Inl err, db)
           | Inr fp \<Rightarrow> CreateOrReplay env salonID u normalized fp db))"
  unfolding CreateRequest_def Repository_sel ..

lemma Transition_repository:
  "Transition hashes (Repository env) salonID u requestID raw db =
     (if \<not> transition_ok requestID (trim_transition raw) then (Inl ErrInvalidSchedulingAction, db)
      else
        (case oh_transitionFingerprint hashes (trim_transition raw) of
           Inl err \<Rightarrow> (Inl err, db)
         | Inr fp \<Rightarrow> Transition_row env salonID u (TrimSpace requestID) (trim_transition raw) fp db))"
  unfolding Transition_def Let_def Repository_sel ..

lemma transition_ok_reason:
  "transition_ok requestID t \<Longrightarrow> is_terminal (tsr_Status t) \<longrightarrow> tsr_ResolutionReason t \<noteq> []"
  by (auto simp: transition_ok_def is_terminal_def)

text \<open>The three ways the request tables change.\<close>

inductive table_change :: "OwnerDB \<Rightarrow> OwnerDB \<Rightarrow> bool" where
  same: "db_Requests db' = db_Requests db \<Longrightarrow> db_Events db' = db_Events db \<Longrightarrow> table_change db db'"
| inserted: "env_UUID env 0 \<notin> rq_ID ` set (db_Requests db)
    \<Longrightarrow> existing_request db salonID (req_OperationKey req) = None
    \<Longrightarrow> table_change db (inserted_db env db salonID u req fp segments)"
| moved: "lockRequestTx env db salonID u requestID = Inr current
    \<Longrightarrow> action_event db salonID requestID (tsr_ActionKey t) = None
    \<Longrightarrow> sr_Version current = tsr_ExpectedVersion t \<Longrightarrow> \<not> is_terminal (sr_Status current)
    \<Longrightarrow> transitionAllowed (sr_Status current) (tsr_Status t)
    \<Longrightarrow> is_terminal (tsr_Status t) \<longrightarrow> tsr_ResolutionReason t \<noteq> []
    \<Longrightarrow> table_change db (moved_db env db salonID u requestID current t fp)"

lemma owner_step_table_change:
  assumes "owner_step hashes db db'"
  shows "table_change db db'"
  using assms
proof cases
  case (create env salonID u req result)
  show ?thesis
  proof (cases "db' = db")
    case True
    then show ?thesis by (simp add: table_change.same)
  next
    case False
    with create(2) obtain normalized fp where
      "CreateOrReplay env salonID u normalized fp db = (result, db')"
      by (auto simp: CreateRequest_repository split: sum.splits)
    then show ?thesis
    proof (cases rule: CreateOrReplay_cases)
      case 1
      with False show ?thesis by simp
    next
      case (2 segments req' request)
      then show ?thesis using table_change.inserted [OF create(1)] by metis
    qed
  qed
next
  case (move env salonID u requestID t result)
  show ?thesis
  proof (cases "db' = db")
    case True
    then show ?thesis by (simp add: table_change.same)
  next
    case False
    with move obtain fp where ok: "transition_ok requestID (trim_transition t)" and
      "Transition_row env salonID u (TrimSpace requestID) (trim_transition t) fp db = (result, db')"
      by (auto simp: Transition_repository split: sum.splits if_splits)
    from this(2) show ?thesis
    proof (cases rule: Transition_row_cases)
      case 1
      with False show ?thesis by simp
    next
      case (2 current request)
      then show ?thesis using table_change.moved [OF 2(1-5) transition_ok_reason [OF ok]] by simp
    qed
  qed
qed (rule table_change.same)

lemma event_log_cong:
  "db_Events db' = db_Events db \<Longrightarrow> event_log db' row = event_log db row"
  by (simp add: event_log_def request_events_def)

lemma ledger_ok_change: "table_change db db' \<Longrightarrow> ledger_ok db \<Longrightarrow> ledger_ok db'"
proof (induction rule: table_change.induct)
  case (same db' db)
  then show ?case by (simp add: ledger_ok_def event_log_cong [OF same(2)])
qed (simp_all add: ledger_ok_insert ledger_ok_move)

lemma ledger_ok_reachable:
  "(owner_step hashes)\<^sup>*\<^sup>* db db' \<Longrightarrow> ledger_ok db \<Longrightarrow> ledger_ok db'"
  by (induction rule: rtranclp_induct) (auto dest: owner_step_table_change ledger_ok_change)

text \<open>
  C31: Whatever the service is asked, from an empty ledger the stored requests stay consistent:
  identifiers and the pair of salon and operation key are unique, every row satisfies the lifecycle
  constraint of the schema (so no update is ever rejected by it), the audit events of a request are
  exactly its versions 1, 2, ... in order, the first one \<open>request_created\<close> and the rest
  \<open>status_changed\<close>, each under its own action key, and every event belongs to a stored request. A
  pending request has version 1, a contacted one version 2, a closed one version 2 or 3 and a
  reason.
\<close>

theorem owner_ledger_invariant:
  assumes "(owner_step hashes)\<^sup>*\<^sup>* db0 db" and "db_Requests db0 = []" and "db_Events db0 = []"
  shows "ledger_ok db"
  using ledger_ok_reachable [OF assms(1)] assms(2,3) by (simp add: ledger_ok_def)

section \<open>How a stored request evolves\<close>

definition row_evolves :: "RequestRow \<Rightarrow> RequestRow \<Rightarrow> bool" where
  "row_evolves row row' \<longleftrightarrow>
     rq_ID row' = rq_ID row \<and> rq_SalonID row' = rq_SalonID row
     \<and> rq_SchedulingAuthority row' = rq_SchedulingAuthority row
     \<and> rq_OperationKey row' = rq_OperationKey row
     \<and> rq_RequestFingerprint row' = rq_RequestFingerprint row
     \<and> rq_Version row \<le> rq_Version row'
     \<and> (is_terminal (rq_Status row) \<or> rq_Version row' = rq_Version row \<longrightarrow> row' = row)"

lemma row_evolves_refl [simp, intro]: "row_evolves row row"
  by (simp add: row_evolves_def)

lemma row_evolves_trans:
  assumes "row_evolves a b" and "row_evolves b c"
  shows "row_evolves a c"
proof -
  have "c = a" if "is_terminal (rq_Status a) \<or> rq_Version c = rq_Version a"
  proof -
    have "is_terminal (rq_Status a) \<or> rq_Version b = rq_Version a"
      using that assms unfolding row_evolves_def by linarith
    then have b: "b = a" using assms(1) unfolding row_evolves_def by blast
    then show ?thesis using that assms(2) unfolding b row_evolves_def by blast
  qed
  then show ?thesis using assms unfolding row_evolves_def by auto
qed

lemma table_change_evolves:
  assumes "table_change db db'" "ledger_ok db" "row \<in> set (db_Requests db)"
  shows "\<exists>row' \<in> set (db_Requests db'). row_evolves row row'"
  using assms
proof (induction rule: table_change.induct)
  case (moved env db salonID u requestID current t fp)
  let ?row' = "if update_matches salonID requestID t row then transition_row env t row else row"
  obtain locked where locked: "locked \<in> set (db_Requests db)" "rq_ID locked = requestID"
    "current = scanRequest locked" using lockRequestTx_ok [OF moved.hyps(1)] by metis
  have "row_evolves row ?row'"
  proof (cases "update_matches salonID requestID t row")
    case True
    then have "row = locked"
      using unique_row [OF moved.prems(1) moved.prems(2) locked(1)] locked(2)
      by (simp add: update_matches_def)
    with True moved.hyps(4) locked(3) show ?thesis by (simp add: row_evolves_def)
  qed simp
  moreover have "?row' \<in> set (db_Requests (moved_db env db salonID u requestID current t fp))"
    using moved.prems(2) by (simp add: moved_db_def)
  ultimately show ?case by blast
qed (auto simp: inserted_db_def)

lemma table_change_events: "table_change db db' \<Longrightarrow> set (db_Events db) \<subseteq> set (db_Events db')"
  by (induction rule: table_change.induct) (auto simp: inserted_db_def moved_db_def)

lemma reachable_evolves:
  assumes "(owner_step hashes)\<^sup>*\<^sup>* db db'" "ledger_ok db" "row \<in> set (db_Requests db)"
  shows "\<exists>row' \<in> set (db_Requests db'). row_evolves row row'"
  using assms(1)
proof (induction rule: rtranclp_induct)
  case base
  then show ?case using assms(3) by blast
next
  case (step db1 db2)
  then obtain row1 where r1: "row1 \<in> set (db_Requests db1)" "row_evolves row row1" by blast
  have "ledger_ok db1" using ledger_ok_reachable step.hyps(1) assms(2) by blast
  with r1 step.hyps(2) obtain row2 where "row2 \<in> set (db_Requests db2)" "row_evolves row1 row2"
    using table_change_evolves owner_step_table_change by blast
  with r1(2) show ?case using row_evolves_trans by blast
qed

lemma reachable_events:
  "(owner_step hashes)\<^sup>*\<^sup>* db db' \<Longrightarrow> set (db_Events db) \<subseteq> set (db_Events db')"
  by (induction rule: rtranclp_induct) (auto dest: owner_step_table_change table_change_events)

lemma request_row_of_member:
  assumes "ledger_ok db" "row \<in> set (db_Requests db)"
  shows "request_row db (rq_SalonID row) (rq_ID row) = Some row"
proof (cases "request_row db (rq_SalonID row) (rq_ID row)")
  case None
  then show ?thesis using assms(2) by (auto simp: request_row_def find_None_iff)
next
  case (Some found)
  then show ?thesis using request_row_SomeD [OF Some] unique_row [OF assms(1) _ assms(2)] by auto
qed

lemma getRequest_of_member:
  assumes "ledger_ok db" "row \<in> set (db_Requests db)" "may_act env db (rq_SalonID row) u"
  shows "getRequest env db (rq_SalonID row) u (rq_ID row) = Inr (hydrateRequest db (scanRequest row))"
  using assms by (simp add: getRequest_def lockRequestTx_def request_row_of_member)

lemma existing_request_SomeD:
  "existing_request db salonID key = Some row \<Longrightarrow> row \<in> set (db_Requests db) \<and> rq_SalonID row = salonID
     \<and> rq_SchedulingAuthority row = SchedulingAuthorityOwnerManual \<and> rq_OperationKey row = key"
  by (auto simp: existing_request_def find_Some_iff)

lemma existing_request_of_member:
  assumes "ledger_ok db" "row \<in> set (db_Requests db)"
  shows "existing_request db (rq_SalonID row) (rq_OperationKey row) = Some row"
proof (cases "existing_request db (rq_SalonID row) (rq_OperationKey row)")
  case None
  then show ?thesis using assms by (auto simp: existing_request_None ledger_ok_def row_ok_def)
next
  case (Some found)
  have "inj_on (\<lambda>row. (rq_SalonID row, rq_OperationKey row)) (set (db_Requests db))"
    using assms(1) by (simp add: ledger_ok_def distinct_map)
  then show ?thesis using existing_request_SomeD [OF Some] assms(2) Some by (auto dest: inj_onD)
qed

section \<open>The contract of the store\<close>

text \<open>
  What the service needs of its store to be safe under retries: a fresh create binds the operation
  key of the salon to the new request and the fingerprint, the binding never changes, and a create
  under a bound key returns that request or refuses.
\<close>

locale request_store =
  fixes store :: "'e \<Rightarrow> 'w OwnerStore"
    and allowed :: "'e \<Rightarrow> 'w \<Rightarrow> string \<Rightarrow> string \<Rightarrow> bool"
    and bound :: "'w \<Rightarrow> string \<Rightarrow> string \<Rightarrow> (string \<times> string) option"
    and valid :: "'w \<Rightarrow> bool"
    and later :: "'w \<Rightarrow> 'w \<Rightarrow> bool"
  assumes created_bound:
      "os_CreateOrReplay (store e) salonID u req fp w = (Inr (Some r, False), w')
         \<Longrightarrow> bound w' salonID (req_OperationKey req) = Some (sr_ID r, fp)"
    and replay_same:
      "valid w \<Longrightarrow> allowed e w salonID u
         \<Longrightarrow> bound w salonID (req_OperationKey req) = Some (i, fp)
         \<Longrightarrow> \<exists>r. os_CreateOrReplay (store e) salonID u req fp w = (Inr (Some r, True), w)
                \<and> sr_ID r = i"
    and replay_other:
      "valid w \<Longrightarrow> allowed e w salonID u
         \<Longrightarrow> bound w salonID (req_OperationKey req) = Some (i, fp') \<Longrightarrow> fp' \<noteq> fp
         \<Longrightarrow> os_CreateOrReplay (store e) salonID u req fp w = (Inl ErrOperationConflict, w)"
    and bound_later:
      "valid w \<Longrightarrow> later w w' \<Longrightarrow> bound w salonID key = Some x \<Longrightarrow> bound w' salonID key = Some x"
    and valid_later: "valid w \<Longrightarrow> later w w' \<Longrightarrow> valid w'"
begin

lemma fresh_create_normal:
  assumes "CreateRequest hashes (store e) salonID u req w = (Inr (Some r, False), w')"
  obtains normalized fp where "normalizeActionRequest req = Inr normalized"
    "oh_actionRequestFingerprint hashes normalized = Inr fp"
    "bound w' salonID (req_OperationKey normalized) = Some (sr_ID r, fp)"
  using assms created_bound unfolding CreateRequest_def by (auto split: sum.splits)

lemma create_once:
  assumes first: "CreateRequest hashes (store e) salonID u req w = (Inr (Some r, False), w1)"
    and valid: "valid w1" and later: "later w1 w2" and allowed: "allowed e' w2 salonID u'"
    and n: "normalizeActionRequest req = Inr n" and n': "normalizeActionRequest req' = Inr n'"
    and key: "req_OperationKey n' = req_OperationKey n"
    and fp: "oh_actionRequestFingerprint hashes n' = Inr fp'"
  shows "if oh_actionRequestFingerprint hashes n = Inr fp'
    then \<exists>r'. CreateRequest hashes (store e') salonID u' req' w2 = (Inr (Some r', True), w2)
              \<and> sr_ID r' = sr_ID r
    else CreateRequest hashes (store e') salonID u' req' w2 = (Inl ErrOperationConflict, w2)"
proof -
  obtain fp1 where fp1: "oh_actionRequestFingerprint hashes n = Inr fp1"
    and b: "bound w1 salonID (req_OperationKey n) = Some (sr_ID r, fp1)"
    using fresh_create_normal [OF first] n by (metis sum.inject(2))
  have b2: "bound w2 salonID (req_OperationKey n') = Some (sr_ID r, fp1)"
    unfolding key by (rule bound_later [OF valid later b])
  have v2: "valid w2" by (rule valid_later [OF valid later])
  have eq: "CreateRequest hashes (store e') salonID u' req' w2
      = os_CreateOrReplay (store e') salonID u' n' fp' w2"
    by (simp add: CreateRequest_def n' fp)
  show ?thesis
    using replay_same [OF v2 allowed, where req = n' and fp = fp1] b2
      replay_other [OF v2 allowed, where req = n' and fp = fp'] fp1
    unfolding eq by (auto split: if_splits)
qed

end

definition bound_request :: "OwnerDB \<Rightarrow> string \<Rightarrow> string \<Rightarrow> (string \<times> string) option" where
  "bound_request db salonID key =
     map_option (\<lambda>row. (rq_ID row, rq_RequestFingerprint row)) (existing_request db salonID key)"

lemma find_snoc: "find P (xs @ [x]) = (case find P xs of None \<Rightarrow> (if P x then Some x else None) | Some y \<Rightarrow> Some y)"
  by (induction xs) auto

lemma getRequest_ID: "getRequest env db salonID u requestID = Inr r \<Longrightarrow> sr_ID r = requestID"
  by (auto simp: getRequest_def hydrateRequest_def elim: lockRequestTx_ok split: sum.splits)

lemma CreateOrReplay_bound:
  assumes "CreateOrReplay env salonID u req fp db = (Inr (Some r, False), db')"
  shows "bound_request db' salonID (req_OperationKey req) = Some (sr_ID r, fp)"
  using assms
proof (cases rule: CreateOrReplay_cases)
  case (2 segments req' request)
  then have "existing_request db' salonID (req_OperationKey req)
      = Some (new_request_row env salonID req' fp)"
    by (auto simp: existing_request_def inserted_db_def find_snoc new_request_row_def)
  moreover have "sr_ID r = env_UUID env 0" using getRequest_ID [OF 2(4)] 2(5) by simp
  ultimately show ?thesis by (simp add: bound_request_def new_request_row_def)
qed auto

lemma CreateOrReplay_existing:
  assumes "ledger_ok db" "may_act env db salonID u"
    and "bound_request db salonID (req_OperationKey req) = Some (i, fp')"
  shows "\<exists>r. sr_ID r = i \<and> CreateOrReplay env salonID u req fp db =
     (if fp' = fp then Inr (Some r, True) else Inl ErrOperationConflict, db)"
proof -
  obtain row where row: "existing_request db salonID (req_OperationKey req) = Some row"
    "rq_ID row = i" "rq_RequestFingerprint row = fp'"
    using assms(3) by (auto simp: bound_request_def)
  note m = existing_request_SomeD [OF row(1)]
  have get: "getRequest env db salonID u i = Inr (hydrateRequest db (scanRequest row))"
    using getRequest_of_member [OF assms(1), of row env u] m row(2) assms(2) by simp
  show ?thesis
    using row assms(2) get getRequest_ID [OF get]
    by (auto simp: CreateOrReplay_def replay_request_def)
qed

lemma bound_request_later:
  assumes "ledger_ok db" "(owner_step hashes)\<^sup>*\<^sup>* db db'"
    and "bound_request db salonID key = Some x"
  shows "bound_request db' salonID key = Some x"
proof -
  obtain row where row: "existing_request db salonID key = Some row"
    "x = (rq_ID row, rq_RequestFingerprint row)"
    using assms(3) by (auto simp: bound_request_def)
  note m = existing_request_SomeD [OF row(1)]
  obtain row' where row': "row' \<in> set (db_Requests db')" "row_evolves row row'"
    using reachable_evolves [OF assms(2,1)] m by blast
  have "existing_request db' salonID key = Some row'"
    using existing_request_of_member [OF ledger_ok_reachable [OF assms(2,1)] row'(1)] row'(2) m
    by (simp add: row_evolves_def)
  then show ?thesis using row(2) row'(2) by (simp add: bound_request_def row_evolves_def)
qed

interpretation repo: request_store Repository may_act bound_request ledger_ok "(owner_step hashes)\<^sup>*\<^sup>*"
  for hashes
proof
  show "bound_request w' salonID (req_OperationKey req) = Some (sr_ID r, fp)"
    if "os_CreateOrReplay (Repository e) salonID u req fp w = (Inr (Some r, False), w')"
    for e salonID u req fp w r w'
    using that by (simp add: CreateOrReplay_bound)
  show "\<exists>r. os_CreateOrReplay (Repository e) salonID u req fp w = (Inr (Some r, True), w) \<and> sr_ID r = i"
    if "ledger_ok w" "may_act e w salonID u"
      "bound_request w salonID (req_OperationKey req) = Some (i, fp)" for w e salonID u req i fp
    using CreateOrReplay_existing [OF that, of fp] by auto
  show "os_CreateOrReplay (Repository e) salonID u req fp w = (Inl ErrOperationConflict, w)"
    if "ledger_ok w" "may_act e w salonID u"
      "bound_request w salonID (req_OperationKey req) = Some (i, fp')" "fp' \<noteq> fp"
    for w e salonID u req i fp fp'
    using CreateOrReplay_existing [OF that(1-3), of fp] that(4) by auto
qed (rule bound_request_later ledger_ok_reachable; assumption)+

text \<open>
  C30: A request is created once. After a create has stored a request, a later call of the
  service with the same operation key in that salon, by any caller who may act for the salon, after
  any number of other calls and after any change of the salon's settings, catalogue or
  booking mode, stores nothing: it returns the same request, marked as a replay, when its normal
  form has the fingerprint of the first call, and \<open>ErrOperationConflict\<close> otherwise.
\<close>

theorem owner_request_created_once:
  assumes "CreateRequest hashes (Repository env) salonID u req db = (Inr (Some r, False), db1)"
    and "ledger_ok db1" and "(owner_step hashes)\<^sup>*\<^sup>* db1 db2" and "may_act env' db2 salonID u'"
    and "normalizeActionRequest req = Inr n" and "normalizeActionRequest req' = Inr n'"
    and "req_OperationKey n' = req_OperationKey n"
    and "oh_actionRequestFingerprint hashes n' = Inr fp'"
  shows "if oh_actionRequestFingerprint hashes n = Inr fp'
    then \<exists>r'. CreateRequest hashes (Repository env') salonID u' req' db2 = (Inr (Some r', True), db2)
              \<and> sr_ID r' = sr_ID r
    else CreateRequest hashes (Repository env') salonID u' req' db2 = (Inl ErrOperationConflict, db2)"
  using assms by (rule repo.create_once)

section \<open>Review transitions\<close>

lemma scan_of_locked:
  assumes "ledger_ok db" "row \<in> set (db_Requests db)" "may_act env db (rq_SalonID row) u"
  shows "lockRequestTx env db (rq_SalonID row) u (rq_ID row) = Inr (scanRequest row)"
  using assms by (simp add: lockRequestTx_def request_row_of_member)

lemma fresh_transition:
  assumes "Transition hashes (Repository env) salonID u requestID raw db = (Inr (r, False), db')"
    and ok: "ledger_ok db"
  obtains row fp where "row \<in> set (db_Requests db)" "rq_ID row = TrimSpace requestID"
    "rq_SalonID row = salonID" "rq_Version row = tsr_ExpectedVersion raw"
    "oh_transitionFingerprint hashes (trim_transition raw) = Inr fp"
    "transition_ok requestID (trim_transition raw)"
    "event_actor_ok db (transition_event env salonID u (TrimSpace requestID) (scanRequest row)
        (trim_transition raw) fp)"
    "db' = moved_db env db salonID u (TrimSpace requestID) (scanRequest row) (trim_transition raw) fp"
    "transition_row env (trim_transition raw) row \<in> set (db_Requests db')" "ledger_ok db'"
proof -
  let ?t = "trim_transition raw" and ?id = "TrimSpace requestID"
  obtain fp where fp: "oh_transitionFingerprint hashes ?t = Inr fp" "transition_ok requestID ?t"
    and run: "Transition_row env salonID u ?id ?t fp db = (Inr (r, False), db')"
    using assms(1) by (auto simp: Transition_repository split: sum.splits if_splits)
  from run show thesis
  proof (cases rule: Transition_row_cases)
    case 1
    then show ?thesis by blast
  next
    case (2 current request)
    obtain row where row: "row \<in> set (db_Requests db)" "rq_ID row = ?id" "rq_SalonID row = salonID"
      "current = scanRequest row" using lockRequestTx_ok [OF 2(1)] by metis
    have version: "rq_Version row = tsr_ExpectedVersion raw"
      using 2(3) row(4) by (simp add: trim_transition_def)
    have actor: "event_actor_ok db (transition_event env salonID u ?id current ?t fp)"
      using run 2 unfolding Transition_row_def apply_transition_def Let_def
      by (auto split: if_splits)
    have "transition_row env ?t row \<in> set (db_Requests db')"
      using row version by (auto simp: 2(7) moved_db_def update_matches_def trim_transition_def)
    moreover have "ledger_ok db'"
      unfolding 2(7) by (rule ledger_ok_move [OF ok 2(1-5) transition_ok_reason [OF fp(2)]])
    ultimately show ?thesis using that row version fp actor 2(7) by blast
  qed
qed

lemma pending_transition_version:
  assumes ok: "ledger_ok db" and row: "row \<in> set (db_Requests db)"
    and at: "rq_SalonID row = salonID" "rq_ID row = TrimSpace requestID"
    and act: "may_act env db salonID u" and t: "transition_ok requestID (trim_transition raw)"
    and fp: "oh_transitionFingerprint hashes (trim_transition raw) = Inr fp"
    and new: "action_event db salonID (TrimSpace requestID) (TrimSpace (tsr_ActionKey raw)) = None"
    and old: "tsr_ExpectedVersion raw \<noteq> rq_Version row"
  shows "Transition hashes (Repository env) salonID u requestID raw db
    = (Inl ErrSchedulingRequestVersion, db)"
proof -
  have "lockRequestTx env db salonID u (TrimSpace requestID) = Inr (scanRequest row)"
    using scan_of_locked [OF ok row, of env u] at act by simp
  then show ?thesis using t fp new old
    by (simp add: Transition_repository Transition_row_def trim_transition_def)
qed

text \<open>
  C32: Reviews of a request are serialised by its version. Once a transition has been applied at an
  expected version, every other transition of that request with the same expected version and a
  new action key is refused with \<open>ErrSchedulingRequestVersion\<close> and changes nothing, no matter what
  happened in between: of two owners who act on the same state of a request, one wins.
\<close>

theorem transition_compare_and_swap:
  assumes "Transition hashes (Repository env) salonID u requestID t db = (Inr (r, False), db1)"
    and "ledger_ok db" and "(owner_step hashes)\<^sup>*\<^sup>* db1 db2" and "may_act env' db2 salonID u'"
    and "transition_ok requestID (trim_transition t')"
    and "oh_transitionFingerprint hashes (trim_transition t') = Inr fp'"
    and "action_event db2 salonID (TrimSpace requestID) (TrimSpace (tsr_ActionKey t')) = None"
    and "tsr_ExpectedVersion t' = tsr_ExpectedVersion t"
  shows "Transition hashes (Repository env') salonID u' requestID t' db2
    = (Inl ErrSchedulingRequestVersion, db2)"
proof -
  obtain row where row: "rq_ID row = TrimSpace requestID" "rq_SalonID row = salonID"
    "rq_Version row = tsr_ExpectedVersion t" and db1: "ledger_ok db1"
    and moved: "transition_row env (trim_transition t) row \<in> set (db_Requests db1)"
    using fresh_transition [OF assms(1,2)] by metis
  obtain row2 where row2: "row2 \<in> set (db_Requests db2)"
    "row_evolves (transition_row env (trim_transition t) row) row2"
    using reachable_evolves [OF assms(3) db1 moved] by blast
  have "ledger_ok db2" by (rule ledger_ok_reachable [OF assms(3) db1])
  moreover have "rq_SalonID row2 = salonID" "rq_ID row2 = TrimSpace requestID"
    "tsr_ExpectedVersion t' \<noteq> rq_Version row2"
    using row2(2) row assms(8) by (simp_all add: row_evolves_def)
  ultimately show ?thesis
    using pending_transition_version [OF _ row2(1)] assms(4-7) by blast
qed

lemma action_event_of_member:
  assumes "ledger_ok db" "row \<in> set (db_Requests db)" "event \<in> set (event_log db row)"
  shows "action_event db (rq_SalonID row) (rq_ID row) (ev_ActionKey event) = Some event"
proof -
  let ?log = "event_log db row"
  have inj: "inj_on ev_ActionKey (set ?log)"
    using assms(1,2) by (simp add: ledger_ok_def log_ok_def distinct_map)
  have "find (\<lambda>e. ev_ActionKey e = ev_ActionKey event) ?log = Some event"
  proof (cases "find (\<lambda>e. ev_ActionKey e = ev_ActionKey event) ?log")
    case None
    then show ?thesis using assms(3) by (auto simp: find_None_iff)
  next
    case (Some found)
    then have "found \<in> set ?log" "ev_ActionKey found = ev_ActionKey event"
      by (auto simp: find_Some_iff)
    then show ?thesis using inj assms(3) Some by (auto dest: inj_onD)
  qed
  then show ?thesis by (simp add: action_event_def event_log_def)
qed

text \<open>
  A transition is applied once. Repeating it later under the same action key, whatever
  happened in between, stores nothing: with the same content it returns the request in its current
  state, marked as a replay, and with other content \<open>ErrOperationConflict\<close>.
\<close>

theorem transition_applied_once:
  assumes "Transition hashes (Repository env) salonID u requestID t db = (Inr (r, False), db1)"
    and "ledger_ok db" and "(owner_step hashes)\<^sup>*\<^sup>* db1 db2" and "may_act env' db2 salonID u'"
    and "transition_ok requestID (trim_transition t')"
    and "TrimSpace (tsr_ActionKey t') = TrimSpace (tsr_ActionKey t)"
    and "oh_transitionFingerprint hashes (trim_transition t') = Inr fp'"
  shows "if oh_transitionFingerprint hashes (trim_transition t) = Inr fp'
    then \<exists>r'. Transition hashes (Repository env') salonID u' requestID t' db2 = (Inr (Some r', True), db2)
              \<and> sr_ID r' = TrimSpace requestID
    else Transition hashes (Repository env') salonID u' requestID t' db2
           = (Inl ErrOperationConflict, db2)"
proof -
  let ?id = "TrimSpace requestID"
  obtain row fp where row: "rq_ID row = ?id" "rq_SalonID row = salonID"
    and fp: "oh_transitionFingerprint hashes (trim_transition t) = Inr fp" and db1: "ledger_ok db1"
    and db1_eq: "db1 = moved_db env db salonID u ?id (scanRequest row) (trim_transition t) fp"
    and moved: "transition_row env (trim_transition t) row \<in> set (db_Requests db1)"
    using fresh_transition [OF assms(1,2)] by metis
  let ?event = "transition_event env salonID u ?id (scanRequest row) (trim_transition t) fp"
  obtain row2 where row2: "row2 \<in> set (db_Requests db2)"
    "row_evolves (transition_row env (trim_transition t) row) row2"
    using reachable_evolves [OF assms(3) db1 moved] by blast
  have at: "rq_SalonID row2 = salonID" "rq_ID row2 = ?id"
    using row2(2) row by (simp_all add: row_evolves_def)
  have ok: "ledger_ok db2" by (rule ledger_ok_reachable [OF assms(3) db1])
  have "?event \<in> set (db_Events db1)" by (simp add: db1_eq moved_db_def)
  then have "?event \<in> set (event_log db2 row2)"
    using reachable_events [OF assms(3)] at
    by (auto simp: event_log_def request_events_def transition_event_def)
  from action_event_of_member [OF ok row2(1) this]
  have logged: "action_event db2 salonID ?id (TrimSpace (tsr_ActionKey t)) = Some ?event"
    unfolding at by (simp add: transition_event_def trim_transition_def)
  have lock: "lockRequestTx env' db2 salonID u' ?id = Inr (scanRequest row2)"
    using scan_of_locked [OF ok row2(1), of env' u'] at assms(4) by simp
  then have get: "getRequest env' db2 salonID u' ?id = Inr (hydrateRequest db2 (scanRequest row2))"
    by (simp add: getRequest_def)
  have "Transition hashes (Repository env') salonID u' requestID t' db2 =
      (if fp \<noteq> fp' then (Inl ErrOperationConflict, db2)
       else (Inr (Some (hydrateRequest db2 (scanRequest row2)), True), db2))"
    using assms(5,6,7) lock get logged
    by (simp add: Transition_repository Transition_row_def trim_transition_def transition_event_def)
  then show ?thesis using fp getRequest_ID [OF get] by auto
qed

section \<open>Who may review\<close>

text \<open>
  The access rule of the queries and the actor rule of the schema disagree. The review
  queries let every active member of the salon act, but the event of a transition names the caller
  as its actor and the trigger of the events table only accepts the owner recorded on the salon. A
  member who is not that owner can therefore never apply a transition: the call fails and leaves
  everything unchanged, with the trigger's error when the transition was otherwise fine.
\<close>

theorem only_recorded_owner_applies_transitions:
  assumes "ledger_ok db" and "u \<noteq> []"
    and "\<forall>salon \<in> set (db_Salons db). sal_ID salon = salonID \<longrightarrow> sal_OwnerUserID salon \<noteq> u"
  shows "Transition hashes (Repository env) salonID u requestID t db \<noteq> (Inr (r, False), db')
    \<and> (row \<in> set (db_Requests db) \<longrightarrow> rq_SalonID row = salonID \<longrightarrow> rq_ID row = TrimSpace requestID
       \<longrightarrow> may_act env db salonID u \<longrightarrow> transition_ok requestID (trim_transition t)
       \<longrightarrow> oh_transitionFingerprint hashes (trim_transition t) = Inr fp
       \<longrightarrow> action_event db salonID (TrimSpace requestID) (TrimSpace (tsr_ActionKey t)) = None
       \<longrightarrow> tsr_ExpectedVersion t = rq_Version row \<longrightarrow> transitionAllowed (rq_Status row) (tsr_Status t)
       \<longrightarrow> Transition hashes (Repository env) salonID u requestID t db =
             (Inl (StoreError ''scheduling_request_events_actor_owner_guard''), db))"
proof -
  have refused: "\<not> event_actor_ok db (transition_event env salonID u i current t' f)" for i current t' f
    using assms(2,3) by (auto simp: event_actor_ok_def transition_event_def list_ex_iff)
  have "Transition hashes (Repository env) salonID u requestID t db \<noteq> (Inr (r, False), db')"
    using fresh_transition [OF _ assms(1)] refused by metis
  moreover have "Transition hashes (Repository env) salonID u requestID t db =
      (Inl (StoreError ''scheduling_request_events_actor_owner_guard''), db)"
    if row: "row \<in> set (db_Requests db)" and salon: "rq_SalonID row = salonID"
      and id: "rq_ID row = TrimSpace requestID"
      and act: "may_act env db salonID u" and t: "transition_ok requestID (trim_transition t)"
      and fp: "oh_transitionFingerprint hashes (trim_transition t) = Inr fp"
      and new: "action_event db salonID (TrimSpace requestID) (TrimSpace (tsr_ActionKey t)) = None"
      and version: "tsr_ExpectedVersion t = rq_Version row"
      and allowed: "transitionAllowed (rq_Status row) (tsr_Status t)"
  proof -
    have lock: "lockRequestTx env db salonID u (TrimSpace requestID) = Inr (scanRequest row)"
      using scan_of_locked [OF assms(1) row, of env u] salon id act by simp
    have "filter (update_matches salonID (TrimSpace requestID) (trim_transition t)) (db_Requests db)
        = filter (\<lambda>r. r = row) (db_Requests db)"
      using unique_row [OF assms(1) _ row] salon id version
      by (intro filter_cong refl) (auto simp: update_matches_def trim_transition_def)
    moreover have "distinct (db_Requests db)"
      using assms(1) by (auto simp: ledger_ok_def distinct_map)
    ultimately have one: "length (filter (update_matches salonID (TrimSpace requestID)
        (trim_transition t)) (db_Requests db)) = 1"
      using row by (simp add: distinct_length_filter Int_absorb2)
    have "\<not> is_terminal (rq_Status row)"
      using allowed by (auto simp: transitionAllowed_def is_terminal_def split: if_splits)
    then show ?thesis
      using t fp new version allowed lock one refused
      by (simp add: Transition_repository Transition_row_def apply_transition_def
          trim_transition_def Let_def)
  qed
  ultimately show ?thesis by blast
qed

section \<open>Times of a request\<close>

lemma snapshot_segment_end:
  assumes "snapshot_segment db salonID rootStart input = Inr snapshot"
    and "segment_ok input" and "0 < seg_RequestedStartTime input"
  shows "0 < ss_RequestedEndTime snapshot"
proof -
  obtain service where service: "find (\<lambda>service. svr_ID service = seg_ServiceID input
      \<and> eligible_service salonID service) (db_Services db) = Some service"
    using assms(1) by (auto simp: snapshot_segment_def split: option.splits)
  then have "0 < svr_DurationMinutes service"
    by (auto simp: find_Some_iff eligible_service_def)
  moreover have "seg_RequestedEndTime input = 0 \<or> 0 < seg_RequestedEndTime input"
    using assms(2,3) by (auto simp: segment_ok_def range_ok_def)
  ultimately show ?thesis using assms(1,3) service
    by (auto simp: snapshot_segment_def Let_def ns_per_minute_def split: sum.splits)
qed

lemma resolve_segments_end:
  assumes "resolve_segments db salonID rootStart requestEnd inputs = Inr (snapshots, stop)"
    and "list_all segment_ok inputs"
  shows "requestEnd \<le> stop \<and> (list_ex (\<lambda>i. 0 < seg_RequestedStartTime i) inputs \<longrightarrow> 0 < stop)"
  using assms
proof (induction inputs arbitrary: requestEnd snapshots)
  case (Cons input rest)
  obtain snapshot snapshots' where one: "snapshot_segment db salonID rootStart input = Inr snapshot"
    and more: "resolve_segments db salonID rootStart
      (if ss_RequestedEndTime snapshot > requestEnd then ss_RequestedEndTime snapshot else requestEnd)
      rest = Inr (snapshots', stop)"
    using Cons.prems(1) by (auto split: sum.splits)
  show ?case
    using Cons.IH [OF more] Cons.prems(2) snapshot_segment_end [OF one] by (auto split: if_splits)
qed simp

text \<open>
  The service accepts a request whose segments carry times although the request itself
  carries none, and the database then refuses to store it: the repository derives the end of the
  request from the segments but leaves its start empty, which violates the range constraint of the
  table. The caller gets the raw store error and nothing is stored.
\<close>

theorem segment_times_need_request_time:
  assumes "normalizeActionRequest req = Inr n" and "oh_actionRequestFingerprint hashes n = Inr fp"
    and "may_act env db salonID u" and "existing_request db salonID (req_OperationKey n) = None"
    and "salon_row db salonID = Some salon" and "sal_Settings salon = Some settings"
    and "policy_error settings n = None" and "req_RequestedTimezone n = sal_Timezone salon"
    and "\<not> call_session_missing db salonID n"
    and "resolveSegmentSnapshots db salonID n = Inr (segments, stop)"
    and "req_RequestedStartTime n = 0"
    and "list_ex (\<lambda>segment. 0 < seg_RequestedStartTime segment) (req_Segments n)"
  shows "CreateRequest hashes (Repository env) salonID u req db
    = (Inl (StoreError ''scheduling_requests_requested_range_check''), db)"
proof -
  have wf: "well_formed_request n"
    using assms(1) by (simp add: normalizeActionRequest_eq split: if_splits)
  then have "req_RequestedEndTime n = 0" using assms(11)
    by (simp add: well_formed_request_def range_ok_def)
  moreover have "0 < stop"
    using resolve_segments_end [OF assms(10) [unfolded resolveSegmentSnapshots_def]] wf assms(12)
    by (simp add: well_formed_request_def)
  ultimately have "\<not> requested_range_check
      (new_request_row env salonID (n\<lparr>req_RequestedEndTime := stop\<rparr>) fp)"
    using assms(11) by (simp add: requested_range_check_def new_request_row_def nullTime_def)
  then show ?thesis using assms \<open>req_RequestedEndTime n = 0\<close>
    by (simp add: CreateRequest_repository CreateOrReplay_def insert_request_def Let_def)
qed

section \<open>The executor over the repository\<close>

lemma table_change_appointments:
  "CreateRequest hashes (Repository env) salonID u req db = (result, db')
     \<Longrightarrow> db_Appointments db' = db_Appointments db"
proof -
  assume run: "CreateRequest hashes (Repository env) salonID u req db = (result, db')"
  show ?thesis
  proof (cases "db' = db")
    case False
    with run obtain n fp where "CreateOrReplay env salonID u n fp db = (result, db')"
      by (auto simp: CreateRequest_repository split: sum.splits)
    then show ?thesis by (cases rule: CreateOrReplay_cases) (simp_all add: inserted_db_def)
  qed simp
qed

lemma CreateRequest_stored:
  assumes "CreateRequest hashes (Repository env) salonID u req db = (Inr (Some r, replayed), db')"
  obtains row where "row \<in> set (db_Requests db')" "rq_ID row = sr_ID r" "rq_SalonID row = salonID"
    "rq_SchedulingAuthority row = SchedulingAuthorityOwnerManual"
proof -
  obtain n fp where run: "CreateOrReplay env salonID u n fp db = (Inr (Some r, replayed), db')"
    using assms by (auto simp: CreateRequest_repository split: sum.splits)
  show thesis
  proof (cases replayed)
    case False
    have "bound_request db' salonID (req_OperationKey n) = Some (sr_ID r, fp)"
      using CreateOrReplay_bound run False by simp
    then show ?thesis using that
      by (auto simp: bound_request_def dest: existing_request_SomeD)
  next
    case True
    have same: "db' = db" using run by (cases rule: CreateOrReplay_cases) (use True in auto)
    obtain row where "existing_request db salonID (req_OperationKey n) = Some row"
      "getRequest env db salonID u (rq_ID row) = Inr r"
      using run True
      unfolding CreateOrReplay_def insert_request_def replay_request_def Let_def
      by (auto split: option.splits sum.splits if_splits)
    then show ?thesis using that same getRequest_ID [of env db salonID u "rq_ID row" r]
      by (auto dest: existing_request_SomeD)
  qed
qed

text \<open>
  The owner-managed executor never confirms. Its availability answer carries no slot; an
  action ends in an error or in pending owner work that names a stored request of the salon, with
  no confirmed appointment and no provider fallback, and it never touches the appointments.
\<close>

theorem owner_executor_never_confirms:
  "CheckAvailability_owner salonID u availability db =
     (Inr (Some \<lparr>sres_Kind = AvailabilityKindRequestOnly,
        sres_SchedulingAuthority = SchedulingAuthorityOwnerManual,
        sres_TargetAuthorityAppointmentVersion = 0, sres_VerifiedSlots = None\<rparr>), db)
   \<and> (ExecuteAction_owner hashes (Repository env) salonID u req db = (result, db') \<longrightarrow>
        db_Appointments db' = db_Appointments db
        \<and> (\<forall>x. result = Inr x \<longrightarrow>
             (\<exists>r review. x = Some r \<and> act_Kind r = ActionKindPendingOwnerReview
                \<and> act_SchedulingAuthority r = SchedulingAuthorityOwnerManual
                \<and> act_ConfirmedAppointment r = None \<and> act_ExternalFallbackPending r = None
                \<and> act_PendingOwnerReview r = Some review
                \<and> (\<exists>row \<in> set (db_Requests db'). rq_SalonID row = salonID
                     \<and> rq_ID row = por_SchedulingRequestID review))))"
proof (intro conjI impI allI)
  assume run: "ExecuteAction_owner hashes (Repository env) salonID u req db = (result, db')"
  show "db_Appointments db' = db_Appointments db"
    using run table_change_appointments [of hashes env salonID u req db]
    unfolding ExecuteAction_owner_def
    by (auto split: prod.splits sum.splits option.splits if_splits)
  fix x assume x: "result = Inr x"
  obtain request replayed where
    c: "CreateRequest hashes (Repository env) salonID u req db = (Inr (Some request, replayed), db')"
    and res: "x = Some (owner_review_result (req_OperationType req) request)"
    using ExecuteAction_owner_ok [OF run [unfolded x]] by metis
  obtain row where "row \<in> set (db_Requests db')" "rq_ID row = sr_ID request" "rq_SalonID row = salonID"
    using CreateRequest_stored [OF c] by metis
  then show "\<exists>r review. x = Some r \<and> act_Kind r = ActionKindPendingOwnerReview
      \<and> act_SchedulingAuthority r = SchedulingAuthorityOwnerManual
      \<and> act_ConfirmedAppointment r = None \<and> act_ExternalFallbackPending r = None
      \<and> act_PendingOwnerReview r = Some review
      \<and> (\<exists>row \<in> set (db_Requests db'). rq_SalonID row = salonID
           \<and> rq_ID row = por_SchedulingRequestID review)"
    by (auto simp: res owner_review_result_def)
qed (simp add: CheckAvailability_owner_def)

end
