(* ===== verification/Owner_Manual_Retention.thy ===== *)
theory Owner_Manual_Retention
  imports Owner_Manual_Repository
begin

text \<open>
  The end of a request (\<open>redactNextSchedulingRequest\<close> of
  \<open>modules/scheduling_retention/repository.go\<close>, with the columns and triggers of migration V61):
  ninety days after it was closed a worker blanks what it says about the customer. Together with the
  operations of the service this is all that changes a stored request.
\<close>

section \<open>Redaction\<close>

text \<open>
  What the worker finds: the clock of its transaction, whether another transaction holds the row,
  whether a notification is claimed or leased, whether a customer delivery of the request is still
  under way, the JSON function \<open>retention_safe_audit_payload\<close>, and the failures of the database.
\<close>

record RetentionEnv =
  rt_Now :: gotime
  rt_Locked :: "string \<Rightarrow> bool"
  rt_Claimed :: "NotificationRow \<Rightarrow> bool"
  rt_CustomerOpen :: "string \<Rightarrow> string \<Rightarrow> bool"
  rt_SafePayload :: "string \<Rightarrow> string"
  rt_Refused :: "string option"

definition PolicyVersion :: int where "PolicyVersion = 1"

definition redacted_mark :: string where "redacted_mark = ''[redacted]''"

text \<open>The trigger keeps \<open>retention_expires_at\<close> at ninety days after the end of a closed request.\<close>

definition set_scheduling_request_retention_expiry :: "RequestRow \<Rightarrow> gotime option" where
  "set_scheduling_request_retention_expiry row =
     (if rq_Status row \<in> {SchedulingRequestStatusResolved, SchedulingRequestStatusDismissed}
      then Some ((case rq_ResolvedAt row of
                    Some t \<Rightarrow> t
                  | None \<Rightarrow> (case rq_DismissedAt row of Some t \<Rightarrow> t | None \<Rightarrow> rq_UpdatedAt row))
                 + 90 * 86400000000000)
      else None)"

definition notification_open :: "RetentionEnv \<Rightarrow> RequestRow \<Rightarrow> NotificationRow \<Rightarrow> bool" where
  "notification_open env row notification \<longleftrightarrow>
     nt_SalonID notification = rq_SalonID row \<and> nt_SchedulingRequestID notification = rq_ID row
     \<and> (nt_DeliveryStatus notification \<notin> {''delivered'', ''undelivered'', ''dead_letter'', ''disabled''}
        \<or> rt_Claimed env notification)"

definition redaction_due :: "RetentionEnv \<Rightarrow> OwnerDB \<Rightarrow> RequestRow \<Rightarrow> bool" where
  "redaction_due env db row \<longleftrightarrow>
     rq_Status row \<in> {SchedulingRequestStatusResolved, SchedulingRequestStatusDismissed}
     \<and> rq_RedactedAt row = None
     \<and> (case set_scheduling_request_retention_expiry row of None \<Rightarrow> False | Some t \<Rightarrow> t \<le> rt_Now env)
     \<and> \<not> list_ex (notification_open env row) (db_Notifications db)
     \<and> \<not> rt_CustomerOpen env (rq_SalonID row) (rq_ID row)"

definition redacted_segment :: "gotime \<Rightarrow> SegmentRow \<Rightarrow> SegmentRow" where
  "redacted_segment now row =
     row\<lparr>sg_GuestReference := [], sg_RedactedAt := Some now, sg_RedactionVersion := PolicyVersion\<rparr>"

definition redacted_event :: "RetentionEnv \<Rightarrow> EventRow \<Rightarrow> EventRow" where
  "redacted_event env row =
     row\<lparr>ev_Payload := rt_SafePayload env (ev_Payload row), ev_RedactedAt := Some (rt_Now env),
         ev_RedactionVersion := PolicyVersion\<rparr>"

definition redacted_request :: "gotime \<Rightarrow> RequestRow \<Rightarrow> RequestRow" where
  "redacted_request now row =
     row\<lparr>rq_CustomerName := redacted_mark, rq_CustomerPhone := redacted_mark, rq_CustomerEmail := [],
         rq_Notes := [], rq_ResolutionReason := [],
         rq_TargetDescription :=
           (if rq_OperationType row \<in> {OperationKindReschedule, OperationKindCancel}
               \<and> rq_TargetAppointmentID row = [] then redacted_mark else []),
         rq_RedactedAt := Some now, rq_RedactionVersion := PolicyVersion\<rparr>"

definition redacted_db :: "RetentionEnv \<Rightarrow> string \<Rightarrow> string \<Rightarrow> OwnerDB \<Rightarrow> OwnerDB" where
  "redacted_db env salonID requestID db =
     db\<lparr>db_Segments := map (\<lambda>row. if sg_SchedulingRequestID row = requestID \<and> sg_SalonID row = salonID
            \<and> sg_RedactedAt row = None then redacted_segment (rt_Now env) row else row) (db_Segments db),
        db_Events := map (\<lambda>row. if ev_SchedulingRequestID row = requestID \<and> ev_SalonID row = salonID
            \<and> ev_RedactedAt row = None then redacted_event env row else row) (db_Events db),
        db_Requests := map (\<lambda>row. if rq_ID row = requestID \<and> rq_SalonID row = salonID
            \<and> rq_RedactedAt row = None then redacted_request (rt_Now env) row else row)
          (db_Requests db)\<rparr>"

text \<open>The candidate is the pair of salon and request that the worker has located.\<close>

definition redactNextSchedulingRequest ::
  "RetentionEnv \<Rightarrow> string \<Rightarrow> string \<Rightarrow> OwnerDB \<Rightarrow> (string + bool) \<times> OwnerDB" where
  "redactNextSchedulingRequest env salonID itemID db =
     (case find (\<lambda>row. rq_ID row = itemID \<and> rq_SalonID row = salonID \<and> redaction_due env db row
                  \<and> \<not> rt_Locked env (rq_ID row)) (db_Requests db) of
        None \<Rightarrow> (Inr False, db)
      | Some request \<Rightarrow>
          (case rt_Refused env of
             Some e \<Rightarrow> (Inl e, db)
           | None \<Rightarrow> (Inr True, redacted_db env salonID (rq_ID request) db)))"

section \<open>The life of a closed request\<close>

text \<open>A step of the ledger: a step of the service or its surroundings, or a redaction.\<close>

inductive ledger_step :: "OwnerHashes \<Rightarrow> OwnerDB \<Rightarrow> OwnerDB \<Rightarrow> bool" for hashes where
  serve: "owner_step hashes db db' \<Longrightarrow> ledger_step hashes db db'"
| redact: "redactNextSchedulingRequest env salonID itemID db = (r, db') \<Longrightarrow> ledger_step hashes db db'"

text \<open>Identifiers are primary keys throughout.\<close>

abbreviation request_keys :: "OwnerDB \<Rightarrow> bool" where
  "request_keys db \<equiv> distinct (map rq_ID (db_Requests db))"

lemma redacted_core [simp]:
  "rq_ID (redacted_request now row) = rq_ID row"
  "rq_SalonID (redacted_request now row) = rq_SalonID row"
  "rq_Status (redacted_request now row) = rq_Status row"
  "rq_RedactedAt (redacted_request now row) = Some now"
  by (simp_all add: redacted_request_def)

lemma same_request: "request_keys db \<Longrightarrow> row \<in> set (db_Requests db) \<Longrightarrow> row' \<in> set (db_Requests db)
    \<Longrightarrow> rq_ID row = rq_ID row' \<Longrightarrow> row = row'"
  by (auto simp: distinct_map dest: inj_onD)

lemma table_change_keys: "table_change db db' \<Longrightarrow> request_keys db \<Longrightarrow> request_keys db'"
proof (induction rule: table_change.induct)
  case (moved env db salonID u requestID current t fp)
  have "map rq_ID (db_Requests (moved_db env db salonID u requestID current t fp))
      = map rq_ID (db_Requests db)" by (simp add: moved_db_def)
  then show ?case using moved.prems by simp
qed (auto simp: inserted_db_def new_request_row_def)

lemma table_change_closed:
  assumes "table_change db db'" "request_keys db" "row \<in> set (db_Requests db)"
    "is_terminal (rq_Status row)"
  shows "row \<in> set (db_Requests db')"
  using assms
proof (induction rule: table_change.induct)
  case (moved env db salonID u requestID current t fp)
  obtain locked where locked: "locked \<in> set (db_Requests db)" "rq_ID locked = requestID"
    "current = scanRequest locked" using lockRequestTx_ok [OF moved.hyps(1)] by metis
  have "\<not> update_matches salonID requestID t row"
  proof
    assume "update_matches salonID requestID t row"
    then have "row = locked"
      using same_request [OF moved.prems(1,2) locked(1)] locked(2) by (simp add: update_matches_def)
    then show False using moved.hyps(4) moved.prems(3) locked(3) by simp
  qed
  then show ?case using moved.prems(2) by (force simp: moved_db_def)
qed (auto simp: inserted_db_def)

lemma redaction_effect:
  assumes "redactNextSchedulingRequest env salonID itemID db = (r, db')"
  obtains (none) "db' = db"
  | (redacted) request where "db' = redacted_db env salonID itemID db"
      "request \<in> set (db_Requests db)" "rq_ID request = itemID" "redaction_due env db request"
proof (cases "find (\<lambda>row. rq_ID row = itemID \<and> rq_SalonID row = salonID \<and> redaction_due env db row
    \<and> \<not> rt_Locked env (rq_ID row)) (db_Requests db)")
  case None
  then show ?thesis using assms none by (simp add: redactNextSchedulingRequest_def)
next
  case (Some request)
  note found = find_SomeD [OF Some]
  show ?thesis
  proof (cases "rt_Refused env")
    case None
    with assms Some found have "db' = redacted_db env salonID itemID db"
      by (simp add: redactNextSchedulingRequest_def)
    then show ?thesis by (rule redacted [of request]) (use found in simp_all)
  next
    case (Some e)
    then show ?thesis
      using assms \<open>find _ _ = Some request\<close> by (intro none) (simp add: redactNextSchedulingRequest_def)
  qed
qed

text \<open>What a closed request may have become.\<close>

definition closed_as :: "RequestRow \<Rightarrow> RequestRow \<Rightarrow> bool" where
  "closed_as row row' \<longleftrightarrow>
     row' = row
     \<or> rq_RedactedAt row = None
       \<and> (\<exists>now expiry. set_scheduling_request_retention_expiry row = Some expiry \<and> expiry \<le> now
            \<and> row' = redacted_request now row)"

lemma closed_as_core:
  "closed_as row row' \<Longrightarrow> rq_ID row' = rq_ID row \<and> rq_SalonID row' = rq_SalonID row
     \<and> rq_Status row' = rq_Status row \<and> rq_Version row' = rq_Version row"
  by (auto simp: closed_as_def redacted_request_def)

lemma ledger_step_closed:
  assumes "ledger_step hashes db db'" "request_keys db" "row \<in> set (db_Requests db)"
    "is_terminal (rq_Status row)"
  shows "request_keys db' \<and> (\<exists>row' \<in> set (db_Requests db'). closed_as row row'
    \<and> (rq_RedactedAt row \<noteq> None \<longrightarrow> row' = row))"
  using assms(1)
proof cases
  case serve
  note change = owner_step_table_change [OF serve]
  have "closed_as row row" by (simp add: closed_as_def)
  with table_change_keys [OF change assms(2)] table_change_closed [OF change assms(2-4)]
  show ?thesis by blast
next
  case (redact env salonID itemID r)
  then show ?thesis
  proof (cases rule: redaction_effect)
    case none
    then show ?thesis using assms(2,3) unfolding closed_as_def by blast
  next
    case (redacted request)
    let ?f = "\<lambda>row. if rq_ID row = itemID \<and> rq_SalonID row = salonID \<and> rq_RedactedAt row = None
        then redacted_request (rt_Now env) row else row"
    have rows: "db_Requests db' = map ?f (db_Requests db)" using redacted(1) by (simp add: redacted_db_def)
    have "map rq_ID (db_Requests db') = map rq_ID (db_Requests db)" unfolding rows by simp
    then have keys: "request_keys db'" using assms(2) by simp
    have "closed_as row (?f row)"
    proof (cases "rq_ID row = itemID")
      case True
      then have "row = request" using same_request [OF assms(2,3) redacted(2)] redacted(3) by simp
      then show ?thesis
        using redacted(4) by (auto simp: closed_as_def redaction_due_def split: option.splits)
    qed (simp add: closed_as_def)
    moreover have "?f row \<in> set (db_Requests db')" using assms(3) unfolding rows by simp
    ultimately show ?thesis using keys by (intro conjI bexI [of _ "?f row"]) auto
  qed
qed

lemma ledger_history_closed:
  assumes "(ledger_step hashes)\<^sup>*\<^sup>* db db'" "request_keys db" "row \<in> set (db_Requests db)"
    "is_terminal (rq_Status row)"
  shows "request_keys db' \<and> (\<exists>row' \<in> set (db_Requests db'). closed_as row row')"
  using assms(1)
proof (induction rule: rtranclp_induct)
  case base
  then show ?case using assms(2,3) by (auto simp: closed_as_def)
next
  case (step d d')
  then obtain row1 where row1: "row1 \<in> set (db_Requests d)" "closed_as row row1" by blast
  have "is_terminal (rq_Status row1)" using closed_as_core [OF row1(2)] assms(4) by simp
  with step row1 obtain row2 where row2: "request_keys d'" "row2 \<in> set (db_Requests d')"
    "closed_as row1 row2" "rq_RedactedAt row1 \<noteq> None \<longrightarrow> row2 = row1"
    using ledger_step_closed by blast
  have "closed_as row row2"
  proof (cases "row1 = row")
    case False
    then have "rq_RedactedAt row1 \<noteq> None" using row1(2) by (auto simp: closed_as_def)
    then show ?thesis using row2(4) row1(2) by simp
  qed (use row2(3) in simp)
  then show ?case using row2(1,2) by blast
qed

lemma lockRequestTx_of_key:
  assumes "request_keys db" "row \<in> set (db_Requests db)" "may_act env db (rq_SalonID row) u"
  shows "lockRequestTx env db (rq_SalonID row) u (rq_ID row) = Inr (scanRequest row)"
proof -
  have "find (\<lambda>r. rq_ID r = rq_ID row \<and> rq_SalonID r = rq_SalonID row) (db_Requests db) = Some row"
    using assms(2) same_request [OF assms(1) _ assms(2)] by (intro find_only) auto
  then show ?thesis using assms(3) by (simp add: lockRequestTx_def request_row_def)
qed

text \<open>
  C33: A closed request is final. Once a stored request is resolved or dismissed, then through every
  sequence of calls of the service, changes around it and redactions by the retention worker, its
  row is still stored: the very same, or, no earlier than ninety days after it was closed and at most
  once, with what it says about the customer blanked and nothing else changed, so that its identity,
  status and version stay. A transition under a new action key is refused and changes nothing, with
  \<open>ErrSchedulingRequestTerminal\<close> when it expects the version at which the request was closed.
\<close>

theorem closed_request_is_final:
  assumes "distinct (map rq_ID (db_Requests db))" and "row \<in> set (db_Requests db)"
    and "is_terminal (rq_Status row)" and "(ledger_step hashes)\<^sup>*\<^sup>* db db'"
  shows "(\<exists>row' \<in> set (db_Requests db'). rq_ID row' = rq_ID row \<and> rq_SalonID row' = rq_SalonID row
       \<and> rq_Status row' = rq_Status row \<and> rq_Version row' = rq_Version row
       \<and> (row' = row
          \<or> rq_RedactedAt row = None
            \<and> (\<exists>now expiry. set_scheduling_request_retention_expiry row = Some expiry \<and> expiry \<le> now
                 \<and> row' = redacted_request now row)))
    \<and> (may_act env db' (rq_SalonID row) u \<longrightarrow> transition_ok requestID (trim_transition t)
       \<longrightarrow> rq_ID row = TrimSpace requestID
       \<longrightarrow> oh_transitionFingerprint hashes (trim_transition t) = Inr fp
       \<longrightarrow> action_event db' (rq_SalonID row) (rq_ID row) (TrimSpace (tsr_ActionKey t)) = None
       \<longrightarrow> Transition hashes (Repository env) (rq_SalonID row) u requestID t db' =
             (Inl (if tsr_ExpectedVersion t = rq_Version row then ErrSchedulingRequestTerminal
                   else ErrSchedulingRequestVersion), db'))"
proof -
  obtain row' where keys: "request_keys db'" and row': "row' \<in> set (db_Requests db')"
    "closed_as row row'"
    using ledger_history_closed [OF assms(4,1,2,3)] by blast
  note core = closed_as_core [OF row'(2)]
  have "Transition hashes (Repository env) (rq_SalonID row) u requestID t db' =
      (Inl (if tsr_ExpectedVersion t = rq_Version row then ErrSchedulingRequestTerminal
            else ErrSchedulingRequestVersion), db')"
    if act: "may_act env db' (rq_SalonID row) u"
      and t: "transition_ok requestID (trim_transition t)" and id: "rq_ID row = TrimSpace requestID"
      and fp: "oh_transitionFingerprint hashes (trim_transition t) = Inr fp"
      and new: "action_event db' (rq_SalonID row) (rq_ID row) (TrimSpace (tsr_ActionKey t)) = None"
  proof -
    have "lockRequestTx env db' (rq_SalonID row) u (TrimSpace requestID) = Inr (scanRequest row')"
      using lockRequestTx_of_key [OF keys row'(1)] act id core by simp
    then show ?thesis
      using t fp new id assms(3) core
      by (simp add: Transition_repository Transition_row_def trim_transition_def)
  qed
  then show ?thesis using row' core unfolding closed_as_def by blast
qed

end
