(* ===== verification/Owner_Manual_Samples.thy ===== *)
theory Owner_Manual_Samples
  imports Owner_Manual_Retention
begin

text \<open>
  A concrete salon under owner-managed scheduling: its tables, a booking request, a review of it,
  and the theorems of \<open>Owner_Manual_Service\<close>, \<open>Owner_Manual_Repository\<close> and
  \<open>Owner_Manual_Retention\<close> applied to them. The
  sample fingerprints are plain concatenations.
\<close>

definition sample_hashes :: OwnerHashes where
  "sample_hashes =
     \<lparr>oh_actionRequestFingerprint = (\<lambda>req. Inr (req_OperationKey req @ ''/'' @ req_Notes req)),
      oh_transitionFingerprint = (\<lambda>t. Inr (tsr_ActionKey t @ ''/'' @ tsr_Status t))\<rparr>"

definition sample_owner_env :: "string \<Rightarrow> OwnerEnv" where
  "sample_owner_env name =
     \<lparr>env_MayAct = (\<lambda>salonID u. salonID = ''salon'' \<and> (u = ''owner'' \<or> u = ''manager'')),
      env_MayRead = (\<lambda>salonID u. salonID = ''salon''),
      env_IsMember = (\<lambda>salonID u. u = ''owner'' \<or> u = ''manager''),
      env_UUID = (\<lambda>n. name @ replicate n CHR ''i''),
      env_Now = 1000, env_DBNow = 1001, env_JSON = (\<lambda>_. ''{}'')\<rparr>"

definition sample_salon_row :: SalonRow where
  "sample_salon_row =
     \<lparr>sal_ID = ''salon'', sal_OwnerUserID = ''owner'', sal_Timezone = ''UTC'',
      sal_Settings = Some \<lparr>set_SchedulingAuthority = SchedulingAuthorityOwnerManual,
        set_SchedulingAuthorityVersion = 1, set_BookingMode = BookingModePendingApproval\<rparr>\<rparr>"

definition sample_owner_db :: OwnerDB where
  "sample_owner_db =
     \<lparr>db_Salons = [sample_salon_row],
      db_Services = [\<lparr>svr_ID = ''cut'', svr_SalonID = ''salon'', svr_Name = ''Haircut'',
        svr_DurationMinutes = 30, svr_Active = True, svr_AIBookable = True, svr_ArchivedAt = None\<rparr>],
      db_Staff = [], db_CallSessions = [], db_Appointments = [], db_Requests = [],
      db_Segments = [], db_Events = [], db_Notifications = []\<rparr>"

definition sample_owner_request :: "gotime \<Rightarrow> gotime \<Rightarrow> ActionRequest" where
  "sample_owner_request rootStart segmentStart =
     \<lparr>req_OperationType = OperationKindBook, req_OperationKey = '' key-1 '',
      req_RetryOfAttemptID = [], req_AvailabilityQuoteID = [], req_SlotFingerprint = [],
      req_Source = ''ai_voice_call'', req_CallSessionID = [], req_CustomerName = ''Ada'',
      req_CustomerPhone = ''555'', req_CustomerEmail = [],
      req_Segments = [\<lparr>seg_ServiceID = ''cut'', seg_StaffID = [],
        seg_StaffSelectionMode = StaffSelectionAnyone, seg_GuestReference = [], seg_Quantity = 0,
        seg_RequestedStartTime = segmentStart, seg_RequestedEndTime = 0\<rparr>],
      req_RequestedStartTime = rootStart, req_RequestedEndTime = 0, req_RequestedTimezone = ''UTC'',
      req_PartySize = 0, req_Notes = [], req_TargetAppointmentID = [], req_TargetAuthority = [],
      req_ExpectedTargetAuthorityAppointmentVersion = 0, req_TargetDescription = []\<rparr>"

definition sample_booking :: ActionRequest where
  "sample_booking = sample_owner_request 5000 0"

definition sample_transition :: "string \<Rightarrow> string \<Rightarrow> TransitionSchedulingRequest" where
  "sample_transition key status =
     \<lparr>tsr_ActionKey = key, tsr_ExpectedVersion = 1, tsr_Status = status,
      tsr_ResolutionReason = ''called back'', tsr_Note = []\<rparr>"

text \<open>The states after the booking and after its review.\<close>

definition sample_requested :: OwnerDB where
  "sample_requested = snd (CreateRequest sample_hashes (Repository (sample_owner_env ''r'')) ''salon''
     ''owner'' sample_booking sample_owner_db)"

definition sample_reviewed :: OwnerDB where
  "sample_reviewed = snd (Transition sample_hashes (Repository (sample_owner_env ''e'')) ''salon''
     ''owner'' ''r'' (sample_transition ''close'' SchedulingRequestStatusResolved) sample_requested)"

definition sample_row :: RequestRow where
  "sample_row = hd (db_Requests sample_requested)"

definition sample_closed_row :: RequestRow where
  "sample_closed_row = hd (db_Requests sample_reviewed)"

text \<open>What the calls return on the sample.\<close>

definition sample_created :: SchedulingRequest where
  "sample_created = projr (getRequest (sample_owner_env ''r'') sample_requested ''salon'' ''owner'' ''r'')"

definition sample_closed :: SchedulingRequest where
  "sample_closed = projr (getRequest (sample_owner_env ''e'') sample_reviewed ''salon'' ''owner'' ''r'')"

lemma sample_create_runs:
  "CreateRequest sample_hashes (Repository (sample_owner_env ''r'')) ''salon'' ''owner''
     sample_booking sample_owner_db = (Inr (Some sample_created, False), sample_requested)"
  by code_simp

lemma sample_review_runs:
  "Transition sample_hashes (Repository (sample_owner_env ''e'')) ''salon'' ''owner'' ''r''
     (sample_transition ''close'' SchedulingRequestStatusResolved) sample_requested
   = (Inr (Some sample_closed, False), sample_reviewed)"
  by code_simp

lemma sample_steps:
  "(owner_step sample_hashes)\<^sup>*\<^sup>* sample_owner_db sample_requested"
  "(owner_step sample_hashes)\<^sup>*\<^sup>* sample_requested sample_reviewed"
proof -
  have "env_UUID (sample_owner_env ''r'') 0 \<notin> rq_ID ` set (db_Requests sample_owner_db)"
    by (simp add: sample_owner_db_def)
  from owner_step.create [OF this sample_create_runs]
  show "(owner_step sample_hashes)\<^sup>*\<^sup>* sample_owner_db sample_requested" by blast
  from owner_step.move [OF sample_review_runs]
  show "(owner_step sample_hashes)\<^sup>*\<^sup>* sample_requested sample_reviewed" by blast
qed

lemma sample_ledgers: "ledger_ok sample_requested" "ledger_ok sample_reviewed"
proof -
  have "ledger_ok sample_owner_db" by (simp add: ledger_ok_def sample_owner_db_def)
  then show "ledger_ok sample_requested" by (rule ledger_ok_reachable [OF sample_steps(1)])
  then show "ledger_ok sample_reviewed" by (rule ledger_ok_reachable [OF sample_steps(2)])
qed

lemma sample_access:
  "may_act (sample_owner_env ''x'') sample_requested ''salon'' ''manager''"
  "may_act (sample_owner_env ''x'') sample_reviewed ''salon'' ''manager''"
  by code_simp+

section \<open>The theorems at the sample\<close>

theorem owner_ledger_invariant_witness:
  "ledger_ok sample_reviewed \<and> db_Requests sample_reviewed = [sample_closed_row]"
proof
  show "ledger_ok sample_reviewed"
    using owner_ledger_invariant [OF rtranclp_trans [OF sample_steps]]
    by (simp add: sample_owner_db_def)
  show "db_Requests sample_reviewed = [sample_closed_row]" by code_simp
qed

theorem owner_request_created_once_witness:
  "\<exists>r'. CreateRequest sample_hashes (Repository (sample_owner_env ''x'')) ''salon'' ''manager''
       sample_booking sample_reviewed = (Inr (Some r', True), sample_reviewed)
     \<and> sr_ID r' = sr_ID sample_created"
proof -
  have n: "normalizeActionRequest sample_booking = Inr (canonical_request sample_booking)"
    and fp: "oh_actionRequestFingerprint sample_hashes (canonical_request sample_booking) = Inr ''key-1/''"
    by code_simp+
  show ?thesis
    using owner_request_created_once [OF sample_create_runs sample_ledgers(1) sample_steps(2)
        sample_access(2) n n refl fp] fp by simp
qed

theorem transition_compare_and_swap_witness:
  "Transition sample_hashes (Repository (sample_owner_env ''x'')) ''salon'' ''manager'' ''r''
     (sample_transition ''other'' SchedulingRequestStatusContacted) sample_reviewed
   = (Inl ErrSchedulingRequestVersion, sample_reviewed)"
proof (rule transition_compare_and_swap [OF sample_review_runs sample_ledgers(1)
      rtranclp.rtrancl_refl sample_access(2)])
  let ?t = "sample_transition ''other'' SchedulingRequestStatusContacted"
  show "transition_ok ''r'' (trim_transition ?t)" by code_simp
  show "oh_transitionFingerprint sample_hashes (trim_transition ?t) = Inr ''other/contacted''"
    by code_simp
  show "action_event sample_reviewed ''salon'' (TrimSpace ''r'') (TrimSpace (tsr_ActionKey ?t)) = None"
    by code_simp
  show "tsr_ExpectedVersion ?t
      = tsr_ExpectedVersion (sample_transition ''close'' SchedulingRequestStatusResolved)"
    by (simp add: sample_transition_def)
qed

text \<open>The owner is notified; ninety days after the review the request is redacted.\<close>

definition sample_retention :: RetentionEnv where
  "sample_retention =
     \<lparr>rt_Now = 90 * 86400000000000 + 2000, rt_Locked = (\<lambda>_. False), rt_Claimed = (\<lambda>_. False),
      rt_CustomerOpen = (\<lambda>_ _. False), rt_SafePayload = (\<lambda>_. ''{}''), rt_Refused = None\<rparr>"

definition sample_delivered :: OwnerDB where
  "sample_delivered = sample_reviewed\<lparr>db_Notifications :=
     map (\<lambda>row. row\<lparr>nt_DeliveryStatus := ''delivered''\<rparr>) (db_Notifications sample_reviewed)\<rparr>"

definition sample_redacted :: OwnerDB where
  "sample_redacted = snd (redactNextSchedulingRequest sample_retention ''salon'' ''r'' sample_delivered)"

lemma sample_redaction:
  "(ledger_step sample_hashes)\<^sup>*\<^sup>* sample_reviewed sample_redacted"
proof -
  have "ledger_step sample_hashes sample_reviewed sample_delivered"
    by (intro ledger_step.serve owner_step.elsewhere) (simp_all add: sample_delivered_def)
  moreover have "ledger_step sample_hashes sample_delivered sample_redacted"
    by (rule ledger_step.redact [of sample_retention "''salon''" "''r''" _
        "fst (redactNextSchedulingRequest sample_retention ''salon'' ''r'' sample_delivered)"])
      (simp add: sample_redacted_def)
  ultimately show ?thesis by (auto intro: converse_rtranclp_into_rtranclp)
qed

theorem closed_request_is_final_witness:
  "map rq_CustomerName (db_Requests sample_redacted) = [''[redacted]'']
   \<and> map rq_Status (db_Requests sample_redacted) = [SchedulingRequestStatusResolved]
   \<and> Transition sample_hashes (Repository (sample_owner_env ''x'')) (rq_SalonID sample_closed_row)
       ''manager'' ''r'' (sample_transition ''other'' SchedulingRequestStatusDismissed) sample_redacted
     = (Inl (if tsr_ExpectedVersion (sample_transition ''other'' SchedulingRequestStatusDismissed)
               = rq_Version sample_closed_row
             then ErrSchedulingRequestTerminal else ErrSchedulingRequestVersion), sample_redacted)"
proof -
  let ?t = "sample_transition ''other'' SchedulingRequestStatusDismissed"
  have row: "distinct (map rq_ID (db_Requests sample_reviewed))"
    "sample_closed_row \<in> set (db_Requests sample_reviewed)" "is_terminal (rq_Status sample_closed_row)"
    by code_simp+
  have "may_act (sample_owner_env ''x'') sample_redacted (rq_SalonID sample_closed_row) ''manager''"
    "transition_ok ''r'' (trim_transition ?t)" "rq_ID sample_closed_row = TrimSpace ''r''"
    "oh_transitionFingerprint sample_hashes (trim_transition ?t) = Inr ''other/dismissed''"
    "action_event sample_redacted (rq_SalonID sample_closed_row) (rq_ID sample_closed_row)
       (TrimSpace (tsr_ActionKey ?t)) = None"
    by code_simp+
  moreover have "map rq_CustomerName (db_Requests sample_redacted) = [''[redacted]'']"
    "map rq_Status (db_Requests sample_redacted) = [SchedulingRequestStatusResolved]"
    by code_simp+
  ultimately show ?thesis
    using closed_request_is_final [OF row sample_redaction] by blast
qed

theorem transition_applied_once_witness:
  "\<exists>r'. Transition sample_hashes (Repository (sample_owner_env ''x'')) ''salon'' ''manager'' ''r''
       (sample_transition ''close'' SchedulingRequestStatusResolved) sample_reviewed
       = (Inr (Some r', True), sample_reviewed) \<and> sr_ID r' = TrimSpace ''r''"
proof -
  let ?t = "sample_transition ''close'' SchedulingRequestStatusResolved"
  have ok: "transition_ok ''r'' (trim_transition ?t)"
    and fp: "oh_transitionFingerprint sample_hashes (trim_transition ?t) = Inr ''close/resolved''"
    by code_simp+
  show ?thesis
    using transition_applied_once [OF sample_review_runs sample_ledgers(1) rtranclp.rtrancl_refl
        sample_access(2) ok refl fp] fp by simp
qed

theorem only_recorded_owner_applies_transitions_witness:
  "may_act (sample_owner_env ''x'') sample_requested ''salon'' ''manager''
   \<and> Transition sample_hashes (Repository (sample_owner_env ''x'')) ''salon'' ''manager'' ''r''
       (sample_transition ''close'' SchedulingRequestStatusResolved) sample_requested
     = (Inl (StoreError ''scheduling_request_events_actor_owner_guard''), sample_requested)"
proof -
  let ?t = "sample_transition ''close'' SchedulingRequestStatusResolved"
  have "db_Salons sample_requested = [sample_salon_row]" by code_simp
  then have owner: "\<forall>salon \<in> set (db_Salons sample_requested).
      sal_ID salon = ''salon'' \<longrightarrow> sal_OwnerUserID salon \<noteq> ''manager''"
    by (simp add: sample_salon_row_def)
  have "sample_row \<in> set (db_Requests sample_requested)" "rq_SalonID sample_row = ''salon''"
    "rq_ID sample_row = TrimSpace ''r''" "transition_ok ''r'' (trim_transition ?t)"
    "oh_transitionFingerprint sample_hashes (trim_transition ?t) = Inr ''close/resolved''"
    "action_event sample_requested ''salon'' (TrimSpace ''r'') (TrimSpace (tsr_ActionKey ?t)) = None"
    "tsr_ExpectedVersion ?t = rq_Version sample_row"
    "transitionAllowed (rq_Status sample_row) (tsr_Status ?t)"
    by code_simp+
  with sample_access(1) show ?thesis
    using only_recorded_owner_applies_transitions [OF sample_ledgers(1) _ owner] by blast
qed

theorem segment_times_need_request_time_witness:
  "CreateRequest sample_hashes (Repository (sample_owner_env ''r'')) ''salon'' ''owner''
     (sample_owner_request 0 5000) sample_owner_db
   = (Inl (StoreError ''scheduling_requests_requested_range_check''), sample_owner_db)"
proof (rule segment_times_need_request_time)
  let ?n = "canonical_request (sample_owner_request 0 5000)"
  show "normalizeActionRequest (sample_owner_request 0 5000) = Inr ?n" by code_simp
  show "oh_actionRequestFingerprint sample_hashes ?n = Inr ''key-1/''" by code_simp
  show "may_act (sample_owner_env ''r'') sample_owner_db ''salon'' ''owner''" by code_simp
  show "existing_request sample_owner_db ''salon'' (req_OperationKey ?n) = None" by code_simp
  show "salon_row sample_owner_db ''salon'' = Some sample_salon_row" by code_simp
  show "sal_Settings sample_salon_row = Some (the (sal_Settings sample_salon_row))" by code_simp
  show "policy_error (the (sal_Settings sample_salon_row)) ?n = None" by code_simp
  show "req_RequestedTimezone ?n = sal_Timezone sample_salon_row" by code_simp
  show "\<not> call_session_missing sample_owner_db ''salon'' ?n" by code_simp
  show "resolveSegmentSnapshots sample_owner_db ''salon'' ?n
      = Inr (fst (projr (resolveSegmentSnapshots sample_owner_db ''salon'' ?n)), 1800000005000)"
    by code_simp
  show "req_RequestedStartTime ?n = 0" by code_simp
  show "list_ex (\<lambda>segment. 0 < seg_RequestedStartTime segment) (req_Segments ?n)" by code_simp
qed

theorem owner_executor_never_confirms_witness:
  "\<exists>r. ExecuteAction_owner sample_hashes (Repository (sample_owner_env ''r'')) ''salon'' ''owner''
        sample_booking sample_owner_db = (Inr (Some r), sample_requested)
      \<and> act_Kind r = ActionKindPendingOwnerReview \<and> act_ConfirmedAppointment r = None"
proof -
  have run: "ExecuteAction_owner sample_hashes (Repository (sample_owner_env ''r'')) ''salon'' ''owner''
      sample_booking sample_owner_db
      = (Inr (Some (owner_review_result OperationKindBook sample_created)), sample_requested)"
    by code_simp
  show ?thesis
    using owner_executor_never_confirms [where hashes = sample_hashes
        and env = "sample_owner_env ''r''" and salonID = "''salon''" and u = "''owner''"
        and req = sample_booking and db = sample_owner_db] run by blast
qed

end
