(* ===== verification/Calendar_Store.thy ===== *)
theory Calendar_Store
  imports Calendar_Executor "HOL-Library.Product_Lexorder"
begin

text \<open>
  The execution repository of the internal calendar: the transactions of
  \<open>execution_repository_aggregate.go\<close>, \<open>execution_lifecycle.go\<close>, \<open>execution_result.go\<close> and the
  loaders they share in \<open>execution_repository.go\<close>, over an explicit database.

  Every transaction takes the advisory lock of the salon first (\<open>lockCalendarExecutionTx\<close>), so the
  transactions of a salon run one after the other and are functions from a database to a database;
  an error rolls back, so it returns the database it started from. Child rows that belong to one
  parent row by a foreign key are held in it: the slots of a quote with their segments and
  allocations, the segments of an attempt, the allocations of an appointment segment. The
  configuration tables of a salon are held in the shape \<open>loadAggregate\<close> reads them in. A NULL text
  or version is the empty string or 0 where the code reads it through \<open>COALESCE\<close>.

  Parameters (\<open>StoreEnv\<close>): the access predicates of the tenant policies, \<open>uuid.NewString\<close> (one
  value per call site and iteration), \<open>uuid.Parse\<close>, \<open>time.LoadLocation\<close>, the SHA-256 fingerprints,
  and \<open>st_Guards\<close>, what the constraints and triggers of the schema reject about the state a
  transaction is about to commit. Nothing is assumed of the guards: they can only make a
  transaction fail.
\<close>

section \<open>Rows\<close>

record PlanAllocation =
  pa_ResourcePoolID :: string
  pa_UnitsAllocated :: int

text \<open>A segment of a quoted slot or of the snapshot of an attempt.\<close>

record PlanSegmentRow =
  ps_ID :: string
  ps_ServiceID :: string
  ps_StaffID :: string
  ps_StaffSelectionMode :: string
  ps_GuestReference :: string
  ps_Name :: string
  ps_DurationMinutes :: int
  ps_SortOrder :: int
  ps_ScheduledStartTime :: gotime
  ps_ScheduledEndTime :: gotime
  ps_BufferBeforeMinutes :: int
  ps_BufferAfterMinutes :: int
  ps_OccupiedStartTime :: gotime
  ps_OccupiedEndTime :: gotime
  ps_Allocations :: "PlanAllocation list"

record QuoteSlotRow =
  qsl_ID :: string
  qsl_SlotFingerprint :: string
  qsl_StartTime :: gotime
  qsl_EndTime :: gotime
  qsl_Segments :: "PlanSegmentRow list"

record QuoteRow =
  qr_ID :: string
  qr_SalonID :: string
  qr_RequestFingerprint :: string
  qr_ExpiresAt :: gotime
  qr_CreatedAt :: gotime
  qr_SchedulingAuthority :: string
  qr_SchedulingAuthorityVersion :: int
  qr_AuthorityConfigVersion :: int
  qr_OperationType :: string
  qr_TargetAppointmentID :: string
  qr_TargetAuthorityAppointmentVersion :: int
  qr_PartySize :: int
  qr_ConsumedAt :: "gotime option"
  qr_ConsumedByAttemptID :: "string option"
  qr_Slots :: "QuoteSlotRow list"

text \<open>\<open>at_ProviderEvidence\<close>: one of the provider columns of the row is not NULL.\<close>

record AttemptRow =
  at_ID :: string
  at_SalonID :: string
  at_Source :: string
  at_Status :: string
  at_OperationKey :: string
  at_RequestFingerprint :: string
  at_AvailabilityQuoteID :: "string option"
  at_AvailabilitySlotFingerprint :: "string option"
  at_OperationType :: string
  at_TargetAppointmentID :: "string option"
  at_CustomerName :: string
  at_CustomerPhone :: string
  at_CustomerEmail :: string
  at_ServiceID :: string
  at_StaffID :: string
  at_StaffSelectionMode :: string
  at_RequestedStartTime :: gotime
  at_RequestedEndTime :: gotime
  at_Notes :: string
  at_SchedulingAuthority :: string
  at_AuthorityAppointmentID :: string
  at_AuthorityAppointmentVersion :: int
  at_TargetAuthorityAppointmentVersion :: "int option"
  at_SchedulingAuthorityVersion :: int
  at_AuthorityConfigVersion :: int
  at_PartySize :: int
  at_ProviderEvidence :: bool
  at_CreatedAt :: gotime
  at_Segments :: "PlanSegmentRow list"

record AppointmentRow =
  ap_ID :: string
  ap_SalonID :: string
  ap_BookingAttemptID :: string
  ap_Status :: string
  ap_CustomerName :: string
  ap_CustomerPhone :: string
  ap_CustomerEmail :: string
  ap_ServiceID :: string
  ap_StaffID :: string
  ap_StaffSelectionMode :: string
  ap_StartTime :: gotime
  ap_EndTime :: gotime
  ap_Notes :: string
  ap_SchedulingAuthority :: string
  ap_AuthorityAppointmentVersion :: int
  ap_SchedulingAuthorityVersion :: int
  ap_AuthorityConfigVersion :: int
  ap_PartySize :: int
  ap_ProviderEvidence :: bool
  ap_CreatedAt :: gotime
  ap_UpdatedAt :: gotime

record AllocationRow =
  al_ID :: string
  al_ResourcePoolID :: string
  al_UnitsAllocated :: int
  al_PlanVersion :: int
  al_OccupiedStartTime :: gotime
  al_OccupiedEndTime :: gotime
  al_ReleasedAt :: "gotime option"

record AppointmentSegmentRow =
  sg_ID :: string
  sg_SalonID :: string
  sg_AppointmentID :: string
  sg_ServiceID :: string
  sg_StaffID :: string
  sg_StaffSelectionMode :: string
  sg_GuestReference :: string
  sg_Name :: string
  sg_DurationMinutes :: int
  sg_SortOrder :: int
  sg_PlanVersion :: int
  sg_SchedulingAuthority :: string
  sg_ScheduledStartTime :: gotime
  sg_ScheduledEndTime :: gotime
  sg_BufferBeforeMinutes :: int
  sg_BufferAfterMinutes :: int
  sg_OccupiedStartTime :: gotime
  sg_OccupiedEndTime :: gotime
  sg_CreatedAt :: gotime
  sg_ReleasedAt :: "gotime option"
  sg_ReleasedByAttemptID :: "string option"
  sg_Allocations :: "AllocationRow list"

record ExecutionEventRow =
  ee_ID :: string
  ee_SalonID :: string
  ee_BookingAttemptID :: string
  ee_AppointmentID :: string
  ee_EventType :: string
  ee_SchedulingAuthorityVersion :: int
  ee_AuthorityConfigVersion :: int
  ee_AuthorityAppointmentVersion :: int
  ee_ChildrenHash :: string
  ee_CreatedAt :: gotime

record CalendarDB =
  cd_Calendars :: "Aggregate list"
  cd_Quotes :: "QuoteRow list"
  cd_Attempts :: "AttemptRow list"
  cd_Appointments :: "AppointmentRow list"
  cd_Segments :: "AppointmentSegmentRow list"
  cd_Events :: "ExecutionEventRow list"

record StoreEnv =
  st_MayExecute :: "string \<Rightarrow> string \<Rightarrow> bool"
  st_MayRead :: "string \<Rightarrow> string \<Rightarrow> bool"
  st_UUID :: "nat list \<Rightarrow> string"
  st_UUIDParse :: "string \<Rightarrow> bool"
  st_LoadLocation :: "string \<Rightarrow> Location option"
  st_RequestHash :: "int \<Rightarrow> int \<Rightarrow> normalizedAvailabilityRequest \<Rightarrow> string"
  st_LifecycleRequestHash ::
    "int \<Rightarrow> int \<Rightarrow> string \<Rightarrow> int \<Rightarrow> normalizedAvailabilityRequest \<Rightarrow> string"
  st_SlotHash :: "string \<Rightarrow> gotime \<Rightarrow> gotime \<Rightarrow> InternalAvailabilitySegment list \<Rightarrow> string"
  st_ChildrenHash :: "InternalCreateSegmentResult list \<Rightarrow> string"
  st_Guards :: "CalendarDB \<Rightarrow> CalendarDB \<Rightarrow> error option"

section \<open>Loaders\<close>

record executionFence =
  fe_Timezone :: string
  fe_Authority :: string
  fe_AuthorityVersion :: int
  fe_ConfigVersion :: int
  fe_ActivatedVersion :: int

definition calendar_row :: "CalendarDB \<Rightarrow> string \<Rightarrow> Aggregate option" where
  "calendar_row db salonID = find (\<lambda>row. agg_SalonID row = salonID) (cd_Calendars db)"

definition loadAggregate :: "StoreEnv \<Rightarrow> CalendarDB \<Rightarrow> string \<Rightarrow> string \<Rightarrow> error + Aggregate" where
  "loadAggregate env db salonID ownerUserID =
     (if \<not> st_MayRead env salonID ownerUserID then Inl ErrCalendarNotFound
      else
        (case calendar_row db salonID of
           None \<Rightarrow> Inl ErrCalendarNotFound
         | Some row \<Rightarrow>
             let aggregate = row\<lparr>agg_ConfigVersion :=
                       (case agg_Config row of None \<Rightarrow> 0 | Some config \<Rightarrow> cc_Version config),
                     agg_Constraints := DefaultConstraints\<rparr>
             in Inr (aggregate\<lparr>agg_Readiness := EvaluateReadiness (Some aggregate)\<rparr>)))"

definition lockExecutionFence ::
  "StoreEnv \<Rightarrow> CalendarDB \<Rightarrow> string \<Rightarrow> string \<Rightarrow> error + executionFence" where
  "lockExecutionFence env db salonID ownerUserID =
     (if \<not> st_MayExecute env salonID ownerUserID then Inl ErrCalendarNotFound
      else
        (case calendar_row db salonID of
           None \<Rightarrow> Inl ErrCalendarNotFound
         | Some row \<Rightarrow>
             (case agg_Config row of
                None \<Rightarrow> Inl ErrSchedulingAuthorityNotReady
              | Some config \<Rightarrow>
                  Inr \<lparr>fe_Timezone = agg_Timezone row, fe_Authority = agg_SchedulingAuthority row,
                       fe_AuthorityVersion = agg_AuthorityVersion row,
                       fe_ConfigVersion = cc_Version config,
                       fe_ActivatedVersion =
                         (case cc_ActivatedVersion config of None \<Rightarrow> 0 | Some v \<Rightarrow> v)\<rparr>)))"

definition loadLifecycleCutoff :: "CalendarDB \<Rightarrow> string \<Rightarrow> bool \<Rightarrow> int option" where
  "loadLifecycleCutoff db salonID reschedule =
     (case calendar_row db salonID of
        None \<Rightarrow> None
      | Some row \<Rightarrow>
          (case agg_Config row of
             None \<Rightarrow> None
           | Some config \<Rightarrow> if reschedule then cc_RescheduleCutoffMinutes config
                            else cc_CancellationCutoffMinutes config))"

definition localDateWindow ::
  "StoreEnv \<Rightarrow> string \<Rightarrow> string \<Rightarrow> error + gotime \<times> gotime" where
  "localDateWindow env date timezone =
     (case parse_date date of
        None \<Rightarrow> Inl ErrValidation
      | Some parsed \<Rightarrow>
          (case st_LoadLocation env (TrimSpace timezone) of
             None \<Rightarrow> Inl ErrValidation
           | Some location \<Rightarrow>
               (case strictLocalMinute parsed 0 location of
                  None \<Rightarrow> Inl ErrValidation
                | Some windowStart \<Rightarrow>
                    (case strictLocalMinute (civil_of_days (days_of_civil parsed + 1)) 0 location of
                       None \<Rightarrow> Inl ErrValidation
                     | Some windowEnd \<Rightarrow>
                         if \<not> windowEnd > windowStart then Inl ErrValidation
                         else Inr (windowStart, windowEnd)))))"

definition is_active_status :: "string \<Rightarrow> bool" where
  "is_active_status status \<longleftrightarrow> status = StatusConfirmed \<or> status = StatusRescheduled"

definition find_appointment :: "CalendarDB \<Rightarrow> string \<Rightarrow> string \<Rightarrow> AppointmentRow option" where
  "find_appointment db salonID appointmentID =
     find (\<lambda>row. ap_SalonID row = salonID \<and> ap_ID row = appointmentID) (cd_Appointments db)"

text \<open>The rows of the joins: a segment of an active appointment that is not excluded.\<close>

definition counts_against ::
  "CalendarDB \<Rightarrow> string \<Rightarrow> string \<Rightarrow> AppointmentSegmentRow \<Rightarrow> bool" where
  "counts_against db salonID excludedAppointmentID segment \<longleftrightarrow>
     sg_SalonID segment = salonID \<and> sg_ReleasedAt segment = None
     \<and> (case find_appointment db salonID (sg_AppointmentID segment) of
          None \<Rightarrow> False
        | Some appointment \<Rightarrow>
            (TrimSpace excludedAppointmentID = []
               \<or> ap_ID appointment \<noteq> TrimSpace excludedAppointmentID)
            \<and> is_active_status (ap_Status appointment))"

definition internal_conflicts ::
  "CalendarDB \<Rightarrow> string \<Rightarrow> gotime \<Rightarrow> gotime \<Rightarrow> string \<Rightarrow> StaffConflict list" where
  "internal_conflicts db salonID windowStart windowEnd excludedAppointmentID =
     map (\<lambda>segment. \<lparr>sc_StaffID = sg_StaffID segment, sc_StartsAt = sg_OccupiedStartTime segment,
                     sc_EndsAt = sg_OccupiedEndTime segment\<rparr>)
       (sort_key (\<lambda>segment. (sg_StaffID segment, sg_OccupiedStartTime segment, sg_ID segment))
         (filter (\<lambda>segment. counts_against db salonID excludedAppointmentID segment
              \<and> sg_SchedulingAuthority segment = SchedulingAuthorityManleAICalendar
              \<and> sg_OccupiedStartTime segment < windowEnd \<and> sg_OccupiedEndTime segment > windowStart)
           (cd_Segments db)))"

definition is_external_claim :: "string \<Rightarrow> AppointmentRow \<Rightarrow> bool" where
  "is_external_claim salonID appointment \<longleftrightarrow>
     ap_SalonID appointment = salonID
     \<and> ap_SchedulingAuthority appointment = SchedulingAuthorityExternalProvider
     \<and> (ap_Status appointment = StatusProviderPending \<or> ap_Status appointment = StatusConfirmed
        \<or> ap_Status appointment = StatusRescheduled \<or> ap_Status appointment = ''unknown'')"

text \<open>The staff of an external appointment: one entry per joined segment, [] for NULL.\<close>

definition external_staff :: "CalendarDB \<Rightarrow> AppointmentRow \<Rightarrow> string list" where
  "external_staff db appointment =
     (let staff = map sg_StaffID (filter (\<lambda>segment. sg_SalonID segment = ap_SalonID appointment
                    \<and> sg_AppointmentID segment = ap_ID appointment) (cd_Segments db))
      in map (\<lambda>s. if s = [] then ap_StaffID appointment else s) (if staff = [] then [[]] else staff))"

definition external_conflict ::
  "StoreEnv \<Rightarrow> CalendarDB \<Rightarrow> AppointmentRow \<Rightarrow> StaffConflict list \<times> bool" where
  "external_conflict env db appointment =
     (let staff = external_staff db appointment;
          staffIDs = sort (remdups (filter (\<lambda>s. s \<noteq> []) staff));
          missingStaff = list_ex (\<lambda>s. s = []) staff
      in if ap_ID appointment = [] \<or> \<not> ap_EndTime appointment > ap_StartTime appointment
            \<or> missingStaff \<or> staffIDs = []
         then ([], True)
         else (map (\<lambda>s. \<lparr>sc_StaffID = s, sc_StartsAt = ap_StartTime appointment,
                         sc_EndsAt = ap_EndTime appointment\<rparr>)
                 (filter (validUUID (st_UUIDParse env)) staffIDs),
               list_ex (\<lambda>s. \<not> validUUID (st_UUIDParse env) s) staffIDs))"

definition loadStaffConflictsExcluding ::
  "StoreEnv \<Rightarrow> CalendarDB \<Rightarrow> string \<Rightarrow> gotime \<Rightarrow> gotime \<Rightarrow> string \<Rightarrow> StaffConflict list \<times> bool" where
  "loadStaffConflictsExcluding env db salonID windowStart windowEnd excludedAppointmentID =
     (let invalidExternalTiming = list_ex (\<lambda>appointment. is_external_claim salonID appointment
            \<and> ap_EndTime appointment \<le> ap_StartTime appointment) (cd_Appointments db);
          external = map (external_conflict env db)
            (sort_key (\<lambda>appointment. (ap_StartTime appointment, ap_ID appointment))
              (filter (\<lambda>appointment. is_external_claim salonID appointment
                  \<and> ap_StartTime appointment < windowEnd \<and> ap_EndTime appointment > windowStart)
                (cd_Appointments db)))
      in (internal_conflicts db salonID windowStart windowEnd excludedAppointmentID
            @ concat (map fst external),
          invalidExternalTiming \<or> list_ex snd external))"

definition loadResourceConflictsExcluding ::
  "CalendarDB \<Rightarrow> string \<Rightarrow> gotime \<Rightarrow> gotime \<Rightarrow> string \<Rightarrow> ResourceConflict list" where
  "loadResourceConflictsExcluding db salonID windowStart windowEnd excludedAppointmentID =
     map (\<lambda>allocation. \<lparr>rc_ResourcePoolID = al_ResourcePoolID allocation,
                        rc_UnitsAllocated = al_UnitsAllocated allocation,
                        rc_StartsAt = al_OccupiedStartTime allocation,
                        rc_EndsAt = al_OccupiedEndTime allocation\<rparr>)
       (sort_key (\<lambda>allocation. (al_ResourcePoolID allocation, al_OccupiedStartTime allocation,
           al_ID allocation))
         (filter (\<lambda>allocation. al_ReleasedAt allocation = None
              \<and> al_OccupiedStartTime allocation < windowEnd
              \<and> al_OccupiedEndTime allocation > windowStart)
           (concat (map sg_Allocations
             (filter (counts_against db salonID excludedAppointmentID) (cd_Segments db))))))"

definition loadStaffConflicts ::
  "StoreEnv \<Rightarrow> CalendarDB \<Rightarrow> string \<Rightarrow> gotime \<Rightarrow> gotime \<Rightarrow> StaffConflict list \<times> bool" where
  "loadStaffConflicts env db salonID windowStart windowEnd =
     loadStaffConflictsExcluding env db salonID windowStart windowEnd []"

definition loadResourceConflicts ::
  "CalendarDB \<Rightarrow> string \<Rightarrow> gotime \<Rightarrow> gotime \<Rightarrow> ResourceConflict list" where
  "loadResourceConflicts db salonID windowStart windowEnd =
     loadResourceConflictsExcluding db salonID windowStart windowEnd []"

text \<open>The join of allocations with the resource pools of the salon, ordered by pool.\<close>

definition pool_name :: "CalendarDB \<Rightarrow> string \<Rightarrow> string \<Rightarrow> string option" where
  "pool_name db salonID poolID =
     (case calendar_row db salonID of
        None \<Rightarrow> None
      | Some row \<Rightarrow> map_option rp_Name (find (\<lambda>pool. rp_ID pool = poolID) (agg_Resources row)))"

definition joined_allocations ::
  "CalendarDB \<Rightarrow> string \<Rightarrow> (string \<times> int) list \<Rightarrow> InternalResourceAllocation list" where
  "joined_allocations db salonID allocations =
     List.map_filter (\<lambda>(poolID, units).
         map_option (\<lambda>name. \<lparr>ira_ResourcePoolID = poolID, ira_ResourceName = name,
                             ira_UnitsAllocated = units\<rparr>) (pool_name db salonID poolID))
       (sort_key fst allocations)"

section \<open>Quotes\<close>

definition plan_allocations :: "PlanAllocation list \<Rightarrow> (string \<times> int) list" where
  "plan_allocations = map (\<lambda>a. (pa_ResourcePoolID a, pa_UnitsAllocated a))"

definition scan_quoted_segment ::
  "CalendarDB \<Rightarrow> string \<Rightarrow> PlanSegmentRow \<Rightarrow> quotedAggregateSegment" where
  "scan_quoted_segment db salonID row =
     \<lparr>qs_ID = ps_ID row, qs_Name = [], qs_ServiceID = ps_ServiceID row,
      qs_StaffID = ps_StaffID row, qs_StaffSelectionMode = ps_StaffSelectionMode row,
      qs_GuestReference = ps_GuestReference row, qs_DurationMinutes = ps_DurationMinutes row,
      qs_SortOrder = ps_SortOrder row, qs_StartTime = ps_ScheduledStartTime row,
      qs_EndTime = ps_ScheduledEndTime row, qs_BufferBeforeMinutes = ps_BufferBeforeMinutes row,
      qs_BufferAfterMinutes = ps_BufferAfterMinutes row,
      qs_OccupiedStartTime = ps_OccupiedStartTime row, qs_OccupiedEndTime = ps_OccupiedEndTime row,
      qs_ResourceAllocations = joined_allocations db salonID (plan_allocations (ps_Allocations row))\<rparr>"

definition find_quote :: "CalendarDB \<Rightarrow> string \<Rightarrow> string \<Rightarrow> QuoteRow option" where
  "find_quote db salonID quoteID =
     find (\<lambda>row. qr_ID row = quoteID \<and> qr_SalonID row = salonID
             \<and> qr_SchedulingAuthority row = SchedulingAuthorityManleAICalendar) (cd_Quotes db)"

definition lockQuotedAggregateSlot ::
  "CalendarDB \<Rightarrow> string \<Rightarrow> string \<Rightarrow> string \<Rightarrow> error + quotedAggregateSlot" where
  "lockQuotedAggregateSlot db salonID quoteID fingerprint =
     (case find_quote db salonID quoteID of
        None \<Rightarrow> Inl ErrAvailabilityQuoteStale
      | Some quote \<Rightarrow>
          (case find (\<lambda>slot. qsl_SlotFingerprint slot = fingerprint) (qr_Slots quote) of
             None \<Rightarrow> Inl ErrAvailabilityQuoteStale
           | Some slot \<Rightarrow>
               Inr \<lparr>qu_QuoteID = qr_ID quote, qu_RequestFingerprint = qr_RequestFingerprint quote,
                    qu_ExpiresAt = qr_ExpiresAt quote, qu_ConsumedAt = qr_ConsumedAt quote,
                    qu_ConsumedAttemptID = qr_ConsumedByAttemptID quote,
                    qu_AuthorityVersion = qr_SchedulingAuthorityVersion quote,
                    qu_ConfigVersion = qr_AuthorityConfigVersion quote,
                    qu_OperationType = qr_OperationType quote,
                    qu_TargetAppointmentID = qr_TargetAppointmentID quote,
                    qu_TargetAuthorityAppointmentVersion = qr_TargetAuthorityAppointmentVersion quote,
                    qu_PartySize = qr_PartySize quote, qu_SlotID = qsl_ID slot,
                    qu_SlotFingerprint = qsl_SlotFingerprint slot,
                    qu_StartTime = qsl_StartTime slot, qu_EndTime = qsl_EndTime slot,
                    qu_Segments = map (scan_quoted_segment db salonID)
                      (sort_key ps_SortOrder (qsl_Segments slot))\<rparr>))"

definition serviceName :: "Aggregate \<Rightarrow> string \<Rightarrow> string" where
  "serviceName aggregate serviceID =
     (case find (\<lambda>policy. sv_ID (vp_Service policy) = serviceID) (agg_ServicePolicies aggregate) of
        None \<Rightarrow> [] | Some policy \<Rightarrow> sv_Name (vp_Service policy))"

definition staffName :: "Aggregate \<Rightarrow> string \<Rightarrow> string" where
  "staffName aggregate staffID =
     (case find (\<lambda>profile. sf_ID (sp_Staff profile) = staffID) (agg_StaffProfiles aggregate) of
        None \<Rightarrow> [] | Some profile \<Rightarrow> sf_Name (sp_Staff profile))"

definition planned_of_quoted ::
  "Aggregate \<Rightarrow> quotedAggregateSegment \<Rightarrow> InternalAvailabilitySegment" where
  "planned_of_quoted aggregate segment =
     \<lparr>ias_ServiceID = qs_ServiceID segment, ias_ServiceName = serviceName aggregate (qs_ServiceID segment),
      ias_StaffID = qs_StaffID segment, ias_StaffName = staffName aggregate (qs_StaffID segment),
      ias_StaffSelectionMode = qs_StaffSelectionMode segment,
      ias_GuestReference = qs_GuestReference segment, ias_Quantity = 1,
      ias_StartTime = qs_StartTime segment, ias_EndTime = qs_EndTime segment,
      ias_OccupiedStartTime = qs_OccupiedStartTime segment,
      ias_OccupiedEndTime = qs_OccupiedEndTime segment,
      ias_BufferBeforeMinutes = qs_BufferBeforeMinutes segment,
      ias_BufferAfterMinutes = qs_BufferAfterMinutes segment,
      ias_ResourceAllocations = qs_ResourceAllocations segment\<rparr>"

definition quotedSlotAsPlan :: "quotedAggregateSlot \<Rightarrow> Aggregate \<Rightarrow> InternalAvailabilitySlot" where
  "quotedSlotAsPlan quote aggregate =
     \<lparr>isl_Fingerprint = qu_SlotFingerprint quote, isl_ServiceID = [], isl_ServiceName = [],
      isl_StaffID = [], isl_StaffName = [], isl_StartTime = qu_StartTime quote,
      isl_EndTime = qu_EndTime quote, isl_OccupiedStartTime = 0, isl_OccupiedEndTime = 0,
      isl_BufferBeforeMinutes = 0, isl_BufferAfterMinutes = 0,
      isl_Segments = map (planned_of_quoted aggregate) (qu_Segments quote)\<rparr>"

definition aggregateAvailabilitySlotFingerprint ::
  "StoreEnv \<Rightarrow> string \<Rightarrow> InternalAvailabilitySlot \<Rightarrow> string" where
  "aggregateAvailabilitySlotFingerprint env requestFingerprint slot =
     st_SlotHash env requestFingerprint (isl_StartTime slot) (isl_EndTime slot) (isl_Segments slot)"

definition exactAggregatePlan ::
  "StoreEnv \<Rightarrow> InternalAvailabilitySlot list \<Rightarrow> InternalAvailabilitySlot \<Rightarrow> bool" where
  "exactAggregatePlan env planned quoted =
     list_ex (\<lambda>candidate. aggregateAvailabilitySlotFingerprint env [] candidate
                = aggregateAvailabilitySlotFingerprint env [] quoted) planned"

definition quoted_segment_request :: "quotedAggregateSegment \<Rightarrow> normalizedAvailabilitySegment" where
  "quoted_segment_request segment =
     \<lparr>nas_ServiceID = qs_ServiceID segment,
      nas_StaffID = (if qs_StaffSelectionMode segment = StaffSelectionAnyone then []
                     else qs_StaffID segment),
      nas_StaffSelectionMode = qs_StaffSelectionMode segment,
      nas_GuestReference = qs_GuestReference segment, nas_Quantity = 1\<rparr>"

text \<open>
  \<open>time.Time.In\<close> panics on the nil location that \<open>time.LoadLocation\<close> returns with an error, which
  \<open>quotedRequest\<close> does not look at: the result is then \<open>None\<close>.
\<close>

definition quotedRequest ::
  "StoreEnv \<Rightarrow> quotedAggregateSlot \<Rightarrow> string \<Rightarrow> normalizedAvailabilityRequest option" where
  "quotedRequest env quote timezone =
     (case st_LoadLocation env timezone of
        None \<Rightarrow> None
      | Some location \<Rightarrow>
          let segments = map quoted_segment_request (qu_Segments quote)
          in Some \<lparr>nar_ServiceID = (if segments = [] then [] else nas_ServiceID (hd segments)),
                   nar_StaffID = (if segments = [] then [] else nas_StaffID (hd segments)),
                   nar_StaffSelectionMode =
                     (if segments = [] then [] else nas_StaffSelectionMode (hd segments)),
                   nar_PartySize = qu_PartySize quote, nar_Segments = segments,
                   nar_PreferredDate = format_date (local_civil location (qu_StartTime quote)),
                   nar_Limit = -1\<rparr>)"

definition distinctPoolIDs :: "quotedAggregateSegment list \<Rightarrow> string list" where
  "distinctPoolIDs segments =
     sort (remdups (concat (map (\<lambda>segment. map ira_ResourcePoolID (qs_ResourceAllocations segment))
       segments)))"

text \<open>\<open>lock_manleai_calendar_resource_pools\<close>: every pool must exist and be active.\<close>

definition pools_lockable :: "CalendarDB \<Rightarrow> string \<Rightarrow> string list \<Rightarrow> bool" where
  "pools_lockable db salonID poolIDs \<longleftrightarrow>
     (case calendar_row db salonID of
        None \<Rightarrow> poolIDs = []
      | Some row \<Rightarrow> list_all (\<lambda>poolID. list_ex (\<lambda>pool. rp_ID pool = poolID \<and> rp_ArchivedAt pool = None)
                       (agg_Resources row)) poolIDs)"

definition service_lockable :: "Aggregate \<Rightarrow> string \<Rightarrow> bool" where
  "service_lockable row serviceID \<longleftrightarrow>
     list_ex (\<lambda>policy. sv_ID (vp_Service policy) = serviceID \<and> sv_Active (vp_Service policy)
          \<and> sv_AIBookable (vp_Service policy) \<and> sv_ArchivedAt (vp_Service policy) = None
          \<and> vp_Configured policy \<and> vp_Enabled policy
          \<and> (vp_CapacityMode policy = Some CapacityModeStaffOnly
             \<or> vp_CapacityMode policy = Some CapacityModePooled)) (agg_ServicePolicies row)"

definition staff_lockable :: "Aggregate \<Rightarrow> string \<Rightarrow> bool" where
  "staff_lockable row staffID \<longleftrightarrow>
     list_ex (\<lambda>profile. sf_ID (sp_Staff profile) = staffID \<and> sf_Active (sp_Staff profile)
          \<and> sf_AIBookable (sp_Staff profile) \<and> sf_ArchivedAt (sp_Staff profile) = None)
       (agg_StaffProfiles row)"

definition pair_lockable :: "Aggregate \<Rightarrow> string \<Rightarrow> string \<Rightarrow> bool" where
  "pair_lockable row serviceID staffID \<longleftrightarrow>
     list_ex (\<lambda>policy. sv_ID (vp_Service policy) = serviceID
          \<and> list_ex (\<lambda>staff. sf_ID staff = staffID) (vp_EligibleStaff policy))
       (agg_ServicePolicies row)"

definition lockAggregateCanonicalRows ::
  "CalendarDB \<Rightarrow> string \<Rightarrow> quotedAggregateSlot \<Rightarrow> error option" where
  "lockAggregateCanonicalRows db salonID quote =
     (let ok = (case calendar_row db salonID of
                  None \<Rightarrow> qu_Segments quote = []
                | Some row \<Rightarrow> list_all (\<lambda>segment. service_lockable row (qs_ServiceID segment)
                      \<and> staff_lockable row (qs_StaffID segment)
                      \<and> pair_lockable row (qs_ServiceID segment) (qs_StaffID segment))
                    (qu_Segments quote))
      in if ok then None else Some ErrAvailabilityQuoteStale)"

section \<open>Answers\<close>

definition availabilitySegmentsFromInternal ::
  "InternalAvailabilitySegment list \<Rightarrow> AvailabilitySegment list" where
  "availabilitySegmentsFromInternal segments =
     map (\<lambda>segment.
       \<lparr>aseg_ServiceID = ias_ServiceID segment, aseg_ServiceName = ias_ServiceName segment,
        aseg_StaffID = ias_StaffID segment, aseg_StaffName = ias_StaffName segment,
        aseg_StaffSelectionMode = ias_StaffSelectionMode segment,
        aseg_GuestReference = ias_GuestReference segment, aseg_Quantity = 1,
        aseg_DurationMinutes = (ias_EndTime segment - ias_StartTime segment) div ns_per_minute,
        aseg_ScheduledStartTime = ias_StartTime segment,
        aseg_ScheduledEndTime = ias_EndTime segment,
        aseg_OccupiedStartTime = ias_OccupiedStartTime segment,
        aseg_OccupiedEndTime = ias_OccupiedEndTime segment,
        aseg_BufferBeforeMinutes = ias_BufferBeforeMinutes segment,
        aseg_BufferAfterMinutes = ias_BufferAfterMinutes segment,
        aseg_ResourceAllocations = map (\<lambda>allocation.
          \<lparr>ara_ResourcePoolID = ira_ResourcePoolID allocation,
           ara_ResourceName = ira_ResourceName allocation,
           ara_UnitsAllocated = ira_UnitsAllocated allocation\<rparr>) (ias_ResourceAllocations segment)\<rparr>)
       segments"

definition aggregateAvailabilitySlots ::
  "InternalAvailabilitySlot list \<Rightarrow> AvailabilitySlot list" where
  "aggregateAvailabilitySlots slots =
     map (\<lambda>slot.
       \<lparr>aslot_Fingerprint = isl_Fingerprint slot, aslot_StartTime = isl_StartTime slot,
        aslot_EndTime = isl_EndTime slot, aslot_StaffID = isl_StaffID slot,
        aslot_StaffName = isl_StaffName slot,
        aslot_StaffSelectionMode = ias_StaffSelectionMode (hd (isl_Segments slot)),
        aslot_Segments = availabilitySegmentsFromInternal (isl_Segments slot)\<rparr>) slots"

definition aggregateAvailabilityResult ::
  "Aggregate \<Rightarrow> normalizedAvailabilityRequest \<Rightarrow> InternalAvailabilitySlot list \<Rightarrow> AvailabilityResult" where
  "aggregateAvailabilityResult aggregate req slots =
     (let filled = slots \<noteq> [] \<and> isl_Segments (hd slots) \<noteq> [] in
      \<lparr>ares_QuoteID = [], ares_RequestFingerprint = [], ares_ExpiresAt = None,
       ares_TargetAuthorityAppointmentVersion = 0, ares_ServiceID = nar_ServiceID req,
       ares_ServiceName = (if filled then ias_ServiceName (hd (isl_Segments (hd slots))) else []),
       ares_StaffID = nar_StaffID req, ares_StaffName = [],
       ares_StaffSelectionMode = nar_StaffSelectionMode req,
       ares_Segments = (if filled then availabilitySegmentsFromInternal (isl_Segments (hd slots))
                        else []),
       ares_PreferredDate = nar_PreferredDate req,
       ares_DurationMinutes = (if filled then (isl_EndTime (hd slots) - isl_StartTime (hd slots))
                                 div ns_per_minute else 0),
       ares_Timezone = agg_Timezone aggregate, ares_Slots = aggregateAvailabilitySlots slots\<rparr>)"

section \<open>The target of a lifecycle operation\<close>

definition is_live_plan :: "string \<Rightarrow> string \<Rightarrow> int \<Rightarrow> AppointmentSegmentRow \<Rightarrow> bool" where
  "is_live_plan salonID appointmentID version segment \<longleftrightarrow>
     sg_SalonID segment = salonID \<and> sg_AppointmentID segment = appointmentID
     \<and> sg_PlanVersion segment = version \<and> sg_ReleasedAt segment = None"

definition scan_target_segment ::
  "CalendarDB \<Rightarrow> string \<Rightarrow> int \<Rightarrow> AppointmentSegmentRow \<Rightarrow> quotedAggregateSegment" where
  "scan_target_segment db salonID version row =
     \<lparr>qs_ID = sg_ID row, qs_Name = sg_Name row, qs_ServiceID = sg_ServiceID row,
      qs_StaffID = sg_StaffID row, qs_StaffSelectionMode = sg_StaffSelectionMode row,
      qs_GuestReference = sg_GuestReference row, qs_DurationMinutes = sg_DurationMinutes row,
      qs_SortOrder = sg_SortOrder row, qs_StartTime = sg_ScheduledStartTime row,
      qs_EndTime = sg_ScheduledEndTime row, qs_BufferBeforeMinutes = sg_BufferBeforeMinutes row,
      qs_BufferAfterMinutes = sg_BufferAfterMinutes row,
      qs_OccupiedStartTime = sg_OccupiedStartTime row, qs_OccupiedEndTime = sg_OccupiedEndTime row,
      qs_ResourceAllocations = joined_allocations db salonID
        (map (\<lambda>allocation. (al_ResourcePoolID allocation, al_UnitsAllocated allocation))
          (filter (\<lambda>allocation. al_PlanVersion allocation = version \<and> al_ReleasedAt allocation = None)
            (sg_Allocations row)))\<rparr>"

definition lockLifecycleTarget ::
  "StoreEnv \<Rightarrow> CalendarDB \<Rightarrow> string \<Rightarrow> string \<Rightarrow> string \<Rightarrow> error + lifecycleTarget" where
  "lockLifecycleTarget env db salonID ownerUserID appointmentID =
     (if \<not> st_MayExecute env salonID ownerUserID then Inl ErrCalendarNotFound
      else
        (case find (\<lambda>row. ap_SalonID row = salonID \<and> ap_ID row = TrimSpace appointmentID
                      \<and> ap_SchedulingAuthority row = SchedulingAuthorityManleAICalendar)
                (cd_Appointments db) of
           None \<Rightarrow> Inl ErrCalendarNotFound
         | Some row \<Rightarrow>
             let segments = map (scan_target_segment db salonID (ap_AuthorityAppointmentVersion row))
                   (sort_key sg_SortOrder
                     (filter (\<lambda>segment. is_live_plan salonID (ap_ID row)
                            (ap_AuthorityAppointmentVersion row) segment
                          \<and> sg_SchedulingAuthority segment = SchedulingAuthorityManleAICalendar)
                       (cd_Segments db)))
             in if segments = [] then Inl ErrOperationConflict
                else Inr \<lparr>lt_ID = ap_ID row, lt_Status = ap_Status row,
                          lt_AuthorityAppointmentVersion = ap_AuthorityAppointmentVersion row,
                          lt_SchedulingAuthorityVersion = ap_SchedulingAuthorityVersion row,
                          lt_AuthorityConfigVersion = ap_AuthorityConfigVersion row,
                          lt_PartySize = ap_PartySize row, lt_CustomerName = ap_CustomerName row,
                          lt_CustomerPhone = ap_CustomerPhone row,
                          lt_CustomerEmail = ap_CustomerEmail row, lt_StartTime = ap_StartTime row,
                          lt_EndTime = ap_EndTime row, lt_Notes = ap_Notes row,
                          lt_Segments = segments\<rparr>))"

section \<open>Checking availability\<close>

definition internalAvailabilityQuoteTTL :: int where
  "internalAvailabilityQuoteTTL = 2 * ns_per_minute"

text \<open>What a quote is for: a booking, or the replacement of the plan of a target appointment.\<close>

record QuoteSubject =
  qt_OperationType :: string
  qt_AuthorityVersion :: int
  qt_TargetVersion :: int

definition quote_subject ::
  "StoreEnv \<Rightarrow> CalendarDB \<Rightarrow> string \<Rightarrow> string \<Rightarrow> executionFence \<Rightarrow> Aggregate
     \<Rightarrow> normalizedAvailabilityRequest \<Rightarrow> string \<Rightarrow> gotime \<Rightarrow> error + QuoteSubject" where
  "quote_subject env db salonID ownerUserID fence aggregate normalized targetAppointmentID now =
     (if targetAppointmentID = []
      then Inr \<lparr>qt_OperationType = BookingActionBook, qt_AuthorityVersion = fe_AuthorityVersion fence,
                qt_TargetVersion = 0\<rparr>
      else
        (case lockLifecycleTarget env db salonID ownerUserID targetAppointmentID of
           Inl targetErr \<Rightarrow> Inl targetErr
         | Inr target \<Rightarrow>
             if lt_Status target \<noteq> StatusConfirmed \<and> lt_Status target \<noteq> StatusRescheduled
             then Inl ErrOperationConflict
             else if \<not> lifecycleCutoffOpen now (lt_StartTime target)
                        (case agg_Config aggregate of None \<Rightarrow> None
                         | Some config \<Rightarrow> cc_RescheduleCutoffMinutes config)
             then Inl ErrSchedulingAuthorityNotReady
             else if \<not> replacementPreservesTargetShape normalized target then Inl ErrValidation
             else Inr \<lparr>qt_OperationType = BookingActionReschedule,
                       qt_AuthorityVersion = lt_SchedulingAuthorityVersion target,
                       qt_TargetVersion = lt_AuthorityAppointmentVersion target\<rparr>))"

definition quote_segment_row ::
  "StoreEnv \<Rightarrow> nat \<Rightarrow> nat \<times> InternalAvailabilitySegment \<Rightarrow> PlanSegmentRow" where
  "quote_segment_row env slotIndex = (\<lambda>(segmentIndex, segment).
     \<lparr>ps_ID = st_UUID env [2, slotIndex, segmentIndex], ps_ServiceID = ias_ServiceID segment,
      ps_StaffID = ias_StaffID segment, ps_StaffSelectionMode = ias_StaffSelectionMode segment,
      ps_GuestReference = ias_GuestReference segment, ps_Name = [],
      ps_DurationMinutes = (ias_EndTime segment - ias_StartTime segment) div ns_per_minute,
      ps_SortOrder = int segmentIndex + 1, ps_ScheduledStartTime = ias_StartTime segment,
      ps_ScheduledEndTime = ias_EndTime segment,
      ps_BufferBeforeMinutes = ias_BufferBeforeMinutes segment,
      ps_BufferAfterMinutes = ias_BufferAfterMinutes segment,
      ps_OccupiedStartTime = ias_OccupiedStartTime segment,
      ps_OccupiedEndTime = ias_OccupiedEndTime segment,
      ps_Allocations = map (\<lambda>allocation. \<lparr>pa_ResourcePoolID = ira_ResourcePoolID allocation,
          pa_UnitsAllocated = ira_UnitsAllocated allocation\<rparr>) (ias_ResourceAllocations segment)\<rparr>)"

definition fingerprinted_slot ::
  "StoreEnv \<Rightarrow> string \<Rightarrow> InternalAvailabilitySlot \<Rightarrow> InternalAvailabilitySlot" where
  "fingerprinted_slot env requestFingerprint slot =
     slot\<lparr>isl_Fingerprint := aggregateAvailabilitySlotFingerprint env requestFingerprint slot\<rparr>"

definition quote_slot_row ::
  "StoreEnv \<Rightarrow> nat \<times> InternalAvailabilitySlot \<Rightarrow> QuoteSlotRow" where
  "quote_slot_row env = (\<lambda>(slotIndex, slot).
     \<lparr>qsl_ID = st_UUID env [1, slotIndex], qsl_SlotFingerprint = isl_Fingerprint slot,
      qsl_StartTime = isl_StartTime slot, qsl_EndTime = isl_EndTime slot,
      qsl_Segments = map (quote_segment_row env slotIndex) (enumerate 0 (isl_Segments slot))\<rparr>)"

definition new_quote ::
  "StoreEnv \<Rightarrow> string \<Rightarrow> executionFence \<Rightarrow> QuoteSubject \<Rightarrow> string \<Rightarrow> normalizedAvailabilityRequest
     \<Rightarrow> string \<Rightarrow> InternalAvailabilitySlot list \<Rightarrow> gotime \<Rightarrow> QuoteRow" where
  "new_quote env salonID fence subject targetAppointmentID normalized requestFingerprint slots now =
     \<lparr>qr_ID = st_UUID env [0], qr_SalonID = salonID, qr_RequestFingerprint = requestFingerprint,
      qr_ExpiresAt = now + internalAvailabilityQuoteTTL, qr_CreatedAt = now,
      qr_SchedulingAuthority = SchedulingAuthorityManleAICalendar,
      qr_SchedulingAuthorityVersion = qt_AuthorityVersion subject,
      qr_AuthorityConfigVersion = fe_ConfigVersion fence,
      qr_OperationType = qt_OperationType subject, qr_TargetAppointmentID = targetAppointmentID,
      qr_TargetAuthorityAppointmentVersion = qt_TargetVersion subject,
      qr_PartySize = nar_PartySize normalized, qr_ConsumedAt = None, qr_ConsumedByAttemptID = None,
      qr_Slots = map (quote_slot_row env) (enumerate 0 slots)\<rparr>"

definition calendar_snapshot ::
  "StoreEnv \<Rightarrow> CalendarDB \<Rightarrow> string \<Rightarrow> Aggregate \<Rightarrow> gotime \<Rightarrow> gotime \<Rightarrow> string
     \<Rightarrow> AvailabilitySnapshot" where
  "calendar_snapshot env db salonID aggregate windowStart windowEnd targetAppointmentID =
     (case loadStaffConflictsExcluding env db salonID windowStart windowEnd targetAppointmentID of
        (conflicts, unresolved) \<Rightarrow>
          \<lparr>snap_Aggregate = Some aggregate, snap_Conflicts = conflicts,
           snap_ResourceConflicts =
             loadResourceConflictsExcluding db salonID windowStart windowEnd targetAppointmentID,
           snap_UnresolvedExternalConflict = unresolved,
           snap_TargetOriginAuthorized = (targetAppointmentID \<noteq> [])\<rparr>)"

definition commit ::
  "StoreEnv \<Rightarrow> CalendarDB \<Rightarrow> CalendarDB \<Rightarrow> (CalendarDB \<Rightarrow> error + 'a) \<Rightarrow> (error + 'a) \<times> CalendarDB" where
  "commit env db db' result =
     (case st_Guards env db db' of
        Some err \<Rightarrow> (Inl err, db)
      | None \<Rightarrow> (case result db' of Inl err \<Rightarrow> (Inl err, db) | Inr x \<Rightarrow> (Inr x, db')))"

definition store_quote ::
  "StoreEnv \<Rightarrow> CalendarDB \<Rightarrow> string \<Rightarrow> executionFence \<Rightarrow> QuoteSubject \<Rightarrow> string
     \<Rightarrow> normalizedAvailabilityRequest \<Rightarrow> Aggregate \<Rightarrow> InternalAvailabilitySlot list \<Rightarrow> gotime
     \<Rightarrow> (error + AvailabilityResult) \<times> CalendarDB" where
  "store_quote env db salonID fence subject targetAppointmentID normalized aggregate planned now =
     (let result = (aggregateAvailabilityResult aggregate normalized planned)
            \<lparr>ares_TargetAuthorityAppointmentVersion := qt_TargetVersion subject\<rparr>
      in if planned = [] then (Inr result, db)
         else
           let requestFingerprint =
                 (if targetAppointmentID \<noteq> []
                  then st_LifecycleRequestHash env (qt_AuthorityVersion subject)
                         (fe_ConfigVersion fence) targetAppointmentID (qt_TargetVersion subject)
                         normalized
                  else st_RequestHash env (qt_AuthorityVersion subject) (fe_ConfigVersion fence)
                         normalized);
               slots = map (fingerprinted_slot env requestFingerprint) planned;
               quote = new_quote env salonID fence subject targetAppointmentID normalized
                 requestFingerprint slots now
           in commit env db (db\<lparr>cd_Quotes := cd_Quotes db @ [quote]\<rparr>) (\<lambda>_.
                Inr (result\<lparr>ares_QuoteID := qr_ID quote,
                            ares_RequestFingerprint := requestFingerprint,
                            ares_ExpiresAt := Some (qr_ExpiresAt quote),
                            ares_Slots := aggregateAvailabilitySlots slots\<rparr>)))"

definition CheckAvailability_store ::
  "StoreEnv \<Rightarrow> string \<Rightarrow> string \<Rightarrow> AvailabilityRequest \<Rightarrow> gotime
     \<Rightarrow> (CalendarDB, AvailabilityResult) call" where
  "CheckAvailability_store env salonID ownerUserID req now db =
     (let targetAppointmentID = TrimSpace (ar_TargetAppointmentID req) in
      case normalizeAggregateAvailabilityRequest (st_UUIDParse env)
             (req\<lparr>ar_TargetAppointmentID := []\<rparr>) of
        Inl err \<Rightarrow> (Inl err, db)
      | Inr normalized \<Rightarrow>
          (case lockExecutionFence env db salonID ownerUserID of
             Inl err \<Rightarrow> (Inl err, db)
           | Inr fence \<Rightarrow>
               if fe_ConfigVersion fence < 1 \<or> fe_ActivatedVersion fence \<noteq> fe_ConfigVersion fence
                  \<or> targetAppointmentID = []
                    \<and> fe_Authority fence \<noteq> SchedulingAuthorityManleAICalendar
               then (Inl ErrSchedulingAuthorityNotReady, db)
               else
                 (case loadAggregate env db salonID ownerUserID of
                    Inl err \<Rightarrow> (Inl err, db)
                  | Inr aggregate \<Rightarrow>
                      (case quote_subject env db salonID ownerUserID fence aggregate normalized
                              targetAppointmentID now of
                         Inl err \<Rightarrow> (Inl err, db)
                       | Inr subject \<Rightarrow>
                           (case localDateWindow env (nar_PreferredDate normalized)
                                   (fe_Timezone fence) of
                              Inl err \<Rightarrow> (Inl err, db)
                            | Inr (windowStart, windowEnd) \<Rightarrow>
                                (case planAggregateAvailability (st_LoadLocation env)
                                        (calendar_snapshot env db salonID aggregate windowStart
                                           windowEnd targetAppointmentID) normalized now of
                                   Inl err \<Rightarrow> (Inl err, db)
                                 | Inr planned \<Rightarrow>
                                     store_quote env db salonID fence subject targetAppointmentID
                                       normalized aggregate planned now))))))"

section \<open>Results\<close>

definition EventAppointmentConfirmed :: string where [go_consts]:
  "EventAppointmentConfirmed = ''appointment_confirmed''"
definition EventAppointmentRescheduled :: string where [go_consts]:
  "EventAppointmentRescheduled = ''appointment_rescheduled''"
definition EventAppointmentCancelled :: string where [go_consts]:
  "EventAppointmentCancelled = ''appointment_cancelled''"

definition find_event :: "CalendarDB \<Rightarrow> string \<Rightarrow> string \<Rightarrow> ExecutionEventRow option" where
  "find_event db salonID attemptID =
     find (\<lambda>event. ee_SalonID event = salonID \<and> ee_BookingAttemptID event = attemptID)
       (cd_Events db)"

definition find_attempt :: "CalendarDB \<Rightarrow> string \<Rightarrow> string \<Rightarrow> AttemptRow option" where
  "find_attempt db salonID operationKey =
     find (\<lambda>row. at_SalonID row = salonID \<and> at_OperationKey row = operationKey) (cd_Attempts db)"

definition scan_plan_child ::
  "CalendarDB \<Rightarrow> string \<Rightarrow> int \<Rightarrow> AppointmentSegmentRow \<Rightarrow> InternalCreateSegmentResult" where
  "scan_plan_child db salonID planVersion row =
     \<lparr>isr_AppointmentServiceID = sg_ID row, isr_GuestReference = sg_GuestReference row,
      isr_ServiceID = sg_ServiceID row, isr_StaffID = sg_StaffID row,
      isr_StaffSelectionMode = sg_StaffSelectionMode row, isr_Quantity = 1,
      isr_ScheduledStartTime = sg_ScheduledStartTime row,
      isr_ScheduledEndTime = sg_ScheduledEndTime row,
      isr_OccupiedStartTime = sg_OccupiedStartTime row,
      isr_OccupiedEndTime = sg_OccupiedEndTime row,
      isr_BufferBeforeMinutes = sg_BufferBeforeMinutes row,
      isr_BufferAfterMinutes = sg_BufferAfterMinutes row,
      isr_ResourceAllocations = joined_allocations db salonID
        (map (\<lambda>allocation. (al_ResourcePoolID allocation, al_UnitsAllocated allocation))
          (filter (\<lambda>allocation. al_PlanVersion allocation = planVersion) (sg_Allocations row)))\<rparr>"

definition loadAppointmentPlanResultTx ::
  "CalendarDB \<Rightarrow> string \<Rightarrow> string \<Rightarrow> int \<Rightarrow> string \<Rightarrow> InternalCreateSegmentResult list" where
  "loadAppointmentPlanResultTx db salonID appointmentID planVersion releasedByAttemptID =
     map (scan_plan_child db salonID planVersion)
       (sort_key (\<lambda>segment. (sg_SortOrder segment, sg_ID segment))
         (filter (\<lambda>segment. sg_SalonID segment = salonID
              \<and> sg_AppointmentID segment = TrimSpace appointmentID
              \<and> sg_SchedulingAuthority segment = SchedulingAuthorityManleAICalendar
              \<and> sg_PlanVersion segment = planVersion
              \<and> (TrimSpace releasedByAttemptID = []
                 \<or> sg_ReleasedByAttemptID segment = Some (TrimSpace releasedByAttemptID)))
           (cd_Segments db)))"

definition active_child_count :: "CalendarDB \<Rightarrow> AppointmentRow \<Rightarrow> int" where
  "active_child_count db appointment =
     int (length (filter (\<lambda>segment. is_live_plan (ap_SalonID appointment) (ap_ID appointment)
            (ap_AuthorityAppointmentVersion appointment) segment
          \<and> sg_SchedulingAuthority segment = SchedulingAuthorityManleAICalendar) (cd_Segments db)))"

text \<open>The joined rows the result is built from: the attempt, its event and its appointment.\<close>

definition result_rows ::
  "StoreEnv \<Rightarrow> CalendarDB \<Rightarrow> string \<Rightarrow> string \<Rightarrow> string \<Rightarrow> string
     \<Rightarrow> (AttemptRow \<times> ExecutionEventRow \<times> AppointmentRow) option" where
  "result_rows env db salonID ownerUserID appointmentID attemptID =
     (if \<not> st_MayExecute env salonID ownerUserID then None
      else
        (case find (\<lambda>attempt. at_SalonID attempt = salonID \<and> at_ID attempt = TrimSpace attemptID
                      \<and> at_SchedulingAuthority attempt = SchedulingAuthorityManleAICalendar)
                (cd_Attempts db) of
           None \<Rightarrow> None
         | Some attempt \<Rightarrow>
             (case find (\<lambda>event. ee_SalonID event = salonID
                           \<and> ee_BookingAttemptID event = at_ID attempt
                           \<and> ee_AppointmentID event = TrimSpace appointmentID) (cd_Events db) of
                None \<Rightarrow> None
              | Some event \<Rightarrow>
                  (case find (\<lambda>appointment. ap_SalonID appointment = salonID
                                \<and> ap_ID appointment = ee_AppointmentID event
                                \<and> ap_SchedulingAuthority appointment
                                  = SchedulingAuthorityManleAICalendar) (cd_Appointments db) of
                     None \<Rightarrow> None
                   | Some appointment \<Rightarrow> Some (attempt, event, appointment)))))"

definition event_evidence_ok :: "AttemptRow \<Rightarrow> ExecutionEventRow \<Rightarrow> bool" where
  "event_evidence_ok attempt event =
     (if ee_EventType event = EventAppointmentConfirmed then
        at_OperationType attempt = BookingActionBook \<and> at_Status attempt = StatusConfirmed
        \<and> at_TargetAuthorityAppointmentVersion attempt = None
        \<and> ee_AuthorityAppointmentVersion event = 1
      else if ee_EventType event = EventAppointmentRescheduled then
        at_OperationType attempt = BookingActionReschedule \<and> at_Status attempt = StatusRescheduled
        \<and> (case at_TargetAuthorityAppointmentVersion attempt of
             None \<Rightarrow> False
           | Some v \<Rightarrow> 1 \<le> v \<and> ee_AuthorityAppointmentVersion event = v + 1)
      else if ee_EventType event = EventAppointmentCancelled then
        at_OperationType attempt = BookingActionCancel \<and> at_Status attempt = StatusCancelled
        \<and> (case at_TargetAuthorityAppointmentVersion attempt of
             None \<Rightarrow> False
           | Some v \<Rightarrow> 1 \<le> v \<and> ee_AuthorityAppointmentVersion event = v + 1)
      else False)"

definition loadAuthoritativeInternalResultTx ::
  "StoreEnv \<Rightarrow> CalendarDB \<Rightarrow> string \<Rightarrow> string \<Rightarrow> string \<Rightarrow> string
     \<Rightarrow> error + InternalCreateResult" where
  "loadAuthoritativeInternalResultTx env db salonID ownerUserID appointmentID attemptID =
     (case result_rows env db salonID ownerUserID appointmentID attemptID of
        None \<Rightarrow> Inl ErrInvalidSchedulingResult
      | Some (attempt, event, appointment) \<Rightarrow>
          let cancelled = ee_EventType event = EventAppointmentCancelled;
              eventVersion = ee_AuthorityAppointmentVersion event;
              rootVersion = ap_AuthorityAppointmentVersion appointment;
              currentActiveChildCount = active_child_count db appointment;
              children = loadAppointmentPlanResultTx db salonID appointmentID
                (if cancelled then the (at_TargetAuthorityAppointmentVersion attempt) else eventVersion)
                (if cancelled then TrimSpace attemptID else []);
              resultActiveChildCount = (if cancelled then 0 else int (length children))
          in if \<not> event_evidence_ok attempt event then Inl ErrInvalidSchedulingResult
             else if at_ProviderEvidence attempt \<or> ap_ProviderEvidence appointment
                     \<or> at_AuthorityAppointmentVersion attempt \<noteq> eventVersion
                     \<or> rootVersion < eventVersion
                     \<or> rootVersion = eventVersion \<and> ap_Status appointment \<noteq> at_Status attempt
             then Inl ErrInvalidSchedulingResult
             else if length children = 0 \<or> length (at_Segments attempt) \<noteq> length children
             then Inl ErrInvalidSchedulingResult
             else if rootVersion = eventVersion \<and> currentActiveChildCount \<noteq> resultActiveChildCount
             then Inl ErrInvalidSchedulingResult
             else if cancelled \<and> (rootVersion \<noteq> eventVersion
                       \<or> ap_Status appointment \<noteq> StatusCancelled \<or> currentActiveChildCount \<noteq> 0)
             then Inl ErrInvalidSchedulingResult
             else Inr \<lparr>icx_AppointmentID = TrimSpace appointmentID,
                       icx_BookingAttemptID = TrimSpace attemptID,
                       icx_AppointmentStatus = at_Status attempt,
                       icx_TargetAuthorityAppointmentVersion =
                         (case at_TargetAuthorityAppointmentVersion attempt of
                            None \<Rightarrow> 0 | Some v \<Rightarrow> v),
                       icx_AuthorityAppointmentVersion = eventVersion,
                       icx_ActiveChildCount = resultActiveChildCount, icx_Children = children\<rparr>)"

section \<open>Creating an appointment\<close>

text \<open>
  The scan of a NULL into an \<open>int\<close> variable is an error of the driver. It happens in
  \<open>replayAggregateCreateTx\<close> when the attempt has no \<open>appointment_confirmed\<close> event, and in
  \<open>replayLifecycleTx\<close> when the attempt has no target version.
\<close>

definition null_scan_error :: error where
  "null_scan_error = StoreError ''converting NULL to int is unsupported''"

definition replayAggregateCreateTx ::
  "StoreEnv \<Rightarrow> CalendarDB \<Rightarrow> string \<Rightarrow> string \<Rightarrow> InternalCreateRequest
     \<Rightarrow> error + InternalCreateResult option" where
  "replayAggregateCreateTx env db salonID ownerUserID req =
     (case (if st_MayExecute env salonID ownerUserID
            then find_attempt db salonID (icr_OperationKey req) else None) of
        None \<Rightarrow> Inr None
      | Some attempt \<Rightarrow>
          (case find (\<lambda>event. ee_SalonID event = salonID \<and> ee_BookingAttemptID event = at_ID attempt
                        \<and> ee_EventType event = EventAppointmentConfirmed) (cd_Events db) of
             None \<Rightarrow> Inl null_scan_error
           | Some event \<Rightarrow>
               if at_SchedulingAuthority attempt \<noteq> SchedulingAuthorityManleAICalendar
                  \<or> at_RequestFingerprint attempt \<noteq> icr_RequestFingerprint req
                  \<or> at_Status attempt \<noteq> StatusConfirmed
                  \<or> find_appointment db salonID (ee_AppointmentID event) = None
               then Inl ErrOperationConflict
               else map_sum id Some (loadAuthoritativeInternalResultTx env db salonID ownerUserID
                      (ee_AppointmentID event) (at_ID attempt))))"

definition create_quote_usable ::
  "executionFence \<Rightarrow> quotedAggregateSlot \<Rightarrow> InternalCreateRequest \<Rightarrow> gotime \<Rightarrow> bool" where
  "create_quote_usable fence quote req now \<longleftrightarrow>
     \<not> (fe_Authority fence \<noteq> SchedulingAuthorityManleAICalendar
        \<or> fe_AuthorityVersion fence \<noteq> qu_AuthorityVersion quote
        \<or> fe_ConfigVersion fence \<noteq> qu_ConfigVersion quote
        \<or> fe_ActivatedVersion fence \<noteq> fe_ConfigVersion fence
        \<or> qu_OperationType quote \<noteq> BookingActionBook \<or> \<not> qu_ExpiresAt quote > now
        \<or> qu_ConsumedAt quote \<noteq> None \<or> qu_ConsumedAttemptID quote \<noteq> None
        \<or> icr_RequestedTimezone req \<noteq> fe_Timezone fence \<or> \<not> quoteMatchesAction quote req)"

definition stale_plan_error :: "error \<Rightarrow> error" where
  "stale_plan_error err =
     (if errors_Is err ErrValidation \<or> errors_Is err ErrSchedulingAuthorityNotReady
         \<or> errors_Is err ErrAvailabilityConflictState
      then ErrAvailabilityQuoteStale else err)"

text \<open>
  The check of create and reschedule that the quoted slot is still one the planner offers: the
  pools and canonical rows can be locked, and the exhaustive plan of the quoted day contains
  exactly this slot. It returns the aggregate it was checked against.
\<close>

definition recheck_quote ::
  "StoreEnv \<Rightarrow> CalendarDB \<Rightarrow> string \<Rightarrow> string \<Rightarrow> executionFence \<Rightarrow> quotedAggregateSlot
     \<Rightarrow> normalizedAvailabilityRequest \<Rightarrow> string \<Rightarrow> gotime \<Rightarrow> error + Aggregate" where
  "recheck_quote env db salonID ownerUserID fence quote requested targetAppointmentID now =
     (if \<not> pools_lockable db salonID (distinctPoolIDs (qu_Segments quote))
      then Inl ErrAvailabilityQuoteStale
      else
        (case lockAggregateCanonicalRows db salonID quote of
           Some err \<Rightarrow> Inl err
         | None \<Rightarrow>
             (case loadAggregate env db salonID ownerUserID of
                Inl err \<Rightarrow> Inl err
              | Inr aggregate \<Rightarrow>
                  (case st_LoadLocation env (fe_Timezone fence) of
                     None \<Rightarrow> Inl ErrAvailabilityQuoteStale
                   | Some location \<Rightarrow>
                       (case localDateWindow env
                               (format_date (local_civil location (qu_StartTime quote)))
                               (fe_Timezone fence) of
                          Inl _ \<Rightarrow> Inl ErrAvailabilityQuoteStale
                        | Inr (windowStart, windowEnd) \<Rightarrow>
                            (case planAggregateAvailability (st_LoadLocation env)
                                    (calendar_snapshot env db salonID aggregate windowStart windowEnd
                                       targetAppointmentID) requested now of
                               Inl err \<Rightarrow> Inl (stale_plan_error err)
                             | Inr planned \<Rightarrow>
                                 let quotedPlan = quotedSlotAsPlan quote aggregate
                                 in if qu_SlotFingerprint quote
                                         \<noteq> aggregateAvailabilitySlotFingerprint env
                                             (qu_RequestFingerprint quote) quotedPlan
                                       \<or> \<not> exactAggregatePlan env planned quotedPlan
                                    then Inl ErrAvailabilityQuoteStale
                                    else Inr aggregate))))))"

definition attempt_segment ::
  "StoreEnv \<Rightarrow> (quotedAggregateSegment \<Rightarrow> string) \<Rightarrow> nat \<times> quotedAggregateSegment \<Rightarrow> PlanSegmentRow" where
  "attempt_segment env name = (\<lambda>(index, segment).
     \<lparr>ps_ID = st_UUID env [2, index], ps_ServiceID = qs_ServiceID segment,
      ps_StaffID = qs_StaffID segment, ps_StaffSelectionMode = qs_StaffSelectionMode segment,
      ps_GuestReference = qs_GuestReference segment, ps_Name = name segment,
      ps_DurationMinutes = qs_DurationMinutes segment, ps_SortOrder = qs_SortOrder segment,
      ps_ScheduledStartTime = qs_StartTime segment, ps_ScheduledEndTime = qs_EndTime segment,
      ps_BufferBeforeMinutes = qs_BufferBeforeMinutes segment,
      ps_BufferAfterMinutes = qs_BufferAfterMinutes segment,
      ps_OccupiedStartTime = qs_OccupiedStartTime segment,
      ps_OccupiedEndTime = qs_OccupiedEndTime segment,
      ps_Allocations = map (\<lambda>allocation. \<lparr>pa_ResourcePoolID = ira_ResourcePoolID allocation,
          pa_UnitsAllocated = ira_UnitsAllocated allocation\<rparr>) (qs_ResourceAllocations segment)\<rparr>)"

definition plan_segment ::
  "StoreEnv \<Rightarrow> string \<Rightarrow> string \<Rightarrow> int \<Rightarrow> Aggregate \<Rightarrow> gotime \<Rightarrow> nat \<times> quotedAggregateSegment
     \<Rightarrow> AppointmentSegmentRow" where
  "plan_segment env salonID appointmentID planVersion aggregate now = (\<lambda>(index, segment).
     \<lparr>sg_ID = st_UUID env [3, index], sg_SalonID = salonID, sg_AppointmentID = appointmentID,
      sg_ServiceID = qs_ServiceID segment, sg_StaffID = qs_StaffID segment,
      sg_StaffSelectionMode = qs_StaffSelectionMode segment,
      sg_GuestReference = qs_GuestReference segment,
      sg_Name = serviceName aggregate (qs_ServiceID segment),
      sg_DurationMinutes = qs_DurationMinutes segment, sg_SortOrder = qs_SortOrder segment,
      sg_PlanVersion = planVersion, sg_SchedulingAuthority = SchedulingAuthorityManleAICalendar,
      sg_ScheduledStartTime = qs_StartTime segment, sg_ScheduledEndTime = qs_EndTime segment,
      sg_BufferBeforeMinutes = qs_BufferBeforeMinutes segment,
      sg_BufferAfterMinutes = qs_BufferAfterMinutes segment,
      sg_OccupiedStartTime = qs_OccupiedStartTime segment,
      sg_OccupiedEndTime = qs_OccupiedEndTime segment, sg_CreatedAt = now, sg_ReleasedAt = None,
      sg_ReleasedByAttemptID = None,
      sg_Allocations = map (\<lambda>(i, allocation). \<lparr>al_ID = st_UUID env [5, index, i],
          al_ResourcePoolID = ira_ResourcePoolID allocation,
          al_UnitsAllocated = ira_UnitsAllocated allocation, al_PlanVersion = planVersion,
          al_OccupiedStartTime = qs_OccupiedStartTime segment,
          al_OccupiedEndTime = qs_OccupiedEndTime segment, al_ReleasedAt = None\<rparr>)
        (enumerate 0 (qs_ResourceAllocations segment))\<rparr>)"

definition lifecycleChild ::
  "quotedAggregateSegment \<Rightarrow> string \<Rightarrow> InternalCreateSegmentResult" where
  "lifecycleChild segment appointmentServiceID =
     \<lparr>isr_AppointmentServiceID = appointmentServiceID, isr_GuestReference = qs_GuestReference segment,
      isr_ServiceID = qs_ServiceID segment, isr_StaffID = qs_StaffID segment,
      isr_StaffSelectionMode = qs_StaffSelectionMode segment, isr_Quantity = 1,
      isr_ScheduledStartTime = qs_StartTime segment, isr_ScheduledEndTime = qs_EndTime segment,
      isr_OccupiedStartTime = qs_OccupiedStartTime segment,
      isr_OccupiedEndTime = qs_OccupiedEndTime segment,
      isr_BufferBeforeMinutes = qs_BufferBeforeMinutes segment,
      isr_BufferAfterMinutes = qs_BufferAfterMinutes segment,
      isr_ResourceAllocations = qs_ResourceAllocations segment\<rparr>"

definition plan_children :: "StoreEnv \<Rightarrow> quotedAggregateSegment list \<Rightarrow> InternalCreateSegmentResult list" where
  "plan_children env segments =
     map (\<lambda>(index, segment). lifecycleChild segment (st_UUID env [3, index])) (enumerate 0 segments)"

definition new_attempt ::
  "StoreEnv \<Rightarrow> string \<Rightarrow> InternalCreateRequest \<Rightarrow> quotedAggregateSlot \<Rightarrow> Aggregate \<Rightarrow> gotime
     \<Rightarrow> AttemptRow" where
  "new_attempt env salonID req quote aggregate now =
     (let primary = hd (qu_Segments quote) in
      \<lparr>at_ID = st_UUID env [0], at_SalonID = salonID, at_Source = icr_Source req,
       at_Status = StatusConfirmed, at_OperationKey = icr_OperationKey req,
       at_RequestFingerprint = icr_RequestFingerprint req,
       at_AvailabilityQuoteID = Some (qu_QuoteID quote),
       at_AvailabilitySlotFingerprint = Some (qu_SlotFingerprint quote),
       at_OperationType = BookingActionBook, at_TargetAppointmentID = None,
       at_CustomerName = icr_CustomerName req, at_CustomerPhone = icr_CustomerPhone req,
       at_CustomerEmail = icr_CustomerEmail req, at_ServiceID = qs_ServiceID primary,
       at_StaffID = qs_StaffID primary, at_StaffSelectionMode = qs_StaffSelectionMode primary,
       at_RequestedStartTime = qu_StartTime quote, at_RequestedEndTime = qu_EndTime quote,
       at_Notes = icr_Notes req, at_SchedulingAuthority = SchedulingAuthorityManleAICalendar,
       at_AuthorityAppointmentID = st_UUID env [1], at_AuthorityAppointmentVersion = 1,
       at_TargetAuthorityAppointmentVersion = None,
       at_SchedulingAuthorityVersion = qu_AuthorityVersion quote,
       at_AuthorityConfigVersion = qu_ConfigVersion quote, at_PartySize = qu_PartySize quote,
       at_ProviderEvidence = False, at_CreatedAt = now,
       at_Segments = map (attempt_segment env (\<lambda>segment. serviceName aggregate (qs_ServiceID segment)))
         (enumerate 0 (qu_Segments quote))\<rparr>)"

definition new_appointment ::
  "StoreEnv \<Rightarrow> string \<Rightarrow> InternalCreateRequest \<Rightarrow> quotedAggregateSlot \<Rightarrow> gotime \<Rightarrow> AppointmentRow" where
  "new_appointment env salonID req quote now =
     (let primary = hd (qu_Segments quote) in
      \<lparr>ap_ID = st_UUID env [1], ap_SalonID = salonID, ap_BookingAttemptID = st_UUID env [0],
       ap_Status = StatusConfirmed, ap_CustomerName = icr_CustomerName req,
       ap_CustomerPhone = icr_CustomerPhone req, ap_CustomerEmail = icr_CustomerEmail req,
       ap_ServiceID = qs_ServiceID primary, ap_StaffID = qs_StaffID primary,
       ap_StaffSelectionMode = qs_StaffSelectionMode primary, ap_StartTime = qu_StartTime quote,
       ap_EndTime = qu_EndTime quote, ap_Notes = icr_Notes req,
       ap_SchedulingAuthority = SchedulingAuthorityManleAICalendar,
       ap_AuthorityAppointmentVersion = 1,
       ap_SchedulingAuthorityVersion = qu_AuthorityVersion quote,
       ap_AuthorityConfigVersion = qu_ConfigVersion quote, ap_PartySize = qu_PartySize quote,
       ap_ProviderEvidence = False, ap_CreatedAt = now, ap_UpdatedAt = now\<rparr>)"

text \<open>The update that consumes a quote, with the number of rows it matches.\<close>

definition consumable :: "string \<Rightarrow> string \<Rightarrow> gotime \<Rightarrow> QuoteRow \<Rightarrow> bool" where
  "consumable salonID quoteID now row \<longleftrightarrow>
     qr_ID row = quoteID \<and> qr_SalonID row = salonID
     \<and> qr_SchedulingAuthority row = SchedulingAuthorityManleAICalendar
     \<and> qr_ConsumedAt row = None \<and> qr_ConsumedByAttemptID row = None \<and> qr_ExpiresAt row > now"

definition consume_quotes ::
  "string \<Rightarrow> string \<Rightarrow> string \<Rightarrow> gotime \<Rightarrow> QuoteRow list \<Rightarrow> QuoteRow list" where
  "consume_quotes salonID quoteID attemptID now =
     map (\<lambda>row. if consumable salonID quoteID now row
                then row\<lparr>qr_ConsumedAt := Some now, qr_ConsumedByAttemptID := Some attemptID\<rparr>
                else row)"

definition key_taken :: "CalendarDB \<Rightarrow> string \<Rightarrow> string \<Rightarrow> bool" where
  "key_taken db salonID operationKey \<longleftrightarrow> find_attempt db salonID operationKey \<noteq> None"

definition created_db ::
  "StoreEnv \<Rightarrow> CalendarDB \<Rightarrow> string \<Rightarrow> InternalCreateRequest \<Rightarrow> quotedAggregateSlot \<Rightarrow> Aggregate
     \<Rightarrow> gotime \<Rightarrow> CalendarDB" where
  "created_db env db salonID req quote aggregate now =
     db\<lparr>cd_Attempts := cd_Attempts db @ [new_attempt env salonID req quote aggregate now],
        cd_Appointments := cd_Appointments db @ [new_appointment env salonID req quote now],
        cd_Segments := cd_Segments db
          @ map (plan_segment env salonID (st_UUID env [1]) 1 aggregate now)
              (enumerate 0 (qu_Segments quote)),
        cd_Quotes := consume_quotes salonID (qu_QuoteID quote) (st_UUID env [0]) now (cd_Quotes db),
        cd_Events := cd_Events db @
          [\<lparr>ee_ID = st_UUID env [4], ee_SalonID = salonID, ee_BookingAttemptID = st_UUID env [0],
            ee_AppointmentID = st_UUID env [1], ee_EventType = EventAppointmentConfirmed,
            ee_SchedulingAuthorityVersion = qu_AuthorityVersion quote,
            ee_AuthorityConfigVersion = qu_ConfigVersion quote, ee_AuthorityAppointmentVersion = 1,
            ee_ChildrenHash = st_ChildrenHash env (plan_children env (qu_Segments quote)),
            ee_CreatedAt = now\<rparr>]\<rparr>"

definition consumes_one :: "CalendarDB \<Rightarrow> string \<Rightarrow> string \<Rightarrow> gotime \<Rightarrow> bool" where
  "consumes_one db salonID quoteID now \<longleftrightarrow>
     length (filter (consumable salonID quoteID now) (cd_Quotes db)) = 1"

definition insert_appointment ::
  "StoreEnv \<Rightarrow> CalendarDB \<Rightarrow> string \<Rightarrow> string \<Rightarrow> InternalCreateRequest \<Rightarrow> quotedAggregateSlot
     \<Rightarrow> Aggregate \<Rightarrow> gotime \<Rightarrow> (error + InternalCreateResult option \<times> bool) \<times> CalendarDB" where
  "insert_appointment env db salonID ownerUserID req quote aggregate now =
     (if key_taken db salonID (icr_OperationKey req) then (Inl ErrOperationConflict, db)
      else if \<not> consumes_one db salonID (qu_QuoteID quote) now
      then (Inl ErrAvailabilityQuoteStale, db)
      else commit env db (created_db env db salonID req quote aggregate now) (\<lambda>db'.
             map_sum id (\<lambda>result. (Some result, False))
               (loadAuthoritativeInternalResultTx env db' salonID ownerUserID (st_UUID env [1])
                  (st_UUID env [0]))))"

text \<open>A panic in \<open>quotedRequest\<close> ends the request before anything is written.\<close>

definition nil_location_panic :: error where
  "nil_location_panic = StoreError ''panic: time: missing Location in call to Time.In''"

definition CreateAppointment ::
  "StoreEnv \<Rightarrow> string \<Rightarrow> string \<Rightarrow> InternalCreateRequest \<Rightarrow> gotime
     \<Rightarrow> (CalendarDB, InternalCreateResult option \<times> bool) call" where
  "CreateAppointment env salonID ownerUserID req now db =
     (case replayAggregateCreateTx env db salonID ownerUserID req of
        Inl err \<Rightarrow> (Inl err, db)
      | Inr (Some replay) \<Rightarrow> (Inr (Some replay, True), db)
      | Inr None \<Rightarrow>
          (case lockExecutionFence env db salonID ownerUserID of
             Inl err \<Rightarrow> (Inl err, db)
           | Inr fence \<Rightarrow>
               (case lockQuotedAggregateSlot db salonID (icr_AvailabilityQuoteID req)
                       (icr_SlotFingerprint req) of
                  Inl err \<Rightarrow> (Inl err, db)
                | Inr quote \<Rightarrow>
                    if \<not> create_quote_usable fence quote req now
                    then (Inl ErrAvailabilityQuoteStale, db)
                    else
                      (case quotedRequest env quote (fe_Timezone fence) of
                         None \<Rightarrow> (Inl nil_location_panic, db)
                       | Some requested \<Rightarrow>
                           if qu_RequestFingerprint quote
                                \<noteq> st_RequestHash env (qu_AuthorityVersion quote)
                                    (qu_ConfigVersion quote) requested
                           then (Inl ErrAvailabilityQuoteStale, db)
                           else
                             (case recheck_quote env db salonID ownerUserID fence quote requested
                                     [] now of
                                Inl err \<Rightarrow> (Inl err, db)
                              | Inr aggregate \<Rightarrow>
                                  insert_appointment env db salonID ownerUserID req quote aggregate
                                    now)))))"

section \<open>Rescheduling and cancelling\<close>

definition replayLifecycleTx ::
  "StoreEnv \<Rightarrow> CalendarDB \<Rightarrow> string \<Rightarrow> string \<Rightarrow> InternalLifecycleRequest
     \<Rightarrow> error + InternalCreateResult option" where
  "replayLifecycleTx env db salonID ownerUserID req =
     (case (if st_MayExecute env salonID ownerUserID
            then find_attempt db salonID (ilr_OperationKey req) else None) of
        None \<Rightarrow> Inr None
      | Some attempt \<Rightarrow>
          (case find_event db salonID (at_ID attempt) of
             None \<Rightarrow> Inr None
           | Some event \<Rightarrow>
               (case at_TargetAuthorityAppointmentVersion attempt of
                  None \<Rightarrow> Inl null_scan_error
                | Some targetVersion \<Rightarrow>
                    let wantStatus = (if ilr_OperationType req = OperationKindCancel
                                      then StatusCancelled else StatusRescheduled)
                    in if at_SchedulingAuthority attempt \<noteq> SchedulingAuthorityManleAICalendar
                          \<or> at_RequestFingerprint attempt \<noteq> ilr_RequestFingerprint req
                          \<or> at_OperationType attempt \<noteq> ilr_OperationType req
                          \<or> at_Status attempt \<noteq> wantStatus
                          \<or> ee_AppointmentID event \<noteq> ilr_TargetAppointmentID req
                          \<or> targetVersion \<noteq> ilr_ExpectedTargetAuthorityAppointmentVersion req
                       then Inl ErrOperationConflict
                       else
                         (case loadAuthoritativeInternalResultTx env db salonID ownerUserID
                                 (ee_AppointmentID event) (at_ID attempt) of
                            Inl err \<Rightarrow> Inl err
                          | Inr result \<Rightarrow>
                              if icx_TargetAuthorityAppointmentVersion result \<noteq> targetVersion
                                 \<or> icx_AuthorityAppointmentVersion result
                                   \<noteq> ee_AuthorityAppointmentVersion event
                              then Inl ErrInvalidSchedulingResult
                              else Inr (Some result)))))"

text \<open>
  The plan of a lifecycle operation: a reschedule installs the quoted slot, a cancellation keeps the
  target's root and plan as the snapshot.
\<close>

record LifecyclePlan =
  lp_Status :: string
  lp_EventType :: string
  lp_Snapshot :: "quotedAggregateSegment list"
  lp_ConfigVersion :: int
  lp_StartTime :: gotime
  lp_EndTime :: gotime
  lp_Quote :: "quotedAggregateSlot option"
  lp_Name :: "quotedAggregateSegment \<Rightarrow> string"
  lp_Aggregate :: "Aggregate option"

definition snapshot_name :: "Aggregate option \<Rightarrow> quotedAggregateSegment \<Rightarrow> string" where
  "snapshot_name aggregate segment =
     (let name = (case aggregate of None \<Rightarrow> [] | Some a \<Rightarrow> serviceName a (qs_ServiceID segment));
          name' = (if name = [] then TrimSpace (qs_Name segment) else name)
      in if name' = [] then qs_ServiceID segment else name')"

definition cancel_plan :: "lifecycleTarget \<Rightarrow> LifecyclePlan" where
  "cancel_plan target =
     \<lparr>lp_Status = StatusCancelled, lp_EventType = EventAppointmentCancelled,
      lp_Snapshot = lt_Segments target, lp_ConfigVersion = lt_AuthorityConfigVersion target,
      lp_StartTime = lt_StartTime target, lp_EndTime = lt_EndTime target, lp_Quote = None,
      lp_Name = snapshot_name None, lp_Aggregate = None\<rparr>"

definition reschedule_plan :: "quotedAggregateSlot \<Rightarrow> Aggregate \<Rightarrow> LifecyclePlan" where
  "reschedule_plan quote aggregate =
     \<lparr>lp_Status = StatusRescheduled, lp_EventType = EventAppointmentRescheduled,
      lp_Snapshot = qu_Segments quote, lp_ConfigVersion = qu_ConfigVersion quote,
      lp_StartTime = qu_StartTime quote, lp_EndTime = qu_EndTime quote, lp_Quote = Some quote,
      lp_Name = snapshot_name (Some aggregate), lp_Aggregate = Some aggregate\<rparr>"

definition lifecycle_attempt ::
  "StoreEnv \<Rightarrow> string \<Rightarrow> InternalLifecycleRequest \<Rightarrow> lifecycleTarget \<Rightarrow> LifecyclePlan \<Rightarrow> gotime
     \<Rightarrow> AttemptRow" where
  "lifecycle_attempt env salonID req target plan now =
     (let primary = hd (lp_Snapshot plan) in
      \<lparr>at_ID = st_UUID env [0], at_SalonID = salonID, at_Source = ilr_Source req,
       at_Status = lp_Status plan, at_OperationKey = ilr_OperationKey req,
       at_RequestFingerprint = ilr_RequestFingerprint req,
       at_AvailabilityQuoteID = map_option qu_QuoteID (lp_Quote plan),
       at_AvailabilitySlotFingerprint = map_option qu_SlotFingerprint (lp_Quote plan),
       at_OperationType = ilr_OperationType req, at_TargetAppointmentID = Some (lt_ID target),
       at_CustomerName = lt_CustomerName target, at_CustomerPhone = lt_CustomerPhone target,
       at_CustomerEmail = lt_CustomerEmail target, at_ServiceID = qs_ServiceID primary,
       at_StaffID = qs_StaffID primary, at_StaffSelectionMode = qs_StaffSelectionMode primary,
       at_RequestedStartTime = lp_StartTime plan, at_RequestedEndTime = lp_EndTime plan,
       at_Notes = ilr_Notes req, at_SchedulingAuthority = SchedulingAuthorityManleAICalendar,
       at_AuthorityAppointmentID = lt_ID target,
       at_AuthorityAppointmentVersion = lt_AuthorityAppointmentVersion target + 1,
       at_TargetAuthorityAppointmentVersion = Some (lt_AuthorityAppointmentVersion target),
       at_SchedulingAuthorityVersion = lt_SchedulingAuthorityVersion target,
       at_AuthorityConfigVersion = lp_ConfigVersion plan, at_PartySize = lt_PartySize target,
       at_ProviderEvidence = False, at_CreatedAt = now,
       at_Segments = map (attempt_segment env (lp_Name plan)) (enumerate 0 (lp_Snapshot plan))\<rparr>)"

definition release_segment ::
  "string \<Rightarrow> lifecycleTarget \<Rightarrow> string \<Rightarrow> gotime \<Rightarrow> AppointmentSegmentRow \<Rightarrow> AppointmentSegmentRow" where
  "release_segment salonID target attemptID now segment =
     (if is_live_plan salonID (lt_ID target) (lt_AuthorityAppointmentVersion target) segment
      then segment\<lparr>sg_ReleasedAt := Some now, sg_ReleasedByAttemptID := Some attemptID,
                   sg_Allocations := map (\<lambda>allocation.
                     if al_ReleasedAt allocation = None then allocation\<lparr>al_ReleasedAt := Some now\<rparr>
                     else allocation) (sg_Allocations segment)\<rparr>
      else segment)"

definition released_allocations :: "CalendarDB \<Rightarrow> string \<Rightarrow> lifecycleTarget \<Rightarrow> nat" where
  "released_allocations db salonID target =
     length (filter (\<lambda>allocation. al_ReleasedAt allocation = None)
       (concat (map sg_Allocations
         (filter (is_live_plan salonID (lt_ID target) (lt_AuthorityAppointmentVersion target))
           (cd_Segments db)))))"

definition released_segments :: "CalendarDB \<Rightarrow> string \<Rightarrow> lifecycleTarget \<Rightarrow> nat" where
  "released_segments db salonID target =
     length (filter (is_live_plan salonID (lt_ID target) (lt_AuthorityAppointmentVersion target))
       (cd_Segments db))"

definition updates_root :: "string \<Rightarrow> lifecycleTarget \<Rightarrow> AppointmentRow \<Rightarrow> bool" where
  "updates_root salonID target row \<longleftrightarrow>
     ap_SalonID row = salonID \<and> ap_ID row = lt_ID target
     \<and> ap_SchedulingAuthority row = SchedulingAuthorityManleAICalendar
     \<and> ap_AuthorityAppointmentVersion row = lt_AuthorityAppointmentVersion target
     \<and> is_active_status (ap_Status row)"

definition update_root ::
  "string \<Rightarrow> InternalLifecycleRequest \<Rightarrow> lifecycleTarget \<Rightarrow> LifecyclePlan \<Rightarrow> string \<Rightarrow> gotime
     \<Rightarrow> AppointmentRow \<Rightarrow> AppointmentRow" where
  "update_root salonID req target plan attemptID now row =
     (if updates_root salonID target row
      then let primary = hd (lp_Snapshot plan) in
        row\<lparr>ap_BookingAttemptID := attemptID, ap_Status := lp_Status plan,
            ap_ServiceID := qs_ServiceID primary, ap_StaffID := qs_StaffID primary,
            ap_StaffSelectionMode := qs_StaffSelectionMode primary,
            ap_StartTime := lp_StartTime plan, ap_EndTime := lp_EndTime plan,
            ap_Notes := ilr_Notes req,
            ap_AuthorityAppointmentVersion := lt_AuthorityAppointmentVersion target + 1,
            ap_AuthorityConfigVersion := lp_ConfigVersion plan, ap_UpdatedAt := now\<rparr>
      else row)"

definition installed_segments ::
  "StoreEnv \<Rightarrow> string \<Rightarrow> lifecycleTarget \<Rightarrow> LifecyclePlan \<Rightarrow> gotime \<Rightarrow> AppointmentSegmentRow list" where
  "installed_segments env salonID target plan now =
     (case (lp_Quote plan, lp_Aggregate plan) of
        (Some quote, Some aggregate) \<Rightarrow>
          map (plan_segment env salonID (lt_ID target) (lt_AuthorityAppointmentVersion target + 1)
            aggregate now) (enumerate 0 (qu_Segments quote))
      | _ \<Rightarrow> [])"

definition lifecycle_db ::
  "StoreEnv \<Rightarrow> CalendarDB \<Rightarrow> string \<Rightarrow> InternalLifecycleRequest \<Rightarrow> lifecycleTarget \<Rightarrow> LifecyclePlan
     \<Rightarrow> gotime \<Rightarrow> CalendarDB" where
  "lifecycle_db env db salonID req target plan now =
     db\<lparr>cd_Attempts := cd_Attempts db @ [lifecycle_attempt env salonID req target plan now],
        cd_Segments := map (release_segment salonID target (st_UUID env [0]) now) (cd_Segments db)
          @ installed_segments env salonID target plan now,
        cd_Quotes := (case lp_Quote plan of
            None \<Rightarrow> cd_Quotes db
          | Some quote \<Rightarrow>
              consume_quotes salonID (qu_QuoteID quote) (st_UUID env [0]) now (cd_Quotes db)),
        cd_Appointments := map (update_root salonID req target plan (st_UUID env [0]) now)
          (cd_Appointments db),
        cd_Events := cd_Events db @
          [\<lparr>ee_ID = st_UUID env [4], ee_SalonID = salonID, ee_BookingAttemptID = st_UUID env [0],
            ee_AppointmentID = lt_ID target, ee_EventType = lp_EventType plan,
            ee_SchedulingAuthorityVersion = lt_SchedulingAuthorityVersion target,
            ee_AuthorityConfigVersion = lp_ConfigVersion plan,
            ee_AuthorityAppointmentVersion = lt_AuthorityAppointmentVersion target + 1,
            ee_ChildrenHash = st_ChildrenHash env
              (case lp_Quote plan of
                 None \<Rightarrow> map (\<lambda>segment. lifecycleChild segment []) (lp_Snapshot plan)
               | Some quote \<Rightarrow> plan_children env (qu_Segments quote)),
            ee_CreatedAt = now\<rparr>]\<rparr>"

definition executeLifecycleTx ::
  "StoreEnv \<Rightarrow> CalendarDB \<Rightarrow> string \<Rightarrow> string \<Rightarrow> InternalLifecycleRequest \<Rightarrow> lifecycleTarget
     \<Rightarrow> LifecyclePlan \<Rightarrow> gotime \<Rightarrow> (error + InternalCreateResult option \<times> bool) \<times> CalendarDB" where
  "executeLifecycleTx env db salonID ownerUserID req target plan now =
     (if key_taken db salonID (ilr_OperationKey req) then (Inl ErrOperationConflict, db)
      else if released_allocations db salonID target
              \<noteq> sum_list (map (\<lambda>segment. length (qs_ResourceAllocations segment)) (lt_Segments target))
      then (Inl ErrOperationConflict, db)
      else if released_segments db salonID target \<noteq> length (lt_Segments target)
      then (Inl ErrOperationConflict, db)
      else if \<not> (case lp_Quote plan of None \<Rightarrow> True
                  | Some quote \<Rightarrow> consumes_one db salonID (qu_QuoteID quote) now)
      then (Inl ErrAvailabilityQuoteStale, db)
      else if length (filter (updates_root salonID target) (cd_Appointments db)) \<noteq> 1
      then (Inl ErrOperationConflict, db)
      else commit env db (lifecycle_db env db salonID req target plan now) (\<lambda>db'.
             map_sum id (\<lambda>result. (Some result, False))
               (loadAuthoritativeInternalResultTx env db' salonID ownerUserID (lt_ID target)
                  (st_UUID env [0]))))"

definition reschedule_quote_usable ::
  "executionFence \<Rightarrow> lifecycleTarget \<Rightarrow> quotedAggregateSlot \<Rightarrow> InternalLifecycleRequest \<Rightarrow> gotime
     \<Rightarrow> bool" where
  "reschedule_quote_usable fence target quote req now \<longleftrightarrow>
     \<not> (qu_OperationType quote \<noteq> BookingActionReschedule \<or> qu_TargetAppointmentID quote \<noteq> lt_ID target
        \<or> qu_TargetAuthorityAppointmentVersion quote \<noteq> lt_AuthorityAppointmentVersion target
        \<or> qu_AuthorityVersion quote \<noteq> lt_SchedulingAuthorityVersion target
        \<or> qu_ConfigVersion quote \<noteq> fe_ConfigVersion fence
        \<or> fe_ActivatedVersion fence \<noteq> fe_ConfigVersion fence \<or> \<not> qu_ExpiresAt quote > now
        \<or> qu_ConsumedAt quote \<noteq> None \<or> qu_ConsumedAttemptID quote \<noteq> None
        \<or> ilr_ExpectedTargetAuthorityAppointmentVersion req
          \<noteq> qu_TargetAuthorityAppointmentVersion quote
        \<or> ilr_RequestedTimezone req \<noteq> fe_Timezone fence \<or> \<not> quoteMatchesLifecycleAction quote req)"

text \<open>
  What reschedule and cancel have in common: the replay of a known operation key, and the target
  with its status, version and cutoff.
\<close>

definition lifecycle_target ::
  "StoreEnv \<Rightarrow> CalendarDB \<Rightarrow> string \<Rightarrow> string \<Rightarrow> InternalLifecycleRequest \<Rightarrow> bool \<Rightarrow> gotime
     \<Rightarrow> error + lifecycleTarget" where
  "lifecycle_target env db salonID ownerUserID req reschedule now =
     (case lockLifecycleTarget env db salonID ownerUserID (ilr_TargetAppointmentID req) of
        Inl err \<Rightarrow> Inl err
      | Inr target \<Rightarrow>
          if lt_Status target \<noteq> StatusConfirmed \<and> lt_Status target \<noteq> StatusRescheduled
             \<or> lt_AuthorityAppointmentVersion target
               \<noteq> ilr_ExpectedTargetAuthorityAppointmentVersion req
          then Inl ErrOperationConflict
          else if \<not> lifecycleCutoffOpen now (lt_StartTime target)
                     (loadLifecycleCutoff db salonID reschedule)
          then Inl ErrSchedulingAuthorityNotReady
          else Inr target)"

definition RescheduleAppointment ::
  "StoreEnv \<Rightarrow> string \<Rightarrow> string \<Rightarrow> InternalLifecycleRequest \<Rightarrow> gotime
     \<Rightarrow> (CalendarDB, InternalCreateResult option \<times> bool) call" where
  "RescheduleAppointment env salonID ownerUserID req now db =
     (if ilr_OperationType req \<noteq> OperationKindReschedule then (Inl ErrInvalidSchedulingAction, db)
      else
        (case replayLifecycleTx env db salonID ownerUserID req of
           Inl err \<Rightarrow> (Inl err, db)
         | Inr (Some replay) \<Rightarrow> (Inr (Some replay, True), db)
         | Inr None \<Rightarrow>
             (case lifecycle_target env db salonID ownerUserID req True now of
                Inl err \<Rightarrow> (Inl err, db)
              | Inr target \<Rightarrow>
                  (case lockExecutionFence env db salonID ownerUserID of
                     Inl err \<Rightarrow> (Inl err, db)
                   | Inr fence \<Rightarrow>
                       (case lockQuotedAggregateSlot db salonID (ilr_AvailabilityQuoteID req)
                               (ilr_SlotFingerprint req) of
                          Inl err \<Rightarrow> (Inl err, db)
                        | Inr quote \<Rightarrow>
                            if \<not> reschedule_quote_usable fence target quote req now
                            then (Inl ErrAvailabilityQuoteStale, db)
                            else
                              (case quotedRequest env quote (fe_Timezone fence) of
                                 None \<Rightarrow> (Inl nil_location_panic, db)
                               | Some requested \<Rightarrow>
                                   if \<not> replacementPreservesTargetShape requested target
                                      \<or> qu_RequestFingerprint quote
                                        \<noteq> st_LifecycleRequestHash env (qu_AuthorityVersion quote)
                                            (qu_ConfigVersion quote) (lt_ID target)
                                            (lt_AuthorityAppointmentVersion target) requested
                                   then (Inl ErrAvailabilityQuoteStale, db)
                                   else
                                     (case recheck_quote env db salonID ownerUserID fence quote
                                             requested (lt_ID target) now of
                                        Inl err \<Rightarrow> (Inl err, db)
                                      | Inr aggregate \<Rightarrow>
                                          executeLifecycleTx env db salonID ownerUserID req target
                                            (reschedule_plan quote aggregate) now)))))))"

definition CancelAppointment ::
  "StoreEnv \<Rightarrow> string \<Rightarrow> string \<Rightarrow> InternalLifecycleRequest \<Rightarrow> gotime
     \<Rightarrow> (CalendarDB, InternalCreateResult option \<times> bool) call" where
  "CancelAppointment env salonID ownerUserID req now db =
     (if ilr_OperationType req \<noteq> OperationKindCancel then (Inl ErrInvalidSchedulingAction, db)
      else
        (case replayLifecycleTx env db salonID ownerUserID req of
           Inl err \<Rightarrow> (Inl err, db)
         | Inr (Some replay) \<Rightarrow> (Inr (Some replay, True), db)
         | Inr None \<Rightarrow>
             (case lifecycle_target env db salonID ownerUserID req False now of
                Inl err \<Rightarrow> (Inl err, db)
              | Inr target \<Rightarrow>
                  executeLifecycleTx env db salonID ownerUserID req target (cancel_plan target) now)))"

definition Repository_calendar :: "StoreEnv \<Rightarrow> CalendarDB ExecutionStore" where
  "Repository_calendar env =
     \<lparr>es_CheckAvailability = CheckAvailability_store env,
      es_CreateAppointment = CreateAppointment env,
      es_RescheduleAppointment = RescheduleAppointment env,
      es_CancelAppointment = CancelAppointment env\<rparr>"

end
