(* ===== verification/Calendar_Store_Safety.thy ===== *)
theory Calendar_Store_Safety
  imports Calendar_Store
begin

text \<open>
  No double booking in the internal calendar: what the recheck of a quote guarantees, the cases of
  the four transactions, and the invariant of every run of them (\<open>calendar_step\<close>).
\<close>

section \<open>What an offered slot guarantees\<close>

lemma window_bounds:
  assumes "segment_window ctx policy requested guestNext = Some w"
  shows "win_OccupiedStart w < win_OccupiedEnd w"
    and "\<exists>m m'. 0 \<le> m \<and> m' \<le> 1440
      \<and> strictLocalMinute (ctx_localDate ctx) m (ctx_location ctx) = Some (win_OccupiedStart w)
      \<and> strictLocalMinute (ctx_localDate ctx) m' (ctx_location ctx) = Some (win_OccupiedEnd w)"
proof -
  have "win_OccupiedStart w < win_OccupiedEnd w \<and> 0 \<le> win_OccupiedStartMinute w
      \<and> win_OccupiedEndMinute w \<le> 1440
      \<and> strictLocalMinute (ctx_localDate ctx) (win_OccupiedStartMinute w) (ctx_location ctx)
        = Some (win_OccupiedStart w)
      \<and> strictLocalMinute (ctx_localDate ctx) (win_OccupiedEndMinute w) (ctx_location ctx)
        = Some (win_OccupiedEnd w)"
    using assms unfolding segment_window_def Let_def
    by (auto split: if_splits option.splits prod.splits)
  then show "win_OccupiedStart w < win_OccupiedEnd w"
    and "\<exists>m m'. 0 \<le> m \<and> m' \<le> 1440
      \<and> strictLocalMinute (ctx_localDate ctx) m (ctx_location ctx) = Some (win_OccupiedStart w)
      \<and> strictLocalMinute (ctx_localDate ctx) m' (ctx_location ctx) = Some (win_OccupiedEnd w)"
    by blast+
qed

lemma schedule_windows:
  assumes "segment_schedule ctx requests guestNext = Some sched" "(policy, requested, w) \<in> set sched"
  shows "\<exists>guestNext. segment_window ctx policy requested guestNext = Some w"
  using assms
proof (induction requests arbitrary: guestNext sched)
  case (Cons r rs)
  from Cons.prems(1) obtain p v rest where
    p: "ctx_policies ctx (nas_ServiceID r) = Some p" "segment_window ctx p r guestNext = Some v"
    and rest: "segment_schedule ctx rs (guestNext(guest_key r \<mapsto> win_EndMinute v)) = Some rest"
    "sched = (p, r, v) # rest" by (auto split: option.splits)
  show ?case
  proof (cases "(policy, requested, w) = (p, r, v)")
    case True
    then show ?thesis using p(2) by blast
  next
    case False
    then show ?thesis using Cons.IH [OF rest(1)] Cons.prems(2) rest(2) by auto
  qed
qed simp

lemma offered_plan:
  assumes "planAggregateAvailability LoadLocation snapshot req now = Inr slots" "slot \<in> set slots"
  obtains aggregate config location date where
    "planner_inputs LoadLocation snapshot req aggregate config location date"
    "sorted_wrt staff_disjoint (isl_Segments slot)" "resourcesFit snapshot (isl_Segments slot)"
    "\<And>s c. s \<in> set (isl_Segments slot) \<Longrightarrow> c \<in> set (snap_Conflicts snapshot) \<Longrightarrow>
       sc_StaffID c = ias_StaffID s \<Longrightarrow> \<not> rangesOverlap (ias_OccupiedStartTime s)
         (ias_OccupiedEndTime s) (sc_StartsAt c) (sc_EndsAt c)"
    "\<And>s. s \<in> set (isl_Segments slot) \<Longrightarrow>
       ias_OccupiedStartTime s < ias_OccupiedEndTime s \<and> (\<exists>m m'. 0 \<le> m \<and> m' \<le> 1440
         \<and> strictLocalMinute date m location = Some (ias_OccupiedStartTime s)
         \<and> strictLocalMinute date m' location = Some (ias_OccupiedEndTime s))"
proof (rule planner_ok [OF assms(1)], goal_cases)
  case (1 aggregate config location date)
  have within: "within_horizon config location now date" using 1(6) assms(2) by (cases slots) auto
  then have "slot \<in> set (List.map_filter
      (try_slot snapshot aggregate config (nar_Segments req) date location now)
      (grid 0 (cc_SlotStepMinutes config)))"
    using 1(8) assms(2) by (auto dest: in_set_takeD)
  then obtain m where "try_slot snapshot aggregate config (nar_Segments req) date location now m
      = Some slot" by (auto simp: set_map_filter)
  then obtain t where "assignAggregateSegments
      (plan_context snapshot aggregate config date location m) (nar_Segments req) [] Map.empty
      = Some (isl_Segments slot)"
    by (auto simp: try_slot_def split: option.splits if_splits)
  then obtain sched staffs where plan:
    "segment_schedule (plan_context snapshot aggregate config date location m) (nar_Segments req)
       Map.empty = Some sched"
    "list_all2 (staff_ok (plan_context snapshot aggregate config date location m)) sched staffs"
    "isl_Segments slot
       = map2 (staffed_segment (plan_context snapshot aggregate config date location m)) sched staffs"
    "sorted_wrt staff_disjoint (isl_Segments slot)" "resourcesFit snapshot (isl_Segments slot)"
    using assign_sound [of "plan_context snapshot aggregate config date location m"
        "nar_Segments req" "[]" Map.empty] 1(5) by auto
  let ?ctx = "plan_context snapshot aggregate config date location m"
  have member: "\<exists>policy requested w staffID. (policy, requested, w) \<in> set sched
      \<and> staff_ok ?ctx (policy, requested, w) staffID
      \<and> s = staffed_segment ?ctx (policy, requested, w) staffID"
    if "s \<in> set (isl_Segments slot)" for s
    using that list_all2_conv_all_nth [THEN iffD1, OF plan(2)] unfolding plan(3)
    by (auto simp: set_zip) (metis nth_mem prod_cases3)
  have free: "\<not> rangesOverlap (ias_OccupiedStartTime s) (ias_OccupiedEndTime s)
      (sc_StartsAt c) (sc_EndsAt c)"
    if "s \<in> set (isl_Segments slot)" "c \<in> set (snap_Conflicts snapshot)"
      "sc_StaffID c = ias_StaffID s" for s c
    using member [OF that(1)] that(2,3)
    by (auto simp: staff_ok_def staffed_segment_def staff_available_def hasStaffConflict_def
        list_ex_iff split: option.splits)
  have bounds: "ias_OccupiedStartTime s < ias_OccupiedEndTime s \<and> (\<exists>m m'. 0 \<le> m \<and> m' \<le> 1440
      \<and> strictLocalMinute date m location = Some (ias_OccupiedStartTime s)
      \<and> strictLocalMinute date m' location = Some (ias_OccupiedEndTime s))"
    if s: "s \<in> set (isl_Segments slot)" for s
  proof -
    obtain policy requested w staffID where w: "(policy, requested, w) \<in> set sched"
      "s = staffed_segment ?ctx (policy, requested, w) staffID"
      using member [OF s] by blast
    obtain guestNext where "segment_window ?ctx policy requested guestNext = Some w"
      using schedule_windows [OF plan(1) w(1)] by blast
    then show ?thesis
      using window_bounds [of ?ctx policy requested guestNext w]
      by (simp add: w(2) staffed_segment_def plan_context_def Let_def)
  qed
  show ?case by (rule 1(1) [OF 1(2) plan(4,5) free bounds])
qed

section \<open>Hypotheses on the environment\<close>

text \<open>
  Two facts about the outside world are used. Within a local day the unambiguous wall-clock minutes
  of a time zone come in order (a zone would have to skip midnight forward and then fall back over
  it on the same day to break this). And the slot fingerprint, SHA-256 over the JSON of the slot,
  identifies what it is computed from.
\<close>

definition orderly :: "Location \<Rightarrow> bool" where
  "orderly location \<longleftrightarrow> (\<forall>date m m' t t'. strictLocalMinute date m location = Some t \<longrightarrow>
     strictLocalMinute date m' location = Some t' \<longrightarrow> m \<le> m' \<longrightarrow> t \<le> t')"

definition zones_orderly :: "StoreEnv \<Rightarrow> bool" where
  "zones_orderly env \<longleftrightarrow> (\<forall>name location. st_LoadLocation env name = Some location \<longrightarrow> orderly location)"

definition slot_hash_exact :: "StoreEnv \<Rightarrow> bool" where
  "slot_hash_exact env \<longleftrightarrow> (\<forall>f a b segments f' a' b' segments'.
     st_SlotHash env f a b segments = st_SlotHash env f' a' b' segments' \<longrightarrow>
     f = f' \<and> a = a' \<and> b = b' \<and> segments = segments')"

section \<open>What the recheck of a quote guarantees\<close>

lemma fence_calendar:
  assumes "lockExecutionFence env db salonID u = Inr fence"
  shows "\<exists>row config. calendar_row db salonID = Some row \<and> agg_Config row = Some config
    \<and> fe_Timezone fence = agg_Timezone row \<and> fe_Authority fence = agg_SchedulingAuthority row
    \<and> fe_AuthorityVersion fence = agg_AuthorityVersion row \<and> fe_ConfigVersion fence = cc_Version config"
  using assms by (auto simp: lockExecutionFence_def split: if_splits option.splits)

lemma loadAggregate_fields:
  assumes "loadAggregate env db salonID u = Inr aggregate" "calendar_row db salonID = Some row"
  shows "agg_Timezone aggregate = agg_Timezone row" "agg_Config aggregate = agg_Config row"
    "agg_SchedulingAuthority aggregate = agg_SchedulingAuthority row"
    "agg_ServicePolicies aggregate = agg_ServicePolicies row"
    "agg_Resources aggregate = agg_Resources row" "agg_Exceptions aggregate = agg_Exceptions row"
    "agg_StaffProfiles aggregate = agg_StaffProfiles row" "agg_Hours aggregate = agg_Hours row"
  using assms by (auto simp: loadAggregate_def Let_def split: if_splits)

lemma recheck_planned:
  assumes "recheck_quote env db salonID u fence quote requested target now = Inr aggregate"
  obtains location windowStart windowEnd planned where
    "loadAggregate env db salonID u = Inr aggregate"
    "st_LoadLocation env (fe_Timezone fence) = Some location"
    "localDateWindow env (format_date (local_civil location (qu_StartTime quote)))
       (fe_Timezone fence) = Inr (windowStart, windowEnd)"
    "planAggregateAvailability (st_LoadLocation env)
       (calendar_snapshot env db salonID aggregate windowStart windowEnd target) requested now
       = Inr planned"
    "exactAggregatePlan env planned (quotedSlotAsPlan quote aggregate)"
  using assms unfolding recheck_quote_def Let_def
  by (auto split: if_splits option.splits sum.splits prod.splits)

lemma exact_plan_member:
  assumes "exactAggregatePlan env planned quoted" "slot_hash_exact env"
  obtains slot where "slot \<in> set planned" "isl_StartTime slot = isl_StartTime quoted"
    "isl_EndTime slot = isl_EndTime quoted" "isl_Segments slot = isl_Segments quoted"
  using assms
  unfolding exactAggregatePlan_def aggregateAvailabilitySlotFingerprint_def list_ex_iff slot_hash_exact_def
  by blast

lemma window_strict:
  assumes "localDateWindow env date timezone = Inr (windowStart, windowEnd)"
    "parse_date date = Some parsed" "st_LoadLocation env (TrimSpace timezone) = Some location"
  shows "strictLocalMinute parsed 0 location = Some windowStart"
    "strictLocalMinute parsed 1440 location = Some windowEnd"
proof -
  show "strictLocalMinute parsed 0 location = Some windowStart"
    using assms by (auto simp: localDateWindow_def split: option.splits if_splits)
  have "strictLocalMinute (civil_of_days (days_of_civil parsed + 1)) 0 location = Some windowEnd"
    using assms by (auto simp: localDateWindow_def split: option.splits if_splits)
  then show "strictLocalMinute parsed 1440 location = Some windowEnd"
    by (simp add: strictLocalMinute_def)
qed

lemma snapshot_conflicts:
  assumes "segment \<in> set (cd_Segments db)" "counts_against db salonID target segment"
    "sg_SchedulingAuthority segment = SchedulingAuthorityManleAICalendar"
    "sg_OccupiedStartTime segment < windowEnd" "windowStart < sg_OccupiedEndTime segment"
  shows "\<lparr>sc_StaffID = sg_StaffID segment, sc_StartsAt = sg_OccupiedStartTime segment,
      sc_EndsAt = sg_OccupiedEndTime segment\<rparr>
    \<in> set (snap_Conflicts (calendar_snapshot env db salonID aggregate windowStart windowEnd target))"
  using assms
  by (auto simp: calendar_snapshot_def loadStaffConflictsExcluding_def Let_def internal_conflicts_def)

definition quoted_disjoint :: "quotedAggregateSegment \<Rightarrow> quotedAggregateSegment \<Rightarrow> bool" where
  "quoted_disjoint a b \<longleftrightarrow> (qs_StaffID a = qs_StaffID b \<longrightarrow>
     \<not> rangesOverlap (qs_OccupiedStartTime a) (qs_OccupiedEndTime a)
          (qs_OccupiedStartTime b) (qs_OccupiedEndTime b))"

text \<open>
  The quoted slot is one the planner offers now, and all of it lies in the window of the local day
  for which the conflicts were loaded.
\<close>

lemma recheck_slot:
  assumes recheck: "recheck_quote env db salonID u fence quote requested target now = Inr aggregate"
    and fence: "lockExecutionFence env db salonID u' = Inr fence"
    and requested: "quotedRequest env quote (fe_Timezone fence) = Some requested"
    and zones: "zones_orderly env" and exact: "slot_hash_exact env"
  obtains windowStart windowEnd snapshot where
    "snapshot = calendar_snapshot env db salonID aggregate windowStart windowEnd target"
    "sorted_wrt staff_disjoint (map (planned_of_quoted aggregate) (qu_Segments quote))"
    "resourcesFit snapshot (map (planned_of_quoted aggregate) (qu_Segments quote))"
    "\<And>q c. q \<in> set (qu_Segments quote) \<Longrightarrow> c \<in> set (snap_Conflicts snapshot) \<Longrightarrow>
       sc_StaffID c = qs_StaffID q \<Longrightarrow> \<not> rangesOverlap (qs_OccupiedStartTime q)
         (qs_OccupiedEndTime q) (sc_StartsAt c) (sc_EndsAt c)"
    "\<And>q. q \<in> set (qu_Segments quote) \<Longrightarrow> qs_OccupiedStartTime q < qs_OccupiedEndTime q
       \<and> windowStart \<le> qs_OccupiedStartTime q \<and> qs_OccupiedEndTime q \<le> windowEnd"
proof -
  obtain location windowStart windowEnd planned where r:
    "loadAggregate env db salonID u = Inr aggregate"
    "st_LoadLocation env (fe_Timezone fence) = Some location"
    "localDateWindow env (format_date (local_civil location (qu_StartTime quote)))
       (fe_Timezone fence) = Inr (windowStart, windowEnd)"
    "planAggregateAvailability (st_LoadLocation env)
       (calendar_snapshot env db salonID aggregate windowStart windowEnd target) requested now
       = Inr planned"
    "exactAggregatePlan env planned (quotedSlotAsPlan quote aggregate)"
    by (rule recheck_planned [OF recheck])
  let ?snapshot = "calendar_snapshot env db salonID aggregate windowStart windowEnd target"
  obtain slot where slot: "slot \<in> set planned"
    "isl_Segments slot = map (planned_of_quoted aggregate) (qu_Segments quote)"
    by (rule exact_plan_member [OF r(5) exact]) (simp add: quotedSlotAsPlan_def)
  obtain row where row: "calendar_row db salonID = Some row" "fe_Timezone fence = agg_Timezone row"
    using fence_calendar [OF fence] by blast
  have zone: "agg_Timezone aggregate = fe_Timezone fence"
    using loadAggregate_fields(1) [OF r(1) row(1)] row(2) by simp
  have date: "nar_PreferredDate requested = format_date (local_civil location (qu_StartTime quote))"
    using requested r(2) by (auto simp: quotedRequest_def Let_def)
  obtain agg config zone_location day where o:
    "planner_inputs (st_LoadLocation env) ?snapshot requested agg config zone_location day"
    "sorted_wrt staff_disjoint (isl_Segments slot)" "resourcesFit ?snapshot (isl_Segments slot)"
    "\<And>s c. s \<in> set (isl_Segments slot) \<Longrightarrow> c \<in> set (snap_Conflicts ?snapshot) \<Longrightarrow>
       sc_StaffID c = ias_StaffID s \<Longrightarrow> \<not> rangesOverlap (ias_OccupiedStartTime s)
         (ias_OccupiedEndTime s) (sc_StartsAt c) (sc_EndsAt c)"
    "\<And>s. s \<in> set (isl_Segments slot) \<Longrightarrow>
       ias_OccupiedStartTime s < ias_OccupiedEndTime s \<and> (\<exists>m m'. 0 \<le> m \<and> m' \<le> 1440
         \<and> strictLocalMinute day m zone_location = Some (ias_OccupiedStartTime s)
         \<and> strictLocalMinute day m' zone_location = Some (ias_OccupiedEndTime s))"
    by (rule offered_plan [OF r(4) slot(1)]) blast
  have "snap_Aggregate ?snapshot = Some aggregate"
    by (simp add: calendar_snapshot_def split: prod.split)
  then have day: "st_LoadLocation env (TrimSpace (fe_Timezone fence)) = Some zone_location"
    "parse_date (format_date (local_civil location (qu_StartTime quote))) = Some day"
    using o(1) zone date by (auto simp: planner_inputs_def)
  note window = window_strict [OF r(3) day(2,1)]
  have orderly: "orderly zone_location" using zones day(1) by (auto simp: zones_orderly_def)
  have inside: "qs_OccupiedStartTime q < qs_OccupiedEndTime q
      \<and> windowStart \<le> qs_OccupiedStartTime q \<and> qs_OccupiedEndTime q \<le> windowEnd"
    if q: "q \<in> set (qu_Segments quote)" for q
  proof -
    have "planned_of_quoted aggregate q \<in> set (isl_Segments slot)" using q by (simp add: slot(2))
    from o(5) [OF this] obtain m m' where "0 \<le> m" "m' \<le> 1440"
      "strictLocalMinute day m zone_location = Some (qs_OccupiedStartTime q)"
      "strictLocalMinute day m' zone_location = Some (qs_OccupiedEndTime q)"
      "qs_OccupiedStartTime q < qs_OccupiedEndTime q"
      by (auto simp: planned_of_quoted_def)
    with orderly window show ?thesis unfolding orderly_def by blast
  qed
  have free: "\<not> rangesOverlap (qs_OccupiedStartTime q) (qs_OccupiedEndTime q) (sc_StartsAt c) (sc_EndsAt c)"
    if "q \<in> set (qu_Segments quote)" "c \<in> set (snap_Conflicts ?snapshot)" "sc_StaffID c = qs_StaffID q"
    for q c
    using o(4) [of "planned_of_quoted aggregate q" c] that by (simp add: slot(2) planned_of_quoted_def)
  show thesis
    by (rule that [OF refl o(2,3) [unfolded slot(2)] free inside])
qed

lemma recheck_safe:
  assumes recheck: "recheck_quote env db salonID u fence quote requested target now = Inr aggregate"
    and fence: "lockExecutionFence env db salonID u' = Inr fence"
    and requested: "quotedRequest env quote (fe_Timezone fence) = Some requested"
    and env: "zones_orderly env" "slot_hash_exact env"
  shows "sorted_wrt quoted_disjoint (qu_Segments quote)"
    and "\<And>q segment. q \<in> set (qu_Segments quote) \<Longrightarrow> segment \<in> set (cd_Segments db) \<Longrightarrow>
      counts_against db salonID target segment \<Longrightarrow>
      sg_SchedulingAuthority segment = SchedulingAuthorityManleAICalendar \<Longrightarrow>
      sg_StaffID segment = qs_StaffID q \<Longrightarrow>
      \<not> rangesOverlap (qs_OccupiedStartTime q) (qs_OccupiedEndTime q)
           (sg_OccupiedStartTime segment) (sg_OccupiedEndTime segment)"
proof -
  obtain windowStart windowEnd snapshot where r:
    "snapshot = calendar_snapshot env db salonID aggregate windowStart windowEnd target"
    "sorted_wrt staff_disjoint (map (planned_of_quoted aggregate) (qu_Segments quote))"
    "\<And>q c. q \<in> set (qu_Segments quote) \<Longrightarrow> c \<in> set (snap_Conflicts snapshot) \<Longrightarrow>
       sc_StaffID c = qs_StaffID q \<Longrightarrow> \<not> rangesOverlap (qs_OccupiedStartTime q)
         (qs_OccupiedEndTime q) (sc_StartsAt c) (sc_EndsAt c)"
    "\<And>q. q \<in> set (qu_Segments quote) \<Longrightarrow> qs_OccupiedStartTime q < qs_OccupiedEndTime q
       \<and> windowStart \<le> qs_OccupiedStartTime q \<and> qs_OccupiedEndTime q \<le> windowEnd"
    by (rule recheck_slot [OF recheck fence requested env]) blast
  show "sorted_wrt quoted_disjoint (qu_Segments quote)"
    using r(2) unfolding sorted_wrt_map
    by (simp add: staff_disjoint_def quoted_disjoint_def [abs_def] planned_of_quoted_def)
  show "\<not> rangesOverlap (qs_OccupiedStartTime q) (qs_OccupiedEndTime q)
           (sg_OccupiedStartTime segment) (sg_OccupiedEndTime segment)"
    if q: "q \<in> set (qu_Segments quote)" and segment: "segment \<in> set (cd_Segments db)"
      "counts_against db salonID target segment"
      "sg_SchedulingAuthority segment = SchedulingAuthorityManleAICalendar"
      and staff: "sg_StaffID segment = qs_StaffID q" for q segment
  proof
    assume overlap: "rangesOverlap (qs_OccupiedStartTime q) (qs_OccupiedEndTime q)
           (sg_OccupiedStartTime segment) (sg_OccupiedEndTime segment)"
    with r(4) [OF q] have "sg_OccupiedStartTime segment < windowEnd" "windowStart < sg_OccupiedEndTime segment"
      by (auto simp: rangesOverlap_def)
    from r(3) [OF q snapshot_conflicts [OF segment this, of env aggregate, folded r(1)]] staff overlap
    show False by simp
  qed
qed

section \<open>The invariant\<close>

definition live_claim :: "AppointmentSegmentRow \<Rightarrow> bool" where
  "live_claim segment \<longleftrightarrow> sg_SchedulingAuthority segment = SchedulingAuthorityManleAICalendar
     \<and> sg_ReleasedAt segment = None"

definition claims_disjoint :: "AppointmentSegmentRow \<Rightarrow> AppointmentSegmentRow \<Rightarrow> bool" where
  "claims_disjoint a b \<longleftrightarrow> (sg_SalonID a = sg_SalonID b \<longrightarrow> sg_StaffID a = sg_StaffID b \<longrightarrow>
     \<not> rangesOverlap (sg_OccupiedStartTime a) (sg_OccupiedEndTime a)
          (sg_OccupiedStartTime b) (sg_OccupiedEndTime b))"

text \<open>A live claim belongs to the current plan of an active appointment of the calendar.\<close>

definition claim_rooted :: "CalendarDB \<Rightarrow> AppointmentSegmentRow \<Rightarrow> bool" where
  "claim_rooted db segment \<longleftrightarrow>
     (case find_appointment db (sg_SalonID segment) (sg_AppointmentID segment) of
        None \<Rightarrow> False
      | Some a \<Rightarrow> ap_SchedulingAuthority a = SchedulingAuthorityManleAICalendar
          \<and> is_active_status (ap_Status a)
          \<and> sg_PlanVersion segment = ap_AuthorityAppointmentVersion a)"

definition appointment_key :: "AppointmentRow \<Rightarrow> string \<times> string" where
  "appointment_key row = (ap_SalonID row, ap_ID row)"

definition calendar_ok :: "CalendarDB \<Rightarrow> bool" where
  "calendar_ok db \<longleftrightarrow>
     sorted_wrt claims_disjoint (filter live_claim (cd_Segments db))
     \<and> list_all (claim_rooted db) (filter live_claim (cd_Segments db))
     \<and> distinct (map appointment_key (cd_Appointments db))"

lemma find_appointment_SomeD:
  "find_appointment db salonID appointmentID = Some row \<Longrightarrow>
     row \<in> set (cd_Appointments db) \<and> ap_SalonID row = salonID \<and> ap_ID row = appointmentID"
  unfolding find_appointment_def by (auto dest: find_SomeD)

lemma find_appointment_unique:
  assumes "distinct (map appointment_key (cd_Appointments db))" "row \<in> set (cd_Appointments db)"
  shows "find_appointment db (ap_SalonID row) (ap_ID row) = Some row"
  unfolding find_appointment_def
  by (rule find_unique [OF assms]) (auto simp: appointment_key_def)

lemma claim_counts:
  assumes "claim_rooted db segment" "live_claim segment" "sg_SalonID segment = salonID"
    "TrimSpace target = [] \<or> sg_AppointmentID segment \<noteq> TrimSpace target"
  shows "counts_against db salonID target segment"
  using assms
  by (auto simp: claim_rooted_def counts_against_def live_claim_def split: option.splits
      dest: find_appointment_SomeD)

lemma plan_segment_simps [simp]:
  "sg_SalonID (plan_segment env salonID a v agg now (i, q)) = salonID"
  "sg_AppointmentID (plan_segment env salonID a v agg now (i, q)) = a"
  "sg_StaffID (plan_segment env salonID a v agg now (i, q)) = qs_StaffID q"
  "sg_PlanVersion (plan_segment env salonID a v agg now (i, q)) = v"
  "sg_OccupiedStartTime (plan_segment env salonID a v agg now (i, q)) = qs_OccupiedStartTime q"
  "sg_OccupiedEndTime (plan_segment env salonID a v agg now (i, q)) = qs_OccupiedEndTime q"
  "live_claim (plan_segment env salonID a v agg now (i, q))"
  by (simp_all add: plan_segment_def live_claim_def)

text \<open>The new claims of a plan, beside the claims that stay.\<close>

lemma installed_disjoint:
  assumes old: "sorted_wrt claims_disjoint old"
    and new: "sorted_wrt quoted_disjoint qs"
    and cross: "\<And>s q. s \<in> set old \<Longrightarrow> q \<in> set qs \<Longrightarrow> sg_SalonID s = salonID \<Longrightarrow>
      sg_StaffID s = qs_StaffID q \<Longrightarrow>
      \<not> rangesOverlap (qs_OccupiedStartTime q) (qs_OccupiedEndTime q)
           (sg_OccupiedStartTime s) (sg_OccupiedEndTime s)"
  shows "sorted_wrt claims_disjoint
    (old @ map (plan_segment env salonID a v agg now) (enumerate n qs))"
proof -
  have "sorted_wrt quoted_disjoint (map snd (enumerate n qs))" using new by simp
  then have "sorted_wrt (\<lambda>x y. quoted_disjoint (snd x) (snd y)) (enumerate n qs)"
    by (simp only: sorted_wrt_map)
  moreover have "claims_disjoint (plan_segment env salonID a v agg now x)
      (plan_segment env salonID a v agg now y)" if "quoted_disjoint (snd x) (snd y)" for x y
    using that by (cases x, cases y) (simp add: claims_disjoint_def quoted_disjoint_def)
  ultimately have "sorted_wrt claims_disjoint
      (map (plan_segment env salonID a v agg now) (enumerate n qs))"
    unfolding sorted_wrt_map by (rule sorted_wrt_mono_rel [rotated]) simp
  moreover have "claims_disjoint s (plan_segment env salonID a v agg now x)"
    if "s \<in> set old" "x \<in> set (enumerate n qs)" for s x
  proof (cases x)
    case (Pair i q)
    then have "q \<in> set qs" using that(2)
      by (metis image_eqI list.set_map map_snd_enumerate snd_conv)
    then show ?thesis using cross [OF that(1), of q] Pair
      by (simp add: claims_disjoint_def rangesOverlap_sym)
  qed
  ultimately show ?thesis using old by (auto simp: sorted_wrt_append)
qed

section \<open>Transactions that write\<close>

lemma commit_cases:
  assumes "commit env db db' result = (r, db2)"
  obtains e where "r = Inl e" "db2 = db"
  | x where "r = Inr x" "db2 = db'" "st_Guards env db db' = None" "result db' = Inr x"
proof (cases "st_Guards env db db'")
  case None
  show thesis
  proof (cases "result db'")
    case (Inl e)
    with None assms show thesis using that(1) [of e] by (simp add: commit_def)
  next
    case (Inr x)
    with None assms show thesis using that(2) [of x] by (simp add: commit_def)
  qed
next
  case (Some e)
  with assms show thesis using that(1) [of e] by (simp add: commit_def)
qed

lemma CreateAppointment_cases:
  assumes "CreateAppointment env salonID u req now db = (r, db')"
  obtains e where "r = Inl e" "db' = db"
  | replay where "r = Inr (Some replay, True)" "db' = db"
      "replayAggregateCreateTx env db salonID u req = Inr (Some replay)"
  | fence quote requested aggregate result where
      "replayAggregateCreateTx env db salonID u req = Inr None"
      "lockExecutionFence env db salonID u = Inr fence"
      "lockQuotedAggregateSlot db salonID (icr_AvailabilityQuoteID req) (icr_SlotFingerprint req)
         = Inr quote"
      "create_quote_usable fence quote req now"
      "quotedRequest env quote (fe_Timezone fence) = Some requested"
      "recheck_quote env db salonID u fence quote requested [] now = Inr aggregate"
      "\<not> key_taken db salonID (icr_OperationKey req)"
      "consumes_one db salonID (qu_QuoteID quote) now"
      "db' = created_db env db salonID req quote aggregate now"
      "loadAuthoritativeInternalResultTx env db' salonID u (st_UUID env [1]) (st_UUID env [0])
         = Inr result" "r = Inr (Some result, False)"
proof (cases "\<exists>e. r = Inl e \<and> db' = db \<or> (\<exists>replay. r = Inr (Some replay, True) \<and> db' = db
      \<and> replayAggregateCreateTx env db salonID u req = Inr (Some replay))")
  case True
  then show thesis using that(1,2) by blast
next
  case False
  note E = assms [unfolded CreateAppointment_def]
  obtain fence quote requested aggregate where f:
    "replayAggregateCreateTx env db salonID u req = Inr None"
    "lockExecutionFence env db salonID u = Inr fence"
    "lockQuotedAggregateSlot db salonID (icr_AvailabilityQuoteID req) (icr_SlotFingerprint req)
       = Inr quote"
    "create_quote_usable fence quote req now"
    "quotedRequest env quote (fe_Timezone fence) = Some requested"
    "recheck_quote env db salonID u fence quote requested [] now = Inr aggregate"
    "insert_appointment env db salonID u req quote aggregate now = (r, db')"
    using E False by (auto split: sum.splits option.splits if_splits)
  have g: "\<not> key_taken db salonID (icr_OperationKey req)"
    "consumes_one db salonID (qu_QuoteID quote) now"
    "commit env db (created_db env db salonID req quote aggregate now) (\<lambda>db'.
       map_sum id (\<lambda>result. (Some result, False))
         (loadAuthoritativeInternalResultTx env db' salonID u (st_UUID env [1]) (st_UUID env [0])))
     = (r, db')"
    using f(7) False by (auto simp: insert_appointment_def split: if_splits)
  from g(3) show thesis
  proof (cases rule: commit_cases)
    case 1
    then show thesis using False by blast
  next
    case (2 x)
    from 2(4) obtain result where "x = (Some result, False)"
      "loadAuthoritativeInternalResultTx env db' salonID u (st_UUID env [1]) (st_UUID env [0])
        = Inr result" unfolding 2(2) by (blast dest: map_sum_InrD)
    with 2 show thesis using that(3) [OF f(1-6) g(1,2) 2(2)] by simp
  qed
qed

text \<open>A lifecycle operation that writes, with the plan it installs.\<close>

definition lifecycle_writes ::
  "StoreEnv \<Rightarrow> CalendarDB \<Rightarrow> string \<Rightarrow> string \<Rightarrow> InternalLifecycleRequest \<Rightarrow> lifecycleTarget
     \<Rightarrow> LifecyclePlan \<Rightarrow> gotime \<Rightarrow> InternalCreateResult \<Rightarrow> CalendarDB \<Rightarrow> bool" where
  "lifecycle_writes env db salonID u req target plan now result db' \<longleftrightarrow>
     \<not> key_taken db salonID (ilr_OperationKey req)
     \<and> released_segments db salonID target = length (lt_Segments target)
     \<and> (case lp_Quote plan of None \<Rightarrow> True
        | Some quote \<Rightarrow> consumes_one db salonID (qu_QuoteID quote) now)
     \<and> length (filter (updates_root salonID target) (cd_Appointments db)) = 1
     \<and> db' = lifecycle_db env db salonID req target plan now
     \<and> loadAuthoritativeInternalResultTx env db' salonID u (lt_ID target) (st_UUID env [0])
       = Inr result"

lemma executeLifecycleTx_cases:
  assumes "executeLifecycleTx env db salonID u req target plan now = (r, db')"
  obtains e where "r = Inl e" "db' = db"
  | result where "r = Inr (Some result, False)"
      "lifecycle_writes env db salonID u req target plan now result db'"
proof (cases "\<exists>e. r = Inl e \<and> db' = db")
  case True
  then show thesis using that(1) by blast
next
  case False
  then have g: "\<not> key_taken db salonID (ilr_OperationKey req)"
    "released_segments db salonID target = length (lt_Segments target)"
    "case lp_Quote plan of None \<Rightarrow> True | Some quote \<Rightarrow> consumes_one db salonID (qu_QuoteID quote) now"
    "length (filter (updates_root salonID target) (cd_Appointments db)) = 1"
    "commit env db (lifecycle_db env db salonID req target plan now) (\<lambda>db'.
       map_sum id (\<lambda>result. (Some result, False))
         (loadAuthoritativeInternalResultTx env db' salonID u (lt_ID target) (st_UUID env [0])))
     = (r, db')"
    using assms by (auto simp: executeLifecycleTx_def split: if_splits)
  from g(5) show thesis
  proof (cases rule: commit_cases)
    case 1
    then show thesis using False by blast
  next
    case (2 x)
    from 2(4) obtain result where "x = (Some result, False)"
      "loadAuthoritativeInternalResultTx env db' salonID u (lt_ID target) (st_UUID env [0])
        = Inr result" unfolding 2(2) by (blast dest: map_sum_InrD)
    with 2 g show thesis using that(2) by (simp add: lifecycle_writes_def)
  qed
qed

lemma RescheduleAppointment_cases:
  assumes "RescheduleAppointment env salonID u req now db = (r, db')"
  obtains e where "r = Inl e" "db' = db"
  | replay where "r = Inr (Some replay, True)" "db' = db" "replayLifecycleTx env db salonID u req
      = Inr (Some replay)"
  | target fence quote requested aggregate result where
      "replayLifecycleTx env db salonID u req = Inr None"
      "ilr_OperationType req = OperationKindReschedule"
      "lifecycle_target env db salonID u req True now = Inr target"
      "lockExecutionFence env db salonID u = Inr fence"
      "lockQuotedAggregateSlot db salonID (ilr_AvailabilityQuoteID req) (ilr_SlotFingerprint req)
         = Inr quote"
      "reschedule_quote_usable fence target quote req now"
      "quotedRequest env quote (fe_Timezone fence) = Some requested"
      "recheck_quote env db salonID u fence quote requested (lt_ID target) now = Inr aggregate"
      "r = Inr (Some result, False)"
      "lifecycle_writes env db salonID u req target (reschedule_plan quote aggregate) now result db'"
proof (cases "\<exists>e. r = Inl e \<and> db' = db \<or> (\<exists>replay. r = Inr (Some replay, True) \<and> db' = db
      \<and> replayLifecycleTx env db salonID u req = Inr (Some replay))")
  case True
  then show thesis using that(1,2) by blast
next
  case False
  note E = assms [unfolded RescheduleAppointment_def]
  obtain target fence quote requested aggregate where f:
    "replayLifecycleTx env db salonID u req = Inr None"
    "ilr_OperationType req = OperationKindReschedule"
    "lifecycle_target env db salonID u req True now = Inr target"
    "lockExecutionFence env db salonID u = Inr fence"
    "lockQuotedAggregateSlot db salonID (ilr_AvailabilityQuoteID req) (ilr_SlotFingerprint req)
       = Inr quote"
    "reschedule_quote_usable fence target quote req now"
    "quotedRequest env quote (fe_Timezone fence) = Some requested"
    "recheck_quote env db salonID u fence quote requested (lt_ID target) now = Inr aggregate"
    "executeLifecycleTx env db salonID u req target (reschedule_plan quote aggregate) now = (r, db')"
    using E False by (auto split: sum.splits option.splits if_splits)
  from f(9) show thesis
    by (cases rule: executeLifecycleTx_cases) (use False that(3) [OF f(1-8)] in blast)+
qed

lemma CancelAppointment_cases:
  assumes "CancelAppointment env salonID u req now db = (r, db')"
  obtains e where "r = Inl e" "db' = db"
  | replay where "r = Inr (Some replay, True)" "db' = db" "replayLifecycleTx env db salonID u req
      = Inr (Some replay)"
  | target result where
      "replayLifecycleTx env db salonID u req = Inr None"
      "ilr_OperationType req = OperationKindCancel"
      "lifecycle_target env db salonID u req False now = Inr target"
      "r = Inr (Some result, False)"
      "lifecycle_writes env db salonID u req target (cancel_plan target) now result db'"
proof (cases "\<exists>e. r = Inl e \<and> db' = db \<or> (\<exists>replay. r = Inr (Some replay, True) \<and> db' = db
      \<and> replayLifecycleTx env db salonID u req = Inr (Some replay))")
  case True
  then show thesis using that(1,2) by blast
next
  case False
  obtain target where f:
    "replayLifecycleTx env db salonID u req = Inr None"
    "ilr_OperationType req = OperationKindCancel"
    "lifecycle_target env db salonID u req False now = Inr target"
    "executeLifecycleTx env db salonID u req target (cancel_plan target) now = (r, db')"
    using assms [unfolded CancelAppointment_def] False
    by (auto split: sum.splits option.splits if_splits)
  from f(4) show thesis
    by (cases rule: executeLifecycleTx_cases) (use False that(3) [OF f(1-3)] in blast)+
qed

section \<open>Every transaction keeps the invariant\<close>

lemma calendar_ok_cong:
  assumes "calendar_ok db" "cd_Segments db' = cd_Segments db"
    "cd_Appointments db' = cd_Appointments db"
  shows "calendar_ok db'"
  using assms unfolding calendar_ok_def claim_rooted_def [abs_def] find_appointment_def by simp

lemma created_segments:
  "cd_Segments (created_db env db salonID req quote aggregate now)
     = cd_Segments db @ map (plan_segment env salonID (st_UUID env [1]) 1 aggregate now)
         (enumerate 0 (qu_Segments quote))"
  "cd_Appointments (created_db env db salonID req quote aggregate now)
     = cd_Appointments db @ [new_appointment env salonID req quote now]"
  by (simp_all add: created_db_def)

lemma new_appointment_simps [simp]:
  "ap_SalonID (new_appointment env salonID req quote now) = salonID"
  "ap_ID (new_appointment env salonID req quote now) = st_UUID env [1]"
  "ap_SchedulingAuthority (new_appointment env salonID req quote now)
     = SchedulingAuthorityManleAICalendar"
  "ap_Status (new_appointment env salonID req quote now) = StatusConfirmed"
  "ap_AuthorityAppointmentVersion (new_appointment env salonID req quote now) = 1"
  "ap_BookingAttemptID (new_appointment env salonID req quote now) = st_UUID env [0]"
  "ap_ProviderEvidence (new_appointment env salonID req quote now) = False"
  by (simp_all add: new_appointment_def Let_def)

lemma create_keeps_ok:
  assumes ok: "calendar_ok db" and fresh: "st_UUID env [1] \<notin> ap_ID ` set (cd_Appointments db)"
    and fence: "lockExecutionFence env db salonID u = Inr fence"
    and requested: "quotedRequest env quote (fe_Timezone fence) = Some requested"
    and recheck: "recheck_quote env db salonID u fence quote requested [] now = Inr aggregate"
    and env: "zones_orderly env" "slot_hash_exact env"
  shows "calendar_ok (created_db env db salonID req quote aggregate now)"
proof -
  let ?db = "created_db env db salonID req quote aggregate now"
  let ?old = "filter live_claim (cd_Segments db)"
  let ?new = "map (plan_segment env salonID (st_UUID env [1]) 1 aggregate now)
      (enumerate 0 (qu_Segments quote))"
  note safe = recheck_safe [OF recheck fence requested env]
  have old: "sorted_wrt claims_disjoint ?old" "list_all (claim_rooted db) ?old"
    "distinct (map appointment_key (cd_Appointments db))"
    using ok by (simp_all add: calendar_ok_def)
  have live: "filter live_claim (cd_Segments ?db) = ?old @ ?new"
    by (auto simp: created_segments filter_id_conv)
  have "sorted_wrt claims_disjoint (?old @ ?new)"
  proof (rule installed_disjoint [OF old(1) safe(1)])
    fix s q
    assume s: "s \<in> set ?old" "q \<in> set (qu_Segments quote)" "sg_SalonID s = salonID"
      "sg_StaffID s = qs_StaffID q"
    then have "counts_against db salonID [] s"
      using claim_counts [of db s salonID "[]"] old(2) by (auto simp: list_all_iff)
    then show "\<not> rangesOverlap (qs_OccupiedStartTime q) (qs_OccupiedEndTime q)
        (sg_OccupiedStartTime s) (sg_OccupiedEndTime s)"
      using safe(2) [OF s(2)] s by (auto simp: live_claim_def)
  qed
  moreover have "claim_rooted ?db s" if "claim_rooted db s" for s
    using that
    by (auto simp: claim_rooted_def find_appointment_def created_segments find_append split: option.splits)
  moreover have "find (\<lambda>row. ap_SalonID row = salonID \<and> ap_ID row = st_UUID env [1])
      (cd_Appointments db) = None"
    using fresh by (force simp: find_None_iff)
  then have "claim_rooted ?db (plan_segment env salonID (st_UUID env [1]) 1 aggregate now x)" for x
    by (cases x) (simp add: claim_rooted_def find_appointment_def created_segments find_append
        is_active_status_def)
  moreover have "distinct (map appointment_key (cd_Appointments ?db))"
    using old(3) fresh by (auto simp: created_segments appointment_key_def)
  ultimately show ?thesis
    using old(2) unfolding calendar_ok_def live by (auto simp: list_all_iff)
qed

lemma release_live:
  "filter live_claim (map (release_segment salonID target attemptID now) segments)
     = filter (\<lambda>s. live_claim s
         \<and> \<not> is_live_plan salonID (lt_ID target) (lt_AuthorityAppointmentVersion target) s) segments"
  by (induction segments) (auto simp: release_segment_def live_claim_def)

lemma update_root_key: "appointment_key (update_root salonID req target plan attemptID now row) = appointment_key row"
  by (simp add: update_root_def appointment_key_def Let_def)

lemma lifecycle_find_appointment:
  "find_appointment (lifecycle_db env db salonID req target plan now) s a
     = map_option (update_root salonID req target plan (st_UUID env [0]) now) (find_appointment db s a)"
proof -
  have "ap_SalonID (update_root salonID req target plan (st_UUID env [0]) now row) = ap_SalonID row"
    "ap_ID (update_root salonID req target plan (st_UUID env [0]) now row) = ap_ID row" for row
    using update_root_key [of salonID req target plan "st_UUID env [0]" now row]
    by (simp_all add: appointment_key_def)
  then show ?thesis by (simp add: find_appointment_def lifecycle_db_def find_map)
qed

lemma lifecycle_target_row:
  assumes "lifecycle_target env db salonID u req re now = Inr target"
  obtains row where "row \<in> set (cd_Appointments db)" "ap_SalonID row = salonID"
    "ap_ID row = lt_ID target" "ap_SchedulingAuthority row = SchedulingAuthorityManleAICalendar"
    "ap_AuthorityAppointmentVersion row = lt_AuthorityAppointmentVersion target"
    "ap_Status row = lt_Status target" "is_active_status (lt_Status target)"
    "TrimSpace (lt_ID target) = lt_ID target"
    "lt_AuthorityAppointmentVersion target = ilr_ExpectedTargetAuthorityAppointmentVersion req"
    "lt_ID target = TrimSpace (ilr_TargetAppointmentID req)"
  using assms
  by (auto simp: lifecycle_target_def lockLifecycleTarget_def Let_def is_active_status_def
      split: sum.splits if_splits option.splits dest!: find_SomeD)

lemma lifecycle_keeps_ok:
  assumes ok: "calendar_ok db"
    and target: "lifecycle_target env db salonID u req re now = Inr target"
    and new: "installed_segments env salonID target plan now
      = map (plan_segment env salonID (lt_ID target) (lt_AuthorityAppointmentVersion target + 1)
          aggregate now) (enumerate 0 qs)"
    and status: "qs \<noteq> [] \<Longrightarrow> is_active_status (lp_Status plan)"
    and disjoint: "sorted_wrt quoted_disjoint qs"
    and free: "\<And>q s. q \<in> set qs \<Longrightarrow> s \<in> set (cd_Segments db) \<Longrightarrow>
      counts_against db salonID (lt_ID target) s \<Longrightarrow>
      sg_SchedulingAuthority s = SchedulingAuthorityManleAICalendar \<Longrightarrow>
      sg_StaffID s = qs_StaffID q \<Longrightarrow>
      \<not> rangesOverlap (qs_OccupiedStartTime q) (qs_OccupiedEndTime q)
           (sg_OccupiedStartTime s) (sg_OccupiedEndTime s)"
  shows "calendar_ok (lifecycle_db env db salonID req target plan now)"
proof -
  let ?db = "lifecycle_db env db salonID req target plan now"
  let ?kept = "filter (\<lambda>s. live_claim s
      \<and> \<not> is_live_plan salonID (lt_ID target) (lt_AuthorityAppointmentVersion target) s) (cd_Segments db)"
  let ?new = "map (plan_segment env salonID (lt_ID target)
      (lt_AuthorityAppointmentVersion target + 1) aggregate now) (enumerate 0 qs)"
  obtain row where row: "row \<in> set (cd_Appointments db)" "ap_SalonID row = salonID"
    "ap_ID row = lt_ID target" "ap_SchedulingAuthority row = SchedulingAuthorityManleAICalendar"
    "ap_AuthorityAppointmentVersion row = lt_AuthorityAppointmentVersion target"
    "ap_Status row = lt_Status target" "is_active_status (lt_Status target)"
    "TrimSpace (lt_ID target) = lt_ID target"
    using target by (rule lifecycle_target_row) blast
  have old: "sorted_wrt claims_disjoint (filter live_claim (cd_Segments db))"
    "list_all (claim_rooted db) (filter live_claim (cd_Segments db))"
    "distinct (map appointment_key (cd_Appointments db))"
    using ok by (simp_all add: calendar_ok_def)
  have root: "find_appointment db salonID (lt_ID target) = Some row"
    using find_appointment_unique [OF old(3) row(1)] row(2,3) by simp
  have rooted: "claim_rooted db s" if "s \<in> set ?kept" for s
    using that old(2) by (auto simp: list_all_iff)
  have other: "\<not> (sg_SalonID s = salonID \<and> sg_AppointmentID s = lt_ID target)" if "s \<in> set ?kept" for s
    using that rooted [OF that] root row(5)
    by (auto simp: claim_rooted_def is_live_plan_def live_claim_def)
  have live: "filter live_claim (cd_Segments ?db) = ?kept @ ?new"
    by (auto simp: lifecycle_db_def new release_live filter_id_conv)
  have "sorted_wrt claims_disjoint (?kept @ ?new)"
  proof (rule installed_disjoint [OF _ disjoint])
    show "sorted_wrt claims_disjoint ?kept"
      using sorted_wrt_filter [OF old(1), of
          "\<lambda>s. \<not> is_live_plan salonID (lt_ID target) (lt_AuthorityAppointmentVersion target) s"]
      by (simp add: conj_commute)
    fix s q
    assume s: "s \<in> set ?kept" "q \<in> set qs" "sg_SalonID s = salonID" "sg_StaffID s = qs_StaffID q"
    have "counts_against db salonID (lt_ID target) s"
      using claim_counts [OF rooted [OF s(1)] _ s(3), of "lt_ID target"] other [OF s(1)] s(1,3) row(8)
      by auto
    then show "\<not> rangesOverlap (qs_OccupiedStartTime q) (qs_OccupiedEndTime q)
        (sg_OccupiedStartTime s) (sg_OccupiedEndTime s)"
      using free [OF s(2)] s by (auto simp: live_claim_def)
  qed
  moreover have "claim_rooted ?db s" if "s \<in> set ?kept" for s
    using rooted [OF that] other [OF that]
    by (auto simp: claim_rooted_def lifecycle_find_appointment update_root_def updates_root_def
        split: option.splits dest!: find_appointment_SomeD)
  moreover have "claim_rooted ?db (plan_segment env salonID (lt_ID target)
      (lt_AuthorityAppointmentVersion target + 1) aggregate now x)" if "x \<in> set (enumerate 0 qs)" for x
  proof -
    have "qs \<noteq> []" using that by auto
    then show ?thesis
      using status row root
      by (cases x) (simp add: claim_rooted_def lifecycle_find_appointment update_root_def
          updates_root_def Let_def)
  qed
  moreover have "distinct (map appointment_key (cd_Appointments ?db))"
    using old(3) by (simp add: lifecycle_db_def comp_def update_root_key)
  ultimately show ?thesis
    unfolding calendar_ok_def live by (auto simp: list_all_iff)
qed


section \<open>Runs of the calendar\<close>

text \<open>
  A request runs in a session: who may execute and read, and the identifiers it draws. A step of a
  run is one committed or rolled back transaction of a session, or a change made by another part of
  the system. The other parts change the configuration and the rows of the other authorities, and
  the cleanup worker deletes quotes that no attempt consumed (\<open>app_worker_cleanup_availability_quotes\<close>);
  they leave the appointments, segments, attempts and events of the calendar and its consumed quotes
  alone. Identifiers drawn from \<open>uuid.NewString\<close> are new where the row they name needs it.
\<close>

definition session ::
  "StoreEnv \<Rightarrow> (nat list \<Rightarrow> string) \<Rightarrow> (string \<Rightarrow> string \<Rightarrow> bool) \<Rightarrow> (string \<Rightarrow> string \<Rightarrow> bool) \<Rightarrow> StoreEnv"
  where "session env uuid execute read
    = env\<lparr>st_UUID := uuid, st_MayExecute := execute, st_MayRead := read\<rparr>"

lemma session_simps [simp]:
  "st_UUID (session env uuid execute read) = uuid"
  "zones_orderly (session env uuid execute read) = zones_orderly env"
  "slot_hash_exact (session env uuid execute read) = slot_hash_exact env"
  by (simp_all add: session_def zones_orderly_def slot_hash_exact_def)

definition is_calendar_appointment :: "AppointmentRow \<Rightarrow> bool" where
  "is_calendar_appointment row \<longleftrightarrow> ap_SchedulingAuthority row = SchedulingAuthorityManleAICalendar"

definition is_calendar_segment :: "AppointmentSegmentRow \<Rightarrow> bool" where
  "is_calendar_segment row \<longleftrightarrow> sg_SchedulingAuthority row = SchedulingAuthorityManleAICalendar"

definition is_calendar_attempt :: "AttemptRow \<Rightarrow> bool" where
  "is_calendar_attempt row \<longleftrightarrow> at_SchedulingAuthority row = SchedulingAuthorityManleAICalendar"

definition is_calendar_quote :: "QuoteRow \<Rightarrow> bool" where
  "is_calendar_quote row \<longleftrightarrow> qr_SchedulingAuthority row = SchedulingAuthorityManleAICalendar"

definition other_parts :: "CalendarDB \<Rightarrow> CalendarDB \<Rightarrow> bool" where
  "other_parts db db' \<longleftrightarrow>
     filter is_calendar_appointment (cd_Appointments db') = filter is_calendar_appointment (cd_Appointments db)
     \<and> filter is_calendar_segment (cd_Segments db') = filter is_calendar_segment (cd_Segments db)
     \<and> filter is_calendar_attempt (cd_Attempts db') = filter is_calendar_attempt (cd_Attempts db)
     \<and> cd_Events db' = cd_Events db
     \<and> (\<exists>keep. (\<forall>row. qr_ConsumedByAttemptID row \<noteq> None \<longrightarrow> keep row)
        \<and> filter is_calendar_quote (cd_Quotes db') = filter keep (filter is_calendar_quote (cd_Quotes db)))
     \<and> distinct (map appointment_key (cd_Appointments db'))"

inductive calendar_step :: "StoreEnv \<Rightarrow> CalendarDB \<Rightarrow> CalendarDB \<Rightarrow> bool" for env where
  check: "uuid [0] \<notin> qr_ID ` set (cd_Quotes db) \<Longrightarrow>
    CheckAvailability_store (session env uuid execute read) salonID u req now db = (r, db')
    \<Longrightarrow> calendar_step env db db'"
| create: "uuid [0] \<notin> at_ID ` set (cd_Attempts db) \<Longrightarrow>
    uuid [1] \<notin> ap_ID ` set (cd_Appointments db) \<Longrightarrow>
    CreateAppointment (session env uuid execute read) salonID u creq now db = (r', db')
    \<Longrightarrow> calendar_step env db db'"
| reschedule: "uuid [0] \<notin> at_ID ` set (cd_Attempts db) \<Longrightarrow>
    RescheduleAppointment (session env uuid execute read) salonID u lreq now db = (r', db')
    \<Longrightarrow> calendar_step env db db'"
| cancel: "uuid [0] \<notin> at_ID ` set (cd_Attempts db) \<Longrightarrow>
    CancelAppointment (session env uuid execute read) salonID u lreq now db = (r', db')
    \<Longrightarrow> calendar_step env db db'"
| elsewhere: "other_parts db db' \<Longrightarrow> calendar_step env db db'"

lemma CheckAvailability_store_keeps:
  assumes "CheckAvailability_store env salonID u req now db = (r, db')"
  shows "cd_Segments db' = cd_Segments db" "cd_Appointments db' = cd_Appointments db"
    "cd_Attempts db' = cd_Attempts db" "cd_Events db' = cd_Events db"
  using assms unfolding CheckAvailability_store_def Let_def
  by (auto simp: store_quote_def commit_def Let_def
      split: sum.splits prod.splits if_splits option.splits)

lemma elsewhere_keeps_ok:
  assumes ok: "calendar_ok db"
    and same: "filter is_calendar_appointment (cd_Appointments db')
      = filter is_calendar_appointment (cd_Appointments db)"
    "filter is_calendar_segment (cd_Segments db') = filter is_calendar_segment (cd_Segments db)"
    and keys: "distinct (map appointment_key (cd_Appointments db'))"
  shows "calendar_ok db'"
proof -
  have live: "filter live_claim xs = filter (\<lambda>s. sg_ReleasedAt s = None) (filter is_calendar_segment xs)"
    for xs by (rule filter_cong [THEN trans, OF refl _ filter_filter [symmetric]])
      (auto simp: live_claim_def is_calendar_segment_def)
  have segments: "filter live_claim (cd_Segments db') = filter live_claim (cd_Segments db)"
    unfolding live same(2) ..
  have "claim_rooted db' s" if rooted: "claim_rooted db s" for s
  proof -
    obtain a where a: "find_appointment db (sg_SalonID s) (sg_AppointmentID s) = Some a"
      "is_calendar_appointment a" "is_active_status (ap_Status a)"
      "sg_PlanVersion s = ap_AuthorityAppointmentVersion a"
      using rooted by (auto simp: claim_rooted_def is_calendar_appointment_def split: option.splits)
    note row = find_appointment_SomeD [OF a(1)]
    have "a \<in> set (filter is_calendar_appointment (cd_Appointments db'))"
      unfolding same(1) using row a(2) by simp
    then have "find_appointment db' (sg_SalonID s) (sg_AppointmentID s) = Some a"
      using find_appointment_unique [OF keys, of a] row by simp
    then show ?thesis using a by (simp add: claim_rooted_def is_calendar_appointment_def)
  qed
  then show ?thesis using ok keys unfolding calendar_ok_def segments by (auto simp: list_all_iff)
qed

lemma calendar_step_keeps_ok:
  assumes "calendar_step env db db'" "calendar_ok db" and env: "zones_orderly env" "slot_hash_exact env"
  shows "calendar_ok db'"
  using assms(1,2)
proof cases
  case check
  show ?thesis
    using assms(2) CheckAvailability_store_keeps(1,2) [OF check(2)] by (rule calendar_ok_cong)
next
  case (create uuid execute read salonID u creq now r')
  let ?env = "session env uuid execute read"
  have env': "zones_orderly ?env" "slot_hash_exact ?env" using env by simp_all
  from create(3) show ?thesis
  proof (cases rule: CreateAppointment_cases)
    case (3 fence quote requested aggregate result)
    show ?thesis
      unfolding 3(9) using create(2) by (intro create_keeps_ok [OF assms(2) _ 3(2,5,6) env']) simp
  qed (use assms(2) in simp_all)
next
  case (reschedule uuid execute read salonID u lreq now r')
  let ?env = "session env uuid execute read"
  have env': "zones_orderly ?env" "slot_hash_exact ?env" using env by simp_all
  from reschedule(2) show ?thesis
  proof (cases rule: RescheduleAppointment_cases)
    case (3 target fence quote requested aggregate result)
    have db': "db' = lifecycle_db ?env db salonID lreq target (reschedule_plan quote aggregate) now"
      using 3(10) by (simp add: lifecycle_writes_def)
    show ?thesis
      unfolding db'
      by (rule lifecycle_keeps_ok [OF assms(2) 3(3), where qs = "qu_Segments quote"
            and aggregate = aggregate])
        (simp_all add: installed_segments_def reschedule_plan_def is_active_status_def
          recheck_safe [OF 3(8,4,7) env'])
  qed (use assms(2) in simp_all)
next
  case (cancel uuid execute read salonID u lreq now r')
  from cancel(2) show ?thesis
  proof (cases rule: CancelAppointment_cases)
    case (3 target result)
    have db': "db' = lifecycle_db (session env uuid execute read) db salonID lreq target
        (cancel_plan target) now"
      using 3(5) by (simp add: lifecycle_writes_def)
    show ?thesis
      unfolding db' by (rule lifecycle_keeps_ok [OF assms(2) 3(3), where qs = "[]"])
        (simp_all add: installed_segments_def cancel_plan_def)
  qed (use assms(2) in simp_all)
next
  case elsewhere
  then show ?thesis
    by (intro elsewhere_keeps_ok [OF assms(2)]) (simp_all add: other_parts_def)
qed

definition double_booked :: "CalendarDB \<Rightarrow> bool" where
  "double_booked db \<longleftrightarrow> (\<exists>i j. i < j \<and> j < length (cd_Segments db)
     \<and> (let a = cd_Segments db ! i; b = cd_Segments db ! j in
          live_claim a \<and> live_claim b \<and> sg_SalonID a = sg_SalonID b \<and> sg_StaffID a = sg_StaffID b
          \<and> rangesOverlap (sg_OccupiedStartTime a) (sg_OccupiedEndTime a)
               (sg_OccupiedStartTime b) (sg_OccupiedEndTime b)))"

lemma calendar_ok_no_double_booking: "calendar_ok db \<Longrightarrow> \<not> double_booked db"
  unfolding calendar_ok_def double_booked_def Let_def
  using sorted_wrt_filter_nth [of claims_disjoint live_claim "cd_Segments db"]
  by (auto simp: claims_disjoint_def)

lemma reachable_calendar_ok:
  assumes "(calendar_step env)\<^sup>*\<^sup>* db db'" "calendar_ok db" "zones_orderly env" "slot_hash_exact env"
  shows "calendar_ok db'"
  using assms by induction (auto intro: calendar_step_keeps_ok)

text \<open>
  C1: However the transactions of the calendar (availability checks, bookings, reschedules,
  cancellations of any session, succeeding, failing or replayed) are interleaved with each other
  and with changes to other tables, a calendar that starts out consistent never holds two live
  segments of one staff member whose occupied times overlap: no staff member is booked twice. Every
  live segment belongs to the current plan of an active appointment.
\<close>

theorem calendar_never_double_books:
  assumes "(calendar_step env)\<^sup>*\<^sup>* db db'" "calendar_ok db" "zones_orderly env" "slot_hash_exact env"
  shows "\<not> double_booked db'
    \<and> (\<forall>segment. segment \<in> set (cd_Segments db') \<longrightarrow> live_claim segment \<longrightarrow> claim_rooted db' segment)"
proof -
  have ok: "calendar_ok db'" using assms by (rule reachable_calendar_ok)
  have "\<forall>segment. segment \<in> set (cd_Segments db') \<longrightarrow> live_claim segment \<longrightarrow> claim_rooted db' segment"
    using ok by (auto simp: calendar_ok_def list_all_iff)
  with calendar_ok_no_double_booking [OF ok] show ?thesis ..
qed

end
