(* ===== verification/Calendar_Store_Ledger.thy ===== *)
theory Calendar_Store_Ledger
  imports Calendar_Store_Safety
begin

text \<open>
  What the ledger of the calendar (attempts, events and quotes) guarantees about its transactions:
  a quote and an operation key are used once, a cancellation releases exactly the plan of its target,
  and a committed plan stays within the capacity of its pools.
\<close>

section \<open>Committed operations replay\<close>

definition fresh_attempt :: "StoreEnv \<Rightarrow> CalendarDB \<Rightarrow> bool" where
  "fresh_attempt env db \<longleftrightarrow>
     st_UUID env [0] \<notin> at_ID ` set (cd_Attempts db)
     \<and> st_UUID env [0] \<notin> ee_BookingAttemptID ` set (cd_Events db)
     \<and> TrimSpace (st_UUID env [0]) = st_UUID env [0]"

lemma find_fresh:
  assumes "k \<notin> f ` set xs"
  shows "find (\<lambda>x. P x \<and> f x = k) xs = None" "find (\<lambda>x. P x \<and> f x = k \<and> Q x) xs = None"
  using assms by (induction xs) auto

lemma result_independent_of_session:
  assumes "loadAuthoritativeInternalResultTx env db salonID u a b = Inr result"
    "st_MayExecute env' salonID u'"
  shows "loadAuthoritativeInternalResultTx env' db salonID u' a b = Inr result"
proof -
  have "st_MayExecute env salonID u"
    using assms(1)
    by (auto simp: loadAuthoritativeInternalResultTx_def result_rows_def split: if_splits)
  then show ?thesis
    using assms unfolding loadAuthoritativeInternalResultTx_def result_rows_def by simp
qed

lemma find_attempt_appended:
  assumes "\<not> key_taken db salonID (at_OperationKey row)" "at_SalonID row = salonID"
    "cd_Attempts db' = cd_Attempts db @ [row]"
  shows "find_attempt db' salonID (at_OperationKey row) = Some row"
  using assms by (simp add: find_attempt_def key_taken_def find_append)

lemma created_attempt:
  assumes "\<not> key_taken db salonID (icr_OperationKey req)"
  shows "find_attempt (created_db env db salonID req quote aggregate now) salonID (icr_OperationKey req)
    = Some (new_attempt env salonID req quote aggregate now)"
proof -
  let ?row = "new_attempt env salonID req quote aggregate now"
  have row: "at_OperationKey ?row = icr_OperationKey req" "at_SalonID ?row = salonID"
    by (simp_all add: new_attempt_def Let_def)
  show ?thesis
    using find_attempt_appended [of db salonID ?row "created_db env db salonID req quote aggregate now"]
      assms unfolding row by (simp add: created_db_def)
qed

lemma lifecycle_attempt_simps [simp]:
  "at_ID (lifecycle_attempt env salonID req target plan now) = st_UUID env [0]"
  "at_SalonID (lifecycle_attempt env salonID req target plan now) = salonID"
  "at_Status (lifecycle_attempt env salonID req target plan now) = lp_Status plan"
  "at_OperationKey (lifecycle_attempt env salonID req target plan now) = ilr_OperationKey req"
  "at_RequestFingerprint (lifecycle_attempt env salonID req target plan now) = ilr_RequestFingerprint req"
  "at_AvailabilityQuoteID (lifecycle_attempt env salonID req target plan now)
     = map_option qu_QuoteID (lp_Quote plan)"
  "at_OperationType (lifecycle_attempt env salonID req target plan now) = ilr_OperationType req"
  "at_SchedulingAuthority (lifecycle_attempt env salonID req target plan now)
     = SchedulingAuthorityManleAICalendar"
  "at_TargetAuthorityAppointmentVersion (lifecycle_attempt env salonID req target plan now)
     = Some (lt_AuthorityAppointmentVersion target)"
  by (simp_all add: lifecycle_attempt_def Let_def)

lemma lifecycle_attempt_row:
  assumes "\<not> key_taken db salonID (ilr_OperationKey req)"
  shows "find_attempt (lifecycle_db env db salonID req target plan now) salonID (ilr_OperationKey req)
    = Some (lifecycle_attempt env salonID req target plan now)"
  using find_attempt_appended [of db salonID "lifecycle_attempt env salonID req target plan now"
      "lifecycle_db env db salonID req target plan now"] assms
  by (simp add: lifecycle_db_def)

text \<open>The event of a lifecycle operation.\<close>

definition lifecycle_event ::
  "StoreEnv \<Rightarrow> CalendarDB \<Rightarrow> string \<Rightarrow> InternalLifecycleRequest \<Rightarrow> lifecycleTarget \<Rightarrow> LifecyclePlan
     \<Rightarrow> gotime \<Rightarrow> ExecutionEventRow" where
  "lifecycle_event env db salonID req target plan now
     = last (cd_Events (lifecycle_db env db salonID req target plan now))"

lemma lifecycle_event_simps [simp]:
  "ee_SalonID (lifecycle_event env db salonID req target plan now) = salonID"
  "ee_BookingAttemptID (lifecycle_event env db salonID req target plan now) = st_UUID env [0]"
  "ee_AppointmentID (lifecycle_event env db salonID req target plan now) = lt_ID target"
  "ee_EventType (lifecycle_event env db salonID req target plan now) = lp_EventType plan"
  "ee_AuthorityAppointmentVersion (lifecycle_event env db salonID req target plan now)
     = lt_AuthorityAppointmentVersion target + 1"
  by (simp_all add: lifecycle_event_def lifecycle_db_def)

lemma lifecycle_events:
  "cd_Events (lifecycle_db env db salonID req target plan now)
     = cd_Events db @ [lifecycle_event env db salonID req target plan now]"
  by (simp add: lifecycle_event_def lifecycle_db_def)

lemma lifecycle_attempts:
  "cd_Attempts (lifecycle_db env db salonID req target plan now)
     = cd_Attempts db @ [lifecycle_attempt env salonID req target plan now]"
  by (simp add: lifecycle_db_def)

lemma lifecycle_result_versions:
  assumes "loadAuthoritativeInternalResultTx env (lifecycle_db env db salonID req target plan now)
      salonID u (lt_ID target) (st_UUID env [0]) = Inr result"
    and fresh: "fresh_attempt env db" and trim: "TrimSpace (lt_ID target) = lt_ID target"
  shows "icx_TargetAuthorityAppointmentVersion result = lt_AuthorityAppointmentVersion target"
    "icx_AuthorityAppointmentVersion result = lt_AuthorityAppointmentVersion target + 1"
proof -
  let ?db = "lifecycle_db env db salonID req target plan now"
  have "find (\<lambda>attempt. at_SalonID attempt = salonID \<and> at_ID attempt = st_UUID env [0]
      \<and> at_SchedulingAuthority attempt = SchedulingAuthorityManleAICalendar) (cd_Attempts ?db)
      = Some (lifecycle_attempt env salonID req target plan now)"
    "find (\<lambda>event. ee_SalonID event = salonID \<and> ee_BookingAttemptID event = st_UUID env [0]
      \<and> ee_AppointmentID event = lt_ID target) (cd_Events ?db)
      = Some (lifecycle_event env db salonID req target plan now)"
    using fresh
    by (simp_all add: lifecycle_events lifecycle_attempts find_append find_fresh fresh_attempt_def)
  then have "\<exists>appointment. result_rows env ?db salonID u (lt_ID target) (st_UUID env [0])
      = Some (lifecycle_attempt env salonID req target plan now,
              lifecycle_event env db salonID req target plan now, appointment)"
    using assms fresh
    by (auto simp: loadAuthoritativeInternalResultTx_def result_rows_def fresh_attempt_def
        split: if_splits option.splits)
  then show "icx_TargetAuthorityAppointmentVersion result = lt_AuthorityAppointmentVersion target"
    "icx_AuthorityAppointmentVersion result = lt_AuthorityAppointmentVersion target + 1"
    using assms(1) unfolding loadAuthoritativeInternalResultTx_def
    by (auto simp: Let_def split: if_splits)
qed

lemma lifecycle_replays:
  assumes writes: "lifecycle_writes env db salonID u req target plan now result db'"
    and target: "lifecycle_target env db salonID u req re now = Inr target"
    and fresh: "fresh_attempt env db" and may: "st_MayExecute env' salonID u'"
    and canonical: "TrimSpace (ilr_TargetAppointmentID req) = ilr_TargetAppointmentID req"
    and status: "lp_Status plan = (if ilr_OperationType req = OperationKindCancel
      then StatusCancelled else StatusRescheduled)"
  shows "replayLifecycleTx env' db' salonID u' req = Inr (Some result)"
proof -
  have w: "\<not> key_taken db salonID (ilr_OperationKey req)"
    "db' = lifecycle_db env db salonID req target plan now"
    "loadAuthoritativeInternalResultTx env db' salonID u (lt_ID target) (st_UUID env [0]) = Inr result"
    using writes unfolding lifecycle_writes_def by blast+
  have t: "TrimSpace (lt_ID target) = lt_ID target" "lt_ID target = ilr_TargetAppointmentID req"
    "lt_AuthorityAppointmentVersion target = ilr_ExpectedTargetAuthorityAppointmentVersion req"
    using target by (auto elim!: lifecycle_target_row simp: canonical)
  have "find_event db' salonID (st_UUID env [0]) = Some (lifecycle_event env db salonID req target plan now)"
    using fresh
    by (simp add: find_event_def w(2) lifecycle_events find_append find_fresh fresh_attempt_def)
  then show ?thesis
    using may lifecycle_attempt_row [OF w(1)] result_independent_of_session [OF w(3) may]
      lifecycle_result_versions [OF w(3) [unfolded w(2)] fresh t(1)] t status
    unfolding replayLifecycleTx_def w(2) by simp
qed

text \<open>
  A reschedule or cancellation that committed can be repeated in the same way: the same request
  returns the same result as a replay and writes nothing, although the target is at its next
  version by then (and, after a cancellation, no longer active). The target identifier of the
  request carries no blanks, as the executor passes it.
\<close>

theorem committed_change_replays:
  assumes "fresh_attempt env db" "st_MayExecute env' salonID u'"
    "TrimSpace (ilr_TargetAppointmentID req) = ilr_TargetAppointmentID req"
  shows "(RescheduleAppointment env salonID u req now db = (Inr (Some result, False), db') \<longrightarrow>
      RescheduleAppointment env' salonID u' req now' db' = (Inr (Some result, True), db'))
    \<and> (CancelAppointment env salonID u req now db = (Inr (Some result, False), db') \<longrightarrow>
      CancelAppointment env' salonID u' req now' db' = (Inr (Some result, True), db'))"
proof (intro conjI impI)
  assume "RescheduleAppointment env salonID u req now db = (Inr (Some result, False), db')"
  then show "RescheduleAppointment env' salonID u' req now' db' = (Inr (Some result, True), db')"
  proof (cases rule: RescheduleAppointment_cases)
    case (3 target fence quote requested aggregate result')
    have "replayLifecycleTx env' db' salonID u' req = Inr (Some result)"
      using lifecycle_replays [OF 3(10,3) assms] 3(2,9)
      by (simp add: reschedule_plan_def OperationKindReschedule_def OperationKindCancel_def)
    then show ?thesis unfolding RescheduleAppointment_def using 3(2) by simp
  qed simp_all
next
  assume "CancelAppointment env salonID u req now db = (Inr (Some result, False), db')"
  then show "CancelAppointment env' salonID u' req now' db' = (Inr (Some result, True), db')"
  proof (cases rule: CancelAppointment_cases)
    case (3 target result')
    have "replayLifecycleTx env' db' salonID u' req = Inr (Some result)"
      using lifecycle_replays [OF 3(5,3) assms] 3(2,4) by (simp add: cancel_plan_def)
    then show ?thesis unfolding CancelAppointment_def using 3(2) by simp
  qed simp_all
qed

section \<open>Cancelling\<close>

lemma lifecycle_target_found:
  assumes target: "lifecycle_target env db salonID u req re now = Inr target"
    and keys: "distinct (map appointment_key (cd_Appointments db))"
  obtains row where "find_appointment db salonID (lt_ID target) = Some row"
    "ap_SchedulingAuthority row = SchedulingAuthorityManleAICalendar" "is_active_status (ap_Status row)"
    "ap_AuthorityAppointmentVersion row = lt_AuthorityAppointmentVersion target"
    "lt_AuthorityAppointmentVersion target = ilr_ExpectedTargetAuthorityAppointmentVersion req"
    "lt_ID target = TrimSpace (ilr_TargetAppointmentID req)"
    "lifecycleCutoffOpen now (ap_StartTime row) (loadLifecycleCutoff db salonID re)"
proof -
  obtain row where row: "row \<in> set (cd_Appointments db)" "ap_SalonID row = salonID"
    "ap_ID row = lt_ID target" "ap_SchedulingAuthority row = SchedulingAuthorityManleAICalendar"
    "ap_AuthorityAppointmentVersion row = lt_AuthorityAppointmentVersion target"
    "ap_Status row = lt_Status target" "is_active_status (lt_Status target)"
    "lt_AuthorityAppointmentVersion target = ilr_ExpectedTargetAuthorityAppointmentVersion req"
    "lt_ID target = TrimSpace (ilr_TargetAppointmentID req)"
    "lifecycleCutoffOpen now (ap_StartTime row) (loadLifecycleCutoff db salonID re)"
    using target
    by (auto simp: lifecycle_target_def lockLifecycleTarget_def Let_def is_active_status_def
        split: sum.splits if_splits option.splits dest!: find_SomeD)
  have "find_appointment db salonID (lt_ID target) = Some row"
    using find_appointment_unique [OF keys row(1)] row(2,3) by simp
  then show thesis using that row by simp
qed

lemma lifecycle_live:
  assumes ok: "calendar_ok db" and target: "lifecycle_target env db salonID u req re now = Inr target"
  shows "filter live_claim (cd_Segments (lifecycle_db env db salonID req target plan now))
    = filter (\<lambda>s. live_claim s \<and> \<not> (sg_SalonID s = salonID \<and> sg_AppointmentID s = lt_ID target))
        (cd_Segments db)
      @ filter live_claim (installed_segments env salonID target plan now)"
proof -
  have keys: "distinct (map appointment_key (cd_Appointments db))"
    using ok by (simp add: calendar_ok_def)
  obtain row where row: "find_appointment db salonID (lt_ID target) = Some row"
    "ap_AuthorityAppointmentVersion row = lt_AuthorityAppointmentVersion target"
    using target keys by (rule lifecycle_target_found)
  have "is_live_plan salonID (lt_ID target) (lt_AuthorityAppointmentVersion target) s
      \<longleftrightarrow> sg_SalonID s = salonID \<and> sg_AppointmentID s = lt_ID target"
    if "s \<in> set (cd_Segments db)" "live_claim s" for s
    using that ok row
    by (auto simp: is_live_plan_def live_claim_def calendar_ok_def list_all_iff claim_rooted_def)
  then show ?thesis
    by (auto simp: lifecycle_db_def release_live intro: filter_cong)
qed

lemma lifecycle_roots:
  assumes "distinct (map appointment_key (cd_Appointments db))"
    "lifecycle_target env db salonID u req re now = Inr target"
  shows "\<exists>row'. find_appointment (lifecycle_db env db salonID req target plan now) salonID (lt_ID target)
      = Some row' \<and> ap_Status row' = lp_Status plan \<and> ap_StartTime row' = lp_StartTime plan
      \<and> ap_AuthorityAppointmentVersion row' = lt_AuthorityAppointmentVersion target + 1"
    "(s, a) \<noteq> (salonID, lt_ID target) \<Longrightarrow>
      find_appointment (lifecycle_db env db salonID req target plan now) s a = find_appointment db s a"
proof -
  obtain row where row: "find_appointment db salonID (lt_ID target) = Some row"
    "ap_SchedulingAuthority row = SchedulingAuthorityManleAICalendar" "is_active_status (ap_Status row)"
    "ap_AuthorityAppointmentVersion row = lt_AuthorityAppointmentVersion target"
    using assms(2,1) by (rule lifecycle_target_found)
  then have "updates_root salonID target row"
    by (auto simp: updates_root_def dest!: find_appointment_SomeD)
  then show "\<exists>row'. find_appointment (lifecycle_db env db salonID req target plan now) salonID (lt_ID target)
      = Some row' \<and> ap_Status row' = lp_Status plan \<and> ap_StartTime row' = lp_StartTime plan
      \<and> ap_AuthorityAppointmentVersion row' = lt_AuthorityAppointmentVersion target + 1"
    by (simp add: lifecycle_find_appointment row(1) update_root_def Let_def)
  assume "(s, a) \<noteq> (salonID, lt_ID target)"
  then show "find_appointment (lifecycle_db env db salonID req target plan now) s a = find_appointment db s a"
    by (cases "find_appointment db s a")
      (auto simp: lifecycle_find_appointment update_root_def updates_root_def dest!: find_appointment_SomeD)
qed

text \<open>
  C6: A cancellation that commits found its target active, at the version the caller expected, and
  before the cancellation cutoff. It cancels that appointment at the next version and releases every
  live segment it held and no other; the segments and appointments of everyone else, and every
  quote, are as before.
\<close>

theorem cancel_releases_exactly_the_target:
  assumes "CancelAppointment env salonID u req now db = (Inr (Some result, False), db')" "calendar_ok db"
  shows "let target = TrimSpace (ilr_TargetAppointmentID req);
             expected = ilr_ExpectedTargetAuthorityAppointmentVersion req in
    (\<exists>row. find_appointment db salonID target = Some row \<and> is_active_status (ap_Status row)
       \<and> ap_AuthorityAppointmentVersion row = expected
       \<and> lifecycleCutoffOpen now (ap_StartTime row) (loadLifecycleCutoff db salonID False))
    \<and> (\<exists>row'. find_appointment db' salonID target = Some row' \<and> ap_Status row' = StatusCancelled
       \<and> ap_AuthorityAppointmentVersion row' = expected + 1)
    \<and> filter live_claim (cd_Segments db')
      = filter (\<lambda>s. live_claim s \<and> \<not> (sg_SalonID s = salonID \<and> sg_AppointmentID s = target))
          (cd_Segments db)
    \<and> (\<forall>s a. (s, a) \<noteq> (salonID, target) \<longrightarrow> find_appointment db' s a = find_appointment db s a)
    \<and> cd_Quotes db' = cd_Quotes db"
  using assms(1)
proof (cases rule: CancelAppointment_cases)
  case (3 target result')
  have keys: "distinct (map appointment_key (cd_Appointments db))"
    using assms(2) by (simp add: calendar_ok_def)
  have db': "db' = lifecycle_db env db salonID req target (cancel_plan target) now"
    using 3(5) unfolding lifecycle_writes_def by blast
  obtain row where row: "find_appointment db salonID (lt_ID target) = Some row"
    "is_active_status (ap_Status row)"
    "ap_AuthorityAppointmentVersion row = lt_AuthorityAppointmentVersion target"
    "lt_AuthorityAppointmentVersion target = ilr_ExpectedTargetAuthorityAppointmentVersion req"
    "lt_ID target = TrimSpace (ilr_TargetAppointmentID req)"
    "lifecycleCutoffOpen now (ap_StartTime row) (loadLifecycleCutoff db salonID False)"
    using 3(3) keys by (rule lifecycle_target_found)
  have "installed_segments env salonID target (cancel_plan target) now = []"
    by (simp add: installed_segments_def cancel_plan_def)
  moreover have "cd_Quotes db' = cd_Quotes db" "lp_Status (cancel_plan target) = StatusCancelled"
    unfolding db' by (simp_all add: lifecycle_db_def cancel_plan_def)
  moreover note roots = lifecycle_roots [OF keys 3(3), where plan = "cancel_plan target", folded db']
  moreover note lifecycle_live [OF assms(2) 3(3), where plan = "cancel_plan target", folded db']
  ultimately show ?thesis
    using row unfolding Let_def row(5) [symmetric] row(4) [symmetric] by auto
qed simp_all

section \<open>Capacity of the pools\<close>

definition covers :: "gotime \<Rightarrow> AllocationRow \<Rightarrow> bool" where
  "covers t allocation \<longleftrightarrow> al_ReleasedAt allocation = None
     \<and> al_OccupiedStartTime allocation \<le> t \<and> t < al_OccupiedEndTime allocation"

definition segment_load :: "string \<Rightarrow> gotime \<Rightarrow> AppointmentSegmentRow \<Rightarrow> int" where
  "segment_load poolID t segment =
     sum_list (map al_UnitsAllocated (filter (\<lambda>a. al_ResourcePoolID a = poolID \<and> covers t a)
       (sg_Allocations segment)))"

text \<open>The units of a pool that live segments of a salon hold at an instant.\<close>

definition pool_load :: "CalendarDB \<Rightarrow> string \<Rightarrow> string \<Rightarrow> gotime \<Rightarrow> int" where
  "pool_load db salonID poolID t =
     sum_list (map (segment_load poolID t)
       (filter (\<lambda>s. live_claim s \<and> sg_SalonID s = salonID) (cd_Segments db)))"

text \<open>
  Constraints of the schema on allocations: the units are positive, and a quoted segment allocates a
  pool once (\<open>V49\<close>, the \<open>units_check\<close> and the unique keys).
\<close>

definition allocations_ok :: "CalendarDB \<Rightarrow> bool" where
  "allocations_ok db \<longleftrightarrow>
     list_all (\<lambda>s. list_all (\<lambda>a. 1 \<le> al_UnitsAllocated a) (sg_Allocations s)) (cd_Segments db)
     \<and> list_all (\<lambda>quote. list_all (\<lambda>slot. list_all (\<lambda>segment.
          distinct (map pa_ResourcePoolID (ps_Allocations segment))
          \<and> list_all (\<lambda>a. 1 \<le> pa_UnitsAllocated a) (ps_Allocations segment))
        (qsl_Segments slot)) (qr_Slots quote)) (cd_Quotes db)"

lemma sum_list_sort_key: "sum_list (map f (sort_key k xs)) = sum_list (map (f :: _ \<Rightarrow> int) xs)"
  by (metis mset_map mset_sort sum_mset_sum_list)

lemma sum_list_filter_mono:
  fixes f :: "'a \<Rightarrow> int"
  assumes "\<And>x. x \<in> set xs \<Longrightarrow> P x \<Longrightarrow> Q x" "\<And>x. x \<in> set xs \<Longrightarrow> 0 \<le> f x"
  shows "sum_list (map f (filter P xs)) \<le> sum_list (map f (filter Q xs))"
  using assms by (induction xs) (force intro: add_mono)+

lemma segment_load_nonneg:
  "allocations_ok db \<Longrightarrow> s \<in> set (cd_Segments db) \<Longrightarrow> 0 \<le> segment_load poolID t s"
  by (force simp: segment_load_def allocations_ok_def list_all_iff intro!: sum_list_nonneg)

lemma conflicts_load:
  assumes "windowStart \<le> t" "t < windowEnd"
  shows "sum_list (map rc_UnitsAllocated (filter (\<lambda>c. rc_ResourcePoolID c = poolID
      \<and> rc_StartsAt c \<le> t \<and> t < rc_EndsAt c)
      (loadResourceConflictsExcluding db salonID windowStart windowEnd excluded)))
    = sum_list (map (segment_load poolID t) (filter (counts_against db salonID excluded) (cd_Segments db)))"
proof -
  have "sum_list (map al_UnitsAllocated (filter (\<lambda>a. al_ResourcePoolID a = poolID \<and> covers t a)
      (concat (map sg_Allocations xs)))) = sum_list (map (segment_load poolID t) xs)" for xs
    by (induction xs) (simp_all add: segment_load_def)
  moreover have "al_ReleasedAt a = None \<and> al_OccupiedStartTime a < windowEnd
      \<and> windowStart < al_OccupiedEndTime a
      \<and> al_ResourcePoolID a = poolID \<and> al_OccupiedStartTime a \<le> t \<and> t < al_OccupiedEndTime a
      \<longleftrightarrow> al_ResourcePoolID a = poolID \<and> covers t a" for a
    using assms by (auto simp: covers_def)
  ultimately show ?thesis
    by (simp add: loadResourceConflictsExcluding_def filter_map comp_def filter_sort
        sum_list_sort_key)
qed

lemma allocationUnits_sum:
  assumes "distinct (map ira_ResourcePoolID as)"
  shows "allocationUnits as poolID
    = sum_list (map ira_UnitsAllocated (filter (\<lambda>a. ira_ResourcePoolID a = poolID) as))"
  using assms
proof (induction as)
  case (Cons a as)
  have "filter (\<lambda>b. ira_ResourcePoolID b = poolID) as = []" if "ira_ResourcePoolID a = poolID"
    using that Cons.prems by (auto simp: filter_empty_conv image_iff)
  then show ?case using Cons by auto
qed simp

lemma planned_load:
  assumes "distinct (map ira_ResourcePoolID (qs_ResourceAllocations q))"
  shows "segment_load poolID t (plan_segment env salonID a v agg now (i, q))
    = (if qs_OccupiedStartTime q \<le> t \<and> t < qs_OccupiedEndTime q
       then allocationUnits (qs_ResourceAllocations q) poolID else 0)"
proof -
  have "sum_list (map al_UnitsAllocated (filter (\<lambda>al. al_ResourcePoolID al = poolID \<and> covers t al)
      (map (\<lambda>(n, x). \<lparr>al_ID = st_UUID env [5, i, n], al_ResourcePoolID = ira_ResourcePoolID x,
          al_UnitsAllocated = ira_UnitsAllocated x, al_PlanVersion = v,
          al_OccupiedStartTime = qs_OccupiedStartTime q, al_OccupiedEndTime = qs_OccupiedEndTime q,
          al_ReleasedAt = None\<rparr>) (enumerate k xs))))
    = (if qs_OccupiedStartTime q \<le> t \<and> t < qs_OccupiedEndTime q
       then sum_list (map ira_UnitsAllocated (filter (\<lambda>x. ira_ResourcePoolID x = poolID) xs))
       else 0)" for k and xs :: "InternalResourceAllocation list"
    by (induction xs arbitrary: k) (auto simp: covers_def)
  then show ?thesis
    by (simp add: segment_load_def plan_segment_def allocationUnits_sum [OF assms])
qed

lemma planned_loads:
  assumes "\<And>q. q \<in> set qs \<Longrightarrow> distinct (map ira_ResourcePoolID (qs_ResourceAllocations q))"
  shows "sum_list (map (segment_load poolID t)
      (map (plan_segment env salonID a v agg now) (enumerate n qs)))
    = sum_list (map (\<lambda>s. allocationUnits (ias_ResourceAllocations s) poolID)
        (filter (\<lambda>s. ias_OccupiedStartTime s \<le> t \<and> t < ias_OccupiedEndTime s)
          (map (planned_of_quoted agg) qs)))"
  using assms
  by (induction qs arbitrary: n) (auto simp: planned_load planned_of_quoted_def)

lemma joined_allocations_ok:
  assumes "distinct (map fst as)" "list_all (\<lambda>a. 1 \<le> snd a) as"
  shows "distinct (map ira_ResourcePoolID (joined_allocations db salonID as))"
    "list_all (\<lambda>a. 0 \<le> ira_UnitsAllocated a) (joined_allocations db salonID as)"
proof -
  let ?f = "\<lambda>(poolID, units). map_option (\<lambda>name. \<lparr>ira_ResourcePoolID = poolID, ira_ResourceName = name,
      ira_UnitsAllocated = units\<rparr>) (pool_name db salonID poolID)"
  have ids: "map ira_ResourcePoolID (List.map_filter ?f xs)
      = filter (\<lambda>p. pool_name db salonID p \<noteq> None) (map fst xs)" for xs :: "(string \<times> int) list"
    by (induction xs) (auto simp: map_filter_simps split: option.splits)
  have "distinct (map fst (sort_key fst as))"
    using assms(1) by (metis distinct_map distinct_sort set_sort)
  then show "distinct (map ira_ResourcePoolID (joined_allocations db salonID as))"
    unfolding joined_allocations_def ids by simp
  show "list_all (\<lambda>a. 0 \<le> ira_UnitsAllocated a) (joined_allocations db salonID as)"
    using assms(2) by (force simp: joined_allocations_def list_all_iff set_map_filter)
qed

lemma quoted_allocations_ok:
  assumes "allocations_ok db" "lockQuotedAggregateSlot db salonID quoteID fingerprint = Inr quote"
    "q \<in> set (qu_Segments quote)"
  shows "distinct (map ira_ResourcePoolID (qs_ResourceAllocations q))"
    "list_all (\<lambda>a. 0 \<le> ira_UnitsAllocated a) (qs_ResourceAllocations q)"
proof -
  obtain segment where segment: "q = scan_quoted_segment db salonID segment"
    "distinct (map pa_ResourcePoolID (ps_Allocations segment))"
    "list_all (\<lambda>a. 1 \<le> pa_UnitsAllocated a) (ps_Allocations segment)"
    using assms
    by (fastforce simp: lockQuotedAggregateSlot_def find_quote_def allocations_ok_def list_all_iff
        split: option.splits dest!: find_SomeD)
  have "distinct (map fst (plan_allocations (ps_Allocations segment)))"
    "list_all (\<lambda>a. 1 \<le> snd a) (plan_allocations (ps_Allocations segment))"
    using segment(2,3) by (simp_all add: plan_allocations_def comp_def list_all_iff)
  from joined_allocations_ok [OF this]
  show "distinct (map ira_ResourcePoolID (qs_ResourceAllocations q))"
    "list_all (\<lambda>a. 0 \<le> ira_UnitsAllocated a) (qs_ResourceAllocations q)"
    by (simp_all add: segment(1) scan_quoted_segment_def)
qed

text \<open>The load after a plan is installed beside the claims that count against it.\<close>

lemma installed_load:
  assumes recheck: "recheck_quote env db salonID u fence quote requested target now = Inr aggregate"
    and fence: "lockExecutionFence env db salonID u = Inr fence"
    and requested: "quotedRequest env quote (fe_Timezone fence) = Some requested"
    and lock: "lockQuotedAggregateSlot db salonID quoteID fingerprint = Inr quote"
    and env: "zones_orderly env" "slot_hash_exact env" and allocations: "allocations_ok db"
    and live: "filter (\<lambda>s. live_claim s \<and> sg_SalonID s = salonID) (cd_Segments db')
      = filter P (cd_Segments db) @ map (plan_segment env salonID a v aggregate now) (enumerate 0 (qu_Segments quote))"
    and counted: "\<And>s. s \<in> set (cd_Segments db) \<Longrightarrow> P s \<Longrightarrow> counts_against db salonID target s"
    and q: "q \<in> set (qu_Segments quote)" "poolID \<in> ira_ResourcePoolID ` set (qs_ResourceAllocations q)"
    and t: "qs_OccupiedStartTime q \<le> t" "t < qs_OccupiedEndTime q"
  shows "\<exists>capacity. base_capacity aggregate poolID = Some capacity
    \<and> pool_load db' salonID poolID t \<le> effective_capacity aggregate poolID capacity t"
proof -
  let ?planned = "map (planned_of_quoted aggregate) (qu_Segments quote)"
  obtain windowStart windowEnd snapshot where r:
    "snapshot = calendar_snapshot env db salonID aggregate windowStart windowEnd target"
    "resourcesFit snapshot ?planned"
    "\<And>q. q \<in> set (qu_Segments quote) \<Longrightarrow> qs_OccupiedStartTime q < qs_OccupiedEndTime q
       \<and> windowStart \<le> qs_OccupiedStartTime q \<and> qs_OccupiedEndTime q \<le> windowEnd"
    by (rule recheck_slot [OF recheck fence requested env]) blast
  note ok = quoted_allocations_ok [OF allocations lock]
  have nonneg: "units_nonneg ?planned"
    using ok(2) by (simp add: units_nonneg_def list_all_iff planned_of_quoted_def)
  have snapshot: "snap_Aggregate snapshot = Some aggregate" "snap_ResourceConflicts snapshot
      = loadResourceConflictsExcluding db salonID windowStart windowEnd target"
    unfolding r(1) by (simp_all add: calendar_snapshot_def split: prod.split)
  have "pool_fits aggregate (snap_ResourceConflicts snapshot) ?planned poolID"
    using r(2) q by (auto simp: resourcesFit_def snapshot(1) list_all_iff plan_pools_def planned_of_quoted_def)
  then obtain capacity where c: "base_capacity aggregate poolID = Some capacity"
    "usage_at (snap_ResourceConflicts snapshot) ?planned poolID t
       \<le> effective_capacity aggregate poolID capacity t"
    unfolding pool_fits_iff [OF nonneg] by blast
  have window: "windowStart \<le> t" "t < windowEnd" using r(3) [OF q(1)] t by auto
  have "sum_list (map (segment_load poolID t) (filter P (cd_Segments db)))
      \<le> sum_list (map (segment_load poolID t) (filter (counts_against db salonID target) (cd_Segments db)))"
    by (intro sum_list_filter_mono counted segment_load_nonneg [OF allocations])
  then have "pool_load db' salonID poolID t
      \<le> usage_at (snap_ResourceConflicts snapshot) ?planned poolID t"
    unfolding pool_load_def live usage_at_def snapshot(2) conflicts_load [OF window]
    using planned_loads [OF ok(1), of "qu_Segments quote" poolID t env salonID a v aggregate now 0]
    by simp
  with c show ?thesis by auto
qed

lemma plan_segment_allocation:
  assumes "al \<in> set (sg_Allocations (plan_segment env salonID a v agg now (i, q)))"
  shows "al_ResourcePoolID al \<in> ira_ResourcePoolID ` set (qs_ResourceAllocations q)"
    "al_OccupiedStartTime al = qs_OccupiedStartTime q" "al_OccupiedEndTime al = qs_OccupiedEndTime q"
  using assms by (auto simp: plan_segment_def in_set_enumerate_eq)

lemma capacity_of_loaded:
  assumes "loadAggregate env db salonID u = Inr aggregate"
  shows "\<exists>row. calendar_row db salonID = Some row
    \<and> base_capacity aggregate poolID = base_capacity row poolID
    \<and> effective_capacity aggregate poolID capacity t = effective_capacity row poolID capacity t"
proof -
  obtain row where "calendar_row db salonID = Some row"
    using assms by (auto simp: loadAggregate_def split: if_splits option.splits)
  then show ?thesis
    using loadAggregate_fields [OF assms] by (simp add: base_capacity_def effective_capacity_def)
qed

text \<open>
  The live segments of the plan that a committed booking or reschedule installs, beside the live
  segments of the salon that stay.
\<close>

lemma created_live:
  assumes "calendar_ok db" "st_UUID env [1] \<notin> ap_ID ` set (cd_Appointments db)"
  shows "filter (\<lambda>s. live_claim s \<and> sg_SalonID s = salonID)
      (cd_Segments (created_db env db salonID req quote aggregate now))
    = filter (\<lambda>s. live_claim s \<and> sg_SalonID s = salonID \<and> sg_AppointmentID s \<noteq> st_UUID env [1])
        (cd_Segments db)
      @ map (plan_segment env salonID (st_UUID env [1]) 1 aggregate now)
          (enumerate 0 (qu_Segments quote))"
proof -
  have "sg_AppointmentID s \<noteq> st_UUID env [1]" if "s \<in> set (cd_Segments db)" "live_claim s" for s
    using that assms
    by (force simp: calendar_ok_def list_all_iff claim_rooted_def split: option.splits
        dest!: find_appointment_SomeD)
  then have "filter (\<lambda>s. live_claim s \<and> sg_SalonID s = salonID) (cd_Segments db)
      = filter (\<lambda>s. live_claim s \<and> sg_SalonID s = salonID \<and> sg_AppointmentID s \<noteq> st_UUID env [1])
          (cd_Segments db)" by (intro filter_cong) auto
  moreover have "filter (\<lambda>s. live_claim s \<and> sg_SalonID s = salonID) (map (plan_segment env salonID
        (st_UUID env [1]) 1 aggregate now) (enumerate 0 (qu_Segments quote)))
      = map (plan_segment env salonID (st_UUID env [1]) 1 aggregate now) (enumerate 0 (qu_Segments quote))"
    by (auto simp: filter_id_conv)
  ultimately show ?thesis unfolding created_segments filter_append by metis
qed

lemma rescheduled_live:
  assumes "calendar_ok db" "lifecycle_target env db salonID u req re now = Inr target"
  shows "filter (\<lambda>s. live_claim s \<and> sg_SalonID s = salonID)
      (cd_Segments (lifecycle_db env db salonID req target (reschedule_plan quote aggregate) now))
    = filter (\<lambda>s. live_claim s \<and> sg_SalonID s = salonID \<and> sg_AppointmentID s \<noteq> lt_ID target)
        (cd_Segments db)
      @ map (plan_segment env salonID (lt_ID target) (lt_AuthorityAppointmentVersion target + 1)
          aggregate now) (enumerate 0 (qu_Segments quote))"
proof -
  let ?plan = "reschedule_plan quote aggregate"
  let ?new = "map (plan_segment env salonID (lt_ID target) (lt_AuthorityAppointmentVersion target + 1)
      aggregate now) (enumerate 0 (qu_Segments quote))"
  have split: "filter (\<lambda>s. live_claim s \<and> sg_SalonID s = salonID) xs
      = filter (\<lambda>s. sg_SalonID s = salonID) (filter live_claim xs)" for xs
    by (simp add: conj_commute)
  have "installed_segments env salonID target ?plan now = ?new"
    by (simp add: installed_segments_def reschedule_plan_def)
  moreover have "filter (\<lambda>s. sg_SalonID s = salonID) (filter live_claim ?new) = ?new"
    by (auto simp: filter_id_conv)
  moreover have "filter (\<lambda>s. sg_SalonID s = salonID) (filter (\<lambda>s. live_claim s
        \<and> \<not> (sg_SalonID s = salonID \<and> sg_AppointmentID s = lt_ID target)) xs)
      = filter (\<lambda>s. live_claim s \<and> sg_SalonID s = salonID \<and> sg_AppointmentID s \<noteq> lt_ID target) xs" for xs
    unfolding filter_filter by (rule filter_cong) auto
  ultimately show ?thesis
    unfolding split lifecycle_live [OF assms] by (simp only: filter_append)
qed

definition plan_committed ::
  "StoreEnv \<Rightarrow> string \<Rightarrow> string \<Rightarrow> InternalCreateRequest \<Rightarrow> InternalLifecycleRequest \<Rightarrow> gotime
     \<Rightarrow> CalendarDB \<Rightarrow> CalendarDB \<Rightarrow> string \<Rightarrow> bool" where
  "plan_committed env salonID u creq lreq now db db' appointmentID \<longleftrightarrow>
     appointmentID = st_UUID env [1] \<and> appointmentID \<notin> ap_ID ` set (cd_Appointments db)
       \<and> (\<exists>result. CreateAppointment env salonID u creq now db = (Inr (result, False), db'))
     \<or> appointmentID = TrimSpace (ilr_TargetAppointmentID lreq)
       \<and> (\<exists>result. RescheduleAppointment env salonID u lreq now db = (Inr (result, False), db'))"

lemma plan_committed_cases:
  assumes "plan_committed env salonID u creq lreq now db db' appointmentID" "calendar_ok db"
  obtains fence quote quoteID fingerprint requested aggregate target v where
    "lockExecutionFence env db salonID u = Inr fence"
    "lockQuotedAggregateSlot db salonID quoteID fingerprint = Inr quote"
    "quotedRequest env quote (fe_Timezone fence) = Some requested"
    "recheck_quote env db salonID u fence quote requested target now = Inr aggregate"
    "TrimSpace target = [] \<or> TrimSpace target = appointmentID"
    "filter (\<lambda>s. live_claim s \<and> sg_SalonID s = salonID) (cd_Segments db')
      = filter (\<lambda>s. live_claim s \<and> sg_SalonID s = salonID \<and> sg_AppointmentID s \<noteq> appointmentID)
          (cd_Segments db)
        @ map (plan_segment env salonID appointmentID v aggregate now) (enumerate 0 (qu_Segments quote))"
    "cd_Calendars db' = cd_Calendars db"
proof (cases "appointmentID = st_UUID env [1] \<and> appointmentID \<notin> ap_ID ` set (cd_Appointments db)
    \<and> (\<exists>result. CreateAppointment env salonID u creq now db = (Inr (result, False), db'))")
  case True
  then obtain result where
    create: "CreateAppointment env salonID u creq now db = (Inr (result, False), db')"
    and id: "appointmentID = st_UUID env [1]" "st_UUID env [1] \<notin> ap_ID ` set (cd_Appointments db)"
    by blast
  from create show thesis
  proof (cases rule: CreateAppointment_cases)
    case (3 fence quote requested aggregate result')
    have "cd_Calendars db' = cd_Calendars db" unfolding 3(9) by (simp add: created_db_def)
    moreover note live = created_live [OF assms(2) id(2), where salonID = salonID and req = creq and quote = quote
        and aggregate = aggregate and now = now, folded 3(9) id(1)]
    ultimately show thesis using that [OF 3(2,3,5,6) _ live] by simp
  qed simp_all
next
  case False
  then obtain result where id: "appointmentID = TrimSpace (ilr_TargetAppointmentID lreq)"
    and reschedule: "RescheduleAppointment env salonID u lreq now db = (Inr (result, False), db')"
    using assms(1) unfolding plan_committed_def by blast
  from reschedule show thesis
  proof (cases rule: RescheduleAppointment_cases)
    case (3 target fence quote requested aggregate result')
    have db': "db' = lifecycle_db env db salonID lreq target (reschedule_plan quote aggregate) now"
      using 3(10) unfolding lifecycle_writes_def by blast
    have t: "lt_ID target = appointmentID" "TrimSpace (lt_ID target) = lt_ID target"
      using 3(3) by (auto elim!: lifecycle_target_row simp: id)
    have "cd_Calendars db' = cd_Calendars db" unfolding db' by (simp add: lifecycle_db_def)
    moreover note live = rescheduled_live [OF assms(2) 3(3), where quote = quote and aggregate = aggregate,
        folded db', unfolded t(1)]
    ultimately show thesis using that [OF 3(4,5,7,8) _ live] t by simp
  qed simp_all
qed

text \<open>
  C2: A booking or reschedule that commits stays within the capacity of every pool it draws on: at
  every instant at which one of its segments holds units of a pool, all live segments of the salon
  together hold no more units of that pool than its effective capacity (overrides included).
\<close>

theorem committed_plan_within_capacity:
  assumes committed: "plan_committed env salonID u creq lreq now db db' appointmentID"
    and ok: "calendar_ok db" "allocations_ok db" and env: "zones_orderly env" "slot_hash_exact env"
    and s: "s \<in> set (cd_Segments db')" "live_claim s" "sg_SalonID s = salonID"
      "sg_AppointmentID s = appointmentID" and al: "al \<in> set (sg_Allocations s)" "covers t al"
  shows "\<exists>row capacity. calendar_row db' salonID = Some row
    \<and> base_capacity row (al_ResourcePoolID al) = Some capacity
    \<and> pool_load db' salonID (al_ResourcePoolID al) t
      \<le> effective_capacity row (al_ResourcePoolID al) capacity t"
  using committed ok(1)
proof (rule plan_committed_cases)
  fix fence quote quoteID fingerprint requested aggregate target v
  assume c: "lockExecutionFence env db salonID u = Inr fence"
    "lockQuotedAggregateSlot db salonID quoteID fingerprint = Inr quote"
    "quotedRequest env quote (fe_Timezone fence) = Some requested"
    "recheck_quote env db salonID u fence quote requested target now = Inr aggregate"
    "TrimSpace target = [] \<or> TrimSpace target = appointmentID"
    "filter (\<lambda>s. live_claim s \<and> sg_SalonID s = salonID) (cd_Segments db')
      = filter (\<lambda>s. live_claim s \<and> sg_SalonID s = salonID \<and> sg_AppointmentID s \<noteq> appointmentID)
          (cd_Segments db)
        @ map (plan_segment env salonID appointmentID v aggregate now) (enumerate 0 (qu_Segments quote))"
    "cd_Calendars db' = cd_Calendars db"
  have "s \<in> set (filter (\<lambda>s. live_claim s \<and> sg_SalonID s = salonID) (cd_Segments db'))"
    using s by simp
  then obtain i q where new: "s = plan_segment env salonID appointmentID v aggregate now (i, q)"
    "q \<in> set (qu_Segments quote)"
    unfolding c(6) using s(4) by (auto simp: in_set_enumerate_eq)
  note al' = plan_segment_allocation [OF al(1) [unfolded new(1)]]
  have t: "qs_OccupiedStartTime q \<le> t" "t < qs_OccupiedEndTime q"
    using al(2) al' by (simp_all add: covers_def)
  have "counts_against db salonID target x"
    if "x \<in> set (cd_Segments db)" "live_claim x \<and> sg_SalonID x = salonID \<and> sg_AppointmentID x \<noteq> appointmentID"
    for x
    using that claim_counts [of db x salonID target] ok(1) c(5)
    by (auto simp: calendar_ok_def list_all_iff)
  from installed_load [OF c(4,1,3,2) env ok(2) c(6) this new(2) al'(1) t]
  obtain capacity where capacity: "base_capacity aggregate (al_ResourcePoolID al) = Some capacity"
    "pool_load db' salonID (al_ResourcePoolID al) t
      \<le> effective_capacity aggregate (al_ResourcePoolID al) capacity t" by blast
  have "loadAggregate env db salonID u = Inr aggregate"
    by (rule recheck_planned [OF c(4)])
  from capacity_of_loaded [OF this, of "al_ResourcePoolID al" capacity t]
  obtain row where "calendar_row db salonID = Some row"
    "base_capacity aggregate (al_ResourcePoolID al) = base_capacity row (al_ResourcePoolID al)"
    "effective_capacity aggregate (al_ResourcePoolID al) capacity t
      = effective_capacity row (al_ResourcePoolID al) capacity t" by blast
  with capacity show ?thesis
    by (intro exI [of _ row] exI [of _ capacity]) (simp add: calendar_row_def c(7))
qed

section \<open>Quotes and operation keys are used once\<close>

definition calendar_attempts :: "CalendarDB \<Rightarrow> AttemptRow list" where
  "calendar_attempts db = filter is_calendar_attempt (cd_Attempts db)"

definition calendar_quotes :: "CalendarDB \<Rightarrow> QuoteRow list" where
  "calendar_quotes db = filter is_calendar_quote (cd_Quotes db)"

definition operation_id :: "AttemptRow \<Rightarrow> string \<times> string" where
  "operation_id row = (at_SalonID row, at_OperationKey row)"

text \<open>The quote of an attempt is consumed by this attempt.\<close>

definition quote_spent :: "QuoteRow list \<Rightarrow> AttemptRow \<Rightarrow> bool" where
  "quote_spent quotes row \<longleftrightarrow>
     (case at_AvailabilityQuoteID row of
        None \<Rightarrow> True
      | Some quoteID \<Rightarrow> \<exists>quote \<in> set quotes. qr_ID quote = quoteID
          \<and> qr_ConsumedByAttemptID quote = Some (at_ID row))"

definition ledger_ok :: "CalendarDB \<Rightarrow> bool" where
  "ledger_ok db \<longleftrightarrow>
     distinct (map qr_ID (calendar_quotes db)) \<and> distinct (map at_ID (calendar_attempts db))
     \<and> distinct (map operation_id (calendar_attempts db))
     \<and> list_all (quote_spent (calendar_quotes db)) (calendar_attempts db)"

lemma consume_quotes_ids:
  "map qr_ID (filter is_calendar_quote (consume_quotes salonID quoteID attemptID now quotes))
     = map qr_ID (filter is_calendar_quote quotes)"
  by (induction quotes) (auto simp: consume_quotes_def is_calendar_quote_def consumable_def)

lemma spent_stays_spent:
  assumes "quote_spent (filter is_calendar_quote quotes) row"
  shows "quote_spent (filter is_calendar_quote (consume_quotes salonID quoteID attemptID now quotes)) row"
proof (cases "at_AvailabilityQuoteID row")
  case (Some q)
  then obtain quote where quote: "quote \<in> set quotes" "is_calendar_quote quote" "qr_ID quote = q"
    "qr_ConsumedByAttemptID quote = Some (at_ID row)"
    using assms by (auto simp: quote_spent_def)
  then have "quote \<in> set (consume_quotes salonID quoteID attemptID now quotes)"
    by (force simp: consume_quotes_def consumable_def image_iff)
  with quote Some show ?thesis by (auto simp: quote_spent_def)
qed (simp add: quote_spent_def)

lemma consumed_is_spent:
  assumes "consumes_one db salonID quoteID now" "at_AvailabilityQuoteID row = Some quoteID"
  shows "quote_spent (filter is_calendar_quote (consume_quotes salonID quoteID (at_ID row) now (cd_Quotes db))) row"
proof -
  obtain quote where "quote \<in> set (cd_Quotes db)" "consumable salonID quoteID now quote"
    using assms(1) unfolding consumes_one_def by (metis filter_False list.size(3) zero_neq_one)
  then have "quote\<lparr>qr_ConsumedAt := Some now, qr_ConsumedByAttemptID := Some (at_ID row)\<rparr>
      \<in> set (filter is_calendar_quote (consume_quotes salonID quoteID (at_ID row) now (cd_Quotes db)))"
    "qr_ID quote = quoteID"
    by (auto simp: consume_quotes_def is_calendar_quote_def consumable_def image_iff)
  then show ?thesis
    unfolding quote_spent_def assms(2) option.case
    by (intro bexI [of _ "quote\<lparr>qr_ConsumedAt := Some now, qr_ConsumedByAttemptID := Some (at_ID row)\<rparr>"])
      simp_all
qed

lemma ledger_append:
  assumes ok: "ledger_ok db" and attempts: "cd_Attempts db' = cd_Attempts db @ [row]"
    and row: "is_calendar_attempt row" "at_ID row \<notin> at_ID ` set (cd_Attempts db)"
      "\<not> key_taken db (at_SalonID row) (at_OperationKey row)"
    and quotes: "cd_Quotes db' = cd_Quotes db \<and> at_AvailabilityQuoteID row = None
      \<or> (\<exists>quoteID. at_AvailabilityQuoteID row = Some quoteID
          \<and> consumes_one db (at_SalonID row) quoteID now
          \<and> cd_Quotes db' = consume_quotes (at_SalonID row) quoteID (at_ID row) now (cd_Quotes db))"
  shows "ledger_ok db'"
proof -
  have key: "operation_id row \<notin> operation_id ` set (cd_Attempts db)"
    using row(3) by (auto simp: key_taken_def find_attempt_def find_None_iff operation_id_def)
  have spent: "quote_spent (calendar_quotes db') x" if "quote_spent (calendar_quotes db) x" for x
    using quotes that unfolding calendar_quotes_def by (elim disjE exE conjE) (simp_all add: spent_stays_spent)
  have "quote_spent (calendar_quotes db') row"
    using quotes unfolding calendar_quotes_def
    by (elim disjE exE conjE) (simp add: quote_spent_def, simp add: consumed_is_spent)
  moreover have "map qr_ID (calendar_quotes db') = map qr_ID (calendar_quotes db)"
    using quotes by (auto simp: calendar_quotes_def consume_quotes_ids)
  moreover have "calendar_attempts db' = calendar_attempts db @ [row]"
    using attempts row(1) by (simp add: calendar_attempts_def)
  moreover have "at_ID row \<notin> at_ID ` set (calendar_attempts db)"
    "operation_id row \<notin> operation_id ` set (calendar_attempts db)"
    using row(2) key by (auto simp: calendar_attempts_def)
  ultimately show ?thesis using ok spent by (auto simp: ledger_ok_def list_all_iff)
qed

lemma ledger_ok_cong:
  "ledger_ok db \<Longrightarrow> calendar_quotes db' = calendar_quotes db \<Longrightarrow> calendar_attempts db' = calendar_attempts db
    \<Longrightarrow> ledger_ok db'"
  by (simp add: ledger_ok_def)

lemma check_keeps_ledger:
  assumes "CheckAvailability_store env salonID u req now db = (r, db')" "ledger_ok db"
    "st_UUID env [0] \<notin> qr_ID ` set (cd_Quotes db)"
  shows "ledger_ok db'"
proof -
  have "cd_Quotes db' = cd_Quotes db \<or> (\<exists>row. cd_Quotes db' = cd_Quotes db @ [row]
      \<and> qr_ID row = st_UUID env [0])"
    using assms(1) unfolding CheckAvailability_store_def Let_def
    by (auto simp: store_quote_def commit_def Let_def new_quote_def
        split: sum.splits prod.splits if_splits option.splits)
  then show ?thesis
  proof
    assume "cd_Quotes db' = cd_Quotes db"
    with CheckAvailability_store_keeps(3) [OF assms(1)] show ?thesis
      by (intro ledger_ok_cong [OF assms(2)]) (simp_all add: calendar_quotes_def calendar_attempts_def)
  next
    assume "\<exists>row. cd_Quotes db' = cd_Quotes db @ [row] \<and> qr_ID row = st_UUID env [0]"
    then obtain row where row: "cd_Quotes db' = cd_Quotes db @ [row]" "qr_ID row = st_UUID env [0]"
      by blast
    have "quote_spent (calendar_quotes db) x \<Longrightarrow> quote_spent (calendar_quotes db') x" for x
      by (auto simp: quote_spent_def calendar_quotes_def row split: option.splits)
    moreover have "calendar_attempts db' = calendar_attempts db"
      by (simp add: calendar_attempts_def CheckAvailability_store_keeps(3) [OF assms(1)])
    moreover have "distinct (map qr_ID (calendar_quotes db'))"
      using assms(2,3) by (auto simp: ledger_ok_def calendar_quotes_def row)
    ultimately show ?thesis using assms(2) by (auto simp: ledger_ok_def list_all_iff)
  qed
qed

lemma lifecycle_keeps_ledger:
  assumes "lifecycle_writes env db salonID u req target plan now result db'" "ledger_ok db"
    "st_UUID env [0] \<notin> at_ID ` set (cd_Attempts db)"
  shows "ledger_ok db'"
proof (rule ledger_append [OF assms(2), where row = "lifecycle_attempt env salonID req target plan now"
      and now = now])
  have db': "db' = lifecycle_db env db salonID req target plan now"
    using assms(1) unfolding lifecycle_writes_def by blast
  show "cd_Attempts db' = cd_Attempts db @ [lifecycle_attempt env salonID req target plan now]"
    unfolding db' by (rule lifecycle_attempts)
  show "\<not> key_taken db (at_SalonID (lifecycle_attempt env salonID req target plan now))
      (at_OperationKey (lifecycle_attempt env salonID req target plan now))"
    using assms(1) unfolding lifecycle_writes_def by simp
  show "cd_Quotes db' = cd_Quotes db
        \<and> at_AvailabilityQuoteID (lifecycle_attempt env salonID req target plan now) = None
      \<or> (\<exists>quoteID. at_AvailabilityQuoteID (lifecycle_attempt env salonID req target plan now) = Some quoteID
        \<and> consumes_one db (at_SalonID (lifecycle_attempt env salonID req target plan now)) quoteID now
        \<and> cd_Quotes db' = consume_quotes (at_SalonID (lifecycle_attempt env salonID req target plan now))
            quoteID (at_ID (lifecycle_attempt env salonID req target plan now)) now (cd_Quotes db))"
    using assms(1) unfolding lifecycle_writes_def
    by (cases "lp_Quote plan") (auto simp: lifecycle_db_def)
qed (simp_all add: is_calendar_attempt_def assms(3))

lemma create_keeps_ledger:
  assumes "CreateAppointment env salonID u req now db = (r, db')" "ledger_ok db"
    "st_UUID env [0] \<notin> at_ID ` set (cd_Attempts db)"
  shows "ledger_ok db'"
  using assms(1)
proof (cases rule: CreateAppointment_cases)
  case (3 fence quote requested aggregate result)
  let ?row = "new_attempt env salonID req quote aggregate now"
  have row: "at_ID ?row = st_UUID env [0]" "at_SalonID ?row = salonID"
    "at_OperationKey ?row = icr_OperationKey req" "at_AvailabilityQuoteID ?row = Some (qu_QuoteID quote)"
    "is_calendar_attempt ?row"
    by (simp_all add: new_attempt_def is_calendar_attempt_def Let_def)
  show ?thesis
    by (rule ledger_append [OF assms(2), where row = ?row and now = now])
      (use 3(7,8) assms(3) in \<open>simp_all add: row 3(9) created_db_def\<close>)
qed (use assms(2) in simp_all)

lemma other_parts_keep_ledger:
  assumes "other_parts db db'" "ledger_ok db"
  shows "ledger_ok db'"
proof -
  obtain keep where keep: "\<forall>row. qr_ConsumedByAttemptID row \<noteq> None \<longrightarrow> keep row"
    "calendar_quotes db' = filter keep (calendar_quotes db)"
    using assms(1) unfolding other_parts_def calendar_quotes_def by blast
  have "calendar_attempts db' = calendar_attempts db"
    using assms(1) by (simp add: other_parts_def calendar_attempts_def)
  moreover have "quote_spent (calendar_quotes db') x" if "quote_spent (calendar_quotes db) x" for x
    using that keep by (auto simp: quote_spent_def split: option.splits)
  ultimately show ?thesis
    using assms(2) keep(2) by (auto simp: ledger_ok_def list_all_iff distinct_map_filter)
qed

lemma calendar_step_keeps_ledger: "calendar_step env db db' \<Longrightarrow> ledger_ok db \<Longrightarrow> ledger_ok db'"
proof (induction rule: calendar_step.induct)
  case (check uuid db execute read salonID u req now r db')
  then show ?case by (intro check_keeps_ledger [OF check(2)]) simp_all
next
  case (create uuid db execute read salonID u creq now r' db')
  then show ?case by (intro create_keeps_ledger [OF create(3)]) simp_all
next
  case (reschedule uuid db execute read salonID u lreq now r' db')
  from reschedule(2) show ?case
    by (cases rule: RescheduleAppointment_cases)
      (use reschedule in \<open>auto intro: lifecycle_keeps_ledger\<close>)
next
  case (cancel uuid db execute read salonID u lreq now r' db')
  from cancel(2) show ?case
    by (cases rule: CancelAppointment_cases) (use cancel in \<open>auto intro: lifecycle_keeps_ledger\<close>)
next
  case (elsewhere db db')
  then show ?case by (rule other_parts_keep_ledger)
qed

lemma reachable_ledger_ok: "(calendar_step env)\<^sup>*\<^sup>* db db' \<Longrightarrow> ledger_ok db \<Longrightarrow> ledger_ok db'"
  by (induction rule: rtranclp_induct) (auto intro: calendar_step_keeps_ledger)

lemma distinct_map_nth:
  "distinct (map f xs) \<Longrightarrow> i < length xs \<Longrightarrow> j < length xs \<Longrightarrow> f (xs ! i) = f (xs ! j) \<Longrightarrow> i = j"
  by (metis distinct_conv_nth length_map nth_map)

text \<open>
  C5: However the transactions of the calendar interleave, two committed operations never share an
  operation key of a salon, and never use the same availability quote: a quote books or moves at
  most one appointment, and the attempt it carries out is recorded as its consumer.
\<close>

theorem quote_and_key_used_once:
  assumes "(calendar_step env)\<^sup>*\<^sup>* db db'" "ledger_ok db"
    "i < length (calendar_attempts db')" "j < length (calendar_attempts db')" "i \<noteq> j"
  shows "operation_id (calendar_attempts db' ! i) \<noteq> operation_id (calendar_attempts db' ! j)
    \<and> (at_AvailabilityQuoteID (calendar_attempts db' ! i) = None
       \<or> at_AvailabilityQuoteID (calendar_attempts db' ! i)
         \<noteq> at_AvailabilityQuoteID (calendar_attempts db' ! j))
    \<and> quote_spent (calendar_quotes db') (calendar_attempts db' ! i)"
proof -
  let ?a = "calendar_attempts db' ! i" and ?b = "calendar_attempts db' ! j"
  have ok: "ledger_ok db'" using assms(1,2) by (rule reachable_ledger_ok)
  have spent: "quote_spent (calendar_quotes db') ?a" "quote_spent (calendar_quotes db') ?b"
    using ok assms(3,4) by (auto simp: ledger_ok_def list_all_length)
  have "at_ID ?a \<noteq> at_ID ?b" "operation_id ?a \<noteq> operation_id ?b"
    using ok assms(3-5) unfolding ledger_ok_def by (metis distinct_map_nth)+
  moreover have "at_ID ?a = at_ID ?b" if "at_AvailabilityQuoteID ?a = Some q" "at_AvailabilityQuoteID ?b = Some q" for q
  proof -
    from spent that obtain x y where "x \<in> set (calendar_quotes db')" "y \<in> set (calendar_quotes db')"
      "qr_ID x = qr_ID y" "qr_ConsumedByAttemptID x = Some (at_ID ?a)"
      "qr_ConsumedByAttemptID y = Some (at_ID ?b)" by (auto simp: quote_spent_def)
    moreover from this ok have "x = y" by (auto simp: ledger_ok_def distinct_map dest: inj_onD)
    ultimately show ?thesis by simp
  qed
  ultimately show ?thesis using spent(1) by (metis not_None_eq)
qed

end
