(* ===== verification/Calendar_Store_Replay.thy ===== *)
theory Calendar_Store_Replay
  imports Calendar_Store_Ledger
begin

text \<open>
  What is left of a committed operation in every later state of the calendar: its attempt and its
  events, and of a booking the appointment and the segments of its first plan. A repeated request is
  answered from them, and a reused operation key meets them, however many transactions came between.
\<close>

section \<open>The ledger only grows\<close>

text \<open>The events of an attempt, all of them written with the attempt.\<close>

definition events_of :: "string \<Rightarrow> CalendarDB \<Rightarrow> ExecutionEventRow list" where
  "events_of attemptID db = filter (\<lambda>event. ee_BookingAttemptID event = attemptID) (cd_Events db)"

lemma find_of_attempt:
  "find (\<lambda>event. P event \<and> ee_BookingAttemptID event = attemptID \<and> Q event) (cd_Events db)
     = find (\<lambda>event. P event \<and> Q event) (events_of attemptID db)"
proof -
  have "find (\<lambda>event. P event \<and> ee_BookingAttemptID event = attemptID \<and> Q event) es
      = find (\<lambda>event. P event \<and> Q event) (filter (\<lambda>event. ee_BookingAttemptID event = attemptID) es)" for es
    by (induction es) auto
  then show ?thesis by (simp add: events_of_def)
qed

lemma find_event_of_attempt:
  "find_event db salonID attemptID = find (\<lambda>event. ee_SalonID event = salonID) (events_of attemptID db)"
  unfolding find_event_def using find_of_attempt [where Q = "\<lambda>_. True"] by simp

lemma calendar_step_ledger:
  assumes "calendar_step env db db'" "row \<in> set (calendar_attempts db)"
  shows "prefix (calendar_attempts db) (calendar_attempts db') \<and> events_of (at_ID row) db' = events_of (at_ID row) db"
proof -
  have id: "at_ID row \<in> at_ID ` set (cd_Attempts db)" using assms(2) by (auto simp: calendar_attempts_def)
  show ?thesis
    using assms(1)
  proof cases
    case check
    then show ?thesis
      using CheckAvailability_store_keeps(3,4) [OF check(2)] by (simp add: calendar_attempts_def events_of_def)
  next
    case (create uuid execute read salonID u creq now r')
    from create(3) show ?thesis
      by (cases rule: CreateAppointment_cases)
        (use create(1) id in \<open>auto simp: calendar_attempts_def events_of_def created_db_def\<close>)
  next
    case (reschedule uuid execute read salonID u lreq now r')
    from reschedule(2) show ?thesis
      by (cases rule: RescheduleAppointment_cases)
        (use reschedule(1) id in \<open>auto simp: calendar_attempts_def events_of_def
          lifecycle_writes_def lifecycle_events lifecycle_attempts\<close>)
  next
    case (cancel uuid execute read salonID u lreq now r')
    from cancel(2) show ?thesis
      by (cases rule: CancelAppointment_cases)
        (use cancel(1) id in \<open>auto simp: calendar_attempts_def events_of_def
          lifecycle_writes_def lifecycle_events lifecycle_attempts\<close>)
  next
    case elsewhere
    then show ?thesis by (simp add: other_parts_def calendar_attempts_def events_of_def)
  qed
qed

lemma later_ledger:
  assumes "(calendar_step env)\<^sup>*\<^sup>* db db'" "row \<in> set (calendar_attempts db)"
  shows "prefix (calendar_attempts db) (calendar_attempts db')" "row \<in> set (calendar_attempts db')"
    "events_of (at_ID row) db' = events_of (at_ID row) db"
proof -
  have "prefix (calendar_attempts db) (calendar_attempts db')
      \<and> events_of (at_ID row) db' = events_of (at_ID row) db"
    using assms(1)
  proof (induction rule: rtranclp_induct)
    case (step y z)
    then have "row \<in> set (calendar_attempts y)" using assms(2) set_mono_prefix by blast
    from calendar_step_ledger [OF step(2) this] step(3) show ?case by auto
  qed simp
  then show "prefix (calendar_attempts db) (calendar_attempts db')" "row \<in> set (calendar_attempts db')"
    "events_of (at_ID row) db' = events_of (at_ID row) db"
    using assms(2) set_mono_prefix by blast+
qed

text \<open>
  The unique index on the salon and the operation key of an attempt that has one (\<open>migrations/V34\<close>).
\<close>

definition keys_unique :: "CalendarDB \<Rightarrow> bool" where
  "keys_unique db \<longleftrightarrow>
     distinct (map operation_id (filter (\<lambda>row. at_OperationKey row \<noteq> []) (cd_Attempts db)))"

lemma keyed_attempt:
  assumes "keys_unique db" "row \<in> set (calendar_attempts db)" "at_OperationKey row \<noteq> []"
  shows "find_attempt db (at_SalonID row) (at_OperationKey row) = Some row"
proof -
  let ?P = "\<lambda>x. at_SalonID x = at_SalonID row \<and> at_OperationKey x = at_OperationKey row"
  have skip: "find ?P xs = find ?P (filter (\<lambda>x. at_OperationKey x \<noteq> []) xs)" for xs
    using assms(3) by (induction xs) auto
  have "find ?P (filter (\<lambda>x. at_OperationKey x \<noteq> []) (cd_Attempts db)) = Some row"
    by (rule find_unique [where f = operation_id])
      (use assms in \<open>auto simp: keys_unique_def calendar_attempts_def operation_id_def\<close>)
  then show ?thesis unfolding find_attempt_def using skip by (rule trans [rotated])
qed

lemma new_attempt_simps [simp]:
  "at_ID (new_attempt env salonID req quote aggregate now) = st_UUID env [0]"
  "at_SalonID (new_attempt env salonID req quote aggregate now) = salonID"
  "at_OperationKey (new_attempt env salonID req quote aggregate now) = icr_OperationKey req"
  "at_RequestFingerprint (new_attempt env salonID req quote aggregate now) = icr_RequestFingerprint req"
  "at_Status (new_attempt env salonID req quote aggregate now) = StatusConfirmed"
  "at_SchedulingAuthority (new_attempt env salonID req quote aggregate now)
     = SchedulingAuthorityManleAICalendar"
  "at_TargetAuthorityAppointmentVersion (new_attempt env salonID req quote aggregate now) = None"
  by (simp_all add: new_attempt_def Let_def)

lemma events_of_fresh: "fresh_attempt env db \<Longrightarrow> events_of (st_UUID env [0]) db = []"
  by (force simp: events_of_def fresh_attempt_def filter_empty_conv)

text \<open>The row and the event a committed booking leaves.\<close>

lemma booking_leaves:
  assumes "CreateAppointment env salonID u req now db = (Inr (Some result, False), db')"
    "fresh_attempt env db"
  obtains row event where "row \<in> set (calendar_attempts db')" "at_SalonID row = salonID"
    "at_OperationKey row = icr_OperationKey req" "at_ID row = st_UUID env [0]"
    "at_RequestFingerprint row = icr_RequestFingerprint req" "at_Status row = StatusConfirmed"
    "at_TargetAuthorityAppointmentVersion row = None" "events_of (st_UUID env [0]) db' = [event]"
    "ee_SalonID event = salonID" "ee_EventType event = EventAppointmentConfirmed"
    "ee_AppointmentID event = st_UUID env [1]" "ee_AuthorityAppointmentVersion event = 1"
  using assms(1)
proof (cases rule: CreateAppointment_cases)
  case (3 fence quote requested aggregate result')
  note fresh = events_of_fresh [OF assms(2)]
  have "events_of (st_UUID env [0]) db' = [last (cd_Events db')]"
    using fresh by (simp add: 3(9) events_of_def created_db_def)
  then show thesis
    by (intro that [of "new_attempt env salonID req quote aggregate now" "last (cd_Events db')"])
      (simp_all add: 3(9) created_db_def calendar_attempts_def is_calendar_attempt_def)
qed simp_all

text \<open>The row and the event a committed reschedule or cancellation leaves.\<close>

lemma change_leaves:
  assumes "lifecycle_writes env db salonID u req target plan now result db'" "fresh_attempt env db"
    "lp_EventType plan \<noteq> EventAppointmentConfirmed"
  obtains row where "row \<in> set (calendar_attempts db')" "at_SalonID row = salonID"
    "at_OperationKey row = ilr_OperationKey req"
    "\<And>event. event \<in> set (events_of (at_ID row) db') \<Longrightarrow> ee_EventType event \<noteq> EventAppointmentConfirmed"
proof -
  let ?row = "lifecycle_attempt env salonID req target plan now"
  have db': "db' = lifecycle_db env db salonID req target plan now"
    using assms(1) unfolding lifecycle_writes_def by blast
  note fresh = events_of_fresh [OF assms(2)]
  have "events_of (st_UUID env [0]) db' = [lifecycle_event env db salonID req target plan now]"
    using fresh by (simp add: db' events_of_def lifecycle_events)
  then show thesis
    by (intro that [of ?row])
      (use assms(3) in \<open>simp_all add: db' calendar_attempts_def is_calendar_attempt_def lifecycle_attempts\<close>)
qed

section \<open>Reused operation keys\<close>

lemma booked_key_is_no_change:
  assumes "row \<in> set (calendar_attempts db)" "keys_unique db" "st_MayExecute env (at_SalonID row) u"
    "at_TargetAuthorityAppointmentVersion row = None" "ilr_OperationKey req = at_OperationKey row"
    "find_event db (at_SalonID row) (at_ID row) \<noteq> None" "at_OperationKey row \<noteq> []"
  shows "replayLifecycleTx env db (at_SalonID row) u req = Inl null_scan_error"
  using keyed_attempt [OF assms(2,1,7)] assms(3-6) by (auto simp: replayLifecycleTx_def)

lemma changed_key_is_no_booking:
  assumes "row \<in> set (calendar_attempts db)" "keys_unique db" "st_MayExecute env (at_SalonID row) u"
    "icr_OperationKey req = at_OperationKey row"
    "\<And>event. event \<in> set (events_of (at_ID row) db) \<Longrightarrow> ee_EventType event \<noteq> EventAppointmentConfirmed"
    "at_OperationKey row \<noteq> []"
  shows "CreateAppointment env (at_SalonID row) u req now db = (Inl null_scan_error, db)"
proof -
  have "find (\<lambda>event. ee_SalonID event = at_SalonID row \<and> ee_BookingAttemptID event = at_ID row
      \<and> ee_EventType event = EventAppointmentConfirmed) (cd_Events db) = None"
    unfolding find_of_attempt using assms(5) by (auto simp: find_None_iff)
  then have "replayAggregateCreateTx env db (at_SalonID row) u req = Inl null_scan_error"
    using keyed_attempt [OF assms(2,1,6)] assms(3,4) by (simp add: replayAggregateCreateTx_def)
  then show ?thesis by (simp add: CreateAppointment_def)
qed

text \<open>
  C8: An operation key that committed a booking cannot be reused for a reschedule or a cancellation,
  and one that committed a reschedule or a cancellation cannot be reused for a booking, in any later
  state of the calendar: nothing is written. But the caller gets the error of the database driver (a
  NULL scanned into an \<open>int\<close>), an internal error, and not the operation conflict that
  the interface documents for a reused key. The attempt's generated identifier is new and non-empty
  keys are unique, as the schema demands.
\<close>

theorem reused_key_is_driver_error:
  assumes "fresh_attempt env db" "(calendar_step env0)\<^sup>*\<^sup>* db' db''" "keys_unique db''"
    "st_MayExecute env' salonID u'" "ilr_OperationKey lreq = icr_OperationKey creq"
    "icr_OperationKey creq \<noteq> []"
  shows "(CreateAppointment env salonID u creq now db = (Inr (Some result, False), db') \<longrightarrow>
      (ilr_OperationType lreq = OperationKindCancel \<longrightarrow>
         CancelAppointment env' salonID u' lreq now' db'' = (Inl null_scan_error, db''))
      \<and> (ilr_OperationType lreq = OperationKindReschedule \<longrightarrow>
         RescheduleAppointment env' salonID u' lreq now' db'' = (Inl null_scan_error, db'')))
    \<and> (CancelAppointment env salonID u lreq now db = (Inr (Some result, False), db')
       \<or> RescheduleAppointment env salonID u lreq now db = (Inr (Some result, False), db') \<longrightarrow>
      CreateAppointment env' salonID u' creq now' db'' = (Inl null_scan_error, db''))
    \<and> null_scan_error \<noteq> ErrOperationConflict"
proof (intro conjI impI)
  have replay: "replayLifecycleTx env' db'' salonID u' lreq = Inl null_scan_error"
    if create: "CreateAppointment env salonID u creq now db = (Inr (Some result, False), db')"
  proof (rule booking_leaves [OF create assms(1)])
    fix row event
    assume row: "row \<in> set (calendar_attempts db')" "at_SalonID row = salonID"
      "at_OperationKey row = icr_OperationKey creq" "at_ID row = st_UUID env [0]"
      "at_TargetAuthorityAppointmentVersion row = None"
      "events_of (st_UUID env [0]) db' = [event]" "ee_SalonID event = salonID"
    note later = later_ledger [OF assms(2) row(1)]
    have "find_event db'' salonID (at_ID row) \<noteq> None"
      using later(3) row by (simp add: find_event_of_attempt)
    then show ?thesis
      using booked_key_is_no_change [OF later(2) assms(3), of env' u' lreq] assms(4-6) row by simp
  qed
  show "CancelAppointment env' salonID u' lreq now' db'' = (Inl null_scan_error, db'')"
    if "CreateAppointment env salonID u creq now db = (Inr (Some result, False), db')"
      "ilr_OperationType lreq = OperationKindCancel"
    using replay [OF that(1)] that(2) by (simp add: CancelAppointment_def)
  show "RescheduleAppointment env' salonID u' lreq now' db'' = (Inl null_scan_error, db'')"
    if "CreateAppointment env salonID u creq now db = (Inr (Some result, False), db')"
      "ilr_OperationType lreq = OperationKindReschedule"
    using replay [OF that(1)] that(2) by (simp add: RescheduleAppointment_def)
next
  assume "CancelAppointment env salonID u lreq now db = (Inr (Some result, False), db')
    \<or> RescheduleAppointment env salonID u lreq now db = (Inr (Some result, False), db')"
  then obtain target plan where writes: "lifecycle_writes env db salonID u lreq target plan now result db'"
    "lp_EventType plan \<noteq> EventAppointmentConfirmed"
    by (auto elim!: CancelAppointment_cases RescheduleAppointment_cases simp: cancel_plan_def
        reschedule_plan_def EventAppointmentCancelled_def EventAppointmentConfirmed_def
        EventAppointmentRescheduled_def)
  show "CreateAppointment env' salonID u' creq now' db'' = (Inl null_scan_error, db'')"
  proof (rule change_leaves [OF writes(1) assms(1) writes(2)])
    fix row
    assume row: "row \<in> set (calendar_attempts db')" "at_SalonID row = salonID"
      "at_OperationKey row = ilr_OperationKey lreq"
      "\<And>event. event \<in> set (events_of (at_ID row) db') \<Longrightarrow> ee_EventType event \<noteq> EventAppointmentConfirmed"
    note later = later_ledger [OF assms(2) row(1)]
    show ?thesis
      using changed_key_is_no_booking [OF later(2) assms(3), of env' u' creq now'] assms(4-6) row later(3)
      by simp
  qed
qed (simp add: null_scan_error_def go_consts)


section \<open>A booking in later states\<close>

declare update_root_key [simp]

lemma calendar_step_keys:
  assumes "calendar_step env db db'" "distinct (map appointment_key (cd_Appointments db))"
  shows "distinct (map appointment_key (cd_Appointments db'))"
  using assms(1)
proof cases
  case check
  then show ?thesis using assms(2) CheckAvailability_store_keeps(2) [OF check(2)] by simp
next
  case (create uuid execute read salonID u creq now r')
  have fresh: "(salonID, uuid [1]) \<notin> appointment_key ` set (cd_Appointments db)"
    using create(2) by (auto simp: appointment_key_def)
  from create(3) show ?thesis
    by (cases rule: CreateAppointment_cases)
      (use fresh assms(2) in \<open>auto simp: created_segments appointment_key_def [of "new_appointment _ _ _ _ _"]\<close>)
next
  case (reschedule uuid execute read salonID u lreq now r')
  from reschedule(2) show ?thesis
    by (cases rule: RescheduleAppointment_cases)
      (use assms(2) in \<open>simp_all add: lifecycle_writes_def lifecycle_db_def comp_def\<close>)
next
  case (cancel uuid execute read salonID u lreq now r')
  from cancel(2) show ?thesis
    by (cases rule: CancelAppointment_cases)
      (use assms(2) in \<open>simp_all add: lifecycle_writes_def lifecycle_db_def comp_def\<close>)
next
  case elsewhere
  then show ?thesis by (simp add: other_parts_def)
qed

text \<open>A segment without the marks of its release.\<close>

definition plan_part :: "AppointmentSegmentRow \<Rightarrow> AppointmentSegmentRow" where
  "plan_part segment =
     segment\<lparr>sg_ReleasedAt := None, sg_ReleasedByAttemptID := None,
       sg_Allocations := map (\<lambda>allocation. allocation\<lparr>al_ReleasedAt := None\<rparr>) (sg_Allocations segment)\<rparr>"

definition in_first_plan :: "string \<Rightarrow> string \<Rightarrow> AppointmentSegmentRow \<Rightarrow> bool" where
  "in_first_plan salonID appointmentID segment \<longleftrightarrow>
     sg_SalonID segment = salonID \<and> sg_AppointmentID segment = appointmentID
     \<and> is_calendar_segment segment \<and> sg_PlanVersion segment = 1"

definition first_plan :: "string \<Rightarrow> string \<Rightarrow> CalendarDB \<Rightarrow> AppointmentSegmentRow list" where
  "first_plan salonID appointmentID db =
     map plan_part (filter (in_first_plan salonID appointmentID) (cd_Segments db))"

text \<open>
  The appointment is still there; while it is at its first version, its first plan is live and it
  is confirmed.
\<close>

definition still_booked :: "string \<Rightarrow> string \<Rightarrow> CalendarDB \<Rightarrow> bool" where
  "still_booked salonID appointmentID db \<longleftrightarrow>
     distinct (map appointment_key (cd_Appointments db))
     \<and> (\<exists>row. row \<in> set (cd_Appointments db) \<and> appointment_key row = (salonID, appointmentID)
          \<and> is_calendar_appointment row \<and> \<not> ap_ProviderEvidence row
          \<and> 1 \<le> ap_AuthorityAppointmentVersion row
          \<and> (ap_AuthorityAppointmentVersion row = 1 \<longrightarrow> ap_Status row = StatusConfirmed
             \<and> list_all (\<lambda>segment. in_first_plan salonID appointmentID segment \<longrightarrow>
                  sg_ReleasedAt segment = None) (cd_Segments db)))"

lemma plan_part_released: "plan_part (release_segment salonID target attemptID now segment) = plan_part segment"
  by (cases segment) (auto simp: plan_part_def release_segment_def comp_def)

lemma released_in_plan:
  "in_first_plan salonID appointmentID (release_segment salonID' target attemptID now segment)
     = in_first_plan salonID appointmentID segment"
  by (simp add: in_first_plan_def release_segment_def is_calendar_segment_def)

lemma lifecycle_keeps_booking:
  assumes writes: "lifecycle_writes env db salon u req target plan now result db'"
    and booked: "still_booked salonID appointmentID db"
  shows "still_booked salonID appointmentID db'
    \<and> first_plan salonID appointmentID db' = first_plan salonID appointmentID db"
proof -
  have db': "db' = lifecycle_db env db salon req target plan now"
    and one: "length (filter (updates_root salon target) (cd_Appointments db)) = 1"
    using writes unfolding lifecycle_writes_def by blast+
  obtain row where row: "row \<in> set (cd_Appointments db)" "appointment_key row = (salonID, appointmentID)"
    "is_calendar_appointment row" "\<not> ap_ProviderEvidence row" "1 \<le> ap_AuthorityAppointmentVersion row"
    "ap_AuthorityAppointmentVersion row = 1 \<Longrightarrow> ap_Status row = StatusConfirmed
       \<and> list_all (\<lambda>segment. in_first_plan salonID appointmentID segment \<longrightarrow> sg_ReleasedAt segment = None)
           (cd_Segments db)" and keys: "distinct (map appointment_key (cd_Appointments db))"
    using booked unfolding still_booked_def by blast
  let ?f = "update_root salon req target plan (st_UUID env [0]) now"
  obtain root where root: "root \<in> set (cd_Appointments db)" "updates_root salon target root"
    using one by (metis (no_types, lifting) filter_False length_0_conv zero_neq_one)
  define here where "here \<longleftrightarrow> salon = salonID \<and> lt_ID target = appointmentID"
  have same: "root = row" if here
    using that root row(1,2) keys
    unfolding distinct_map by (auto simp: here_def updates_root_def appointment_key_def inj_on_def)
  have version: "1 \<le> lt_AuthorityAppointmentVersion target" if here
    using root(2) row(5) unfolding same [OF that] by (simp add: updates_root_def)
  have installed: "\<not> in_first_plan salonID appointmentID segment"
    if "segment \<in> set (installed_segments env salon target plan now)" for segment
    using that version
    by (auto simp: installed_segments_def in_first_plan_def here_def split: option.splits)
  then have none: "filter (in_first_plan salonID appointmentID) (installed_segments env salon target plan now) = []"
    by (simp add: filter_empty_conv)
  have plan: "first_plan salonID appointmentID db' = first_plan salonID appointmentID db"
    unfolding first_plan_def db' lifecycle_db_def
    by (simp add: none filter_map comp_def plan_part_released released_in_plan)
  have keys': "distinct (map appointment_key (cd_Appointments db'))"
    using keys by (simp add: db' lifecycle_db_def comp_def)
  have root': "?f row \<in> set (cd_Appointments db')" "appointment_key (?f row) = (salonID, appointmentID)"
    "is_calendar_appointment (?f row)" "\<not> ap_ProviderEvidence (?f row)"
    "1 \<le> ap_AuthorityAppointmentVersion (?f row)"
    using row(1-5) root(2)
    by (auto simp: db' lifecycle_db_def update_root_def appointment_key_def is_calendar_appointment_def
        updates_root_def Let_def)
  have "ap_Status (?f row) = StatusConfirmed \<and> list_all (\<lambda>segment. in_first_plan salonID appointmentID segment
      \<longrightarrow> sg_ReleasedAt segment = None) (cd_Segments db')" if first: "ap_AuthorityAppointmentVersion (?f row) = 1"
  proof -
    have away: "\<not> here"
    proof
      assume here
      with root(2) same have "updates_root salon target row" by simp
      with first version [OF \<open>here\<close>] show False by (simp add: update_root_def Let_def)
    qed
    then have "?f row = row"
      using row(2) by (auto simp: update_root_def updates_root_def here_def appointment_key_def)
    moreover have "release_segment salon target (st_UUID env [0]) now segment = segment"
      if "in_first_plan salonID appointmentID segment" for segment
      using that away by (auto simp: release_segment_def is_live_plan_def in_first_plan_def here_def)
    ultimately show ?thesis
      using first row(6) installed
      by (auto simp: db' lifecycle_db_def list_all_iff released_in_plan)
  qed
  with root' keys' plan show ?thesis unfolding still_booked_def by blast
qed

lemma calendar_step_keeps_booking:
  assumes "calendar_step env db db'" "still_booked salonID appointmentID db"
  shows "still_booked salonID appointmentID db'
    \<and> first_plan salonID appointmentID db' = first_plan salonID appointmentID db"
  using assms(1)
proof cases
  case check
  then show ?thesis
    using assms(2) CheckAvailability_store_keeps(1,2) [OF check(2)]
    by (simp add: still_booked_def first_plan_def)
next
  case (create uuid execute read salon u creq now r')
  have keys: "distinct (map appointment_key (cd_Appointments db'))"
    using calendar_step_keys [OF assms(1)] assms(2) by (simp add: still_booked_def)
  have other: "appointmentID \<noteq> uuid [1] \<or> salon \<noteq> salonID"
    using assms(2) create(2) unfolding still_booked_def by (force simp: appointment_key_def)
  from create(3) show ?thesis
  proof (cases rule: CreateAppointment_cases)
    case (3 fence quote requested aggregate result)
    let ?new = "map (plan_segment (session env uuid execute read) salon (uuid [1]) 1 aggregate now)
        (enumerate 0 (qu_Segments quote))"
    have "\<not> in_first_plan salonID appointmentID segment" if "segment \<in> set ?new" for segment
      using that other by (auto simp: in_first_plan_def)
    then have "filter (in_first_plan salonID appointmentID) ?new = []" "list_all (\<lambda>segment.
        in_first_plan salonID appointmentID segment \<longrightarrow> sg_ReleasedAt segment = None) ?new"
      by (auto simp only: filter_empty_conv list_all_iff)
    then show ?thesis
      using assms(2) keys unfolding still_booked_def first_plan_def 3(9) created_segments session_simps
      by (auto simp: filter_append)
  qed (use assms(2) in simp_all)
next
  case (reschedule uuid execute read salon u lreq now r')
  from reschedule(2) show ?thesis
    by (cases rule: RescheduleAppointment_cases) (use assms(2) lifecycle_keeps_booking in auto)
next
  case (cancel uuid execute read salon u lreq now r')
  from cancel(2) show ?thesis
    by (cases rule: CancelAppointment_cases) (use assms(2) lifecycle_keeps_booking in auto)
next
  case elsewhere
  have live: "list_all (\<lambda>s. in_first_plan salonID appointmentID s \<longrightarrow> P s) xs
      \<longleftrightarrow> list_all P (filter (in_first_plan salonID appointmentID) (filter is_calendar_segment xs))" for P xs
    by (auto simp: list_all_iff in_first_plan_def)
  have part: "filter (in_first_plan salonID appointmentID) xs
      = filter (in_first_plan salonID appointmentID) (filter is_calendar_segment xs)" for xs
    by (auto simp: in_first_plan_def intro: filter_cong)
  have "set (filter is_calendar_appointment (cd_Appointments db'))
      = set (filter is_calendar_appointment (cd_Appointments db))"
    using elsewhere by (simp add: other_parts_def)
  then have rows: "row \<in> set (cd_Appointments db) \<and> is_calendar_appointment row
      \<longleftrightarrow> row \<in> set (cd_Appointments db') \<and> is_calendar_appointment row" for row
    by (auto simp: set_eq_iff)
  have same: "filter is_calendar_segment (cd_Segments db') = filter is_calendar_segment (cd_Segments db)"
    "distinct (map appointment_key (cd_Appointments db'))"
    using elsewhere by (simp_all add: other_parts_def)
  have "first_plan salonID appointmentID db' = first_plan salonID appointmentID db"
    unfolding first_plan_def part [of "cd_Segments db'"] part [of "cd_Segments db"] same(1) ..
  moreover have "still_booked salonID appointmentID db'"
    using assms(2) rows same(2) unfolding still_booked_def live same(1) by blast
  ultimately show ?thesis by blast
qed

lemma later_booking:
  assumes "(calendar_step env)\<^sup>*\<^sup>* db db'" "still_booked salonID appointmentID db"
  shows "still_booked salonID appointmentID db'"
    "first_plan salonID appointmentID db' = first_plan salonID appointmentID db"
proof -
  have "still_booked salonID appointmentID db'
      \<and> first_plan salonID appointmentID db' = first_plan salonID appointmentID db"
    using assms by (induction rule: rtranclp_induct) (use calendar_step_keeps_booking in fastforce)+
  then show "still_booked salonID appointmentID db'"
    "first_plan salonID appointmentID db' = first_plan salonID appointmentID db" by simp_all
qed


text \<open>Identifiers of a transaction that no row of the calendar carries yet.\<close>

definition fresh_ids :: "StoreEnv \<Rightarrow> CalendarDB \<Rightarrow> bool" where
  "fresh_ids env db \<longleftrightarrow> fresh_attempt env db
     \<and> st_UUID env [1] \<notin> ap_ID ` set (cd_Appointments db)
     \<and> st_UUID env [1] \<notin> sg_AppointmentID ` set (cd_Segments db)
     \<and> TrimSpace (st_UUID env [1]) = st_UUID env [1]"

lemma planned_in_first_plan [simp]:
  "in_first_plan salonID appointmentID (plan_segment env salonID appointmentID 1 aggregate now x)"
  "sg_ReleasedAt (plan_segment env salonID appointmentID 1 aggregate now x) = None"
  by (simp_all add: plan_segment_def in_first_plan_def is_calendar_segment_def split: prod.split)

lemma created_still_booked:
  assumes "fresh_ids env db" "distinct (map appointment_key (cd_Appointments db))"
  shows "still_booked salonID (st_UUID env [1]) (created_db env db salonID req quote aggregate now)"
proof -
  let ?row = "new_appointment env salonID req quote now"
  have "appointment_key ?row \<notin> appointment_key ` set (cd_Appointments db)"
    using assms(1) by (auto simp: fresh_ids_def appointment_key_def)
  moreover have "\<not> in_first_plan salonID (st_UUID env [1]) s" if "s \<in> set (cd_Segments db)" for s
    using assms(1) that by (force simp: fresh_ids_def in_first_plan_def)
  moreover have "\<not> ap_ProviderEvidence ?row" by (simp add: new_appointment_def Let_def)
  ultimately show ?thesis
    using assms(2) unfolding still_booked_def created_segments
    by (intro conjI exI [of _ ?row])
      (auto simp: list_all_iff appointment_key_def is_calendar_appointment_def)
qed

definition scanned_children ::
  "CalendarDB \<Rightarrow> string \<Rightarrow> AppointmentSegmentRow list \<Rightarrow> InternalCreateSegmentResult list" where
  "scanned_children db salonID rows =
     map (scan_plan_child db salonID 1) (sort_key (\<lambda>segment. (sg_SortOrder segment, sg_ID segment)) rows)"

lemma map_sort_key:
  assumes "\<And>x. k (f x) = k x"
  shows "map f (sort_key k xs) = sort_key k (map f xs)"
proof -
  have "map f (insort_key k x ys) = insort_key k (f x) (map f ys)" for x ys
    by (induction ys) (simp_all add: assms)
  then show ?thesis by (induction xs) simp_all
qed

lemma first_children:
  assumes "TrimSpace appointmentID = appointmentID"
  shows "loadAppointmentPlanResultTx db salonID appointmentID 1 []
    = scanned_children db salonID (first_plan salonID appointmentID db)"
proof -
  have scan: "scan_plan_child db salonID 1 (plan_part row) = scan_plan_child db salonID 1 row" for row
    by (simp add: scan_plan_child_def plan_part_def filter_map comp_def)
  have key: "sg_SortOrder (plan_part row) = sg_SortOrder row" "sg_ID (plan_part row) = sg_ID row" for row
    by (simp_all add: plan_part_def)
  have "filter (\<lambda>segment. sg_SalonID segment = salonID \<and> sg_AppointmentID segment = appointmentID
      \<and> sg_SchedulingAuthority segment = SchedulingAuthorityManleAICalendar \<and> sg_PlanVersion segment = 1)
      = filter (in_first_plan salonID appointmentID)"
    by (intro ext filter_cong) (auto simp: in_first_plan_def is_calendar_segment_def)
  then show ?thesis
    unfolding loadAppointmentPlanResultTx_def scanned_children_def first_plan_def
      map_sort_key [of "\<lambda>segment. (sg_SortOrder segment, sg_ID segment)" plan_part, unfolded key, OF refl,
        symmetric]
    by (simp add: assms scan)
qed

lemma first_active:
  assumes "still_booked salonID appointmentID db" "row \<in> set (cd_Appointments db)"
    "appointment_key row = (salonID, appointmentID)" "ap_AuthorityAppointmentVersion row = 1"
  shows "ap_Status row = StatusConfirmed"
    "active_child_count db row = int (length (first_plan salonID appointmentID db))"
proof -
  obtain row' where row': "row' \<in> set (cd_Appointments db)" "appointment_key row' = (salonID, appointmentID)"
    "ap_AuthorityAppointmentVersion row' = 1 \<Longrightarrow> ap_Status row' = StatusConfirmed
       \<and> list_all (\<lambda>segment. in_first_plan salonID appointmentID segment \<longrightarrow> sg_ReleasedAt segment = None)
           (cd_Segments db)" and keys: "distinct (map appointment_key (cd_Appointments db))"
    using assms(1) unfolding still_booked_def by blast
  have "row' = row" using row'(1,2) assms(2,3) keys unfolding distinct_map by (auto simp: inj_on_def)
  note live = row'(3) [unfolded this, OF assms(4)]
  then show "ap_Status row = StatusConfirmed" ..
  have "filter (\<lambda>segment. is_live_plan salonID appointmentID 1 segment
      \<and> sg_SchedulingAuthority segment = SchedulingAuthorityManleAICalendar) (cd_Segments db)
      = filter (in_first_plan salonID appointmentID) (cd_Segments db)"
    using live by (intro filter_cong)
      (auto simp: list_all_iff in_first_plan_def is_live_plan_def is_calendar_segment_def)
  then show "active_child_count db row = int (length (first_plan salonID appointmentID db))"
    using assms(3,4) by (simp add: active_child_count_def first_plan_def appointment_key_def)
qed

text \<open>What a result says without the current names of its pools.\<close>

definition without_pools :: "InternalCreateResult \<Rightarrow> InternalCreateResult" where
  "without_pools result =
     result\<lparr>icx_Children := map (\<lambda>child. child\<lparr>isr_ResourceAllocations := []\<rparr>) (icx_Children result)\<rparr>"

lemma booked_result:
  assumes "TrimSpace appointmentID = appointmentID" "TrimSpace attemptID = attemptID"
    and booked: "still_booked salonID appointmentID db" and may: "st_MayExecute env salonID u"
    and attempt: "find (\<lambda>a. at_SalonID a = salonID \<and> at_ID a = attemptID) (calendar_attempts db) = Some row"
    and event: "events_of attemptID db = [event]" "ee_SalonID event = salonID"
      "ee_AppointmentID event = appointmentID" "ee_EventType event = EventAppointmentConfirmed"
      "ee_AuthorityAppointmentVersion event = 1"
    and evidence: "event_evidence_ok row event" "\<not> at_ProviderEvidence row"
      "at_AuthorityAppointmentVersion row = 1" "at_Status row = StatusConfirmed"
      "at_TargetAuthorityAppointmentVersion row = None"
    and children: "length (at_Segments row) = length (first_plan salonID appointmentID db)"
  shows "loadAuthoritativeInternalResultTx env db salonID u appointmentID attemptID
    = (if first_plan salonID appointmentID db = [] then Inl ErrInvalidSchedulingResult else Inr \<lparr>icx_AppointmentID = appointmentID, icx_BookingAttemptID = attemptID,
        icx_AppointmentStatus = StatusConfirmed, icx_TargetAuthorityAppointmentVersion = 0,
        icx_AuthorityAppointmentVersion = 1,
        icx_ActiveChildCount = int (length (first_plan salonID appointmentID db)),
        icx_Children = scanned_children db salonID (first_plan salonID appointmentID db)\<rparr>)"
proof -
  obtain appointment where appointment: "appointment \<in> set (cd_Appointments db)"
    "appointment_key appointment = (salonID, appointmentID)" "is_calendar_appointment appointment"
    "\<not> ap_ProviderEvidence appointment" "1 \<le> ap_AuthorityAppointmentVersion appointment"
    and keys: "distinct (map appointment_key (cd_Appointments db))"
    using booked unfolding still_booked_def by blast
  have skip: "find (\<lambda>a. P a \<and> at_SchedulingAuthority a = SchedulingAuthorityManleAICalendar) xs
      = find P (filter is_calendar_attempt xs)" for P xs
    by (induction xs) (auto simp: is_calendar_attempt_def)
  have a: "find (\<lambda>a. at_SalonID a = salonID \<and> at_ID a = attemptID
      \<and> at_SchedulingAuthority a = SchedulingAuthorityManleAICalendar) (cd_Attempts db) = Some row"
    using attempt skip [of "\<lambda>a. at_SalonID a = salonID \<and> at_ID a = attemptID" "cd_Attempts db"]
    by (simp add: calendar_attempts_def)
  have e: "find (\<lambda>e. ee_SalonID e = salonID \<and> ee_BookingAttemptID e = attemptID
      \<and> ee_AppointmentID e = appointmentID) (cd_Events db) = Some event"
    unfolding find_of_attempt event(1) using event(2,3) by simp
  have p: "find (\<lambda>x. ap_SalonID x = salonID \<and> ap_ID x = appointmentID
      \<and> ap_SchedulingAuthority x = SchedulingAuthorityManleAICalendar) (cd_Appointments db) = Some appointment"
    using appointment(2,3)
    by (intro find_unique [OF keys appointment(1)]) (auto simp: appointment_key_def is_calendar_appointment_def)
  have "at_ID row = attemptID" using find_SomeD [OF attempt] by simp
  then have rows: "result_rows env db salonID u appointmentID attemptID = Some (row, event, appointment)"
    using may a e p by (simp add: result_rows_def assms(1,2) event(3))
  show ?thesis
    using evidence children appointment(4,5) first_active [OF booked appointment(1,2)]
    unfolding loadAuthoritativeInternalResultTx_def rows option.case prod.case Let_def
    by (auto simp: first_children [OF assms(1)] event assms(1,2) scanned_children_def
        EventAppointmentCancelled_def EventAppointmentConfirmed_def)
qed

text \<open>
  C7: A booking that committed and whose answer was lost can be repeated at any later time: whatever
  transactions of the calendar came in between, a later reschedule or cancellation of this very
  appointment included, the same request by any session that may execute at the salon returns the
  booking as it was made (appointment, attempt, status, version and children), marked as a replay,
  and writes nothing. The resource allocations listed in the answer are joined with the pools as
  they are now: while these keep their names, the answer is exactly the first one. Generated
  identifiers are new, and appointments and non-empty operation keys unique, as the keys of the
  schema demand.
\<close>

theorem committed_booking_replays:
  assumes create: "CreateAppointment env salonID u req now db = (Inr (Some result, False), db')"
    and fresh: "fresh_ids env db" and keys: "distinct (map appointment_key (cd_Appointments db))"
    and later: "(calendar_step env0)\<^sup>*\<^sup>* db' db''" and unique: "keys_unique db''"
    and key: "icr_OperationKey req \<noteq> []" and may: "st_MayExecute env' salonID u'"
  shows "\<exists>result'. CreateAppointment env' salonID u' req now' db'' = (Inr (Some result', True), db'')
    \<and> without_pools result' = without_pools result
    \<and> (pool_name db'' salonID = pool_name db' salonID \<longrightarrow> result' = result)"
  using create
proof (cases rule: CreateAppointment_cases)
  case (3 fence quote requested aggregate result0)
  let ?row = "new_attempt env salonID req quote aggregate now"
  let ?p = "st_UUID env [1]" and ?a = "st_UUID env [0]"
  define event where "event = last (cd_Events db')"
  have fresh': "fresh_attempt env db" "TrimSpace ?p = ?p" "TrimSpace ?a = ?a"
    using fresh by (simp_all add: fresh_ids_def fresh_attempt_def)
  have row: "?row \<in> set (calendar_attempts db')" "calendar_attempts db' = calendar_attempts db @ [?row]"
    by (simp_all add: 3(9) created_db_def calendar_attempts_def is_calendar_attempt_def)
  have event: "events_of ?a db' = [event]" "ee_SalonID event = salonID" "ee_AppointmentID event = ?p"
    "ee_EventType event = EventAppointmentConfirmed" "ee_AuthorityAppointmentVersion event = 1"
    using events_of_fresh [OF fresh'(1)] by (simp_all add: event_def 3(9) events_of_def created_db_def)
  have found: "find (\<lambda>a. at_SalonID a = salonID \<and> at_ID a = ?a) (calendar_attempts db') = Some ?row"
  proof -
    have "find (\<lambda>a. at_SalonID a = salonID \<and> at_ID a = ?a) (calendar_attempts db) = None"
      using fresh'(1) by (force simp: find_None_iff calendar_attempts_def fresh_attempt_def)
    then show ?thesis by (simp add: row(2) find_append)
  qed
  have evidence: "event_evidence_ok ?row event" "\<not> at_ProviderEvidence ?row"
    "at_AuthorityAppointmentVersion ?row = 1"
    by (simp_all add: event_evidence_ok_def event new_attempt_def Let_def)
  have booked: "still_booked salonID ?p db'" unfolding 3(9) using fresh keys by (rule created_still_booked)
  have "filter (in_first_plan salonID ?p) (cd_Segments db) = []"
    using fresh by (force simp: filter_empty_conv fresh_ids_def in_first_plan_def)
  then have "length (first_plan salonID ?p db') = length (qu_Segments quote)"
    by (simp add: first_plan_def 3(9) created_segments filter_map comp_def)
  then have segments: "length (at_Segments ?row) = length (first_plan salonID ?p db')"
    by (simp add: new_attempt_def Let_def)
  have load: "loadAuthoritativeInternalResultTx env db' salonID u ?p ?a = Inr result"
    using 3 by simp
  have "st_MayExecute env salonID u"
    using load by (auto simp: loadAuthoritativeInternalResultTx_def result_rows_def split: if_splits)
  note first = booked_result [OF fresh'(2,3) booked this found event evidence _ _ segments]
  note ledger = later_ledger [OF later row(1)]
  note plan = later_booking [OF later booked]
  have found': "find (\<lambda>a. at_SalonID a = salonID \<and> at_ID a = ?a) (calendar_attempts db'') = Some ?row"
    using ledger(1) found by (auto simp: prefix_def find_append)
  have event': "events_of ?a db'' = [event]" using ledger(3) event(1) by simp
  note second = booked_result [OF fresh'(2,3) plan(1) may found' event' event(2-5) evidence _ _
      segments [folded plan(2)]]
  have "find (\<lambda>event. ee_SalonID event = salonID \<and> ee_BookingAttemptID event = ?a
      \<and> ee_EventType event = EventAppointmentConfirmed) (cd_Events db'') = Some event"
    unfolding find_of_attempt event' by (simp add: event)
  moreover have "find_attempt db'' salonID (icr_OperationKey req) = Some ?row"
    using keyed_attempt [OF unique ledger(2)] key by simp
  moreover have "find_appointment db'' salonID ?p \<noteq> None"
    using plan(1) by (auto simp: still_booked_def find_appointment_def find_None_iff appointment_key_def)
  ultimately have replay: "replayAggregateCreateTx env' db'' salonID u' req
      = map_sum id Some (loadAuthoritativeInternalResultTx env' db'' salonID u' ?p ?a)"
    using may by (auto simp: replayAggregateCreateTx_def event(3))
  have "map (\<lambda>child. child\<lparr>isr_ResourceAllocations := []\<rparr>) (scanned_children db'' salonID rows)
      = map (\<lambda>child. child\<lparr>isr_ResourceAllocations := []\<rparr>) (scanned_children db' salonID rows)" for rows
    by (simp add: scanned_children_def scan_plan_child_def)
  moreover have "scanned_children db'' salonID = scanned_children db' salonID"
    if "pool_name db'' salonID = pool_name db' salonID"
    using that by (simp add: scanned_children_def [abs_def] scan_plan_child_def [abs_def] joined_allocations_def)
  ultimately show ?thesis
    using first second [unfolded plan(2)] load
    by (auto simp: CreateAppointment_def replay without_pools_def split: if_splits)
qed simp_all

end
