(* ===== verification/Calendar_Store_Offer.thy ===== *)
theory Calendar_Store_Offer
  imports Calendar_Store_Replay
begin

text \<open>
  An offered slot can be booked. What an availability check stores in its quote is read back as the
  plan it offered, and while the calendar does not change the booking of an offered slot commits.
\<close>

section \<open>Dates\<close>

lemma digit_value_SomeD: "digit_value c = Some v \<Longrightarrow> 0 \<le> v \<and> v < 10 \<and> char_of (48 + nat v) = c"
proof -
  assume "digit_value c = Some v"
  then have "48 \<le> int (of_char c)" "int (of_char c) \<le> 57" "v = int (of_char c) - 48"
    by (auto simp: digit_value_def Let_def split: if_splits)
  moreover from this have "48 + nat v = of_char c" by (simp add: nat_diff_distrib)
  ultimately show ?thesis by simp
qed

lemma appendInt_digits:
  "digits_value 0 xs = Some v \<Longrightarrow> xs \<noteq> [] \<Longrightarrow> 0 \<le> v \<and> appendInt (nat v) (length xs) = xs"
proof (induction xs arbitrary: v rule: rev_induct)
  case (snoc c xs)
  obtain u d where u: "digits_value 0 xs = Some u" and d: "digit_value c = Some d" "v = 10 * u + d"
    using snoc.prems(1) by (auto simp: digits_value_append split: option.splits)
  note c = digit_value_SomeD [OF d(1)]
  show ?case
  proof (cases "xs = []")
    case True
    with u c d(2) show ?thesis by (simp add: appendInt.simps [of "nat d" "Suc 0"] nat_less_iff)
  next
    case False
    have ih: "0 \<le> u" "appendInt (nat u) (length xs) = xs" using snoc.IH [OF u False] by simp_all
    have "nat v = 10 * nat u + nat d" using ih(1) c d(2) by (simp add: nat_add_distrib nat_mult_distrib)
    moreover have "nat d < 10" using c by (simp add: nat_less_iff)
    ultimately have "nat v div 10 = nat u" "nat v mod 10 = nat d" by simp_all
    moreover have "0 \<le> v" using ih(1) c d(2) by simp
    ultimately show ?thesis using False ih(2) c
      by (subst appendInt.simps) simp
  qed
qed simp

lemma digits_of_slice:
  assumes "digits_value 0 xs = Some v" "length xs = n" "0 < n"
  shows "0 \<le> v \<and> appendInt (nat v) n = xs"
  using appendInt_digits [OF assms(1)] assms(2,3) by auto

lemma format_parse_date:
  assumes "parse_date s = Some c"
  shows "format_date c = s"
proof -
  obtain y m d where s: "length s = 10" "s ! 4 = CHR ''-''" "s ! 7 = CHR ''-''"
    "digits_value 0 (take 4 s) = Some y" "digits_value 0 (take 2 (drop 5 s)) = Some m"
    "digits_value 0 (drop 8 s) = Some d" "c = (y, m, d)"
    using assms by (auto simp: parse_date_def split: if_splits option.splits)
  have "appendInt (nat y) 4 = take 4 s" "0 \<le> y" "appendInt (nat m) 2 = take 2 (drop 5 s)"
    "appendInt (nat d) 2 = drop 8 s"
    using digits_of_slice [OF s(4), of 4] digits_of_slice [OF s(5), of 2] digits_of_slice [OF s(6), of 2] s(1)
    by simp_all
  moreover have "s = take 4 s @ [s ! 4] @ take 2 (drop 5 s) @ [s ! 7] @ drop 8 s"
    using s(1)
    by (intro nth_equalityI) (auto simp: nth_append less_Suc_eq numeral_eq_Suc)
  ultimately show ?thesis unfolding s(7) format_date_def using s(2,3) by simp
qed

lemma strictLocalMinute_date:
  assumes "strictLocalMinute date m location = Some t" "m < 1440"
  shows "local_civil location t = date"
proof -
  have single: "P t" if "filter P xs = [t]" for P and xs :: "gotime list"
    using that by (metis Cons_eq_filterD)
  have member: "P t" if "(case filter P xs of [x] \<Rightarrow> Some x | _ \<Rightarrow> None) = Some t" for P xs
    using that by (auto split: list.splits intro: single)
  show ?thesis
    using assms
    by (auto simp: strictLocalMinute_def strictLocalInstant_def Let_def split: if_splits dest!: member)
qed

section \<open>The segments of an offered slot\<close>

text \<open>
  What the loaders guarantee about the configuration of a salon, whose parts are read from the same
  tables: identifiers are keys, a policy names its pools and its staff as their own rows do, and the
  time zone carries no blanks.
\<close>

definition catalog_ok :: "Aggregate \<Rightarrow> bool" where
  "catalog_ok row \<longleftrightarrow>
     distinct (map (\<lambda>policy. sv_ID (vp_Service policy)) (agg_ServicePolicies row))
     \<and> distinct (map (\<lambda>profile. sf_ID (sp_Staff profile)) (agg_StaffProfiles row))
     \<and> distinct (map rp_ID (agg_Resources row))
     \<and> TrimSpace (agg_Timezone row) = agg_Timezone row
     \<and> list_all (\<lambda>policy.
          distinct (map rq_ResourcePoolID (vp_ResourceRequirements policy))
          \<and> list_all (\<lambda>requirement. list_ex (\<lambda>pool. rp_ID pool = rq_ResourcePoolID requirement
                \<and> rp_Name pool = rq_ResourceName requirement) (agg_Resources row))
              (vp_ResourceRequirements policy)
          \<and> list_all (\<lambda>staff. list_all (\<lambda>profile. sf_ID (sp_Staff profile) = sf_ID staff \<longrightarrow>
                sp_Staff profile = staff) (agg_StaffProfiles row)) (vp_EligibleStaff policy))
        (agg_ServicePolicies row)"

text \<open>How a planned segment serves a requested one.\<close>

definition serves :: "Aggregate \<Rightarrow> normalizedAvailabilitySegment \<Rightarrow> InternalAvailabilitySegment \<Rightarrow> bool" where
  "serves aggregate requested segment \<longleftrightarrow> (\<exists>policy profile staff window.
     policy \<in> set (agg_ServicePolicies aggregate) \<and> sv_ID (vp_Service policy) = nas_ServiceID requested
     \<and> segment_request_valid (index_by (\<lambda>policy. sv_ID (vp_Service policy))
         (agg_ServicePolicies aggregate)) requested
     \<and> index_by (\<lambda>policy. sv_ID (vp_Service policy)) (agg_ServicePolicies aggregate)
         (nas_ServiceID requested) = Some policy
     \<and> profile \<in> set (agg_StaffProfiles aggregate) \<and> sf_ID (sp_Staff profile) = sf_ID staff
     \<and> staff \<in> set (vp_EligibleStaff policy) \<and> eligibleStaff staff
     \<and> (nas_StaffSelectionMode requested = StaffSelectionSpecific \<longrightarrow> sf_ID staff = nas_StaffID requested)
     \<and> segment = candidate_segment policy requested window (sf_ID staff) profile)"

lemma schedule_requests:
  "segment_schedule ctx requests guestNext = Some sched \<Longrightarrow>
     list_all2 (\<lambda>r (policy, requested, w). requested = r \<and> ctx_policies ctx (nas_ServiceID r) = Some policy)
       requests sched"
  by (induction requests arbitrary: guestNext sched) (auto split: option.splits)

lemma staffed_serves:
  assumes "ctx = plan_context snapshot aggregate config date location m"
    "ctx_policies ctx (nas_ServiceID r) = Some policy" "staff_ok ctx (policy, r, w) staffID"
    "segment_request_valid (index_by (\<lambda>policy. sv_ID (vp_Service policy)) (agg_ServicePolicies aggregate)) r"
  shows "serves aggregate r (staffed_segment ctx (policy, r, w) staffID)"
proof -
  have ctx: "ctx_policies ctx = index_by (\<lambda>policy. sv_ID (vp_Service policy)) (agg_ServicePolicies aggregate)"
    "ctx_profiles ctx = index_by (\<lambda>profile. sf_ID (sp_Staff profile)) (agg_StaffProfiles aggregate)"
    by (simp_all add: assms(1) plan_context_def Let_def)
  obtain profile where profile: "ctx_profiles ctx staffID = Some profile"
    using assms(3) by (auto simp: staff_ok_def split: option.splits)
  obtain staff where staff: "staff \<in> set (vp_EligibleStaff policy)" "staffID = sf_ID staff"
    "eligibleStaff staff"
    "nas_StaffSelectionMode r = StaffSelectionSpecific \<longrightarrow> sf_ID staff = nas_StaffID r"
    using assms(3) by (auto simp: staff_ok_def eligibleStaffIDs_def split: option.splits)
  have "policy \<in> set (agg_ServicePolicies aggregate) \<and> sv_ID (vp_Service policy) = nas_ServiceID r"
    "profile \<in> set (agg_StaffProfiles aggregate) \<and> sf_ID (sp_Staff profile) = staffID"
    using assms(2) profile unfolding ctx by (blast dest: index_by_SomeD)+
  then show ?thesis
    unfolding serves_def
    by (intro exI [of _ policy] exI [of _ profile] exI [of _ staff] exI [of _ w])
      (use staff assms(2,4) profile in \<open>simp add: staffed_segment_def ctx\<close>)
qed

lemma offered_serves:
  assumes plan: "planAggregateAvailability LoadLocation snapshot req now = Inr slots" "slot \<in> set slots"
    and inputs: "planner_inputs LoadLocation snapshot req aggregate config location date"
  obtains m where "m < 1440" "strictLocalMinute date m location = Some (isl_StartTime slot)"
    "list_all2 (serves aggregate) (nar_Segments req) (isl_Segments slot)"
    "resourcesFit snapshot (isl_Segments slot)" "nar_Segments req \<noteq> []"
    "slot = slot_of_plan (isl_StartTime slot) (isl_Segments slot)"
proof (rule planner_ok [OF plan(1)], goal_cases)
  case (1 aggregate' config' location' date')
  have eq: "aggregate' = aggregate" "config' = config" "location' = location" "date' = date"
    using 1(2) inputs by (auto simp: planner_inputs_def)
  have within: "within_horizon config location now date" using 1(6) plan(2) by (cases slots) (auto simp: eq)
  have step: "0 < cc_SlotStepMinutes config" using 1(4) by (simp add: planner_ready_def eq)
  have "slot \<in> set (List.map_filter
      (try_slot snapshot aggregate config (nar_Segments req) date location now)
      (grid 0 (cc_SlotStepMinutes config)))"
    using 1(8) within plan(2) by (auto simp: eq dest: in_set_takeD)
  then obtain m where m: "m \<in> set (grid 0 (cc_SlotStepMinutes config))"
    "try_slot snapshot aggregate config (nar_Segments req) date location now m = Some slot"
    by (auto simp: set_map_filter)
  let ?ctx = "plan_context snapshot aggregate config date location m"
  have t: "strictLocalMinute date m location = Some (isl_StartTime slot)"
    "slot = slot_of_plan (isl_StartTime slot) (isl_Segments slot)"
    "assignAggregateSegments ?ctx (nar_Segments req) [] Map.empty = Some (isl_Segments slot)"
    using m(2) by (auto simp: try_slot_def split: option.splits if_splits)
  then obtain sched staffs where s:
    "segment_schedule ?ctx (nar_Segments req) Map.empty = Some sched"
    "list_all2 (staff_ok ?ctx) sched staffs"
    "isl_Segments slot = map2 (staffed_segment ?ctx) sched staffs"
    "resourcesFit snapshot (isl_Segments slot)"
    using assign_sound [of ?ctx "nar_Segments req" "[]" Map.empty] 1(5) by auto
  have "list_all2 (serves aggregate) (nar_Segments req) (isl_Segments slot)"
    unfolding s(3)
  proof (rule list_all2_all_nthI)
    note len = list_all2_lengthD [OF schedule_requests [OF s(1)]] list_all2_lengthD [OF s(2)]
    show "length (nar_Segments req) = length (map2 (staffed_segment ?ctx) sched staffs)"
      using len by simp
    fix i assume i: "i < length (nar_Segments req)"
    obtain policy w where sched: "sched ! i = (policy, nar_Segments req ! i, w)"
      "ctx_policies ?ctx (nas_ServiceID (nar_Segments req ! i)) = Some policy"
      using list_all2_nthD [OF schedule_requests [OF s(1)] i] by (cases "sched ! i") auto
    have "staff_ok ?ctx (policy, nar_Segments req ! i, w) (staffs ! i)"
      using list_all2_nthD [OF s(2), of i] i len sched by simp
    moreover have "segment_request_valid (index_by (\<lambda>policy. sv_ID (vp_Service policy))
        (agg_ServicePolicies aggregate)) (nar_Segments req ! i)"
      using 1(7) within i by (simp add: eq list_all_length)
    ultimately have "serves aggregate (nar_Segments req ! i)
        (staffed_segment ?ctx (policy, nar_Segments req ! i, w) (staffs ! i))"
      using staffed_serves [OF refl sched(2)] by blast
    then show "serves aggregate (nar_Segments req ! i) (map2 (staffed_segment ?ctx) sched staffs ! i)"
      using i len sched(1) by simp
  qed
  then show ?case using 1(1) [of m] m(1) t s(4) 1(5) by (simp add: grid_iff [OF step])
qed

section \<open>Reading a quote back\<close>

definition unit_ok :: "normalizedAvailabilitySegment \<Rightarrow> bool" where
  "unit_ok requested \<longleftrightarrow> nas_Quantity requested = 1
     \<and> (nas_StaffSelectionMode requested = StaffSelectionSpecific
        \<or> nas_StaffSelectionMode requested = StaffSelectionAnyone \<and> nas_StaffID requested = [])"

lemma normalized_unit_ok: "expand_segments uuid_ok raws = Inr segments \<Longrightarrow> list_all unit_ok segments"
  by (induction raws arbitrary: segments)
    (auto simp: expand_segment_def unit_ok_def normalized_unit_def Let_def list_all_iff
      split: sum.splits if_splits)

lemma normalizeAggregate_ok:
  assumes "normalizeAggregateAvailabilityRequest uuid_ok req = Inr normalized"
  shows "list_all unit_ok (nar_Segments normalized)" "nar_Segments normalized \<noteq> [] \<Longrightarrow>
      nar_ServiceID normalized = nas_ServiceID (hd (nar_Segments normalized))
      \<and> nar_StaffID normalized = nas_StaffID (hd (nar_Segments normalized))
      \<and> nar_StaffSelectionMode normalized = nas_StaffSelectionMode (hd (nar_Segments normalized))"
  using assms
  by (auto simp: normalizeAggregateAvailabilityRequest_def Let_def split: if_splits sum.splits
      dest: normalized_unit_ok)

lemma find_keyed:
  assumes "distinct (map f xs)" "x \<in> set xs"
  shows "find (\<lambda>y. f y = f x) xs = Some x"
  by (rule find_unique [OF assms]) auto

lemma joined_allocations_back:
  assumes "sorted (map ira_ResourcePoolID as)"
    "\<And>a. a \<in> set as \<Longrightarrow> pool_name db salonID (ira_ResourcePoolID a) = Some (ira_ResourceName a)"
  shows "joined_allocations db salonID
    (map (\<lambda>a. (ira_ResourcePoolID a, ira_UnitsAllocated a)) as) = as"
proof -
  have "List.map_filter (\<lambda>(poolID, units). map_option (\<lambda>name. \<lparr>ira_ResourcePoolID = poolID,
      ira_ResourceName = name, ira_UnitsAllocated = units\<rparr>) (pool_name db salonID poolID))
      (map (\<lambda>a. (ira_ResourcePoolID a, ira_UnitsAllocated a)) as) = as"
    using assms(2) by (induction as) (simp_all add: map_filter_simps)
  moreover have "sorted (map fst (map (\<lambda>a. (ira_ResourcePoolID a, ira_UnitsAllocated a)) as))"
    using assms(1) by (simp add: comp_def)
  ultimately show ?thesis
    unfolding joined_allocations_def by (simp only: sort_key_id_if_sorted)
qed

text \<open>A planned segment that was stored in a quote, read back.\<close>

definition stored_segment ::
  "StoreEnv \<Rightarrow> CalendarDB \<Rightarrow> string \<Rightarrow> nat \<Rightarrow> nat \<times> InternalAvailabilitySegment \<Rightarrow> quotedAggregateSegment"
  where "stored_segment env db salonID k x = scan_quoted_segment db salonID (quote_segment_row env k x)"

lemma stored_simps [simp]:
  "qs_ServiceID (stored_segment env db salonID k (i, s)) = ias_ServiceID s"
  "qs_StaffID (stored_segment env db salonID k (i, s)) = ias_StaffID s"
  "qs_StaffSelectionMode (stored_segment env db salonID k (i, s)) = ias_StaffSelectionMode s"
  "qs_GuestReference (stored_segment env db salonID k (i, s)) = ias_GuestReference s"
  "qs_SortOrder (stored_segment env db salonID k (i, s)) = int i + 1"
  "qs_StartTime (stored_segment env db salonID k (i, s)) = ias_StartTime s"
  "qs_EndTime (stored_segment env db salonID k (i, s)) = ias_EndTime s"
  by (simp_all add: stored_segment_def scan_quoted_segment_def quote_segment_row_def)

lemma stored_allocations:
  assumes "calendar_row db salonID = Some row" "catalog_ok row" "agg_ServicePolicies aggregate = agg_ServicePolicies row"
    and "serves aggregate r s"
  shows "qs_ResourceAllocations (stored_segment env db salonID k (i, s)) = ias_ResourceAllocations s"
    "\<And>a. a \<in> set (ias_ResourceAllocations s) \<Longrightarrow> \<exists>pool \<in> set (agg_Resources row). rp_ID pool = ira_ResourcePoolID a"
proof -
  obtain policy where policy: "policy \<in> set (agg_ServicePolicies row)"
    "ias_ResourceAllocations s = segment_allocations policy"
    using assms(3,4) by (auto simp: serves_def candidate_segment_def)
  have pools: "\<exists>pool \<in> set (agg_Resources row). rp_ID pool = ira_ResourcePoolID a
      \<and> rp_Name pool = ira_ResourceName a" if "a \<in> set (segment_allocations policy)" for a
    using that assms(2) policy(1)
    by (fastforce simp: catalog_ok_def list_all_iff list_ex_iff segment_allocations_def)
  then show "\<And>a. a \<in> set (ias_ResourceAllocations s) \<Longrightarrow>
      \<exists>pool \<in> set (agg_Resources row). rp_ID pool = ira_ResourcePoolID a"
    unfolding policy(2) by blast
  have "pool_name db salonID (ira_ResourcePoolID a) = Some (ira_ResourceName a)"
    if a: "a \<in> set (segment_allocations policy)" for a
  proof -
    obtain pool where pool: "pool \<in> set (agg_Resources row)" "rp_ID pool = ira_ResourcePoolID a"
      "rp_Name pool = ira_ResourceName a" using pools [OF a] by blast
    have "distinct (map rp_ID (agg_Resources row))" using assms(2) by (simp add: catalog_ok_def)
    from find_keyed [OF this pool(1)] show ?thesis using pool by (simp add: pool_name_def assms(1))
  qed
  moreover have "sorted (map ira_ResourcePoolID (segment_allocations policy))"
    by (simp add: segment_allocations_def)
  ultimately have "joined_allocations db salonID (map (\<lambda>a. (ira_ResourcePoolID a, ira_UnitsAllocated a))
      (segment_allocations policy)) = segment_allocations policy"
    by (rule joined_allocations_back [rotated])
  then show "qs_ResourceAllocations (stored_segment env db salonID k (i, s)) = ias_ResourceAllocations s"
    unfolding policy(2) [symmetric]
    by (simp add: stored_segment_def scan_quoted_segment_def quote_segment_row_def plan_allocations_def
        comp_def)
qed

lemma stored_planned:
  assumes row: "calendar_row db salonID = Some row" and ok: "catalog_ok row"
    and same: "agg_ServicePolicies aggregate = agg_ServicePolicies row"
      "agg_StaffProfiles aggregate = agg_StaffProfiles row"
    and s: "serves aggregate r s" and r: "unit_ok r"
  shows "planned_of_quoted aggregate (stored_segment env db salonID k (i, s)) = s"
    "quoted_segment_request (stored_segment env db salonID k (i, s)) = r"
proof -
  obtain policy profile window and staff :: StaffRef where p: "policy \<in> set (agg_ServicePolicies row)"
    "sv_ID (vp_Service policy) = nas_ServiceID r" "profile \<in> set (agg_StaffProfiles row)"
    "sf_ID (sp_Staff profile) = sf_ID staff"
    "nas_StaffSelectionMode r = StaffSelectionSpecific \<longrightarrow> sf_ID staff = nas_StaffID r"
    "s = candidate_segment policy r window (sf_ID staff) profile"
    using s unfolding serves_def same by blast
  have keys: "distinct (map (\<lambda>policy. sv_ID (vp_Service policy)) (agg_ServicePolicies row))"
    "distinct (map (\<lambda>profile. sf_ID (sp_Staff profile)) (agg_StaffProfiles row))"
    using ok by (simp_all add: catalog_ok_def)
  have "serviceName aggregate (ias_ServiceID s) = ias_ServiceName s"
    "staffName aggregate (ias_StaffID s) = ias_StaffName s"
    using find_keyed [OF keys(1) p(1)] find_keyed [OF keys(2) p(3)]
    by (simp_all add: serviceName_def staffName_def same p(4,6) candidate_segment_def)
  then show "planned_of_quoted aggregate (stored_segment env db salonID k (i, s)) = s"
    using stored_allocations(1) [OF row ok same(1) s, of env k i]
    unfolding planned_of_quoted_def stored_simps
    by (cases s) (simp add: p(6) candidate_segment_def stored_segment_def scan_quoted_segment_def
        quote_segment_row_def)
  show "quoted_segment_request (stored_segment env db salonID k (i, s)) = r"
    using r p(2,5)
    by (cases r) (auto simp: quoted_segment_request_def p(6) candidate_segment_def unit_ok_def
        StaffSelectionSpecific_def StaffSelectionAnyone_def)
qed

section \<open>An availability check that offers something\<close>

text \<open>A check for a booking or for the reschedule of \<open>target\<close>, whose quote is for \<open>subject\<close>.\<close>

definition quote_fingerprint ::
  "StoreEnv \<Rightarrow> executionFence \<Rightarrow> QuoteSubject \<Rightarrow> string \<Rightarrow> normalizedAvailabilityRequest \<Rightarrow> string" where
  "quote_fingerprint env fence subject target normalized =
     (if target \<noteq> []
      then st_LifecycleRequestHash env (qt_AuthorityVersion subject) (fe_ConfigVersion fence) target
        (qt_TargetVersion subject) normalized
      else st_RequestHash env (qt_AuthorityVersion subject) (fe_ConfigVersion fence) normalized)"

lemma check_offers_any:
  assumes "CheckAvailability_store env salonID u req now db = (Inr result, db')" "ares_Slots result \<noteq> []"
  obtains normalized fence aggregate subject windowStart windowEnd planned slots where
    "normalizeAggregateAvailabilityRequest (st_UUIDParse env) (req\<lparr>ar_TargetAppointmentID := []\<rparr>)
       = Inr normalized"
    "lockExecutionFence env db salonID u = Inr fence"
    "fe_ActivatedVersion fence = fe_ConfigVersion fence"
    "TrimSpace (ar_TargetAppointmentID req) \<noteq> []
       \<or> fe_Authority fence = SchedulingAuthorityManleAICalendar"
    "loadAggregate env db salonID u = Inr aggregate"
    "quote_subject env db salonID u fence aggregate normalized (TrimSpace (ar_TargetAppointmentID req)) now
       = Inr subject"
    "localDateWindow env (nar_PreferredDate normalized) (fe_Timezone fence) = Inr (windowStart, windowEnd)"
    "planAggregateAvailability (st_LoadLocation env) (calendar_snapshot env db salonID aggregate windowStart
       windowEnd (TrimSpace (ar_TargetAppointmentID req))) normalized now = Inr planned"
    "slots = map (fingerprinted_slot env (quote_fingerprint env fence subject
       (TrimSpace (ar_TargetAppointmentID req)) normalized)) planned"
    "db' = db\<lparr>cd_Quotes := cd_Quotes db @ [new_quote env salonID fence subject
       (TrimSpace (ar_TargetAppointmentID req)) normalized (quote_fingerprint env fence subject
         (TrimSpace (ar_TargetAppointmentID req)) normalized) slots now]\<rparr>"
    "ares_QuoteID result = st_UUID env [0]" "ares_Slots result = aggregateAvailabilitySlots slots"
    "ares_Timezone result = agg_Timezone aggregate"
proof -
  let ?target = "TrimSpace (ar_TargetAppointmentID req)"
  obtain normalized fence aggregate subject windowStart windowEnd planned where c:
    "normalizeAggregateAvailabilityRequest (st_UUIDParse env) (req\<lparr>ar_TargetAppointmentID := []\<rparr>)
       = Inr normalized"
    "lockExecutionFence env db salonID u = Inr fence"
    "fe_ActivatedVersion fence = fe_ConfigVersion fence"
    "?target \<noteq> [] \<or> fe_Authority fence = SchedulingAuthorityManleAICalendar"
    "loadAggregate env db salonID u = Inr aggregate"
    "quote_subject env db salonID u fence aggregate normalized ?target now = Inr subject"
    "localDateWindow env (nar_PreferredDate normalized) (fe_Timezone fence) = Inr (windowStart, windowEnd)"
    "planAggregateAvailability (st_LoadLocation env)
       (calendar_snapshot env db salonID aggregate windowStart windowEnd ?target) normalized now = Inr planned"
    "store_quote env db salonID fence subject ?target normalized aggregate planned now = (Inr result, db')"
    using assms(1) unfolding CheckAvailability_store_def Let_def
    by (auto split: sum.splits if_splits prod.splits)
  have "planned \<noteq> []"
  proof
    assume "planned = []"
    with c(9) have "ares_Slots result = []"
      by (auto simp: store_quote_def aggregateAvailabilityResult_def aggregateAvailabilitySlots_def Let_def)
    with assms(2) show False ..
  qed
  then show thesis
    using c(9) that [OF c(1-8) refl]
    by (auto simp: store_quote_def commit_def Let_def new_quote_def aggregateAvailabilityResult_def
        quote_fingerprint_def split: option.splits)
qed

abbreviation booking_subject :: "executionFence \<Rightarrow> QuoteSubject" where
  "booking_subject fence \<equiv> \<lparr>qt_OperationType = BookingActionBook,
     qt_AuthorityVersion = fe_AuthorityVersion fence, qt_TargetVersion = 0\<rparr>"

lemma check_offers:
  assumes "CheckAvailability_store env salonID u req now db = (Inr result, db')"
    "TrimSpace (ar_TargetAppointmentID req) = []" "ares_Slots result \<noteq> []"
  obtains normalized fence aggregate windowStart windowEnd planned slots quote where
    "normalizeAggregateAvailabilityRequest (st_UUIDParse env) (req\<lparr>ar_TargetAppointmentID := []\<rparr>)
       = Inr normalized"
    "lockExecutionFence env db salonID u = Inr fence"
    "fe_ActivatedVersion fence = fe_ConfigVersion fence"
    "fe_Authority fence = SchedulingAuthorityManleAICalendar"
    "loadAggregate env db salonID u = Inr aggregate"
    "localDateWindow env (nar_PreferredDate normalized) (fe_Timezone fence) = Inr (windowStart, windowEnd)"
    "planAggregateAvailability (st_LoadLocation env)
       (calendar_snapshot env db salonID aggregate windowStart windowEnd []) normalized now = Inr planned"
    "slots = map (fingerprinted_slot env (st_RequestHash env (fe_AuthorityVersion fence)
       (fe_ConfigVersion fence) normalized)) planned"
    "quote = new_quote env salonID fence (booking_subject fence) [] normalized
       (st_RequestHash env (fe_AuthorityVersion fence) (fe_ConfigVersion fence) normalized) slots now"
    "db' = db\<lparr>cd_Quotes := cd_Quotes db @ [quote]\<rparr>" "ares_QuoteID result = st_UUID env [0]"
    "ares_Slots result = aggregateAvailabilitySlots slots" "ares_Timezone result = agg_Timezone aggregate"
proof (rule check_offers_any [OF assms(1,3)], unfold assms(2), goal_cases)
  case (1 normalized fence aggregate subject windowStart windowEnd planned slots)
  then have "subject = booking_subject fence" by (simp add: quote_subject_def)
  with 1 show ?case
    by (intro that [of normalized fence aggregate windowStart windowEnd planned slots])
      (simp_all add: quote_fingerprint_def)
qed

lemma plan_later:
  assumes plan: "planAggregateAvailability LoadLocation snapshot req now = Inr slots" "slot \<in> set slots"
    and inputs: "planner_inputs LoadLocation snapshot req aggregate config location date"
    and later: "within_horizon config location now' date" "minimum_start config now' \<le> isl_StartTime slot"
  shows "\<exists>slots'. planAggregateAvailability LoadLocation snapshot (req\<lparr>nar_Limit := -1\<rparr>) now' = Inr slots'
    \<and> slot \<in> set slots'"
proof (rule planner_ok [OF plan(1)], goal_cases)
  case (1 aggregate' config' location' date')
  have eq: "aggregate' = aggregate" "config' = config" "location' = location" "date' = date"
    using 1(1) inputs by (auto simp: planner_inputs_def)
  have agg: "snap_Aggregate snapshot = Some aggregate" "agg_Config aggregate = Some config"
    "LoadLocation (TrimSpace (agg_Timezone aggregate)) = Some location"
    "parse_date (nar_PreferredDate req) = Some date"
    using inputs by (simp_all add: planner_inputs_def)
  have within: "within_horizon config location now date" using 1(5) plan(2) by (cases slots) (auto simp: eq)
  have step: "0 < cc_SlotStepMinutes config" using 1(3) by (simp add: planner_ready_def eq)
  have party: "\<not> (cc_MaxPartySize config > 0
      \<and> (if nar_PartySize req \<le> 0 then 1 else nar_PartySize req) > cc_MaxPartySize config)"
    "TrimSpace (nar_PreferredDate req) \<noteq> []"
    using plan(1) within 1(2-4)
    unfolding planAggregateAvailability_def agg option.case Let_def
    by (auto simp: eq simp flip: horizon_check split: if_splits)
  have "slot \<in> set (List.map_filter (try_slot snapshot aggregate config (nar_Segments req) date location now)
      (grid 0 (cc_SlotStepMinutes config)))"
    using 1(7) within plan(2) by (auto simp: eq dest: in_set_takeD)
  then obtain m where m: "m \<in> set (grid 0 (cc_SlotStepMinutes config))"
    "try_slot snapshot aggregate config (nar_Segments req) date location now m = Some slot"
    by (auto simp: set_map_filter)
  then have "try_slot snapshot aggregate config (nar_Segments req) date location now' m = Some slot"
    using later(2) by (auto simp: try_slot_def split: option.splits if_splits)
  with m(1) have "slot \<in> set (List.map_filter (try_slot snapshot aggregate config (nar_Segments req) date
      location now') (grid 0 (cc_SlotStepMinutes config)))" by (auto simp: set_map_filter)
  moreover have "planAggregateAvailability LoadLocation snapshot (req\<lparr>nar_Limit := -1\<rparr>) now'
      = Inr (take 1440 (List.map_filter (try_slot snapshot aggregate config (nar_Segments req) date
          location now') (grid 0 (cc_SlotStepMinutes config))))"
    unfolding planAggregateAvailability_def
    using 1(2-4,6) later(1) within party step
    by (simp add: agg eq Let_def plan_slots_grid plan_limit_def split: if_splits flip: horizon_check)
  ultimately show ?case
    using length_map_filter_grid [OF step, of "try_slot snapshot aggregate config (nar_Segments req) date
          location now'"] by simp
qed

section \<open>The stored quote\<close>

lemma stored_segments:
  "map (scan_quoted_segment db salonID) (sort_key ps_SortOrder
       (map (quote_segment_row env k) (enumerate 0 segments)))
     = map (stored_segment env db salonID k) (enumerate 0 segments)"
proof -
  have "map ps_SortOrder (map (quote_segment_row env k) (enumerate n xs))
      = map (\<lambda>i. int i + 1) [n..<n + length xs]" for n and xs :: "InternalAvailabilitySegment list"
    by (induction xs arbitrary: n) (simp_all add: quote_segment_row_def upt_conv_Cons del: upt_Suc)
  moreover have "sorted (map (\<lambda>i. int i + 1) [n..<m])" for n m
    by (induction m) (auto simp: sorted_append)
  ultimately have "sorted (map ps_SortOrder (map (quote_segment_row env k) (enumerate 0 segments)))"
    by simp
  then show ?thesis by (simp add: sort_key_id_if_sorted stored_segment_def [abs_def] comp_def)
qed

lemma find_slot:
  assumes "slot \<in> set slots" "\<And>x y. x \<in> set slots \<Longrightarrow> y \<in> set slots \<Longrightarrow> isl_Fingerprint x = isl_Fingerprint y \<Longrightarrow> R x y"
  shows "\<exists>k x. find (\<lambda>row. qsl_SlotFingerprint row = isl_Fingerprint slot)
      (map (quote_slot_row env) (enumerate n slots)) = Some (quote_slot_row env (k, x)) \<and> R x slot"
  using assms
proof (induction slots arbitrary: n)
  case (Cons a slots)
  show ?case
  proof (cases "isl_Fingerprint a = isl_Fingerprint slot")
    case True
    with Cons.prems have "R a slot" by simp
    with True show ?thesis by (auto simp: quote_slot_row_def intro!: exI [of _ n] exI [of _ a])
  next
    case False
    with Cons.prems have "slot \<in> set slots" by auto
    from Cons.IH [OF this, of "Suc n"] Cons.prems(2) False show ?thesis
      by (auto simp: quote_slot_row_def)
  qed
qed simp

lemma zipped_segments:
  assumes "list_all2 P requests segments"
    and "\<And>i r s. P r s \<Longrightarrow> r \<in> set requests \<Longrightarrow> f (g (i, s)) = s \<and> h (g (i, s)) = r"
  shows "map f (map g (enumerate n segments)) = segments" "map h (map g (enumerate n segments)) = requests"
  using assms by (induction requests segments arbitrary: n rule: list_all2_induct) auto

lemma quote_read_back:
  assumes check: "planned_slot \<in> set planned"
    and slots: "slots = map (fingerprinted_slot env rf) planned"
    and quote: "quote = new_quote env salonID fence subject target normalized rf slots now"
    and db': "db' = db\<lparr>cd_Quotes := cd_Quotes db @ [quote]\<rparr>"
    and fresh: "st_UUID env [0] \<notin> qr_ID ` set (cd_Quotes db)" and exact: "slot_hash_exact env"
    and row: "calendar_row db salonID = Some row" and ok: "catalog_ok row"
    and same: "agg_ServicePolicies aggregate = agg_ServicePolicies row"
      "agg_StaffProfiles aggregate = agg_StaffProfiles row"
    and serves: "list_all2 (serves aggregate) (nar_Segments normalized) (isl_Segments planned_slot)"
    and units: "list_all unit_ok (nar_Segments normalized)"
  obtains stored k where
    "lockQuotedAggregateSlot db' salonID (st_UUID env [0])
       (aggregateAvailabilitySlotFingerprint env rf planned_slot) = Inr stored"
    "qu_Segments stored = map (stored_segment env db' salonID k) (enumerate 0 (isl_Segments planned_slot))"
    "map (planned_of_quoted aggregate) (qu_Segments stored) = isl_Segments planned_slot"
    "map quoted_segment_request (qu_Segments stored) = nar_Segments normalized"
    "qu_StartTime stored = isl_StartTime planned_slot" "qu_EndTime stored = isl_EndTime planned_slot"
    "qu_QuoteID stored = st_UUID env [0]" "qu_RequestFingerprint stored = rf"
    "qu_SlotFingerprint stored = aggregateAvailabilitySlotFingerprint env rf planned_slot"
    "qu_ExpiresAt stored = now + internalAvailabilityQuoteTTL" "qu_ConsumedAt stored = None"
    "qu_ConsumedAttemptID stored = None" "qu_AuthorityVersion stored = qt_AuthorityVersion subject"
    "qu_ConfigVersion stored = fe_ConfigVersion fence" "qu_OperationType stored = qt_OperationType subject"
    "qu_PartySize stored = nar_PartySize normalized" "qu_TargetAppointmentID stored = target"
proof -
  let ?fp = "aggregateAvailabilitySlotFingerprint env rf planned_slot"
  have found: "find_quote db' salonID (st_UUID env [0]) = Some quote"
    using fresh find_fresh(1) [of "st_UUID env [0]" qr_ID "cd_Quotes db" "\<lambda>_. True"]
      find_fresh(2) [of "st_UUID env [0]" qr_ID "cd_Quotes db" "\<lambda>_. True"]
    by (simp add: find_quote_def db' find_append quote new_quote_def)
  have fingerprint: "isl_Fingerprint x = aggregateAvailabilitySlotFingerprint env rf x" if "x \<in> set slots" for x
    using that by (auto simp: slots fingerprinted_slot_def aggregateAvailabilitySlotFingerprint_def)
  have "\<exists>k x. find (\<lambda>row. qsl_SlotFingerprint row = isl_Fingerprint (fingerprinted_slot env rf planned_slot))
      (qr_Slots quote) = Some (quote_slot_row env (k, x))
      \<and> (isl_StartTime x = isl_StartTime (fingerprinted_slot env rf planned_slot)
        \<and> isl_EndTime x = isl_EndTime (fingerprinted_slot env rf planned_slot)
        \<and> isl_Segments x = isl_Segments (fingerprinted_slot env rf planned_slot)
        \<and> isl_Fingerprint x = isl_Fingerprint (fingerprinted_slot env rf planned_slot))"
    unfolding quote new_quote_def QuoteRow.simps
  proof (rule find_slot)
    show "fingerprinted_slot env rf planned_slot \<in> set slots" using check by (simp add: slots)
    fix x y assume xy: "x \<in> set slots" "y \<in> set slots" "isl_Fingerprint x = isl_Fingerprint y"
    with exact show "isl_StartTime x = isl_StartTime y \<and> isl_EndTime x = isl_EndTime y
        \<and> isl_Segments x = isl_Segments y \<and> isl_Fingerprint x = isl_Fingerprint y"
      unfolding fingerprint [OF xy(1)] fingerprint [OF xy(2)] aggregateAvailabilitySlotFingerprint_def
        slot_hash_exact_def by blast
  qed
  then obtain k x where x: "find (\<lambda>row. qsl_SlotFingerprint row = ?fp) (qr_Slots quote)
      = Some (quote_slot_row env (k, x))" "isl_StartTime x = isl_StartTime planned_slot"
    "isl_EndTime x = isl_EndTime planned_slot" "isl_Segments x = isl_Segments planned_slot"
    "isl_Fingerprint x = ?fp"
    by (auto simp: fingerprinted_slot_def)
  have row': "calendar_row db' salonID = Some row" using row by (simp add: calendar_row_def db')
  have "planned_of_quoted aggregate (stored_segment env db' salonID k (i, s)) = s
      \<and> quoted_segment_request (stored_segment env db' salonID k (i, s)) = r"
    if "serves aggregate r s" "r \<in> set (nar_Segments normalized)" for i r s
    using stored_planned [OF row' ok same that(1)] that(2) units by (simp add: list_all_iff)
  note readback = zipped_segments [OF serves, where f = "planned_of_quoted aggregate"
      and g = "stored_segment env db' salonID k" and h = quoted_segment_request, OF this]
  define stored where "stored = projr (lockQuotedAggregateSlot db' salonID (st_UUID env [0]) ?fp)"
  note read = stored_def lockQuotedAggregateSlot_def found option.case x(1) sum.sel
  have "lockQuotedAggregateSlot db' salonID (st_UUID env [0]) ?fp = Inr stored"
    unfolding read by simp
  moreover have segments: "qu_Segments stored
      = map (stored_segment env db' salonID k) (enumerate 0 (isl_Segments planned_slot))"
    unfolding read by (simp add: quote_slot_row_def x(4) stored_segments)
  moreover have "qu_StartTime stored = isl_StartTime planned_slot" "qu_EndTime stored = isl_EndTime planned_slot"
    "qu_SlotFingerprint stored = ?fp"
    unfolding read by (simp_all add: quote_slot_row_def x(2,3,5))
  moreover have "qu_QuoteID stored = st_UUID env [0]" "qu_RequestFingerprint stored = rf"
    "qu_ExpiresAt stored = now + internalAvailabilityQuoteTTL" "qu_ConsumedAt stored = None"
    "qu_ConsumedAttemptID stored = None" "qu_AuthorityVersion stored = qt_AuthorityVersion subject"
    "qu_ConfigVersion stored = fe_ConfigVersion fence" "qu_OperationType stored = qt_OperationType subject"
    "qu_PartySize stored = nar_PartySize normalized" "qu_TargetAppointmentID stored = target"
    unfolding read by (simp_all add: quote new_quote_def)
  ultimately show thesis using that [of stored k] readback by (simp only: segments)
qed

lemma snapshot_aggregate [simp]:
  "snap_Aggregate (calendar_snapshot env db salonID aggregate windowStart windowEnd target) = Some aggregate"
  by (simp add: calendar_snapshot_def split: prod.split)

lemma planned_of_quoted_cong:
  assumes "agg_ServicePolicies aggregate = agg_ServicePolicies row"
    "agg_StaffProfiles aggregate = agg_StaffProfiles row"
  shows "planned_of_quoted aggregate = planned_of_quoted row"
  using assms by (simp add: fun_eq_iff planned_of_quoted_def serviceName_def staffName_def)

lemma offered_slots:
  "slot \<in> set (aggregateAvailabilitySlots (map (fingerprinted_slot env rf) planned)) \<Longrightarrow>
     \<exists>p \<in> set planned. aslot_Fingerprint slot = aggregateAvailabilitySlotFingerprint env rf p
       \<and> aslot_StartTime slot = isl_StartTime p \<and> aslot_EndTime slot = isl_EndTime p
       \<and> aslot_Segments slot = availabilitySegmentsFromInternal (isl_Segments p)"
  by (auto simp: aggregateAvailabilitySlots_def fingerprinted_slot_def aggregateAvailabilitySlotFingerprint_def)

text \<open>
  C4: A quote keeps the offer. Every slot of an availability answer, for a new booking or for the
  reschedule of an appointment, can be read back from the database by the quote identifier and the
  slot fingerprint of the answer, with the times and the segments (services, staff, names, guests,
  buffers, occupied ranges, resource allocations) that were offered; the quote is for the operation
  and the target that were asked for, unconsumed, and expires two minutes after the check. Assumed
  are a configuration as its loaders read it (\<open>catalog_ok\<close>: unique identifiers, names
  that agree between its lists), a new quote identifier, and a slot hash without collisions.
\<close>

theorem quote_keeps_the_offer:
  assumes check: "CheckAvailability_store env salonID u req now db = (Inr result, db')"
    and slot: "slot \<in> set (ares_Slots result)"
    and fresh: "st_UUID env [0] \<notin> qr_ID ` set (cd_Quotes db)" and exact: "slot_hash_exact env"
    and row: "calendar_row db salonID = Some row" and ok: "catalog_ok row"
  shows "\<exists>quote. lockQuotedAggregateSlot db' salonID (ares_QuoteID result) (aslot_Fingerprint slot) = Inr quote
    \<and> qu_StartTime quote = aslot_StartTime slot \<and> qu_EndTime quote = aslot_EndTime slot
    \<and> availabilitySegmentsFromInternal (map (planned_of_quoted row) (qu_Segments quote)) = aslot_Segments slot
    \<and> qu_OperationType quote = (if TrimSpace (ar_TargetAppointmentID req) = [] then BookingActionBook
        else BookingActionReschedule)
    \<and> qu_TargetAppointmentID quote = TrimSpace (ar_TargetAppointmentID req)
    \<and> qu_ExpiresAt quote = now + 2 * ns_per_minute \<and> qu_ConsumedAt quote = None
    \<and> qu_ConsumedAttemptID quote = None"
proof -
  let ?target = "TrimSpace (ar_TargetAppointmentID req)"
  have "ares_Slots result \<noteq> []" using slot by auto
  from check_offers_any [OF check this] show ?thesis
  proof (cases, goal_cases)
    case (1 normalized fence aggregate subject windowStart windowEnd planned slots)
    note c = 1
    let ?rf = "quote_fingerprint env fence subject ?target normalized"
    obtain p where p: "p \<in> set planned"
      "aslot_Fingerprint slot = aggregateAvailabilitySlotFingerprint env ?rf p"
      "aslot_StartTime slot = isl_StartTime p" "aslot_EndTime slot = isl_EndTime p"
      "aslot_Segments slot = availabilitySegmentsFromInternal (isl_Segments p)"
      using slot offered_slots unfolding c(12,9) by blast
    note same = loadAggregate_fields(4,7) [OF c(5) row]
    have serves: "list_all2 (serves aggregate) (nar_Segments normalized) (isl_Segments p)"
    proof (rule planner_ok [OF c(8)], goal_cases)
      case (1 aggregate' config location date)
      from 1(1) have "aggregate' = aggregate" by (simp add: planner_inputs_def)
      with 1(1) show ?case by (auto elim: offered_serves [OF c(8) p(1)])
    qed
    have operation: "qt_OperationType subject = (if ?target = [] then BookingActionBook else BookingActionReschedule)"
      using c(6) by (auto simp: quote_subject_def split: if_splits sum.splits)
    show ?case
    proof (rule quote_read_back [OF p(1) c(9) refl c(10) fresh exact row ok same serves
          normalizeAggregate_ok(1) [OF c(1)]], goal_cases)
      case (1 stored k)
      then show ?case
        using p operation unfolding c(11) planned_of_quoted_cong [OF same]
        by (intro exI [of _ stored]) (simp add: internalAvailabilityQuoteTTL_def)
    qed
  qed
qed

section \<open>The booking of an offered slot\<close>

lemma created_result:
  assumes fresh: "fresh_ids env db" and may: "st_MayExecute env salonID u"
    and segments: "qu_Segments quote \<noteq> []"
  shows "\<exists>result. loadAuthoritativeInternalResultTx env
    (created_db env db salonID req quote aggregate now) salonID u (st_UUID env [1]) (st_UUID env [0])
    = Inr result"
proof -
  let ?db = "created_db env db salonID req quote aggregate now"
  let ?attempt = "new_attempt env salonID req quote aggregate now"
  let ?appointment = "new_appointment env salonID req quote now"
  let ?new = "map (plan_segment env salonID (st_UUID env [1]) 1 aggregate now)
      (enumerate 0 (qu_Segments quote))"
  have f: "st_UUID env [0] \<notin> at_ID ` set (cd_Attempts db)"
    "st_UUID env [0] \<notin> ee_BookingAttemptID ` set (cd_Events db)"
    "TrimSpace (st_UUID env [0]) = st_UUID env [0]" "TrimSpace (st_UUID env [1]) = st_UUID env [1]"
    "st_UUID env [1] \<notin> ap_ID ` set (cd_Appointments db)"
    "st_UUID env [1] \<notin> sg_AppointmentID ` set (cd_Segments db)"
    using fresh by (simp_all add: fresh_ids_def fresh_attempt_def)
  define event where "event = last (cd_Events ?db)"
  have event: "cd_Events ?db = cd_Events db @ [event]" "ee_BookingAttemptID event = st_UUID env [0]"
    "ee_AppointmentID event = st_UUID env [1]" "ee_SalonID event = salonID"
    "ee_EventType event = EventAppointmentConfirmed" "ee_AuthorityAppointmentVersion event = 1"
    by (simp_all add: event_def created_db_def)
  have rows: "result_rows env ?db salonID u (st_UUID env [1]) (st_UUID env [0])
      = Some (?attempt, event, ?appointment)"
  proof -
    have "find (\<lambda>attempt. at_SalonID attempt = salonID \<and> at_ID attempt = st_UUID env [0]
        \<and> at_SchedulingAuthority attempt = SchedulingAuthorityManleAICalendar) (cd_Attempts ?db) = Some ?attempt"
      using f by (simp add: created_db_def find_append find_fresh new_attempt_def Let_def)
    then show ?thesis
      using may f event new_attempt_def [of env]
      by (simp add: result_rows_def event find_append find_fresh created_segments(2) Let_def)
  qed
  have old: "filter (\<lambda>s. sg_SalonID s = salonID \<and> sg_AppointmentID s = st_UUID env [1] \<and> P s)
      (cd_Segments db) = []" for P
    using f(6) by (force simp: filter_empty_conv)
  have "filter (\<lambda>s. is_live_plan salonID (st_UUID env [1]) 1 s
        \<and> sg_SchedulingAuthority s = SchedulingAuthorityManleAICalendar) (cd_Segments db) = []"
    using f(6) by (force simp: filter_empty_conv is_live_plan_def)
  moreover have "filter (\<lambda>s. is_live_plan salonID (st_UUID env [1]) 1 s
        \<and> sg_SchedulingAuthority s = SchedulingAuthorityManleAICalendar) ?new = ?new"
    by (auto simp: filter_id_conv is_live_plan_def plan_segment_def)
  ultimately have active: "active_child_count ?db ?appointment = int (length (qu_Segments quote))"
    unfolding active_child_count_def created_segments new_appointment_simps filter_append by simp
  have "filter (\<lambda>s. sg_SalonID s = salonID \<and> sg_AppointmentID s = st_UUID env [1]
        \<and> sg_SchedulingAuthority s = SchedulingAuthorityManleAICalendar \<and> sg_PlanVersion s = 1) (cd_Segments ?db)
      = ?new"
    unfolding created_segments filter_append old by (auto simp: filter_id_conv plan_segment_def)
  then have "length (loadAppointmentPlanResultTx ?db salonID (st_UUID env [1]) 1 []) = length (qu_Segments quote)"
    using f(4) by (simp add: loadAppointmentPlanResultTx_def)
  moreover have "length (at_Segments ?attempt) = length (qu_Segments quote)"
    by (simp add: new_attempt_def Let_def)
  moreover have "event_evidence_ok ?attempt event" "at_Status ?attempt = StatusConfirmed"
    "\<not> at_ProviderEvidence ?attempt" "at_AuthorityAppointmentVersion ?attempt = 1"
    by (simp_all add: event_evidence_ok_def event new_attempt_def Let_def)
  ultimately show ?thesis
    using segments unfolding loadAuthoritativeInternalResultTx_def rows option.case prod.case active Let_def
    by (simp add: event EventAppointmentCancelled_def EventAppointmentConfirmed_def)
qed

lemma serves_lockable:
  assumes "catalog_ok row" "agg_ServicePolicies aggregate = agg_ServicePolicies row"
    "agg_StaffProfiles aggregate = agg_StaffProfiles row" "serves aggregate r s"
  shows "service_lockable row (ias_ServiceID s) \<and> staff_lockable row (ias_StaffID s)
    \<and> pair_lockable row (ias_ServiceID s) (ias_StaffID s)"
proof -
  obtain policy profile window and staff :: StaffRef where p: "policy \<in> set (agg_ServicePolicies row)"
    "index_by (\<lambda>policy. sv_ID (vp_Service policy)) (agg_ServicePolicies row) (nas_ServiceID r) = Some policy"
    "segment_request_valid (index_by (\<lambda>policy. sv_ID (vp_Service policy)) (agg_ServicePolicies row)) r"
    "profile \<in> set (agg_StaffProfiles row)" "sf_ID (sp_Staff profile) = sf_ID staff"
    "staff \<in> set (vp_EligibleStaff policy)" "eligibleStaff staff"
    "s = candidate_segment policy r window (sf_ID staff) profile"
    using assms(4) unfolding serves_def assms(2,3) by blast
  have "sp_Staff profile = staff"
    using assms(1) p(1,4-6) by (auto simp: catalog_ok_def list_all_iff)
  moreover have "eligibleService (vp_Service policy)" "vp_Configured policy" "vp_Enabled policy"
    "vp_CapacityMode policy = Some CapacityModeStaffOnly \<or> vp_CapacityMode policy = Some CapacityModePooled"
    using p(2,3) by (auto simp: segment_request_valid_def split: option.splits)
  ultimately show ?thesis
    using p
    by (auto simp: service_lockable_def staff_lockable_def pair_lockable_def list_ex_iff
        candidate_segment_def eligibleService_def eligibleStaff_def intro!: bexI [of _ policy] bexI [of _ profile]
        bexI [of _ staff])
qed

lemma fits_lockable:
  assumes "resourcesFit snapshot (map (planned_of_quoted aggregate) (qu_Segments quote))"
    "snap_Aggregate snapshot = Some aggregate" "agg_Resources aggregate = agg_Resources row"
    "calendar_row db salonID = Some row"
  shows "pools_lockable db salonID (distinctPoolIDs (qu_Segments quote))"
proof -
  have "\<exists>pool \<in> set (agg_Resources row). rp_ID pool = poolID \<and> rp_ArchivedAt pool = None"
    if "poolID \<in> set (plan_pools (map (planned_of_quoted aggregate) (qu_Segments quote)))" for poolID
  proof -
    have "base_capacity aggregate poolID \<noteq> None"
      using assms(1,2) that
      by (auto simp: resourcesFit_def list_all_iff pool_fits_def split: option.splits)
    then obtain pool where "index_by rp_ID (filter (\<lambda>pool. rp_ArchivedAt pool = None) (agg_Resources row)) poolID
        = Some pool" by (auto simp: base_capacity_def assms(3))
    then show ?thesis by (auto dest!: index_by_SomeD)
  qed
  then show ?thesis
    by (simp add: pools_lockable_def assms(4) distinctPoolIDs_def list_all_iff list_ex_iff plan_pools_def
        planned_of_quoted_def)
qed

lemma session_loads:
  assumes "execute salonID u'" "read salonID u'" "cd_Calendars db' = cd_Calendars db"
  shows "lockExecutionFence env db salonID u = Inr fence \<Longrightarrow>
      lockExecutionFence (session env uuid execute read) db' salonID u' = Inr fence"
    "loadAggregate env db salonID u = Inr aggregate \<Longrightarrow>
      loadAggregate (session env uuid execute read) db' salonID u' = Inr aggregate"
  using assms
  by (auto simp: lockExecutionFence_def loadAggregate_def calendar_row_def session_def
      split: if_splits option.splits)

lemma session_fields [simp]:
  "st_LoadLocation (session env uuid execute read) = st_LoadLocation env"
  "st_RequestHash (session env uuid execute read) = st_RequestHash env"
  "st_SlotHash (session env uuid execute read) = st_SlotHash env"
  "st_Guards (session env uuid execute read) = st_Guards env"
  "st_UUIDParse (session env uuid execute read) = st_UUIDParse env"
  "st_MayExecute (session env uuid execute read) = execute"
  by (simp_all add: session_def)

lemma session_snapshot:
  "calendar_snapshot (session env uuid execute read) (db\<lparr>cd_Quotes := quotes\<rparr>) salonID aggregate
     windowStart windowEnd target = calendar_snapshot env db salonID aggregate windowStart windowEnd target"
proof -
  have "counts_against (db\<lparr>cd_Quotes := quotes\<rparr>) = counts_against db"
    by (simp add: fun_eq_iff counts_against_def find_appointment_def)
  moreover have "external_conflict (session env uuid execute read) (db\<lparr>cd_Quotes := quotes\<rparr>)
      = external_conflict env db"
    unfolding external_conflict_def external_staff_def session_fields by simp
  ultimately show ?thesis
    by (simp add: calendar_snapshot_def loadStaffConflictsExcluding_def internal_conflicts_def
        loadResourceConflictsExcluding_def)
qed

lemma session_parameters [simp]:
  "localDateWindow (session env uuid execute read) = localDateWindow env"
  "aggregateAvailabilitySlotFingerprint (session env uuid execute read)
     = aggregateAvailabilitySlotFingerprint env"
  "exactAggregatePlan (session env uuid execute read) = exactAggregatePlan env"
  "quotedRequest (session env uuid execute read) = quotedRequest env"
  unfolding fun_eq_iff localDateWindow_def aggregateAvailabilitySlotFingerprint_def
    exactAggregatePlan_def quotedRequest_def session_fields by simp_all

text \<open>A booking request that asks for an offered slot as it was answered.\<close>

definition asks_for :: "AvailabilityResult \<Rightarrow> AvailabilitySlot \<Rightarrow> int \<Rightarrow> InternalCreateRequest \<Rightarrow> bool" where
  "asks_for result slot partySize req \<longleftrightarrow>
     icr_AvailabilityQuoteID req = ares_QuoteID result
     \<and> icr_SlotFingerprint req = aslot_Fingerprint slot
     \<and> icr_RequestedTimezone req = ares_Timezone result \<and> icr_PartySize req = partySize
     \<and> icr_RequestedStartTime req = aslot_StartTime slot \<and> icr_RequestedEndTime req = aslot_EndTime slot
     \<and> map requested_unit (icr_Segments req)
       = map (\<lambda>s. (aseg_ServiceID s, aseg_StaffID s, aseg_StaffSelectionMode s, aseg_GuestReference s,
            aseg_ScheduledStartTime s, aseg_ScheduledEndTime s)) (aslot_Segments slot)
     \<and> list_all (\<lambda>s. ics_Quantity s = 1) (icr_Segments req)"

lemma stored_units:
  "map quoted_unit (map (stored_segment env db salonID k) (enumerate n segments))
     = map (\<lambda>s. (aseg_ServiceID s, aseg_StaffID s, aseg_StaffSelectionMode s, aseg_GuestReference s,
          aseg_ScheduledStartTime s, aseg_ScheduledEndTime s)) (availabilitySegmentsFromInternal segments)"
  "map qs_SortOrder (map (stored_segment env db salonID k) (enumerate n segments))
     = map (\<lambda>i. int i + 1) [n..<n + length segments]"
  by (induction segments arbitrary: n)
    (simp_all add: quoted_unit_def availabilitySegmentsFromInternal_def upt_conv_Cons del: upt_Suc)

lemma stored_matches:
  assumes "asks_for result slot (qu_PartySize stored) req"
    "qu_Segments stored = map (stored_segment env db salonID k) (enumerate 0 segments)"
    "aslot_Segments slot = availabilitySegmentsFromInternal segments"
    "qu_StartTime stored = aslot_StartTime slot" "qu_EndTime stored = aslot_EndTime slot"
  shows "quoteMatchesAction stored req"
proof -
  have units: "map quoted_unit (qu_Segments stored) = map requested_unit (icr_Segments req)"
    using assms(1) unfolding assms(2) stored_units asks_for_def assms(3) by simp
  then have len: "length (qu_Segments stored) = length (icr_Segments req)" by (metis length_map)
  have "map qs_SortOrder (qu_Segments stored) = map (\<lambda>i. int i + 1) [0..<0 + length (qu_Segments stored)]"
    unfolding assms(2) stored_units(2) by simp
  then have "list_all quoted_segment_matches (enumerate 0 (zip (qu_Segments stored) (icr_Segments req)))"
    using quoted_segments_match [OF len, of 0] units assms(1) by (simp add: asks_for_def)
  then show ?thesis
    using assms(1,4,5) len by (simp add: quoteMatchesAction_def asks_for_def)
qed

text \<open>The checks of a booking that read the calendar, passed again while nothing has changed.\<close>

lemma offered_rechecks:
  assumes fence: "lockExecutionFence env' db' salonID u' = Inr fence" "fe_Timezone fence = agg_Timezone row"
    and load: "loadAggregate env' db' salonID u' = Inr aggregate"
    and row: "calendar_row db' salonID = Some row" and ok: "catalog_ok row"
    and same: "agg_ServicePolicies aggregate = agg_ServicePolicies row"
      "agg_StaffProfiles aggregate = agg_StaffProfiles row" "agg_Resources aggregate = agg_Resources row"
    and location: "st_LoadLocation env' (agg_Timezone row) = Some location"
    and date: "format_date (local_civil location (qu_StartTime stored)) = date"
    and window: "localDateWindow env' date (fe_Timezone fence) = Inr (windowStart, windowEnd)"
    and plan: "planAggregateAvailability (st_LoadLocation env')
      (calendar_snapshot env' db' salonID aggregate windowStart windowEnd []) requested now' = Inr planned"
      "p \<in> set planned"
    and stored: "qu_Segments stored = map (stored_segment env db' salonID k) (enumerate 0 (isl_Segments p))"
      "map (planned_of_quoted aggregate) (qu_Segments stored) = isl_Segments p"
      "qu_StartTime stored = isl_StartTime p" "qu_EndTime stored = isl_EndTime p"
      "qu_SlotFingerprint stored = aggregateAvailabilitySlotFingerprint env' (qu_RequestFingerprint stored) p"
    and serves: "list_all2 (serves aggregate) requests (isl_Segments p)"
    and fits: "resourcesFit (calendar_snapshot env' db' salonID aggregate windowStart windowEnd []) (isl_Segments p)"
  shows "recheck_quote env' db' salonID u' fence stored requested [] now' = Inr aggregate"
proof -
  have pools: "pools_lockable db' salonID (distinctPoolIDs (qu_Segments stored))"
    using fits_lockable [OF fits [folded stored(2)] snapshot_aggregate same(3) row] .
  have "service_lockable row (ias_ServiceID s) \<and> staff_lockable row (ias_StaffID s)
      \<and> pair_lockable row (ias_ServiceID s) (ias_StaffID s)" if "s \<in> set (isl_Segments p)" for s
    using that serves serves_lockable [OF ok same(1,2)] by (metis in_set_conv_nth list_all2_conv_all_nth)
  then have locks: "lockAggregateCanonicalRows db' salonID stored = None"
    by (auto simp: lockAggregateCanonicalRows_def row stored(1) list_all_iff in_set_enumerate_eq)
  have "aggregateAvailabilitySlotFingerprint env' rf (quotedSlotAsPlan stored aggregate)
      = aggregateAvailabilitySlotFingerprint env' rf p" for rf
    by (simp add: aggregateAvailabilitySlotFingerprint_def quotedSlotAsPlan_def stored(2-4))
  then have "exactAggregatePlan env' planned (quotedSlotAsPlan stored aggregate)"
    "qu_SlotFingerprint stored = aggregateAvailabilitySlotFingerprint env' (qu_RequestFingerprint stored)
       (quotedSlotAsPlan stored aggregate)"
    using plan(2) stored(5) by (auto simp: exactAggregatePlan_def list_ex_iff)
  moreover have "localDateWindow env' (format_date (local_civil location (qu_StartTime stored))) (agg_Timezone row)
      = Inr (windowStart, windowEnd)" using window by (simp add: date fence(2))
  ultimately show ?thesis
    by (simp add: recheck_quote_def pools locks load fence(2) location plan(1))
qed

lemma booking_commits:
  assumes "\<not> key_taken db' salonID (icr_OperationKey req)"
    "lockExecutionFence env' db' salonID u' = Inr fence"
    "lockQuotedAggregateSlot db' salonID (icr_AvailabilityQuoteID req) (icr_SlotFingerprint req) = Inr stored"
    "create_quote_usable fence stored req now'"
    "quotedRequest env' stored (fe_Timezone fence) = Some requested"
    "qu_RequestFingerprint stored
      = st_RequestHash env' (qu_AuthorityVersion stored) (qu_ConfigVersion stored) requested"
    "recheck_quote env' db' salonID u' fence stored requested [] now' = Inr aggregate"
    "consumes_one db' salonID (qu_QuoteID stored) now'"
    "fresh_ids env' db'" "st_MayExecute env' salonID u'" "qu_Segments stored \<noteq> []"
  shows "\<exists>booked. CreateAppointment env' salonID u' req now' db'
    = (case st_Guards env' db' (created_db env' db' salonID req stored aggregate now') of
         None \<Rightarrow> (Inr (Some booked, False), created_db env' db' salonID req stored aggregate now')
       | Some refusal \<Rightarrow> (Inl refusal, db'))"
proof -
  obtain booked where "loadAuthoritativeInternalResultTx env'
      (created_db env' db' salonID req stored aggregate now') salonID u' (st_UUID env' [1]) (st_UUID env' [0])
      = Inr booked"
    using created_result [OF assms(9-11)] by blast
  then have "insert_appointment env' db' salonID u' req stored aggregate now'
      = (case st_Guards env' db' (created_db env' db' salonID req stored aggregate now') of
           None \<Rightarrow> (Inr (Some booked, False), created_db env' db' salonID req stored aggregate now')
         | Some refusal \<Rightarrow> (Inl refusal, db'))"
    using assms(1,8,9) by (simp add: insert_appointment_def commit_def split: option.split)
  moreover have "replayAggregateCreateTx env' db' salonID u' req = Inr None"
    using assms(1) by (simp add: replayAggregateCreateTx_def key_taken_def)
  ultimately show ?thesis
    using assms(2-7) by (intro exI [of _ booked]) (simp add: CreateAppointment_def)
qed

text \<open>
  C3: No check of the booking refuses an offered slot. Take any slot of an availability answer and a
  booking request that asks for it as answered, under an unused operation key, before the quote
  expires and while the start still respects the notice and the horizon. If the calendar has not
  changed since the check, none of the checks made again at booking time (quote, request
  fingerprint, locked rows, exact plan, slot fingerprint, result) refuses it, whichever session that
  may execute there makes it: the transaction reaches COMMIT with the appointment, the attempt and
  the segments written, and only a constraint or a trigger of the schema (\<open>st_Guards\<close>)
  may still refuse it. Assumed are a configuration as its loaders read it
  (\<open>catalog_ok\<close>), new generated identifiers, a slot hash without collisions and a
  request hash that ignores the limit.
\<close>

theorem offered_slot_can_be_booked:
  assumes check: "CheckAvailability_store env salonID u req now db = (Inr result, db')"
    and booking: "TrimSpace (ar_TargetAppointmentID req) = []" and slot: "slot \<in> set (ares_Slots result)"
    and normalized: "normalizeAggregateAvailabilityRequest (st_UUIDParse env)
      (req\<lparr>ar_TargetAppointmentID := []\<rparr>) = Inr normalized"
    and fresh: "st_UUID env [0] \<notin> qr_ID ` set (cd_Quotes db)" and exact: "slot_hash_exact env"
    and limit: "\<And>a c r l. st_RequestHash env a c (r\<lparr>nar_Limit := l\<rparr>) = st_RequestHash env a c r"
    and row: "calendar_row db salonID = Some row" "catalog_ok row" "agg_Config row = Some config"
      "st_LoadLocation env (agg_Timezone row) = Some location"
    and asks: "asks_for result slot (nar_PartySize normalized) creq"
      "\<not> key_taken db salonID (icr_OperationKey creq)"
    and time: "now' < now + 2 * ns_per_minute" "minimum_start config now' \<le> aslot_StartTime slot"
      "within_horizon config location now' (local_civil location (aslot_StartTime slot))"
    and session: "execute salonID u'" "read salonID u'" "fresh_ids (session env uuid execute read) db"
  shows "\<exists>stored aggregate booked.
    lockQuotedAggregateSlot db' salonID (ares_QuoteID result) (aslot_Fingerprint slot) = Inr stored
    \<and> (let db2 = created_db (session env uuid execute read) db' salonID creq stored aggregate now'
       in CreateAppointment (session env uuid execute read) salonID u' creq now' db'
         = (case st_Guards env db' db2 of
              None \<Rightarrow> (Inr (Some booked, False), db2)
            | Some refusal \<Rightarrow> (Inl refusal, db')))"
proof -
  have "ares_Slots result \<noteq> []" using slot by auto
  with check booking show ?thesis
  proof (rule check_offers)
    fix normalized' fence aggregate windowStart windowEnd planned slots quote
    assume "normalizeAggregateAvailabilityRequest (st_UUIDParse env) (req\<lparr>ar_TargetAppointmentID := []\<rparr>)
        = Inr normalized'"
    then have n: "normalized' = normalized" using normalized by simp
    assume c: "lockExecutionFence env db salonID u = Inr fence"
      "fe_ActivatedVersion fence = fe_ConfigVersion fence"
      "fe_Authority fence = SchedulingAuthorityManleAICalendar"
      "loadAggregate env db salonID u = Inr aggregate"
      "localDateWindow env (nar_PreferredDate normalized') (fe_Timezone fence) = Inr (windowStart, windowEnd)"
      "planAggregateAvailability (st_LoadLocation env)
         (calendar_snapshot env db salonID aggregate windowStart windowEnd []) normalized' now = Inr planned"
      "slots = map (fingerprinted_slot env (st_RequestHash env (fe_AuthorityVersion fence)
         (fe_ConfigVersion fence) normalized')) planned"
      "quote = new_quote env salonID fence (booking_subject fence) [] normalized'
         (st_RequestHash env (fe_AuthorityVersion fence) (fe_ConfigVersion fence) normalized') slots now"
      "db' = db\<lparr>cd_Quotes := cd_Quotes db @ [quote]\<rparr>" "ares_QuoteID result = st_UUID env [0]"
      "ares_Slots result = aggregateAvailabilitySlots slots" "ares_Timezone result = agg_Timezone aggregate"
    note c = c [unfolded n]
    let ?rf = "st_RequestHash env (fe_AuthorityVersion fence) (fe_ConfigVersion fence) normalized"
    let ?env = "session env uuid execute read"
    let ?snapshot = "calendar_snapshot env db salonID aggregate windowStart windowEnd []"
    obtain p where p: "p \<in> set planned" "aslot_Fingerprint slot
        = aggregateAvailabilitySlotFingerprint env ?rf p" "aslot_StartTime slot = isl_StartTime p"
      "aslot_EndTime slot = isl_EndTime p"
      "aslot_Segments slot = availabilitySegmentsFromInternal (isl_Segments p)"
      using slot offered_slots unfolding c(11,7) by blast
    note same = loadAggregate_fields [OF c(4) row(1)]
    have zone: "fe_Timezone fence = agg_Timezone row" using fence_calendar [OF c(1)] row(1) by auto
    obtain date where inputs: "planner_inputs (st_LoadLocation env) ?snapshot normalized aggregate config location date"
    proof (rule planner_ok [OF c(6)], goal_cases)
      case (1 aggregate' config' location' date)
      moreover have "TrimSpace (agg_Timezone row) = agg_Timezone row" using row(2) by (simp add: catalog_ok_def)
      ultimately show ?case using row same 1(1) [of date] by (auto simp: planner_inputs_def)
    qed
    obtain m where o: "m < 1440" "strictLocalMinute date m location = Some (isl_StartTime p)"
      "list_all2 (serves aggregate) (nar_Segments normalized) (isl_Segments p)"
      "resourcesFit ?snapshot (isl_Segments p)" "nar_Segments normalized \<noteq> []"
      by (rule offered_serves [OF c(6) p(1) inputs])
    have day: "local_civil location (isl_StartTime p) = date" by (rule strictLocalMinute_date [OF o(2,1)])
    have date: "format_date date = nar_PreferredDate normalized"
      using inputs by (intro format_parse_date) (simp add: planner_inputs_def)
    obtain stored k where s: "lockQuotedAggregateSlot db' salonID (st_UUID env [0])
         (aggregateAvailabilitySlotFingerprint env ?rf p) = Inr stored"
      "qu_Segments stored = map (stored_segment env db' salonID k) (enumerate 0 (isl_Segments p))"
      "map (planned_of_quoted aggregate) (qu_Segments stored) = isl_Segments p"
      "map quoted_segment_request (qu_Segments stored) = nar_Segments normalized"
      "qu_StartTime stored = isl_StartTime p" "qu_EndTime stored = isl_EndTime p"
      "qu_QuoteID stored = st_UUID env [0]" "qu_RequestFingerprint stored = ?rf"
      "qu_SlotFingerprint stored = aggregateAvailabilitySlotFingerprint env ?rf p"
      "qu_ExpiresAt stored = now + internalAvailabilityQuoteTTL" "qu_ConsumedAt stored = None"
      "qu_ConsumedAttemptID stored = None"
      "qu_AuthorityVersion stored = qt_AuthorityVersion (booking_subject fence)"
      "qu_ConfigVersion stored = fe_ConfigVersion fence"
      "qu_OperationType stored = qt_OperationType (booking_subject fence)"
      "qu_PartySize stored = nar_PartySize normalized"
      by (rule quote_read_back [OF p(1) c(7-9) fresh exact row(1,2) same(4,7) o(3)
            normalizeAggregate_ok(1) [OF normalized]])
    have calendars: "cd_Calendars db' = cd_Calendars db" by (simp add: c(9))
    note loads = session_loads [where execute = execute and read = read and salonID = salonID and u' = u'
        and env = env and uuid = uuid, OF session(1,2) calendars]
    have requested: "quotedRequest env stored (fe_Timezone fence) = Some (normalized\<lparr>nar_Limit := -1\<rparr>)"
      using normalizeAggregate_ok(2) [OF normalized o(5)] o(5) row(4) day date
      by (cases normalized) (simp add: quotedRequest_def zone s(4,5,16))
    obtain planned' where later: "planAggregateAvailability (st_LoadLocation env) ?snapshot
        (normalized\<lparr>nar_Limit := -1\<rparr>) now' = Inr planned'" "p \<in> set planned'"
      using plan_later [OF c(6) p(1) inputs, of now'] time(2,3) day by (auto simp: p(3))
    have snapshot: "calendar_snapshot ?env db' salonID aggregate windowStart windowEnd [] = ?snapshot"
      unfolding c(9) by (rule session_snapshot)
    have "quoteMatchesAction stored creq"
      using stored_matches [OF _ s(2) p(5), where result = result and req = creq] asks(1) s(5,6,16) p(3,4)
      by simp
    then have usable: "create_quote_usable fence stored creq now'"
      using asks(1) time(1) same(1)
      by (simp add: create_quote_usable_def c s p zone asks_for_def internalAvailabilityQuoteTTL_def)
    have consume: "consumes_one db' salonID (qu_QuoteID stored) now'"
    proof -
      have "filter (consumable salonID (st_UUID env [0]) now') (cd_Quotes db) = []"
        using fresh by (force simp: filter_empty_conv consumable_def)
      moreover have "consumable salonID (st_UUID env [0]) now' quote"
        using time(1) by (simp add: c(8) new_quote_def consumable_def internalAvailabilityQuoteTTL_def)
      ultimately show ?thesis by (simp add: consumes_one_def c(9) s(7))
    qed
    have recheck: "recheck_quote ?env db' salonID u' fence stored (normalized\<lparr>nar_Limit := -1\<rparr>) [] now'
        = Inr aggregate"
    proof (rule offered_rechecks [OF loads(1) [OF c(1)] zone loads(2) [OF c(4)] _ row(2) same(4,7,5)])
      show "calendar_row db' salonID = Some row" using row(1) by (simp add: calendar_row_def calendars)
      show "st_LoadLocation ?env (agg_Timezone row) = Some location" using row(4) by simp
      show "format_date (local_civil location (qu_StartTime stored)) = nar_PreferredDate normalized"
        using day date by (simp add: s(5))
      show "localDateWindow ?env (nar_PreferredDate normalized) (fe_Timezone fence) = Inr (windowStart, windowEnd)"
        using c(5) by simp
      show "planAggregateAvailability (st_LoadLocation ?env)
          (calendar_snapshot ?env db' salonID aggregate windowStart windowEnd []) (normalized\<lparr>nar_Limit := -1\<rparr>) now'
          = Inr planned'" using later(1) by (simp add: snapshot)
      show "qu_SlotFingerprint stored
          = aggregateAvailabilitySlotFingerprint ?env (qu_RequestFingerprint stored) p" by (simp add: s(8,9))
      show "resourcesFit (calendar_snapshot ?env db' salonID aggregate windowStart windowEnd []) (isl_Segments p)"
        using o(4) by (simp add: snapshot)
    qed (fact later(2) s(2,3,5,6) o(3))+
    have ids: "fresh_ids ?env db'"
      using session(3) by (simp add: fresh_ids_def fresh_attempt_def c(9))
    have segments: "qu_Segments stored \<noteq> []" using s(4) o(5) by auto
    have lock: "lockQuotedAggregateSlot db' salonID (icr_AvailabilityQuoteID creq) (icr_SlotFingerprint creq)
        = Inr stored"
      using asks(1) s(1) by (simp add: asks_for_def c(10) p(2))
    have "\<exists>booked. CreateAppointment ?env salonID u' creq now' db'
        = (case st_Guards ?env db' (created_db ?env db' salonID creq stored aggregate now') of
             None \<Rightarrow> (Inr (Some booked, False), created_db ?env db' salonID creq stored aggregate now')
           | Some refusal \<Rightarrow> (Inl refusal, db'))"
      by (rule booking_commits [OF _ loads(1) [OF c(1)] lock usable _ _ recheck consume ids _ segments])
        (use asks(2) session(1) requested in \<open>simp_all add: key_taken_def find_attempt_def c(9) s limit\<close>)
    then show ?thesis using s(1) by (auto simp: c(10) p(2) Let_def)
  qed
qed

end
