(* ===== verification/Calendar_Samples.thy ===== *)
theory Calendar_Samples
  imports Calendar_Config
begin

text \<open>
  A concrete salon on which the planner of \<open>Calendar_Planner\<close> and the capacity check of
  \<open>Calendar_Resources\<close> are evaluated: their theorems are applied to it, with every hypothesis
  discharged by computation.
\<close>

section \<open>A concrete salon\<close>

text \<open>
  One service that needs a chair from a pool of two, one technician on Mondays, a slot grid of
  twelve hours in UTC; the technician and a chair are already taken in the morning of 3 January
  2022, a Monday.
\<close>

definition sample_zone :: "string \<Rightarrow> Location option" where
  "sample_zone name = (if name = ''UTC'' then Some (\<lambda>_. 0) else None)"

definition sample_staff :: StaffRef where
  "sample_staff = \<lparr>sf_ID = ''an'', sf_Name = ''An'', sf_Active = True, sf_AIBookable = True,
     sf_ArchivedAt = None\<rparr>"

definition sample_policy :: ServicePolicy where
  "sample_policy =
     \<lparr>vp_Service = \<lparr>sv_ID = ''gel'', sv_Name = ''Gel'', sv_DurationMinutes = 60, sv_Active = True,
        sv_AIBookable = True, sv_ArchivedAt = None\<rparr>,
      vp_Configured = True, vp_Enabled = True, vp_CapacityMode = Some CapacityModePooled,
      vp_BufferBeforeMinutesOverride = None, vp_BufferAfterMinutesOverride = Some 15,
      vp_EligibleStaff = [sample_staff],
      vp_ResourceRequirements = [\<lparr>rq_ResourcePoolID = ''chair'', rq_ResourceName = ''Chair'',
        rq_UnitsRequired = 1, rq_PoolCapacity = 2, rq_PoolArchivedAt = None, rq_CreatedAt = 0,
        rq_UpdatedAt = 0\<rparr>],
      vp_CreatedAt = None, vp_UpdatedAt = None\<rparr>"

definition sample_config :: CalendarConfig where
  "sample_config =
     \<lparr>cc_SalonID = ''s'', cc_Version = 4, cc_SlotStepMinutes = 720,
      cc_MinimumBookingNoticeMinutes = 60, cc_BookingHorizonDays = 30,
      cc_RescheduleCutoffMinutes = None, cc_CancellationCutoffMinutes = None, cc_MaxPartySize = 4,
      cc_DefaultBufferBeforeMinutes = 0, cc_DefaultBufferAfterMinutes = 0,
      cc_ActivatedAt = Some 1, cc_ActivatedByUserID = ''o'', cc_ActivatedVersion = Some 4,
      cc_CreatedAt = 1, cc_UpdatedAt = 1\<rparr>"

definition sample_aggregate :: Aggregate where
  "sample_aggregate =
     \<lparr>agg_SalonID = ''s'', agg_Timezone = ''UTC'',
      agg_SchedulingAuthority = SchedulingAuthorityManleAICalendar, agg_AuthorityVersion = 1,
      agg_ConfigVersion = 4, agg_Config = Some sample_config,
      agg_Hours = [\<lparr>bh_ID = ''h'', bh_DayOfWeek = 1, bh_StartMinute = 540, bh_EndMinute = 1080,
        bh_CreatedAt = 1, bh_UpdatedAt = 1\<rparr>],
      agg_StaffProfiles = [\<lparr>sp_Staff = sample_staff,
        sp_WeeklyPeriods = [\<lparr>wp_ID = ''w'', wp_StaffID = ''an'', wp_DayOfWeek = 1,
          wp_StartMinute = 600, wp_EndMinute = 1080, wp_CreatedAt = 1, wp_UpdatedAt = 1\<rparr>],
        sp_EligibleServices = []\<rparr>],
      agg_ServicePolicies = [sample_policy],
      agg_Resources = [\<lparr>rp_ID = ''chair'', rp_Name = ''Chair'', rp_Capacity = 2,
        rp_ArchivedAt = None, rp_CreatedAt = 1, rp_UpdatedAt = 1\<rparr>],
      agg_Exceptions = [],
      agg_Readiness = \<lparr>rdy_ConfigurationReady = True, rdy_ExecutionReady = False,
        rdy_AuthorityVersion = 1, rdy_ConfigVersion = 4,
        rdy_Capabilities = \<lparr>oc_StaffOnlyAvailability = False, oc_StaffOnlyCreate = False,
          oc_PooledCapacity = True, oc_PartyCreate = True, oc_Reschedule = True, oc_Cancel = True\<rparr>,
        rdy_Blockers = []\<rparr>,
      agg_Constraints = DefaultConstraints\<rparr>"

definition sample_day :: civil where "sample_day = (2022, 1, 3)"

definition sample_snapshot :: AvailabilitySnapshot where
  "sample_snapshot =
     \<lparr>snap_Aggregate = Some sample_aggregate,
      snap_Conflicts = [\<lparr>sc_StaffID = ''an'', sc_StartsAt = Date_UTC sample_day 9 0,
        sc_EndsAt = Date_UTC sample_day 10 0\<rparr>,
        \<lparr>sc_StaffID = ''bo'', sc_StartsAt = Date_UTC sample_day 9 0,
        sc_EndsAt = Date_UTC sample_day 12 30\<rparr>],
      snap_ResourceConflicts = [\<lparr>rc_ResourcePoolID = ''chair'', rc_UnitsAllocated = 1,
        rc_StartsAt = Date_UTC sample_day 9 0, rc_EndsAt = Date_UTC sample_day 12 30\<rparr>],
      snap_UnresolvedExternalConflict = False, snap_TargetOriginAuthorized = False\<rparr>"

definition sample_segment :: normalizedAvailabilitySegment where
  "sample_segment = \<lparr>nas_ServiceID = ''gel'', nas_StaffID = [],
     nas_StaffSelectionMode = StaffSelectionAnyone, nas_GuestReference = [], nas_Quantity = 1\<rparr>"

definition sample_availability :: normalizedAvailabilityRequest where
  "sample_availability =
     \<lparr>nar_ServiceID = ''gel'', nar_StaffID = [], nar_StaffSelectionMode = StaffSelectionAnyone,
      nar_PartySize = 1,
      nar_Segments = [sample_segment],
      nar_PreferredDate = ''2022-01-03'', nar_Limit = -1\<rparr>"

definition sample_now :: gotime where "sample_now = Date_UTC (2022, 1, 2) 8 0"

text \<open>In UTC every wall-clock minute is an instant.\<close>

lemma strictLocalMinute_UTC:
  assumes "valid_civil date" "0 \<le> minute" "minute < 1440"
  shows "strictLocalMinute date minute (\<lambda>_. 0) = Some (Date_UTC date (minute div 60) (minute mod 60))"
proof -
  have zero: "0 \<in> set (sampled_offsets date (minute div 60) (minute mod 60) (\<lambda>_. 0))"
    by (auto simp: sampled_offsets_def intro!: image_eqI [of _ _ 0])
  have "strictLocalInstant date (minute div 60) (minute mod 60) (\<lambda>_. 0) =
      Some (Date_UTC date (minute div 60) (minute mod 60))"
    using strictLocalInstant_iff [OF assms(1) hour_minute_range [OF assms(2,3)], of "\<lambda>_. 0"] zero
    by (simp add: shows_wall_def)
  with assms show ?thesis by (simp add: strictLocalMinute_def)
qed

lemma sample_day_valid: "valid_civil sample_day"
  by code_simp

lemmas sample_minutes = strictLocalMinute_UTC [OF sample_day_valid]



lemma sample_context_simps:
  "local_weekday (\<lambda>_. 0) (Date_in sample_day 12 0 (\<lambda>_. 0)) = 1"
  "parse_date ''2022-01-03'' = Some sample_day"
  "TrimSpace ''2022-01-03'' = ''2022-01-03''" "TrimSpace ''UTC'' = ''UTC''"
  "index_by (\<lambda>p. sv_ID (vp_Service p)) [sample_policy] ''gel'' = Some sample_policy"
  "local_civil (\<lambda>_. 0) sample_now = (2022, 1, 2)"
  by code_simp+

abbreviation sample_ctx :: "int \<Rightarrow> PlanContext" where
  "sample_ctx \<equiv> plan_context sample_snapshot sample_aggregate sample_config sample_day (\<lambda>_. 0)"

definition sample_window :: SegmentWindow where
  "sample_window = \<lparr>win_EndMinute = 780, win_OccupiedStartMinute = 720, win_OccupiedEndMinute = 795,
     win_Start = Date_UTC sample_day 12 0, win_End = Date_UTC sample_day 13 0,
     win_OccupiedStart = Date_UTC sample_day 12 0, win_OccupiedEnd = Date_UTC sample_day 13 15,
     win_BufferBefore = 0, win_BufferAfter = 15\<rparr>"

lemma sample_windows:
  "segment_window (sample_ctx 0) sample_policy sample_segment Map.empty = None"
  "segment_window (sample_ctx 720) sample_policy sample_segment Map.empty
     = Some sample_window"
  by (simp_all add: segment_window_def plan_context_def Let_def sample_context_simps
      sample_minutes sample_policy_def sample_segment_def sample_config_def sample_aggregate_def periodRanges_def
      scopeAllowsRange_def sample_window_def, simp_all add: Date_UTC_def ns_per_second_def)

definition sample_profile :: StaffProfile where
  "sample_profile = hd (agg_StaffProfiles sample_aggregate)"

definition sample_plan :: "InternalAvailabilitySegment list" where
  "sample_plan = [candidate_segment sample_policy sample_segment
     sample_window ''an'' sample_profile]"

lemma sample_staffing:
  "ctx_policies (sample_ctx m) ''gel'' = Some sample_policy"
  "ctx_profiles (sample_ctx m) ''an'' = Some sample_profile"
  "eligibleStaffIDs sample_policy (ctx_profiles (sample_ctx m))
     sample_segment = [''an'']"
  "staff_available (sample_ctx 720) sample_window ''an'' sample_profile"
  "resourcesFit sample_snapshot sample_plan"
  by code_simp+

lemma sample_segments:
  "nar_Segments sample_availability = [sample_segment]"
  "nas_ServiceID sample_segment = ''gel''"
  by (simp_all add: sample_availability_def sample_segment_def)

lemma sample_assign:
  "assignAggregateSegments (sample_ctx 0) (nar_Segments sample_availability) [] Map.empty = None"
  "assignAggregateSegments (sample_ctx 720) (nar_Segments sample_availability) [] Map.empty
     = Some sample_plan"
  unfolding sample_segments(1)
  by (simp_all add: sample_segments(2) sample_staffing sample_windows hasPlannedStaffConflict_def
      sample_staffing(5) [unfolded sample_plan_def] sample_plan_def)

lemma sample_try:
  "try_slot sample_snapshot sample_aggregate sample_config (nar_Segments sample_availability)
     sample_day (\<lambda>_. 0) sample_now 0 = None"
  "try_slot sample_snapshot sample_aggregate sample_config (nar_Segments sample_availability)
     sample_day (\<lambda>_. 0) sample_now 720
   = Some (slot_of_plan (Date_UTC sample_day 12 0) sample_plan)"
proof -
  have "\<not> Date_UTC sample_day 12 0 < minimum_start sample_config sample_now" by code_simp
  then show "try_slot sample_snapshot sample_aggregate sample_config
      (nar_Segments sample_availability) sample_day (\<lambda>_. 0) sample_now 0 = None"
    "try_slot sample_snapshot sample_aggregate sample_config (nar_Segments sample_availability)
       sample_day (\<lambda>_. 0) sample_now 720
     = Some (slot_of_plan (Date_UTC sample_day 12 0) sample_plan)"
    by (simp_all add: try_slot_def sample_minutes sample_assign)
qed

lemma sample_answers:
  assumes "l = -1 \<or> l = 5"
  shows "planAggregateAvailability sample_zone sample_snapshot (sample_availability\<lparr>nar_Limit := l\<rparr>) sample_now
   = Inr [slot_of_plan (Date_UTC sample_day 12 0) sample_plan]"
proof -
  have ok: "list_all (segment_request_valid
      (index_by (\<lambda>p. sv_ID (vp_Service p)) (agg_ServicePolicies sample_aggregate)))
      (nar_Segments sample_availability)"
    "planner_ready sample_snapshot sample_aggregate sample_config"
    "\<not> (Date_UTC sample_day 0 0 < Date_UTC (local_civil (\<lambda>_. 0) sample_now) 0 0)"
    "\<not> (Date_UTC (local_civil (\<lambda>_. 0) sample_now) 0 0
      + cc_BookingHorizonDays sample_config * 86400 * ns_per_second < Date_UTC sample_day 0 0)"
    by code_simp+
  have fields: "snap_UnresolvedExternalConflict sample_snapshot = False"
    "snap_Aggregate sample_snapshot = Some sample_aggregate"
    "agg_Config sample_aggregate = Some sample_config" "agg_Timezone sample_aggregate = ''UTC''"
    "nar_PreferredDate sample_availability = ''2022-01-03''" "nar_PartySize sample_availability = 1" "cc_MaxPartySize sample_config = 4"
    "cc_SlotStepMinutes sample_config = 720" "sample_zone ''UTC'' = Some (\<lambda>_. 0)"
    "nar_Segments sample_availability \<noteq> []" "plan_limit (-1) = 1440" "plan_limit 5 = 5"
    by (simp_all add: sample_snapshot_def sample_aggregate_def sample_availability_def
        sample_config_def sample_zone_def plan_limit_def)
  have slots: "plan_slots f 720 (plan_limit l) 0 [] = (case f 0 of None \<Rightarrow> [] | Some s \<Rightarrow> [s])
      @ (case f 720 of None \<Rightarrow> [] | Some s \<Rightarrow> [s])" for f
    using assms by (elim disjE) (simp_all add: plan_slots.simps fields split: option.splits)
  show ?thesis
    unfolding planAggregateAvailability_def
    by (simp add: fields sample_context_simps(2-4) ok Let_def slots sample_try)
qed

lemma sample_answer:
  "planAggregateAvailability sample_zone sample_snapshot sample_availability sample_now
   = Inr [slot_of_plan (Date_UTC sample_day 12 0) sample_plan]"
  using sample_answers [of "-1"] by (simp add: sample_availability_def)


section \<open>The theorems at the sample salon\<close>

lemma sample_units: "aggregate_units_ok sample_snapshot"
  by code_simp

theorem resourcesFit_iff_capacity_everywhere_witness:
  "\<exists>capacity. base_capacity sample_aggregate ''chair'' = Some capacity \<and>
     (\<forall>t. usage_at (snap_ResourceConflicts sample_snapshot) sample_plan ''chair'' t
        \<le> effective_capacity sample_aggregate ''chair'' capacity t)"
proof -
  have "units_nonneg sample_plan" "''chair'' \<in> set (plan_pools sample_plan)" by code_simp+
  moreover have "snap_Aggregate sample_snapshot = Some sample_aggregate"
    by (simp add: sample_snapshot_def)
  ultimately show ?thesis
    using resourcesFit_iff_capacity_everywhere [of sample_plan sample_snapshot] sample_staffing(5)
    by fastforce
qed

theorem offered_slot_feasible_witness:
  "\<exists>aggregate config location date m.
    planner_inputs sample_zone sample_snapshot sample_availability aggregate config location date
    \<and> offerable sample_snapshot aggregate config (nar_Segments sample_availability) date location
        sample_now m (Date_UTC sample_day 12 0) sample_plan"
  using offered_slot_feasible [OF sample_answer _ sample_units] by fastforce

theorem exact_scan_complete_witness:
  "\<exists>m p. offerable sample_snapshot sample_aggregate sample_config (nar_Segments sample_availability)
     sample_day (\<lambda>_. 0) sample_now m (Date_UTC sample_day 12 0) p"
proof -
  have exact: "sample_availability\<lparr>nar_Limit := -1\<rparr> = sample_availability"
    by (simp add: sample_availability_def)
  have inputs: "planner_inputs sample_zone sample_snapshot sample_availability sample_aggregate
      sample_config (\<lambda>_. 0) sample_day"
    by (simp add: planner_inputs_def sample_context_simps(2-4) sample_snapshot_def
        sample_aggregate_def sample_availability_def sample_zone_def)
  have within: "within_horizon sample_config (\<lambda>_. 0) sample_now sample_day" by code_simp
  show ?thesis
    using exact_scan_complete [OF _ inputs within sample_units, of
        "[slot_of_plan (Date_UTC sample_day 12 0) sample_plan]" "Date_UTC sample_day 12 0"]
      sample_answer unfolding exact by simp
qed

theorem offered_slot_no_double_booking_witness:
  "\<not> rangesOverlap (ias_OccupiedStartTime (hd sample_plan)) (ias_OccupiedEndTime (hd sample_plan))
     (sc_StartsAt (hd (snap_Conflicts sample_snapshot)))
     (sc_EndsAt (hd (snap_Conflicts sample_snapshot)))"
proof -
  have "hd sample_plan \<in> set sample_plan"
    "hd (snap_Conflicts sample_snapshot) \<in> set (snap_Conflicts sample_snapshot)"
    "sc_StaffID (hd (snap_Conflicts sample_snapshot)) = ias_StaffID (hd sample_plan)"
    by (simp_all add: sample_plan_def sample_snapshot_def)
  then show ?thesis
    using offered_slot_no_double_booking [OF sample_answer _ sample_units] by simp
qed

section \<open>Configuring the sample salon\<close>

definition sample_meta :: MutationMeta where
  "sample_meta = \<lparr>mm_ActionKey = ''a-1'', mm_ExpectedConfigVersion = 3\<rparr>"

definition sample_hours :: ReplaceBusinessHoursInput where
  "sample_hours = \<lparr>rbh_MutationMeta = sample_meta,
     rbh_Periods = [\<lparr>bhi_DayOfWeek = 1, bhi_StartMinute = 780, bhi_EndMinute = 1080\<rparr>,
       \<lparr>bhi_DayOfWeek = 1, bhi_StartMinute = 540, bhi_EndMinute = 780\<rparr>]\<rparr>"

definition sample_policy_input :: ServicePolicyInput where
  "sample_policy_input =
     \<lparr>vpi_MutationMeta = sample_meta, vpi_Enabled = True,
      vpi_CapacityMode = Some '' pooled '', vpi_BufferBeforeMinutesOverride = None,
      vpi_BufferAfterMinutesOverride = Some 15, vpi_EligibleStaffIDs = [''bo'', ''an''],
      vpi_ResourceRequirements = [\<lparr>rri_ResourcePoolID = ''chair'', rri_UnitsRequired = 1\<rparr>]\<rparr>"

theorem hours_accepted_iff_witness: "\<exists>req. normalizeAndValidateHours sample_hours = Inr req"
proof -
  have "TrimSpace (mm_ActionKey (rbh_MutationMeta sample_hours)) = ''a-1''" by code_simp
  then show ?thesis
    using hours_accepted_iff [of sample_hours]
    by (auto simp: sample_hours_def sample_meta_def period_ok_def periods_disjoint_def
        hours_extract_def)
qed

theorem capability_means_planner_ready_witness:
  "planAggregateAvailability sample_zone sample_snapshot sample_availability sample_now
     \<noteq> Inl ErrSchedulingAuthorityNotReady"
proof -
  have "oc_Reschedule (rdy_Capabilities (EvaluateReadiness (Some sample_aggregate)))"
    "policy_enabled sample_policy"
    "distinct (map (\<lambda>p. sv_ID (vp_Service p)) (agg_ServicePolicies sample_aggregate))"
    by code_simp+
  moreover have "snap_Aggregate sample_snapshot = Some sample_aggregate"
    "agg_Config sample_aggregate = Some sample_config" "1 \<le> cc_SlotStepMinutes sample_config"
    "1 \<le> cc_BookingHorizonDays sample_config"
    "sample_policy \<in> set (agg_ServicePolicies sample_aggregate)"
    by (simp_all add: sample_snapshot_def sample_aggregate_def sample_config_def)
  ultimately show ?thesis
    using capability_means_planner_ready [of sample_aggregate sample_snapshot sample_config
        sample_policy sample_zone sample_availability sample_now] by blast
qed

end
