(* ===== verification/Calendar_Store_Samples.thy ===== *)
theory Calendar_Store_Samples
  imports Calendar_Store_Offer Calendar_Samples
begin

text \<open>
  The sample salon with its database: an availability check, the booking of the offered slot, and
  the cancellation of an existing appointment, at which the theorems about the execution repository
  are applied. The slot fingerprint is an encoding that can be decoded (numbers in decimal, every
  character of a string marked), so it identifies the slot, as the theorems require of the hash.
\<close>

section \<open>A fingerprint that identifies what it is computed from\<close>

definition quoted :: "string \<Rightarrow> string" where
  "quoted s = concat (map (\<lambda>c. [CHR ''q'', c]) s) @ ''.''"

definition pack :: "string list \<Rightarrow> string" where
  "pack strings = concat (map quoted strings)"

function decimal_text :: "int \<Rightarrow> string" where
  "decimal_text i =
     (if i < 10 then [''0123456789'' ! nat i]
      else decimal_text (i div 10) @ [''0123456789'' ! nat (i mod 10)])"
  by pat_completeness auto
termination
  by (relation "measure nat") (auto simp: nat_less_iff)

declare decimal_text.simps [simp del]

definition int_text :: "int \<Rightarrow> string" where
  "int_text i = decimal_text (if 0 \<le> i then 2 * i else - 2 * i - 1)"

lemma decimal_digit:
  assumes "0 \<le> d" "d < 10"
  shows "digit_value (''0123456789'' ! nat d) = Some d"
proof -
  have "d = 0 \<or> d = 1 \<or> d = 2 \<or> d = 3 \<or> d = 4 \<or> d = 5 \<or> d = 6 \<or> d = 7 \<or> d = 8 \<or> d = 9"
    using assms by presburger
  then show ?thesis by (elim disjE) (simp_all add: digit_value_def)
qed

lemma decimal_text_value: "0 \<le> i \<Longrightarrow> digits_value 0 (decimal_text i) = Some i"
proof (induction i rule: decimal_text.induct)
  case (1 i)
  show ?case
  proof (cases "i < 10")
    case True
    then show ?thesis using 1 by (simp add: decimal_text.simps [of i] decimal_digit)
  next
    case False
    have "10 * (i div 10) + i mod 10 = i" by presburger
    with False 1 show ?thesis
      by (simp add: decimal_text.simps [of i] digits_value_append decimal_digit)
  qed
qed

lemma quoted_append: "quoted a @ r = quoted b @ r' \<longleftrightarrow> a = b \<and> r = r'"
proof (induction a arbitrary: b)
  case Nil
  then show ?case by (cases b) (auto simp: quoted_def)
next
  case (Cons c a)
  then show ?case by (cases b) (auto simp: quoted_def)
qed

lemma pack_inject: "pack xs = pack ys \<longleftrightarrow> xs = ys"
proof
  show "pack xs = pack ys \<Longrightarrow> xs = ys"
  proof (induction xs arbitrary: ys)
    case Nil
    then show ?case by (cases ys) (simp_all add: pack_def quoted_def)
  next
    case (Cons x xs)
    then show ?case
      by (cases ys) (simp_all add: pack_def quoted_append, simp add: quoted_def)
  qed
qed simp

lemma int_text_inject: "int_text i = int_text j \<longleftrightarrow> i = j"
proof
  have val: "digits_value 0 (int_text i) = Some (if 0 \<le> i then 2 * i else - 2 * i - 1)" for i
    unfolding int_text_def by (rule decimal_text_value) auto
  assume "int_text i = int_text j"
  with val [of i] val [of j]
  have "(if 0 \<le> i then 2 * i else - 2 * i - 1) = (if 0 \<le> j then 2 * j else - 2 * j - 1)" by simp
  then show "i = j" by presburger
qed simp

definition allocation_text :: "InternalResourceAllocation \<Rightarrow> string" where
  "allocation_text a =
     pack [ira_ResourcePoolID a, ira_ResourceName a, int_text (ira_UnitsAllocated a)]"

definition segment_text :: "InternalAvailabilitySegment \<Rightarrow> string" where
  "segment_text s =
     pack [ias_ServiceID s, ias_ServiceName s, ias_StaffID s, ias_StaffName s,
       ias_StaffSelectionMode s, ias_GuestReference s, int_text (ias_Quantity s),
       int_text (ias_StartTime s), int_text (ias_EndTime s), int_text (ias_OccupiedStartTime s),
       int_text (ias_OccupiedEndTime s), int_text (ias_BufferBeforeMinutes s),
       int_text (ias_BufferAfterMinutes s), pack (map allocation_text (ias_ResourceAllocations s))]"

definition slot_text :: "string \<Rightarrow> gotime \<Rightarrow> gotime \<Rightarrow> InternalAvailabilitySegment list \<Rightarrow> string" where
  "slot_text rf a b segments = pack [rf, int_text a, int_text b, pack (map segment_text segments)]"

lemma allocation_text_inject: "allocation_text a = allocation_text b \<longleftrightarrow> a = b"
  by (cases a, cases b) (auto simp: allocation_text_def pack_inject int_text_inject)

lemma segment_text_inject: "segment_text s = segment_text s' \<longleftrightarrow> s = s'"
proof -
  have "map allocation_text as = map allocation_text bs \<longleftrightarrow> as = bs" for as bs
    by (rule inj_map_eq_map) (simp add: inj_def allocation_text_inject)
  then show ?thesis
    by (cases s, cases s') (auto simp: segment_text_def pack_inject int_text_inject)
qed

lemma slot_text_inject:
  "slot_text rf a b segments = slot_text rf' a' b' segments' \<longleftrightarrow>
     rf = rf' \<and> a = a' \<and> b = b' \<and> segments = segments'"
proof -
  have "map segment_text as = map segment_text bs \<longleftrightarrow> as = bs" for as bs
    by (rule inj_map_eq_map) (simp add: inj_def segment_text_inject)
  then show ?thesis by (auto simp: slot_text_def pack_inject int_text_inject)
qed

section \<open>The environment and the database\<close>

definition sample_uuid :: "string \<Rightarrow> nat list \<Rightarrow> string" where
  "sample_uuid name path = name @ concat (map (\<lambda>n. CHR ''-'' # decimal_text (int n)) path)"

definition sample_store_env :: StoreEnv where
  "sample_store_env =
     \<lparr>st_MayExecute = (\<lambda>salonID user. user = ''o''), st_MayRead = (\<lambda>salonID user. user = ''o''),
      st_UUID = sample_uuid ''check'', st_UUIDParse = (\<lambda>s. s \<noteq> []), st_LoadLocation = sample_zone,
      st_RequestHash = (\<lambda>_ _ r. nar_PreferredDate r),
      st_LifecycleRequestHash = (\<lambda>_ _ target _ _. target), st_SlotHash = slot_text,
      st_ChildrenHash = (\<lambda>children. concat (map isr_StaffID children)),
      st_Guards = (\<lambda>_ _. None)\<rparr>"

lemma UTC_orderly: "orderly (\<lambda>_. 0)"
proof -
  have instant: "t = Date_UTC date hour minute"
    if "strictLocalInstant date hour minute (\<lambda>_. 0) = Some t" for date hour minute t
  proof -
    have member: "x \<in> set xs" if "(case filter P xs of [m] \<Rightarrow> Some m | _ \<Rightarrow> None) = Some x"
      for P xs and x :: gotime
    proof -
      from that have "filter P xs = [x]" by (auto split: list.splits)
      then show ?thesis by (metis filter_is_subset list.set_intros(1) subsetD)
    qed
    show ?thesis
      using that unfolding strictLocalInstant_def Let_def by (auto split: if_splits dest!: member)
  qed
  have minute: "t = Date_UTC date 0 0 + m * ns_per_minute"
    if "strictLocalMinute date m (\<lambda>_. 0) = Some t" for date m t
    using that
    by (auto simp: strictLocalMinute_def Date_UTC_minutes Date_UTC_next_day split: if_splits dest!: instant)
  show ?thesis
    unfolding orderly_def by (auto dest!: minute simp: ns_per_minute_def)
qed

lemma sample_env_ok: "zones_orderly sample_store_env" "slot_hash_exact sample_store_env"
  by (auto simp: zones_orderly_def slot_hash_exact_def sample_store_env_def sample_zone_def
      slot_text_inject UTC_orderly split: if_splits)

text \<open>
  An appointment of Monday morning: one guest with An until ten, and one with Bo on the first chair
  until half past twelve.
\<close>

definition sample_claim :: "string \<Rightarrow> string \<Rightarrow> int \<Rightarrow> gotime \<Rightarrow> AllocationRow list \<Rightarrow> AppointmentSegmentRow" where
  "sample_claim name staff order ends allocations =
     \<lparr>sg_ID = name, sg_SalonID = ''s'', sg_AppointmentID = ''old'', sg_ServiceID = ''gel'',
      sg_StaffID = staff, sg_StaffSelectionMode = StaffSelectionSpecific, sg_GuestReference = name,
      sg_Name = ''Gel'', sg_DurationMinutes = 60, sg_SortOrder = order, sg_PlanVersion = 1,
      sg_SchedulingAuthority = SchedulingAuthorityManleAICalendar,
      sg_ScheduledStartTime = Date_UTC sample_day 9 0, sg_ScheduledEndTime = ends,
      sg_BufferBeforeMinutes = 0, sg_BufferAfterMinutes = 0,
      sg_OccupiedStartTime = Date_UTC sample_day 9 0, sg_OccupiedEndTime = ends, sg_CreatedAt = 1,
      sg_ReleasedAt = None, sg_ReleasedByAttemptID = None, sg_Allocations = allocations\<rparr>"

definition sample_old :: AppointmentRow where
  "sample_old =
     \<lparr>ap_ID = ''old'', ap_SalonID = ''s'', ap_BookingAttemptID = ''old-attempt'',
      ap_Status = StatusConfirmed, ap_CustomerName = ''Ada'', ap_CustomerPhone = ''555'',
      ap_CustomerEmail = [], ap_ServiceID = ''gel'', ap_StaffID = ''an'',
      ap_StaffSelectionMode = StaffSelectionSpecific, ap_StartTime = Date_UTC sample_day 9 0,
      ap_EndTime = Date_UTC sample_day 12 30, ap_Notes = [],
      ap_SchedulingAuthority = SchedulingAuthorityManleAICalendar,
      ap_AuthorityAppointmentVersion = 1, ap_SchedulingAuthorityVersion = 1,
      ap_AuthorityConfigVersion = 4, ap_PartySize = 2, ap_ProviderEvidence = False,
      ap_CreatedAt = 1, ap_UpdatedAt = 1\<rparr>"

definition sample_db :: CalendarDB where
  "sample_db =
     \<lparr>cd_Calendars = [sample_aggregate], cd_Quotes = [], cd_Attempts = [],
      cd_Appointments = [sample_old],
      cd_Segments = [sample_claim ''c1'' ''an'' 1 (Date_UTC sample_day 10 0) [],
        sample_claim ''c2'' ''bo'' 2 (Date_UTC sample_day 12 30)
          [\<lparr>al_ID = ''a1'', al_ResourcePoolID = ''chair'', al_UnitsAllocated = 1, al_PlanVersion = 1,
            al_OccupiedStartTime = Date_UTC sample_day 9 0,
            al_OccupiedEndTime = Date_UTC sample_day 12 30, al_ReleasedAt = None\<rparr>]],
      cd_Events = []\<rparr>"

definition sample_request :: AvailabilityRequest where
  "sample_request =
     \<lparr>ar_TargetAppointmentID = [], ar_RetryOfAttemptID = [], ar_ServiceID = ''gel'',
      ar_StaffID = [], ar_StaffSelectionMode = StaffSelectionAnyone, ar_Segments = [],
      ar_PartySize = 1, ar_PreferredDate = ''2022-01-03'', ar_Limit = 5\<rparr>"

definition sample_fence :: executionFence where
  "sample_fence = \<lparr>fe_Timezone = ''UTC'', fe_Authority = SchedulingAuthorityManleAICalendar,
     fe_AuthorityVersion = 1, fe_ConfigVersion = 4, fe_ActivatedVersion = 4\<rparr>"

definition sample_slot :: InternalAvailabilitySlot where
  "sample_slot = slot_of_plan (Date_UTC sample_day 12 0) sample_plan"

text \<open>
  The fingerprint of the offered slot is left unevaluated: only equality with itself matters.
\<close>

definition sample_fingerprint :: string where [code del]:
  "sample_fingerprint = aggregateAvailabilitySlotFingerprint sample_store_env ''2022-01-03'' sample_slot"

definition sample_offer :: InternalAvailabilitySlot where
  "sample_offer = sample_slot\<lparr>isl_Fingerprint := sample_fingerprint\<rparr>"

definition sample_quote :: QuoteRow where
  "sample_quote = new_quote sample_store_env ''s'' sample_fence (booking_subject sample_fence) []
     sample_availability ''2022-01-03'' [sample_offer] sample_now"

definition sample_checked :: CalendarDB where
  "sample_checked = sample_db\<lparr>cd_Quotes := [sample_quote]\<rparr>"

definition sample_result :: AvailabilityResult where
  "sample_result = (aggregateAvailabilityResult sample_aggregate (sample_availability\<lparr>nar_Limit := 5\<rparr>) [sample_slot])
     \<lparr>ares_TargetAuthorityAppointmentVersion := 0, ares_QuoteID := ''check-0'',
      ares_RequestFingerprint := ''2022-01-03'',
      ares_ExpiresAt := Some (sample_now + internalAvailabilityQuoteTTL),
      ares_Slots := aggregateAvailabilitySlots [sample_offer]\<rparr>"

lemma sample_window_times:
  "localDateWindow sample_store_env ''2022-01-03'' ''UTC''
     = Inr (Date_UTC sample_day 0 0, Date_UTC (2022, 1, 4) 0 0)"
proof -
  have next_day: "civil_of_days (days_of_civil sample_day + 1) = (2022, 1, 4)" "valid_civil (2022, 1, 4)"
    "Date_UTC sample_day 0 0 < Date_UTC (2022, 1, 4) 0 0"
    by code_simp+
  have zone: "st_LoadLocation sample_store_env (TrimSpace ''UTC'') = Some (\<lambda>_. 0)"
    by (simp add: sample_store_env_def sample_zone_def sample_context_simps)
  show ?thesis
    unfolding localDateWindow_def zone option.case sample_context_simps(2) next_day(1)
    using sample_minutes [of 0] strictLocalMinute_UTC [OF next_day(2), of 0] next_day(3) by simp
qed

lemma sample_loads:
  "lockExecutionFence sample_store_env sample_db ''s'' ''o'' = Inr sample_fence"
  "loadAggregate sample_store_env sample_db ''s'' ''o'' = Inr sample_aggregate"
  "normalizeAggregateAvailabilityRequest (st_UUIDParse sample_store_env)
     (sample_request\<lparr>ar_TargetAppointmentID := []\<rparr>) = Inr (sample_availability\<lparr>nar_Limit := 5\<rparr>)"
  "calendar_snapshot sample_store_env sample_db ''s'' sample_aggregate
     (Date_UTC sample_day 0 0) (Date_UTC (2022, 1, 4) 0 0) [] = sample_snapshot"
  by code_simp+

lemma sample_check:
  "CheckAvailability_store sample_store_env ''s'' ''o'' sample_request sample_now sample_db
     = (Inr sample_result, sample_checked)"
proof -
  have fields: "TrimSpace (ar_TargetAppointmentID sample_request) = []"
    "fe_ConfigVersion sample_fence = 4" "fe_ActivatedVersion sample_fence = 4"
    "fe_Authority sample_fence = SchedulingAuthorityManleAICalendar" "fe_Timezone sample_fence = ''UTC''"
    "fe_AuthorityVersion sample_fence = 1"
    "nar_PreferredDate (sample_availability\<lparr>nar_Limit := 5\<rparr>) = ''2022-01-03''"
    "st_UUID sample_store_env [0] = ''check-0''"
    "quote_subject sample_store_env sample_db ''s'' ''o'' sample_fence sample_aggregate
       (sample_availability\<lparr>nar_Limit := 5\<rparr>) [] sample_now = Inr (booking_subject sample_fence)"
    by code_simp+
  have env: "st_RequestHash sample_store_env a c r = nar_PreferredDate r"
    "st_Guards sample_store_env x y = None" for a c r x y
    by (simp_all add: sample_store_env_def)
  have "new_quote sample_store_env ''s'' sample_fence (booking_subject sample_fence) []
      (sample_availability\<lparr>nar_Limit := 5\<rparr>) ''2022-01-03''
      [sample_offer] sample_now = sample_quote"
    "qr_ID sample_quote = ''check-0''" "qr_ExpiresAt sample_quote = sample_now + internalAvailabilityQuoteTTL"
    using fields(8) by (simp_all add: sample_quote_def new_quote_def)
  moreover have "sample_db\<lparr>cd_Quotes := cd_Quotes sample_db @ [sample_quote]\<rparr> = sample_checked"
    by (simp add: sample_checked_def sample_db_def)
  moreover have "fingerprinted_slot sample_store_env ''2022-01-03'' sample_slot = sample_offer"
    by (simp add: fingerprinted_slot_def sample_offer_def sample_fingerprint_def)
  ultimately have store: "store_quote sample_store_env sample_db ''s'' sample_fence
      (booking_subject sample_fence) [] (sample_availability\<lparr>nar_Limit := 5\<rparr>) sample_aggregate
      [sample_slot] sample_now = (Inr sample_result, sample_checked)"
    by (simp add: store_quote_def commit_def env fields(7) sample_result_def Let_def)
  have "st_LoadLocation sample_store_env = sample_zone" by (simp add: sample_store_env_def)
  then show ?thesis
    unfolding CheckAvailability_store_def Let_def
    by (simp add: fields sample_loads sample_window_times sample_answers store [unfolded fields] flip: sample_slot_def)
qed

definition sample_session :: StoreEnv where
  "sample_session = session sample_store_env (sample_uuid ''book'') (\<lambda>_ user. user = ''o'')
     (\<lambda>_ user. user = ''o'')"

definition sample_booking :: InternalCreateRequest where
  "sample_booking =
     \<lparr>icr_OperationKey = ''key'', icr_RequestFingerprint = ''f'',
      icr_AvailabilityQuoteID = ''check-0'',
      icr_SlotFingerprint = sample_fingerprint,
      icr_Source = ''owner'', icr_CustomerName = ''Eve'', icr_CustomerPhone = ''556'',
      icr_CustomerEmail = [], icr_PartySize = 1,
      icr_Segments = [\<lparr>ics_ServiceID = ''gel'', ics_StaffID = ''an'',
        ics_StaffSelectionMode = StaffSelectionAnyone, ics_GuestReference = [], ics_Quantity = 1,
        ics_RequestedStartTime = Date_UTC sample_day 12 0,
        ics_RequestedEndTime = Date_UTC sample_day 13 0\<rparr>],
      icr_RequestedStartTime = Date_UTC sample_day 12 0,
      icr_RequestedEndTime = Date_UTC sample_day 13 0, icr_RequestedTimezone = ''UTC'',
      icr_Notes = []\<rparr>"

definition sample_stored :: quotedAggregateSlot where
  "sample_stored =
     \<lparr>qu_QuoteID = ''check-0'', qu_RequestFingerprint = ''2022-01-03'',
      qu_ExpiresAt = sample_now + internalAvailabilityQuoteTTL, qu_ConsumedAt = None,
      qu_ConsumedAttemptID = None, qu_AuthorityVersion = 1, qu_ConfigVersion = 4,
      qu_OperationType = BookingActionBook, qu_TargetAppointmentID = [],
      qu_TargetAuthorityAppointmentVersion = 0, qu_PartySize = 1, qu_SlotID = ''check-1-0'',
      qu_SlotFingerprint = sample_fingerprint, qu_StartTime = Date_UTC sample_day 12 0,
      qu_EndTime = Date_UTC sample_day 13 0,
      qu_Segments = map (stored_segment sample_store_env sample_db ''s'' 0) (enumerate 0 sample_plan)\<rparr>"

definition sample_booked :: CalendarDB where
  "sample_booked = created_db sample_session sample_checked ''s'' sample_booking sample_stored
     sample_aggregate sample_now"

lemma sample_create_steps:
  "replayAggregateCreateTx sample_session sample_checked ''s'' ''o'' sample_booking = Inr None"
  "lockExecutionFence sample_session sample_checked ''s'' ''o'' = Inr sample_fence"
  "create_quote_usable sample_fence sample_stored sample_booking sample_now"
  "quotedRequest sample_session sample_stored ''UTC'' = Some sample_availability"
  "qu_RequestFingerprint sample_stored = st_RequestHash sample_session
     (qu_AuthorityVersion sample_stored) (qu_ConfigVersion sample_stored) sample_availability"
  "fe_Timezone sample_fence = ''UTC''"
  by code_simp+

lemma sample_lock:
  "lockQuotedAggregateSlot sample_checked ''s'' (icr_AvailabilityQuoteID sample_booking)
     (icr_SlotFingerprint sample_booking) = Inr sample_stored"
proof -
  have quote: "find_quote sample_checked ''s'' ''check-0'' = Some sample_quote"
    "map (scan_quoted_segment sample_checked ''s'') (sort_key ps_SortOrder (qsl_Segments (hd (qr_Slots sample_quote))))
      = qu_Segments sample_stored"
    "qr_ID sample_quote = ''check-0''" "qsl_ID (hd (qr_Slots sample_quote)) = ''check-1-0''"
    "isl_EndTime sample_offer = Date_UTC sample_day 13 0"
    by code_simp+
  have "qr_Slots sample_quote = [quote_slot_row sample_store_env (0, sample_offer)]"
    by (simp add: sample_quote_def new_quote_def)
  then show ?thesis
    using quote
    by (simp add: lockQuotedAggregateSlot_def sample_booking_def)
       (simp add: sample_quote_def new_quote_def quote_slot_row_def sample_offer_def sample_stored_def
         sample_slot_def sample_fence_def sample_availability_def)
qed

lemma sample_rechecked:
  "recheck_quote sample_session sample_checked ''s'' ''o'' sample_fence sample_stored
     sample_availability [] sample_now = Inr sample_aggregate"
proof -
  have steps: "pools_lockable sample_checked ''s'' (distinctPoolIDs (qu_Segments sample_stored))"
    "lockAggregateCanonicalRows sample_checked ''s'' sample_stored = None"
    "loadAggregate sample_session sample_checked ''s'' ''o'' = Inr sample_aggregate"
    "format_date (local_civil (\<lambda>_. 0) (qu_StartTime sample_stored)) = ''2022-01-03''"
    "calendar_snapshot sample_session sample_checked ''s'' sample_aggregate
       (Date_UTC sample_day 0 0) (Date_UTC (2022, 1, 4) 0 0) [] = sample_snapshot"
    "isl_Segments (quotedSlotAsPlan sample_stored sample_aggregate) = sample_plan"
    "isl_EndTime sample_slot = Date_UTC sample_day 13 0"
    by code_simp+
  have env: "st_LoadLocation sample_session = sample_zone" "sample_zone ''UTC'' = Some (\<lambda>_. 0)"
    "localDateWindow sample_session = localDateWindow sample_store_env"
    "aggregateAvailabilitySlotFingerprint sample_session = aggregateAvailabilitySlotFingerprint sample_store_env"
    "qu_RequestFingerprint sample_stored = ''2022-01-03''" "qu_SlotFingerprint sample_stored = sample_fingerprint"
    by (simp_all add: sample_session_def sample_zone_def sample_stored_def, simp add: sample_store_env_def)
  have "aggregateAvailabilitySlotFingerprint sample_store_env rf (quotedSlotAsPlan sample_stored sample_aggregate)
      = aggregateAvailabilitySlotFingerprint sample_store_env rf sample_slot" for rf
    unfolding aggregateAvailabilitySlotFingerprint_def steps(6,7)
    by (simp add: quotedSlotAsPlan_def sample_stored_def sample_slot_def)
  then show ?thesis
    unfolding recheck_quote_def
    by (simp add: steps env sample_create_steps(6) sample_window_times sample_answer exactAggregatePlan_def
        sample_fingerprint_def flip: sample_slot_def)
qed

definition sample_confirmed :: InternalCreateResult where
  "sample_confirmed = projr (loadAuthoritativeInternalResultTx sample_session sample_booked ''s'' ''o''
     ''book-1'' ''book-0'')"

lemma sample_books:
  "CreateAppointment sample_session ''s'' ''o'' sample_booking sample_now sample_checked
     = (Inr (Some sample_confirmed, False), sample_booked)"
proof -
  have steps: "\<not> key_taken sample_checked ''s'' (icr_OperationKey sample_booking)"
    "consumes_one sample_checked ''s'' (qu_QuoteID sample_stored) sample_now"
    "loadAuthoritativeInternalResultTx sample_session sample_booked ''s'' ''o''
       (st_UUID sample_session [1]) (st_UUID sample_session [0]) = Inr sample_confirmed"
    by code_simp+
  have "st_Guards sample_session x y = None" for x y
    by (simp add: sample_session_def sample_store_env_def)
  then have "insert_appointment sample_session sample_checked ''s'' ''o'' sample_booking sample_stored
      sample_aggregate sample_now = (Inr (Some sample_confirmed, False), sample_booked)"
    using steps(3)
    by (simp add: insert_appointment_def steps(1,2) commit_def flip: sample_booked_def)
  then show ?thesis
    by (simp add: CreateAppointment_def sample_create_steps sample_lock sample_rechecked)
qed

definition sample_cancellation_request :: InternalLifecycleRequest where
  "sample_cancellation_request =
     \<lparr>ilr_OperationType = OperationKindCancel, ilr_OperationKey = ''key-2'',
      ilr_RequestFingerprint = ''g'', ilr_AvailabilityQuoteID = [], ilr_SlotFingerprint = [],
      ilr_Source = ''owner'', ilr_CustomerName = [], ilr_CustomerPhone = [],
      ilr_CustomerEmail = [], ilr_PartySize = 0, ilr_Segments = [], ilr_RequestedStartTime = 0,
      ilr_RequestedEndTime = 0, ilr_RequestedTimezone = [], ilr_Notes = [],
      ilr_TargetAppointmentID = ''old'', ilr_ExpectedTargetAuthorityAppointmentVersion = 1\<rparr>"

definition sample_cancel_session :: StoreEnv where
  "sample_cancel_session = session sample_store_env (sample_uuid ''cancel'') (\<lambda>_ user. user = ''o'')
     (\<lambda>_ user. user = ''o'')"

definition sample_cancelled :: "(error + InternalCreateResult option \<times> bool) \<times> CalendarDB" where
  "sample_cancelled = CancelAppointment sample_cancel_session ''s'' ''o'' sample_cancellation_request
     sample_now sample_db"

lemma sample_cancels:
  "\<exists>result. CancelAppointment sample_cancel_session ''s'' ''o'' sample_cancellation_request sample_now
     sample_db = (Inr (Some result, False), snd sample_cancelled)"
proof -
  have "(case fst sample_cancelled of Inr (Some _, False) \<Rightarrow> True | _ \<Rightarrow> False)" by code_simp
  then show ?thesis
    unfolding sample_cancelled_def [symmetric]
    by (cases "fst sample_cancelled")
      (auto simp: prod_eq_iff split: prod.splits option.splits bool.splits)
qed

section \<open>The theorems at the sample salon\<close>

lemma sample_db_ok: "calendar_ok sample_db" "ledger_ok sample_db" "allocations_ok sample_db"
  by code_simp+

lemma sample_fresh:
  "sample_uuid ''check'' [0] \<notin> qr_ID ` set (cd_Quotes sample_db)"
  "sample_uuid ''book'' [0] \<notin> at_ID ` set (cd_Attempts sample_checked)"
  "sample_uuid ''book'' [1] \<notin> ap_ID ` set (cd_Appointments sample_checked)"
  "fresh_attempt sample_session sample_checked" "fresh_attempt sample_cancel_session sample_db"
  "fresh_ids sample_session sample_db"
  by code_simp+

lemma sample_run: "(calendar_step sample_store_env)\<^sup>*\<^sup>* sample_db sample_booked"
proof -
  have "session sample_store_env (sample_uuid ''check'') (st_MayExecute sample_store_env)
      (st_MayRead sample_store_env) = sample_store_env"
    by (simp add: session_def sample_store_env_def)
  then have "calendar_step sample_store_env sample_db sample_checked"
    using calendar_step.check [where uuid = "sample_uuid ''check''" and db = sample_db
        and env = sample_store_env and execute = "st_MayExecute sample_store_env"
        and read = "st_MayRead sample_store_env", OF sample_fresh(1)] sample_check by metis
  moreover have "calendar_step sample_store_env sample_checked sample_booked"
    using sample_books unfolding sample_session_def
    by (rule calendar_step.create [where uuid = "sample_uuid ''book''" and db = sample_checked,
          OF sample_fresh(2,3)])
  ultimately show ?thesis by (meson converse_rtranclp_into_rtranclp rtranclp.rtrancl_refl)
qed

theorem calendar_never_double_books_witness: "\<not> double_booked sample_booked"
  using calendar_never_double_books [OF sample_run sample_db_ok(1) sample_env_ok] by simp

theorem quote_and_key_used_once_witness:
  "\<exists>db. (calendar_step sample_store_env)\<^sup>*\<^sup>* sample_db db \<and> length (calendar_attempts db) = 2
     \<and> operation_id (calendar_attempts db ! 0) \<noteq> operation_id (calendar_attempts db ! 1)"
proof -
  define cancelled where "cancelled = CancelAppointment sample_cancel_session ''s'' ''o''
    sample_cancellation_request sample_now sample_booked"
  have "sample_uuid ''cancel'' [0] \<notin> at_ID ` set (cd_Attempts sample_booked)" by code_simp
  moreover have "CancelAppointment (session sample_store_env (sample_uuid ''cancel'')
      (\<lambda>_ user. user = ''o'') (\<lambda>_ user. user = ''o'')) ''s'' ''o'' sample_cancellation_request
      sample_now sample_booked = (fst cancelled, snd cancelled)"
    by (simp add: cancelled_def sample_cancel_session_def)
  ultimately have "calendar_step sample_store_env sample_booked (snd cancelled)"
    by (rule calendar_step.cancel)
  with sample_run have run: "(calendar_step sample_store_env)\<^sup>*\<^sup>* sample_db (snd cancelled)" by simp
  moreover have two: "length (calendar_attempts (snd cancelled)) = 2"
    unfolding cancelled_def by code_simp
  ultimately show ?thesis
    using quote_and_key_used_once [OF run sample_db_ok(2), of 0 1] by auto
qed

text \<open>Later, the customer of the booking cancels it.\<close>

definition sample_later :: CalendarDB where
  "sample_later = snd (CancelAppointment sample_cancel_session ''s'' ''o''
     (sample_cancellation_request\<lparr>ilr_TargetAppointmentID := sample_uuid ''book'' [1]\<rparr>) sample_now
     sample_booked)"

lemma sample_later_run: "(calendar_step sample_store_env)\<^sup>*\<^sup>* sample_booked sample_later"
proof -
  let ?request = "sample_cancellation_request\<lparr>ilr_TargetAppointmentID := sample_uuid ''book'' [1]\<rparr>"
  have "sample_uuid ''cancel'' [0] \<notin> at_ID ` set (cd_Attempts sample_booked)" by code_simp
  moreover have "CancelAppointment (session sample_store_env (sample_uuid ''cancel'')
      (\<lambda>_ user. user = ''o'') (\<lambda>_ user. user = ''o'')) ''s'' ''o'' ?request sample_now sample_booked
      = (fst (CancelAppointment sample_cancel_session ''s'' ''o'' ?request sample_now sample_booked),
         sample_later)"
    by (simp add: sample_later_def sample_cancel_session_def)
  ultimately have "calendar_step sample_store_env sample_booked sample_later"
    by (rule calendar_step.cancel)
  then show ?thesis by simp
qed

lemma sample_later_facts:
  "keys_unique sample_later" "fresh_ids sample_session sample_checked"
  "distinct (map appointment_key (cd_Appointments sample_checked))"
  "ap_Status (last (cd_Appointments sample_later)) = StatusCancelled"
  "icr_OperationKey sample_booking \<noteq> []"
  "pool_name sample_later ''s'' = pool_name sample_booked ''s''"
proof -
  have "cd_Calendars sample_later = cd_Calendars sample_booked" by code_simp
  then show "pool_name sample_later ''s'' = pool_name sample_booked ''s''"
    by (simp add: fun_eq_iff pool_name_def calendar_row_def)
qed code_simp+

theorem committed_booking_replays_witness:
  "CreateAppointment sample_cancel_session ''s'' ''o'' sample_booking (sample_now + 1) sample_later
     = (Inr (Some sample_confirmed, True), sample_later)
   \<and> ap_Status (last (cd_Appointments sample_later)) = StatusCancelled"
proof -
  have may: "st_MayExecute sample_cancel_session ''s'' ''o''" by (simp add: sample_cancel_session_def)
  show ?thesis
    using committed_booking_replays [OF sample_books sample_later_facts(2,3) sample_later_run
        sample_later_facts(1,5) may] sample_later_facts(4,6) by blast
qed

theorem committed_change_replays_witness:
  "\<exists>result. CancelAppointment sample_session ''s'' ''o'' sample_cancellation_request (sample_now + 1)
     (snd sample_cancelled) = (Inr (Some result, True), snd sample_cancelled)"
proof -
  obtain result where cancel: "CancelAppointment sample_cancel_session ''s'' ''o''
      sample_cancellation_request sample_now sample_db = (Inr (Some result, False), snd sample_cancelled)"
    using sample_cancels by blast
  have "st_MayExecute sample_session ''s'' ''o''" by (simp add: sample_session_def)
  moreover have "TrimSpace (ilr_TargetAppointmentID sample_cancellation_request)
      = ilr_TargetAppointmentID sample_cancellation_request" by code_simp
  ultimately show ?thesis using committed_change_replays [OF sample_fresh(5)] cancel by blast
qed

theorem reused_key_is_driver_error_witness:
  "CancelAppointment sample_cancel_session ''s'' ''o''
     (sample_cancellation_request\<lparr>ilr_OperationKey := ''key''\<rparr>) (sample_now + 1) sample_later
     = (Inl null_scan_error, sample_later)
   \<and> RescheduleAppointment sample_cancel_session ''s'' ''o''
     (sample_cancellation_request\<lparr>ilr_OperationKey := ''key'', ilr_OperationType := OperationKindReschedule\<rparr>)
     (sample_now + 1) sample_later = (Inl null_scan_error, sample_later)"
proof -
  have may: "st_MayExecute sample_cancel_session ''s'' ''o''" by (simp add: sample_cancel_session_def)
  have key: "icr_OperationKey sample_booking = ''key''" "''key'' \<noteq> []"
    by (simp_all add: sample_booking_def)
  have fresh: "fresh_attempt sample_session sample_checked" by (rule sample_fresh(4))
  note reuse = reused_key_is_driver_error [OF fresh sample_later_run sample_later_facts(1) may]
  show ?thesis
    using reuse [of "sample_cancellation_request\<lparr>ilr_OperationKey := ''key''\<rparr>" sample_booking]
      reuse [of "sample_cancellation_request\<lparr>ilr_OperationKey := ''key'',
        ilr_OperationType := OperationKindReschedule\<rparr>" sample_booking] sample_books key
    by (simp add: sample_cancellation_request_def)
qed

theorem cancel_releases_exactly_the_target_witness:
  "filter live_claim (cd_Segments (snd sample_cancelled)) = []"
proof -
  obtain result where cancel: "CancelAppointment sample_cancel_session ''s'' ''o''
      sample_cancellation_request sample_now sample_db = (Inr (Some result, False), snd sample_cancelled)"
    using sample_cancels by blast
  have "filter (\<lambda>s. live_claim s \<and> \<not> (sg_SalonID s = ''s'' \<and> sg_AppointmentID s = ''old''))
      (cd_Segments sample_db) = []"
    "TrimSpace (ilr_TargetAppointmentID sample_cancellation_request) = ''old''" by code_simp+
  then show ?thesis
    using cancel_releases_exactly_the_target [OF cancel sample_db_ok(1)] by (simp add: Let_def)
qed

theorem committed_plan_within_capacity_witness:
  "\<exists>row capacity. calendar_row sample_booked ''s'' = Some row
    \<and> base_capacity row ''chair'' = Some capacity
    \<and> pool_load sample_booked ''s'' ''chair'' (Date_UTC sample_day 12 15)
      \<le> effective_capacity row ''chair'' capacity (Date_UTC sample_day 12 15)
    \<and> pool_load sample_booked ''s'' ''chair'' (Date_UTC sample_day 12 15) = 2"
proof -
  have committed: "plan_committed sample_session ''s'' ''o'' sample_booking sample_cancellation_request
      sample_now sample_checked sample_booked (st_UUID sample_session [1])"
    using sample_books sample_fresh(3) unfolding plan_committed_def by (auto simp: sample_session_def)
  have ok: "calendar_ok sample_checked" "allocations_ok sample_checked" by code_simp+
  have env: "zones_orderly sample_session" "slot_hash_exact sample_session"
    using sample_env_ok by (simp_all add: sample_session_def)
  let ?s = "last (cd_Segments sample_booked)"
  have s: "?s \<in> set (cd_Segments sample_booked)" "live_claim ?s" "sg_SalonID ?s = ''s''"
    "sg_AppointmentID ?s = st_UUID sample_session [1]" "hd (sg_Allocations ?s) \<in> set (sg_Allocations ?s)"
    "covers (Date_UTC sample_day 12 15) (hd (sg_Allocations ?s))"
    "al_ResourcePoolID (hd (sg_Allocations ?s)) = ''chair''"
    "pool_load sample_booked ''s'' ''chair'' (Date_UTC sample_day 12 15) = 2"
    by code_simp+
  from committed_plan_within_capacity [OF committed ok env s(1-6)] s(7,8) show ?thesis by simp
qed

lemma sample_catalog: "calendar_row sample_db ''s'' = Some sample_aggregate" "catalog_ok sample_aggregate"
  by code_simp+

lemma sample_slots: "ares_Slots sample_result = aggregateAvailabilitySlots [sample_offer]"
  "ares_QuoteID sample_result = ''check-0''"
  by (simp_all add: sample_result_def)

theorem quote_keeps_the_offer_witness:
  "\<exists>quote. lockQuotedAggregateSlot sample_checked ''s'' ''check-0'' sample_fingerprint = Inr quote
     \<and> qu_StartTime quote = Date_UTC sample_day 12 0 \<and> qu_ConsumedAt quote = None"
proof -
  let ?slot = "hd (aggregateAvailabilitySlots [sample_offer])"
  have slot: "?slot \<in> set (ares_Slots sample_result)"
    unfolding sample_slots by (simp add: aggregateAvailabilitySlots_def)
  have fresh: "st_UUID sample_store_env [0] \<notin> qr_ID ` set (cd_Quotes sample_db)"
    by (simp add: sample_db_def)
  show ?thesis
    using quote_keeps_the_offer [OF sample_check slot fresh sample_env_ok(2) sample_catalog]
    unfolding sample_slots
    by (simp add: aggregateAvailabilitySlots_def sample_offer_def sample_slot_def) blast
qed

theorem offered_slot_can_be_booked_witness:
  "\<exists>booked db. CreateAppointment sample_session ''s'' ''o'' sample_booking (sample_now + ns_per_minute)
     sample_checked = (Inr (Some booked, False), db)"
proof -
  let ?slot = "hd (aggregateAvailabilitySlots [sample_offer])"
  have slot: "?slot \<in> set (ares_Slots sample_result)"
    unfolding sample_slots by (simp add: aggregateAvailabilitySlots_def)
  have booking: "TrimSpace (ar_TargetAppointmentID sample_request) = []" by code_simp
  have fresh: "st_UUID sample_store_env [0] \<notin> qr_ID ` set (cd_Quotes sample_db)"
    by (simp add: sample_db_def)
  have hash: "st_RequestHash sample_store_env a c (r\<lparr>nar_Limit := l\<rparr>) = st_RequestHash sample_store_env a c r"
    "st_Guards sample_store_env x y = None" "st_LoadLocation sample_store_env ''UTC'' = Some (\<lambda>_. 0)"
    for a c r l x y by (simp_all add: sample_store_env_def sample_zone_def)
  have row: "agg_Config sample_aggregate = Some sample_config" "agg_Timezone sample_aggregate = ''UTC''"
    by (simp_all add: sample_aggregate_def)
  have asks: "asks_for (sample_result\<lparr>ares_Slots := []\<rparr>) ?slot
      (nar_PartySize (sample_availability\<lparr>nar_Limit := 5\<rparr>)) sample_booking"
    by code_simp
  have "\<exists>stored aggregate booked.
      lockQuotedAggregateSlot sample_checked ''s'' (ares_QuoteID sample_result) (aslot_Fingerprint ?slot) = Inr stored
      \<and> (let db2 = created_db sample_session sample_checked ''s'' sample_booking stored aggregate
            (sample_now + ns_per_minute)
         in CreateAppointment sample_session ''s'' ''o'' sample_booking (sample_now + ns_per_minute) sample_checked
           = (case st_Guards sample_store_env sample_checked db2 of
                None \<Rightarrow> (Inr (Some booked, False), db2)
              | Some refusal \<Rightarrow> (Inl refusal, sample_checked)))"
    unfolding sample_session_def
  proof (rule offered_slot_can_be_booked [OF sample_check booking slot sample_loads(3) fresh
        sample_env_ok(2) hash(1) sample_catalog row(1)])
    show "st_LoadLocation sample_store_env (agg_Timezone sample_aggregate) = Some (\<lambda>_. 0)"
      using hash(3) row(2) by simp
    show "asks_for sample_result ?slot (nar_PartySize (sample_availability\<lparr>nar_Limit := 5\<rparr>)) sample_booking"
      using asks by (simp add: asks_for_def)
    show "\<not> key_taken sample_db ''s'' (icr_OperationKey sample_booking)" by code_simp
    show "sample_now + ns_per_minute < sample_now + 2 * ns_per_minute" by (simp add: ns_per_minute_def)
    show "minimum_start sample_config (sample_now + ns_per_minute) \<le> aslot_StartTime ?slot"
      "within_horizon sample_config (\<lambda>_. 0) (sample_now + ns_per_minute)
         (local_civil (\<lambda>_. 0) (aslot_StartTime ?slot))" by code_simp+
    show "fresh_ids (session sample_store_env (sample_uuid ''book'') (\<lambda>_ user. user = ''o'')
        (\<lambda>_ user. user = ''o'')) sample_db"
      using sample_fresh(6) by (simp add: sample_session_def)
  qed simp_all
  then show ?thesis by (auto simp: hash(2) Let_def)
qed

end
