(* ===== verification/Delivery_Types.thy ===== *)
theory Delivery_Types
  imports Booking_Types
begin

text \<open>
  The vocabulary of owner-notification delivery (\<open>modules/notification_delivery/types.go\<close>): the
  delivery states, the protocol bounds, the errors, and the structs the processor, the repository
  and the message sender exchange.
\<close>

section \<open>Constants\<close>

definition ProviderTwilio :: string where [go_consts]: "ProviderTwilio = ''twilio''"

definition StatusQueued :: string where [go_consts]: "StatusQueued = ''queued''"
definition StatusDelivering :: string where [go_consts]: "StatusDelivering = ''delivering''"
definition StatusProviderAccepted :: string where [go_consts]:
  "StatusProviderAccepted = ''provider_accepted''"
definition StatusSent :: string where [go_consts]: "StatusSent = ''sent''"
definition StatusDelivered :: string where [go_consts]: "StatusDelivered = ''delivered''"
definition StatusFailed :: string where [go_consts]: "StatusFailed = ''failed''"
definition StatusUndelivered :: string where [go_consts]: "StatusUndelivered = ''undelivered''"
definition StatusDeadLetter :: string where [go_consts]: "StatusDeadLetter = ''dead_letter''"
definition StatusDisabled :: string where [go_consts]: "StatusDisabled = ''disabled''"

definition MaxSafeDeliveryAttempts :: int where "MaxSafeDeliveryAttempts = 5"

definition DeliveryLeaseDuration :: int where "DeliveryLeaseDuration = 120 * 1000000000"

definition SafeRetryBaseDelay :: int where "SafeRetryBaseDelay = 30 * 1000000000"

section \<open>Errors\<close>

datatype delivery_error =
    ErrDeliveryNotFound
  | ErrDeliveryValidation
  | ErrDeliveryConflict
  | ErrRequeueBlocked
  | ErrClaimLost
  | ErrConfigDisabled
  | ErrConfigNotReady
  | ErrOutcomeUnknown
  | ContextError string
  | DeliveryDatabaseError string

text \<open>What \<open>Sender.Send\<close> may fail with: a \<open>*SendError\<close>, possibly wrapped, or any other error.\<close>

record SendError =
  se_Code :: string
  se_Retryable :: bool
  se_Ambiguous :: bool

datatype send_error = Classified SendError | Unclassified string

section \<open>Structs\<close>

record ClaimedNotification =
  cn_ID :: string
  cn_SalonID :: string
  cn_Type :: string
  cn_Message :: string
  cn_ClaimToken :: string
  cn_AttemptNumber :: int
  cn_RequeueCount :: int
  cn_CreatedAt :: gotime

record OutboundMessage =
  om_NotificationID :: string
  om_SalonID :: string
  om_Destination :: string
  om_Body :: string

record SendResult =
  sr_ProviderMessageID :: string
  sr_ProviderStatus :: string
  sr_DeliveryStatus :: string
  sr_StatusRank :: int

text \<open>A sender is called in a world \<open>'w\<close>: the provider behind it. \<open>None\<close> is the nil interface.\<close>

type_synonym 'w Sender = "OutboundMessage \<Rightarrow> 'w \<Rightarrow> (send_error + SendResult) \<times> 'w"

record 'w DeliveryChannel =
  ch_Enabled :: bool
  ch_Provider :: string
  ch_Destination :: string
  ch_DestinationMasked :: string
  ch_Sender :: "'w Sender option"

record DeliveryEvent =
  dev_ID :: string
  dev_EventType :: string
  dev_DeliveryStatus :: string
  dev_ProviderStatus :: string
  dev_ErrorCode :: string
  dev_CreatedAt :: gotime

record DeliveryRecord =
  dr_ID :: string
  dr_SalonID :: string
  dr_NotificationType :: string
  dr_InAppStatus :: string
  dr_DeliveryStatus :: string
  dr_DeliveryProvider :: string
  dr_DestinationMasked :: string
  dr_DeliveryAttempts :: int
  dr_ProviderStatus :: string
  dr_LastDeliveryErrorCode :: string
  dr_CanRequeue :: bool
  dr_RequeueBlockedReason :: string
  dr_NextDeliveryAt :: gotime
  dr_DeliveredAt :: "gotime option"
  dr_DeadLetteredAt :: "gotime option"
  dr_LastProviderEventAt :: "gotime option"
  dr_Redacted :: bool
  dr_RedactedAt :: "gotime option"
  dr_RedactionVersion :: int
  dr_CreatedAt :: gotime
  dr_Events :: "DeliveryEvent list"

record DeliveryMetrics =
  dm_Queued :: int
  dm_Delivering :: int
  dm_ProviderAccepted :: int
  dm_Sent :: int
  dm_Delivered :: int
  dm_DeadLetter :: int
  dm_Disabled :: int

record ListResponse =
  lr_Deliveries :: "DeliveryRecord list"
  lr_Metrics :: DeliveryMetrics
  lr_Limit :: int
  lr_Offset :: int
  lr_HasMore :: bool

record DetailResponse =
  det_Delivery :: DeliveryRecord

record RequeueRequest =
  rqr_ActionKey :: string

record ProviderCallback =
  pcb_Provider :: string
  pcb_ProviderMessageID :: string
  pcb_ProviderStatus :: string
  pcb_StatusRank :: int
  pcb_DeliveryStatus :: string
  pcb_EventKey :: string
  pcb_EventFingerprint :: string
  pcb_ErrorCode :: string
  pcb_OccurredAt :: gotime

section \<open>Attempts and delays\<close>

text \<open>
  Requeueing grants another cycle of \<open>MaxSafeDeliveryAttempts\<close> attempts; the delay before the next
  attempt doubles within a cycle.
\<close>

definition SafeRetryDelay :: "int \<Rightarrow> int" where
  "SafeRetryDelay attempt =
     (let attempt = (if attempt < 1 then 1 else attempt);
          attempt = (if attempt > MaxSafeDeliveryAttempts then MaxSafeDeliveryAttempts else attempt)
      in 2 ^ nat (attempt - 1) * SafeRetryBaseDelay)"

definition DeliveryAttemptInCycle :: "ClaimedNotification \<Rightarrow> int" where
  "DeliveryAttemptInCycle item =
     (let attempt = cn_AttemptNumber item - cn_RequeueCount item * MaxSafeDeliveryAttempts in
      if attempt < 1 then 1
      else if attempt > MaxSafeDeliveryAttempts then MaxSafeDeliveryAttempts
      else attempt)"

definition ValidListStatus :: "string \<Rightarrow> bool" where
  "ValidListStatus v \<longleftrightarrow>
     v \<in> {[], StatusQueued, StatusDelivering, StatusProviderAccepted, StatusSent, StatusDelivered,
          StatusFailed, StatusUndelivered, StatusDeadLetter, StatusDisabled}"

definition ValidateListBounds :: "int \<Rightarrow> int \<Rightarrow> delivery_error option" where
  "ValidateListBounds limit offset =
     (if limit < 1 \<or> limit > 100 \<or> offset < 0 then Some ErrDeliveryValidation else None)"

lemma retry_delay_bounds:
  "SafeRetryBaseDelay \<le> SafeRetryDelay attempt" "SafeRetryDelay attempt \<le> 16 * SafeRetryBaseDelay"
proof -
  define a where "a = min (max attempt 1) 5"
  have "a = 1 \<or> a = 2 \<or> a = 3 \<or> a = 4 \<or> a = 5" unfolding a_def by linarith
  moreover have "SafeRetryDelay attempt = 2 ^ nat (a - 1) * SafeRetryBaseDelay"
    unfolding a_def by (auto simp: SafeRetryDelay_def MaxSafeDeliveryAttempts_def Let_def min_def max_def)
  ultimately show "SafeRetryBaseDelay \<le> SafeRetryDelay attempt"
    "SafeRetryDelay attempt \<le> 16 * SafeRetryBaseDelay"
    by (auto simp: SafeRetryBaseDelay_def eval_nat_numeral)
qed

lemma attempt_in_cycle_bounds:
  "1 \<le> DeliveryAttemptInCycle item" "DeliveryAttemptInCycle item \<le> MaxSafeDeliveryAttempts"
  by (auto simp: DeliveryAttemptInCycle_def MaxSafeDeliveryAttempts_def Let_def)

lemmas delivery_status_defs =
  StatusQueued_def StatusDelivering_def StatusProviderAccepted_def StatusSent_def
  StatusDelivered_def StatusFailed_def StatusUndelivered_def StatusDeadLetter_def StatusDisabled_def

lemma delivery_status_distinct:
  "distinct [StatusQueued, StatusDelivering, StatusProviderAccepted, StatusSent, StatusDelivered,
     StatusFailed, StatusUndelivered, StatusDeadLetter, StatusDisabled]"
  by (simp add: delivery_status_defs)

end
