(* ===== verification/Delivery_Repository.thy ===== *)
theory Delivery_Repository
  imports Delivery_Types "HOL-Library.Product_Lexorder"
begin

text \<open>
  The repository of owner-notification delivery (\<open>modules/notification_delivery/repository.go\<close>) over
  an explicit database: leases that expire, claims, the records of a delivery attempt, provider
  callbacks and requeues. The two worker functions the repository calls are those of the schema:
  \<open>app_worker_claim_owner_notifications\<close> (\<open>migrations/V90\<close>) and
  \<open>app_worker_expired_owner_notification_leases\<close> (\<open>migrations/V79\<close>).

  Every operation is one transaction, a function from a database to a database at the transaction
  time \<open>now\<close>; an error rolls back. A NULL text is the empty string where the code only reads it
  through \<open>COALESCE\<close>. Parameters (\<open>DeliveryEnv\<close>): the tenant predicates, \<open>gen_random_uuid\<close> (one
  value per row a transaction inserts), SHA-256, the claim limit of a tenant, the rows another
  transaction holds a lock on (\<open>SKIP LOCKED\<close>), and what the remaining constraints and triggers of
  the schema reject about the state to be committed; they can only make a transaction fail.
\<close>

section \<open>Rows\<close>

record DeliveryRow =
  dn_ID :: string
  dn_SalonID :: string
  dn_Type :: string
  dn_InAppStatus :: string
  dn_Message :: string
  dn_DeliveryStatus :: string
  dn_NextDeliveryAt :: gotime
  dn_DeliveryAttempts :: int
  dn_RequeueCount :: int
  dn_DeliveryProvider :: string
  dn_DestinationMasked :: string
  dn_ClaimToken :: "string option"
  dn_ClaimedAt :: "gotime option"
  dn_LeaseExpiresAt :: "gotime option"
  dn_DispatchStartedAt :: "gotime option"
  dn_ProviderMessageID :: "string option"
  dn_ProviderStatus :: string
  dn_ProviderStatusRank :: int
  dn_LastProviderEventAt :: "gotime option"
  dn_DeliveredAt :: "gotime option"
  dn_DeadLetteredAt :: "gotime option"
  dn_LastErrorCode :: string
  dn_LastError :: string
  dn_RedactedAt :: "gotime option"
  dn_RedactionVersion :: int
  dn_CreatedAt :: gotime

record DeliveryAttemptRow =
  da_SalonID :: string
  da_NotificationID :: string
  da_AttemptNumber :: int
  da_ClaimToken :: string
  da_Provider :: string
  da_Outcome :: string
  da_ProviderStatus :: string
  da_ProviderMessageID :: "string option"
  da_ErrorCode :: string
  da_DispatchStartedAt :: "gotime option"
  da_FinishedAt :: "gotime option"

record DeliveryEventRow =
  de_ID :: string
  de_SalonID :: string
  de_NotificationID :: string
  de_EventKey :: string
  de_EventFingerprint :: string
  de_EventType :: string
  de_DeliveryStatus :: string
  de_ProviderStatus :: string
  de_ErrorCode :: string
  de_CreatedAt :: gotime

record DeliveryActionRow =
  dc_SalonID :: string
  dc_NotificationID :: string
  dc_ActionKey :: string
  dc_ActionFingerprint :: string
  dc_ActorUserID :: string

record DeliveryDB =
  dd_Notifications :: "DeliveryRow list"
  dd_Attempts :: "DeliveryAttemptRow list"
  dd_Events :: "DeliveryEventRow list"
  dd_Actions :: "DeliveryActionRow list"

record DeliveryEnv =
  dv_MayRead :: "string \<Rightarrow> string \<Rightarrow> bool"
  dv_MayRequeue :: "string \<Rightarrow> string \<Rightarrow> bool"
  dv_UUID :: "nat list \<Rightarrow> string"
  dv_SHA256 :: "string \<Rightarrow> string"
  dv_ClaimLimit :: "string \<Rightarrow> int option"
  dv_Locked :: "string \<Rightarrow> bool"
  dv_Guards :: "DeliveryDB \<Rightarrow> DeliveryDB \<Rightarrow> delivery_error option"

definition commit_delivery ::
  "DeliveryEnv \<Rightarrow> DeliveryDB \<Rightarrow> DeliveryDB \<Rightarrow> 'a \<Rightarrow> (delivery_error + 'a) \<times> DeliveryDB" where
  "commit_delivery env db db' result =
     (case dv_Guards env db db' of Some err \<Rightarrow> (Inl err, db) | None \<Rightarrow> (Inr result, db'))"

section \<open>Events\<close>

fun strings_Join :: "string list \<Rightarrow> string \<Rightarrow> string" where
  "strings_Join [] sep = []"
| "strings_Join [part] sep = part"
| "strings_Join (part # parts) sep = part @ sep @ strings_Join parts sep"

definition fingerprintParts :: "DeliveryEnv \<Rightarrow> string list \<Rightarrow> string" where
  "fingerprintParts env parts = dv_SHA256 env (strings_Join parts [CHR 0x1F])"

definition RequeueFingerprint :: "DeliveryEnv \<Rightarrow> string \<Rightarrow> string" where
  "RequeueFingerprint env notificationID =
     fingerprintParts env [''requeue'', TrimSpace notificationID]"

text \<open>\<open>ON CONFLICT (salon_id,event_key) DO NOTHING\<close>.\<close>

definition insertEvent ::
  "DeliveryEnv \<Rightarrow> gotime \<Rightarrow> string \<Rightarrow> string \<Rightarrow> string \<Rightarrow> string \<Rightarrow> string \<Rightarrow> string \<Rightarrow> string
     \<Rightarrow> DeliveryDB \<Rightarrow> DeliveryDB" where
  "insertEvent env now salonID notificationID eventKey eventType status providerStatus errorCode db =
     (if list_ex (\<lambda>event. de_SalonID event = salonID \<and> de_EventKey event = eventKey) (dd_Events db)
      then db
      else db\<lparr>dd_Events := dd_Events db @
        [\<lparr>de_ID = dv_UUID env [2], de_SalonID = salonID, de_NotificationID = notificationID,
          de_EventKey = eventKey,
          de_EventFingerprint =
            fingerprintParts env [eventType, status, providerStatus, errorCode],
          de_EventType = eventType, de_DeliveryStatus = status,
          de_ProviderStatus = providerStatus, de_ErrorCode = errorCode, de_CreatedAt = now\<rparr>]\<rparr>)"

section \<open>Updates\<close>

text \<open>
  An UPDATE of the notifications that match a predicate; the rows of an attempt are found by its
  claim token.
\<close>

definition update_where ::
  "(DeliveryRow \<Rightarrow> bool) \<Rightarrow> (DeliveryRow \<Rightarrow> DeliveryRow) \<Rightarrow> DeliveryDB \<Rightarrow> DeliveryDB" where
  "update_where match change db =
     db\<lparr>dd_Notifications :=
       map (\<lambda>row. if match row then change row else row) (dd_Notifications db)\<rparr>"

definition rows_matching :: "(DeliveryRow \<Rightarrow> bool) \<Rightarrow> DeliveryDB \<Rightarrow> nat" where
  "rows_matching match db = length (filter match (dd_Notifications db))"

definition update_attempts ::
  "(DeliveryAttemptRow \<Rightarrow> bool) \<Rightarrow> (DeliveryAttemptRow \<Rightarrow> DeliveryAttemptRow) \<Rightarrow> DeliveryDB \<Rightarrow> DeliveryDB" where
  "update_attempts match change db =
     db\<lparr>dd_Attempts := map (\<lambda>row. if match row then change row else row) (dd_Attempts db)\<rparr>"

definition open_attempt :: "string \<Rightarrow> DeliveryAttemptRow \<Rightarrow> bool" where
  "open_attempt claimToken row \<longleftrightarrow> da_ClaimToken row = claimToken \<and> da_Outcome row = ''leased''"

definition release_claim :: "DeliveryRow \<Rightarrow> DeliveryRow" where
  "release_claim row =
     row\<lparr>dn_ClaimToken := None, dn_ClaimedAt := None, dn_LeaseExpiresAt := None,
         dn_DispatchStartedAt := None\<rparr>"

definition holds_claim :: "string \<Rightarrow> string \<Rightarrow> string \<Rightarrow> DeliveryRow \<Rightarrow> bool" where
  "holds_claim notificationID salonID claimToken row \<longleftrightarrow>
     dn_ID row = notificationID \<and> dn_SalonID row = salonID
     \<and> dn_DeliveryStatus row = StatusDelivering \<and> dn_ClaimToken row = Some claimToken"

section \<open>Expired leases\<close>

record expiredOwnerNotificationLease =
  el_id :: string
  el_salonID :: string
  el_token :: string
  el_dispatched :: bool

definition clamp :: "int \<Rightarrow> int \<Rightarrow> int \<Rightarrow> int" where
  "clamp lower upper n = min (max n lower) upper"

definition lease_expired :: "gotime \<Rightarrow> DeliveryRow \<Rightarrow> bool" where
  "lease_expired now row \<longleftrightarrow>
     (case dn_LeaseExpiresAt row of None \<Rightarrow> False | Some expiry \<Rightarrow> expiry \<le> now)"

definition app_worker_expired_owner_notification_leases ::
  "int \<Rightarrow> gotime \<Rightarrow> DeliveryDB \<Rightarrow> expiredOwnerNotificationLease list" where
  "app_worker_expired_owner_notification_leases target_limit now db =
     map (\<lambda>row. \<lparr>el_id = dn_ID row, el_salonID = dn_SalonID row,
                  el_token = the (dn_ClaimToken row),
                  el_dispatched = (dn_DispatchStartedAt row \<noteq> None)\<rparr>)
       (take (nat (clamp 1 100 target_limit))
         (sort_key (\<lambda>row. (the (dn_LeaseExpiresAt row), dn_ID row))
           (filter (\<lambda>row. dn_DeliveryStatus row = StatusDelivering \<and> dn_ClaimToken row \<noteq> None
                \<and> lease_expired now row) (dd_Notifications db))))"

definition expired_after_dispatch :: "gotime \<Rightarrow> DeliveryRow \<Rightarrow> DeliveryRow" where
  "expired_after_dispatch now row =
     release_claim (row\<lparr>dn_DeliveryStatus := StatusDeadLetter, dn_DeadLetteredAt := Some now,
       dn_LastErrorCode := ''DELIVERY_OUTCOME_UNKNOWN'',
       dn_LastError := ''Delivery outcome requires manual review.''\<rparr>)"

definition expired_before_dispatch :: "gotime \<Rightarrow> DeliveryRow \<Rightarrow> DeliveryRow" where
  "expired_before_dispatch now row =
     release_claim (row\<lparr>dn_DeliveryStatus := StatusFailed, dn_NextDeliveryAt := now,
       dn_LastErrorCode := ''DELIVERY_LEASE_EXPIRED'',
       dn_LastError := ''Delivery lease expired before dispatch.''\<rparr>)"

definition finish_attempt ::
  "string \<Rightarrow> string \<Rightarrow> gotime \<Rightarrow> DeliveryAttemptRow \<Rightarrow> DeliveryAttemptRow" where
  "finish_attempt outcome code now row =
     row\<lparr>da_Outcome := outcome, da_ErrorCode := code, da_FinishedAt := Some now\<rparr>"

definition recoverExpiredLease ::
  "DeliveryEnv \<Rightarrow> gotime \<Rightarrow> expiredOwnerNotificationLease \<Rightarrow> DeliveryDB
     \<Rightarrow> (delivery_error + bool) \<times> DeliveryDB" where
  "recoverExpiredLease env now item db =
     (case find (\<lambda>row. holds_claim (el_id item) (el_salonID item) (el_token item) row
               \<and> lease_expired now row) (dd_Notifications db) of
        None \<Rightarrow> (Inr False, db)
      | Some row \<Rightarrow>
          let match = (\<lambda>row. dn_ID row = el_id item \<and> dn_SalonID row = el_salonID item
                 \<and> dn_ClaimToken row = Some (el_token item));
              attempt = (\<lambda>row. open_attempt (el_token item) row \<and> da_SalonID row = el_salonID item)
          in if dn_DispatchStartedAt row \<noteq> None
             then commit_delivery env db
               (insertEvent env now (el_salonID item) (el_id item)
                  (''expired-dispatch:'' @ el_token item) ''dead_lettered'' StatusDeadLetter []
                  ''DELIVERY_OUTCOME_UNKNOWN''
                 (update_attempts attempt
                    (finish_attempt ''outcome_unknown'' ''DELIVERY_OUTCOME_UNKNOWN'' now)
                   (update_where match (expired_after_dispatch now) db))) True
             else commit_delivery env db
               (insertEvent env now (el_salonID item) (el_id item)
                  (''expired-before-dispatch:'' @ el_token item) ''safe_retry_scheduled'' StatusFailed
                  [] ''DELIVERY_LEASE_EXPIRED''
                 (update_attempts attempt
                    (finish_attempt ''safe_retry'' ''DELIVERY_LEASE_EXPIRED'' now)
                   (update_where match (expired_before_dispatch now) db))) True)"

text \<open>
  The loop over the expired leases. Its transactions run one after the other: \<open>clock k\<close> is the time
  of the k-th.
\<close>

fun recover_leases ::
  "DeliveryEnv \<Rightarrow> (nat \<Rightarrow> gotime) \<Rightarrow> nat \<Rightarrow> int \<Rightarrow> expiredOwnerNotificationLease list \<Rightarrow> DeliveryDB
     \<Rightarrow> (delivery_error + int) \<times> DeliveryDB" where
  "recover_leases env clock k recovered [] db = (Inr recovered, db)"
| "recover_leases env clock k recovered (item # items) db =
     (case recoverExpiredLease env (clock k) item db of
        (Inl err, db') \<Rightarrow> (Inl err, db')
      | (Inr changed, db') \<Rightarrow>
          recover_leases env clock (Suc k) (if changed then recovered + 1 else recovered) items db')"

definition RecoverExpiredLeases ::
  "DeliveryEnv \<Rightarrow> (nat \<Rightarrow> gotime) \<Rightarrow> int \<Rightarrow> DeliveryDB \<Rightarrow> (delivery_error + int) \<times> DeliveryDB" where
  "RecoverExpiredLeases env clock limit db =
     (if limit \<le> 0 then (Inr 0, db)
      else recover_leases env clock 1 0
             (app_worker_expired_owner_notification_leases limit (clock 0) db) db)"

section \<open>Claims\<close>

definition claimable :: "int \<Rightarrow> gotime \<Rightarrow> DeliveryRow \<Rightarrow> bool" where
  "claimable max_attempts_per_cycle now row \<longleftrightarrow>
     (dn_DeliveryStatus row = StatusQueued \<or> dn_DeliveryStatus row = StatusFailed)
     \<and> dn_NextDeliveryAt row \<le> now
     \<and> dn_DeliveryAttempts row
       < (dn_RequeueCount row + 1) * clamp 1 100 max_attempts_per_cycle"

definition claim_order :: "DeliveryRow \<Rightarrow> gotime \<times> gotime \<times> string" where
  "claim_order row = (dn_NextDeliveryAt row, dn_CreatedAt row, dn_ID row)"

definition tenant_rank :: "DeliveryRow list \<Rightarrow> DeliveryRow \<Rightarrow> int" where
  "tenant_rank ranked row =
     int (length (filter (\<lambda>other. dn_SalonID other = dn_SalonID row)
       (takeWhile (\<lambda>other. dn_ID other \<noteq> dn_ID row) ranked))) + 1"

definition claim_candidates ::
  "DeliveryEnv \<Rightarrow> int \<Rightarrow> int \<Rightarrow> gotime \<Rightarrow> DeliveryDB \<Rightarrow> DeliveryRow list" where
  "claim_candidates env max_attempts_per_cycle target_limit now db =
     (let ranked = sort_key claim_order
            (filter (claimable max_attempts_per_cycle now) (dd_Notifications db))
      in take (nat (clamp 1 100 target_limit))
           (filter (\<lambda>row. \<not> dv_Locked env (dn_ID row)
                \<and> tenant_rank ranked row
                  \<le> (case dv_ClaimLimit env (dn_SalonID row) of None \<Rightarrow> 2 | Some n \<Rightarrow> n)) ranked))"

definition claim_row :: "int \<Rightarrow> gotime \<Rightarrow> string \<Rightarrow> DeliveryRow \<Rightarrow> DeliveryRow" where
  "claim_row lease_milliseconds now token row =
     row\<lparr>dn_DeliveryStatus := StatusDelivering, dn_DeliveryProvider := ProviderTwilio,
         dn_ClaimToken := Some token, dn_ClaimedAt := Some now,
         dn_LeaseExpiresAt := Some (now + clamp 1 3600000 lease_milliseconds * 1000000),
         dn_DispatchStartedAt := None, dn_DeliveryAttempts := dn_DeliveryAttempts row + 1,
         dn_DeadLetteredAt := None, dn_LastError := [], dn_LastErrorCode := []\<rparr>"

definition claimed_of_row :: "DeliveryRow \<Rightarrow> ClaimedNotification" where
  "claimed_of_row row =
     \<lparr>cn_ID = dn_ID row, cn_SalonID = dn_SalonID row, cn_Type = dn_Type row,
      cn_Message = dn_Message row, cn_ClaimToken = the (dn_ClaimToken row),
      cn_AttemptNumber = dn_DeliveryAttempts row, cn_RequeueCount = dn_RequeueCount row,
      cn_CreatedAt = dn_CreatedAt row\<rparr>"

definition leased_attempt :: "DeliveryRow \<Rightarrow> DeliveryAttemptRow" where
  "leased_attempt row =
     \<lparr>da_SalonID = dn_SalonID row, da_NotificationID = dn_ID row,
      da_AttemptNumber = dn_DeliveryAttempts row, da_ClaimToken = the (dn_ClaimToken row),
      da_Provider = ProviderTwilio, da_Outcome = ''leased'', da_ProviderStatus = [],
      da_ProviderMessageID = None, da_ErrorCode = [], da_DispatchStartedAt = None,
      da_FinishedAt = None\<rparr>"

definition claimed_event :: "DeliveryEnv \<Rightarrow> gotime \<Rightarrow> nat \<times> DeliveryRow \<Rightarrow> DeliveryEventRow" where
  "claimed_event env now = (\<lambda>(index, row).
     \<lparr>de_ID = dv_UUID env [2, index], de_SalonID = dn_SalonID row, de_NotificationID = dn_ID row,
      de_EventKey = ''claim:'' @ the (dn_ClaimToken row),
      de_EventFingerprint = fingerprintParts env [''claimed'', ''delivering'', [], []],
      de_EventType = ''claimed'', de_DeliveryStatus = ''delivering'', de_ProviderStatus = [],
      de_ErrorCode = [], de_CreatedAt = now\<rparr>)"

text \<open>The two uniqueness constraints of the attempts.\<close>

definition attempts_unique :: "DeliveryAttemptRow list \<Rightarrow> bool" where
  "attempts_unique attempts \<longleftrightarrow>
     distinct (map da_ClaimToken attempts)
     \<and> distinct (map (\<lambda>row. (da_NotificationID row, da_AttemptNumber row)) attempts)"

definition app_worker_claim_owner_notifications ::
  "DeliveryEnv \<Rightarrow> int \<Rightarrow> int \<Rightarrow> int \<Rightarrow> gotime \<Rightarrow> DeliveryDB
     \<Rightarrow> (delivery_error + ClaimedNotification list) \<times> DeliveryDB" where
  "app_worker_claim_owner_notifications env max_attempts_per_cycle target_limit lease_milliseconds
       now db =
     (let candidates = claim_candidates env max_attempts_per_cycle target_limit now db;
          claimed = map (\<lambda>(index, row).
                claim_row lease_milliseconds now (dv_UUID env [0, index]) row)
              (enumerate 0 candidates)
      in if \<not> attempts_unique (dd_Attempts db @ map leased_attempt claimed)
         then (Inl (DeliveryDatabaseError ''unique_violation''), db)
         else commit_delivery env db
           (db\<lparr>dd_Notifications := map (\<lambda>row.
                  case find (\<lambda>new. dn_ID new = dn_ID row) claimed of
                    None \<Rightarrow> row | Some new \<Rightarrow> new) (dd_Notifications db),
               dd_Attempts := dd_Attempts db @ map leased_attempt claimed,
               dd_Events := dd_Events db @ map (claimed_event env now) (enumerate 0 claimed)\<rparr>)
           (map claimed_of_row claimed))"

definition ClaimBatch ::
  "DeliveryEnv \<Rightarrow> gotime \<Rightarrow> int \<Rightarrow> int \<Rightarrow> DeliveryDB
     \<Rightarrow> (delivery_error + ClaimedNotification list) \<times> DeliveryDB" where
  "ClaimBatch env now limit lease db =
     (if limit \<le> 0 \<or> lease \<le> 0 then (Inl ErrDeliveryValidation, db)
      else app_worker_claim_owner_notifications env MaxSafeDeliveryAttempts limit
             (lease div 1000000) now db)"

section \<open>The records of an attempt\<close>

definition MarkDispatchStarted ::
  "DeliveryEnv \<Rightarrow> gotime \<Rightarrow> ClaimedNotification \<Rightarrow> string \<Rightarrow> DeliveryDB
     \<Rightarrow> (delivery_error + unit) \<times> DeliveryDB" where
  "MarkDispatchStarted env now item destinationMasked db =
     (let match = (\<lambda>row. holds_claim (cn_ID item) (cn_SalonID item) (cn_ClaimToken item) row
            \<and> \<not> lease_expired now row)
      in if rows_matching match db \<noteq> 1 then (Inl ErrClaimLost, db)
         else commit_delivery env db
           (insertEvent env now (cn_SalonID item) (cn_ID item) (''dispatch:'' @ cn_ClaimToken item)
              ''dispatch_started'' StatusDelivering [] []
             (update_attempts (open_attempt (cn_ClaimToken item))
                (\<lambda>row. row\<lparr>da_DispatchStartedAt := Some now\<rparr>)
               (update_where match (\<lambda>row. row\<lparr>dn_DispatchStartedAt := Some now,
                  dn_DestinationMasked := destinationMasked\<rparr>) db))) ())"

definition completed_row ::
  "gotime \<Rightarrow> string \<Rightarrow> string \<Rightarrow> gotime option \<Rightarrow> DeliveryRow \<Rightarrow> DeliveryRow" where
  "completed_row now status code next_at row =
     release_claim (row\<lparr>dn_DeliveryStatus := status,
       dn_NextDeliveryAt := (case next_at of None \<Rightarrow> dn_NextDeliveryAt row | Some t \<Rightarrow> t),
       dn_DeadLetteredAt := (if status = StatusDeadLetter then Some now else None),
       dn_LastErrorCode := code,
       dn_LastError := (if code = [] then [] else ''Delivery is not complete.'')\<rparr>)"

definition completeWithoutProvider ::
  "DeliveryEnv \<Rightarrow> gotime \<Rightarrow> ClaimedNotification \<Rightarrow> string \<Rightarrow> string \<Rightarrow> string \<Rightarrow> gotime option
     \<Rightarrow> DeliveryDB \<Rightarrow> (delivery_error + unit) \<times> DeliveryDB" where
  "completeWithoutProvider env now item status outcome code next_at db =
     (let match = holds_claim (cn_ID item) (cn_SalonID item) (cn_ClaimToken item);
          eventType = (if status = StatusDisabled then ''delivery_disabled''
                       else if status = StatusDeadLetter then ''dead_lettered''
                       else ''safe_retry_scheduled'')
      in if rows_matching match db \<noteq> 1 then (Inl ErrClaimLost, db)
         else commit_delivery env db
           (insertEvent env now (cn_SalonID item) (cn_ID item)
              (outcome @ '':'' @ cn_ClaimToken item) eventType status [] code
             (update_attempts (open_attempt (cn_ClaimToken item)) (finish_attempt outcome code now)
               (update_where match (completed_row now status code next_at) db))) ())"

definition RecordDisabled ::
  "DeliveryEnv \<Rightarrow> gotime \<Rightarrow> ClaimedNotification \<Rightarrow> DeliveryDB
     \<Rightarrow> (delivery_error + unit) \<times> DeliveryDB" where
  "RecordDisabled env now item =
     completeWithoutProvider env now item StatusDisabled ''disabled'' ''OWNER_SMS_DISABLED'' None"

definition RecordSafeFailure ::
  "DeliveryEnv \<Rightarrow> gotime \<Rightarrow> ClaimedNotification \<Rightarrow> string \<Rightarrow> gotime \<Rightarrow> DeliveryDB
     \<Rightarrow> (delivery_error + unit) \<times> DeliveryDB" where
  "RecordSafeFailure env now item code next_at =
     (if DeliveryAttemptInCycle item \<ge> MaxSafeDeliveryAttempts
      then completeWithoutProvider env now item StatusDeadLetter ''dead_letter'' code
             (if next_at = 0 then None else Some next_at)
      else completeWithoutProvider env now item StatusFailed ''safe_retry'' code
             (if next_at = 0 then None else Some next_at))"

definition RecordOutcomeUnknown ::
  "DeliveryEnv \<Rightarrow> gotime \<Rightarrow> ClaimedNotification \<Rightarrow> string \<Rightarrow> DeliveryDB
     \<Rightarrow> (delivery_error + unit) \<times> DeliveryDB" where
  "RecordOutcomeUnknown env now item code =
     completeWithoutProvider env now item StatusDeadLetter ''outcome_unknown'' code None"

definition RecordDefinitiveFailure ::
  "DeliveryEnv \<Rightarrow> gotime \<Rightarrow> ClaimedNotification \<Rightarrow> string \<Rightarrow> DeliveryDB
     \<Rightarrow> (delivery_error + unit) \<times> DeliveryDB" where
  "RecordDefinitiveFailure env now item code =
     completeWithoutProvider env now item StatusDeadLetter ''dead_letter'' code None"

definition accepted_row :: "gotime \<Rightarrow> SendResult \<Rightarrow> DeliveryRow \<Rightarrow> DeliveryRow" where
  "accepted_row now result row =
     (let deadLetter = sr_DeliveryStatus result = StatusDeadLetter in
      release_claim (row\<lparr>dn_DeliveryStatus := sr_DeliveryStatus result,
        dn_DeliveryProvider := ProviderTwilio,
        dn_ProviderMessageID := Some (sr_ProviderMessageID result),
        dn_ProviderStatus := sr_ProviderStatus result,
        dn_ProviderStatusRank := sr_StatusRank result, dn_LastProviderEventAt := Some now,
        dn_DeliveredAt := (if sr_DeliveryStatus result = StatusDelivered then Some now
                           else dn_DeliveredAt row),
        dn_DeadLetteredAt := (if deadLetter then Some now else None),
        dn_LastError := (if deadLetter then ''Provider reported terminal delivery failure.'' else []),
        dn_LastErrorCode := (if deadLetter then ''TWILIO_DELIVERY_FAILED'' else [])\<rparr>))"

definition attempt_outcome :: "string \<Rightarrow> string" where
  "attempt_outcome status =
     (if status = StatusDeadLetter then ''provider_failed''
      else if status = StatusDelivered then ''delivered''
      else if status = StatusSent then ''sent'' else ''provider_accepted'')"

definition RecordProviderResult ::
  "DeliveryEnv \<Rightarrow> gotime \<Rightarrow> ClaimedNotification \<Rightarrow> SendResult \<Rightarrow> DeliveryDB
     \<Rightarrow> (delivery_error + unit) \<times> DeliveryDB" where
  "RecordProviderResult env now item result db =
     (let match = holds_claim (cn_ID item) (cn_SalonID item) (cn_ClaimToken item)
      in if TrimSpace (sr_ProviderMessageID result) = [] \<or> sr_StatusRank result \<le> 0
         then (Inl ErrDeliveryValidation, db)
         else if rows_matching match db \<noteq> 1 then (Inl ErrClaimLost, db)
         else commit_delivery env db
           (insertEvent env now (cn_SalonID item) (cn_ID item)
              (''provider-response:'' @ cn_ClaimToken item) ''provider_response''
              (sr_DeliveryStatus result) (sr_ProviderStatus result) []
             (update_attempts (open_attempt (cn_ClaimToken item))
                (\<lambda>row. row\<lparr>da_Outcome := attempt_outcome (sr_DeliveryStatus result),
                   da_ProviderStatus := sr_ProviderStatus result,
                   da_ProviderMessageID := Some (sr_ProviderMessageID result),
                   da_FinishedAt := Some now\<rparr>)
               (update_where match (accepted_row now result) db))) ())"

section \<open>Provider callbacks\<close>

definition carries_message :: "string \<Rightarrow> string \<Rightarrow> DeliveryRow \<Rightarrow> bool" where
  "carries_message provider messageID row \<longleftrightarrow>
     dn_DeliveryProvider row = provider \<and> dn_ProviderMessageID row = Some messageID"

definition reported_row :: "ProviderCallback \<Rightarrow> DeliveryRow \<Rightarrow> DeliveryRow" where
  "reported_row callback row =
     (let deadLetter = pcb_DeliveryStatus callback = StatusDeadLetter;
          occurred = pcb_OccurredAt callback
      in row\<lparr>dn_DeliveryStatus := pcb_DeliveryStatus callback,
           dn_ProviderStatus := pcb_ProviderStatus callback,
           dn_ProviderStatusRank := pcb_StatusRank callback,
           dn_LastProviderEventAt := Some occurred,
           dn_DeliveredAt := (if pcb_DeliveryStatus callback = StatusDelivered
              then (case dn_DeliveredAt row of None \<Rightarrow> Some occurred | Some t \<Rightarrow> Some t)
              else dn_DeliveredAt row),
           dn_DeadLetteredAt := (if deadLetter
              then (case dn_DeadLetteredAt row of None \<Rightarrow> Some occurred | Some t \<Rightarrow> Some t)
              else None),
           dn_LastErrorCode := (if deadLetter then pcb_ErrorCode callback else []),
           dn_LastError := (if deadLetter then ''Provider reported terminal delivery failure.''
              else [])\<rparr>)"

definition callback_event ::
  "DeliveryEnv \<Rightarrow> ProviderCallback \<Rightarrow> DeliveryRow \<Rightarrow> string \<Rightarrow> DeliveryEventRow" where
  "callback_event env callback row status =
     \<lparr>de_ID = dv_UUID env [2], de_SalonID = dn_SalonID row, de_NotificationID = dn_ID row,
      de_EventKey = pcb_EventKey callback,
      de_EventFingerprint = pcb_EventFingerprint callback, de_EventType = ''status_callback'',
      de_DeliveryStatus = status, de_ProviderStatus = pcb_ProviderStatus callback,
      de_ErrorCode = pcb_ErrorCode callback, de_CreatedAt = pcb_OccurredAt callback\<rparr>"

definition reported_attempt ::
  "gotime \<Rightarrow> ProviderCallback \<Rightarrow> DeliveryAttemptRow \<Rightarrow> DeliveryAttemptRow" where
  "reported_attempt now callback row =
     row\<lparr>da_Outcome := attempt_outcome (pcb_DeliveryStatus callback),
         da_ProviderStatus := pcb_ProviderStatus callback,
         da_ErrorCode := pcb_ErrorCode callback,
         da_FinishedAt := (case da_FinishedAt row of None \<Rightarrow> Some now | Some t \<Rightarrow> Some t)\<rparr>"

definition ApplyProviderCallback ::
  "DeliveryEnv \<Rightarrow> gotime \<Rightarrow> ProviderCallback \<Rightarrow> DeliveryDB \<Rightarrow> (delivery_error + unit) \<times> DeliveryDB" where
  "ApplyProviderCallback env now callback db =
     (case find (carries_message (pcb_Provider callback) (pcb_ProviderMessageID callback))
             (dd_Notifications db) of
        None \<Rightarrow> (Inl ErrDeliveryNotFound, db)
      | Some row \<Rightarrow>
          (case find (\<lambda>event. de_SalonID event = dn_SalonID row
                    \<and> de_EventKey event = pcb_EventKey callback) (dd_Events db) of
             Some event \<Rightarrow>
               (if de_EventFingerprint event \<noteq> pcb_EventFingerprint callback
                then (Inl ErrDeliveryConflict, db) else (Inr (), db))
           | None \<Rightarrow>
               if pcb_StatusRank callback > dn_ProviderStatusRank row
               then
                 let db' = update_attempts (\<lambda>attempt. da_NotificationID attempt = dn_ID row
                        \<and> da_ProviderMessageID attempt = Some (pcb_ProviderMessageID callback))
                        (reported_attempt now callback)
                       (update_where (\<lambda>other. dn_ID other = dn_ID row) (reported_row callback) db)
                 in commit_delivery env db
                      (db'\<lparr>dd_Events := dd_Events db'
                         @ [callback_event env callback row (pcb_DeliveryStatus callback)]\<rparr>) ()
               else commit_delivery env db
                      (db\<lparr>dd_Events := dd_Events db
                         @ [callback_event env callback row (dn_DeliveryStatus row)]\<rparr>) ()))"

text \<open>\<open>app_provider_owner_message_salon\<close> of \<open>migrations/V78\<close>, with the BTRIM of PostgreSQL.\<close>

definition btrim :: "string \<Rightarrow> string" where
  "btrim s = rev (dropWhile (\<lambda>c. c = CHR 0x20) (rev (dropWhile (\<lambda>c. c = CHR 0x20) s)))"

definition SalonIDForProviderMessage ::
  "string \<Rightarrow> string \<Rightarrow> DeliveryDB \<Rightarrow> delivery_error + string" where
  "SalonIDForProviderMessage provider messageID db =
     (case find (\<lambda>row. btrim provider \<noteq> [] \<and> btrim messageID \<noteq> []
             \<and> carries_message (btrim provider) (btrim messageID) row)
             (sort_key dn_ID (dd_Notifications db)) of
        None \<Rightarrow> Inl ErrDeliveryNotFound
      | Some row \<Rightarrow> if dn_SalonID row = [] then Inl ErrDeliveryNotFound else Inr (dn_SalonID row))"

section \<open>Reading\<close>

definition setRequeueState :: "DeliveryRecord \<Rightarrow> DeliveryRecord" where
  "setRequeueState item =
     (let canRequeue = (\<not> dr_Redacted item \<and> dr_DeliveryStatus item = StatusDeadLetter
            \<and> dr_LastDeliveryErrorCode item \<noteq> ''DELIVERY_OUTCOME_UNKNOWN'')
      in item\<lparr>dr_CanRequeue := canRequeue,
           dr_RequeueBlockedReason :=
             (if dr_Redacted item
              then ''Delivery content was redacted by the retention policy.''
              else if dr_DeliveryStatus item = StatusDeadLetter \<and> \<not> canRequeue
              then ''Delivery outcome is unknown and requires manual verification.''
              else dr_RequeueBlockedReason item)\<rparr>)"

definition scanDelivery :: "DeliveryRow \<Rightarrow> DeliveryRecord" where
  "scanDelivery row =
     \<lparr>dr_ID = dn_ID row, dr_SalonID = dn_SalonID row, dr_NotificationType = dn_Type row,
      dr_InAppStatus = dn_InAppStatus row, dr_DeliveryStatus = dn_DeliveryStatus row,
      dr_DeliveryProvider = dn_DeliveryProvider row,
      dr_DestinationMasked = dn_DestinationMasked row,
      dr_DeliveryAttempts = dn_DeliveryAttempts row, dr_ProviderStatus = dn_ProviderStatus row,
      dr_LastDeliveryErrorCode = dn_LastErrorCode row, dr_CanRequeue = False,
      dr_RequeueBlockedReason = [], dr_NextDeliveryAt = dn_NextDeliveryAt row,
      dr_DeliveredAt = dn_DeliveredAt row, dr_DeadLetteredAt = dn_DeadLetteredAt row,
      dr_LastProviderEventAt = dn_LastProviderEventAt row,
      dr_Redacted = (dn_RedactedAt row \<noteq> None), dr_RedactedAt = dn_RedactedAt row,
      dr_RedactionVersion = dn_RedactionVersion row, dr_CreatedAt = dn_CreatedAt row,
      dr_Events = []\<rparr>"

definition count_status :: "string \<Rightarrow> string \<Rightarrow> DeliveryDB \<Rightarrow> int" where
  "count_status salonID status db =
     int (rows_matching (\<lambda>row. dn_SalonID row = salonID \<and> dn_DeliveryStatus row = status) db)"

definition metrics :: "string \<Rightarrow> DeliveryDB \<Rightarrow> DeliveryMetrics" where
  "metrics salonID db =
     \<lparr>dm_Queued = count_status salonID StatusQueued db,
      dm_Delivering = count_status salonID StatusDelivering db,
      dm_ProviderAccepted = count_status salonID StatusProviderAccepted db,
      dm_Sent = count_status salonID StatusSent db,
      dm_Delivered = count_status salonID StatusDelivered db,
      dm_DeadLetter = count_status salonID StatusDeadLetter db,
      dm_Disabled = count_status salonID StatusDisabled db\<rparr>"

definition ListForOwner ::
  "DeliveryEnv \<Rightarrow> string \<Rightarrow> string \<Rightarrow> string \<Rightarrow> int \<Rightarrow> int \<Rightarrow> DeliveryDB
     \<Rightarrow> delivery_error + DeliveryRecord list \<times> DeliveryMetrics" where
  "ListForOwner env salonID ownerUserID status limit offset db =
     (if \<not> dv_MayRead env salonID ownerUserID then Inl ErrDeliveryNotFound
      else Inr (map (\<lambda>row. setRequeueState (scanDelivery row))
             (take (nat (limit + 1)) (drop (nat offset)
               (rev (sort_key (\<lambda>row. (dn_CreatedAt row, dn_ID row))
                 (filter (\<lambda>row. dn_SalonID row = salonID
                      \<and> (status = [] \<or> dn_DeliveryStatus row = status)) (dd_Notifications db)))))),
           metrics salonID db))"

definition GetForOwner ::
  "DeliveryEnv \<Rightarrow> string \<Rightarrow> string \<Rightarrow> string \<Rightarrow> DeliveryDB \<Rightarrow> delivery_error + DeliveryRecord" where
  "GetForOwner env salonID ownerUserID notificationID db =
     (if \<not> dv_MayRead env salonID ownerUserID then Inl ErrDeliveryNotFound
      else
        (case find (\<lambda>row. dn_SalonID row = salonID \<and> dn_ID row = notificationID)
                (dd_Notifications db) of
           None \<Rightarrow> Inl ErrDeliveryNotFound
         | Some row \<Rightarrow>
             Inr ((setRequeueState (scanDelivery row))\<lparr>dr_Events :=
               map (\<lambda>event. \<lparr>dev_ID = de_ID event, dev_EventType = de_EventType event,
                      dev_DeliveryStatus = de_DeliveryStatus event,
                      dev_ProviderStatus = de_ProviderStatus event,
                      dev_ErrorCode = de_ErrorCode event, dev_CreatedAt = de_CreatedAt event\<rparr>)
                 (sort_key (\<lambda>event. (de_CreatedAt event, de_ID event))
                   (filter (\<lambda>event. de_SalonID event = salonID
                        \<and> de_NotificationID event = notificationID) (dd_Events db)))\<rparr>)))"

section \<open>Requeueing\<close>

definition requeued_row :: "gotime \<Rightarrow> DeliveryRow \<Rightarrow> DeliveryRow" where
  "requeued_row now row =
     release_claim (row\<lparr>dn_DeliveryStatus := StatusQueued, dn_NextDeliveryAt := now,
       dn_DeadLetteredAt := None, dn_ProviderMessageID := None, dn_ProviderStatus := [],
       dn_ProviderStatusRank := 0, dn_LastProviderEventAt := None, dn_DeliveredAt := None,
       dn_LastError := [], dn_LastErrorCode := [],
       dn_RequeueCount := dn_RequeueCount row + 1\<rparr>)"

definition requeue_blocked :: "DeliveryRow \<Rightarrow> bool" where
  "requeue_blocked row \<longleftrightarrow>
     dn_RedactedAt row \<noteq> None \<or> dn_DeliveryStatus row \<noteq> StatusDeadLetter
     \<or> dn_LastErrorCode row = ''DELIVERY_OUTCOME_UNKNOWN''"

definition requeued_db ::
  "DeliveryEnv \<Rightarrow> gotime \<Rightarrow> string \<Rightarrow> string \<Rightarrow> string \<Rightarrow> string \<Rightarrow> string \<Rightarrow> DeliveryDB \<Rightarrow> DeliveryDB" where
  "requeued_db env now salonID ownerUserID notificationID actionKey fingerprint db =
     (let db' = update_where (\<lambda>row. dn_SalonID row = salonID \<and> dn_ID row = notificationID)
            (requeued_row now) db
      in insertEvent env now salonID notificationID (''owner-requeue:'' @ actionKey)
           ''owner_requeued'' StatusQueued [] []
           (db'\<lparr>dd_Actions := dd_Actions db' @
              [\<lparr>dc_SalonID = salonID, dc_NotificationID = notificationID,
                dc_ActionKey = actionKey, dc_ActionFingerprint = fingerprint,
                dc_ActorUserID = ownerUserID\<rparr>]\<rparr>))"

definition RequeueForOwner ::
  "DeliveryEnv \<Rightarrow> gotime \<Rightarrow> string \<Rightarrow> string \<Rightarrow> string \<Rightarrow> string \<Rightarrow> string \<Rightarrow> DeliveryDB
     \<Rightarrow> (delivery_error + DeliveryRecord \<times> bool) \<times> DeliveryDB" where
  "RequeueForOwner env now salonID ownerUserID notificationID actionKey fingerprint db =
     (if \<not> dv_MayRequeue env salonID ownerUserID then (Inl ErrDeliveryNotFound, db)
      else
        (case find (\<lambda>action. dc_SalonID action = salonID \<and> dc_ActionKey action = actionKey)
                (dd_Actions db) of
           Some action \<Rightarrow>
             (if dc_ActionFingerprint action \<noteq> fingerprint
                 \<or> dc_NotificationID action \<noteq> notificationID
              then (Inl ErrDeliveryConflict, db)
              else (map_sum id (\<lambda>item. (item, True))
                      (GetForOwner env salonID ownerUserID notificationID db), db))
         | None \<Rightarrow>
             (case find (\<lambda>row. dn_SalonID row = salonID \<and> dn_ID row = notificationID)
                     (dd_Notifications db) of
                None \<Rightarrow> (Inl ErrDeliveryNotFound, db)
              | Some row \<Rightarrow>
                  if requeue_blocked row then (Inl ErrRequeueBlocked, db)
                  else
                    (case commit_delivery env db
                            (requeued_db env now salonID ownerUserID notificationID actionKey
                               fingerprint db) () of
                       (Inl err, db') \<Rightarrow> (Inl err, db')
                     | (Inr _, db') \<Rightarrow>
                         (map_sum id (\<lambda>item. (item, False))
                            (GetForOwner env salonID ownerUserID notificationID db'), db')))))"

section \<open>The service of the owner\<close>

definition List_deliveries ::
  "DeliveryEnv \<Rightarrow> string \<Rightarrow> string \<Rightarrow> string \<Rightarrow> int \<Rightarrow> int \<Rightarrow> DeliveryDB
     \<Rightarrow> delivery_error + ListResponse" where
  "List_deliveries env salonID ownerUserID status limit offset db =
     (let salonID = TrimSpace salonID; ownerUserID = TrimSpace ownerUserID;
          status = TrimSpace status
      in if salonID = [] \<or> ownerUserID = [] \<or> \<not> ValidListStatus status
            \<or> ValidateListBounds limit offset \<noteq> None
         then Inl ErrDeliveryValidation
         else
           (case ListForOwner env salonID ownerUserID status limit offset db of
              Inl err \<Rightarrow> Inl err
            | Inr (items, m) \<Rightarrow>
                let hasMore = int (length items) > limit
                in Inr \<lparr>lr_Deliveries = (if hasMore then take (nat limit) items else items),
                        lr_Metrics = m, lr_Limit = limit, lr_Offset = offset,
                        lr_HasMore = hasMore\<rparr>))"

definition Get_delivery ::
  "DeliveryEnv \<Rightarrow> string \<Rightarrow> string \<Rightarrow> string \<Rightarrow> DeliveryDB \<Rightarrow> delivery_error + DetailResponse" where
  "Get_delivery env salonID ownerUserID notificationID db =
     (if TrimSpace salonID = [] \<or> TrimSpace ownerUserID = [] \<or> TrimSpace notificationID = []
      then Inl ErrDeliveryValidation
      else map_sum id (\<lambda>item. \<lparr>det_Delivery = item\<rparr>)
             (GetForOwner env salonID ownerUserID notificationID db))"

definition Requeue ::
  "DeliveryEnv \<Rightarrow> gotime \<Rightarrow> string \<Rightarrow> string \<Rightarrow> string \<Rightarrow> RequeueRequest \<Rightarrow> DeliveryDB
     \<Rightarrow> (delivery_error + DetailResponse \<times> bool) \<times> DeliveryDB" where
  "Requeue env now salonID ownerUserID notificationID req db =
     (let actionKey = TrimSpace (rqr_ActionKey req) in
      if TrimSpace salonID = [] \<or> TrimSpace ownerUserID = [] \<or> TrimSpace notificationID = []
         \<or> actionKey = [] \<or> length actionKey > 256
      then (Inl ErrDeliveryValidation, db)
      else
        (case RequeueForOwner env now salonID ownerUserID notificationID actionKey
                (RequeueFingerprint env notificationID) db of
           (Inl err, db') \<Rightarrow> (Inl err, db')
         | (Inr (item, replayed), db') \<Rightarrow> (Inr (\<lparr>det_Delivery = item\<rparr>, replayed), db')))"

definition ApplyProviderCallback_service ::
  "DeliveryEnv \<Rightarrow> gotime \<Rightarrow> ProviderCallback \<Rightarrow> DeliveryDB \<Rightarrow> (delivery_error + unit) \<times> DeliveryDB" where
  "ApplyProviderCallback_service env now callback db =
     (if TrimSpace (pcb_Provider callback) = [] \<or> TrimSpace (pcb_ProviderMessageID callback) = []
         \<or> TrimSpace (pcb_ProviderStatus callback) = [] \<or> pcb_StatusRank callback \<le> 0
         \<or> TrimSpace (pcb_EventKey callback) = [] \<or> TrimSpace (pcb_EventFingerprint callback) = []
      then (Inl ErrDeliveryValidation, db)
      else ApplyProviderCallback env now callback db)"

end
