(* ===== verification/Delivery_Processor.thy ===== *)
theory Delivery_Processor
  imports Delivery_Repository
begin

text \<open>
  One pass of the delivery worker (\<open>modules/notification_delivery/processor.go\<close>) and the Twilio
  sender and status callback it works with (\<open>modules/notification_twilio\<close>).

  A pass runs in a state of the database, the world \<open>'w\<close> of the provider, and a counter of the
  points in time at which the pass looks at a clock: transaction \<open>k\<close> runs at \<open>pe_Clock k\<close> under
  \<open>pe_Env k\<close> (its fresh identifiers), and the context is cancelled at \<open>k\<close> when \<open>pe_Cancelled k\<close> is an
  error. The channel resolver and the HTTP client are parameters.
\<close>

section \<open>The decisions of a delivery\<close>

datatype settlement =
    Disabled
  | Safe_Failure string
  | Outcome_Unknown string
  | Definitive_Failure string
  | Accepted SendResult

text \<open>The outcome recorded without a dispatch; \<open>None\<close> means the message is dispatched.\<close>

definition settle_before_send :: "delivery_error + 'w DeliveryChannel \<Rightarrow> settlement option" where
  "settle_before_send resolved =
     (case resolved of
        Inl err \<Rightarrow> Some (if err = ErrConfigDisabled then Disabled
                         else Safe_Failure ''DELIVERY_CONFIG_NOT_READY'')
      | Inr channel \<Rightarrow>
          if \<not> ch_Enabled channel then Some Disabled
          else if ch_Sender channel = None \<or> TrimSpace (ch_Destination channel) = []
          then Some (Safe_Failure ''DELIVERY_CONFIG_NOT_READY'')
          else None)"

definition settle_after_send :: "send_error + SendResult \<Rightarrow> settlement" where
  "settle_after_send sent =
     (case sent of
        Inl (Unclassified _) \<Rightarrow> Outcome_Unknown ''DELIVERY_OUTCOME_UNKNOWN''
      | Inl (Classified err) \<Rightarrow>
          if se_Ambiguous err
          then Outcome_Unknown (if TrimSpace (se_Code err) \<noteq> [] then se_Code err
                                else ''DELIVERY_OUTCOME_UNKNOWN'')
          else if se_Retryable err then Safe_Failure (se_Code err)
          else Definitive_Failure (se_Code err)
      | Inr result \<Rightarrow> Accepted result)"

definition record_settlement ::
  "DeliveryEnv \<Rightarrow> gotime \<Rightarrow> gotime \<Rightarrow> ClaimedNotification \<Rightarrow> settlement \<Rightarrow> DeliveryDB
     \<Rightarrow> (delivery_error + unit) \<times> DeliveryDB" where
  "record_settlement env now worker_now item settlement =
     (case settlement of
        Disabled \<Rightarrow> RecordDisabled env now item
      | Safe_Failure code \<Rightarrow>
          RecordSafeFailure env now item code
            (worker_now + SafeRetryDelay (DeliveryAttemptInCycle item))
      | Outcome_Unknown code \<Rightarrow> RecordOutcomeUnknown env now item code
      | Definitive_Failure code \<Rightarrow> RecordDefinitiveFailure env now item code
      | Accepted result \<Rightarrow> RecordProviderResult env now item result)"

section \<open>One pass\<close>

record 'w DeliveryState =
  ds_DB :: DeliveryDB
  ds_World :: 'w
  ds_Tick :: nat

record 'w ProcessorEnv =
  pe_Env :: "nat \<Rightarrow> DeliveryEnv"
  pe_Clock :: "nat \<Rightarrow> gotime"
  pe_Cancelled :: "nat \<Rightarrow> delivery_error option"
  pe_Resolve :: "string \<Rightarrow> 'w \<Rightarrow> (delivery_error + 'w DeliveryChannel) \<times> 'w"

text \<open>A transaction at the next point in time.\<close>

definition transact ::
  "(DeliveryEnv \<Rightarrow> gotime \<Rightarrow> DeliveryDB \<Rightarrow> (delivery_error + 'a) \<times> DeliveryDB) \<Rightarrow> 'w ProcessorEnv
     \<Rightarrow> 'w DeliveryState \<Rightarrow> (delivery_error + 'a) \<times> 'w DeliveryState" where
  "transact operation p state =
     (case operation (pe_Env p (ds_Tick state)) (pe_Clock p (ds_Tick state)) (ds_DB state) of
        (result, db') \<Rightarrow> (result, state\<lparr>ds_DB := db', ds_Tick := Suc (ds_Tick state)\<rparr>))"

text \<open>The time \<open>p.now()\<close> is read before the transaction that records a safe failure.\<close>

definition settle ::
  "'w ProcessorEnv \<Rightarrow> ClaimedNotification \<Rightarrow> settlement \<Rightarrow> 'w DeliveryState
     \<Rightarrow> (delivery_error + unit) \<times> 'w DeliveryState" where
  "settle p item settlement state =
     transact (\<lambda>env now. record_settlement env now (pe_Clock p (ds_Tick state)) item settlement) p
       (state\<lparr>ds_Tick := Suc (ds_Tick state)\<rparr>)"

definition outbound_message :: "ClaimedNotification \<Rightarrow> 'w DeliveryChannel \<Rightarrow> OutboundMessage" where
  "outbound_message item channel =
     \<lparr>om_NotificationID = cn_ID item, om_SalonID = cn_SalonID item,
      om_Destination = ch_Destination channel, om_Body = cn_Message item\<rparr>"

definition process_item ::
  "'w ProcessorEnv \<Rightarrow> ClaimedNotification \<Rightarrow> 'w DeliveryState
     \<Rightarrow> (delivery_error + unit) \<times> 'w DeliveryState" where
  "process_item p item state =
     (case pe_Resolve p (cn_SalonID item) (ds_World state) of
        (resolved, world) \<Rightarrow>
          let state = state\<lparr>ds_World := world\<rparr> in
          (case settle_before_send resolved of
             Some settlement \<Rightarrow> settle p item settlement state
           | None \<Rightarrow>
               let channel = projr resolved in
               (case transact (\<lambda>env now. MarkDispatchStarted env now item
                        (ch_DestinationMasked channel)) p state of
                  (Inl err, state) \<Rightarrow> (Inl err, state)
                | (Inr _, state) \<Rightarrow>
                    (case the (ch_Sender channel) (outbound_message item channel)
                            (ds_World state) of
                       (sent, world) \<Rightarrow>
                         settle p item (settle_after_send sent) (state\<lparr>ds_World := world\<rparr>)))))"

fun process_items ::
  "'w ProcessorEnv \<Rightarrow> int \<Rightarrow> ClaimedNotification list \<Rightarrow> 'w DeliveryState
     \<Rightarrow> int \<times> delivery_error option \<times> 'w DeliveryState" where
  "process_items p processed [] state = (processed, None, state)"
| "process_items p processed (item # items) state =
     (case pe_Cancelled p (ds_Tick state) of
        Some err \<Rightarrow> (processed, Some err, state)
      | None \<Rightarrow>
          (case process_item p item state of
             (Inl err, state') \<Rightarrow> (processed, Some err, state')
           | (Inr _, state') \<Rightarrow> process_items p (processed + 1) items state'))"

text \<open>
  Recovering the leases takes one point in time for the query and one for each lease it may
  recover. Like the code, a pass returns the count with the error.
\<close>

definition recover_pass ::
  "'w ProcessorEnv \<Rightarrow> int \<Rightarrow> 'w DeliveryState \<Rightarrow> (delivery_error + int) \<times> 'w DeliveryState" where
  "recover_pass p limit state =
     (case RecoverExpiredLeases (pe_Env p (ds_Tick state)) (\<lambda>k. pe_Clock p (ds_Tick state + k)) limit
             (ds_DB state) of
        (result, db') \<Rightarrow>
          (result, state\<lparr>ds_DB := db', ds_Tick := ds_Tick state + 1 + nat (clamp 1 100 limit)\<rparr>))"

definition ProcessOnce ::
  "'w ProcessorEnv \<Rightarrow> int \<Rightarrow> 'w DeliveryState \<Rightarrow> int \<times> delivery_error option \<times> 'w DeliveryState" where
  "ProcessOnce p limit state =
     (if limit \<le> 0 then (0, Some ErrDeliveryValidation, state)
      else
        (case recover_pass p limit state of
           (Inl err, state) \<Rightarrow> (0, Some err, state)
         | (Inr _, state) \<Rightarrow>
             (case transact (\<lambda>env now. ClaimBatch env now limit DeliveryLeaseDuration) p state of
                (Inl err, state) \<Rightarrow> (0, Some err, state)
              | (Inr items, state) \<Rightarrow> process_items p 0 items state)))"

section \<open>Twilio\<close>

record TwilioMessagingConfig =
  tc_Enabled :: bool
  tc_OwnerSMSConsentAttested :: bool
  tc_OwnerSMSDestination :: string
  tc_OwnerSMSConsentAt :: "gotime option"
  tc_AccountSID :: string
  tc_AuthToken :: string
  tc_MessagingServiceSID :: string
  tc_SenderPhone :: string
  tc_StatusCallbackURL :: string
  tc_InboundCallbackURL :: string

record HttpRequest =
  hq_AccountSID :: string
  hq_Form :: "(string \<times> string) list"
  hq_User :: string
  hq_Password :: string

text \<open>The body is what \<open>io.ReadAll\<close> of at most \<open>maxTwilioResponseBytes\<close> returns.\<close>

record HttpResponse =
  hp_StatusCode :: int
  hp_Body :: "string + string"

record 'w TwilioEnv =
  tw_NewRequest :: "HttpRequest \<Rightarrow> bool"
  tw_Do :: "HttpRequest \<Rightarrow> 'w \<Rightarrow> (string + HttpResponse) \<times> 'w"
  tw_ParseMessage :: "string \<Rightarrow> (string \<times> string) option"
  tw_ToLower :: "string \<Rightarrow> string"

definition mapTwilioStatus :: "'w TwilioEnv \<Rightarrow> string \<Rightarrow> string \<times> int \<times> bool" where
  "mapTwilioStatus env status =
     (let status = tw_ToLower env (TrimSpace status) in
      if status \<in> {''accepted'', ''scheduled'', ''queued''} then (StatusProviderAccepted, 10, True)
      else if status = ''sending'' then (StatusProviderAccepted, 20, True)
      else if status = ''sent'' then (StatusSent, 30, True)
      else if status \<in> {''delivered'', ''read''} then (StatusDelivered, 50, True)
      else if status \<in> {''failed'', ''undelivered'', ''canceled''} then (StatusDeadLetter, 50, True)
      else (StatusProviderAccepted, 5, False))"

definition twilio_request :: "TwilioMessagingConfig \<Rightarrow> OutboundMessage \<Rightarrow> HttpRequest" where
  "twilio_request cfg message =
     \<lparr>hq_AccountSID = tc_AccountSID cfg,
      hq_Form = [(''To'', om_Destination message), (''Body'', om_Body message),
                 (''StatusCallback'', tc_StatusCallbackURL cfg)]
        @ (if TrimSpace (tc_MessagingServiceSID cfg) \<noteq> []
           then [(''MessagingServiceSid'', tc_MessagingServiceSID cfg)]
           else [(''From'', tc_SenderPhone cfg)]),
      hq_User = tc_AccountSID cfg, hq_Password = tc_AuthToken cfg\<rparr>"

definition send_failure :: "string \<Rightarrow> bool \<Rightarrow> bool \<Rightarrow> send_error + SendResult" where
  "send_failure code retryable ambiguous =
     Inl (Classified \<lparr>se_Code = code, se_Retryable = retryable, se_Ambiguous = ambiguous\<rparr>)"

definition twilio_response :: "'w TwilioEnv \<Rightarrow> string + HttpResponse \<Rightarrow> send_error + SendResult" where
  "twilio_response env response =
     (case response of
        Inl _ \<Rightarrow> send_failure ''DELIVERY_OUTCOME_UNKNOWN'' False True
      | Inr res \<Rightarrow>
          (case hp_Body res of
             Inl _ \<Rightarrow> send_failure ''DELIVERY_OUTCOME_UNKNOWN'' False True
           | Inr body \<Rightarrow>
               if hp_StatusCode res < 200 \<or> hp_StatusCode res \<ge> 300
               then send_failure ''TWILIO_MESSAGE_REJECTED'' False False
               else
                 (case tw_ParseMessage env body of
                    None \<Rightarrow> send_failure ''DELIVERY_OUTCOME_UNKNOWN'' False True
                  | Some (sid, status) \<Rightarrow>
                      if TrimSpace sid = []
                      then send_failure ''DELIVERY_OUTCOME_UNKNOWN'' False True
                      else
                        (case mapTwilioStatus env status of (deliveryStatus, rank, known) \<Rightarrow>
                           Inr \<lparr>sr_ProviderMessageID = TrimSpace sid,
                                sr_ProviderStatus = tw_ToLower env (TrimSpace status),
                                sr_DeliveryStatus =
                                  (if known then deliveryStatus else StatusProviderAccepted),
                                sr_StatusRank = (if known then rank else 10)\<rparr>))))"

definition Send :: "'w TwilioEnv \<Rightarrow> TwilioMessagingConfig \<Rightarrow> 'w Sender" where
  "Send env cfg message world =
     (if TrimSpace (om_Destination message) = [] \<or> TrimSpace (om_Body message) = []
      then (send_failure ''DELIVERY_REQUEST_INVALID'' True False, world)
      else if \<not> tw_NewRequest env (twilio_request cfg message)
      then (send_failure ''DELIVERY_REQUEST_BUILD_FAILED'' True False, world)
      else
        (case tw_Do env (twilio_request cfg message) world of
           (response, world') \<Rightarrow> (twilio_response env response, world')))"

datatype config_error = ConfigNotFound | ConfigInvalid | ConfigStoreError string

definition maskPhone :: "string \<Rightarrow> string" where
  "maskPhone number =
     (let number = TrimSpace number in
      if length number < 4 then []
      else concat (replicate 4 [CHR 0xE2, CHR 0x80, CHR 0xA2]) @ drop (length number - 4) number)"

definition ResolveDeliveryChannel ::
  "'w TwilioEnv \<Rightarrow> (string \<Rightarrow> config_error + TwilioMessagingConfig) \<Rightarrow> string
     \<Rightarrow> delivery_error + 'w DeliveryChannel" where
  "ResolveDeliveryChannel env configs salonID =
     (if TrimSpace salonID = [] then Inl ErrConfigNotReady
      else
        (case configs salonID of
           Inl (ConfigStoreError message) \<Rightarrow> Inl (DeliveryDatabaseError message)
         | Inl _ \<Rightarrow> Inl ErrConfigNotReady
         | Inr cfg \<Rightarrow>
             if \<not> tc_Enabled cfg then Inl ErrConfigDisabled
             else Inr \<lparr>ch_Enabled = True, ch_Provider = ProviderTwilio,
                       ch_Destination = tc_OwnerSMSDestination cfg,
                       ch_DestinationMasked = maskPhone (tc_OwnerSMSDestination cfg),
                       ch_Sender = Some (Send env cfg)\<rparr>))"

section \<open>Status callbacks\<close>

text \<open>The form of a callback; of two values for one key the later counts.\<close>

definition form_value :: "(string \<times> string) list \<Rightarrow> string \<Rightarrow> string" where
  "form_value params key = (case map_of (rev params) key of None \<Rightarrow> [] | Some v \<Rightarrow> v)"

definition paramsFingerprint :: "(string \<Rightarrow> string) \<Rightarrow> (string \<times> string) list \<Rightarrow> string" where
  "paramsFingerprint sha256 params =
     sha256 (concat (map (\<lambda>key. key @ [CHR 0x00] @ form_value params key @ [CHR 0x00])
       (sort (remdups (map fst params)))))"

definition sanitizeProviderCode :: "string \<Rightarrow> string" where
  "sanitizeProviderCode code =
     (let code = TrimSpace code in
      if code = [] \<or> length code > 16 then []
      else if list_ex (\<lambda>c. \<not> (CHR ''0'' \<le> c \<and> c \<le> CHR ''9'')) code then []
      else ''TWILIO_'' @ code)"

definition first_nonblank :: "string \<Rightarrow> string \<Rightarrow> string" where
  "first_nonblank a b = (if TrimSpace a = [] then TrimSpace b else TrimSpace a)"

definition status_callback ::
  "'w TwilioEnv \<Rightarrow> (string \<Rightarrow> string) \<Rightarrow> (string \<times> string) list \<Rightarrow> gotime \<Rightarrow> ProviderCallback" where
  "status_callback env sha256 params now =
     (let messageSID = first_nonblank (form_value params ''MessageSid'') (form_value params ''SmsSid'');
          providerStatus = (let s = tw_ToLower env (TrimSpace (form_value params ''MessageStatus''))
                            in if s = [] then tw_ToLower env (TrimSpace (form_value params ''SmsStatus''))
                               else s);
          fingerprint = paramsFingerprint sha256 params;
          errorCode = sanitizeProviderCode (form_value params ''ErrorCode'');
          eventSid = TrimSpace (form_value params ''EventSid'')
      in case mapTwilioStatus env providerStatus of (deliveryStatus, rank, _) \<Rightarrow>
           \<lparr>pcb_Provider = ProviderTwilio, pcb_ProviderMessageID = messageSID,
            pcb_ProviderStatus = providerStatus, pcb_StatusRank = rank,
            pcb_DeliveryStatus = deliveryStatus,
            pcb_EventKey = ''twilio-status:'' @
              (if eventSid = [] then messageSID @ '':'' @ providerStatus @ '':'' @ fingerprint
               else eventSid),
            pcb_EventFingerprint = fingerprint,
            pcb_ErrorCode = (if deliveryStatus = StatusDeadLetter \<and> errorCode = []
                             then ''TWILIO_DELIVERY_FAILED'' else errorCode),
            pcb_OccurredAt = now\<rparr>)"

datatype callback_response =
    NoContent
  | CallbackInvalid
  | SignatureInvalid
  | CallbackConflict
  | CallbackFailed

definition twilioAccountMatches ::
  "TwilioMessagingConfig \<Rightarrow> (string \<times> string) list \<Rightarrow> bool" where
  "twilioAccountMatches cfg params \<longleftrightarrow>
     TrimSpace (tc_AccountSID cfg) \<noteq> []
     \<and> TrimSpace (form_value params ''AccountSid'') = TrimSpace (tc_AccountSID cfg)"

text \<open>
  The status endpoint over the owner service: \<open>verify\<close> is the HMAC check of the form against the
  configured URL.
\<close>

definition Status_endpoint ::
  "'w TwilioEnv \<Rightarrow> DeliveryEnv \<Rightarrow> (string \<Rightarrow> config_error + TwilioMessagingConfig)
     \<Rightarrow> (string \<Rightarrow> string \<Rightarrow> (string \<times> string) list \<Rightarrow> string \<Rightarrow> bool) \<Rightarrow> gotime
     \<Rightarrow> (string \<times> string) list \<Rightarrow> string \<Rightarrow> DeliveryDB \<Rightarrow> callback_response \<times> DeliveryDB" where
  "Status_endpoint tw env configs verify now params signature db =
     (let messageSID = first_nonblank (form_value params ''MessageSid'') (form_value params ''SmsSid'')
      in if messageSID = [] then (CallbackInvalid, db)
         else
           (case SalonIDForProviderMessage ProviderTwilio messageSID db of
              Inl _ \<Rightarrow> (SignatureInvalid, db)
            | Inr salonID \<Rightarrow>
                (case configs salonID of
                   Inl _ \<Rightarrow> (SignatureInvalid, db)
                 | Inr cfg \<Rightarrow>
                     if \<not> verify (tc_AuthToken cfg) (tc_StatusCallbackURL cfg) params signature
                        \<or> \<not> twilioAccountMatches cfg params
                     then (SignatureInvalid, db)
                     else
                       (case ApplyProviderCallback_service env now
                               (status_callback tw (dv_SHA256 env) params now) db of
                          (Inl ErrDeliveryConflict, db') \<Rightarrow> (CallbackConflict, db')
                        | (Inl _, db') \<Rightarrow> (CallbackFailed, db')
                        | (Inr _, db') \<Rightarrow> (NoContent, db')))))"

end
