(* ===== verification/Delivery_Effects.thy ===== *)
theory Delivery_Effects
  imports Delivery_Processor
begin

text \<open>
  What the transactions of owner-notification delivery do to the rows: each changes at most the row
  of one notification, in one of a few ways, and a claim takes rows that are due. The proofs about
  histories rest on these case rules and do not look at the transactions again.
\<close>

section \<open>Rows by notification\<close>

definition row_of :: "DeliveryDB \<Rightarrow> string \<Rightarrow> DeliveryRow option" where
  "row_of db n = find (\<lambda>row. dn_ID row = n) (dd_Notifications db)"

definition attempt_keys :: "DeliveryDB \<Rightarrow> (string \<times> string) list" where
  "attempt_keys db = map (\<lambda>row. (da_ClaimToken row, da_NotificationID row)) (dd_Attempts db)"

definition ids_unique :: "DeliveryDB \<Rightarrow> bool" where
  "ids_unique db \<longleftrightarrow> distinct (map dn_ID (dd_Notifications db))"

text \<open>One row has changed, to \<open>row'\<close>; identifiers and attempts are as before.\<close>

definition row_changed :: "DeliveryDB \<Rightarrow> string \<Rightarrow> DeliveryRow \<Rightarrow> DeliveryDB \<Rightarrow> bool" where
  "row_changed db n row' db' \<longleftrightarrow>
     row_of db' = (row_of db)(n \<mapsto> row')
     \<and> map dn_ID (dd_Notifications db') = map dn_ID (dd_Notifications db)
     \<and> attempt_keys db' = attempt_keys db"

lemma row_of_member:
  assumes "ids_unique db" "row \<in> set (dd_Notifications db)"
  shows "row_of db (dn_ID row) = Some row"
  unfolding row_of_def
  by (rule find_unique [where f = dn_ID]) (use assms in \<open>auto simp: ids_unique_def\<close>)

lemma row_of_SomeD: "row_of db n = Some row \<Longrightarrow> row \<in> set (dd_Notifications db) \<and> dn_ID row = n"
  unfolding row_of_def by (drule find_SomeD)

lemma row_of_update_where:
  assumes "\<And>row. dn_ID (change row) = dn_ID row"
  shows "row_of (update_where match change db) n
    = map_option (\<lambda>row. if match row then change row else row) (row_of db n)"
  unfolding row_of_def update_where_def
  by (simp add: find_map assms)

lemma ids_update_where:
  assumes "\<And>row. dn_ID (change row) = dn_ID row"
  shows "map dn_ID (dd_Notifications (update_where match change db)) = map dn_ID (dd_Notifications db)"
  by (simp add: update_where_def assms)

lemma update_where_changes:
  assumes "\<And>row. dn_ID (change row) = dn_ID row" "\<And>row. match row \<Longrightarrow> dn_ID row = n"
    and "row_of db n = Some row" "match row"
  shows "row_changed db n (change row) (update_where match change db)"
proof -
  have "row_of (update_where match change db) m = ((row_of db)(n \<mapsto> change row)) m" for m
  proof (cases "m = n")
    case False
    then have "\<not> match other" if "row_of db m = Some other" for other
      using row_of_SomeD [OF that] assms(2) by blast
    with False show ?thesis by (cases "row_of db m") (auto simp: row_of_update_where [OF assms(1)])
  qed (simp add: row_of_update_where [OF assms(1)] assms(3,4))
  moreover have "attempt_keys (update_where match change db) = attempt_keys db"
    by (simp add: attempt_keys_def update_where_def)
  ultimately show ?thesis unfolding row_changed_def by (simp add: ids_update_where [OF assms(1)] fun_eq_iff)
qed

lemma insertEvent_simps [simp]:
  "dd_Notifications (insertEvent env now s n key t st p code db) = dd_Notifications db"
  "dd_Attempts (insertEvent env now s n key t st p code db) = dd_Attempts db"
  "dd_Actions (insertEvent env now s n key t st p code db) = dd_Actions db"
  by (simp_all add: insertEvent_def)

lemma update_attempts_keys:
  assumes "\<And>row. da_ClaimToken (change row) = da_ClaimToken row"
    and "\<And>row. da_NotificationID (change row) = da_NotificationID row"
  shows "attempt_keys (update_attempts match change db) = attempt_keys db"
  by (simp add: attempt_keys_def update_attempts_def assms)

lemma update_attempts_simps [simp]:
  "dd_Notifications (update_attempts match change db) = dd_Notifications db"
  "dd_Events (update_attempts match change db) = dd_Events db"
  by (simp_all add: update_attempts_def)

lemma row_changed_cong:
  assumes "row_changed db n row db1" "dd_Notifications db2 = dd_Notifications db1"
    and "attempt_keys db2 = attempt_keys db1"
  shows "row_changed db n row db2"
  using assms by (simp add: row_changed_def row_of_def [abs_def])

lemma release_claim_simps [simp]:
  "dn_ID (release_claim row) = dn_ID row"
  "dn_SalonID (release_claim row) = dn_SalonID row"
  "dn_DeliveryStatus (release_claim row) = dn_DeliveryStatus row"
  "dn_ClaimToken (release_claim row) = None"
  "dn_LeaseExpiresAt (release_claim row) = None"
  "dn_DispatchStartedAt (release_claim row) = None"
  "dn_ProviderMessageID (release_claim row) = dn_ProviderMessageID row"
  "dn_ProviderStatusRank (release_claim row) = dn_ProviderStatusRank row"
  "dn_LastErrorCode (release_claim row) = dn_LastErrorCode row"
  "dn_DeliveryAttempts (release_claim row) = dn_DeliveryAttempts row"
  "dn_RequeueCount (release_claim row) = dn_RequeueCount row"
  "dn_RedactedAt (release_claim row) = dn_RedactedAt row"
  by (simp_all add: release_claim_def)

lemma commit_delivery_cases:
  assumes "commit_delivery env db db' x = (r, db'')"
  obtains "r = Inr x" "db'' = db'" | err where "r = Inl err" "db'' = db"
  using assms by (auto simp: commit_delivery_def split: option.splits)

lemma rows_matching_row_of:
  assumes "rows_matching match db = 1" "\<And>row. match row \<Longrightarrow> dn_ID row = n" "ids_unique db"
  obtains row where "row_of db n = Some row" "match row"
proof -
  from assms(1) obtain row where "filter match (dd_Notifications db) = [row]"
    unfolding rows_matching_def by (cases "filter match (dd_Notifications db)") auto
  then have "row \<in> set (dd_Notifications db)" "match row"
    by (metis filter_eq_ConsD in_set_conv_decomp)+
  then show thesis using that row_of_member [OF assms(3)] assms(2) by metis
qed

section \<open>What each transaction changes\<close>

lemma expired_rows_ID [simp]:
  "dn_ID (expired_after_dispatch now row) = dn_ID row"
  "dn_ID (expired_before_dispatch now row) = dn_ID row"
  "dn_ID (completed_row now status code next_at row) = dn_ID row"
  "dn_ID (accepted_row now result row) = dn_ID row"
  "dn_ID (reported_row callback row) = dn_ID row"
  "dn_ID (requeued_row now row) = dn_ID row"
  "dn_ID (claim_row lease now token row) = dn_ID row"
  by (simp_all add: expired_after_dispatch_def expired_before_dispatch_def completed_row_def
      accepted_row_def reported_row_def requeued_row_def claim_row_def Let_def)

lemma finish_attempt_simps [simp]:
  "da_ClaimToken (finish_attempt outcome code now row) = da_ClaimToken row"
  "da_NotificationID (finish_attempt outcome code now row) = da_NotificationID row"
  by (simp_all add: finish_attempt_def)

lemma holds_claim_ID: "holds_claim n salon token row \<Longrightarrow> dn_ID row = n"
  by (simp add: holds_claim_def)

text \<open>An update of the row of a claim, with its attempt and its event.\<close>

lemma record_changes:
  assumes "row_of db n = Some row" "match row"
    and "\<And>row. match row \<Longrightarrow> dn_ID row = n" "\<And>row. dn_ID (change row) = dn_ID row"
    and "\<And>row. da_ClaimToken (finish row) = da_ClaimToken row"
    and "\<And>row. da_NotificationID (finish row) = da_NotificationID row"
  shows "row_changed db n (change row)
    (insertEvent env now s n' key t st p code (update_attempts am finish (update_where match change db)))"
proof (rule row_changed_cong)
  show "row_changed db n (change row) (update_where match change db)"
    by (rule update_where_changes) (fact assms(4) assms(3) assms(1) assms(2))+
next
  show "attempt_keys (insertEvent env now s n' key t st p code
      (update_attempts am finish (update_where match change db)))
    = attempt_keys (update_where match change db)"
    using update_attempts_keys [OF assms(5,6), where match = am]
    by (simp add: attempt_keys_def)
qed simp

text \<open>
  The shape of the operations that act for the holder of a claim: they find exactly one row that
  matches, or the claim is lost.
\<close>

lemma claim_record_cases:
  assumes "(if rows_matching match db \<noteq> 1 then (Inl ErrClaimLost, db)
      else commit_delivery env db (insertEvent env now s n' key t st p code
        (update_attempts am finish (update_where match change db))) ()) = (r, db')"
    and "ids_unique db"
    and ID: "\<And>row. match row \<Longrightarrow> dn_ID row = n"
    and keep: "\<And>row. dn_ID (change row) = dn_ID row"
      "\<And>row. da_ClaimToken (finish row) = da_ClaimToken row"
      "\<And>row. da_NotificationID (finish row) = da_NotificationID row"
  obtains err where "r = Inl err" "db' = db"
  | row where "r = Inr ()" "row_of db n = Some row" "match row" "row_changed db n (change row) db'"
proof (cases "rows_matching match db = 1")
  case True
  then obtain row where row: "row_of db n = Some row" "match row"
    by (rule rows_matching_row_of) (use ID assms(2) in auto)
  from assms(1) True have "commit_delivery env db (insertEvent env now s n' key t st p code
        (update_attempts am finish (update_where match change db))) () = (r, db')" by simp
  then show thesis
  proof (cases rule: commit_delivery_cases)
    case 1
    have "row_changed db n (change row) db'"
      unfolding 1(2) by (rule record_changes [where match = match and change = change and row = row]) (fact row ID keep)+
    with 1(1) row show thesis by (rule that(2))
  qed (rule that(1))
next
  case False
  with assms(1) show thesis by (auto intro: that(1))
qed

lemma complete_cases:
  assumes "completeWithoutProvider env now item status outcome code next_at db = (r, db')" "ids_unique db"
  obtains err where "r = Inl err" "db' = db"
  | row where "r = Inr ()" "row_of db (cn_ID item) = Some row"
      "holds_claim (cn_ID item) (cn_SalonID item) (cn_ClaimToken item) row"
      "row_changed db (cn_ID item) (completed_row now status code next_at row) db'"
  by (rule claim_record_cases [OF assms(1) [unfolded completeWithoutProvider_def Let_def] assms(2)])
    (auto dest: holds_claim_ID intro: that)

definition dispatched_row :: "gotime \<Rightarrow> string \<Rightarrow> DeliveryRow \<Rightarrow> DeliveryRow" where
  "dispatched_row now masked row =
     row\<lparr>dn_DispatchStartedAt := Some now, dn_DestinationMasked := masked\<rparr>"

lemma mark_cases:
  assumes "MarkDispatchStarted env now item masked db = (r, db')" "ids_unique db"
  obtains err where "r = Inl err" "db' = db"
  | row where "r = Inr ()" "row_of db (cn_ID item) = Some row"
      "holds_claim (cn_ID item) (cn_SalonID item) (cn_ClaimToken item) row"
      "row_changed db (cn_ID item) (dispatched_row now masked row) db'"
  by (rule claim_record_cases [OF assms(1) [unfolded MarkDispatchStarted_def Let_def,
        folded dispatched_row_def] assms(2)])
    (auto dest: holds_claim_ID intro: that simp: dispatched_row_def)

lemma provider_result_cases:
  assumes "RecordProviderResult env now item result db = (r, db')" "ids_unique db"
  obtains err where "r = Inl err" "db' = db"
  | row where "r = Inr ()" "row_of db (cn_ID item) = Some row"
      "holds_claim (cn_ID item) (cn_SalonID item) (cn_ClaimToken item) row"
      "row_changed db (cn_ID item) (accepted_row now result row) db'"
proof (cases "TrimSpace (sr_ProviderMessageID result) = [] \<or> sr_StatusRank result \<le> 0")
  case True
  with assms(1) show thesis by (auto simp: RecordProviderResult_def Let_def intro: that)
next
  case False
  note run = assms(1) [unfolded RecordProviderResult_def Let_def if_not_P [OF False]]
  show thesis
    by (rule claim_record_cases [OF run assms(2)]) (auto dest: holds_claim_ID intro: that)
qed

lemma recover_cases:
  assumes "recoverExpiredLease env now item db = (r, db')" "ids_unique db"
  obtains "db' = db" "r \<noteq> Inr True"
  | row where "row_of db (el_id item) = Some row"
      "holds_claim (el_id item) (el_salonID item) (el_token item) row" "lease_expired now row"
      "row_changed db (el_id item) (if dn_DispatchStartedAt row = None
         then expired_before_dispatch now row else expired_after_dispatch now row) db'"
proof (cases "find (\<lambda>row. holds_claim (el_id item) (el_salonID item) (el_token item) row
      \<and> lease_expired now row) (dd_Notifications db)")
  case None
  with assms(1) show thesis by (intro that(1)) (auto simp: recoverExpiredLease_def)
next
  case (Some row)
  from find_SomeD [OF Some] have found: "row \<in> set (dd_Notifications db)"
    "holds_claim (el_id item) (el_salonID item) (el_token item) row" "lease_expired now row" by auto
  have row: "row_of db (el_id item) = Some row"
    using row_of_member [OF assms(2) found(1)] holds_claim_ID [OF found(2)] by simp
  let ?match = "\<lambda>row. dn_ID row = el_id item \<and> dn_SalonID row = el_salonID item
      \<and> dn_ClaimToken row = Some (el_token item)"
  have match: "?match row" using found(2) by (simp add: holds_claim_def)
  note run = assms(1) [unfolded recoverExpiredLease_def Some option.case Let_def]
  show thesis
  proof (cases "dn_DispatchStartedAt row = None")
    case True
    from run True have run': "commit_delivery env db (insertEvent env now (el_salonID item) (el_id item)
        (''expired-before-dispatch:'' @ el_token item) ''safe_retry_scheduled'' StatusFailed
        [] ''DELIVERY_LEASE_EXPIRED'' (update_attempts (\<lambda>row. open_attempt (el_token item) row
          \<and> da_SalonID row = el_salonID item) (finish_attempt ''safe_retry'' ''DELIVERY_LEASE_EXPIRED'' now)
        (update_where ?match (expired_before_dispatch now) db))) True = (r, db')" by simp
    from run' show thesis
    proof (cases rule: commit_delivery_cases)
      case 1
      have "row_changed db (el_id item) (expired_before_dispatch now row) db'"
        unfolding 1(2) by (rule record_changes [where match = ?match and row = row]) (use match row in auto)
      with True show thesis by (intro that(2) [OF row found(2,3)]) simp
    qed (auto intro: that(1))
  next
    case False
    note run' = run [unfolded if_P [OF False]]
    from run' show thesis
    proof (cases rule: commit_delivery_cases)
      case 1
      have "row_changed db (el_id item) (expired_after_dispatch now row) db'"
        unfolding 1(2) by (rule record_changes [where match = ?match and row = row]) (use match row in auto)
      then show thesis by (intro that(2) [OF row found(2,3)]) (simp only: False if_False)
    qed (auto intro: that(1))
  qed
qed

lemma callback_cases:
  assumes "ApplyProviderCallback env now callback db = (r, db')" "ids_unique db"
  obtains "row_of db' = row_of db" "map dn_ID (dd_Notifications db') = map dn_ID (dd_Notifications db)"
      "attempt_keys db' = attempt_keys db"
  | row where "row_of db (dn_ID row) = Some row"
      "carries_message (pcb_Provider callback) (pcb_ProviderMessageID callback) row"
      "find (carries_message (pcb_Provider callback) (pcb_ProviderMessageID callback))
         (dd_Notifications db) = Some row"
      "pcb_StatusRank callback > dn_ProviderStatusRank row" "r = Inr ()"
      "row_changed db (dn_ID row) (reported_row callback row) db'"
proof -
  let ?find = "find (carries_message (pcb_Provider callback) (pcb_ProviderMessageID callback))
    (dd_Notifications db)"
  note unchanged = that(1)
  have same: thesis if "dd_Notifications db' = dd_Notifications db" "dd_Attempts db' = dd_Attempts db"
    using that by (intro unchanged) (simp_all add: row_of_def [abs_def] attempt_keys_def)
  show thesis
  proof (cases ?find)
    case None
    with assms(1) show thesis by (intro same) (auto simp: ApplyProviderCallback_def)
  next
    case (Some row)
    from find_SomeD [OF Some] have found: "row \<in> set (dd_Notifications db)"
      "carries_message (pcb_Provider callback) (pcb_ProviderMessageID callback) row" by auto
    note run = assms(1) [unfolded ApplyProviderCallback_def Some option.case]
    show thesis
    proof (cases "find (\<lambda>event. de_SalonID event = dn_SalonID row
        \<and> de_EventKey event = pcb_EventKey callback) (dd_Events db) = None
        \<and> pcb_StatusRank callback > dn_ProviderStatusRank row")
      case False
      with run show thesis
        by (intro same) (auto simp: commit_delivery_def split: option.splits if_splits)
    next
      case True
      let ?attempts = "update_attempts (\<lambda>attempt. da_NotificationID attempt = dn_ID row
            \<and> da_ProviderMessageID attempt = Some (pcb_ProviderMessageID callback))
          (reported_attempt now callback)"
      let ?update = "update_where (\<lambda>other. dn_ID other = dn_ID row) (reported_row callback) db"
      have keys: "attempt_keys (?attempts ?update) = attempt_keys ?update"
        by (rule update_attempts_keys) (simp_all add: reported_attempt_def)
      from run True have "commit_delivery env db ((?attempts ?update)\<lparr>dd_Events :=
          dd_Events (?attempts ?update)
            @ [callback_event env callback row (pcb_DeliveryStatus callback)]\<rparr>) () = (r, db')"
        by (simp add: Let_def)
      then show thesis
      proof (cases rule: commit_delivery_cases)
        case 1
        have row: "row_of db (dn_ID row) = Some row" by (rule row_of_member [OF assms(2) found(1)])
        have "row_changed db (dn_ID row) (reported_row callback row) ?update"
          by (rule update_where_changes) (simp_all add: row)
        then have "row_changed db (dn_ID row) (reported_row callback row) db'"
          by (rule row_changed_cong) (use keys in \<open>simp_all add: 1(2) attempt_keys_def\<close>)
        with True 1(1) found row Some show thesis by (intro that(2)) auto
      qed (use same in simp)
    qed
  qed
qed

lemma requeue_cases:
  assumes "RequeueForOwner env now salonID ownerUserID n actionKey fingerprint db = (r, db')" "ids_unique db"
  obtains "db' = db"
  | row where "row_of db n = Some row" "\<not> requeue_blocked row" "db' \<noteq> db"
      "row_changed db n (requeued_row now row) db'"
proof (cases "db' = db")
  case False
  note run = assms(1) [unfolded RequeueForOwner_def]
  from run False have fresh: "dv_MayRequeue env salonID ownerUserID"
    "find (\<lambda>action. dc_SalonID action = salonID \<and> dc_ActionKey action = actionKey) (dd_Actions db) = None"
    by (auto split: if_splits option.splits)
  obtain row where find: "find (\<lambda>row. dn_SalonID row = salonID \<and> dn_ID row = n) (dd_Notifications db)
      = Some row" and free: "\<not> requeue_blocked row"
    using run False fresh by (auto split: if_splits option.splits)
  from find_SomeD [OF find] have found: "row \<in> set (dd_Notifications db)" "dn_SalonID row = salonID"
    "dn_ID row = n" by auto
  have row: "row_of db n = Some row" using row_of_member [OF assms(2) found(1)] found(3) by simp
  let ?match = "\<lambda>row. dn_SalonID row = salonID \<and> dn_ID row = n"
  let ?requeued = "requeued_db env now salonID ownerUserID n actionKey fingerprint db"
  have "db' = ?requeued"
    using run False fresh find free
    by (auto simp: commit_delivery_def split: option.splits)
  moreover have "row_changed db n (requeued_row now row) ?requeued"
  proof (rule row_changed_cong)
    show "row_changed db n (requeued_row now row) (update_where ?match (requeued_row now) db)"
      by (rule update_where_changes) (use found row in auto)
  qed (simp_all add: requeued_db_def Let_def attempt_keys_def)
  ultimately show thesis using that(2) row free False by simp
qed (rule that(1))

lemma candidates_claimable:
  assumes "row \<in> set (claim_candidates env attempts limit now db)"
  shows "row \<in> set (dd_Notifications db)" "claimable attempts now row"
  using assms by (auto simp: claim_candidates_def Let_def dest: in_set_takeD)

lemma candidates_distinct:
  assumes "ids_unique db"
  shows "distinct (map dn_ID (claim_candidates env attempts limit now db))"
proof -
  have "distinct (map dn_ID (sort_key claim_order (filter (claimable attempts now) (dd_Notifications db))))"
    using assms by (auto simp: ids_unique_def distinct_map inj_on_def)
  then show ?thesis
    by (simp add: claim_candidates_def Let_def take_map [symmetric] distinct_map_filter)
qed

text \<open>The rows of a batch, with their new tokens.\<close>

definition claimed_batch :: "DeliveryEnv \<Rightarrow> int \<Rightarrow> gotime \<Rightarrow> DeliveryRow list \<Rightarrow> DeliveryRow list" where
  "claimed_batch env lease now candidates =
     map (\<lambda>(index, row). claim_row lease now (dv_UUID env [0, index]) row) (enumerate 0 candidates)"

lemma claimed_batch_IDs: "map dn_ID (claimed_batch env lease now candidates) = map dn_ID candidates"
  by (intro nth_equalityI) (simp_all add: claimed_batch_def nth_enumerate_eq)

lemma claimed_batch_member:
  assumes "new \<in> set (claimed_batch env lease now candidates)"
  obtains row token where "row \<in> set candidates" "new = claim_row lease now token row"
proof -
  from assms obtain i where "i < length candidates"
    "new = claim_row lease now (dv_UUID env [0, i]) (candidates ! i)"
    by (auto simp: claimed_batch_def in_set_enumerate_eq)
  then show thesis using that [of "candidates ! i"] by simp
qed

lemma claimed_of_row_simps [simp]:
  "cn_ID (claimed_of_row row) = dn_ID row"
  "cn_SalonID (claimed_of_row row) = dn_SalonID row"
  "cn_ClaimToken (claimed_of_row row) = the (dn_ClaimToken row)"
  "cn_AttemptNumber (claimed_of_row row) = dn_DeliveryAttempts row"
  "cn_RequeueCount (claimed_of_row row) = dn_RequeueCount row"
  by (simp_all add: claimed_of_row_def)

lemma leased_attempt_simps [simp]:
  "da_ClaimToken (leased_attempt row) = the (dn_ClaimToken row)"
  "da_NotificationID (leased_attempt row) = dn_ID row"
  by (simp_all add: leased_attempt_def)

text \<open>
  A claim takes rows that are due and have attempts left, gives each a token no attempt ever had,
  and changes no other row.
\<close>

lemma claim_cases:
  assumes "ClaimBatch env now limit lease db = (r, db')" "ids_unique db"
  obtains err where "r = Inl err" "db' = db"
  | items where "r = Inr items" "distinct (map cn_ID items)"
      "map dn_ID (dd_Notifications db') = map dn_ID (dd_Notifications db)"
      "\<And>item. item \<in> set items \<Longrightarrow> \<exists>row. row_of db (cn_ID item) = Some row
         \<and> claimable MaxSafeDeliveryAttempts now row
         \<and> row_of db' (cn_ID item)
           = Some (claim_row (lease div 1000000) now (cn_ClaimToken item) row)
         \<and> item = claimed_of_row (claim_row (lease div 1000000) now (cn_ClaimToken item) row)"
      "\<And>n. n \<notin> cn_ID ` set items \<Longrightarrow> row_of db' n = row_of db n"
      "attempt_keys db' = attempt_keys db @ map (\<lambda>item. (cn_ClaimToken item, cn_ID item)) items"
      "distinct (map fst (attempt_keys db'))"
proof -
  let ?candidates = "claim_candidates env MaxSafeDeliveryAttempts limit now db"
  let ?ms = "lease div 1000000"
  define batch where "batch = claimed_batch env ?ms now ?candidates"
  define swap where "swap = (\<lambda>row. case find (\<lambda>new. dn_ID new = dn_ID row) batch of
      None \<Rightarrow> row | Some new \<Rightarrow> new)"
  define claimed_db where "claimed_db = db\<lparr>dd_Notifications := map swap (dd_Notifications db),
      dd_Attempts := dd_Attempts db @ map leased_attempt batch,
      dd_Events := dd_Events db @ map (claimed_event env now) (enumerate 0 batch)\<rparr>"
  have IDs: "distinct (map dn_ID batch)"
    unfolding batch_def claimed_batch_IDs by (rule candidates_distinct [OF assms(2)])
  have swap_ID: "dn_ID (swap row) = dn_ID row" for row
    unfolding swap_def by (auto split: option.splits dest: find_SomeD)
  have row_of_swapped: "row_of claimed_db n = map_option swap (row_of db n)" for n
    unfolding row_of_def claimed_db_def by (simp add: find_map swap_ID)
  show thesis
  proof (cases "limit \<le> 0 \<or> lease \<le> 0 \<or> \<not> attempts_unique (dd_Attempts claimed_db)
      \<or> (\<exists>err. r = Inl err)")
    case True
    then show thesis using assms(1)
      by (intro that(1) [of "projl r"])
        (auto simp: ClaimBatch_def app_worker_claim_owner_notifications_def Let_def claimed_db_def
          batch_def claimed_batch_def commit_delivery_def split: if_splits option.splits)
  next
    case False
    then have run: "r = Inr (map claimed_of_row batch)" "db' = claimed_db"
      and unique: "attempts_unique (dd_Attempts claimed_db)"
      using assms(1)
      by (auto simp: ClaimBatch_def app_worker_claim_owner_notifications_def Let_def claimed_db_def
          batch_def claimed_batch_def swap_def commit_delivery_def split: if_splits option.splits)
    show thesis
    proof (rule that(2) [OF run(1)])
      show "distinct (map cn_ID (map claimed_of_row batch))" using IDs by (simp add: comp_def)
      show "map dn_ID (dd_Notifications db') = map dn_ID (dd_Notifications db)"
        by (simp add: run(2) claimed_db_def swap_ID comp_def)
    next
      fix item assume "item \<in> set (map claimed_of_row batch)"
      then obtain new where new: "new \<in> set batch" "item = claimed_of_row new" by auto
      then obtain row token where row: "row \<in> set ?candidates" "new = claim_row ?ms now token row"
        unfolding batch_def by (elim claimed_batch_member)
      have old: "row_of db (dn_ID row) = Some row"
        using candidates_claimable(1) [OF row(1)] by (rule row_of_member [OF assms(2)])
      have "find (\<lambda>other. dn_ID other = dn_ID row) batch = Some new"
        by (rule find_unique [where f = dn_ID]) (use IDs new row in auto)
      then have "swap row = new" by (simp add: swap_def)
      with old have "row_of db' (dn_ID row) = Some new" by (simp add: run(2) row_of_swapped)
      moreover have "cn_ClaimToken item = token" by (simp add: new(2) row(2) claim_row_def)
      ultimately show "\<exists>row. row_of db (cn_ID item) = Some row
         \<and> claimable MaxSafeDeliveryAttempts now row
         \<and> row_of db' (cn_ID item) = Some (claim_row ?ms now (cn_ClaimToken item) row)
         \<and> item = claimed_of_row (claim_row ?ms now (cn_ClaimToken item) row)"
        using old row new candidates_claimable(2) [OF row(1)] by auto
    next
      fix n assume n: "n \<notin> cn_ID ` set (map claimed_of_row batch)"
      have "swap row = row" if "row_of db n = Some row" for row
      proof -
        have "find (\<lambda>new. dn_ID new = dn_ID row) batch = None"
          using n row_of_SomeD [OF that] by (force simp: find_None_iff image_iff)
        then show ?thesis by (simp add: swap_def)
      qed
      then show "row_of db' n = row_of db n" by (cases "row_of db n") (auto simp: run(2) row_of_swapped)
    next
      show "attempt_keys db' = attempt_keys db
          @ map (\<lambda>item. (cn_ClaimToken item, cn_ID item)) (map claimed_of_row batch)"
        by (simp add: run(2) claimed_db_def attempt_keys_def comp_def)
      show "distinct (map fst (attempt_keys db'))"
        using unique by (simp add: run(2) attempt_keys_def attempts_unique_def comp_def)
    qed
  qed
qed

end
