(* ===== verification/Delivery_Safety.thy ===== *)
theory Delivery_Safety
  imports Delivery_Effects
begin

text \<open>
  The safety of owner-notification delivery when any number of workers, provider callbacks and
  owner actions interleave: a step relation whose steps are the transactions of the repository and
  the hand-overs to the provider, with a trace of what happened to each notification, and the
  invariant that ties the trace to the rows.
\<close>

section \<open>Events\<close>

datatype delivery_event =
    Claimed string
  | Handed_Over string string "send_error + SendResult"
  | Failure_Reported string
  | Requeued string

text \<open>Whether the provider may have the message, and whether the same attempt cycle may go on.\<close>

definition may_have_arrived :: "send_error + SendResult \<Rightarrow> bool" where
  "may_have_arrived sent =
     (case sent of Inl (Classified err) \<Rightarrow> se_Ambiguous err | Inl (Unclassified _) \<Rightarrow> True
      | Inr _ \<Rightarrow> True)"

definition retryable :: "send_error + SendResult \<Rightarrow> bool" where
  "retryable sent =
     (case sent of Inl (Classified err) \<Rightarrow> \<not> se_Ambiguous err \<and> se_Retryable err | _ \<Rightarrow> False)"

fun about :: "string \<Rightarrow> delivery_event \<Rightarrow> bool" where
  "about n (Claimed m) \<longleftrightarrow> False"
| "about n (Handed_Over token m sent) \<longleftrightarrow> m = n"
| "about n (Failure_Reported m) \<longleftrightarrow> m = n"
| "about n (Requeued m) \<longleftrightarrow> m = n"

definition last_event :: "string \<Rightarrow> delivery_event list \<Rightarrow> delivery_event option" where
  "last_event n trace = (if filter (about n) trace = [] then None else Some (last (filter (about n) trace)))"

text \<open>
  What may follow: a message is handed over for the first time, after a hand-over that certainly
  failed and may be retried, or after an owner requeued it; it is requeued only when the last
  hand-over certainly failed, or the provider reported that the message failed.
\<close>

definition may_send :: "delivery_event option \<Rightarrow> bool" where
  "may_send latest =
     (case latest of None \<Rightarrow> True | Some (Handed_Over _ _ sent) \<Rightarrow> retryable sent
      | Some (Requeued _) \<Rightarrow> True | Some _ \<Rightarrow> False)"

definition may_requeue :: "delivery_event option \<Rightarrow> bool" where
  "may_requeue latest =
     (case latest of Some (Handed_Over _ _ sent) \<Rightarrow> \<not> may_have_arrived sent | _ \<Rightarrow> True)"

definition event_in_order :: "delivery_event list \<Rightarrow> delivery_event \<Rightarrow> bool" where
  "event_in_order earlier event =
     (case event of
        Handed_Over token n sent \<Rightarrow> may_send (last_event n earlier)
      | Requeued n \<Rightarrow> may_requeue (last_event n earlier)
      | _ \<Rightarrow> True)"

fun in_order_after :: "delivery_event list \<Rightarrow> delivery_event list \<Rightarrow> bool" where
  "in_order_after earlier [] \<longleftrightarrow> True"
| "in_order_after earlier (event # events) \<longleftrightarrow>
     event_in_order earlier event \<and> in_order_after (earlier @ [event]) events"

abbreviation in_order :: "delivery_event list \<Rightarrow> bool" where
  "in_order trace \<equiv> in_order_after [] trace"

lemma in_order_after_snoc:
  "in_order_after earlier (events @ [event])
     \<longleftrightarrow> in_order_after earlier events \<and> event_in_order (earlier @ events) event"
  by (induction events arbitrary: earlier) simp_all

lemma last_event_snoc [simp]:
  "last_event n (trace @ [event]) = (if about n event then Some event else last_event n trace)"
  by (simp add: last_event_def)

lemma last_event_claims [simp]:
  "last_event n (trace @ map (\<lambda>item. Claimed (cn_ID item)) items) = last_event n trace"
  by (auto simp: last_event_def filter_map comp_def)

lemma last_event_about: "last_event n trace = Some event \<Longrightarrow> about n event \<and> event \<in> set trace"
proof -
  assume "last_event n trace = Some event"
  then have "event \<in> set (filter (about n) trace)"
    using last_in_set [of "filter (about n) trace"] by (auto simp: last_event_def split: if_splits)
  then show ?thesis by simp
qed

section \<open>Steps\<close>

text \<open>
  A claimed notification is held by a worker from its claim until its outcome is recorded, or until
  the worker stops.
\<close>

datatype phase = Leased | Dispatched | Answered "send_error + SendResult"

record DeliverySystem =
  sy_DB :: DeliveryDB
  sy_Held :: "(ClaimedNotification \<times> phase) set"
  sy_Trace :: "delivery_event list"

text \<open>
  The contract of a sender: an ambiguous failure carries the code of an unknown outcome, or none;
  a result carries one of the states a provider can report. A callback carries such a state too,
  and never the code of an unknown outcome.
\<close>

definition provider_state :: "string \<Rightarrow> bool" where
  "provider_state status \<longleftrightarrow>
     status \<in> {StatusProviderAccepted, StatusSent, StatusDelivered, StatusDeadLetter}"

definition sender_answer :: "send_error + SendResult \<Rightarrow> bool" where
  "sender_answer sent =
     (case sent of
        Inl (Classified err) \<Rightarrow> se_Ambiguous err \<longrightarrow> TrimSpace (se_Code err) = []
          \<or> se_Code err = ''DELIVERY_OUTCOME_UNKNOWN''
      | Inl (Unclassified _) \<Rightarrow> True
      | Inr result \<Rightarrow> provider_state (sr_DeliveryStatus result))"

definition callback_ok :: "ProviderCallback \<Rightarrow> bool" where
  "callback_ok callback \<longleftrightarrow>
     provider_state (pcb_DeliveryStatus callback)
     \<and> pcb_ErrorCode callback \<noteq> ''DELIVERY_OUTCOME_UNKNOWN''"

definition reported_failure :: "ProviderCallback \<Rightarrow> DeliveryDB \<Rightarrow> DeliveryDB \<Rightarrow> delivery_event list" where
  "reported_failure callback db db' =
     (case find (carries_message (pcb_Provider callback) (pcb_ProviderMessageID callback))
             (dd_Notifications db) of
        None \<Rightarrow> []
      | Some row \<Rightarrow>
          if row_of db' (dn_ID row) \<noteq> row_of db (dn_ID row)
             \<and> pcb_DeliveryStatus callback = StatusDeadLetter
          then [Failure_Reported (dn_ID row)] else [])"

definition answered_failure ::
  "ClaimedNotification \<Rightarrow> send_error + SendResult \<Rightarrow> delivery_error + unit \<Rightarrow> delivery_event list" where
  "answered_failure item sent recorded =
     (case (sent, recorded) of
        (Inr result, Inr _) \<Rightarrow>
          if sr_DeliveryStatus result = StatusDeadLetter then [Failure_Reported (cn_ID item)] else []
      | _ \<Rightarrow> [])"

definition new_notification :: "DeliveryRow \<Rightarrow> bool" where
  "new_notification row \<longleftrightarrow>
     (dn_DeliveryStatus row = StatusQueued \<or> dn_DeliveryStatus row = StatusDisabled)
     \<and> dn_DeliveryAttempts row = 0 \<and> dn_RequeueCount row = 0 \<and> dn_ClaimToken row = None
     \<and> dn_DispatchStartedAt row = None \<and> dn_ProviderMessageID row = None"

definition redacted_row :: "gotime \<Rightarrow> DeliveryRow \<Rightarrow> DeliveryRow" where
  "redacted_row now row =
     row\<lparr>dn_Message := ''[redacted]'', dn_DestinationMasked := [], dn_LastError := [],
         dn_RedactedAt := Some now, dn_RedactionVersion := 1\<rparr>"

text \<open>
  The steps. The transactions take any environment and any time: identifiers, clocks, locks and
  failures of the database are free. A worker that stops forgets the notifications it holds.
\<close>

inductive delivery_step :: "DeliverySystem \<Rightarrow> DeliverySystem \<Rightarrow> bool" where
  arrive: "delivery_step s (s\<lparr>sy_DB := (sy_DB s)\<lparr>dd_Notifications :=
      dd_Notifications (sy_DB s) @ [row]\<rparr>\<rparr>)"
    if "new_notification row" "row_of (sy_DB s) (dn_ID row) = None"
| claim: "delivery_step s (s\<lparr>sy_DB := db', sy_Held := sy_Held s \<union> (\<lambda>item. (item, Leased)) ` set items,
      sy_Trace := sy_Trace s @ map (\<lambda>item. Claimed (cn_ID item)) items\<rparr>)"
    if "ClaimBatch env now limit lease (sy_DB s) = (Inr items, db')"
| recover: "delivery_step s (s\<lparr>sy_DB := db'\<rparr>)"
    if "recoverExpiredLease env now lease (sy_DB s) = (r, db')"
| settle_unsent: "delivery_step s (s\<lparr>sy_DB := db', sy_Held := sy_Held s - {(item, Leased)}\<rparr>)"
    if "(item, Leased) \<in> sy_Held s"
      "settlement = Disabled \<or> settlement = Safe_Failure ''DELIVERY_CONFIG_NOT_READY''"
      "record_settlement env now worker_now item settlement (sy_DB s) = (r, db')"
| dispatch: "delivery_step s (s\<lparr>sy_DB := db',
      sy_Held := insert (item, Dispatched) (sy_Held s - {(item, Leased)})\<rparr>)"
    if "(item, Leased) \<in> sy_Held s"
      "MarkDispatchStarted env now item masked (sy_DB s) = (Inr (), db')"
| send: "delivery_step s (s\<lparr>sy_Held := insert (item, Answered sent) (sy_Held s - {(item, Dispatched)}),
      sy_Trace := sy_Trace s @ [Handed_Over (cn_ClaimToken item) (cn_ID item) sent]\<rparr>)"
    if "(item, Dispatched) \<in> sy_Held s" "sender_answer sent"
| settle_sent: "delivery_step s (s\<lparr>sy_DB := db', sy_Held := sy_Held s - {(item, Answered sent)},
      sy_Trace := sy_Trace s @ answered_failure item sent r\<rparr>)"
    if "(item, Answered sent) \<in> sy_Held s"
      "record_settlement env now worker_now item (settle_after_send sent) (sy_DB s) = (r, db')"
| stop: "delivery_step s (s\<lparr>sy_Held := sy_Held s - held\<rparr>)"
| callback: "delivery_step s (s\<lparr>sy_DB := db',
      sy_Trace := sy_Trace s @ reported_failure callback (sy_DB s) db'\<rparr>)"
    if "callback_ok callback" "ApplyProviderCallback env now callback (sy_DB s) = (r, db')"
| requeue: "delivery_step s (s\<lparr>sy_DB := db',
      sy_Trace := sy_Trace s @ (if db' = sy_DB s then [] else [Requeued n])\<rparr>)"
    if "RequeueForOwner env now salonID ownerUserID n actionKey fingerprint (sy_DB s) = (r, db')"
| redact: "delivery_step s (s\<lparr>sy_DB := update_where (\<lambda>row. dn_ID row = n
      \<and> dn_DeliveryStatus row \<in> {StatusDelivered, StatusUndelivered, StatusDeadLetter, StatusDisabled})
      (redacted_row now) (sy_DB s)\<rparr>)"

section \<open>The invariant\<close>

abbreviation unknown_outcome :: "DeliveryRow \<Rightarrow> bool" where
  "unknown_outcome row \<equiv> dn_DeliveryStatus row = StatusDeadLetter
     \<and> dn_LastErrorCode row = ''DELIVERY_OUTCOME_UNKNOWN''"

abbreviation in_flight :: "string \<Rightarrow> DeliveryRow \<Rightarrow> bool" where
  "in_flight token row \<equiv> dn_DeliveryStatus row = StatusDelivering \<and> dn_ClaimToken row = Some token
     \<and> dn_DispatchStartedAt row \<noteq> None"

text \<open>What the row of a notification says after its latest event.\<close>

definition follows :: "delivery_event option \<Rightarrow> DeliveryRow \<Rightarrow> bool" where
  "follows latest row =
     (case latest of
        Some (Handed_Over token _ sent) \<Rightarrow>
          in_flight token row \<or> unknown_outcome row
          \<or> (if may_have_arrived sent
             then dn_ProviderMessageID row \<noteq> None
               \<and> dn_DeliveryStatus row \<in> {StatusProviderAccepted, StatusSent, StatusDelivered}
             else retryable sent
               \<or> dn_DeliveryStatus row = StatusDeadLetter \<and> dn_ProviderMessageID row = None)
      | Some (Failure_Reported _) \<Rightarrow> provider_state (dn_DeliveryStatus row)
      | _ \<Rightarrow> True)"

definition claims :: "string \<Rightarrow> delivery_event list \<Rightarrow> int" where
  "claims n trace = int (length (filter (\<lambda>event. event = Claimed n) trace))"

definition requeues :: "string \<Rightarrow> delivery_event list \<Rightarrow> int" where
  "requeues n trace = int (length (filter (\<lambda>event. event = Requeued n) trace))"

definition row_good :: "(string \<times> string) list \<Rightarrow> delivery_event list \<Rightarrow> DeliveryRow \<Rightarrow> bool" where
  "row_good keys trace row \<longleftrightarrow>
     (dn_DeliveryStatus row = StatusDelivering \<longleftrightarrow> dn_ClaimToken row \<noteq> None)
     \<and> (\<forall>token. dn_ClaimToken row = Some token \<longrightarrow> (token, dn_ID row) \<in> set keys)
     \<and> (dn_DispatchStartedAt row \<noteq> None \<longrightarrow> dn_ClaimToken row \<noteq> None)
     \<and> (dn_DeliveryStatus row \<in> {StatusQueued, StatusFailed, StatusDelivering, StatusDisabled}
        \<or> unknown_outcome row \<longrightarrow> dn_ProviderMessageID row = None)
     \<and> dn_DeliveryAttempts row = claims (dn_ID row) trace
     \<and> dn_RequeueCount row = requeues (dn_ID row) trace
     \<and> dn_DeliveryAttempts row \<le> MaxSafeDeliveryAttempts * (dn_RequeueCount row + 1)
     \<and> follows (last_event (dn_ID row) trace) row"

definition held_good :: "DeliveryDB \<Rightarrow> delivery_event list \<Rightarrow> ClaimedNotification \<Rightarrow> phase \<Rightarrow> bool" where
  "held_good db trace item phase \<longleftrightarrow>
     (cn_ClaimToken item, cn_ID item) \<in> set (attempt_keys db)
     \<and> (case phase of
          Leased \<Rightarrow> (\<forall>n sent. Handed_Over (cn_ClaimToken item) n sent \<notin> set trace)
            \<and> (\<forall>row. row_of db (cn_ID item) = Some row
                 \<and> dn_ClaimToken row = Some (cn_ClaimToken item) \<longrightarrow> dn_DispatchStartedAt row = None)
        | Dispatched \<Rightarrow> (\<forall>n sent. Handed_Over (cn_ClaimToken item) n sent \<notin> set trace)
            \<and> may_send (last_event (cn_ID item) trace)
            \<and> (\<exists>row. row_of db (cn_ID item) = Some row
                 \<and> (in_flight (cn_ClaimToken item) row \<or> unknown_outcome row))
        | Answered sent \<Rightarrow> Handed_Over (cn_ClaimToken item) (cn_ID item) sent \<in> set trace)"

definition handed_tokens :: "delivery_event list \<Rightarrow> string list" where
  "handed_tokens trace = List.map_filter
     (\<lambda>event. case event of Handed_Over token n sent \<Rightarrow> Some token | _ \<Rightarrow> None) trace"

fun names :: "string \<Rightarrow> delivery_event \<Rightarrow> bool" where
  "names n (Claimed m) \<longleftrightarrow> m = n"
| "names n event \<longleftrightarrow> about n event"

definition delivery_ok :: "DeliverySystem \<Rightarrow> bool" where
  "delivery_ok s \<longleftrightarrow>
     ids_unique (sy_DB s)
     \<and> distinct (map fst (attempt_keys (sy_DB s)))
     \<and> (\<forall>n. n \<in> snd ` set (attempt_keys (sy_DB s)) \<longrightarrow> row_of (sy_DB s) n \<noteq> None)
     \<and> (\<forall>n. row_of (sy_DB s) n = None \<longrightarrow> list_all (\<lambda>event. \<not> names n event) (sy_Trace s))
     \<and> (\<forall>n row. row_of (sy_DB s) n = Some row \<longrightarrow> row_good (attempt_keys (sy_DB s)) (sy_Trace s) row)
     \<and> (\<forall>n. int (length (filter (\<lambda>key. snd key = n) (attempt_keys (sy_DB s)))) = claims n (sy_Trace s))
     \<and> (\<forall>token n sent. Handed_Over token n sent \<in> set (sy_Trace s)
          \<longrightarrow> (token, n) \<in> set (attempt_keys (sy_DB s)) \<and> sender_answer sent)
     \<and> distinct (handed_tokens (sy_Trace s))
     \<and> in_order (sy_Trace s)
     \<and> (\<forall>item phase. (item, phase) \<in> sy_Held s \<longrightarrow> held_good (sy_DB s) (sy_Trace s) item phase)
     \<and> (\<forall>i p j q. (i, p) \<in> sy_Held s \<and> (j, q) \<in> sy_Held s
          \<and> (cn_ClaimToken i = cn_ClaimToken j \<or> p = Dispatched \<and> q = Dispatched \<and> cn_ID i = cn_ID j)
          \<longrightarrow> i = j \<and> p = q)"

lemma delivery_okD:
  assumes "delivery_ok s"
  shows "ids_unique (sy_DB s)"
    and "distinct (map fst (attempt_keys (sy_DB s)))"
    and "n \<in> snd ` set (attempt_keys (sy_DB s)) \<Longrightarrow> row_of (sy_DB s) n \<noteq> None"
    and "row_of (sy_DB s) n = None \<Longrightarrow> list_all (\<lambda>event. \<not> names n event) (sy_Trace s)"
    and "row_of (sy_DB s) n = Some row \<Longrightarrow> row_good (attempt_keys (sy_DB s)) (sy_Trace s) row"
    and "int (length (filter (\<lambda>key. snd key = n) (attempt_keys (sy_DB s)))) = claims n (sy_Trace s)"
    and "Handed_Over token n sent \<in> set (sy_Trace s)
      \<Longrightarrow> (token, n) \<in> set (attempt_keys (sy_DB s)) \<and> sender_answer sent"
    and "distinct (handed_tokens (sy_Trace s))"
    and "in_order (sy_Trace s)"
    and "(item, phase) \<in> sy_Held s \<Longrightarrow> held_good (sy_DB s) (sy_Trace s) item phase"
    and "(i, p) \<in> sy_Held s \<Longrightarrow> (j, q) \<in> sy_Held s \<Longrightarrow> cn_ClaimToken i = cn_ClaimToken j \<Longrightarrow> i = j \<and> p = q"
    and "(i, Dispatched) \<in> sy_Held s \<Longrightarrow> (j, Dispatched) \<in> sy_Held s \<Longrightarrow> cn_ID i = cn_ID j \<Longrightarrow> i = j"
  using assms unfolding delivery_ok_def by simp_all (blast+)

lemma delivery_okI:
  assumes "ids_unique (sy_DB s)"
    and "distinct (map fst (attempt_keys (sy_DB s)))"
    and "\<And>n. n \<in> snd ` set (attempt_keys (sy_DB s)) \<Longrightarrow> row_of (sy_DB s) n \<noteq> None"
    and "\<And>n. row_of (sy_DB s) n = None \<Longrightarrow> list_all (\<lambda>event. \<not> names n event) (sy_Trace s)"
    and "\<And>n row. row_of (sy_DB s) n = Some row \<Longrightarrow> row_good (attempt_keys (sy_DB s)) (sy_Trace s) row"
    and "\<And>n. int (length (filter (\<lambda>key. snd key = n) (attempt_keys (sy_DB s)))) = claims n (sy_Trace s)"
    and "\<And>token n sent. Handed_Over token n sent \<in> set (sy_Trace s)
      \<Longrightarrow> (token, n) \<in> set (attempt_keys (sy_DB s)) \<and> sender_answer sent"
    and "distinct (handed_tokens (sy_Trace s))"
    and "in_order (sy_Trace s)"
    and "\<And>item phase. (item, phase) \<in> sy_Held s \<Longrightarrow> held_good (sy_DB s) (sy_Trace s) item phase"
    and "\<And>i p j q. (i, p) \<in> sy_Held s \<Longrightarrow> (j, q) \<in> sy_Held s \<Longrightarrow> cn_ClaimToken i = cn_ClaimToken j
      \<Longrightarrow> i = j \<and> p = q"
    and "\<And>i j. (i, Dispatched) \<in> sy_Held s \<Longrightarrow> (j, Dispatched) \<in> sy_Held s \<Longrightarrow> cn_ID i = cn_ID j
      \<Longrightarrow> i = j"
  shows "delivery_ok s"
  unfolding delivery_ok_def
proof (intro conjI)
  show "\<forall>i p j q. (i, p) \<in> sy_Held s \<and> (j, q) \<in> sy_Held s
      \<and> (cn_ClaimToken i = cn_ClaimToken j \<or> p = Dispatched \<and> q = Dispatched \<and> cn_ID i = cn_ID j)
      \<longrightarrow> i = j \<and> p = q"
    using assms(11,12) by blast
qed (use assms(1-10) in blast)+

section \<open>Preservation\<close>

lemma handed_tokens_append [simp]:
  "handed_tokens (trace @ trace') = handed_tokens trace @ handed_tokens trace'"
  by (simp add: handed_tokens_def List.map_filter_def)

lemma handed_tokens_none: "\<forall>event \<in> set trace. \<forall>token n sent. event \<noteq> Handed_Over token n sent
    \<Longrightarrow> handed_tokens trace = []"
  by (induction trace) (auto simp: handed_tokens_def List.map_filter_def split: delivery_event.splits)

lemma in_order_append: "in_order (trace @ events) \<longleftrightarrow> in_order trace \<and> in_order_after trace events"
  by (induction events rule: rev_induct) (simp_all add: in_order_after_snoc append_assoc [symmetric] del: append_assoc)

lemma other_events:
  assumes "list_all (\<lambda>event. \<not> names m event) events"
  shows "last_event m (trace @ events) = last_event m trace"
    "claims m (trace @ events) = claims m trace" "requeues m (trace @ events) = requeues m trace"
proof -
  have "about m event \<Longrightarrow> names m event" for event by (cases event) auto
  then have "filter (about m) events = []" using assms by (auto simp: filter_empty_conv list_all_iff)
  then show "last_event m (trace @ events) = last_event m trace" by (simp add: last_event_def)
  have "filter (\<lambda>event. event = Claimed m) events = []" "filter (\<lambda>event. event = Requeued m) events = []"
    using assms by (force simp: filter_empty_conv list_all_iff)+
  then show "claims m (trace @ events) = claims m trace" "requeues m (trace @ events) = requeues m trace"
    by (simp_all add: claims_def requeues_def)
qed

lemma row_good_other:
  assumes "row_good keys trace row" "list_all (\<lambda>event. \<not> names (dn_ID row) event) events"
  shows "row_good keys (trace @ events) row"
  using assms unfolding row_good_def other_events [OF assms(2)] by blast

lemma row_step:
  assumes ok: "delivery_ok s" and row: "row_of (sy_DB s) n = Some row"
    and changed: "row_changed (sy_DB s) n row' db'" and "dn_ID row' = n"
    and held: "held \<subseteq> sy_Held s"
    and events: "\<And>event. event \<in> set es \<Longrightarrow> event = Failure_Reported n \<or> event = Requeued n"
    and order: "in_order_after (sy_Trace s) es"
    and good: "row_good (attempt_keys (sy_DB s)) (sy_Trace s @ es) row'"
    and leased: "\<And>item. (item, Leased) \<in> held \<Longrightarrow> cn_ID item = n
      \<Longrightarrow> dn_ClaimToken row' = Some (cn_ClaimToken item) \<Longrightarrow> dn_DispatchStartedAt row' = None"
    and dispatched: "\<And>item. (item, Dispatched) \<in> held \<Longrightarrow> cn_ID item = n
      \<Longrightarrow> es = [] \<and> (in_flight (cn_ClaimToken item) row' \<or> unknown_outcome row')"
  shows "delivery_ok (s\<lparr>sy_DB := db', sy_Held := held, sy_Trace := sy_Trace s @ es\<rparr>)"
proof -
  note okD = delivery_okD [OF ok]
  have rows: "row_of db' = (row_of (sy_DB s))(n \<mapsto> row')" and keys: "attempt_keys db' = attempt_keys (sy_DB s)"
    and ids: "ids_unique db'"
    using changed okD(1) by (simp_all add: row_changed_def ids_unique_def)
  have unnamed: "list_all (\<lambda>event. \<not> names m event) es" if "m \<noteq> n" for m
    using events that by (force simp: list_all_iff)
  have claims: "claims m (sy_Trace s @ es) = claims m (sy_Trace s)" for m
  proof -
    have "filter (\<lambda>event. event = Claimed m) es = []" using events by (auto simp: filter_empty_conv)
    then show ?thesis by (simp add: claims_def)
  qed
  have handed: "Handed_Over token m sent \<in> set (sy_Trace s @ es)
      \<longleftrightarrow> Handed_Over token m sent \<in> set (sy_Trace s)" for token m sent
    using events by auto
  have tokens: "handed_tokens es = []" using events by (intro handed_tokens_none) blast
  have phases: "held_good db' (sy_Trace s @ es) item phase" if "(item, phase) \<in> held" for item phase
  proof -
    have before: "held_good (sy_DB s) (sy_Trace s) item phase" using that held okD(10) by blast
    show ?thesis
    proof (cases "cn_ID item = n")
      case True
      show ?thesis
      proof (cases phase)
        case Leased
        with before leased [of item] that True show ?thesis
          unfolding held_good_def handed by (auto simp: keys rows)
      next
        case Dispatched
        with before dispatched [of item] that True show ?thesis
          unfolding held_good_def handed by (auto simp: keys rows)
      qed (use before in \<open>simp add: held_good_def keys\<close>)
    next
      case False
      with before show ?thesis
        unfolding held_good_def handed other_events(1) [OF unnamed [OF False]]
        by (auto simp: keys rows split: phase.splits)
    qed
  qed
  define s' where "s' = s\<lparr>sy_DB := db', sy_Held := held, sy_Trace := sy_Trace s @ es\<rparr>"
  have parts: "sy_DB s' = db'" "sy_Held s' = held" "sy_Trace s' = sy_Trace s @ es"
    by (simp_all add: s'_def)
  show ?thesis
    unfolding s'_def [symmetric]
  proof (rule delivery_okI, unfold parts keys handed)
    fix m other assume other: "row_of db' m = Some other"
    show "row_good (attempt_keys (sy_DB s)) (sy_Trace s @ es) other"
    proof (cases "m = n")
      case False
      then have "row_of (sy_DB s) m = Some other" "dn_ID other = m"
        using other row_of_SomeD [of db' m other] by (simp_all add: rows)
      with False show ?thesis by (intro row_good_other okD(5) unnamed) auto
    qed (use other good in \<open>simp add: rows\<close>)
  next
    fix m assume "row_of db' m = None"
    then show "list_all (\<lambda>event. \<not> names m event) (sy_Trace s @ es)"
      using okD(4) [of m] unnamed [of m] by (auto simp: rows split: if_splits)
  next
    fix m assume "m \<in> snd ` set (attempt_keys (sy_DB s))"
    then show "row_of db' m \<noteq> None" using okD(3) [of m] by (simp add: rows)
  next
    show "in_order (sy_Trace s @ es)" using order okD(9) by (simp add: in_order_append)
  next
    show "distinct (handed_tokens (sy_Trace s @ es))" using okD(8) by (simp add: tokens)
  next
    show "int (length (filter (\<lambda>key. snd key = m) (attempt_keys (sy_DB s)))) = claims m (sy_Trace s @ es)" for m
      unfolding claims by (rule okD(6))
  next
    show "(token, m) \<in> set (attempt_keys (sy_DB s)) \<and> sender_answer sent"
      if "Handed_Over token m sent \<in> set (sy_Trace s)" for token m sent
      using that by (rule okD(7))
  next
    show "i = j \<and> p = q" if "(i, p) \<in> held" "(j, q) \<in> held" "cn_ClaimToken i = cn_ClaimToken j" for i p j q
      by (rule okD(11)) (use that held in auto)
  next
    show "i = j" if "(i, Dispatched) \<in> held" "(j, Dispatched) \<in> held" "cn_ID i = cn_ID j" for i j
      by (rule okD(12)) (use that held in auto)
  qed (use ids okD(2) phases in simp_all)
qed

end
