(* ===== verification/Delivery_Invariant.thy ===== *)
theory Delivery_Invariant
  imports Delivery_Safety
begin

text \<open>
  Every step of delivery keeps \<open>delivery_ok\<close>: the rows of the database, the notifications the
  workers hold and the trace of what was handed over stay tied together, whatever interleaves.
\<close>

section \<open>The latest event and the row\<close>

lemma status_other [simp]:
  "StatusDelivering \<noteq> StatusDeadLetter" "StatusDeadLetter \<noteq> StatusDelivering"
  "StatusDelivering \<noteq> StatusQueued" "StatusQueued \<noteq> StatusDelivering"
  "StatusDelivering \<noteq> StatusFailed" "StatusFailed \<noteq> StatusDelivering"
  "StatusDelivering \<noteq> StatusDisabled" "StatusDisabled \<noteq> StatusDelivering"
  "StatusDeadLetter \<noteq> StatusQueued" "StatusQueued \<noteq> StatusDeadLetter"
  "StatusDeadLetter \<noteq> StatusFailed" "StatusFailed \<noteq> StatusDeadLetter"
  "StatusDeadLetter \<noteq> StatusDisabled" "StatusDisabled \<noteq> StatusDeadLetter"
  by (simp_all add: delivery_status_defs)

lemma provider_state_other:
  assumes "provider_state status"
  shows "status \<noteq> StatusDelivering" "status \<noteq> StatusQueued" "status \<noteq> StatusFailed"
    "status \<noteq> StatusDisabled"
  using assms by (auto simp: provider_state_def delivery_status_defs)

lemma retryable_not_arrived: "retryable sent \<Longrightarrow> \<not> may_have_arrived sent"
  by (auto simp: retryable_def may_have_arrived_def split: sum.splits send_error.splits)

lemma may_send_follows: "may_send latest \<Longrightarrow> follows latest row"
  by (auto simp: may_send_def follows_def dest: retryable_not_arrived
      split: option.splits delivery_event.splits)

lemma unknown_follows: "unknown_outcome row \<Longrightarrow> follows latest row"
  by (auto simp: follows_def provider_state_def split: option.splits delivery_event.splits)

text \<open>A row that waits for its hand-over says that the message may be handed over.\<close>

lemma waiting_may_send:
  assumes "follows (last_event n trace) row"
    and "dn_DeliveryStatus row = StatusQueued \<or> dn_DeliveryStatus row = StatusFailed
      \<or> dn_DeliveryStatus row = StatusDelivering \<and> dn_DispatchStartedAt row = None"
  shows "may_send (last_event n trace)"
proof (cases "last_event n trace")
  case (Some event)
  have "about n event" using last_event_about [OF Some] by simp
  with assms show ?thesis unfolding Some
    by (cases event)
      (auto simp: may_send_def follows_def provider_state_def delivery_status_defs split: if_splits)
qed (simp add: may_send_def)

lemma handed_tokens_Cons [simp]:
  "handed_tokens (event # trace)
     = (case event of Handed_Over token n sent \<Rightarrow> [token] | _ \<Rightarrow> []) @ handed_tokens trace"
  by (cases event) (simp_all add: handed_tokens_def List.map_filter_def)

lemma handed_tokens_Nil [simp]: "handed_tokens [] = []"
  by (simp add: handed_tokens_def List.map_filter_def)

lemma set_handed_tokens:
  "token \<in> set (handed_tokens trace) \<longleftrightarrow> (\<exists>n sent. Handed_Over token n sent \<in> set trace)"
  by (induction trace) (auto split: delivery_event.splits)

lemma handed_once:
  assumes "distinct (handed_tokens trace)"
    and "Handed_Over token n sent \<in> set trace" "Handed_Over token n' sent' \<in> set trace"
  shows "n = n' \<and> sent = sent'"
  using assms
proof (induction trace)
  case (Cons event trace)
  show ?case
  proof (cases event)
    case (Handed_Over t m s)
    with Cons show ?thesis by (auto simp: set_handed_tokens)
  qed (use Cons in auto)
qed simp

text \<open>A row in flight was handed over with its token, or may be handed over.\<close>

lemma in_flight_latest:
  assumes "follows (last_event n trace) row" "dn_DeliveryStatus row = StatusDelivering"
    and "dn_ClaimToken row = Some token"
    and "Handed_Over token n sent \<in> set trace" "distinct (handed_tokens trace)"
  shows "may_send (last_event n trace) \<or> last_event n trace = Some (Handed_Over token n sent)"
proof (cases "last_event n trace")
  case (Some event)
  have event: "about n event" "event \<in> set trace" using last_event_about [OF Some] by simp_all
  show ?thesis
  proof (cases event)
    case (Handed_Over token' n' sent')
    show ?thesis
    proof (cases "token' = token")
      case True
      have "n = n' \<and> sent = sent'"
        using assms(5,4) event(2) [unfolded Handed_Over True] by (rule handed_once)
      then show ?thesis using Some Handed_Over True by simp
    next
      case False
      then show ?thesis using assms(1-3) event(1) unfolding Some Handed_Over
        by (auto simp: may_send_def follows_def delivery_status_defs split: if_splits)
    qed
  qed (use assms(1-3) Some event in \<open>auto simp: may_send_def follows_def dest: provider_state_other\<close>)
qed (simp add: may_send_def)

section \<open>Steps that change no row\<close>

lemma same_rows:
  assumes ok: "delivery_ok s" and "row_of db' = row_of (sy_DB s)"
    and "map dn_ID (dd_Notifications db') = map dn_ID (dd_Notifications (sy_DB s))"
    and "attempt_keys db' = attempt_keys (sy_DB s)" and "held \<subseteq> sy_Held s"
  shows "delivery_ok (s\<lparr>sy_DB := db', sy_Held := held\<rparr>)"
proof -
  note okD = delivery_okD [OF ok]
  have phases: "held_good db' (sy_Trace s) item phase" if "(item, phase) \<in> held" for item phase
    using okD(10) [of item phase] that assms(2,4,5) by (auto simp: held_good_def split: phase.splits)
  define s' where "s' = s\<lparr>sy_DB := db', sy_Held := held\<rparr>"
  have parts: "sy_DB s' = db'" "sy_Held s' = held" "sy_Trace s' = sy_Trace s"
    by (simp_all add: s'_def)
  show ?thesis
    unfolding s'_def [symmetric]
  proof (rule delivery_okI, unfold parts assms(2) assms(4))
    show "ids_unique db'" using okD(1) assms(3) by (simp add: ids_unique_def)
  next
    show "i = j \<and> p = q" if "(i, p) \<in> held" "(j, q) \<in> held" "cn_ClaimToken i = cn_ClaimToken j" for i p j q
      by (rule okD(11)) (use that assms(5) in auto)
  next
    show "i = j" if "(i, Dispatched) \<in> held" "(j, Dispatched) \<in> held" "cn_ID i = cn_ID j" for i j
      by (rule okD(12)) (use that assms(5) in auto)
  qed (fact okD(2) okD(3) okD(4) okD(5) okD(6) okD(7) okD(8) okD(9) phases)+
qed

lemma drop_held:
  assumes "delivery_ok s" "held \<subseteq> sy_Held s"
  shows "delivery_ok (s\<lparr>sy_Held := held\<rparr>)"
  using same_rows [OF assms(1), of "sy_DB s" held] assms(2) by simp

lemma same_held:
  assumes "delivery_ok (s\<lparr>sy_DB := db', sy_Held := sy_Held s, sy_Trace := trace\<rparr>)"
  shows "delivery_ok (s\<lparr>sy_DB := db', sy_Trace := trace\<rparr>)"
  using assms by simp

lemma held_insert:
  assumes ok: "delivery_ok s" and good: "held_good (sy_DB s) (sy_Trace s) item phase"
    and fresh: "\<And>j q. (j, q) \<in> sy_Held s \<Longrightarrow> cn_ClaimToken j \<noteq> cn_ClaimToken item"
    and alone: "\<And>j. phase = Dispatched \<Longrightarrow> (j, Dispatched) \<in> sy_Held s \<Longrightarrow> cn_ID j \<noteq> cn_ID item"
  shows "delivery_ok (s\<lparr>sy_Held := insert (item, phase) (sy_Held s)\<rparr>)"
proof -
  note okD = delivery_okD [OF ok]
  define s' where "s' = s\<lparr>sy_Held := insert (item, phase) (sy_Held s)\<rparr>"
  have parts: "sy_DB s' = sy_DB s" "sy_Held s' = insert (item, phase) (sy_Held s)"
    "sy_Trace s' = sy_Trace s"
    by (simp_all add: s'_def)
  show ?thesis
    unfolding s'_def [symmetric]
  proof (rule delivery_okI, unfold parts)
    show "held_good (sy_DB s) (sy_Trace s) j q" if "(j, q) \<in> insert (item, phase) (sy_Held s)" for j q
      using that good okD(10) by auto
  next
    fix i p j q
    assume members: "(i, p) \<in> insert (item, phase) (sy_Held s)" "(j, q) \<in> insert (item, phase) (sy_Held s)"
      and tokens: "cn_ClaimToken i = cn_ClaimToken j"
    have both: "i = j \<and> p = q" if "(i, p) \<in> sy_Held s" "(j, q) \<in> sy_Held s"
      by (rule okD(11)) (use that tokens in auto)
    with members tokens show "i = j \<and> p = q" using fresh by (metis insertE prod.inject)
  next
    fix i j
    assume members: "(i, Dispatched) \<in> insert (item, phase) (sy_Held s)"
        "(j, Dispatched) \<in> insert (item, phase) (sy_Held s)"
      and IDs: "cn_ID i = cn_ID j"
    have both: "i = j" if "(i, Dispatched) \<in> sy_Held s" "(j, Dispatched) \<in> sy_Held s"
      by (rule okD(12)) (use that IDs in auto)
    with members IDs show "i = j" using alone by (metis insertE prod.inject)
  qed (fact okD(1) okD(2) okD(3) okD(4) okD(5) okD(6) okD(7) okD(8) okD(9))+
qed

section \<open>Steps that change one row\<close>

lemma silent_row_step:
  assumes "delivery_ok s" "row_of (sy_DB s) n = Some row"
    and "row_changed (sy_DB s) n row' db'" "dn_ID row' = n" "held \<subseteq> sy_Held s"
    and "row_good (attempt_keys (sy_DB s)) (sy_Trace s) row'"
    and "\<And>item. (item, Leased) \<in> held \<Longrightarrow> cn_ID item = n
      \<Longrightarrow> dn_ClaimToken row' = Some (cn_ClaimToken item) \<Longrightarrow> dn_DispatchStartedAt row' = None"
    and "\<And>item. (item, Dispatched) \<in> held \<Longrightarrow> cn_ID item = n
      \<Longrightarrow> in_flight (cn_ClaimToken item) row' \<or> unknown_outcome row'"
  shows "delivery_ok (s\<lparr>sy_DB := db', sy_Held := held\<rparr>)"
  using row_step [OF assms(1-5), of "[]"] assms(6-8) by simp

lemma row_goodD:
  assumes "row_good keys trace row"
  shows "dn_DeliveryStatus row = StatusDelivering \<longleftrightarrow> dn_ClaimToken row \<noteq> None"
    and "dn_ClaimToken row = Some token \<Longrightarrow> (token, dn_ID row) \<in> set keys"
    and "dn_DispatchStartedAt row \<noteq> None \<Longrightarrow> dn_ClaimToken row \<noteq> None"
    and "dn_DeliveryStatus row \<in> {StatusQueued, StatusFailed, StatusDelivering, StatusDisabled}
      \<Longrightarrow> dn_ProviderMessageID row = None"
    and "unknown_outcome row \<Longrightarrow> dn_ProviderMessageID row = None"
    and "dn_DeliveryAttempts row = claims (dn_ID row) trace"
    and "dn_RequeueCount row = requeues (dn_ID row) trace"
    and "dn_DeliveryAttempts row \<le> MaxSafeDeliveryAttempts * (dn_RequeueCount row + 1)"
    and "follows (last_event (dn_ID row) trace) row"
  using assms unfolding row_good_def by blast+

lemma row_good_event:
  assumes "row_good keys trace row" "follows (last_event (dn_ID row) (trace @ es)) row"
    and "claims (dn_ID row) (trace @ es) = claims (dn_ID row) trace"
    and "requeues (dn_ID row) (trace @ es) = requeues (dn_ID row) trace"
  shows "row_good keys (trace @ es) row"
  using assms unfolding row_good_def by metis

text \<open>The row of a claim that has ended: no token, and the counters as they were.\<close>

lemma row_good_released:
  assumes "row_good keys trace row" "dn_ID row' = dn_ID row" "dn_ClaimToken row' = None"
    and "dn_DispatchStartedAt row' = None"
    and "dn_DeliveryAttempts row' = dn_DeliveryAttempts row" "dn_RequeueCount row' = dn_RequeueCount row"
    and "dn_DeliveryStatus row' \<noteq> StatusDelivering"
    and "dn_DeliveryStatus row' \<in> {StatusQueued, StatusFailed, StatusDisabled} \<or> unknown_outcome row'
      \<Longrightarrow> dn_ProviderMessageID row' = None"
    and "follows (last_event (dn_ID row) (trace @ es)) row'"
    and "claims (dn_ID row) (trace @ es) = claims (dn_ID row) trace"
    and "requeues (dn_ID row) (trace @ es) = requeues (dn_ID row) trace"
  shows "row_good keys (trace @ es) row'"
  using assms(3-11) row_goodD(6,7,8) [OF assms(1)] unfolding row_good_def assms(2) by auto

lemma holds_claimD:
  assumes "holds_claim n salon token row"
  shows "dn_ID row = n" "dn_SalonID row = salon" "dn_DeliveryStatus row = StatusDelivering"
    "dn_ClaimToken row = Some token"
  using assms by (simp_all add: holds_claim_def)

lemma recover_keeps_ok:
  assumes ok: "delivery_ok s" and run: "recoverExpiredLease env now lease (sy_DB s) = (r, db')"
  shows "delivery_ok (s\<lparr>sy_DB := db'\<rparr>)"
  using run delivery_okD(1) [OF ok]
proof (cases rule: recover_cases)
  case 1
  with ok show ?thesis by simp
next
  case (2 row)
  let ?row' = "if dn_DispatchStartedAt row = None then expired_before_dispatch now row
    else expired_after_dispatch now row"
  note claim = holds_claimD [OF 2(2)]
  have good: "row_good (attempt_keys (sy_DB s)) (sy_Trace s) row" by (rule delivery_okD(5) [OF ok 2(1)])
  note row = row_goodD [OF good, unfolded claim(1)]
  have follows: "follows (last_event (el_id lease) (sy_Trace s)) ?row'"
  proof (cases "dn_DispatchStartedAt row = None")
    case True
    then show ?thesis using waiting_may_send [OF row(9)] claim(3) by (intro may_send_follows) simp
  qed (auto simp: unknown_follows expired_after_dispatch_def)
  have "delivery_ok (s\<lparr>sy_DB := db', sy_Held := sy_Held s\<rparr>)"
  proof (rule silent_row_step [OF ok 2(1) 2(4) _ order_refl])
    show "row_good (attempt_keys (sy_DB s)) (sy_Trace s) ?row'"
      using row_good_released [OF good, of ?row' "[]"] follows claim row(4)
      by (simp add: expired_before_dispatch_def expired_after_dispatch_def)
  next
    fix item assume item: "(item, Dispatched) \<in> sy_Held s" "cn_ID item = el_id lease"
    have "in_flight (cn_ClaimToken item) row"
      using delivery_okD(10) [OF ok item(1)] item(2) 2(1) claim(3) by (simp add: held_good_def)
    then show "in_flight (cn_ClaimToken item) ?row' \<or> unknown_outcome ?row'"
      by (auto simp: expired_after_dispatch_def)
  qed (simp_all add: claim expired_before_dispatch_def expired_after_dispatch_def)
  then show ?thesis by simp
qed

text \<open>The holder of a claim is the only one that may hand its notification over.\<close>

lemma no_other_dispatched:
  assumes "delivery_ok s" "(item, phase) \<in> sy_Held s" "row_of (sy_DB s) (cn_ID item) = Some row"
    and claim: "holds_claim (cn_ID item) (cn_SalonID item) (cn_ClaimToken item) row"
    and other: "(other, Dispatched) \<in> sy_Held s - {(item, phase)}"
  shows "cn_ID other \<noteq> cn_ID item"
proof
  assume "cn_ID other = cn_ID item"
  with delivery_okD(10) [OF assms(1), of other Dispatched] other assms(3) holds_claimD [OF claim]
  have "cn_ClaimToken other = cn_ClaimToken item" by (auto simp: held_good_def)
  with delivery_okD(11) [OF assms(1), of other Dispatched item phase] other assms(2) show False by auto
qed

lemma complete_keeps_ok:
  assumes ok: "delivery_ok s" and item: "(item, phase) \<in> sy_Held s"
    and run: "completeWithoutProvider env now item status outcome code next_at (sy_DB s) = (r, db')"
    and status: "status \<noteq> StatusDelivering"
    and follows: "\<And>row. row_of (sy_DB s) (cn_ID item) = Some row
      \<Longrightarrow> holds_claim (cn_ID item) (cn_SalonID item) (cn_ClaimToken item) row
      \<Longrightarrow> row_good (attempt_keys (sy_DB s)) (sy_Trace s) row
      \<Longrightarrow> follows (last_event (cn_ID item) (sy_Trace s)) (completed_row now status code next_at row)"
  shows "delivery_ok (s\<lparr>sy_DB := db', sy_Held := sy_Held s - {(item, phase)}\<rparr>)"
  using run delivery_okD(1) [OF ok]
proof (cases rule: complete_cases)
  case (1 err)
  with drop_held [OF ok, of "sy_Held s - {(item, phase)}"] show ?thesis by auto
next
  case (2 row)
  note claim = holds_claimD [OF 2(3)]
  have good: "row_good (attempt_keys (sy_DB s)) (sy_Trace s) row" by (rule delivery_okD(5) [OF ok 2(2)])
  note row = row_goodD [OF good, unfolded claim(1)]
  show ?thesis
  proof (rule silent_row_step [OF ok 2(2) 2(4)])
    show "row_good (attempt_keys (sy_DB s)) (sy_Trace s) (completed_row now status code next_at row)"
      using row_good_released [OF good, of "completed_row now status code next_at row" "[]"]
        follows [OF 2(2,3) good] claim row(4) status
      by (simp add: completed_row_def)
  next
    fix other assume "(other, Dispatched) \<in> sy_Held s - {(item, phase)}" "cn_ID other = cn_ID item"
    with no_other_dispatched [OF ok item 2(2,3)]
    show "in_flight (cn_ClaimToken other) (completed_row now status code next_at row)
        \<or> unknown_outcome (completed_row now status code next_at row)" by blast
  qed (auto simp: claim completed_row_def)
qed

text \<open>A claim whose message was not handed over still waits.\<close>

lemma leased_may_send:
  assumes ok: "delivery_ok s" and item: "(item, Leased) \<in> sy_Held s"
    and row: "row_of (sy_DB s) (cn_ID item) = Some row"
    and claim: "holds_claim (cn_ID item) (cn_SalonID item) (cn_ClaimToken item) row"
  shows "dn_DispatchStartedAt row = None" "may_send (last_event (cn_ID item) (sy_Trace s))"
proof -
  show waiting: "dn_DispatchStartedAt row = None"
    using delivery_okD(10) [OF ok item] row holds_claimD [OF claim] by (simp add: held_good_def)
  show "may_send (last_event (cn_ID item) (sy_Trace s))"
    using row_goodD(9) [OF delivery_okD(5) [OF ok row]] holds_claimD [OF claim] waiting
    by (intro waiting_may_send [where row = row]) auto
qed

lemma safe_failure:
  "RecordSafeFailure env now item code next_at =
     completeWithoutProvider env now item
       (if DeliveryAttemptInCycle item \<ge> MaxSafeDeliveryAttempts then StatusDeadLetter else StatusFailed)
       (if DeliveryAttemptInCycle item \<ge> MaxSafeDeliveryAttempts then ''dead_letter'' else ''safe_retry'')
       code (if next_at = 0 then None else Some next_at)"
  by (simp add: RecordSafeFailure_def fun_eq_iff)

lemma settle_unsent_keeps_ok:
  assumes ok: "delivery_ok s" and item: "(item, Leased) \<in> sy_Held s"
    and settlement: "settlement = Disabled \<or> settlement = Safe_Failure code"
    and run: "record_settlement env now worker_now item settlement (sy_DB s) = (r, db')"
  shows "delivery_ok (s\<lparr>sy_DB := db', sy_Held := sy_Held s - {(item, Leased)}\<rparr>)"
  using settlement
proof
  assume "settlement = Disabled"
  with run have "completeWithoutProvider env now item StatusDisabled ''disabled'' ''OWNER_SMS_DISABLED'' None
      (sy_DB s) = (r, db')" by (simp add: record_settlement_def RecordDisabled_def)
  then show ?thesis
    by (rule complete_keeps_ok [OF ok item]) (use leased_may_send(2) [OF ok item] may_send_follows in auto)
next
  assume "settlement = Safe_Failure code"
  with run have "RecordSafeFailure env now item code (worker_now + SafeRetryDelay (DeliveryAttemptInCycle item))
      (sy_DB s) = (r, db')" by (simp add: record_settlement_def)
  note run = this [unfolded safe_failure]
  from run show ?thesis
    by (rule complete_keeps_ok [OF ok item]) (use leased_may_send(2) [OF ok item] may_send_follows in auto)
qed

lemma dispatch_keeps_ok:
  assumes ok: "delivery_ok s" and item: "(item, Leased) \<in> sy_Held s"
    and run: "MarkDispatchStarted env now item masked (sy_DB s) = (Inr (), db')"
  shows "delivery_ok (s\<lparr>sy_DB := db',
    sy_Held := insert (item, Dispatched) (sy_Held s - {(item, Leased)})\<rparr>)"
  using run delivery_okD(1) [OF ok]
proof (cases rule: mark_cases)
  case (2 row)
  let ?row' = "dispatched_row now masked row" and ?held = "sy_Held s - {(item, Leased)}"
  let ?s = "s\<lparr>sy_DB := db', sy_Held := ?held\<rparr>"
  note claim = holds_claimD [OF 2(3)]
  have good: "row_good (attempt_keys (sy_DB s)) (sy_Trace s) row" by (rule delivery_okD(5) [OF ok 2(2)])
  note row = row_goodD [OF good, unfolded claim(1)]
  note may_send = leased_may_send(2) [OF ok item 2(2,3)]
  have "delivery_ok ?s"
  proof (rule silent_row_step [OF ok 2(2) 2(4)])
    show "row_good (attempt_keys (sy_DB s)) (sy_Trace s) ?row'"
      using good may_send_follows [OF may_send, of ?row'] claim
      by (auto simp: row_good_def dispatched_row_def)
  next
    fix other assume other: "(other, Leased) \<in> ?held" "cn_ID other = cn_ID item"
      "dn_ClaimToken ?row' = Some (cn_ClaimToken other)"
    then have "cn_ClaimToken other = cn_ClaimToken item" using claim by (simp add: dispatched_row_def)
    with delivery_okD(11) [OF ok, of other Leased item Leased] other(1) item
    show "dn_DispatchStartedAt ?row' = None" by auto
  next
    fix other assume "(other, Dispatched) \<in> ?held" "cn_ID other = cn_ID item"
    with no_other_dispatched [OF ok item 2(2,3)]
    show "in_flight (cn_ClaimToken other) ?row' \<or> unknown_outcome ?row'" by blast
  qed (auto simp: claim dispatched_row_def)
  moreover have "held_good db' (sy_Trace s) item Dispatched"
    using delivery_okD(10) [OF ok item] may_send 2(4) claim
    by (simp add: held_good_def row_changed_def dispatched_row_def)
  moreover have "cn_ClaimToken other \<noteq> cn_ClaimToken item" if "(other, phase) \<in> ?held" for other phase
    using delivery_okD(11) [OF ok, of other phase item Leased] that item by auto
  ultimately have "delivery_ok (?s\<lparr>sy_Held := insert (item, Dispatched) (sy_Held ?s)\<rparr>)"
    using no_other_dispatched [OF ok item 2(2,3)] by (intro held_insert) auto
  then show ?thesis by simp
qed simp

section \<open>The hand-over\<close>

lemma handed_over_follows:
  assumes "in_flight token row \<or> unknown_outcome row"
  shows "follows (Some (Handed_Over token n sent)) row"
  using assms by (auto simp: follows_def)

lemma send_keeps_ok:
  assumes ok: "delivery_ok s" and item: "(item, Dispatched) \<in> sy_Held s" and answer: "sender_answer sent"
  shows "delivery_ok (s\<lparr>sy_Held := insert (item, Answered sent) (sy_Held s - {(item, Dispatched)}),
    sy_Trace := sy_Trace s @ [Handed_Over (cn_ClaimToken item) (cn_ID item) sent]\<rparr>)"
proof -
  note okD = delivery_okD [OF ok]
  let ?n = "cn_ID item" and ?token = "cn_ClaimToken item"
  let ?event = "Handed_Over ?token ?n sent"
  have before: "held_good (sy_DB s) (sy_Trace s) item Dispatched" by (rule okD(10) [OF item])
  then obtain row where row: "row_of (sy_DB s) ?n = Some row"
    and flight: "in_flight ?token row \<or> unknown_outcome row" and key: "(?token, ?n) \<in> set (attempt_keys (sy_DB s))"
    and fresh: "\<And>n sent. Handed_Over ?token n sent \<notin> set (sy_Trace s)"
    and may_send: "may_send (last_event ?n (sy_Trace s))"
    by (auto simp: held_good_def)
  have counts: "claims n (sy_Trace s @ [?event]) = claims n (sy_Trace s)"
    "requeues n (sy_Trace s @ [?event]) = requeues n (sy_Trace s)" for n
    by (simp_all add: claims_def requeues_def)
  define s' where "s' = s\<lparr>sy_Held := insert (item, Answered sent) (sy_Held s - {(item, Dispatched)}),
    sy_Trace := sy_Trace s @ [?event]\<rparr>"
  have parts: "sy_DB s' = sy_DB s" "sy_Trace s' = sy_Trace s @ [?event]"
    "sy_Held s' = insert (item, Answered sent) (sy_Held s - {(item, Dispatched)})"
    by (simp_all add: s'_def)
  have alone: "cn_ClaimToken other \<noteq> ?token \<and> (phase = Dispatched \<longrightarrow> cn_ID other \<noteq> ?n)"
    if "(other, phase) \<in> sy_Held s - {(item, Dispatched)}" for other phase
    using okD(11) [of other phase item Dispatched] okD(12) [of other item] that item by auto
  show ?thesis
    unfolding s'_def [symmetric]
  proof (rule delivery_okI, unfold parts counts)
    fix n assume none: "row_of (sy_DB s) n = None"
    with row have "n \<noteq> ?n" by auto
    with okD(4) [OF none] show "list_all (\<lambda>event. \<not> names n event) (sy_Trace s @ [?event])" by simp
  next
    fix n other assume other: "row_of (sy_DB s) n = Some other"
    note good = okD(5) [OF other]
    have ID: "dn_ID other = n" using row_of_SomeD [OF other] by simp
    show "row_good (attempt_keys (sy_DB s)) (sy_Trace s @ [?event]) other"
    proof (cases "n = ?n")
      case True
      then have "in_flight ?token other \<or> unknown_outcome other" using flight other row by simp
      then show ?thesis
        by (intro row_good_event [OF good] counts) (simp add: ID True handed_over_follows)
    qed (use good ID in \<open>auto intro: row_good_other\<close>)
  next
    fix token n sent' assume "Handed_Over token n sent' \<in> set (sy_Trace s @ [?event])"
    then show "(token, n) \<in> set (attempt_keys (sy_DB s)) \<and> sender_answer sent'"
      using okD(7) key answer by auto
  next
    show "distinct (handed_tokens (sy_Trace s @ [?event]))"
      using okD(8) fresh by (simp add: set_handed_tokens)
  next
    show "in_order (sy_Trace s @ [?event])"
      using okD(9) may_send by (simp add: in_order_append event_in_order_def)
  next
    fix other phase assume other: "(other, phase) \<in> insert (item, Answered sent) (sy_Held s - {(item, Dispatched)})"
    show "held_good (sy_DB s) (sy_Trace s @ [?event]) other phase"
    proof (cases "(other, phase) = (item, Answered sent)")
      case False
      with other have held: "(other, phase) \<in> sy_Held s - {(item, Dispatched)}" by blast
      with okD(10) [of other phase] alone [OF held] show ?thesis
        by (auto simp: held_good_def split: phase.splits)
    qed (simp add: held_good_def key)
  next
    fix i p j q
    assume "(i, p) \<in> insert (item, Answered sent) (sy_Held s - {(item, Dispatched)})"
      "(j, q) \<in> insert (item, Answered sent) (sy_Held s - {(item, Dispatched)})"
      and tokens: "cn_ClaimToken i = cn_ClaimToken j"
    then show "i = j \<and> p = q" using alone okD(11) [of i p j q] by (metis DiffD1 insertE prod.inject)
  next
    fix i j
    assume "(i, Dispatched) \<in> insert (item, Answered sent) (sy_Held s - {(item, Dispatched)})"
      "(j, Dispatched) \<in> insert (item, Answered sent) (sy_Held s - {(item, Dispatched)})" "cn_ID i = cn_ID j"
    then show "i = j" using okD(12) [of i j] by auto
  qed (fact okD(1) okD(2) okD(3) okD(6))+
qed

section \<open>The answer of the provider\<close>

text \<open>
  The row of a claim whose message was handed over: the latest event is that hand-over, or the
  notification may be handed over anyway.
\<close>

lemma answered_latest:
  assumes ok: "delivery_ok s" and item: "(item, Answered sent) \<in> sy_Held s"
    and row: "row_of (sy_DB s) (cn_ID item) = Some row"
    and claim: "holds_claim (cn_ID item) (cn_SalonID item) (cn_ClaimToken item) row"
  shows "may_send (last_event (cn_ID item) (sy_Trace s))
    \<or> last_event (cn_ID item) (sy_Trace s) = Some (Handed_Over (cn_ClaimToken item) (cn_ID item) sent)"
proof (rule in_flight_latest)
  show "follows (last_event (cn_ID item) (sy_Trace s)) row"
    using row_goodD(9) [OF delivery_okD(5) [OF ok row]] holds_claimD(1) [OF claim] by simp
  show "Handed_Over (cn_ClaimToken item) (cn_ID item) sent \<in> set (sy_Trace s)"
    using delivery_okD(10) [OF ok item] by (simp add: held_good_def)
qed (use holds_claimD [OF claim] delivery_okD(8) [OF ok] in auto)

lemma settle_failure_keeps_ok:
  assumes ok: "delivery_ok s" and item: "(item, Answered sent) \<in> sy_Held s"
    and sent: "sent = Inl failure" and answer: "sender_answer sent"
    and run: "record_settlement env now worker_now item (settle_after_send sent) (sy_DB s) = (r, db')"
  shows "delivery_ok (s\<lparr>sy_DB := db', sy_Held := sy_Held s - {(item, Answered sent)}\<rparr>)"
proof -
  have "settle_after_send sent = Outcome_Unknown ''DELIVERY_OUTCOME_UNKNOWN''
      \<or> (\<exists>code. settle_after_send sent = Safe_Failure code) \<and> retryable sent
      \<or> (\<exists>code. settle_after_send sent = Definitive_Failure code) \<and> \<not> may_have_arrived sent"
    using answer
    by (cases failure)
      (auto simp: sent settle_after_send_def retryable_def may_have_arrived_def sender_answer_def)
  then consider (unknown) "settle_after_send sent = Outcome_Unknown ''DELIVERY_OUTCOME_UNKNOWN''"
    | (safe) code where "settle_after_send sent = Safe_Failure code" "retryable sent"
    | (definitive) code where "settle_after_send sent = Definitive_Failure code" "\<not> may_have_arrived sent"
    by blast
  then show ?thesis
  proof cases
    case unknown
    from run have run: "completeWithoutProvider env now item StatusDeadLetter ''outcome_unknown''
        ''DELIVERY_OUTCOME_UNKNOWN'' None (sy_DB s) = (r, db')"
      by (simp add: unknown record_settlement_def RecordOutcomeUnknown_def)
    show ?thesis
      by (rule complete_keeps_ok [OF ok item run]) (auto intro!: unknown_follows simp: completed_row_def)
  next
    case (safe code)
    from run safe(1) have "RecordSafeFailure env now item code
        (worker_now + SafeRetryDelay (DeliveryAttemptInCycle item)) (sy_DB s) = (r, db')"
      by (simp add: record_settlement_def)
    note run = this [unfolded safe_failure]
    have "may_send (last_event (cn_ID item) (sy_Trace s))"
      if "row_of (sy_DB s) (cn_ID item) = Some row"
        "holds_claim (cn_ID item) (cn_SalonID item) (cn_ClaimToken item) row" for row
      using answered_latest [OF ok item that] safe(2) by (auto simp: may_send_def)
    then show ?thesis
      by (intro complete_keeps_ok [OF ok item run] may_send_follows) auto
  next
    case (definitive code)
    from run have run: "completeWithoutProvider env now item StatusDeadLetter ''dead_letter'' code None
        (sy_DB s) = (r, db')"
      by (simp add: definitive record_settlement_def RecordDefinitiveFailure_def)
    show ?thesis
    proof (rule complete_keeps_ok [OF ok item run])
      fix row assume row: "row_of (sy_DB s) (cn_ID item) = Some row"
        "holds_claim (cn_ID item) (cn_SalonID item) (cn_ClaimToken item) row"
        "row_good (attempt_keys (sy_DB s)) (sy_Trace s) row"
      have "dn_ProviderMessageID row = None"
        using row_goodD(4) [OF row(3)] holds_claimD(3) [OF row(2)] by simp
      then have "follows (Some (Handed_Over (cn_ClaimToken item) (cn_ID item) sent))
          (completed_row now StatusDeadLetter code None row)"
        using definitive(2) by (simp add: follows_def completed_row_def)
      then show "follows (last_event (cn_ID item) (sy_Trace s)) (completed_row now StatusDeadLetter code None row)"
        using answered_latest [OF ok item row(1,2)] may_send_follows by auto
    qed simp
  qed
qed

lemma accepted_row_simps [simp]:
  "dn_DeliveryStatus (accepted_row now result row) = sr_DeliveryStatus result"
  "dn_ClaimToken (accepted_row now result row) = None"
  "dn_DispatchStartedAt (accepted_row now result row) = None"
  "dn_ProviderMessageID (accepted_row now result row) = Some (sr_ProviderMessageID result)"
  "dn_DeliveryAttempts (accepted_row now result row) = dn_DeliveryAttempts row"
  "dn_RequeueCount (accepted_row now result row) = dn_RequeueCount row"
  "dn_LastErrorCode (accepted_row now result row)
     = (if sr_DeliveryStatus result = StatusDeadLetter then ''TWILIO_DELIVERY_FAILED'' else [])"
  by (simp_all add: accepted_row_def Let_def)

lemma settle_accepted_keeps_ok:
  assumes ok: "delivery_ok s" and item: "(item, Answered (Inr result)) \<in> sy_Held s"
    and answer: "provider_state (sr_DeliveryStatus result)"
    and run: "RecordProviderResult env now item result (sy_DB s) = (r, db')"
  shows "delivery_ok (s\<lparr>sy_DB := db', sy_Held := sy_Held s - {(item, Answered (Inr result))},
    sy_Trace := sy_Trace s @ answered_failure item (Inr result) r\<rparr>)"
  using run delivery_okD(1) [OF ok]
proof (cases rule: provider_result_cases)
  case (1 err)
  with drop_held [OF ok, of "sy_Held s - {(item, Answered (Inr result))}"] show ?thesis
    by (simp add: answered_failure_def Diff_subset)
next
  case (2 row)
  let ?n = "cn_ID item"
  let ?es = "answered_failure item (Inr result) r" and ?row' = "accepted_row now result row"
  note claim = holds_claimD [OF 2(3)]
  have es: "?es = (if sr_DeliveryStatus result = StatusDeadLetter then [Failure_Reported ?n] else [])"
    by (simp add: answered_failure_def 2(1))
  have good: "row_good (attempt_keys (sy_DB s)) (sy_Trace s) row" by (rule delivery_okD(5) [OF ok 2(2)])
  have follows: "follows (last_event ?n (sy_Trace s @ ?es)) ?row'"
  proof (cases "sr_DeliveryStatus result = StatusDeadLetter")
    case True
    then show ?thesis unfolding es by (simp add: follows_def provider_state_def)
  next
    case False
    with answer have "sr_DeliveryStatus result \<in> {StatusProviderAccepted, StatusSent, StatusDelivered}"
      by (auto simp: provider_state_def)
    then have "follows (Some (Handed_Over (cn_ClaimToken item) ?n (Inr result))) ?row'"
      by (auto simp: follows_def may_have_arrived_def)
    with answered_latest [OF ok item 2(2,3)] False show ?thesis unfolding es
      using may_send_follows by auto
  qed
  have counts: "claims ?n (sy_Trace s @ ?es) = claims ?n (sy_Trace s)"
    "requeues ?n (sy_Trace s @ ?es) = requeues ?n (sy_Trace s)"
    by (simp_all add: es claims_def requeues_def)
  show ?thesis
  proof (rule row_step [OF ok 2(2) 2(4)])
    show "row_good (attempt_keys (sy_DB s)) (sy_Trace s @ ?es) ?row'"
      by (rule row_good_released [OF good])
        (use follows counts provider_state_other [OF answer] claim in \<open>auto split: if_splits\<close>)
  next
    fix other assume "(other, Dispatched) \<in> sy_Held s - {(item, Answered (Inr result))}" "cn_ID other = ?n"
    with no_other_dispatched [OF ok item 2(2,3)]
    show "?es = [] \<and> (in_flight (cn_ClaimToken other) ?row' \<or> unknown_outcome ?row')" by blast
  qed (use claim in \<open>auto simp: es event_in_order_def split: if_splits\<close>)
qed

lemma settle_sent_keeps_ok:
  assumes ok: "delivery_ok s" and item: "(item, Answered sent) \<in> sy_Held s"
    and run: "record_settlement env now worker_now item (settle_after_send sent) (sy_DB s) = (r, db')"
  shows "delivery_ok (s\<lparr>sy_DB := db', sy_Held := sy_Held s - {(item, Answered sent)},
    sy_Trace := sy_Trace s @ answered_failure item sent r\<rparr>)"
proof -
  have "Handed_Over (cn_ClaimToken item) (cn_ID item) sent \<in> set (sy_Trace s)"
    using delivery_okD(10) [OF ok item] by (simp add: held_good_def)
  then have answer: "sender_answer sent" using delivery_okD(7) [OF ok] by blast
  show ?thesis
  proof (cases sent)
    case (Inl failure)
    with settle_failure_keeps_ok [OF ok item Inl answer run] show ?thesis
      by (simp add: answered_failure_def)
  next
    case (Inr result)
    with run have "RecordProviderResult env now item result (sy_DB s) = (r, db')"
      by (simp add: settle_after_send_def record_settlement_def)
    with settle_accepted_keeps_ok [OF ok item [unfolded Inr]] answer show ?thesis
      by (simp add: Inr sender_answer_def)
  qed
qed

section \<open>Callbacks, requeues and redaction\<close>

lemma reported_row_simps [simp]:
  "dn_DeliveryStatus (reported_row callback row) = pcb_DeliveryStatus callback"
  "dn_ClaimToken (reported_row callback row) = dn_ClaimToken row"
  "dn_DispatchStartedAt (reported_row callback row) = dn_DispatchStartedAt row"
  "dn_ProviderMessageID (reported_row callback row) = dn_ProviderMessageID row"
  "dn_DeliveryAttempts (reported_row callback row) = dn_DeliveryAttempts row"
  "dn_RequeueCount (reported_row callback row) = dn_RequeueCount row"
  "dn_LastErrorCode (reported_row callback row)
     = (if pcb_DeliveryStatus callback = StatusDeadLetter then pcb_ErrorCode callback else [])"
  by (simp_all add: reported_row_def Let_def)

lemma callback_keeps_ok:
  assumes ok: "delivery_ok s" and callback: "callback_ok callback"
    and run: "ApplyProviderCallback env now callback (sy_DB s) = (r, db')"
  shows "delivery_ok (s\<lparr>sy_DB := db',
    sy_Trace := sy_Trace s @ reported_failure callback (sy_DB s) db'\<rparr>)"
  using run delivery_okD(1) [OF ok]
proof (cases rule: callback_cases)
  case 1
  then have "reported_failure callback (sy_DB s) db' = []"
    by (auto simp: reported_failure_def split: option.splits)
  with same_rows [OF ok 1 order_refl] show ?thesis by simp
next
  case (2 row)
  let ?n = "dn_ID row" and ?row' = "reported_row callback row"
  define es where "es = reported_failure callback (sy_DB s) db'"
  have good: "row_good (attempt_keys (sy_DB s)) (sy_Trace s) row" by (rule delivery_okD(5) [OF ok 2(1)])
  note rowD = row_goodD [OF good]
  have message: "dn_ProviderMessageID row \<noteq> None" using 2(2) by (simp add: carries_message_def)
  have idle: "dn_DeliveryStatus row \<noteq> StatusDelivering" "\<not> unknown_outcome row" "dn_ClaimToken row = None"
    "dn_DispatchStartedAt row = None"
    using rowD(1,3,4,5) message by auto
  have state: "provider_state (pcb_DeliveryStatus callback)"
    "pcb_ErrorCode callback \<noteq> ''DELIVERY_OUTCOME_UNKNOWN''"
    using callback by (simp_all add: callback_ok_def)
  have es: "es = (if ?row' \<noteq> row \<and> pcb_DeliveryStatus callback = StatusDeadLetter
      then [Failure_Reported ?n] else [])"
    using 2(3,1,6) by (simp add: es_def reported_failure_def row_changed_def)
  have follows: "follows (last_event ?n (sy_Trace s @ es)) ?row'"
  proof (cases "?row' \<noteq> row \<and> pcb_DeliveryStatus callback = StatusDeadLetter")
    case True
    then show ?thesis unfolding es by (simp add: follows_def provider_state_def)
  next
    case False
    then consider "?row' = row" | "pcb_DeliveryStatus callback \<noteq> StatusDeadLetter" by blast
    then have "follows (last_event ?n (sy_Trace s)) ?row'"
    proof cases
      case 1
      then show ?thesis using rowD(9) by simp
    next
      case 2
      with state(1) have "pcb_DeliveryStatus callback
          \<in> {StatusProviderAccepted, StatusSent, StatusDelivered}" by (auto simp: provider_state_def)
      then show ?thesis using rowD(9) message idle state(1)
        by (auto simp: follows_def split: option.splits delivery_event.splits if_splits)
    qed
    then show ?thesis unfolding es if_not_P [OF False] by simp
  qed
  have "delivery_ok (s\<lparr>sy_DB := db', sy_Held := sy_Held s, sy_Trace := sy_Trace s @ es\<rparr>)"
  proof (rule row_step [OF ok 2(1) 2(6) _ order_refl])
    show "row_good (attempt_keys (sy_DB s)) (sy_Trace s @ es) ?row'"
      by (rule row_good_released [OF good])
        (use follows idle provider_state_other [OF state(1)] state(2) in
          \<open>auto simp: es claims_def requeues_def\<close>)
  next
    fix item assume "(item, Dispatched) \<in> sy_Held s" "cn_ID item = ?n"
    with delivery_okD(10) [OF ok, of item Dispatched] 2(1) idle
    show "es = [] \<and> (in_flight (cn_ClaimToken item) ?row' \<or> unknown_outcome ?row')"
      by (simp add: held_good_def)
  qed (use idle in \<open>auto simp: es event_in_order_def split: if_splits\<close>)
  then show ?thesis by (simp add: es_def)
qed

lemma requeued_row_simps [simp]:
  "dn_DeliveryStatus (requeued_row now row) = StatusQueued"
  "dn_ClaimToken (requeued_row now row) = None"
  "dn_DispatchStartedAt (requeued_row now row) = None"
  "dn_ProviderMessageID (requeued_row now row) = None"
  "dn_DeliveryAttempts (requeued_row now row) = dn_DeliveryAttempts row"
  "dn_RequeueCount (requeued_row now row) = dn_RequeueCount row + 1"
  by (simp_all add: requeued_row_def)

lemma requeue_keeps_ok:
  assumes ok: "delivery_ok s"
    and run: "RequeueForOwner env now salonID ownerUserID n actionKey fingerprint (sy_DB s) = (r, db')"
  shows "delivery_ok (s\<lparr>sy_DB := db',
    sy_Trace := sy_Trace s @ (if db' = sy_DB s then [] else [Requeued n])\<rparr>)"
  using run delivery_okD(1) [OF ok]
proof (cases rule: requeue_cases)
  case 1
  with ok show ?thesis by simp
next
  case (2 row)
  let ?row' = "requeued_row now row"
  have ID: "dn_ID row = n" using row_of_SomeD [OF 2(1)] by simp
  have good: "row_good (attempt_keys (sy_DB s)) (sy_Trace s) row" by (rule delivery_okD(5) [OF ok 2(1)])
  note rowD = row_goodD [OF good, unfolded ID]
  have dead: "dn_DeliveryStatus row = StatusDeadLetter" "\<not> unknown_outcome row"
    using 2(2) by (auto simp: requeue_blocked_def)
  have "may_requeue (last_event n (sy_Trace s))"
    using rowD(9) dead
    by (auto simp: may_requeue_def follows_def delivery_status_defs
        split: option.splits delivery_event.splits if_splits)
  then have order: "in_order_after (sy_Trace s) [Requeued n]" by (simp add: event_in_order_def)
  have "delivery_ok (s\<lparr>sy_DB := db', sy_Held := sy_Held s, sy_Trace := sy_Trace s @ [Requeued n]\<rparr>)"
  proof (rule row_step [OF ok 2(1) 2(4) _ order_refl _ order])
    show "row_good (attempt_keys (sy_DB s)) (sy_Trace s @ [Requeued n]) ?row'"
      using rowD(6-8) ID
      by (auto simp: row_good_def follows_def claims_def requeues_def MaxSafeDeliveryAttempts_def)
  next
    fix item assume "(item, Dispatched) \<in> sy_Held s" "cn_ID item = n"
    with delivery_okD(10) [OF ok, of item Dispatched] 2(1) dead
    show "[Requeued n] = [] \<and> (in_flight (cn_ClaimToken item) ?row' \<or> unknown_outcome ?row')"
      by (simp add: held_good_def)
  qed (auto simp: ID)
  with 2(3) show ?thesis by simp
qed

lemma redacted_row_simps [simp]:
  "dn_ID (redacted_row now row) = dn_ID row"
  "dn_DeliveryStatus (redacted_row now row) = dn_DeliveryStatus row"
  "dn_ClaimToken (redacted_row now row) = dn_ClaimToken row"
  "dn_DispatchStartedAt (redacted_row now row) = dn_DispatchStartedAt row"
  "dn_ProviderMessageID (redacted_row now row) = dn_ProviderMessageID row"
  "dn_DeliveryAttempts (redacted_row now row) = dn_DeliveryAttempts row"
  "dn_RequeueCount (redacted_row now row) = dn_RequeueCount row"
  "dn_LastErrorCode (redacted_row now row) = dn_LastErrorCode row"
  by (simp_all add: redacted_row_def)

lemma redact_keeps_ok:
  assumes ok: "delivery_ok s"
  shows "delivery_ok (s\<lparr>sy_DB := update_where (\<lambda>row. dn_ID row = n
      \<and> dn_DeliveryStatus row \<in> {StatusDelivered, StatusUndelivered, StatusDeadLetter, StatusDisabled})
      (redacted_row now) (sy_DB s)\<rparr>)"
    (is "delivery_ok (s\<lparr>sy_DB := update_where ?match _ _\<rparr>)")
proof (cases "\<exists>row. row_of (sy_DB s) n = Some row \<and> ?match row")
  case True
  then obtain row where row: "row_of (sy_DB s) n = Some row" "?match row" by blast
  have good: "row_good (attempt_keys (sy_DB s)) (sy_Trace s) row" by (rule delivery_okD(5) [OF ok row(1)])
  have changed: "row_changed (sy_DB s) n (redacted_row now row)
      (update_where ?match (redacted_row now) (sy_DB s))"
    by (rule update_where_changes [where match = ?match and row = row]) (use row in auto)
  have "delivery_ok (s\<lparr>sy_DB := update_where ?match (redacted_row now) (sy_DB s), sy_Held := sy_Held s\<rparr>)"
  proof (rule silent_row_step [OF ok row(1) changed _ order_refl])
    show "row_good (attempt_keys (sy_DB s)) (sy_Trace s) (redacted_row now row)"
      using good unfolding row_good_def follows_def redacted_row_simps .
  next
    fix item assume "(item, Leased) \<in> sy_Held s" "cn_ID item = n"
      "dn_ClaimToken (redacted_row now row) = Some (cn_ClaimToken item)"
    with delivery_okD(10) [OF ok, of item Leased] row(1)
    show "dn_DispatchStartedAt (redacted_row now row) = None"
      by (simp add: held_good_def)
  next
    fix item assume "(item, Dispatched) \<in> sy_Held s" "cn_ID item = n"
    with delivery_okD(10) [OF ok, of item Dispatched] row(1)
    show "in_flight (cn_ClaimToken item) (redacted_row now row) \<or> unknown_outcome (redacted_row now row)"
      by (simp add: held_good_def)
  qed (use row in simp)
  then show ?thesis by simp
next
  case False
  let ?db' = "update_where ?match (redacted_row now) (sy_DB s)"
  have "row_of ?db' m = row_of (sy_DB s) m" for m
    using False row_of_SomeD [of "sy_DB s" m]
    by (cases "row_of (sy_DB s) m") (auto simp: row_of_update_where)
  then have "row_of ?db' = row_of (sy_DB s)" by (rule ext)
  moreover have "map dn_ID (dd_Notifications ?db') = map dn_ID (dd_Notifications (sy_DB s))"
    by (rule ids_update_where) simp
  moreover have "attempt_keys ?db' = attempt_keys (sy_DB s)"
    by (simp add: attempt_keys_def update_where_def)
  ultimately show ?thesis using same_rows [OF ok _ _ _ order_refl] by fastforce
qed

section \<open>New notifications\<close>

lemma unnamed_events:
  assumes "list_all (\<lambda>event. \<not> names n event) trace"
  shows "last_event n trace = None" "claims n trace = 0" "requeues n trace = 0"
  using other_events [OF assms, of "[]"] by (simp_all add: last_event_def claims_def requeues_def)

lemma arrive_keeps_ok:
  assumes ok: "delivery_ok s" and new: "new_notification row" and "row_of (sy_DB s) (dn_ID row) = None"
  shows "delivery_ok (s\<lparr>sy_DB := (sy_DB s)\<lparr>dd_Notifications := dd_Notifications (sy_DB s) @ [row]\<rparr>\<rparr>)"
proof -
  note okD = delivery_okD [OF ok]
  define s' where "s' = s\<lparr>sy_DB := (sy_DB s)\<lparr>dd_Notifications := dd_Notifications (sy_DB s) @ [row]\<rparr>\<rparr>"
  have rows: "row_of (sy_DB s') n = (if n = dn_ID row then Some row else row_of (sy_DB s) n)" for n
    using assms(3) by (auto simp: s'_def row_of_def find_append split: option.splits)
  have parts: "attempt_keys (sy_DB s') = attempt_keys (sy_DB s)" "sy_Held s' = sy_Held s"
    "sy_Trace s' = sy_Trace s"
    by (simp_all add: s'_def attempt_keys_def)
  note none = unnamed_events [OF okD(4) [OF assms(3)]]
  have absent: "cn_ID item \<noteq> dn_ID row" if "(item, phase) \<in> sy_Held s" for item phase
    using okD(10) [OF that] okD(3) [of "dn_ID row"] assms(3) by (force simp: held_good_def)
  show ?thesis
    unfolding s'_def [symmetric]
  proof (rule delivery_okI, unfold parts)
    show "ids_unique (sy_DB s')"
      using okD(1) assms(3) by (auto simp: s'_def ids_unique_def row_of_def find_None_iff)
  next
    fix n assume "n \<in> snd ` set (attempt_keys (sy_DB s))"
    with okD(3) show "row_of (sy_DB s') n \<noteq> None" by (simp add: rows)
  next
    fix n assume "row_of (sy_DB s') n = None"
    with okD(4) show "list_all (\<lambda>event. \<not> names n event) (sy_Trace s)"
      by (auto simp: rows split: if_splits)
  next
    fix n other assume other: "row_of (sy_DB s') n = Some other"
    show "row_good (attempt_keys (sy_DB s)) (sy_Trace s) other"
    proof (cases "n = dn_ID row")
      case True
      with other new none show ?thesis
        by (auto simp: rows row_good_def new_notification_def follows_def MaxSafeDeliveryAttempts_def)
    qed (use other okD(5) in \<open>simp add: rows\<close>)
  next
    show "held_good (sy_DB s') (sy_Trace s) item phase" if "(item, phase) \<in> sy_Held s" for item phase
      using okD(10) [OF that] absent [OF that] by (auto simp: held_good_def rows parts(1) split: phase.splits)
  next
    show "i = j \<and> p = q" if "(i, p) \<in> sy_Held s" "(j, q) \<in> sy_Held s" "cn_ClaimToken i = cn_ClaimToken j"
      for i p j q
      by (rule okD(11)) (use that in auto)
  next
    show "i = j" if "(i, Dispatched) \<in> sy_Held s" "(j, Dispatched) \<in> sy_Held s" "cn_ID i = cn_ID j" for i j
      by (rule okD(12)) (use that in auto)
  qed (fact okD(2) okD(6) okD(7) okD(8) okD(9))+
qed

section \<open>Claims\<close>

lemma distinct_occurs: "distinct ns \<Longrightarrow> length (filter (\<lambda>m. m = n) ns) = (if n \<in> set ns then 1 else 0)"
  by (induction ns) (auto simp: filter_empty_conv)

lemma claims_of_items:
  assumes "distinct (map cn_ID items)"
  shows "claims n (trace @ map (\<lambda>item. Claimed (cn_ID item)) items)
    = claims n trace + (if n \<in> cn_ID ` set items then 1 else 0)"
  using distinct_occurs [OF assms, of n] by (simp add: claims_def filter_map comp_def)

lemma requeues_of_items [simp]:
  "requeues n (trace @ map (\<lambda>item. Claimed (cn_ID item)) items) = requeues n trace"
  by (simp add: requeues_def filter_map comp_def)

lemma claim_row_simps [simp]:
  "dn_DeliveryStatus (claim_row lease now token row) = StatusDelivering"
  "dn_ClaimToken (claim_row lease now token row) = Some token"
  "dn_DispatchStartedAt (claim_row lease now token row) = None"
  "dn_ProviderMessageID (claim_row lease now token row) = dn_ProviderMessageID row"
  "dn_DeliveryAttempts (claim_row lease now token row) = dn_DeliveryAttempts row + 1"
  "dn_RequeueCount (claim_row lease now token row) = dn_RequeueCount row"
  by (simp_all add: claim_row_def)

text \<open>The row of a notification that has just been claimed.\<close>

lemma claimed_row_good:
  assumes good: "row_good keys trace row" and due: "claimable MaxSafeDeliveryAttempts now row"
    and "claims (dn_ID row) trace' = claims (dn_ID row) trace + 1"
    and "requeues (dn_ID row) trace' = requeues (dn_ID row) trace"
    and latest: "last_event (dn_ID row) trace' = last_event (dn_ID row) trace"
    and "(token, dn_ID row) \<in> set keys'"
  shows "row_good keys' trace' (claim_row lease now token row)"
proof -
  note rowD = row_goodD [OF good]
  have "may_send (last_event (dn_ID row) trace)"
    using waiting_may_send [OF rowD(9)] due by (auto simp: claimable_def)
  then have "follows (last_event (dn_ID row) trace') (claim_row lease now token row)"
    unfolding latest by (rule may_send_follows)
  moreover have "dn_ProviderMessageID row = None" using rowD(4) due by (auto simp: claimable_def)
  moreover have "dn_DeliveryAttempts row + 1 \<le> MaxSafeDeliveryAttempts * (dn_RequeueCount row + 1)"
    using due by (simp add: claimable_def clamp_def MaxSafeDeliveryAttempts_def)
  ultimately show ?thesis using assms(3,4,6) rowD(6,7) by (auto simp: row_good_def)
qed

lemma claim_keeps_ok:
  assumes ok: "delivery_ok s" and run: "ClaimBatch env now limit lease (sy_DB s) = (Inr items, db')"
  shows "delivery_ok (s\<lparr>sy_DB := db', sy_Held := sy_Held s \<union> (\<lambda>item. (item, Leased)) ` set items,
    sy_Trace := sy_Trace s @ map (\<lambda>item. Claimed (cn_ID item)) items\<rparr>)"
  using run delivery_okD(1) [OF ok]
proof (cases rule: claim_cases)
  case (2 its)
  then have its: "its = items" by simp
  note batch = 2(2-) [unfolded its]
  note okD = delivery_okD [OF ok]
  let ?events = "map (\<lambda>item. Claimed (cn_ID item)) items"
  let ?held = "sy_Held s \<union> (\<lambda>item. (item, Leased)) ` set items"
  define s' where "s' = s\<lparr>sy_DB := db', sy_Held := ?held, sy_Trace := sy_Trace s @ ?events\<rparr>"
  have parts: "sy_DB s' = db'" "sy_Held s' = ?held" "sy_Trace s' = sy_Trace s @ ?events"
    by (simp_all add: s'_def)
  have known: "row_of db' n \<noteq> None \<longleftrightarrow> row_of (sy_DB s) n \<noteq> None" for n
    using batch(3) [of "SOME item. item \<in> set items \<and> cn_ID item = n"] batch(3,4)
    by (cases "n \<in> cn_ID ` set items") fastforce+
  have new_token: "cn_ClaimToken item \<notin> fst ` set (attempt_keys (sy_DB s))" if "item \<in> set items" for item
    using batch(6) that unfolding batch(5) by (force simp: image_iff)
  have tokens: "i = j" if "i \<in> set items" "j \<in> set items" "cn_ClaimToken i = cn_ClaimToken j" for i j
  proof -
    have "distinct (map cn_ClaimToken items)" using batch(6) unfolding batch(5) by (simp add: comp_def)
    with that show ?thesis by (auto simp: distinct_map dest: inj_onD)
  qed
  have old_token: "cn_ClaimToken i \<in> fst ` set (attempt_keys (sy_DB s))" if "(i, p) \<in> sy_Held s" for i p
    using okD(10) [OF that] by (force simp: held_good_def)
  have old_held: "held_good db' (sy_Trace s @ ?events) i p" if "(i, p) \<in> sy_Held s" for i p
  proof -
    note before = okD(10) [OF that]
    show ?thesis
    proof (cases "cn_ID i \<in> cn_ID ` set items")
      case True
      then obtain item where item: "item \<in> set items" "cn_ID item = cn_ID i" by auto
      from batch(3) [OF item(1)] obtain row where row: "row_of (sy_DB s) (cn_ID i) = Some row"
        "claimable MaxSafeDeliveryAttempts now row"
        "row_of db' (cn_ID i) = Some (claim_row (lease div 1000000) now (cn_ClaimToken item) row)"
        unfolding item(2) by blast
      have "p \<noteq> Dispatched" using before row(1,2)
        by (auto simp: held_good_def claimable_def delivery_status_defs)
      with before row(3) show ?thesis by (auto simp: held_good_def batch(5) split: phase.splits)
    next
      case False
      with before batch(4) show ?thesis by (auto simp: held_good_def batch(5) split: phase.splits)
    qed
  qed
  show ?thesis
    unfolding s'_def [symmetric]
  proof (rule delivery_okI, unfold parts)
    show "ids_unique db'" using okD(1) batch(2) by (simp add: ids_unique_def)
    show "distinct (map fst (attempt_keys db'))" by (rule batch(6))
  next
    fix n assume "n \<in> snd ` set (attempt_keys db')"
    then consider "n \<in> snd ` set (attempt_keys (sy_DB s))" | "n \<in> cn_ID ` set items"
      unfolding batch(5) by auto
    then show "row_of db' n \<noteq> None"
      by cases (use okD(3) known batch(3) in \<open>fastforce+\<close>)
  next
    fix n assume none: "row_of db' n = None"
    then have "n \<notin> cn_ID ` set items" using batch(3) by fastforce
    then show "list_all (\<lambda>event. \<not> names n event) (sy_Trace s @ ?events)"
      using okD(4) [of n] known [of n] none by (auto simp: list_all_iff)
  next
    fix n other assume other: "row_of db' n = Some other"
    show "row_good (attempt_keys db') (sy_Trace s @ ?events) other"
    proof (cases "n \<in> cn_ID ` set items")
      case True
      then obtain item where item: "item \<in> set items" "n = cn_ID item" by auto
      from batch(3) [OF item(1)] obtain row where row: "row_of (sy_DB s) n = Some row"
        "claimable MaxSafeDeliveryAttempts now row"
        "other = claim_row (lease div 1000000) now (cn_ClaimToken item) row"
        using other unfolding item(2) by auto
      have ID: "dn_ID row = n" using row_of_SomeD [OF row(1)] by simp
      show ?thesis unfolding row(3)
        by (rule claimed_row_good [OF okD(5) [OF row(1)] row(2)])
          (use True item in \<open>auto simp: ID claims_of_items [OF batch(1)] batch(5)\<close>)
    next
      case False
      with other batch(4) have row: "row_of (sy_DB s) n = Some other" by simp
      then have ID: "dn_ID other = n" using row_of_SomeD by blast
      have "row_good (attempt_keys (sy_DB s)) (sy_Trace s @ ?events) other"
        by (rule row_good_event [OF okD(5) [OF row]])
          (use row_goodD(9) [OF okD(5) [OF row]] False in \<open>simp_all add: ID claims_of_items [OF batch(1)]\<close>)
      then show ?thesis unfolding row_good_def batch(5) by auto
    qed
  next
    fix n
    have "int (length (filter (\<lambda>key. snd key = n) (attempt_keys (sy_DB s)))) = claims n (sy_Trace s)"
      by (rule okD(6))
    then show "int (length (filter (\<lambda>key. snd key = n) (attempt_keys db'))) = claims n (sy_Trace s @ ?events)"
      using distinct_occurs [OF batch(1), of n]
      by (simp add: batch(5) claims_of_items [OF batch(1)] filter_map comp_def)
  next
    fix token n sent assume "Handed_Over token n sent \<in> set (sy_Trace s @ ?events)"
    then have "Handed_Over token n sent \<in> set (sy_Trace s)" by auto
    then show "(token, n) \<in> set (attempt_keys db') \<and> sender_answer sent"
      using okD(7) unfolding batch(5) by auto
  next
    have "handed_tokens ?events = []" by (rule handed_tokens_none) auto
    with okD(8) show "distinct (handed_tokens (sy_Trace s @ ?events))" by simp
    have "in_order_after earlier ?events" for earlier
      by (induction items arbitrary: earlier) (simp_all add: event_in_order_def)
    with okD(9) show "in_order (sy_Trace s @ ?events)" by (simp add: in_order_append)
  next
    fix i p assume "(i, p) \<in> ?held"
    then consider "(i, p) \<in> sy_Held s" | "i \<in> set items" "p = Leased" by auto
    then show "held_good db' (sy_Trace s @ ?events) i p"
    proof cases
      case 2
      have "Handed_Over (cn_ClaimToken i) n sent \<notin> set (sy_Trace s)" for n sent
        using new_token [OF 2(1)] okD(7) by force
      with 2 batch(3) [OF 2(1)] show ?thesis by (auto simp: held_good_def batch(5))
    qed (rule old_held)
  next
    fix i p j q
    assume "(i, p) \<in> ?held" "(j, q) \<in> ?held" and same: "cn_ClaimToken i = cn_ClaimToken j"
    then consider "(i, p) \<in> sy_Held s" "(j, q) \<in> sy_Held s"
      | "i \<in> set items" "j \<in> set items" "p = Leased" "q = Leased"
      | "i \<in> set items" "(j, q) \<in> sy_Held s" | "(i, p) \<in> sy_Held s" "j \<in> set items" by auto
    then show "i = j \<and> p = q"
    proof cases
      case 1
      then show ?thesis using same by (rule okD(11))
    qed (use tokens same new_token old_token in \<open>metis+\<close>)
  next
    fix i j assume "(i, Dispatched) \<in> ?held" "(j, Dispatched) \<in> ?held" and same: "cn_ID i = cn_ID j"
    then show "i = j" using okD(12) by blast
  qed
qed simp

section \<open>Reachable states\<close>

lemma delivery_step_keeps_ok:
  assumes "delivery_step s s'" "delivery_ok s"
  shows "delivery_ok s'"
  using assms(1)
proof (cases rule: delivery_step.cases)
  case arrive
  then show ?thesis using arrive_keeps_ok [OF assms(2)] by simp
next
  case claim
  show ?thesis unfolding claim(1) by (rule claim_keeps_ok [OF assms(2) claim(2)])
next
  case recover
  show ?thesis unfolding recover(1) by (rule recover_keeps_ok [OF assms(2) recover(2)])
next
  case settle_unsent
  show ?thesis unfolding settle_unsent(1)
    by (rule settle_unsent_keeps_ok [OF assms(2) settle_unsent(2,3,4)])
next
  case dispatch
  show ?thesis unfolding dispatch(1) by (rule dispatch_keeps_ok [OF assms(2) dispatch(2,3)])
next
  case send
  show ?thesis unfolding send(1) by (rule send_keeps_ok [OF assms(2) send(2,3)])
next
  case settle_sent
  show ?thesis unfolding settle_sent(1) by (rule settle_sent_keeps_ok [OF assms(2) settle_sent(2,3)])
next
  case (stop held)
  show ?thesis unfolding stop(1) by (rule drop_held [OF assms(2)]) blast
next
  case callback
  show ?thesis unfolding callback(1) by (rule callback_keeps_ok [OF assms(2) callback(2,3)])
next
  case requeue
  show ?thesis unfolding requeue(1) by (rule requeue_keeps_ok [OF assms(2) requeue(2)])
next
  case redact
  show ?thesis unfolding redact(1) by (rule redact_keeps_ok [OF assms(2)])
qed

lemma reachable_delivery_ok:
  assumes "delivery_step\<^sup>*\<^sup>* s s'" "delivery_ok s"
  shows "delivery_ok s'"
  using assms by (induction rule: rtranclp_induct) (auto intro: delivery_step_keeps_ok)

end
