(* ===== verification/Delivery_Guarantees.thy ===== *)
theory Delivery_Guarantees
  imports Delivery_Invariant
begin

text \<open>
  What owner-notification delivery guarantees, whatever workers, callbacks and owners do and in
  whatever order: no second hand-over of a message that may have arrived, a bounded number of
  attempts, callbacks that may be repeated; and the one gap the model shows, a notification that can
  neither be claimed nor requeued.
\<close>

section \<open>Histories\<close>

definition new_system :: "DeliverySystem \<Rightarrow> bool" where
  "new_system s \<longleftrightarrow>
     ids_unique (sy_DB s) \<and> list_all new_notification (dd_Notifications (sy_DB s))
     \<and> dd_Attempts (sy_DB s) = [] \<and> sy_Held s = {} \<and> sy_Trace s = []"

abbreviation reaches :: "DeliverySystem \<Rightarrow> DeliverySystem \<Rightarrow> bool" where
  "reaches \<equiv> delivery_step\<^sup>*\<^sup>*"

definition hand_overs :: "string \<Rightarrow> delivery_event list \<Rightarrow> int" where
  "hand_overs n trace = int (length (handed_tokens (filter (about n) trace)))"

lemma empty_trace [simp]: "claims n [] = 0" "requeues n [] = 0" "last_event n [] = None"
  by (simp_all add: claims_def requeues_def last_event_def)

lemma new_system_ok:
  assumes new: "new_system s"
  shows "delivery_ok s"
proof (rule delivery_okI)
  have parts: "sy_Held s = {}" "sy_Trace s = []" "attempt_keys (sy_DB s) = []"
    using new by (simp_all add: new_system_def attempt_keys_def)
  fix n row assume row: "row_of (sy_DB s) n = Some row"
  then have "new_notification row"
    using new row_of_SomeD [OF row] by (auto simp: new_system_def list_all_iff)
  then show "row_good (attempt_keys (sy_DB s)) (sy_Trace s) row"
    by (auto simp: parts row_good_def new_notification_def follows_def MaxSafeDeliveryAttempts_def
        delivery_status_defs)
qed (use new in \<open>auto simp: new_system_def attempt_keys_def\<close>)

lemma reached_ok: "new_system s \<Longrightarrow> reaches s s' \<Longrightarrow> delivery_ok s'"
  using new_system_ok reachable_delivery_ok by blast

section \<open>No second delivery\<close>

lemma in_order_after_append:
  "in_order_after earlier (events @ events')
     \<longleftrightarrow> in_order_after earlier events \<and> in_order_after (earlier @ events) events'"
  by (induction events arbitrary: earlier) simp_all

lemma failure_then_requeue:
  assumes "in_order_after earlier (between @ [Handed_Over token n sent])"
    and "last_event n earlier = Some (Failure_Reported n)"
  shows "Requeued n \<in> set between"
  using assms
proof (induction between arbitrary: earlier)
  case (Cons event between)
  show ?case
  proof (cases "about n event")
    case True
    with Cons show ?thesis
      by (cases event) (auto simp: event_in_order_def may_send_def)
  next
    case False
    with Cons.prems Cons.IH [of "earlier @ [event]"] show ?thesis by simp
  qed
qed (simp add: event_in_order_def may_send_def)

lemma arrived_then_failure:
  assumes "in_order_after earlier (between @ [Handed_Over token n sent])"
    and "last_event n earlier = Some (Handed_Over token' n sent')" "may_have_arrived sent'"
  obtains rest rest' where "between = rest @ [Failure_Reported n] @ rest'" "Requeued n \<in> set rest'"
proof -
  have "\<exists>rest rest'. between = rest @ [Failure_Reported n] @ rest' \<and> Requeued n \<in> set rest'"
    using assms
  proof (induction between arbitrary: earlier)
    case Nil
    then show ?case by (auto simp: event_in_order_def may_send_def dest: retryable_not_arrived)
  next
    case (Cons event between)
    show ?case
    proof (cases "about n event")
      case True
      with Cons.prems have "event = Failure_Reported n"
        by (cases event)
          (auto simp: event_in_order_def may_send_def may_requeue_def dest: retryable_not_arrived)
      with Cons.prems(1) have "Requeued n \<in> set between"
        by (intro failure_then_requeue [of "earlier @ [event]"]) auto
      with \<open>event = Failure_Reported n\<close> show ?thesis
        by (intro exI [of _ "[]"] exI [of _ between]) simp
    next
      case False
      with Cons.prems Cons.IH [of "earlier @ [event]"] obtain rest rest'
        where "between = rest @ [Failure_Reported n] @ rest'" "Requeued n \<in> set rest'" by auto
      then show ?thesis by (intro exI [of _ "event # rest"] exI [of _ rest']) simp
    qed
  qed
  then show thesis using that by blast
qed

text \<open>
  C14: No message is delivered twice. However workers, callbacks, requeues and lost leases
  interleave, a message that was handed over and may have arrived (the provider accepted it, or the
  outcome is unknown) is handed over again only after the provider reported that it failed and the
  owner then requeued it.
\<close>
theorem arrived_message_sent_again_only_after_failure:
  assumes "new_system s" "reaches s s'"
    and trace: "sy_Trace s' = before @ [Handed_Over token n sent] @ between
      @ [Handed_Over token' n sent'] @ after"
    and "may_have_arrived sent"
  shows "\<exists>rest rest'. between = rest @ [Failure_Reported n] @ rest' \<and> Requeued n \<in> set rest'"
proof -
  have "in_order (sy_Trace s')" using delivery_okD(9) [OF reached_ok [OF assms(1,2)]] .
  then have "in_order_after (before @ [Handed_Over token n sent]) (between @ [Handed_Over token' n sent'])"
    unfolding trace by (simp add: in_order_after_append)
  then obtain rest rest' where "between = rest @ [Failure_Reported n] @ rest'" "Requeued n \<in> set rest'"
    by (rule arrived_then_failure [where token' = token and sent' = sent]) (use assms(4) in simp_all)
  then show ?thesis by blast
qed

section \<open>A bounded number of attempts\<close>

lemma hand_overs_le_claims:
  assumes ok: "delivery_ok s"
  shows "hand_overs n (sy_Trace s) \<le> claims n (sy_Trace s)"
proof -
  note okD = delivery_okD [OF ok]
  let ?keys = "filter (\<lambda>key. snd key = n) (attempt_keys (sy_DB s))"
  let ?tokens = "handed_tokens (filter (about n) (sy_Trace s))"
  have "distinct (handed_tokens (filter match trace))" if "distinct (handed_tokens trace)" for match trace
    using that by (induction trace) (auto simp: set_handed_tokens split: delivery_event.splits)
  then have "distinct ?tokens" using okD(8) by blast
  moreover have "set ?tokens \<subseteq> set (map fst ?keys)"
    using okD(7) by (force simp: set_handed_tokens)
  ultimately have "length ?tokens \<le> length (map fst ?keys)"
    by (metis card_length card_mono distinct_card finite_set le_trans)
  then show ?thesis using okD(6) [of n] by (simp add: hand_overs_def)
qed

text \<open>
  C15: Retrying ends. In every history a notification is claimed at most five times, and five times
  more for every time its owner requeued it, and it is handed to the provider at most once per claim.
\<close>
theorem attempts_are_bounded:
  assumes "new_system s" "reaches s s'"
  shows "hand_overs n (sy_Trace s') \<le> claims n (sy_Trace s')
    \<and> claims n (sy_Trace s') \<le> 5 * (requeues n (sy_Trace s') + 1)"
proof
  have ok: "delivery_ok s'" by (rule reached_ok [OF assms])
  show "hand_overs n (sy_Trace s') \<le> claims n (sy_Trace s')" by (rule hand_overs_le_claims [OF ok])
  show "claims n (sy_Trace s') \<le> 5 * (requeues n (sy_Trace s') + 1)"
  proof (cases "row_of (sy_DB s') n")
    case None
    then show ?thesis using unnamed_events [OF delivery_okD(4) [OF ok None]] by simp
  next
    case (Some row)
    with row_goodD(6-8) [OF delivery_okD(5) [OF ok Some]] row_of_SomeD [OF Some] show ?thesis
      by (simp add: MaxSafeDeliveryAttempts_def)
  qed
qed

section \<open>A stranded notification\<close>

definition stranded :: "DeliveryRow \<Rightarrow> bool" where
  "stranded row \<longleftrightarrow> dn_DeliveryStatus row = StatusFailed
     \<and> dn_DeliveryAttempts row = MaxSafeDeliveryAttempts * (dn_RequeueCount row + 1)"

lemma stranded_not_claimable: "stranded row \<Longrightarrow> \<not> claimable MaxSafeDeliveryAttempts now row"
  by (simp add: stranded_def claimable_def clamp_def MaxSafeDeliveryAttempts_def)

lemma stranded_requeue_blocked: "stranded row \<Longrightarrow> requeue_blocked row"
  by (simp add: stranded_def requeue_blocked_def)

lemma row_changed_other: "row_changed db m row' db' \<Longrightarrow> n \<noteq> m \<Longrightarrow> row_of db' n = row_of db n"
  by (simp add: row_changed_def)

text \<open>The transactions of a claim holder leave it alone: they act on rows that are being delivered.\<close>

lemma settlement_keeps_stranded:
  assumes "record_settlement env now worker_now item settlement db = (r, db')" "ids_unique db"
    and row: "row_of db n = Some row" "stranded row"
  shows "row_of db' n = Some row"
proof -
  have completed: "row_of db' n = Some row"
    if "completeWithoutProvider env now item status outcome code next_at db = (r, db')"
    for status outcome code next_at
    using that assms(2)
  proof (cases rule: complete_cases)
    case (2 held)
    then have "cn_ID item \<noteq> n" using row by (auto simp: stranded_def dest: holds_claimD)
    with row_changed_other [OF 2(4)] row(1) show ?thesis by simp
  qed (use row in simp)
  show ?thesis
  proof (cases settlement)
    case (Accepted result)
    with assms(1) have "RecordProviderResult env now item result db = (r, db')"
      by (simp add: record_settlement_def)
    then show ?thesis using assms(2)
    proof (cases rule: provider_result_cases)
      case (2 held)
      then have "cn_ID item \<noteq> n" using row by (auto simp: stranded_def dest: holds_claimD)
      with row_changed_other [OF 2(4)] row(1) show ?thesis by simp
    qed (use row in simp)
  qed (use completed assms(1) in \<open>simp_all add: record_settlement_def RecordDisabled_def safe_failure
      RecordOutcomeUnknown_def RecordDefinitiveFailure_def\<close>)
qed

lemma stranded_stays:
  assumes step: "delivery_step s s'" and ok: "delivery_ok s"
    and row: "row_of (sy_DB s) n = Some row" "stranded row"
  shows "row_of (sy_DB s') n = Some row"
proof -
  note ids = delivery_okD(1) [OF ok]
  have other: "row_of db' n = Some row" if "row_changed (sy_DB s) m new db'" "m \<noteq> n" for m new db'
    using row_changed_other [OF that(1)] that(2) row(1) by simp
  from step show ?thesis
  proof (cases rule: delivery_step.cases)
    case (arrive new)
    with row(1) show ?thesis by (simp add: row_of_def find_append)
  next
    case (claim env now limit lease items db')
    from claim(2) ids show ?thesis
    proof (cases rule: claim_cases)
      case (2 its)
      have "n \<notin> cn_ID ` set its"
        using 2(4) row stranded_not_claimable by fastforce
      with 2(5) row(1) claim(1) show ?thesis by simp
    qed simp
  next
    case (recover env now lease r db')
    from recover(2) ids show ?thesis
    proof (cases rule: recover_cases)
      case (2 held)
      then have "el_id lease \<noteq> n" using row by (auto simp: stranded_def dest: holds_claimD)
      with other [OF 2(4)] recover(1) show ?thesis by simp
    qed (use recover(1) row in simp)
  next
    case (settle_unsent item settlement env now worker_now r db')
    with settlement_keeps_stranded [OF settle_unsent(4) ids row] show ?thesis by simp
  next
    case (dispatch item env now masked db')
    from dispatch(3) ids show ?thesis
    proof (cases rule: mark_cases)
      case (2 held)
      then have "cn_ID item \<noteq> n" using row by (auto simp: stranded_def dest: holds_claimD)
      with other [OF 2(4)] dispatch(1) show ?thesis by simp
    qed simp
  next
    case (settle_sent item sent env now worker_now r db')
    with settlement_keeps_stranded [OF settle_sent(3) ids row] show ?thesis by simp
  next
    case (callback cb env now r db')
    from callback(3) ids show ?thesis
    proof (cases rule: callback_cases)
      case (2 held)
      have "dn_ID held \<noteq> n"
        using row row_goodD(4) [OF delivery_okD(5) [OF ok row(1)]] 2(1,2)
        by (auto simp: stranded_def carries_message_def)
      with other [OF 2(6)] callback(1) show ?thesis by simp
    qed (use callback(1) row in simp)
  next
    case (requeue env now salonID ownerUserID m actionKey fingerprint r db')
    from requeue(2) ids show ?thesis
    proof (cases rule: requeue_cases)
      case (2 held)
      then have "m \<noteq> n" using row stranded_requeue_blocked by auto
      with other [OF 2(4)] requeue(1) show ?thesis by simp
    qed (use requeue(1) row in simp)
  next
    case (redact m now)
    with row show ?thesis
      by (auto simp: row_of_update_where stranded_def delivery_status_defs)
  qed (use row in simp_all)
qed

text \<open>
  A notification can be stranded. When the lease of its last attempt expires before the
  hand-over, recovery puts it back to \<open>failed\<close> for a safe retry; but no claim takes it any more,
  because its attempts are used up, and no requeue either, because it is not dead-lettered. It stays
  so in every history that follows.
\<close>
theorem expired_last_attempt_is_stranded:
  assumes "new_system s\<^sub>0" "reaches s\<^sub>0 s"
    and row: "row_of (sy_DB s) n = Some row" "dn_DispatchStartedAt row = None"
      "dn_DeliveryAttempts row = MaxSafeDeliveryAttempts * (dn_RequeueCount row + 1)"
    and run: "recoverExpiredLease env now lease (sy_DB s) = (Inr True, db')" "el_id lease = n"
    and "reaches (s\<lparr>sy_DB := db'\<rparr>) s'"
  shows "\<exists>row'. row_of (sy_DB s') n = Some row' \<and> dn_DeliveryStatus row' = StatusFailed
    \<and> (\<forall>later. \<not> claimable MaxSafeDeliveryAttempts later row') \<and> requeue_blocked row'"
proof -
  note ok = reached_ok [OF assms(1,2)]
  have "\<exists>row'. row_of db' n = Some row' \<and> stranded row'"
    using run(1) delivery_okD(1) [OF ok]
  proof (cases rule: recover_cases)
    case 1
    then show ?thesis by simp
  next
    case (2 held)
    with row run(2) have "row_of db' n = Some (expired_before_dispatch now row)"
      by (simp add: row_changed_def)
    then show ?thesis using row(3)
      by (simp add: stranded_def expired_before_dispatch_def)
  qed
  then obtain row' where row': "row_of db' n = Some row'" "stranded row'" by blast
  have "delivery_ok (s\<lparr>sy_DB := db'\<rparr>)" by (rule recover_keeps_ok [OF ok run(1)])
  with assms(8) have "delivery_ok s' \<and> row_of (sy_DB s') n = Some row'"
  proof (induction rule: rtranclp_induct)
    case (step t u)
    then show ?case using delivery_step_keeps_ok [OF step(2)] stranded_stays [OF step(2) _ _ row'(2)] by simp
  qed (simp add: row')
  with row'(2) show ?thesis using stranded_not_claimable stranded_requeue_blocked
    by (auto simp: stranded_def)
qed

section \<open>Repeated callbacks\<close>

lemma find_append_new: "find P xs = None \<Longrightarrow> find P (xs @ [x]) = (if P x then Some x else None)"
  by (simp add: find_append)

lemma reported_row_carries [simp]:
  "carries_message provider messageID (reported_row callback row) = carries_message provider messageID row"
  "dn_SalonID (reported_row callback row) = dn_SalonID row"
  "dn_ProviderStatusRank (reported_row callback row) = pcb_StatusRank callback"
  by (simp_all add: carries_message_def reported_row_def Let_def)

lemma find_after_update:
  assumes "\<And>row. match (change row) = match row"
  shows "find match (dd_Notifications (update_where other change db))
    = map_option (\<lambda>row. if other row then change row else row) (find match (dd_Notifications db))"
proof -
  have "match (if other row then change row else row) = match row" for row using assms by simp
  then show ?thesis by (simp add: update_where_def find_map)
qed

text \<open>
  Provider callbacks may be repeated. A callback that was applied, or that was recorded without
  effect because it came too late, changes nothing when the provider delivers it again, at any later
  time: it is answered with success from its recorded event.
\<close>
theorem repeated_callback_changes_nothing:
  assumes "ApplyProviderCallback env now callback db = (Inr (), db')"
  shows "ApplyProviderCallback env' later callback db' = (Inr (), db')"
proof -
  let ?match = "carries_message (pcb_Provider callback) (pcb_ProviderMessageID callback)"
  from assms obtain row where row: "find ?match (dd_Notifications db) = Some row"
    by (cases "find ?match (dd_Notifications db)") (auto simp: ApplyProviderCallback_def)
  let ?event = "\<lambda>event. de_SalonID event = dn_SalonID row \<and> de_EventKey event = pcb_EventKey callback"
  note run = assms [unfolded ApplyProviderCallback_def row option.case]
  have replay: ?thesis if "find ?match (dd_Notifications db') = Some row'" "dn_SalonID row' = dn_SalonID row"
    "find ?event (dd_Events db') = Some event" "de_EventFingerprint event = pcb_EventFingerprint callback"
    for row' event
    using that by (simp add: ApplyProviderCallback_def)
  show ?thesis
  proof (cases "find ?event (dd_Events db)")
    case (Some event)
    with run have "db' = db" "de_EventFingerprint event = pcb_EventFingerprint callback"
      by (auto split: if_splits)
    with row Some show ?thesis by (intro replay) auto
  next
    case None
    show ?thesis
    proof (cases "pcb_StatusRank callback > dn_ProviderStatusRank row")
      case True
      with run None have db': "dd_Notifications db' = dd_Notifications
            (update_where (\<lambda>other. dn_ID other = dn_ID row) (reported_row callback) db)"
          "dd_Events db' = dd_Events db @ [callback_event env callback row (pcb_DeliveryStatus callback)]"
        by (auto simp: commit_delivery_def Let_def update_where_def split: option.splits)
      show ?thesis
      proof (rule replay)
        show "find ?match (dd_Notifications db') = Some (reported_row callback row)"
          unfolding db'(1) by (subst find_after_update) (simp_all add: row)
        show "find ?event (dd_Events db')
            = Some (callback_event env callback row (pcb_DeliveryStatus callback))"
          unfolding db'(2) by (subst find_append_new [OF None]) (simp add: callback_event_def)
      qed (simp_all add: callback_event_def)
    next
      case False
      with run None have db': "db' = db\<lparr>dd_Events := dd_Events db
          @ [callback_event env callback row (dn_DeliveryStatus row)]\<rparr>"
        by (auto simp: commit_delivery_def split: option.splits)
      show ?thesis
      proof (rule replay)
        show "find ?match (dd_Notifications db') = Some row" by (simp add: db' row)
        show "find ?event (dd_Events db') = Some (callback_event env callback row (dn_DeliveryStatus row))"
          unfolding db' by (simp add: find_append_new [OF None] callback_event_def)
      qed (simp_all add: callback_event_def)
    qed
  qed
qed

end
