(* ===== verification/Delivery_Run.thy ===== *)
theory Delivery_Run
  imports Delivery_Guarantees
begin

text \<open>
  One pass of the worker, the status endpoint and the requeue of an owner against the histories of
  delivery: each is a sequence of its steps, so that what holds in every history holds of the
  program; and a pass that ends without an error leaves none of its notifications in flight.
\<close>

section \<open>The contract of a channel\<close>

text \<open>
  What the worker needs of the resolver it is given: a sender of a resolved channel answers as
  \<open>sender_answer\<close> says.
\<close>

locale delivery_worker =
  fixes resolve :: "string \<Rightarrow> 'w \<Rightarrow> (delivery_error + 'w DeliveryChannel) \<times> 'w"
  assumes answers: "fst (resolve salonID world) = Inr channel \<Longrightarrow> ch_Sender channel = Some send
    \<Longrightarrow> sender_answer (fst (send message world'))"
begin

lemma resolved_answer:
  assumes "resolve salonID world = (resolved, world')" "settle_before_send resolved = None"
  shows "sender_answer (fst (the (ch_Sender (projr resolved)) message world''))"
proof -
  from assms(2) obtain channel send where "resolved = Inr channel" "ch_Sender channel = Some send"
    by (auto simp: settle_before_send_def split: sum.splits if_splits)
  with answers [of salonID world channel send] assms(1) show ?thesis by simp
qed

end

text \<open>
  What the providers are handed: \<open>sent\<close> reads off their world the messages they were given, with the
  answers; resolving a channel gives them none, and a sender gives them its message, once.
\<close>

type_synonym delivery_log = "(OutboundMessage \<times> (send_error + SendResult)) list"

locale logged_delivery = delivery_worker resolve
  for resolve :: "string \<Rightarrow> 'w \<Rightarrow> (delivery_error + 'w DeliveryChannel) \<times> 'w" +
  fixes sent :: "'w \<Rightarrow> delivery_log"
  assumes resolving_sends_nothing: "resolve salonID world = (resolved, world') \<Longrightarrow> sent world' = sent world"
    and sending_sends: "fst (resolve salonID world) = Inr channel \<Longrightarrow> ch_Sender channel = Some send
      \<Longrightarrow> send message w = (answer, w') \<Longrightarrow> sent w' = sent w @ [(message, answer)]"
begin

lemma resolved_sends:
  assumes "resolve salonID world = (resolved, world')" "settle_before_send resolved = None"
    and "the (ch_Sender (projr resolved)) message w = (answer, w')"
  shows "sent w' = sent w @ [(message, answer)]"
proof -
  from assms(2) obtain channel send where "resolved = Inr channel" "ch_Sender channel = Some send"
    by (auto simp: settle_before_send_def split: sum.splits if_splits)
  with sending_sends [of salonID world channel send message w] assms(1,3) show ?thesis by simp
qed

end

definition twilio_resolver ::
  "'w TwilioEnv \<Rightarrow> (string \<Rightarrow> config_error + TwilioMessagingConfig) \<Rightarrow> string \<Rightarrow> 'w
     \<Rightarrow> (delivery_error + 'w DeliveryChannel) \<times> 'w" where
  "twilio_resolver tw configs salonID world = (ResolveDeliveryChannel tw configs salonID, world)"

lemma mapTwilioStatus_state: "provider_state (fst (mapTwilioStatus tw status))"
  by (simp add: mapTwilioStatus_def provider_state_def Let_def)

lemma send_failure_answer:
  "code = ''DELIVERY_OUTCOME_UNKNOWN'' \<or> \<not> ambiguous \<Longrightarrow> sender_answer (send_failure code retry ambiguous)"
  by (auto simp: send_failure_def sender_answer_def)

lemma twilio_answer: "sender_answer (fst (Send tw cfg message world))"
proof -
  have "sender_answer (twilio_response tw response)" for response
  proof (cases "\<exists>res body sid status. response = Inr res \<and> hp_Body res = Inr body
      \<and> \<not> (hp_StatusCode res < 200 \<or> hp_StatusCode res \<ge> 300)
      \<and> tw_ParseMessage tw body = Some (sid, status) \<and> TrimSpace sid \<noteq> []")
    case True
    then obtain res body sid status where "response = Inr res" "hp_Body res = Inr body"
      "\<not> (hp_StatusCode res < 200 \<or> hp_StatusCode res \<ge> 300)"
      "tw_ParseMessage tw body = Some (sid, status)" "TrimSpace sid \<noteq> []" by blast
    with mapTwilioStatus_state [of tw status] show ?thesis
      by (auto simp: twilio_response_def sender_answer_def provider_state_def split: prod.splits)
  next
    case False
    then show ?thesis
      by (auto simp: twilio_response_def split: sum.splits option.splits if_splits intro!: send_failure_answer)
  qed
  then show ?thesis by (auto simp: Send_def split: prod.splits intro!: send_failure_answer)
qed

interpretation twilio: delivery_worker "twilio_resolver tw configs" for tw configs
proof unfold_locales
  fix salonID world channel send message world'
  assume "fst (twilio_resolver tw configs salonID world) = Inr channel" "ch_Sender channel = Some send"
  then obtain cfg where "send = Send tw cfg"
    by (auto simp: twilio_resolver_def ResolveDeliveryChannel_def split: if_splits sum.splits config_error.splits)
  then show "sender_answer (fst (send message world'))" by (simp add: twilio_answer)
qed

section \<open>The log of what was handed over\<close>

text \<open>
  Every processor, whatever its channels do, can be run with a log of the messages its senders are
  handed and of their answers. The log is written and never read: forgetting it gives the processor
  back.
\<close>

definition logging_channel ::
  "'w DeliveryChannel \<Rightarrow> ('w \<times> delivery_log) DeliveryChannel" where
  "logging_channel channel =
     \<lparr>ch_Enabled = ch_Enabled channel, ch_Provider = ch_Provider channel,
      ch_Destination = ch_Destination channel, ch_DestinationMasked = ch_DestinationMasked channel,
      ch_Sender = map_option (\<lambda>send message (world, log). case send message world of
        (answer, world') \<Rightarrow> (answer, (world', log @ [(message, answer)]))) (ch_Sender channel)\<rparr>"

definition logging_resolver ::
  "(string \<Rightarrow> 'w \<Rightarrow> (delivery_error + 'w DeliveryChannel) \<times> 'w) \<Rightarrow> string \<Rightarrow> 'w \<times> delivery_log
     \<Rightarrow> (delivery_error + ('w \<times> delivery_log) DeliveryChannel) \<times> 'w \<times> delivery_log" where
  "logging_resolver resolve salonID = (\<lambda>(world, log). case resolve salonID world of
     (resolved, world') \<Rightarrow> (map_sum id logging_channel resolved, (world', log)))"

definition logging_delivery :: "'w ProcessorEnv \<Rightarrow> ('w \<times> delivery_log) ProcessorEnv" where
  "logging_delivery p = \<lparr>pe_Env = pe_Env p, pe_Clock = pe_Clock p, pe_Cancelled = pe_Cancelled p,
     pe_Resolve = logging_resolver (pe_Resolve p)\<rparr>"

definition forget_delivery_log :: "('w \<times> delivery_log) DeliveryState \<Rightarrow> 'w DeliveryState" where
  "forget_delivery_log state =
     \<lparr>ds_DB = ds_DB state, ds_World = fst (ds_World state), ds_Tick = ds_Tick state\<rparr>"

lemma logging_delivery_simps [simp]:
  "pe_Env (logging_delivery p) = pe_Env p" "pe_Clock (logging_delivery p) = pe_Clock p"
  "pe_Cancelled (logging_delivery p) = pe_Cancelled p"
  "pe_Resolve (logging_delivery p) = logging_resolver (pe_Resolve p)"
  by (simp_all add: logging_delivery_def)

lemma forget_delivery_log_simps [simp]:
  "ds_DB (forget_delivery_log state) = ds_DB state"
  "ds_Tick (forget_delivery_log state) = ds_Tick state"
  "ds_World (forget_delivery_log state) = fst (ds_World state)"
  "(forget_delivery_log state)\<lparr>ds_DB := db, ds_Tick := k\<rparr>
     = forget_delivery_log (state\<lparr>ds_DB := db, ds_Tick := k\<rparr>)"
  "(forget_delivery_log state)\<lparr>ds_Tick := k\<rparr> = forget_delivery_log (state\<lparr>ds_Tick := k\<rparr>)"
  by (simp_all add: forget_delivery_log_def)

lemma logging_channel_simps [simp]:
  "ch_Enabled (logging_channel channel) = ch_Enabled channel"
  "ch_Destination (logging_channel channel) = ch_Destination channel"
  "ch_DestinationMasked (logging_channel channel) = ch_DestinationMasked channel"
  "ch_Sender (logging_channel channel) = None \<longleftrightarrow> ch_Sender channel = None"
  "outbound_message item (logging_channel channel) = outbound_message item channel"
  by (simp_all add: logging_channel_def outbound_message_def)

lemma settle_before_logged [simp]:
  "settle_before_send (map_sum id logging_channel resolved) = settle_before_send resolved"
  "settle_before_send (Inr (logging_channel channel)) = settle_before_send (Inr channel)"
  by (cases resolved) (simp_all add: settle_before_send_def)

lemma transact_delivery_forget:
  "transact operation p (forget_delivery_log state)
     = apsnd forget_delivery_log (transact operation (logging_delivery p) state)"
  by (simp add: transact_def split: prod.splits)

lemma settle_forget:
  "settle p item settlement (forget_delivery_log state)
     = apsnd forget_delivery_log (settle (logging_delivery p) item settlement state)"
  by (simp add: settle_def transact_delivery_forget)

lemma process_item_forget:
  "process_item p item (forget_delivery_log state)
     = apsnd forget_delivery_log (process_item (logging_delivery p) item state)"
proof -
  obtain world log where world: "ds_World state = (world, log)" by fastforce
  obtain resolved world' where resolve: "pe_Resolve p (cn_SalonID item) world = (resolved, world')"
    by fastforce
  define st where "st = state\<lparr>ds_World := (world', log)\<rparr>"
  have st: "(forget_delivery_log state)\<lparr>ds_World := world'\<rparr> = forget_delivery_log st"
    by (simp add: st_def forget_delivery_log_def)
  have logged: "pe_Resolve (logging_delivery p) (cn_SalonID item) (ds_World state)
      = (map_sum id logging_channel resolved, (world', log))"
    by (simp add: logging_resolver_def world resolve)
  have left: "pe_Resolve p (cn_SalonID item) (ds_World (forget_delivery_log state)) = (resolved, world')"
    by (simp add: world resolve)
  show ?thesis
  proof (cases "settle_before_send resolved")
    case (Some settlement)
    then show ?thesis
      unfolding process_item_def left logged
      by (simp add: Let_def st st_def [symmetric] settle_forget del: forget_delivery_log_simps(4,5))
  next
    case None
    then obtain channel send where channel: "resolved = Inr channel" "ch_Sender channel = Some send"
      by (auto simp: settle_before_send_def split: sum.splits if_splits)
    obtain marked mid where mark: "transact (\<lambda>env now. MarkDispatchStarted env now item
        (ch_DestinationMasked channel)) (logging_delivery p) st = (marked, mid)" by fastforce
    then have mark': "transact (\<lambda>env now. MarkDispatchStarted env now item
        (ch_DestinationMasked channel)) p (forget_delivery_log st) = (marked, forget_delivery_log mid)"
      by (simp add: transact_delivery_forget)
    obtain w l where mid: "ds_World mid = (w, l)" by fastforce
    obtain answer w' where send: "send (outbound_message item channel) w = (answer, w')" by fastforce
    have handed: "(forget_delivery_log mid)\<lparr>ds_World := w'\<rparr> = forget_delivery_log
        (mid\<lparr>ds_World := (w', l @ [(outbound_message item channel, answer)])\<rparr>)"
      by (simp add: forget_delivery_log_def)
    have sender: "the (ch_Sender (logging_channel channel)) = (\<lambda>message (world, log).
        case send message world of (answer, world') \<Rightarrow> (answer, (world', log @ [(message, answer)])))"
      by (simp add: logging_channel_def channel)
    show ?thesis
      using None unfolding process_item_def left logged channel(1)
      by (simp add: Let_def st st_def [symmetric] channel sender mark mark' mid send handed settle_forget
          split: sum.splits del: forget_delivery_log_simps(4,5))
  qed
qed

lemma process_items_forget:
  "process_items p n items (forget_delivery_log state)
     = (case process_items (logging_delivery p) n items state of
          (k, err, state') \<Rightarrow> (k, err, forget_delivery_log state'))"
proof (induction items arbitrary: n state)
  case (Cons item items)
  obtain answer mid where item: "process_item (logging_delivery p) item state = (answer, mid)"
    by fastforce
  then have "process_item p item (forget_delivery_log state) = (answer, forget_delivery_log mid)"
    by (simp add: process_item_forget)
  with item Cons.IH [of "n + 1" mid] show ?case by (simp split: option.splits sum.splits)
qed simp

lemma delivery_pass_forget:
  "ProcessOnce p limit (forget_delivery_log state)
     = (case ProcessOnce (logging_delivery p) limit state of
          (k, err, state') \<Rightarrow> (k, err, forget_delivery_log state'))"
proof -
  obtain recovered mid where recover: "recover_pass (logging_delivery p) limit state = (recovered, mid)"
    by fastforce
  then have recover': "recover_pass p limit (forget_delivery_log state)
      = (recovered, forget_delivery_log mid)"
    by (auto simp: recover_pass_def split: prod.splits)
  obtain items mid' where claim: "transact (\<lambda>env now. ClaimBatch env now limit DeliveryLeaseDuration)
      (logging_delivery p) mid = (items, mid')" by fastforce
  then have claim': "transact (\<lambda>env now. ClaimBatch env now limit DeliveryLeaseDuration) p
      (forget_delivery_log mid) = (items, forget_delivery_log mid')"
    by (simp add: transact_delivery_forget)
  show ?thesis
    by (simp add: ProcessOnce_def recover recover' claim claim' process_items_forget split: sum.splits)
qed

interpretation logged_twilio: logged_delivery "logging_resolver (twilio_resolver tw configs)" snd
  for tw configs
proof unfold_locales
  fix salonID and world w :: "'a \<times> delivery_log" and channel send message
  assume "fst (logging_resolver (twilio_resolver tw configs) salonID world) = Inr channel"
    and send: "ch_Sender channel = Some send"
  then obtain inner where inner: "fst (twilio_resolver tw configs salonID (fst world)) = Inr inner"
      "channel = logging_channel inner"
    by (cases "fst (twilio_resolver tw configs salonID (fst world))")
      (auto simp: logging_resolver_def twilio_resolver_def split: prod.splits)
  then obtain send' where "ch_Sender inner = Some send'" "send = (\<lambda>message (world, log).
      case send' message world of (answer, world') \<Rightarrow> (answer, (world', log @ [(message, answer)])))"
    using send by (auto simp: logging_channel_def)
  then show "sender_answer (fst (send message w))"
    using twilio.answers [OF inner(1), of send' message "fst w"] by (auto split: prod.splits)
next
  fix salonID and world world' :: "'a \<times> delivery_log" and resolved
  assume "logging_resolver (twilio_resolver tw configs) salonID world = (resolved, world')"
  then show "snd world' = snd world" by (auto simp: logging_resolver_def split: prod.splits)
next
  fix salonID and world w w' :: "'a \<times> delivery_log" and channel send message answer
  assume "fst (logging_resolver (twilio_resolver tw configs) salonID world) = Inr channel"
    and "ch_Sender channel = Some send" "send message w = (answer, w')"
  then show "snd w' = snd w @ [(message, answer)]"
    by (cases "fst (twilio_resolver tw configs salonID (fst world))")
      (auto simp: logging_resolver_def twilio_resolver_def logging_channel_def split: prod.splits)
qed

text \<open>What the trace says was handed over, with the answers, and the same of the log.\<close>

definition handed_over :: "delivery_event list \<Rightarrow> (string \<times> (send_error + SendResult)) list" where
  "handed_over trace = concat (map (\<lambda>event. case event of
     Handed_Over _ n answer \<Rightarrow> [(n, answer)] | _ \<Rightarrow> []) trace)"

definition delivery_receipt ::
  "OutboundMessage \<times> (send_error + SendResult) \<Rightarrow> string \<times> (send_error + SendResult)" where
  "delivery_receipt entry = (om_NotificationID (fst entry), snd entry)"

lemma handed_over_simps [simp]:
  "handed_over [] = []" "handed_over (trace @ trace') = handed_over trace @ handed_over trace'"
  "handed_over (Handed_Over token n answer # trace) = (n, answer) # handed_over trace"
  "handed_over (map (\<lambda>item. Claimed (cn_ID item)) items) = []"
  "handed_over (answered_failure item answer r) = []"
  "handed_over (reported_failure callback db db') = []" "handed_over [Requeued n] = []"
  by (induction items)
    (auto simp: handed_over_def answered_failure_def reported_failure_def split: option.splits)

definition delivers ::
  "('w \<Rightarrow> delivery_log) \<Rightarrow> DeliverySystem \<Rightarrow> 'w DeliveryState \<Rightarrow> DeliverySystem \<Rightarrow> 'w DeliveryState
     \<Rightarrow> bool" where
  "delivers sent s state s' state' \<longleftrightarrow>
     reaches s s' \<and> sy_DB s' = ds_DB state'
     \<and> (\<exists>new. sent (ds_World state') = sent (ds_World state) @ new
          \<and> handed_over (sy_Trace s') = handed_over (sy_Trace s) @ map delivery_receipt new)"

lemma delivers_silent:
  "reaches s s' \<Longrightarrow> sy_DB s' = ds_DB state' \<Longrightarrow> sent (ds_World state') = sent (ds_World state)
     \<Longrightarrow> handed_over (sy_Trace s') = handed_over (sy_Trace s) \<Longrightarrow> delivers sent s state s' state'"
  by (simp add: delivers_def)

lemma delivers_trans:
  assumes "delivers sent s state s' state'" "delivers sent s' state' s'' state''"
  shows "delivers sent s state s'' state''"
proof -
  obtain new new' where "sent (ds_World state') = sent (ds_World state) @ new"
    "sent (ds_World state'') = sent (ds_World state') @ new'"
    "handed_over (sy_Trace s') = handed_over (sy_Trace s) @ map delivery_receipt new"
    "handed_over (sy_Trace s'') = handed_over (sy_Trace s') @ map delivery_receipt new'"
    using assms unfolding delivers_def by blast
  moreover have "reaches s s''" "sy_DB s'' = ds_DB state''"
    using assms unfolding delivers_def by (auto intro: rtranclp_trans)
  ultimately show ?thesis unfolding delivers_def by (intro conjI exI [of _ "new @ new'"]) auto
qed

section \<open>A pass is a history\<close>

lemma ids_of_transactions:
  assumes "ids_unique db"
  shows "row_changed db n row' db' \<Longrightarrow> ids_unique db'"
  using assms by (simp add: row_changed_def ids_unique_def)

lemma recover_leases_steps:
  assumes "recover_leases env clock k recovered leases (sy_DB s) = (r, db')"
  shows "reaches s (s\<lparr>sy_DB := db'\<rparr>)"
  using assms
proof (induction leases arbitrary: s k recovered)
  case (Cons lease leases)
  obtain answer db1 where run: "recoverExpiredLease env (clock k) lease (sy_DB s) = (answer, db1)" by fastforce
  then have step: "delivery_step s (s\<lparr>sy_DB := db1\<rparr>)" by (rule recover)
  show ?case
  proof (cases answer)
    case (Inl err)
    with Cons.prems run have "db' = db1" by simp
    with step show ?thesis by auto
  next
    case (Inr changed)
    with Cons.prems run have "reaches (s\<lparr>sy_DB := db1\<rparr>) (s\<lparr>sy_DB := db1\<rparr>\<lparr>sy_DB := db'\<rparr>)"
      by (intro Cons.IH) auto
    with step show ?thesis by (auto intro: converse_rtranclp_into_rtranclp)
  qed
qed auto

lemma recover_pass_steps:
  assumes "recover_pass p limit state = (r, state')" "sy_DB s = ds_DB state"
  shows "reaches s (s\<lparr>sy_DB := ds_DB state'\<rparr>)"
proof -
  obtain db' where run: "RecoverExpiredLeases (pe_Env p (ds_Tick state)) (\<lambda>k. pe_Clock p (ds_Tick state + k))
      limit (ds_DB state) = (r, db')" and db': "ds_DB state' = db'"
    using assms(1) by (auto simp: recover_pass_def split: prod.splits)
  show ?thesis
  proof (cases "limit \<le> 0")
    case True
    with run db' have "ds_DB state' = sy_DB s" by (simp add: RecoverExpiredLeases_def assms(2))
    then show ?thesis by simp
  next
    case False
    with run assms(2) have "recover_leases (pe_Env p (ds_Tick state)) (\<lambda>k. pe_Clock p (ds_Tick state + k)) 1 0
        (app_worker_expired_owner_notification_leases limit (pe_Clock p (ds_Tick state + 0)) (ds_DB state))
        (sy_DB s) = (r, db')" by (simp add: RecoverExpiredLeases_def)
    from recover_leases_steps [OF this] show ?thesis by (simp add: db')
  qed
qed

context logged_delivery
begin

lemma process_item_steps:
  assumes ok: "delivery_ok s" and db: "sy_DB s = ds_DB state" and held: "(item, Leased) \<in> sy_Held s"
    and resolver: "pe_Resolve p = resolve"
    and run: "process_item p item state = (r, state')"
  shows "\<exists>s'. delivers sent s state s' state' \<and> sy_Held s - {(item, Leased)} \<subseteq> sy_Held s'"
proof -
  obtain resolved world where resolved: "resolve (cn_SalonID item) (ds_World state) = (resolved, world)"
    by fastforce
  have silent: "sent world = sent (ds_World state)" by (rule resolving_sends_nothing [OF resolved])
  note run = run [unfolded process_item_def resolver resolved prod.case Let_def]
  show ?thesis
  proof (cases "settle_before_send resolved")
    case (Some settlement)
    then have kind: "settlement = Disabled \<or> settlement = Safe_Failure ''DELIVERY_CONFIG_NOT_READY''"
      by (auto simp: settle_before_send_def split: sum.splits if_splits)
    from run Some have "settle p item settlement (state\<lparr>ds_World := world\<rparr>) = (r, state')" by simp
    then obtain env now worker_now
      where settled: "record_settlement env now worker_now item settlement (sy_DB s) = (r, ds_DB state')"
        "ds_World state' = world"
      by (auto simp: settle_def transact_def db split: prod.splits)
    show ?thesis
      by (intro exI conjI delivers_silent r_into_rtranclp, rule settle_unsent [OF held kind settled(1)])
        (auto simp: settled(2) silent)
  next
    case None
    note run = run [unfolded None option.case]
    let ?masked = "ch_DestinationMasked (projr resolved)" and ?tick = "ds_Tick state"
    obtain marked db1 where mark: "MarkDispatchStarted (pe_Env p ?tick) (pe_Clock p ?tick) item ?masked
        (sy_DB s) = (marked, db1)" by fastforce
    show ?thesis
    proof (cases marked)
      case (Inl err)
      from mark delivery_okD(1) [OF ok] have "db1 = sy_DB s"
        by (cases rule: mark_cases) (use Inl in auto)
      moreover from run mark Inl have "ds_DB state' = db1" "ds_World state' = world"
        by (auto simp: transact_def db)
      ultimately show ?thesis by (intro exI [of _ s] conjI delivers_silent) (auto simp: silent)
    next
      case (Inr u)
      define s1 where "s1 = s\<lparr>sy_DB := db1,
          sy_Held := insert (item, Dispatched) (sy_Held s - {(item, Leased)})\<rparr>"
      have s1: "delivery_step s s1"
        unfolding s1_def using mark Inr by (intro dispatch [OF held]) simp
      let ?message = "outbound_message item (projr resolved)"
      obtain got world' where got: "the (ch_Sender (projr resolved)) ?message world = (got, world')"
        by fastforce
      have answer: "sender_answer got"
        using resolved_answer [OF resolved None, of ?message world] got by simp
      have logged: "sent world' = sent (ds_World state) @ [(?message, got)]"
        using resolved_sends [OF resolved None got] silent by simp
      define s2 where "s2 = s1\<lparr>sy_Held := insert (item, Answered got) (sy_Held s1 - {(item, Dispatched)}),
          sy_Trace := sy_Trace s1 @ [Handed_Over (cn_ClaimToken item) (cn_ID item) got]\<rparr>"
      have s2: "delivery_step s1 s2"
        unfolding s2_def by (rule send [OF _ answer]) (simp add: s1_def)
      from run mark Inr got obtain env now worker_now
        where settled: "record_settlement env now worker_now item (settle_after_send got) (sy_DB s2)
          = (r, ds_DB state')" "ds_World state' = world'"
        by (auto simp: transact_def settle_def db s1_def s2_def split: prod.splits)
      have s3: "delivery_step s2 (s2\<lparr>sy_DB := ds_DB state', sy_Held := sy_Held s2 - {(item, Answered got)},
          sy_Trace := sy_Trace s2 @ answered_failure item got r\<rparr>)"
        by (rule settle_sent [OF _ settled(1)]) (simp add: s2_def)
      have alone: "phase = Leased" if "(item, phase) \<in> sy_Held s" for phase
        using delivery_okD(11) [OF ok that held] by simp
      from s1 s2 s3 have "reaches s (s2\<lparr>sy_DB := ds_DB state', sy_Held := sy_Held s2 - {(item, Answered got)},
          sy_Trace := sy_Trace s2 @ answered_failure item got r\<rparr>)" by (meson converse_rtranclp_into_rtranclp r_into_rtranclp)
      then show ?thesis
        unfolding delivers_def
        by (intro exI conjI)
          (auto simp: s1_def s2_def logged settled(2) delivery_receipt_def outbound_message_def dest: alone)
    qed
  qed
qed

lemma process_items_steps:
  assumes "delivery_ok s" "sy_DB s = ds_DB state" "(\<lambda>item. (item, Leased)) ` set items \<subseteq> sy_Held s"
    and "distinct items" "pe_Resolve p = resolve"
    and "process_items p k items state = (processed, err, state')"
  shows "\<exists>s'. delivers sent s state s' state'"
  using assms
proof (induction items arbitrary: s k state)
  case (Cons item items)
  show ?case
  proof (cases "pe_Cancelled p (ds_Tick state)")
    case None
    obtain r state1 where run: "process_item p item state = (r, state1)" by fastforce
    from process_item_steps [OF Cons.prems(1,2) _ Cons.prems(5) run] Cons.prems(3)
    obtain s1 where s1: "delivers sent s state s1 state1" "sy_Held s - {(item, Leased)} \<subseteq> sy_Held s1"
      by auto
    then have reached: "reaches s s1" "sy_DB s1 = ds_DB state1" by (simp_all add: delivers_def)
    show ?thesis
    proof (cases r)
      case (Inl failure)
      with Cons.prems(6) None run s1 show ?thesis by auto
    next
      case (Inr u)
      have "\<exists>s'. delivers sent s1 state1 s' state'"
      proof (rule Cons.IH [OF _ reached(2)])
        show "delivery_ok s1" by (rule reachable_delivery_ok [OF reached(1) Cons.prems(1)])
        show "(\<lambda>item. (item, Leased)) ` set items \<subseteq> sy_Held s1" using Cons.prems(3,4) s1(2) by auto
      qed (use Cons.prems None run Inr in auto)
      then show ?thesis using s1(1) by (blast intro: delivers_trans)
    qed
  next
    case (Some failure)
    with Cons.prems show ?thesis by (intro exI [of _ s] delivers_silent) simp_all
  qed
qed (auto intro: delivers_silent)

lemma pass_steps:
  assumes ok: "delivery_ok s" and db: "sy_DB s = ds_DB state" and resolver: "pe_Resolve p = resolve"
    and run: "ProcessOnce p limit state = (processed, err, state')"
  shows "\<exists>s'. delivers sent s state s' state'"
proof (cases "limit \<le> 0")
  case True
  with run db show ?thesis by (auto simp: ProcessOnce_def intro: delivers_silent)
next
  case False
  note run = run [unfolded ProcessOnce_def if_not_P [OF False]]
  obtain recovered state1 where recovered: "recover_pass p limit state = (recovered, state1)" by fastforce
  define s1 where "s1 = s\<lparr>sy_DB := ds_DB state1\<rparr>"
  have s1: "reaches s s1" "sy_DB s1 = ds_DB state1"
    using recover_pass_steps [OF recovered db] by (simp_all add: s1_def)
  have first: "delivers sent s state s1 state1"
    by (rule delivers_silent [OF s1])
      (use recovered in \<open>auto simp: s1_def recover_pass_def split: prod.splits\<close>)
  have ok1: "delivery_ok s1" by (rule reachable_delivery_ok [OF s1(1) ok])
  show ?thesis
  proof (cases recovered)
    case (Inl failure)
    with run recovered first show ?thesis by auto
  next
    case (Inr count)
    let ?claim = "\<lambda>env now. ClaimBatch env now limit DeliveryLeaseDuration"
    obtain claimed state2 where claimed: "transact ?claim p state1 = (claimed, state2)" by fastforce
    then have claim: "ClaimBatch (pe_Env p (ds_Tick state1)) (pe_Clock p (ds_Tick state1)) limit
        DeliveryLeaseDuration (sy_DB s1) = (claimed, ds_DB state2)"
      by (auto simp: transact_def s1(2) split: prod.splits)
    show ?thesis
    proof (cases claimed)
      case (Inl failure)
      from claim delivery_okD(1) [OF ok1] have "ds_DB state2 = sy_DB s1"
        by (cases rule: claim_cases) (use Inl in auto)
      moreover have "state' = state2" using run recovered Inr claimed Inl by simp
      moreover have "ds_World state2 = ds_World state1"
        using claimed by (auto simp: transact_def split: prod.splits)
      ultimately have "delivers sent s1 state1 s1 state'" by (intro delivers_silent) simp_all
      then show ?thesis using delivers_trans [OF first] by blast
    next
      case (Inr items)
      define s2 where "s2 = s1\<lparr>sy_DB := ds_DB state2, sy_Held := sy_Held s1 \<union> (\<lambda>item. (item, Leased)) ` set items,
          sy_Trace := sy_Trace s1 @ map (\<lambda>item. Claimed (cn_ID item)) items\<rparr>"
      have s2: "reaches s s2" using s1(1) delivery_step.claim [OF claim [unfolded Inr]]
        unfolding s2_def by (rule rtranclp.rtrancl_into_rtrancl)
      have second: "delivers sent s state s2 state2"
        by (rule delivers_silent [OF s2]) (use first claimed recovered in
          \<open>auto simp: s2_def s1_def transact_def recover_pass_def split: prod.splits\<close>)
      from claim delivery_okD(1) [OF ok1] have "distinct (map cn_ID items)"
        by (cases rule: claim_cases) (use Inr in auto)
      then have "distinct items" by (simp add: distinct_map)
      with process_items_steps [of s2 state2 items p 0 processed err state']
        reachable_delivery_ok [OF s2 ok] run recovered \<open>recovered = Inr count\<close> claimed Inr resolver
      obtain s3 where "delivers sent s2 state2 s3 state'" by (auto simp: s2_def)
      with second show ?thesis by (blast intro: delivers_trans)
    qed
  qed
qed

end

section \<open>Callbacks and requeues are histories\<close>

lemma sanitized_code: "sanitizeProviderCode code \<noteq> ''DELIVERY_OUTCOME_UNKNOWN''"
  by (simp add: sanitizeProviderCode_def Let_def)

lemma status_callback_ok: "callback_ok (status_callback tw sha256 params now)"
proof -
  have "provider_state d" if "mapTwilioStatus tw status = (d, rank, known)" for status d rank known
    using mapTwilioStatus_state [of tw status] that by simp
  then show ?thesis
    using sanitized_code by (auto simp: status_callback_def callback_ok_def Let_def split: prod.splits)
qed

lemma status_endpoint_step:
  assumes "Status_endpoint tw env configs verify now params signature (sy_DB s) = (response, db')"
  shows "\<exists>s'. reaches s s' \<and> sy_DB s' = db' \<and> handed_over (sy_Trace s') = handed_over (sy_Trace s)"
proof (cases "db' = sy_DB s")
  case False
  let ?callback = "status_callback tw (dv_SHA256 env) params now"
  from assms False obtain r where "ApplyProviderCallback env now ?callback (sy_DB s) = (r, db')"
    by (auto simp: Status_endpoint_def ApplyProviderCallback_service_def Let_def
        split: if_splits sum.splits prod.splits delivery_error.splits)
  note step = callback [OF status_callback_ok this]
  show ?thesis by (rule exI, rule conjI, rule r_into_rtranclp, rule step) auto
qed auto

lemma requeue_service_step:
  assumes "Requeue env now salonID ownerUserID n req (sy_DB s) = (r, db')"
  shows "\<exists>s'. reaches s s' \<and> sy_DB s' = db' \<and> handed_over (sy_Trace s') = handed_over (sy_Trace s)"
proof (cases "db' = sy_DB s")
  case False
  from assms False obtain r' where "RequeueForOwner env now salonID ownerUserID n (TrimSpace (rqr_ActionKey req))
      (RequeueFingerprint env n) (sy_DB s) = (r', db')"
    by (auto simp: Requeue_def Let_def split: if_splits sum.splits prod.splits)
  note step = requeue [OF this]
  show ?thesis by (rule exI, rule conjI, rule r_into_rtranclp, rule step) auto
qed auto

text \<open>
  C16: The program refines the histories. A pass of the worker with the Twilio channel, with any
  clock, any failure of the database and any answer of the provider, takes a database that is
  reached to one that is reached by going on; what that history hands over, and the answers it
  records, are in order exactly the messages the Twilio sender was given, with its answers, as a log
  that changes nothing else records. A call of the status endpoint with any form and a requeue of an
  owner do the same and hand over nothing. Within the pass no other process takes a step; before and
  after it any may.
\<close>
theorem delivery_program_is_a_history:
  assumes "new_system s\<^sub>0" "reaches s\<^sub>0 s" "sy_DB s = ds_DB state"
    and "pe_Resolve p = twilio_resolver tw configs"
  shows "(case ProcessOnce (logging_delivery p) limit state of (processed, err, state') \<Rightarrow>
      ProcessOnce p limit (forget_delivery_log state) = (processed, err, forget_delivery_log state')
      \<and> (\<exists>s' new. reaches s s' \<and> sy_DB s' = ds_DB state'
           \<and> snd (ds_World state') = snd (ds_World state) @ new
           \<and> handed_over (sy_Trace s') = handed_over (sy_Trace s)
               @ map (\<lambda>(message, answer). (om_NotificationID message, answer)) new))
    \<and> (\<exists>s'. reaches s s' \<and> handed_over (sy_Trace s') = handed_over (sy_Trace s)
      \<and> sy_DB s' = snd (Status_endpoint tw env configs verify now params signature (ds_DB state)))
    \<and> (\<exists>s'. reaches s s' \<and> handed_over (sy_Trace s') = handed_over (sy_Trace s)
      \<and> sy_DB s' = snd (Requeue env now salonID ownerUserID n req (ds_DB state)))"
proof (intro conjI)
  obtain processed err state' where run: "ProcessOnce (logging_delivery p) limit state
      = (processed, err, state')" by (metis prod_cases3)
  have receipt: "delivery_receipt = (\<lambda>(message, answer). (om_NotificationID message, answer))"
    by (auto simp: delivery_receipt_def)
  obtain s' where "delivers snd s state s' state'"
    using logged_twilio.pass_steps [OF reached_ok [OF assms(1,2)] assms(3) _ run] assms(4) by auto
  then show "case ProcessOnce (logging_delivery p) limit state of (processed, err, state') \<Rightarrow>
      ProcessOnce p limit (forget_delivery_log state) = (processed, err, forget_delivery_log state')
      \<and> (\<exists>s' new. reaches s s' \<and> sy_DB s' = ds_DB state'
           \<and> snd (ds_World state') = snd (ds_World state) @ new
           \<and> handed_over (sy_Trace s') = handed_over (sy_Trace s)
               @ map (\<lambda>(message, answer). (om_NotificationID message, answer)) new)"
    unfolding run delivers_def receipt by (auto simp: delivery_pass_forget run)
next
  show "\<exists>s'. reaches s s' \<and> handed_over (sy_Trace s') = handed_over (sy_Trace s)
      \<and> sy_DB s' = snd (Status_endpoint tw env configs verify now params signature (ds_DB state))"
    using status_endpoint_step [of tw env configs verify now params signature s] assms(3)
    by (metis prod.collapse)
next
  show "\<exists>s'. reaches s s' \<and> handed_over (sy_Trace s') = handed_over (sy_Trace s)
      \<and> sy_DB s' = snd (Requeue env now salonID ownerUserID n req (ds_DB state))"
    using requeue_service_step [of env now salonID ownerUserID n req s] assms(3)
    by (metis prod.collapse)
qed

section \<open>A pass that completes\<close>

text \<open>What an operation leaves when it settled the row of one notification and no other.\<close>

definition settles :: "string \<Rightarrow> DeliveryDB \<Rightarrow> DeliveryDB \<Rightarrow> bool" where
  "settles n db db' \<longleftrightarrow> ids_unique db' \<and> (\<forall>m. m \<noteq> n \<longrightarrow> row_of db' m = row_of db m)
     \<and> (\<exists>row. row_of db' n = Some row \<and> dn_DeliveryStatus row \<noteq> StatusDelivering)"

lemma settlesI:
  assumes "ids_unique db" "row_changed db n row db'" "dn_DeliveryStatus row \<noteq> StatusDelivering"
  shows "settles n db db'"
  using assms by (auto simp: settles_def row_changed_def ids_unique_def)

lemma settlement_settles:
  assumes run: "record_settlement env now worker_now item settlement db = (Inr (), db')" and ids: "ids_unique db"
    and answer: "\<And>result. settlement = Accepted result \<Longrightarrow> provider_state (sr_DeliveryStatus result)"
  shows "settles (cn_ID item) db db'"
proof -
  have completed: "settles (cn_ID item) db db'"
    if "completeWithoutProvider env now item status outcome code next_at db = (Inr (), db')"
      "status \<noteq> StatusDelivering" for status outcome code next_at
    using that(1) ids
    by (cases rule: complete_cases) (use that(2) ids in \<open>auto intro!: settlesI simp: completed_row_def\<close>)
  show ?thesis
  proof (cases settlement)
    case (Accepted result)
    with run have "RecordProviderResult env now item result db = (Inr (), db')"
      by (simp add: record_settlement_def)
    then show ?thesis using ids
      by (cases rule: provider_result_cases)
        (use ids provider_state_other(1) [OF answer [OF Accepted]] in \<open>auto intro!: settlesI\<close>)
  next
    case Disabled
    with run show ?thesis
      by (intro completed [of StatusDisabled]) (simp_all add: record_settlement_def RecordDisabled_def)
  next
    case (Outcome_Unknown code)
    with run show ?thesis
      by (intro completed [of StatusDeadLetter]) (simp_all add: record_settlement_def RecordOutcomeUnknown_def)
  next
    case (Definitive_Failure code)
    with run show ?thesis
      by (intro completed [of StatusDeadLetter])
        (simp_all add: record_settlement_def RecordDefinitiveFailure_def)
  next
    case (Safe_Failure code)
    with run have "RecordSafeFailure env now item code (worker_now + SafeRetryDelay (DeliveryAttemptInCycle item))
        db = (Inr (), db')" by (simp add: record_settlement_def)
    from completed [OF this [unfolded safe_failure]] show ?thesis by simp
  qed
qed

lemma mark_keeps_others:
  assumes "MarkDispatchStarted env now item masked db = (Inr (), db')" "ids_unique db"
  shows "ids_unique db' \<and> (\<forall>m. m \<noteq> cn_ID item \<longrightarrow> row_of db' m = row_of db m)"
  using assms
  by (cases rule: mark_cases) (use assms(2) in \<open>auto simp: row_changed_def ids_unique_def\<close>)

lemma settle_settles:
  assumes "settle p item settlement state = (Inr (), state')" "ids_unique (ds_DB state)"
    and "\<And>result. settlement = Accepted result \<Longrightarrow> provider_state (sr_DeliveryStatus result)"
  shows "settles (cn_ID item) (ds_DB state) (ds_DB state')"
proof -
  from assms(1) obtain env now worker_now
    where "record_settlement env now worker_now item settlement (ds_DB state) = (Inr (), ds_DB state')"
    by (auto simp: settle_def transact_def split: prod.splits)
  then show ?thesis by (rule settlement_settles) (use assms(2,3) in auto)
qed

context delivery_worker
begin

lemma process_item_settles:
  assumes ids: "ids_unique (ds_DB state)" and resolver: "pe_Resolve p = resolve"
    and run: "process_item p item state = (Inr (), state')"
  shows "settles (cn_ID item) (ds_DB state) (ds_DB state')"
proof -
  obtain resolved world where resolved: "resolve (cn_SalonID item) (ds_World state) = (resolved, world)"
    by fastforce
  note run = run [unfolded process_item_def resolver resolved prod.case Let_def]
  show ?thesis
  proof (cases "settle_before_send resolved")
    case (Some settlement)
    then have "settlement \<noteq> Accepted result" for result
      by (auto simp: settle_before_send_def split: sum.splits if_splits)
    with run Some settle_settles [of p item settlement "state\<lparr>ds_World := world\<rparr>" state'] ids
    show ?thesis by simp
  next
    case None
    note run = run [unfolded None option.case]
    let ?masked = "ch_DestinationMasked (projr resolved)" and ?tick = "ds_Tick state"
    obtain marked db1 where mark: "MarkDispatchStarted (pe_Env p ?tick) (pe_Clock p ?tick) item ?masked
        (ds_DB state) = (marked, db1)" by fastforce
    with run have marked: "marked = Inr ()" by (cases marked) (auto simp: transact_def)
    let ?message = "outbound_message item (projr resolved)"
    obtain sent world' where sent: "the (ch_Sender (projr resolved)) ?message world = (sent, world')"
      by fastforce
    have "provider_state (sr_DeliveryStatus result)" if "settle_after_send sent = Accepted result" for result
      using resolved_answer [OF resolved None, of ?message world] sent that
      by (auto simp: settle_after_send_def sender_answer_def split: sum.splits send_error.splits if_splits)
    moreover note others = mark_keeps_others [OF mark [unfolded marked] ids]
    moreover obtain state1 where "settle p item (settle_after_send sent) state1 = (Inr (), state')"
      "ds_DB state1 = db1"
      using run mark sent marked by (auto simp: transact_def)
    ultimately have "settles (cn_ID item) db1 (ds_DB state')"
      using settle_settles [of p item "settle_after_send sent" state1 state'] by auto
    with others show ?thesis by (simp add: settles_def)
  qed
qed

lemma process_items_settle:
  assumes "ids_unique (ds_DB state)" "pe_Resolve p = resolve" "distinct (map cn_ID items)"
    and "process_items p k items state = (processed, None, state')"
  shows "processed = k + int (length items)
    \<and> (\<forall>n. n \<notin> cn_ID ` set items \<longrightarrow> row_of (ds_DB state') n = row_of (ds_DB state) n)
    \<and> (\<forall>item \<in> set items. \<exists>row. row_of (ds_DB state') (cn_ID item) = Some row
         \<and> dn_DeliveryStatus row \<noteq> StatusDelivering)"
  using assms
proof (induction items arbitrary: k state)
  case (Cons item items)
  obtain r state1 where run: "process_item p item state = (r, state1)" by fastforce
  with Cons.prems(4) have r: "r = Inr ()" and rest: "process_items p (k + 1) items state1 = (processed, None, state')"
    by (auto split: option.splits sum.splits)
  have settled: "settles (cn_ID item) (ds_DB state) (ds_DB state1)"
    by (rule process_item_settles [OF Cons.prems(1,2) run [unfolded r]])
  with Cons.IH [OF _ Cons.prems(2) _ rest] Cons.prems(3) show ?case by (auto simp: settles_def)
qed simp

end

lemma recover_leases_deliver:
  assumes "recover_leases env clock k recovered leases db = (r, db')" "ids_unique db"
  shows "ids_unique db' \<and> (\<forall>n row. row_of db' n = Some row \<longrightarrow> dn_DeliveryStatus row = StatusDelivering
    \<longrightarrow> row_of db n = Some row)"
  using assms
proof (induction leases arbitrary: db k recovered)
  case (Cons lease leases)
  obtain answer db1 where run: "recoverExpiredLease env (clock k) lease db = (answer, db1)" by fastforce
  have first: "ids_unique db1 \<and> (\<forall>n row. row_of db1 n = Some row \<longrightarrow> dn_DeliveryStatus row = StatusDelivering
    \<longrightarrow> row_of db n = Some row)"
    using run Cons.prems(2)
  proof (cases rule: recover_cases)
    case (2 held)
    let ?row' = "if dn_DispatchStartedAt held = None then expired_before_dispatch (clock k) held
      else expired_after_dispatch (clock k) held"
    have "dn_DeliveryStatus ?row' \<noteq> StatusDelivering"
      by (simp add: expired_before_dispatch_def expired_after_dispatch_def)
    with 2(4) Cons.prems(2) show ?thesis
      by (auto simp: row_changed_def ids_unique_def simp del: if_image_distrib split: if_splits)
  qed (use Cons.prems(2) in simp)
  show ?case
  proof (cases answer)
    case (Inr changed)
    with Cons.prems(1) run Cons.IH first show ?thesis by fastforce
  qed (use Cons.prems(1) run first in auto)
qed simp

text \<open>
  C17: A pass that completes settles what it claimed. When a pass of the worker ends without an
  error, every notification that is being delivered afterwards was being delivered before, with the
  very same row: none of the notifications this pass claimed is left in flight.
\<close>
theorem completed_pass_leaves_nothing_in_flight:
  assumes "ids_unique (ds_DB state)" "pe_Resolve p = twilio_resolver tw configs"
    and "ProcessOnce p limit state = (processed, None, state')"
    and "row_of (ds_DB state') n = Some row" "dn_DeliveryStatus row = StatusDelivering"
  shows "row_of (ds_DB state) n = Some row"
proof -
  have positive: "\<not> limit \<le> 0" using assms(3) by (auto simp: ProcessOnce_def)
  note run = assms(3) [unfolded ProcessOnce_def if_not_P [OF positive]]
  obtain recovered state1 where recovered: "recover_pass p limit state = (recovered, state1)" by fastforce
  with run obtain count where count: "recovered = Inr count" by (cases recovered) auto
  let ?claim = "\<lambda>env now. ClaimBatch env now limit DeliveryLeaseDuration"
  obtain claimed state2 where claimed: "transact ?claim p state1 = (claimed, state2)" by fastforce
  with run recovered count obtain items where items: "claimed = Inr items"
    and rest: "process_items p 0 items state2 = (processed, None, state')" by (cases claimed) auto
  from recovered positive have "recover_leases (pe_Env p (ds_Tick state)) (\<lambda>k. pe_Clock p (ds_Tick state + k)) 1 0
      (app_worker_expired_owner_notification_leases limit (pe_Clock p (ds_Tick state)) (ds_DB state))
      (ds_DB state) = (recovered, ds_DB state1)"
    by (auto simp: recover_pass_def RecoverExpiredLeases_def split: prod.splits)
  note before = recover_leases_deliver [OF this assms(1)]
  from claimed have "ClaimBatch (pe_Env p (ds_Tick state1)) (pe_Clock p (ds_Tick state1)) limit
      DeliveryLeaseDuration (ds_DB state1) = (Inr items, ds_DB state2)"
    by (auto simp: items transact_def split: prod.splits)
  then have "distinct (map cn_ID items) \<and> ids_unique (ds_DB state2)
      \<and> (\<forall>m. m \<notin> cn_ID ` set items \<longrightarrow> row_of (ds_DB state2) m = row_of (ds_DB state1) m)"
    using conjunct1 [OF before]
    by (cases rule: claim_cases) (use conjunct1 [OF before] in \<open>auto simp: ids_unique_def\<close>)
  then have batch: "distinct (map cn_ID items)" "ids_unique (ds_DB state2)"
    "\<And>m. m \<notin> cn_ID ` set items \<Longrightarrow> row_of (ds_DB state2) m = row_of (ds_DB state1) m" by auto
  note settled = twilio.process_items_settle [OF batch(2) assms(2) batch(1) rest]
  have "n \<notin> cn_ID ` set items" using settled assms(4,5) by fastforce
  moreover with settled have "row_of (ds_DB state') n = row_of (ds_DB state2) n" by blast
  ultimately have "row_of (ds_DB state1) n = Some row" using batch(3) assms(4) by simp
  with before assms(5) show ?thesis by blast
qed

end
