(* ===== verification/Delivery_Samples.thy ===== *)
theory Delivery_Samples
  imports Delivery_Run
begin

text \<open>
  Runs of owner-notification delivery on concrete data: a message that is accepted, reported as
  failed, requeued and sent again; a notification whose five leases expire before the hand-over; and
  a pass of the worker.
\<close>

definition sample_row :: "string \<Rightarrow> DeliveryRow" where
  "sample_row n =
     \<lparr>dn_ID = n, dn_SalonID = ''salon'', dn_Type = ''booking_created'', dn_InAppStatus = ''unread'',
      dn_Message = ''New booking'', dn_DeliveryStatus = StatusQueued, dn_NextDeliveryAt = 10,
      dn_DeliveryAttempts = 0, dn_RequeueCount = 0, dn_DeliveryProvider = [],
      dn_DestinationMasked = [], dn_ClaimToken = None, dn_ClaimedAt = None,
      dn_LeaseExpiresAt = None, dn_DispatchStartedAt = None, dn_ProviderMessageID = None,
      dn_ProviderStatus = [], dn_ProviderStatusRank = 0, dn_LastProviderEventAt = None,
      dn_DeliveredAt = None, dn_DeadLetteredAt = None, dn_LastErrorCode = [], dn_LastError = [],
      dn_RedactedAt = None, dn_RedactionVersion = 0, dn_CreatedAt = 5\<rparr>"

definition sample_db :: DeliveryDB where
  "sample_db = \<lparr>dd_Notifications = [sample_row ''n''], dd_Attempts = [], dd_Events = [], dd_Actions = []\<rparr>"

definition sample_env :: "string \<Rightarrow> DeliveryEnv" where
  "sample_env token =
     \<lparr>dv_MayRead = (\<lambda>_ _. True), dv_MayRequeue = (\<lambda>_ _. True),
      dv_UUID = (\<lambda>path. token @ replicate (last path) CHR ''x''), dv_SHA256 = (\<lambda>text. text),
      dv_ClaimLimit = (\<lambda>_. None), dv_Locked = (\<lambda>_. False), dv_Guards = (\<lambda>_ _. None)\<rparr>"

definition sample_system :: DeliverySystem where
  "sample_system = \<lparr>sy_DB = sample_db, sy_Held = {}, sy_Trace = []\<rparr>"

lemma sample_new: "new_system sample_system"
  by (simp add: new_system_def sample_system_def sample_db_def sample_row_def ids_unique_def
      new_notification_def)

section \<open>Steps as functions\<close>

definition claimed_db :: "string \<Rightarrow> gotime \<Rightarrow> DeliveryDB \<Rightarrow> DeliveryDB" where
  "claimed_db token now db = snd (ClaimBatch (sample_env token) now 10 2000000 db)"

definition claimed_items :: "string \<Rightarrow> gotime \<Rightarrow> DeliveryDB \<Rightarrow> ClaimedNotification list" where
  "claimed_items token now db = projr (fst (ClaimBatch (sample_env token) now 10 2000000 db))"

definition dispatched_db :: "gotime \<Rightarrow> ClaimedNotification \<Rightarrow> DeliveryDB \<Rightarrow> DeliveryDB" where
  "dispatched_db now item db = snd (MarkDispatchStarted (sample_env ''d'') now item ''***'' db)"

definition settled_db :: "gotime \<Rightarrow> ClaimedNotification \<Rightarrow> send_error + SendResult \<Rightarrow> DeliveryDB \<Rightarrow> DeliveryDB" where
  "settled_db now item sent db =
     snd (record_settlement (sample_env ''s'') now now item (settle_after_send sent) db)"

definition accepted :: "send_error + SendResult" where
  "accepted = Inr \<lparr>sr_ProviderMessageID = ''SM1'', sr_ProviderStatus = ''queued'',
     sr_DeliveryStatus = StatusProviderAccepted, sr_StatusRank = 10\<rparr>"

definition failed_callback :: ProviderCallback where
  "failed_callback = \<lparr>pcb_Provider = ProviderTwilio, pcb_ProviderMessageID = ''SM1'',
     pcb_ProviderStatus = ''failed'', pcb_StatusRank = 50, pcb_DeliveryStatus = StatusDeadLetter,
     pcb_EventKey = ''twilio-status:E1'', pcb_EventFingerprint = ''f'',
     pcb_ErrorCode = ''TWILIO_30003'', pcb_OccurredAt = 100\<rparr>"

definition d1 :: DeliveryDB where "d1 = claimed_db ''t1'' 20 sample_db"
definition i1 :: ClaimedNotification where "i1 = hd (claimed_items ''t1'' 20 sample_db)"
definition d2 :: DeliveryDB where "d2 = dispatched_db 21 i1 d1"
definition d3 :: DeliveryDB where "d3 = settled_db 22 i1 accepted d2"
definition d4 :: DeliveryDB where "d4 = snd (ApplyProviderCallback (sample_env ''c'') 100 failed_callback d3)"
definition d5 :: DeliveryDB where
  "d5 = snd (RequeueForOwner (sample_env ''r'') 110 ''salon'' ''owner'' ''n'' ''key'' ''fp'' d4)"
definition d6 :: DeliveryDB where "d6 = claimed_db ''t2'' 120 d5"
definition i2 :: ClaimedNotification where "i2 = hd (claimed_items ''t2'' 120 d5)"
definition d7 :: DeliveryDB where "d7 = dispatched_db 121 i2 d6"

lemma run_values:
  "ClaimBatch (sample_env ''t1'') 20 10 2000000 sample_db = (Inr [i1], d1)"
  "MarkDispatchStarted (sample_env ''d'') 21 i1 ''***'' d1 = (Inr (), d2)"
  "record_settlement (sample_env ''s'') 22 22 i1 (settle_after_send accepted) d2 = (Inr (), d3)"
  "ApplyProviderCallback (sample_env ''c'') 100 failed_callback d3 = (Inr (), d4)"
  by code_simp+

lemma rerun_values:
  "RequeueForOwner (sample_env ''r'') 110 ''salon'' ''owner'' ''n'' ''key'' ''fp'' d4
     = (fst (RequeueForOwner (sample_env ''r'') 110 ''salon'' ''owner'' ''n'' ''key'' ''fp'' d4), d5)"
  "ClaimBatch (sample_env ''t2'') 120 10 2000000 d5 = (Inr [i2], d6)"
  "MarkDispatchStarted (sample_env ''d'') 121 i2 ''***'' d6 = (Inr (), d7)"
  by (simp add: d5_def) code_simp+

lemma item_values:
  "cn_ID i1 = ''n''" "cn_ID i2 = ''n''" "cn_ClaimToken i1 = ''t1''" "cn_ClaimToken i2 = ''t2''"
  by code_simp+

lemma callback_values:
  "reported_failure failed_callback d3 d4 = [Failure_Reported ''n'']" "d5 \<noteq> d4"
  "callback_ok failed_callback" "sender_answer accepted" "answered_failure i1 accepted (Inr ()) = []"
  by code_simp+

section \<open>A message that is sent twice\<close>

definition twice_sent :: DeliverySystem where
  "twice_sent = \<lparr>sy_DB = d7, sy_Held = {(i2, Answered accepted)},
     sy_Trace = [Claimed ''n''] @ [Handed_Over ''t1'' ''n'' accepted]
       @ [Failure_Reported ''n'', Requeued ''n'', Claimed ''n''] @ [Handed_Over ''t2'' ''n'' accepted] @ []\<rparr>"

lemma first_delivery:
  "reaches sample_system \<lparr>sy_DB = d3, sy_Held = {},
     sy_Trace = [Claimed ''n'', Handed_Over ''t1'' ''n'' accepted]\<rparr>"
proof -
  let ?s1 = "\<lparr>sy_DB = d1, sy_Held = {(i1, Leased)}, sy_Trace = [Claimed ''n'']\<rparr>"
  let ?s2 = "\<lparr>sy_DB = d2, sy_Held = {(i1, Dispatched)}, sy_Trace = [Claimed ''n'']\<rparr>"
  let ?s3 = "\<lparr>sy_DB = d2, sy_Held = {(i1, Answered accepted)},
      sy_Trace = [Claimed ''n'', Handed_Over ''t1'' ''n'' accepted]\<rparr>"
  have "delivery_step sample_system ?s1"
    using claim [of "sample_env ''t1''" 20 10 2000000 sample_system "[i1]" d1] run_values(1)
    by (simp add: sample_system_def item_values)
  moreover have "delivery_step ?s1 ?s2"
    using dispatch [of i1 ?s1 "sample_env ''d''" 21 "''***''" d2] run_values(2) by simp
  moreover have "delivery_step ?s2 ?s3"
    using send [of i1 ?s2 accepted] callback_values(4) by (simp add: item_values)
  moreover have "delivery_step ?s3 \<lparr>sy_DB = d3, sy_Held = {},
      sy_Trace = [Claimed ''n'', Handed_Over ''t1'' ''n'' accepted]\<rparr>"
    using settle_sent [of i1 accepted ?s3 "sample_env ''s''" 22 22 "Inr ()" d3] run_values(3) callback_values(5)
    by simp
  ultimately show ?thesis by (meson converse_rtranclp_into_rtranclp r_into_rtranclp)
qed

lemma second_delivery: "reaches sample_system twice_sent"
proof -
  let ?trace = "[Claimed ''n'', Handed_Over ''t1'' ''n'' accepted]"
  let ?t3 = "\<lparr>sy_DB = d3, sy_Held = {}, sy_Trace = ?trace\<rparr>"
  let ?t4 = "\<lparr>sy_DB = d4, sy_Held = {}, sy_Trace = ?trace @ [Failure_Reported ''n'']\<rparr>"
  let ?t5 = "\<lparr>sy_DB = d5, sy_Held = {}, sy_Trace = ?trace @ [Failure_Reported ''n'', Requeued ''n'']\<rparr>"
  let ?t6 = "\<lparr>sy_DB = d6, sy_Held = {(i2, Leased)},
      sy_Trace = ?trace @ [Failure_Reported ''n'', Requeued ''n'', Claimed ''n'']\<rparr>"
  let ?t7 = "?t6\<lparr>sy_DB := d7, sy_Held := {(i2, Dispatched)}\<rparr>"
  have "delivery_step ?t3 ?t4"
    using callback [of failed_callback "sample_env ''c''" 100 ?t3 "Inr ()" d4] run_values(4) callback_values(1,3)
    by simp
  moreover have "delivery_step ?t4 ?t5"
    using requeue [of "sample_env ''r''" 110 "''salon''" "''owner''" "''n''" "''key''" "''fp''" ?t4 _ d5]
      rerun_values(1) callback_values(2)
    by simp
  moreover have "delivery_step ?t5 ?t6"
    using claim [of "sample_env ''t2''" 120 10 2000000 ?t5 "[i2]" d6] rerun_values(2)
    by (simp add: item_values)
  moreover have "delivery_step ?t6 ?t7"
    using dispatch [of i2 ?t6 "sample_env ''d''" 121 "''***''" d7] rerun_values(3) by simp
  moreover have "delivery_step ?t7 twice_sent"
    using send [of i2 ?t7 accepted] callback_values(4) by (simp add: item_values twice_sent_def)
  ultimately have "reaches ?t3 twice_sent" by (meson converse_rtranclp_into_rtranclp r_into_rtranclp)
  with first_delivery show ?thesis by (rule rtranclp_trans)
qed

theorem arrived_message_sent_again_only_after_failure_witness:
  "\<exists>rest rest'. [Failure_Reported ''n'', Requeued ''n'', Claimed ''n'']
      = rest @ [Failure_Reported ''n''] @ rest' \<and> Requeued ''n'' \<in> set rest'"
proof (rule arrived_message_sent_again_only_after_failure [OF sample_new second_delivery])
  show "sy_Trace twice_sent = [Claimed ''n''] @ [Handed_Over ''t1'' ''n'' accepted]
      @ [Failure_Reported ''n'', Requeued ''n'', Claimed ''n''] @ [Handed_Over ''t2'' ''n'' accepted] @ []"
    by (simp add: twice_sent_def)
  show "may_have_arrived accepted" by (simp add: may_have_arrived_def accepted_def)
qed

theorem attempts_are_bounded_witness:
  "hand_overs ''n'' (sy_Trace twice_sent) = 2 \<and> claims ''n'' (sy_Trace twice_sent) = 2
    \<and> hand_overs ''n'' (sy_Trace twice_sent) \<le> claims ''n'' (sy_Trace twice_sent)
    \<and> claims ''n'' (sy_Trace twice_sent) \<le> 5 * (requeues ''n'' (sy_Trace twice_sent) + 1)"
proof (intro conjI)
  show "hand_overs ''n'' (sy_Trace twice_sent) = 2" "claims ''n'' (sy_Trace twice_sent) = 2"
    by (simp_all add: twice_sent_def hand_overs_def claims_def)
qed (use attempts_are_bounded [OF sample_new second_delivery] in blast)+

theorem repeated_callback_changes_nothing_witness:
  "ApplyProviderCallback (sample_env ''again'') 500 failed_callback d4 = (Inr (), d4) \<and> d4 \<noteq> d3"
proof
  show "ApplyProviderCallback (sample_env ''again'') 500 failed_callback d4 = (Inr (), d4)"
    by (rule repeated_callback_changes_nothing [OF run_values(4)])
  show "d4 \<noteq> d3" by code_simp
qed

section \<open>Five leases that expire\<close>

text \<open>
  Round \<open>k\<close>: the notification is claimed, and its lease is found expired before the hand-over.
\<close>

definition round_token :: "nat \<Rightarrow> string" where
  "round_token k = replicate k CHR ''t''"

definition round_time :: "nat \<Rightarrow> gotime" where
  "round_time k = 1000000000 * (2 * int k + 1)"

definition round_leased :: "nat \<Rightarrow> DeliveryDB \<Rightarrow> DeliveryDB" where
  "round_leased k db = snd (ClaimBatch (sample_env (round_token k)) (round_time k) 10 2000000 db)"

definition round_lease :: "nat \<Rightarrow> expiredOwnerNotificationLease" where
  "round_lease k = \<lparr>el_id = ''n'', el_salonID = ''salon'', el_token = round_token k, el_dispatched = False\<rparr>"

definition round_lost :: "nat \<Rightarrow> DeliveryDB \<Rightarrow> DeliveryDB" where
  "round_lost k db =
     snd (recoverExpiredLease (sample_env (round_token k)) (round_time k + 1000000000) (round_lease k) db)"

primrec lost :: "nat \<Rightarrow> DeliveryDB" where
  "lost 0 = sample_db"
| "lost (Suc k) = round_lost k (round_leased k (lost k))"

definition round_works :: "nat \<Rightarrow> bool" where
  "round_works k \<longleftrightarrow>
     map_sum id (map cn_ID) (fst (ClaimBatch (sample_env (round_token k)) (round_time k) 10 2000000 (lost k)))
       = Inr [''n'']
     \<and> fst (recoverExpiredLease (sample_env (round_token k)) (round_time k + 1000000000) (round_lease k)
         (round_leased k (lost k))) = Inr True"

lemma rounds_work: "round_works 0" "round_works 1" "round_works 2" "round_works 3" "round_works 4"
  by code_simp+

lemma round_recovers:
  assumes "round_works k"
  shows "recoverExpiredLease (sample_env (round_token k)) (round_time k + 1000000000) (round_lease k)
    (round_leased k (lost k)) = (Inr True, lost (Suc k))"
  using assms by (auto simp: round_works_def round_lost_def prod_eq_iff)

lemma round_steps:
  assumes works: "round_works k" and s: "sy_DB s = lost k" "sy_Held s = {}"
  shows "\<exists>s'. reaches s s' \<and> sy_DB s' = round_leased k (lost k) \<and> sy_Held s' = {}"
    and "sy_DB s' = round_leased k (lost k) \<Longrightarrow> sy_Held s' = {} \<Longrightarrow>
      \<exists>t. reaches s' t \<and> sy_DB t = lost (Suc k) \<and> sy_Held t = {}"
proof -
  obtain item where run: "ClaimBatch (sample_env (round_token k)) (round_time k) 10 2000000 (sy_DB s)
      = (Inr [item], round_leased k (lost k))"
    using works unfolding s(1) round_works_def round_leased_def
    by (cases "ClaimBatch (sample_env (round_token k)) (round_time k) 10 2000000 (lost k)")
      (auto simp: map_sum_def split: sum.splits)
  let ?s1 = "s\<lparr>sy_DB := round_leased k (lost k), sy_Held := sy_Held s \<union> (\<lambda>item. (item, Leased)) ` set [item],
      sy_Trace := sy_Trace s @ map (\<lambda>item. Claimed (cn_ID item)) [item]\<rparr>"
  have "delivery_step s ?s1" by (rule claim [OF run])
  moreover have "delivery_step ?s1 (?s1\<lparr>sy_Held := sy_Held ?s1 - sy_Held ?s1\<rparr>)" by (rule stop)
  ultimately show "\<exists>s'. reaches s s' \<and> sy_DB s' = round_leased k (lost k) \<and> sy_Held s' = {}"
    by (intro exI [of _ "?s1\<lparr>sy_Held := sy_Held ?s1 - sy_Held ?s1\<rparr>"])
      (auto intro: converse_rtranclp_into_rtranclp)
next
  assume s': "sy_DB s' = round_leased k (lost k)" "sy_Held s' = {}"
  from recover [of "sample_env (round_token k)" "round_time k + 1000000000" "round_lease k" s' "Inr True"
      "lost (Suc k)"] round_recovers [OF works]
  have "reaches s' (s'\<lparr>sy_DB := lost (Suc k)\<rparr>)" by (auto simp: s'(1))
  then show "\<exists>t. reaches s' t \<and> sy_DB t = lost (Suc k) \<and> sy_Held t = {}"
    using s'(2) by (intro exI [of _ "s'\<lparr>sy_DB := lost (Suc k)\<rparr>"]) simp
qed

lemma lost_reached:
  assumes "\<And>j. j < k \<Longrightarrow> round_works j"
  shows "\<exists>s. reaches sample_system s \<and> sy_DB s = lost k \<and> sy_Held s = {}"
  using assms
proof (induction k)
  case 0
  then show ?case by (intro exI [of _ sample_system]) (simp add: sample_system_def)
next
  case (Suc k)
  then obtain s where s: "reaches sample_system s" "sy_DB s = lost k" "sy_Held s = {}" by fastforce
  have works: "round_works k" using Suc.prems by simp
  from round_steps(1) [OF works s(2,3)] obtain s' where s': "reaches s s'"
    "sy_DB s' = round_leased k (lost k)" "sy_Held s' = {}" by blast
  from round_steps(2) [OF works s(2,3) s'(2,3)] s(1) s'(1) show ?case by (meson rtranclp_trans)
qed

text \<open>The fifth claim, and what recovery makes of it.\<close>

lemma last_lease_values:
  "map_option (\<lambda>row. (dn_DispatchStartedAt row, dn_DeliveryAttempts row, dn_RequeueCount row))
     (row_of (round_leased 4 (lost 4)) ''n'') = Some (None, 5, 0)"
  "el_id (round_lease 4) = ''n''"
  by code_simp+

theorem expired_last_attempt_is_stranded_witness:
  "\<exists>row'. row_of (lost 5) ''n'' = Some row' \<and> dn_DeliveryStatus row' = StatusFailed
    \<and> (\<forall>later. \<not> claimable MaxSafeDeliveryAttempts later row') \<and> requeue_blocked row'"
proof -
  have works: "round_works j" if "j < 5" for j
    using that rounds_work by (auto simp: less_Suc_eq numeral_eq_Suc)
  obtain s where s: "reaches sample_system s" "sy_DB s = lost 4" "sy_Held s = {}"
    using lost_reached [of 4] works by auto
  obtain s' where s': "reaches s s'" "sy_DB s' = round_leased 4 (lost 4)"
    using round_steps(1) [OF works [of 4] s(2,3)] by auto
  obtain row where row: "row_of (sy_DB s') ''n'' = Some row" "dn_DispatchStartedAt row = None"
    "dn_DeliveryAttempts row = MaxSafeDeliveryAttempts * (dn_RequeueCount row + 1)"
    using last_lease_values(1) unfolding s'(2) [symmetric] by (auto simp: MaxSafeDeliveryAttempts_def)
  have five: "5 = Suc 4" by simp
  have run: "recoverExpiredLease (sample_env (round_token 4)) (round_time 4 + 1000000000) (round_lease 4)
      (sy_DB s') = (Inr True, lost 5)" unfolding s'(2) five by (rule round_recovers) (simp add: works)
  have "sy_DB (s'\<lparr>sy_DB := db\<rparr>) = db" for db by simp
  with expired_last_attempt_is_stranded [OF sample_new rtranclp_trans [OF s(1) s'(1)] row run
      last_lease_values(2) rtranclp.rtrancl_refl] show ?thesis by (simp only:)
qed

section \<open>A pass of the worker\<close>

definition sample_twilio :: "unit TwilioEnv" where
  "sample_twilio =
     \<lparr>tw_NewRequest = (\<lambda>_. True),
      tw_Do = (\<lambda>request world. (Inr \<lparr>hp_StatusCode = 201, hp_Body = Inr ''SM1''\<rparr>, world)),
      tw_ParseMessage = (\<lambda>body. Some (body, ''queued'')), tw_ToLower = (\<lambda>text. text)\<rparr>"

definition sample_config :: "string \<Rightarrow> config_error + TwilioMessagingConfig" where
  "sample_config salonID =
     Inr \<lparr>tc_Enabled = True, tc_OwnerSMSConsentAttested = True,
       tc_OwnerSMSDestination = ''+15550100'', tc_OwnerSMSConsentAt = Some 1, tc_AccountSID = ''AC1'',
       tc_AuthToken = ''secret'', tc_MessagingServiceSID = ''MG1'', tc_SenderPhone = [],
       tc_StatusCallbackURL = ''https://salon.test/status'',
       tc_InboundCallbackURL = ''https://salon.test/inbound''\<rparr>"

definition sample_processor :: "unit ProcessorEnv" where
  "sample_processor =
     \<lparr>pe_Env = (\<lambda>k. sample_env (replicate k CHR ''p'')), pe_Clock = (\<lambda>k. 2000 + int k),
      pe_Cancelled = (\<lambda>k. None), pe_Resolve = twilio_resolver sample_twilio sample_config\<rparr>"

text \<open>Another worker delivers \<open>n\<close> while this pass takes \<open>m\<close>.\<close>

definition busy_db :: DeliveryDB where
  "busy_db = d1\<lparr>dd_Notifications := dd_Notifications d1 @ [sample_row ''m'']\<rparr>"

definition busy_system :: DeliverySystem where
  "busy_system = \<lparr>sy_DB = busy_db, sy_Held = {(i1, Leased)}, sy_Trace = [Claimed ''n'']\<rparr>"

lemma busy_reached: "reaches sample_system busy_system"
proof -
  let ?s1 = "\<lparr>sy_DB = d1, sy_Held = {(i1, Leased)}, sy_Trace = [Claimed ''n'']\<rparr>"
  have "delivery_step sample_system ?s1"
    using claim [of "sample_env ''t1''" 20 10 2000000 sample_system "[i1]" d1] run_values(1)
    by (simp add: sample_system_def item_values)
  moreover have "new_notification (sample_row ''m'')" by (simp add: new_notification_def sample_row_def)
  moreover have "row_of d1 (dn_ID (sample_row ''m'')) = None" by code_simp
  ultimately show ?thesis
    using arrive [of "sample_row ''m''" ?s1]
    by (auto simp: busy_system_def busy_db_def intro: converse_rtranclp_into_rtranclp)
qed

definition pass_state :: "unit DeliveryState" where
  "pass_state = \<lparr>ds_DB = busy_db, ds_World = (), ds_Tick = 0\<rparr>"

definition after_pass :: "unit DeliveryState" where
  "after_pass = snd (snd (ProcessOnce sample_processor 5 pass_state))"

lemma pass_values:
  "fst (ProcessOnce sample_processor 5 pass_state) = 1"
  "fst (snd (ProcessOnce sample_processor 5 pass_state)) = None"
  "map_option dn_DeliveryStatus (row_of (ds_DB after_pass) ''m'') = Some StatusProviderAccepted"
  "map_option dn_DeliveryStatus (row_of (ds_DB after_pass) ''n'') = Some StatusDelivering"
  by code_simp+

lemma pass_run: "ProcessOnce sample_processor 5 pass_state = (1, None, after_pass)"
  using pass_values(1,2) by (simp add: prod_eq_iff after_pass_def)

theorem completed_pass_leaves_nothing_in_flight_witness:
  "\<exists>row. row_of (ds_DB after_pass) ''n'' = Some row \<and> dn_DeliveryStatus row = StatusDelivering
    \<and> row_of busy_db ''n'' = Some row"
proof -
  from pass_values(4) obtain row where row: "row_of (ds_DB after_pass) ''n'' = Some row"
    "dn_DeliveryStatus row = StatusDelivering" by auto
  have "row_of (ds_DB pass_state) ''n'' = Some row"
  proof (rule completed_pass_leaves_nothing_in_flight [OF _ _ pass_run row])
    show "ids_unique (ds_DB pass_state)" by code_simp
  qed (simp add: sample_processor_def)
  with row show ?thesis by (simp add: pass_state_def)
qed

section \<open>A callback and a requeue\<close>

definition sample_form :: "(string \<times> string) list" where
  "sample_form = [(''AccountSid'', ''AC1''), (''MessageSid'', ''SM1''), (''MessageStatus'', ''failed''),
     (''ErrorCode'', ''30003''), (''EventSid'', ''E1'')]"

definition endpoint_result :: "DeliveryDB \<Rightarrow> callback_response \<times> DeliveryDB" where
  "endpoint_result db = Status_endpoint sample_twilio (sample_env ''c'') sample_config (\<lambda>_ _ _ _. True) 100
     sample_form ''signature'' db"

definition logged_state :: "DeliveryDB \<Rightarrow> (unit \<times> delivery_log) DeliveryState" where
  "logged_state db = \<lparr>ds_DB = db, ds_World = ((), []), ds_Tick = 0\<rparr>"

definition logged_pass :: "int \<times> delivery_error option \<times> (unit \<times> delivery_log) DeliveryState" where
  "logged_pass = ProcessOnce (logging_delivery sample_processor) 5 (logged_state busy_db)"

lemma logged_pass_values:
  "map om_NotificationID (map fst (snd (ds_World (snd (snd logged_pass))))) = [''m'']"
  "fst (endpoint_result d3) = NoContent" "snd (endpoint_result d3) \<noteq> d3"
  by code_simp+

theorem delivery_program_is_a_history_witness:
  "(\<exists>s'. reaches busy_system s' \<and> sy_DB s' = ds_DB (snd (snd logged_pass))
      \<and> map fst (handed_over (sy_Trace s')) = [''m''])
    \<and> (\<exists>s'. reaches sample_system s' \<and> sy_DB s' = snd (endpoint_result d3))
    \<and> fst (endpoint_result d3) = NoContent \<and> snd (endpoint_result d3) \<noteq> d3"
proof (intro conjI)
  have resolver: "pe_Resolve sample_processor = twilio_resolver sample_twilio sample_config"
    by (simp add: sample_processor_def)
  have same: "sy_DB busy_system = ds_DB (logged_state busy_db)"
    by (simp add: busy_system_def logged_state_def)
  obtain processed err state' where run: "ProcessOnce (logging_delivery sample_processor) 5
      (logged_state busy_db) = (processed, err, state')" by (metis prod_cases3)
  obtain s' new where reached: "reaches busy_system s'" "sy_DB s' = ds_DB state'"
    and log: "snd (ds_World state') = snd (ds_World (logged_state busy_db)) @ new"
    and trace: "handed_over (sy_Trace s') = handed_over (sy_Trace busy_system)
        @ map (\<lambda>(message, answer). (om_NotificationID message, answer)) new"
    using conjunct1 [OF delivery_program_is_a_history [OF sample_new busy_reached same resolver,
        where limit = 5], unfolded run prod.case] by blast
  have pass: "snd (snd logged_pass) = state'" by (simp only: logged_pass_def run snd_conv)
  have "snd (ds_World (logged_state busy_db)) = []" by (simp only: logged_state_def DeliveryState.simps snd_conv)
  then have new: "snd (ds_World state') = new" using log by (simp only: append_Nil)
  have "map fst (handed_over (sy_Trace s')) = map om_NotificationID (map fst new)"
    unfolding trace by (simp add: busy_system_def handed_over_def case_prod_beta comp_def)
  also have "\<dots> = [''m'']"
    using logged_pass_values(1) unfolding pass new .
  finally have handed: "map fst (handed_over (sy_Trace s')) = [''m'']" .
  show "\<exists>s'. reaches busy_system s' \<and> sy_DB s' = ds_DB (snd (snd logged_pass))
      \<and> map fst (handed_over (sy_Trace s')) = [''m'']"
    unfolding pass by (rule exI [of _ s'], intro conjI reached handed)
  let ?s = "\<lparr>sy_DB = d3, sy_Held = {}, sy_Trace = [Claimed ''n'', Handed_Over ''t1'' ''n'' accepted]\<rparr>"
  have "sy_DB ?s = ds_DB (logged_state d3)" by (simp add: logged_state_def)
  from delivery_program_is_a_history [OF sample_new first_delivery this resolver]
  obtain s'' where "reaches ?s s''" "sy_DB s'' = snd (Status_endpoint sample_twilio (sample_env ''c'')
      sample_config (\<lambda>_ _ _ _. True) 100 sample_form ''signature'' (ds_DB (logged_state d3)))"
    by blast
  then have "reaches sample_system s''" "sy_DB s'' = snd (endpoint_result d3)"
    using rtranclp_trans [OF first_delivery] unfolding endpoint_result_def logged_state_def
    by (simp_all only: DeliveryState.simps)
  then show "\<exists>s'. reaches sample_system s' \<and> sy_DB s' = snd (endpoint_result d3)"
    by (intro exI [of _ s''] conjI)
qed (rule logged_pass_values)+

end
