(* ===== verification/Customer_Types.thy ===== *)
theory Customer_Types
  imports Delivery_Repository Go_Time
begin

text \<open>
  The vocabulary of customer notifications (\<open>modules/customer_notification/types.go\<close>) and its pure
  functions: clock times of quiet hours, destinations, retry delays and the legal changes of a
  consent. The delivery states, protocol bounds and struct shapes that the module repeats from
  \<open>notification_delivery\<close> with the same values are those of \<open>Delivery_Types\<close>.
\<close>

section \<open>Constants\<close>

definition ConsentPending :: string where [go_consts]: "ConsentPending = ''pending''"
definition ConsentConsented :: string where [go_consts]: "ConsentConsented = ''consented''"
definition ConsentDeclined :: string where [go_consts]: "ConsentDeclined = ''declined''"
definition ConsentOptedOut :: string where [go_consts]: "ConsentOptedOut = ''opted_out''"

definition ConsentSourceConversation :: string where [go_consts]:
  "ConsentSourceConversation = ''conversation_explicit''"
definition ConsentSourceOwner :: string where [go_consts]: "ConsentSourceOwner = ''owner_attested''"
definition ConsentSourceTwilio :: string where [go_consts]:
  "ConsentSourceTwilio = ''twilio_advanced_opt_out''"

definition ConsentEventRequested :: string where [go_consts]:
  "ConsentEventRequested = ''consent_requested''"
definition ConsentEventConsented :: string where [go_consts]: "ConsentEventConsented = ''consented''"
definition ConsentEventDeclined :: string where [go_consts]: "ConsentEventDeclined = ''declined''"
definition ConsentEventOptOut :: string where [go_consts]: "ConsentEventOptOut = ''opt_out''"
definition ConsentEventOptIn :: string where [go_consts]: "ConsentEventOptIn = ''opt_in''"
definition ConsentEventHelp :: string where [go_consts]: "ConsentEventHelp = ''help''"

definition StatusQuietHours :: string where [go_consts]: "StatusQuietHours = ''quiet_hours''"
definition StatusSuppressed :: string where [go_consts]: "StatusSuppressed = ''suppressed''"

definition NotificationRequestReceived :: string where [go_consts]:
  "NotificationRequestReceived = ''request_received''"

definition MaxOwnerRequeues :: int where "MaxOwnerRequeues = 1"

lemmas consent_status_defs =
  ConsentPending_def ConsentConsented_def ConsentDeclined_def ConsentOptedOut_def

lemmas consent_source_defs =
  ConsentSourceConversation_def ConsentSourceOwner_def ConsentSourceTwilio_def

section \<open>Errors\<close>

datatype customer_error =
    ErrCustomerValidation
  | ErrCustomerNotFound
  | ErrCustomerConflict
  | ErrCustomerClaimLost
  | ErrDispatchBlocked
  | ErrCustomerRequeueBlocked
  | Delivery_Error delivery_error
  | CustomerDatabaseError string

section \<open>Structs\<close>

record Policy =
  pol_Enabled :: bool
  pol_QuietStart :: string
  pol_QuietEnd :: string
  pol_Timezone :: string
  pol_Version :: int
  pol_Ready :: bool

record UpdatePolicyRequest =
  upr_Enabled :: bool
  upr_QuietStart :: string
  upr_QuietEnd :: string
  upr_ExpectedVersion :: int

record Consent =
  cns_ID :: string
  cns_Status :: string
  cns_DestinationMasked :: string
  cns_Version :: int
  cns_Source :: string
  cns_RequestedAt :: "gotime option"
  cns_ConsentedAt :: "gotime option"
  cns_DeclinedAt :: "gotime option"
  cns_OptedOutAt :: "gotime option"
  cns_UpdatedAt :: gotime

record RecordConversationConsentRequest =
  rcc_SalonID :: string
  rcc_CallSessionID :: string
  rcc_Destination :: string
  rcc_Granted :: bool
  rcc_EventKey :: string
  rcc_EvidenceReference :: string

record AttestConsentRequest =
  acr_Destination :: string
  acr_ActionKey :: string
  acr_Attested :: bool

record InboundOptOut =
  ioo_SalonID :: string
  ioo_From :: string
  ioo_To :: string
  ioo_ConfiguredSender :: string
  ioo_OptOutType :: string
  ioo_ProviderMessageID :: string
  ioo_EventFingerprint :: string

record ClaimedDelivery =
  cd_ID :: string
  cd_SalonID :: string
  cd_ConsentID :: string
  cd_NotificationType :: string
  cd_Body :: string
  cd_Destination :: string
  cd_DestinationMasked :: string
  cd_ConsentVersion :: int
  cd_PolicyVersion :: int
  cd_ClaimToken :: string
  cd_AttemptNumber :: int
  cd_RequeueCount :: int

record DispatchReadiness =
  drd_Eligible :: bool
  drd_ReasonCode :: string
  drd_Timezone :: string
  drd_QuietStart :: string
  drd_QuietEnd :: string
  drd_Now :: gotime

section \<open>Retries\<close>

definition retryDelay :: "int \<Rightarrow> int" where
  "retryDelay attemptInCycle =
     (let attemptInCycle = (if attemptInCycle < 1 then 1 else attemptInCycle);
          shift = attemptInCycle - 1; shift = (if shift > 6 then 6 else shift)
      in SafeRetryBaseDelay * 2 ^ nat shift)"

definition attemptInCycle :: "ClaimedDelivery \<Rightarrow> int" where
  "attemptInCycle item = cd_AttemptNumber item - cd_RequeueCount item * MaxSafeDeliveryAttempts"

section \<open>Clock times\<close>

text \<open>\<open>strings.Split\<close> at a one-character separator.\<close>

fun strings_Split :: "string \<Rightarrow> char \<Rightarrow> string list" where
  "strings_Split [] sep = [[]]"
| "strings_Split (c # cs) sep =
     (if c = sep then [] # strings_Split cs sep
      else (case strings_Split cs sep of part # parts \<Rightarrow> (c # part) # parts | [] \<Rightarrow> [[c]]))"

text \<open>\<open>strconv.Atoi\<close>: an optional sign and decimal digits within 64 bits.\<close>

definition Atoi :: "string \<Rightarrow> int option" where
  "Atoi s =
     (let negative = (s \<noteq> [] \<and> hd s = CHR ''-'');
          body = (if s \<noteq> [] \<and> (hd s = CHR ''-'' \<or> hd s = CHR ''+'') then tl s else s)
      in if body = [] then None
         else
           (case digits_value 0 body of
              None \<Rightarrow> None
            | Some magnitude \<Rightarrow>
                let n = (if negative then - magnitude else magnitude)
                in if - (2 ^ 63) \<le> n \<and> n < 2 ^ 63 then Some n else None))"

definition parseLocalClock :: "string \<Rightarrow> customer_error + int" where
  "parseLocalClock text =
     (case strings_Split (TrimSpace text) CHR '':'' of
        [hours, minutes] \<Rightarrow>
          (case Atoi hours of
             None \<Rightarrow> Inl ErrCustomerValidation
           | Some hour \<Rightarrow>
               if hour < 0 \<or> hour > 23 then Inl ErrCustomerValidation
               else
                 (case Atoi minutes of
                    None \<Rightarrow> Inl ErrCustomerValidation
                  | Some minute \<Rightarrow>
                      if minute < 0 \<or> minute > 59 then Inl ErrCustomerValidation
                      else Inr (hour * 60 + minute)))
      | _ \<Rightarrow> Inl ErrCustomerValidation)"

text \<open>\<open>%02d:%02d\<close>; the code formats what it has parsed, so the number is not negative.\<close>

definition formatLocalClock :: "int \<Rightarrow> string" where
  "formatLocalClock minutes =
     appendInt (nat (minutes div 60)) 2 @ '':'' @ appendInt (nat (minutes mod 60)) 2"

section \<open>Destinations\<close>

abbreviation is_digit :: "char \<Rightarrow> bool" where
  "is_digit c \<equiv> CHR ''0'' \<le> c \<and> c \<le> CHR ''9''"

text \<open>
  The loop over the runes of the trimmed text. A rune outside ASCII and each of its bytes end the
  loop alike, so the loop may run over the bytes.
\<close>

fun scan_destination :: "nat \<Rightarrow> int \<Rightarrow> string \<Rightarrow> string \<Rightarrow> string option" where
  "scan_destination index plusCount digits [] = Some digits"
| "scan_destination index plusCount digits (char # chars) =
     (if is_digit char then scan_destination (Suc index) plusCount (digits @ [char]) chars
      else if char = CHR ''+''
      then (if index \<noteq> 0 \<or> plusCount + 1 > 1 then None
            else scan_destination (Suc index) (plusCount + 1) digits chars)
      else if char \<in> {CHR '' '', CHR ''('', CHR '')'', CHR ''.'', CHR ''-''}
      then scan_destination (Suc index) plusCount digits chars
      else None)"

definition NormalizeDestination :: "string \<Rightarrow> string" where
  "NormalizeDestination text =
     (let trimmed = TrimSpace text in
      case scan_destination 0 0 [] trimmed of
        None \<Rightarrow> []
      | Some digits \<Rightarrow>
          if prefix ''+'' trimmed \<and> length digits \<ge> 8 \<and> length digits \<le> 15
             \<and> digits ! 0 \<noteq> CHR ''0''
          then ''+'' @ digits
          else if length digits = 10 \<and> CHR ''2'' \<le> digits ! 0 \<and> digits ! 0 \<le> CHR ''9''
          then ''+1'' @ digits
          else if length digits = 11 \<and> digits ! 0 = CHR ''1''
             \<and> CHR ''2'' \<le> digits ! 1 \<and> digits ! 1 \<le> CHR ''9''
          then ''+'' @ digits
          else [])"

fun validIdentity :: "string list \<Rightarrow> bool" where
  "validIdentity [] \<longleftrightarrow> True"
| "validIdentity (text # texts) \<longleftrightarrow> TrimSpace text \<noteq> [] \<and> validIdentity texts"

section \<open>Changes of a consent\<close>

definition legalConsentTransition :: "string \<Rightarrow> string \<Rightarrow> string \<Rightarrow> string \<Rightarrow> bool" where
  "legalConsentTransition current next_status source eventType =
     (if next_status = ConsentOptedOut
      then source = ConsentSourceTwilio \<and> eventType = ConsentEventOptOut
      else if current = ConsentOptedOut
      then next_status = ConsentConsented \<and> source = ConsentSourceTwilio
           \<and> eventType = ConsentEventOptIn
      else if current \<in> {[], ConsentPending, ConsentDeclined}
      then next_status \<in> {ConsentPending, ConsentConsented, ConsentDeclined}
      else if current = ConsentConsented then next_status = ConsentConsented
      else False)"

text \<open>The four times of a new row: requested, consented, declined, opted out.\<close>

definition consentTimestamps ::
  "string \<Rightarrow> gotime \<Rightarrow> gotime option \<times> gotime option \<times> gotime option \<times> gotime option" where
  "consentTimestamps status now =
     (if status = ConsentPending then (Some now, None, None, None)
      else if status = ConsentConsented then (None, Some now, None, None)
      else if status = ConsentDeclined then (None, None, Some now, None)
      else if status = ConsentOptedOut then (None, None, None, Some now)
      else (None, None, None, None))"

end
