(* ===== verification/Customer_Quiet_Hours.thy ===== *)
theory Customer_Quiet_Hours
  imports Customer_Types
begin

text \<open>
  Quiet hours of customer notifications (\<open>modules/customer_notification/quiet_hours.go\<close>): when a
  message may be sent that would reach the customer at night. \<open>time.LoadLocation\<close> is the parameter
  \<open>load\<close>. The second half shows that in a stretch of time without a change of offset the
  function returns exactly the end of the quiet interval that contains the given instant.
\<close>

section \<open>The search for a minute of the wall clock\<close>

definition local_clock :: "Location \<Rightarrow> gotime \<Rightarrow> int" where
  "local_clock loc t = local_hour loc t * 60 + local_minute loc t"

text \<open>
  The loop body over the instants of the window: the exact matches are collected, and the first
  later minute is kept (\<open>0\<close> is the zero time, for which \<open>IsZero\<close> holds).
\<close>

fun scan_minutes ::
  "Location \<Rightarrow> civil \<Rightarrow> int \<Rightarrow> gotime list \<Rightarrow> gotime \<Rightarrow> gotime list \<Rightarrow> gotime list \<times> gotime" where
  "scan_minutes loc date target exact firstAfter [] = (exact, firstAfter)"
| "scan_minutes loc date target exact firstAfter (instant # instants) =
     (if local_civil loc instant \<noteq> date
      then scan_minutes loc date target exact firstAfter instants
      else
        let minute = local_clock loc instant in
        if minute = target
        then scan_minutes loc date target (exact @ [instant]) firstAfter instants
        else if minute > target \<and> firstAfter = 0
        then scan_minutes loc date target exact instant instants
        else scan_minutes loc date target exact firstAfter instants)"

text \<open>The instants from 18 hours before noon of the date to 18 hours after it, a minute apart.\<close>

definition window :: "gotime \<Rightarrow> gotime list" where
  "window anchor =
     map (\<lambda>k. anchor - 1080 * ns_per_minute + int k * ns_per_minute) [0..<2161]"

definition resolveLocalWallMinute ::
  "Location \<Rightarrow> civil \<Rightarrow> int \<Rightarrow> customer_error + gotime" where
  "resolveLocalWallMinute loc date targetMinute =
     (case scan_minutes loc date targetMinute [] 0 (window (Date_in date 12 0 loc)) of
        (exact, firstAfter) \<Rightarrow>
          if exact \<noteq> [] then Inr (last exact)
          else if firstAfter \<noteq> 0 then Inr firstAfter
          else Inl ErrCustomerValidation)"

text \<open>\<open>t.AddDate(0, 0, 1)\<close> for a time \<open>t\<close> without seconds.\<close>

definition AddDay :: "Location \<Rightarrow> gotime \<Rightarrow> gotime" where
  "AddDay loc t =
     Date_in (civil_of_days (days_of_civil (local_civil loc t) + 1)) (local_hour loc t)
       (local_minute loc t) loc"

definition quietHoursEnd ::
  "(string \<Rightarrow> Location option) \<Rightarrow> gotime \<Rightarrow> string \<Rightarrow> string \<Rightarrow> string
     \<Rightarrow> customer_error + gotime option" where
  "quietHoursEnd load now timezone quietStart quietEnd =
     (case load (TrimSpace timezone) of
        None \<Rightarrow> Inl ErrCustomerValidation
      | Some loc \<Rightarrow>
          (case parseLocalClock quietStart of
             Inl err \<Rightarrow> Inl err
           | Inr start \<Rightarrow>
               (case parseLocalClock quietEnd of
                  Inl _ \<Rightarrow> Inl ErrCustomerValidation
                | Inr end_minute \<Rightarrow>
                    if start = end_minute then Inl ErrCustomerValidation
                    else
                      let clock = local_clock loc now;
                          midnight = Date_in (local_civil loc now) 0 0 loc;
                          quiet = (if start < end_minute then clock \<ge> start \<and> clock < end_minute
                                   else clock \<ge> start \<or> clock < end_minute);
                          endDate = (if \<not> start < end_minute \<and> clock \<ge> start
                                     then AddDay loc midnight else midnight)
                      in if \<not> quiet then Inr None
                         else map_sum id Some
                           (resolveLocalWallMinute loc (local_civil loc endDate) end_minute))))"

section \<open>What the scan finds\<close>

lemma scan_minutes_spec:
  "scan_minutes loc date target exact firstAfter instants =
     (exact @ filter (\<lambda>t. local_civil loc t = date \<and> local_clock loc t = target) instants,
      if firstAfter \<noteq> 0 then firstAfter
      else (case find (\<lambda>t. local_civil loc t = date \<and> local_clock loc t > target \<and> t \<noteq> 0) instants of
              None \<Rightarrow> 0 | Some t \<Rightarrow> t))"
  by (induction instants arbitrary: exact firstAfter) (auto simp: Let_def)

text \<open>The wall clock as the number of minutes since day 0.\<close>

definition wall_minutes :: "Location \<Rightarrow> gotime \<Rightarrow> int" where
  "wall_minutes loc t = wall_seconds loc t div 60"

lemma split_mod:
  fixes w :: int
  assumes "0 < b" "0 < c"
  shows "w mod (b * c) div b = w div b mod c"
  using assms zmod_zmult2_eq [of c w b] by (intro int_div_pos_eq [where r = "w mod b"]) simp_all

lemma local_clock_eq: "local_clock loc t = wall_minutes loc t mod 1440"
proof -
  define w m where "w = wall_seconds loc t" and "m = w div 60"
  have hour: "w mod 86400 div 3600 = w div 3600 mod 24" using split_mod [of 3600 24 w] by simp
  have minute: "w mod 3600 div 60 = m mod 60" using split_mod [of 60 60 w] by (simp add: m_def)
  have m: "w div 3600 = m div 60" using zdiv_zmult2_eq [of 60 w 60] by (simp add: m_def)
  have "m mod 1440 = 60 * (m div 60 mod 24) + m mod 60" using zmod_zmult2_eq [of 24 m 60] by simp
  then show ?thesis
    unfolding local_clock_def local_hour_def local_minute_def wall_minutes_def w_def [symmetric]
      hour minute m m_def [symmetric] by linarith
qed

lemma local_day_eq: "wall_seconds loc t div 86400 = wall_minutes loc t div 1440"
  using zdiv_zmult2_eq [of 1440 "wall_seconds loc t" 60] by (simp add: wall_minutes_def)

lemma local_civil_eq: "local_civil loc t = civil_of_days (wall_minutes loc t div 1440)"
  by (simp add: local_civil_def local_day_eq)

lemma civil_of_days_inject [simp]: "civil_of_days m = civil_of_days n \<longleftrightarrow> m = n"
  by (metis days_of_civil_of_days)

lemma local_clock_range: "0 \<le> local_clock loc t" "local_clock loc t < 1440"
  by (simp_all add: local_clock_eq)

lemma minute_of_day_iff:
  fixes w n m :: int
  assumes "0 \<le> m" "m < 1440"
  shows "w div 1440 = n \<and> w mod 1440 = m \<longleftrightarrow> w = n * 1440 + m"
proof
  assume "w div 1440 = n \<and> w mod 1440 = m"
  then show "w = n * 1440 + m" using div_mult_mod_eq [of w 1440] by simp
next
  assume "w = n * 1440 + m"
  with assms show "w div 1440 = n \<and> w mod 1440 = m" by simp
qed

lemma shows_minute_iff:
  assumes "0 \<le> m" "m < 1440"
  shows "local_civil loc t = civil_of_days n \<and> local_clock loc t = m
     \<longleftrightarrow> wall_minutes loc t = n * 1440 + m"
  unfolding local_civil_eq local_clock_eq civil_of_days_inject by (rule minute_of_day_iff [OF assms])

lemma wall_minutes_split: "wall_minutes loc t = days_of_civil (local_civil loc t) * 1440 + local_clock loc t"
  unfolding local_civil_eq local_clock_eq by simp

section \<open>Quiet intervals\<close>

definition quiet_at :: "Location \<Rightarrow> int \<Rightarrow> int \<Rightarrow> gotime \<Rightarrow> bool" where
  "quiet_at loc start end_minute t \<longleftrightarrow>
     (if start < end_minute then start \<le> local_clock loc t \<and> local_clock loc t < end_minute
      else start \<le> local_clock loc t \<or> local_clock loc t < end_minute)"

text \<open>The offset of the zone does not change within five days of an instant.\<close>

definition ns_per_day :: int where "ns_per_day = 1440 * ns_per_minute"

definition steady_offset :: "Location \<Rightarrow> int \<Rightarrow> gotime \<Rightarrow> bool" where
  "steady_offset loc offset now \<longleftrightarrow>
     \<bar>offset\<bar> < 86400 \<and> (\<forall>t. \<bar>t - now\<bar> \<le> 5 * ns_per_day \<longrightarrow> loc t = offset)"

lemma steady_offsetD:
  "steady_offset loc offset now \<Longrightarrow> \<bar>t - now\<bar> \<le> 5 * ns_per_day \<Longrightarrow> loc t = offset"
  by (simp add: steady_offset_def)

text \<open>The instant at which a zone with the given offset shows a minute.\<close>

definition instant_of :: "int \<Rightarrow> int \<Rightarrow> gotime" where
  "instant_of offset minutes = (minutes * 60 - offset) * ns_per_second"

lemma wall_minutes_steady:
  "loc t = offset \<Longrightarrow> wall_minutes loc t = (t div ns_per_second + offset) div 60"
  by (simp add: wall_minutes_def wall_seconds_def)

lemma wall_minutes_bounds:
  assumes "loc t = offset"
  shows "instant_of offset (wall_minutes loc t) \<le> t"
    and "t < instant_of offset (wall_minutes loc t + 1)"
proof -
  define q where "q = t div 1000000000"
  have "1000000000 * q \<le> t" "t < 1000000000 * q + 1000000000"
    unfolding q_def by (rule div_bounds, simp)+
  moreover have "60 * ((q + offset) div 60) \<le> q + offset" "q + offset < 60 * ((q + offset) div 60) + 60"
    by (rule div_bounds, simp)+
  ultimately show "instant_of offset (wall_minutes loc t) \<le> t"
    "t < instant_of offset (wall_minutes loc t + 1)"
    using assms
    by (simp_all add: instant_of_def wall_minutes_steady ns_per_second_def q_def [symmetric])
qed

lemma wall_minutes_instant [simp]:
  "loc (instant_of offset m) = offset \<Longrightarrow> wall_minutes loc (instant_of offset m) = m"
  by (simp add: wall_minutes_steady instant_of_def ns_per_second_def)

lemma instant_of_less_iff: "instant_of offset m < instant_of offset n \<longleftrightarrow> m < n"
  by (simp add: instant_of_def ns_per_second_def)

lemma instant_of_add: "instant_of offset (m + k) = instant_of offset m + k * ns_per_minute"
  by (simp add: instant_of_def ns_per_second_def ns_per_minute_def algebra_simps)


lemma Date_UTC_minutes_of: "Date_UTC c h mi = instant_of 0 (days_of_civil c * 1440 + h * 60 + mi)"
  by (simp add: Date_UTC_def instant_of_def ns_per_second_def)

lemma Date_in_steady:
  assumes "loc (instant_of 0 m) = offset" "loc (instant_of offset m) = offset"
    "m = days_of_civil c * 1440 + h * 60 + mi"
  shows "Date_in c h mi loc = instant_of offset m"
proof -
  have "instant_of 0 m - offset * ns_per_second = instant_of offset m"
    by (simp add: instant_of_def algebra_simps)
  with assms show ?thesis by (auto simp: Date_in_def Date_UTC_minutes_of Let_def)
qed

text \<open>Instants that show a minute close to that of \<open>now\<close> are close to \<open>now\<close>.\<close>

lemma steady_near:
  assumes "steady_offset loc offset now" "\<bar>m - wall_minutes loc now\<bar> \<le> 5000"
  shows "loc (instant_of 0 m) = offset" and "loc (instant_of offset m) = offset"
proof -
  have o: "\<bar>offset\<bar> < 86400" and "loc now = offset"
    using assms(1) by (auto simp: steady_offset_def ns_per_day_def ns_per_minute_def)
  then have b: "instant_of offset (wall_minutes loc now) \<le> now"
    "now < instant_of offset (wall_minutes loc now + 1)"
    by (simp_all add: wall_minutes_bounds)
  define W where "W = wall_minutes loc now"
  have "\<bar>instant_of 0 m - now\<bar> \<le> 5 * ns_per_day" "\<bar>instant_of offset m - now\<bar> \<le> 5 * ns_per_day"
    using b assms(2) o
    by (simp_all add: instant_of_def ns_per_second_def ns_per_day_def ns_per_minute_def
        W_def [symmetric])
  with assms(1) show "loc (instant_of 0 m) = offset" "loc (instant_of offset m) = offset"
    by (auto dest: steady_offsetD)
qed

lemma filter_eq_upt: "k < n \<Longrightarrow> filter (\<lambda>i. i = k) [0..<n] = [k]"
  by (induction n) (auto simp: less_Suc_eq)

text \<open>Where the offset is steady, every minute of the date exists exactly once.\<close>

lemma resolve_steady:
  assumes steady: "steady_offset loc offset now" and near: "\<bar>day * 1440 - wall_minutes loc now\<bar> \<le> 3000"
    and m: "0 \<le> m" "m < 1440"
  shows "resolveLocalWallMinute loc (civil_of_days day) m = Inr (instant_of offset (day * 1440 + m))"
proof -
  let ?date = "civil_of_days day"
  have same: "loc (instant_of offset (day * 1440 + i)) = offset"
    "loc (instant_of 0 (day * 1440 + i)) = offset" if "\<bar>i\<bar> \<le> 2000" for i
    using steady_near [OF steady] near that by simp_all
  have "Date_in ?date 12 0 loc = instant_of offset (day * 1440 + 720)"
    by (rule Date_in_steady) (simp_all add: same)
  then have "window (Date_in ?date 12 0 loc)
      = map (\<lambda>k. instant_of offset (day * 1440 + (int k - 360))) [0..<2161]"
    unfolding window_def by (intro map_cong) (simp_all del: upt_rec_numeral add: instant_of_def ns_per_minute_def
        ns_per_second_def algebra_simps)
  moreover have "local_civil loc (instant_of offset (day * 1440 + (int k - 360))) = ?date
      \<and> local_clock loc (instant_of offset (day * 1440 + (int k - 360))) = m
      \<longleftrightarrow> k = nat (m + 360)" if "k < 2161" for k
    unfolding shows_minute_iff [OF m] using that m same [of "int k - 360"] by auto
  then have "filter (\<lambda>k. local_civil loc (instant_of offset (day * 1440 + (int k - 360))) = ?date
        \<and> local_clock loc (instant_of offset (day * 1440 + (int k - 360))) = m) [0..<2161]
      = filter (\<lambda>k. k = nat (m + 360)) [0..<2161]"
    by (intro filter_cong) (simp_all del: upt_rec_numeral)
  ultimately have "filter (\<lambda>t. local_civil loc t = ?date \<and> local_clock loc t = m)
      (window (Date_in ?date 12 0 loc))
      = map (\<lambda>k. instant_of offset (day * 1440 + (int k - 360)))
          (filter (\<lambda>k. k = nat (m + 360)) [0..<2161])"
    by (simp del: upt_rec_numeral add: filter_map o_def)
  also have "\<dots> = [instant_of offset (day * 1440 + m)]"
    using m by (simp del: upt_rec_numeral add: filter_eq_upt)
  finally show ?thesis by (simp add: resolveLocalWallMinute_def scan_minutes_spec)
qed


section \<open>The end of the quiet hours\<close>

lemma parseLocalClock_range:
  "parseLocalClock text = Inr m \<Longrightarrow> 0 \<le> m" "parseLocalClock text = Inr m \<Longrightarrow> m < 1440"
  by (auto simp: parseLocalClock_def split: list.splits option.splits if_splits)

text \<open>The midnight of the local date, and the one after it.\<close>

lemma midnight_steady:
  assumes "steady_offset loc offset now"
  shows "Date_in (local_civil loc now) 0 0 loc
    = instant_of offset (wall_minutes loc now div 1440 * 1440)"
proof (rule Date_in_steady)
  have "\<bar>wall_minutes loc now div 1440 * 1440 - wall_minutes loc now\<bar> \<le> 5000"
    using div_bounds [of 1440 "wall_minutes loc now"] by (simp add: mult.commute)
  from steady_near [OF assms this]
  show "loc (instant_of 0 (wall_minutes loc now div 1440 * 1440)) = offset"
    "loc (instant_of offset (wall_minutes loc now div 1440 * 1440)) = offset" .
qed (simp add: local_civil_eq)

lemma local_clock_zero:
  "local_clock loc t = 0 \<Longrightarrow> local_hour loc t = 0" "local_clock loc t = 0 \<Longrightarrow> local_minute loc t = 0"
  using pos_mod_sign [of 3600 "wall_seconds loc t"]
  by (auto simp: local_clock_def local_hour_def local_minute_def pos_imp_zdiv_nonneg_iff
      add_nonneg_eq_0_iff)

lemma AddDay_steady:
  assumes "steady_offset loc offset now" "\<bar>day * 1440 - wall_minutes loc now\<bar> \<le> 2000"
  shows "AddDay loc (instant_of offset (day * 1440)) = instant_of offset ((day + 1) * 1440)"
proof -
  have "loc (instant_of offset (day * 1440)) = offset" using steady_near [OF assms(1)] assms(2) by simp
  then have "wall_minutes loc (instant_of offset (day * 1440)) = day * 1440" by simp
  then have "local_civil loc (instant_of offset (day * 1440)) = civil_of_days day"
    "local_clock loc (instant_of offset (day * 1440)) = 0"
    by (simp_all add: local_civil_eq local_clock_eq)
  moreover from this(2) have "local_hour loc (instant_of offset (day * 1440)) = 0"
    "local_minute loc (instant_of offset (day * 1440)) = 0" by (rule local_clock_zero)+
  ultimately show ?thesis
    unfolding AddDay_def using steady_near [OF assms(1), of "(day + 1) * 1440"] assms(2)
    by (auto intro!: Date_in_steady simp: algebra_simps)
qed


text \<open>
  The minute on which the quiet interval of \<open>now\<close> ends, counted like \<open>wall_minutes\<close>: on the local
  date, or on the next one when the quiet hours began today and run over midnight.
\<close>

definition end_of_quiet :: "int \<Rightarrow> int \<Rightarrow> int \<Rightarrow> int" where
  "end_of_quiet start end_minute minutes =
     (if \<not> start < end_minute \<and> start \<le> minutes mod 1440 then minutes div 1440 + 1
      else minutes div 1440) * 1440 + end_minute"

lemma quietHoursEnd_steady:
  assumes zone: "load (TrimSpace timezone) = Some loc"
    and clocks: "parseLocalClock quietStart = Inr start" "parseLocalClock quietEnd = Inr end_minute"
      "start \<noteq> end_minute"
    and steady: "steady_offset loc offset now"
  shows "quietHoursEnd load now timezone quietStart quietEnd =
     Inr (if quiet_at loc start end_minute now
          then Some (instant_of offset (end_of_quiet start end_minute (wall_minutes loc now)))
          else None)"
proof -
  define M day where "M = wall_minutes loc now" and "day = M div 1440"
  have M: "day * 1440 \<le> M" "M < day * 1440 + 1440"
    using div_bounds [of 1440 M] by (simp_all add: day_def mult.commute)
  have e: "0 \<le> end_minute" "end_minute < 1440" using parseLocalClock_range [OF clocks(2)] by simp_all
  have midnight: "Date_in (local_civil loc now) 0 0 loc = instant_of offset (day * 1440)"
    using midnight_steady [OF steady] by (simp add: M_def day_def)
  have next_midnight: "AddDay loc (instant_of offset (day * 1440)) = instant_of offset ((day + 1) * 1440)"
    by (rule AddDay_steady [OF steady]) (use M in \<open>simp add: M_def\<close>)
  have "loc (instant_of offset (day * 1440)) = offset" "loc (instant_of offset ((day + 1) * 1440)) = offset"
    using steady_near [OF steady, folded M_def] M by simp_all
  then have date: "local_civil loc (instant_of offset (day * 1440)) = civil_of_days day"
    "local_civil loc (instant_of offset ((day + 1) * 1440)) = civil_of_days (day + 1)"
    by (simp_all add: local_civil_eq)
  have resolve: "resolveLocalWallMinute loc (civil_of_days d) end_minute
      = Inr (instant_of offset (d * 1440 + end_minute))" if "d = day \<or> d = day + 1" for d
    by (rule resolve_steady [OF steady _ e]) (use M that in \<open>auto simp: M_def\<close>)
  have clock: "local_clock loc now = M mod 1440" by (simp add: local_clock_eq M_def)
  show ?thesis
    using clocks(3)
    by (simp add: quietHoursEnd_def zone clocks(1,2) Let_def midnight next_midnight date resolve
        quiet_at_def clock end_of_quiet_def M_def [symmetric] day_def [symmetric]
        del: distrib_right_numeral)
qed

lemma wall_minutes_interval:
  assumes "\<And>t. now \<le> t \<Longrightarrow> t < instant_of offset m \<Longrightarrow> loc t = offset"
    "now \<le> t" "t < instant_of offset m"
  shows "wall_minutes loc now \<le> wall_minutes loc t" and "wall_minutes loc t < m"
proof -
  have loc: "loc now = offset" "loc t = offset" using assms by auto
  have "instant_of offset (wall_minutes loc now) < instant_of offset (wall_minutes loc t + 1)"
    "instant_of offset (wall_minutes loc t) < instant_of offset m"
    using wall_minutes_bounds [of loc, OF loc(1)] wall_minutes_bounds [of loc, OF loc(2)] assms(2,3)
    by linarith+
  then show "wall_minutes loc now \<le> wall_minutes loc t" "wall_minutes loc t < m"
    unfolding instant_of_less_iff by simp_all
qed

lemma quiet_until_end:
  assumes "0 \<le> start" "start < 1440" "0 \<le> e" "e < 1440" "start \<noteq> e"
    and quiet: "if start < e then start \<le> M mod 1440 \<and> M mod 1440 < e
      else start \<le> M mod 1440 \<or> M mod 1440 < e"
    and k: "M \<le> k" "k < end_of_quiet start e M"
  shows "if start < e then start \<le> k mod 1440 \<and> k mod 1440 < e
      else start \<le> k mod 1440 \<or> k mod 1440 < e"
proof -
  define c d where "c = M mod 1440" and "d = M div 1440"
  have M: "M = d * 1440 + c" "0 \<le> c" "c < 1440" by (simp_all add: c_def d_def)
  show ?thesis
  proof (cases "k < (d + 1) * 1440")
    case True
    then have "k = d * 1440 + (k - d * 1440)" "0 \<le> k - d * 1440" "k - d * 1440 < 1440"
      using k M by simp_all
    then have "k mod 1440 = k - d * 1440" by (metis minute_of_day_iff)
    then show ?thesis
      using quiet k M assms(1-5)
      unfolding end_of_quiet_def c_def [symmetric] d_def [symmetric]
      by (auto split: if_splits)
  next
    case False
    then have over: "\<not> start < e" "start \<le> c" "k < (d + 1) * 1440 + e"
      using k M quiet assms(1-5)
      unfolding end_of_quiet_def c_def [symmetric] d_def [symmetric]
      by (auto split: if_splits)
    with False assms(4) have "k = (d + 1) * 1440 + (k - (d + 1) * 1440)"
      "0 \<le> k - (d + 1) * 1440" "k - (d + 1) * 1440 < 1440" by simp_all
    then have "k mod 1440 = k - (d + 1) * 1440" by (metis minute_of_day_iff)
    with over show ?thesis by simp
  qed
qed


section \<open>Properties\<close>

lemma end_of_quiet_clock:
  assumes "0 \<le> e" "e < 1440"
  shows "end_of_quiet start e M mod 1440 = e"
  using assms by (simp add: end_of_quiet_def)

lemma end_of_quiet_near:
  assumes "0 \<le> start" "0 \<le> e" "e < 1440" "start \<noteq> e"
    and "if start < e then start \<le> M mod 1440 \<and> M mod 1440 < e
      else start \<le> M mod 1440 \<or> M mod 1440 < e"
  shows "M < end_of_quiet start e M" and "end_of_quiet start e M \<le> M + 1440"
proof -
  define c d where "c = M mod 1440" and "d = M div 1440"
  have M: "M = d * 1440 + c" "0 \<le> c" "c < 1440" by (simp_all add: c_def d_def)
  show "M < end_of_quiet start e M" "end_of_quiet start e M \<le> M + 1440"
    using assms M unfolding end_of_quiet_def c_def [symmetric] d_def [symmetric]
    by (auto split: if_splits)
qed

text \<open>
  C13: Quiet hours. Where the offset of the zone does not change within five days,
  \<open>quietHoursEnd\<close> reports no quiet hours exactly when the wall clock is outside them; otherwise it returns the end
  of the quiet interval of \<open>now\<close>: a later instant, at most a day away, that is not quiet itself
  while every instant from \<open>now\<close> until then is.
\<close>
theorem quiet_hours_end_is_exact:
  assumes "load (TrimSpace timezone) = Some loc" "steady_offset loc offset now"
    and "parseLocalClock quietStart = Inr start" "parseLocalClock quietEnd = Inr end_minute"
    and "start \<noteq> end_minute"
  shows "case quietHoursEnd load now timezone quietStart quietEnd of
      Inl _ \<Rightarrow> False
    | Inr None \<Rightarrow> \<not> quiet_at loc start end_minute now
    | Inr (Some r) \<Rightarrow>
        now < r \<and> r \<le> now + ns_per_day \<and> \<not> quiet_at loc start end_minute r
        \<and> (\<forall>t. now \<le> t \<and> t < r \<longrightarrow> quiet_at loc start end_minute t)"
proof (cases "quiet_at loc start end_minute now")
  case False
  then show ?thesis by (simp add: quietHoursEnd_steady [where load = load and loc = loc, OF assms(1,3,4,5,2)])
next
  case True
  define M e where "M = wall_minutes loc now" and "e = end_of_quiet start end_minute M"
  have range: "0 \<le> start" "start < 1440" "0 \<le> end_minute" "end_minute < 1440"
    using parseLocalClock_range assms(3,4) by auto
  have quiet: "if start < end_minute then start \<le> M mod 1440 \<and> M mod 1440 < end_minute
      else start \<le> M mod 1440 \<or> M mod 1440 < end_minute"
    using True unfolding quiet_at_def local_clock_eq M_def .
  have "loc now = offset" using assms(2) by (auto simp: steady_offset_def ns_per_day_def ns_per_minute_def)
  then have near: "instant_of offset M \<le> now" "now < instant_of offset (M + 1)"
    unfolding M_def by (simp_all add: wall_minutes_bounds)
  have e: "M < e" "e \<le> M + 1440"
    unfolding e_def using end_of_quiet_near [OF range(1,3,4) assms(5) quiet] by simp_all
  have later: "now < instant_of offset e" "instant_of offset e \<le> now + ns_per_day"
    using e near by (simp_all add: instant_of_def ns_per_second_def ns_per_day_def ns_per_minute_def)
  have loc: "loc t = offset" if "now \<le> t" "t \<le> instant_of offset e" for t
    by (rule steady_offsetD [OF assms(2)]) (use that later in \<open>simp add: ns_per_day_def ns_per_minute_def\<close>)
  have "wall_minutes loc (instant_of offset e) = e" using loc later by simp
  then have "\<not> quiet_at loc start end_minute (instant_of offset e)"
    using end_of_quiet_clock [OF range(3,4)] range assms(5)
    by (auto simp: quiet_at_def local_clock_eq e_def split: if_splits)
  moreover have "quiet_at loc start end_minute t" if t: "now \<le> t" "t < instant_of offset e" for t
  proof -
    have "wall_minutes loc now \<le> wall_minutes loc t" "wall_minutes loc t < e"
      using wall_minutes_interval [of now offset e loc t] loc t by simp_all
    with quiet_until_end [OF range assms(5) quiet, of "wall_minutes loc t"] show ?thesis
      by (simp add: quiet_at_def local_clock_eq M_def e_def)
  qed
  ultimately show ?thesis
    using True later
    by (simp add: quietHoursEnd_steady [where load = load and loc = loc, OF assms(1,3,4,5,2)] M_def [symmetric] e_def [symmetric])
qed

text \<open>
  A zone west of Greenwich whose clock jumps from 00:00 to 01:00 at the beginning of a day, as that
  of Havana does in spring.
\<close>

definition gap_at_midnight :: "int \<Rightarrow> int \<Rightarrow> Location" where
  "gap_at_midnight offset day =
     (\<lambda>t. if t < instant_of offset (day * 1440) then offset else offset + 3600)"

lemma gap_zone_minutes:
  assumes "-43200 \<le> offset" "offset < 0"
  shows "i < 1440 \<Longrightarrow> wall_minutes (gap_at_midnight offset day)
      (instant_of offset ((day - 1) * 1440 + i)) = (day - 1) * 1440 + i"
    and "1440 \<le> i \<Longrightarrow> wall_minutes (gap_at_midnight offset day)
      (instant_of offset ((day - 1) * 1440 + i)) = (day - 1) * 1440 + i + 60"
proof -
  assume "i < 1440"
  then have "gap_at_midnight offset day (instant_of offset ((day - 1) * 1440 + i)) = offset"
    by (simp add: gap_at_midnight_def instant_of_less_iff algebra_simps)
  then show "wall_minutes (gap_at_midnight offset day)
      (instant_of offset ((day - 1) * 1440 + i)) = (day - 1) * 1440 + i" by simp
next
  assume "1440 \<le> i"
  then have "gap_at_midnight offset day (instant_of offset ((day - 1) * 1440 + i)) = offset + 3600"
    by (simp add: gap_at_midnight_def instant_of_less_iff algebra_simps)
  moreover have "instant_of offset ((day - 1) * 1440 + i)
      = instant_of (offset + 3600) ((day - 1) * 1440 + i + 60)"
    by (simp add: instant_of_def algebra_simps)
  ultimately show "wall_minutes (gap_at_midnight offset day)
      (instant_of offset ((day - 1) * 1440 + i)) = (day - 1) * 1440 + i + 60" by simp
qed


lemma gap_zone_evaluate:
  assumes "-43200 \<le> offset" "offset < 0"
  shows "Date_in (civil_of_days day) 0 0 (gap_at_midnight offset day)
      = instant_of offset ((day - 1) * 1440 + 1380)" (is ?midnight)
    and "Date_in (civil_of_days (day - 1)) 0 0 (gap_at_midnight offset day)
      = instant_of offset ((day - 1) * 1440)" (is ?before)
    and "Date_in (civil_of_days (day - 1)) 12 0 (gap_at_midnight offset day)
      = instant_of offset ((day - 1) * 1440 + 720)" (is ?noon)
proof -
  have utc: "instant_of 0 m - offset * ns_per_second = instant_of offset m" for m
    by (simp add: instant_of_def algebra_simps)
  have lt: "instant_of 0 m < instant_of offset m" for m
    using assms by (simp add: instant_of_def ns_per_second_def)
  have before: "Date_in c h mi (gap_at_midnight offset day) = instant_of offset m"
    if "m = days_of_civil c * 1440 + h * 60 + mi" "m < day * 1440" for c h mi m
  proof (rule Date_in_steady [OF _ _ that(1)])
    have "instant_of 0 m < instant_of offset (day * 1440)" "instant_of offset m < instant_of offset (day * 1440)"
      using lt [of m] that(2) by (simp_all only: instant_of_less_iff) (meson instant_of_less_iff order.strict_trans)
    then show "gap_at_midnight offset day (instant_of 0 m) = offset"
      "gap_at_midnight offset day (instant_of offset m) = offset"
      by (simp_all add: gap_at_midnight_def)
  qed
  show ?before ?noon by (rule before; simp)+
  have "gap_at_midnight offset day (instant_of 0 (day * 1440)) = offset"
    using lt [of "day * 1440"] by (simp add: gap_at_midnight_def)
  moreover have "gap_at_midnight offset day (instant_of offset (day * 1440)) = offset + 3600"
    by (simp add: gap_at_midnight_def)
  moreover have "Date_UTC (civil_of_days day) 0 0 = instant_of 0 (day * 1440)"
    by (simp add: Date_UTC_minutes_of)
  ultimately have "Date_in (civil_of_days day) 0 0 (gap_at_midnight offset day)
      = instant_of 0 (day * 1440) - (offset + 3600) * ns_per_second"
    using assms unfolding Date_in_def Let_def by (simp add: utc)
  then show ?midnight by (simp add: instant_of_def algebra_simps)
qed

lemma gap_zone_resolve:
  assumes offset: "-43200 \<le> offset" "offset < 0" and m: "0 \<le> m" "m < 1440"
  shows "resolveLocalWallMinute (gap_at_midnight offset day) (civil_of_days (day - 1)) m
     = Inr (instant_of offset ((day - 1) * 1440 + m))"
proof -
  let ?loc = "gap_at_midnight offset day" and ?date = "civil_of_days (day - 1)"
  let ?at = "\<lambda>k. instant_of offset ((day - 1) * 1440 + (int k - 360))"
  have "window (Date_in ?date 12 0 ?loc) = map ?at [0..<2161]"
    unfolding window_def gap_zone_evaluate(3) [OF offset]
    by (intro map_cong) (simp_all del: upt_rec_numeral add: instant_of_def ns_per_minute_def
        ns_per_second_def algebra_simps)
  moreover have "local_civil ?loc (?at k) = ?date \<and> local_clock ?loc (?at k) = m
      \<longleftrightarrow> k = nat (m + 360)" for k
    unfolding shows_minute_iff [OF m] using m gap_zone_minutes [OF offset, of "int k - 360" day]
    by (cases "int k - 360 < 1440") auto
  then have "filter (\<lambda>k. local_civil ?loc (?at k) = ?date \<and> local_clock ?loc (?at k) = m) [0..<2161]
      = filter (\<lambda>k. k = nat (m + 360)) [0..<2161]"
    by (intro filter_cong) (simp_all del: upt_rec_numeral)
  ultimately have "filter (\<lambda>t. local_civil ?loc t = ?date \<and> local_clock ?loc t = m)
      (window (Date_in ?date 12 0 ?loc)) = map ?at (filter (\<lambda>k. k = nat (m + 360)) [0..<2161])"
    by (simp del: upt_rec_numeral add: filter_map o_def)
  also have "\<dots> = [instant_of offset ((day - 1) * 1440 + m)]"
    using m by (simp del: upt_rec_numeral add: filter_eq_upt algebra_simps)
  finally show ?thesis by (simp add: resolveLocalWallMinute_def scan_minutes_spec)
qed


text \<open>
  C37: Finding. In such a zone the midnight that the code asks for lies in the gap, and
  \<open>time.Date\<close> answers with 23:00 of the day before; the end of the quiet hours is then sought on the wrong date.
  Throughout the quiet night in which the clock changes, \<open>quietHoursEnd\<close> returns an instant in the
  past, although it promises the first safe instant at or after the configured end. A message that
  is deferred to it is due again at once, and each pass of that night uses up an attempt.
\<close>
theorem quiet_end_in_the_past:
  assumes zone: "load (TrimSpace timezone) = Some loc" "loc = gap_at_midnight offset day"
      "-43200 \<le> offset" "offset < 0"
    and clocks: "parseLocalClock quietStart = Inr start" "parseLocalClock quietEnd = Inr end_minute"
      "end_minute < start"
    and night: "local_civil loc now = civil_of_days (day - 1) \<and> start \<le> local_clock loc now
      \<or> local_civil loc now = civil_of_days day \<and> local_clock loc now < end_minute"
  shows "\<exists>r. quietHoursEnd load now timezone quietStart quietEnd = Inr (Some r)
     \<and> r < now \<and> local_civil loc r = civil_of_days (day - 1)"
proof -
  note offset = zone(3,4)
  have range: "0 \<le> start" "start < 1440" "0 \<le> end_minute" "end_minute < 1440"
    using parseLocalClock_range clocks(1,2) by auto
  define r where "r = instant_of offset ((day - 1) * 1440 + end_minute)"
  define eleven where "eleven = instant_of offset ((day - 1) * 1440 + 1380)"
  have minutes: "wall_minutes loc (instant_of offset ((day - 1) * 1440 + i)) = (day - 1) * 1440 + i"
    if "i < 1440" for i using gap_zone_minutes(1) [OF offset that] by (simp add: zone(2))
  have date: "local_civil loc r = civil_of_days (day - 1)"
    "local_civil loc eleven = civil_of_days (day - 1)"
    using range minutes [of end_minute] minutes [of 1380] unfolding local_civil_eq r_def eleven_def
    by (simp_all del: left_diff_distrib_numeral)
  have resolve: "resolveLocalWallMinute loc (civil_of_days (day - 1)) end_minute = Inr r"
    using gap_zone_resolve [OF offset range(3,4)] by (simp add: zone(2) r_def)
  have midnight: "Date_in (civil_of_days day) 0 0 loc = eleven"
    using gap_zone_evaluate(1) [OF offset] by (simp add: zone(2) eleven_def)
  show ?thesis
  proof (cases "local_civil loc now = civil_of_days day \<and> local_clock loc now < end_minute")
    case True
    then have "quietHoursEnd load now timezone quietStart quietEnd = Inr (Some r)"
      using clocks(3) by (simp add: quietHoursEnd_def zone(1) clocks(1,2) Let_def midnight date resolve)
    moreover have "r < now"
    proof (rule ccontr)
      assume "\<not> r < now"
      then have "now < instant_of offset (day * 1440)"
        using range unfolding r_def by (smt (verit) instant_of_less_iff)
      then have "loc now = offset" by (simp add: zone(2) gap_at_midnight_def)
      from wall_minutes_bounds(1) [of loc, OF this] have "instant_of offset (wall_minutes loc now) \<le> now" .
      with \<open>now < _\<close> have "wall_minutes loc now < day * 1440"
        by (meson instant_of_less_iff order.strict_trans1)
      with True local_clock_range [of loc now] wall_minutes_split [of loc now] show False by simp
    qed
    ultimately show ?thesis using date by blast
  next
    case False
    with night have now: "local_civil loc now = civil_of_days (day - 1)" "start \<le> local_clock loc now"
      by auto
    have "Date_in (civil_of_days (day - 1)) 0 0 loc = instant_of offset ((day - 1) * 1440)"
      using gap_zone_evaluate(2) [OF offset] by (simp add: zone(2))
    moreover have "AddDay loc (instant_of offset ((day - 1) * 1440)) = eleven"
    proof -
      have "local_civil loc (instant_of offset ((day - 1) * 1440)) = civil_of_days (day - 1)"
        "local_clock loc (instant_of offset ((day - 1) * 1440)) = 0"
        using minutes [of 0] by (simp_all add: local_civil_eq local_clock_eq)
      with local_clock_zero show ?thesis by (simp add: AddDay_def midnight)
    qed
    ultimately have "quietHoursEnd load now timezone quietStart quietEnd = Inr (Some r)"
      using clocks(3) now
      by (simp add: quietHoursEnd_def zone(1) clocks(1,2) Let_def date resolve)
    moreover have "r < now"
    proof (rule ccontr)
      assume "\<not> r < now"
      then have "now < instant_of offset (day * 1440)"
        using range unfolding r_def by (smt (verit) instant_of_less_iff)
      then have "loc now = offset" by (simp add: zone(2) gap_at_midnight_def)
      from wall_minutes_bounds(1) [of loc, OF this] have "instant_of offset (wall_minutes loc now) \<le> now" .
      moreover have "(day - 1) * 1440 + end_minute < wall_minutes loc now"
        using now clocks(3) wall_minutes_split [of loc now] by simp
      then have "r < instant_of offset (wall_minutes loc now)" unfolding r_def instant_of_less_iff .
      ultimately show False using \<open>\<not> r < now\<close> by linarith
    qed
    ultimately show ?thesis using date by blast
  qed
qed

end
