(* ===== verification/Customer_Tables.thy ===== *)
theory Customer_Tables
  imports Customer_Quiet_Hours
begin

text \<open>
  The database of customer notifications (\<open>migrations/V59\<close>): the policy of each salon, consents and
  their event log, deliveries with attempts, events and owner actions, and the two kinds of source a
  delivery refers to. A policy row joins \<open>salon_settings\<close> with its salon; a clock time is kept as the
  text \<open>HH24:MI\<close> the code reads, the empty text for NULL. A NULL text is the empty string where the
  code only reads it through \<open>COALESCE\<close>. The attempts, events and actions have the shape of those of
  owner notifications. The destination of a delivery is really nullable: redaction removes it.

  Parameters (\<open>CustomerEnv\<close>): the tenant predicates, the call sessions, \<open>gen_random_uuid\<close>, SHA-256,
  the claim limit of a tenant, locks held by other transactions, the clock of the Go process, and
  what the constraints and triggers not written out reject; they can only make a transaction fail.
\<close>

section \<open>Rows\<close>

record SalonRow =
  sn_SalonID :: string
  sn_Timezone :: string
  sn_Enabled :: bool
  sn_QuietStart :: string
  sn_QuietEnd :: string
  sn_PolicyVersion :: int

record ConsentRow =
  cr_ID :: string
  cr_SalonID :: string
  cr_Destination :: string
  cr_DestinationMasked :: string
  cr_Status :: string
  cr_Version :: int
  cr_Source :: string
  cr_EvidenceType :: string
  cr_EvidenceReference :: string
  cr_CallSessionID :: "string option"
  cr_ActorUserID :: "string option"
  cr_RequestedAt :: "gotime option"
  cr_ConsentedAt :: "gotime option"
  cr_DeclinedAt :: "gotime option"
  cr_OptedOutAt :: "gotime option"
  cr_UpdatedAt :: gotime

record ConsentEventRow =
  ce_SalonID :: string
  ce_ConsentID :: string
  ce_Sequence :: int
  ce_ConsentVersion :: int
  ce_EventKey :: string
  ce_EventFingerprint :: string
  ce_EventType :: string
  ce_Source :: string
  ce_EvidenceType :: string
  ce_EvidenceReference :: string
  ce_ActorUserID :: "string option"
  ce_ProviderMessageID :: "string option"

record CustomerDeliveryRow =
  cw_ID :: string
  cw_SalonID :: string
  cw_ConsentID :: string
  cw_SchedulingRequestID :: "string option"
  cw_AppointmentID :: "string option"
  cw_BookingAttemptID :: "string option"
  cw_NotificationType :: string
  cw_SourceVersion :: int
  cw_DedupeKey :: string
  cw_Body :: string
  cw_Destination :: "string option"
  cw_DestinationMasked :: "string option"
  cw_ConsentVersion :: int
  cw_PolicyVersion :: int
  cw_DeliveryStatus :: string
  cw_DeliveryProvider :: string
  cw_DeliveryAttempts :: int
  cw_NextDeliveryAt :: gotime
  cw_ClaimToken :: "string option"
  cw_ClaimedAt :: "gotime option"
  cw_LeaseExpiresAt :: "gotime option"
  cw_DispatchStartedAt :: "gotime option"
  cw_ProviderMessageID :: "string option"
  cw_ProviderStatus :: string
  cw_ProviderStatusRank :: int
  cw_LastProviderEventAt :: "gotime option"
  cw_DeliveredAt :: "gotime option"
  cw_DeadLetteredAt :: "gotime option"
  cw_SuppressedAt :: "gotime option"
  cw_RequeueCount :: int
  cw_LastErrorCode :: string
  cw_RedactedAt :: "gotime option"
  cw_RedactionVersion :: int
  cw_CreatedAt :: gotime

text \<open>The columns of \<open>scheduling_requests\<close> and \<open>appointments\<close> that are read here.\<close>

record RequestSourceRow =
  rs_ID :: string
  rs_SalonID :: string
  rs_Status :: string
  rs_Version :: int
  rs_CustomerPhone :: string

record AppointmentSourceRow =
  as_ID :: string
  as_SalonID :: string
  as_Status :: string
  as_BookingAttemptID :: string
  as_AuthorityVersion :: "int option"
  as_CustomerPhone :: string

record CustomerDB =
  cb_Salons :: "SalonRow list"
  cb_Consents :: "ConsentRow list"
  cb_ConsentEvents :: "ConsentEventRow list"
  cb_Deliveries :: "CustomerDeliveryRow list"
  cb_Attempts :: "DeliveryAttemptRow list"
  cb_Events :: "DeliveryEventRow list"
  cb_Actions :: "DeliveryActionRow list"
  cb_Requests :: "RequestSourceRow list"
  cb_Appointments :: "AppointmentSourceRow list"

record CustomerEnv =
  cv_Member :: "string \<Rightarrow> string \<Rightarrow> bool"
  cv_MayRead :: "string \<Rightarrow> string \<Rightarrow> bool"
  cv_MayRequeue :: "string \<Rightarrow> string \<Rightarrow> bool"
  cv_CallSession :: "string \<Rightarrow> string \<Rightarrow> bool"
  cv_UUID :: "nat list \<Rightarrow> string"
  cv_SHA256 :: "string \<Rightarrow> string"
  cv_ClaimLimit :: "string \<Rightarrow> int option"
  cv_Locked :: "string \<Rightarrow> bool"
  cv_GoNow :: gotime
  cv_Guards :: "CustomerDB \<Rightarrow> CustomerDB \<Rightarrow> customer_error option"

section \<open>Transactions\<close>

definition unique_violation :: customer_error where
  "unique_violation = CustomerDatabaseError ''unique_violation''"

definition commit_customer ::
  "CustomerEnv \<Rightarrow> CustomerDB \<Rightarrow> CustomerDB \<Rightarrow> 'a \<Rightarrow> (customer_error + 'a) \<times> CustomerDB" where
  "commit_customer env db db' result =
     (case cv_Guards env db db' of Some err \<Rightarrow> (Inl err, db) | None \<Rightarrow> (Inr result, db'))"

lemma commit_customer_cases:
  "commit_customer env db db' r = (Inr x, d) \<Longrightarrow> x = r \<and> d = db'"
  "commit_customer env db db' r = (Inl e, d) \<Longrightarrow> d = db"
  by (auto simp: commit_customer_def split: option.splits)

definition salon_row :: "string \<Rightarrow> CustomerDB \<Rightarrow> SalonRow option" where
  "salon_row salonID db = find (\<lambda>row. sn_SalonID row = salonID) (cb_Salons db)"

definition consent_of :: "string \<Rightarrow> string \<Rightarrow> CustomerDB \<Rightarrow> ConsentRow option" where
  "consent_of salonID destination db =
     find (\<lambda>row. cr_SalonID row = salonID \<and> cr_Destination row = destination) (cb_Consents db)"

definition consent_by_id :: "string \<Rightarrow> string \<Rightarrow> CustomerDB \<Rightarrow> ConsentRow option" where
  "consent_by_id salonID consentID db =
     find (\<lambda>row. cr_SalonID row = salonID \<and> cr_ID row = consentID) (cb_Consents db)"

section \<open>Destinations in SQL\<close>

text \<open>
  \<open>normalize_customer_sms_destination\<close> of \<open>migrations/V59\<close> on a text without NULL, and the mask it
  shows of a number: four bullets and the last four characters (a destination is ASCII).
\<close>

definition sms_phone_char :: "char \<Rightarrow> bool" where
  "sms_phone_char c \<longleftrightarrow>
     is_digit c \<or> c \<in> {CHR ''('', CHR '')'', CHR ''.'', CHR '' '', CHR ''-''}"

definition normalize_customer_sms_destination :: "string \<Rightarrow> string option" where
  "normalize_customer_sms_destination raw_value =
     (let trimmed = btrim raw_value;
          body = (if prefix ''+'' trimmed then tl trimmed else trimmed);
          digits = filter (\<lambda>c. is_digit c) trimmed
      in if trimmed = [] then None
         else if body = [] \<or> \<not> list_all sms_phone_char body then None
         else if prefix ''+'' trimmed \<and> 8 \<le> length digits \<and> length digits \<le> 15
            \<and> CHR ''1'' \<le> digits ! 0
         then Some (''+'' @ digits)
         else if length digits = 10 \<and> CHR ''2'' \<le> digits ! 0 then Some (''+1'' @ digits)
         else if length digits = 11 \<and> digits ! 0 = CHR ''1'' \<and> CHR ''2'' \<le> digits ! 1
         then Some (''+'' @ digits)
         else None)"

definition mask_customer_sms_destination :: "string \<Rightarrow> string" where
  "mask_customer_sms_destination destination =
     (if length destination < 4 then []
      else concat (replicate 4 [CHR 0xE2, CHR 0x80, CHR 0xA2])
        @ drop (length destination - 4) destination)"

end
