(* ===== verification/Customer_Consent.thy ===== *)
theory Customer_Consent
  imports Customer_Tables
begin

text \<open>
  The policy of a salon and the consent of its customers to be sent SMS
  (\<open>modules/customer_notification/repository.go\<close> and the first half of \<open>service.go\<close>). A consent
  belongs to a salon and a number; every change of it appends an event under a key of its own, so
  that a repeated request is recognised and replayed.
\<close>

section \<open>Policy\<close>

definition GetPolicyForOwner ::
  "CustomerEnv \<Rightarrow> string \<Rightarrow> string \<Rightarrow> CustomerDB \<Rightarrow> customer_error + Policy" where
  "GetPolicyForOwner env salonID ownerUserID db =
     (case find (\<lambda>row. sn_SalonID row = salonID \<and> cv_Member env (sn_SalonID row) ownerUserID)
             (cb_Salons db) of
        None \<Rightarrow> Inl ErrCustomerNotFound
      | Some row \<Rightarrow>
          Inr \<lparr>pol_Enabled = sn_Enabled row, pol_QuietStart = sn_QuietStart row,
               pol_QuietEnd = sn_QuietEnd row, pol_Timezone = sn_Timezone row,
               pol_Version = sn_PolicyVersion row,
               pol_Ready = (TrimSpace (sn_Timezone row) \<noteq> [] \<and> sn_QuietStart row \<noteq> []
                  \<and> sn_QuietEnd row \<noteq> [] \<and> sn_QuietStart row \<noteq> sn_QuietEnd row)\<rparr>)"

text \<open>The trigger \<open>enforce_customer_sms_policy_version\<close> of \<open>migrations/V59\<close> on the new row.\<close>

definition enforce_customer_sms_policy_version :: "SalonRow \<Rightarrow> SalonRow \<Rightarrow> SalonRow" where
  "enforce_customer_sms_policy_version old new =
     (if sn_Enabled old \<noteq> sn_Enabled new \<or> sn_QuietStart old \<noteq> sn_QuietStart new
         \<or> sn_QuietEnd old \<noteq> sn_QuietEnd new
      then new\<lparr>sn_PolicyVersion := sn_PolicyVersion old + 1\<rparr> else new)"

definition updated_policy_row :: "UpdatePolicyRequest \<Rightarrow> SalonRow \<Rightarrow> SalonRow" where
  "updated_policy_row req row =
     enforce_customer_sms_policy_version row
       (row\<lparr>sn_Enabled := upr_Enabled req, sn_QuietStart := upr_QuietStart req,
            sn_QuietEnd := upr_QuietEnd req\<rparr>)"

definition UpdatePolicyForOwner ::
  "CustomerEnv \<Rightarrow> string \<Rightarrow> string \<Rightarrow> UpdatePolicyRequest \<Rightarrow> CustomerDB
     \<Rightarrow> (customer_error + Policy) \<times> CustomerDB" where
  "UpdatePolicyForOwner env salonID ownerUserID req db =
     (case salon_row salonID db of
        None \<Rightarrow> (Inl ErrCustomerNotFound, db)
      | Some salon \<Rightarrow>
          if \<not> cv_Member env salonID ownerUserID then (Inl ErrCustomerNotFound, db)
          else if sn_PolicyVersion salon \<noteq> upr_ExpectedVersion req
          then (Inl ErrCustomerConflict, db)
          else
            let row = updated_policy_row req salon in
            commit_customer env db
              (db\<lparr>cb_Salons := map (\<lambda>other. if sn_SalonID other = salonID
                    \<and> sn_PolicyVersion other = upr_ExpectedVersion req
                  then updated_policy_row req other else other) (cb_Salons db)\<rparr>)
              \<lparr>pol_Enabled = sn_Enabled row, pol_QuietStart = sn_QuietStart row,
               pol_QuietEnd = sn_QuietEnd row, pol_Timezone = sn_Timezone salon,
               pol_Version = sn_PolicyVersion row,
               pol_Ready = (sn_Timezone salon \<noteq> [] \<and> sn_QuietStart row \<noteq> []
                  \<and> sn_QuietEnd row \<noteq> [] \<and> sn_QuietStart row \<noteq> sn_QuietEnd row)\<rparr>)"

definition customerSMSPolicyReady :: "string \<Rightarrow> CustomerDB \<Rightarrow> customer_error + bool" where
  "customerSMSPolicyReady salonID db =
     (case salon_row salonID db of
        None \<Rightarrow> Inl ErrCustomerNotFound
      | Some row \<Rightarrow>
          Inr (sn_Enabled row \<and> sn_QuietStart row \<noteq> [] \<and> sn_QuietEnd row \<noteq> []
            \<and> sn_QuietStart row \<noteq> sn_QuietEnd row \<and> btrim (sn_Timezone row) \<noteq> []))"

section \<open>Changing a consent\<close>

definition scanConsent :: "ConsentRow \<Rightarrow> Consent" where
  "scanConsent row =
     \<lparr>cns_ID = cr_ID row, cns_Status = cr_Status row,
      cns_DestinationMasked = cr_DestinationMasked row, cns_Version = cr_Version row,
      cns_Source = cr_Source row, cns_RequestedAt = cr_RequestedAt row,
      cns_ConsentedAt = cr_ConsentedAt row, cns_DeclinedAt = cr_DeclinedAt row,
      cns_OptedOutAt = cr_OptedOutAt row, cns_UpdatedAt = cr_UpdatedAt row\<rparr>"

definition ConsentForDestination ::
  "string \<Rightarrow> string \<Rightarrow> CustomerDB \<Rightarrow> customer_error + Consent" where
  "ConsentForDestination salonID destination db =
     (case consent_of salonID destination db of
        None \<Rightarrow> Inl ErrCustomerNotFound | Some row \<Rightarrow> Inr (scanConsent row))"

record consentMutation =
  cm_SalonID :: string
  cm_Destination :: string
  cm_Status :: string
  cm_Source :: string
  cm_EventType :: string
  cm_EventKey :: string
  cm_EvidenceType :: string
  cm_EvidenceReference :: string
  cm_CallSessionID :: string
  cm_ActorUserID :: string
  cm_ProviderMessageID :: string
  cm_ExternalFingerprint :: string
  cm_RequireOwner :: bool

definition consentFingerprint :: "CustomerEnv \<Rightarrow> consentMutation \<Rightarrow> string" where
  "consentFingerprint env m =
     cv_SHA256 env (strings_Join [cm_Destination m, cm_Status m, cm_Source m, cm_EventType m,
       cm_EvidenceType m, cm_EvidenceReference m, cm_CallSessionID m, cm_ActorUserID m,
       cm_ProviderMessageID m, cm_ExternalFingerprint m] [CHR 0x00])"

definition NULLIF_empty :: "string \<Rightarrow> string option" where
  "NULLIF_empty text = (if text = [] then None else Some text)"

definition COALESCE :: "'a option \<Rightarrow> 'a option \<Rightarrow> 'a option" where
  "COALESCE a b = (case a of None \<Rightarrow> b | Some _ \<Rightarrow> a)"

definition inserted_consent ::
  "CustomerEnv \<Rightarrow> gotime \<Rightarrow> consentMutation \<Rightarrow> ConsentRow" where
  "inserted_consent env now m =
     (case consentTimestamps (cm_Status m) (cv_GoNow env) of
        (requestedAt, consentedAt, declinedAt, optedOutAt) \<Rightarrow>
          \<lparr>cr_ID = cv_UUID env [0], cr_SalonID = cm_SalonID m, cr_Destination = cm_Destination m,
           cr_DestinationMasked = mask_customer_sms_destination (cm_Destination m),
           cr_Status = cm_Status m, cr_Version = 1, cr_Source = cm_Source m,
           cr_EvidenceType = cm_EvidenceType m, cr_EvidenceReference = cm_EvidenceReference m,
           cr_CallSessionID = NULLIF_empty (cm_CallSessionID m),
           cr_ActorUserID = NULLIF_empty (cm_ActorUserID m), cr_RequestedAt = requestedAt,
           cr_ConsentedAt = consentedAt, cr_DeclinedAt = declinedAt, cr_OptedOutAt = optedOutAt,
           cr_UpdatedAt = now\<rparr>)"

definition updated_consent :: "gotime \<Rightarrow> consentMutation \<Rightarrow> int \<Rightarrow> ConsentRow \<Rightarrow> ConsentRow" where
  "updated_consent now m version row =
     row\<lparr>cr_Status := cm_Status m, cr_Version := version, cr_Source := cm_Source m,
         cr_EvidenceType := cm_EvidenceType m, cr_EvidenceReference := cm_EvidenceReference m,
         cr_CallSessionID := COALESCE (NULLIF_empty (cm_CallSessionID m)) (cr_CallSessionID row),
         cr_ActorUserID := NULLIF_empty (cm_ActorUserID m),
         cr_RequestedAt := (if cm_Status m = ''pending'' then Some now else cr_RequestedAt row),
         cr_ConsentedAt := (if cm_Status m = ''consented'' then Some now else None),
         cr_DeclinedAt := (if cm_Status m = ''declined'' then Some now else None),
         cr_OptedOutAt := (if cm_Status m = ''opted_out'' then Some now else None),
         cr_UpdatedAt := now\<rparr>"

definition next_sequence :: "string \<Rightarrow> CustomerDB \<Rightarrow> int" where
  "next_sequence consentID db =
     fold max (map ce_Sequence (filter (\<lambda>event. ce_ConsentID event = consentID)
       (cb_ConsentEvents db))) 0 + 1"

definition consent_event_at :: "string \<Rightarrow> string \<Rightarrow> CustomerDB \<Rightarrow> ConsentEventRow option" where
  "consent_event_at salonID eventKey db =
     find (\<lambda>event. ce_SalonID event = salonID \<and> ce_EventKey event = eventKey) (cb_ConsentEvents db)"

definition mutation_event ::
  "CustomerEnv \<Rightarrow> consentMutation \<Rightarrow> string \<Rightarrow> int \<Rightarrow> int \<Rightarrow> ConsentEventRow" where
  "mutation_event env m consentID sequence version =
     \<lparr>ce_SalonID = cm_SalonID m, ce_ConsentID = consentID, ce_Sequence = sequence,
      ce_ConsentVersion = version, ce_EventKey = cm_EventKey m,
      ce_EventFingerprint = consentFingerprint env m, ce_EventType = cm_EventType m,
      ce_Source = cm_Source m, ce_EvidenceType = cm_EvidenceType m,
      ce_EvidenceReference = cm_EvidenceReference m,
      ce_ActorUserID = NULLIF_empty (cm_ActorUserID m),
      ce_ProviderMessageID = NULLIF_empty (cm_ProviderMessageID m)\<rparr>"

definition replay_consent ::
  "CustomerEnv \<Rightarrow> consentMutation \<Rightarrow> ConsentEventRow \<Rightarrow> CustomerDB
     \<Rightarrow> customer_error + Consent \<times> bool" where
  "replay_consent env m event db =
     (if ce_EventFingerprint event \<noteq> consentFingerprint env m then Inl ErrCustomerConflict
      else
        (case consent_by_id (cm_SalonID m) (ce_ConsentID event) db of
           None \<Rightarrow> Inl ErrCustomerNotFound | Some row \<Rightarrow> Inr (scanConsent row, True)))"

text \<open>The write of the transaction: a new row or an update, and the event.\<close>

definition write_consent ::
  "CustomerEnv \<Rightarrow> gotime \<Rightarrow> consentMutation \<Rightarrow> ConsentRow option \<Rightarrow> CustomerDB
     \<Rightarrow> (customer_error + Consent \<times> bool) \<times> CustomerDB" where
  "write_consent env now m current db =
     (case current of
        None \<Rightarrow>
          let row = inserted_consent env now m in
          if list_ex (\<lambda>other. cr_ID other = cr_ID row) (cb_Consents db)
          then (Inl unique_violation, db)
          else commit_customer env db
            (db\<lparr>cb_Consents := cb_Consents db @ [row],
                cb_ConsentEvents := cb_ConsentEvents db
                  @ [mutation_event env m (cr_ID row) (next_sequence (cr_ID row) db) 1]\<rparr>)
            (scanConsent row, False)
      | Some row \<Rightarrow>
          let version = cr_Version row + 1 in
          commit_customer env db
            (db\<lparr>cb_Consents := map (\<lambda>other.
                  if cr_SalonID other = cm_SalonID m \<and> cr_ID other = cr_ID row
                  then updated_consent now m version other else other) (cb_Consents db),
                cb_ConsentEvents := cb_ConsentEvents db
                  @ [mutation_event env m (cr_ID row) (next_sequence (cr_ID row) db) version]\<rparr>)
            (scanConsent (updated_consent now m version row), False))"

definition mutateConsent ::
  "CustomerEnv \<Rightarrow> gotime \<Rightarrow> consentMutation \<Rightarrow> CustomerDB
     \<Rightarrow> (customer_error + Consent \<times> bool) \<times> CustomerDB" where
  "mutateConsent env now m db =
     (if cm_RequireOwner m \<and> \<not> cv_Member env (cm_SalonID m) (cm_ActorUserID m)
      then (Inl ErrCustomerNotFound, db)
      else
        (case consent_event_at (cm_SalonID m) (cm_EventKey m) db of
           Some event \<Rightarrow> (replay_consent env m event db, db)
         | None \<Rightarrow>
             let current = consent_of (cm_SalonID m) (cm_Destination m) db;
                 currentStatus = (case current of None \<Rightarrow> [] | Some row \<Rightarrow> cr_Status row)
             in if currentStatus = ConsentOptedOut \<and> cm_Source m \<noteq> ConsentSourceTwilio
                then (Inl ErrCustomerConflict, db)
                else if \<not> legalConsentTransition currentStatus (cm_Status m) (cm_Source m)
                        (cm_EventType m)
                then (Inl ErrCustomerConflict, db)
                else if cm_CallSessionID m \<noteq> []
                   \<and> \<not> cv_CallSession env (cm_SalonID m) (cm_CallSessionID m)
                then (Inl ErrCustomerNotFound, db)
                else write_consent env now m current db))"

section \<open>The callers of the mutation\<close>

definition requested_mutation ::
  "string \<Rightarrow> string \<Rightarrow> string \<Rightarrow> string \<Rightarrow> string \<Rightarrow> consentMutation" where
  "requested_mutation salonID callSessionID destination eventKey evidenceReference =
     \<lparr>cm_SalonID = salonID, cm_Destination = destination, cm_Status = ConsentPending,
      cm_Source = ConsentSourceConversation, cm_EventType = ConsentEventRequested,
      cm_EventKey = eventKey, cm_EvidenceType = ''call_session_prompt'',
      cm_EvidenceReference = evidenceReference, cm_CallSessionID = callSessionID,
      cm_ActorUserID = [], cm_ProviderMessageID = [], cm_ExternalFingerprint = [],
      cm_RequireOwner = False\<rparr>"

definition RecordConsentRequested ::
  "CustomerEnv \<Rightarrow> gotime \<Rightarrow> string \<Rightarrow> string \<Rightarrow> string \<Rightarrow> string \<Rightarrow> string \<Rightarrow> CustomerDB
     \<Rightarrow> (customer_error + Consent \<times> bool) \<times> CustomerDB" where
  "RecordConsentRequested env now salonID callSessionID destination eventKey evidenceReference =
     mutateConsent env now
       (requested_mutation salonID callSessionID destination eventKey evidenceReference)"

definition conversation_mutation :: "RecordConversationConsentRequest \<Rightarrow> consentMutation" where
  "conversation_mutation req =
     \<lparr>cm_SalonID = rcc_SalonID req, cm_Destination = rcc_Destination req,
      cm_Status = (if rcc_Granted req then ConsentConsented else ConsentDeclined),
      cm_Source = ConsentSourceConversation,
      cm_EventType = (if rcc_Granted req then ConsentEventConsented else ConsentEventDeclined),
      cm_EventKey = rcc_EventKey req, cm_EvidenceType = ''call_session_response'',
      cm_EvidenceReference = rcc_EvidenceReference req, cm_CallSessionID = rcc_CallSessionID req,
      cm_ActorUserID = [], cm_ProviderMessageID = [], cm_ExternalFingerprint = [],
      cm_RequireOwner = False\<rparr>"

definition RecordConversationConsent ::
  "CustomerEnv \<Rightarrow> gotime \<Rightarrow> RecordConversationConsentRequest \<Rightarrow> CustomerDB
     \<Rightarrow> (customer_error + Consent \<times> bool) \<times> CustomerDB" where
  "RecordConversationConsent env now req = mutateConsent env now (conversation_mutation req)"

definition owner_mutation :: "string \<Rightarrow> string \<Rightarrow> string \<Rightarrow> string \<Rightarrow> consentMutation" where
  "owner_mutation salonID ownerUserID destination eventKey =
     \<lparr>cm_SalonID = salonID, cm_Destination = destination, cm_Status = ConsentConsented,
      cm_Source = ConsentSourceOwner, cm_EventType = ConsentEventConsented,
      cm_EventKey = eventKey, cm_EvidenceType = ''owner_attestation'',
      cm_EvidenceReference = eventKey, cm_CallSessionID = [], cm_ActorUserID = ownerUserID,
      cm_ProviderMessageID = [], cm_ExternalFingerprint = [], cm_RequireOwner = True\<rparr>"

definition RecordOwnerAttestation ::
  "CustomerEnv \<Rightarrow> gotime \<Rightarrow> string \<Rightarrow> string \<Rightarrow> string \<Rightarrow> string \<Rightarrow> bool \<Rightarrow> CustomerDB
     \<Rightarrow> (customer_error + Consent \<times> bool) \<times> CustomerDB" where
  "RecordOwnerAttestation env now salonID ownerUserID destination eventKey attested db =
     (if \<not> attested then (Inl ErrCustomerValidation, db)
      else mutateConsent env now (owner_mutation salonID ownerUserID destination eventKey) db)"

section \<open>Opt-outs reported by Twilio\<close>

text \<open>\<open>strings.ToLower\<close> of one of the words START, STOP and HELP.\<close>

definition ascii_lower :: "char \<Rightarrow> char" where
  "ascii_lower c =
     (if CHR ''A'' \<le> c \<and> c \<le> CHR ''Z'' then char_of ((of_char c :: nat) + 32) else c)"

definition optout_event_key :: "InboundOptOut \<Rightarrow> string" where
  "optout_event_key event =
     ''twilio-optout:'' @ ioo_ProviderMessageID event @ '':'' @ map ascii_lower (ioo_OptOutType event)"

definition optout_mutation :: "InboundOptOut \<Rightarrow> string \<Rightarrow> string \<Rightarrow> consentMutation" where
  "optout_mutation event status eventType =
     \<lparr>cm_SalonID = ioo_SalonID event, cm_Destination = ioo_From event, cm_Status = status,
      cm_Source = ConsentSourceTwilio, cm_EventType = eventType,
      cm_EventKey = optout_event_key event, cm_EvidenceType = ''twilio_opt_out_type'',
      cm_EvidenceReference = ioo_OptOutType event, cm_CallSessionID = [], cm_ActorUserID = [],
      cm_ProviderMessageID = ioo_ProviderMessageID event,
      cm_ExternalFingerprint = ioo_EventFingerprint event, cm_RequireOwner = False\<rparr>"

text \<open>
  The event is looked up twice, before and after the row is locked; one transaction runs at a time
  here, so the second look finds what the first found.
\<close>

definition appendConsentEvent ::
  "CustomerEnv \<Rightarrow> string \<Rightarrow> string \<Rightarrow> string \<Rightarrow> string \<Rightarrow> string \<Rightarrow> string \<Rightarrow> string \<Rightarrow> CustomerDB
     \<Rightarrow> (customer_error + unit) \<times> CustomerDB" where
  "appendConsentEvent env salonID consentID eventKey eventFingerprint eventType optOutType
       providerMessageID db =
     (case consent_event_at salonID eventKey db of
        Some event \<Rightarrow>
          (if ce_EventFingerprint event \<noteq> eventFingerprint then (Inl ErrCustomerConflict, db)
           else (Inr (), db))
      | None \<Rightarrow>
          (case consent_by_id salonID consentID db of
             None \<Rightarrow> (Inl ErrCustomerNotFound, db)
           | Some row \<Rightarrow>
               commit_customer env db
                 (db\<lparr>cb_ConsentEvents := cb_ConsentEvents db @
                   [\<lparr>ce_SalonID = salonID, ce_ConsentID = consentID,
                     ce_Sequence = next_sequence consentID db, ce_ConsentVersion = cr_Version row,
                     ce_EventKey = eventKey, ce_EventFingerprint = eventFingerprint,
                     ce_EventType = eventType, ce_Source = ''twilio_advanced_opt_out'',
                     ce_EvidenceType = ''twilio_opt_out_type'',
                     ce_EvidenceReference = optOutType, ce_ActorUserID = None,
                     ce_ProviderMessageID = Some providerMessageID\<rparr>]\<rparr>) ()))"

definition discard_result :: "('e + 'a) \<times> 's \<Rightarrow> ('e + unit) \<times> 's" where
  "discard_result outcome = (case outcome of (result, db) \<Rightarrow> (map_sum id (\<lambda>_. ()) result, db))"

definition ApplyInboundOptOut ::
  "CustomerEnv \<Rightarrow> gotime \<Rightarrow> InboundOptOut \<Rightarrow> CustomerDB \<Rightarrow> (customer_error + unit) \<times> CustomerDB" where
  "ApplyInboundOptOut env now event db =
     (if ioo_ConfiguredSender event \<noteq> [] \<and> ioo_To event \<noteq> ioo_ConfiguredSender event
      then (Inl ErrCustomerValidation, db)
      else if ioo_OptOutType event = ''STOP''
      then discard_result
             (mutateConsent env now (optout_mutation event ConsentOptedOut ConsentEventOptOut) db)
      else
        (case ConsentForDestination (ioo_SalonID event) (ioo_From event) db of
           Inl _ \<Rightarrow>
             (if ioo_OptOutType event \<noteq> ''START'' then (Inr (), db)
              else
                (case customerSMSPolicyReady (ioo_SalonID event) db of
                   Inl err \<Rightarrow> (Inl err, db)
                 | Inr ready \<Rightarrow>
                     if \<not> ready then (Inr (), db)
                     else discard_result (mutateConsent env now
                            (optout_mutation event ConsentConsented ConsentEventOptIn) db)))
         | Inr existing \<Rightarrow>
             if ioo_OptOutType event = ''START''
             then
               (case customerSMSPolicyReady (ioo_SalonID event) db of
                  Inl err \<Rightarrow> (Inl err, db)
                | Inr ready \<Rightarrow>
                    let status = (if ready then ConsentConsented else cns_Status existing) in
                    if status = cns_Status existing
                    then appendConsentEvent env (ioo_SalonID event) (cns_ID existing)
                           (optout_event_key event) (ioo_EventFingerprint event) ConsentEventOptIn
                           (ioo_OptOutType event) (ioo_ProviderMessageID event) db
                    else discard_result (mutateConsent env now
                           (optout_mutation event status ConsentEventOptIn) db))
             else appendConsentEvent env (ioo_SalonID event) (cns_ID existing)
                    (optout_event_key event) (ioo_EventFingerprint event) ConsentEventHelp
                    (ioo_OptOutType event) (ioo_ProviderMessageID event) db))"

end
