(* ===== verification/Customer_Delivery.thy ===== *)
theory Customer_Delivery
  imports Customer_Consent
begin

text \<open>
  The outbox of customer notifications (\<open>modules/customer_notification/delivery_repository.go\<close>): the
  rows the triggers of \<open>migrations/V59\<close> enqueue, claims and expired leases (\<open>migrations/V79\<close>, \<open>V90\<close>),
  the checks before a dispatch, the records of an attempt, provider callbacks, details and requeues.
  Each operation is one transaction, a function from a database to a database at time \<open>now\<close>.
\<close>

section \<open>Events and updates\<close>

definition event_exists :: "string \<Rightarrow> string \<Rightarrow> CustomerDB \<Rightarrow> bool" where
  "event_exists salonID eventKey db =
     list_ex (\<lambda>event. de_SalonID event = salonID \<and> de_EventKey event = eventKey) (cb_Events db)"

text \<open>The INSERT of the event, which fails when the salon has an event with that key, and COMMIT.\<close>

definition insertDeliveryEvent ::
  "CustomerEnv \<Rightarrow> gotime \<Rightarrow> string \<Rightarrow> string \<Rightarrow> string \<Rightarrow> string \<Rightarrow> string \<Rightarrow> string \<Rightarrow> string
     \<Rightarrow> CustomerDB \<Rightarrow> CustomerDB option" where
  "insertDeliveryEvent env now salonID deliveryID key eventType status providerStatus code db =
     (if event_exists salonID key db then None
      else Some (db\<lparr>cb_Events := cb_Events db @
        [\<lparr>de_ID = cv_UUID env [2], de_SalonID = salonID, de_NotificationID = deliveryID,
          de_EventKey = key,
          de_EventFingerprint = cv_SHA256 env (strings_Join
             [deliveryID, key, eventType, status, providerStatus, code] [CHR 0x00]),
          de_EventType = eventType, de_DeliveryStatus = status,
          de_ProviderStatus = providerStatus, de_ErrorCode = code, de_CreatedAt = now\<rparr>]\<rparr>))"

definition commit_with_event ::
  "CustomerEnv \<Rightarrow> CustomerDB \<Rightarrow> CustomerDB option \<Rightarrow> 'a \<Rightarrow> (customer_error + 'a) \<times> CustomerDB" where
  "commit_with_event env db inserted result =
     (case inserted of None \<Rightarrow> (Inl unique_violation, db)
      | Some db' \<Rightarrow> commit_customer env db db' result)"

definition update_deliveries ::
  "(CustomerDeliveryRow \<Rightarrow> bool) \<Rightarrow> (CustomerDeliveryRow \<Rightarrow> CustomerDeliveryRow) \<Rightarrow> CustomerDB
     \<Rightarrow> CustomerDB" where
  "update_deliveries match change db =
     db\<lparr>cb_Deliveries :=
       map (\<lambda>row. if match row then change row else row) (cb_Deliveries db)\<rparr>"

definition deliveries_matching :: "(CustomerDeliveryRow \<Rightarrow> bool) \<Rightarrow> CustomerDB \<Rightarrow> nat" where
  "deliveries_matching match db = length (filter match (cb_Deliveries db))"

definition update_customer_attempts ::
  "(DeliveryAttemptRow \<Rightarrow> bool) \<Rightarrow> (DeliveryAttemptRow \<Rightarrow> DeliveryAttemptRow) \<Rightarrow> CustomerDB
     \<Rightarrow> CustomerDB" where
  "update_customer_attempts match change db =
     db\<lparr>cb_Attempts := map (\<lambda>row. if match row then change row else row) (cb_Attempts db)\<rparr>"

definition release_delivery :: "CustomerDeliveryRow \<Rightarrow> CustomerDeliveryRow" where
  "release_delivery row =
     row\<lparr>cw_ClaimToken := None, cw_ClaimedAt := None, cw_LeaseExpiresAt := None,
         cw_DispatchStartedAt := None\<rparr>"

definition holds_delivery :: "string \<Rightarrow> string \<Rightarrow> string \<Rightarrow> CustomerDeliveryRow \<Rightarrow> bool" where
  "holds_delivery deliveryID salonID claimToken row \<longleftrightarrow>
     cw_ID row = deliveryID \<and> cw_SalonID row = salonID
     \<and> cw_DeliveryStatus row = StatusDelivering \<and> cw_ClaimToken row = Some claimToken"

definition delivery_lease_expired :: "gotime \<Rightarrow> CustomerDeliveryRow \<Rightarrow> bool" where
  "delivery_lease_expired now row \<longleftrightarrow>
     (case cw_LeaseExpiresAt row of None \<Rightarrow> False | Some expiry \<Rightarrow> expiry \<le> now)"

section \<open>Sources\<close>

text \<open>
  The source of a delivery is still what the message says: once as the SQL condition, once as the
  Go function that also locks the row.
\<close>

definition source_current :: "CustomerDeliveryRow \<Rightarrow> CustomerDB \<Rightarrow> bool" where
  "source_current row db =
     (if cw_NotificationType row = ''request_received''
      then list_ex (\<lambda>request. rs_SalonID request = cw_SalonID row
             \<and> Some (rs_ID request) = cw_SchedulingRequestID row
             \<and> rs_Status request = ''pending'' \<and> rs_Version request = cw_SourceVersion row)
           (cb_Requests db)
      else list_ex (\<lambda>appointment. as_SalonID appointment = cw_SalonID row
             \<and> Some (as_ID appointment) = cw_AppointmentID row
             \<and> Some (as_BookingAttemptID appointment) = cw_BookingAttemptID row
             \<and> as_Status appointment = cw_NotificationType row
             \<and> (case as_AuthorityVersion appointment of None \<Rightarrow> 1 | Some v \<Rightarrow> v)
               = cw_SourceVersion row)
           (cb_Appointments db))"

definition lockAndValidateDeliverySource ::
  "string \<Rightarrow> string \<Rightarrow> int \<Rightarrow> string option \<Rightarrow> string option \<Rightarrow> string option \<Rightarrow> CustomerDB \<Rightarrow> bool" where
  "lockAndValidateDeliverySource salonID notificationType sourceVersion schedulingRequestID
       appointmentID bookingAttemptID db =
     (if notificationType = NotificationRequestReceived
      then
        (case schedulingRequestID of
           None \<Rightarrow> False
         | Some requestID \<Rightarrow>
             (case find (\<lambda>request. rs_SalonID request = salonID \<and> rs_ID request = requestID)
                     (cb_Requests db) of
                None \<Rightarrow> False
              | Some request \<Rightarrow> rs_Version request = sourceVersion \<and> rs_Status request = ''pending''))
      else
        (case (appointmentID, bookingAttemptID) of
           (Some appointmentID, Some bookingAttemptID) \<Rightarrow>
             (case find (\<lambda>appointment. as_SalonID appointment = salonID
                      \<and> as_ID appointment = appointmentID) (cb_Appointments db) of
                None \<Rightarrow> False
              | Some appointment \<Rightarrow>
                  (case as_AuthorityVersion appointment of None \<Rightarrow> 1 | Some v \<Rightarrow> v) = sourceVersion
                  \<and> as_Status appointment = notificationType
                  \<and> as_BookingAttemptID appointment = bookingAttemptID)
         | _ \<Rightarrow> False))"

section \<open>Enqueueing\<close>

text \<open>
  \<open>enqueue_customer_notification\<close>, which the triggers on requests and appointments call inside the
  transaction that changes the source. The other columns of the row have their defaults.
\<close>

definition enqueued_row ::
  "CustomerEnv \<Rightarrow> gotime \<Rightarrow> string \<Rightarrow> string \<Rightarrow> int \<Rightarrow> string \<Rightarrow> string \<Rightarrow> string option
     \<Rightarrow> string option \<Rightarrow> string option \<Rightarrow> string \<Rightarrow> ConsentRow \<Rightarrow> SalonRow \<Rightarrow> CustomerDeliveryRow" where
  "enqueued_row env now salonID notificationType sourceVersion dedupeKey body requestID appointmentID
       bookingAttemptID normalized consent salon =
     \<lparr>cw_ID = cv_UUID env [0], cw_SalonID = salonID, cw_ConsentID = cr_ID consent,
      cw_SchedulingRequestID = requestID, cw_AppointmentID = appointmentID,
      cw_BookingAttemptID = bookingAttemptID, cw_NotificationType = notificationType,
      cw_SourceVersion = sourceVersion, cw_DedupeKey = dedupeKey, cw_Body = body,
      cw_Destination = Some normalized, cw_DestinationMasked = Some (cr_DestinationMasked consent),
      cw_ConsentVersion = cr_Version consent, cw_PolicyVersion = sn_PolicyVersion salon,
      cw_DeliveryStatus = ''queued'', cw_DeliveryProvider = [], cw_DeliveryAttempts = 0,
      cw_NextDeliveryAt = now, cw_ClaimToken = None, cw_ClaimedAt = None, cw_LeaseExpiresAt = None,
      cw_DispatchStartedAt = None, cw_ProviderMessageID = None, cw_ProviderStatus = [],
      cw_ProviderStatusRank = 0, cw_LastProviderEventAt = None, cw_DeliveredAt = None,
      cw_DeadLetteredAt = None, cw_SuppressedAt = None, cw_RequeueCount = 0, cw_LastErrorCode = [],
      cw_RedactedAt = None, cw_RedactionVersion = 0, cw_CreatedAt = now\<rparr>"

definition enqueue_customer_notification ::
  "CustomerEnv \<Rightarrow> gotime \<Rightarrow> string \<Rightarrow> string \<Rightarrow> string \<Rightarrow> int \<Rightarrow> string \<Rightarrow> string \<Rightarrow> string option
     \<Rightarrow> string option \<Rightarrow> string option \<Rightarrow> CustomerDB \<Rightarrow> (customer_error + unit) \<times> CustomerDB" where
  "enqueue_customer_notification env now salonID destination notificationType sourceVersion dedupeKey
       body requestID appointmentID bookingAttemptID db =
     (case (normalize_customer_sms_destination destination, salon_row salonID db) of
        (Some normalized, Some salon) \<Rightarrow>
          if \<not> sn_Enabled salon \<or> sn_QuietStart salon = [] \<or> sn_QuietEnd salon = []
             \<or> btrim (sn_Timezone salon) = []
          then (Inr (), db)
          else
            (case find (\<lambda>row. cr_SalonID row = salonID \<and> cr_Destination row = normalized
                     \<and> cr_Status row = ''consented'') (cb_Consents db) of
               None \<Rightarrow> (Inr (), db)
             | Some consent \<Rightarrow>
                 if list_ex (\<lambda>row. cw_SalonID row = salonID \<and> cw_DedupeKey row = dedupeKey)
                      (cb_Deliveries db)
                 then (Inr (), db)
                 else
                   let row = enqueued_row env now salonID notificationType sourceVersion dedupeKey
                         body requestID appointmentID bookingAttemptID normalized consent salon;
                       key = ''enqueue:'' @ dedupeKey
                   in if list_ex (\<lambda>other. cw_ID other = cw_ID row) (cb_Deliveries db)
                         \<or> event_exists salonID key db
                      then (Inl unique_violation, db)
                      else commit_customer env db
                        (db\<lparr>cb_Deliveries := cb_Deliveries db @ [row],
                            cb_Events := cb_Events db @
                              [\<lparr>de_ID = cv_UUID env [2], de_SalonID = salonID,
                                de_NotificationID = cw_ID row, de_EventKey = key,
                                de_EventFingerprint =
                                  cv_SHA256 env (key @ '':'' @ ''enqueued'' @ '':'' @ ''queued''),
                                de_EventType = ''enqueued'', de_DeliveryStatus = ''queued'',
                                de_ProviderStatus = [], de_ErrorCode = [], de_CreatedAt = now\<rparr>]\<rparr>) ())
      | _ \<Rightarrow> (Inr (), db))"

section \<open>Expired leases\<close>

record expiredCustomerNotificationLease =
  xl_id :: string
  xl_salonID :: string
  xl_token :: string
  xl_dispatched :: bool
  xl_attempts :: int
  xl_requeues :: int

definition app_worker_expired_customer_notification_leases ::
  "int \<Rightarrow> gotime \<Rightarrow> CustomerDB \<Rightarrow> expiredCustomerNotificationLease list" where
  "app_worker_expired_customer_notification_leases target_limit now db =
     map (\<lambda>row. \<lparr>xl_id = cw_ID row, xl_salonID = cw_SalonID row, xl_token = the (cw_ClaimToken row),
                  xl_dispatched = (cw_DispatchStartedAt row \<noteq> None),
                  xl_attempts = cw_DeliveryAttempts row, xl_requeues = cw_RequeueCount row\<rparr>)
       (take (nat (clamp 1 100 target_limit))
         (sort_key (\<lambda>row. (the (cw_LeaseExpiresAt row), cw_ID row))
           (filter (\<lambda>row. cw_DeliveryStatus row = StatusDelivering \<and> cw_ClaimToken row \<noteq> None
                \<and> delivery_lease_expired now row) (cb_Deliveries db))))"

text \<open>The status, attempt outcome, error code and event type of an expired lease.\<close>

definition expired_verdict :: "CustomerDeliveryRow \<Rightarrow> string \<times> string \<times> string \<times> string" where
  "expired_verdict row =
     (if cw_DispatchStartedAt row \<noteq> None
      then (StatusDeadLetter, ''outcome_unknown'', ''DELIVERY_OUTCOME_UNKNOWN'', ''dead_lettered'')
      else if cw_DeliveryAttempts row - cw_RequeueCount row * MaxSafeDeliveryAttempts
              \<ge> MaxSafeDeliveryAttempts
      then (StatusDeadLetter, ''dead_letter'', ''DELIVERY_LEASE_EXHAUSTED'', ''dead_lettered'')
      else (StatusFailed, ''safe_retry'', ''DELIVERY_LEASE_EXPIRED'', ''safe_retry_scheduled''))"

definition expired_row ::
  "gotime \<Rightarrow> string \<Rightarrow> string \<Rightarrow> CustomerDeliveryRow \<Rightarrow> CustomerDeliveryRow" where
  "expired_row now status code row =
     release_delivery (row\<lparr>cw_DeliveryStatus := status,
       cw_NextDeliveryAt := (if status = ''failed'' then now else cw_NextDeliveryAt row),
       cw_DeadLetteredAt := (if status = ''dead_letter'' then Some now else None),
       cw_LastErrorCode := code\<rparr>)"

definition recoverExpiredLease_customer ::
  "CustomerEnv \<Rightarrow> gotime \<Rightarrow> expiredCustomerNotificationLease \<Rightarrow> CustomerDB
     \<Rightarrow> (customer_error + bool) \<times> CustomerDB" where
  "recoverExpiredLease_customer env now item db =
     (case find (\<lambda>row. holds_delivery (xl_id item) (xl_salonID item) (xl_token item) row
               \<and> delivery_lease_expired now row) (cb_Deliveries db) of
        None \<Rightarrow> (Inr False, db)
      | Some row \<Rightarrow>
          (case expired_verdict row of (status, outcome, code, eventType) \<Rightarrow>
             commit_with_event env db
               (insertDeliveryEvent env now (xl_salonID item) (xl_id item)
                  (''expired:'' @ xl_token item) eventType status [] code
                 (update_customer_attempts
                    (\<lambda>attempt. open_attempt (xl_token item) attempt
                       \<and> da_SalonID attempt = xl_salonID item)
                    (finish_attempt outcome code now)
                   (update_deliveries (\<lambda>other. cw_ID other = xl_id item
                        \<and> cw_SalonID other = xl_salonID item
                        \<and> cw_ClaimToken other = Some (xl_token item))
                      (expired_row now status code) db))) True))"

fun recover_customer_leases ::
  "CustomerEnv \<Rightarrow> (nat \<Rightarrow> gotime) \<Rightarrow> nat \<Rightarrow> int \<Rightarrow> expiredCustomerNotificationLease list \<Rightarrow> CustomerDB
     \<Rightarrow> (customer_error + int) \<times> CustomerDB" where
  "recover_customer_leases env clock k recovered [] db = (Inr recovered, db)"
| "recover_customer_leases env clock k recovered (item # items) db =
     (case recoverExpiredLease_customer env (clock k) item db of
        (Inl err, db') \<Rightarrow> (Inl err, db')
      | (Inr changed, db') \<Rightarrow>
          recover_customer_leases env clock (Suc k) (if changed then recovered + 1 else recovered)
            items db')"

definition RecoverExpiredLeases_customer ::
  "CustomerEnv \<Rightarrow> (nat \<Rightarrow> gotime) \<Rightarrow> int \<Rightarrow> CustomerDB \<Rightarrow> (customer_error + int) \<times> CustomerDB" where
  "RecoverExpiredLeases_customer env clock limit db =
     (if limit \<le> 0 then (Inr 0, db)
      else recover_customer_leases env clock 1 0
             (app_worker_expired_customer_notification_leases limit (clock 0) db) db)"

section \<open>Claims\<close>

definition claimable_customer :: "int \<Rightarrow> gotime \<Rightarrow> CustomerDeliveryRow \<Rightarrow> bool" where
  "claimable_customer max_attempts_per_cycle now row \<longleftrightarrow>
     cw_DeliveryStatus row \<in> {''queued'', ''quiet_hours'', ''failed''}
     \<and> cw_NextDeliveryAt row \<le> now
     \<and> cw_DeliveryAttempts row
       < (cw_RequeueCount row + 1) * clamp 1 100 max_attempts_per_cycle"

definition tenant_rank_customer :: "CustomerDeliveryRow list \<Rightarrow> CustomerDeliveryRow \<Rightarrow> int" where
  "tenant_rank_customer ranked row =
     int (length (filter (\<lambda>other. cw_SalonID other = cw_SalonID row)
       (takeWhile (\<lambda>other. cw_ID other \<noteq> cw_ID row) ranked))) + 1"

definition customer_candidates ::
  "CustomerEnv \<Rightarrow> int \<Rightarrow> int \<Rightarrow> gotime \<Rightarrow> CustomerDB \<Rightarrow> CustomerDeliveryRow list" where
  "customer_candidates env max_attempts_per_cycle target_limit now db =
     (let ranked = sort_key (\<lambda>row. (cw_NextDeliveryAt row, cw_CreatedAt row, cw_ID row))
            (filter (claimable_customer max_attempts_per_cycle now) (cb_Deliveries db))
      in take (nat (clamp 1 100 target_limit))
           (filter (\<lambda>row. \<not> cv_Locked env (cw_ID row)
                \<and> tenant_rank_customer ranked row
                  \<le> (case cv_ClaimLimit env (cw_SalonID row) of None \<Rightarrow> 2 | Some n \<Rightarrow> n)) ranked))"

definition claim_customer_row ::
  "int \<Rightarrow> gotime \<Rightarrow> string \<Rightarrow> CustomerDeliveryRow \<Rightarrow> CustomerDeliveryRow" where
  "claim_customer_row lease_milliseconds now token row =
     row\<lparr>cw_DeliveryStatus := ''delivering'', cw_DeliveryProvider := ''twilio'',
         cw_ClaimToken := Some token, cw_ClaimedAt := Some now,
         cw_LeaseExpiresAt := Some (now + clamp 1 3600000 lease_milliseconds * 1000000),
         cw_DispatchStartedAt := None, cw_DeliveryAttempts := cw_DeliveryAttempts row + 1,
         cw_DeadLetteredAt := None, cw_SuppressedAt := None, cw_LastErrorCode := []\<rparr>"

definition leased_customer_attempt :: "CustomerDeliveryRow \<Rightarrow> DeliveryAttemptRow" where
  "leased_customer_attempt row =
     \<lparr>da_SalonID = cw_SalonID row, da_NotificationID = cw_ID row,
      da_AttemptNumber = cw_DeliveryAttempts row, da_ClaimToken = the (cw_ClaimToken row),
      da_Provider = ''twilio'', da_Outcome = ''leased'', da_ProviderStatus = [],
      da_ProviderMessageID = None, da_ErrorCode = [], da_DispatchStartedAt = None,
      da_FinishedAt = None\<rparr>"

definition claimed_customer_event ::
  "CustomerEnv \<Rightarrow> gotime \<Rightarrow> nat \<times> CustomerDeliveryRow \<Rightarrow> DeliveryEventRow" where
  "claimed_customer_event env now = (\<lambda>(index, row).
     let key = ''claim:'' @ the (cw_ClaimToken row) in
     \<lparr>de_ID = cv_UUID env [2, index], de_SalonID = cw_SalonID row, de_NotificationID = cw_ID row,
      de_EventKey = key,
      de_EventFingerprint = cv_SHA256 env (cw_ID row @ [CHR 0x00] @ key @ [CHR 0x00]
         @ ''claimed'' @ [CHR 0x00] @ ''delivering'' @ [CHR 0x00, CHR 0x00]),
      de_EventType = ''claimed'', de_DeliveryStatus = ''delivering'', de_ProviderStatus = [],
      de_ErrorCode = [], de_CreatedAt = now\<rparr>)"

definition event_keys_unique :: "DeliveryEventRow list \<Rightarrow> bool" where
  "event_keys_unique events \<longleftrightarrow> distinct (map (\<lambda>event. (de_SalonID event, de_EventKey event)) events)"

definition app_worker_claim_customer_notifications ::
  "CustomerEnv \<Rightarrow> int \<Rightarrow> int \<Rightarrow> int \<Rightarrow> gotime \<Rightarrow> CustomerDB
     \<Rightarrow> (customer_error + CustomerDeliveryRow list) \<times> CustomerDB" where
  "app_worker_claim_customer_notifications env max_attempts_per_cycle target_limit lease_milliseconds
       now db =
     (let claimed = map (\<lambda>(index, row).
                claim_customer_row lease_milliseconds now (cv_UUID env [0, index]) row)
              (enumerate 0 (customer_candidates env max_attempts_per_cycle target_limit now db));
          attempts = cb_Attempts db @ map leased_customer_attempt claimed;
          events = cb_Events db @ map (claimed_customer_event env now) (enumerate 0 claimed)
      in if \<not> attempts_unique attempts \<or> \<not> event_keys_unique events
         then (Inl unique_violation, db)
         else commit_customer env db
           (db\<lparr>cb_Deliveries := map (\<lambda>row.
                  case find (\<lambda>new. cw_ID new = cw_ID row) claimed of
                    None \<Rightarrow> row | Some new \<Rightarrow> new) (cb_Deliveries db),
               cb_Attempts := attempts, cb_Events := events\<rparr>) claimed)"

definition scanClaimed :: "CustomerDeliveryRow \<Rightarrow> ClaimedDelivery" where
  "scanClaimed row =
     \<lparr>cd_ID = cw_ID row, cd_SalonID = cw_SalonID row, cd_ConsentID = cw_ConsentID row,
      cd_NotificationType = cw_NotificationType row, cd_Body = cw_Body row,
      cd_Destination = the (cw_Destination row),
      cd_DestinationMasked = the (cw_DestinationMasked row),
      cd_ConsentVersion = cw_ConsentVersion row, cd_PolicyVersion = cw_PolicyVersion row,
      cd_ClaimToken = the (cw_ClaimToken row), cd_AttemptNumber = cw_DeliveryAttempts row,
      cd_RequeueCount = cw_RequeueCount row\<rparr>"

text \<open>A NULL cannot be scanned into a string; the claim is committed by then.\<close>

definition scan_null :: customer_error where
  "scan_null = CustomerDatabaseError ''converting NULL is unsupported''"

definition ClaimBatch_customer ::
  "CustomerEnv \<Rightarrow> gotime \<Rightarrow> int \<Rightarrow> int \<Rightarrow> CustomerDB
     \<Rightarrow> (customer_error + ClaimedDelivery list) \<times> CustomerDB" where
  "ClaimBatch_customer env now limit lease db =
     (if limit \<le> 0 \<or> lease \<le> 0 then (Inl ErrCustomerValidation, db)
      else
        (case app_worker_claim_customer_notifications env MaxSafeDeliveryAttempts limit
                (lease div 1000000) now db of
           (Inl err, db') \<Rightarrow> (Inl err, db')
         | (Inr claimed, db') \<Rightarrow>
             if list_ex (\<lambda>row. cw_Destination row = None \<or> cw_DestinationMasked row = None) claimed
             then (Inl scan_null, db')
             else (Inr (map scanClaimed claimed), db')))"

section \<open>Before the dispatch\<close>

definition ResolveDispatchReadiness ::
  "gotime \<Rightarrow> ClaimedDelivery \<Rightarrow> CustomerDB \<Rightarrow> customer_error + DispatchReadiness" where
  "ResolveDispatchReadiness now item db =
     (case find (holds_delivery (cd_ID item) (cd_SalonID item) (cd_ClaimToken item))
             (cb_Deliveries db) of
        None \<Rightarrow> Inl ErrCustomerClaimLost
      | Some delivery \<Rightarrow>
          (case (consent_by_id (cw_SalonID delivery) (cw_ConsentID delivery) db,
                 salon_row (cw_SalonID delivery) db) of
             (Some consent, Some salon) \<Rightarrow>
               let readiness = \<lparr>drd_Eligible = sn_Enabled salon, drd_ReasonCode = [],
                     drd_Timezone = sn_Timezone salon, drd_QuietStart = sn_QuietStart salon,
                     drd_QuietEnd = sn_QuietEnd salon, drd_Now = now\<rparr>;
                   blocked = (\<lambda>code. readiness\<lparr>drd_Eligible := False, drd_ReasonCode := code\<rparr>)
               in Inr
                 (if \<not> drd_Eligible readiness
                  then readiness\<lparr>drd_ReasonCode := ''CUSTOMER_SMS_POLICY_DISABLED''\<rparr>
                  else if cr_Status consent \<noteq> ConsentConsented
                     \<or> cr_Destination consent \<noteq> cd_Destination item
                  then blocked ''CUSTOMER_SMS_CONSENT_INACTIVE''
                  else if cr_Version consent \<noteq> cd_ConsentVersion item
                  then blocked ''CUSTOMER_SMS_CONSENT_STALE''
                  else if sn_PolicyVersion salon \<noteq> cd_PolicyVersion item
                  then blocked ''CUSTOMER_SMS_POLICY_STALE''
                  else if \<not> source_current delivery db
                  then blocked ''CUSTOMER_SMS_SOURCE_STALE''
                  else if sn_Timezone salon = [] \<or> sn_QuietStart salon = [] \<or> sn_QuietEnd salon = []
                  then blocked ''CUSTOMER_SMS_POLICY_NOT_READY''
                  else readiness)
           | _ \<Rightarrow> Inl ErrCustomerClaimLost))"

text \<open>The revalidation of consent and policy inside the transaction that marks the dispatch.\<close>

definition dispatch_permitted :: "ClaimedDelivery \<Rightarrow> ConsentRow \<Rightarrow> SalonRow \<Rightarrow> bool" where
  "dispatch_permitted item consent salon \<longleftrightarrow>
     \<not> (\<not> sn_Enabled salon \<or> sn_PolicyVersion salon \<noteq> cd_PolicyVersion item
        \<or> cr_Status consent \<noteq> ConsentConsented \<or> cr_Version consent \<noteq> cd_ConsentVersion item
        \<or> cr_Destination consent \<noteq> cd_Destination item
        \<or> TrimSpace (sn_Timezone salon) = [] \<or> sn_QuietStart salon = [] \<or> sn_QuietEnd salon = [])"

definition MarkDispatchStarted_customer ::
  "CustomerEnv \<Rightarrow> gotime \<Rightarrow> ClaimedDelivery \<Rightarrow> CustomerDB \<Rightarrow> (customer_error + unit) \<times> CustomerDB" where
  "MarkDispatchStarted_customer env now item db =
     (case consent_by_id (cd_SalonID item) (cd_ConsentID item) db of
        None \<Rightarrow> (Inl ErrDispatchBlocked, db)
      | Some consent \<Rightarrow>
          (case salon_row (cd_SalonID item) db of
             None \<Rightarrow> (Inl ErrDispatchBlocked, db)
           | Some salon \<Rightarrow>
               if \<not> dispatch_permitted item consent salon then (Inl ErrDispatchBlocked, db)
               else
                 (case find (holds_delivery (cd_ID item) (cd_SalonID item) (cd_ClaimToken item))
                         (cb_Deliveries db) of
                    None \<Rightarrow> (Inl ErrCustomerClaimLost, db)
                  | Some delivery \<Rightarrow>
                      let match = (\<lambda>row. holds_delivery (cd_ID item) (cd_SalonID item)
                             (cd_ClaimToken item) row \<and> (\<exists>expiry \<in> set_option (cw_LeaseExpiresAt row).
                               expiry > now))
                      in if \<not> lockAndValidateDeliverySource (cd_SalonID item)
                              (cw_NotificationType delivery) (cw_SourceVersion delivery)
                              (cw_SchedulingRequestID delivery) (cw_AppointmentID delivery)
                              (cw_BookingAttemptID delivery) db
                         then (Inl ErrDispatchBlocked, db)
                         else if deliveries_matching match db \<noteq> 1
                         then (Inl ErrCustomerClaimLost, db)
                         else commit_with_event env db
                           (insertDeliveryEvent env now (cd_SalonID item) (cd_ID item)
                              (''dispatch:'' @ cd_ClaimToken item) ''dispatch_started''
                              StatusDelivering [] []
                             (update_customer_attempts (open_attempt (cd_ClaimToken item))
                                (\<lambda>row. row\<lparr>da_DispatchStartedAt := Some now\<rparr>)
                               (update_deliveries match
                                  (\<lambda>row. row\<lparr>cw_DispatchStartedAt := Some now\<rparr>) db))) ())))"

section \<open>The records of an attempt\<close>

definition completed_delivery ::
  "gotime \<Rightarrow> string \<Rightarrow> string \<Rightarrow> gotime option \<Rightarrow> bool \<Rightarrow> CustomerDeliveryRow \<Rightarrow> CustomerDeliveryRow" where
  "completed_delivery now status code next_at dead row =
     release_delivery (row\<lparr>cw_DeliveryStatus := status,
       cw_NextDeliveryAt := (case next_at of None \<Rightarrow> cw_NextDeliveryAt row | Some t \<Rightarrow> t),
       cw_DeadLetteredAt := (if dead then Some now else None),
       cw_SuppressedAt := (if status = ''suppressed'' then Some now else None),
       cw_LastErrorCode := code\<rparr>)"

definition completion_event_type :: "string \<Rightarrow> string" where
  "completion_event_type status =
     (if status = StatusSuppressed then ''suppressed''
      else if status = StatusDeadLetter then ''dead_lettered''
      else if status = StatusQuietHours then ''quiet_hours_scheduled''
      else ''safe_retry_scheduled'')"

definition completeWithoutProvider_customer ::
  "CustomerEnv \<Rightarrow> gotime \<Rightarrow> ClaimedDelivery \<Rightarrow> string \<Rightarrow> string \<Rightarrow> string \<Rightarrow> gotime \<Rightarrow> bool \<Rightarrow> CustomerDB
     \<Rightarrow> (customer_error + unit) \<times> CustomerDB" where
  "completeWithoutProvider_customer env now item status outcome code next_time dead db =
     (let match = holds_delivery (cd_ID item) (cd_SalonID item) (cd_ClaimToken item);
          next_at = (if next_time = 0 then None else Some next_time)
      in if deliveries_matching match db \<noteq> 1 then (Inl ErrCustomerClaimLost, db)
         else commit_with_event env db
           (insertDeliveryEvent env now (cd_SalonID item) (cd_ID item)
              (outcome @ '':'' @ cd_ClaimToken item) (completion_event_type status) status [] code
             (update_customer_attempts (open_attempt (cd_ClaimToken item))
                (finish_attempt outcome code now)
               (update_deliveries match (completed_delivery now status code next_at dead) db))) ())"

definition RecordQuietHours ::
  "CustomerEnv \<Rightarrow> gotime \<Rightarrow> ClaimedDelivery \<Rightarrow> gotime \<Rightarrow> CustomerDB
     \<Rightarrow> (customer_error + unit) \<times> CustomerDB" where
  "RecordQuietHours env now item next_time =
     completeWithoutProvider_customer env now item StatusQuietHours ''quiet_hours''
       ''CUSTOMER_SMS_QUIET_HOURS'' next_time False"

definition RecordSuppressed ::
  "CustomerEnv \<Rightarrow> gotime \<Rightarrow> ClaimedDelivery \<Rightarrow> string \<Rightarrow> CustomerDB
     \<Rightarrow> (customer_error + unit) \<times> CustomerDB" where
  "RecordSuppressed env now item code =
     completeWithoutProvider_customer env now item StatusSuppressed ''suppressed'' code 0 False"

definition RecordSafeFailure_customer ::
  "CustomerEnv \<Rightarrow> gotime \<Rightarrow> ClaimedDelivery \<Rightarrow> string \<Rightarrow> gotime \<Rightarrow> CustomerDB
     \<Rightarrow> (customer_error + unit) \<times> CustomerDB" where
  "RecordSafeFailure_customer env now item code next_time =
     (if attemptInCycle item \<ge> MaxSafeDeliveryAttempts
      then completeWithoutProvider_customer env now item StatusDeadLetter ''dead_letter'' code
             next_time True
      else completeWithoutProvider_customer env now item StatusFailed ''safe_retry'' code
             next_time False)"

definition RecordOutcomeUnknown_customer ::
  "CustomerEnv \<Rightarrow> gotime \<Rightarrow> ClaimedDelivery \<Rightarrow> string \<Rightarrow> CustomerDB
     \<Rightarrow> (customer_error + unit) \<times> CustomerDB" where
  "RecordOutcomeUnknown_customer env now item code =
     completeWithoutProvider_customer env now item StatusDeadLetter ''outcome_unknown''
       ''DELIVERY_OUTCOME_UNKNOWN'' 0 True"

definition RecordDefinitiveFailure_customer ::
  "CustomerEnv \<Rightarrow> gotime \<Rightarrow> ClaimedDelivery \<Rightarrow> string \<Rightarrow> CustomerDB
     \<Rightarrow> (customer_error + unit) \<times> CustomerDB" where
  "RecordDefinitiveFailure_customer env now item code =
     completeWithoutProvider_customer env now item StatusDeadLetter ''dead_letter'' code 0 True"

definition accepted_delivery ::
  "gotime \<Rightarrow> SendResult \<Rightarrow> CustomerDeliveryRow \<Rightarrow> CustomerDeliveryRow" where
  "accepted_delivery now result row =
     (let status = sr_DeliveryStatus result; dead = (status = StatusDeadLetter) in
      release_delivery (row\<lparr>cw_DeliveryStatus := status, cw_DeliveryProvider := ''twilio'',
        cw_ProviderMessageID := Some (sr_ProviderMessageID result),
        cw_ProviderStatus := sr_ProviderStatus result,
        cw_ProviderStatusRank := sr_StatusRank result, cw_LastProviderEventAt := Some now,
        cw_DeliveredAt := (if status = StatusDelivered then Some now else cw_DeliveredAt row),
        cw_DeadLetteredAt := (if dead then Some now else None),
        cw_LastErrorCode := (if dead then ''TWILIO_DELIVERY_FAILED'' else [])\<rparr>))"

definition RecordProviderResult_customer ::
  "CustomerEnv \<Rightarrow> gotime \<Rightarrow> ClaimedDelivery \<Rightarrow> SendResult \<Rightarrow> CustomerDB
     \<Rightarrow> (customer_error + unit) \<times> CustomerDB" where
  "RecordProviderResult_customer env now item result db =
     (let match = holds_delivery (cd_ID item) (cd_SalonID item) (cd_ClaimToken item)
      in if TrimSpace (sr_ProviderMessageID result) = [] \<or> sr_StatusRank result \<le> 0
         then (Inl ErrCustomerValidation, db)
         else if deliveries_matching match db \<noteq> 1 then (Inl ErrCustomerClaimLost, db)
         else commit_with_event env db
           (insertDeliveryEvent env now (cd_SalonID item) (cd_ID item)
              (''provider:'' @ cd_ClaimToken item) ''provider_response''
              (sr_DeliveryStatus result) (sr_ProviderStatus result) []
             (update_customer_attempts (open_attempt (cd_ClaimToken item))
                (\<lambda>row. row\<lparr>da_Outcome := attempt_outcome (sr_DeliveryStatus result),
                   da_ProviderStatus := sr_ProviderStatus result,
                   da_ProviderMessageID := Some (sr_ProviderMessageID result),
                   da_FinishedAt := Some now\<rparr>)
               (update_deliveries match (accepted_delivery now result) db))) ())"

section \<open>Provider callbacks\<close>

definition carries_customer_message :: "string \<Rightarrow> string \<Rightarrow> CustomerDeliveryRow \<Rightarrow> bool" where
  "carries_customer_message provider messageID row \<longleftrightarrow>
     cw_DeliveryProvider row = provider \<and> cw_ProviderMessageID row = Some messageID"

definition reported_delivery :: "ProviderCallback \<Rightarrow> CustomerDeliveryRow \<Rightarrow> CustomerDeliveryRow" where
  "reported_delivery callback row =
     row\<lparr>cw_DeliveryStatus := pcb_DeliveryStatus callback,
         cw_ProviderStatus := pcb_ProviderStatus callback,
         cw_ProviderStatusRank := pcb_StatusRank callback,
         cw_LastProviderEventAt := Some (pcb_OccurredAt callback),
         cw_DeliveredAt := (if pcb_DeliveryStatus callback = ''delivered''
            then Some (pcb_OccurredAt callback) else cw_DeliveredAt row),
         cw_DeadLetteredAt := (if pcb_DeliveryStatus callback = ''dead_letter''
            then Some (pcb_OccurredAt callback) else None),
         cw_LastErrorCode := pcb_ErrorCode callback\<rparr>"

definition customer_callback_event ::
  "CustomerEnv \<Rightarrow> gotime \<Rightarrow> ProviderCallback \<Rightarrow> CustomerDeliveryRow \<Rightarrow> string \<Rightarrow> DeliveryEventRow" where
  "customer_callback_event env now callback row status =
     \<lparr>de_ID = cv_UUID env [2], de_SalonID = cw_SalonID row, de_NotificationID = cw_ID row,
      de_EventKey = pcb_EventKey callback,
      de_EventFingerprint = pcb_EventFingerprint callback, de_EventType = ''status_callback'',
      de_DeliveryStatus = status, de_ProviderStatus = pcb_ProviderStatus callback,
      de_ErrorCode = pcb_ErrorCode callback, de_CreatedAt = now\<rparr>"

definition ApplyProviderCallback_customer ::
  "CustomerEnv \<Rightarrow> gotime \<Rightarrow> ProviderCallback \<Rightarrow> CustomerDB \<Rightarrow> (customer_error + unit) \<times> CustomerDB" where
  "ApplyProviderCallback_customer env now callback db =
     (case find (carries_customer_message (pcb_Provider callback) (pcb_ProviderMessageID callback))
             (cb_Deliveries db) of
        None \<Rightarrow> (Inl (Delivery_Error ErrDeliveryNotFound), db)
      | Some row \<Rightarrow>
          (case find (\<lambda>event. de_SalonID event = cw_SalonID row
                    \<and> de_EventKey event = pcb_EventKey callback) (cb_Events db) of
             Some event \<Rightarrow>
               (if de_EventFingerprint event \<noteq> pcb_EventFingerprint callback
                then (Inl (Delivery_Error ErrDeliveryConflict), db) else (Inr (), db))
           | None \<Rightarrow>
               if pcb_StatusRank callback > cw_ProviderStatusRank row
               then
                 let db' = update_customer_attempts (\<lambda>attempt. da_NotificationID attempt = cw_ID row
                        \<and> da_ProviderMessageID attempt = Some (pcb_ProviderMessageID callback))
                        (reported_attempt now callback)
                       (update_deliveries (\<lambda>other. cw_ID other = cw_ID row)
                          (reported_delivery callback) db)
                 in commit_customer env db
                      (db'\<lparr>cb_Events := cb_Events db' @ [customer_callback_event env now callback row
                         (pcb_DeliveryStatus callback)]\<rparr>) ()
               else commit_customer env db
                      (db\<lparr>cb_Events := cb_Events db @ [customer_callback_event env now callback row
                         (cw_DeliveryStatus row)]\<rparr>) ()))"

definition SalonIDForProviderMessage_customer ::
  "string \<Rightarrow> string \<Rightarrow> CustomerDB \<Rightarrow> customer_error + string" where
  "SalonIDForProviderMessage_customer provider messageID db =
     (case find (\<lambda>row. btrim provider \<noteq> [] \<and> btrim messageID \<noteq> []
             \<and> carries_customer_message (btrim provider) (btrim messageID) row)
             (sort_key cw_ID (cb_Deliveries db)) of
        None \<Rightarrow> Inl (Delivery_Error ErrDeliveryNotFound)
      | Some row \<Rightarrow> if cw_SalonID row = [] then Inl (Delivery_Error ErrDeliveryNotFound)
                    else Inr (cw_SalonID row))"

end
