(* ===== verification/Customer_Service.thy ===== *)
theory Customer_Service
  imports Customer_Delivery Delivery_Processor
begin

text \<open>
  What owners, conversations and Twilio call: details and requeues of the outbox, the service
  (\<open>modules/customer_notification/service.go\<close>) and the multiplexer that hands a status callback to
  owner notifications first and to customer notifications when they do not know the message
  (\<open>twilio.go\<close>).
\<close>

section \<open>Details\<close>

record CustomerDeliveryEvent =
  ne_EventType :: string
  ne_DeliveryStatus :: string
  ne_ProviderStatus :: string
  ne_ErrorCode :: string
  ne_CreatedAt :: gotime

record Delivery =
  dy_ID :: string
  dy_NotificationType :: string
  dy_DeliveryStatus :: string
  dy_DestinationMasked :: string
  dy_DeliveryAttempts :: int
  dy_ProviderStatus :: string
  dy_LastDeliveryErrorCode :: string
  dy_CanRequeue :: bool
  dy_RequeueBlockedReason :: string
  dy_NextDeliveryAt :: gotime
  dy_DeliveredAt :: "gotime option"
  dy_DeadLetteredAt :: "gotime option"
  dy_Redacted :: bool
  dy_RedactedAt :: "gotime option"
  dy_RedactionVersion :: int
  dy_CreatedAt :: gotime
  dy_Events :: "CustomerDeliveryEvent list"

record Detail =
  dt_Consent :: "Consent option"
  dt_Deliveries :: "Delivery list"

text \<open>AND of SQL; \<open>None\<close> is NULL.\<close>

definition sql_and :: "bool option \<Rightarrow> bool option \<Rightarrow> bool option" where
  "sql_and a b =
     (if a = Some False \<or> b = Some False then Some False
      else if a = Some True \<and> b = Some True then Some True else None)"

definition outcome_unknown :: "CustomerDeliveryRow \<Rightarrow> CustomerDB \<Rightarrow> bool" where
  "outcome_unknown row db =
     list_ex (\<lambda>attempt. da_NotificationID attempt = cw_ID row \<and> da_Outcome attempt = ''outcome_unknown'')
       (cb_Attempts db)"

definition consent_current :: "CustomerDeliveryRow \<Rightarrow> ConsentRow \<Rightarrow> bool option" where
  "consent_current row consent =
     sql_and (sql_and (Some (cr_Status consent = ''consented''))
       (Some (cr_Version consent = cw_ConsentVersion row)))
       (map_option (\<lambda>destination. cr_Destination consent = destination) (cw_Destination row))"

definition policy_current :: "CustomerDeliveryRow \<Rightarrow> SalonRow \<Rightarrow> bool" where
  "policy_current row salon \<longleftrightarrow> sn_Enabled salon \<and> sn_PolicyVersion salon = cw_PolicyVersion row"

text \<open>
  One row of the query; a row without its consent or salon does not join. \<open>Scan\<close> of a NULL into a
  bool is an error.
\<close>

definition scanDetail :: "CustomerDB \<Rightarrow> CustomerDeliveryRow \<Rightarrow> (customer_error + Delivery) option" where
  "scanDetail db row =
     (case (consent_by_id (cw_SalonID row) (cw_ConsentID row) db, salon_row (cw_SalonID row) db) of
        (Some consent, Some salon) \<Rightarrow>
          Some (case consent_current row consent of
             None \<Rightarrow> Inl scan_null
           | Some consentCurrent \<Rightarrow>
               let outcomeUnknown = outcome_unknown row db;
                   policyCurrent = policy_current row salon;
                   sourceCurrent = source_current row db;
                   redacted = (cw_RedactedAt row \<noteq> None);
                   canRequeue = (\<not> redacted \<and> cw_DeliveryStatus row = StatusDeadLetter
                     \<and> \<not> outcomeUnknown \<and> consentCurrent \<and> policyCurrent \<and> sourceCurrent
                     \<and> cw_RequeueCount row < MaxOwnerRequeues)
               in Inr \<lparr>dy_ID = cw_ID row, dy_NotificationType = cw_NotificationType row,
                       dy_DeliveryStatus = cw_DeliveryStatus row,
                       dy_DestinationMasked =
                         (case cw_DestinationMasked row of None \<Rightarrow> [] | Some m \<Rightarrow> m),
                       dy_DeliveryAttempts = cw_DeliveryAttempts row,
                       dy_ProviderStatus = cw_ProviderStatus row,
                       dy_LastDeliveryErrorCode = cw_LastErrorCode row,
                       dy_CanRequeue = canRequeue,
                       dy_RequeueBlockedReason =
                         (if redacted then ''delivery_content_redacted''
                          else if outcomeUnknown then ''delivery_outcome_unknown''
                          else if cw_RequeueCount row \<ge> MaxOwnerRequeues
                          then ''requeue_limit_reached''
                          else if \<not> consentCurrent then ''customer_sms_consent_inactive_or_stale''
                          else if \<not> policyCurrent then ''customer_sms_policy_disabled_or_stale''
                          else if \<not> sourceCurrent then ''source_snapshot_stale''
                          else if \<not> canRequeue then ''delivery_not_safely_requeueable'' else []),
                       dy_NextDeliveryAt = cw_NextDeliveryAt row,
                       dy_DeliveredAt = cw_DeliveredAt row,
                       dy_DeadLetteredAt = cw_DeadLetteredAt row, dy_Redacted = redacted,
                       dy_RedactedAt = cw_RedactedAt row,
                       dy_RedactionVersion = cw_RedactionVersion row,
                       dy_CreatedAt = cw_CreatedAt row, dy_Events = []\<rparr>)
      | _ \<Rightarrow> None)"

fun scan_details ::
  "CustomerDB \<Rightarrow> CustomerDeliveryRow list \<Rightarrow> customer_error + Delivery list" where
  "scan_details db [] = Inr []"
| "scan_details db (row # rows) =
     (case scanDetail db row of
        None \<Rightarrow> scan_details db rows
      | Some (Inl err) \<Rightarrow> Inl err
      | Some (Inr item) \<Rightarrow> map_sum id (\<lambda>items. item # items) (scan_details db rows))"

definition with_events :: "string \<Rightarrow> CustomerDB \<Rightarrow> Delivery \<Rightarrow> Delivery" where
  "with_events salonID db item =
     item\<lparr>dy_Events :=
       map (\<lambda>event. \<lparr>ne_EventType = de_EventType event,
              ne_DeliveryStatus = de_DeliveryStatus event,
              ne_ProviderStatus = de_ProviderStatus event, ne_ErrorCode = de_ErrorCode event,
              ne_CreatedAt = de_CreatedAt event\<rparr>)
         (sort_key (\<lambda>event. (de_CreatedAt event, de_ID event))
           (filter (\<lambda>event. de_SalonID event = salonID \<and> de_NotificationID event = dy_ID item)
             (cb_Events db)))\<rparr>"

definition of_source :: "string \<Rightarrow> string \<Rightarrow> CustomerDeliveryRow \<Rightarrow> bool" where
  "of_source sourceID sourceKind row \<longleftrightarrow>
     sourceKind = ''appointment'' \<and> cw_AppointmentID row = Some sourceID
     \<or> sourceKind = ''request'' \<and> cw_SchedulingRequestID row = Some sourceID"

definition detailForSource ::
  "string \<Rightarrow> string \<Rightarrow> string \<Rightarrow> string \<Rightarrow> CustomerDB \<Rightarrow> customer_error + Detail" where
  "detailForSource salonID sourceID sourceKind destination db =
     (let consent = (if destination = [] then None
            else (case ConsentForDestination salonID destination db of
                    Inl _ \<Rightarrow> None | Inr consent \<Rightarrow> Some consent))
      in map_sum id (\<lambda>items. \<lparr>dt_Consent = consent,
             dt_Deliveries = map (with_events salonID db) items\<rparr>)
           (scan_details db (rev (sort_key (\<lambda>row. (cw_CreatedAt row, cw_ID row))
             (filter (\<lambda>row. cw_SalonID row = salonID \<and> of_source sourceID sourceKind row)
               (cb_Deliveries db))))))"

definition sql_destination :: "string \<Rightarrow> string" where
  "sql_destination phone =
     (case normalize_customer_sms_destination phone of None \<Rightarrow> [] | Some d \<Rightarrow> d)"

definition DetailForAppointment ::
  "CustomerEnv \<Rightarrow> string \<Rightarrow> string \<Rightarrow> string \<Rightarrow> CustomerDB \<Rightarrow> customer_error + Detail" where
  "DetailForAppointment env salonID ownerUserID appointmentID db =
     (case find (\<lambda>row. as_SalonID row = salonID \<and> as_ID row = appointmentID
             \<and> cv_MayRead env salonID ownerUserID) (cb_Appointments db) of
        None \<Rightarrow> Inl ErrCustomerNotFound
      | Some row \<Rightarrow> detailForSource salonID appointmentID ''appointment''
                      (sql_destination (as_CustomerPhone row)) db)"

definition DetailForRequest ::
  "CustomerEnv \<Rightarrow> string \<Rightarrow> string \<Rightarrow> string \<Rightarrow> CustomerDB \<Rightarrow> customer_error + Detail" where
  "DetailForRequest env salonID ownerUserID requestID db =
     (case find (\<lambda>row. rs_SalonID row = salonID \<and> rs_ID row = requestID
             \<and> cv_MayRead env salonID ownerUserID) (cb_Requests db) of
        None \<Rightarrow> Inl ErrCustomerNotFound
      | Some row \<Rightarrow> detailForSource salonID requestID ''request''
                      (sql_destination (rs_CustomerPhone row)) db)"

section \<open>Requeues\<close>

definition requeue_customer_blocked ::
  "CustomerDeliveryRow \<Rightarrow> ConsentRow \<Rightarrow> SalonRow \<Rightarrow> bool \<Rightarrow> CustomerDB \<Rightarrow> bool" where
  "requeue_customer_blocked row consent salon sourceCurrent db \<longleftrightarrow>
     cw_RedactedAt row \<noteq> None \<or> \<not> sn_Enabled salon \<or> cr_Status consent \<noteq> ConsentConsented
     \<or> cr_Destination consent = [] \<or> Some (cr_Destination consent) \<noteq> cw_Destination row
     \<or> cr_Version consent \<noteq> cw_ConsentVersion row \<or> sn_PolicyVersion salon \<noteq> cw_PolicyVersion row
     \<or> cw_DeliveryStatus row \<noteq> StatusDeadLetter \<or> outcome_unknown row db
     \<or> cw_RequeueCount row \<ge> MaxOwnerRequeues \<or> \<not> sourceCurrent"

definition requeued_delivery :: "gotime \<Rightarrow> CustomerDeliveryRow \<Rightarrow> CustomerDeliveryRow" where
  "requeued_delivery now row =
     row\<lparr>cw_DeliveryStatus := ''queued'', cw_NextDeliveryAt := now, cw_DeadLetteredAt := None,
         cw_SuppressedAt := None, cw_RequeueCount := cw_RequeueCount row + 1,
         cw_LastErrorCode := []\<rparr>"

text \<open>
  A NULL destination fails to scan before \<open>owns\<close> is scanned, and the code then takes the owner for
  a stranger.
\<close>

definition requeueForOwner_customer ::
  "CustomerEnv \<Rightarrow> gotime \<Rightarrow> string \<Rightarrow> string \<Rightarrow> string \<Rightarrow> string \<Rightarrow> string \<Rightarrow> string \<Rightarrow> string
     \<Rightarrow> CustomerDB \<Rightarrow> (customer_error + bool) \<times> CustomerDB" where
  "requeueForOwner_customer env now salonID ownerUserID sourceID sourceKind deliveryID actionKey
       fingerprint db =
     (case find (\<lambda>action. dc_SalonID action = salonID \<and> dc_ActionKey action = actionKey)
             (cb_Actions db) of
        Some action \<Rightarrow>
          (if dc_ActionFingerprint action \<noteq> fingerprint then (Inl ErrCustomerConflict, db)
           else (Inr True, db))
      | None \<Rightarrow>
          (case find (\<lambda>row. cw_SalonID row = salonID \<and> cw_ID row = deliveryID
                  \<and> of_source sourceID sourceKind row) (cb_Deliveries db) of
             None \<Rightarrow> (Inl ErrCustomerNotFound, db)
           | Some row \<Rightarrow>
               (case (consent_by_id salonID (cw_ConsentID row) db, salon_row salonID db) of
                  (Some consent, Some salon) \<Rightarrow>
                    let sourceCurrent = lockAndValidateDeliverySource salonID
                          (cw_NotificationType row) (cw_SourceVersion row)
                          (cw_SchedulingRequestID row) (cw_AppointmentID row)
                          (cw_BookingAttemptID row) db
                    in if cw_Destination row = None \<or> \<not> cv_MayRequeue env salonID ownerUserID
                       then (Inl ErrCustomerNotFound, db)
                       else if requeue_customer_blocked row consent salon sourceCurrent db
                       then (Inl ErrCustomerRequeueBlocked, db)
                       else
                         let db' = update_deliveries (\<lambda>other. cw_SalonID other = salonID
                                \<and> cw_ID other = deliveryID) (requeued_delivery now) db
                         in if deliveries_matching (\<lambda>other. cw_SalonID other = salonID
                                \<and> cw_ID other = deliveryID) db \<noteq> 1
                            then (Inl ErrCustomerConflict, db)
                            else commit_with_event env db
                              (insertDeliveryEvent env now salonID deliveryID
                                 (''owner-requeue:'' @ actionKey) ''owner_requeued'' StatusQueued
                                 [] []
                                (db'\<lparr>cb_Actions := cb_Actions db' @
                                   [\<lparr>dc_SalonID = salonID, dc_NotificationID = deliveryID,
                                     dc_ActionKey = actionKey, dc_ActionFingerprint = fingerprint,
                                     dc_ActorUserID = ownerUserID\<rparr>]\<rparr>)) False
                | _ \<Rightarrow> (Inl ErrCustomerNotFound, db))))"

section \<open>The service\<close>

definition GetPolicy ::
  "CustomerEnv \<Rightarrow> string \<Rightarrow> string \<Rightarrow> CustomerDB \<Rightarrow> customer_error + Policy" where
  "GetPolicy env salonID ownerUserID db =
     (if TrimSpace salonID = [] \<or> TrimSpace ownerUserID = [] then Inl ErrCustomerValidation
      else GetPolicyForOwner env (TrimSpace salonID) (TrimSpace ownerUserID) db)"

definition UpdatePolicy ::
  "CustomerEnv \<Rightarrow> string \<Rightarrow> string \<Rightarrow> UpdatePolicyRequest \<Rightarrow> CustomerDB
     \<Rightarrow> (customer_error + Policy) \<times> CustomerDB" where
  "UpdatePolicy env salonID ownerUserID req db =
     (if TrimSpace salonID = [] \<or> TrimSpace ownerUserID = [] \<or> upr_ExpectedVersion req < 1
      then (Inl ErrCustomerValidation, db)
      else
        (case (parseLocalClock (upr_QuietStart req), parseLocalClock (upr_QuietEnd req)) of
           (Inr start, Inr end_minute) \<Rightarrow>
             if start = end_minute then (Inl ErrCustomerValidation, db)
             else UpdatePolicyForOwner env (TrimSpace salonID) (TrimSpace ownerUserID)
                    (req\<lparr>upr_QuietStart := formatLocalClock start,
                         upr_QuietEnd := formatLocalClock end_minute\<rparr>) db
         | _ \<Rightarrow> (Inl ErrCustomerValidation, db)))"

definition ConsentStatus :: "string \<Rightarrow> string \<Rightarrow> CustomerDB \<Rightarrow> customer_error + Consent" where
  "ConsentStatus salonID destination db =
     (let normalized = NormalizeDestination destination in
      if TrimSpace salonID = [] \<or> normalized = [] then Inl ErrCustomerValidation
      else ConsentForDestination (TrimSpace salonID) normalized db)"

definition RecordConsentRequested_service ::
  "CustomerEnv \<Rightarrow> gotime \<Rightarrow> string \<Rightarrow> string \<Rightarrow> string \<Rightarrow> string \<Rightarrow> CustomerDB
     \<Rightarrow> (customer_error + Consent \<times> bool) \<times> CustomerDB" where
  "RecordConsentRequested_service env now salonID callSessionID destination eventKey db =
     (let normalized = NormalizeDestination destination in
      if normalized = [] \<or> \<not> validIdentity [salonID, callSessionID, eventKey]
      then (Inl ErrCustomerValidation, db)
      else RecordConsentRequested env now (TrimSpace salonID) (TrimSpace callSessionID) normalized
             (TrimSpace eventKey) (TrimSpace callSessionID) db)"

definition RecordConversationConsent_service ::
  "CustomerEnv \<Rightarrow> gotime \<Rightarrow> RecordConversationConsentRequest \<Rightarrow> CustomerDB
     \<Rightarrow> (customer_error + Consent \<times> bool) \<times> CustomerDB" where
  "RecordConversationConsent_service env now req db =
     (let req = req\<lparr>rcc_SalonID := TrimSpace (rcc_SalonID req),
            rcc_CallSessionID := TrimSpace (rcc_CallSessionID req),
            rcc_EventKey := TrimSpace (rcc_EventKey req),
            rcc_Destination := NormalizeDestination (rcc_Destination req)\<rparr>
      in if \<not> validIdentity [rcc_SalonID req, rcc_CallSessionID req, rcc_EventKey req]
            \<or> rcc_Destination req = []
         then (Inl ErrCustomerValidation, db)
         else RecordConversationConsent env now
           (if TrimSpace (rcc_EvidenceReference req) = []
            then req\<lparr>rcc_EvidenceReference := rcc_CallSessionID req\<rparr> else req) db)"

definition AttestConsent ::
  "CustomerEnv \<Rightarrow> gotime \<Rightarrow> string \<Rightarrow> string \<Rightarrow> AttestConsentRequest \<Rightarrow> CustomerDB
     \<Rightarrow> (customer_error + Consent \<times> bool) \<times> CustomerDB" where
  "AttestConsent env now salonID ownerUserID req db =
     (let destination = NormalizeDestination (acr_Destination req);
          actionKey = TrimSpace (acr_ActionKey req)
      in if \<not> acr_Attested req \<or> destination = [] \<or> TrimSpace salonID = []
            \<or> TrimSpace ownerUserID = [] \<or> actionKey = [] \<or> length actionKey > 256
         then (Inl ErrCustomerValidation, db)
         else RecordOwnerAttestation env now (TrimSpace salonID) (TrimSpace ownerUserID) destination
                (''owner-attest:'' @ actionKey) (acr_Attested req) db)"

text \<open>
  \<open>strings.ToUpper\<close>, as far as its result can be START, STOP or HELP: besides the ASCII letters only
  the long s (U+017F) has an upper case in these words.
\<close>

fun strings_ToUpper :: "string \<Rightarrow> string" where
  "strings_ToUpper [] = []"
| "strings_ToUpper [c] =
     [if CHR ''a'' \<le> c \<and> c \<le> CHR ''z'' then char_of ((of_char c :: nat) - 32) else c]"
| "strings_ToUpper (c # d # cs) =
     (if c = CHR 0xC5 \<and> d = CHR 0xBF then CHR ''S'' # strings_ToUpper cs
      else (if CHR ''a'' \<le> c \<and> c \<le> CHR ''z'' then char_of ((of_char c :: nat) - 32) else c)
        # strings_ToUpper (d # cs))"

definition ApplyInboundOptOut_service ::
  "CustomerEnv \<Rightarrow> gotime \<Rightarrow> string \<Rightarrow> string \<Rightarrow> string \<Rightarrow> string \<Rightarrow> string \<Rightarrow> string \<Rightarrow> string
     \<Rightarrow> CustomerDB \<Rightarrow> (customer_error + unit) \<times> CustomerDB" where
  "ApplyInboundOptOut_service env now salonID from_number to configuredSender optOutType
       providerMessageID eventFingerprint db =
     (let event = \<lparr>ioo_SalonID = TrimSpace salonID, ioo_From = NormalizeDestination from_number,
            ioo_To = NormalizeDestination to,
            ioo_ConfiguredSender = NormalizeDestination configuredSender,
            ioo_OptOutType = strings_ToUpper (TrimSpace optOutType),
            ioo_ProviderMessageID = TrimSpace providerMessageID,
            ioo_EventFingerprint = TrimSpace eventFingerprint\<rparr>
      in if ioo_SalonID event = [] \<or> ioo_From event = [] \<or> ioo_To event = []
            \<or> ioo_ProviderMessageID event = [] \<or> length (ioo_EventFingerprint event) \<noteq> 64
            \<or> ioo_OptOutType event \<noteq> ''START'' \<and> ioo_OptOutType event \<noteq> ''STOP''
              \<and> ioo_OptOutType event \<noteq> ''HELP''
         then (Inl (Delivery_Error ErrDeliveryValidation), db)
         else
           (case ApplyInboundOptOut env now event db of
              (Inl err, db') \<Rightarrow>
                (Inl (if err = ErrCustomerConflict then Delivery_Error ErrDeliveryConflict
                      else if err = ErrCustomerValidation then Delivery_Error ErrDeliveryValidation
                      else err), db')
            | (Inr _, db') \<Rightarrow> (Inr (), db')))"

definition ApplyProviderCallback_customer_service ::
  "CustomerEnv \<Rightarrow> gotime \<Rightarrow> ProviderCallback \<Rightarrow> CustomerDB \<Rightarrow> (customer_error + unit) \<times> CustomerDB" where
  "ApplyProviderCallback_customer_service env now callback db =
     (if TrimSpace (pcb_ProviderMessageID callback) = [] \<or> TrimSpace (pcb_EventKey callback) = []
         \<or> length (pcb_EventFingerprint callback) \<noteq> 64 \<or> pcb_StatusRank callback \<le> 0
      then (Inl (Delivery_Error ErrDeliveryValidation), db)
      else ApplyProviderCallback_customer env now callback db)"

definition DetailForAppointment_service ::
  "CustomerEnv \<Rightarrow> string \<Rightarrow> string \<Rightarrow> string \<Rightarrow> CustomerDB \<Rightarrow> customer_error + Detail" where
  "DetailForAppointment_service env salonID ownerUserID appointmentID db =
     (if \<not> validIdentity [salonID, ownerUserID, appointmentID] then Inl ErrCustomerValidation
      else DetailForAppointment env (TrimSpace salonID) (TrimSpace ownerUserID)
             (TrimSpace appointmentID) db)"

definition DetailForRequest_service ::
  "CustomerEnv \<Rightarrow> string \<Rightarrow> string \<Rightarrow> string \<Rightarrow> CustomerDB \<Rightarrow> customer_error + Detail" where
  "DetailForRequest_service env salonID ownerUserID requestID db =
     (if \<not> validIdentity [salonID, ownerUserID, requestID] then Inl ErrCustomerValidation
      else DetailForRequest env (TrimSpace salonID) (TrimSpace ownerUserID) (TrimSpace requestID) db)"

text \<open>The two requeues of the service differ in the kind of the source and in the detail they read.\<close>

definition requeue_customer ::
  "string \<Rightarrow> (string \<Rightarrow> string \<Rightarrow> string \<Rightarrow> CustomerDB \<Rightarrow> customer_error + Detail) \<Rightarrow> CustomerEnv
     \<Rightarrow> gotime \<Rightarrow> string \<Rightarrow> string \<Rightarrow> string \<Rightarrow> string \<Rightarrow> RequeueRequest \<Rightarrow> CustomerDB
     \<Rightarrow> (customer_error + Detail \<times> bool) \<times> CustomerDB" where
  "requeue_customer sourceKind detail env now salonID ownerUserID sourceID deliveryID req db =
     (let actionKey = TrimSpace (rqr_ActionKey req) in
      if \<not> validIdentity [salonID, ownerUserID, sourceID] \<or> TrimSpace deliveryID = []
         \<or> actionKey = [] \<or> length actionKey > 256
      then (Inl ErrCustomerValidation, db)
      else
        (case requeueForOwner_customer env now salonID ownerUserID sourceID sourceKind deliveryID
                actionKey
                (cv_SHA256 env (strings_Join [sourceID, deliveryID, actionKey] [CHR 0x00])) db of
           (Inl err, db') \<Rightarrow> (Inl err, db')
         | (Inr replayed, db') \<Rightarrow>
             (map_sum id (\<lambda>item. (item, replayed)) (detail salonID ownerUserID sourceID db'), db')))"

definition Requeue_customer ::
  "CustomerEnv \<Rightarrow> gotime \<Rightarrow> string \<Rightarrow> string \<Rightarrow> string \<Rightarrow> string \<Rightarrow> RequeueRequest \<Rightarrow> CustomerDB
     \<Rightarrow> (customer_error + Detail \<times> bool) \<times> CustomerDB" where
  "Requeue_customer env = requeue_customer ''appointment'' (DetailForAppointment env) env"

definition RequeueRequest_customer ::
  "CustomerEnv \<Rightarrow> gotime \<Rightarrow> string \<Rightarrow> string \<Rightarrow> string \<Rightarrow> string \<Rightarrow> RequeueRequest \<Rightarrow> CustomerDB
     \<Rightarrow> (customer_error + Detail \<times> bool) \<times> CustomerDB" where
  "RequeueRequest_customer env = requeue_customer ''request'' (DetailForRequest env) env"

section \<open>Status callbacks of both kinds of messages\<close>

definition SalonIDForProviderMessage_any ::
  "string \<Rightarrow> string \<Rightarrow> DeliveryDB \<Rightarrow> CustomerDB \<Rightarrow> customer_error + string" where
  "SalonIDForProviderMessage_any provider messageID owners customers =
     (case SalonIDForProviderMessage provider messageID owners of
        Inr salonID \<Rightarrow> Inr salonID
      | Inl err \<Rightarrow>
          if err \<noteq> ErrDeliveryNotFound then Inl (Delivery_Error err)
          else SalonIDForProviderMessage_customer provider messageID customers)"

definition ApplyProviderCallback_any ::
  "DeliveryEnv \<Rightarrow> CustomerEnv \<Rightarrow> gotime \<Rightarrow> ProviderCallback \<Rightarrow> DeliveryDB \<times> CustomerDB
     \<Rightarrow> (customer_error + unit) \<times> DeliveryDB \<times> CustomerDB" where
  "ApplyProviderCallback_any owner_env customer_env now callback state =
     (case state of (owners, customers) \<Rightarrow>
        (case ApplyProviderCallback_service owner_env now callback owners of
           (Inr _, owners') \<Rightarrow> (Inr (), owners', customers)
         | (Inl err, owners') \<Rightarrow>
             if err \<noteq> ErrDeliveryNotFound then (Inl (Delivery_Error err), owners', customers)
             else
               (case ApplyProviderCallback_customer_service customer_env now callback customers of
                  (result, customers') \<Rightarrow> (result, owners', customers'))))"

end
