(* ===== verification/Customer_Safety.thy ===== *)
theory Customer_Safety
  imports Customer_Service
begin

text \<open>
  What holds in every history of the customer outbox. A step is one committed transaction of the
  repository, or any change of salons, settings, requests and appointments by the rest of the
  program, or a redaction; a history is a sequence of steps in any order, by any number of workers,
  with the labels of the consent changes and the dispatches it contains.
\<close>

section \<open>Steps\<close>

datatype customer_label =
    Stopped string string
  | Restarted string string
  | Dispatch_Marked ClaimedDelivery

text \<open>The mutations the program builds.\<close>

inductive program_mutation :: "consentMutation \<Rightarrow> bool" where
  "program_mutation (requested_mutation salonID callSessionID destination eventKey evidence)"
| "program_mutation (conversation_mutation req)"
| "program_mutation (owner_mutation salonID ownerUserID destination eventKey)"
| "program_mutation (optout_mutation event ConsentOptedOut ConsentEventOptOut)"
| "program_mutation (optout_mutation event ConsentConsented ConsentEventOptIn)"

definition mutation_labels :: "consentMutation \<Rightarrow> bool \<Rightarrow> customer_label list" where
  "mutation_labels m replayed =
     (if replayed then []
      else if cm_Status m = ConsentOptedOut then [Stopped (cm_SalonID m) (cm_Destination m)]
      else if cm_EventType m = ConsentEventOptIn then [Restarted (cm_SalonID m) (cm_Destination m)]
      else [])"

definition redacted_delivery :: "gotime \<Rightarrow> CustomerDeliveryRow \<Rightarrow> CustomerDeliveryRow" where
  "redacted_delivery now row =
     row\<lparr>cw_Body := ''[redacted]'', cw_Destination := None, cw_DestinationMasked := None,
         cw_RedactedAt := Some now, cw_RedactionVersion := 1\<rparr>"

inductive customer_step :: "CustomerDB \<Rightarrow> customer_label list \<Rightarrow> CustomerDB \<Rightarrow> bool" where
  consent_changed:
    "program_mutation m \<Longrightarrow> mutateConsent env now m db = (Inr (consent, replayed), db')
     \<Longrightarrow> customer_step db (mutation_labels m replayed) db'"
| consent_noted:
    "appendConsentEvent env salonID consentID eventKey fingerprint eventType optOutType messageID db
       = (Inr (), db')
     \<Longrightarrow> customer_step db [] db'"
| surroundings:
    "customer_step db []
       (db\<lparr>cb_Salons := salons, cb_Requests := requests, cb_Appointments := appointments\<rparr>)"
| redacted:
    "customer_step db [] (update_deliveries (\<lambda>row. cw_ID row = deliveryID \<and> cw_RedactedAt row = None)
       (redacted_delivery now) db)"
| enqueued:
    "enqueue_customer_notification env now salonID destination notificationType sourceVersion dedupeKey
       body requestID appointmentID bookingAttemptID db = (Inr (), db')
     \<Longrightarrow> customer_step db [] db'"
| lease_recovered:
    "recoverExpiredLease_customer env now lease db = (Inr changed, db')
     \<Longrightarrow> customer_step db [] db'"
| claimed:
    "app_worker_claim_customer_notifications env MaxSafeDeliveryAttempts limit lease_milliseconds now db
       = (Inr rows, db')
     \<Longrightarrow> customer_step db [] db'"
| dispatch_marked:
    "MarkDispatchStarted_customer env now item db = (Inr (), db')
     \<Longrightarrow> customer_step db [Dispatch_Marked item] db'"
| completed:
    "completeWithoutProvider_customer env now item status outcome code next_time dead db = (Inr (), db')
     \<Longrightarrow> customer_step db [] db'"
| accepted:
    "RecordProviderResult_customer env now item result db = (Inr (), db')
     \<Longrightarrow> customer_step db [] db'"
| called_back:
    "ApplyProviderCallback_customer env now callback db = (Inr (), db')
     \<Longrightarrow> customer_step db [] db'"
| requeued:
    "requeueForOwner_customer env now salonID ownerUserID sourceID sourceKind deliveryID actionKey
       fingerprint db = (Inr replayed, db')
     \<Longrightarrow> customer_step db [] db'"

inductive customer_history :: "CustomerDB \<Rightarrow> customer_label list \<Rightarrow> CustomerDB \<Rightarrow> bool" where
  history_refl: "customer_history db [] db"
| history_step:
    "customer_history db labels db' \<Longrightarrow> customer_step db' labels' db''
     \<Longrightarrow> customer_history db (labels @ labels') db''"

lemma history_one: "customer_step db labels db' \<Longrightarrow> customer_history db labels db'"
  using history_step [OF history_refl] by simp

lemma history_trans:
  assumes "customer_history db labels db'" "customer_history db' labels' db''"
  shows "customer_history db (labels @ labels') db''"
  using assms(2,1)
proof (induction db' labels' db'' rule: customer_history.induct)
  case (history_step db' labels' db'' labels3 db3)
  then have "customer_history db (labels @ labels') db''" by blast
  from customer_history.history_step [OF this history_step.hyps(2)] show ?case by simp
qed simp

section \<open>What the transactions of the outbox leave alone\<close>

text \<open>
  The effect of a committed transaction on the outbox: the rows change one by one, events are added,
  the consents and their log stay.
\<close>

definition outbox_effect ::
  "(CustomerDeliveryRow \<Rightarrow> CustomerDeliveryRow) \<Rightarrow> CustomerDB \<Rightarrow> CustomerDB \<Rightarrow> bool" where
  "outbox_effect change db db' \<longleftrightarrow>
     cb_Consents db' = cb_Consents db \<and> cb_ConsentEvents db' = cb_ConsentEvents db
     \<and> cb_Deliveries db' = map change (cb_Deliveries db)
     \<and> (\<exists>events. cb_Events db' = cb_Events db @ events)"

lemma outbox_effect_refl: "outbox_effect id db db"
  by (simp add: outbox_effect_def)

lemma commit_with_event_InrD:
  "commit_with_event env db inserted r = (Inr x, d) \<Longrightarrow> inserted = Some d \<and> x = r"
  by (auto simp: commit_with_event_def split: option.splits dest: commit_customer_cases)

lemma insertDeliveryEvent_SomeD:
  assumes "insertDeliveryEvent env now salonID deliveryID key eventType status providerStatus code db
    = Some db'"
  obtains event where "\<not> event_exists salonID key db" "de_SalonID event = salonID"
    "de_EventKey event = key" "db' = db\<lparr>cb_Events := cb_Events db @ [event]\<rparr>"
  using assms unfolding insertDeliveryEvent_def
  by (auto split: if_splits intro!: that simp del: strings_Join.simps)

lemma event_after_updates:
  assumes "insertDeliveryEvent env now salonID deliveryID key eventType status providerStatus code
      (update_customer_attempts m1 c1 (update_deliveries m2 c2 db)) = Some db'"
  shows "outbox_effect (\<lambda>row. if m2 row then c2 row else row) db db'"
    and "\<not> event_exists salonID key db" and "event_exists salonID key db'"
  by (rule insertDeliveryEvent_SomeD [OF assms];
      auto simp: outbox_effect_def update_customer_attempts_def update_deliveries_def event_exists_def)+

lemma recover_effect:
  assumes "recoverExpiredLease_customer env now lease db = (Inr changed, db')"
  obtains "db' = db"
    | status code match where "outbox_effect (\<lambda>row. if match row then expired_row now status code row else row) db db'"
proof (cases "find (\<lambda>row. holds_delivery (xl_id lease) (xl_salonID lease) (xl_token lease) row
     \<and> delivery_lease_expired now row) (cb_Deliveries db)")
  case None
  then show ?thesis using assms that(1) by (simp add: recoverExpiredLease_customer_def)
next
  case (Some row)
  obtain status outcome code eventType where v: "expired_verdict row = (status, outcome, code, eventType)"
    by (cases "expired_verdict row") auto
  from assms Some v show ?thesis
    by (auto simp: recoverExpiredLease_customer_def dest!: commit_with_event_InrD event_after_updates(1)
        intro: that(2))
qed

lemma complete_effect:
  assumes "completeWithoutProvider_customer env now item status outcome code next_time dead db
    = (Inr (), db')"
  obtains match next_at where
    "outbox_effect (\<lambda>row. if match row then completed_delivery now status code next_at dead row else row) db db'"
  using assms that
  by (auto simp: completeWithoutProvider_customer_def Let_def split: if_splits
      dest!: commit_with_event_InrD event_after_updates(1))

lemma accepted_effect:
  assumes "RecordProviderResult_customer env now item result db = (Inr (), db')"
  obtains match where
    "outbox_effect (\<lambda>row. if match row then accepted_delivery now result row else row) db db'"
  using assms that
  by (auto simp: RecordProviderResult_customer_def Let_def split: if_splits
      dest!: commit_with_event_InrD event_after_updates(1))

lemma callback_effect:
  assumes "ApplyProviderCallback_customer env now callback db = (Inr (), db')"
  obtains "db' = db"
    | match where "outbox_effect (\<lambda>row. if match row then reported_delivery callback row else row) db db'"
proof (cases "find (carries_customer_message (pcb_Provider callback) (pcb_ProviderMessageID callback))
    (cb_Deliveries db)")
  case None
  with assms show ?thesis by (simp add: ApplyProviderCallback_customer_def)
next
  case row: (Some row)
  show ?thesis
  proof (cases "find (\<lambda>event. de_SalonID event = cw_SalonID row
      \<and> de_EventKey event = pcb_EventKey callback) (cb_Events db)")
    case (Some event)
    with assms row have "db' = db" by (simp add: ApplyProviderCallback_customer_def split: if_splits)
    then show ?thesis by (rule that(1))
  next
    case None
    note defs = ApplyProviderCallback_customer_def row None option.case Let_def
    show ?thesis
    proof (cases "pcb_StatusRank callback > cw_ProviderStatusRank row")
      case True
      with assms have "outbox_effect (\<lambda>other. if cw_ID other = cw_ID row
          then reported_delivery callback other else other) db db'"
        unfolding defs if_P [OF True] outbox_effect_def update_deliveries_def
          update_customer_attempts_def by (auto dest!: commit_customer_cases(1))
      then show ?thesis by (rule that(2))
    next
      case False
      with assms have "outbox_effect (\<lambda>row. if False then reported_delivery callback row else row) db db'"
        unfolding defs if_not_P [OF False] outbox_effect_def by (auto dest!: commit_customer_cases(1))
      then show ?thesis by (rule that(2))
    qed
  qed
qed

lemma requeue_effect:
  assumes "requeueForOwner_customer env now salonID ownerUserID sourceID sourceKind deliveryID actionKey
       fingerprint db = (Inr replayed, db')"
  obtains "db' = db"
    | row where "find (\<lambda>row. cw_SalonID row = salonID \<and> cw_ID row = deliveryID
          \<and> of_source sourceID sourceKind row) (cb_Deliveries db) = Some row"
      "cw_RequeueCount row < MaxOwnerRequeues"
      "deliveries_matching (\<lambda>other. cw_SalonID other = salonID \<and> cw_ID other = deliveryID) db = 1"
      "outbox_effect (\<lambda>other. if cw_SalonID other = salonID \<and> cw_ID other = deliveryID
          then requeued_delivery now other else other) db db'"
proof (cases "find (\<lambda>action. dc_SalonID action = salonID \<and> dc_ActionKey action = actionKey) (cb_Actions db)")
  case (Some action)
  with assms have "db' = db" by (simp add: requeueForOwner_customer_def split: if_splits)
  then show ?thesis by (rule that(1))
next
  case None
  note defs = requeueForOwner_customer_def None option.case Let_def
  let ?match = "\<lambda>other. cw_SalonID other = salonID \<and> cw_ID other = deliveryID"
  obtain row where row: "find (\<lambda>row. cw_SalonID row = salonID \<and> cw_ID row = deliveryID
      \<and> of_source sourceID sourceKind row) (cb_Deliveries db) = Some row"
    using assms unfolding defs by (auto split: option.splits)
  obtain consent salon where joined: "consent_by_id salonID (cw_ConsentID row) db = Some consent"
    "salon_row salonID db = Some salon"
    using assms unfolding defs row by (auto split: option.splits)
  have permitted: "\<not> requeue_customer_blocked row consent salon (lockAndValidateDeliverySource salonID
      (cw_NotificationType row) (cw_SourceVersion row) (cw_SchedulingRequestID row)
      (cw_AppointmentID row) (cw_BookingAttemptID row) db) db"
    "deliveries_matching ?match db = 1" "cw_Destination row \<noteq> None" "cv_MayRequeue env salonID ownerUserID"
    using assms unfolding defs row joined prod.case by (auto split: if_splits)
  then have "cw_RequeueCount row < MaxOwnerRequeues" by (simp add: requeue_customer_blocked_def)
  moreover have "outbox_effect (\<lambda>other. if ?match other then requeued_delivery now other else other) db db'"
  proof -
    let ?db = "update_deliveries ?match (requeued_delivery now) db"
    obtain actions where "insertDeliveryEvent env now salonID deliveryID (''owner-requeue:'' @ actionKey)
        ''owner_requeued'' StatusQueued [] [] (?db\<lparr>cb_Actions := actions\<rparr>) = Some db'"
      using assms permitted unfolding defs row joined prod.case
      by (auto split: if_splits dest!: commit_with_event_InrD)
    then show ?thesis
      by (rule insertDeliveryEvent_SomeD) (simp add: outbox_effect_def update_deliveries_def)
  qed
  ultimately show ?thesis using that(2) [OF row _ permitted(2)] by blast
qed


lemma enqueue_effect:
  assumes "enqueue_customer_notification env now salonID destination notificationType sourceVersion
       dedupeKey body requestID appointmentID bookingAttemptID db = (Inr (), db')"
  obtains "db' = db"
    | row event consent where
      "\<not> list_ex (\<lambda>other. cw_ID other = cw_ID row) (cb_Deliveries db)"
      "cw_DeliveryAttempts row = 0" "cw_RequeueCount row = 0" "cw_ClaimToken row = None"
      "cw_DeliveryStatus row = ''queued''"
      "consent \<in> set (cb_Consents db)" "cr_Status consent = ''consented''"
      "cw_ConsentID row = cr_ID consent" "cw_ConsentVersion row = cr_Version consent"
      "cw_Destination row = Some (cr_Destination consent)" "cw_SalonID row = cr_SalonID consent"
      "db' = db\<lparr>cb_Deliveries := cb_Deliveries db @ [row], cb_Events := cb_Events db @ [event]\<rparr>"
proof -
  consider "db' = db"
    | normalized salon consent where "normalize_customer_sms_destination destination = Some normalized"
      "salon_row salonID db = Some salon"
      "find (\<lambda>row. cr_SalonID row = salonID \<and> cr_Destination row = normalized
         \<and> cr_Status row = ''consented'') (cb_Consents db) = Some consent"
      "db' \<noteq> db"
    using assms unfolding enqueue_customer_notification_def
    by (auto split: option.splits if_splits)
  then show ?thesis
  proof cases
    case 1
    then show ?thesis by (rule that(1))
  next
    case 2
    define row where "row = enqueued_row env now salonID notificationType sourceVersion dedupeKey body
      requestID appointmentID bookingAttemptID normalized consent salon"
    note defs = enqueue_customer_notification_def 2(1-3) prod.case option.case Let_def row_def [symmetric]
    have fresh: "\<not> list_ex (\<lambda>other. cw_ID other = cw_ID row) (cb_Deliveries db)"
      using assms 2(4) unfolding defs by (auto split: if_splits)
    have "\<exists>event. db' = db\<lparr>cb_Deliveries := cb_Deliveries db @ [row], cb_Events := cb_Events db @ [event]\<rparr>"
      using assms 2(4) unfolding defs by (auto split: if_splits dest!: commit_customer_cases(1))
    then obtain event where db': "db' = db\<lparr>cb_Deliveries := cb_Deliveries db @ [row],
        cb_Events := cb_Events db @ [event]\<rparr>" by blast
    show ?thesis
      using find_SomeD [OF 2(3)] by (intro that(2) [OF fresh _ _ _ _ _ _ _ _ _ _ db'])
        (auto simp: row_def enqueued_row_def)
  qed
qed

text \<open>A claim puts a fresh token on rows that still have attempts.\<close>

lemma customer_candidates_set:
  "set (customer_candidates env m limit now db)
     \<subseteq> {row \<in> set (cb_Deliveries db). claimable_customer m now row}"
  unfolding customer_candidates_def Let_def
  by (auto dest!: in_set_takeD)

lemma in_set_enumerate_snd: "(i, x) \<in> set (enumerate n xs) \<Longrightarrow> x \<in> set xs"
  by (auto simp: in_set_enumerate_eq)

lemma claim_effect:
  assumes "app_worker_claim_customer_notifications env m limit lease_milliseconds now db = (Inr rows, db')"
  obtains change events where
    "cb_Consents db' = cb_Consents db" "cb_ConsentEvents db' = cb_ConsentEvents db"
    "cb_Deliveries db' = map change (cb_Deliveries db)" "cb_Events db' = cb_Events db @ events"
    "\<And>row. row \<in> set (cb_Deliveries db) \<Longrightarrow> change row = row
       \<or> (\<exists>row' token. row' \<in> set (cb_Deliveries db) \<and> cw_ID row' = cw_ID row \<and> claimable_customer m now row'
            \<and> change row = claim_customer_row lease_milliseconds now token row')"
    "rows = map (\<lambda>row. change row) (customer_candidates env m limit now db)
      \<or> \<not> distinct (map cw_ID (cb_Deliveries db))"
proof -
  define candidates where "candidates = customer_candidates env m limit now db"
  define claimed where "claimed = map (\<lambda>(index, row).
      claim_customer_row lease_milliseconds now (cv_UUID env [0, index]) row) (enumerate 0 candidates)"
  define change where "change = (\<lambda>row. case find (\<lambda>new. cw_ID new = cw_ID row) claimed of
      None \<Rightarrow> row | Some new \<Rightarrow> new)"
  have committed: "rows = claimed \<and> db' = db\<lparr>cb_Deliveries := map change (cb_Deliveries db),
      cb_Attempts := cb_Attempts db @ map leased_customer_attempt claimed,
      cb_Events := cb_Events db @ map (claimed_customer_event env now) (enumerate 0 claimed)\<rparr>"
    using assms unfolding app_worker_claim_customer_notifications_def Let_def
      candidates_def [symmetric] claimed_def [symmetric] change_def [symmetric]
    by (auto split: if_splits dest!: commit_customer_cases(1))
  have ids: "map cw_ID claimed = map cw_ID candidates"
    unfolding claimed_def by (rule nth_equalityI) (simp_all add: nth_enumerate_eq claim_customer_row_def)
  have rows: "rows = map change candidates" if "distinct (map cw_ID (cb_Deliveries db))"
  proof -
    have "distinct candidates"
      using that unfolding candidates_def customer_candidates_def Let_def
      by (simp add: distinct_map)
    moreover have "inj_on cw_ID (set candidates)"
      using that customer_candidates_set [of env m limit now db]
      by (auto simp: distinct_map candidates_def intro: inj_on_subset)
    ultimately have "distinct (map cw_ID candidates)" by (simp add: distinct_map)
    then have "distinct (map cw_ID claimed)" by (simp add: ids)
    have "claimed ! i = change (candidates ! i)" if i: "i < length candidates" for i
    proof -
      have len: "length claimed = length candidates" using ids by (metis length_map)
      have "cw_ID (claimed ! i) = cw_ID (candidates ! i)"
        using ids i len by (metis nth_map)
      then have "find (\<lambda>new. cw_ID new = cw_ID (candidates ! i)) claimed = Some (claimed ! i)"
        using \<open>distinct (map cw_ID claimed)\<close> i len by (intro find_unique [where f = cw_ID]) auto
      then show ?thesis by (simp add: change_def)
    qed
    then show ?thesis using committed ids by (auto intro!: nth_equalityI dest: map_eq_imp_length_eq)
  qed
  have pointwise: "change row = row \<or> (\<exists>row' token. row' \<in> set (cb_Deliveries db)
      \<and> cw_ID row' = cw_ID row \<and> claimable_customer m now row'
      \<and> change row = claim_customer_row lease_milliseconds now token row')" for row
  proof (cases "find (\<lambda>new. cw_ID new = cw_ID row) claimed")
    case None
    then show ?thesis by (simp add: change_def)
  next
    case (Some new)
    from find_SomeD [OF this] obtain index row' where "(index, row') \<in> set (enumerate 0 candidates)"
      "new = claim_customer_row lease_milliseconds now (cv_UUID env [0, index]) row'"
      "cw_ID new = cw_ID row" by (auto simp: claimed_def)
    moreover from this(1) have "row' \<in> set candidates"
      by (rule in_set_enumerate_snd)
    then have "row' \<in> {row \<in> set (cb_Deliveries db). claimable_customer m now row}"
      unfolding candidates_def by (rule subsetD [OF customer_candidates_set])
    then have "row' \<in> set (cb_Deliveries db) \<and> claimable_customer m now row'"
      unfolding mem_Collect_eq .
    moreover have "cw_ID row' = cw_ID row"
      using calculation(2,3) by (simp add: claim_customer_row_def)
    moreover have "change row = new" using Some by (simp add: change_def)
    ultimately show ?thesis by blast
  qed
  have effects: "cb_Consents db' = cb_Consents db" "cb_ConsentEvents db' = cb_ConsentEvents db"
    "cb_Deliveries db' = map change (cb_Deliveries db)"
    "cb_Events db' = cb_Events db @ map (claimed_customer_event env now) (enumerate 0 claimed)"
    by (simp_all add: committed)
  show ?thesis
    by (rule that [OF effects pointwise]) (use rows in \<open>auto simp: candidates_def\<close>)
qed

lemma mark_effect:
  assumes "MarkDispatchStarted_customer env now item db = (Inr (), db')"
  obtains consent salon match where
    "consent_by_id (cd_SalonID item) (cd_ConsentID item) db = Some consent"
    "salon_row (cd_SalonID item) db = Some salon" "dispatch_permitted item consent salon"
    "match = (\<lambda>row. holds_delivery (cd_ID item) (cd_SalonID item) (cd_ClaimToken item) row
       \<and> (\<exists>expiry \<in> set_option (cw_LeaseExpiresAt row). expiry > now))"
    "deliveries_matching match db = 1"
    "\<not> event_exists (cd_SalonID item) (''dispatch:'' @ cd_ClaimToken item) db"
    "event_exists (cd_SalonID item) (''dispatch:'' @ cd_ClaimToken item) db'"
    "outbox_effect (\<lambda>row. if match row then row\<lparr>cw_DispatchStartedAt := Some now\<rparr> else row) db db'"
proof -
  obtain consent where consent: "consent_by_id (cd_SalonID item) (cd_ConsentID item) db = Some consent"
    using assms unfolding MarkDispatchStarted_customer_def by (auto split: option.splits)
  obtain salon where salon: "salon_row (cd_SalonID item) db = Some salon"
    using assms unfolding MarkDispatchStarted_customer_def by (auto split: option.splits)
  note defs = MarkDispatchStarted_customer_def consent salon option.case Let_def
  have permitted: "dispatch_permitted item consent salon" using assms unfolding defs by (auto split: if_splits)
  obtain delivery where delivery: "find (holds_delivery (cd_ID item) (cd_SalonID item) (cd_ClaimToken item))
      (cb_Deliveries db) = Some delivery"
    using assms unfolding defs by (auto split: option.splits if_splits)
  define match where "match = (\<lambda>row. holds_delivery (cd_ID item) (cd_SalonID item) (cd_ClaimToken item) row
       \<and> (\<exists>expiry \<in> set_option (cw_LeaseExpiresAt row). expiry > now))"
  have ok: "deliveries_matching match db = 1"
    "commit_with_event env db (insertDeliveryEvent env now (cd_SalonID item) (cd_ID item)
        (''dispatch:'' @ cd_ClaimToken item) ''dispatch_started'' StatusDelivering [] []
       (update_customer_attempts (open_attempt (cd_ClaimToken item))
          (\<lambda>row. row\<lparr>da_DispatchStartedAt := Some now\<rparr>)
         (update_deliveries match (\<lambda>row. row\<lparr>cw_DispatchStartedAt := Some now\<rparr>) db))) () = (Inr (), db')"
    using assms permitted unfolding defs delivery match_def [symmetric] by (simp_all split: if_splits)
  from commit_with_event_InrD [OF ok(2)] have inserted: "insertDeliveryEvent env now (cd_SalonID item) (cd_ID item)
        (''dispatch:'' @ cd_ClaimToken item) ''dispatch_started'' StatusDelivering [] []
       (update_customer_attempts (open_attempt (cd_ClaimToken item))
          (\<lambda>row. row\<lparr>da_DispatchStartedAt := Some now\<rparr>)
         (update_deliveries match (\<lambda>row. row\<lparr>cw_DispatchStartedAt := Some now\<rparr>) db)) = Some db'" ..
  have same: "event_exists salonID key (update_customer_attempts m1 c1 (update_deliveries m2 c2 db))
      = event_exists salonID key db" for salonID key m1 c1 m2 c2
    by (simp add: event_exists_def update_customer_attempts_def update_deliveries_def)
  show ?thesis
    using that [OF consent salon permitted match_def ok(1) _ event_after_updates(3) [OF inserted]
        event_after_updates(1) [OF inserted]] event_after_updates(2) [OF inserted] by simp
qed

end
