(* ===== verification/Customer_Guarantees.thy ===== *)
theory Customer_Guarantees
  imports Customer_Safety
begin

text \<open>
  The guarantees of customer notifications: consents stay unique and evidenced, a number that was
  stopped is not written to before it restarts, a delivery is dispatched at most ten times; and the
  states the code cannot leave or read.
\<close>

section \<open>Consents\<close>

definition consents_ok :: "CustomerDB \<Rightarrow> bool" where
  "consents_ok db \<longleftrightarrow>
     distinct (map cr_ID (cb_Consents db))
     \<and> distinct (map (\<lambda>row. (cr_SalonID row, cr_Destination row)) (cb_Consents db))"

lemma consent_ofD:
  "consent_of s d db = Some row \<Longrightarrow> row \<in> set (cb_Consents db) \<and> cr_SalonID row = s \<and> cr_Destination row = d"
  unfolding consent_of_def by (auto dest: find_SomeD)

lemma consent_by_idD:
  "consent_by_id s i db = Some row \<Longrightarrow> row \<in> set (cb_Consents db) \<and> cr_SalonID row = s \<and> cr_ID row = i"
  unfolding consent_by_id_def by (auto dest: find_SomeD)

lemma consent_ofI:
  assumes "consents_ok db" "row \<in> set (cb_Consents db)" "cr_SalonID row = s" "cr_Destination row = d"
  shows "consent_of s d db = Some row"
  unfolding consent_of_def
  by (rule find_unique [where f = "\<lambda>row. (cr_SalonID row, cr_Destination row)"])
    (use assms in \<open>auto simp: consents_ok_def\<close>)

lemma consent_same_id:
  assumes "consents_ok db" "row \<in> set (cb_Consents db)" "row' \<in> set (cb_Consents db)" "cr_ID row = cr_ID row'"
  shows "row = row'"
  using assms by (auto simp: consents_ok_def distinct_map inj_on_def)

text \<open>A committed mutation: a replay, a new row, or an update of the row of the number.\<close>

lemma mutate_effect:
  assumes "mutateConsent env now m db = (Inr (consent, replayed), db')"
  obtains "replayed" "db' = db"
    | sequence where "\<not> replayed" "consent_of (cm_SalonID m) (cm_Destination m) db = None"
      "legalConsentTransition [] (cm_Status m) (cm_Source m) (cm_EventType m)"
      "\<not> list_ex (\<lambda>other. cr_ID other = cr_ID (inserted_consent env now m)) (cb_Consents db)"
      "db' = db\<lparr>cb_Consents := cb_Consents db @ [inserted_consent env now m],
         cb_ConsentEvents := cb_ConsentEvents db
           @ [mutation_event env m (cr_ID (inserted_consent env now m)) sequence 1]\<rparr>"
    | row sequence where "\<not> replayed" "consent_of (cm_SalonID m) (cm_Destination m) db = Some row"
      "legalConsentTransition (cr_Status row) (cm_Status m) (cm_Source m) (cm_EventType m)"
      "db' = db\<lparr>cb_Consents := map (\<lambda>other. if cr_SalonID other = cm_SalonID m \<and> cr_ID other = cr_ID row
           then updated_consent now m (cr_Version row + 1) other else other) (cb_Consents db),
         cb_ConsentEvents := cb_ConsentEvents db
           @ [mutation_event env m (cr_ID row) sequence (cr_Version row + 1)]\<rparr>"
proof -
  note member = assms [unfolded mutateConsent_def]
  show ?thesis
  proof (cases "consent_event_at (cm_SalonID m) (cm_EventKey m) db")
    case (Some event)
    with assms have "replayed" "db' = db"
      by (auto simp: mutateConsent_def replay_consent_def split: if_splits option.splits)
    then show ?thesis by (rule that(1))
  next
    case None
    note defs = mutateConsent_def None option.case Let_def
    show ?thesis
    proof (cases "consent_of (cm_SalonID m) (cm_Destination m) db")
      case new: None
      have "legalConsentTransition [] (cm_Status m) (cm_Source m) (cm_EventType m)"
        "write_consent env now m None db = (Inr (consent, replayed), db')"
        using assms unfolding defs new by (auto split: if_splits)
      moreover from this(2) have "\<not> list_ex (\<lambda>other. cr_ID other = cr_ID (inserted_consent env now m)) (cb_Consents db)"
        "\<not> replayed" "db' = db\<lparr>cb_Consents := cb_Consents db @ [inserted_consent env now m],
         cb_ConsentEvents := cb_ConsentEvents db @ [mutation_event env m (cr_ID (inserted_consent env now m))
           (next_sequence (cr_ID (inserted_consent env now m)) db) 1]\<rparr>"
        unfolding write_consent_def Let_def option.case
        by (auto split: if_splits dest!: commit_customer_cases(1))
      ultimately show ?thesis using that(2) [OF _ new] by blast
    next
      case (Some row)
      have "legalConsentTransition (cr_Status row) (cm_Status m) (cm_Source m) (cm_EventType m)"
        "write_consent env now m (Some row) db = (Inr (consent, replayed), db')"
        using assms unfolding defs Some by (auto split: if_splits)
      moreover from this(2) have "\<not> replayed"
        "db' = db\<lparr>cb_Consents := map (\<lambda>other. if cr_SalonID other = cm_SalonID m \<and> cr_ID other = cr_ID row
           then updated_consent now m (cr_Version row + 1) other else other) (cb_Consents db),
         cb_ConsentEvents := cb_ConsentEvents db
           @ [mutation_event env m (cr_ID row) (next_sequence (cr_ID row) db) (cr_Version row + 1)]\<rparr>"
        unfolding write_consent_def Let_def option.case by (auto dest!: commit_customer_cases(1))
      ultimately show ?thesis using that(3) [OF _ Some] by blast
    qed
  qed
qed

lemma inserted_consent_fields [simp]:
  "cr_SalonID (inserted_consent env now m) = cm_SalonID m"
  "cr_Destination (inserted_consent env now m) = cm_Destination m"
  "cr_Status (inserted_consent env now m) = cm_Status m"
  "cr_Version (inserted_consent env now m) = 1"
  "cr_ID (inserted_consent env now m) = cv_UUID env [0]"
  by (simp_all add: inserted_consent_def split: prod.splits)

lemma updated_consent_fields [simp]:
  "cr_SalonID (updated_consent now m v row) = cr_SalonID row"
  "cr_Destination (updated_consent now m v row) = cr_Destination row"
  "cr_Status (updated_consent now m v row) = cm_Status m"
  "cr_Version (updated_consent now m v row) = v"
  "cr_ID (updated_consent now m v row) = cr_ID row"
  by (simp_all add: updated_consent_def)

lemma append_effect:
  assumes "appendConsentEvent env salonID consentID eventKey fingerprint eventType optOutType messageID db
    = (Inr (), db')"
  obtains events where "db' = db\<lparr>cb_ConsentEvents := cb_ConsentEvents db @ events\<rparr>"
proof -
  have "\<exists>events. db' = db\<lparr>cb_ConsentEvents := cb_ConsentEvents db @ events\<rparr>"
  proof (cases "consent_event_at salonID eventKey db")
    case (Some event)
    with assms have "db' = db\<lparr>cb_ConsentEvents := cb_ConsentEvents db @ []\<rparr>"
      by (simp add: appendConsentEvent_def split: if_splits)
    then show ?thesis ..
  next
    case None
    with assms show ?thesis
      unfolding appendConsentEvent_def by (auto split: option.splits dest!: commit_customer_cases(1))
  qed
  then show ?thesis using that by blast
qed

text \<open>No other step touches a consent, and the log only grows.\<close>

lemma step_consents:
  assumes "customer_step db labels db'"
  obtains m env now consent replayed where "program_mutation m"
      "mutateConsent env now m db = (Inr (consent, replayed), db')" "labels = mutation_labels m replayed"
    | events where "cb_Consents db' = cb_Consents db" "cb_ConsentEvents db' = cb_ConsentEvents db @ events"
      "\<And>s d. Stopped s d \<notin> set labels \<and> Restarted s d \<notin> set labels"
  using assms
proof (cases rule: customer_step.cases)
  case (consent_changed m env now consent replayed)
  then show ?thesis by (intro that(1))
next
  case (consent_noted env salonID consentID eventKey fingerprint eventType optOutType messageID)
  from this(2) show ?thesis by (rule append_effect) (rule that(2); simp add: consent_noted(1))
next
  case (surroundings salons requests appointments)
  then show ?thesis by (intro that(2)) auto
next
  case (redacted deliveryID now)
  then show ?thesis by (intro that(2)) (auto simp: update_deliveries_def)
next
  case enqueued
  from enqueued(2) show ?thesis by (rule enqueue_effect) (intro that(2); simp add: enqueued(1))+
next
  case lease_recovered
  from lease_recovered(2) show ?thesis
    by (rule recover_effect) (intro that(2) [of "[]"]; simp add: lease_recovered(1) outbox_effect_def)+
next
  case claimed
  from claimed(2) show ?thesis by (rule claim_effect) (intro that(2) [of "[]"]; simp add: claimed(1))
next
  case (dispatch_marked env now item)
  from dispatch_marked(2) show ?thesis
    by (rule mark_effect) (intro that(2) [of "[]"]; simp add: dispatch_marked(1) outbox_effect_def)
next
  case completed
  from completed(2) show ?thesis
    by (rule complete_effect) (intro that(2) [of "[]"]; simp add: completed(1) outbox_effect_def)
next
  case accepted
  from accepted(2) show ?thesis
    by (rule accepted_effect) (intro that(2) [of "[]"]; simp add: accepted(1) outbox_effect_def)
next
  case called_back
  from called_back(2) show ?thesis
    by (rule callback_effect) (intro that(2) [of "[]"]; simp add: called_back(1) outbox_effect_def)+
next
  case requeued
  from requeued(2) show ?thesis
    by (rule requeue_effect) (intro that(2) [of "[]"]; simp add: requeued(1) outbox_effect_def)+
qed


lemma mutate_keeps_consents_ok:
  assumes "consents_ok db" "mutateConsent env now m db = (Inr (consent, replayed), db')"
  shows "consents_ok db'"
  using assms(2)
proof (cases rule: mutate_effect)
  case 1
  with assms(1) show ?thesis by simp
next
  case (2 sequence)
  have "(cm_SalonID m, cm_Destination m) \<notin> (\<lambda>row. (cr_SalonID row, cr_Destination row)) ` set (cb_Consents db)"
    using 2(2) by (auto simp: consent_of_def find_None_iff)
  moreover have "cv_UUID env [0] \<notin> cr_ID ` set (cb_Consents db)"
    using 2(4) by (auto simp: list_ex_iff)
  ultimately show ?thesis using assms(1) by (simp add: 2(5) consents_ok_def)
next
  case (3 row sequence)
  have "map cr_ID (cb_Consents db') = map cr_ID (cb_Consents db)"
    "map (\<lambda>row. (cr_SalonID row, cr_Destination row)) (cb_Consents db')
      = map (\<lambda>row. (cr_SalonID row, cr_Destination row)) (cb_Consents db)"
    by (simp_all add: 3(4))
  with assms(1) show ?thesis unfolding consents_ok_def by simp
qed

lemma step_keeps_consents_ok:
  assumes "customer_step db labels db'" "consents_ok db"
  shows "consents_ok db'"
  using assms(1)
proof (cases rule: step_consents)
  case 1
  with assms(2) show ?thesis by (auto intro: mutate_keeps_consents_ok)
next
  case 2
  with assms(2) show ?thesis by (simp add: consents_ok_def)
qed

subsection \<open>Evidence\<close>

text \<open>A consented row has an event of its version in which the customer or the owner consented.\<close>

definition evidences :: "ConsentEventRow \<Rightarrow> string \<Rightarrow> int \<Rightarrow> bool" where
  "evidences event consentID version \<longleftrightarrow>
     ce_ConsentID event = consentID \<and> ce_ConsentVersion event = version
     \<and> ce_EventType event \<in> {ConsentEventConsented, ConsentEventOptIn}"

definition consents_evidenced :: "CustomerDB \<Rightarrow> bool" where
  "consents_evidenced db \<longleftrightarrow>
     (\<forall>row \<in> set (cb_Consents db). cr_Status row = ConsentConsented \<longrightarrow>
        (\<exists>event \<in> set (cb_ConsentEvents db). evidences event (cr_ID row) (cr_Version row)))"

lemmas consent_label_defs =
  consent_status_defs consent_source_defs ConsentEventRequested_def ConsentEventConsented_def
  ConsentEventDeclined_def ConsentEventOptOut_def ConsentEventOptIn_def ConsentEventHelp_def

lemmas mutation_defs =
  requested_mutation_def conversation_mutation_def owner_mutation_def optout_mutation_def

lemma program_mutation_evidence:
  "program_mutation m \<Longrightarrow> cm_Status m = ConsentConsented
     \<Longrightarrow> cm_EventType m \<in> {ConsentEventConsented, ConsentEventOptIn}"
  by (cases rule: program_mutation.cases)
    (auto simp: mutation_defs consent_label_defs split: if_splits)

lemma mutate_keeps_evidence:
  assumes "program_mutation m" "consents_ok db" "consents_evidenced db"
    "mutateConsent env now m db = (Inr (consent, replayed), db')"
  shows "consents_evidenced db'"
  using assms(4)
proof (cases rule: mutate_effect)
  case 1
  with assms show ?thesis by simp
next
  case (2 sequence)
  have "evidences (mutation_event env m (cv_UUID env [0]) sequence 1) (cv_UUID env [0]) 1"
    if "cm_Status m = ConsentConsented"
    using program_mutation_evidence [OF assms(1) that] by (simp add: evidences_def mutation_event_def)
  with assms(3) show ?thesis by (auto simp: 2(5) consents_evidenced_def)
next
  case (3 row sequence)
  have new: "evidences (mutation_event env m (cr_ID row) sequence (cr_Version row + 1)) (cr_ID row)
      (cr_Version row + 1)" if "cm_Status m = ConsentConsented"
    using program_mutation_evidence [OF assms(1) that] by (simp add: evidences_def mutation_event_def)
  show ?thesis
    unfolding consents_evidenced_def
  proof (intro ballI impI)
    fix other' assume "other' \<in> set (cb_Consents db')" and consented: "cr_Status other' = ConsentConsented"
    then obtain other where other: "other \<in> set (cb_Consents db)"
      "other' = (if cr_SalonID other = cm_SalonID m \<and> cr_ID other = cr_ID row
         then updated_consent now m (cr_Version row + 1) other else other)"
      by (auto simp: 3(4))
    show "\<exists>event \<in> set (cb_ConsentEvents db'). evidences event (cr_ID other') (cr_Version other')"
    proof (cases "cr_SalonID other = cm_SalonID m \<and> cr_ID other = cr_ID row")
      case True
      with other consented new show ?thesis by (simp add: 3(4))
    next
      case False
      with other consented assms(3) show ?thesis by (auto simp: 3(4) consents_evidenced_def)
    qed
  qed
qed

lemma step_keeps_evidence:
  assumes "customer_step db labels db'" "consents_ok db" "consents_evidenced db"
  shows "consents_evidenced db'"
  using assms(1)
proof (cases rule: step_consents)
  case 1
  with assms show ?thesis by (auto intro: mutate_keeps_evidence)
next
  case 2
  with assms show ?thesis by (auto simp: consents_evidenced_def)
qed

lemma history_keeps_consents:
  assumes "customer_history db labels db'" "consents_ok db" "consents_evidenced db"
  shows "consents_ok db' \<and> consents_evidenced db'"
  using assms
  by (induction rule: customer_history.induct)
    (auto intro: step_keeps_consents_ok step_keeps_evidence)

subsection \<open>Opting out\<close>

definition opted_out :: "string \<Rightarrow> string \<Rightarrow> CustomerDB \<Rightarrow> bool" where
  "opted_out s d db \<longleftrightarrow> (\<exists>row. consent_of s d db = Some row \<and> cr_Status row = ConsentOptedOut)"

lemma consent_of_updated:
  assumes "consents_ok db" "consent_of (cm_SalonID m) (cm_Destination m) db = Some row"
  shows "consent_of s d (db\<lparr>cb_Consents := map (\<lambda>other. if cr_SalonID other = cm_SalonID m
        \<and> cr_ID other = cr_ID row then updated_consent now m v other else other) (cb_Consents db),
      cb_ConsentEvents := events\<rparr>)
    = (if s = cm_SalonID m \<and> d = cm_Destination m then Some (updated_consent now m v row)
       else consent_of s d db)"
proof -
  let ?change = "\<lambda>other. if cr_SalonID other = cm_SalonID m \<and> cr_ID other = cr_ID row
    then updated_consent now m v other else other"
  have mapped: "consent_of s d (db\<lparr>cb_Consents := map ?change (cb_Consents db), cb_ConsentEvents := events\<rparr>)
      = map_option ?change (consent_of s d db)"
    unfolding consent_of_def by (simp add: find_map)
  show ?thesis
  proof (cases "consent_of s d db")
    case None
    with assms(2) show ?thesis unfolding mapped by auto
  next
    case (Some other)
    have "other = row" if "cr_ID other = cr_ID row"
      using that consent_ofD [OF Some] consent_ofD [OF assms(2)] consent_same_id [OF assms(1)] by blast
    then show ?thesis
      unfolding mapped using Some consent_ofD [OF Some] consent_ofD [OF assms(2)] assms(2) by auto
  qed
qed

lemma mutate_opt_out:
  assumes ok: "consents_ok db" and m: "program_mutation m"
    and run: "mutateConsent env now m db = (Inr (consent, replayed), db')"
  shows "(opted_out s d db \<longrightarrow> Restarted s d \<in> set (mutation_labels m replayed) \<or> opted_out s d db')
    \<and> (Stopped s d \<in> set (mutation_labels m replayed) \<longrightarrow> opted_out s d db')"
  using run
proof (cases rule: mutate_effect)
  case 1
  then show ?thesis by (simp add: mutation_labels_def)
next
  case (2 sequence)
  have "consent_of s d db' = (case consent_of s d db of Some row \<Rightarrow> Some row
      | None \<Rightarrow> if s = cm_SalonID m \<and> d = cm_Destination m
          then Some (inserted_consent env now m) else None)"
    by (auto simp: 2(5) consent_of_def find_append split: option.splits)
  with 2(2) show ?thesis by (auto simp: opted_out_def mutation_labels_def)
next
  case (3 row sequence)
  have found: "consent_of s d db' = (if s = cm_SalonID m \<and> d = cm_Destination m
      then Some (updated_consent now m (cr_Version row + 1) row) else consent_of s d db)"
    unfolding 3(4) by (rule consent_of_updated [OF ok 3(2)])
  have "cm_Status m = ConsentOptedOut \<or> cm_EventType m = ConsentEventOptIn"
    if "cr_Status row = ConsentOptedOut"
    using 3(3) that by (auto simp: legalConsentTransition_def split: if_splits)
  with found 3(1,2) show ?thesis by (auto simp: opted_out_def mutation_labels_def)
qed

lemma step_opt_out:
  assumes "customer_step db labels db'" "consents_ok db"
  shows "(opted_out s d db \<longrightarrow> Restarted s d \<in> set labels \<or> opted_out s d db')
    \<and> (Stopped s d \<in> set labels \<longrightarrow> opted_out s d db')"
  using assms(1)
proof (cases rule: step_consents)
  case 1
  then show ?thesis using mutate_opt_out [OF assms(2)] by blast
next
  case 2
  then have "consent_of s d db' = consent_of s d db" by (simp add: consent_of_def)
  with 2 show ?thesis by (simp add: opted_out_def)
qed

text \<open>A dispatch is marked only for a number whose consent stands.\<close>

lemma step_dispatch:
  assumes "customer_step db labels db'" "Dispatch_Marked item \<in> set labels"
  obtains env now where "labels = [Dispatch_Marked item]"
    "MarkDispatchStarted_customer env now item db = (Inr (), db')"
  using assms
  by (cases rule: customer_step.cases) (auto simp: mutation_labels_def split: if_splits)

lemma dispatch_consent:
  assumes "MarkDispatchStarted_customer env now item db = (Inr (), db')"
  obtains consent where "consent \<in> set (cb_Consents db)" "cr_SalonID consent = cd_SalonID item"
    "cr_ID consent = cd_ConsentID item" "cr_Destination consent = cd_Destination item"
    "cr_Status consent = ConsentConsented" "cr_Version consent = cd_ConsentVersion item"
  using assms by (rule mark_effect) (auto simp: dispatch_permitted_def dest!: consent_by_idD intro: that)

lemma dispatch_not_opted_out:
  assumes "consents_ok db" "MarkDispatchStarted_customer env now item db = (Inr (), db')"
  shows "\<not> opted_out (cd_SalonID item) (cd_Destination item) db"
proof -
  obtain consent where "consent \<in> set (cb_Consents db)" "cr_SalonID consent = cd_SalonID item"
    "cr_Destination consent = cd_Destination item" "cr_Status consent = ConsentConsented"
    using dispatch_consent [OF assms(2)] by metis
  then have "consent_of (cd_SalonID item) (cd_Destination item) db = Some consent"
    using assms(1) by (intro consent_ofI) auto
  with \<open>cr_Status consent = _\<close> show ?thesis by (simp add: opted_out_def consent_status_defs)
qed

text \<open>Whether a number is stopped, from the labels alone.\<close>

definition stopped_by :: "string \<Rightarrow> string \<Rightarrow> customer_label list \<Rightarrow> bool" where
  "stopped_by s d labels \<longleftrightarrow>
     (\<exists>before after. labels = before @ Stopped s d # after \<and> Restarted s d \<notin> set after)"

lemma stopped_by_append:
  "stopped_by s d (labels @ labels') \<longleftrightarrow>
     stopped_by s d labels' \<or> stopped_by s d labels \<and> Restarted s d \<notin> set labels'"
proof
  assume "stopped_by s d (labels @ labels')"
  then obtain bef aft where split: "labels @ labels' = bef @ Stopped s d # aft" "Restarted s d \<notin> set aft"
    by (auto simp: stopped_by_def)
  from split(1) consider us where "labels' = us @ Stopped s d # aft"
    | us where "labels = bef @ us" "us @ labels' = Stopped s d # aft"
    by (auto simp: append_eq_append_conv2)
  then show "stopped_by s d labels' \<or> stopped_by s d labels \<and> Restarted s d \<notin> set labels'"
  proof cases
    case 1
    with split(2) show ?thesis by (auto simp: stopped_by_def)
  next
    case (2 us)
    show ?thesis
    proof (cases us)
      case Nil
      with 2 split(2) have "stopped_by s d labels'" unfolding stopped_by_def by fastforce
      then show ?thesis ..
    next
      case (Cons x ys)
      with 2 split(2) have "labels = bef @ Stopped s d # ys" "Restarted s d \<notin> set ys"
        "Restarted s d \<notin> set labels'" by auto
      then show ?thesis unfolding stopped_by_def by blast
    qed
  qed
next
  assume "stopped_by s d labels' \<or> stopped_by s d labels \<and> Restarted s d \<notin> set labels'"
  then show "stopped_by s d (labels @ labels')"
  proof
    assume "stopped_by s d labels'"
    then obtain bef aft where "labels' = bef @ Stopped s d # aft" "Restarted s d \<notin> set aft"
      by (auto simp: stopped_by_def)
    then have "labels @ labels' = (labels @ bef) @ Stopped s d # aft" by simp
    with \<open>Restarted s d \<notin> set aft\<close> show ?thesis unfolding stopped_by_def by blast
  next
    assume "stopped_by s d labels \<and> Restarted s d \<notin> set labels'"
    then obtain bef aft where "labels = bef @ Stopped s d # aft" "Restarted s d \<notin> set (aft @ labels')"
      by (auto simp: stopped_by_def)
    then have "labels @ labels' = bef @ Stopped s d # (aft @ labels')" by simp
    with \<open>Restarted s d \<notin> set (aft @ labels')\<close> show ?thesis unfolding stopped_by_def by blast
  qed
qed

lemma step_labels_short: "customer_step db labels db' \<Longrightarrow> length labels \<le> 1"
  by (cases rule: customer_step.cases) (auto simp: mutation_labels_def)

lemma history_opted_out:
  assumes "customer_history db labels db'" "consents_ok db"
  shows "consents_ok db' \<and> (stopped_by s d labels \<longrightarrow> opted_out s d db')"
  using assms
proof (induction rule: customer_history.induct)
  case (history_step db labels db' labels' db'')
  then have IH: "consents_ok db'" "stopped_by s d labels \<Longrightarrow> opted_out s d db'" by simp_all
  have "stopped_by s d labels' \<Longrightarrow> Stopped s d \<in> set labels'" by (auto simp: stopped_by_def)
  then show ?case
    using step_keeps_consents_ok [OF history_step.hyps(2) IH(1)] step_opt_out [OF history_step.hyps(2) IH(1)] IH(2)
    by (auto simp: stopped_by_append)
qed (simp add: stopped_by_def)

text \<open>Every dispatch of a history is the last label of a shorter one.\<close>

lemma history_dispatch:
  assumes "customer_history db (labels @ Dispatch_Marked item # rest) db'"
  obtains mid env now db'' where "customer_history db labels mid"
    "MarkDispatchStarted_customer env now item mid = (Inr (), db'')"
  using assms
proof (induction db "labels @ Dispatch_Marked item # rest" db' arbitrary: rest thesis
    rule: customer_history.induct)
  case (history_step db older db' newer db'')
  show ?case
  proof (cases "newer = []")
    case True
    then show ?thesis using history_step.hyps(2,4) history_step.prems by auto
  next
    case False
    then obtain label where newer: "newer = [label]"
      using step_labels_short [OF history_step.hyps(3)] by (cases newer) auto
    show ?thesis
    proof (cases rest rule: rev_cases)
      case Nil
      then have "older = labels" "label = Dispatch_Marked item" using history_step.hyps(4) newer by auto
      with history_step newer show ?thesis by (elim step_dispatch) auto
    next
      case (snoc rest' x)
      then have "older = labels @ Dispatch_Marked item # rest'" using history_step.hyps(4) newer by auto
      then show ?thesis using history_step.hyps(2) history_step.prems by blast
    qed
  qed
qed simp

lemma dispatch_not_stopped:
  assumes "consents_ok db" "customer_history db (labels @ Dispatch_Marked item # later) db'"
  shows "\<not> stopped_by (cd_SalonID item) (cd_Destination item) labels"
proof
  assume "stopped_by (cd_SalonID item) (cd_Destination item) labels"
  moreover obtain mid env now db'' where "customer_history db labels mid"
    "MarkDispatchStarted_customer env now item mid = (Inr (), db'')"
    by (rule history_dispatch [OF assms(2)])
  ultimately show False using history_opted_out [OF _ assms(1)] dispatch_not_opted_out by blast
qed

text \<open>
  No message after STOP. In every history of the consent ledger and the outbox, whatever the
  workers, callbacks, owners and conversations do and in whatever order, a message to a number of a
  salon is never dispatched after the number replied STOP unless it replied START in between; a
  repeated STOP or START event that is only replayed does not count as either.
\<close>
theorem no_message_after_stop:
  assumes "consents_ok db"
    and "customer_history db (earlier @ Stopped salonID number # between @ Dispatch_Marked item # later) db'"
    and "cd_SalonID item = salonID" "cd_Destination item = number"
  shows "Restarted salonID number \<in> set between"
  using dispatch_not_stopped [OF assms(1), of "earlier @ Stopped salonID number # between" item] assms(2-4)
  by (fastforce simp: stopped_by_def)

text \<open>
  C11: Evidence. Every message that is dispatched goes to a number whose consent the log shows: an
  event of the very version of the consent under which the message was written, in which the
  customer consented in a conversation, the owner attested the consent, or Twilio reported START.
\<close>
theorem dispatch_has_evidence:
  assumes "consents_ok db" "consents_evidenced db"
    and "customer_history db (earlier @ Dispatch_Marked item # later) db'"
  shows "\<exists>mid. customer_history db earlier mid
     \<and> (\<exists>consent \<in> set (cb_Consents mid). cr_ID consent = cd_ConsentID item
          \<and> cr_SalonID consent = cd_SalonID item \<and> cr_Destination consent = cd_Destination item
          \<and> cr_Status consent = ConsentConsented)
     \<and> (\<exists>event \<in> set (cb_ConsentEvents mid).
          evidences event (cd_ConsentID item) (cd_ConsentVersion item))"
proof -
  obtain mid env now db'' where mid: "customer_history db earlier mid"
    "MarkDispatchStarted_customer env now item mid = (Inr (), db'')"
    using history_dispatch [OF assms(3)] by blast
  then have "consents_evidenced mid" using history_keeps_consents assms(1,2) by blast
  with dispatch_consent [OF mid(2)] mid(1) show ?thesis
    unfolding consents_evidenced_def by (metis (no_types, lifting))
qed


section \<open>How often a delivery is dispatched\<close>

definition dispatches :: "string \<Rightarrow> customer_label list \<Rightarrow> int" where
  "dispatches deliveryID labels =
     int (length (filter (\<lambda>label. case label of Dispatch_Marked item \<Rightarrow> cd_ID item = deliveryID
       | _ \<Rightarrow> False) labels))"

text \<open>A row whose claim has not been dispatched may be dispatched once more.\<close>

definition open_claim :: "CustomerDB \<Rightarrow> CustomerDeliveryRow \<Rightarrow> int" where
  "open_claim db row =
     (case cw_ClaimToken row of None \<Rightarrow> 0
      | Some token \<Rightarrow> if event_exists (cw_SalonID row) (''dispatch:'' @ token) db then 0 else 1)"

definition row_bounded :: "customer_label list \<Rightarrow> CustomerDB \<Rightarrow> CustomerDeliveryRow \<Rightarrow> bool" where
  "row_bounded labels db row \<longleftrightarrow>
     dispatches (cw_ID row) labels + open_claim db row \<le> cw_DeliveryAttempts row
     \<and> cw_DeliveryAttempts row \<le> MaxSafeDeliveryAttempts * (cw_RequeueCount row + 1)
     \<and> 0 \<le> cw_RequeueCount row \<and> cw_RequeueCount row \<le> MaxOwnerRequeues"

definition outbox_bounded :: "customer_label list \<Rightarrow> CustomerDB \<Rightarrow> bool" where
  "outbox_bounded labels db \<longleftrightarrow>
     distinct (map cw_ID (cb_Deliveries db))
     \<and> (\<forall>row \<in> set (cb_Deliveries db). row_bounded labels db row)
     \<and> (\<forall>item. Dispatch_Marked item \<in> set labels \<longrightarrow> cd_ID item \<in> cw_ID ` set (cb_Deliveries db))"

lemma outbox_bounded_rowD: "outbox_bounded labels db \<Longrightarrow> row \<in> set (cb_Deliveries db) \<Longrightarrow> row_bounded labels db row"
  by (simp add: outbox_bounded_def)

lemma outbox_same_id:
  "outbox_bounded labels db \<Longrightarrow> row \<in> set (cb_Deliveries db) \<Longrightarrow> row' \<in> set (cb_Deliveries db)
     \<Longrightarrow> cw_ID row = cw_ID row' \<Longrightarrow> row = row'"
  by (auto simp: outbox_bounded_def distinct_map inj_on_def)

lemma dispatches_append: "dispatches n (labels @ labels') = dispatches n labels + dispatches n labels'"
  by (simp add: dispatches_def)

lemma dispatches_mark:
  "dispatches n (labels @ [Dispatch_Marked item]) = dispatches n labels + (if cd_ID item = n then 1 else 0)"
  by (simp add: dispatches_def)

lemma dispatches_nonneg: "0 \<le> dispatches n labels"
  by (simp add: dispatches_def)

lemma dispatches_no_mark:
  "(\<And>item. Dispatch_Marked item \<notin> set labels) \<Longrightarrow> dispatches n labels = 0"
  by (auto simp: dispatches_def filter_empty_conv split: customer_label.splits)

lemma open_claim_range: "0 \<le> open_claim db row" "open_claim db row \<le> 1"
  by (auto simp: open_claim_def split: option.splits)

lemma open_claim_mono:
  assumes "cb_Events db' = cb_Events db @ events" "cw_SalonID row' = cw_SalonID row"
    "cw_ClaimToken row' = None \<or> cw_ClaimToken row' = cw_ClaimToken row"
  shows "open_claim db' row' \<le> open_claim db row"
  using assms by (auto simp: open_claim_def event_exists_def split: option.splits)

text \<open>A change that uses no attempt: a claim is kept or released, and an owner may requeue once.\<close>

definition spends_nothing :: "CustomerDeliveryRow \<Rightarrow> CustomerDeliveryRow \<Rightarrow> bool" where
  "spends_nothing row row' \<longleftrightarrow>
     cw_ID row' = cw_ID row \<and> cw_SalonID row' = cw_SalonID row
     \<and> cw_DeliveryAttempts row' = cw_DeliveryAttempts row
     \<and> (cw_RequeueCount row' = cw_RequeueCount row
        \<or> cw_RequeueCount row' = cw_RequeueCount row + 1 \<and> cw_RequeueCount row < MaxOwnerRequeues)
     \<and> (cw_ClaimToken row' = None \<or> cw_ClaimToken row' = cw_ClaimToken row)"

lemma spends_nothing_rules:
  "spends_nothing row row"
  "spends_nothing row (expired_row now status code row)"
  "spends_nothing row (completed_delivery now status code next_at dead row)"
  "spends_nothing row (accepted_delivery now result row)"
  "spends_nothing row (reported_delivery callback row)"
  "spends_nothing row (redacted_delivery now row)"
  "spends_nothing row (row\<lparr>cw_DispatchStartedAt := started\<rparr>)"
  "cw_RequeueCount row < MaxOwnerRequeues \<Longrightarrow> spends_nothing row (requeued_delivery now row)"
  by (simp_all add: spends_nothing_def expired_row_def completed_delivery_def accepted_delivery_def
      reported_delivery_def redacted_delivery_def requeued_delivery_def release_delivery_def Let_def)

lemma spends_nothing_if:
  "(match row \<Longrightarrow> spends_nothing row (f row)) \<Longrightarrow> spends_nothing row (if match row then f row else row)"
  by (simp add: spends_nothing_rules(1))

lemma outbox_effect_bounded:
  assumes "outbox_bounded labels db" "outbox_effect change db db'"
    and "\<And>row. row \<in> set (cb_Deliveries db) \<Longrightarrow> spends_nothing row (change row)"
  shows "outbox_bounded labels db'"
proof -
  have deliveries: "cb_Deliveries db' = map change (cb_Deliveries db)"
    and events: "\<exists>events. cb_Events db' = cb_Events db @ events"
    using assms(2) by (auto simp: outbox_effect_def)
  have ids: "map cw_ID (cb_Deliveries db') = map cw_ID (cb_Deliveries db)"
    using assms(3) by (simp add: deliveries spends_nothing_def)
  have "row_bounded labels db' (change row)" if row: "row \<in> set (cb_Deliveries db)" for row
  proof -
    note spent = assms(3) [OF row, unfolded spends_nothing_def]
    have "open_claim db' (change row) \<le> open_claim db row"
      using events spent by (auto intro: open_claim_mono)
    with outbox_bounded_rowD [OF assms(1) row] spent show ?thesis
      by (auto simp: row_bounded_def MaxSafeDeliveryAttempts_def MaxOwnerRequeues_def)
  qed
  moreover have "cw_ID ` set (cb_Deliveries db') = cw_ID ` set (cb_Deliveries db)"
    using ids by (metis set_map)
  ultimately show ?thesis
    using assms(1) unfolding outbox_bounded_def ids by (auto simp: deliveries)
qed

lemma outbox_bounded_more_consents:
  assumes "outbox_bounded labels db" "cb_Deliveries db' = cb_Deliveries db" "cb_Events db' = cb_Events db"
  shows "outbox_bounded labels db'"
  by (rule outbox_effect_bounded [where db = "db'\<lparr>cb_Consents := cb_Consents db', cb_Deliveries := cb_Deliveries db\<rparr>" and change = id])
    (use assms in \<open>auto simp: outbox_effect_def spends_nothing_rules outbox_bounded_def row_bounded_def
      open_claim_def event_exists_def cong: option.case_cong\<close>)

lemma deliveries_matching_one:
  assumes "deliveries_matching match db = 1"
  obtains row where "row \<in> set (cb_Deliveries db)" "match row"
    "\<And>other. other \<in> set (cb_Deliveries db) \<Longrightarrow> match other \<Longrightarrow> other = row"
proof -
  obtain row where "filter match (cb_Deliveries db) = [row]"
    using assms by (auto simp: deliveries_matching_def length_Suc_conv)
  then have "{other \<in> set (cb_Deliveries db). match other} = {row}"
    by (metis list.set(1) list.set(2) set_filter)
  then show ?thesis by (intro that) auto
qed

lemma enqueue_bounded:
  assumes bounded: "outbox_bounded labels db" and
    "enqueue_customer_notification env now salonID destination notificationType sourceVersion
       dedupeKey body requestID appointmentID bookingAttemptID db = (Inr (), db')"
  shows "outbox_bounded labels db'"
  using assms(2)
proof (rule enqueue_effect)
  assume "db' = db"
  with bounded show ?thesis by simp
next
  fix row event consent
  assume fresh: "\<not> list_ex (\<lambda>other. cw_ID other = cw_ID row) (cb_Deliveries db)"
    and fields: "cw_DeliveryAttempts row = 0" "cw_RequeueCount row = 0" "cw_ClaimToken row = None"
    and db': "db' = db\<lparr>cb_Deliveries := cb_Deliveries db @ [row], cb_Events := cb_Events db @ [event]\<rparr>"
  have new: "cw_ID row \<notin> cw_ID ` set (cb_Deliveries db)" using fresh by (auto simp: list_ex_iff)
  then have "cd_ID item \<noteq> cw_ID row" if "Dispatch_Marked item \<in> set labels" for item
    using bounded that unfolding outbox_bounded_def by metis
  then have "dispatches (cw_ID row) labels = 0"
    by (auto simp: dispatches_def filter_empty_conv split: customer_label.splits)
  then have "row_bounded labels db' row"
    by (simp add: row_bounded_def open_claim_def fields MaxSafeDeliveryAttempts_def MaxOwnerRequeues_def)
  moreover have "row_bounded labels db' other" if "other \<in> set (cb_Deliveries db)" for other
  proof -
    have "open_claim db' other \<le> open_claim db other" by (rule open_claim_mono) (simp_all add: db')
    with outbox_bounded_rowD [OF bounded that] show ?thesis by (simp add: row_bounded_def)
  qed
  ultimately show ?thesis using bounded new by (auto simp: outbox_bounded_def db')
qed

lemma claim_bounded:
  assumes bounded: "outbox_bounded labels db" and
    "app_worker_claim_customer_notifications env MaxSafeDeliveryAttempts limit lease_milliseconds now db
       = (Inr rows, db')"
  shows "outbox_bounded labels db'"
  using assms(2)
proof (rule claim_effect)
  fix change events
  assume deliveries: "cb_Deliveries db' = map change (cb_Deliveries db)"
    and events: "cb_Events db' = cb_Events db @ events"
    and change: "\<And>row. row \<in> set (cb_Deliveries db) \<Longrightarrow> change row = row
       \<or> (\<exists>row' token. row' \<in> set (cb_Deliveries db) \<and> cw_ID row' = cw_ID row
            \<and> claimable_customer MaxSafeDeliveryAttempts now row'
            \<and> change row = claim_customer_row lease_milliseconds now token row')"
  have cases: "change row = row \<or> claimable_customer MaxSafeDeliveryAttempts now row
      \<and> (\<exists>token. change row = claim_customer_row lease_milliseconds now token row)"
    if "row \<in> set (cb_Deliveries db)" for row
    using change [OF that] outbox_same_id [OF bounded _ that] by metis
  have ids: "cw_ID (change row) = cw_ID row" if "row \<in> set (cb_Deliveries db)" for row
    using cases [OF that] by (auto simp: claim_customer_row_def)
  have "row_bounded labels db' (change row)" if row: "row \<in> set (cb_Deliveries db)" for row
    using cases [OF row]
  proof
    assume "change row = row"
    moreover have "open_claim db' row \<le> open_claim db row" by (rule open_claim_mono) (simp_all add: events)
    ultimately show ?thesis using outbox_bounded_rowD [OF bounded row] by (simp add: row_bounded_def)
  next
    assume "claimable_customer MaxSafeDeliveryAttempts now row
      \<and> (\<exists>token. change row = claim_customer_row lease_milliseconds now token row)"
    then have "cw_DeliveryAttempts (change row) = cw_DeliveryAttempts row + 1"
      "cw_RequeueCount (change row) = cw_RequeueCount row" "cw_ID (change row) = cw_ID row"
      "cw_DeliveryAttempts row < (cw_RequeueCount row + 1) * MaxSafeDeliveryAttempts"
      by (auto simp: claim_customer_row_def claimable_customer_def clamp_def MaxSafeDeliveryAttempts_def)
    then show ?thesis
      using outbox_bounded_rowD [OF bounded row] open_claim_range [of db' "change row"]
        open_claim_range [of db row] by (simp add: row_bounded_def algebra_simps)
  qed
  moreover have "map cw_ID (cb_Deliveries db') = map cw_ID (cb_Deliveries db)"
    using ids by (simp add: deliveries)
  moreover from this have "cw_ID ` set (cb_Deliveries db') = cw_ID ` set (cb_Deliveries db)"
    by (metis set_map)
  ultimately show ?thesis
    using bounded unfolding outbox_bounded_def \<open>map cw_ID _ = _\<close> by (auto simp: deliveries)
qed

lemma mark_bounded:
  assumes bounded: "outbox_bounded labels db"
    and "MarkDispatchStarted_customer env now item db = (Inr (), db')"
  shows "outbox_bounded (labels @ [Dispatch_Marked item]) db'"
  using assms(2)
proof (rule mark_effect)
  fix consent salon and match :: "CustomerDeliveryRow \<Rightarrow> bool"
  let ?mark = "\<lambda>row. if match row then row\<lparr>cw_DispatchStartedAt := Some now\<rparr> else row"
  assume match: "match = (\<lambda>row. holds_delivery (cd_ID item) (cd_SalonID item) (cd_ClaimToken item) row
       \<and> (\<exists>expiry \<in> set_option (cw_LeaseExpiresAt row). expiry > now))"
    and one: "deliveries_matching match db = 1"
    and before: "\<not> event_exists (cd_SalonID item) (''dispatch:'' @ cd_ClaimToken item) db"
    and after: "event_exists (cd_SalonID item) (''dispatch:'' @ cd_ClaimToken item) db'"
    and effect: "outbox_effect ?mark db db'"
  have db': "outbox_bounded labels db'"
    by (rule outbox_effect_bounded [OF bounded effect]) (simp add: spends_nothing_rules(1,7))
  have deliveries: "cb_Deliveries db' = map ?mark (cb_Deliveries db)"
    using effect by (simp add: outbox_effect_def)
  obtain row where row: "row \<in> set (cb_Deliveries db)" "match row"
    "\<And>other. other \<in> set (cb_Deliveries db) \<Longrightarrow> match other \<Longrightarrow> other = row"
    using one by (rule deliveries_matching_one) (rule that)
  have token: "cw_ID row = cd_ID item" "cw_SalonID row = cd_SalonID item" "cw_ClaimToken row = Some (cd_ClaimToken item)"
    using row(2) by (auto simp: match holds_delivery_def)
  have "row_bounded (labels @ [Dispatch_Marked item]) db' (?mark other)" if other: "other \<in> set (cb_Deliveries db)" for other
  proof (cases "cw_ID other = cd_ID item")
    case True
    then have "other = row" using outbox_same_id [OF bounded other row(1)] token by simp
    have "open_claim db row = 1" using before token by (simp add: open_claim_def)
    moreover have "open_claim db' (?mark row) = 0" using after token by (simp add: open_claim_def)
    ultimately show ?thesis
      using outbox_bounded_rowD [OF bounded row(1)] \<open>other = row\<close> row(2) token(1)
      by (simp add: row_bounded_def dispatches_mark)
  next
    case False
    have "?mark other \<in> set (cb_Deliveries db')" using other by (simp add: deliveries)
    from outbox_bounded_rowD [OF db' this] False show ?thesis
      by (auto simp: row_bounded_def dispatches_mark split: if_splits)
  qed
  then have rows: "\<forall>row \<in> set (cb_Deliveries db'). row_bounded (labels @ [Dispatch_Marked item]) db' row"
    unfolding deliveries set_map by blast
  have marked: "?mark row \<in> set (cb_Deliveries db')"
    using row(1) unfolding deliveries set_map by (rule imageI)
  have "cd_ID item = cw_ID (?mark row)" using token(1) by simp
  then have known: "cd_ID item \<in> cw_ID ` set (cb_Deliveries db')" using marked by (rule image_eqI)
  have ids: "distinct (map cw_ID (cb_Deliveries db'))"
    and older: "\<forall>item. Dispatch_Marked item \<in> set labels \<longrightarrow> cd_ID item \<in> cw_ID ` set (cb_Deliveries db')"
    using db' unfolding outbox_bounded_def by blast+
  have "\<forall>other. Dispatch_Marked other \<in> set (labels @ [Dispatch_Marked item])
      \<longrightarrow> cd_ID other \<in> cw_ID ` set (cb_Deliveries db')"
  proof (intro allI impI)
    fix other assume "Dispatch_Marked other \<in> set (labels @ [Dispatch_Marked item])"
    then consider "Dispatch_Marked other \<in> set labels" | "other = item" by auto
    then show "cd_ID other \<in> cw_ID ` set (cb_Deliveries db')"
      by cases (use older known in blast)+
  qed
  with ids rows show ?thesis unfolding outbox_bounded_def by blast
qed

lemma step_keeps_bounded:
  assumes "customer_step db labels' db'" "outbox_bounded labels db"
  shows "outbox_bounded (labels @ labels') db'"
proof -
  have quiet: "outbox_bounded (labels @ labels') d" if "outbox_bounded labels d"
    "\<And>item. Dispatch_Marked item \<notin> set labels'" for d
    using that by (auto simp: outbox_bounded_def row_bounded_def dispatches_append dispatches_no_mark)
  note effect = outbox_effect_bounded [OF assms(2)]
  from assms(1) show ?thesis
  proof (cases rule: customer_step.cases)
    case (consent_changed m env now consent replayed)
    from consent_changed(3) have "cb_Deliveries db' = cb_Deliveries db" "cb_Events db' = cb_Events db"
      by (rule mutate_effect; simp)+
    then show ?thesis
      by (intro quiet outbox_bounded_more_consents [OF assms(2)])
        (auto simp: consent_changed(1) mutation_labels_def)
  next
    case consent_noted
    from consent_noted(2) have "cb_Deliveries db' = cb_Deliveries db" "cb_Events db' = cb_Events db"
      by (rule append_effect; simp)+
    then show ?thesis
      by (intro quiet outbox_bounded_more_consents [OF assms(2)]) (auto simp: consent_noted(1))
  next
    case surroundings
    then show ?thesis by (intro quiet outbox_bounded_more_consents [OF assms(2)]) auto
  next
    case (redacted deliveryID now)
    have "outbox_effect (\<lambda>row. if cw_ID row = deliveryID \<and> cw_RedactedAt row = None
        then redacted_delivery now row else row) db db'"
      by (simp add: redacted(2) outbox_effect_def update_deliveries_def)
    then show ?thesis
      by (intro quiet effect) (auto simp: redacted(1) spends_nothing_rules)
  next
    case enqueued
    then show ?thesis by (intro quiet enqueue_bounded [OF assms(2)]) auto
  next
    case lease_recovered
    from lease_recovered(2) have "outbox_bounded labels db'"
    proof (rule recover_effect)
      fix status code match and now :: gotime
      assume "outbox_effect (\<lambda>row. if match row then expired_row now status code row else row) db db'"
      then show ?thesis by (rule effect) (simp add: spends_nothing_rules)
    qed (use assms(2) in simp)
    then show ?thesis by (rule quiet) (simp add: lease_recovered(1))
  next
    case claimed
    then show ?thesis by (intro quiet claim_bounded [OF assms(2)]) auto
  next
    case (dispatch_marked env now item)
    then show ?thesis by (auto intro: mark_bounded [OF assms(2)])
  next
    case completed
    from completed(2) have "outbox_bounded labels db'"
      by (rule complete_effect) (erule effect, simp add: spends_nothing_rules)
    then show ?thesis by (rule quiet) (simp add: completed(1))
  next
    case accepted
    from accepted(2) have "outbox_bounded labels db'"
      by (rule accepted_effect) (erule effect, simp add: spends_nothing_rules)
    then show ?thesis by (rule quiet) (simp add: accepted(1))
  next
    case called_back
    from called_back(2) have "outbox_bounded labels db'"
    proof (rule callback_effect)
      fix match callback
      assume "outbox_effect (\<lambda>row. if match row then reported_delivery callback row else row) db db'"
      then show ?thesis by (rule effect) (simp add: spends_nothing_rules)
    qed (use assms(2) in simp)
    then show ?thesis by (rule quiet) (simp add: called_back(1))
  next
    case (requeued env now salonID ownerUserID sourceID sourceKind deliveryID)
    from requeued(2) show ?thesis
    proof (rule requeue_effect)
      assume "db' = db"
      with assms(2) show ?thesis by (intro quiet) (auto simp: requeued(1))
    next
      fix row
      let ?match = "\<lambda>other. cw_SalonID other = salonID \<and> cw_ID other = deliveryID"
      assume found: "find (\<lambda>row. cw_SalonID row = salonID \<and> cw_ID row = deliveryID
            \<and> of_source sourceID sourceKind row) (cb_Deliveries db) = Some row"
        and count: "cw_RequeueCount row < MaxOwnerRequeues"
        and one: "deliveries_matching ?match db = 1"
        and change: "outbox_effect (\<lambda>other. if ?match other then requeued_delivery now other else other) db db'"
      have "other = row" if "other \<in> set (cb_Deliveries db)" "?match other" for other
        using one find_SomeD [OF found] that by (elim deliveries_matching_one) blast
      with count show ?thesis
        by (intro quiet effect [OF change]) (auto simp: requeued(1) spends_nothing_rules)
    qed
  qed
qed

lemma history_keeps_bounded:
  assumes "customer_history db labels db'" "outbox_bounded [] db"
  shows "outbox_bounded labels db'"
  using assms by (induction rule: customer_history.induct) (auto intro: step_keeps_bounded)

text \<open>
  C10: Attempts are bounded. In every history a delivery is dispatched at most as often as it was
  claimed, and claimed at most five times and five times more after its one requeue; no message is
  handed to the provider more than ten times, whatever fails, expires or is requeued.
\<close>
theorem dispatches_are_bounded:
  assumes "outbox_bounded [] db" "customer_history db labels db'"
  shows "(\<forall>row \<in> set (cb_Deliveries db').
      dispatches (cw_ID row) labels \<le> cw_DeliveryAttempts row
      \<and> cw_DeliveryAttempts row \<le> MaxSafeDeliveryAttempts * (cw_RequeueCount row + 1)
      \<and> cw_RequeueCount row \<le> MaxOwnerRequeues)
    \<and> dispatches deliveryID labels \<le> 10"
proof -
  have bounded: "outbox_bounded labels db'" by (rule history_keeps_bounded [OF assms(2,1)])
  then have rows: "dispatches (cw_ID row) labels \<le> cw_DeliveryAttempts row
      \<and> cw_DeliveryAttempts row \<le> MaxSafeDeliveryAttempts * (cw_RequeueCount row + 1)
      \<and> cw_RequeueCount row \<le> MaxOwnerRequeues" if "row \<in> set (cb_Deliveries db')" for row
    using outbox_bounded_rowD [OF bounded that] open_claim_range [of db' row] by (simp add: row_bounded_def)
  moreover have "dispatches deliveryID labels \<le> 10"
  proof (cases "\<exists>row \<in> set (cb_Deliveries db'). cw_ID row = deliveryID")
    case True
    with rows show ?thesis by (force simp: MaxSafeDeliveryAttempts_def MaxOwnerRequeues_def)
  next
    case False
    then have "Dispatch_Marked item \<in> set labels \<Longrightarrow> cd_ID item \<noteq> deliveryID" for item
      using bounded by (force simp: outbox_bounded_def)
    then have "dispatches deliveryID labels = 0"
      by (auto simp: dispatches_def filter_empty_conv split: customer_label.splits)
    then show ?thesis by simp
  qed
  ultimately show ?thesis by blast
qed

end
