(* ===== verification/Customer_Processor.thy ===== *)
theory Customer_Processor
  imports Customer_Service
begin

text \<open>
  One pass of the customer notification worker (\<open>modules/customer_notification/processor.go\<close>) and the
  resolver of its sender (\<open>twilio.go\<close>). As for owner notifications, a pass runs in a state of the
  database, the world \<open>'w\<close> of the provider, and a counter of the points in time at which it looks at
  a clock: transaction \<open>k\<close> runs at \<open>cp_Clock k\<close> under \<open>cp_Env k\<close>.
\<close>

record 'w CustomerState =
  ct_DB :: CustomerDB
  ct_World :: 'w
  ct_Tick :: nat

text \<open>A resolved sender is \<open>None\<close> when it is the nil interface.\<close>

record 'w CustomerProcessor =
  cp_Env :: "nat \<Rightarrow> CustomerEnv"
  cp_Clock :: "nat \<Rightarrow> gotime"
  cp_Cancelled :: "nat \<Rightarrow> customer_error option"
  cp_Load :: "string \<Rightarrow> Location option"
  cp_Resolve :: "string \<Rightarrow> 'w \<Rightarrow> (delivery_error + 'w Sender option) \<times> 'w"

definition ResolveCustomerSender ::
  "'w TwilioEnv \<Rightarrow> (string \<Rightarrow> config_error + TwilioMessagingConfig) \<Rightarrow> string
     \<Rightarrow> delivery_error + 'w Sender option" where
  "ResolveCustomerSender env configs salonID =
     (if TrimSpace salonID = [] then Inl ErrConfigNotReady
      else
        (case configs salonID of
           Inl (ConfigStoreError message) \<Rightarrow> Inl (DeliveryDatabaseError message)
         | Inl _ \<Rightarrow> Inl ErrConfigNotReady
         | Inr cfg \<Rightarrow>
             if \<not> tc_Enabled cfg then Inl ErrConfigDisabled else Inr (Some (Send env cfg))))"

section \<open>Transactions of a pass\<close>

definition transact_customer ::
  "(CustomerEnv \<Rightarrow> gotime \<Rightarrow> CustomerDB \<Rightarrow> (customer_error + 'a) \<times> CustomerDB)
     \<Rightarrow> 'w CustomerProcessor \<Rightarrow> 'w CustomerState \<Rightarrow> (customer_error + 'a) \<times> 'w CustomerState" where
  "transact_customer operation p state =
     (case operation (cp_Env p (ct_Tick state)) (cp_Clock p (ct_Tick state)) (ct_DB state) of
        (result, db') \<Rightarrow> (result, state\<lparr>ct_DB := db', ct_Tick := Suc (ct_Tick state)\<rparr>))"

text \<open>The Go clock is read for the next attempt before the transaction.\<close>

definition safe_failure ::
  "'w CustomerProcessor \<Rightarrow> ClaimedDelivery \<Rightarrow> string \<Rightarrow> 'w CustomerState
     \<Rightarrow> (customer_error + unit) \<times> 'w CustomerState" where
  "safe_failure p item code state =
     transact_customer (\<lambda>env now. RecordSafeFailure_customer env now item code
         (cp_Clock p (ct_Tick state) + retryDelay (attemptInCycle item))) p
       (state\<lparr>ct_Tick := Suc (ct_Tick state)\<rparr>)"

definition record_sent ::
  "'w CustomerProcessor \<Rightarrow> ClaimedDelivery \<Rightarrow> send_error + SendResult \<Rightarrow> 'w CustomerState
     \<Rightarrow> (customer_error + unit) \<times> 'w CustomerState" where
  "record_sent p item sent state =
     (case sent of
        Inl (Unclassified _) \<Rightarrow>
          transact_customer (\<lambda>env now. RecordOutcomeUnknown_customer env now item
            ''DELIVERY_OUTCOME_UNKNOWN'') p state
      | Inl (Classified err) \<Rightarrow>
          if se_Ambiguous err
          then transact_customer (\<lambda>env now. RecordOutcomeUnknown_customer env now item
                 ''DELIVERY_OUTCOME_UNKNOWN'') p state
          else if se_Retryable err then safe_failure p item (se_Code err) state
          else transact_customer (\<lambda>env now. RecordDefinitiveFailure_customer env now item
                 (se_Code err)) p state
      | Inr result \<Rightarrow>
          transact_customer (\<lambda>env now. RecordProviderResult_customer env now item result) p state)"

definition customer_message :: "ClaimedDelivery \<Rightarrow> OutboundMessage" where
  "customer_message item =
     \<lparr>om_NotificationID = cd_ID item, om_SalonID = cd_SalonID item,
      om_Destination = cd_Destination item, om_Body = cd_Body item\<rparr>"

text \<open>The second half of the loop body: outside quiet hours, resolve the sender and dispatch.\<close>

definition dispatch_item ::
  "'w CustomerProcessor \<Rightarrow> ClaimedDelivery \<Rightarrow> 'w CustomerState
     \<Rightarrow> (customer_error + unit) \<times> 'w CustomerState" where
  "dispatch_item p item state =
     (case cp_Resolve p (cd_SalonID item) (ct_World state) of
        (resolved, world) \<Rightarrow>
          let state = state\<lparr>ct_World := world\<rparr> in
          (case resolved of
             Inl err \<Rightarrow>
               safe_failure p item
                 (if err = ErrConfigDisabled then ''TWILIO_TRANSPORT_DISABLED''
                  else ''DELIVERY_CONFIG_NOT_READY'') state
           | Inr None \<Rightarrow> safe_failure p item ''DELIVERY_CONFIG_NOT_READY'' state
           | Inr (Some sender) \<Rightarrow>
               (case transact_customer (\<lambda>env now. MarkDispatchStarted_customer env now item) p state of
                  (Inl err, state) \<Rightarrow>
                    if err = ErrDispatchBlocked
                    then transact_customer (\<lambda>env now. RecordSuppressed env now item
                           ''CUSTOMER_SMS_PRE_DISPATCH_REVALIDATION_FAILED'') p state
                    else (Inl err, state)
                | (Inr _, state) \<Rightarrow>
                    (case sender (customer_message item) (ct_World state) of
                       (sent, world) \<Rightarrow>
                         record_sent p item sent (state\<lparr>ct_World := world\<rparr>)))))"

definition process_customer_item ::
  "'w CustomerProcessor \<Rightarrow> ClaimedDelivery \<Rightarrow> 'w CustomerState
     \<Rightarrow> (customer_error + unit) \<times> 'w CustomerState" where
  "process_customer_item p item state =
     (case transact_customer (\<lambda>env now db. (ResolveDispatchReadiness now item db, db)) p state of
        (Inl err, state) \<Rightarrow> (Inl err, state)
      | (Inr readiness, state) \<Rightarrow>
          if \<not> drd_Eligible readiness
          then transact_customer (\<lambda>env now. RecordSuppressed env now item (drd_ReasonCode readiness))
                 p state
          else
            (case quietHoursEnd (cp_Load p) (drd_Now readiness) (drd_Timezone readiness)
                    (drd_QuietStart readiness) (drd_QuietEnd readiness) of
               Inl _ \<Rightarrow> safe_failure p item ''CUSTOMER_SMS_POLICY_NOT_READY'' state
             | Inr (Some quietEnd) \<Rightarrow>
                 transact_customer (\<lambda>env now. RecordQuietHours env now item quietEnd) p state
             | Inr None \<Rightarrow> dispatch_item p item state))"

fun process_customer_items ::
  "'w CustomerProcessor \<Rightarrow> int \<Rightarrow> ClaimedDelivery list \<Rightarrow> 'w CustomerState
     \<Rightarrow> int \<times> customer_error option \<times> 'w CustomerState" where
  "process_customer_items p processed [] state = (processed, None, state)"
| "process_customer_items p processed (item # items) state =
     (case cp_Cancelled p (ct_Tick state) of
        Some err \<Rightarrow> (processed, Some err, state)
      | None \<Rightarrow>
          (case process_customer_item p item state of
             (Inl err, state') \<Rightarrow> (processed, Some err, state')
           | (Inr _, state') \<Rightarrow> process_customer_items p (processed + 1) items state'))"

definition recover_customer_pass ::
  "'w CustomerProcessor \<Rightarrow> int \<Rightarrow> 'w CustomerState
     \<Rightarrow> (customer_error + int) \<times> 'w CustomerState" where
  "recover_customer_pass p limit state =
     (case RecoverExpiredLeases_customer (cp_Env p (ct_Tick state))
             (\<lambda>k. cp_Clock p (ct_Tick state + k)) limit (ct_DB state) of
        (result, db') \<Rightarrow>
          (result, state\<lparr>ct_DB := db', ct_Tick := ct_Tick state + 1 + nat (clamp 1 100 limit)\<rparr>))"

definition ProcessOnce_customer ::
  "'w CustomerProcessor \<Rightarrow> int \<Rightarrow> 'w CustomerState
     \<Rightarrow> int \<times> customer_error option \<times> 'w CustomerState" where
  "ProcessOnce_customer p limit state =
     (if limit \<le> 0 then (0, Some ErrCustomerValidation, state)
      else
        (case recover_customer_pass p limit state of
           (Inl err, state) \<Rightarrow> (0, Some err, state)
         | (Inr _, state) \<Rightarrow>
             (case transact_customer
                     (\<lambda>env now. ClaimBatch_customer env now limit DeliveryLeaseDuration) p state of
                (Inl err, state) \<Rightarrow> (0, Some err, state)
              | (Inr items, state) \<Rightarrow> process_customer_items p 0 items state)))"

end
