(* ===== verification/Customer_Run.thy ===== *)
theory Customer_Run
  imports Customer_Guarantees Customer_Processor
begin

text \<open>
  The worker and the entry points of the service run in the histories of \<open>Customer_Safety\<close>: whatever
  an operation answers, it either left the database as it was or took the steps of a history. The
  messages the senders of the provider receive are then those of the dispatches in the history.
\<close>

section \<open>Operations that fail change nothing\<close>

lemma commit_with_event_Inl: "commit_with_event env db inserted x = (Inl e, d) \<Longrightarrow> d = db"
  by (auto simp: commit_with_event_def split: option.splits dest: commit_customer_cases)

lemmas customer_failure_simps =
  commit_customer_cases(2) commit_with_event_Inl

lemma recover_failure: "recoverExpiredLease_customer env now lease db = (Inl e, d) \<Longrightarrow> d = db"
  by (auto simp: recoverExpiredLease_customer_def split: option.splits prod.splits
      dest: commit_with_event_Inl)

lemma complete_failure:
  "completeWithoutProvider_customer env now item status outcome code t dead db = (Inl e, d) \<Longrightarrow> d = db"
  by (auto simp: completeWithoutProvider_customer_def Let_def split: if_splits
      dest: commit_with_event_Inl)

lemma accepted_failure: "RecordProviderResult_customer env now item result db = (Inl e, d) \<Longrightarrow> d = db"
  by (auto simp: RecordProviderResult_customer_def Let_def split: if_splits
      dest: commit_with_event_Inl)

lemma mark_failure: "MarkDispatchStarted_customer env now item db = (Inl e, d) \<Longrightarrow> d = db"
  by (auto simp: MarkDispatchStarted_customer_def Let_def split: if_splits option.splits
      dest: commit_with_event_Inl)

lemma claim_failure:
  "app_worker_claim_customer_notifications env m n l now db = (Inl e, d) \<Longrightarrow> d = db"
  by (auto simp: app_worker_claim_customer_notifications_def Let_def split: if_splits
      dest: commit_customer_cases)

lemma callback_failure: "ApplyProviderCallback_customer env now callback db = (Inl e, d) \<Longrightarrow> d = db"
  by (auto simp: ApplyProviderCallback_customer_def Let_def split: if_splits option.splits
      dest: commit_customer_cases)

lemma requeue_failure:
  "requeueForOwner_customer env now s u n kind i k f db = (Inl e, d) \<Longrightarrow> d = db"
  by (auto simp: requeueForOwner_customer_def Let_def split: if_splits option.splits
      dest: commit_with_event_Inl)

lemma mutate_failure: "mutateConsent env now m db = (Inl e, d) \<Longrightarrow> d = db"
  by (auto simp: mutateConsent_def write_consent_def Let_def split: if_splits option.splits
      dest: commit_customer_cases)

lemma append_failure: "appendConsentEvent env s i k f eventType word m db = (Inl e, d) \<Longrightarrow> d = db"
  by (auto simp: appendConsentEvent_def split: if_splits option.splits dest: commit_customer_cases)

section \<open>A pass of the worker\<close>

text \<open>The database change of an operation is a silent history, whatever the operation answers.\<close>

definition silent :: "(CustomerDB \<Rightarrow> 'a \<times> CustomerDB) \<Rightarrow> bool" where
  "silent operation \<longleftrightarrow> (\<forall>db. customer_history db [] (snd (operation db)))"

lemma silentI:
  assumes "\<And>db e d. operation db = (Inl e, d) \<Longrightarrow> d = db"
    and "\<And>db x d. operation db = (Inr x, d) \<Longrightarrow> customer_step db [] d"
  shows "silent operation"
  unfolding silent_def
proof
  fix db
  show "customer_history db [] (snd (operation db))"
  proof (cases "operation db")
    case (Pair r d)
    then show ?thesis
      using assms [of db _ d] history_refl history_one by (cases r) fastforce+
  qed
qed

lemma silent_unitI:
  assumes "\<And>db e d. operation db = (Inl e, d) \<Longrightarrow> d = db"
    and "\<And>db d. operation db = (Inr (), d) \<Longrightarrow> customer_step db [] d"
  shows "silent operation"
  using assms by (intro silentI) auto

lemma silent_operations:
  "silent (recoverExpiredLease_customer env now lease)"
  "silent (app_worker_claim_customer_notifications env MaxSafeDeliveryAttempts n l now)"
  "silent (requeueForOwner_customer env now s u source kind i k f)"
  "silent (completeWithoutProvider_customer env now item status outcome code t dead)"
  "silent (RecordProviderResult_customer env now item result)"
  "silent (ApplyProviderCallback_customer env now callback)"
  "silent (appendConsentEvent env s i k f eventType word messageID)"
  subgoal by (rule silentI) (erule recover_failure, erule customer_step.lease_recovered)
  subgoal by (rule silentI) (erule claim_failure, erule customer_step.claimed)
  subgoal by (rule silentI) (erule requeue_failure, erule customer_step.requeued)
  subgoal by (rule silent_unitI) (erule complete_failure, erule customer_step.completed)
  subgoal by (rule silent_unitI) (erule accepted_failure, erule customer_step.accepted)
  subgoal by (rule silent_unitI) (erule callback_failure, erule customer_step.called_back)
  subgoal by (rule silent_unitI) (erule append_failure, erule customer_step.consent_noted)
  done

lemma silent_records:
  "silent (RecordSuppressed env now item code)"
  "silent (RecordQuietHours env now item t)"
  "silent (RecordSafeFailure_customer env now item code t)"
  "silent (RecordOutcomeUnknown_customer env now item code)"
  "silent (RecordDefinitiveFailure_customer env now item code)"
  unfolding RecordSuppressed_def RecordQuietHours_def RecordSafeFailure_customer_def
    RecordOutcomeUnknown_customer_def RecordDefinitiveFailure_customer_def
  by (simp_all add: silent_operations if_distrib [of silent] cong: if_cong)

lemma silentD: "silent operation \<Longrightarrow> operation db = (r, d) \<Longrightarrow> customer_history db [] d"
  unfolding silent_def by (metis snd_conv)

lemma silent_trans:
  "customer_history db [] d \<Longrightarrow> customer_history d labels d' \<Longrightarrow> customer_history db labels d'"
  using history_trans by fastforce

lemma recover_customer_leases_history:
  "recover_customer_leases env clock k n items db = (r, d) \<Longrightarrow> customer_history db [] d"
proof (induction items arbitrary: k n db)
  case (Cons item items)
  obtain changed mid where first: "recoverExpiredLease_customer env (clock k) item db = (changed, mid)"
    by (cases "recoverExpiredLease_customer env (clock k) item db")
  have "customer_history db [] mid" by (rule silentD [OF silent_operations(1) first])
  with Cons first show ?case by (auto split: sum.splits intro: silent_trans)
qed (simp add: history_refl)

lemma ClaimBatch_customer_history:
  assumes "ClaimBatch_customer env now limit lease db = (r, d)"
  shows "customer_history db [] d"
proof (cases "limit \<le> 0 \<or> lease \<le> 0")
  case False
  with assms have "d = snd (app_worker_claim_customer_notifications env MaxSafeDeliveryAttempts limit
      (lease div 1000000) now db)"
    by (auto simp: ClaimBatch_customer_def split: prod.splits sum.splits if_splits)
  then show ?thesis using silent_operations(2) by (simp add: silent_def)
qed (use assms in \<open>auto simp: ClaimBatch_customer_def history_refl\<close>)


definition runs ::
  "('w \<Rightarrow> OutboundMessage list) \<Rightarrow> 'w CustomerState \<Rightarrow> ClaimedDelivery list \<Rightarrow> 'w CustomerState \<Rightarrow> bool" where
  "runs sent state items state' \<longleftrightarrow>
     customer_history (ct_DB state) (map Dispatch_Marked items) (ct_DB state')
     \<and> sent (ct_World state') = sent (ct_World state) @ map customer_message items"

lemma runs_silent:
  "customer_history (ct_DB state) [] (ct_DB state') \<Longrightarrow> sent (ct_World state') = sent (ct_World state)
     \<Longrightarrow> runs sent state [] state'"
  by (simp add: runs_def)

lemma runs_refl: "ct_DB state' = ct_DB state \<Longrightarrow> sent (ct_World state') = sent (ct_World state)
     \<Longrightarrow> runs sent state [] state'"
  by (simp add: runs_def history_refl)

lemma runs_trans:
  "runs sent state items mid \<Longrightarrow> runs sent mid items' state' \<Longrightarrow> runs sent state (items @ items') state'"
  unfolding runs_def using history_trans by fastforce

lemma transact_runs:
  assumes "\<And>env now. silent (operation env now)" "transact_customer operation p state = (r, state')"
  shows "runs sent state [] state'"
  using assms silentD [of "operation (cp_Env p (ct_Tick state)) (cp_Clock p (ct_Tick state))" "ct_DB state"]
  by (intro runs_silent) (auto simp: transact_customer_def split: prod.splits)

lemma safe_failure_runs:
  assumes "safe_failure p item code state = (r, state')"
  shows "runs sent state [] state'"
proof -
  let ?now = "cp_Clock p (ct_Tick state) + retryDelay (attemptInCycle item)"
  have "runs sent (state\<lparr>ct_Tick := Suc (ct_Tick state)\<rparr>) [] state'"
    using transact_runs [where operation = "\<lambda>env now. RecordSafeFailure_customer env now item code ?now"]
      assms silent_records(3) unfolding safe_failure_def by metis
  then show ?thesis by (simp add: runs_def)
qed

lemma record_sent_runs:
  assumes "record_sent p item answer state = (r, state')"
  shows "runs sent state [] state'"
  using assms unfolding record_sent_def
  by (auto split: sum.splits send_error.splits if_splits
      elim!: transact_runs [rotated] safe_failure_runs intro: silent_operations silent_records)


lemma mark_runs:
  assumes "transact_customer (\<lambda>env now. MarkDispatchStarted_customer env now item) p state = (Inr (), mid)"
  shows "customer_history (ct_DB state) [Dispatch_Marked item] (ct_DB mid)"
    and "ct_World mid = ct_World state"
  using assms
  by (auto simp: transact_customer_def split: prod.splits intro!: history_one customer_step.dispatch_marked)

lemma mark_fails:
  assumes "transact_customer (\<lambda>env now. MarkDispatchStarted_customer env now item) p state = (Inl err, mid)"
  shows "ct_DB mid = ct_DB state" "ct_World mid = ct_World state"
  using assms by (auto simp: transact_customer_def split: prod.splits dest: mark_failure)

text \<open>
  What a pass needs of the senders: \<open>sent\<close> reads off the world of the provider which messages it was
  handed; resolving a sender hands over none, and sending hands over the message, whatever the answer.
\<close>

locale customer_worker =
  fixes sent :: "'w \<Rightarrow> OutboundMessage list" and p :: "'w CustomerProcessor"
  assumes resolving_sends_nothing:
      "cp_Resolve p salonID world = (resolved, world') \<Longrightarrow> sent world' = sent world"
    and sending_sends:
      "cp_Resolve p salonID world = (Inr (Some sender), world') \<Longrightarrow> sender message w = (answer, w')
         \<Longrightarrow> sent w' = sent w @ [message]"
begin

lemma dispatch_item_runs:
  assumes run: "dispatch_item p item state = (r, state')"
  shows "\<exists>items. runs sent state items state'"
proof -
  obtain resolved world where resolve: "cp_Resolve p (cd_SalonID item) (ct_World state) = (resolved, world)"
    by fastforce
  define resolving where "resolving = state\<lparr>ct_World := world\<rparr>"
  have first: "runs sent state [] resolving"
    by (rule runs_refl) (simp_all add: resolving_def resolving_sends_nothing [OF resolve])
  note run = run [unfolded dispatch_item_def resolve, simplified, folded resolving_def]
  consider (unresolved) code where "safe_failure p item code resolving = (r, state')"
    | (sender) sender where "resolved = Inr (Some sender)"
    using run by (auto split: sum.splits option.splits if_splits)
  then have "\<exists>items. runs sent resolving items state'"
  proof cases
    case unresolved
    then show ?thesis using safe_failure_runs by metis
  next
    case sender
    note run = run [unfolded sender, simplified]
    obtain answer mid where mark: "transact_customer
        (\<lambda>env now. MarkDispatchStarted_customer env now item) p resolving = (answer, mid)" by fastforce
    show ?thesis
    proof (cases answer)
      case (Inl err)
      note mark = mark [unfolded Inl]
      have "runs sent resolving [] mid" by (rule runs_refl) (simp_all add: mark_fails [OF mark])
      moreover have "runs sent mid [] state'"
        using run unfolding mark
        by (auto split: if_splits simp: runs_refl elim!: transact_runs [rotated] intro: silent_records)
      ultimately show ?thesis using runs_trans by metis
    next
      case (Inr marked)
      then have mark: "transact_customer
          (\<lambda>env now. MarkDispatchStarted_customer env now item) p resolving = (Inr (), mid)"
        using mark by simp
      obtain answer world' where send: "sender (customer_message item) (ct_World mid) = (answer, world')"
        by fastforce
      have recorded: "record_sent p item answer (mid\<lparr>ct_World := world'\<rparr>) = (r, state')"
        using run unfolding mark by (simp add: send)
      have "runs sent resolving [item] (mid\<lparr>ct_World := world'\<rparr>)"
        using mark_runs [OF mark] sending_sends [OF resolve [unfolded sender] send]
        by (simp add: runs_def)
      from runs_trans [OF this record_sent_runs [OF recorded]] show ?thesis by blast
    qed
  qed
  with first show ?thesis using runs_trans by metis
qed

lemma process_customer_item_runs:
  assumes run: "process_customer_item p item state = (r, state')"
  shows "\<exists>items. runs sent state items state'"
proof -
  obtain readiness mid where ready: "transact_customer
      (\<lambda>env now db. (ResolveDispatchReadiness now item db, db)) p state = (readiness, mid)" by fastforce
  then have first: "runs sent state [] mid"
    by (intro runs_refl) (auto simp: transact_customer_def)
  have "\<exists>items. runs sent mid items state'"
  proof (cases readiness)
    case (Inl err)
    with run ready have "state' = mid" by (simp add: process_customer_item_def)
    then show ?thesis using runs_refl by metis
  next
    case (Inr ready_row)
    consider (suppressed) code where
        "transact_customer (\<lambda>env now. RecordSuppressed env now item code) p mid = (r, state')"
      | (failed) code where "safe_failure p item code mid = (r, state')"
      | (quiet) t where "transact_customer (\<lambda>env now. RecordQuietHours env now item t) p mid = (r, state')"
      | (dispatch) "dispatch_item p item mid = (r, state')"
      using run unfolding process_customer_item_def ready Inr
      by (auto split: if_splits sum.splits option.splits)
    then show ?thesis
    proof cases
      case suppressed
      show ?thesis using transact_runs [OF silent_records(1) suppressed] by blast
    next
      case failed
      show ?thesis using safe_failure_runs [OF failed] by blast
    next
      case quiet
      show ?thesis using transact_runs [OF silent_records(2) quiet] by blast
    next
      case dispatch
      show ?thesis by (rule dispatch_item_runs [OF dispatch])
    qed
  qed
  with first show ?thesis using runs_trans by metis
qed

lemma process_customer_items_runs:
  "process_customer_items p n items state = (processed, err, state')
    \<Longrightarrow> \<exists>handed. runs sent state handed state'"
proof (induction items arbitrary: n state)
  case Nil
  then show ?case using runs_refl by fastforce
next
  case (Cons item items)
  obtain answer mid where item: "process_customer_item p item state = (answer, mid)" by fastforce
  from process_customer_item_runs [OF item] obtain sent_items where first: "runs sent state sent_items mid" ..
  consider "state' = state" | "state' = mid"
    | "process_customer_items p (n + 1) items mid = (processed, err, state')"
    using Cons.prems item by (auto split: option.splits sum.splits)
  then show ?case
  proof cases
    case 1
    then show ?thesis using runs_refl by metis
  next
    case 2
    with first show ?thesis by blast
  next
    case 3
    from Cons.IH [OF this] first show ?thesis using runs_trans by metis
  qed
qed

lemma worker_pass_runs:
  assumes run: "ProcessOnce_customer p limit state = (processed, err, state')"
  shows "\<exists>items. runs sent state items state'"
proof (cases "limit \<le> 0")
  case True
  with run show ?thesis using runs_refl by (fastforce simp: ProcessOnce_customer_def)
next
  case False
  obtain recovered mid where recover: "recover_customer_pass p limit state = (recovered, mid)" by fastforce
  then have first: "runs sent state [] mid"
    using False recover_customer_leases_history
    by (intro runs_silent)
      (auto simp: recover_customer_pass_def RecoverExpiredLeases_customer_def split: prod.splits)
  obtain items mid' where claim: "transact_customer
      (\<lambda>env now. ClaimBatch_customer env now limit DeliveryLeaseDuration) p mid = (items, mid')" by fastforce
  then have second: "runs sent mid [] mid'"
    using ClaimBatch_customer_history
    by (intro runs_silent) (auto simp: transact_customer_def split: prod.splits)
  consider "state' = mid" | "state' = mid'"
    | claimed where "process_customer_items p 0 claimed mid' = (processed, err, state')"
    using run False unfolding ProcessOnce_customer_def recover
    by (auto simp: claim split: sum.splits)
  then show ?thesis
  proof cases
    case 3
    from process_customer_items_runs [OF this] runs_trans [OF first second]
    show ?thesis using runs_trans by metis
  qed (use first runs_trans [OF first second] in \<open>auto\<close>)
qed


end

text \<open>
  Every processor, whatever its senders do, can be run with a log of the messages it hands over. The
  log is written and never read: forgetting it gives the processor back.
\<close>

definition logging :: "'w CustomerProcessor \<Rightarrow> ('w \<times> OutboundMessage list) CustomerProcessor" where
  "logging p =
     \<lparr>cp_Env = cp_Env p, cp_Clock = cp_Clock p, cp_Cancelled = cp_Cancelled p, cp_Load = cp_Load p,
      cp_Resolve = (\<lambda>salonID (world, log). case cp_Resolve p salonID world of (resolved, world') \<Rightarrow>
        (map_sum id (map_option (\<lambda>sender message (w, l).
           case sender message w of (answer, w') \<Rightarrow> (answer, w', l @ [message]))) resolved, world', log))\<rparr>"

interpretation logged: customer_worker snd "logging p" for p :: "'w CustomerProcessor"
proof
  fix salonID and world world' :: "'w \<times> OutboundMessage list" and resolved
  assume "cp_Resolve (logging p) salonID world = (resolved, world')"
  then show "snd world' = snd world"
    by (auto simp: logging_def split: prod.splits)
next
  fix salonID and world world' w w' :: "'w \<times> OutboundMessage list" and sender message answer
  assume "cp_Resolve (logging p) salonID world = (Inr (Some sender), world')"
    and "sender message w = (answer, w')"
  then show "snd w' = snd w @ [message]"
    by (auto simp: logging_def map_sum.simps split: prod.splits)
      (auto simp: map_sum_def split: sum.splits prod.splits)
qed

definition forget_log :: "('w \<times> OutboundMessage list) CustomerState \<Rightarrow> 'w CustomerState" where
  "forget_log state = \<lparr>ct_DB = ct_DB state, ct_World = fst (ct_World state), ct_Tick = ct_Tick state\<rparr>"

lemma logging_simps [simp]:
  "cp_Env (logging p) = cp_Env p" "cp_Clock (logging p) = cp_Clock p"
  "cp_Cancelled (logging p) = cp_Cancelled p" "cp_Load (logging p) = cp_Load p"
  by (simp_all add: logging_def)

lemma forget_log_simps [simp]:
  "ct_DB (forget_log state) = ct_DB state" "ct_Tick (forget_log state) = ct_Tick state"
  "ct_World (forget_log state) = fst (ct_World state)"
  "forget_log (state\<lparr>ct_DB := db\<rparr>) = (forget_log state)\<lparr>ct_DB := db\<rparr>"
  "forget_log (state\<lparr>ct_Tick := k\<rparr>) = (forget_log state)\<lparr>ct_Tick := k\<rparr>"
  "forget_log (state\<lparr>ct_World := world\<rparr>) = (forget_log state)\<lparr>ct_World := fst world\<rparr>"
  by (simp_all add: forget_log_def)

lemma transact_forget:
  "transact_customer operation p (forget_log state)
     = apsnd forget_log (transact_customer operation (logging p) state)"
  by (simp add: transact_customer_def split: prod.splits)

lemma safe_failure_forget:
  "safe_failure p item code (forget_log state) = apsnd forget_log (safe_failure (logging p) item code state)"
  unfolding safe_failure_def forget_log_simps(5) [symmetric] forget_log_simps(2) logging_simps
  by (rule transact_forget)

lemma record_sent_forget:
  "record_sent p item answer (forget_log state) = apsnd forget_log (record_sent (logging p) item answer state)"
  by (simp add: record_sent_def transact_forget safe_failure_forget split: sum.splits send_error.splits)

lemma dispatch_item_forget:
  "dispatch_item p item (forget_log state) = apsnd forget_log (dispatch_item (logging p) item state)"
proof -
  obtain world log where world: "ct_World state = (world, log)" by fastforce
  obtain resolved world' where resolve: "cp_Resolve p (cd_SalonID item) world = (resolved, world')" by fastforce
  define st where "st = state\<lparr>ct_World := (world', log)\<rparr>"
  have forget: "(forget_log state)\<lparr>ct_World := world'\<rparr> = forget_log st" by (simp add: st_def)
  have logged: "cp_Resolve (logging p) (cd_SalonID item) (ct_World state) =
      (map_sum id (map_option (\<lambda>sender message (w, l).
           case sender message w of (answer, w') \<Rightarrow> (answer, w', l @ [message]))) resolved, world', log)"
    by (simp add: logging_def world resolve)
  have left: "cp_Resolve p (cd_SalonID item) (ct_World (forget_log state)) = (resolved, world')"
    by (simp add: world resolve)
  consider err where "resolved = Inl err" | "resolved = Inr None" | sender where "resolved = Inr (Some sender)"
    by (cases resolved) auto
  then show ?thesis
  proof cases
    case (1 err)
    show ?thesis unfolding dispatch_item_def left logged 1
      by (simp add: forget st_def [symmetric] safe_failure_forget del: forget_log_simps(6))
  next
    case 2
    show ?thesis unfolding dispatch_item_def left logged 2
      by (simp add: forget st_def [symmetric] safe_failure_forget del: forget_log_simps(6))
  next
    case (3 sender)
    obtain answer mid where mark: "transact_customer
        (\<lambda>env now. MarkDispatchStarted_customer env now item) (logging p) st = (answer, mid)" by fastforce
    then have mark': "transact_customer (\<lambda>env now. MarkDispatchStarted_customer env now item) p
        (forget_log st) = (answer, forget_log mid)" by (simp add: transact_forget)
    obtain w l where mid: "ct_World mid = (w, l)" by fastforce
    obtain sent w' where send: "sender (customer_message item) w = (sent, w')" by fastforce
    have handed: "(forget_log mid)\<lparr>ct_World := w'\<rparr>
        = forget_log (mid\<lparr>ct_World := (w', l @ [customer_message item])\<rparr>)" by simp
    show ?thesis
      unfolding dispatch_item_def left logged 3
      by (simp add: forget st_def [symmetric] mark mark' mid send handed record_sent_forget transact_forget
          split: sum.splits del: forget_log_simps(6))
  qed
qed

lemma process_customer_item_forget:
  "process_customer_item p item (forget_log state) = apsnd forget_log (process_customer_item (logging p) item state)"
proof -
  obtain ready mid where ready: "transact_customer
      (\<lambda>env now db. (ResolveDispatchReadiness now item db, db)) (logging p) state = (ready, mid)" by fastforce
  then have "transact_customer (\<lambda>env now db. (ResolveDispatchReadiness now item db, db)) p (forget_log state)
      = (ready, forget_log mid)" by (simp add: transact_forget)
  with ready show ?thesis
    by (cases ready) (simp_all add: process_customer_item_def transact_forget safe_failure_forget
        dispatch_item_forget split: sum.splits option.splits)
qed

lemma process_customer_items_forget:
  "process_customer_items p n items (forget_log state)
     = (case process_customer_items (logging p) n items state of (k, err, state') \<Rightarrow> (k, err, forget_log state'))"
proof (induction items arbitrary: n state)
  case (Cons item items)
  obtain answer mid where item: "process_customer_item (logging p) item state = (answer, mid)" by fastforce
  then have "process_customer_item p item (forget_log state) = (answer, forget_log mid)"
    by (simp add: process_customer_item_forget)
  with item Cons.IH [of "n + 1" mid] show ?case by (simp split: option.splits sum.splits)
qed simp

lemma pass_forget:
  "ProcessOnce_customer p limit (forget_log state)
     = (case ProcessOnce_customer (logging p) limit state of (k, err, state') \<Rightarrow> (k, err, forget_log state'))"
proof -
  obtain recovered mid where recover: "recover_customer_pass (logging p) limit state = (recovered, mid)" by fastforce
  then have recover': "recover_customer_pass p limit (forget_log state) = (recovered, forget_log mid)"
    by (auto simp: recover_customer_pass_def split: prod.splits)
  obtain items mid' where claim: "transact_customer
      (\<lambda>env now. ClaimBatch_customer env now limit DeliveryLeaseDuration) (logging p) mid = (items, mid')" by fastforce
  then have claim': "transact_customer
      (\<lambda>env now. ClaimBatch_customer env now limit DeliveryLeaseDuration) p (forget_log mid) = (items, forget_log mid')"
    by (simp add: transact_forget)
  show ?thesis
    by (simp add: ProcessOnce_customer_def recover recover' claim claim' process_customer_items_forget
        split: sum.splits)
qed

section \<open>The entries of the service\<close>

text \<open>A history in which nothing is dispatched.\<close>

definition sends_nothing :: "CustomerDB \<Rightarrow> CustomerDB \<Rightarrow> bool" where
  "sends_nothing db db' \<longleftrightarrow>
     (\<exists>labels. customer_history db labels db' \<and> (\<forall>item. Dispatch_Marked item \<notin> set labels))"

lemma sends_nothing_refl [simp]: "sends_nothing db db"
  unfolding sends_nothing_def by (intro exI [of _ "[]"]) (simp add: history_refl)

lemma silent_sends_nothing: "silent operation \<Longrightarrow> sends_nothing db (snd (operation db))"
  unfolding sends_nothing_def silent_def by (intro exI [of _ "[]"]) simp

lemma mutation_labels_messages [simp]: "Dispatch_Marked item \<notin> set (mutation_labels m replayed)"
  by (simp add: mutation_labels_def)

lemma mutation_sends_nothing:
  assumes "program_mutation m"
  shows "sends_nothing db (snd (mutateConsent env now m db))"
proof (cases "mutateConsent env now m db")
  case (Pair r d)
  show ?thesis
  proof (cases r)
    case (Inl e)
    with Pair have "d = db" by (blast dest: mutate_failure)
    then show ?thesis by (simp add: Pair)
  next
    case (Inr x)
    with Pair obtain c replayed where "mutateConsent env now m db = (Inr (c, replayed), d)"
      by (cases x) simp
    then have "customer_history db (mutation_labels m replayed) d"
      by (rule history_one [OF consent_changed [OF assms]])
    then show ?thesis unfolding sends_nothing_def Pair by (intro exI conjI) auto
  qed
qed

lemma snd_discard_result [simp]: "snd (discard_result outcome) = snd outcome"
  by (simp add: discard_result_def split: prod.splits)

lemma optout_sends_nothing: "sends_nothing db (snd (ApplyInboundOptOut env now event db))"
proof -
  have "sends_nothing db (snd (mutateConsent env now (optout_mutation event status ConsentEventOptIn) db))"
    if "status = ConsentConsented" for status
    using mutation_sends_nothing program_mutation.intros(5) that by metis
  moreover have "sends_nothing db (snd (mutateConsent env now
      (optout_mutation event ConsentOptedOut ConsentEventOptOut) db))"
    using mutation_sends_nothing program_mutation.intros(4) by metis
  moreover have "sends_nothing db (snd (appendConsentEvent env s i k f t w m db))" for s i k f t w m
    by (rule silent_sends_nothing [OF silent_operations(7)])
  ultimately show ?thesis
    unfolding ApplyInboundOptOut_def Let_def by (auto split: sum.splits)
qed

lemma policy_sends_nothing: "sends_nothing db (snd (UpdatePolicy env salonID ownerUserID req db))"
proof -
  have "customer_history db [] (db\<lparr>cb_Salons := salons\<rparr>)" for salons
    using history_one [OF surroundings [where db = db and salons = salons and requests = "cb_Requests db"
        and appointments = "cb_Appointments db"]] by simp
  then have "sends_nothing db (db\<lparr>cb_Salons := salons\<rparr>)" for salons
    unfolding sends_nothing_def by (intro exI [of _ "[]"]) simp
  then show ?thesis
    by (auto simp: UpdatePolicy_def UpdatePolicyForOwner_def commit_customer_def Let_def
        split: sum.splits option.splits)
qed

lemma requeue_sends_nothing:
  "sends_nothing db (snd (requeue_customer kind detail env now s u i n req db))"
proof -
  have "sends_nothing db (snd (requeueForOwner_customer env now s u i kind n k f db))" for k f
    by (rule silent_sends_nothing [OF silent_operations(3)])
  then show ?thesis
    unfolding requeue_customer_def Let_def
    by (auto split: prod.splits sum.splits) (metis snd_conv)+
qed

lemma callback_sends_nothing:
  "sends_nothing customers (snd (snd (ApplyProviderCallback_any o_env env now callback (owners, customers))))"
proof -
  have "sends_nothing customers (snd (ApplyProviderCallback_customer_service env now callback customers))"
    unfolding ApplyProviderCallback_customer_service_def
    using silent_sends_nothing [OF silent_operations(6)] by simp
  then show ?thesis
    by (auto simp: ApplyProviderCallback_any_def split: prod.splits sum.splits)
qed

lemma consent_entries_send_nothing:
  "sends_nothing db (snd (RecordConsentRequested_service env now s c d k db))"
  "sends_nothing db (snd (RecordConversationConsent_service env now req db))"
  "sends_nothing db (snd (AttestConsent env now s u attest db))"
  unfolding RecordConsentRequested_service_def RecordConsentRequested_def
    RecordConversationConsent_service_def RecordConversationConsent_def AttestConsent_def
    RecordOwnerAttestation_def Let_def
  by (simp_all add: mutation_sends_nothing program_mutation.intros)

lemma optout_entry_sends_nothing:
  "sends_nothing db (snd (ApplyInboundOptOut_service env now s a b c word messageID f db))"
proof -
  have "sends_nothing db (snd (ApplyInboundOptOut env now event db))" for event
    by (rule optout_sends_nothing)
  then show ?thesis
    unfolding ApplyInboundOptOut_service_def Let_def
    by (auto split: prod.splits sum.splits) (metis snd_conv)+
qed

text \<open>
  C12: The program refines the histories. A pass of the worker, with any clock, any failure of the
  database and any sender and answer of the provider, takes the database through a history whose
  dispatches are, in order, exactly the messages the senders were handed, as a log that changes
  nothing else records; every entry of the service, whatever it is called with and whatever it
  answers, takes it through a history without a dispatch. What is proved of all histories holds of the
  program however its parts interleave.
\<close>
theorem customer_program_is_a_history:
  "(case ProcessOnce_customer (logging p) limit state of (processed, err, state') \<Rightarrow>
      ProcessOnce_customer p limit (forget_log state) = (processed, err, forget_log state')
      \<and> (\<exists>items. customer_history (ct_DB state) (map Dispatch_Marked items) (ct_DB state')
           \<and> snd (ct_World state') = snd (ct_World state) @ map customer_message items))
    \<and> sends_nothing db (snd (ApplyInboundOptOut_service env now s a b c word messageID f db))
    \<and> sends_nothing db (snd (RecordConsentRequested_service env now s call number key db))
    \<and> sends_nothing db (snd (RecordConversationConsent_service env now answer db))
    \<and> sends_nothing db (snd (AttestConsent env now s u attested db))
    \<and> sends_nothing db (snd (UpdatePolicy env s u policy db))
    \<and> sends_nothing db (snd (Requeue_customer env now s u appointmentID deliveryID requeue db))
    \<and> sends_nothing db (snd (RequeueRequest_customer env now s u requestID deliveryID requeue db))
    \<and> sends_nothing db (snd (snd (ApplyProviderCallback_any owner_env env now callback (owners, db))))"
proof (intro conjI)
  show "case ProcessOnce_customer (logging p) limit state of (processed, err, state') \<Rightarrow>
      ProcessOnce_customer p limit (forget_log state) = (processed, err, forget_log state')
      \<and> (\<exists>items. customer_history (ct_DB state) (map Dispatch_Marked items) (ct_DB state')
           \<and> snd (ct_World state') = snd (ct_World state) @ map customer_message items)"
    using logged.worker_pass_runs [where p = p and state = state and limit = limit]
    unfolding runs_def by (auto simp: pass_forget split: prod.splits)
qed (simp_all add: optout_entry_sends_nothing consent_entries_send_nothing policy_sends_nothing
    requeue_sends_nothing callback_sends_nothing Requeue_customer_def RequeueRequest_customer_def)

section \<open>From the reply STOP to the passes of the worker\<close>

lemma mutate_not_replayed:
  assumes "mutateConsent env now m db = (Inr (c, replayed), db')"
    and "consent_event_at (cm_SalonID m) (cm_EventKey m) db = None"
  shows "\<not> replayed"
  using assms
  by (auto simp: mutateConsent_def write_consent_def commit_customer_def Let_def
      split: if_splits option.splits)

lemma stop_service_history:
  assumes run: "ApplyInboundOptOut_service env now s a b c word messageID f db = (Inr (), db')"
    and word: "strings_ToUpper (TrimSpace word) = ''STOP''"
    and new: "consent_event_at (TrimSpace s) (''twilio-optout:'' @ TrimSpace messageID @ '':stop'') db = None"
  shows "customer_history db [Stopped (TrimSpace s) (NormalizeDestination a)] db'"
proof -
  define event where "event = \<lparr>ioo_SalonID = TrimSpace s, ioo_From = NormalizeDestination a,
      ioo_To = NormalizeDestination b, ioo_ConfiguredSender = NormalizeDestination c,
      ioo_OptOutType = ''STOP'', ioo_ProviderMessageID = TrimSpace messageID,
      ioo_EventFingerprint = TrimSpace f\<rparr>"
  define m where "m = optout_mutation event ConsentOptedOut ConsentEventOptOut"
  have "ApplyInboundOptOut env now event db = (Inr (), db')"
    using run unfolding ApplyInboundOptOut_service_def word event_def [symmetric] Let_def
    by (auto split: if_splits prod.splits sum.splits)
  moreover have "ioo_OptOutType event = ''STOP''" by (simp add: event_def)
  ultimately have "discard_result (mutateConsent env now m db) = (Inr (), db')"
    unfolding ApplyInboundOptOut_def m_def by (auto split: if_splits)
  then obtain consent replayed where mutate: "mutateConsent env now m db = (Inr (consent, replayed), db')"
    by (cases "mutateConsent env now m db"; cases "fst (mutateConsent env now m db)")
      (auto simp: discard_result_def)
  have "map ascii_lower ''STOP'' = ''stop''" by code_simp
  then have key: "cm_SalonID m = TrimSpace s" "cm_Destination m = NormalizeDestination a"
    "cm_EventKey m = ''twilio-optout:'' @ TrimSpace messageID @ '':stop''"
    "cm_Status m = ConsentOptedOut"
    by (simp_all add: m_def optout_mutation_def event_def optout_event_key_def)
  then have "\<not> replayed" using mutate_not_replayed [OF mutate] new by simp
  then have "mutation_labels m replayed = [Stopped (TrimSpace s) (NormalizeDestination a)]"
    by (simp add: mutation_labels_def key)
  with history_one [OF consent_changed [OF _ mutate]] show ?thesis
    using program_mutation.intros(4) m_def by metis
qed

text \<open>A run of the worker that hands over no message to a number of a salon.\<close>

definition sends_none_to ::
  "string \<Rightarrow> string \<Rightarrow> ('w \<times> OutboundMessage list) CustomerState
     \<Rightarrow> ('w \<times> OutboundMessage list) CustomerState \<Rightarrow> bool" where
  "sends_none_to s d state state' \<longleftrightarrow>
     (\<exists>new. snd (ct_World state') = snd (ct_World state) @ new
        \<and> list_all (\<lambda>m. \<not> (om_SalonID m = s \<and> om_Destination m = d)) new)"

lemma no_mark_after_stop:
  assumes "consents_ok db" "customer_history db (Stopped s d # labels) db'"
    "Restarted s d \<notin> set labels" "Dispatch_Marked item \<in> set labels"
  shows "\<not> (cd_SalonID item = s \<and> cd_Destination item = d)"
proof
  assume target: "cd_SalonID item = s \<and> cd_Destination item = d"
  obtain earlier later where split: "labels = earlier @ Dispatch_Marked item # later"
    using split_list [OF assms(4)] by blast
  then have "\<not> stopped_by s d (Stopped s d # earlier)"
    using dispatch_not_stopped [OF assms(1), of "Stopped s d # earlier" item later db'] assms(2) target
    by simp
  moreover have "stopped_by s d ([] @ Stopped s d # earlier)"
    unfolding stopped_by_def using assms(3) split by (intro exI conjI) auto
  ultimately show False by simp
qed

lemma runs_after_stop:
  assumes "consents_ok db" "customer_history db (Stopped s d # labels) (ct_DB state)"
    "Restarted s d \<notin> set labels" "runs snd state items state'"
  shows "sends_none_to s d state state'"
proof -
  have run: "customer_history (ct_DB state) (map Dispatch_Marked items) (ct_DB state')"
    and sent: "snd (ct_World state') = snd (ct_World state) @ map customer_message items"
    using assms(4) by (simp_all add: runs_def)
  have "customer_history db (Stopped s d # labels @ map Dispatch_Marked items) (ct_DB state')"
    using history_trans [OF assms(2) run] by simp
  then have "\<not> (cd_SalonID item = s \<and> cd_Destination item = d)" if "item \<in> set items" for item
    by (rule no_mark_after_stop [OF assms(1)]) (use assms(3) that in auto)
  then have "list_all (\<lambda>m. \<not> (om_SalonID m = s \<and> om_Destination m = d)) (map customer_message items)"
    by (simp add: list_all_iff customer_message_def)
  with sent show ?thesis unfolding sends_none_to_def by blast
qed

text \<open>
  C9: STOP ends the dispatches. From the commit of a STOP that had not been recorded before, through
  every sequence of transactions of workers, callbacks, owners, conversations and redaction, until
  Twilio has reported START for the number, no message to that number of that salon is marked as
  dispatched; the marker is refused to whoever asks for it, with whatever lease, and changes
  nothing. So no worker that goes on from there hands one over: not in a new pass, not in the rest
  of a batch leased before STOP, and not past the readiness and quiet-hours checks made before STOP.
  A message whose marker was committed before STOP is out of its reach: its worker may still call
  the provider.
\<close>
theorem stop_ends_dispatches:
  assumes ok: "consents_ok db"
    and stop: "ApplyInboundOptOut_service env now s number to configured word messageID f db = (Inr (), db\<^sub>1)"
      "strings_ToUpper (TrimSpace word) = ''STOP''"
      "consent_event_at (TrimSpace s) (''twilio-optout:'' @ TrimSpace messageID @ '':stop'') db = None"
    and meanwhile: "customer_history db\<^sub>1 labels (ct_DB state)"
      "Restarted (TrimSpace s) (NormalizeDestination number) \<notin> set labels"
  shows "(\<forall>item. cd_SalonID item = TrimSpace s \<and> cd_Destination item = NormalizeDestination number
        \<longrightarrow> Dispatch_Marked item \<notin> set labels
          \<and> (\<exists>e. MarkDispatchStarted_customer worker_env later item (ct_DB state) = (Inl e, ct_DB state)))
    \<and> sends_none_to (TrimSpace s) (NormalizeDestination number) state
        (snd (snd (ProcessOnce_customer (logging p) limit state)))
    \<and> sends_none_to (TrimSpace s) (NormalizeDestination number) state
        (snd (snd (process_customer_items (logging p) n leased state)))
    \<and> sends_none_to (TrimSpace s) (NormalizeDestination number) state
        (snd (dispatch_item (logging p) checked state))"
proof -
  let ?s = "TrimSpace s" and ?d = "NormalizeDestination number"
  have whole: "customer_history db (Stopped ?s ?d # labels) (ct_DB state)"
    using history_trans [OF stop_service_history [OF stop] meanwhile(1)] by simp
  note none = runs_after_stop [OF ok whole meanwhile(2)]
  have "Dispatch_Marked item \<notin> set labels"
    "\<exists>e. MarkDispatchStarted_customer worker_env later item (ct_DB state) = (Inl e, ct_DB state)"
    if target: "cd_SalonID item = ?s \<and> cd_Destination item = ?d" for item
  proof -
    show "Dispatch_Marked item \<notin> set labels"
      using no_mark_after_stop [OF ok whole meanwhile(2)] target by blast
    obtain r d where mark: "MarkDispatchStarted_customer worker_env later item (ct_DB state) = (r, d)"
      by fastforce
    show "\<exists>e. MarkDispatchStarted_customer worker_env later item (ct_DB state) = (Inl e, ct_DB state)"
    proof (cases r)
      case (Inl e)
      with mark show ?thesis by (auto dest: mark_failure)
    next
      case (Inr u)
      with mark have "customer_history (ct_DB state) [Dispatch_Marked item] d"
        by (intro history_one customer_step.dispatch_marked) simp
      from history_trans [OF whole this] have "customer_history db
          (Stopped ?s ?d # labels @ [Dispatch_Marked item]) d" by simp
      from no_mark_after_stop [OF ok this, of item] have False using target meanwhile(2) by simp
      then show ?thesis ..
    qed
  qed
  moreover have "sends_none_to ?s ?d state (snd (snd (ProcessOnce_customer (logging p) limit state)))"
    using logged.worker_pass_runs [of p limit state] none by (metis prod.collapse)
  moreover have "sends_none_to ?s ?d state
      (snd (snd (process_customer_items (logging p) n leased state)))"
    using logged.process_customer_items_runs [of p n leased state] none by (metis prod.collapse)
  moreover have "sends_none_to ?s ?d state (snd (dispatch_item (logging p) checked state))"
    using logged.dispatch_item_runs [of p checked state] none by (metis prod.collapse)
  ultimately show ?thesis by blast
qed

end
