(* ===== verification/Customer_Errors.thy ===== *)
theory Customer_Errors
  imports Customer_Run
begin

text \<open>
  Behaviour of the customer notifications that their comments and documents do not promise: a START
  that Twilio delivers twice, a redacted delivery in the details of its source, and a delivery that
  quiet hours defer in its last attempt.
\<close>

section \<open>Redelivered replies\<close>

lemma consent_by_id_of:
  assumes "consents_ok db" "row \<in> set (cb_Consents db)" "cr_SalonID row = s"
  shows "consent_by_id s (cr_ID row) db = Some row"
proof (cases "consent_by_id s (cr_ID row) db")
  case None
  with assms show ?thesis by (auto simp: consent_by_id_def find_None_iff)
next
  case (Some other)
  with consent_by_idD [OF Some] consent_same_id [OF assms(1)] assms(2) show ?thesis by blast
qed

text \<open>What a mutation leaves behind: the row of the consent, and its event under the key.\<close>

lemma mutation_recorded:
  assumes ok: "consents_ok db" and m: "program_mutation m"
    and run: "mutateConsent env now m db = (Inr (consent, replayed), db')"
    and new: "consent_event_at (cm_SalonID m) (cm_EventKey m) db = None"
  obtains row event where "consent_of (cm_SalonID m) (cm_Destination m) db' = Some row"
    "cr_Status row = cm_Status m" "consent_by_id (cm_SalonID m) (cr_ID row) db' = Some row"
    "consent_event_at (cm_SalonID m) (cm_EventKey m) db' = Some event"
    "ce_ConsentID event = cr_ID row" "ce_EventFingerprint event = consentFingerprint env m"
    "cb_Salons db' = cb_Salons db"
proof -
  have found: "consent_event_at (cm_SalonID m) (cm_EventKey m)
      (db\<lparr>cb_Consents := rows, cb_ConsentEvents := cb_ConsentEvents db @ [mutation_event env m i n v]\<rparr>)
      = Some (mutation_event env m i n v)" for rows i n v
    using new by (simp add: consent_event_at_def find_append mutation_event_def)
  have ok': "consents_ok db'"
    using step_keeps_consents_ok [OF consent_changed [OF m run] ok] .
  have "\<not> replayed" by (rule mutate_not_replayed [OF run new])
  from run show ?thesis
  proof (cases rule: mutate_effect)
    case 1
    with \<open>\<not> replayed\<close> show ?thesis by simp
  next
    case (2 sequence)
    let ?row = "inserted_consent env now m"
    have member: "?row \<in> set (cb_Consents db')" by (simp add: 2(5))
    note row = consent_ofI [OF ok' member inserted_consent_fields(1,2)]
      consent_by_id_of [OF ok' member inserted_consent_fields(1)]
    have event: "consent_event_at (cm_SalonID m) (cm_EventKey m) db'
        = Some (mutation_event env m (cr_ID ?row) sequence 1)"
      unfolding 2(5) by (rule found)
    show ?thesis
      by (rule that [OF row(1) _ row(2) event]) (simp_all add: 2(5) mutation_event_def)
  next
    case (3 row sequence)
    let ?row = "updated_consent now m (cr_Version row + 1) row"
    have member: "?row \<in> set (cb_Consents db')"
      using consent_ofD [OF 3(2)] by (force simp: 3(4))
    have place: "cr_SalonID ?row = cm_SalonID m" "cr_Destination ?row = cm_Destination m"
      using consent_ofD [OF 3(2)] by simp_all
    note row = consent_ofI [OF ok' member place] consent_by_id_of [OF ok' member place(1)]
    have event: "consent_event_at (cm_SalonID m) (cm_EventKey m) db'
        = Some (mutation_event env m (cr_ID row) sequence (cr_Version row + 1))"
      unfolding 3(4) by (rule found)
    show ?thesis
      by (rule that [OF row(1) _ row(2) event]) (simp_all add: 3(4) mutation_event_def)
  qed
qed


lemma discard_result_Inr:
  assumes "discard_result outcome = (Inr (), db')"
  obtains consent replayed where "outcome = (Inr (consent, replayed), db')"
  using assms by (cases outcome; cases "fst outcome") (auto simp: discard_result_def)

lemma optout_mutation_fields:
  "cm_SalonID (optout_mutation event status kind) = ioo_SalonID event"
  "cm_Destination (optout_mutation event status kind) = ioo_From event"
  "cm_EventKey (optout_mutation event status kind) = optout_event_key event"
  "cm_Status (optout_mutation event status kind) = status"
  "\<not> cm_RequireOwner (optout_mutation event status kind)"
  by (simp_all add: optout_mutation_def)

lemma accepted_reply_sender:
  "ApplyInboundOptOut env now event db = (Inr (), db')
     \<Longrightarrow> \<not> (ioo_ConfiguredSender event \<noteq> [] \<and> ioo_To event \<noteq> ioo_ConfiguredSender event)"
  by (auto simp: ApplyInboundOptOut_def split: if_splits)

lemma repeated_stop:
  assumes ok: "consents_ok db" and stop: "ioo_OptOutType event = ''STOP''"
    and new: "consent_event_at (ioo_SalonID event) (optout_event_key event) db = None"
    and first: "ApplyInboundOptOut env now event db = (Inr (), db')"
  shows "ApplyInboundOptOut env later event db' = (Inr (), db')"
proof -
  note fields = optout_mutation_fields and sender = accepted_reply_sender [OF first]
  define m where "m = optout_mutation event ConsentOptedOut ConsentEventOptOut"
  have "discard_result (mutateConsent env now m db) = (Inr (), db')"
    using first sender stop by (simp add: ApplyInboundOptOut_def m_def)
  then obtain consent replayed where run: "mutateConsent env now m db = (Inr (consent, replayed), db')"
    by (rule discard_result_Inr)
  have m: "program_mutation m" unfolding m_def by (rule program_mutation.intros)
  have "consent_event_at (cm_SalonID m) (cm_EventKey m) db = None"
    using new by (simp add: m_def fields)
  from mutation_recorded [OF ok m run this] obtain row found where
    "consent_by_id (cm_SalonID m) (cr_ID row) db' = Some row"
    "consent_event_at (cm_SalonID m) (cm_EventKey m) db' = Some found"
    "ce_ConsentID found = cr_ID row" "ce_EventFingerprint found = consentFingerprint env m" by metis
  then have "mutateConsent env later m db' = (Inr (scanConsent row, True), db')"
    by (simp add: mutateConsent_def replay_consent_def) (simp add: m_def fields)
  then show ?thesis
    using sender stop unfolding m_def by (simp add: ApplyInboundOptOut_def discard_result_def)
qed

lemma repeated_start:
  assumes ok: "consents_ok db" and start: "ioo_OptOutType event = ''START''"
    and ready: "customerSMSPolicyReady (ioo_SalonID event) db = Inr True"
    and unconsented: "\<And>c. ConsentForDestination (ioo_SalonID event) (ioo_From event) db = Inr c
      \<Longrightarrow> cns_Status c \<noteq> ConsentConsented"
    and new: "consent_event_at (ioo_SalonID event) (optout_event_key event) db = None"
    and hash: "consentFingerprint env (optout_mutation event ConsentConsented ConsentEventOptIn)
      \<noteq> ioo_EventFingerprint event"
    and first: "ApplyInboundOptOut env now event db = (Inr (), db')"
  shows "ApplyInboundOptOut env later event db' = (Inl ErrCustomerConflict, db')"
proof -
  note fields = optout_mutation_fields and sender = accepted_reply_sender [OF first]
  define m where "m = optout_mutation event ConsentConsented ConsentEventOptIn"
  have "discard_result (mutateConsent env now m db) = (Inr (), db')"
    using first sender start ready unconsented
    by (auto simp: ApplyInboundOptOut_def m_def Let_def split: sum.splits if_splits)
  then obtain consent replayed where run: "mutateConsent env now m db = (Inr (consent, replayed), db')"
    by (rule discard_result_Inr)
  have m: "program_mutation m" unfolding m_def by (rule program_mutation.intros)
  have "consent_event_at (cm_SalonID m) (cm_EventKey m) db = None"
    using new by (simp add: m_def fields)
  from mutation_recorded [OF ok m run this] obtain row found where
    row: "consent_of (ioo_SalonID event) (ioo_From event) db' = Some row" "cr_Status row = ConsentConsented"
    and found: "consent_event_at (ioo_SalonID event) (optout_event_key event) db' = Some found"
      "ce_EventFingerprint found = consentFingerprint env m"
    and salons: "cb_Salons db' = cb_Salons db" unfolding m_def fields by metis
  have "ConsentForDestination (ioo_SalonID event) (ioo_From event) db' = Inr (scanConsent row)"
    by (simp add: ConsentForDestination_def row)
  moreover have "customerSMSPolicyReady (ioo_SalonID event) db' = Inr True"
    using ready salons by (simp add: customerSMSPolicyReady_def salon_row_def)
  moreover have "cns_Status (scanConsent row) = ConsentConsented" by (simp add: scanConsent_def row)
  moreover have "appendConsentEvent env (ioo_SalonID event) i (optout_event_key event)
      (ioo_EventFingerprint event) t w messageID db' = (Inl ErrCustomerConflict, db')" for i t w messageID
    using hash found by (simp add: appendConsentEvent_def m_def)
  ultimately show ?thesis
    using sender start by (simp add: ApplyInboundOptOut_def Let_def)
qed

text \<open>
  C40: Finding. Twilio may deliver a reply again. A repeated STOP is recognised by its key and its
  fingerprint and answered as before. A START that gave or renewed the consent conflicts when it is
  repeated: the consent now stands, so the repetition goes to \<open>appendConsentEvent\<close>, which compares the
  fingerprint of the webhook with the one \<open>mutateConsent\<close> had stored for the whole mutation. Either
  way the repetition changes nothing.
\<close>
theorem redelivered_reply:
  assumes ok: "consents_ok db"
    and reply: "ioo_OptOutType event = ''STOP''
      \<or> ioo_OptOutType event = ''START'' \<and> customerSMSPolicyReady (ioo_SalonID event) db = Inr True
        \<and> (\<forall>c. ConsentForDestination (ioo_SalonID event) (ioo_From event) db = Inr c
             \<longrightarrow> cns_Status c \<noteq> ConsentConsented)"
    and new: "consent_event_at (ioo_SalonID event) (optout_event_key event) db = None"
    and hash: "consentFingerprint env (optout_mutation event ConsentConsented ConsentEventOptIn)
      \<noteq> ioo_EventFingerprint event"
    and first: "ApplyInboundOptOut env now event db = (Inr (), db')"
  shows "ApplyInboundOptOut env later event db'
    = (if ioo_OptOutType event = ''STOP'' then Inr () else Inl ErrCustomerConflict, db')"
proof (cases "ioo_OptOutType event = ''STOP''")
  case True
  then show ?thesis using repeated_stop [OF ok True new first] by simp
next
  case False
  with reply show ?thesis using repeated_start [OF ok _ _ _ new hash first] by auto
qed


section \<open>Redacted deliveries\<close>

lemma scan_details_error: "row \<in> set rows \<Longrightarrow> scanDetail db row = Some (Inl err) \<Longrightarrow> isl (scan_details db rows)"
  by (induction rows) (auto split: option.splits sum.splits simp: isl_def map_sum.simps)

lemma scan_details_Inl: "scan_details db rows = Inl err \<Longrightarrow> err = scan_null"
proof (induction rows)
  case (Cons row rows)
  have "scanDetail db row = Some (Inl e) \<Longrightarrow> e = scan_null" for e
    by (auto simp: scanDetail_def Let_def split: option.splits)
  with Cons show ?case
    by (cases "scan_details db rows") (auto split: option.splits sum.splits)
qed simp

lemma null_destination_unreadable:
  assumes "row \<in> set (cb_Deliveries db)" "cw_SalonID row = salonID" "of_source sourceID sourceKind row"
    and "cw_Destination row = None"
    and "consent_by_id salonID (cw_ConsentID row) db = Some consent" "salon_row salonID db = Some salon"
    and "cr_Status consent = ConsentConsented" "cr_Version consent = cw_ConsentVersion row"
  shows "detailForSource salonID sourceID sourceKind destination db = Inl scan_null"
proof -
  have "scanDetail db row = Some (Inl scan_null)"
    using assms by (simp add: scanDetail_def consent_current_def sql_and_def ConsentConsented_def)
  then have "isl (scan_details db (rev (sort_key (\<lambda>row. (cw_CreatedAt row, cw_ID row))
      (filter (\<lambda>row. cw_SalonID row = salonID \<and> of_source sourceID sourceKind row) (cb_Deliveries db)))))"
    using assms(1-3) by (intro scan_details_error [where row = row]) auto
  then obtain e where "scan_details db (rev (sort_key (\<lambda>row. (cw_CreatedAt row, cw_ID row))
      (filter (\<lambda>row. cw_SalonID row = salonID \<and> of_source sourceID sourceKind row) (cb_Deliveries db))))
      = Inl e" unfolding isl_def by blast
  with scan_details_Inl [OF this] show ?thesis by (simp add: detailForSource_def)
qed


lemma null_destination_not_found:
  assumes "find (\<lambda>row. cw_SalonID row = salonID \<and> cw_ID row = deliveryID
      \<and> of_source sourceID sourceKind row) (cb_Deliveries db) = Some row"
    and "cw_Destination row = None"
    and "find (\<lambda>action. dc_SalonID action = salonID \<and> dc_ActionKey action = actionKey) (cb_Actions db) = None"
  shows "requeueForOwner_customer env now salonID ownerUserID sourceID sourceKind deliveryID actionKey
    fingerprint db = (Inl ErrCustomerNotFound, db)"
  using assms by (auto simp: requeueForOwner_customer_def Let_def split: option.splits)

text \<open>
  C38: Finding. Retention redacts an old delivery and sets its destination to NULL. While the consent
  under which it was written still stands at that version, the comparison of the destinations is then
  NULL and cannot be scanned into a bool: the details of the appointment or request fail as a whole,
  with all its other deliveries, although the code means to show \<open>delivery_content_redacted\<close>. A requeue
  fails to scan the same NULL and tells the owner that there is no such delivery.
\<close>
theorem redaction_hides_details:
  assumes ids: "distinct (map cw_ID (cb_Deliveries db))"
    and row: "row \<in> set (cb_Deliveries db)" "cw_RedactedAt row = None" "of_source sourceID sourceKind row"
    and consent: "consent_by_id (cw_SalonID row) (cw_ConsentID row) db = Some consent"
      "cr_Status consent = ConsentConsented" "cr_Version consent = cw_ConsentVersion row"
    and salon: "salon_row (cw_SalonID row) db = Some salon"
    and fresh: "\<forall>action \<in> set (cb_Actions db). dc_ActionKey action \<noteq> actionKey"
    and redaction: "db' = update_deliveries
      (\<lambda>other. cw_ID other = cw_ID row \<and> cw_RedactedAt other = None) (redacted_delivery now) db"
  shows "detailForSource (cw_SalonID row) sourceID sourceKind destination db' = Inl scan_null
    \<and> requeueForOwner_customer env later (cw_SalonID row) ownerUserID sourceID sourceKind (cw_ID row)
        actionKey fingerprint db' = (Inl ErrCustomerNotFound, db')"
proof
  let ?change = "\<lambda>other. if cw_ID other = cw_ID row \<and> cw_RedactedAt other = None
    then redacted_delivery now other else other"
  have fields: "cw_ID (redacted_delivery now other) = cw_ID other"
    "cw_SalonID (redacted_delivery now other) = cw_SalonID other"
    "cw_ConsentID (redacted_delivery now other) = cw_ConsentID other"
    "cw_ConsentVersion (redacted_delivery now other) = cw_ConsentVersion other"
    "cw_Destination (redacted_delivery now other) = None"
    "of_source i k (redacted_delivery now other) = of_source i k other" for other i k
    by (simp_all add: redacted_delivery_def of_source_def)
  have deliveries: "cb_Deliveries db' = map ?change (cb_Deliveries db)"
    and rest: "consent_by_id s c db' = consent_by_id s c db" "salon_row s db' = salon_row s db"
      "cb_Actions db' = cb_Actions db" for s c
    by (simp_all add: redaction update_deliveries_def consent_by_id_def salon_row_def)
  have member: "redacted_delivery now row \<in> set (cb_Deliveries db')"
    unfolding deliveries set_map using row(1,2) by (intro image_eqI [of _ _ row]) simp_all
  show "detailForSource (cw_SalonID row) sourceID sourceKind destination db' = Inl scan_null"
    by (rule null_destination_unreadable [OF member, where consent = consent and salon = salon])
      (simp_all only: fields row consent salon rest)
  have ids': "distinct (map cw_ID (cb_Deliveries db'))"
  proof -
    have "map cw_ID (cb_Deliveries db') = map cw_ID (cb_Deliveries db)"
      by (simp add: deliveries fields)
    with ids show ?thesis by simp
  qed
  have "find (\<lambda>other. cw_SalonID other = cw_SalonID row \<and> cw_ID other = cw_ID row
      \<and> of_source sourceID sourceKind other) (cb_Deliveries db') = Some (redacted_delivery now row)"
    using row(3) by (intro find_unique [OF ids' member]) (simp_all add: fields)
  then show "requeueForOwner_customer env later (cw_SalonID row) ownerUserID sourceID sourceKind (cw_ID row)
      actionKey fingerprint db' = (Inl ErrCustomerNotFound, db')"
    by (rule null_destination_not_found) (use fresh in \<open>auto simp: fields rest find_None_iff\<close>)
qed


section \<open>A delivery deferred in its last attempt\<close>

text \<open>
  A delivery that waits for the end of quiet hours after its last attempt, and that no callback can
  reach since no message of it was ever accepted.
\<close>

definition deferred_for_good :: "CustomerDeliveryRow \<Rightarrow> bool" where
  "deferred_for_good row \<longleftrightarrow>
     cw_DeliveryStatus row = StatusQuietHours \<and> cw_ProviderMessageID row = None
     \<and> cw_DeliveryAttempts row \<ge> MaxSafeDeliveryAttempts * (cw_RequeueCount row + 1)"

lemma deferred_not_claimable: "deferred_for_good row \<Longrightarrow> \<not> claimable_customer MaxSafeDeliveryAttempts now row"
  by (simp add: deferred_for_good_def claimable_customer_def clamp_def MaxSafeDeliveryAttempts_def)

lemma deferred_not_held: "deferred_for_good row \<Longrightarrow> \<not> holds_delivery i s t row"
  by (simp add: deferred_for_good_def holds_delivery_def StatusQuietHours_def StatusDelivering_def)

lemma deferred_not_dead: "deferred_for_good row \<Longrightarrow> cw_DeliveryStatus row \<noteq> StatusDeadLetter"
  by (simp add: deferred_for_good_def StatusQuietHours_def StatusDeadLetter_def)

lemma kept_by_update:
  assumes "insertDeliveryEvent env now s i key t status p code
      (update_customer_attempts m1 c1 (update_deliveries m2 c2 db)) = Some db'"
    and "row \<in> set (cb_Deliveries db)" "\<not> m2 row"
  shows "row \<in> set (cb_Deliveries db')"
proof -
  have "cb_Deliveries db' = map (\<lambda>row. if m2 row then c2 row else row) (cb_Deliveries db)"
    using event_after_updates(1) [OF assms(1)] by (simp add: outbox_effect_def)
  with assms(2,3) show ?thesis by (auto intro: image_eqI [of _ _ row])
qed

lemma complete_keeps_deferred:
  assumes "completeWithoutProvider_customer env now item status outcome code t dead db = (Inr (), db')"
    and "row \<in> set (cb_Deliveries db)" "deferred_for_good row"
  shows "row \<in> set (cb_Deliveries db')"
  using assms(1) unfolding completeWithoutProvider_customer_def Let_def
  by (auto split: if_splits dest!: commit_with_event_InrD
      elim!: kept_by_update [OF _ assms(2)] simp: deferred_not_held [OF assms(3)])

lemma accepted_keeps_deferred:
  assumes "RecordProviderResult_customer env now item result db = (Inr (), db')"
    and "row \<in> set (cb_Deliveries db)" "deferred_for_good row"
  shows "row \<in> set (cb_Deliveries db')"
  using assms(1) unfolding RecordProviderResult_customer_def Let_def
  by (auto split: if_splits dest!: commit_with_event_InrD
      elim!: kept_by_update [OF _ assms(2)] simp: deferred_not_held [OF assms(3)])

lemma mark_keeps_deferred:
  assumes "MarkDispatchStarted_customer env now item db = (Inr (), db')"
    and "row \<in> set (cb_Deliveries db)" "deferred_for_good row"
  shows "row \<in> set (cb_Deliveries db')"
  using assms(1)
proof (rule mark_effect)
  fix consent salon and match :: "CustomerDeliveryRow \<Rightarrow> bool"
  assume match: "match = (\<lambda>row. holds_delivery (cd_ID item) (cd_SalonID item) (cd_ClaimToken item) row
       \<and> (\<exists>expiry \<in> set_option (cw_LeaseExpiresAt row). expiry > now))"
    and effect: "outbox_effect (\<lambda>row. if match row then row\<lparr>cw_DispatchStartedAt := Some now\<rparr> else row) db db'"
  have "\<not> match row" using deferred_not_held [OF assms(3)] by (simp add: match)
  with effect assms(2) show ?thesis by (auto simp: outbox_effect_def intro: image_eqI [of _ _ row])
qed


lemma recover_keeps_deferred:
  assumes "recoverExpiredLease_customer env now lease db = (Inr changed, db')"
    and "row \<in> set (cb_Deliveries db)" "deferred_for_good row" "distinct (map cw_ID (cb_Deliveries db))"
  shows "row \<in> set (cb_Deliveries db')"
proof (cases "find (\<lambda>row. holds_delivery (xl_id lease) (xl_salonID lease) (xl_token lease) row
     \<and> delivery_lease_expired now row) (cb_Deliveries db)")
  case None
  with assms show ?thesis by (simp add: recoverExpiredLease_customer_def)
next
  case (Some held)
  then have held: "held \<in> set (cb_Deliveries db)" "cw_ID held = xl_id lease" "held \<noteq> row"
    using find_SomeD [OF Some] deferred_not_held [OF assms(3)] by (auto simp: holds_delivery_def)
  then have "cw_ID row \<noteq> xl_id lease"
    using assms(2,4) by (auto simp: distinct_map inj_on_def)
  obtain status outcome code kind where "expired_verdict held = (status, outcome, code, kind)"
    by (metis prod_cases4)
  with assms(1) Some \<open>cw_ID row \<noteq> xl_id lease\<close> show ?thesis
    unfolding recoverExpiredLease_customer_def
    by (auto dest!: commit_with_event_InrD elim!: kept_by_update [OF _ assms(2)])
qed

lemma claim_keeps_deferred:
  assumes "app_worker_claim_customer_notifications env MaxSafeDeliveryAttempts n l now db = (Inr rows, db')"
    and "row \<in> set (cb_Deliveries db)" "deferred_for_good row" "distinct (map cw_ID (cb_Deliveries db))"
  shows "row \<in> set (cb_Deliveries db')"
  using assms(1)
proof (rule claim_effect)
  fix change events
  assume deliveries: "cb_Deliveries db' = map change (cb_Deliveries db)"
    and change: "\<And>row. row \<in> set (cb_Deliveries db) \<Longrightarrow> change row = row
       \<or> (\<exists>row' token. row' \<in> set (cb_Deliveries db) \<and> cw_ID row' = cw_ID row
            \<and> claimable_customer MaxSafeDeliveryAttempts now row'
            \<and> change row = claim_customer_row l now token row')"
  have "row' = row" if "row' \<in> set (cb_Deliveries db)" "cw_ID row' = cw_ID row" for row'
    using that assms(2,4) by (auto simp: distinct_map inj_on_def)
  then have "change row = row"
    using change [OF assms(2)] deferred_not_claimable [OF assms(3)] by metis
  with assms(2) show ?thesis unfolding deliveries set_map by (intro image_eqI [of _ _ row]) simp_all
qed

lemma callback_keeps_deferred:
  assumes "ApplyProviderCallback_customer env now callback db = (Inr (), db')"
    and "row \<in> set (cb_Deliveries db)" "deferred_for_good row" "distinct (map cw_ID (cb_Deliveries db))"
  shows "row \<in> set (cb_Deliveries db')"
proof (cases "find (carries_customer_message (pcb_Provider callback) (pcb_ProviderMessageID callback))
    (cb_Deliveries db)")
  case None
  with assms show ?thesis by (simp add: ApplyProviderCallback_customer_def)
next
  case (Some found)
  then have "found \<in> set (cb_Deliveries db)" "found \<noteq> row"
    using find_SomeD [OF Some] assms(3) by (auto simp: carries_customer_message_def deferred_for_good_def)
  then have "cw_ID row \<noteq> cw_ID found" using assms(2,4) by (auto simp: distinct_map inj_on_def)
  with assms(1,2) Some show ?thesis
    unfolding ApplyProviderCallback_customer_def Let_def update_deliveries_def update_customer_attempts_def
    by (auto split: option.splits if_splits dest!: commit_customer_cases(1) intro!: image_eqI [of _ _ row])
qed

lemma requeue_keeps_deferred:
  assumes "requeueForOwner_customer env now s u n kind i k f db = (Inr replayed, db')"
    and "row \<in> set (cb_Deliveries db)" "deferred_for_good row" "distinct (map cw_ID (cb_Deliveries db))"
  shows "row \<in> set (cb_Deliveries db')"
proof (cases "db' = db")
  case False
  have found: "other \<in> set (cb_Deliveries db)" "cw_ID other = i" if "find (\<lambda>row. cw_SalonID row = s
      \<and> cw_ID row = i \<and> of_source n kind row) (cb_Deliveries db) = Some other" for other
    using find_SomeD [OF that] by auto
  have "cw_DeliveryStatus other = StatusDeadLetter" if "find (\<lambda>row. cw_SalonID row = s
      \<and> cw_ID row = i \<and> of_source n kind row) (cb_Deliveries db) = Some other" for other
    using assms(1) False that unfolding requeueForOwner_customer_def Let_def
    by (auto split: option.splits if_splits simp: requeue_customer_blocked_def)
  then have other: "cw_ID row \<noteq> i" if "find (\<lambda>row. cw_SalonID row = s
      \<and> cw_ID row = i \<and> of_source n kind row) (cb_Deliveries db) = Some other" for other
    using found [OF that] that assms(2,4) deferred_not_dead [OF assms(3)]
    by (auto simp: distinct_map inj_on_def)
  from assms(1) show ?thesis
  proof (rule requeue_effect)
    fix found
    assume "find (\<lambda>row. cw_SalonID row = s \<and> cw_ID row = i \<and> of_source n kind row) (cb_Deliveries db) = Some found"
      and "outbox_effect (\<lambda>other. if cw_SalonID other = s \<and> cw_ID other = i
          then requeued_delivery now other else other) db db'"
    with other assms(2) show ?thesis by (auto simp: outbox_effect_def intro!: image_eqI [of _ _ row])
  qed (use False in simp)
qed (use assms(2) in simp)


lemma step_keeps_deferred:
  assumes "customer_step db labels db'" "row \<in> set (cb_Deliveries db)" "deferred_for_good row"
    and ids: "distinct (map cw_ID (cb_Deliveries db))"
  shows "\<exists>row' \<in> set (cb_Deliveries db'). cw_ID row' = cw_ID row \<and> deferred_for_good row'"
proof -
  have kept: ?thesis if "row \<in> set (cb_Deliveries db')" using that assms(3) by blast
  from assms(1) show ?thesis
  proof (cases rule: customer_step.cases)
    case (consent_changed m env now consent replayed)
    from consent_changed(3) have "cb_Deliveries db' = cb_Deliveries db" by (rule mutate_effect) simp_all
    with assms(2) show ?thesis by (intro kept) simp
  next
    case consent_noted
    from consent_noted(2) have "cb_Deliveries db' = cb_Deliveries db" by (rule append_effect) simp
    with assms(2) show ?thesis by (intro kept) simp
  next
    case surroundings
    with assms(2) show ?thesis by (intro kept) simp
  next
    case (redacted deliveryID now)
    let ?row = "if cw_ID row = deliveryID \<and> cw_RedactedAt row = None then redacted_delivery now row else row"
    have "?row \<in> set (cb_Deliveries db')"
      using assms(2) unfolding redacted(2) update_deliveries_def by (auto intro: image_eqI [of _ _ row])
    moreover have "cw_ID ?row = cw_ID row" "deferred_for_good ?row"
      using assms(3) by (simp_all add: redacted_delivery_def deferred_for_good_def)
    ultimately show ?thesis by blast
  next
    case enqueued
    from enqueued(2) have "row \<in> set (cb_Deliveries db')"
      by (rule enqueue_effect) (simp_all add: assms(2))
    then show ?thesis by (rule kept)
  next
    case lease_recovered
    then show ?thesis using recover_keeps_deferred assms(2-4) by (blast intro: kept)
  next
    case claimed
    then show ?thesis using claim_keeps_deferred assms(2-4) by (blast intro: kept)
  next
    case dispatch_marked
    then show ?thesis using mark_keeps_deferred assms(2-4) by (blast intro: kept)
  next
    case completed
    then show ?thesis using complete_keeps_deferred assms(2-4) by (blast intro: kept)
  next
    case accepted
    then show ?thesis using accepted_keeps_deferred assms(2-4) by (blast intro: kept)
  next
    case called_back
    then show ?thesis using callback_keeps_deferred assms(2-4) by (blast intro: kept)
  next
    case requeued
    then show ?thesis using requeue_keeps_deferred assms(2-4) by (blast intro: kept)
  qed
qed

lemma history_keeps_deferred:
  assumes "customer_history db labels db'" "outbox_bounded [] db"
    and "row \<in> set (cb_Deliveries db)" "deferred_for_good row"
  shows "\<exists>row' \<in> set (cb_Deliveries db'). cw_ID row' = cw_ID row \<and> deferred_for_good row'"
  using assms
proof (induction rule: customer_history.induct)
  case (history_step db labels db' labels' db'')
  then obtain row' where "row' \<in> set (cb_Deliveries db')" "cw_ID row' = cw_ID row" "deferred_for_good row'"
    by blast
  moreover have "distinct (map cw_ID (cb_Deliveries db'))"
    using history_keeps_bounded [OF history_step.hyps(1) history_step.prems(1)] by (simp add: outbox_bounded_def)
  ultimately show ?case using step_keeps_deferred [OF history_step.hyps(2)] by metis
qed blast


lemma outbox_bounded_forget: "outbox_bounded labels db \<Longrightarrow> outbox_bounded [] db"
  using dispatches_nonneg [of _ labels]
  by (fastforce simp: outbox_bounded_def row_bounded_def dispatches_def)

text \<open>
  C39: Finding. \<open>RecordQuietHours\<close> defers a message without looking at the number of
  attempts. Deferred in the last attempt of its cycle, after failures that were safe to retry, the
  message is stuck: no claim takes it, since the attempts are used up, and no owner can requeue it,
  since it is not dead-lettered; whatever happens, it waits in \<open>quiet_hours\<close> for ever.
\<close>
theorem deferred_last_attempt_is_stuck:
  assumes "outbox_bounded [] db" "customer_history db earlier mid"
    and defer_it: "RecordQuietHours env now item quietEnd mid = (Inr (), deferred)"
    and row: "row \<in> set (cb_Deliveries mid)"
      "holds_delivery (cd_ID item) (cd_SalonID item) (cd_ClaimToken item) row"
      "cw_DeliveryAttempts row = MaxSafeDeliveryAttempts * (cw_RequeueCount row + 1)"
      "cw_ProviderMessageID row = None"
    and later: "customer_history deferred later db'"
  shows "\<exists>row' \<in> set (cb_Deliveries db'). cw_ID row' = cd_ID item
    \<and> cw_DeliveryStatus row' = StatusQuietHours
    \<and> (\<forall>t. \<not> claimable_customer MaxSafeDeliveryAttempts t row')"
proof -
  let ?row = "completed_delivery now StatusQuietHours ''CUSTOMER_SMS_QUIET_HOURS''
    (if quietEnd = 0 then None else Some quietEnd) False row"
  have "customer_history db (earlier @ []) deferred"
    using defer_it unfolding RecordQuietHours_def
    by (intro history_trans [OF assms(2)] history_one) (rule customer_step.completed)
  then have whole: "customer_history db earlier deferred" by simp
  have "?row \<in> set (cb_Deliveries deferred)"
    using defer_it row(1,2)
    unfolding RecordQuietHours_def completeWithoutProvider_customer_def Let_def
    by (auto split: if_splits dest!: commit_with_event_InrD event_after_updates(1)
        simp: outbox_effect_def intro: image_eqI [of _ _ row])
  moreover have "deferred_for_good ?row" "cw_ID ?row = cd_ID item"
    using row by (simp_all add: deferred_for_good_def completed_delivery_def release_delivery_def
        holds_delivery_def)
  moreover have "outbox_bounded [] deferred"
    by (rule outbox_bounded_forget [OF history_keeps_bounded [OF whole assms(1)]])
  ultimately show ?thesis
    using history_keeps_deferred [OF later] deferred_not_claimable unfolding deferred_for_good_def by metis
qed

end
