(* ===== verification/Customer_Numbers.thy ===== *)
theory Customer_Numbers
  imports Customer_Tables
begin

text \<open>
  The two normalisations of a telephone number, \<open>NormalizeDestination\<close> of the service and
  \<open>normalize_customer_sms_destination\<close> of the schema. Consents are stored under the first and looked
  up by the triggers under the second, so a message is sent only where the two agree.
\<close>

lemma scan_after_first:
  "0 < index \<Longrightarrow> scan_destination index plusCount digits raw
     = (if list_all sms_phone_char raw then Some (digits @ filter (\<lambda>c. is_digit c) raw) else None)"
proof (induction raw arbitrary: index plusCount digits)
  case (Cons c raw)
  then show ?case by (auto simp: sms_phone_char_def)
qed simp

lemma scan_whole:
  "scan_destination 0 0 [] raw
     = (if list_all sms_phone_char (if prefix ''+'' raw then tl raw else raw)
        then Some (filter (\<lambda>c. is_digit c) raw) else None)"
  by (cases raw) (auto simp: scan_after_first sms_phone_char_def)

lemma digit_not_zero: "is_digit c \<Longrightarrow> c \<noteq> CHR ''0'' \<longleftrightarrow> CHR ''1'' \<le> c"
proof -
  have codes: "(of_char (CHR ''0'') :: nat) = 48" "(of_char (CHR ''1'') :: nat) = 49" by code_simp+
  assume "is_digit c"
  then have "48 \<le> (of_char c :: nat)" by (simp add: less_eq_char_def codes)
  moreover have "c = CHR ''0'' \<longleftrightarrow> (of_char c :: nat) = 48" by (metis codes(1) of_char_eq_iff)
  ultimately show ?thesis by (auto simp: less_eq_char_def codes)
qed


lemma btrim_TrimSpace: "btrim (TrimSpace raw) = TrimSpace raw"
proof -
  have space: "[CHR 0x20] \<in> set space_encodings" by code_simp
  have "\<not> prefix [CHR 0x20] (TrimSpace raw)" "\<not> suffix [CHR 0x20] (TrimSpace raw)"
    using TrimSpace_no_leading [of raw] TrimSpace_no_trailing [of raw] space
    unfolding leading_space_None trailing_space_None by blast+
  then have "TrimSpace raw = [] \<or> hd (TrimSpace raw) \<noteq> CHR 0x20"
    "rev (TrimSpace raw) = [] \<or> hd (rev (TrimSpace raw)) \<noteq> CHR 0x20"
    by (auto simp: prefix_def suffix_def) (metis append_butlast_last_id append_Nil2 append_Cons append_Nil
      hd_Cons_tl hd_rev)+
  then have "dropWhile (\<lambda>c. c = CHR 0x20) (TrimSpace raw) = TrimSpace raw"
    "dropWhile (\<lambda>c. c = CHR 0x20) (rev (TrimSpace raw)) = rev (TrimSpace raw)"
    unfolding dropWhile_eq_self_iff by simp_all
  then show ?thesis by (simp add: btrim_def)
qed

text \<open>
  C36: One number. On a trimmed text the service in Go and the schema in SQL recognise the same
  telephone numbers and write them the same way, so that a consent recorded by the service is found by
  the trigger that enqueues a message.
\<close>
theorem normalisations_agree:
  "normalize_customer_sms_destination (TrimSpace raw)
    = (if NormalizeDestination raw = [] then None else Some (NormalizeDestination raw))"
proof -
  define t where "t = TrimSpace raw"
  define digits where "digits = filter (\<lambda>c. is_digit c) t"
  define body where "body = (if prefix ''+'' t then tl t else t)"
  have btrim: "btrim t = t" by (simp add: t_def btrim_TrimSpace)
  have nth: "is_digit (digits ! i)" if "i < length digits" for i
    using nth_mem [OF that] by (simp add: digits_def)
  have short: "digits = []" if "t = [] \<or> body = []"
    using that by (cases t) (auto simp: digits_def body_def split: if_splits)
  have Go: "NormalizeDestination raw = (if \<not> list_all sms_phone_char body then []
      else if prefix ''+'' t \<and> length digits \<ge> 8 \<and> length digits \<le> 15 \<and> digits ! 0 \<noteq> CHR ''0''
      then ''+'' @ digits
      else if length digits = 10 \<and> CHR ''2'' \<le> digits ! 0 \<and> digits ! 0 \<le> CHR ''9''
      then ''+1'' @ digits
      else if length digits = 11 \<and> digits ! 0 = CHR ''1'' \<and> CHR ''2'' \<le> digits ! 1
        \<and> digits ! 1 \<le> CHR ''9''
      then ''+'' @ digits else [])"
    unfolding NormalizeDestination_def Let_def t_def [symmetric] scan_whole body_def [symmetric]
      digits_def [symmetric] by simp
  have SQL: "normalize_customer_sms_destination t = (if t = [] \<or> body = [] \<or> \<not> list_all sms_phone_char body then None
      else if prefix ''+'' t \<and> 8 \<le> length digits \<and> length digits \<le> 15 \<and> CHR ''1'' \<le> digits ! 0
      then Some (''+'' @ digits)
      else if length digits = 10 \<and> CHR ''2'' \<le> digits ! 0 then Some (''+1'' @ digits)
      else if length digits = 11 \<and> digits ! 0 = CHR ''1'' \<and> CHR ''2'' \<le> digits ! 1
      then Some (''+'' @ digits) else None)"
    unfolding normalize_customer_sms_destination_def btrim Let_def body_def [symmetric]
      digits_def [symmetric] by simp
  have first: "digits ! 0 \<noteq> CHR ''0'' \<longleftrightarrow> CHR ''1'' \<le> digits ! 0" if "8 \<le> length digits"
    by (rule digit_not_zero [OF nth]) (use that in linarith)
  have nine: "length digits = 10 \<Longrightarrow> digits ! 0 \<le> CHR ''9''" "length digits = 11 \<Longrightarrow> digits ! 1 \<le> CHR ''9''"
    using nth [of 0] nth [of 1] by simp_all
  show ?thesis
  proof (cases "t = [] \<or> body = []")
    case True
    then show ?thesis using short [OF True] unfolding t_def [symmetric] SQL Go by simp
  next
    case False
    then show ?thesis
      using first nine unfolding t_def [symmetric] SQL Go by auto
  qed
qed

end
