(* ===== verification/Customer_Samples.thy ===== *)
theory Customer_Samples
  imports Customer_Errors Customer_Numbers
begin

text \<open>
  Runs of the customer notifications on concrete data: a number that replies STOP and later START, an
  appointment confirmed after that, and the message that is claimed and handed over for it.
\<close>

definition sample_customer_env :: "string \<Rightarrow> CustomerEnv" where
  "sample_customer_env token =
     \<lparr>cv_Member = (\<lambda>_ _. True), cv_MayRead = (\<lambda>_ _. True), cv_MayRequeue = (\<lambda>_ _. True),
      cv_CallSession = (\<lambda>_ _. True), cv_UUID = (\<lambda>path. token @ replicate (last path) CHR ''x''),
      cv_SHA256 = (\<lambda>text. ''#'' @ text), cv_ClaimLimit = (\<lambda>_. None), cv_Locked = (\<lambda>_. False),
      cv_GoNow = 7, cv_Guards = (\<lambda>_ _. None)\<rparr>"

definition sample_number :: string where "sample_number = ''+12125550100''"

definition sample_salon :: SalonRow where
  "sample_salon = \<lparr>sn_SalonID = ''salon'', sn_Timezone = ''America/New_York'', sn_Enabled = True,
     sn_QuietStart = ''21:00'', sn_QuietEnd = ''08:00'', sn_PolicyVersion = 1\<rparr>"

definition sample_customer_db :: CustomerDB where
  "sample_customer_db =
     \<lparr>cb_Salons = [sample_salon], cb_Consents = [], cb_ConsentEvents = [], cb_Deliveries = [],
      cb_Attempts = [], cb_Events = [], cb_Actions = [], cb_Requests = [],
      cb_Appointments = [\<lparr>as_ID = ''appointment'', as_SalonID = ''salon'', as_Status = ''confirmed'',
        as_BookingAttemptID = ''attempt'', as_AuthorityVersion = Some 1,
        as_CustomerPhone = sample_number\<rparr>]\<rparr>"

definition sample_reply :: "string \<Rightarrow> string \<Rightarrow> InboundOptOut" where
  "sample_reply word messageID =
     \<lparr>ioo_SalonID = ''salon'', ioo_From = sample_number, ioo_To = ''+12125550199'',
      ioo_ConfiguredSender = ''+12125550199'', ioo_OptOutType = word,
      ioo_ProviderMessageID = messageID, ioo_EventFingerprint = replicate 64 CHR ''f''\<rparr>"

definition sample_stop :: consentMutation where
  "sample_stop = optout_mutation (sample_reply ''STOP'' ''SM1'') ConsentOptedOut ConsentEventOptOut"

definition sample_start :: consentMutation where
  "sample_start = optout_mutation (sample_reply ''START'' ''SM2'') ConsentConsented ConsentEventOptIn"

definition stopped_db :: CustomerDB where
  "stopped_db = snd (mutateConsent (sample_customer_env ''c'') 10 sample_stop sample_customer_db)"

definition restarted_db :: CustomerDB where
  "restarted_db = snd (mutateConsent (sample_customer_env ''d'') 20 sample_start stopped_db)"

definition sample_enqueue :: "CustomerDB \<Rightarrow> (customer_error + unit) \<times> CustomerDB" where
  "sample_enqueue = enqueue_customer_notification (sample_customer_env ''n'') 30 ''salon''
     ''(212) 555-0100'' ''confirmed'' 1 ''appointment:1'' ''See you soon'' None (Some ''appointment'')
     (Some ''attempt'')"

definition enqueued_db :: CustomerDB where
  "enqueued_db = snd (sample_enqueue restarted_db)"

definition sample_claim :: "string \<Rightarrow> gotime \<Rightarrow> CustomerDB
     \<Rightarrow> (customer_error + CustomerDeliveryRow list) \<times> CustomerDB" where
  "sample_claim token now = app_worker_claim_customer_notifications (sample_customer_env token)
     MaxSafeDeliveryAttempts 10 2000 now"

definition claimed_delivery_db :: CustomerDB where
  "claimed_delivery_db = snd (sample_claim ''t'' 40 enqueued_db)"

definition sample_item :: ClaimedDelivery where
  "sample_item = scanClaimed (hd (projr (fst (sample_claim ''t'' 40 enqueued_db))))"

definition marked_db :: CustomerDB where
  "marked_db = snd (MarkDispatchStarted_customer (sample_customer_env ''m'') 50 sample_item
     claimed_delivery_db)"

lemma customer_run_results:
  "map_sum id snd (fst (mutateConsent (sample_customer_env ''c'') 10 sample_stop sample_customer_db)) = Inr False"
  "map_sum id snd (fst (mutateConsent (sample_customer_env ''d'') 20 sample_start stopped_db)) = Inr False"
  "fst (sample_enqueue restarted_db) = Inr ()"
  "\<not> isl (fst (sample_claim ''t'' 40 enqueued_db))"
  "fst (MarkDispatchStarted_customer (sample_customer_env ''m'') 50 sample_item claimed_delivery_db) = Inr ()"
  by code_simp+

lemma customer_item_values:
  "cd_SalonID sample_item = ''salon''" "cd_Destination sample_item = sample_number"
  "cd_ID sample_item = ''n''" "cd_ClaimToken sample_item = ''t''"
  by code_simp+

lemma mutation_ran:
  "map_sum id snd (fst r) = Inr replayed \<Longrightarrow> \<exists>c. r = (Inr (c, replayed), snd r)"
  by (cases r; cases "fst r") auto

lemma operation_ran: "\<not> isl (fst r) \<Longrightarrow> \<exists>x. r = (Inr x, snd r)"
  by (cases r; cases "fst r") auto

lemma sample_history:
  "customer_history sample_customer_db
     [Stopped ''salon'' sample_number, Restarted ''salon'' sample_number, Dispatch_Marked sample_item]
     marked_db"
proof -
  have s1: "customer_step sample_customer_db (mutation_labels sample_stop False) stopped_db"
    using mutation_ran [OF customer_run_results(1)] unfolding stopped_db_def
    by (metis consent_changed program_mutation.intros(4) sample_stop_def)
  have s2: "customer_step stopped_db (mutation_labels sample_start False) restarted_db"
    using mutation_ran [OF customer_run_results(2)] unfolding restarted_db_def
    by (metis consent_changed program_mutation.intros(5) sample_start_def)
  have s3: "customer_step restarted_db [] enqueued_db"
    using customer_run_results(3) unfolding enqueued_db_def
    by (metis customer_step.enqueued prod.collapse sample_enqueue_def)
  have s4: "customer_step enqueued_db [] claimed_delivery_db"
    using operation_ran [OF customer_run_results(4)] unfolding claimed_delivery_db_def sample_claim_def
    by (metis customer_step.claimed)
  have s5: "customer_step claimed_delivery_db [Dispatch_Marked sample_item] marked_db"
    using customer_run_results(5) unfolding marked_db_def
    by (metis customer_step.dispatch_marked prod.collapse)
  have "mutation_labels sample_stop False = [Stopped ''salon'' sample_number]"
    "mutation_labels sample_start False = [Restarted ''salon'' sample_number]"
    by code_simp+
  with history_step [OF history_step [OF history_step [OF history_step [OF history_one [OF s1] s2]
      s3] s4] s5]
  show ?thesis by simp
qed

lemma sample_initial:
  "consents_ok sample_customer_db" "consents_evidenced sample_customer_db"
  "outbox_bounded [] sample_customer_db"
  by (simp_all add: sample_customer_db_def consents_ok_def consents_evidenced_def outbox_bounded_def)

theorem no_message_after_stop_witness:
  "customer_history sample_customer_db
     ([] @ Stopped ''salon'' sample_number # [Restarted ''salon'' sample_number]
       @ Dispatch_Marked sample_item # []) marked_db
   \<and> Restarted ''salon'' sample_number \<in> set [Restarted ''salon'' sample_number]"
proof -
  have run: "customer_history sample_customer_db
     ([] @ Stopped ''salon'' sample_number # [Restarted ''salon'' sample_number]
       @ Dispatch_Marked sample_item # []) marked_db"
    using sample_history by simp
  show ?thesis
    by (intro conjI run no_message_after_stop [OF sample_initial(1) run customer_item_values(1,2)])
qed

theorem dispatch_has_evidence_witness:
  "\<exists>mid. customer_history sample_customer_db
       [Stopped ''salon'' sample_number, Restarted ''salon'' sample_number] mid
     \<and> (\<exists>consent \<in> set (cb_Consents mid). cr_ID consent = ''c'' \<and> cr_SalonID consent = ''salon''
          \<and> cr_Destination consent = sample_number \<and> cr_Status consent = ConsentConsented)
     \<and> (\<exists>event \<in> set (cb_ConsentEvents mid). evidences event ''c'' 2)"
proof -
  have "customer_history sample_customer_db
     ([Stopped ''salon'' sample_number, Restarted ''salon'' sample_number]
       @ Dispatch_Marked sample_item # []) marked_db"
    using sample_history by simp
  note evidence = dispatch_has_evidence [OF sample_initial(1,2) this]
  have ids: "cd_ConsentID sample_item = ''c''" "cd_ConsentVersion sample_item = 2" by code_simp+
  show ?thesis using evidence unfolding customer_item_values ids .
qed

theorem dispatches_are_bounded_witness:
  "dispatches ''n'' [Stopped ''salon'' sample_number, Restarted ''salon'' sample_number,
     Dispatch_Marked sample_item] = 1
   \<and> list_all (\<lambda>row. 1 \<le> cw_DeliveryAttempts row) (cb_Deliveries marked_db)"
proof -
  have one: "dispatches ''n'' [Stopped ''salon'' sample_number, Restarted ''salon'' sample_number,
     Dispatch_Marked sample_item] = 1"
    using customer_item_values(3) by (simp add: dispatches_def)
  moreover have "map cw_ID (cb_Deliveries marked_db) = [''n'']" by code_simp
  then have "cw_ID row = ''n''" if "row \<in> set (cb_Deliveries marked_db)" for row
    using that by (cases "cb_Deliveries marked_db") auto
  ultimately show ?thesis
    using dispatches_are_bounded [OF sample_initial(3) sample_history] unfolding list_all_iff by metis
qed


section \<open>Quiet hours\<close>

definition five_hours_west :: "string \<Rightarrow> Location option" where
  "five_hours_west name = (if name = ''Etc/GMT+5'' then Some (\<lambda>_. -18000) else None)"

lemma evening_clocks:
  "parseLocalClock ''18:00'' = Inr 1080" "parseLocalClock ''08:00'' = Inr 480"
  "TrimSpace '' Etc/GMT+5'' = ''Etc/GMT+5''" "TrimSpace ''America/Havana'' = ''America/Havana''"
  by code_simp+

theorem quiet_hours_end_is_exact_witness:
  "\<exists>r. quietHoursEnd five_hours_west 0 '' Etc/GMT+5'' ''18:00'' ''08:00'' = Inr (Some r)
     \<and> 0 < r \<and> r \<le> ns_per_day \<and> \<not> quiet_at (\<lambda>_. -18000) 1080 480 r
     \<and> quiet_at (\<lambda>_. -18000) 1080 480 (r - 1)"
proof -
  have zone: "five_hours_west (TrimSpace '' Etc/GMT+5'') = Some (\<lambda>_. -18000)"
    by (simp add: evening_clocks five_hours_west_def)
  have steady: "steady_offset (\<lambda>_. -18000) (-18000) 0"
    by (simp add: steady_offset_def)
  have "quiet_at (\<lambda>_. -18000) 1080 480 0" by code_simp
  then show ?thesis
    using quiet_hours_end_is_exact [where load = five_hours_west and loc = "\<lambda>_. -18000",
        OF zone steady evening_clocks(1,2)]
    by (simp split: sum.splits option.splits)
qed

definition havana :: "string \<Rightarrow> Location option" where
  "havana name = (if name = ''America/Havana'' then Some (gap_at_midnight (-18000) 1) else None)"

theorem quiet_end_in_the_past_witness:
  "\<exists>r. quietHoursEnd havana 96000000000000 ''America/Havana'' ''18:00'' ''08:00'' = Inr (Some r)
     \<and> r < 96000000000000"
proof -
  have zone: "havana (TrimSpace ''America/Havana'') = Some (gap_at_midnight (-18000) 1)"
    by (simp add: evening_clocks havana_def)
  have "local_civil (gap_at_midnight (-18000) 1) 96000000000000 = civil_of_days (1 - 1)
      \<and> 1080 \<le> local_clock (gap_at_midnight (-18000) 1) 96000000000000"
    by code_simp
  then show ?thesis
    using quiet_end_in_the_past [where load = havana and day = 1 and offset = "-18000",
        OF zone refl _ _ evening_clocks(1,2)] by auto
qed


section \<open>A pass of the worker\<close>

text \<open>The world of the provider is the list of the messages it has received. It is noon.\<close>

definition sample_processor :: "OutboundMessage list CustomerProcessor" where
  "sample_processor =
     \<lparr>cp_Env = (\<lambda>k. sample_customer_env (''e'' @ replicate k CHR ''y'')), cp_Clock = (\<lambda>k. 100),
      cp_Cancelled = (\<lambda>_. None), cp_Load = (\<lambda>_. Some (\<lambda>_. 43200)),
      cp_Resolve = (\<lambda>_ world. (Inr (Some (\<lambda>message received.
        (Inr \<lparr>sr_ProviderMessageID = ''SM9'', sr_ProviderStatus = ''queued'',
              sr_DeliveryStatus = StatusProviderAccepted, sr_StatusRank = 10\<rparr>, received @ [message]))), world))\<rparr>"

definition sample_state :: "CustomerDB \<Rightarrow> (OutboundMessage list \<times> OutboundMessage list) CustomerState" where
  "sample_state db = \<lparr>ct_DB = db, ct_World = ([], []), ct_Tick = 0\<rparr>"

definition sample_pass :: "CustomerDB \<Rightarrow> int \<times> customer_error option
     \<times> (OutboundMessage list \<times> OutboundMessage list) CustomerState" where
  "sample_pass db = ProcessOnce_customer (logging sample_processor) 10 (sample_state db)"

definition sample_message :: OutboundMessage where
  "sample_message = \<lparr>om_NotificationID = ''n'', om_SalonID = ''salon'', om_Destination = sample_number,
     om_Body = ''See you soon''\<rparr>"

lemma sample_pass_sends:
  "ct_World (snd (snd (sample_pass enqueued_db))) = ([sample_message], [sample_message])"
  "map cw_DeliveryStatus (cb_Deliveries (ct_DB (snd (snd (sample_pass enqueued_db))))) = [''provider_accepted'']"
  by code_simp+

text \<open>The customer replies STOP when the message is already queued; the next pass suppresses it.\<close>

definition sample_stop_call :: "CustomerDB \<Rightarrow> (customer_error + unit) \<times> CustomerDB" where
  "sample_stop_call = ApplyInboundOptOut_service (sample_customer_env ''w'') 35 '' salon '' ''(212) 555-0100''
     ''+12125550199'' ''+12125550199'' ''stop'' ''SM3'' (replicate 64 CHR ''f'')"

lemma sample_stop_values:
  "fst (sample_stop_call enqueued_db) = Inr ()"
  "strings_ToUpper (TrimSpace ''stop'') = ''STOP''"
  "consent_event_at (TrimSpace '' salon '') (''twilio-optout:'' @ TrimSpace ''SM3'' @ '':stop'') enqueued_db = None"
  "TrimSpace '' salon '' = ''salon''" "NormalizeDestination ''(212) 555-0100'' = sample_number"
  by code_simp+

lemma enqueued_ok: "consents_ok enqueued_db"
  by code_simp

theorem stop_ends_dispatches_witness:
  "filter (\<lambda>m. om_SalonID m = ''salon'' \<and> om_Destination m = sample_number)
     (snd (ct_World (snd (snd (sample_pass (snd (sample_stop_call enqueued_db))))))) = []"
proof -
  define db where "db = snd (sample_stop_call enqueued_db)"
  have stop: "ApplyInboundOptOut_service (sample_customer_env ''w'') 35 '' salon '' ''(212) 555-0100''
      ''+12125550199'' ''+12125550199'' ''stop'' ''SM3'' (replicate 64 CHR ''f'') enqueued_db = (Inr (), db)"
    using sample_stop_values(1) unfolding sample_stop_call_def db_def by (metis prod.collapse)
  have refl: "customer_history db [] (ct_DB (sample_state db))"
    by (simp add: sample_state_def history_refl)
  have "sends_none_to (TrimSpace '' salon '') (NormalizeDestination ''(212) 555-0100'') (sample_state db)
      (snd (snd (ProcessOnce_customer (logging sample_processor) 10 (sample_state db))))"
    using stop_ends_dispatches [OF enqueued_ok stop sample_stop_values(2,3) refl] by simp
  then show ?thesis
    unfolding sample_stop_values(4,5) db_def [symmetric] sample_pass_def sends_none_to_def
    by (auto simp: sample_state_def filter_empty_conv list_all_iff)
qed

section \<open>Behaviour that the comments do not promise\<close>

theorem redelivered_reply_witness:
  "ApplyInboundOptOut (sample_customer_env ''d'') 21 (sample_reply ''START'' ''SM2'')
     (snd (ApplyInboundOptOut (sample_customer_env ''d'') 20 (sample_reply ''START'' ''SM2'') sample_customer_db))
   = (Inl ErrCustomerConflict,
      snd (ApplyInboundOptOut (sample_customer_env ''d'') 20 (sample_reply ''START'' ''SM2'') sample_customer_db))"
proof -
  let ?reply = "sample_reply ''START'' ''SM2''"
  have reply: "ioo_OptOutType ?reply = ''START'' \<and> customerSMSPolicyReady (ioo_SalonID ?reply) sample_customer_db = Inr True
      \<and> (\<forall>c. ConsentForDestination (ioo_SalonID ?reply) (ioo_From ?reply) sample_customer_db = Inr c
           \<longrightarrow> cns_Status c \<noteq> ConsentConsented)"
  proof (intro conjI)
    have "ConsentForDestination (ioo_SalonID ?reply) (ioo_From ?reply) sample_customer_db = Inl ErrCustomerNotFound"
      by code_simp
    then show "\<forall>c. ConsentForDestination (ioo_SalonID ?reply) (ioo_From ?reply) sample_customer_db = Inr c
           \<longrightarrow> cns_Status c \<noteq> ConsentConsented" by simp
  qed code_simp+
  have new: "consent_event_at (ioo_SalonID ?reply) (optout_event_key ?reply) sample_customer_db = None"
    and hash: "consentFingerprint (sample_customer_env ''d'') (optout_mutation ?reply ConsentConsented ConsentEventOptIn)
      \<noteq> ioo_EventFingerprint ?reply"
    and first: "fst (ApplyInboundOptOut (sample_customer_env ''d'') 20 ?reply sample_customer_db) = Inr ()"
    and word: "ioo_OptOutType ?reply \<noteq> ''STOP''"
    by code_simp+
  from first obtain db' where first: "ApplyInboundOptOut (sample_customer_env ''d'') 20 ?reply sample_customer_db
      = (Inr (), db')" by (metis prod.collapse)
  show ?thesis
    using redelivered_reply [OF sample_initial(1) disjI2 [OF reply] new hash first] word
    unfolding first by simp
qed


text \<open>The queued message of the sample is redacted while the consent still stands.\<close>

definition queued_row :: CustomerDeliveryRow where
  "queued_row = hd (cb_Deliveries enqueued_db)"

lemma queued_values:
  "cb_Deliveries enqueued_db = [queued_row]" "cw_RedactedAt queued_row = None"
  "of_source ''appointment'' ''appointment'' queued_row" "cw_SalonID queued_row = ''salon''"
  "cb_Actions enqueued_db = []"
  by code_simp+

lemma queued_consent:
  "\<exists>consent. consent_by_id (cw_SalonID queued_row) (cw_ConsentID queued_row) enqueued_db = Some consent
     \<and> cr_Status consent = ConsentConsented \<and> cr_Version consent = cw_ConsentVersion queued_row"
  "salon_row (cw_SalonID queued_row) enqueued_db = Some sample_salon"
proof -
  have "map_option (\<lambda>c. (cr_Status c, cr_Version c))
      (consent_by_id (cw_SalonID queued_row) (cw_ConsentID queued_row) enqueued_db)
    = Some (ConsentConsented, cw_ConsentVersion queued_row)" by code_simp
  then show "\<exists>consent. consent_by_id (cw_SalonID queued_row) (cw_ConsentID queued_row) enqueued_db = Some consent
     \<and> cr_Status consent = ConsentConsented \<and> cr_Version consent = cw_ConsentVersion queued_row" by auto
  show "salon_row (cw_SalonID queued_row) enqueued_db = Some sample_salon" by code_simp
qed

theorem redaction_hides_details_witness:
  "detailForSource ''salon'' ''appointment'' ''appointment'' [] (update_deliveries
      (\<lambda>other. cw_ID other = cw_ID queued_row \<and> cw_RedactedAt other = None) (redacted_delivery 60) enqueued_db)
    = Inl scan_null"
proof -
  obtain consent where "consent_by_id (cw_SalonID queued_row) (cw_ConsentID queued_row) enqueued_db = Some consent"
    "cr_Status consent = ConsentConsented" "cr_Version consent = cw_ConsentVersion queued_row"
    using queued_consent(1) by blast
  from redaction_hides_details [OF _ _ queued_values(2,3) this queued_consent(2) _ refl]
  show ?thesis by (simp add: queued_values)
qed

text \<open>A message whose first four attempts failed is claimed again and deferred.\<close>

definition worn_db :: CustomerDB where
  "worn_db = update_deliveries (\<lambda>_. True) (\<lambda>row. row\<lparr>cw_DeliveryAttempts := 4\<rparr>) enqueued_db"

definition leased_db :: CustomerDB where
  "leased_db = snd (sample_claim ''t'' 40 worn_db)"

definition leased_item :: ClaimedDelivery where
  "leased_item = scanClaimed (hd (projr (fst (sample_claim ''t'' 40 worn_db))))"

definition leased_row :: CustomerDeliveryRow where
  "leased_row = hd (cb_Deliveries leased_db)"

lemma leased_values:
  "cb_Deliveries leased_db = [leased_row]" "\<not> isl (fst (sample_claim ''t'' 40 worn_db))"
  "holds_delivery (cd_ID leased_item) (cd_SalonID leased_item) (cd_ClaimToken leased_item) leased_row"
  "cw_DeliveryAttempts leased_row = MaxSafeDeliveryAttempts * (cw_RequeueCount leased_row + 1)"
  "cw_ProviderMessageID leased_row = None" "cd_ID leased_item = ''n''"
  "fst (RecordQuietHours (sample_customer_env ''q'') 45 leased_item 1000 leased_db) = Inr ()"
  by code_simp+

lemma worn_bounded: "outbox_bounded [] worn_db"
proof -
  have "distinct (map cw_ID (cb_Deliveries worn_db))" "list_all (row_bounded [] worn_db) (cb_Deliveries worn_db)"
    by code_simp+
  then show ?thesis by (simp add: outbox_bounded_def list_all_iff)
qed

theorem deferred_last_attempt_is_stuck_witness:
  "\<exists>row' \<in> set (cb_Deliveries (snd (RecordQuietHours (sample_customer_env ''q'') 45 leased_item 1000 leased_db))).
     cw_ID row' = ''n'' \<and> cw_DeliveryStatus row' = StatusQuietHours
     \<and> (\<forall>t. \<not> claimable_customer MaxSafeDeliveryAttempts t row')"
proof -
  have "customer_step worn_db [] leased_db"
    using operation_ran [OF leased_values(2)] unfolding leased_db_def sample_claim_def
    by (metis customer_step.claimed)
  from history_one [OF this]
  have history: "customer_history worn_db [] leased_db" .
  obtain db' where deferred: "RecordQuietHours (sample_customer_env ''q'') 45 leased_item 1000 leased_db = (Inr (), db')"
    using leased_values(7) by (metis prod.collapse)
  have "leased_row \<in> set (cb_Deliveries leased_db)" by (simp add: leased_values(1))
  from deferred_last_attempt_is_stuck [OF worn_bounded history deferred this leased_values(3-5) history_refl]
  show ?thesis by (simp add: deferred leased_values(6))
qed

end
