(* ===== verification/Switch_Types.thy ===== *)
theory Switch_Types
  imports Scheduling_Types "HOL-Library.Product_Lexorder"
begin

text \<open>
  The vocabulary of the scheduling authority switch (\<open>modules/scheduling_authority_switch/types.go\<close>)
  and its tables (\<open>migrations/V48\<close>, \<open>V52\<close>). A row of \<open>scheduling_authority_switch_runs\<close> is the
  struct \<open>SwitchRun\<close> that reads it; a missing rollback reference is the empty string, as in the query
  that reads it through \<open>COALESCE\<close>. Columns no statement of the module reads are left out.

  Parameters (\<open>SwitchEnv\<close>): the access predicates of the tenant policies, the identifier and the time
  of a transaction, what the driver answers instead of running a statement (a lost connection, a
  text that is no UUID), and what the constraints not written out reject; they can only make a
  transaction fail.
\<close>

section \<open>Constants and errors\<close>

definition StatusPreviewReady :: string where [go_consts]: "StatusPreviewReady = ''preview_ready''"
definition StatusPreviewBlocked :: string where [go_consts]:
  "StatusPreviewBlocked = ''preview_blocked''"
definition status_committed :: string where [go_consts]: "status_committed = ''committed''"
definition TargetOwnerManual :: string where
  "TargetOwnerManual = SchedulingAuthorityOwnerManual"
definition TargetManleAICalendar :: string where
  "TargetManleAICalendar = SchedulingAuthorityManleAICalendar"
definition TargetExternalProvider :: string where
  "TargetExternalProvider = SchedulingAuthorityExternalProvider"

lemmas switch_targets = TargetOwnerManual_def TargetManleAICalendar_def TargetExternalProvider_def
  SchedulingAuthorityOwnerManual_def SchedulingAuthorityManleAICalendar_def
  SchedulingAuthorityExternalProvider_def

datatype switch_error =
    ErrSwitchValidation
  | ErrSwitchNotFound
  | ErrSwitchOperationConflict
  | ErrVersionConflict
  | ErrReadinessConflict
  | ErrLiveExecution
  | ErrStateConflict
  | Target_Error error
  | SwitchDatabaseError string

section \<open>Structs\<close>

record PreviewRequest =
  pvr_OperationKey :: string
  pvr_SourceSchedulingAuthority :: string
  pvr_TargetSchedulingAuthority :: string
  pvr_ExpectedSourceAuthorityVersion :: int
  pvr_RollbackOfSwitchRunID :: string

record ChangeRequest =
  cgr_TargetSchedulingAuthority :: string
  cgr_ExpectedAuthorityVersion :: int
  cgr_ActionKey :: string
  cgr_RollbackOfSwitchRunID :: string

record SwitchRun =
  swr_ID :: string
  swr_SalonID :: string
  swr_SourceSchedulingAuthority :: string
  swr_TargetSchedulingAuthority :: string
  swr_ExpectedSourceAuthorityVersion :: int
  swr_OperationKey :: string
  swr_ActorUserID :: string
  swr_RollbackOfSwitchRunID :: string
  swr_ReadinessSnapshot :: TargetReadiness
  swr_Blockers :: "TargetReadinessBlocker list"
  swr_Status :: string
  swr_PreviewedAt :: gotime
  swr_BlockedAt :: "gotime option"
  swr_CommittedAt :: "gotime option"
  swr_CreatedAt :: gotime
  swr_UpdatedAt :: gotime
  swr_PayloadFingerprint :: string

record PreviewResponse =
  prs_SwitchRun :: SwitchRun
  prs_Replayed :: bool

record authorityState =
  aus_Authority :: string
  aus_Version :: int

record persistPreviewInput =
  swp_SalonID :: string
  swp_OwnerUserID :: string
  swp_SourceSchedulingAuthority :: string
  swp_TargetSchedulingAuthority :: string
  swp_ExpectedSourceAuthorityVersion :: int
  swp_OperationKey :: string
  swp_PayloadFingerprint :: string
  swp_ReadinessSnapshot :: TargetReadiness
  swp_Blockers :: "TargetReadinessBlocker list"
  swp_Status :: string
  swp_RollbackOfSwitchRunID :: string

section \<open>Tables\<close>

text \<open>The payload of an event, a JSON object of its own for each type of event.\<close>

datatype switch_payload =
    Preview_Payload string string bool nat
  | Commit_Payload string string int int

record SwitchEvent =
  swe_SalonID :: string
  swe_SwitchRunID :: string
  swe_ActionKey :: string
  swe_ActionFingerprint :: string
  swe_EventType :: string
  swe_ActorUserID :: string
  swe_Payload :: switch_payload

record AuthoritySettings =
  swt_SalonID :: string
  swt_SchedulingAuthority :: string
  swt_SchedulingAuthorityVersion :: int
  swt_BookingMode :: string

record BookableService =
  sws_SalonID :: string
  sws_Active :: bool
  sws_AIBookable :: bool
  sws_ArchivedAt :: "gotime option"
  sws_DurationMinutes :: int

record ExternalAttempt =
  swb_SalonID :: string
  swb_SchedulingAuthority :: string
  swb_Status :: string
  swb_SupersededAt :: "gotime option"
  swb_ProviderOutcome :: string
  swb_ProcessingToken :: string
  swb_ProcessingLeaseExpiresAt :: "gotime option"

record ExternalSlotClaim =
  swx_SalonID :: string
  swx_ReleasedAt :: "gotime option"
  swx_State :: string

record CalendarConfigVersion =
  swc_SalonID :: string
  swc_Version :: int
  swc_ActivatedVersion :: "int option"

record SwitchDB =
  swd_Settings :: "AuthoritySettings list"
  swd_Services :: "BookableService list"
  swd_Attempts :: "ExternalAttempt list"
  swd_Claims :: "ExternalSlotClaim list"
  swd_Configs :: "CalendarConfigVersion list"
  swd_Runs :: "SwitchRun list"
  swd_Events :: "SwitchEvent list"

record SwitchEnv =
  swn_Member :: "string \<Rightarrow> string \<Rightarrow> bool"
  swn_Capability :: "string \<Rightarrow> string \<Rightarrow> string \<Rightarrow> bool"
  swn_MayAct :: "string \<Rightarrow> string \<Rightarrow> bool"
  swn_UUID :: string
  swn_Now :: gotime
  swn_Refused :: "string list \<Rightarrow> string option"
  swn_Guards :: "SwitchDB \<Rightarrow> SwitchDB \<Rightarrow> string option"

record commitInput =
  swm_SalonID :: string
  swm_OwnerUserID :: string
  swm_RunID :: string
  swm_ActionKey :: string
  swm_ActionFingerprint :: string
  swm_ExpectedReadiness :: TargetReadiness
  swm_ValidateTargetReadiness :: "(SwitchDB \<Rightarrow> switch_error option) option"

end
