(* ===== verification/Switch_Repository.thy ===== *)
theory Switch_Repository
  imports Switch_Types
begin

text \<open>
  The transactions of the scheduling authority switch
  (\<open>modules/scheduling_authority_switch/repository.go\<close>) with the triggers of \<open>migrations/V48\<close>, \<open>V52\<close>
  and \<open>V89\<close>. A preview is a run with the readiness of the target at that time; a commit changes the
  authority of the salon and marks the run. Commits of a salon hold its advisory lock and the row of
  its settings, so whole transactions are the steps of the system.
\<close>

section \<open>Reading\<close>

definition may_write_technical :: "SwitchEnv \<Rightarrow> string \<Rightarrow> string \<Rightarrow> bool" where
  "may_write_technical env salonID userID \<longleftrightarrow>
     swn_Member env salonID userID \<or> swn_Capability env salonID userID ''technical.write''"

definition may_read_technical :: "SwitchEnv \<Rightarrow> string \<Rightarrow> string \<Rightarrow> bool" where
  "may_read_technical env salonID userID \<longleftrightarrow>
     swn_Member env salonID userID \<or> swn_Capability env salonID userID ''technical.read''"

text \<open>A query, which the driver may refuse, for one row of a list.\<close>

definition query_row ::
  "SwitchEnv \<Rightarrow> string list \<Rightarrow> 'a option \<Rightarrow> switch_error + 'a" where
  "query_row env arguments row =
     (case swn_Refused env arguments of
        Some e \<Rightarrow> Inl (SwitchDatabaseError e)
      | None \<Rightarrow> (case row of None \<Rightarrow> Inl ErrSwitchNotFound | Some x \<Rightarrow> Inr x))"

definition FindByOperationKey ::
  "SwitchEnv \<Rightarrow> string \<Rightarrow> string \<Rightarrow> string \<Rightarrow> SwitchDB \<Rightarrow> switch_error + SwitchRun" where
  "FindByOperationKey env salonID ownerUserID operationKey db =
     query_row env [ownerUserID]
       (find (\<lambda>run. swr_SalonID run = salonID \<and> may_write_technical env (swr_SalonID run) ownerUserID
             \<and> swr_OperationKey run = operationKey) (swd_Runs db))"

definition CurrentAuthority ::
  "SwitchEnv \<Rightarrow> string \<Rightarrow> string \<Rightarrow> SwitchDB \<Rightarrow> switch_error + authorityState" where
  "CurrentAuthority env salonID ownerUserID db =
     query_row env [ownerUserID]
       (map_option (\<lambda>settings. \<lparr>aus_Authority = swt_SchedulingAuthority settings,
             aus_Version = swt_SchedulingAuthorityVersion settings\<rparr>)
          (find (\<lambda>settings. swt_SalonID settings = salonID
             \<and> may_write_technical env (swt_SalonID settings) ownerUserID) (swd_Settings db)))"

definition eligible_service :: "BookableService \<Rightarrow> bool" where
  "eligible_service service \<longleftrightarrow>
     sws_Active service \<and> sws_AIBookable service \<and> sws_ArchivedAt service = None
     \<and> 0 < sws_DurationMinutes service"

definition EligibleServiceCount ::
  "SwitchEnv \<Rightarrow> string \<Rightarrow> string \<Rightarrow> SwitchDB \<Rightarrow> switch_error + int" where
  "EligibleServiceCount env salonID ownerUserID db =
     query_row env [ownerUserID]
       (Some (int (length (filter (\<lambda>service. sws_SalonID service = salonID
          \<and> may_write_technical env (sws_SalonID service) ownerUserID \<and> eligible_service service)
          (swd_Services db)))))"

definition BookingMode_of ::
  "SwitchEnv \<Rightarrow> string \<Rightarrow> string \<Rightarrow> SwitchDB \<Rightarrow> switch_error + string" where
  "BookingMode_of env salonID ownerUserID db =
     query_row env [ownerUserID]
       (map_option swt_BookingMode
          (find (\<lambda>settings. swt_SalonID settings = salonID
             \<and> may_write_technical env (swt_SalonID settings) ownerUserID) (swd_Settings db)))"

definition Latest_run ::
  "SwitchEnv \<Rightarrow> string \<Rightarrow> string \<Rightarrow> SwitchDB \<Rightarrow> switch_error + SwitchRun" where
  "Latest_run env salonID ownerUserID db =
     query_row env [ownerUserID]
       (case rev (sort_key (\<lambda>run. (swr_CreatedAt run, swr_ID run))
               (filter (\<lambda>run. swr_SalonID run = salonID
                  \<and> may_read_technical env (swr_SalonID run) ownerUserID) (swd_Runs db))) of
          [] \<Rightarrow> None
        | run # _ \<Rightarrow> Some run)"

definition Get_run ::
  "SwitchEnv \<Rightarrow> string \<Rightarrow> string \<Rightarrow> string \<Rightarrow> SwitchDB \<Rightarrow> switch_error + SwitchRun" where
  "Get_run env salonID ownerUserID runID db =
     query_row env [ownerUserID]
       (find (\<lambda>run. swr_SalonID run = salonID \<and> may_read_technical env (swr_SalonID run) ownerUserID
             \<and> swr_ID run = runID) (swd_Runs db))"

definition getSwitchRunTx ::
  "SwitchEnv \<Rightarrow> string \<Rightarrow> string \<Rightarrow> string \<Rightarrow> SwitchDB \<Rightarrow> switch_error + SwitchRun" where
  "getSwitchRunTx env salonID ownerUserID runID db =
     query_row env [ownerUserID]
       (find (\<lambda>run. swr_SalonID run = salonID \<and> may_write_technical env (swr_SalonID run) ownerUserID
             \<and> swr_ID run = runID) (swd_Runs db))"

definition commit_event :: "string \<Rightarrow> string \<Rightarrow> SwitchDB \<Rightarrow> SwitchEvent option" where
  "commit_event runID actionKey db =
     find (\<lambda>event. swe_SwitchRunID event = runID \<and> swe_ActionKey event = actionKey
        \<and> swe_EventType event = ''commit'') (swd_Events db)"

definition ReplayCommit ::
  "SwitchEnv \<Rightarrow> string \<Rightarrow> string \<Rightarrow> string \<Rightarrow> string \<Rightarrow> string \<Rightarrow> SwitchDB
     \<Rightarrow> switch_error + SwitchRun option" where
  "ReplayCommit env salonID ownerUserID runID actionKey actionFingerprint db =
     (case query_row env [ownerUserID]
        (find (\<lambda>event. swe_SwitchRunID event = runID \<and> swe_SalonID event = salonID
            \<and> list_ex (\<lambda>run. swr_ID run = runID \<and> swr_SalonID run = salonID) (swd_Runs db)
            \<and> may_write_technical env salonID ownerUserID
            \<and> swe_ActionKey event = actionKey \<and> swe_EventType event = ''commit'') (swd_Events db)) of
        Inl ErrSwitchNotFound \<Rightarrow> Inr None
      | Inl e \<Rightarrow> Inl e
      | Inr event \<Rightarrow>
          if swe_ActionFingerprint event \<noteq> actionFingerprint then Inl ErrSwitchOperationConflict
          else map_sum id Some (Get_run env salonID ownerUserID runID db))"

section \<open>Constraints\<close>

definition rollback_state_guard :: string where
  "rollback_state_guard = ''scheduling_authority_switch_runs_rollback_state_guard''"

definition rollback_tenant_fk :: string where
  "rollback_tenant_fk = ''scheduling_authority_switch_runs_rollback_tenant_fk''"

definition events_action_key :: string where
  "events_action_key = ''scheduling_authority_switch_events_action_key''"

definition classifySwitchConstraint :: "switch_error \<Rightarrow> switch_error" where
  "classifySwitchConstraint err =
     (if err = SwitchDatabaseError rollback_state_guard \<or> err = SwitchDatabaseError rollback_tenant_fk
      then ErrStateConflict else err)"

text \<open>The run a rollback refers to, by the composite foreign key of \<open>migrations/V52\<close>.\<close>

definition prior_run :: "string \<Rightarrow> string \<Rightarrow> SwitchDB \<Rightarrow> SwitchRun option" where
  "prior_run salonID runID db =
     find (\<lambda>run. swr_SalonID run = salonID \<and> swr_ID run = runID) (swd_Runs db)"

text \<open>The trigger \<open>enforce_scheduling_authority_switch_run_state\<close> of \<open>migrations/V52\<close> on an INSERT.\<close>

definition enforce_scheduling_authority_switch_run_state ::
  "SwitchRun \<Rightarrow> SwitchDB \<Rightarrow> string option" where
  "enforce_scheduling_authority_switch_run_state run db =
     (if swr_Status run \<noteq> StatusPreviewReady \<and> swr_Status run \<noteq> StatusPreviewBlocked
      then Some ''scheduling_authority_switch_runs_initial_preview_guard''
      else if swr_RollbackOfSwitchRunID run = [] then None
      else
        case prior_run (swr_SalonID run) (swr_RollbackOfSwitchRunID run) db of
          None \<Rightarrow> None
        | Some prior \<Rightarrow>
            if swr_Status prior \<noteq> status_committed
               \<or> swr_SourceSchedulingAuthority prior \<noteq> swr_TargetSchedulingAuthority run
               \<or> swr_TargetSchedulingAuthority prior \<noteq> swr_SourceSchedulingAuthority run
            then Some rollback_state_guard else None)"

definition authority_check :: "string \<Rightarrow> bool" where
  "authority_check authority \<longleftrightarrow>
     authority \<in> {TargetOwnerManual, TargetManleAICalendar, TargetExternalProvider}"

text \<open>The CHECK and UNIQUE constraints of the table and its actor trigger (\<open>migrations/V89\<close>).\<close>

definition run_rejected :: "SwitchEnv \<Rightarrow> SwitchRun \<Rightarrow> SwitchDB \<Rightarrow> string option" where
  "run_rejected env run db =
     (if \<not> swn_MayAct env (swr_SalonID run) (swr_ActorUserID run)
      then Some ''scheduling_authority_switch_runs_actor_guard''
      else
        case enforce_scheduling_authority_switch_run_state run db of
          Some e \<Rightarrow> Some e
        | None \<Rightarrow>
            if \<not> authority_check (swr_SourceSchedulingAuthority run)
            then Some ''scheduling_authority_switch_runs_source_authority_check''
            else if \<not> authority_check (swr_TargetSchedulingAuthority run)
            then Some ''scheduling_authority_switch_runs_target_authority_check''
            else if swr_SourceSchedulingAuthority run = swr_TargetSchedulingAuthority run
            then Some ''scheduling_authority_switch_runs_authorities_differ_check''
            else if swr_ExpectedSourceAuthorityVersion run < 1
            then Some ''scheduling_authority_switch_runs_expected_source_version_check''
            else if (swr_Status run = StatusPreviewReady) \<noteq> (swr_Blockers run = [])
            then Some ''scheduling_authority_switch_runs_status_timestamps_check''
            else if swr_RollbackOfSwitchRunID run = swr_ID run
            then Some ''scheduling_authority_switch_runs_rollback_not_self_check''
            else if list_ex (\<lambda>other. swr_ID other = swr_ID run) (swd_Runs db)
            then Some ''scheduling_authority_switch_runs_pkey''
            else if list_ex (\<lambda>other. swr_SalonID other = swr_SalonID run
                \<and> swr_OperationKey other = swr_OperationKey run) (swd_Runs db)
            then Some ''scheduling_authority_switch_runs_salon_operation_key''
            else None)"

text \<open>The triggers on an inserted event (\<open>migrations/V89\<close>) and its UNIQUE constraint (\<open>V52\<close>).\<close>

definition event_rejected :: "SwitchEnv \<Rightarrow> SwitchEvent \<Rightarrow> SwitchDB \<Rightarrow> string option" where
  "event_rejected env event db =
     (case prior_run (swe_SalonID event) (swe_SwitchRunID event) db of
        None \<Rightarrow> Some ''scheduling_authority_switch_events_actor_guard''
      | Some run \<Rightarrow>
          if \<not> swn_MayAct env (swe_SalonID event) (swe_ActorUserID event)
          then Some ''scheduling_authority_switch_events_actor_guard''
          else if \<not> (swe_EventType event = ''preview''
                 \<and> swr_Status run \<in> {StatusPreviewReady, StatusPreviewBlocked}
               \<or> swe_EventType event = ''commit'' \<and> swr_Status run = status_committed
               \<or> swe_EventType event = ''fail'' \<and> swr_Status run = ''failed'')
          then Some ''scheduling_authority_switch_events_state_guard''
          else if list_ex (\<lambda>other. swe_SwitchRunID other = swe_SwitchRunID event
              \<and> swe_ActionKey other = swe_ActionKey event) (swd_Events db)
          then Some events_action_key
          else None)"

text \<open>COMMIT, which checks the deferred foreign key of the rollback references of the inserted runs.\<close>

definition commit_switch ::
  "SwitchEnv \<Rightarrow> SwitchRun list \<Rightarrow> SwitchDB \<Rightarrow> SwitchDB \<Rightarrow> 'a \<Rightarrow> (switch_error + 'a) \<times> SwitchDB" where
  "commit_switch env inserted db db' result =
     (if list_ex (\<lambda>run. swr_RollbackOfSwitchRunID run \<noteq> []
           \<and> prior_run (swr_SalonID run) (swr_RollbackOfSwitchRunID run) db' = None) inserted
      then (Inl (SwitchDatabaseError rollback_tenant_fk), db)
      else
        case swn_Guards env db db' of
          Some e \<Rightarrow> (Inl (SwitchDatabaseError e), db)
        | None \<Rightarrow> (Inr result, db'))"

section \<open>Previews\<close>

text \<open>What survives \<open>json.Marshal\<close> and \<open>json.Unmarshal\<close>: the blockers are not part of the JSON.\<close>

definition readiness_json :: "TargetReadiness \<Rightarrow> TargetReadiness" where
  "readiness_json readiness =
     readiness\<lparr>tr_Blockers := [], tr_AvailabilityBlockers := [], tr_ExecutionBlockers := []\<rparr>"

definition preview_run :: "SwitchEnv \<Rightarrow> persistPreviewInput \<Rightarrow> SwitchRun" where
  "preview_run env input =
     \<lparr>swr_ID = swn_UUID env, swr_SalonID = swp_SalonID input,
      swr_SourceSchedulingAuthority = swp_SourceSchedulingAuthority input,
      swr_TargetSchedulingAuthority = swp_TargetSchedulingAuthority input,
      swr_ExpectedSourceAuthorityVersion = swp_ExpectedSourceAuthorityVersion input,
      swr_OperationKey = swp_OperationKey input, swr_ActorUserID = swp_OwnerUserID input,
      swr_RollbackOfSwitchRunID = swp_RollbackOfSwitchRunID input,
      swr_ReadinessSnapshot = readiness_json (swp_ReadinessSnapshot input),
      swr_Blockers = swp_Blockers input, swr_Status = swp_Status input,
      swr_PreviewedAt = swn_Now env,
      swr_BlockedAt = (if swp_Status input = StatusPreviewBlocked then Some (swn_Now env) else None),
      swr_CommittedAt = None, swr_CreatedAt = swn_Now env, swr_UpdatedAt = swn_Now env,
      swr_PayloadFingerprint = swp_PayloadFingerprint input\<rparr>"

definition preview_event :: "persistPreviewInput \<Rightarrow> string \<Rightarrow> SwitchEvent" where
  "preview_event input runID =
     \<lparr>swe_SalonID = swp_SalonID input, swe_SwitchRunID = runID,
      swe_ActionKey = swp_OperationKey input,
      swe_ActionFingerprint = swp_PayloadFingerprint input, swe_EventType = ''preview'',
      swe_ActorUserID = swp_OwnerUserID input,
      swe_Payload = Preview_Payload (swp_Status input) (swp_TargetSchedulingAuthority input)
        (tr_Ready (swp_ReadinessSnapshot input)) (length (swp_Blockers input))\<rparr>"

definition insert_preview ::
  "SwitchEnv \<Rightarrow> persistPreviewInput \<Rightarrow> SwitchDB \<Rightarrow> (switch_error + SwitchRun \<times> bool) \<times> SwitchDB" where
  "insert_preview env input db =
     (let run = preview_run env input;
          db1 = db\<lparr>swd_Runs := swd_Runs db @ [run]\<rparr>;
          event = preview_event input (swr_ID run);
          db2 = db1\<lparr>swd_Events := swd_Events db1 @ [event]\<rparr>
      in case run_rejected env run db of
           Some e \<Rightarrow> (Inl (classifySwitchConstraint (SwitchDatabaseError e)), db)
         | None \<Rightarrow>
             (case event_rejected env event db1 of
                Some e \<Rightarrow> (Inl (classifySwitchConstraint (SwitchDatabaseError e)), db)
              | None \<Rightarrow>
                  (case getSwitchRunTx env (swp_SalonID input) (swp_OwnerUserID input) (swr_ID run)
                          db2 of
                     Inl e \<Rightarrow> (Inl e, db)
                   | Inr stored \<Rightarrow>
                       map_prod (map_sum classifySwitchConstraint id) id
                         (commit_switch env [run] db db2 (stored, False)))))"

definition CreateOrReplayPreview ::
  "SwitchEnv \<Rightarrow> persistPreviewInput \<Rightarrow> SwitchDB \<Rightarrow> (switch_error + SwitchRun \<times> bool) \<times> SwitchDB" where
  "CreateOrReplayPreview env input db =
     (case FindByOperationKey env (swp_SalonID input) (swp_OwnerUserID input)
             (swp_OperationKey input) db of
        Inr existing \<Rightarrow>
          if swr_PayloadFingerprint existing \<noteq> swp_PayloadFingerprint input
          then (Inl ErrSwitchOperationConflict, db)
          else commit_switch env [] db db (existing, True)
      | Inl ErrSwitchNotFound \<Rightarrow>
          (case CurrentAuthority env (swp_SalonID input) (swp_OwnerUserID input) db of
             Inl e \<Rightarrow> (Inl (classifySwitchConstraint e), db)
           | Inr current \<Rightarrow>
               if aus_Authority current \<noteq> swp_SourceSchedulingAuthority input
                  \<or> aus_Version current \<noteq> swp_ExpectedSourceAuthorityVersion input
               then (Inl ErrVersionConflict, db)
               else insert_preview env input db)
      | Inl e \<Rightarrow> (Inl e, db))"

section \<open>Commits\<close>

text \<open>The fence \<open>validateTargetReadinessFenceTx\<close> on the rows the transaction has locked.\<close>

definition validateTargetReadinessFenceTx ::
  "string \<Rightarrow> string \<Rightarrow> TargetReadiness \<Rightarrow> SwitchDB \<Rightarrow> switch_error option" where
  "validateTargetReadinessFenceTx target salonID expected db =
     (if target = TargetOwnerManual then
        (case find (\<lambda>settings. swt_SalonID settings = salonID) (swd_Settings db) of
           None \<Rightarrow> Some (SwitchDatabaseError ''sql: no rows in result set'')
         | Some settings \<Rightarrow>
             if swt_BookingMode settings \<noteq> ''pending_approval'' \<and> swt_BookingMode settings \<noteq> ''disabled''
             then Some ErrReadinessConflict
             else
               let count = int (length (filter (\<lambda>service. sws_SalonID service = salonID
                     \<and> eligible_service service) (swd_Services db)))
               in if count \<noteq> tr_EligibleServiceCount expected \<or> count = 0
                  then Some ErrReadinessConflict else None)
      else if target = TargetManleAICalendar then
        (case find (\<lambda>config. swc_SalonID config = salonID) (swd_Configs db) of
           None \<Rightarrow> Some ErrReadinessConflict
         | Some config \<Rightarrow>
             if swc_ActivatedVersion config = None
                \<or> swc_Version config \<noteq> tr_ConfigVersion expected
                \<or> swc_ActivatedVersion config \<noteq> Some (swc_Version config)
             then Some ErrReadinessConflict else None)
      else None)"

text \<open>A provider call that may still have an outcome.\<close>

definition live_attempt :: "string \<Rightarrow> ExternalAttempt \<Rightarrow> bool" where
  "live_attempt salonID attempt \<longleftrightarrow>
     swb_SalonID attempt = salonID
     \<and> swb_SchedulingAuthority attempt = ''external_provider''
     \<and> swb_Status attempt = ''pos_pending'' \<and> swb_SupersededAt attempt = None
     \<and> swb_ProviderOutcome attempt \<in> {''not_started'', ''in_flight''}
     \<and> (dropWhile (\<lambda>c. c = CHR '' '') (swb_ProcessingToken attempt) \<noteq> []
        \<or> swb_ProcessingLeaseExpiresAt attempt \<noteq> None)"

definition live_claim :: "string \<Rightarrow> ExternalSlotClaim \<Rightarrow> bool" where
  "live_claim salonID claim \<longleftrightarrow>
     swx_SalonID claim = salonID \<and> swx_ReleasedAt claim = None
     \<and> swx_State claim \<in> {''claimed_pre_dispatch'', ''dispatch_started'', ''dispatched_unknown'',
                           ''reconciliation_required''}"

definition live_external :: "string \<Rightarrow> SwitchDB \<Rightarrow> bool" where
  "live_external salonID db \<longleftrightarrow>
     list_ex (live_attempt salonID) (swd_Attempts db) \<or> list_ex (live_claim salonID) (swd_Claims db)"

text \<open>The trigger \<open>enforce_scheduling_authority_version\<close> of \<open>migrations/V48\<close> on the new row.\<close>

definition enforce_scheduling_authority_version ::
  "AuthoritySettings \<Rightarrow> AuthoritySettings \<Rightarrow> AuthoritySettings" where
  "enforce_scheduling_authority_version old new =
     (if swt_SchedulingAuthority old \<noteq> swt_SchedulingAuthority new
      then new\<lparr>swt_SchedulingAuthorityVersion := swt_SchedulingAuthorityVersion old + 1\<rparr>
      else new)"

definition set_authority :: "string \<Rightarrow> string \<Rightarrow> SwitchDB \<Rightarrow> SwitchDB" where
  "set_authority salonID target db =
     db\<lparr>swd_Settings := map (\<lambda>settings. if swt_SalonID settings = salonID
         then enforce_scheduling_authority_version settings
                (settings\<lparr>swt_SchedulingAuthority := target\<rparr>)
         else settings) (swd_Settings db)\<rparr>"

definition mark_committed :: "gotime \<Rightarrow> string \<Rightarrow> SwitchDB \<Rightarrow> SwitchDB" where
  "mark_committed now runID db =
     db\<lparr>swd_Runs := map (\<lambda>run. if swr_ID run = runID
         then run\<lparr>swr_Status := status_committed, swr_CommittedAt := Some now,
                  swr_UpdatedAt := now\<rparr>
         else run) (swd_Runs db)\<rparr>"

definition committed_event :: "commitInput \<Rightarrow> SwitchRun \<Rightarrow> SwitchEvent" where
  "committed_event input run =
     \<lparr>swe_SalonID = swm_SalonID input, swe_SwitchRunID = swm_RunID input,
      swe_ActionKey = swm_ActionKey input, swe_ActionFingerprint = swm_ActionFingerprint input,
      swe_EventType = ''commit'', swe_ActorUserID = swm_OwnerUserID input,
      swe_Payload = Commit_Payload (swr_SourceSchedulingAuthority run)
        (swr_TargetSchedulingAuthority run) (swr_ExpectedSourceAuthorityVersion run)
        (swr_ExpectedSourceAuthorityVersion run + 1)\<rparr>"

definition target_readiness_check :: "commitInput \<Rightarrow> SwitchRun \<Rightarrow> SwitchDB \<Rightarrow> switch_error option" where
  "target_readiness_check input run db =
     (case swm_ValidateTargetReadiness input of
        Some validate \<Rightarrow> validate db
      | None \<Rightarrow> validateTargetReadinessFenceTx (swr_TargetSchedulingAuthority run)
                  (swm_SalonID input) (swm_ExpectedReadiness input) db)"

definition apply_switch ::
  "SwitchEnv \<Rightarrow> commitInput \<Rightarrow> SwitchRun \<Rightarrow> SwitchDB \<Rightarrow> (switch_error + SwitchRun \<times> bool) \<times> SwitchDB" where
  "apply_switch env input run db =
     (let db1 = set_authority (swm_SalonID input) (swr_TargetSchedulingAuthority run) db;
          db2 = mark_committed (swn_Now env) (swm_RunID input) db1;
          event = committed_event input run;
          db3 = db2\<lparr>swd_Events := swd_Events db2 @ [event]\<rparr>
      in case event_rejected env event db2 of
           Some e \<Rightarrow> (Inl (SwitchDatabaseError e), db)
         | None \<Rightarrow>
             (case getSwitchRunTx env (swm_SalonID input) (swm_OwnerUserID input) (swm_RunID input)
                     db3 of
                Inl e \<Rightarrow> (Inl e, db)
              | Inr committed \<Rightarrow> commit_switch env [] db db3 (committed, False)))"

definition Commit_run ::
  "SwitchEnv \<Rightarrow> commitInput \<Rightarrow> SwitchDB \<Rightarrow> (switch_error + SwitchRun \<times> bool) \<times> SwitchDB" where
  "Commit_run env input db =
     (case getSwitchRunTx env (swm_SalonID input) (swm_OwnerUserID input) (swm_RunID input) db of
        Inl e \<Rightarrow> (Inl e, db)
      | Inr run \<Rightarrow>
          (case commit_event (swm_RunID input) (swm_ActionKey input) db of
             Some event \<Rightarrow>
               if swe_ActionFingerprint event \<noteq> swm_ActionFingerprint input
               then (Inl ErrSwitchOperationConflict, db)
               else commit_switch env [] db db (run, True)
           | None \<Rightarrow>
               if swr_Status run \<noteq> StatusPreviewReady then (Inl ErrStateConflict, db)
               else
                 (case CurrentAuthority env (swm_SalonID input) (swm_OwnerUserID input) db of
                    Inl e \<Rightarrow> (Inl e, db)
                  | Inr current \<Rightarrow>
                      if aus_Authority current \<noteq> swr_SourceSchedulingAuthority run
                         \<or> aus_Version current \<noteq> swr_ExpectedSourceAuthorityVersion run
                      then (Inl ErrVersionConflict, db)
                      else if live_external (swm_SalonID input) db
                      then (Inl ErrLiveExecution, db)
                      else
                        (case target_readiness_check input run db of
                           Some e \<Rightarrow> (Inl e, db)
                         | None \<Rightarrow> apply_switch env input run db))))"

end
