(* ===== verification/Switch_Service.thy ===== *)
theory Switch_Service
  imports Switch_Repository Calendar_Config
begin

text \<open>
  What an operator calls to change the scheduling authority of a salon
  (\<open>modules/scheduling_authority_switch/service.go\<close>): a preview with evidence that the target is
  ready, its commit, and both as one command. An operation makes several calls of the store. Call
  number \<open>k\<close> runs under \<open>swq_Env k\<close>, after the transactions of others that \<open>swq_Others k\<close> applies; the
  state of an operation is the database and the number of the next call.

  The readiness of the internal calendar and of the external provider, SHA-256 and JSON are
  parameters; \<open>swq_ExternalTx\<close> is \<open>None\<close> where the provider has no transactional proof.
\<close>

section \<open>Calls\<close>

record SwitchProgram =
  swq_Env :: "nat \<Rightarrow> SwitchEnv"
  swq_Others :: "nat \<Rightarrow> SwitchDB \<Rightarrow> SwitchDB"
  swq_Calendar :: "(nat \<Rightarrow> string \<Rightarrow> string \<Rightarrow> error + TargetReadiness) option"
  swq_External :: "(nat \<Rightarrow> string \<Rightarrow> string \<Rightarrow> error + TargetReadiness) option"
  swq_ExternalTx :: "(nat \<Rightarrow> string \<Rightarrow> string \<Rightarrow> error + TargetReadiness) option"
  swq_OwnerManualRegistered :: bool
  swq_SHA256 :: "string \<Rightarrow> string"
  swq_PreviewJSON :: "PreviewRequest \<Rightarrow> string"
  swq_CommitJSON :: "string \<Rightarrow> string \<Rightarrow> string"

type_synonym switch_state = "SwitchDB \<times> nat"
type_synonym 'a switch_call = "switch_state \<Rightarrow> (switch_error + 'a) \<times> switch_state"

definition switch_call ::
  "SwitchProgram \<Rightarrow> (SwitchEnv \<Rightarrow> SwitchDB \<Rightarrow> (switch_error + 'a) \<times> SwitchDB) \<Rightarrow> 'a switch_call" where
  "switch_call p f st =
     (case f (swq_Env p (snd st)) (swq_Others p (snd st) (fst st)) of
        (r, db) \<Rightarrow> (r, db, Suc (snd st)))"

definition switch_query ::
  "SwitchProgram \<Rightarrow> (SwitchEnv \<Rightarrow> SwitchDB \<Rightarrow> switch_error + 'a) \<Rightarrow> 'a switch_call" where
  "switch_query p f = switch_call p (\<lambda>env db. (f env db, db))"

definition switch_fail :: "switch_error \<Rightarrow> 'a switch_call" where
  "switch_fail e st = (Inl e, st)"

definition switch_return :: "'a \<Rightarrow> 'a switch_call" where
  "switch_return x st = (Inr x, st)"

definition switch_bind :: "'a switch_call \<Rightarrow> ('a \<Rightarrow> 'b switch_call) \<Rightarrow> 'b switch_call" where
  "switch_bind m f st = (case m st of (Inl e, st') \<Rightarrow> (Inl e, st') | (Inr x, st') \<Rightarrow> f x st')"

text \<open>A lookup whose absence is not an error.\<close>

definition switch_lookup :: "'a switch_call \<Rightarrow> 'a option switch_call" where
  "switch_lookup m st =
     (case m st of
        (Inl ErrSwitchNotFound, st') \<Rightarrow> (Inr None, st')
      | (Inl e, st') \<Rightarrow> (Inl e, st')
      | (Inr x, st') \<Rightarrow> (Inr (Some x), st'))"

section \<open>Validation and fingerprints\<close>

definition maxOperationKeyBytes :: nat where "maxOperationKeyBytes = 256"

definition validAuthority :: "string \<Rightarrow> bool" where
  "validAuthority authority \<longleftrightarrow>
     authority = TargetOwnerManual \<or> authority = TargetManleAICalendar
     \<or> authority = TargetExternalProvider"

definition normalizePreviewRequest :: "PreviewRequest \<Rightarrow> PreviewRequest" where
  "normalizePreviewRequest req =
     req\<lparr>pvr_OperationKey := TrimSpace (pvr_OperationKey req),
         pvr_SourceSchedulingAuthority := TrimSpace (pvr_SourceSchedulingAuthority req),
         pvr_TargetSchedulingAuthority := TrimSpace (pvr_TargetSchedulingAuthority req),
         pvr_RollbackOfSwitchRunID := TrimSpace (pvr_RollbackOfSwitchRunID req)\<rparr>"

definition validPreviewRequest :: "string \<Rightarrow> string \<Rightarrow> PreviewRequest \<Rightarrow> bool" where
  "validPreviewRequest salonID ownerUserID req \<longleftrightarrow>
     TrimSpace salonID \<noteq> [] \<and> TrimSpace ownerUserID \<noteq> [] \<and> pvr_OperationKey req \<noteq> []
     \<and> length (pvr_OperationKey req) \<le> maxOperationKeyBytes
     \<and> 0 < pvr_ExpectedSourceAuthorityVersion req
     \<and> validAuthority (pvr_SourceSchedulingAuthority req)
     \<and> validAuthority (pvr_TargetSchedulingAuthority req)
     \<and> pvr_SourceSchedulingAuthority req \<noteq> pvr_TargetSchedulingAuthority req"

definition previewFingerprint :: "SwitchProgram \<Rightarrow> PreviewRequest \<Rightarrow> string" where
  "previewFingerprint p req = swq_SHA256 p (swq_PreviewJSON p req)"

definition commitFingerprint :: "SwitchProgram \<Rightarrow> string \<Rightarrow> string \<Rightarrow> string" where
  "commitFingerprint p runID actionKey = swq_SHA256 p (swq_CommitJSON p runID actionKey)"

definition changeOperationKey :: "SwitchProgram \<Rightarrow> string \<Rightarrow> string" where
  "changeOperationKey p actionKey = ''v2-authority-change:'' @ swq_SHA256 p (TrimSpace actionKey)"

definition sameReadinessEvidence :: "TargetReadiness \<Rightarrow> TargetReadiness \<Rightarrow> bool" where
  "sameReadinessEvidence expected actual \<longleftrightarrow>
     tr_Ready expected \<and> tr_Ready actual \<and> 0 < tr_ReadinessEvidenceVersion expected
     \<and> tr_ReadinessEvidenceVersion expected = tr_ReadinessEvidenceVersion actual
     \<and> length (tr_ReadinessEvidenceFingerprint expected) = 64
     \<and> length (tr_ReadinessEvidenceFingerprint actual) = 64
     \<and> tr_ReadinessEvidenceFingerprint expected = tr_ReadinessEvidenceFingerprint actual"

section \<open>Readiness of the target\<close>

definition empty_readiness :: "string \<Rightarrow> int \<Rightarrow> TargetReadiness" where
  "empty_readiness target authorityVersion =
     \<lparr>tr_TargetSchedulingAuthority = target, tr_Ready = False, tr_AvailabilityReady = False,
      tr_ExecutionReady = False, tr_AuthorityVersion = authorityVersion,
      tr_ReadinessEvidenceVersion = 0, tr_ReadinessEvidenceFingerprint = [], tr_ConfigVersion = 0,
      tr_EligibleServiceCount = 0, tr_ServiceCount = 0, tr_StaffCount = 0,
      tr_BusinessHourPeriodCount = 0, tr_Checks = [], tr_Blockers = [],
      tr_AvailabilityBlockers = [], tr_ExecutionBlockers = []\<rparr>"

text \<open>The closure \<open>add\<close>, on the snapshot and its blockers.\<close>

definition add_check ::
  "string \<Rightarrow> bool \<Rightarrow> string \<Rightarrow> string \<Rightarrow> TargetReadiness \<times> TargetReadinessBlocker list
     \<Rightarrow> TargetReadiness \<times> TargetReadinessBlocker list" where
  "add_check code ready scope message = (\<lambda>(snapshot, blockers).
     (snapshot\<lparr>tr_Checks := tr_Checks snapshot
        @ [\<lparr>trc_Code = code, trc_Ready = ready, trc_Scope = scope, trc_EntityID = []\<rparr>]\<rparr>,
      if ready then blockers
      else blockers @ [\<lparr>trb_Code = code, trb_Scope = scope, trb_EntityID = [],
                         trb_Message = message\<rparr>]))"

definition finish_target ::
  "string \<Rightarrow> int \<Rightarrow> TargetReadiness \<times> TargetReadinessBlocker list
     \<Rightarrow> TargetReadiness \<times> TargetReadinessBlocker list" where
  "finish_target target authorityVersion = (\<lambda>(snapshot, blockers).
     (snapshot\<lparr>tr_TargetSchedulingAuthority := target, tr_AuthorityVersion := authorityVersion,
               tr_Blockers := [], tr_Ready := (blockers = [])\<rparr>, blockers))"

definition owner_target ::
  "bool \<Rightarrow> int \<Rightarrow> int \<Rightarrow> string \<Rightarrow> TargetReadiness \<times> TargetReadinessBlocker list" where
  "owner_target registered authorityVersion eligible bookingMode =
     add_check ''BOOKING_MODE_COMPATIBLE''
       (bookingMode = ''pending_approval'' \<or> bookingMode = ''disabled'') ''settings''
       ''Owner manual scheduling requires pending approval or disabled booking mode.''
       (add_check ''ELIGIBLE_SERVICE_REQUIRED'' (0 < eligible) ''service''
         ''Add at least one active, AI-bookable service with a positive duration.''
         (add_check ''OWNER_MANUAL_EXECUTOR_REGISTERED'' registered ''executor''
           ''The owner-review scheduling executor is not registered.''
           ((empty_readiness TargetOwnerManual authorityVersion)\<lparr>tr_EligibleServiceCount := eligible\<rparr>,
            [])))"

text \<open>The readiness another module reports, or one blocker when the module is not there.\<close>

definition module_target ::
  "string \<Rightarrow> string \<Rightarrow> string \<Rightarrow> int
     \<Rightarrow> (nat \<Rightarrow> string \<Rightarrow> string \<Rightarrow> error + TargetReadiness) option \<Rightarrow> string \<Rightarrow> string
     \<Rightarrow> (TargetReadiness \<times> TargetReadinessBlocker list) switch_call" where
  "module_target code message target authorityVersion module salonID ownerUserID = (\<lambda>(db, k).
     (case module of
        None \<Rightarrow> (Inr (add_check code False ''executor'' message
                       (empty_readiness target authorityVersion, [])), (db, k))
      | Some readiness \<Rightarrow>
          (case readiness k salonID ownerUserID of
             Inl e \<Rightarrow> (Inl (Target_Error e), (db, Suc k))
           | Inr snapshot \<Rightarrow> (Inr (snapshot, tr_Blockers snapshot), (db, Suc k)))))"

definition evaluateTarget ::
  "SwitchProgram \<Rightarrow> string \<Rightarrow> string \<Rightarrow> string \<Rightarrow> int
     \<Rightarrow> (TargetReadiness \<times> TargetReadinessBlocker list) switch_call" where
  "evaluateTarget p salonID ownerUserID target authorityVersion =
     switch_bind
       (if target = TargetOwnerManual then
          switch_bind (switch_query p (\<lambda>env. EligibleServiceCount env salonID ownerUserID))
            (\<lambda>eligible. switch_bind (switch_query p (\<lambda>env. BookingMode_of env salonID ownerUserID))
              (\<lambda>bookingMode. switch_return
                 (owner_target (swq_OwnerManualRegistered p) authorityVersion eligible bookingMode)))
        else if target = TargetManleAICalendar then
          module_target ''MANLEAI_CALENDAR_EXECUTOR_REGISTERED''
            ''The internal calendar scheduling executor is not registered.''
            target authorityVersion (swq_Calendar p) salonID ownerUserID
        else if target = TargetExternalProvider then
          module_target ''EXTERNAL_PROVIDER_ADAPTER_REGISTERED''
            ''The external scheduling provider adapter is not registered.''
            target authorityVersion (swq_External p) salonID ownerUserID
        else switch_fail ErrSwitchValidation)
       (\<lambda>evaluated. switch_return (finish_target target authorityVersion evaluated))"

section \<open>Preview\<close>

definition rollback_allowed ::
  "SwitchProgram \<Rightarrow> string \<Rightarrow> string \<Rightarrow> PreviewRequest \<Rightarrow> unit switch_call" where
  "rollback_allowed p salonID ownerUserID req =
     (if pvr_RollbackOfSwitchRunID req = [] then switch_return ()
      else
        switch_bind (switch_query p (\<lambda>env. Get_run env salonID ownerUserID
            (pvr_RollbackOfSwitchRunID req)))
          (\<lambda>prior.
             if swr_Status prior \<noteq> status_committed
                \<or> swr_SourceSchedulingAuthority prior \<noteq> pvr_TargetSchedulingAuthority req
                \<or> swr_TargetSchedulingAuthority prior \<noteq> pvr_SourceSchedulingAuthority req
             then switch_fail ErrStateConflict else switch_return ()))"

definition preview_input ::
  "SwitchProgram \<Rightarrow> string \<Rightarrow> string \<Rightarrow> PreviewRequest
     \<Rightarrow> TargetReadiness \<times> TargetReadinessBlocker list \<Rightarrow> persistPreviewInput" where
  "preview_input p salonID ownerUserID req evaluated =
     \<lparr>swp_SalonID = salonID, swp_OwnerUserID = ownerUserID,
      swp_SourceSchedulingAuthority = pvr_SourceSchedulingAuthority req,
      swp_TargetSchedulingAuthority = pvr_TargetSchedulingAuthority req,
      swp_ExpectedSourceAuthorityVersion = pvr_ExpectedSourceAuthorityVersion req,
      swp_OperationKey = pvr_OperationKey req,
      swp_PayloadFingerprint = previewFingerprint p req,
      swp_ReadinessSnapshot = fst evaluated, swp_Blockers = snd evaluated,
      swp_Status = (if snd evaluated = [] then StatusPreviewReady else StatusPreviewBlocked),
      swp_RollbackOfSwitchRunID = pvr_RollbackOfSwitchRunID req\<rparr>"

definition new_preview ::
  "SwitchProgram \<Rightarrow> string \<Rightarrow> string \<Rightarrow> PreviewRequest \<Rightarrow> PreviewResponse switch_call" where
  "new_preview p salonID ownerUserID req =
     switch_bind (switch_query p (\<lambda>env. CurrentAuthority env salonID ownerUserID))
       (\<lambda>current.
          if aus_Authority current \<noteq> pvr_SourceSchedulingAuthority req
             \<or> aus_Version current \<noteq> pvr_ExpectedSourceAuthorityVersion req
          then switch_fail ErrVersionConflict
          else
            switch_bind (rollback_allowed p salonID ownerUserID req) (\<lambda>_.
            switch_bind (evaluateTarget p salonID ownerUserID
                (pvr_TargetSchedulingAuthority req) (aus_Version current)) (\<lambda>evaluated.
            switch_bind (switch_call p (\<lambda>env. CreateOrReplayPreview env
                (preview_input p salonID ownerUserID req evaluated))) (\<lambda>(run, replayed).
            switch_return \<lparr>prs_SwitchRun = run, prs_Replayed = replayed\<rparr>))))"

definition PreviewSwitch ::
  "SwitchProgram \<Rightarrow> string \<Rightarrow> string \<Rightarrow> PreviewRequest \<Rightarrow> PreviewResponse switch_call" where
  "PreviewSwitch p salonID ownerUserID req0 =
     (let req = normalizePreviewRequest req0 in
      if \<not> validPreviewRequest salonID ownerUserID req then switch_fail ErrSwitchValidation
      else
        switch_bind (switch_lookup (switch_query p
            (\<lambda>env. FindByOperationKey env salonID ownerUserID (pvr_OperationKey req))))
          (\<lambda>found. case found of
             Some existing \<Rightarrow>
               if swr_PayloadFingerprint existing \<noteq> previewFingerprint p req
               then switch_fail ErrSwitchOperationConflict
               else switch_return \<lparr>prs_SwitchRun = existing, prs_Replayed = True\<rparr>
           | None \<Rightarrow> new_preview p salonID ownerUserID req))"

section \<open>Commit\<close>

definition evidence_validator ::
  "SwitchProgram \<Rightarrow> nat \<Rightarrow> string \<Rightarrow> string \<Rightarrow> TargetReadiness
     \<Rightarrow> (nat \<Rightarrow> string \<Rightarrow> string \<Rightarrow> error + TargetReadiness) \<Rightarrow> SwitchDB \<Rightarrow> switch_error option" where
  "evidence_validator p k salonID ownerUserID expected readinessTx db =
     (case readinessTx k salonID ownerUserID of
        Inl e \<Rightarrow> Some (Target_Error e)
      | Inr actual \<Rightarrow>
          if sameReadinessEvidence expected actual then None else Some ErrReadinessConflict)"

definition commit_input ::
  "SwitchProgram \<Rightarrow> nat \<Rightarrow> string \<Rightarrow> string \<Rightarrow> string \<Rightarrow> string \<Rightarrow> SwitchRun \<Rightarrow> TargetReadiness
     \<Rightarrow> commitInput" where
  "commit_input p k salonID ownerUserID runID actionKey run snapshot =
     \<lparr>swm_SalonID = salonID, swm_OwnerUserID = ownerUserID, swm_RunID = runID,
      swm_ActionKey = actionKey, swm_ActionFingerprint = commitFingerprint p runID actionKey,
      swm_ExpectedReadiness = snapshot,
      swm_ValidateTargetReadiness =
        (if swr_TargetSchedulingAuthority run = TargetExternalProvider
         then map_option (evidence_validator p k salonID ownerUserID (swr_ReadinessSnapshot run))
                (swq_ExternalTx p)
         else None)\<rparr>"

definition commit_ready_run ::
  "SwitchProgram \<Rightarrow> string \<Rightarrow> string \<Rightarrow> string \<Rightarrow> string \<Rightarrow> SwitchRun \<Rightarrow> PreviewResponse switch_call" where
  "commit_ready_run p salonID ownerUserID runID actionKey run =
     switch_bind (evaluateTarget p salonID ownerUserID (swr_TargetSchedulingAuthority run)
         (swr_ExpectedSourceAuthorityVersion run))
       (\<lambda>(snapshot, blockers).
          if blockers \<noteq> []
             \<or> readiness_json (swr_ReadinessSnapshot run) \<noteq> readiness_json snapshot
          then switch_fail ErrReadinessConflict
          else if swr_TargetSchedulingAuthority run = TargetExternalProvider
                  \<and> swq_ExternalTx p = None
          then switch_fail ErrReadinessConflict
          else
            (\<lambda>st. switch_bind (switch_call p (\<lambda>env. Commit_run env
                (commit_input p (snd st) salonID ownerUserID runID actionKey run snapshot)))
              (\<lambda>(committed, replayed).
                 switch_return \<lparr>prs_SwitchRun = committed, prs_Replayed = replayed\<rparr>) st))"

definition CommitSwitch ::
  "SwitchProgram \<Rightarrow> string \<Rightarrow> string \<Rightarrow> string \<Rightarrow> string \<Rightarrow> PreviewResponse switch_call" where
  "CommitSwitch p salonID ownerUserID runID0 actionKey0 =
     (let runID = TrimSpace runID0; actionKey = TrimSpace actionKey0 in
      if TrimSpace salonID = [] \<or> TrimSpace ownerUserID = [] \<or> runID = [] \<or> actionKey = []
         \<or> maxOperationKeyBytes < length actionKey
      then switch_fail ErrSwitchValidation
      else
        switch_bind (switch_query p (\<lambda>env. ReplayCommit env salonID ownerUserID runID actionKey
            (commitFingerprint p runID actionKey)))
          (\<lambda>replayed. case replayed of
             Some run \<Rightarrow> switch_return \<lparr>prs_SwitchRun = run, prs_Replayed = True\<rparr>
           | None \<Rightarrow>
               switch_bind (switch_query p (\<lambda>env. Get_run env salonID ownerUserID runID))
                 (\<lambda>run. if swr_Status run \<noteq> StatusPreviewReady then switch_fail ErrStateConflict
                    else commit_ready_run p salonID ownerUserID runID actionKey run)))"

section \<open>Change\<close>

definition PrepareChange ::
  "SwitchProgram \<Rightarrow> string \<Rightarrow> string \<Rightarrow> ChangeRequest \<Rightarrow> PreviewResponse switch_call" where
  "PrepareChange p salonID0 actorUserID0 req =
     (let salonID = TrimSpace salonID0; actorUserID = TrimSpace actorUserID0;
          target = TrimSpace (cgr_TargetSchedulingAuthority req);
          actionKey = TrimSpace (cgr_ActionKey req);
          rollback = TrimSpace (cgr_RollbackOfSwitchRunID req);
          operationKey = changeOperationKey p actionKey
      in if salonID = [] \<or> actorUserID = [] \<or> \<not> validAuthority target
            \<or> cgr_ExpectedAuthorityVersion req \<le> 0 \<or> actionKey = []
            \<or> maxOperationKeyBytes < length actionKey
         then switch_fail ErrSwitchValidation
         else
           switch_bind (switch_lookup (switch_query p
               (\<lambda>env. FindByOperationKey env salonID actorUserID operationKey)))
             (\<lambda>found. case found of
                Some existing \<Rightarrow>
                  if swr_TargetSchedulingAuthority existing \<noteq> target
                     \<or> swr_ExpectedSourceAuthorityVersion existing \<noteq> cgr_ExpectedAuthorityVersion req
                     \<or> swr_RollbackOfSwitchRunID existing \<noteq> rollback
                  then switch_fail ErrSwitchOperationConflict
                  else switch_return \<lparr>prs_SwitchRun = existing, prs_Replayed = True\<rparr>
              | None \<Rightarrow>
                  switch_bind (switch_query p (\<lambda>env. CurrentAuthority env salonID actorUserID))
                    (\<lambda>current.
                       if aus_Version current \<noteq> cgr_ExpectedAuthorityVersion req
                          \<or> aus_Authority current = target
                       then switch_fail ErrVersionConflict
                       else
                         PreviewSwitch p salonID actorUserID
                           \<lparr>pvr_OperationKey = operationKey,
                            pvr_SourceSchedulingAuthority = aus_Authority current,
                            pvr_TargetSchedulingAuthority = target,
                            pvr_ExpectedSourceAuthorityVersion = cgr_ExpectedAuthorityVersion req,
                            pvr_RollbackOfSwitchRunID = rollback\<rparr>)))"

definition ChangeAuthority ::
  "SwitchProgram \<Rightarrow> string \<Rightarrow> string \<Rightarrow> ChangeRequest \<Rightarrow> PreviewResponse switch_call" where
  "ChangeAuthority p salonID actorUserID req =
     switch_bind (PrepareChange p salonID actorUserID req)
       (\<lambda>preview.
          if swr_Status (prs_SwitchRun preview) = StatusPreviewBlocked
             \<or> swr_Status (prs_SwitchRun preview) = status_committed
          then switch_return preview
          else CommitSwitch p (TrimSpace salonID) (TrimSpace actorUserID)
                 (swr_ID (prs_SwitchRun preview)) (TrimSpace (cgr_ActionKey req)))"

section \<open>Reading\<close>

definition LatestSwitch :: "SwitchProgram \<Rightarrow> string \<Rightarrow> string \<Rightarrow> PreviewResponse switch_call" where
  "LatestSwitch p salonID ownerUserID =
     (if TrimSpace salonID = [] \<or> TrimSpace ownerUserID = [] then switch_fail ErrSwitchValidation
      else
        switch_bind (switch_query p (\<lambda>env. Latest_run env salonID ownerUserID))
          (\<lambda>run. switch_return \<lparr>prs_SwitchRun = run, prs_Replayed = False\<rparr>))"

definition GetSwitch ::
  "SwitchProgram \<Rightarrow> string \<Rightarrow> string \<Rightarrow> string \<Rightarrow> PreviewResponse switch_call" where
  "GetSwitch p salonID ownerUserID runID =
     (if TrimSpace salonID = [] \<or> TrimSpace ownerUserID = [] \<or> TrimSpace runID = []
      then switch_fail ErrSwitchValidation
      else
        switch_bind (switch_query p (\<lambda>env. Get_run env salonID ownerUserID (TrimSpace runID)))
          (\<lambda>run. switch_return \<lparr>prs_SwitchRun = run, prs_Replayed = False\<rparr>))"

end
