(* ===== verification/Switch_Safety.thy ===== *)
theory Switch_Safety
  imports Switch_Service
begin

text \<open>
  What holds in every history of authority switches. A step is a transaction of the repository as
  the service calls it, or any change of the other tables by the rest of the program; nothing else
  in the program writes the authority of a salon, its version, the runs or their events.
\<close>

section \<open>Effects of the transactions\<close>

definition authority_row :: "string \<Rightarrow> SwitchDB \<Rightarrow> (string \<times> int) option" where
  "authority_row salonID db =
     map_option (\<lambda>settings. (swt_SchedulingAuthority settings, swt_SchedulingAuthorityVersion settings))
       (find (\<lambda>settings. swt_SalonID settings = salonID) (swd_Settings db))"

lemma query_row_InrD:
  "query_row env arguments row = Inr x \<Longrightarrow> row = Some x"
  by (auto simp: query_row_def split: option.splits)

lemma commit_switch_cases:
  "commit_switch env inserted db db' r = (Inr x, d) \<Longrightarrow> x = r \<and> d = db'"
  "commit_switch env inserted db db' r = (Inl e, d) \<Longrightarrow> d = db"
  by (auto simp: commit_switch_def split: option.splits if_splits)

lemma map_sum_Inl_iff: "map_sum f g x = Inl e \<longleftrightarrow> (\<exists>y. x = Inl y \<and> e = f y)"
  by (cases x) auto

lemma map_sum_Inr_iff: "map_sum f g x = Inr e \<longleftrightarrow> (\<exists>y. x = Inr y \<and> e = g y)"
  by (cases x) auto

lemma commit_switch_prior:
  assumes "commit_switch env inserted db db' r = (Inr x, d)" "run \<in> set inserted"
    "swr_RollbackOfSwitchRunID run \<noteq> []"
  shows "prior_run (swr_SalonID run) (swr_RollbackOfSwitchRunID run) db' \<noteq> None"
  using assms by (auto simp: commit_switch_def list_ex_iff split: option.splits if_splits)

lemma CurrentAuthority_row:
  assumes "CurrentAuthority env salonID userID db = Inr current"
  shows "authority_row salonID db = Some (aus_Authority current, aus_Version current)"
proof -
  obtain settings where found: "find (\<lambda>settings. swt_SalonID settings = salonID
        \<and> may_write_technical env (swt_SalonID settings) userID) (swd_Settings db) = Some settings"
    and current: "current = \<lparr>aus_Authority = swt_SchedulingAuthority settings,
        aus_Version = swt_SchedulingAuthorityVersion settings\<rparr>"
    using query_row_InrD [OF assms [unfolded CurrentAuthority_def]] by auto
  have allowed: "may_write_technical env salonID userID"
    using find_SomeD [OF found] by auto
  have "find (\<lambda>settings. swt_SalonID settings = salonID) (swd_Settings db) = Some settings"
    using found allowed
    by (metis (mono_tags, lifting) find_cong)
  with current show ?thesis by (simp add: authority_row_def)
qed

lemma getSwitchRunTx_InrD:
  assumes "getSwitchRunTx env salonID userID runID db = Inr run"
  shows "run \<in> set (swd_Runs db)" "swr_SalonID run = salonID" "swr_ID run = runID"
    "may_write_technical env salonID userID"
  using query_row_InrD [OF assms [unfolded getSwitchRunTx_def], THEN find_SomeD] by auto

lemma FindByOperationKey_InrD:
  assumes "FindByOperationKey env salonID userID key db = Inr run"
  shows "run \<in> set (swd_Runs db)" "swr_SalonID run = salonID" "swr_OperationKey run = key"
  using query_row_InrD [OF assms [unfolded FindByOperationKey_def], THEN find_SomeD] by auto

lemma Get_run_InrD:
  assumes "Get_run env salonID userID runID db = Inr run"
  shows "run \<in> set (swd_Runs db)" "swr_SalonID run = salonID" "swr_ID run = runID"
  using query_row_InrD [OF assms [unfolded Get_run_def], THEN find_SomeD] by auto

text \<open>A preview leaves the database or appends one run and its event.\<close>

definition inserted_preview :: "SwitchEnv \<Rightarrow> persistPreviewInput \<Rightarrow> SwitchDB \<Rightarrow> SwitchDB" where
  "inserted_preview env input db =
     db\<lparr>swd_Runs := swd_Runs db @ [preview_run env input],
        swd_Events := swd_Events db @ [preview_event input (swr_ID (preview_run env input))]\<rparr>"

lemma run_rejected_NoneD:
  assumes "run_rejected env run db = None"
  shows "swn_MayAct env (swr_SalonID run) (swr_ActorUserID run)"
    "enforce_scheduling_authority_switch_run_state run db = None"
    "swr_SourceSchedulingAuthority run \<noteq> swr_TargetSchedulingAuthority run"
    "1 \<le> swr_ExpectedSourceAuthorityVersion run"
    "swr_Status run = StatusPreviewReady \<longleftrightarrow> swr_Blockers run = []"
    "swr_RollbackOfSwitchRunID run \<noteq> swr_ID run"
    "other \<in> set (swd_Runs db) \<Longrightarrow> swr_ID other \<noteq> swr_ID run"
    "other \<in> set (swd_Runs db)
       \<Longrightarrow> swr_SalonID other \<noteq> swr_SalonID run \<or> swr_OperationKey other \<noteq> swr_OperationKey run"
    "authority_check (swr_TargetSchedulingAuthority run)"
  using assms by (auto simp: run_rejected_def list_ex_iff split: if_splits option.splits)

lemma insert_preview_cases:
  assumes "insert_preview env input db = (r, db')"
  obtains (Failed) e where "r = Inl e" "db' = db"
  | (Inserted) "r = Inr (preview_run env input, False)" "db' = inserted_preview env input db"
      "run_rejected env (preview_run env input) db = None"
      "swr_RollbackOfSwitchRunID (preview_run env input) \<noteq> []
       \<Longrightarrow> prior_run (swp_SalonID input) (swr_RollbackOfSwitchRunID (preview_run env input))
             (inserted_preview env input db) \<noteq> None"
proof (cases r)
  case (Inl e)
  then have "db' = db"
    using assms
    by (auto simp: insert_preview_def Let_def map_prod_def map_sum_Inl_iff
        split: option.splits sum.splits prod.splits dest: commit_switch_cases(2))
  with Inl show ?thesis by (rule Failed)
next
  case (Inr x)
  let ?run = "preview_run env input"
  obtain stored where accepted: "run_rejected env ?run db = None"
    and stored: "getSwitchRunTx env (swp_SalonID input) (swp_OwnerUserID input) (swr_ID ?run)
          (inserted_preview env input db) = Inr stored"
    and committed: "commit_switch env [?run] db (inserted_preview env input db) (stored, False)
          = (Inr x, db')"
    using assms Inr
    by (auto simp: insert_preview_def inserted_preview_def Let_def map_prod_def map_sum_Inr_iff
        split: option.splits sum.splits prod.splits)
  have "stored = ?run"
  proof -
    have "stored \<in> set (swd_Runs db @ [?run])"
      using getSwitchRunTx_InrD(1) [OF stored] by (simp add: inserted_preview_def)
    then show ?thesis
      using getSwitchRunTx_InrD(3) [OF stored] run_rejected_NoneD(7) [OF accepted] by auto
  qed
  moreover have "x = (stored, False)" "db' = inserted_preview env input db"
    using commit_switch_cases(1) [OF committed] by simp_all
  moreover have "swr_SalonID ?run = swp_SalonID input" by (simp add: preview_run_def)
  ultimately show ?thesis
    using Inserted accepted Inr commit_switch_prior [OF committed, of ?run] by simp
qed

lemma CreateOrReplayPreview_cases:
  assumes "CreateOrReplayPreview env input db = (r, db')"
  obtains (Unchanged) "db' = db"
      "\<And>run replayed. r = Inr (run, replayed) \<Longrightarrow> run \<in> set (swd_Runs db) \<and> replayed
         \<and> swr_SalonID run = swp_SalonID input \<and> swr_OperationKey run = swp_OperationKey input
         \<and> swr_PayloadFingerprint run = swp_PayloadFingerprint input"
  | (Inserted) "r = Inr (preview_run env input, False)" "db' = inserted_preview env input db"
      "run_rejected env (preview_run env input) db = None"
      "swr_RollbackOfSwitchRunID (preview_run env input) \<noteq> []
       \<Longrightarrow> prior_run (swp_SalonID input) (swr_RollbackOfSwitchRunID (preview_run env input))
             (inserted_preview env input db) \<noteq> None"
      "authority_row (swp_SalonID input) db
         = Some (swp_SourceSchedulingAuthority input, swp_ExpectedSourceAuthorityVersion input)"
proof (cases "FindByOperationKey env (swp_SalonID input) (swp_OwnerUserID input)
             (swp_OperationKey input) db")
  case (Inr existing)
  have facts: "existing \<in> set (swd_Runs db)" "swr_SalonID existing = swp_SalonID input"
    "swr_OperationKey existing = swp_OperationKey input"
    using FindByOperationKey_InrD [OF Inr] by simp_all
  show ?thesis
  proof (cases "swr_PayloadFingerprint existing = swp_PayloadFingerprint input")
    case True
    then have eq: "commit_switch env [] db db (existing, True) = (r, db')"
      using assms Inr by (simp add: CreateOrReplayPreview_def)
    have "db' = db" using commit_switch_cases(1,2) [of env "[]" db db "(existing, True)"] eq
      by (cases r) auto
    moreover have "r = Inr x \<Longrightarrow> x = (existing, True)" for x
      using commit_switch_cases(1) [of env "[]" db db "(existing, True)"] eq by auto
    ultimately show ?thesis using Unchanged facts True by blast
  next
    case False
    then have "r = Inl ErrSwitchOperationConflict" "db' = db"
      using assms Inr by (simp_all add: CreateOrReplayPreview_def)
    then show ?thesis using Unchanged by simp
  qed
next
  case (Inl e)
  show ?thesis
  proof (cases "r = Inl e \<and> db' = db")
    case True
    then show ?thesis using Unchanged by simp
  next
    case False
    then have e: "e = ErrSwitchNotFound"
      using assms Inl by (cases e) (auto simp: CreateOrReplayPreview_def)
    show ?thesis
    proof (cases "CurrentAuthority env (swp_SalonID input) (swp_OwnerUserID input) db")
      case (Inl f)
      then have "r = Inl (classifySwitchConstraint f)" "db' = db"
        using assms \<open>FindByOperationKey _ _ _ _ _ = Inl e\<close> e
        by (simp_all add: CreateOrReplayPreview_def)
      then show ?thesis using Unchanged by simp
    next
      case (Inr current)
      show ?thesis
      proof (cases "aus_Authority current \<noteq> swp_SourceSchedulingAuthority input
          \<or> aus_Version current \<noteq> swp_ExpectedSourceAuthorityVersion input")
        case True
        then have "r = Inl ErrVersionConflict" "db' = db"
          using assms \<open>FindByOperationKey _ _ _ _ _ = Inl e\<close> e Inr
          by (simp_all add: CreateOrReplayPreview_def)
        then show ?thesis using Unchanged by simp
      next
        case False
        then have inserted: "insert_preview env input db = (r, db')"
          and row: "authority_row (swp_SalonID input) db
            = Some (swp_SourceSchedulingAuthority input, swp_ExpectedSourceAuthorityVersion input)"
          using assms \<open>FindByOperationKey _ _ _ _ _ = Inl e\<close> e Inr CurrentAuthority_row [OF Inr]
          by (simp_all add: CreateOrReplayPreview_def)
        from inserted show ?thesis
        proof (cases rule: insert_preview_cases)
          case (Failed f)
          then show ?thesis using Unchanged by simp
        next
          case Inserted
          show ?thesis by (rule that(2)) (use Inserted row in simp_all)
        qed
      qed
    qed
  qed
qed

text \<open>A commit leaves the database or switches the authority and marks the run.\<close>

definition committed_run :: "gotime \<Rightarrow> SwitchRun \<Rightarrow> SwitchRun" where
  "committed_run now run =
     run\<lparr>swr_Status := status_committed, swr_CommittedAt := Some now, swr_UpdatedAt := now\<rparr>"

definition switched :: "SwitchEnv \<Rightarrow> commitInput \<Rightarrow> SwitchRun \<Rightarrow> SwitchDB \<Rightarrow> SwitchDB" where
  "switched env input run db =
     (mark_committed (swn_Now env) (swm_RunID input)
        (set_authority (swm_SalonID input) (swr_TargetSchedulingAuthority run) db))
     \<lparr>swd_Events := swd_Events db @ [committed_event input run]\<rparr>"

lemma switched_runs:
  "swd_Runs (switched env input run db)
     = map (\<lambda>r. if swr_ID r = swm_RunID input then committed_run (swn_Now env) r else r)
         (swd_Runs db)"
  by (simp add: switched_def mark_committed_def set_authority_def committed_run_def)

lemma switched_events:
  "swd_Events (switched env input run db) = swd_Events db @ [committed_event input run]"
  by (simp add: switched_def)

lemma getSwitchRunTx_switched:
  assumes "getSwitchRunTx env salonID userID (swm_RunID input) db = Inr run"
    "getSwitchRunTx env salonID userID (swm_RunID input) (switched env input other db) = Inr stored"
  shows "stored = committed_run (swn_Now env) run"
proof -
  let ?P = "\<lambda>r. swr_SalonID r = salonID \<and> may_write_technical env (swr_SalonID r) userID
        \<and> swr_ID r = swm_RunID input"
  let ?mark = "\<lambda>r. if swr_ID r = swm_RunID input then committed_run (swn_Now env) r else r"
  have found: "find ?P (swd_Runs db) = Some run"
    using query_row_InrD [OF assms(1) [unfolded getSwitchRunTx_def]] .
  have "find ?P (map ?mark (swd_Runs db)) = Some stored"
    using query_row_InrD [OF assms(2) [unfolded getSwitchRunTx_def switched_runs]] .
  moreover have "find ?P (map ?mark (swd_Runs db)) = map_option ?mark (find ?P (swd_Runs db))"
    by (rule find_map) (simp add: committed_run_def)
  ultimately have "stored = ?mark run" using found by (simp only: option.map option.inject)
  then show ?thesis using find_SomeD [OF found] by simp
qed

lemma apply_switch_cases:
  assumes "apply_switch env input run db = (r, db')"
    "getSwitchRunTx env (swm_SalonID input) (swm_OwnerUserID input) (swm_RunID input) db = Inr run"
  obtains (Failed) e where "r = Inl e" "db' = db"
  | (Switched) "r = Inr (committed_run (swn_Now env) run, False)" "db' = switched env input run db"
      "event_rejected env (committed_event input run)
         (mark_committed (swn_Now env) (swm_RunID input)
            (set_authority (swm_SalonID input) (swr_TargetSchedulingAuthority run) db)) = None"
proof (cases r)
  case (Inl e)
  then have "db' = db"
    using assms(1)
    by (auto simp: apply_switch_def Let_def split: option.splits sum.splits
        dest: commit_switch_cases(2))
  with Inl show ?thesis by (rule Failed)
next
  case (Inr x)
  have after: "(mark_committed (swn_Now env) (swm_RunID input)
        (set_authority (swm_SalonID input) (swr_TargetSchedulingAuthority run) db))
      \<lparr>swd_Events := swd_Events (mark_committed (swn_Now env) (swm_RunID input)
        (set_authority (swm_SalonID input) (swr_TargetSchedulingAuthority run) db))
          @ [committed_event input run]\<rparr> = switched env input run db"
    by (simp add: switched_def mark_committed_def set_authority_def)
  obtain stored where accepted: "event_rejected env (committed_event input run)
         (mark_committed (swn_Now env) (swm_RunID input)
            (set_authority (swm_SalonID input) (swr_TargetSchedulingAuthority run) db)) = None"
    and stored: "getSwitchRunTx env (swm_SalonID input) (swm_OwnerUserID input) (swm_RunID input)
          (switched env input run db) = Inr stored"
    and committed: "commit_switch env [] db (switched env input run db) (stored, False)
          = (Inr x, db')"
    using assms(1) Inr unfolding apply_switch_def Let_def after
    by (auto split: option.splits sum.splits)
  show ?thesis
    by (rule Switched)
      (use commit_switch_cases(1) [OF committed] Inr accepted
        getSwitchRunTx_switched [OF assms(2) stored] in simp_all)
qed

lemma Commit_run_cases:
  assumes "Commit_run env input db = (r, db')"
  obtains (Unchanged) "db' = db"
      "\<And>run replayed. r = Inr (run, replayed) \<Longrightarrow> replayed \<and> run \<in> set (swd_Runs db)
         \<and> swr_SalonID run = swm_SalonID input \<and> swr_ID run = swm_RunID input
         \<and> commit_event (swm_RunID input) (swm_ActionKey input) db \<noteq> None"
  | (Switched) run where "r = Inr (committed_run (swn_Now env) run, False)"
      "db' = switched env input run db"
      "getSwitchRunTx env (swm_SalonID input) (swm_OwnerUserID input) (swm_RunID input) db = Inr run"
      "swr_Status run = StatusPreviewReady"
      "authority_row (swm_SalonID input) db
         = Some (swr_SourceSchedulingAuthority run, swr_ExpectedSourceAuthorityVersion run)"
      "\<not> live_external (swm_SalonID input) db"
      "target_readiness_check input run db = None"
      "event_rejected env (committed_event input run)
         (mark_committed (swn_Now env) (swm_RunID input)
            (set_authority (swm_SalonID input) (swr_TargetSchedulingAuthority run) db)) = None"
proof (cases "getSwitchRunTx env (swm_SalonID input) (swm_OwnerUserID input) (swm_RunID input) db")
  case (Inl e)
  with assms have "r = Inl e" "db' = db" by (simp_all add: Commit_run_def)
  then show ?thesis using Unchanged by simp
next
  case (Inr run)
  note got = Inr
  note facts = getSwitchRunTx_InrD [OF got]
  show ?thesis
  proof (cases "commit_event (swm_RunID input) (swm_ActionKey input) db")
    case (Some event)
    have "r = Inl ErrSwitchOperationConflict \<and> db' = db
        \<or> commit_switch env [] db db (run, True) = (r, db')"
      using assms got Some by (simp add: Commit_run_def split: if_splits)
    then have "db' = db \<and> (\<forall>x. r = Inr x \<longrightarrow> x = (run, True))"
      using commit_switch_cases [of env "[]" db db "(run, True)"] by (cases r) auto
    then show ?thesis using Unchanged facts Some by blast
  next
    case None
    show ?thesis
    proof (cases "\<exists>e. r = Inl e \<and> db' = db")
      case True
      then show ?thesis using Unchanged by auto
    next
      case False
      then obtain current where current:
          "CurrentAuthority env (swm_SalonID input) (swm_OwnerUserID input) db = Inr current"
        and step: "swr_Status run = StatusPreviewReady"
          "aus_Authority current = swr_SourceSchedulingAuthority run"
          "aus_Version current = swr_ExpectedSourceAuthorityVersion run"
          "\<not> live_external (swm_SalonID input) db"
          "target_readiness_check input run db = None"
          "apply_switch env input run db = (r, db')"
        using assms got None
        by (auto simp: Commit_run_def split: if_splits sum.splits option.splits)
      from step(6) got show ?thesis
      proof (cases rule: apply_switch_cases)
        case (Failed e)
        with False show ?thesis by simp
      next
        case Switched
        show ?thesis
          by (rule that(2) [of run])
            (use Switched got step CurrentAuthority_row [OF current] in simp_all)
      qed
    qed
  qed
qed

section \<open>Histories\<close>

definition others_keep_switches :: "SwitchDB \<Rightarrow> SwitchDB \<Rightarrow> bool" where
  "others_keep_switches db db' \<longleftrightarrow>
     swd_Runs db' = swd_Runs db \<and> swd_Events db' = swd_Events db
     \<and> (\<forall>salonID row. authority_row salonID db = Some row \<longrightarrow> authority_row salonID db' = Some row)"

text \<open>The input of a commit names the target and the evidence of the run the service has read.\<close>

definition reads_run :: "string \<Rightarrow> SwitchRun \<Rightarrow> SwitchDB \<Rightarrow> bool" where
  "reads_run runID run db \<longleftrightarrow>
     (\<forall>row \<in> set (swd_Runs db). swr_ID row = runID
        \<longrightarrow> swr_TargetSchedulingAuthority row = swr_TargetSchedulingAuthority run
          \<and> swr_ReadinessSnapshot row = swr_ReadinessSnapshot run)"

inductive switch_step :: "SwitchDB \<Rightarrow> SwitchDB \<Rightarrow> bool" where
  Preview_Step: "CreateOrReplayPreview env input db = (r, db') \<Longrightarrow> switch_step db db'"
| Commit_Step: "Commit_run env (commit_input p k salonID userID runID actionKey run snapshot) db
      = (r, db')
    \<Longrightarrow> reads_run runID run db
    \<Longrightarrow> swr_TargetSchedulingAuthority run = TargetExternalProvider \<longrightarrow> swq_ExternalTx p \<noteq> None
    \<Longrightarrow> switch_step db db'"
| Other_Step: "others_keep_switches db db' \<Longrightarrow> switch_step db db'"

abbreviation switch_history :: "SwitchDB \<Rightarrow> SwitchDB \<Rightarrow> bool" where
  "switch_history \<equiv> switch_step\<^sup>*\<^sup>*"

text \<open>What a step does: nothing to the switches, one more preview, or one switch.\<close>

lemma switch_step_effect:
  assumes "switch_step db db'"
  obtains (Others) "others_keep_switches db db'"
  | (Inserted) env input where "db' = inserted_preview env input db"
      "run_rejected env (preview_run env input) db = None"
      "swr_RollbackOfSwitchRunID (preview_run env input) \<noteq> []
       \<Longrightarrow> prior_run (swp_SalonID input) (swr_RollbackOfSwitchRunID (preview_run env input))
             (inserted_preview env input db) \<noteq> None"
  | (Switched) env input run where "db' = switched env input run db"
      "run \<in> set (swd_Runs db)" "swr_SalonID run = swm_SalonID input"
      "swr_ID run = swm_RunID input" "swr_Status run = StatusPreviewReady"
      "authority_row (swm_SalonID input) db
         = Some (swr_SourceSchedulingAuthority run, swr_ExpectedSourceAuthorityVersion run)"
  using assms
proof cases
  case (Preview_Step env input r)
  from this show ?thesis
  proof (cases rule: CreateOrReplayPreview_cases)
    case Unchanged
    then show ?thesis using Others by (simp add: others_keep_switches_def)
  next
    case Inserted
    then show ?thesis by (intro that(2) [of env input]) simp_all
  qed
next
  case (Commit_Step env p k salonID userID runID actionKey run snapshot r)
  from Commit_Step(1) show ?thesis
  proof (cases rule: Commit_run_cases)
    case Unchanged
    then show ?thesis using Others by (simp add: others_keep_switches_def)
  next
    case (Switched row)
    show ?thesis
      by (rule that(3) [OF Switched(2)])
        (use Switched getSwitchRunTx_InrD [OF Switched(3)] in simp_all)
  qed
next
  case Other_Step
  then show ?thesis by (rule Others)
qed

section \<open>Well-formed runs\<close>

definition rollback_ok :: "SwitchRun list \<Rightarrow> SwitchRun \<Rightarrow> bool" where
  "rollback_ok runs run \<longleftrightarrow>
     swr_RollbackOfSwitchRunID run = []
     \<or> (\<exists>prior \<in> set runs. swr_SalonID prior = swr_SalonID run
          \<and> swr_ID prior = swr_RollbackOfSwitchRunID run \<and> swr_Status prior = status_committed
          \<and> swr_SourceSchedulingAuthority prior = swr_TargetSchedulingAuthority run
          \<and> swr_TargetSchedulingAuthority prior = swr_SourceSchedulingAuthority run)"

definition switch_ok :: "SwitchDB \<Rightarrow> bool" where
  "switch_ok db \<longleftrightarrow>
     distinct (map swr_ID (swd_Runs db))
     \<and> distinct (map (\<lambda>run. (swr_SalonID run, swr_OperationKey run)) (swd_Runs db))
     \<and> (\<forall>run \<in> set (swd_Runs db).
          swr_SourceSchedulingAuthority run \<noteq> swr_TargetSchedulingAuthority run
          \<and> authority_check (swr_TargetSchedulingAuthority run)
          \<and> rollback_ok (swd_Runs db) run
          \<and> (\<exists>event \<in> set (swd_Events db). swe_SwitchRunID event = swr_ID run
               \<and> swe_ActionKey event = swr_OperationKey run \<and> swe_EventType event = ''preview''))"

lemma switch_ok_same_run:
  assumes "switch_ok db" "r1 \<in> set (swd_Runs db)" "r2 \<in> set (swd_Runs db)" "swr_ID r1 = swr_ID r2"
  shows "r1 = r2"
  using assms by (auto simp: switch_ok_def distinct_map dest: inj_onD)

lemma switch_ok_same_key:
  assumes "switch_ok db" "r1 \<in> set (swd_Runs db)" "r2 \<in> set (swd_Runs db)"
    "swr_SalonID r1 = swr_SalonID r2" "swr_OperationKey r1 = swr_OperationKey r2"
  shows "r1 = r2"
  using assms by (auto simp: switch_ok_def distinct_map dest: inj_onD)

lemma switch_ok_inserted:
  assumes ok: "switch_ok db" and accepted: "run_rejected env (preview_run env input) db = None"
    and prior: "swr_RollbackOfSwitchRunID (preview_run env input) \<noteq> []
       \<Longrightarrow> prior_run (swp_SalonID input) (swr_RollbackOfSwitchRunID (preview_run env input))
             (inserted_preview env input db) \<noteq> None"
  shows "switch_ok (inserted_preview env input db)"
proof -
  let ?run = "preview_run env input"
  note facts = run_rejected_NoneD [OF accepted]
  have salon: "swr_SalonID ?run = swp_SalonID input" by (simp add: preview_run_def)
  have "rollback_ok (swd_Runs db) ?run"
  proof (cases "swr_RollbackOfSwitchRunID ?run = []")
    case False
    then obtain old where "prior_run (swp_SalonID input) (swr_RollbackOfSwitchRunID ?run)
          (inserted_preview env input db) = Some old"
      using prior by blast
    then have found: "prior_run (swp_SalonID input) (swr_RollbackOfSwitchRunID ?run) db = Some old"
      using facts(6) by (auto simp: prior_run_def inserted_preview_def find_append
          split: option.splits if_splits)
    have "swr_Status old = status_committed
      \<and> swr_SourceSchedulingAuthority old = swr_TargetSchedulingAuthority ?run
      \<and> swr_TargetSchedulingAuthority old = swr_SourceSchedulingAuthority ?run"
      using facts(2) False found salon
      by (simp add: enforce_scheduling_authority_switch_run_state_def split: if_splits)
    then show ?thesis
      using find_SomeD [OF found [unfolded prior_run_def]] salon
      unfolding rollback_ok_def by metis
  qed (simp add: rollback_ok_def)
  then have rollback: "rollback_ok (swd_Runs db @ [?run]) ?run" by (auto simp: rollback_ok_def)
  have old: "rollback_ok (swd_Runs db @ [?run]) run" if "run \<in> set (swd_Runs db)" for run
    using ok that by (auto simp: switch_ok_def rollback_ok_def)
  have ids: "swr_ID ?run \<notin> swr_ID ` set (swd_Runs db)" using facts(7) by fastforce
  have keys: "(swr_SalonID ?run, swr_OperationKey ?run)
      \<notin> (\<lambda>run. (swr_SalonID run, swr_OperationKey run)) ` set (swd_Runs db)"
    using facts(8) by fastforce
  have event: "swe_SwitchRunID (preview_event input (swr_ID ?run)) = swr_ID ?run"
    "swe_ActionKey (preview_event input (swr_ID ?run)) = swr_OperationKey ?run"
    "swe_EventType (preview_event input (swr_ID ?run)) = ''preview''"
    by (simp_all add: preview_event_def preview_run_def)
  show ?thesis
    using ok old rollback ids keys event facts(3,9)
    by (auto simp: switch_ok_def inserted_preview_def)
qed

lemma committed_run_simps [simp]:
  "swr_ID (committed_run now run) = swr_ID run"
  "swr_SalonID (committed_run now run) = swr_SalonID run"
  "swr_OperationKey (committed_run now run) = swr_OperationKey run"
  "swr_SourceSchedulingAuthority (committed_run now run) = swr_SourceSchedulingAuthority run"
  "swr_TargetSchedulingAuthority (committed_run now run) = swr_TargetSchedulingAuthority run"
  "swr_ExpectedSourceAuthorityVersion (committed_run now run)
     = swr_ExpectedSourceAuthorityVersion run"
  "swr_RollbackOfSwitchRunID (committed_run now run) = swr_RollbackOfSwitchRunID run"
  "swr_ReadinessSnapshot (committed_run now run) = swr_ReadinessSnapshot run"
  "swr_Status (committed_run now run) = status_committed"
  by (simp_all add: committed_run_def)

lemma switch_ok_switched:
  assumes ok: "switch_ok db"
  shows "switch_ok (switched env input run db)"
proof -
  let ?mark = "\<lambda>r. if swr_ID r = swm_RunID input then committed_run (swn_Now env) r else r"
  have rollback: "rollback_ok (map ?mark (swd_Runs db)) (?mark row)" if row: "row \<in> set (swd_Runs db)" for row
  proof (cases "swr_RollbackOfSwitchRunID row = []")
    case False
    have "rollback_ok (swd_Runs db) row" using ok row by (simp add: switch_ok_def)
    then obtain prior where prior: "prior \<in> set (swd_Runs db)" "swr_SalonID prior = swr_SalonID row"
      "swr_ID prior = swr_RollbackOfSwitchRunID row" "swr_Status prior = status_committed"
      "swr_SourceSchedulingAuthority prior = swr_TargetSchedulingAuthority row"
      "swr_TargetSchedulingAuthority prior = swr_SourceSchedulingAuthority row"
      using False by (auto simp: rollback_ok_def)
    have "?mark prior \<in> set (map ?mark (swd_Runs db))" using prior(1) by auto
    with prior show ?thesis
      unfolding rollback_ok_def by (intro disjI2 bexI [of _ "?mark prior"]) simp_all
  qed (simp add: rollback_ok_def)
  have keys: "map swr_ID (map ?mark xs) = map swr_ID xs"
    "map (\<lambda>run. (swr_SalonID run, swr_OperationKey run)) (map ?mark xs)
       = map (\<lambda>run. (swr_SalonID run, swr_OperationKey run)) xs" for xs
    by (induction xs) auto
  have rest: "swr_SourceSchedulingAuthority (?mark row) \<noteq> swr_TargetSchedulingAuthority (?mark row)
      \<and> authority_check (swr_TargetSchedulingAuthority (?mark row))
      \<and> (\<exists>event \<in> set (swd_Events (switched env input run db)).
           swe_SwitchRunID event = swr_ID (?mark row)
           \<and> swe_ActionKey event = swr_OperationKey (?mark row) \<and> swe_EventType event = ''preview'')"
    if "row \<in> set (swd_Runs db)" for row
    using ok that by (auto simp: switch_ok_def switched_events)
  have "\<forall>r \<in> set (map ?mark (swd_Runs db)).
      swr_SourceSchedulingAuthority r \<noteq> swr_TargetSchedulingAuthority r
      \<and> authority_check (swr_TargetSchedulingAuthority r)
      \<and> rollback_ok (map ?mark (swd_Runs db)) r
      \<and> (\<exists>event \<in> set (swd_Events (switched env input run db)).
           swe_SwitchRunID event = swr_ID r
           \<and> swe_ActionKey event = swr_OperationKey r \<and> swe_EventType event = ''preview'')"
  proof
    fix r
    assume "r \<in> set (map ?mark (swd_Runs db))"
    then obtain row where row: "row \<in> set (swd_Runs db)" and r: "r = ?mark row" by auto
    show "swr_SourceSchedulingAuthority r \<noteq> swr_TargetSchedulingAuthority r
      \<and> authority_check (swr_TargetSchedulingAuthority r)
      \<and> rollback_ok (map ?mark (swd_Runs db)) r
      \<and> (\<exists>event \<in> set (swd_Events (switched env input run db)).
           swe_SwitchRunID event = swr_ID r
           \<and> swe_ActionKey event = swr_OperationKey r \<and> swe_EventType event = ''preview'')"
      unfolding r using rollback [OF row] rest [OF row] by blast
  qed
  then show ?thesis
    unfolding switch_ok_def switched_runs keys using ok [unfolded switch_ok_def] by blast
qed

lemma switch_ok_step: "switch_step db db' \<Longrightarrow> switch_ok db \<Longrightarrow> switch_ok db'"
proof (erule switch_step_effect, goal_cases)
  case 1
  then show ?case by (simp add: others_keep_switches_def switch_ok_def)
next
  case (2 env input)
  then show ?case using switch_ok_inserted by blast
next
  case (3 env input run)
  then show ?case using switch_ok_switched by blast
qed

lemma switch_ok_history: "switch_history db db' \<Longrightarrow> switch_ok db \<Longrightarrow> switch_ok db'"
  by (induction rule: rtranclp_induct) (auto intro: switch_ok_step)

section \<open>The authority of a salon\<close>

lemma authority_row_inserted [simp]:
  "authority_row salonID (inserted_preview env input db) = authority_row salonID db"
  by (simp add: authority_row_def inserted_preview_def)

lemma authority_row_switched:
  "authority_row salonID (switched env input run db)
     = (if salonID = swm_SalonID input
        then map_option (\<lambda>(authority, version). (swr_TargetSchedulingAuthority run,
               if authority = swr_TargetSchedulingAuthority run then version else version + 1))
               (authority_row salonID db)
        else authority_row salonID db)"
proof -
  let ?set = "\<lambda>settings. if swt_SalonID settings = swm_SalonID input
       then enforce_scheduling_authority_version settings
              (settings\<lparr>swt_SchedulingAuthority := swr_TargetSchedulingAuthority run\<rparr>)
       else settings"
  have settings: "swd_Settings (switched env input run db) = map ?set (swd_Settings db)"
    by (simp add: switched_def mark_committed_def set_authority_def)
  have "find (\<lambda>settings. swt_SalonID settings = salonID) (map ?set (swd_Settings db))
      = map_option ?set (find (\<lambda>settings. swt_SalonID settings = salonID) (swd_Settings db))"
    by (rule find_map) (simp add: enforce_scheduling_authority_version_def)
  then show ?thesis
    by (cases "find (\<lambda>settings. swt_SalonID settings = salonID) (swd_Settings db)")
      (auto simp: authority_row_def settings enforce_scheduling_authority_version_def
        dest: find_SomeD)
qed

definition committed_at :: "SwitchRun list \<Rightarrow> string \<Rightarrow> int \<Rightarrow> SwitchRun option" where
  "committed_at runs salonID version =
     find (\<lambda>run. swr_SalonID run = salonID \<and> swr_Status run = status_committed
        \<and> swr_ExpectedSourceAuthorityVersion run = version) runs"

definition committed_count :: "SwitchRun list \<Rightarrow> string \<Rightarrow> nat" where
  "committed_count runs salonID =
     length (filter (\<lambda>run. swr_SalonID run = salonID \<and> swr_Status run = status_committed) runs)"

text \<open>
  The authority that the committed runs of a salon lead to, one run for each version from the first
  on, each starting from the target of the run before.
\<close>

fun authority_after :: "SwitchRun list \<Rightarrow> string \<Rightarrow> string \<Rightarrow> int \<Rightarrow> nat \<Rightarrow> string option" where
  "authority_after runs salonID authority version 0 = Some authority"
| "authority_after runs salonID authority version (Suc n) =
     (case committed_at runs salonID version of
        None \<Rightarrow> None
      | Some run \<Rightarrow>
          if swr_SourceSchedulingAuthority run = authority
          then authority_after runs salonID (swr_TargetSchedulingAuthority run) (version + 1) n
          else None)"

lemma authority_after_cong:
  assumes "\<And>i. version \<le> i \<Longrightarrow> i < version + int n
      \<Longrightarrow> committed_at runs' salonID i = committed_at runs salonID i"
  shows "authority_after runs' salonID authority version n
    = authority_after runs salonID authority version n"
  using assms
proof (induction n arbitrary: authority version)
  case (Suc n)
  have "committed_at runs' salonID version = committed_at runs salonID version"
    using Suc.prems by simp
  moreover have "authority_after runs' salonID a (version + 1) n
      = authority_after runs salonID a (version + 1) n" for a
    by (rule Suc.IH) (use Suc.prems in simp)
  ultimately show ?case by (simp split: option.splits)
qed simp

lemma authority_after_snoc:
  assumes "authority_after runs salonID authority version n = Some source"
    "committed_at runs salonID (version + int n) = Some run"
    "swr_SourceSchedulingAuthority run = source"
  shows "authority_after runs salonID authority version (Suc n)
    = Some (swr_TargetSchedulingAuthority run)"
  using assms
proof (induction n arbitrary: authority version)
  case (Suc n)
  obtain first where first: "committed_at runs salonID version = Some first"
    "swr_SourceSchedulingAuthority first = authority"
    "authority_after runs salonID (swr_TargetSchedulingAuthority first) (version + 1) n = Some source"
    using Suc.prems(1) by (auto split: option.splits if_splits)
  have "version + 1 + int n = version + int (Suc n)" by simp
  then have "authority_after runs salonID (swr_TargetSchedulingAuthority first) (version + 1) (Suc n)
      = Some (swr_TargetSchedulingAuthority run)"
    using Suc.IH [OF first(3)] Suc.prems(2,3) by presburger
  with first(1,2) show ?case
    by (subst authority_after.simps(2)) (simp only: option.case if_True refl)
qed simp

lemma find_map_same:
  assumes "\<And>x. x \<in> set xs \<Longrightarrow> P (f x) = P x" "\<And>x. x \<in> set xs \<Longrightarrow> P x \<Longrightarrow> f x = x"
  shows "find P (map f xs) = find P xs"
  using assms by (induction xs) auto

lemma committed_count_mark:
  assumes "distinct (map swr_ID runs)" "run \<in> set runs" "swr_Status run \<noteq> status_committed"
    "swr_ID run = runID"
  shows "committed_count (map (\<lambda>r. if swr_ID r = runID then committed_run now r else r) runs) salonID
    = (if swr_SalonID run = salonID then 1 else 0) + committed_count runs salonID"
  using assms
proof (induction runs)
  case (Cons r runs)
  let ?mark = "\<lambda>r. if swr_ID r = runID then committed_run now r else r"
  show ?case
  proof (cases "r = run")
    case True
    have "swr_ID x \<noteq> runID" if "x \<in> set runs" for x
      using Cons.prems(1,4) True image_eqI [OF _ that, of "swr_ID run" swr_ID] by auto
    then have "map ?mark runs = runs" by (simp add: map_idI)
    then show ?thesis
      using True Cons.prems(3,4) by (simp add: committed_count_def)
  next
    case False
    then have "run \<in> set runs" "swr_ID r \<noteq> runID" using Cons.prems by auto
    then show ?thesis
      using Cons by (auto simp: committed_count_def)
  qed
qed simp

text \<open>The chain of commits, from the authority \<open>a0\<close> at version \<open>v0\<close> to the one in force.\<close>

definition switch_chain :: "string \<Rightarrow> string \<Rightarrow> int \<Rightarrow> SwitchDB \<Rightarrow> bool" where
  "switch_chain salonID a0 v0 db \<longleftrightarrow>
     (\<exists>authority n. authority_row salonID db = Some (authority, v0 + int n)
        \<and> committed_count (swd_Runs db) salonID = n
        \<and> (\<forall>run \<in> set (swd_Runs db).
             swr_SalonID run = salonID \<and> swr_Status run = status_committed
             \<longrightarrow> swr_ExpectedSourceAuthorityVersion run < v0 + int n)
        \<and> authority_after (swd_Runs db) salonID a0 v0 n = Some authority)"

lemma status_consts_distinct [simp]:
  "StatusPreviewReady \<noteq> status_committed" "StatusPreviewBlocked \<noteq> status_committed"
  "StatusPreviewReady \<noteq> StatusPreviewBlocked"
  by (simp_all add: StatusPreviewReady_def StatusPreviewBlocked_def status_committed_def)

lemma preview_run_uncommitted:
  assumes "run_rejected env (preview_run env input) db = None"
  shows "swr_Status (preview_run env input) \<noteq> status_committed"
  using run_rejected_NoneD(2) [OF assms]
  by (auto simp: enforce_scheduling_authority_switch_run_state_def split: if_splits)

lemma switch_chain_inserted:
  assumes "switch_chain salonID a0 v0 db" "run_rejected env (preview_run env input) db = None"
  shows "switch_chain salonID a0 v0 (inserted_preview env input db)"
proof -
  note fresh = preview_run_uncommitted [OF assms(2)]
  have "committed_at (swd_Runs db @ [preview_run env input]) s v = committed_at (swd_Runs db) s v"
    for s v
    using fresh by (auto simp: committed_at_def find_append split: option.splits)
  then have "authority_after (swd_Runs db @ [preview_run env input]) salonID a0 v0 n
      = authority_after (swd_Runs db) salonID a0 v0 n" for n
    by (intro authority_after_cong) simp
  then show ?thesis
    using assms(1) fresh
    by (auto simp: switch_chain_def inserted_preview_def committed_count_def authority_row_def)
qed

lemma switch_chain_switched:
  assumes ok: "switch_ok db" and chain: "switch_chain salonID a0 v0 db"
    and run: "run \<in> set (swd_Runs db)" "swr_SalonID run = swm_SalonID input"
      "swr_ID run = swm_RunID input" "swr_Status run = StatusPreviewReady"
    and row: "authority_row (swm_SalonID input) db
        = Some (swr_SourceSchedulingAuthority run, swr_ExpectedSourceAuthorityVersion run)"
  shows "switch_chain salonID a0 v0 (switched env input run db)"
proof -
  let ?mark = "\<lambda>r. if swr_ID r = swm_RunID input then committed_run (swn_Now env) r else r"
  let ?v = "swr_ExpectedSourceAuthorityVersion run"
  let ?runs = "map ?mark (swd_Runs db)"
  obtain authority n where here: "authority_row salonID db = Some (authority, v0 + int n)"
    and number: "committed_count (swd_Runs db) salonID = n"
    and below: "\<And>r. r \<in> set (swd_Runs db) \<Longrightarrow> swr_SalonID r = salonID
          \<Longrightarrow> swr_Status r = status_committed \<Longrightarrow> swr_ExpectedSourceAuthorityVersion r < v0 + int n"
    and path: "authority_after (swd_Runs db) salonID a0 v0 n = Some authority"
    using chain by (auto simp: switch_chain_def)
  have only: "r = run" if "r \<in> set (swd_Runs db)" "swr_ID r = swm_RunID input" for r
    using switch_ok_same_run [OF ok that(1) run(1)] that(2) run(3) by simp
  have differ: "swr_SourceSchedulingAuthority run \<noteq> swr_TargetSchedulingAuthority run"
    using ok run(1) by (simp add: switch_ok_def)
  have count: "committed_count ?runs salonID
      = (if swr_SalonID run = salonID then 1 else 0) + n"
    using committed_count_mark [OF _ run(1) _ run(3)] ok run(4) number by (simp add: switch_ok_def)
  have same: "committed_at ?runs salonID i = committed_at (swd_Runs db) salonID i"
    if other: "swr_SalonID run \<noteq> salonID \<or> i \<noteq> ?v" for i
    unfolding committed_at_def by (rule find_map_same) (use only other run(4) in auto)
  show ?thesis
  proof (cases "swr_SalonID run = salonID")
    case False
    have "authority_after ?runs salonID a0 v0 n = Some authority"
      using authority_after_cong [OF same] False path by metis
    moreover have "authority_row salonID (switched env input run db) = authority_row salonID db"
      using False run(2) by (simp add: authority_row_switched)
    moreover have "swr_ExpectedSourceAuthorityVersion r < v0 + int n"
      if "r \<in> set ?runs" "swr_SalonID r = salonID" "swr_Status r = status_committed" for r
      using that below only False by (auto split: if_splits)
    ultimately show ?thesis
      using here count False by (auto simp: switch_chain_def switched_runs simp del: set_map)
  next
    case True
    have v: "?v = v0 + int n" "authority = swr_SourceSchedulingAuthority run"
      using row here True run(2) by simp_all
    have "authority_after ?runs salonID a0 v0 n = Some authority"
      using authority_after_cong [of v0 n ?runs salonID "swd_Runs db"] same v(1) path by simp
    moreover have "committed_at ?runs salonID (v0 + int n) = Some (committed_run (swn_Now env) run)"
      unfolding committed_at_def
    proof (rule find_only)
      show "committed_run (swn_Now env) run \<in> set ?runs" using run(1,3) by force
      show "swr_SalonID (committed_run (swn_Now env) run) = salonID
        \<and> swr_Status (committed_run (swn_Now env) run) = status_committed
        \<and> swr_ExpectedSourceAuthorityVersion (committed_run (swn_Now env) run) = v0 + int n"
        using True v by simp
      show "r = committed_run (swn_Now env) run"
        if "r \<in> set ?runs" "swr_SalonID r = salonID \<and> swr_Status r = status_committed
            \<and> swr_ExpectedSourceAuthorityVersion r = v0 + int n" for r
        using that below only by (force split: if_splits)
    qed
    ultimately have "authority_after ?runs salonID a0 v0 (Suc n)
        = Some (swr_TargetSchedulingAuthority run)"
      using authority_after_snoc v(2) by fastforce
    moreover have "authority_row salonID (switched env input run db)
        = Some (swr_TargetSchedulingAuthority run, v0 + int (Suc n))"
      using here True run(2) differ v(2) by (simp add: authority_row_switched)
    moreover have "swr_ExpectedSourceAuthorityVersion r < v0 + int (Suc n)"
      if "r \<in> set ?runs" "swr_SalonID r = salonID" "swr_Status r = status_committed" for r
      using that below only v(1) by (force split: if_splits)
    ultimately show ?thesis
      using count True unfolding switch_chain_def switched_runs
      by (intro exI [of _ "swr_TargetSchedulingAuthority run"] exI [of _ "Suc n"]) auto
  qed
qed

end
