(* ===== verification/Switch_Guarantees.thy ===== *)
theory Switch_Guarantees
  imports Switch_Safety
begin

text \<open>
  The guarantees of authority switches: the authority in force is the end of the chain of committed
  runs, a preview of an older version stays dead, a switch happens only to a target that is ready
  and never under a provider call in flight; the operations of the service are histories, and a
  command that was interrupted or repeated ends as it would have without that.
\<close>

section \<open>The chain of commits\<close>

lemma switch_chain_step:
  assumes "switch_step db db'" "switch_ok db" "switch_chain salonID a0 v0 db"
  shows "switch_chain salonID a0 v0 db'"
  using assms(1)
proof (cases rule: switch_step_effect)
  case Others
  then have "authority_row salonID db = Some row \<Longrightarrow> authority_row salonID db' = Some row" for row
    unfolding others_keep_switches_def by blast
  with Others assms(3) show ?thesis
    unfolding switch_chain_def others_keep_switches_def by metis
next
  case (Inserted env input)
  then show ?thesis using switch_chain_inserted assms(3) by blast
next
  case (Switched env input run)
  then show ?thesis using switch_chain_switched assms(2,3) by blast
qed

lemma switch_chain_history:
  assumes "switch_history db0 db" "switch_ok db0" "switch_chain salonID a0 v0 db0"
  shows "switch_chain salonID a0 v0 db"
  using assms
proof (induction rule: rtranclp_induct)
  case (step db db')
  then show ?case using switch_chain_step switch_ok_history by blast
qed

text \<open>
  C18: The authority of a salon is what its committed switches say. In every history that starts
  before the first preview of the salon is stored, however previews, commits and the rest of the
  program interleave, the version has advanced once for each committed run; there is exactly one
  committed run for each version, it starts from the authority its predecessor switched to, and the
  last one names the authority in force.
\<close>
theorem authority_is_chain_of_commits:
  assumes "switch_history db0 db" "switch_ok db0"
    and "authority_row salonID db0 = Some (authority0, version0)"
    and "list_all (\<lambda>run. swr_SalonID run \<noteq> salonID) (swd_Runs db0)"
  shows "\<exists>authority. authority_row salonID db
      = Some (authority, version0 + int (committed_count (swd_Runs db) salonID))
    \<and> authority_after (swd_Runs db) salonID authority0 version0
        (committed_count (swd_Runs db) salonID) = Some authority"
proof -
  have none: "filter (\<lambda>run. swr_SalonID run = salonID \<and> swr_Status run = status_committed)
      (swd_Runs db0) = []"
    using assms(4) by (auto simp: list_all_iff filter_empty_conv)
  then have "switch_chain salonID authority0 version0 db0"
    using assms(3,4) by (auto simp: switch_chain_def committed_count_def list_all_iff)
  then have "switch_chain salonID authority0 version0 db"
    by (rule switch_chain_history [OF assms(1,2)])
  then show ?thesis by (auto simp: switch_chain_def)
qed

section \<open>Previews of an older version\<close>

lemma authority_version_advances:
  assumes "switch_step db db'" "switch_ok db" "authority_row salonID db = Some (authority, version)"
  shows "\<exists>authority' version'. authority_row salonID db' = Some (authority', version')
    \<and> version \<le> version'"
  using assms(1)
proof (cases rule: switch_step_effect)
  case Others
  then show ?thesis using assms(3) by (auto simp: others_keep_switches_def)
next
  case (Inserted env input)
  then show ?thesis using assms(3) by simp
next
  case (Switched env input run)
  then show ?thesis using assms(3) by (auto simp: authority_row_switched)
qed

lemma stale_preview_step:
  assumes "switch_step db db'" "switch_ok db" "run \<in> set (swd_Runs db)"
    "authority_row (swr_SalonID run) db = Some (authority, version)"
    "swr_ExpectedSourceAuthorityVersion run < version"
  shows "run \<in> set (swd_Runs db')"
  using assms(1)
proof (cases rule: switch_step_effect)
  case Others
  then show ?thesis using assms(3) by (simp add: others_keep_switches_def)
next
  case (Inserted env input)
  then show ?thesis using assms(3) by (simp add: inserted_preview_def)
next
  case (Switched env input row)
  have "swr_ID run \<noteq> swm_RunID input"
  proof
    assume "swr_ID run = swm_RunID input"
    then have "run = row"
      using switch_ok_same_run [OF assms(2,3) Switched(2)] Switched(4) by simp
    then show False using Switched(3,6) assms(4,5) by simp
  qed
  then show ?thesis using Switched(1) assms(3) by (force simp: switched_runs)
qed

text \<open>
  A preview dies with its version. Once the authority of a salon has moved past the version a
  preview was made for, no later transaction commits it: its row stays as it is for ever.
\<close>
theorem stale_preview_never_commits:
  assumes "switch_history db db'" "switch_ok db" "run \<in> set (swd_Runs db)"
    and "authority_row (swr_SalonID run) db = Some (authority, version)"
    and "swr_ExpectedSourceAuthorityVersion run < version"
  shows "run \<in> set (swd_Runs db')"
proof -
  have "run \<in> set (swd_Runs db') \<and> (\<exists>authority' version'.
      authority_row (swr_SalonID run) db' = Some (authority', version')
      \<and> swr_ExpectedSourceAuthorityVersion run < version')"
    using assms(1)
  proof (induction rule: rtranclp_induct)
    case base
    then show ?case using assms(3-5) by blast
  next
    case (step d d')
    have ok: "switch_ok d" using switch_ok_history [OF step.hyps(1) assms(2)] .
    obtain a v where here: "run \<in> set (swd_Runs d)"
      "authority_row (swr_SalonID run) d = Some (a, v)" "swr_ExpectedSourceAuthorityVersion run < v"
      using step.IH by blast
    show ?case
      using stale_preview_step [OF step.hyps(2) ok here]
        authority_version_advances [OF step.hyps(2) ok here(2)] here(3) by force
  qed
  then show ?thesis ..
qed

section \<open>When an authority changes\<close>

text \<open>
  The transaction that the commit operation of a program \<open>p\<close> makes at its call \<open>k\<close>, for a run it
  has read.
\<close>

definition commits ::
  "SwitchProgram \<Rightarrow> nat \<Rightarrow> string \<Rightarrow> string \<Rightarrow> SwitchDB \<Rightarrow> SwitchDB \<Rightarrow> bool" where
  "commits p k salonID userID db db' \<longleftrightarrow>
     (\<exists>env runID actionKey run snapshot r.
        Commit_run env (commit_input p k salonID userID runID actionKey run snapshot) db = (r, db')
        \<and> reads_run runID run db
        \<and> (swr_TargetSchedulingAuthority run = TargetExternalProvider \<longrightarrow> swq_ExternalTx p \<noteq> None))"

text \<open>The evidence the transaction reads of the provider is the one the preview stored.\<close>

definition evidence_confirmed :: "SwitchProgram \<Rightarrow> nat \<Rightarrow> string \<Rightarrow> SwitchRun \<Rightarrow> bool" where
  "evidence_confirmed p k userID run =
     (let stored = swr_ReadinessSnapshot run in
      case swq_ExternalTx p of
        None \<Rightarrow> False
      | Some readinessTx \<Rightarrow>
          (case readinessTx k (swr_SalonID run) userID of
             Inl _ \<Rightarrow> False
           | Inr actual \<Rightarrow>
               tr_Ready actual \<and> tr_Ready stored
               \<and> 0 < tr_ReadinessEvidenceVersion actual
               \<and> tr_ReadinessEvidenceVersion actual = tr_ReadinessEvidenceVersion stored
               \<and> length (tr_ReadinessEvidenceFingerprint actual) = 64
               \<and> tr_ReadinessEvidenceFingerprint actual = tr_ReadinessEvidenceFingerprint stored))"

text \<open>What the committing transaction itself has checked of the target.\<close>

definition target_confirmed ::
  "SwitchProgram \<Rightarrow> nat \<Rightarrow> string \<Rightarrow> SwitchRun \<Rightarrow> SwitchDB \<Rightarrow> bool" where
  "target_confirmed p k userID run db =
     (if swr_TargetSchedulingAuthority run = TargetOwnerManual then
        list_ex (\<lambda>settings. swt_SalonID settings = swr_SalonID run
          \<and> swt_BookingMode settings \<in> {''pending_approval'', ''disabled''}) (swd_Settings db)
        \<and> list_ex (\<lambda>service. sws_SalonID service = swr_SalonID run \<and> eligible_service service)
            (swd_Services db)
      else if swr_TargetSchedulingAuthority run = TargetManleAICalendar then
        list_ex (\<lambda>config. swc_SalonID config = swr_SalonID run
          \<and> swc_ActivatedVersion config = Some (swc_Version config)) (swd_Configs db)
      else evidence_confirmed p k userID run)"

lemma fence_confirmed:
  assumes "validateTargetReadinessFenceTx (swr_TargetSchedulingAuthority run) (swr_SalonID run)
      expected db = None"
    "swr_TargetSchedulingAuthority run \<in> {TargetOwnerManual, TargetManleAICalendar}"
  shows "target_confirmed p k userID run db"
proof (cases "swr_TargetSchedulingAuthority run = TargetOwnerManual")
  case True
  let ?services = "filter (\<lambda>service. sws_SalonID service = swr_SalonID run
          \<and> eligible_service service) (swd_Services db)"
  obtain settings where settings:
      "find (\<lambda>settings. swt_SalonID settings = swr_SalonID run) (swd_Settings db) = Some settings"
    using assms(1) True by (simp add: validateTargetReadinessFenceTx_def split: option.splits)
  have mode: "swt_BookingMode settings \<in> {''pending_approval'', ''disabled''}"
    and services: "int (length ?services) \<noteq> 0"
    using assms(1) True settings
    by (auto simp: validateTargetReadinessFenceTx_def Let_def split: if_splits)
  have "?services \<noteq> []" using services by auto
  show ?thesis
    using find_SomeD [OF settings] mode \<open>?services \<noteq> []\<close> True
    by (auto simp: target_confirmed_def list_ex_iff filter_empty_conv)
next
  case False
  then have calendar: "swr_TargetSchedulingAuthority run = TargetManleAICalendar"
    using assms(2) by simp
  obtain config where config:
      "find (\<lambda>config. swc_SalonID config = swr_SalonID run) (swd_Configs db) = Some config"
    and active: "swc_ActivatedVersion config = Some (swc_Version config)"
    using assms(1) False calendar
    by (auto simp: validateTargetReadinessFenceTx_def split: option.splits if_splits)
  show ?thesis
    using find_SomeD [OF config] active False calendar
    by (auto simp: target_confirmed_def list_ex_iff)
qed

lemma commit_confirms:
  assumes "commits p k salon userID db db'" "switch_ok db"
    and "authority_row salonID db = Some before" "authority_row salonID db' \<noteq> Some before"
  shows "salonID = salon \<and> \<not> live_external salonID db
    \<and> list_ex (\<lambda>run. swr_SalonID run = salonID \<and> swr_Status run = StatusPreviewReady
        \<and> before = (swr_SourceSchedulingAuthority run, swr_ExpectedSourceAuthorityVersion run)
        \<and> authority_row salonID db' = Some (swr_TargetSchedulingAuthority run,
              swr_ExpectedSourceAuthorityVersion run + 1)
        \<and> target_confirmed p k userID run db) (swd_Runs db)"
proof -
  obtain env runID actionKey run snapshot r where commit:
      "Commit_run env (commit_input p k salon userID runID actionKey run snapshot) db = (r, db')"
      "reads_run runID run db"
      "swr_TargetSchedulingAuthority run = TargetExternalProvider \<longrightarrow> swq_ExternalTx p \<noteq> None"
    using assms(1) unfolding commits_def by blast
  let ?input = "commit_input p k salon userID runID actionKey run snapshot"
  have input: "swm_SalonID ?input = salon" "swm_RunID ?input = runID"
    by (simp_all add: commit_input_def)
  from commit(1) show ?thesis
  proof (cases rule: Commit_run_cases)
    case Unchanged
    then show ?thesis using assms(3,4) by simp
  next
    case (Switched row)
    note got = getSwitchRunTx_InrD [OF Switched(3), unfolded input]
    have salon: "salonID = salon"
      using assms(3,4) Switched(2) by (auto simp: authority_row_switched input split: if_splits)
    have same: "swr_TargetSchedulingAuthority row = swr_TargetSchedulingAuthority run"
      "swr_ReadinessSnapshot row = swr_ReadinessSnapshot run"
      using commit(2) got by (auto simp: reads_run_def)
    have "target_confirmed p k userID row db"
    proof (cases "swr_TargetSchedulingAuthority run = TargetExternalProvider")
      case True
      then obtain readinessTx where reader: "swq_ExternalTx p = Some readinessTx"
        using commit(3) by auto
      then have "evidence_validator p k salon userID (swr_ReadinessSnapshot run) readinessTx db = None"
        using Switched(7) True by (simp add: target_readiness_check_def commit_input_def)
      then show ?thesis
        using True same got(2) reader
        by (auto simp: evidence_validator_def sameReadinessEvidence_def target_confirmed_def
            evidence_confirmed_def switch_targets split: sum.splits if_splits)
    next
      case False
      then have fence: "validateTargetReadinessFenceTx (swr_TargetSchedulingAuthority row) salon
          snapshot db = None"
        using Switched(7) by (simp add: target_readiness_check_def commit_input_def)
      have "swr_TargetSchedulingAuthority row \<in> {TargetOwnerManual, TargetManleAICalendar}"
        using assms(2) got(1) False same by (auto simp: switch_ok_def authority_check_def)
      then show ?thesis using fence_confirmed fence got(2) by blast
    qed
    moreover have "swr_SourceSchedulingAuthority row \<noteq> swr_TargetSchedulingAuthority row"
      using assms(2) got(1) by (simp add: switch_ok_def)
    ultimately show ?thesis
      using Switched(2,4,5,6) got assms(3) salon
      by (auto simp: list_ex_iff authority_row_switched input)
  qed
qed

lemma authority_changed_by_commit:
  assumes "switch_step db db'"
    and "authority_row salonID db = Some before" "authority_row salonID db' \<noteq> Some before"
  shows "\<exists>p k salon userID. commits p k salon userID db db'"
  using assms(1)
proof cases
  case (Preview_Step env input r)
  then show ?thesis
    by (cases rule: CreateOrReplayPreview_cases) (use assms(2,3) in simp_all)
next
  case (Commit_Step env p k salon userID runID actionKey run snapshot r)
  then show ?thesis unfolding commits_def by blast
next
  case Other_Step
  then have "authority_row salonID db' = Some before"
    using assms(2) unfolding others_keep_switches_def by blast
  with assms(3) show ?thesis by simp
qed

text \<open>
  C19: An authority changes only under control. A step that changes the authority of a salon is the
  transaction of a commit, and no call of the external provider is then in flight. Whichever program,
  call and user made that transaction, it commits a run that was ready: the run's source and expected
  version are those in force, its target is in force afterwards, one version later, and the target is
  confirmed in the same transaction. An owner who reviews needs a fitting booking mode and a bookable
  service, the internal calendar its latest configuration activated, and the external provider must
  show, when the transaction asks it, readiness with the very evidence version and 64-byte
  fingerprint that the preview stored.
\<close>
theorem authority_changes_under_control:
  assumes "switch_step db db'" "switch_ok db"
    and "authority_row salonID db = Some before" "authority_row salonID db' \<noteq> Some before"
  shows "(\<exists>p k userID. commits p k salonID userID db db')
    \<and> \<not> live_external salonID db
    \<and> (\<forall>p k salon userID. commits p k salon userID db db' \<longrightarrow> salon = salonID
        \<and> list_ex (\<lambda>run. swr_SalonID run = salonID \<and> swr_Status run = StatusPreviewReady
            \<and> before = (swr_SourceSchedulingAuthority run, swr_ExpectedSourceAuthorityVersion run)
            \<and> authority_row salonID db' = Some (swr_TargetSchedulingAuthority run,
                  swr_ExpectedSourceAuthorityVersion run + 1)
            \<and> target_confirmed p k userID run db) (swd_Runs db))"
  using authority_changed_by_commit [OF assms(1,3,4)] commit_confirms [OF _ assms(2-4)] by blast

end
