(* ===== verification/Switch_Run.thy ===== *)
theory Switch_Run
  imports Switch_Guarantees
begin

text \<open>
  The operations of the service run in the histories of \<open>Switch_Safety\<close>, whatever other transactions
  come between their calls, and what a caller may rely on: a switch that was made is not made again
  by a repeated command, a prepared one is completed by it, and a commit needs a key of its own.
\<close>

section \<open>Operations as histories\<close>

definition runs_from ::
  "(SwitchDB \<Rightarrow> SwitchDB \<Rightarrow> bool) \<Rightarrow> 'a switch_call \<Rightarrow> switch_state \<Rightarrow> bool" where
  "runs_from R m st \<longleftrightarrow> R\<^sup>*\<^sup>* (fst st) (fst (snd (m st)))"

text \<open>What the operations need of the steps between and within their calls.\<close>

locale interleaved =
  fixes step :: "SwitchDB \<Rightarrow> SwitchDB \<Rightarrow> bool" and ok :: "SwitchDB \<Rightarrow> bool"
  assumes keeps: "step db db' \<Longrightarrow> ok db \<Longrightarrow> ok db'"
begin

lemma keeps_history: "step\<^sup>*\<^sup>* db db' \<Longrightarrow> ok db \<Longrightarrow> ok db'"
  by (induction rule: rtranclp_induct) (auto intro: keeps)

lemma fail: "runs_from step (switch_fail e) st"
  by (simp add: runs_from_def switch_fail_def)

lemma return: "runs_from step (switch_return x) st"
  by (simp add: runs_from_def switch_return_def)

lemma at_state: "runs_from step (m st) st \<Longrightarrow> runs_from step (\<lambda>st. m st st) st"
  by (simp add: runs_from_def)

lemma bind:
  assumes "runs_from step m st"
    and "\<And>x st'. m st = (Inr x, st') \<Longrightarrow> step\<^sup>*\<^sup>* (fst st) (fst st') \<Longrightarrow> runs_from step (f x) st'"
  shows "runs_from step (switch_bind m f) st"
proof -
  obtain r st' where Pair: "m st = (r, st')" by (cases "m st")
  show ?thesis
  proof (cases r)
    case (Inl e)
    then show ?thesis using assms(1) Pair by (simp add: runs_from_def switch_bind_def)
  next
    case (Inr x)
    have first: "step\<^sup>*\<^sup>* (fst st) (fst st')" using assms(1) Pair by (simp add: runs_from_def)
    have "runs_from step (f x) st'" using assms(2) Pair Inr first by blast
    with first show ?thesis
      using Pair Inr by (simp add: runs_from_def switch_bind_def)
  qed
qed

lemma lookup: "runs_from step m st \<Longrightarrow> runs_from step (switch_lookup m) st"
  by (auto simp: runs_from_def switch_lookup_def split: prod.splits sum.splits switch_error.splits)

lemma call:
  assumes "step\<^sup>*\<^sup>* (fst st) (swq_Others p (snd st) (fst st))"
    and "\<And>r db'. f (swq_Env p (snd st)) (swq_Others p (snd st) (fst st)) = (r, db')
          \<Longrightarrow> step\<^sup>*\<^sup>* (swq_Others p (snd st) (fst st)) db'"
  shows "runs_from step (switch_call p f) st"
  using assms by (auto simp: runs_from_def switch_call_def split: prod.splits)

lemma query:
  assumes "step\<^sup>*\<^sup>* (fst st) (swq_Others p (snd st) (fst st))"
  shows "runs_from step (switch_query p f) st"
  unfolding switch_query_def by (rule call [OF assms]) simp

end

interpretation switching: interleaved switch_step switch_ok
  by unfold_locales (rule switch_ok_step)

text \<open>The transactions of others are histories as well.\<close>

definition others_run :: "SwitchProgram \<Rightarrow> bool" where
  "others_run p \<longleftrightarrow> (\<forall>k db. switch_history db (swq_Others p k db))"

lemma others_runD: "others_run p \<Longrightarrow> switch_history db (swq_Others p k db)"
  by (simp add: others_run_def)

lemmas switch_runs = switching.fail switching.return switching.query [OF others_runD]
  switching.lookup [OF switching.query [OF others_runD]]

lemma module_target_runs:
  "runs_from switch_step (module_target code message target v module salonID userID) st"
  by (cases st) (auto simp: runs_from_def module_target_def split: option.splits sum.splits)

lemma evaluateTarget_runs:
  "others_run p \<Longrightarrow> runs_from switch_step (evaluateTarget p salonID userID target v) st"
  unfolding evaluateTarget_def
  by (intro switching.bind switch_runs)
    (auto intro!: switching.bind switch_runs module_target_runs)

lemma CreateOrReplayPreview_runs:
  "others_run p \<Longrightarrow> runs_from switch_step
     (switch_call p (\<lambda>env. CreateOrReplayPreview env input)) st"
  by (rule switching.call [OF others_runD]) (auto intro: Preview_Step)

lemma PreviewSwitch_runs:
  "others_run p \<Longrightarrow> runs_from switch_step (PreviewSwitch p salonID userID req) st"
  unfolding PreviewSwitch_def new_preview_def rollback_allowed_def Let_def
  by (auto intro!: switching.bind switch_runs evaluateTarget_runs CreateOrReplayPreview_runs
      split: option.splits prod.splits)

lemma PrepareChange_runs:
  "others_run p \<Longrightarrow> runs_from switch_step (PrepareChange p salonID userID req) st"
  unfolding PrepareChange_def Let_def
  by (auto intro!: switching.bind switch_runs PreviewSwitch_runs split: option.splits)

text \<open>A run that was read keeps its identifier, target and evidence.\<close>

definition knows_run :: "string \<Rightarrow> SwitchRun \<Rightarrow> SwitchDB \<Rightarrow> bool" where
  "knows_run runID run db \<longleftrightarrow>
     (\<exists>row \<in> set (swd_Runs db). swr_ID row = runID
        \<and> swr_TargetSchedulingAuthority row = swr_TargetSchedulingAuthority run
        \<and> swr_ReadinessSnapshot row = swr_ReadinessSnapshot run)"

lemma knows_run_step: "switch_step db db' \<Longrightarrow> knows_run runID run db \<Longrightarrow> knows_run runID run db'"
proof (erule switch_step_effect, goal_cases)
  case 1
  then show ?case by (simp add: knows_run_def others_keep_switches_def)
next
  case (2 env input)
  then show ?case by (auto simp: knows_run_def inserted_preview_def)
next
  case (3 env input other)
  let ?mark = "\<lambda>r. if swr_ID r = swm_RunID input then committed_run (swn_Now env) r else r"
  obtain row where row: "row \<in> set (swd_Runs db)" "swr_ID row = runID"
    "swr_TargetSchedulingAuthority row = swr_TargetSchedulingAuthority run"
    "swr_ReadinessSnapshot row = swr_ReadinessSnapshot run"
    using 3 by (auto simp: knows_run_def)
  have "?mark row \<in> set (swd_Runs db')" using row(1) 3 by (auto simp: switched_runs)
  then show ?case unfolding knows_run_def
    by (rule bexI [rotated]) (use row in simp)
qed

lemma knows_run_history: "switch_history db db' \<Longrightarrow> knows_run runID run db \<Longrightarrow> knows_run runID run db'"
  by (induction rule: rtranclp_induct) (auto intro: knows_run_step)

lemma knows_run_reads: "switch_ok db \<Longrightarrow> knows_run runID run db \<Longrightarrow> reads_run runID run db"
  unfolding knows_run_def reads_run_def using switch_ok_same_run by metis

lemma Commit_call_runs:
  assumes "others_run p" "switch_ok (fst st)" "knows_run runID run (fst st)"
    "swr_TargetSchedulingAuthority run = TargetExternalProvider \<longrightarrow> swq_ExternalTx p \<noteq> None"
  shows "runs_from switch_step (switch_call p (\<lambda>env. Commit_run env
    (commit_input p k salonID userID runID actionKey run snapshot))) st"
proof (rule switching.call [OF others_runD [OF assms(1)]])
  fix r db'
  let ?db = "swq_Others p (snd st) (fst st)"
  assume committed: "Commit_run (swq_Env p (snd st))
    (commit_input p k salonID userID runID actionKey run snapshot) ?db = (r, db')"
  have "reads_run runID run ?db"
    using others_runD [OF assms(1), of "fst st" "snd st"] assms(2,3)
    by (intro knows_run_reads) (auto intro: switch_ok_history knows_run_history)
  then show "switch_history ?db db'"
    using Commit_Step [OF committed _ assms(4)] by blast
qed

lemma commit_ready_run_runs:
  assumes "others_run p" "switch_ok (fst st)" "knows_run runID run (fst st)"
  shows "runs_from switch_step (commit_ready_run p salonID userID runID actionKey run) st"
  unfolding commit_ready_run_def
proof (rule switching.bind [OF evaluateTarget_runs [OF assms(1)]], goal_cases)
  case (1 evaluated st1)
  have st1: "switch_ok (fst st1)" "knows_run runID run (fst st1)"
    using 1(2) assms(2,3) by (auto intro: switch_ok_history knows_run_history)
  obtain snapshot blockers where evaluated: "evaluated = (snapshot, blockers)" by (cases evaluated)
  have committing: "runs_from switch_step (\<lambda>st. switch_bind (switch_call p (\<lambda>env. Commit_run env
        (commit_input p (snd st) salonID userID runID actionKey run snapshot)))
      (\<lambda>(committed, replayed).
         switch_return \<lparr>prs_SwitchRun = committed, prs_Replayed = replayed\<rparr>) st) st1"
    if "swr_TargetSchedulingAuthority run = TargetExternalProvider \<longrightarrow> swq_ExternalTx p \<noteq> None"
    by (rule switching.at_state, rule switching.bind [OF Commit_call_runs [OF assms(1) st1 that]])
      (auto intro: switch_runs)
  show ?case
    unfolding evaluated prod.case
    by (auto intro: switch_runs committing)
qed

lemma commit_unreplayed_runs:
  assumes "others_run p" "switch_ok (fst st)"
  shows "runs_from switch_step
    (switch_bind (switch_query p (\<lambda>env. Get_run env salonID userID runID))
      (\<lambda>run. if swr_Status run \<noteq> StatusPreviewReady then switch_fail ErrStateConflict
         else commit_ready_run p salonID userID runID actionKey run)) st"
proof (rule switching.bind [OF switch_runs(3) [OF assms(1)]], goal_cases)
  case (1 run st')
  have "Get_run (swq_Env p (snd st)) salonID userID runID (fst st') = Inr run"
    using 1(1) by (auto simp: switch_query_def switch_call_def split: prod.splits)
  then have "knows_run runID run (fst st')"
    using Get_run_InrD unfolding knows_run_def by blast
  moreover have "switch_ok (fst st')" using switch_ok_history 1(2) assms(2) by blast
  ultimately show ?case
    by (simp add: switch_runs(1) commit_ready_run_runs [OF assms(1)])
qed

lemma CommitSwitch_runs:
  assumes "others_run p" "switch_ok (fst st)"
  shows "runs_from switch_step (CommitSwitch p salonID userID runID actionKey) st"
  unfolding CommitSwitch_def Let_def
  using assms switch_ok_history
  by (auto intro!: switch_runs switching.bind commit_unreplayed_runs split: option.splits)

lemma ChangeAuthority_runs:
  assumes "others_run p" "switch_ok (fst st)"
  shows "runs_from switch_step (ChangeAuthority p salonID userID req) st"
  unfolding ChangeAuthority_def
proof (rule switching.bind [OF PrepareChange_runs [OF assms(1)]], goal_cases)
  case (1 response st')
  then show ?case
    by (simp add: switch_runs(2) CommitSwitch_runs [OF assms(1) switch_ok_history [OF 1(2) assms(2)]])
qed

text \<open>
  C21: The program refines the histories. Whatever a change, a preview or a commit answers, and
  whatever transactions of others come between its calls, the database it leaves is one that a
  history of switch transactions leads to; so the guarantees about histories hold of every run of
  the program.
\<close>
theorem switch_program_is_a_history:
  assumes "others_run p" "switch_ok (fst st)"
  shows "switch_history (fst st) (fst (snd (ChangeAuthority p salonID userID req st)))
    \<and> switch_history (fst st) (fst (snd (PreviewSwitch p salonID userID preview st)))
    \<and> switch_history (fst st) (fst (snd (CommitSwitch p salonID userID runID actionKey st)))"
  using ChangeAuthority_runs [OF assms] PreviewSwitch_runs [OF assms(1)] CommitSwitch_runs [OF assms]
  unfolding runs_from_def by blast

section \<open>Repeated and interrupted commands\<close>

lemma committed_run_kept:
  assumes "switch_step db db'" "switch_ok db" "run \<in> set (swd_Runs db)"
    "swr_Status run = status_committed"
  shows "run \<in> set (swd_Runs db')"
  using assms(1)
proof (cases rule: switch_step_effect)
  case Others
  then show ?thesis using assms(3) by (simp add: others_keep_switches_def)
next
  case (Inserted env input)
  then show ?thesis using assms(3) by (simp add: inserted_preview_def)
next
  case (Switched env input row)
  have "swr_ID run \<noteq> swm_RunID input"
    using switch_ok_same_run [OF assms(2,3) Switched(2)] Switched(4,5) assms(4) by auto
  then show ?thesis using Switched(1) assms(3) by (force simp: switched_runs)
qed

lemma committed_run_status [simp]: "swr_Status (committed_run now run) = status_committed"
  by (simp add: committed_run_def)

lemma committed_run_kept_history:
  assumes "switch_history db db'" "switch_ok db" "run \<in> set (swd_Runs db)"
    "swr_Status run = status_committed"
  shows "run \<in> set (swd_Runs db')"
  using assms
proof (induction rule: rtranclp_induct)
  case (step d d')
  then show ?case using committed_run_kept switch_ok_history by blast
qed

lemma FindByOperationKey_run:
  assumes "switch_ok db" "run \<in> set (swd_Runs db)"
    "may_write_technical env (swr_SalonID run) userID" "swn_Refused env [userID] = None"
  shows "FindByOperationKey env (swr_SalonID run) userID (swr_OperationKey run) db = Inr run"
proof -
  have "find (\<lambda>r. swr_SalonID r = swr_SalonID run \<and> may_write_technical env (swr_SalonID r) userID
        \<and> swr_OperationKey r = swr_OperationKey run) (swd_Runs db) = Some run"
  proof (rule find_only)
    show "r = run" if "r \<in> set (swd_Runs db)" "swr_SalonID r = swr_SalonID run
        \<and> may_write_technical env (swr_SalonID r) userID
        \<and> swr_OperationKey r = swr_OperationKey run" for r
      using switch_ok_same_key [OF assms(1) that(1) assms(2)] that(2) by blast
  qed (use assms in simp_all)
  then show ?thesis using assms(4) by (simp add: FindByOperationKey_def query_row_def)
qed

text \<open>The run a change request stands for, and the requests the service accepts.\<close>

definition run_of_change :: "SwitchProgram \<Rightarrow> string \<Rightarrow> ChangeRequest \<Rightarrow> SwitchRun \<Rightarrow> bool" where
  "run_of_change p salonID req run \<longleftrightarrow>
     swr_SalonID run = TrimSpace salonID
     \<and> swr_OperationKey run = changeOperationKey p (cgr_ActionKey req)
     \<and> swr_TargetSchedulingAuthority run = TrimSpace (cgr_TargetSchedulingAuthority req)
     \<and> swr_ExpectedSourceAuthorityVersion run = cgr_ExpectedAuthorityVersion req
     \<and> swr_RollbackOfSwitchRunID run = TrimSpace (cgr_RollbackOfSwitchRunID req)"

definition valid_change :: "string \<Rightarrow> string \<Rightarrow> ChangeRequest \<Rightarrow> bool" where
  "valid_change salonID userID req \<longleftrightarrow>
     TrimSpace salonID \<noteq> [] \<and> TrimSpace userID \<noteq> []
     \<and> validAuthority (TrimSpace (cgr_TargetSchedulingAuthority req))
     \<and> 0 < cgr_ExpectedAuthorityVersion req \<and> TrimSpace (cgr_ActionKey req) \<noteq> []
     \<and> length (TrimSpace (cgr_ActionKey req)) \<le> maxOperationKeyBytes"

lemma PrepareChange_existing:
  assumes "switch_ok db" "run \<in> set (swd_Runs db)" "run_of_change p salonID req run"
    "valid_change salonID userID req"
    "may_write_technical (swq_Env p k) (TrimSpace salonID) (TrimSpace userID)"
    "swn_Refused (swq_Env p k) [TrimSpace userID] = None" "swq_Others p k db0 = db"
  shows "PrepareChange p salonID userID req (db0, k)
    = (Inr \<lparr>prs_SwitchRun = run, prs_Replayed = True\<rparr>, (db, Suc k))"
proof -
  have "FindByOperationKey (swq_Env p k) (TrimSpace salonID) (TrimSpace userID)
      (changeOperationKey p (TrimSpace (cgr_ActionKey req))) db = Inr run"
    using FindByOperationKey_run [OF assms(1,2), of "swq_Env p k" "TrimSpace userID"] assms(3,5,6)
    by (simp add: run_of_change_def changeOperationKey_def)
  then have "switch_lookup (switch_query p (\<lambda>env. FindByOperationKey env (TrimSpace salonID)
      (TrimSpace userID) (changeOperationKey p (TrimSpace (cgr_ActionKey req))))) (db0, k)
      = (Inr (Some run), (db, Suc k))"
    using assms(7) by (simp add: switch_lookup_def switch_query_def switch_call_def)
  then show ?thesis
    using assms(3,4)
    by (simp add: PrepareChange_def Let_def valid_change_def run_of_change_def switch_bind_def
        switch_return_def)
qed

text \<open>
  C22: A switch that was made is not made again. Once a change has committed, the same change request,
  by any user who may write and at any later time, whatever switches have happened since, is
  answered with the committed run and changes nothing.
\<close>
theorem completed_change_replays:
  assumes "switch_ok db" "run \<in> set (swd_Runs db)" "swr_Status run = status_committed"
    and "run_of_change p salonID req run" "valid_change salonID userID req"
    and "switch_history db db0" "switch_history db0 (swq_Others p k db0)"
    and "may_write_technical (swq_Env p k) (TrimSpace salonID) (TrimSpace userID)"
    and "swn_Refused (swq_Env p k) [TrimSpace userID] = None"
  shows "ChangeAuthority p salonID userID req (db0, k)
    = (Inr \<lparr>prs_SwitchRun = run, prs_Replayed = True\<rparr>, (swq_Others p k db0, Suc k))"
proof -
  have later: "switch_history db (swq_Others p k db0)" using assms(6,7) by simp
  have "PrepareChange p salonID userID req (db0, k)
      = (Inr \<lparr>prs_SwitchRun = run, prs_Replayed = True\<rparr>, (swq_Others p k db0, Suc k))"
    using PrepareChange_existing [OF switch_ok_history [OF later assms(1)]
        committed_run_kept_history [OF later assms(1-3)] assms(4,5,8,9)] by simp
  then show ?thesis
    using assms(3) by (simp add: ChangeAuthority_def switch_bind_def switch_return_def)
qed

text \<open>
  A user whom the roles and the triggers allow to switch the salon, as a member of it or as an
  operator of the platform, over calls that do not fail in the driver.
\<close>

definition allowed_for :: "SwitchProgram \<Rightarrow> string \<Rightarrow> string \<Rightarrow> bool" where
  "allowed_for p salonID userID \<longleftrightarrow>
     (\<forall>k. may_write_technical (swq_Env p k) salonID userID
        \<and> may_read_technical (swq_Env p k) salonID userID
        \<and> swn_MayAct (swq_Env p k) salonID userID \<and> swn_Refused (swq_Env p k) = (\<lambda>_. None))"

lemma allowed_forD:
  assumes "allowed_for p salonID userID"
  shows "may_write_technical (swq_Env p k) salonID userID"
    "may_read_technical (swq_Env p k) salonID userID" "swn_MayAct (swq_Env p k) salonID userID"
    "swn_Refused (swq_Env p k) x = None"
  using assms by (simp_all add: allowed_for_def)

text \<open>A run that is ready at the end of a history was there, ready, throughout.\<close>

lemma run_kept_or_committed:
  assumes "switch_history db d" "switch_ok db" "run \<in> set (swd_Runs db)"
  shows "run \<in> set (swd_Runs d) \<or> (\<exists>now. committed_run now run \<in> set (swd_Runs d))"
  using assms(1)
proof (induction rule: rtranclp_induct)
  case base
  then show ?case using assms(3) by blast
next
  case (step d d')
  have ok: "switch_ok d" using switch_ok_history [OF step.hyps(1) assms(2)] .
  from step.hyps(2) show ?case
  proof (cases rule: switch_step_effect)
    case Others
    then show ?thesis using step.IH by (simp add: others_keep_switches_def)
  next
    case (Inserted env input)
    then show ?thesis using step.IH by (auto simp: inserted_preview_def)
  next
    case (Switched env input row)
    have "committed_run now run \<in> set (swd_Runs d')" if "committed_run now run \<in> set (swd_Runs d)"
      for now
      using committed_run_kept [OF step.hyps(2) ok that] by (simp add: committed_run_def)
    then show ?thesis using step.IH Switched(1) by (force simp: switched_runs)
  qed
qed

lemma ready_run_between:
  assumes "switch_ok db" "run \<in> set (swd_Runs db)" "switch_history db d" "switch_history d d'"
    "run \<in> set (swd_Runs d')" "swr_Status run = StatusPreviewReady"
  shows "run \<in> set (swd_Runs d)"
proof (rule ccontr)
  assume "run \<notin> set (swd_Runs d)"
  then obtain now where "committed_run now run \<in> set (swd_Runs d)"
    using run_kept_or_committed [OF assms(3,1,2)] by blast
  moreover have "switch_ok d" using switch_ok_history [OF assms(3,1)] .
  ultimately have "committed_run now run \<in> set (swd_Runs d')"
    using committed_run_kept_history [OF assms(4)] by (simp add: committed_run_def)
  moreover have "switch_ok d'" using switch_ok_history [OF assms(4) \<open>switch_ok d\<close>] .
  ultimately have "committed_run now run = run"
    using switch_ok_same_run assms(5) by (fastforce simp: committed_run_def)
  then show False
    using assms(6) status_consts_distinct by (metis committed_run_status)
qed

lemma events_kept: "switch_history d d' \<Longrightarrow> set (swd_Events d) \<subseteq> set (swd_Events d')"
proof (induction rule: rtranclp_induct)
  case (step d' d'')
  from step.hyps(2) have "set (swd_Events d') \<subseteq> set (swd_Events d'')"
    by (cases rule: switch_step_effect)
      (auto simp: others_keep_switches_def inserted_preview_def switched_def)
  with step.IH show ?case by blast
qed simp

text \<open>A run that can be committed now under a key that no event of it has.\<close>

definition can_commit :: "string \<Rightarrow> SwitchRun \<Rightarrow> SwitchDB \<Rightarrow> bool" where
  "can_commit actionKey run db \<longleftrightarrow>
     swr_Status run = StatusPreviewReady
     \<and> authority_row (swr_SalonID run) db
         = Some (swr_SourceSchedulingAuthority run, swr_ExpectedSourceAuthorityVersion run)
     \<and> \<not> live_external (swr_SalonID run) db
     \<and> \<not> list_ex (\<lambda>event. swe_SwitchRunID event = swr_ID run \<and> swe_ActionKey event = actionKey)
           (swd_Events db)"

lemma find_run:
  assumes "switch_ok db" "run \<in> set (swd_Runs db)" "Q (swr_SalonID run)"
  shows "find (\<lambda>r. swr_SalonID r = swr_SalonID run \<and> Q (swr_SalonID r) \<and> swr_ID r = swr_ID run)
      (swd_Runs db) = Some run"
proof (rule find_only)
  show "r = run" if "r \<in> set (swd_Runs db)"
      "swr_SalonID r = swr_SalonID run \<and> Q (swr_SalonID r) \<and> swr_ID r = swr_ID run" for r
    using switch_ok_same_run [OF assms(1) that(1) assms(2)] that(2) by blast
qed (use assms in simp_all)

lemma CurrentAuthority_of_row:
  assumes "authority_row salonID db = Some (authority, version)"
    "may_write_technical env salonID userID" "swn_Refused env [userID] = None"
  shows "CurrentAuthority env salonID userID db
    = Inr \<lparr>aus_Authority = authority, aus_Version = version\<rparr>"
proof -
  obtain settings where settings:
      "find (\<lambda>settings. swt_SalonID settings = salonID) (swd_Settings db) = Some settings"
    and row: "swt_SchedulingAuthority settings = authority"
      "swt_SchedulingAuthorityVersion settings = version"
    using assms(1) by (auto simp: authority_row_def)
  have "find (\<lambda>settings. swt_SalonID settings = salonID
      \<and> may_write_technical env (swt_SalonID settings) userID) (swd_Settings db) = Some settings"
    using settings assms(2) by (metis (mono_tags, lifting) find_cong)
  then show ?thesis using assms(3) row by (simp add: CurrentAuthority_def query_row_def)
qed

lemma commit_event_None:
  "\<not> list_ex (\<lambda>event. swe_SwitchRunID event = runID \<and> swe_ActionKey event = actionKey)
      (swd_Events db) \<Longrightarrow> commit_event runID actionKey db = None"
  by (auto simp: commit_event_def find_None_iff list_ex_iff)

lemma event_accepted:
  assumes "switch_ok db" "run \<in> set (swd_Runs db)" "can_commit (swm_ActionKey input) run db"
    "swm_SalonID input = swr_SalonID run" "swm_RunID input = swr_ID run"
    "swn_MayAct env (swr_SalonID run) (swm_OwnerUserID input)"
  shows "event_rejected env (committed_event input run)
    (mark_committed now (swm_RunID input) (set_authority (swm_SalonID input) target db)) = None"
proof -
  let ?db = "mark_committed now (swm_RunID input) (set_authority (swm_SalonID input) target db)"
  let ?mark = "\<lambda>r. if swr_ID r = swm_RunID input then committed_run now r else r"
  have runs: "swd_Runs ?db = map ?mark (swd_Runs db)"
    by (simp add: mark_committed_def set_authority_def committed_run_def)
  have "prior_run (swr_SalonID run) (swr_ID run) ?db
      = map_option ?mark (prior_run (swr_SalonID run) (swr_ID run) db)"
    unfolding prior_run_def runs by (rule find_map) simp
  also have "\<dots> = Some (committed_run now run)"
    using find_run [OF assms(1,2), of "\<lambda>_. True"] assms(5) by (simp add: prior_run_def)
  finally have prior: "prior_run (swr_SalonID run) (swr_ID run) ?db
      = Some (committed_run now run)" .
  have "swd_Events ?db = swd_Events db" by (simp add: mark_committed_def set_authority_def)
  then show ?thesis
    using assms(3-6) prior by (simp add: event_rejected_def committed_event_def can_commit_def)
qed

lemma Commit_run_completes:
  assumes "switch_ok db" "run \<in> set (swd_Runs db)" "can_commit (swm_ActionKey input) run db"
    "swm_SalonID input = swr_SalonID run" "swm_RunID input = swr_ID run"
    "swn_MayAct env (swr_SalonID run) (swm_OwnerUserID input)"
    "may_write_technical env (swr_SalonID run) (swm_OwnerUserID input)"
    "swn_Refused env [swm_OwnerUserID input] = None"
    "target_readiness_check input run db = None"
  shows "Commit_run env input db
    = (case swn_Guards env db (switched env input run db) of
         None \<Rightarrow> (Inr (committed_run (swn_Now env) run, False), switched env input run db)
       | Some e \<Rightarrow> (Inl (SwitchDatabaseError e), db))"
proof -
  let ?may = "\<lambda>salonID. may_write_technical env salonID (swm_OwnerUserID input)"
  have got: "getSwitchRunTx env (swm_SalonID input) (swm_OwnerUserID input) (swm_RunID input) db
      = Inr run"
    using find_run [OF assms(1,2), of ?may] assms(4,5,7,8)
    by (simp add: getSwitchRunTx_def query_row_def)
  have "committed_run (swn_Now env) run \<in> set (swd_Runs (switched env input run db))"
    using assms(2,5) by (auto simp: switched_runs)
  then have after: "getSwitchRunTx env (swm_SalonID input) (swm_OwnerUserID input) (swm_RunID input)
      (switched env input run db) = Inr (committed_run (swn_Now env) run)"
    using find_run [OF switch_ok_switched [OF assms(1), of env input run],
        of "committed_run (swn_Now env) run" ?may] assms(4,5,7,8)
    by (simp add: getSwitchRunTx_def query_row_def)
  have shape: "(mark_committed (swn_Now env) (swm_RunID input)
        (set_authority (swm_SalonID input) (swr_TargetSchedulingAuthority run) db))
      \<lparr>swd_Events := swd_Events (mark_committed (swn_Now env) (swm_RunID input)
        (set_authority (swm_SalonID input) (swr_TargetSchedulingAuthority run) db))
          @ [committed_event input run]\<rparr> = switched env input run db"
    by (simp add: switched_def mark_committed_def set_authority_def)
  have applied: "apply_switch env input run db
      = commit_switch env [] db (switched env input run db)
          (committed_run (swn_Now env) run, False)"
    unfolding apply_switch_def Let_def shape
    using event_accepted [OF assms(1-6)] after by simp
  have "CurrentAuthority env (swm_SalonID input) (swm_OwnerUserID input) db
      = Inr \<lparr>aus_Authority = swr_SourceSchedulingAuthority run,
             aus_Version = swr_ExpectedSourceAuthorityVersion run\<rparr>"
    using CurrentAuthority_of_row assms(3,4,7,8) by (simp add: can_commit_def)
  then show ?thesis
    using got applied assms(3,4,5,9) commit_event_None [of "swr_ID run" "swm_ActionKey input" db]
    by (simp add: Commit_run_def can_commit_def commit_switch_def split: option.split)
qed

text \<open>The answer of the last call: the switch, or what the schema refuses the transaction for.\<close>

definition switch_or_refusal ::
  "SwitchProgram \<Rightarrow> nat \<Rightarrow> SwitchRun \<Rightarrow> SwitchDB \<Rightarrow> SwitchDB
     \<Rightarrow> (switch_error + PreviewResponse) \<times> switch_state" where
  "switch_or_refusal p k run db db' =
     (case swn_Guards (swq_Env p k) db db' of
        None \<Rightarrow> (Inr \<lparr>prs_SwitchRun = committed_run (swn_Now (swq_Env p k)) run,
                       prs_Replayed = False\<rparr>, (db', Suc k))
      | Some e \<Rightarrow> (Inl (SwitchDatabaseError e), (db, Suc k)))"

lemma CommitSwitch_completes:
  assumes "run \<in> set (swd_Runs d2)" "switch_ok d2" "run \<in> set (swd_Runs d4)" "switch_ok d4"
    and ready: "can_commit (TrimSpace actionKey) run d4" "set (swd_Events d1) \<subseteq> set (swd_Events d4)"
    and allowed: "allowed_for p (swr_SalonID run) userID"
    and keys: "TrimSpace (swr_SalonID run) \<noteq> []" "TrimSpace userID \<noteq> []"
      "TrimSpace (swr_ID run) = swr_ID run" "swr_ID run \<noteq> []"
      "TrimSpace actionKey \<noteq> []" "length (TrimSpace actionKey) \<le> maxOperationKeyBytes"
    and others: "d1 = swq_Others p k db" "d2 = swq_Others p (Suc k) d1" "d4 = swq_Others p k' d3"
    and target: "evaluateTarget p (swr_SalonID run) userID (swr_TargetSchedulingAuthority run)
        (swr_ExpectedSourceAuthorityVersion run) (d2, Suc (Suc k)) = (Inr (snapshot, []), (d3, k'))"
      "readiness_json (swr_ReadinessSnapshot run) = readiness_json snapshot"
      "swr_TargetSchedulingAuthority run = TargetExternalProvider \<longrightarrow> swq_ExternalTx p \<noteq> None"
      "target_readiness_check (commit_input p k' (swr_SalonID run) userID (swr_ID run)
        (TrimSpace actionKey) run snapshot) run d4 = None"
  shows "CommitSwitch p (swr_SalonID run) userID (swr_ID run) actionKey (db, k)
    = switch_or_refusal p k' run d4 (switched (swq_Env p k') (commit_input p k' (swr_SalonID run)
        userID (swr_ID run) (TrimSpace actionKey) run snapshot) run d4)"
proof -
  let ?input = "commit_input p k' (swr_SalonID run) userID (swr_ID run) (TrimSpace actionKey) run
      snapshot"
  have input: "swm_SalonID ?input = swr_SalonID run" "swm_RunID ?input = swr_ID run"
    "swm_ActionKey ?input = TrimSpace actionKey" "swm_OwnerUserID ?input = userID"
    by (simp_all add: commit_input_def)
  note allowed = allowed_forD [OF allowed]
  have no_event: "find (\<lambda>event. swe_SwitchRunID event = swr_ID run
      \<and> swe_SalonID event = swr_SalonID run
      \<and> list_ex (\<lambda>r. swr_ID r = swr_ID run \<and> swr_SalonID r = swr_SalonID run) (swd_Runs d1)
      \<and> may_write_technical (swq_Env p k) (swr_SalonID run) userID
      \<and> swe_ActionKey event = TrimSpace actionKey \<and> swe_EventType event = ''commit'')
      (swd_Events d1) = None"
    using ready by (auto simp: find_None_iff can_commit_def list_ex_iff)
  have replay: "switch_query p (\<lambda>env. ReplayCommit env (swr_SalonID run) userID (swr_ID run)
      (TrimSpace actionKey) (commitFingerprint p (swr_ID run) (TrimSpace actionKey))) (db, k)
      = (Inr None, (d1, Suc k))"
    using no_event allowed(4) others(1)
    by (simp add: switch_query_def switch_call_def ReplayCommit_def query_row_def)
  have got: "switch_query p (\<lambda>env. Get_run env (swr_SalonID run) userID (swr_ID run)) (d1, Suc k)
      = (Inr run, (d2, Suc (Suc k)))"
    using find_run [OF assms(2,1), of "\<lambda>s. may_read_technical (swq_Env p (Suc k)) s userID"]
      allowed(2,4) others(2)
    by (simp add: switch_query_def switch_call_def Get_run_def query_row_def)
  have committed: "Commit_run (swq_Env p k') ?input d4
      = (case swn_Guards (swq_Env p k') d4 (switched (swq_Env p k') ?input run d4) of
           None \<Rightarrow> (Inr (committed_run (swn_Now (swq_Env p k')) run, False),
              switched (swq_Env p k') ?input run d4)
         | Some e \<Rightarrow> (Inl (SwitchDatabaseError e), d4))"
    by (rule Commit_run_completes [OF assms(4,3)])
      (use ready(1) input allowed(1,3,4) target(4) in simp_all)
  have "commit_ready_run p (swr_SalonID run) userID (swr_ID run) (TrimSpace actionKey) run
      (d2, Suc (Suc k))
      = switch_or_refusal p k' run d4 (switched (swq_Env p k') ?input run d4)"
    unfolding commit_ready_run_def switch_or_refusal_def
    using target(1-3) committed others(3)
    by (auto simp: switch_bind_def switch_call_def switch_return_def split: option.split)
  then show ?thesis
    unfolding CommitSwitch_def Let_def
    using replay got keys ready(1) by (simp add: switch_bind_def can_commit_def)
qed

text \<open>
  C23: An interrupted change is completed by repeating it. A change has stored its preview and its
  process then died, or its commit failed; the same request is made again by a member of the salon or
  an operator of the platform who may read and switch it, and no call fails in the driver. Whatever
  others do between the calls, if, when the transaction comes, the preview is still there to commit
  (the authority is the one it names, no provider call is in flight, the key is unused), and the
  target shows the same evidence as before and passes the check of the transaction, then the request
  commits that preview: the target is in force, one version later. Only the constraints and triggers
  that the model leaves to the schema can still refuse, and then nothing has changed.
\<close>
theorem prepared_change_completes:
  assumes "switch_ok db" "run \<in> set (swd_Runs (swq_Others p k db))" "run_of_change p salonID req run"
    and "valid_change salonID userID req" "allowed_for p (TrimSpace salonID) (TrimSpace userID)"
    and "others_run p" "TrimSpace (swr_ID run) = swr_ID run" "swr_ID run \<noteq> []"
    and "evaluateTarget p (TrimSpace salonID) (TrimSpace userID)
        (swr_TargetSchedulingAuthority run) (swr_ExpectedSourceAuthorityVersion run)
        (swq_Others p (Suc (Suc k)) (swq_Others p (Suc k) (swq_Others p k db)), Suc (Suc (Suc k)))
        = (Inr (snapshot, []), (d, k'))"
    and "readiness_json (swr_ReadinessSnapshot run) = readiness_json snapshot"
    and "swr_TargetSchedulingAuthority run = TargetExternalProvider \<longrightarrow> swq_ExternalTx p \<noteq> None"
    and "run \<in> set (swd_Runs (swq_Others p k' d))"
    and "can_commit (TrimSpace (cgr_ActionKey req)) run (swq_Others p k' d)"
    and "target_readiness_check (commit_input p k' (TrimSpace salonID) (TrimSpace userID)
        (swr_ID run) (TrimSpace (cgr_ActionKey req)) run snapshot) run (swq_Others p k' d) = None"
  shows "\<exists>db'. ChangeAuthority p salonID userID req (db, k)
      = switch_or_refusal p k' run (swq_Others p k' d) db'
    \<and> committed_run (swn_Now (swq_Env p k')) run \<in> set (swd_Runs db')
    \<and> authority_row (swr_SalonID run) db' = Some (swr_TargetSchedulingAuthority run,
        swr_ExpectedSourceAuthorityVersion run + 1)"
proof -
  let ?d0 = "swq_Others p k db" and ?d1 = "swq_Others p (Suc k) (swq_Others p k db)"
  let ?d2 = "swq_Others p (Suc (Suc k)) ?d1" and ?d4 = "swq_Others p k' d"
  let ?input = "commit_input p k' (TrimSpace salonID) (TrimSpace userID)
        (swr_ID run) (TrimSpace (cgr_ActionKey req)) run snapshot"
  let ?db = "switched (swq_Env p k') ?input run ?d4"
  have salon: "swr_SalonID run = TrimSpace salonID" using assms(3) by (simp add: run_of_change_def)
  have "switch_history ?d2 d"
    using evaluateTarget_runs [OF assms(6)] assms(9) unfolding runs_from_def by (metis fst_conv snd_conv)
  then have later: "switch_history ?d2 ?d4" using others_runD [OF assms(6)] by (rule rtranclp_trans)
  have early: "switch_history ?d0 ?d2" "switch_history ?d1 ?d2"
    using others_runD [OF assms(6)] by (blast intro: rtranclp_trans)+
  have ok0: "switch_ok ?d0" using switch_ok_history [OF others_runD [OF assms(6)] assms(1)] .
  have ok: "switch_ok ?d2" "switch_ok ?d4"
    using switch_ok_history [OF early(1) ok0] switch_ok_history [OF later] by blast+
  have there: "run \<in> set (swd_Runs ?d2)"
    by (rule ready_run_between [OF ok0 assms(2) early(1) later assms(12)])
      (use assms(13) in \<open>simp add: can_commit_def\<close>)
  have events: "set (swd_Events ?d1) \<subseteq> set (swd_Events ?d4)"
    using events_kept [OF rtranclp_trans [OF early(2) later]] .
  have prepared: "PrepareChange p salonID userID req (db, k)
      = (Inr \<lparr>prs_SwitchRun = run, prs_Replayed = True\<rparr>, (?d0, Suc k))"
    by (rule PrepareChange_existing [OF ok0 assms(2-4)]) (use allowed_forD [OF assms(5)] in simp_all)
  have "CommitSwitch p (swr_SalonID run) (TrimSpace userID) (swr_ID run)
        (TrimSpace (cgr_ActionKey req)) (?d0, Suc k) = switch_or_refusal p k' run ?d4 ?db"
    unfolding salon
    by (rule CommitSwitch_completes [OF there ok(1) assms(12) ok(2),
          where actionKey = "TrimSpace (cgr_ActionKey req)" and k = "Suc k" and ?d1.0 = ?d1
          and ?d3.0 = d, unfolded salon TrimSpace_idem])
      (use assms(4-14) events in \<open>simp_all add: valid_change_def\<close>)
  then have "ChangeAuthority p salonID userID req (db, k) = switch_or_refusal p k' run ?d4 ?db"
    using prepared assms(13) salon
    by (simp add: ChangeAuthority_def switch_bind_def can_commit_def status_consts_distinct)
  moreover have "committed_run (swn_Now (swq_Env p k')) run \<in> set (swd_Runs ?db)"
    using assms(12) by (auto simp: switched_runs commit_input_def)
  moreover have "authority_row (swr_SalonID run) ?db
      = Some (swr_TargetSchedulingAuthority run, swr_ExpectedSourceAuthorityVersion run + 1)"
    using ok(2) assms(12,13) salon
    by (auto simp: authority_row_switched commit_input_def can_commit_def switch_ok_def)
  ultimately show ?thesis by blast
qed

section \<open>Keys of commits\<close>

text \<open>
  Finding. A preview records its operation key as the key of its event, and the table of events
  admits a key only once for each run, while the code looks for the key among the commits alone. A
  commit that any other key would complete therefore fails under the operation key of its own
  preview: no conflict is reported, the driver error of the constraint is, and nothing is switched.
\<close>
theorem commit_under_preview_key_fails:
  assumes "switch_ok db"
    and "Commit_run env (input\<lparr>swm_ActionKey := other, swm_ActionFingerprint := fingerprint\<rparr>) db
      = (Inr (committed, False), db')"
    and "commit_event (swm_RunID input) (swm_ActionKey input) db = None"
    and "swm_ActionKey input = swr_OperationKey committed"
  shows "Commit_run env input db = (Inl (SwitchDatabaseError events_action_key), db)"
  using assms(2)
proof (cases rule: Commit_run_cases)
  case Unchanged
  then show ?thesis by blast
next
  case (Switched run)
  note got = getSwitchRunTx_InrD [OF Switched(3)]
  have run: "getSwitchRunTx env (swm_SalonID input) (swm_OwnerUserID input) (swm_RunID input) db
      = Inr run"
    using Switched(3) by simp
  have key: "swm_ActionKey input = swr_OperationKey run" using assms(4) Switched(1) by simp
  obtain event where event: "event \<in> set (swd_Events db)" "swe_SwitchRunID event = swr_ID run"
    "swe_ActionKey event = swr_OperationKey run"
    using assms(1) got(1) unfolding switch_ok_def by blast
  let ?db = "mark_committed (swn_Now env) (swm_RunID input)
      (set_authority (swm_SalonID input) (swr_TargetSchedulingAuthority run) db)"
  have events: "swd_Events ?db = swd_Events db"
    by (simp add: mark_committed_def set_authority_def)
  have "list_ex (\<lambda>e. swe_SwitchRunID e = swm_RunID input \<and> swe_ActionKey e = swm_ActionKey input)
      (swd_Events db)"
    using event got(3) key by (auto simp: list_ex_iff)
  then have "event_rejected env (committed_event input run) ?db = Some events_action_key"
    using Switched(8)
    by (auto simp: event_rejected_def committed_event_def events split: option.splits if_splits)
  then have applied: "apply_switch env input run db
      = (Inl (SwitchDatabaseError events_action_key), db)"
    by (simp add: apply_switch_def Let_def)
  have current: "CurrentAuthority env (swm_SalonID input) (swm_OwnerUserID input) db
      = Inr \<lparr>aus_Authority = swr_SourceSchedulingAuthority run,
             aus_Version = swr_ExpectedSourceAuthorityVersion run\<rparr>"
    using CurrentAuthority_of_row [of "swm_SalonID input" db] Switched(3,5) got(4)
    by (simp add: getSwitchRunTx_def query_row_def split: option.splits)
  have "target_readiness_check input run db = None"
    using Switched(7) by (simp add: target_readiness_check_def cong: option.case_cong)
  then show ?thesis
    using run current applied assms(3) Switched(4,6) by (simp add: Commit_run_def)
qed

end
