(* ===== verification/Switch_Calendar.thy ===== *)
theory Switch_Calendar
  imports Switch_Run
begin

text \<open>
  The switch and the internal calendar together, as \<open>cmd/api/main.go\<close> wires them: the readiness of
  the target is the one the configuration service of the calendar computes, and a salon that has
  been switched finds a planner that plans.
\<close>

section \<open>What a commit has seen\<close>

lemma switch_bind_InrE:
  assumes "switch_bind m f st = (Inr x, st')"
  obtains y st1 where "m st = (Inr y, st1)" "f y st1 = (Inr x, st')"
  using assms by (auto simp: switch_bind_def split: prod.splits sum.splits)

lemma switch_query_Inr:
  "switch_query p f st = (Inr x, st')
     \<longleftrightarrow> f (swq_Env p (snd st)) (swq_Others p (snd st) (fst st)) = Inr x
       \<and> st' = (swq_Others p (snd st) (fst st), Suc (snd st))"
  by (auto simp: switch_query_def switch_call_def)

text \<open>The calls of an operation are numbered from the one its state starts with; the transaction is
  the last of them.\<close>

lemma commit_ready_run_InrE:
  assumes "commit_ready_run p salonID userID runID actionKey run st = (Inr response, st')"
  obtains snapshot db k where
    "evaluateTarget p salonID userID (swr_TargetSchedulingAuthority run)
       (swr_ExpectedSourceAuthorityVersion run) st = (Inr (snapshot, []), (db, k))"
    "Commit_run (swq_Env p k) (commit_input p k salonID userID runID actionKey run snapshot)
       (swq_Others p k db)
       = (Inr (prs_SwitchRun response, prs_Replayed response), fst st')"
    "snd st' = Suc k"
  using assms unfolding commit_ready_run_def
  apply (elim switch_bind_InrE)
  apply (auto simp: switch_fail_def switch_return_def switch_call_def split: if_splits prod.splits
      elim!: switch_bind_InrE)
  done

lemma CommitSwitch_InrE:
  assumes "CommitSwitch p salonID userID runID actionKey st = (Inr response, st')"
    "\<not> prs_Replayed response" "others_run p" "switch_ok (fst st)"
  obtains run st1 where "switch_ok (fst st1)" "knows_run (TrimSpace runID) run (fst st1)"
    "snd st < snd st1"
    "commit_ready_run p salonID userID (TrimSpace runID) (TrimSpace actionKey) run st1
       = (Inr response, st')"
proof -
  have invalid: "\<not> (TrimSpace salonID = [] \<or> TrimSpace userID = [] \<or> TrimSpace runID = []
      \<or> TrimSpace actionKey = [] \<or> maxOperationKeyBytes < length (TrimSpace actionKey))"
    using assms(1) by (auto simp: CommitSwitch_def Let_def switch_fail_def split: if_splits)
  obtain found st2 where found: "switch_query p (\<lambda>env. ReplayCommit env salonID userID
        (TrimSpace runID) (TrimSpace actionKey)
        (commitFingerprint p (TrimSpace runID) (TrimSpace actionKey))) st = (Inr found, st2)"
    and rest: "(case found of Some run \<Rightarrow> switch_return \<lparr>prs_SwitchRun = run, prs_Replayed = True\<rparr>
       | None \<Rightarrow> switch_bind (switch_query p (\<lambda>env. Get_run env salonID userID (TrimSpace runID)))
           (\<lambda>run. if swr_Status run \<noteq> StatusPreviewReady then switch_fail ErrStateConflict
              else commit_ready_run p salonID userID (TrimSpace runID) (TrimSpace actionKey) run)) st2
       = (Inr response, st')"
    using assms(1) invalid unfolding CommitSwitch_def Let_def
    by (simp only: if_False) (erule switch_bind_InrE, blast)
  have ok2: "switch_ok (fst st2)"
    using found assms(4) switch_ok_history [OF others_runD [OF assms(3)]]
    by (simp add: switch_query_Inr)
  have "found = None"
    using rest assms(2) by (cases found) (auto simp: switch_return_def)
  then obtain run st1 where got: "switch_query p (\<lambda>env. Get_run env salonID userID
        (TrimSpace runID)) st2 = (Inr run, st1)"
    and last: "commit_ready_run p salonID userID (TrimSpace runID) (TrimSpace actionKey) run st1
        = (Inr response, st')"
    using rest by (auto elim!: switch_bind_InrE simp: switch_fail_def split: if_splits)
  have "switch_ok (fst st1)"
    using got ok2 switch_ok_history [OF others_runD [OF assms(3)]] by (simp add: switch_query_Inr)
  moreover have "knows_run (TrimSpace runID) run (fst st1)"
    using got Get_run_InrD unfolding switch_query_Inr knows_run_def by fastforce
  moreover have "snd st < snd st1" using found got by (auto simp: switch_query_Inr)
  ultimately show ?thesis using that last by blast
qed

section \<open>The calendar as a target\<close>

definition calendar_wired ::
  "SwitchProgram \<Rightarrow> (string \<Rightarrow> bool) \<Rightarrow> (nat \<Rightarrow> string \<Rightarrow> string \<Rightarrow> error + Aggregate) \<Rightarrow> bool" where
  "calendar_wired p uuid_ok GetAggregate \<longleftrightarrow>
     swq_Calendar p = Some (\<lambda>k. SchedulingTargetReadiness uuid_ok (GetAggregate k))"

lemma calendar_target_ready:
  assumes "calendar_wired p uuid_ok GetAggregate"
    "evaluateTarget p salonID userID TargetManleAICalendar v st = (Inr (snapshot, []), st')"
  obtains aggregate where "GetAggregate (snd st) salonID userID = Inr aggregate"
    "snd st' = Suc (snd st)"
    "tr_Ready (target_readiness (EvaluateReadiness (Some (aggregate\<lparr>agg_SchedulingAuthority :=
       SchedulingAuthorityManleAICalendar\<rparr>))))"
    "tr_ConfigVersion snapshot = agg_ConfigVersion aggregate"
proof -
  have calendar: "TargetManleAICalendar \<noteq> TargetOwnerManual" by (simp add: switch_targets)
  obtain evaluated st1 where evaluated: "module_target ''MANLEAI_CALENDAR_EXECUTOR_REGISTERED''
      ''The internal calendar scheduling executor is not registered.'' TargetManleAICalendar v
      (swq_Calendar p) salonID userID st = (Inr evaluated, st1)"
    and finish: "finish_target TargetManleAICalendar v evaluated = (snapshot, [])" "st' = st1"
    using assms(2) calendar unfolding evaluateTarget_def
    by (simp only: if_False if_True refl simp_thms) (erule switch_bind_InrE, simp add: switch_return_def)
  obtain aggregate where aggregate: "GetAggregate (snd st) salonID userID = Inr aggregate"
    and calls: "snd st' = Suc (snd st)"
    and result: "fst evaluated = target_readiness (EvaluateReadiness (Some
        (aggregate\<lparr>agg_SchedulingAuthority := SchedulingAuthorityManleAICalendar\<rparr>)))"
      "snd evaluated = tr_Blockers (fst evaluated)"
    using evaluated finish(2) assms(1)
    by (cases st) (auto simp: module_target_def calendar_wired_def SchedulingTargetReadiness_def
        split: option.splits sum.splits)
  have none: "tr_Blockers (fst evaluated) = []"
    using finish(1) result(2) by (cases evaluated) (simp add: finish_target_def)
  have version: "tr_ConfigVersion snapshot = tr_ConfigVersion (fst evaluated)"
    using finish(1) by (cases evaluated) (auto simp: finish_target_def)
  show ?thesis
  proof (rule that [OF aggregate calls])
    show "tr_Ready (target_readiness (EvaluateReadiness (Some (aggregate\<lparr>agg_SchedulingAuthority :=
        SchedulingAuthorityManleAICalendar\<rparr>))))"
      using none unfolding result(1) by (simp add: target_readiness_def Let_def)
    show "tr_ConfigVersion snapshot = agg_ConfigVersion aggregate"
      unfolding version result(1)
      by (simp add: target_readiness_def Let_def EvaluateReadiness_def evaluate_aggregate_def)
  qed
qed

lemma ready_target_plans:
  assumes "tr_Ready (target_readiness (EvaluateReadiness (Some aggregate)))"
    "snap_Aggregate snapshot = Some aggregate"
    "\<And>config. agg_Config aggregate = Some config \<Longrightarrow>
       1 \<le> cc_SlotStepMinutes config \<and> 1 \<le> cc_BookingHorizonDays config"
  shows "planAggregateAvailability LoadLocation snapshot req now \<noteq> Inl ErrSchedulingAuthorityNotReady"
proof -
  have "oc_StaffOnlyCreate (rdy_Capabilities (evaluate_aggregate aggregate))"
    using assms(1) target_ready_iff [of aggregate]
    by (simp add: EvaluateReadiness_def evaluate_aggregate_def Let_def)
  note facts = engine_ready_facts [OF disjI2 [OF disjI1], OF this]
  obtain config where config: "agg_Config aggregate = Some config"
    using facts(2) by (auto simp: activation_current_def split: option.splits)
  then have "planner_ready snapshot aggregate config"
    using facts(2,3) assms(3) [OF config] by (simp add: planner_ready_def activation_current_def)
  then show ?thesis
    using assms(2) config
    by (auto simp: planAggregateAvailability_def Let_def split: option.splits)
qed

lemma fence_calendar_config:
  assumes "validateTargetReadinessFenceTx TargetManleAICalendar salonID expected db = None"
  shows "list_ex (\<lambda>config. swc_SalonID config = salonID
      \<and> swc_Version config = tr_ConfigVersion expected
      \<and> swc_ActivatedVersion config = Some (tr_ConfigVersion expected)) (swd_Configs db)"
  using assms
  by (auto simp: validateTargetReadinessFenceTx_def switch_targets list_ex_iff
      split: option.splits if_splits dest: find_SomeD)

text \<open>What the commit of a calendar target rests on: the last call before its transaction read it.\<close>

lemma calendar_commit_reads:
  assumes "calendar_wired p uuid_ok GetAggregate" "others_run p" "switch_ok (fst st1)"
    "knows_run runID run (fst st1)"
    and "commit_ready_run p salonID userID runID actionKey run st1 = (Inr response, st')"
    and "\<not> prs_Replayed response"
    and "swr_TargetSchedulingAuthority (prs_SwitchRun response) = TargetManleAICalendar"
  obtains aggregate where "GetAggregate (snd st1) salonID userID = Inr aggregate"
    "snd st' = Suc (Suc (snd st1))"
    "tr_Ready (target_readiness (EvaluateReadiness (Some (aggregate\<lparr>agg_SchedulingAuthority :=
       SchedulingAuthorityManleAICalendar\<rparr>))))"
    "list_ex (\<lambda>config. swc_SalonID config = salonID
       \<and> swc_Version config = agg_ConfigVersion aggregate
       \<and> swc_ActivatedVersion config = Some (agg_ConfigVersion aggregate)) (swd_Configs (fst st'))"
proof -
  obtain snapshot db k where evaluated: "evaluateTarget p salonID userID
        (swr_TargetSchedulingAuthority run) (swr_ExpectedSourceAuthorityVersion run) st1
        = (Inr (snapshot, []), (db, k))"
    and committed: "Commit_run (swq_Env p k)
        (commit_input p k salonID userID runID actionKey run snapshot) (swq_Others p k db)
        = (Inr (prs_SwitchRun response, prs_Replayed response), fst st')"
    and calls: "snd st' = Suc k"
    using commit_ready_run_InrE [OF assms(5)] by blast
  have "switch_history (fst st1) db"
    using evaluateTarget_runs [OF assms(2), of salonID userID "swr_TargetSchedulingAuthority run"
        "swr_ExpectedSourceAuthorityVersion run" st1] evaluated
    by (simp add: runs_from_def)
  then have later: "switch_history (fst st1) (swq_Others p k db)"
    using others_runD [OF assms(2)] by (rule rtranclp_trans)
  have reads: "reads_run runID run (swq_Others p k db)"
    using knows_run_reads [OF switch_ok_history [OF later assms(3)]
        knows_run_history [OF later assms(4)]] .
  from committed show ?thesis
  proof (cases rule: Commit_run_cases)
    case Unchanged
    then show ?thesis using assms(6) by blast
  next
    case (Switched row)
    note got = getSwitchRunTx_InrD [OF Switched(3)]
    have target: "swr_TargetSchedulingAuthority run = TargetManleAICalendar"
      using reads got(1,3) Switched(1) assms(7) by (auto simp: reads_run_def commit_input_def)
    obtain aggregate where read: "GetAggregate (snd st1) salonID userID = Inr aggregate"
      "k = Suc (snd st1)"
      and ready: "tr_Ready (target_readiness (EvaluateReadiness (Some (aggregate
          \<lparr>agg_SchedulingAuthority := SchedulingAuthorityManleAICalendar\<rparr>))))"
      and version: "tr_ConfigVersion snapshot = agg_ConfigVersion aggregate"
      using calendar_target_ready [OF assms(1) evaluated [unfolded target]] by auto
    have fence: "validateTargetReadinessFenceTx TargetManleAICalendar salonID snapshot
        (swq_Others p k db) = None"
      using Switched(1,7) target assms(7)
      by (simp add: target_readiness_check_def commit_input_def switch_targets)
    have configs: "swd_Configs (fst st') = swd_Configs (swq_Others p k db)"
      using Switched(2) by (simp add: switched_def mark_committed_def set_authority_def)
    show ?thesis
    proof (rule that [OF read(1) _ ready])
      show "snd st' = Suc (Suc (snd st1))" using calls read(2) by simp
      show "list_ex (\<lambda>config. swc_SalonID config = salonID
          \<and> swc_Version config = agg_ConfigVersion aggregate
          \<and> swc_ActivatedVersion config = Some (agg_ConfigVersion aggregate)) (swd_Configs (fst st'))"
        using fence_calendar_config [OF fence] unfolding version configs .
    qed
  qed
qed

text \<open>
  C20: The internal calendar takes over only what it can plan. Wired to the configuration service of
  the calendar, a commit that switches a salon to the calendar reads the configuration of the salon
  with the call that directly precedes its transaction, after the operation began; the version it
  reads is the one stored and activated when the transaction commits, and given the configuration it
  read the planner does not refuse to work. A configuration is assumed to have a positive slot step
  and booking horizon, as the checks of its table demand.
\<close>
theorem calendar_takes_over_when_it_can_plan:
  assumes "calendar_wired p uuid_ok GetAggregate" "others_run p" "switch_ok (fst st)"
    and "CommitSwitch p salonID userID runID actionKey st = (Inr response, st')"
    and "\<not> prs_Replayed response"
    and "swr_TargetSchedulingAuthority (prs_SwitchRun response) = TargetManleAICalendar"
    and "\<And>k aggregate config. GetAggregate k salonID userID = Inr aggregate
      \<Longrightarrow> agg_Config aggregate = Some config
      \<Longrightarrow> 1 \<le> cc_SlotStepMinutes config \<and> 1 \<le> cc_BookingHorizonDays config"
  shows "\<exists>k aggregate. snd st < k \<and> snd st' = Suc (Suc k)
    \<and> GetAggregate k salonID userID = Inr aggregate
    \<and> list_ex (\<lambda>config. swc_SalonID config = salonID
        \<and> swc_Version config = agg_ConfigVersion aggregate
        \<and> swc_ActivatedVersion config = Some (agg_ConfigVersion aggregate))
        (swd_Configs (fst st'))
    \<and> (\<forall>LoadLocation snapshot req now. snap_Aggregate snapshot = Some (aggregate
          \<lparr>agg_SchedulingAuthority := SchedulingAuthorityManleAICalendar\<rparr>)
        \<longrightarrow> planAggregateAvailability LoadLocation snapshot req now
            \<noteq> Inl ErrSchedulingAuthorityNotReady)"
proof -
  obtain run st1 where "switch_ok (fst st1)" "knows_run (TrimSpace runID) run (fst st1)"
    "snd st < snd st1" "commit_ready_run p salonID userID (TrimSpace runID) (TrimSpace actionKey) run
      st1 = (Inr response, st')"
    using CommitSwitch_InrE [OF assms(4,5,2,3)] by blast
  note first = this(3) and reads = calendar_commit_reads [OF assms(1,2) this(1,2,4) assms(5,6)]
  obtain aggregate where read: "GetAggregate (snd st1) salonID userID = Inr aggregate"
      "snd st' = Suc (Suc (snd st1))"
    and ready: "tr_Ready (target_readiness (EvaluateReadiness (Some (aggregate
        \<lparr>agg_SchedulingAuthority := SchedulingAuthorityManleAICalendar\<rparr>))))"
    and stored: "list_ex (\<lambda>config. swc_SalonID config = salonID
        \<and> swc_Version config = agg_ConfigVersion aggregate
        \<and> swc_ActivatedVersion config = Some (agg_ConfigVersion aggregate)) (swd_Configs (fst st'))"
    using reads by blast
  have "planAggregateAvailability LoadLocation snapshot req now \<noteq> Inl ErrSchedulingAuthorityNotReady"
    if "snap_Aggregate snapshot = Some (aggregate
        \<lparr>agg_SchedulingAuthority := SchedulingAuthorityManleAICalendar\<rparr>)"
    for LoadLocation snapshot req now
    using ready_target_plans [OF ready that] assms(7) [OF read(1)] by simp
  then show ?thesis using first read stored by blast
qed

end
