(* ===== verification/Switch_Samples.thy ===== *)
theory Switch_Samples
  imports Switch_Calendar Calendar_Samples
begin

text \<open>
  Switches on concrete data: a salon of the external provider goes over to its owner and then to the
  internal calendar, a change is interrupted after its preview, and previews are overtaken.
\<close>

definition sample_switch_env :: "nat \<Rightarrow> SwitchEnv" where
  "sample_switch_env k =
     \<lparr>swn_Member = (\<lambda>_ _. True), swn_Capability = (\<lambda>_ _ _. False), swn_MayAct = (\<lambda>_ _. True),
      swn_UUID = ''run'' @ replicate k CHR ''x'', swn_Now = 100, swn_Refused = (\<lambda>_. None),
      swn_Guards = (\<lambda>_ _. None)\<rparr>"

definition sample_calendar_readiness :: TargetReadiness where
  "sample_calendar_readiness =
     (empty_readiness TargetManleAICalendar 0)\<lparr>tr_Ready := True, tr_ConfigVersion := 7\<rparr>"

definition sample_switch_program :: SwitchProgram where
  "sample_switch_program =
     \<lparr>swq_Env = sample_switch_env, swq_Others = (\<lambda>_ db. db),
      swq_Calendar = Some (\<lambda>_ _ _. Inr sample_calendar_readiness),
      swq_External = None, swq_ExternalTx = None, swq_OwnerManualRegistered = True,
      swq_SHA256 = (\<lambda>x. ''#'' @ x), swq_PreviewJSON = pvr_OperationKey,
      swq_CommitJSON = (\<lambda>runID actionKey. runID @ ''/'' @ actionKey)\<rparr>"

definition sample_switch_db :: SwitchDB where
  "sample_switch_db =
     \<lparr>swd_Settings = [\<lparr>swt_SalonID = ''s1'', swt_SchedulingAuthority = ''external_provider'',
                       swt_SchedulingAuthorityVersion = 3, swt_BookingMode = ''pending_approval''\<rparr>],
      swd_Services = [\<lparr>sws_SalonID = ''s1'', sws_Active = True, sws_AIBookable = True,
                       sws_ArchivedAt = None, sws_DurationMinutes = 45\<rparr>],
      swd_Attempts = [], swd_Claims = [],
      swd_Configs = [\<lparr>swc_SalonID = ''s1'', swc_Version = 7, swc_ActivatedVersion = Some 7\<rparr>],
      swd_Runs = [], swd_Events = []\<rparr>"

definition sample_change :: "string \<Rightarrow> string \<Rightarrow> int \<Rightarrow> ChangeRequest" where
  "sample_change key target version =
     \<lparr>cgr_TargetSchedulingAuthority = target, cgr_ExpectedAuthorityVersion = version,
      cgr_ActionKey = key, cgr_RollbackOfSwitchRunID = []\<rparr>"

definition owner_switch :: "(switch_error + PreviewResponse) \<times> switch_state" where
  "owner_switch = ChangeAuthority sample_switch_program ''s1'' ''u1''
     (sample_change ''k1'' ''owner_manual'' 3) (sample_switch_db, 0)"

definition calendar_switch :: "(switch_error + PreviewResponse) \<times> switch_state" where
  "calendar_switch = ChangeAuthority sample_switch_program ''s1'' ''u1''
     (sample_change ''k2'' ''manleai_calendar'' 4) (snd owner_switch)"

text \<open>A change whose process dies after the preview.\<close>

definition prepared_switch :: "(switch_error + PreviewResponse) \<times> switch_state" where
  "prepared_switch = PrepareChange sample_switch_program ''s1'' ''u1''
     (sample_change ''k1'' ''owner_manual'' 3) (sample_switch_db, 0)"

definition the_run :: "(switch_error + PreviewResponse) \<times> switch_state \<Rightarrow> SwitchRun" where
  "the_run answer = (case fst answer of Inr response \<Rightarrow> prs_SwitchRun response
     | Inl _ \<Rightarrow> preview_run (sample_switch_env 0) (preview_input sample_switch_program [] []
         \<lparr>pvr_OperationKey = [], pvr_SourceSchedulingAuthority = [],
          pvr_TargetSchedulingAuthority = [], pvr_ExpectedSourceAuthorityVersion = 0,
          pvr_RollbackOfSwitchRunID = []\<rparr> (sample_calendar_readiness, [])))"

lemma sample_others_run: "others_run sample_switch_program"
  by (simp add: others_run_def sample_switch_program_def)

lemma sample_switch_ok: "switch_ok sample_switch_db"
  by (simp add: switch_ok_def sample_switch_db_def)

lemma sample_change_history:
  assumes "switch_ok (fst st)"
  shows "switch_history (fst st) (fst (snd (ChangeAuthority sample_switch_program s u req st)))"
    "switch_ok (fst (snd (ChangeAuthority sample_switch_program s u req st)))"
  using ChangeAuthority_runs [OF sample_others_run assms] switch_ok_history [OF _ assms]
  unfolding runs_from_def by blast+

lemmas owner_switch_run = sample_change_history [of "(sample_switch_db, 0)", unfolded fst_conv,
    OF sample_switch_ok, of "''s1''" "''u1''" "sample_change ''k1'' ''owner_manual'' 3",
    folded owner_switch_def]

lemmas calendar_switch_run = sample_change_history [OF owner_switch_run(2),
    of "''s1''" "''u1''" "sample_change ''k2'' ''manleai_calendar'' 4", folded calendar_switch_def]

lemma prepared_switch_ok: "switch_ok (fst (snd prepared_switch))"
  using switch_ok_history [OF PrepareChange_runs [OF sample_others_run, unfolded runs_from_def]]
    sample_switch_ok
  by (metis prepared_switch_def fst_conv)

lemma switches_evaluated:
  "authority_row ''s1'' (fst (snd owner_switch)) = Some (''owner_manual'', 4)"
  "authority_row ''s1'' (fst (snd calendar_switch)) = Some (''manleai_calendar'', 5)"
  "committed_count (swd_Runs (fst (snd calendar_switch))) ''s1'' = 2"
  by code_simp+

section \<open>The chain\<close>

theorem authority_is_chain_of_commits_witness:
  "committed_count (swd_Runs (fst (snd calendar_switch))) ''s1'' = 2
    \<and> (\<exists>authority. authority_row ''s1'' (fst (snd calendar_switch))
          = Some (authority, 3 + int (committed_count (swd_Runs (fst (snd calendar_switch))) ''s1''))
        \<and> authority_after (swd_Runs (fst (snd calendar_switch))) ''s1'' ''external_provider'' 3
            (committed_count (swd_Runs (fst (snd calendar_switch))) ''s1'') = Some authority)"
proof -
  have "switch_history sample_switch_db (fst (snd calendar_switch))"
    using owner_switch_run(1) calendar_switch_run(1) by (rule rtranclp_trans)
  moreover have "authority_row ''s1'' sample_switch_db = Some (''external_provider'', 3)"
    "list_all (\<lambda>run. swr_SalonID run \<noteq> ''s1'') (swd_Runs sample_switch_db)"
    by (simp_all add: authority_row_def sample_switch_db_def)
  ultimately show ?thesis
    using authority_is_chain_of_commits [OF _ sample_switch_ok] switches_evaluated(3) by blast
qed

section \<open>An overtaken preview\<close>

definition overtaken :: "(switch_error + PreviewResponse) \<times> switch_state" where
  "overtaken = ChangeAuthority sample_switch_program ''s1'' ''u1''
     (sample_change ''k9'' ''owner_manual'' 3) (snd prepared_switch)"

definition overtaken_later :: "(switch_error + PreviewResponse) \<times> switch_state" where
  "overtaken_later = ChangeAuthority sample_switch_program ''s1'' ''u1''
     (sample_change ''k2'' ''manleai_calendar'' 4) (snd overtaken)"

lemmas overtaken_run = sample_change_history [OF prepared_switch_ok, of "''s1''" "''u1''"
    "sample_change ''k9'' ''owner_manual'' 3", folded overtaken_def]

lemmas overtaken_later_run = sample_change_history [OF overtaken_run(2), of "''s1''" "''u1''"
    "sample_change ''k2'' ''manleai_calendar'' 4", folded overtaken_later_def]

theorem stale_preview_never_commits_witness:
  "swr_Status (the_run prepared_switch) = StatusPreviewReady
    \<and> authority_row ''s1'' (fst (snd overtaken_later)) = Some (''manleai_calendar'', 5)
    \<and> the_run prepared_switch \<in> set (swd_Runs (fst (snd overtaken_later)))"
proof -
  have "the_run prepared_switch \<in> set (swd_Runs (fst (snd overtaken)))"
    "authority_row (swr_SalonID (the_run prepared_switch)) (fst (snd overtaken))
       = Some (''owner_manual'', 4)"
    "swr_ExpectedSourceAuthorityVersion (the_run prepared_switch) < 4"
    by code_simp+
  moreover have "swr_Status (the_run prepared_switch) = StatusPreviewReady"
    "authority_row ''s1'' (fst (snd overtaken_later)) = Some (''manleai_calendar'', 5)"
    by code_simp+
  ultimately show ?thesis
    using stale_preview_never_commits [OF overtaken_later_run(1) overtaken_run(2)] by blast
qed

section \<open>A controlled change\<close>

text \<open>The commit transaction of the change \<open>k1\<close>, under a key of its own.\<close>

definition sample_commit :: "string \<Rightarrow> commitInput" where
  "sample_commit key =
     commit_input sample_switch_program 9 ''s1'' ''u1'' (swr_ID (the_run prepared_switch)) key
       (the_run prepared_switch) (swr_ReadinessSnapshot (the_run prepared_switch))"

definition committed_step :: "(switch_error + SwitchRun \<times> bool) \<times> SwitchDB" where
  "committed_step = Commit_run (sample_switch_env 9) (sample_commit ''k1'') (fst (snd prepared_switch))"

lemma committed_step_commits:
  "commits sample_switch_program 9 ''s1'' ''u1'' (fst (snd prepared_switch)) (snd committed_step)"
  unfolding commits_def
proof (intro exI conjI)
  show "Commit_run (sample_switch_env 9) (commit_input sample_switch_program 9 ''s1'' ''u1''
      (swr_ID (the_run prepared_switch)) ''k1'' (the_run prepared_switch)
      (swr_ReadinessSnapshot (the_run prepared_switch))) (fst (snd prepared_switch))
      = (fst committed_step, snd committed_step)"
    by (simp add: committed_step_def sample_commit_def)
  show "reads_run (swr_ID (the_run prepared_switch)) (the_run prepared_switch)
      (fst (snd prepared_switch))" by code_simp
  have "swr_TargetSchedulingAuthority (the_run prepared_switch) \<noteq> TargetExternalProvider"
    by code_simp
  then show "swr_TargetSchedulingAuthority (the_run prepared_switch) = TargetExternalProvider
      \<longrightarrow> swq_ExternalTx sample_switch_program \<noteq> None" by blast
qed

lemma committed_step_is_step: "switch_step (fst (snd prepared_switch)) (snd committed_step)"
  using committed_step_commits unfolding commits_def by (blast intro: Commit_Step)

theorem authority_changes_under_control_witness:
  "authority_row ''s1'' (snd committed_step) = Some (''owner_manual'', 4)
    \<and> list_ex (\<lambda>run. swr_SalonID run = ''s1'' \<and> swr_Status run = StatusPreviewReady
        \<and> (''external_provider'', 3)
            = (swr_SourceSchedulingAuthority run, swr_ExpectedSourceAuthorityVersion run)
        \<and> authority_row ''s1'' (snd committed_step) = Some (swr_TargetSchedulingAuthority run,
              swr_ExpectedSourceAuthorityVersion run + 1)
        \<and> target_confirmed sample_switch_program 9 ''u1'' run (fst (snd prepared_switch)))
        (swd_Runs (fst (snd prepared_switch)))
    \<and> \<not> live_external ''s1'' (fst (snd prepared_switch))"
proof -
  have before: "authority_row ''s1'' (fst (snd prepared_switch)) = Some (''external_provider'', 3)"
    by code_simp
  have after: "authority_row ''s1'' (snd committed_step) = Some (''owner_manual'', 4)"
    by code_simp
  then have "authority_row ''s1'' (snd committed_step) \<noteq> Some (''external_provider'', 3)" by simp
  then show ?thesis
    using authority_changes_under_control [OF committed_step_is_step prepared_switch_ok before]
      committed_step_commits after by blast
qed

section \<open>Repeated, interrupted and misnamed commands\<close>

theorem switch_program_is_a_history_witness:
  "switch_history sample_switch_db (fst (snd owner_switch))
    \<and> authority_row ''s1'' (fst (snd owner_switch)) = Some (''owner_manual'', 4)"
  using switch_program_is_a_history [OF sample_others_run, of "(sample_switch_db, 0)" "''s1''" "''u1''"
      "sample_change ''k1'' ''owner_manual'' 3"] sample_switch_ok switches_evaluated(1)
  unfolding owner_switch_def fst_conv by blast

theorem completed_change_replays_witness:
  "ChangeAuthority sample_switch_program '' s1'' ''u2'' (sample_change ''k1 '' ''owner_manual'' 3)
      (fst (snd calendar_switch), 20)
    = (Inr \<lparr>prs_SwitchRun = the_run owner_switch, prs_Replayed = True\<rparr>,
       (fst (snd calendar_switch), 21))"
proof -
  have run: "the_run owner_switch \<in> set (swd_Runs (fst (snd owner_switch)))"
    "swr_Status (the_run owner_switch) = status_committed"
    "run_of_change sample_switch_program '' s1'' (sample_change ''k1 '' ''owner_manual'' 3)
       (the_run owner_switch)"
    "valid_change '' s1'' ''u2'' (sample_change ''k1 '' ''owner_manual'' 3)"
    by code_simp+
  have allowed: "may_write_technical (swq_Env sample_switch_program 20) (TrimSpace '' s1'')
      (TrimSpace ''u2'')" "swn_Refused (swq_Env sample_switch_program 20) [TrimSpace ''u2''] = None"
    by (simp_all add: may_write_technical_def sample_switch_program_def sample_switch_env_def)
  have alone: "swq_Others sample_switch_program 20 db = db" for db
    by (simp add: sample_switch_program_def)
  have "switch_history (fst (snd calendar_switch))
      (swq_Others sample_switch_program 20 (fst (snd calendar_switch)))"
    unfolding alone by (rule rtranclp.rtrancl_refl)
  from completed_change_replays [OF owner_switch_run(2) run calendar_switch_run(1) this allowed]
  show ?thesis unfolding alone by simp
qed

theorem prepared_change_completes_witness:
  "swr_Status (the_run prepared_switch) = StatusPreviewReady
    \<and> (\<exists>db'. ChangeAuthority sample_switch_program ''s1'' ''u1''
          (sample_change ''k1'' ''owner_manual'' 3) (fst (snd prepared_switch), 10)
        = (Inr \<lparr>prs_SwitchRun = committed_run (swn_Now (swq_Env sample_switch_program 15))
             (the_run prepared_switch), prs_Replayed = False\<rparr>, (db', 16))
      \<and> authority_row (swr_SalonID (the_run prepared_switch)) db'
          = Some (swr_TargetSchedulingAuthority (the_run prepared_switch),
              swr_ExpectedSourceAuthorityVersion (the_run prepared_switch) + 1))"
proof -
  let ?req = "sample_change ''k1'' ''owner_manual'' 3" and ?db = "fst (snd prepared_switch)"
  have alone: "swq_Others sample_switch_program k db = db" for k db
    by (simp add: sample_switch_program_def)
  have run: "the_run prepared_switch \<in> set (swd_Runs ?db)"
    "run_of_change sample_switch_program ''s1'' ?req (the_run prepared_switch)"
    "valid_change ''s1'' ''u1'' ?req"
    "TrimSpace (swr_ID (the_run prepared_switch)) = swr_ID (the_run prepared_switch)"
    "swr_ID (the_run prepared_switch) \<noteq> []"
    "can_commit (TrimSpace (cgr_ActionKey ?req)) (the_run prepared_switch) ?db"
    by code_simp+
  have allowed: "allowed_for sample_switch_program (TrimSpace ''s1'') (TrimSpace ''u1'')"
    by (simp add: allowed_for_def may_write_technical_def may_read_technical_def
        sample_switch_program_def sample_switch_env_def)
  have target: "evaluateTarget sample_switch_program (TrimSpace ''s1'') (TrimSpace ''u1'')
        (swr_TargetSchedulingAuthority (the_run prepared_switch))
        (swr_ExpectedSourceAuthorityVersion (the_run prepared_switch)) (?db, Suc (Suc (Suc 10)))
      = (Inr (swr_ReadinessSnapshot (the_run prepared_switch), []), (?db, 15))"
    "target_readiness_check (commit_input sample_switch_program 15 (TrimSpace ''s1'')
        (TrimSpace ''u1'') (swr_ID (the_run prepared_switch)) (TrimSpace (cgr_ActionKey ?req))
        (the_run prepared_switch) (swr_ReadinessSnapshot (the_run prepared_switch)))
        (the_run prepared_switch) ?db = None"
    by code_simp+
  have "swr_TargetSchedulingAuthority (the_run prepared_switch) \<noteq> TargetExternalProvider"
    by code_simp
  then have tx: "swr_TargetSchedulingAuthority (the_run prepared_switch) = TargetExternalProvider
      \<longrightarrow> swq_ExternalTx sample_switch_program \<noteq> None" by blast
  have completed: "switch_or_refusal sample_switch_program 15 run db db'
      = (Inr \<lparr>prs_SwitchRun = committed_run (swn_Now (swq_Env sample_switch_program 15)) run,
           prs_Replayed = False\<rparr>, (db', 16))" for run db db'
    by (simp add: switch_or_refusal_def sample_switch_program_def sample_switch_env_def)
  have "swr_Status (the_run prepared_switch) = StatusPreviewReady" by code_simp
  moreover note prepared_change_completes [OF prepared_switch_ok _ run(2,3) allowed sample_others_run
      run(4,5) _ refl tx, unfolded alone completed, OF run(1) target(1) run(1,6) target(2)]
  ultimately show ?thesis unfolding completed by blast
qed

theorem commit_under_preview_key_fails_witness:
  "fst (Commit_run (sample_switch_env 9) (sample_commit ''k1'') (fst (snd prepared_switch)))
      = Inr (committed_run 100 (the_run prepared_switch), False)
    \<and> Commit_run (sample_switch_env 9)
        (sample_commit (swr_OperationKey (the_run prepared_switch))) (fst (snd prepared_switch))
      = (Inl (SwitchDatabaseError events_action_key), fst (snd prepared_switch))"
proof -
  let ?own = "sample_commit (swr_OperationKey (the_run prepared_switch))"
  have other: "?own\<lparr>swm_ActionKey := ''k1'', swm_ActionFingerprint := swm_ActionFingerprint
      (sample_commit ''k1'')\<rparr> = sample_commit ''k1''"
    by (simp add: sample_commit_def commit_input_def)
  have first: "fst (Commit_run (sample_switch_env 9) (sample_commit ''k1'')
      (fst (snd prepared_switch))) = Inr (committed_run 100 (the_run prepared_switch), False)"
    by code_simp
  have free: "commit_event (swm_RunID ?own) (swm_ActionKey ?own) (fst (snd prepared_switch)) = None"
    "swm_ActionKey ?own = swr_OperationKey (committed_run 100 (the_run prepared_switch))"
    by code_simp+
  have "Commit_run (sample_switch_env 9) (?own\<lparr>swm_ActionKey := ''k1'', swm_ActionFingerprint :=
      swm_ActionFingerprint (sample_commit ''k1'')\<rparr>) (fst (snd prepared_switch))
      = (Inr (committed_run 100 (the_run prepared_switch), False),
         snd (Commit_run (sample_switch_env 9) (sample_commit ''k1'') (fst (snd prepared_switch))))"
    unfolding other using first by (simp add: prod_eq_iff)
  from commit_under_preview_key_fails [OF prepared_switch_ok this free] first show ?thesis by blast
qed

section \<open>The internal calendar takes over\<close>

definition wired_aggregate :: Aggregate where
  "wired_aggregate = sample_aggregate\<lparr>agg_ServicePolicies :=
     [sample_policy\<lparr>vp_CapacityMode := Some CapacityModeStaffOnly, vp_ResourceRequirements := []\<rparr>]\<rparr>"

definition wired_program :: SwitchProgram where
  "wired_program = sample_switch_program\<lparr>swq_Calendar :=
     Some (\<lambda>k. SchedulingTargetReadiness (\<lambda>_. True) (\<lambda>_ _. Inr wired_aggregate))\<rparr>"

definition wired_db :: SwitchDB where
  "wired_db = sample_switch_db\<lparr>swd_Configs := [\<lparr>swc_SalonID = ''s1'',
     swc_Version = agg_ConfigVersion wired_aggregate,
     swc_ActivatedVersion = Some (agg_ConfigVersion wired_aggregate)\<rparr>]\<rparr>"

definition wired_preview :: "(switch_error + PreviewResponse) \<times> switch_state" where
  "wired_preview = PrepareChange wired_program ''s1'' ''u1''
     (sample_change ''k1'' ''manleai_calendar'' 3) (wired_db, 0)"

definition wired_commit :: "(switch_error + PreviewResponse) \<times> switch_state" where
  "wired_commit = CommitSwitch wired_program ''s1'' ''u1'' (swr_ID (the_run wired_preview)) ''k1''
     (snd wired_preview)"

theorem calendar_takes_over_when_it_can_plan_witness:
  "authority_row ''s1'' (fst (snd wired_commit)) = Some (''manleai_calendar'', 4)
    \<and> (\<exists>k. snd (snd wired_preview) < k \<and> snd (snd wired_commit) = Suc (Suc k))
    \<and> list_ex (\<lambda>config. swc_SalonID config = ''s1''
        \<and> swc_Version config = agg_ConfigVersion wired_aggregate
        \<and> swc_ActivatedVersion config = Some (agg_ConfigVersion wired_aggregate))
        (swd_Configs (fst (snd wired_commit)))
    \<and> planAggregateAvailability sample_zone (sample_snapshot\<lparr>snap_Aggregate := Some (wired_aggregate
          \<lparr>agg_SchedulingAuthority := SchedulingAuthorityManleAICalendar\<rparr>)\<rparr>)
        sample_availability sample_now \<noteq> Inl ErrSchedulingAuthorityNotReady"
proof -
  have wired: "calendar_wired wired_program (\<lambda>_. True) (\<lambda>_ _ _. Inr wired_aggregate)"
    by (simp add: calendar_wired_def wired_program_def)
  have others: "others_run wired_program"
    by (simp add: others_run_def wired_program_def sample_switch_program_def)
  have "switch_ok wired_db" by (simp add: switch_ok_def wired_db_def sample_switch_db_def)
  then have ok: "switch_ok (fst (snd wired_preview))"
    using switch_ok_history [OF PrepareChange_runs [OF others, unfolded runs_from_def]]
    by (metis wired_preview_def fst_conv)
  have commit: "CommitSwitch wired_program ''s1'' ''u1'' (swr_ID (the_run wired_preview)) ''k1''
      (snd wired_preview) = (Inr \<lparr>prs_SwitchRun = the_run wired_commit, prs_Replayed = False\<rparr>,
        snd wired_commit)"
    "swr_TargetSchedulingAuthority (the_run wired_commit) = TargetManleAICalendar"
    "authority_row ''s1'' (fst (snd wired_commit)) = Some (''manleai_calendar'', 4)"
    by code_simp+
  have bounds: "1 \<le> cc_SlotStepMinutes config \<and> 1 \<le> cc_BookingHorizonDays config"
    if "agg_Config wired_aggregate = Some config" for config
    using that by (auto simp: wired_aggregate_def sample_aggregate_def sample_config_def)
  obtain k where k: "snd (snd wired_preview) < k" "snd (snd wired_commit) = Suc (Suc k)"
    and stored: "list_ex (\<lambda>config. swc_SalonID config = ''s1''
        \<and> swc_Version config = agg_ConfigVersion wired_aggregate
        \<and> swc_ActivatedVersion config = Some (agg_ConfigVersion wired_aggregate))
        (swd_Configs (fst (snd wired_commit)))"
    and plans: "\<And>LoadLocation snapshot req now. snap_Aggregate snapshot = Some (wired_aggregate
          \<lparr>agg_SchedulingAuthority := SchedulingAuthorityManleAICalendar\<rparr>)
        \<Longrightarrow> planAggregateAvailability LoadLocation snapshot req now
            \<noteq> Inl ErrSchedulingAuthorityNotReady"
    using calendar_takes_over_when_it_can_plan [OF wired others ok commit(1) _ _ bounds] commit(2)
    by simp blast
  then show ?thesis
    using commit(3) plans [of "sample_snapshot\<lparr>snap_Aggregate := Some (wired_aggregate
        \<lparr>agg_SchedulingAuthority := SchedulingAuthorityManleAICalendar\<rparr>)\<rparr>"] by simp
qed

end
