(* ===== verification/Spec2Isabelle.thy ===== *)
theory Spec2Isabelle
  imports Scheduling_Samples Owner_Manual_Samples Calendar_Store_Samples Delivery_Samples
    Customer_Samples Switch_Samples
begin

text \<open>
  Verification of the scheduling core of the ManleAI receptionist backend (Go, \<open>src/backend\<close>).

  \<^bold>\<open>The program.\<close> A caller, an owner or an HTTP client asks for an appointment. The scheduling facade
  (\<open>modules/scheduling\<close>) finds out which authority holds the calendar of the salon and hands the
  request to its executor: an owner who reviews requests by hand (\<open>modules/scheduling_owner_manual\<close>),
  the internal calendar (\<open>modules/scheduling_manleai_calendar\<close>), or an external provider behind
  \<open>modules/booking\<close>. The internal calendar plans the slots it offers from its configuration, stores
  them as quotes and turns a quote into an appointment in one transaction. Owners learn of new
  requests through notifications that a worker delivers by SMS (\<open>modules/notification_delivery\<close>,
  \<open>modules/notification_twilio\<close>). Customers who consented get SMS about their appointments
  (\<open>modules/customer_notification\<close>): a reply can stop or restart them, quiet hours defer them, and a
  worker of its own delivers them from an outbox that triggers fill. An operator changes the authority
  of a salon through \<open>modules/scheduling_authority_switch\<close>: a preview with evidence that the new
  authority is ready, and a commit.

  \<^bold>\<open>Theories and sources.\<close>

    \<^item> \<open>Prelude\<close>, \<open>Go_Time\<close>: Go strings as byte strings with \<open>strings.TrimSpace\<close>, list and option
      lemmas, instants, the Gregorian calendar, \<open>time.Date\<close> and zones. A zone is the function that
      gives the offset of an instant; \<open>time.LoadLocation\<close> is a parameter.
    \<^item> \<open>Booking_Types\<close>, \<open>Scheduling_Types\<close>, \<open>Calendar_Types\<close>, \<open>Delivery_Types\<close>: the structs as records,
      the constants and the error values of \<open>booking\<close>, \<open>scheduling\<close>, \<open>scheduling_manleai_calendar\<close> and
      \<open>notification_delivery\<close>.
    \<^item> \<open>Scheduling_Service\<close>, \<open>Scheduling_System\<close>: \<open>scheduling/service.go\<close> (authority, dispatch, replay,
      conversation policy, the checks on what the provider adapter returns) and the executors as
      \<open>cmd/api/main.go\<close> wires them.
    \<^item> \<open>Owner_Manual_Service\<close>, \<open>Owner_Manual_Repository\<close>: \<open>service.go\<close>, \<open>executor.go\<close> and
      \<open>repository.go\<close> of the owner-managed authority; the state is a record of tables.
      \<open>Owner_Manual_Retention\<close>: the redaction of closed requests (\<open>redactNextSchedulingRequest\<close> of
      \<open>modules/scheduling_retention/repository.go\<close>, \<open>migrations/V61\<close>).
    \<^item> \<open>Calendar_Config\<close>: the validators of the configuration service and \<open>EvaluateReadiness\<close>.
    \<^item> \<open>Calendar_Resources\<close>, \<open>Calendar_Planner\<close>: \<open>execution_availability.go\<close>, the capacity check and the
      search for slots.
    \<^item> \<open>Calendar_Executor\<close>: \<open>executor.go\<close> and the pure checks of the execution repository.
    \<^item> \<open>Calendar_Store\<close>: the transactions \<open>CheckAvailability\<close>, \<open>CreateAppointment\<close>,
      \<open>RescheduleAppointment\<close> and \<open>CancelAppointment\<close> over the record of tables \<open>CalendarDB\<close>.
    \<^item> \<open>Delivery_Repository\<close>, \<open>Delivery_Processor\<close>: \<open>repository.go\<close>, \<open>service.go\<close> and \<open>processor.go\<close> of owner
      notifications with the claim functions of \<open>migrations/V79\<close> and \<open>V90\<close>; the Twilio sender,
      resolver and status endpoint.
    \<^item> \<open>Customer_Types\<close>, \<open>Customer_Quiet_Hours\<close>: \<open>types.go\<close> and \<open>quiet_hours.go\<close> of
      \<open>customer_notification\<close>. \<open>Customer_Tables\<close>, \<open>Customer_Consent\<close>, \<open>Customer_Delivery\<close>: the tables and
      triggers of \<open>migrations/V59\<close>, \<open>repository.go\<close> (policy and consent) and \<open>delivery_repository.go\<close>
      (outbox, claims, attempts, callbacks, requeues). \<open>Customer_Service\<close>, \<open>Customer_Processor\<close>:
      \<open>service.go\<close>, \<open>twilio.go\<close> and \<open>processor.go\<close>.
    \<^item> \<open>Switch_Types\<close>, \<open>Switch_Repository\<close>, \<open>Switch_Service\<close>: \<open>types.go\<close>, \<open>repository.go\<close> and
      \<open>service.go\<close> of \<open>scheduling_authority_switch\<close> with the constraints and triggers of
      \<open>migrations/V48\<close>, \<open>V52\<close> and \<open>V89\<close>. Each call of the store runs after transactions of others.

  \<^bold>\<open>Conventions.\<close> A struct is a record whose fields carry a short prefix, a Go error is a value of an
  error datatype in a sum (\<open>Inl\<close> the error), a nil pointer or NULL is \<open>None\<close> (the empty string or 0
  where the code reads it through \<open>COALESCE\<close>). A transaction is a function from a database to a
  result and a database; an error returns the database it started from. An SQL statement is written
  out as the list function it denotes: a query is a filter, an order and a limit, an UPDATE a map, an
  INSERT an append. Integers are those of Go's \<open>int\<close> as \<open>int\<close>: the values the code computes with are
  bounded by its own limits (attempts, minutes, party sizes, versions) and stay far from 64 bits. A
  clock time of a policy is its text \<open>HH24:MI\<close>, empty for NULL.

  \<^bold>\<open>What the lemmas show.\<close>

    \<^item> \<open>Calendar_Store_Safety\<close>: every run of the four transactions keeps the calendar free of double
      bookings (\<open>calendar_step\<close>, \<open>calendar_ok\<close>). \<open>Calendar_Store_Ledger\<close>: capacity of every committed
      plan, quotes and operation keys used once, exact cancellation. \<open>Calendar_Store_Replay\<close>: what a
      committed operation leaves in every later state, so that a booking replays at any time and a
      reused key fails with a driver error. \<open>Calendar_Store_Offer\<close>: an offer, for a booking or a
      reschedule, survives the round trip through its quote, and while nothing changes no check of the
      booking refuses it.
    \<^item> \<open>Calendar_Resources\<close>: the boundary sweep equals the capacity condition at every instant
      (locale \<open>sweep_line\<close>). \<open>Calendar_Planner\<close>: offered slots are feasible and free of conflicts, and
      the search is complete. \<open>Calendar_Config\<close>: validation against declarative conditions (locale
      \<open>weekly_schedule\<close>, used for salon and staff hours) and readiness that implies a working planner.
    \<^item> \<open>Calendar_Executor\<close>, \<open>Owner_Manual_Service\<close>: both neutral executors satisfy the contract the
      facade relies on (locale \<open>neutral_executor\<close> of \<open>Scheduling_Service\<close>, interpreted for each).
      \<open>Scheduling_Service\<close>, \<open>Scheduling_System\<close>: routing, replay and the evidence for a confirmation.
    \<^item> \<open>Owner_Manual_Repository\<close>: the ledger invariant of every run, exactly-once creation, compare and
      swap of reviews (locale \<open>request_store\<close> between service and repository).
      \<open>Owner_Manual_Retention\<close>: a closed request stays as it is but for one redaction.
    \<^item> \<open>Delivery_Effects\<close> gives one case rule per transaction; \<open>Delivery_Safety\<close> defines the step relation
      \<open>delivery_step\<close> (claims, lost leases, hand-overs, callbacks, requeues, redaction, crashes of
      workers, in any order) with a trace, and \<open>Delivery_Invariant\<close> its invariant;
      \<open>Delivery_Guarantees\<close> derives that no message that may have arrived is sent again unless the
      provider reported its failure and the owner requeued it, and that attempts are bounded;
      \<open>Delivery_Run\<close> shows that the worker pass, the status endpoint and the requeue are such runs
      and that a pass hands over what its run says (locales \<open>delivery_worker\<close> and \<open>logged_delivery\<close>,
      interpreted for the Twilio resolver without and with a log of what its sender is given).
    \<^item> \<open>Customer_Quiet_Hours\<close>: while the offset of the zone does not change, the instant a message is
      deferred to is exactly the end of its quiet interval; around a change of offset it may lie in
      the past. \<open>Customer_Safety\<close> defines the histories of the outbox (\<open>customer_step\<close>,
      \<open>customer_history\<close>), labelled with the consents that were stopped or restarted and the messages
      marked for dispatch; \<open>Customer_Guarantees\<close> derives that no message to a stopped number is
      marked for dispatch before it restarts, that a message is dispatched a bounded number of times and that each
      dispatch rests on a recorded consent; \<open>Customer_Run\<close> shows that every pass of the worker and
      every entry point of the service is such a history (locale \<open>customer_worker\<close>, interpreted for
      the processor with a log of what its senders receive), and that after a STOP neither a pass nor
      the rest of one hands over a message that was not marked before. \<open>Customer_Numbers\<close> compares the
      normalisation of telephone numbers in Go with the one in SQL, and \<open>Customer_Errors\<close> holds the
      behaviour no comment promises: a delivery deferred in its last attempt, a redelivered reply.
    \<^item> \<open>Switch_Safety\<close> defines the histories of authority switches (\<open>switch_step\<close>, \<open>switch_history\<close>),
      \<open>Switch_Guarantees\<close> derives that the authority in force is the end of the chain of committed
      runs and changes only to a target confirmed in the same transaction; \<open>Switch_Run\<close> shows that
      every operation is such a history under any interleaving (locale \<open>interleaved\<close>), that a
      repeated change replays and an interrupted one completes unless the schema refuses it; \<open>Switch_Calendar\<close> joins the switch
      with the readiness and the planner of the internal calendar.
    \<^item> The \<open>_Samples\<close> theories evaluate the model on concrete data and apply each property there.

  \<^bold>\<open>Parameters and hypotheses.\<close> Each model takes a record of parameters for what is not in the
  repository: the access predicates of the tenant policies, generated identifiers, clocks, SHA-256,
  JSON, UUID parsing, the HTTP client of Twilio, row locks another transaction holds, and a guard for
  the constraints and triggers of the schema that the model does not write out. Nothing is assumed of
  a guard: it can only refuse a commit. Where a property needs more, it says so: \<open>zones_orderly\<close>
  (of two unambiguous wall-clock minutes of a day the earlier comes first), \<open>slot_hash_exact\<close> (the
  fingerprint identifies the slot), \<open>ids_unique\<close> and \<open>keys_unique\<close> (keys of the schema),
  \<open>fresh_ids\<close> (generated identifiers are new), \<open>catalog_ok\<close> (the lists of a loaded configuration
  agree). A pass of a worker is taken as a whole in its refinement theorem; that its transactions
  interleave with those of others is the business of the histories, in which each of them is a step.
  The database session and the driver are taken to exchange times in UTC.

  \<^bold>\<open>Termination and bounds.\<close> Every definition is total: loops over rows and minutes are recursions on
  lists, and the assignment of staff is a structural search over the segments. The planner looks at
  1440 starting minutes, a claim takes at most 100 rows, a cycle has five attempts; no fuel is used.

  \<^bold>\<open>Not modelled, and why.\<close> HTTP handlers (decoding and encoding), the pure delegations of the facade
  to its history service, the superseded pair of staff-only transactions that only a test calls, the
  other retention jobs (redaction and expiry of notifications and audio), the language and voice front ends (their decisions are
  those of an external model), the point-of-sale adapters, configuration transfer, accounts and
  operations. The provider booking service behind \<open>ExternalBooking\<close> is a parameter of the facade.
  The configuration repository of the calendar and the provider booking service would come next.
\<close>

end
